(* ===== verification/Go_Prelude.thy ===== *)
theory Go_Prelude
  imports Main "HOL-Library.Word" "HOL-Library.AList"
begin

text \<open>
  Shared vocabulary of the development: the fixed-width integers of Go, big-endian byte
  access (\<^verbatim>\<open>encoding/binary\<close>), the few string routines of \<^verbatim>\<open>strings\<close> and
  \<^verbatim>\<open>strconv\<close> the adapter calls, Go maps as association lists, mutexes as flags, and the
  generic lemmas on them that the component theories use.

  A Go map that is only read and written by key is a partial function; a map the code
  ranges over is an association list with distinct keys, whose order stands for the
  iteration order, which Go leaves open.
\<close>

unbundle bit_operations_syntax

named_theorems go_simps \<open>unfolding rules of small operations\<close>
named_theorems frame_simps \<open>fields an operation leaves alone\<close>
named_theorems inv_intros \<open>operations preserve their component's invariant\<close>

subsection \<open>Integers\<close>

type_synonym u8 = "8 word"
type_synonym u16 = "16 word"
type_synonym u32 = "32 word"
type_synonym u64 = "64 word"
type_synonym bytes = "u8 list"

lemma unat_u16_lt: "unat (x :: u16) < 65536"
  using unsigned_less [of x, where ?'a = nat] by simp

lemma unat_u8_lt: "unat (x :: u8) < 256"
  using unsigned_less [of x, where ?'a = nat] by simp

lemma u16_le_iff: "(x :: u16) \<le> y \<longleftrightarrow> unat x \<le> unat y"
  by (simp add: word_le_nat_alt)

lemma u16_less_iff: "(x :: u16) < y \<longleftrightarrow> unat x < unat y"
  by (simp add: word_less_nat_alt)

subsection \<open>Big-endian access\<close>

definition be_uint16 :: "bytes \<Rightarrow> u16" where
  "be_uint16 b = push_bit 8 (ucast (b ! 0)) OR ucast (b ! 1)"

definition put_uint16 :: "u16 \<Rightarrow> bytes" where
  "put_uint16 v = [ucast (drop_bit 8 v), ucast v]"

definition be_uint32 :: "bytes \<Rightarrow> u32" where
  "be_uint32 b = push_bit 24 (ucast (b ! 0)) OR push_bit 16 (ucast (b ! 1)) OR
                 push_bit 8 (ucast (b ! 2)) OR ucast (b ! 3)"

definition put_uint32 :: "u32 \<Rightarrow> bytes" where
  "put_uint32 v = [ucast (drop_bit 24 v), ucast (drop_bit 16 v), ucast (drop_bit 8 v), ucast v]"

lemma length_put_uint16 [simp]: "length (put_uint16 v) = 2"
  by (simp add: put_uint16_def)

lemma length_put_uint32 [simp]: "length (put_uint32 v) = 4"
  by (simp add: put_uint32_def)

lemma be_put_uint16 [simp]: "be_uint16 (put_uint16 v) = v"
  by (rule bit_word_eqI) (auto simp: be_uint16_def put_uint16_def bit_simps)

lemma be_put_uint32 [simp]: "be_uint32 (put_uint32 v) = v"
proof (rule bit_word_eqI)
  fix n assume n: "n < LENGTH(32)"
  then consider "n < 8" | "8 \<le> n" "n < 16" | "16 \<le> n" "n < 24" | "24 \<le> n" "n < 32"
    by fastforce
  then show "bit (be_uint32 (put_uint32 v)) n \<longleftrightarrow> bit v n"
    by cases (auto simp: be_uint32_def put_uint32_def bit_simps)
qed

lemma put_uint32_inject [simp]: "put_uint32 v = put_uint32 w \<longleftrightarrow> v = w"
  by (metis be_put_uint32)

subsection \<open>Strings\<close>

text \<open>\<^verbatim>\<open>strings.Split\<close> with a separator of one character.\<close>

fun split_on :: "'a \<Rightarrow> 'a list \<Rightarrow> 'a list list" where
  "split_on d [] = [[]]"
| "split_on d (x # xs) =
     (if x = d then [] # split_on d xs
      else (case split_on d xs of [] \<Rightarrow> [[x]] | y # ys \<Rightarrow> (x # y) # ys))"

fun join_with :: "'a \<Rightarrow> 'a list list \<Rightarrow> 'a list" where
  "join_with d [] = []"
| "join_with d [xs] = xs"
| "join_with d (xs # ys # zss) = xs @ d # join_with d (ys # zss)"

lemma split_on_not_Nil [simp]: "split_on d xs \<noteq> []"
  by (cases xs) (auto split: list.splits)

lemma split_on_append:
  "d \<notin> set xs \<Longrightarrow> split_on d (xs @ d # ys) = xs # split_on d ys"
  by (induction xs) auto

lemma split_on_single: "d \<notin> set xs \<Longrightarrow> split_on d xs = [xs]"
  by (induction xs) auto

lemma split_join:
  "xss \<noteq> [] \<Longrightarrow> \<forall>xs \<in> set xss. d \<notin> set xs \<Longrightarrow> split_on d (join_with d xss) = xss"
  by (induction d xss rule: join_with.induct) (auto simp: split_on_append split_on_single)

definition char_code :: "char \<Rightarrow> nat" where
  "char_code c = of_char c"

definition is_digit :: "char \<Rightarrow> bool" where
  "is_digit c \<longleftrightarrow> 48 \<le> char_code c \<and> char_code c \<le> 57"

definition is_lower :: "char \<Rightarrow> bool" where
  "is_lower c \<longleftrightarrow> 97 \<le> char_code c \<and> char_code c \<le> 122"

definition is_upper :: "char \<Rightarrow> bool" where
  "is_upper c \<longleftrightarrow> 65 \<le> char_code c \<and> char_code c \<le> 90"

lemma char_code_char_of: "n < 256 \<Longrightarrow> char_code (char_of n) = n"
  by (simp add: char_code_def)

text \<open>\<^verbatim>\<open>strconv.FormatUint(n, 10)\<close> and the value of a string of digits.\<close>

fun format_dec :: "nat \<Rightarrow> string" where
  "format_dec n =
     (if n < 10 then [char_of (48 + n)]
      else format_dec (n div 10) @ [char_of (48 + n mod 10)])"

declare format_dec.simps [simp del]

definition digits_val :: "string \<Rightarrow> nat" where
  "digits_val s = foldl (\<lambda>a c. 10 * a + (char_code c - 48)) 0 s"

lemma digits_val_snoc: "digits_val (s @ [c]) = 10 * digits_val s + (char_code c - 48)"
  by (simp add: digits_val_def)

lemma digits_val_format_dec: "digits_val (format_dec n) = n"
proof (induction n rule: format_dec.induct)
  case (1 n)
  show ?case
  proof (cases "n < 10")
    case True
    then show ?thesis
      by (subst format_dec.simps) (simp add: digits_val_def char_code_char_of)
  next
    case False
    with "1.IH" show ?thesis
      by (subst format_dec.simps) (simp add: digits_val_snoc char_code_char_of)
  qed
qed

lemma format_dec_inject: "format_dec m = format_dec n \<longleftrightarrow> m = n"
  by (metis digits_val_format_dec)

text \<open>Hexadecimal digits of \<^verbatim>\<open>fmt.Sprintf("%02x")\<close>, \<^verbatim>\<open>hex.EncodeToString\<close> and
  \<^verbatim>\<open>strconv.ParseInt(s, 16, _)\<close>.\<close>

definition hex_digit :: "nat \<Rightarrow> char" where
  "hex_digit n = (if n < 10 then char_of (48 + n) else char_of (87 + n))"

definition hex_val :: "char \<Rightarrow> nat option" where
  "hex_val c =
     (if is_digit c then Some (char_code c - 48)
      else if 97 \<le> char_code c \<and> char_code c \<le> 102 then Some (char_code c - 87)
      else if 65 \<le> char_code c \<and> char_code c \<le> 70 then Some (char_code c - 55)
      else None)"

lemma hex_val_hex_digit: "n < 16 \<Longrightarrow> hex_val (hex_digit n) = Some n"
  by (auto simp: hex_val_def hex_digit_def is_digit_def char_code_char_of)

definition hex_byte :: "u8 \<Rightarrow> string" where
  "hex_byte b = [hex_digit (unat b div 16), hex_digit (unat b mod 16)]"

fun hex_string_val :: "nat \<Rightarrow> string \<Rightarrow> nat option" where
  "hex_string_val a [] = Some a"
| "hex_string_val a (c # cs) =
     (case hex_val c of None \<Rightarrow> None | Some d \<Rightarrow> hex_string_val (16 * a + d) cs)"

lemma hex_string_val_byte: "hex_string_val 0 (hex_byte b) = Some (unat b)"
proof -
  have "unat b div 16 < 16" using unat_u8_lt [of b] by simp
  then show ?thesis by (simp add: hex_byte_def hex_val_hex_digit)
qed

lemma hex_digit_range:
  "n < 16 \<Longrightarrow> is_digit (hex_digit n) \<or> (97 \<le> char_code (hex_digit n) \<and> char_code (hex_digit n) \<le> 102)"
  by (auto simp: hex_digit_def is_digit_def char_code_char_of)

lemma hex_byte_no_colon: "CHR '':'' \<notin> set (hex_byte b)"
proof -
  have lt: "unat b div 16 < 16" "unat b mod 16 < 16" using unat_u8_lt [of b] by simp_all
  have "hex_digit n \<noteq> CHR '':''" if "n < 16" for n
    using hex_digit_range [OF that] by (auto simp: is_digit_def char_code_def)
  from this [OF lt(1)] this [OF lt(2)] show ?thesis by (auto simp: hex_byte_def)
qed

subsection \<open>Association lists\<close>

abbreviation akeys :: "('k \<times> 'v) list \<Rightarrow> 'k list" where
  "akeys m \<equiv> map fst m"

lemma map_of_update [simp]: "map_of (AList.update k v m) = (map_of m)(k \<mapsto> v)"
  by (rule ext) (simp add: update_conv)

lemma map_of_delete [simp]: "map_of (AList.delete k m) = (map_of m)(k := None)"
  by (rule ext) (simp add: delete_conv)

lemma distinct_akeys_update [simp]: "distinct (akeys m) \<Longrightarrow> distinct (akeys (AList.update k v m))"
  by (rule distinct_update)

lemma distinct_akeys_delete [simp]: "distinct (akeys m) \<Longrightarrow> distinct (akeys (AList.delete k m))"
  by (rule distinct_delete)

lemma set_akeys: "set (akeys m) = dom (map_of m)"
  by (simp add: dom_map_of_conv_image_fst)

subsection \<open>Mutexes\<close>

text \<open>
  A mutex is a flag in the state of the object that owns it. Locking a held mutex blocks
  for ever in a sequential run (\<open>Deadlock\<close>); unlocking a free one is Go's fatal error
  \<^verbatim>\<open>sync: Unlock of unlocked mutex\<close>.
\<close>

datatype 'a run = Done 'a | Deadlock | Fatal string

fun bind_run :: "'a run \<Rightarrow> ('a \<Rightarrow> 'b run) \<Rightarrow> 'b run" where
  "bind_run (Done x) f = f x"
| "bind_run Deadlock f = Deadlock"
| "bind_run (Fatal e) f = Fatal e"

lemma bind_run_Done [simp]: "bind_run r Done = r"
  by (cases r) auto

lemma bind_run_assoc: "bind_run (bind_run r f) g = bind_run r (\<lambda>x. bind_run (f x) g)"
  by (cases r) auto

lemma run_case: "(case r of Done x \<Rightarrow> P x | Deadlock \<Rightarrow> False | Fatal e \<Rightarrow> False) \<longleftrightarrow> (\<exists>x. r = Done x \<and> P x)"
  by (cases r) simp_all

lemma bind_run_eq_Done: "bind_run r f = Done y \<longleftrightarrow> (\<exists>x. r = Done x \<and> f x = Done y)"
  by (cases r) auto

text \<open>What holds of the result of a run that returns.\<close>

definition ensures :: "'a run \<Rightarrow> ('a \<Rightarrow> bool) \<Rightarrow> bool" where
  "ensures r Q \<longleftrightarrow> (case r of Done x \<Rightarrow> Q x | _ \<Rightarrow> True)"

named_theorems wp_simps \<open>what has to hold before, for a result to hold after\<close>

lemma ensures_simps [wp_simps]:
  "ensures (Done x) Q \<longleftrightarrow> Q x" "ensures Deadlock Q" "ensures (Fatal e) Q"
  "ensures (bind_run r f) Q \<longleftrightarrow> ensures r (\<lambda>x. ensures (f x) Q)"
  by (auto simp: ensures_def split: run.splits)

lemma ensuresD: "ensures r Q \<Longrightarrow> r = Done x \<Longrightarrow> Q x"
  by (simp add: ensures_def)

lemma ensures_mono: "ensures r P \<Longrightarrow> (\<And>x. P x \<Longrightarrow> Q x) \<Longrightarrow> ensures r Q"
  by (auto simp: ensures_def split: run.splits)

lemma ensures_any: "ensures r (\<lambda>_. True)"
  by (simp add: ensures_def split: run.splits)

lemma ensures_if [wp_simps]:
  "ensures (if b then r else r') Q \<longleftrightarrow> (b \<longrightarrow> ensures r Q) \<and> (\<not> b \<longrightarrow> ensures r' Q)"
  by simp

lemma ensures_bind:
  "ensures r P \<Longrightarrow> (\<And>x. P x \<Longrightarrow> ensures (f x) Q) \<Longrightarrow> ensures (bind_run r f) Q"
  by (cases r) (auto simp: ensures_def)

subsection \<open>Sequences of operations\<close>

fun run_steps :: "('op \<Rightarrow> 's \<Rightarrow> 's run) \<Rightarrow> 'op list \<Rightarrow> 's \<Rightarrow> 's run" where
  "run_steps step [] s = Done s"
| "run_steps step (a # as) s = bind_run (step a s) (run_steps step as)"

lemma run_steps_append: "run_steps step (as @ bs) s = bind_run (run_steps step as s) (run_steps step bs)"
proof (induction as arbitrary: s)
  case (Cons a as)
  then show ?case by (cases "step a s") simp_all
qed simp

text \<open>A component whose operations keep an invariant, whenever they return.\<close>

locale run_invariant =
  fixes step :: "'op \<Rightarrow> 's \<Rightarrow> 's run" and admissible :: "'op \<Rightarrow> bool" and inv :: "'s \<Rightarrow> bool"
  assumes step_inv: "admissible a \<Longrightarrow> inv s \<Longrightarrow> ensures (step a s) inv"
begin

lemma steps_inv: "\<forall>a \<in> set as. admissible a \<Longrightarrow> inv s \<Longrightarrow> ensures (run_steps step as s) inv"
proof (induction as arbitrary: s)
  case (Cons a as)
  then show ?case
    using ensures_bind [OF step_inv [of a s], of "run_steps step as" inv] by simp
qed (simp add: wp_simps)

end

end
