(* ===== verification/Common_Utils.thy ===== *)
theory Common_Utils
  imports Go_Prelude
begin

text \<open>
  The package \<^verbatim>\<open>internal/pkg/common\<close> without the OMCI channel: the path and byte
  utilities and the entity-id generators of \<^verbatim>\<open>utils.go\<close>, their constants of
  \<^verbatim>\<open>defines.go\<close>, and the UNI ports of \<^verbatim>\<open>onu_uni_port.go\<close>. The lemmas show that
  generated entity ids never wrap around and never collide, that a tech-profile path
  yields its table id modulo 256, that bit strings, addresses and names are encoded
  without loss, and how often port creation is tried.
\<close>

subsection \<open>Constants of defines.go\<close>

definition tpIDStart :: u16 where "tpIDStart = 64"
definition tpIDEnd :: u16 where "tpIDEnd = 256"
definition tpRange :: u16 where "tpRange = tpIDEnd - tpIDStart"
definition maxUni :: u16 where "maxUni = 256"
definition IeeMaperServiceProfileBaseEID :: u16 where "IeeMaperServiceProfileBaseEID = 0x1001"
definition MacBridgePortAniBaseEID :: u16 where "MacBridgePortAniBaseEID = 0x1001"
definition MacBridgePortUniBaseEID :: u16 where "MacBridgePortUniBaseEID = 0x201"
definition MacBridgePortAniMcastBaseEID :: u16 where "MacBridgePortAniMcastBaseEID = 0xA01"
definition VoipUniBaseEID :: u16 where "VoipUniBaseEID = 0x2001"
definition MacBridgeServiceProfileEID :: u16 where "MacBridgeServiceProfileEID = 0x201"

lemmas eid_consts = tpIDStart_def tpIDEnd_def tpRange_def maxUni_def
  IeeMaperServiceProfileBaseEID_def MacBridgePortAniBaseEID_def MacBridgePortUniBaseEID_def
  MacBridgePortAniMcastBaseEID_def VoipUniBaseEID_def MacBridgeServiceProfileEID_def

text \<open>The device reasons and the map that names them.\<close>

datatype device_reason =
    DrUnset | DrActivatingOnu | DrStartingOpenomci | DrDiscoveryMibsyncComplete
  | DrInitialMibDownloaded | DrTechProfileConfigDownloadSuccess | DrOmciFlowsPushed
  | DrOmciAdminLock | DrOnuReenabled | DrStoppingOpenomci | DrRebooting
  | DrOmciFlowsDeleted | DrTechProfileConfigDeleteSuccess | DrReconcileFailed
  | DrReconcileMaxTimeout | DrReconcileCanceled | DrTechProfileConfigDownloadFailed

fun device_reason_code :: "device_reason \<Rightarrow> u8" where
  "device_reason_code DrUnset = 0"
| "device_reason_code DrActivatingOnu = 1"
| "device_reason_code DrStartingOpenomci = 2"
| "device_reason_code DrDiscoveryMibsyncComplete = 3"
| "device_reason_code DrInitialMibDownloaded = 4"
| "device_reason_code DrTechProfileConfigDownloadSuccess = 5"
| "device_reason_code DrOmciFlowsPushed = 6"
| "device_reason_code DrOmciAdminLock = 7"
| "device_reason_code DrOnuReenabled = 8"
| "device_reason_code DrStoppingOpenomci = 9"
| "device_reason_code DrRebooting = 10"
| "device_reason_code DrOmciFlowsDeleted = 11"
| "device_reason_code DrTechProfileConfigDeleteSuccess = 12"
| "device_reason_code DrReconcileFailed = 13"
| "device_reason_code DrReconcileMaxTimeout = 14"
| "device_reason_code DrReconcileCanceled = 15"
| "device_reason_code DrTechProfileConfigDownloadFailed = 16"

definition DeviceReasonMap :: "(u8 \<times> string) list" where
  "DeviceReasonMap =
    [(0, ''unset''), (1, ''activating-onu''), (2, ''starting-openomci''),
     (3, ''discovery-mibsync-complete''), (4, ''initial-mib-downloaded''),
     (5, ''tech-profile-config-download-success''), (16, ''tech-profile-config-download-failed''),
     (6, ''omci-flows-pushed''), (7, ''omci-admin-lock''), (8, ''onu-reenabled''),
     (9, ''stopping-openomci''), (10, ''rebooting''), (11, ''omci-flows-deleted''),
     (12, ''tech-profile-config-delete-success''), (13, ''reconcile-failed''),
     (14, ''reconcile-max-timeout''), (15, ''reconciling-canceled'')]"

subsection \<open>Tech-profile paths\<close>

datatype path_error = TpPathNotConfirming | AtoiRange

definition tech_char :: "char \<Rightarrow> bool" where
  "tech_char c \<longleftrightarrow> is_lower c \<or> is_upper c \<or> c = CHR ''-'' \<or> c = CHR ''_''"

definition olt_char :: "char \<Rightarrow> bool" where
  "olt_char c \<longleftrightarrow> is_lower c \<or> is_digit c \<or> c = CHR ''-''"

definition nonempty_class :: "(char \<Rightarrow> bool) \<Rightarrow> string \<Rightarrow> bool" where
  "nonempty_class P s \<longleftrightarrow> s \<noteq> [] \<and> list_all P s"

definition braced :: "string \<Rightarrow> (char \<Rightarrow> bool) \<Rightarrow> string \<Rightarrow> bool" where
  "braced pre P s \<longleftrightarrow>
     take (length pre) s = pre \<and>
     (let r = drop (length pre) s in
        r \<noteq> [] \<and> last r = CHR ''}'' \<and> nonempty_class P (butlast r))"

text \<open>The regular expression of the path format. No character class of it contains the
  slash, so a match is a match of each of the six parts.\<close>

definition tpPathFormat :: "string \<Rightarrow> bool" where
  "tpPathFormat s \<longleftrightarrow>
     (case split_on CHR ''/'' s of
        [a, b, c, d, e, f] \<Rightarrow>
          nonempty_class tech_char a \<and> nonempty_class is_digit b \<and>
          braced ''olt-{'' olt_char c \<and> braced ''pon-{'' is_digit d \<and>
          braced ''onu-{'' is_digit e \<and> braced ''uni-{'' is_digit f
      | _ \<Rightarrow> False)"

text \<open>\<^verbatim>\<open>strconv.Atoi\<close> on a nonempty string of digits: a value that does not fit 63 bits
  is cut to the largest one and comes with an error.\<close>

definition atoi_digits :: "string \<Rightarrow> nat \<times> path_error option" where
  "atoi_digits s =
     (let n = digits_val s in if n < 2 ^ 63 then (n, None) else (2 ^ 63 - 1, Some AtoiRange))"

definition GetTpIDFromTpPath :: "string \<Rightarrow> u8 \<times> path_error option" where
  "GetTpIDFromTpPath tpPath =
     (if \<not> tpPathFormat tpPath then (0, Some TpPathNotConfirming)
      else let (tpID, err) = atoi_digits (split_on CHR ''/'' tpPath ! 1)
           in (of_nat tpID, err))"

subsection \<open>Bytes and numbers\<close>

text \<open>A slice too short for the four bytes is an index panic (\<open>None\<close>).\<close>

definition IPToInt32 :: "bytes \<Rightarrow> u32 option" where
  "IPToInt32 ip =
     (if length ip = 16 then Some (be_uint32 (take 4 (drop 12 ip)))
      else if length ip < 4 then None else Some (be_uint32 ip))"

fun parse_bits :: "nat \<Rightarrow> string \<Rightarrow> nat option" where
  "parse_bits a [] = Some a"
| "parse_bits a (c # cs) =
     (if c = CHR ''0'' then parse_bits (2 * a) cs
      else if c = CHR ''1'' then parse_bits (2 * a + 1) cs else None)"

text \<open>\<^verbatim>\<open>AsByteSlice\<close> walks the string from its end in pieces of eight characters; a
  character that is no bit makes \<^verbatim>\<open>ParseUint\<close> fail and the function panic (\<open>None\<close>).\<close>

function AsByteSlice_loop :: "string \<Rightarrow> nat \<Rightarrow> bytes \<Rightarrow> bytes option" where
  "AsByteSlice_loop bitString i out =
     (if i = 0 then Some out
      else let str = (if i < 8 then take i bitString else take 8 (drop (i - 8) bitString))
           in case parse_bits 0 str of
                None \<Rightarrow> None
              | Some v \<Rightarrow> AsByteSlice_loop bitString (i - 8) (of_nat v # out))"
  by pat_completeness auto
termination
  by (relation "measure (\<lambda>(s, i, out). i)") auto

declare AsByteSlice_loop.simps [simp del]

definition AsByteSlice :: "string \<Rightarrow> bytes option" where
  "AsByteSlice bitString = AsByteSlice_loop bitString (length bitString) []"

text \<open>An \<^verbatim>\<open>int16\<close> is modelled by its 16-bit pattern and read with \<open>sint\<close>.\<close>

definition TwosComplementToSignedInt16 :: "u16 \<Rightarrow> u16" where
  "TwosComplementToSignedInt16 val =
     (if val AND 0x8000 = 0x8000 then (NOT val + 1) * (-1) else val)"

text \<open>\<^verbatim>\<open>me.InterfaceToOctets\<close> yields the octets; \<^verbatim>\<open>bytes.Cut\<close> keeps what precedes the first
  zero.\<close>

definition TrimStringFromMeOctet :: "('i \<Rightarrow> bytes) \<Rightarrow> 'i \<Rightarrow> bytes" where
  "TrimStringFromMeOctet interfaceToOctets input =
     takeWhile (\<lambda>b. b \<noteq> 0) (interfaceToOctets input)"

subsection \<open>Entity ids\<close>

datatype eid_error = TpIdOutOfRange u16 | UniMacBpNoOutOfRange u16

definition GenerateIeeMaperServiceProfileEID :: "u16 \<Rightarrow> u16 \<Rightarrow> eid_error + u16" where
  "GenerateIeeMaperServiceProfileEID uniPortMacBpNo tpID =
     (if tpID < tpIDStart \<or> tpIDEnd \<le> tpID then Inl (TpIdOutOfRange tpID)
      else if maxUni < uniPortMacBpNo then Inl (UniMacBpNoOutOfRange uniPortMacBpNo)
      else Inr (IeeMaperServiceProfileBaseEID + uniPortMacBpNo * tpRange + tpID - tpIDStart))"

definition GenerateANISideMBPCDEID :: "u16 \<Rightarrow> u16 \<Rightarrow> eid_error + u16" where
  "GenerateANISideMBPCDEID uniPortMacBpNo tpID =
     (if tpID < tpIDStart \<or> tpIDEnd \<le> tpID then Inl (TpIdOutOfRange tpID)
      else if maxUni < uniPortMacBpNo then Inl (UniMacBpNoOutOfRange uniPortMacBpNo)
      else Inr (MacBridgePortAniBaseEID + uniPortMacBpNo * tpRange + tpID - tpIDStart))"

definition GenerateUNISideMBPCDEID :: "u16 \<Rightarrow> eid_error + u16" where
  "GenerateUNISideMBPCDEID uniPortMacBpNo =
     (if maxUni < uniPortMacBpNo then Inl (UniMacBpNoOutOfRange uniPortMacBpNo)
      else Inr (MacBridgePortUniBaseEID + uniPortMacBpNo))"

definition GenerateMcastANISideMBPCDEID :: "u16 \<Rightarrow> eid_error + u16" where
  "GenerateMcastANISideMBPCDEID uniPortMacBpNo =
     (if maxUni < uniPortMacBpNo then Inl (UniMacBpNoOutOfRange uniPortMacBpNo)
      else Inr (MacBridgePortAniMcastBaseEID + uniPortMacBpNo))"

definition GenerateVoipUNISideMEID :: "u16 \<Rightarrow> eid_error + u16" where
  "GenerateVoipUNISideMEID uniPortMacBpNo =
     (if maxUni < uniPortMacBpNo then Inl (UniMacBpNoOutOfRange uniPortMacBpNo)
      else Inr (VoipUniBaseEID + uniPortMacBpNo))"

definition GenerateANISideMBPCDPortNo :: "u16 \<Rightarrow> eid_error + u16" where
  "GenerateANISideMBPCDPortNo tpID =
     (if tpID < tpIDStart \<or> tpIDEnd \<le> tpID then Inl (TpIdOutOfRange tpID)
      else Inr (tpID - tpIDStart))"

subsection \<open>UNI ports\<close>

datatype UniPortType = UniPPTP | UniVEIP | UniPPTPPots

fun uni_port_type_code :: "UniPortType \<Rightarrow> u8" where
  "uni_port_type_code UniPPTP = 1"
| "uni_port_type_code UniVEIP = 11"
| "uni_port_type_code UniPPTPPots = 4"

datatype AdminState =
    AdminUnknown | AdminPreprovisioned | AdminEnabled | AdminDisabled | AdminDownloadingImage
datatype OperStatus =
    OperUnknown | OperDiscovered | OperActivating | OperTesting | OperActive | OperFailed
  | OperReconciling | OperReconcilingFailed | OperRebooted

text \<open>The port handed to the core.\<close>

record VolthaPort =
  vp_PortNo :: u32
  vp_Label :: string
  vp_AdminState :: AdminState
  vp_OperStatus :: OperStatus
  vp_OfpName :: string
  vp_HwAddr :: "u32 list"
  vp_State :: u32
  vp_Capacity :: u32

record OnuUniPort =
  PPort :: "VolthaPort option"
  Name :: string
  OfpPortNo :: string
  PortNo :: u32
  up_AdminState :: AdminState
  OperState :: OperStatus
  EntityID :: u16
  Enabled :: bool
  PortType :: UniPortType
  UniID :: u8
  MacBpNo :: u8

definition NewOnuUniPort :: "u8 \<Rightarrow> u32 \<Rightarrow> u16 \<Rightarrow> UniPortType \<Rightarrow> OnuUniPort" where
  "NewOnuUniPort aUniID aPortNo aInstNo aPortType =
     (let name = ''uni-'' @ format_dec (unat aPortNo) in
      \<lparr> PPort = None, Name = name, OfpPortNo = name, PortNo = aPortNo,
        up_AdminState = AdminEnabled, OperState = OperUnknown, EntityID = aInstNo,
        Enabled = False, PortType = aPortType, UniID = aUniID, MacBpNo = aUniID + 1 \<rparr>)"

definition SetOperState :: "OperStatus \<Rightarrow> OnuUniPort \<Rightarrow> OnuUniPort" where
  "SetOperState aNewOperState oo = oo\<lparr>OperState := aNewOperState\<rparr>"

text \<open>Octets are listed from index 0.\<close>

definition genMacFromOctets :: "bytes \<Rightarrow> string" where
  "genMacFromOctets aOctets =
     join_with CHR '':'' (map hex_byte
       [aOctets ! 5, aOctets ! 4, aOctets ! 3, aOctets ! 2, aOctets ! 1, aOctets ! 0])"

text \<open>\<^verbatim>\<open>strconv.ParseInt(val, 16, 32)\<close> converted to \<^verbatim>\<open>uint32\<close>.\<close>

definition parse_int16_32 :: "string \<Rightarrow> u32 option" where
  "parse_int16_32 s =
     (let (neg, body) = (case s of [] \<Rightarrow> (False, [])
        | c # cs \<Rightarrow> if c = CHR ''-'' then (True, cs) else if c = CHR ''+'' then (False, cs)
                    else (False, s))
      in if body = [] then None
         else case hex_string_val 0 body of
                None \<Rightarrow> None
              | Some n \<Rightarrow>
                  if \<not> neg \<and> n < 2 ^ 31 then Some (of_nat n)
                  else if neg \<and> n \<le> 2 ^ 31 then Some (- of_nat n) else None)"

fun macAddress_loop :: "string list \<Rightarrow> u32 list \<Rightarrow> u32 list" where
  "macAddress_loop [] result = result"
| "macAddress_loop (val # vals) result =
     (case parse_int16_32 val of
        None \<Rightarrow> [1, 2, 3, 4, 5, 6]
      | Some tmp \<Rightarrow> macAddress_loop vals (result @ [tmp]))"

definition macAddressToUint32Array :: "string \<Rightarrow> u32 list" where
  "macAddressToUint32Array mac = macAddress_loop (split_on CHR '':'' mac) []"

definition uni_mac_octets :: "u32 \<Rightarrow> u32 \<Rightarrow> bytes" where
  "uni_mac_octets ponPortNumber portNo =
     [ucast portNo, ucast (drop_bit 8 portNo), ucast (drop_bit 16 portNo),
      ucast ponPortNumber, ucast (drop_bit 8 ponPortNumber), 0x08]"

definition uni_voltha_port :: "string \<Rightarrow> u32 \<Rightarrow> OnuUniPort \<Rightarrow> VolthaPort" where
  "uni_voltha_port serialNumber ponPortNumber oo =
     (let (name, capacity) =
        (if PortType oo = UniPPTPPots
         then (serialNumber @ ''-P-'' @ format_dec (unat (MacBpNo oo)), 2048 OR 1024)
         else (serialNumber @ ''-'' @ format_dec (unat (MacBpNo oo)), 2048 OR 32));
       hwAddr = genMacFromOctets (uni_mac_octets ponPortNumber (PortNo oo))
      in \<lparr> vp_PortNo = PortNo oo, vp_Label = Name oo, vp_AdminState = up_AdminState oo,
           vp_OperStatus = OperState oo, vp_OfpName = name,
           vp_HwAddr = macAddressToUint32Array hwAddr, vp_State = 1, vp_Capacity = capacity \<rparr>)"

text \<open>The retry loop of the port creation: \<open>create n\<close> is the error the core returns at the
  n-th attempt. The result is the final value of \<^verbatim>\<open>retryCnt\<close> and the last error.\<close>

function create_port_loop :: "(nat \<Rightarrow> 'e option) \<Rightarrow> nat \<Rightarrow> nat \<Rightarrow> 'e option \<Rightarrow> nat \<times> 'e option" where
  "create_port_loop create maxRetry retryCnt err =
     (if retryCnt < maxRetry
      then (case create retryCnt of
              Some e \<Rightarrow> create_port_loop create maxRetry (retryCnt + 1) (Some e)
            | None \<Rightarrow> (retryCnt, None))
      else (retryCnt, err))"
  by pat_completeness auto
termination
  by (relation "measure (\<lambda>(c, m, r, e). m - r)") auto

declare create_port_loop.simps [simp del]

definition CreateVolthaPort ::
    "(nat \<Rightarrow> 'e option) \<Rightarrow> string \<Rightarrow> u32 \<Rightarrow> OnuUniPort \<Rightarrow> 'e option \<times> OnuUniPort" where
  "CreateVolthaPort createPortInCore serialNumber ponPortNumber oo =
     (let pUniPort = uni_voltha_port serialNumber ponPortNumber oo;
          (retryCnt, err) = create_port_loop createPortInCore 3 0 None
      in if retryCnt = 3 then (err, oo)
         else (None, oo\<lparr>PPort := Some pUniPort, OperState := OperDiscovered\<rparr>))"

subsection \<open>Entity ids: one contract, five generators\<close>

text \<open>
  A generator maps keys to ids of an interval: the id is the interval's base plus the
  key's index, computed without wrap-around, and different accepted keys have different
  indices.
\<close>

locale eid_generator =
  fixes gen :: "'k \<Rightarrow> 'e + u16" and lo hi :: nat and idx :: "'k \<Rightarrow> nat"
  assumes gen_value: "gen k = Inr e \<Longrightarrow> unat e = lo + idx k \<and> lo + idx k < hi"
    and idx_inj: "gen k = Inr e \<Longrightarrow> gen k' = Inr e' \<Longrightarrow> idx k = idx k' \<Longrightarrow> k = k'"
begin

lemma gen_inject:
  assumes "gen k = Inr e" and "gen k' = Inr e'"
  shows "e = e' \<longleftrightarrow> k = k'"
proof
  assume "e = e'"
  with assms have "idx k = idx k'" using gen_value [of k e] gen_value [of k' e'] by simp
  with assms show "k = k'" by (rule idx_inj)
next
  assume "k = k'"
  with assms show "e = e'" by simp
qed

lemma gen_range: "gen k = Inr e \<Longrightarrow> lo \<le> unat e \<and> unat e < hi"
  using gen_value by fastforce

end

lemma ani_eid_value:
  assumes "u \<le> maxUni" "tpIDStart \<le> t" "t < tpIDEnd"
  shows "unat ((0x1001 :: u16) + u * tpRange + t - tpIDStart) = 0x1001 + unat u * 192 + (unat t - 64)"
proof -
  have u: "unat u \<le> 256" and t: "64 \<le> unat t" "unat t < 256"
    using assms by (auto simp: eid_consts u16_le_iff u16_less_iff)
  have um: "unat (u * 192) = unat u * 192"
    using u by (simp add: unat_word_ariths)
  have s: "unat ((0x1001 :: u16) + u * 192 + t) = 0x1001 + unat u * 192 + unat t"
    using u t um by (simp add: unat_word_ariths)
  have "(64 :: u16) \<le> 0x1001 + u * 192 + t"
    using s by (simp add: u16_le_iff)
  then have "unat ((0x1001 :: u16) + u * 192 + t - 64) = 0x1001 + unat u * 192 + unat t - 64"
    using unat_sub [of "64 :: u16" "0x1001 + u * 192 + t"] s by simp
  then show ?thesis using t by (simp add: eid_consts)
qed

definition ani_index :: "u16 \<times> u16 \<Rightarrow> nat" where
  "ani_index k = unat (fst k) * 192 + (unat (snd k) - 64)"

lemma ani_index_inj:
  assumes "tpIDStart \<le> t" "t < tpIDEnd" "tpIDStart \<le> t'" "t' < tpIDEnd"
    and "ani_index (u, t) = ani_index (u', t')"
  shows "u = u' \<and> t = t'"
proof -
  let ?n = "ani_index (u, t)"
  have t: "unat t - 64 < 192" "unat t' - 64 < 192" "64 \<le> unat t" "64 \<le> unat t'"
    using assms by (auto simp: eid_consts u16_le_iff u16_less_iff)
  have split: "(a * 192 + x) div 192 = a \<and> (a * 192 + x) mod 192 = x" if "x < 192" for a x :: nat
    using that by simp
  have "unat u = unat u'" "unat t - 64 = unat t' - 64"
    using split [OF t(1), of "unat u"] split [OF t(2), of "unat u'"] assms(5)
    unfolding ani_index_def fst_conv snd_conv by metis+
  with t show ?thesis by (metis eq_diff_iff word_unat_eq_iff)
qed

interpretation ani: eid_generator "\<lambda>(u, t). GenerateANISideMBPCDEID u t" "0x1001" "53441" ani_index
proof (unfold_locales, goal_cases)
  case (1 k e)
  obtain u t where k: "k = (u, t)" by fastforce
  from 1 k have c: "u \<le> maxUni" "tpIDStart \<le> t" "t < tpIDEnd"
    and e: "e = 0x1001 + u * tpRange + t - tpIDStart"
    by (auto simp: GenerateANISideMBPCDEID_def MacBridgePortAniBaseEID_def split: if_splits)
  have "unat u \<le> 256" "unat t < 256"
    using c by (auto simp: eid_consts u16_le_iff u16_less_iff)
  with ani_eid_value [OF c] show ?case by (simp add: e k ani_index_def)
next
  case (2 k e k' e')
  then show ?case
    using ani_index_inj [of "snd k" "snd k'" "fst k" "fst k'"]
    by (auto simp: GenerateANISideMBPCDEID_def split: if_splits prod.splits)
qed

interpretation ieee: eid_generator "\<lambda>(u, t). GenerateIeeMaperServiceProfileEID u t" "0x1001" "53441" ani_index
proof -
  have "(\<lambda>(u, t). GenerateIeeMaperServiceProfileEID u t) = (\<lambda>(u, t). GenerateANISideMBPCDEID u t)"
    by (auto simp: fun_eq_iff GenerateIeeMaperServiceProfileEID_def GenerateANISideMBPCDEID_def
        IeeMaperServiceProfileBaseEID_def MacBridgePortAniBaseEID_def)
  then show "eid_generator (\<lambda>(u, t). GenerateIeeMaperServiceProfileEID u t) 0x1001 53441 ani_index"
    using ani.eid_generator_axioms by simp
qed

lemma base_plus_uni_value:
  "u \<le> maxUni \<Longrightarrow> unat b \<le> 0x2001 \<Longrightarrow> unat ((b :: u16) + u) = unat b + unat u \<and> unat u \<le> 256"
  by (simp add: eid_consts u16_le_iff unat_word_ariths)

interpretation uni: eid_generator GenerateUNISideMBPCDEID "0x201" "0x302" unat
  by unfold_locales
    (auto simp: GenerateUNISideMBPCDEID_def MacBridgePortUniBaseEID_def base_plus_uni_value split: if_splits
      intro: word_unat_eq_iff [THEN iffD2] dest!: leI dest: base_plus_uni_value [of _ "0x201"])

interpretation mcast: eid_generator GenerateMcastANISideMBPCDEID "0xA01" "0xB02" unat
  by unfold_locales
    (auto simp: GenerateMcastANISideMBPCDEID_def MacBridgePortAniMcastBaseEID_def base_plus_uni_value
      split: if_splits intro: word_unat_eq_iff [THEN iffD2] dest!: leI dest: base_plus_uni_value [of _ "0xA01"])

interpretation voip: eid_generator GenerateVoipUNISideMEID "0x2001" "0x2102" unat
  by unfold_locales
    (auto simp: GenerateVoipUNISideMEID_def VoipUniBaseEID_def base_plus_uni_value
      split: if_splits intro: word_unat_eq_iff [THEN iffD2] dest!: leI dest: base_plus_uni_value [of _ "0x2001"])

text \<open>The ids of the MAC bridge port configuration data MEs never collide: two ANI-side
  ids are equal only for the same UNI and tech profile, and ANI-side, UNI-side and
  multicast ids are always different, whatever UNIs and profiles they are made for.\<close>

theorem mbpcd_eids_never_collide:
  assumes "GenerateANISideMBPCDEID u t = Inr a" and "GenerateANISideMBPCDEID u' t' = Inr a'"
    and "GenerateUNISideMBPCDEID v = Inr b" and "GenerateMcastANISideMBPCDEID w = Inr c"
  shows "(a = a' \<longleftrightarrow> u = u' \<and> t = t') \<and> a \<noteq> b \<and> a \<noteq> c \<and> b \<noteq> c"
  using assms ani.gen_inject [of "(u, t)" a "(u', t')" a'] ani.gen_range [of "(u, t)" a]
    uni.gen_range [of v b] mcast.gen_range [of w c]
  by auto

theorem mbpcd_eids_never_collide_witness:
  "GenerateANISideMBPCDEID 1 64 = Inr 0x10C1 \<and> GenerateANISideMBPCDEID 1 65 = Inr 0x10C2 \<and>
   GenerateUNISideMBPCDEID 1 = Inr 0x202 \<and> GenerateMcastANISideMBPCDEID 1 = Inr 0xA02 \<and>
   (0x10C1 :: u16) \<noteq> 0x10C2 \<and> (0x202 :: u16) \<noteq> 0xA02"
proof -
  have h: "GenerateANISideMBPCDEID 1 64 = Inr 0x10C1" "GenerateANISideMBPCDEID 1 65 = Inr 0x10C2"
    "GenerateUNISideMBPCDEID 1 = Inr 0x202" "GenerateMcastANISideMBPCDEID 1 = Inr 0xA02"
    by (simp_all add: GenerateANISideMBPCDEID_def GenerateUNISideMBPCDEID_def
        GenerateMcastANISideMBPCDEID_def eid_consts)
  from mbpcd_eids_never_collide [OF h] h show ?thesis by simp
qed

subsection \<open>Paths\<close>

definition tp_path :: "string \<Rightarrow> nat \<Rightarrow> string \<Rightarrow> nat \<Rightarrow> nat \<Rightarrow> nat \<Rightarrow> string" where
  "tp_path technology tableID olt pon onu uniNo =
     join_with CHR ''/'' [technology, format_dec tableID, ''olt-{'' @ olt @ ''}'',
       ''pon-{'' @ format_dec pon @ ''}'', ''onu-{'' @ format_dec onu @ ''}'',
       ''uni-{'' @ format_dec uniNo @ ''}'']"

lemma digits_val_less: "digits_val s < 256 ^ length s"
proof (induction s rule: rev_induct)
  case (snoc c s)
  have "char_code c < 256" using of_char_of [of "char_code c"] nat_of_char_less_256 [of c] by (simp add: char_code_def)
  with snoc show ?case by (simp add: digits_val_snoc)
qed (simp add: digits_val_def)

text \<open>Short numbers are read without comparing against the bound.\<close>

lemma atoi_digits_code [code]:
  "atoi_digits s = (let n = digits_val s in
     if length s \<le> 7 \<or> n < 2 ^ 63 then (n, None) else (2 ^ 63 - 1, Some AtoiRange))"
proof -
  have "length s \<le> 7 \<Longrightarrow> digits_val s < 2 ^ 63"
    using digits_val_less [of s] power_increasing [of "length s" 7 "256 :: nat"] by simp
  then show ?thesis by (auto simp: atoi_digits_def Let_def)
qed

lemma format_dec_digits: "nonempty_class is_digit (format_dec n)"
proof (induction n rule: format_dec.induct)
  case (1 n)
  show ?case
  proof (cases "n < 10")
    case True
    then show ?thesis
      by (subst format_dec.simps) (simp add: nonempty_class_def is_digit_def char_code_char_of)
  next
    case False
    have "is_digit (char_of (48 + n mod 10))"
      by (simp add: is_digit_def char_code_char_of less_Suc_eq_le [symmetric])
    with False "1.IH" show ?thesis
      by (subst format_dec.simps) (simp add: nonempty_class_def)
  qed
qed

lemma nonempty_class_notin: "nonempty_class P s \<Longrightarrow> \<not> P c \<Longrightarrow> c \<notin> set s"
  by (auto simp: nonempty_class_def list_all_iff)

lemma braced_intro: "nonempty_class P s \<Longrightarrow> braced pre P (pre @ s @ ''}'')"
  by (auto simp: braced_def nonempty_class_def)

lemma slash_classes:
  "\<not> is_digit CHR ''/''" "\<not> tech_char CHR ''/''" "\<not> olt_char CHR ''/''"
  by (simp_all add: is_digit_def tech_char_def olt_char_def is_lower_def is_upper_def char_code_def)

lemma split_tp_path:
  assumes "nonempty_class tech_char technology" and "nonempty_class olt_char olt"
  shows "split_on CHR ''/'' (tp_path technology tableID olt pon onu uniNo) =
     [technology, format_dec tableID, ''olt-{'' @ olt @ ''}'',
       ''pon-{'' @ format_dec pon @ ''}'', ''onu-{'' @ format_dec onu @ ''}'',
       ''uni-{'' @ format_dec uniNo @ ''}'']"
proof -
  have "CHR ''/'' \<notin> set (format_dec n)" for n
    by (rule nonempty_class_notin [OF format_dec_digits slash_classes(1)])
  moreover have "CHR ''/'' \<notin> set technology" "CHR ''/'' \<notin> set olt"
    using assms slash_classes nonempty_class_notin by blast+
  ultimately show ?thesis unfolding tp_path_def by (intro split_join) auto
qed

lemma tpPathFormat_tp_path:
  assumes "nonempty_class tech_char technology" and "nonempty_class olt_char olt"
  shows "tpPathFormat (tp_path technology tableID olt pon onu uniNo)"
  using assms braced_intro [OF format_dec_digits] braced_intro [OF assms(2)]
  by (simp add: tpPathFormat_def split_tp_path format_dec_digits del: append_Cons append_assoc)

text \<open>From a path of the documented format the adapter reads the table id, reduced to
  eight bits without an error: ids from 256 on alias smaller ones.\<close>

theorem tp_path_roundtrip:
  assumes "nonempty_class tech_char technology" and "nonempty_class olt_char olt"
    and "tableID < 2 ^ 63"
  shows "GetTpIDFromTpPath (tp_path technology tableID olt pon onu uniNo) = (of_nat tableID, None) \<and>
    unat (fst (GetTpIDFromTpPath (tp_path technology tableID olt pon onu uniNo))) = tableID mod 256"
proof -
  have "GetTpIDFromTpPath (tp_path technology tableID olt pon onu uniNo) = (of_nat tableID, None)"
    using assms by (simp add: GetTpIDFromTpPath_def tpPathFormat_tp_path split_tp_path
        atoi_digits_def digits_val_format_dec)
  then show ?thesis by (simp add: unat_of_nat)
qed

theorem tp_path_roundtrip_witness:
  "unat (fst (GetTpIDFromTpPath (tp_path ''XGS-PON'' 320 ''12345abcd'' 0 1 1))) = 64"
proof -
  have "nonempty_class tech_char ''XGS-PON''" "nonempty_class olt_char ''12345abcd''"
    by (simp_all add: nonempty_class_def tech_char_def olt_char_def is_lower_def is_upper_def
        is_digit_def char_code_def)
  from tp_path_roundtrip [OF this, of 320 0 1 1] show ?thesis by simp
qed

subsection \<open>Bit strings\<close>

definition be_val :: "bytes \<Rightarrow> nat" where
  "be_val bs = foldl (\<lambda>a b. 256 * a + unat b) 0 bs"

lemma be_val_snoc [simp]: "be_val (bs @ [b]) = 256 * be_val bs + unat b"
  by (simp add: be_val_def)

lemma parse_bits_append:
  "parse_bits a (xs @ ys) = (case parse_bits a xs of None \<Rightarrow> None | Some b \<Rightarrow> parse_bits b ys)"
  by (induction xs arbitrary: a) auto

lemma parse_bits_shift:
  "parse_bits a xs = map_option (\<lambda>v. a * 2 ^ length xs + v) (parse_bits 0 xs)"
proof (induction xs arbitrary: a)
  case (Cons c xs)
  show ?case
    by (cases "parse_bits 0 xs")
      (auto simp: Cons [of "2 * a"] Cons [of "2 * a + 1"] Cons [of "Suc 0"] Cons [of "Suc (2 * a)"])
qed simp

lemma parse_bits_bound: "parse_bits 0 xs = Some v \<Longrightarrow> v < 2 ^ length xs"
proof (induction xs arbitrary: v rule: rev_induct)
  case (snoc c xs)
  then show ?case
    by (fastforce simp: parse_bits_append split: option.splits if_splits)
qed simp

lemma parse_bits_take:
  assumes "8 \<le> i" and "i \<le> length s" and "parse_bits 0 (take i s) = Some v"
  obtains w x where "parse_bits 0 (take (i - 8) s) = Some w"
    and "parse_bits 0 (take 8 (drop (i - 8) s)) = Some x" and "x < 256" and "v = 256 * w + x"
proof -
  have tk: "take i s = take (i - 8) s @ take 8 (drop (i - 8) s)"
    using assms(1) by (metis le_add_diff_inverse2 take_add)
  have len: "length (take 8 (drop (i - 8) s)) = 8" using assms(1,2) by simp
  from assms(3) obtain w where w: "parse_bits 0 (take (i - 8) s) = Some w"
    and r: "parse_bits w (take 8 (drop (i - 8) s)) = Some v"
    unfolding tk parse_bits_append by (auto split: option.splits)
  from r obtain x where "parse_bits 0 (take 8 (drop (i - 8) s)) = Some x" "v = 256 * w + x"
    using parse_bits_shift [of w "take 8 (drop (i - 8) s)"] unfolding len by auto
  with w parse_bits_bound [of "take 8 (drop (i - 8) s)"] len that show thesis by fastforce
qed

lemma AsByteSlice_loop_correct:
  "i \<le> length s \<Longrightarrow> parse_bits 0 (take i s) = Some v \<Longrightarrow>
   \<exists>bs. AsByteSlice_loop s i out = Some (bs @ out) \<and> length bs = (i + 7) div 8 \<and> be_val bs = v"
proof (induction i arbitrary: v out rule: less_induct)
  case (less i)
  consider "i = 0" | "0 < i" "i < 8" | "8 \<le> i" by linarith
  then show ?case
  proof cases
    case 1
    with less.prems show ?thesis by (simp add: AsByteSlice_loop.simps be_val_def)
  next
    case 2
    have "v < 256"
      using parse_bits_bound [OF less.prems(2)] 2 less.prems(1)
        power_strict_increasing [of i 8 "2 :: nat"] by simp
    moreover have "(i + 7) div 8 = 1" using 2 by auto
    ultimately show ?thesis
      using 2 less.prems by (subst AsByteSlice_loop.simps)
        (simp add: AsByteSlice_loop.simps [of s 0] be_val_def unat_of_nat)
  next
    case 3
    then obtain w x where w: "parse_bits 0 (take (i - 8) s) = Some w"
      and x: "parse_bits 0 (take 8 (drop (i - 8) s)) = Some x" "x < 256" "v = 256 * w + x"
      using parse_bits_take less.prems by blast
    from 3 less.IH [of "i - 8" w "of_nat x # out"] less.prems w obtain bs
      where bs: "AsByteSlice_loop s (i - 8) (of_nat x # out) = Some (bs @ of_nat x # out)"
        "length bs = (i - 8 + 7) div 8" "be_val bs = w" by fastforce
    have "AsByteSlice_loop s i out = Some ((bs @ [of_nat x]) @ out)"
      using 3 x bs by (subst AsByteSlice_loop.simps) simp
    moreover have "length (bs @ [of_nat x :: u8]) = (i + 7) div 8" using 3 bs(2) by simp
    moreover have "be_val (bs @ [of_nat x :: u8]) = v"
      using x bs(3) by (simp add: unat_of_nat)
    ultimately show ?thesis by blast
  qed
qed

text \<open>A string of bits becomes the shortest byte string with the same big-endian value:
  one byte for every eight bits begun, and no panic.\<close>

theorem AsByteSlice_value:
  assumes "parse_bits 0 bitString = Some v"
  shows "\<exists>bs. AsByteSlice bitString = Some bs \<and> length bs = (length bitString + 7) div 8 \<and>
     be_val bs = v"
  using AsByteSlice_loop_correct [of "length bitString" bitString v "[]"] assms
  by (simp add: AsByteSlice_def)

theorem AsByteSlice_value_witness:
  "\<exists>bs. AsByteSlice ''100000001'' = Some bs \<and> length bs = 2 \<and> be_val bs = 257"
  using AsByteSlice_value [of "''100000001''" 257] by simp

subsection \<open>Hardware addresses of UNI ports\<close>

lemma split_genMac:
  "split_on CHR '':'' (genMacFromOctets os) =
     map hex_byte [os ! 5, os ! 4, os ! 3, os ! 2, os ! 1, os ! 0]"
  unfolding genMacFromOctets_def by (rule split_join) (auto simp: hex_byte_no_colon)

lemma parse_hex_byte: "parse_int16_32 (hex_byte b) = Some (ucast b)"
proof -
  have lt: "unat b div 16 < 16" using unat_u8_lt [of b] by simp
  have ne: "hex_digit n \<noteq> CHR ''-''" "hex_digit n \<noteq> CHR ''+''" if "n < 16" for n
    using hex_digit_range [OF that] by (auto simp: is_digit_def char_code_def)
  have "unat b < 2 ^ 31" using unat_u8_lt [of b] by simp
  moreover have "(of_nat (unat b) :: u32) = ucast b"
    by (simp add: unsigned_of_nat unsigned_ucast_eq of_nat_unat)
  ultimately show ?thesis
    using ne [OF lt] hex_string_val_byte [of b]
    by (simp add: parse_int16_32_def hex_byte_def)
qed

lemma macAddress_loop_bytes:
  "macAddress_loop (map hex_byte bs) result = result @ map ucast bs"
  by (induction bs arbitrary: result) (simp_all add: parse_hex_byte)

lemma mac_roundtrip:
  "macAddressToUint32Array (genMacFromOctets os) =
     map ucast [os ! 5, os ! 4, os ! 3, os ! 2, os ! 1, os ! 0]"
  by (simp add: macAddressToUint32Array_def split_genMac macAddress_loop_bytes del: list.map)

lemma low_bytes_eq_iff:
  "(ucast p :: u8) = ucast q \<and> (ucast (drop_bit 8 p) :: u8) = ucast (drop_bit 8 q) \<and>
   (ucast (drop_bit 16 p) :: u8) = ucast (drop_bit 16 q) \<longleftrightarrow>
   take_bit 24 (p :: u32) = take_bit 24 q" (is "?l \<longleftrightarrow> ?r")
proof
  assume l: ?l
  have bits: "bit p n = bit q n" if n: "n < 24" for n
  proof -
    consider "n < 8" | "8 \<le> n" "n - 8 < 8" | "16 \<le> n" "n - 16 < 8" using n by linarith
    then show ?thesis
    proof cases
      case 1
      from l have "bit (ucast p :: u8) n = bit (ucast q :: u8) n" by simp
      with 1 show ?thesis by (simp add: bit_simps)
    next
      case 2
      from l have "bit (ucast (drop_bit 8 p) :: u8) (n - 8) = bit (ucast (drop_bit 8 q) :: u8) (n - 8)"
        by simp
      with 2 show ?thesis by (simp add: bit_simps)
    next
      case 3
      from l have "bit (ucast (drop_bit 16 p) :: u8) (n - 16) = bit (ucast (drop_bit 16 q) :: u8) (n - 16)"
        by simp
      with 3 show ?thesis by (simp add: bit_simps)
    qed
  qed
  show ?r by (rule bit_word_eqI) (auto simp: bit_simps bits)
next
  assume r: ?r
  have bits: "bit p n = bit q n" if "n < 24" for n
    using arg_cong [OF r, of "\<lambda>w. bit w n"] that by (simp add: bit_simps)
  show ?l
    by (intro conjI; rule bit_word_eqI) (auto simp: bit_simps bits)
qed

text \<open>UNI ports behind the same PON port have different hardware addresses exactly when
  their port numbers differ in the low 24 bits; the address string is parsed back without
  loss.\<close>

theorem uni_hw_addr_injective:
  "vp_HwAddr (uni_voltha_port sn pon p) = vp_HwAddr (uni_voltha_port sn' pon q) \<longleftrightarrow>
   take_bit 24 (PortNo p) = take_bit 24 (PortNo q)"
proof -
  have up: "(ucast (x :: u8) :: u32) = ucast y \<longleftrightarrow> x = y" for x y
  proof
    assume "(ucast x :: u32) = ucast y"
    then have "bit (ucast x :: u32) n = bit (ucast y :: u32) n" for n by simp
    then show "x = y" by (intro bit_word_eqI) (simp add: bit_simps, fastforce)
  qed simp
  show ?thesis
    unfolding low_bytes_eq_iff [symmetric]
    by (auto simp: uni_voltha_port_def mac_roundtrip uni_mac_octets_def up Let_def nth_Cons'
        split: prod.splits)
qed

subsection \<open>Port creation\<close>

lemma create_port_loop_result:
  "r \<le> m \<Longrightarrow> create_port_loop c m r e =
     (if \<exists>n. r \<le> n \<and> n < m \<and> c n = None
      then (LEAST n. r \<le> n \<and> n < m \<and> c n = None, None)
      else (m, if r < m then c (m - 1) else e))"
proof (induction c m r e rule: create_port_loop.induct)
  case (1 c m r e)
  show ?case
  proof (cases "r < m")
    case False
    with "1.prems" show ?thesis by (subst create_port_loop.simps) auto
  next
    case lt: True
    show ?thesis
    proof (cases "c r")
      case None
      then have "(LEAST n. r \<le> n \<and> n < m \<and> c n = None) = r"
        using lt by (intro Least_equality) auto
      with None lt show ?thesis by (subst create_port_loop.simps) auto
    next
      case (Some x)
      have eq: "(r \<le> n \<and> n < m \<and> c n = None) \<longleftrightarrow> (r + 1 \<le> n \<and> n < m \<and> c n = None)" for n
        using Some by (cases "n = r") auto
      have last: "r + 1 \<noteq> m \<or> c (m - 1) = Some x" using Some by auto
      show ?thesis
        using "1.IH" [OF lt Some] lt Some last
        by (subst create_port_loop.simps) (auto simp: eq)
    qed
  qed
qed

text \<open>Creating a port asks the core at most three times. It succeeds, stores the port and
  makes it discovered, exactly when one of the three attempts succeeds; otherwise the port
  is unchanged and the error of the third attempt is returned.\<close>

theorem CreateVolthaPort_result:
  "CreateVolthaPort create sn pon oo =
     (if \<exists>n<3. create n = None
      then (None, oo\<lparr>PPort := Some (uni_voltha_port sn pon oo), OperState := OperDiscovered\<rparr>)
      else (create 2, oo))"
proof (cases "\<exists>n<3. create n = None")
  case True
  let ?k = "LEAST n. 0 \<le> n \<and> n < 3 \<and> create n = None"
  from True have ex: "\<exists>n. 0 \<le> n \<and> n < 3 \<and> create n = None" by simp
  then have "?k < 3" using LeastI_ex [OF ex] by simp
  with True ex create_port_loop_result [of 0 3 create None] show ?thesis
    by (simp add: CreateVolthaPort_def)
next
  case False
  then have "create_port_loop create 3 0 None = (3, create 2)"
    using create_port_loop_result [of 0 3 create None] by auto
  with False show ?thesis by (auto simp: CreateVolthaPort_def)
qed

lemma NewOnuUniPort_MacBpNo: "MacBpNo (NewOnuUniPort uid pno inst ty) = 0 \<longleftrightarrow> uid = 255"
  by (auto simp: NewOnuUniPort_def Let_def eq_neg_iff_add_eq_0 [symmetric])

lemma TwosComplement_id: "TwosComplementToSignedInt16 v = v"
  by (simp add: TwosComplementToSignedInt16_def not_eq_complement)

end
