(* ===== verification/Dev_Db.thy ===== *)
theory Dev_Db
  imports Go_Prelude "HOL-Library.Multiset"
begin

text \<open>
  The managed-entity data base of \<^verbatim>\<open>internal/pkg/devdb/onu_device_db.go\<close>. A device data
  base holds its own table and a pointer to a table shared by all ONUs of the same MIB
  template; the pointer is an address of a store, so that the effect of one device's
  operations on the others is visible. A dereferenced nil pointer and a write to a nil map
  are panics (\<open>Fatal\<close>). Every lock of the file is released on every path of the method that
  takes it, so locks carry no state here.

  The lemmas show what a lookup returns after each write, that the two tables obey one
  contract (locale \<open>me_table\<close>), that keys are listed in order and counted right, and that the
  first report of an unknown entity is the one that stays.
\<close>

subsection \<open>Data\<close>

text \<open>An attribute value is an interface; of a \<^verbatim>\<open>float64\<close> the model keeps the integer its
  truncation gives, the only part the code reads; \<open>AvOther\<close> is a value of any other type.\<close>

datatype attr_value =
    AvNil | AvFloat64 int | AvUint8 u8 | AvUint16 u16 | AvUint32 u32 | AvUint64 u64
  | AvInt int | AvBytes bytes | AvString string | AvOther

type_synonym AttributeValueMap = "(string \<times> attr_value) list option"
type_synonym MeInstMap = "(u16 \<times> AttributeValueMap) list"
type_synonym MeDbMap = "(u16 \<times> MeInstMap) list"

record unknownAttribs =
  AttribMask :: string
  AttribBytes :: string

type_synonym UnknownMeAndAttribDbMap =
  "(string \<times> (u16 \<times> (u16 \<times> unknownAttribs) list) list) list"

datatype MIBUploadStatus = NotStarted | InProgress | Failed | Completed

record OnuCmnMEDB =
  MeDb :: "MeDbMap option"
  UnknownMeAndAttribDb :: UnknownMeAndAttribDbMap
  cm_MIBUploadStatus :: MIBUploadStatus

type_synonym cmn_store = "nat \<rightharpoonup> OnuCmnMEDB"

record OnuDeviceDB =
  db_deviceID :: string
  CommonMeDb :: "nat option"
  OnuSpecificMeDb :: MeDbMap

definition OnuDataClassID :: u16 where "OnuDataClassID = 2"

definition NewOnuCmnMEDB :: OnuCmnMEDB where
  "NewOnuCmnMEDB =
     \<lparr> MeDb = Some [], UnknownMeAndAttribDb = [], cm_MIBUploadStatus = NotStarted \<rparr>"

definition NewOnuDeviceDB :: "string \<Rightarrow> OnuDeviceDB" where
  "NewOnuDeviceDB aDeviceID =
     \<lparr> db_deviceID = aDeviceID, CommonMeDb = None, OnuSpecificMeDb = [] \<rparr>"

subsection \<open>Nested maps\<close>

text \<open>Go's \<open>m[k1][k2]\<close>: a missing inner map reads as empty.\<close>

definition nested_get :: "('a \<times> ('b \<times> 'v) list) list \<Rightarrow> 'a \<Rightarrow> 'b \<Rightarrow> 'v option" where
  "nested_get m c e = (case map_of m c of None \<Rightarrow> None | Some i \<Rightarrow> map_of i e)"

definition nested_set :: "'a \<Rightarrow> 'b \<Rightarrow> 'v \<Rightarrow> ('a \<times> ('b \<times> 'v) list) list \<Rightarrow> ('a \<times> ('b \<times> 'v) list) list" where
  "nested_set c e v m =
     AList.update c (AList.update e v (case map_of m c of None \<Rightarrow> [] | Some i \<Rightarrow> i)) m"

definition nested_delete :: "'a \<Rightarrow> 'b \<Rightarrow> ('a \<times> ('b \<times> 'v) list) list \<Rightarrow> ('a \<times> ('b \<times> 'v) list) list" where
  "nested_delete c e m =
     (case map_of m c of None \<Rightarrow> m | Some i \<Rightarrow> AList.update c (AList.delete e i) m)"

definition inner_keys :: "('a \<times> ('b \<times> 'v) list) list \<Rightarrow> 'a \<Rightarrow> 'b list" where
  "inner_keys m c = (case map_of m c of None \<Rightarrow> [] | Some i \<Rightarrow> akeys i)"

definition range_assign :: "('k \<times> 'v) list \<Rightarrow> ('k \<times> 'v) list \<Rightarrow> ('k \<times> 'v) list" where
  "range_assign new old = fold (\<lambda>(k, v) m. AList.update k v m) new old"

definition map_or_empty :: "('k \<times> 'v) list option \<Rightarrow> ('k \<times> 'v) list" where
  "map_or_empty m = (case m of None \<Rightarrow> [] | Some l \<Rightarrow> l)"

subsection \<open>Operations\<close>

text \<open>\<^verbatim>\<open>for k, v := range meAttributes { meAttribs[k] = v }\<close>: the first write to a nil map
  panics.\<close>

definition merge_attribs :: "AttributeValueMap \<Rightarrow> AttributeValueMap \<Rightarrow> AttributeValueMap run" where
  "merge_attribs meAttribs meAttributes =
     (case meAttribs of
        None \<Rightarrow> (if map_or_empty meAttributes = [] then Done None
                 else Fatal ''assignment to entry in nil map'')
      | Some old \<Rightarrow> Done (Some (range_assign (map_or_empty meAttributes) old)))"

definition put_common :: "u16 \<Rightarrow> u16 \<Rightarrow> AttributeValueMap \<Rightarrow> MeDbMap \<Rightarrow> MeDbMap run" where
  "put_common meClassID meEntityID meAttributes meDb =
     (if meClassID = OnuDataClassID then Done meDb
      else case map_of meDb meClassID of
        None \<Rightarrow> Done (AList.update meClassID [(meEntityID, meAttributes)] meDb)
      | Some insts \<Rightarrow>
          (case map_of insts meEntityID of
             None \<Rightarrow> Done (nested_set meClassID meEntityID meAttributes meDb)
           | Some meAttribs \<Rightarrow>
               bind_run (merge_attribs meAttribs meAttributes)
                 (\<lambda>a. Done (nested_set meClassID meEntityID a meDb))))"

definition PutMe ::
    "OnuDeviceDB \<Rightarrow> u16 \<Rightarrow> u16 \<Rightarrow> AttributeValueMap \<Rightarrow> cmn_store \<Rightarrow> cmn_store run" where
  "PutMe db meClassID meEntityID meAttributes h =
     (if meClassID = OnuDataClassID then Done h
      else case CommonMeDb db of
        None \<Rightarrow> Done h
      | Some p \<Rightarrow>
          (case h p of
             None \<Rightarrow> Fatal ''invalid memory address or nil pointer dereference''
           | Some cm \<Rightarrow>
               (case MeDb cm of
                  None \<Rightarrow> Done h
                | Some meDb \<Rightarrow>
                    bind_run (put_common meClassID meEntityID meAttributes meDb)
                      (\<lambda>meDb'. Done (h(p \<mapsto> cm\<lparr>MeDb := Some meDb'\<rparr>))))))"

text \<open>The dereference \<^verbatim>\<open>OnuDeviceDB.CommonMeDb.\<close>\<open>_\<close> of the other methods.\<close>

definition deref_common :: "OnuDeviceDB \<Rightarrow> cmn_store \<Rightarrow> (nat \<times> OnuCmnMEDB) run" where
  "deref_common db h =
     (case CommonMeDb db of
        None \<Rightarrow> Fatal ''invalid memory address or nil pointer dereference''
      | Some p \<Rightarrow>
          (case h p of
             None \<Rightarrow> Fatal ''invalid memory address or nil pointer dereference''
           | Some cm \<Rightarrow> Done (p, cm)))"

text \<open>\<^verbatim>\<open>GetMe\<close> returns nil (\<open>None\<close>) both for a missing instance and for one stored with a nil
  map.\<close>

definition GetMe :: "OnuDeviceDB \<Rightarrow> u16 \<Rightarrow> u16 \<Rightarrow> cmn_store \<Rightarrow> AttributeValueMap run" where
  "GetMe db meClassID meEntityID h =
     bind_run (deref_common db h) (\<lambda>(p, cm).
       case nested_get (map_or_empty (MeDb cm)) meClassID meEntityID of
         Some meAttributes \<Rightarrow> Done meAttributes
       | None \<Rightarrow>
           (case nested_get (OnuSpecificMeDb db) meClassID meEntityID of
              Some meAttributes \<Rightarrow> Done meAttributes
            | None \<Rightarrow> Done None))"

text \<open>A conversion of a number outside the range of the target type is left open by the
  language and comes as the argument \<open>conv\<close>.\<close>

definition GetUint32Attrib :: "(int \<Rightarrow> u32) \<Rightarrow> attr_value \<Rightarrow> (string + u32) run" where
  "GetUint32Attrib conv meAttribute =
     (case meAttribute of
        AvNil \<Rightarrow> Fatal ''invalid memory address or nil pointer dereference''
      | AvFloat64 f \<Rightarrow> Done (Inr (if 0 \<le> f \<and> f < 2 ^ 32 then of_int f else conv f))
      | AvUint32 v \<Rightarrow> Done (Inr v)
      | _ \<Rightarrow> Done (Inl ''wrong-interface-type''))"

definition GetUint16Attrib :: "(int \<Rightarrow> u16) \<Rightarrow> attr_value \<Rightarrow> (string + u16) run" where
  "GetUint16Attrib conv meAttribute =
     (case meAttribute of
        AvNil \<Rightarrow> Fatal ''invalid memory address or nil pointer dereference''
      | AvFloat64 f \<Rightarrow> Done (Inr (if 0 \<le> f \<and> f < 2 ^ 16 then of_int f else conv f))
      | AvUint16 v \<Rightarrow> Done (Inr v)
      | _ \<Rightarrow> Done (Inl ''wrong-interface-type''))"

definition GetSortedInstKeys :: "OnuDeviceDB \<Rightarrow> u16 \<Rightarrow> cmn_store \<Rightarrow> u16 list run" where
  "GetSortedInstKeys db meClassID h =
     bind_run (deref_common db h) (\<lambda>(p, cm).
       let meInstKeys = inner_keys (map_or_empty (MeDb cm)) meClassID;
           meInstKeys = meInstKeys @ inner_keys (OnuSpecificMeDb db) meClassID
       in Done (sort meInstKeys))"

definition GetNumberOfInst :: "OnuDeviceDB \<Rightarrow> u16 \<Rightarrow> cmn_store \<Rightarrow> nat run" where
  "GetNumberOfInst db meClassID h =
     bind_run (deref_common db h) (\<lambda>(p, cm).
       let count = (case map_of (map_or_empty (MeDb cm)) meClassID of
                      Some meClassMap \<Rightarrow> length meClassMap | None \<Rightarrow> 0);
           count = (case map_of (OnuSpecificMeDb db) meClassID of
                      Some onuSpecificMap \<Rightarrow> count + length onuSpecificMap | None \<Rightarrow> count)
       in Done count)"

definition unknown_attribs :: "u16 \<Rightarrow> bytes \<Rightarrow> unknownAttribs" where
  "unknown_attribs aMeAttributeMask aMePayload =
     \<lparr> AttribMask = ''0x'' @ concat (map hex_byte (put_uint16 aMeAttributeMask)),
       AttribBytes = concat (map hex_byte aMePayload) \<rparr>"

definition put_unknown ::
    "string \<Rightarrow> u16 \<Rightarrow> u16 \<Rightarrow> unknownAttribs \<Rightarrow> UnknownMeAndAttribDbMap \<Rightarrow> UnknownMeAndAttribDbMap" where
  "put_unknown aMeName aMeClassID aMeEntityID attribs unknownMeDb =
     (case map_of unknownMeDb aMeName of
        None \<Rightarrow> AList.update aMeName [(aMeClassID, [(aMeEntityID, attribs)])] unknownMeDb
      | Some classes \<Rightarrow>
          (case map_of classes aMeClassID of
             None \<Rightarrow> AList.update aMeName
                       (AList.update aMeClassID [(aMeEntityID, attribs)] classes) unknownMeDb
           | Some insts \<Rightarrow>
               (case map_of insts aMeEntityID of
                  None \<Rightarrow> AList.update aMeName
                            (AList.update aMeClassID
                              (AList.update aMeEntityID attribs insts) classes) unknownMeDb
                | Some a \<Rightarrow> unknownMeDb)))"

definition PutUnknownMeOrAttrib ::
    "OnuDeviceDB \<Rightarrow> string \<Rightarrow> u16 \<Rightarrow> u16 \<Rightarrow> u16 \<Rightarrow> bytes \<Rightarrow> cmn_store \<Rightarrow> cmn_store run" where
  "PutUnknownMeOrAttrib db aMeName aMeClassID aMeEntityID aMeAttributeMask aMePayload h =
     bind_run (deref_common db h) (\<lambda>(p, cm).
       Done (h(p \<mapsto> cm\<lparr>UnknownMeAndAttribDb :=
         put_unknown aMeName aMeClassID aMeEntityID
           (unknown_attribs aMeAttributeMask aMePayload) (UnknownMeAndAttribDb cm)\<rparr>)))"

definition DeleteMe ::
    "u16 \<Rightarrow> u16 \<Rightarrow> OnuDeviceDB \<times> cmn_store \<Rightarrow> (OnuDeviceDB \<times> cmn_store) run" where
  "DeleteMe meClassID meEntityID s =
     (let (db, h) = s in
      bind_run (deref_common db h) (\<lambda>(p, cm).
        let cm' = cm\<lparr>MeDb := map_option (nested_delete meClassID meEntityID) (MeDb cm)\<rparr>;
            db' = db\<lparr>OnuSpecificMeDb := nested_delete meClassID meEntityID (OnuSpecificMeDb db)\<rparr>
        in Done (db', h(p \<mapsto> cm'))))"

definition put_specific :: "u16 \<Rightarrow> u16 \<Rightarrow> AttributeValueMap \<Rightarrow> MeDbMap \<Rightarrow> MeDbMap run" where
  "put_specific meClassID meEntityID meAttributes meDb =
     (if meClassID = OnuDataClassID then Done meDb
      else case map_of meDb meClassID of
        None \<Rightarrow> Done (AList.update meClassID [(meEntityID, meAttributes)] meDb)
      | Some insts \<Rightarrow>
          (case map_of insts meEntityID of
             None \<Rightarrow> Done (nested_set meClassID meEntityID meAttributes meDb)
           | Some None \<Rightarrow> Done (nested_set meClassID meEntityID meAttributes meDb)
           | Some (Some meAttribs) \<Rightarrow>
               bind_run (merge_attribs (Some meAttribs) meAttributes)
                 (\<lambda>a. Done (nested_set meClassID meEntityID a meDb))))"

definition PutOnuSpeficMe ::
    "u16 \<Rightarrow> u16 \<Rightarrow> AttributeValueMap \<Rightarrow> OnuDeviceDB \<Rightarrow> OnuDeviceDB run" where
  "PutOnuSpeficMe meClassID meEntityID meAttributes db =
     bind_run (put_specific meClassID meEntityID meAttributes (OnuSpecificMeDb db))
       (\<lambda>m. Done (db\<lparr>OnuSpecificMeDb := m\<rparr>))"


subsection \<open>Lemmas on nested maps\<close>

lemma nested_get_set [simp]:
  "nested_get (nested_set c e v m) c' e' =
     (if c' = c \<and> e' = e then Some v else nested_get m c' e')"
  by (auto simp: nested_get_def nested_set_def split: option.splits)

lemma nested_get_delete [simp]:
  "nested_get (nested_delete c e m) c' e' =
     (if c' = c \<and> e' = e then None else nested_get m c' e')"
  by (auto simp: nested_get_def nested_delete_def split: option.splits)

lemma nested_get_new_class:
  "map_of m c = None \<Longrightarrow>
   nested_get (AList.update c [(e, v)] m) c' e' =
     (if c' = c \<and> e' = e then Some v else nested_get m c' e')"
  by (auto simp: nested_get_def split: option.splits)

lemma set_inner_keys: "e \<in> set (inner_keys m c) \<longleftrightarrow> nested_get m c e \<noteq> None"
proof (cases "map_of m c")
  case (Some i)
  then show ?thesis
    using set_akeys [of i] by (auto simp: inner_keys_def nested_get_def)
qed (simp add: inner_keys_def nested_get_def)

lemma map_of_range_assign:
  "distinct (akeys new) \<Longrightarrow> map_of (range_assign new old) = map_of old ++ map_of new"
proof (induction new arbitrary: old)
  case (Cons p new)
  obtain k v where p: "p = (k, v)" by fastforce
  have "k \<notin> dom (map_of new)" using Cons.prems p by (simp add: set_akeys [symmetric])
  moreover have "map_of (range_assign new (AList.update k v old)) =
      (map_of old)(k \<mapsto> v) ++ map_of new"
    using Cons p by simp
  ultimately show ?case
    by (auto simp: p range_assign_def fun_eq_iff map_add_def split: option.splits)
qed (simp add: range_assign_def)

subsection \<open>The contract of a table of managed entities\<close>

text \<open>
  A table is read by class and instance and written by a put that combines the stored
  value with the new one; some classes are not kept. Both tables of the data base keep
  this contract, with different rules for a stored nil map.
\<close>

locale me_table =
  fixes get :: "'d \<Rightarrow> 'c \<Rightarrow> 'i \<Rightarrow> 'a option"
    and put :: "'c \<Rightarrow> 'i \<Rightarrow> 'a \<Rightarrow> 'd \<Rightarrow> 'd run"
    and delete :: "'c \<Rightarrow> 'i \<Rightarrow> 'd \<Rightarrow> 'd"
    and kept :: "'c \<Rightarrow> bool"
    and combine :: "'a option \<Rightarrow> 'a \<Rightarrow> 'a run"
  assumes put_dropped: "\<not> kept c \<Longrightarrow> put c i a d = Done d"
    and put_runs: "kept c \<Longrightarrow> combine (get d c i) a = Done b \<Longrightarrow>
          \<exists>d'. put c i a d = Done d' \<and>
               (\<forall>c' i'. get d' c' i' = (if c' = c \<and> i' = i then Some b else get d c' i'))"
    and put_fails: "kept c \<Longrightarrow> combine (get d c i) a = Fatal e \<Longrightarrow> put c i a d = Fatal e"
    and combine_decided: "combine o1 a \<noteq> Deadlock"
    and combine_fresh: "combine None a = Done a"
    and get_delete: "get (delete c i d) c' i' = (if c' = c \<and> i' = i then None else get d c' i')"
begin

fun put_all :: "('c \<times> 'i \<times> 'a) list \<Rightarrow> 'd \<Rightarrow> 'd run" where
  "put_all [] d = Done d"
| "put_all ((c, i, a) # rs) d = bind_run (put c i a d) (put_all rs)"

lemma put_get:
  assumes "put c i a d = Done d'"
  shows "if kept c then \<exists>b. combine (get d c i) a = Done b \<and>
           (\<forall>c' i'. get d' c' i' = (if c' = c \<and> i' = i then Some b else get d c' i'))
         else d' = d"
proof (cases "kept c")
  case True
  show ?thesis
  proof (cases "combine (get d c i) a")
    case (Done b)
    with True assms put_runs [OF True Done] show ?thesis by auto
  next
    case Deadlock
    then show ?thesis using combine_decided by blast
  next
    case (Fatal e)
    with True assms put_fails [OF True Fatal] show ?thesis by simp
  qed
next
  case False
  with assms put_dropped show ?thesis by fastforce
qed

lemma put_other: "put c i a d = Done d' \<Longrightarrow> (c', i') \<noteq> (c, i) \<Longrightarrow> get d' c' i' = get d c' i'"
  using put_get [of c i a d d'] by (auto split: if_splits)

lemma put_delete: "put c i a d = Done d' \<Longrightarrow> get (delete c i d') c i = None"
  by (simp add: get_delete)

lemma put_fresh_runs: "get d c i = None \<Longrightarrow> \<exists>d'. put c i a d = Done d'"
  using put_runs [of c d i a a] put_dropped [of c i a d] combine_fresh by (cases "kept c") auto

lemma put_all_get:
  assumes "distinct (map (\<lambda>(c, i, a). (c, i)) rs)" and "\<forall>(c, i, a) \<in> set rs. get d c i = None"
  shows "\<exists>d'. put_all rs d = Done d' \<and>
    (\<forall>c i. get d' c i =
       (case map_of (map (\<lambda>(c, i, a). ((c, i), a)) rs) (c, i) of
          Some a \<Rightarrow> (if kept c then Some a else get d c i) | None \<Rightarrow> get d c i))"
  using assms
proof (induction rs arbitrary: d)
  case (Cons r rs)
  obtain c i a where r: "r = (c, i, a)" by (cases r)
  obtain d1 where d1: "put c i a d = Done d1"
    using put_fresh_runs [of d c i a] Cons.prems r by auto
  have g1: "get d1 c' i' = (if kept c \<and> c' = c \<and> i' = i then Some a else get d c' i')" for c' i'
    using put_get [OF d1] Cons.prems r combine_fresh by (auto split: if_splits)
  have new: "(c, i) \<notin> set (map (\<lambda>(c, i, a). (c, i)) rs)" using Cons.prems r by simp
  then have none: "map_of (map (\<lambda>(c, i, a). ((c, i), a)) rs) (c, i) = None"
    by (auto simp: map_of_eq_None_iff image_image split_def)
  have "\<forall>(c, i, a) \<in> set rs. get d1 c i = None"
    using Cons.prems new r g1 by (force simp: image_iff)
  with Cons.IH [of d1] Cons.prems r obtain d' where d': "put_all rs d1 = Done d'"
    and g: "\<And>c i. get d' c i =
       (case map_of (map (\<lambda>(c, i, a). ((c, i), a)) rs) (c, i) of
          Some a \<Rightarrow> (if kept c then Some a else get d1 c i) | None \<Rightarrow> get d1 c i)"
    by auto
  have "get d' c' i' =
       (case map_of (map (\<lambda>(c, i, a). ((c, i), a)) (r # rs)) (c', i') of
          Some a \<Rightarrow> (if kept c' then Some a else get d c' i') | None \<Rightarrow> get d c' i')" for c' i'
    using none by (auto simp: g g1 r split: option.splits)
  with d' d1 r show ?case by auto
qed simp

end

subsection \<open>The two tables keep the contract\<close>

definition kept_class :: "u16 \<Rightarrow> bool" where
  "kept_class c \<longleftrightarrow> c \<noteq> OnuDataClassID"

definition combine_common :: "AttributeValueMap option \<Rightarrow> AttributeValueMap \<Rightarrow> AttributeValueMap run" where
  "combine_common stored a = (case stored of None \<Rightarrow> Done a | Some m \<Rightarrow> merge_attribs m a)"

definition combine_specific :: "AttributeValueMap option \<Rightarrow> AttributeValueMap \<Rightarrow> AttributeValueMap run" where
  "combine_specific stored a =
     (case stored of Some (Some m) \<Rightarrow> merge_attribs (Some m) a | _ \<Rightarrow> Done a)"

lemma merge_attribs_decided: "merge_attribs m a \<noteq> Deadlock"
  by (simp add: merge_attribs_def split: option.split)

interpretation cmt: me_table nested_get put_common nested_delete kept_class combine_common
proof (unfold_locales, goal_cases)
  case (2 c d i a b)
  then show ?case
    by (auto simp: put_common_def kept_class_def combine_common_def nested_get_new_class
        nested_get_def [of d] bind_run_eq_Done split: option.splits)
next
  case (3 c d i a e)
  then show ?case
    by (auto simp: put_common_def kept_class_def combine_common_def nested_get_def split: option.splits)
next
  case (4 o1 a)
  then show ?case by (auto simp: combine_common_def merge_attribs_decided split: option.splits)
qed (auto simp: put_common_def kept_class_def combine_common_def)

interpretation spt: me_table nested_get put_specific nested_delete kept_class combine_specific
proof (unfold_locales, goal_cases)
  case (2 c d i a b)
  then show ?case
    by (auto simp: put_specific_def kept_class_def combine_specific_def nested_get_new_class
        nested_get_def [of d] bind_run_eq_Done split: option.splits)
next
  case (3 c d i a e)
  then show ?case
    by (auto simp: put_specific_def kept_class_def combine_specific_def nested_get_def split: option.splits)
next
  case (4 o1 a)
  then show ?case by (auto simp: combine_specific_def merge_attribs_decided split: option.splits)
qed (auto simp: put_specific_def kept_class_def combine_specific_def)

subsection \<open>Properties of the data base\<close>

lemma PutMe_common:
  assumes "CommonMeDb db = Some p" "h p = Some cm" "MeDb cm = Some m"
  shows "PutMe db c e a h =
    bind_run (put_common c e a m) (\<lambda>m'. Done (h(p \<mapsto> cm\<lparr>MeDb := Some m'\<rparr>)))"
proof (cases "c = OnuDataClassID")
  case True
  moreover have "cm\<lparr>MeDb := Some m\<rparr> = cm" using assms(3) by simp
  ultimately show ?thesis using assms by (simp add: PutMe_def put_common_def fun_upd_idem)
qed (simp add: PutMe_def assms)

lemma GetMe_shared:
  assumes "CommonMeDb db = Some p" "h p = Some cm"
  shows "GetMe db c e h =
    (case nested_get (map_or_empty (MeDb cm)) c e of
       Some a \<Rightarrow> Done a
     | None \<Rightarrow> Done (case nested_get (OnuSpecificMeDb db) c e of Some a \<Rightarrow> a | None \<Rightarrow> None))"
  using assms by (simp add: GetMe_def deref_common_def split: option.splits)

text \<open>Storing an instance merges its attributes over those already stored, for every ONU
  that shares the MIB template of the writing one, and changes no other instance.\<close>

theorem PutMe_then_GetMe:
  assumes "CommonMeDb db = Some p" "CommonMeDb db2 = Some p" "h p = Some cm" "MeDb cm = Some m"
    and "c \<noteq> OnuDataClassID" "distinct (akeys a)"
    and "PutMe db c e (Some a) h = Done h'"
  shows "(\<exists>b. GetMe db2 c e h' = Done (Some b) \<and>
            map_of b = (case nested_get m c e of
                          Some (Some old) \<Rightarrow> map_of old ++ map_of a | _ \<Rightarrow> map_of a) \<or>
            a = [] \<and> nested_get m c e = Some None \<and> GetMe db2 c e h' = Done None) \<and>
         (\<forall>c' e'. (c', e') \<noteq> (c, e) \<longrightarrow> GetMe db2 c' e' h' = GetMe db2 c' e' h)"
proof -
  obtain m' where m': "put_common c e (Some a) m = Done m'"
    and h': "h' = h(p \<mapsto> cm\<lparr>MeDb := Some m'\<rparr>)"
    using assms(7) by (auto simp: PutMe_common [of db p h cm m, OF assms(1,3,4)] bind_run_eq_Done)
  obtain b where b: "combine_common (nested_get m c e) (Some a) = Done b"
    and g: "\<And>c' e'. nested_get m' c' e' = (if c' = c \<and> e' = e then Some b else nested_get m c' e')"
    using cmt.put_get [OF m'] assms(5) by (auto simp: kept_class_def)
  have get': "GetMe db2 c' e' h' = (if c' = c \<and> e' = e then Done b else GetMe db2 c' e' h)" for c' e'
    using assms(2-4) GetMe_shared [of db2 p h' "cm\<lparr>MeDb := Some m'\<rparr>"] GetMe_shared [of db2 p h cm]
    by (auto simp: h' g map_or_empty_def)
  have "b = None \<and> a = [] \<and> nested_get m c e = Some None \<or>
    (\<exists>x. b = Some x \<and> map_of x = (case nested_get m c e of
       Some (Some old) \<Rightarrow> map_of old ++ map_of a | _ \<Rightarrow> map_of a))"
    using b assms(6)
    by (auto simp: combine_common_def merge_attribs_def map_or_empty_def map_of_range_assign
        split: option.splits if_splits)
  then show ?thesis using get' by auto
qed

theorem PutMe_then_GetMe_witness:
  "let cm = NewOnuCmnMEDB; h = [0 \<mapsto> cm];
       d1 = (NewOnuDeviceDB ''a'')\<lparr>CommonMeDb := Some 0\<rparr>;
       d2 = (NewOnuDeviceDB ''b'')\<lparr>CommonMeDb := Some 0\<rparr>
   in \<exists>h'. PutMe d1 7 0 (Some [(''IsActive'', AvUint8 1)]) h = Done h' \<and>
           (\<exists>b. GetMe d2 7 0 h' = Done (Some b) \<and> map_of b = [''IsActive'' \<mapsto> AvUint8 1])"
proof -
  let ?d1 = "(NewOnuDeviceDB ''a'')\<lparr>CommonMeDb := Some 0\<rparr>"
  let ?d2 = "(NewOnuDeviceDB ''b'')\<lparr>CommonMeDb := Some 0\<rparr>"
  let ?h' = "[0 \<mapsto> NewOnuCmnMEDB\<lparr>MeDb := Some [(7, [(0, Some [(''IsActive'', AvUint8 1)])])]\<rparr>]"
  have p: "PutMe ?d1 7 0 (Some [(''IsActive'', AvUint8 1)]) [0 \<mapsto> NewOnuCmnMEDB] = Done ?h'"
    by (simp add: PutMe_def put_common_def OnuDataClassID_def NewOnuCmnMEDB_def)
  have "(\<exists>b. GetMe ?d2 7 0 ?h' = Done (Some b) \<and> map_of b = [''IsActive'' \<mapsto> AvUint8 1])"
    using PutMe_then_GetMe [of ?d1 0 ?d2 "[0 \<mapsto> NewOnuCmnMEDB]" NewOnuCmnMEDB "[]" 7
        "[(''IsActive'', AvUint8 1)]" 0, OF _ _ _ _ _ _ p]
    by (simp add: NewOnuCmnMEDB_def OnuDataClassID_def nested_get_def)
  with p show ?thesis by (auto simp: Let_def)
qed

fun PutMe_all :: "OnuDeviceDB \<Rightarrow> (u16 \<times> u16 \<times> AttributeValueMap) list \<Rightarrow> cmn_store \<Rightarrow> cmn_store run" where
  "PutMe_all db [] h = Done h"
| "PutMe_all db ((c, e, a) # rs) h = bind_run (PutMe db c e a h) (PutMe_all db rs)"

lemma PutMe_all_common:
  assumes "CommonMeDb db = Some p" "h p = Some cm" "MeDb cm = Some m"
  shows "PutMe_all db rs h =
    bind_run (cmt.put_all rs m) (\<lambda>m'. Done (h(p \<mapsto> cm\<lparr>MeDb := Some m'\<rparr>)))"
  using assms
proof (induction rs arbitrary: h m cm)
  case Nil
  then have "cm\<lparr>MeDb := Some m\<rparr> = cm" by simp
  with Nil(2) have "h(p \<mapsto> cm\<lparr>MeDb := Some m\<rparr>) = h" by (simp only: fun_upd_idem)
  then show ?case by (simp only: PutMe_all.simps cmt.put_all.simps bind_run.simps)
next
  case (Cons r rs)
  obtain c e a where r: "r = (c, e, a)" by (cases r)
  show ?case
    by (cases "put_common c e a m") (simp_all add: r PutMe_common [of db p h cm m, OF Cons.prems] Cons.IH Cons.prems(1) cong: if_cong)
qed

text \<open>The order in which the instances of a MIB upload are stored does not matter: both
  orders succeed and every ONU of the template reads the same afterwards.\<close>

theorem mib_upload_order_irrelevant:
  assumes "CommonMeDb db = Some p" "CommonMeDb db2 = Some p" "h p = Some cm" "MeDb cm = Some m"
    and "distinct (map (\<lambda>(c, e, a). (c, e)) rs)" "\<forall>(c, e, a) \<in> set rs. nested_get m c e = None"
    and "mset rs = mset rs'"
  shows "\<exists>h1 h2. PutMe_all db rs h = Done h1 \<and> PutMe_all db rs' h = Done h2 \<and>
           (\<forall>c e. GetMe db2 c e h1 = GetMe db2 c e h2)"
proof -
  let ?key = "\<lambda>(c, e, a). ((c, e), a)"
  have set: "set rs = set rs'" using assms(7) by (metis set_mset_mset)
  have ds: "distinct (map (\<lambda>(c, e, a). (c, e)) rs')"
    using assms(5) mset_eq_imp_distinct_iff [of "map (\<lambda>(c, e, a). (c, e)) rs"] assms(7) by fastforce
  have keys: "map fst (map ?key xs) = map (\<lambda>(c, e, a). (c, e)) xs" for xs
    by (simp add: split_def)
  have maps: "map_of (map ?key rs) = map_of (map ?key rs')"
    using assms(5) ds set by (intro map_of_inject_set [THEN iffD2]) (simp_all only: keys set_map)
  obtain m1 where m1: "cmt.put_all rs m = Done m1"
    and g1: "\<And>c e. nested_get m1 c e = (case map_of (map ?key rs) (c, e) of
       Some a \<Rightarrow> (if kept_class c then Some a else nested_get m c e) | None \<Rightarrow> nested_get m c e)"
    using cmt.put_all_get [OF assms(5,6)] by blast
  obtain m2 where m2: "cmt.put_all rs' m = Done m2"
    and g2: "\<And>c e. nested_get m2 c e = (case map_of (map ?key rs') (c, e) of
       Some a \<Rightarrow> (if kept_class c then Some a else nested_get m c e) | None \<Rightarrow> nested_get m c e)"
    using cmt.put_all_get [of rs' m] ds assms(6) set by auto
  have "GetMe db2 c e (h(p \<mapsto> cm\<lparr>MeDb := Some m1\<rparr>)) = GetMe db2 c e (h(p \<mapsto> cm\<lparr>MeDb := Some m2\<rparr>))" for c e
    using assms(2) by (simp add: GetMe_def deref_common_def map_or_empty_def g1 g2 maps)
  with m1 m2 show ?thesis
    by (simp add: PutMe_all_common [of db p h cm m, OF assms(1,3,4)])
qed

theorem mib_upload_order_irrelevant_witness:
  "let h = [0 \<mapsto> NewOnuCmnMEDB]; d = (NewOnuDeviceDB ''a'')\<lparr>CommonMeDb := Some 0\<rparr>;
       a = (7, 0, Some []); b = (256, 0, Some [])
   in \<exists>h1 h2. PutMe_all d [a, b] h = Done h1 \<and> PutMe_all d [b, a] h = Done h2 \<and>
        (\<forall>c e. GetMe d c e h1 = GetMe d c e h2)"
  using mib_upload_order_irrelevant [of "(NewOnuDeviceDB ''a'')\<lparr>CommonMeDb := Some 0\<rparr>" 0
      "(NewOnuDeviceDB ''a'')\<lparr>CommonMeDb := Some 0\<rparr>" "[0 \<mapsto> NewOnuCmnMEDB]" NewOnuCmnMEDB "[]"
      "[(7, 0, Some []), (256, 0, Some [])]" "[(256, 0, Some []), (7, 0, Some [])]"]
  by (simp add: NewOnuCmnMEDB_def nested_get_def Let_def)

text \<open>Deleting an instance through one ONU removes it for every ONU of the same template:
  another one reads afterwards only what its own table has. All other instances stay.\<close>

theorem DeleteMe_is_global:
  assumes "CommonMeDb db = Some p" "CommonMeDb db2 = Some p" "h p = Some cm"
    and "DeleteMe c e (db, h) = Done (db', h')"
  shows "GetMe db' c e h' = Done None \<and>
         GetMe db2 c e h' =
           Done (case nested_get (OnuSpecificMeDb db2) c e of Some a \<Rightarrow> a | None \<Rightarrow> None) \<and>
         (\<forall>c' e'. (c', e') \<noteq> (c, e) \<longrightarrow>
            GetMe db' c' e' h' = GetMe db c' e' h \<and> GetMe db2 c' e' h' = GetMe db2 c' e' h)"
proof -
  have eq: "db' = db\<lparr>OnuSpecificMeDb := nested_delete c e (OnuSpecificMeDb db)\<rparr>"
    "h' = h(p \<mapsto> cm\<lparr>MeDb := map_option (nested_delete c e) (MeDb cm)\<rparr>)"
    using assms by (auto simp: DeleteMe_def deref_common_def Let_def)
  have g: "nested_get (map_or_empty (map_option (nested_delete c e) m)) c' e' =
     (if c' = c \<and> e' = e then None else nested_get (map_or_empty m) c' e')" for m c' e'
    by (cases m) (simp_all add: map_or_empty_def nested_get_def [of "[]"])
  show ?thesis
    using assms(1-3) by (auto simp: GetMe_def deref_common_def eq g split: option.splits)
qed

theorem DeleteMe_is_global_witness:
  "let h = [0 \<mapsto> NewOnuCmnMEDB\<lparr>MeDb := Some [(7, [(0, Some [])])]\<rparr>];
       d = (NewOnuDeviceDB ''a'')\<lparr>CommonMeDb := Some 0\<rparr>
   in \<exists>d' h'. DeleteMe 7 0 (d, h) = Done (d', h') \<and> GetMe d 7 0 h' = Done None"
proof -
  let ?cm = "NewOnuCmnMEDB\<lparr>MeDb := Some [(7, [(0, Some [])])]\<rparr>"
  let ?d = "(NewOnuDeviceDB ''a'')\<lparr>CommonMeDb := Some 0\<rparr>"
  have run: "DeleteMe 7 0 (?d, [0 \<mapsto> ?cm]) =
      Done (?d, [0 \<mapsto> ?cm\<lparr>MeDb := Some [(7, [])]\<rparr>])"
    by (simp add: DeleteMe_def deref_common_def NewOnuDeviceDB_def nested_delete_def Let_def)
  from DeleteMe_is_global [of ?d 0 ?d "[0 \<mapsto> ?cm]" ?cm, OF _ _ _ run] run show ?thesis
    by (simp add: Let_def NewOnuDeviceDB_def nested_get_def)
qed

definition wf_medb :: "MeDbMap \<Rightarrow> bool" where
  "wf_medb m \<longleftrightarrow> distinct (akeys m) \<and> (\<forall>(c, i) \<in> set m. distinct (akeys i))"

lemma wf_medb_inner: "wf_medb m \<Longrightarrow> distinct (inner_keys m c)"
  by (auto simp: wf_medb_def inner_keys_def dest: map_of_SomeD split: option.splits)

lemma wf_medb_alt:
  "wf_medb m \<longleftrightarrow> distinct (akeys m) \<and> (\<forall>c i. map_of m c = Some i \<longrightarrow> distinct (akeys i))"
  by (auto simp: wf_medb_def)

lemma wf_medb_update:
  "wf_medb m \<Longrightarrow> distinct (akeys i) \<Longrightarrow> wf_medb (AList.update c i m)"
  by (simp add: wf_medb_alt)

lemma wf_medb_set: "wf_medb m \<Longrightarrow> wf_medb (nested_set c e v m)"
  unfolding nested_set_def
  by (rule wf_medb_update) (auto simp: wf_medb_alt split: option.splits)

lemma wf_medb_put_common [inv_intros]:
  "wf_medb m \<Longrightarrow> put_common c e a m = Done m' \<Longrightarrow> wf_medb m'"
  by (auto simp: put_common_def bind_run_eq_Done wf_medb_set wf_medb_update
      split: if_splits option.splits)

lemma wf_medb_put_specific [inv_intros]:
  "wf_medb m \<Longrightarrow> put_specific c e a m = Done m' \<Longrightarrow> wf_medb m'"
  by (auto simp: put_specific_def bind_run_eq_Done wf_medb_set wf_medb_update
      split: if_splits option.splits)

lemma wf_medb_delete [inv_intros]: "wf_medb m \<Longrightarrow> wf_medb (nested_delete c e m)"
  by (cases "map_of m c")
    (auto simp: nested_delete_def intro!: wf_medb_update, simp add: wf_medb_alt)

text \<open>The keys of a class are listed in ascending order, each stored instance is
  listed, their number is what \<^verbatim>\<open>GetNumberOfInst\<close> reports, and an instance is listed twice
  exactly when it is in both tables.\<close>

theorem GetSortedInstKeys_correct:
  assumes "CommonMeDb db = Some p" "h p = Some cm"
    and "wf_medb (map_or_empty (MeDb cm))" "wf_medb (OnuSpecificMeDb db)"
  shows "\<exists>ks. GetSortedInstKeys db c h = Done ks \<and> sorted ks \<and>
     GetNumberOfInst db c h = Done (length ks) \<and>
     (\<forall>e. count (mset ks) e =
        (if nested_get (map_or_empty (MeDb cm)) c e \<noteq> None then 1 else 0) +
        (if nested_get (OnuSpecificMeDb db) c e \<noteq> None then 1 else 0))"
proof -
  let ?k1 = "inner_keys (map_or_empty (MeDb cm)) c" and ?k2 = "inner_keys (OnuSpecificMeDb db) c"
  have "count (mset (sort (?k1 @ ?k2))) e =
        (if nested_get (map_or_empty (MeDb cm)) c e \<noteq> None then 1 else 0) +
        (if nested_get (OnuSpecificMeDb db) c e \<noteq> None then 1 else 0)" for e
    using wf_medb_inner [OF assms(3), of c] wf_medb_inner [OF assms(4), of c]
    by (simp add: distinct_count_atmost_1 set_inner_keys)
  moreover have "GetNumberOfInst db c h = Done (length ?k1 + length ?k2)"
    using assms(1,2)
    by (simp add: GetNumberOfInst_def deref_common_def inner_keys_def Let_def split: option.splits)
  ultimately show ?thesis
    using assms(1,2) by (simp add: GetSortedInstKeys_def deref_common_def Let_def)
qed

theorem GetSortedInstKeys_correct_witness:
  "let cm = NewOnuCmnMEDB\<lparr>MeDb := Some [(11, [(3, Some []), (1, Some [])])]\<rparr>; h = [0 \<mapsto> cm];
       d = (NewOnuDeviceDB ''a'')\<lparr>CommonMeDb := Some 0, OnuSpecificMeDb := [(11, [(3, Some [])])]\<rparr>
   in \<exists>ks. GetSortedInstKeys d 11 h = Done ks \<and> sorted ks \<and> count (mset ks) 3 = 2 \<and>
        GetNumberOfInst d 11 h = Done (length ks)"
proof -
  let ?cm = "NewOnuCmnMEDB\<lparr>MeDb := Some [(11, [(3, Some []), (1, Some [])])]\<rparr>"
  let ?d = "(NewOnuDeviceDB ''a'')\<lparr>CommonMeDb := Some 0, OnuSpecificMeDb := [(11, [(3, Some [])])]\<rparr>"
  show ?thesis
    using GetSortedInstKeys_correct [of ?d 0 "[0 \<mapsto> ?cm]" ?cm 11]
    by (auto simp: wf_medb_def map_or_empty_def nested_get_def Let_def)
qed

definition unknown_get :: "UnknownMeAndAttribDbMap \<Rightarrow> string \<Rightarrow> u16 \<Rightarrow> u16 \<Rightarrow> unknownAttribs option" where
  "unknown_get m n c e = (case map_of m n of None \<Rightarrow> None | Some k \<Rightarrow> nested_get k c e)"

text \<open>The first report of an unknown entity or attribute stays: a later report of the
  same name, class and instance changes nothing, and one of another key does not disturb
  it.\<close>

theorem unknown_first_report_stays:
  "unknown_get (put_unknown n c e a m) n' c' e' =
     (if (n', c', e') = (n, c, e) \<and> unknown_get m n c e = None then Some a
      else unknown_get m n' c' e')"
  by (auto simp: unknown_get_def put_unknown_def nested_get_def split: option.splits)

end
