(* ===== verification/Omci_CC.thy ===== *)
theory Omci_CC
  imports Go_Prelude "HOL-Library.Multiset"
begin

text \<open>
  The transmit side of the OMCI communication channel,
  \<^verbatim>\<open>internal/pkg/common/omci_cc.go\<close>: the channel's state, the transaction identifiers, the
  two transmit queues, the supervised sending with retries and the statistics.

  The state record has the fields of \<^verbatim>\<open>OmciCC\<close>. Two of its mutexes are kept as flags,
  because some paths of the code leave them locked: \<^verbatim>\<open>mutexRxSchedMap\<close> and
  \<^verbatim>\<open>mutexLowPrioTxQueue\<close>; all others are released on every path of the method that takes
  them. What leaves the channel (frames to the OLT, events, messages to the state machines)
  is appended to the field \<open>cc_out\<close>; \<open>txAttempts\<close> counts the calls of the transport.

  The outside is an argument: the transport's answer to each call, whether the device
  context is closed at that moment, and the high-priority requests other goroutines queue
  while a low-priority one is sent. A goroutine started by the code runs where it is
  started.
\<close>

subsection \<open>Types\<close>

definition cOmciDeviceIdentifierPos :: nat where "cOmciDeviceIdentifierPos = 3"
definition cOmciBaseMessageTrailerLen :: nat where "cOmciBaseMessageTrailerLen = 40"
definition BaselineIdent :: u8 where "BaselineIdent = 0x0A"
definition ExtendedIdent :: u8 where "ExtendedIdent = 0x0B"
definition CDefaultRetries :: int where "CDefaultRetries = 2"

datatype tOmciReceiveError =
    cOmciMessageReceiveNoError | cOmciMessageReceiveErrorTrailerLen
  | cOmciMessageReceiveErrorMissTrailer

text \<open>Channels and functions are named by numbers; a nil function is \<open>None\<close>.\<close>

record CallbackPairEntry =
  CbRespChannel :: nat
  CbFunction :: "nat option"
  FramePrint :: bool

record CallbackPair =
  CbEntry :: CallbackPairEntry
  CbKey :: u16

record OmciTransferStructure =
  chSuccess :: nat
  OnuSwWindow :: "bytes list option"
  cbPair :: CallbackPair
  txFrame :: bytes
  ots_timeout :: int
  ots_retries :: int
  highPrio :: bool
  withFramePrint :: bool

record txRxCounters =
  txArFrames :: u32
  txNoArFrames :: u32
  rxAkFrames :: u32
  rxNoAkFrames :: u32

record IdeviceHandler =
  deletionInProgress :: bool
  oltAvailable :: bool

datatype effect =
    TxFrame bytes
  | TxWindow "bytes list"
  | DeviceEvent string string
  | TimeoutToFsm nat
  | SuccessSignal nat bool
  | RunCallback nat u16
  | AlarmToManager u16
  | MibDataSyncIncremented
  | MessageToFsm nat u16

record OmciCC =
  pBaseDeviceHandler :: "IdeviceHandler option"
  pOnuDeviceEntry :: bool
  pOnuAlarmManager :: bool
  lowPrioTxQueue :: "OmciTransferStructure list"
  highPrioTxQueue :: "OmciTransferStructure list"
  rxSchedulerMap :: "u16 \<rightharpoonup> CallbackPairEntry"
  monitoredRequests :: "(u16 \<times> OmciTransferStructure) list"
  cc_deviceID :: string
  confFailMEs :: "u16 list"
  countersBase :: txRxCounters
  countersExt :: txRxCounters
  mutexLowPrioTxQueue :: bool
  mutexRxSchedMap :: bool
  txRetries :: u32
  txTimeouts :: u32
  tid :: u16
  hpTid :: u16
  UploadSequNo :: u16
  UploadNoOfCmds :: u16
  cc_enabled :: bool
  supportExtMsg :: bool
  rxOmciFrameError :: tOmciReceiveError
  nextChan :: nat
  txAttempts :: nat
  cc_out :: "effect list"

record tx_env =
  te_send :: "nat \<Rightarrow> string option"
  te_done :: "nat \<Rightarrow> bool"
  te_high :: "nat \<Rightarrow> OmciTransferStructure list"

definition zero_counters :: txRxCounters where
  "zero_counters = \<lparr> txArFrames = 0, txNoArFrames = 0, rxAkFrames = 0, rxNoAkFrames = 0 \<rparr>"

definition NewOmciCC :: "string \<Rightarrow> IdeviceHandler option \<Rightarrow> bool \<Rightarrow> bool \<Rightarrow> OmciCC" where
  "NewOmciCC deviceID deviceHandler onuDeviceEntry onuAlarmManager =
     \<lparr> pBaseDeviceHandler = deviceHandler, pOnuDeviceEntry = onuDeviceEntry,
       pOnuAlarmManager = onuAlarmManager, lowPrioTxQueue = [], highPrioTxQueue = [],
       rxSchedulerMap = Map.empty, monitoredRequests = [], cc_deviceID = deviceID,
       confFailMEs = [], countersBase = zero_counters, countersExt = zero_counters,
       mutexLowPrioTxQueue = False, mutexRxSchedMap = False, txRetries = 0, txTimeouts = 0,
       tid = 1, hpTid = 0x8000, UploadSequNo = 0, UploadNoOfCmds = 0, cc_enabled = False,
       supportExtMsg = False, rxOmciFrameError = cOmciMessageReceiveNoError,
       nextChan = 0, txAttempts = 0, cc_out = [] \<rparr>"

subsection \<open>Locks and output\<close>

definition lockLow :: "OmciCC \<Rightarrow> OmciCC run" where
  "lockLow oo = (if mutexLowPrioTxQueue oo then Deadlock else Done (oo\<lparr>mutexLowPrioTxQueue := True\<rparr>))"

definition unlockLow :: "OmciCC \<Rightarrow> OmciCC run" where
  "unlockLow oo =
     (if mutexLowPrioTxQueue oo then Done (oo\<lparr>mutexLowPrioTxQueue := False\<rparr>)
      else Fatal ''sync: unlock of unlocked mutex'')"

definition lockRxSched :: "OmciCC \<Rightarrow> OmciCC run" where
  "lockRxSched oo = (if mutexRxSchedMap oo then Deadlock else Done (oo\<lparr>mutexRxSchedMap := True\<rparr>))"

definition unlockRxSched :: "OmciCC \<Rightarrow> OmciCC run" where
  "unlockRxSched oo =
     (if mutexRxSchedMap oo then Done (oo\<lparr>mutexRxSchedMap := False\<rparr>)
      else Fatal ''sync: unlock of unlocked mutex'')"

definition emit :: "effect \<Rightarrow> OmciCC \<Rightarrow> OmciCC" where
  "emit e oo = oo\<lparr>cc_out := cc_out oo @ [e]\<rparr>"

text \<open>A write of the scheduler map between \<^verbatim>\<open>Lock\<close> and \<^verbatim>\<open>Unlock\<close>.\<close>

definition setRxSched :: "u16 \<Rightarrow> CallbackPairEntry option \<Rightarrow> OmciCC \<Rightarrow> OmciCC run" where
  "setRxSched k v oo =
     bind_run (lockRxSched oo)
       (\<lambda>oo. unlockRxSched (oo\<lparr>rxSchedulerMap := (rxSchedulerMap oo)(k := v)\<rparr>))"

definition pushLow :: "OmciTransferStructure \<Rightarrow> OmciCC \<Rightarrow> OmciCC run" where
  "pushLow r oo =
     bind_run (lockLow oo) (\<lambda>oo. unlockLow (oo\<lparr>lowPrioTxQueue := lowPrioTxQueue oo @ [r]\<rparr>))"

definition pushHigh :: "OmciTransferStructure \<Rightarrow> OmciCC \<Rightarrow> OmciCC run" where
  "pushHigh r oo = Done (oo\<lparr>highPrioTxQueue := highPrioTxQueue oo @ [r]\<rparr>)"

subsection \<open>Counters\<close>

definition incrementBaseTxArFrames :: "OmciCC \<Rightarrow> OmciCC" where
  "incrementBaseTxArFrames oo =
     oo\<lparr>countersBase := (countersBase oo)\<lparr>txArFrames := txArFrames (countersBase oo) + 1\<rparr>\<rparr>"

definition incrementExtTxArFrames :: "OmciCC \<Rightarrow> OmciCC" where
  "incrementExtTxArFrames oo =
     oo\<lparr>countersExt := (countersExt oo)\<lparr>txArFrames := txArFrames (countersExt oo) + 1\<rparr>\<rparr>"

definition incrementBaseRxAkFrames :: "OmciCC \<Rightarrow> OmciCC" where
  "incrementBaseRxAkFrames oo =
     oo\<lparr>countersBase := (countersBase oo)\<lparr>rxAkFrames := rxAkFrames (countersBase oo) + 1\<rparr>\<rparr>"

definition incrementExtRxAkFrames :: "OmciCC \<Rightarrow> OmciCC" where
  "incrementExtRxAkFrames oo =
     oo\<lparr>countersExt := (countersExt oo)\<lparr>rxAkFrames := rxAkFrames (countersExt oo) + 1\<rparr>\<rparr>"

definition increaseBaseTxNoArFramesBy :: "u32 \<Rightarrow> OmciCC \<Rightarrow> OmciCC" where
  "increaseBaseTxNoArFramesBy v oo =
     oo\<lparr>countersBase := (countersBase oo)\<lparr>txNoArFrames := txNoArFrames (countersBase oo) + v\<rparr>\<rparr>"

definition increaseExtTxNoArFramesBy :: "u32 \<Rightarrow> OmciCC \<Rightarrow> OmciCC" where
  "increaseExtTxNoArFramesBy v oo =
     oo\<lparr>countersExt := (countersExt oo)\<lparr>txNoArFrames := txNoArFrames (countersExt oo) + v\<rparr>\<rparr>"

definition incrementBaseRxNoAkFrames :: "OmciCC \<Rightarrow> OmciCC" where
  "incrementBaseRxNoAkFrames oo =
     oo\<lparr>countersBase := (countersBase oo)\<lparr>rxNoAkFrames := rxNoAkFrames (countersBase oo) + 1\<rparr>\<rparr>"

definition incrementExtRxNoAkFrames :: "OmciCC \<Rightarrow> OmciCC" where
  "incrementExtRxNoAkFrames oo =
     oo\<lparr>countersExt := (countersExt oo)\<lparr>rxNoAkFrames := rxNoAkFrames (countersExt oo) + 1\<rparr>\<rparr>"

definition incrementTxRetries :: "OmciCC \<Rightarrow> OmciCC" where
  "incrementTxRetries oo = oo\<lparr>txRetries := txRetries oo + 1\<rparr>"

definition incrementTxTimesouts :: "OmciCC \<Rightarrow> OmciCC" where
  "incrementTxTimesouts oo = oo\<lparr>txTimeouts := txTimeouts oo + 1\<rparr>"

record OnuOmciStats =
  BaseTxArFrames :: u32
  BaseTxNoArFrames :: u32
  BaseRxAkFrames :: u32
  BaseRxNoAkFrames :: u32
  ExtTxArFrames :: u32
  ExtTxNoArFrames :: u32
  ExtRxAkFrames :: u32
  ExtRxNoAkFrames :: u32
  TxOmciCounterRetries :: u32
  TxOmciCounterTimeouts :: u32

definition GetOmciCounters :: "OmciCC \<Rightarrow> OnuOmciStats" where
  "GetOmciCounters oo =
     \<lparr> BaseTxArFrames = txArFrames (countersBase oo),
       BaseTxNoArFrames = txNoArFrames (countersBase oo),
       BaseRxAkFrames = rxAkFrames (countersBase oo),
       BaseRxNoAkFrames = rxNoAkFrames (countersBase oo),
       ExtTxArFrames = txArFrames (countersExt oo),
       ExtTxNoArFrames = txNoArFrames (countersExt oo),
       ExtRxAkFrames = rxAkFrames (countersExt oo),
       ExtRxNoAkFrames = rxNoAkFrames (countersExt oo),
       TxOmciCounterRetries = txRetries oo,
       TxOmciCounterTimeouts = txTimeouts oo \<rparr>"

subsection \<open>Transaction identifiers\<close>

definition GetNextTid :: "bool \<Rightarrow> OmciCC \<Rightarrow> u16 \<times> OmciCC" where
  "GetNextTid highPriority oo =
     (if highPriority then
        let next = hpTid oo; t = hpTid oo + 1
        in (next, oo\<lparr>hpTid := if t < 0x8000 then 0x8000 else t\<rparr>)
      else
        let next = tid oo; t = tid oo + 1
        in (next, oo\<lparr>tid := if t \<ge> 0x8000 then 1 else t\<rparr>))"

definition GetOnuSwSecNextTid :: "OmciCC \<Rightarrow> u16 \<times> OmciCC" where
  "GetOnuSwSecNextTid oo =
     (let t = (if tid oo \<ge> 0x8000 then 1 else tid oo) in (t, oo\<lparr>tid := t + 1\<rparr>))"

definition GetOnuSwSecLastTid :: "OmciCC \<Rightarrow> u16" where
  "GetOnuSwSecLastTid oo = tid oo - 1"

subsection \<open>Sending the queued requests\<close>

definition sendOMCIRequest ::
    "tx_env \<Rightarrow> OmciTransferStructure \<Rightarrow> OmciCC \<Rightarrow> (string option \<times> OmciCC) run" where
  "sendOMCIRequest env omciTxRequest oo =
     (let n = txAttempts oo; oo = oo\<lparr>txAttempts := n + 1\<rparr> in
      case te_send env n of
        Some sendErr \<Rightarrow> Done (Some sendErr, oo)
      | None \<Rightarrow>
          let oo = emit (TxFrame (txFrame omciTxRequest)) oo in
          if length (txFrame omciTxRequest) \<le> cOmciDeviceIdentifierPos
          then Fatal ''index out of range''
          else if txFrame omciTxRequest ! cOmciDeviceIdentifierPos = BaselineIdent
          then Done (None, incrementBaseTxArFrames oo)
          else Done (None, incrementExtTxArFrames oo))"

definition sendOnuSwSectionsOfWindow ::
    "tx_env \<Rightarrow> OmciTransferStructure \<Rightarrow> OmciCC \<Rightarrow> (string option \<times> OmciCC) run" where
  "sendOnuSwSectionsOfWindow env omciTxRequest oo =
     (case OnuSwWindow omciTxRequest of
        None \<Rightarrow> Done (Some ''invalid sw window received'', oo)
      | Some messages \<Rightarrow>
          if messages = [] then Fatal ''index out of range''
          else
            let lastSection = last messages; n = txAttempts oo; oo = oo\<lparr>txAttempts := n + 1\<rparr> in
            (case te_send env n of
               Some sendErr \<Rightarrow> Done (Some sendErr, oo)
             | None \<Rightarrow>
                 let oo = emit (TxWindow messages) oo;
                     numberOfNoArSections = length messages - 1 in
                 if length lastSection \<le> cOmciDeviceIdentifierPos then Fatal ''index out of range''
                 else if lastSection ! cOmciDeviceIdentifierPos = BaselineIdent
                 then Done (None, incrementBaseTxArFrames
                              (increaseBaseTxNoArFramesBy (of_nat numberOfNoArSections) oo))
                 else Done (None, incrementExtTxArFrames
                              (increaseExtTxNoArFramesBy (of_nat numberOfNoArSections) oo))))"

text \<open>The queue is locked for the whole loop, so the loop runs over the elements it found.\<close>

fun high_loop :: "tx_env \<Rightarrow> OmciTransferStructure list \<Rightarrow> OmciCC \<Rightarrow> (string option \<times> OmciCC) run" where
  "high_loop env [] oo = Done (None, oo)"
| "high_loop env (q # qs) oo =
     (if te_done env (txAttempts oo)
      then Done (Some ''device deletion channel is closed at sendQueuedHighPrioRequests'', oo)
      else bind_run (sendOMCIRequest env q oo) (\<lambda>(err, oo).
        let oo = oo\<lparr>highPrioTxQueue := qs\<rparr> in
        case err of
          Some e \<Rightarrow> bind_run (setRxSched (CbKey (cbPair q)) None oo) (\<lambda>oo. Done (Some e, oo))
        | None \<Rightarrow> high_loop env qs oo))"

definition sendQueuedHighPrioRequests :: "tx_env \<Rightarrow> OmciCC \<Rightarrow> (string option \<times> OmciCC) run" where
  "sendQueuedHighPrioRequests env oo =
     (case pBaseDeviceHandler oo of
        None \<Rightarrow> Done (None, oo)
      | Some dh \<Rightarrow>
          if deletionInProgress dh then Done (None, oo)
          else high_loop env (highPrioTxQueue oo) oo)"

text \<open>High-priority requests queued by others while the n-th transmission went on.\<close>

definition high_arrivals :: "tx_env \<Rightarrow> OmciCC \<Rightarrow> OmciCC" where
  "high_arrivals env oo =
     oo\<lparr>highPrioTxQueue := highPrioTxQueue oo @ te_high env (txAttempts oo)\<rparr>"

fun low_loop :: "tx_env \<Rightarrow> OmciTransferStructure list \<Rightarrow> OmciCC \<Rightarrow> (string option \<times> OmciCC) run" where
  "low_loop env [] oo = bind_run (unlockLow oo) (\<lambda>oo. Done (None, oo))"
| "low_loop env (q # qs) oo =
     (if te_done env (txAttempts oo)
      then bind_run (unlockLow oo) (\<lambda>oo.
             Done (Some ''device deletion channel is closed at sendQueuedLowPrioRequests'', oo))
      else
        bind_run (if OnuSwWindow q \<noteq> None then sendOnuSwSectionsOfWindow env q oo
                  else sendOMCIRequest env q oo) (\<lambda>(err, oo).
        bind_run (unlockLow (oo\<lparr>lowPrioTxQueue := qs\<rparr>)) (\<lambda>oo.
        case err of
          Some e \<Rightarrow> bind_run (setRxSched (CbKey (cbPair q)) None oo) (\<lambda>oo. Done (Some e, oo))
        | None \<Rightarrow>
            bind_run (sendQueuedHighPrioRequests env (high_arrivals env oo)) (\<lambda>(err, oo).
            case err of
              Some e \<Rightarrow> Done (Some e, oo)
            | None \<Rightarrow> bind_run (lockLow oo) (low_loop env qs)))))"

definition sendQueuedLowPrioRequests :: "tx_env \<Rightarrow> OmciCC \<Rightarrow> (string option \<times> OmciCC) run" where
  "sendQueuedLowPrioRequests env oo =
     bind_run (lockLow oo) (\<lambda>oo.
       case pBaseDeviceHandler oo of
         None \<Rightarrow> Done (None, oo)
       | Some dh \<Rightarrow>
           if deletionInProgress dh then Done (None, oo)
           else low_loop env (lowPrioTxQueue oo) oo)"

definition sendQueuedRequests :: "tx_env \<Rightarrow> OmciCC \<Rightarrow> OmciCC run" where
  "sendQueuedRequests env oo =
     bind_run (sendQueuedHighPrioRequests env oo) (\<lambda>(err, oo).
       case err of
         Some e \<Rightarrow> Done oo
       | None \<Rightarrow> bind_run (sendQueuedLowPrioRequests env oo) (\<lambda>(err, oo). Done oo))"

subsection \<open>Supervised sending\<close>

text \<open>What the \<^verbatim>\<open>select\<close> of one round receives: a value on the success channel, the timer, or
  the closed device context. With the timer comes whether the state machine listens on its
  response channel at that moment. A list of outcomes that ends leaves the goroutine
  waiting.\<close>

datatype outcome = ChSuccess bool | TimeAfter bool | DevDone

datatype sup_result = Finished OmciCC | WaitingIn OmciCC

definition OnuOmciCommunicationFailureConfig :: string where
  "OnuOmciCommunicationFailureConfig = ''ONU_OMCI_COMMUNICATION_FAILURE_CONFIG''"
definition OnuOmciCommunicationFailureConfigDesc :: string where
  "OnuOmciCommunicationFailureConfigDesc = ''OMCI communication during ONU configuration failed''"
definition OnuOmciCommunicationFailureSwUpgrade :: string where
  "OnuOmciCommunicationFailureSwUpgrade = ''ONU_OMCI_COMMUNICATION_FAILURE_SW_UPGRADE''"
definition OnuOmciCommunicationFailureSwUpgradeDesc :: string where
  "OnuOmciCommunicationFailureSwUpgradeDesc = ''OMCI communication during ONU SW upgrade failed''"

definition olt_available :: "OmciCC \<Rightarrow> bool" where
  "olt_available oo = (case pBaseDeviceHandler oo of None \<Rightarrow> False | Some dh \<Rightarrow> oltAvailable dh)"

text \<open>One transmission: the guards, the enqueueing, the registration and the sending.
  \<open>False\<close> tells that a guard stopped it.\<close>

definition sup_transmit ::
    "tx_env \<Rightarrow> OmciTransferStructure \<Rightarrow> OmciCC \<Rightarrow> (bool \<times> OmciCC) run" where
  "sup_transmit env req oo =
     (case pBaseDeviceHandler oo of
        None \<Rightarrow> Done (False, oo)
      | Some dh \<Rightarrow>
          if deletionInProgress dh then Done (False, oo)
          else
            bind_run (if highPrio req then pushHigh req oo else pushLow req oo) (\<lambda>oo.
            bind_run (setRxSched (CbKey (cbPair req)) (Some (CbEntry (cbPair req))) oo) (\<lambda>oo.
            bind_run (sendQueuedRequests env oo) (\<lambda>oo. Done (True, oo)))))"

definition sup_timeout_final :: "OmciTransferStructure \<Rightarrow> bool \<Rightarrow> OmciCC \<Rightarrow> OmciCC" where
  "sup_timeout_final req listens oo =
     (let oo = (if olt_available oo
                then emit (DeviceEvent OnuOmciCommunicationFailureConfig
                                       OnuOmciCommunicationFailureConfigDesc) oo
                else oo);
          oo = (if listens then emit (TimeoutToFsm (CbRespChannel (CbEntry (cbPair req)))) oo else oo)
      in incrementTxTimesouts oo)"

fun sup_loop ::
    "tx_env \<Rightarrow> OmciTransferStructure \<Rightarrow> outcome list \<Rightarrow> int \<Rightarrow> OmciCC \<Rightarrow> sup_result run" where
  "sup_loop env req [] retryCounter oo =
     (if retryCounter > ots_retries req then Done (Finished oo)
      else bind_run (sup_transmit env req oo) (\<lambda>(sent, oo).
        Done (if sent then WaitingIn oo else Finished oo)))"
| "sup_loop env req (oc # ocs) retryCounter oo =
     (if retryCounter > ots_retries req then Done (Finished oo)
      else bind_run (sup_transmit env req oo) (\<lambda>(sent, oo).
        if \<not> sent then Done (Finished oo)
        else case oc of
          ChSuccess success \<Rightarrow> Done (Finished oo)
        | TimeAfter listens \<Rightarrow>
            if retryCounter = ots_retries req then Done (Finished (sup_timeout_final req listens oo))
            else sup_loop env req ocs (retryCounter + 1) (incrementTxRetries oo)
        | DevDone \<Rightarrow> Done (Finished oo)))"

definition unmonitor :: "u16 \<Rightarrow> OmciCC \<Rightarrow> OmciCC" where
  "unmonitor t oo = oo\<lparr>monitoredRequests := AList.delete t (monitoredRequests oo)\<rparr>"

definition sendWithRxSupervision ::
    "tx_env \<Rightarrow> OmciTransferStructure \<Rightarrow> outcome list \<Rightarrow> OmciCC \<Rightarrow> sup_result run" where
  "sendWithRxSupervision env aOmciTxRequest ocs oo =
     (let req = aOmciTxRequest\<lparr>chSuccess := nextChan oo\<rparr>;
          t = CbKey (cbPair req);
          oo = oo\<lparr>nextChan := nextChan oo + 1,
                   monitoredRequests := AList.update t req (monitoredRequests oo)\<rparr>
      in bind_run (sup_loop env req ocs 0 oo) (\<lambda>r.
           Done (case r of Finished oo \<Rightarrow> Finished (unmonitor t oo) | WaitingIn oo \<Rightarrow> WaitingIn oo)))"

definition processRequestMonitoring ::
    "tx_env \<Rightarrow> OmciTransferStructure \<Rightarrow> outcome list \<Rightarrow> OmciCC \<Rightarrow> sup_result run" where
  "processRequestMonitoring env aOmciTxRequest ocs oo =
     (if ots_timeout aOmciTxRequest = 0 then
        bind_run (if highPrio aOmciTxRequest then pushHigh aOmciTxRequest oo
                  else pushLow aOmciTxRequest oo) (\<lambda>oo.
        bind_run (sendQueuedRequests env oo) (\<lambda>oo. Done (Finished oo)))
      else sendWithRxSupervision env aOmciTxRequest ocs oo)"

text \<open>\<^verbatim>\<open>Send\<close>. The result is an error, or the state after the request was processed or while it
  is supervised.\<close>

definition Send ::
    "tx_env \<Rightarrow> bytes \<Rightarrow> int \<Rightarrow> int \<Rightarrow> bool \<Rightarrow> CallbackPair \<Rightarrow> outcome list \<Rightarrow> OmciCC \<Rightarrow>
     (string \<times> OmciCC + sup_result) run" where
  "Send env frame timeout retry prio receiveCallbackPair ocs oo =
     bind_run (if timeout \<noteq> 0
               then setRxSched (CbKey receiveCallbackPair) (Some (CbEntry receiveCallbackPair)) oo
               else Done oo) (\<lambda>oo.
       let omciTxRequest =
             \<lparr> chSuccess = nextChan oo, OnuSwWindow = None, cbPair = receiveCallbackPair,
               txFrame = frame, ots_timeout = timeout, ots_retries = retry, highPrio = prio,
               withFramePrint = FramePrint (CbEntry receiveCallbackPair) \<rparr>;
           oo = oo\<lparr>nextChan := nextChan oo + 1\<rparr>
       in if map_of (monitoredRequests oo) (CbKey receiveCallbackPair) = None
          then bind_run (processRequestMonitoring env omciTxRequest ocs oo) (\<lambda>r. Done (Inr r))
          else Done (Inl (''message with tid is processed already'', oo)))"

definition ReleaseTid :: "u16 \<Rightarrow> OmciCC \<Rightarrow> OmciCC" where
  "ReleaseTid t oo = oo\<lparr>rxSchedulerMap := (rxSchedulerMap oo)(t := None)\<rparr>"

text \<open>The cancellation reaches the requests whose supervision waits at that moment
  (\<open>ready\<close>).\<close>

definition CancelRequestMonitoring :: "(u16 \<Rightarrow> bool) \<Rightarrow> OmciCC \<Rightarrow> OmciCC" where
  "CancelRequestMonitoring ready oo =
     fold (\<lambda>(k, r) oo. if ready k then emit (SuccessSignal (chSuccess r) False) oo else oo)
       (monitoredRequests oo) oo"

definition ResetConfFailMEs :: "OmciCC \<Rightarrow> OmciCC" where
  "ResetConfFailMEs oo = oo\<lparr>confFailMEs := []\<rparr>"

definition Stop :: "(u16 \<Rightarrow> bool) \<Rightarrow> OmciCC \<Rightarrow> OmciCC run" where
  "Stop ready oo =
     (let oo = CancelRequestMonitoring ready oo;
          oo = oo\<lparr>highPrioTxQueue := []\<rparr> in
      bind_run (lockLow oo) (\<lambda>oo.
      bind_run (unlockLow (oo\<lparr>lowPrioTxQueue := []\<rparr>)) (\<lambda>oo.
      bind_run (lockRxSched oo) (\<lambda>oo.
      bind_run (unlockRxSched (oo\<lparr>rxSchedulerMap := Map.empty\<rparr>)) (\<lambda>oo.
      let oo = oo\<lparr>hpTid := 0x8000\<rparr>;
          oo = oo\<lparr>tid := 1\<rparr>;
          oo = oo\<lparr>UploadSequNo := 0, UploadNoOfCmds := 0,
                   rxOmciFrameError := cOmciMessageReceiveNoError\<rparr>;
          oo = ResetConfFailMEs oo
      in Done (oo\<lparr>countersBase := zero_counters, countersExt := zero_counters,
                   txRetries := 0, txTimeouts := 0\<rparr>))))))"

definition PrepareForGarbageCollection :: "OmciCC \<Rightarrow> OmciCC" where
  "PrepareForGarbageCollection oo =
     oo\<lparr>pBaseDeviceHandler := None, pOnuDeviceEntry := False, pOnuAlarmManager := False\<rparr>"

subsection \<open>Software download windows\<close>

definition DownloadSectionRequestType :: u8 where "DownloadSectionRequestType = 20"
definition DownloadSectionRequestWithResponseType :: u8 where
  "DownloadSectionRequestWithResponseType = 20 OR 0x40"

definition zero_ots :: OmciTransferStructure where
  "zero_ots = \<lparr> chSuccess = 0, OnuSwWindow = None,
     cbPair = \<lparr> CbEntry = \<lparr> CbRespChannel = 0, CbFunction = None, FramePrint = False \<rparr>, CbKey = 0 \<rparr>,
     txFrame = [], ots_timeout = 0, ots_retries = 0, highPrio = False, withFramePrint = False \<rparr>"

text \<open>The serialisation of the packet library is an argument: transaction id, message type,
  extended format, instance, section number and data give an error or the frame. The
  messages of the window are passed in and returned.\<close>

definition PrepareOnuSectionsOfWindow ::
    "(u16 \<Rightarrow> u8 \<Rightarrow> bool \<Rightarrow> u16 \<Rightarrow> u8 \<Rightarrow> bytes \<Rightarrow> string + bytes) \<Rightarrow>
     u16 \<Rightarrow> u8 \<Rightarrow> u8 \<Rightarrow> bytes \<Rightarrow> bytes list \<Rightarrow> bool \<Rightarrow> OmciCC \<Rightarrow>
     (string option \<times> OmciTransferStructure) \<times> bytes list \<times> OmciCC" where
  "PrepareOnuSectionsOfWindow serialize aImageMeID aAckRequest aDownloadSectionNo aSection
       messages aIsExtendedOmci oo =
     (let (t, oo) = GetOnuSwSecNextTid oo;
          msgType = (if aAckRequest > 0 then DownloadSectionRequestWithResponseType
                     else DownloadSectionRequestType)
      in case serialize t msgType aIsExtendedOmci aImageMeID aDownloadSectionNo aSection of
           Inl err \<Rightarrow> ((Some err, zero_ots), messages, oo)
         | Inr outgoingPacket \<Rightarrow>
             let messages = messages @ [outgoingPacket] in
             if aAckRequest > 0
             then ((None, zero_ots\<lparr>withFramePrint := True, OnuSwWindow := Some messages\<rparr>), messages, oo)
             else ((None, zero_ots), messages, oo))"

fun window_loop ::
    "tx_env \<Rightarrow> OmciTransferStructure \<Rightarrow> outcome list \<Rightarrow> int \<Rightarrow> OmciCC \<Rightarrow>
     (string option \<times> sup_result) run" where
  "window_loop env req [] retryCounter oo =
     (if retryCounter > ots_retries req then Done (None, Finished oo)
      else bind_run (pushLow req oo) (\<lambda>oo.
           bind_run (setRxSched (CbKey (cbPair req)) (Some (CbEntry (cbPair req))) oo) (\<lambda>oo.
           bind_run (sendQueuedRequests env oo) (\<lambda>oo. Done (None, WaitingIn oo)))))"
| "window_loop env req (oc # ocs) retryCounter oo =
     (if retryCounter > ots_retries req then Done (None, Finished oo)
      else bind_run (pushLow req oo) (\<lambda>oo.
           bind_run (setRxSched (CbKey (cbPair req)) (Some (CbEntry (cbPair req))) oo) (\<lambda>oo.
           bind_run (sendQueuedRequests env oo) (\<lambda>oo.
           case oc of
             ChSuccess success \<Rightarrow> Done (None, Finished oo)
           | TimeAfter listens \<Rightarrow>
               if retryCounter = ots_retries req then
                 let oo = (if olt_available oo
                           then emit (DeviceEvent OnuOmciCommunicationFailureSwUpgrade
                                        OnuOmciCommunicationFailureSwUpgradeDesc) oo
                           else oo)
                 in Done (Some ''reqMon: timeout waiting for response - no of max retries reached'',
                          Finished (incrementTxTimesouts oo))
               else window_loop env req ocs (retryCounter + 1) (incrementTxRetries oo)
           | DevDone \<Rightarrow> Done (Some ''device deletion channel is closed'', Finished oo)))))"

definition SendOnuSwSectionsWindowWithRxSupervision ::
    "tx_env \<Rightarrow> OmciTransferStructure \<Rightarrow> int \<Rightarrow> nat \<Rightarrow> nat \<Rightarrow> outcome list \<Rightarrow> OmciCC \<Rightarrow>
     (string option \<times> sup_result) run" where
  "SendOnuSwSectionsWindowWithRxSupervision env aOmciTxRequest aTimeout rxChan respFn ocs oo =
     (if OnuSwWindow aOmciTxRequest = None
      then Done (Some ''sendOnuSwSectionsWindowWithRxSupervision: omciTxRequest.OnuSwWindow is nil'',
                 Finished oo)
      else
        let t = GetOnuSwSecLastTid oo;
            pair = \<lparr> CbEntry = \<lparr> CbRespChannel = rxChan, CbFunction = Some respFn, FramePrint = True \<rparr>,
                     CbKey = t \<rparr> in
        bind_run (setRxSched t (Some (CbEntry pair)) oo) (\<lambda>oo.
          let req = aOmciTxRequest\<lparr>cbPair := pair, chSuccess := nextChan oo,
                                    ots_timeout := aTimeout, ots_retries := CDefaultRetries\<rparr>;
              oo = oo\<lparr>nextChan := nextChan oo + 1,
                       monitoredRequests := AList.update t req (monitoredRequests oo)\<rparr>
          in if aTimeout = 0
             then Done (Some ''no timeout present for last section of window'', Finished oo)
             else bind_run (window_loop env req ocs 0 oo) (\<lambda>(err, r).
                    Done (err, case r of Finished oo \<Rightarrow> Finished (unmonitor t oo)
                                       | WaitingIn oo \<Rightarrow> WaitingIn oo))))"

subsection \<open>Configuration failures\<close>

definition OnuConfigFailureResponseErr :: string where
  "OnuConfigFailureResponseErr = ''ONU_CONFIG_FAILURE_RESPONSE_ERROR''"
definition OnuConfigFailureTimeout :: string where
  "OnuConfigFailureTimeout = ''ONU_CONFIG_FAILURE_TIMEOUT''"

definition confFailMeAlreadyHandled :: "u16 \<Rightarrow> OmciCC \<Rightarrow> bool" where
  "confFailMeAlreadyHandled meClassID oo \<longleftrightarrow> list_ex (\<lambda>v. v = meClassID) (confFailMEs oo)"

definition appendConfFailMe :: "u16 \<Rightarrow> OmciCC \<Rightarrow> OmciCC" where
  "appendConfFailMe meClassID oo = oo\<lparr>confFailMEs := confFailMEs oo @ [meClassID]\<rparr>"

definition NotifyAboutOnuConfigFailure ::
    "string \<Rightarrow> u16 \<Rightarrow> u16 \<Rightarrow> string \<Rightarrow> string \<Rightarrow> OmciCC \<Rightarrow> OmciCC run" where
  "NotifyAboutOnuConfigFailure errID meClassID meEntityID meName meResult oo =
     (if confFailMeAlreadyHandled meClassID oo then Done oo
      else
        let inst = meName @ '' / instance: '' @ format_dec (unat meEntityID) @
                   '' (only first instance reported)'';
            description =
              (if errID = OnuConfigFailureResponseErr
               then Some (''ONU config failed - response error: '' @ meResult @ '', OMCI ME: '' @ inst)
               else if errID = OnuConfigFailureTimeout
               then Some (''ONU config failed - timeout, OMCI ME: '' @ inst)
               else None)
        in case description of
             None \<Rightarrow> Done oo
           | Some d \<Rightarrow>
               if \<not> pOnuDeviceEntry oo then Fatal ''invalid memory address or nil pointer dereference''
               else Done (appendConfFailMe meClassID (emit (DeviceEvent errID d) oo)))"

end
