(* ===== verification/Omci_Tx.thy ===== *)
theory Omci_Tx
  imports Omci_CC
begin

text \<open>
  Properties of the transmit side of the OMCI channel: transaction identifiers do not repeat,
  the send routine empties the queues in priority order, failures and lock leaks are what
  the code makes them, supervision retries and ends, and the statistics are exact. The
  locale \<open>cc_invariant\<close> carries the invariants through all send routines.
\<close>

subsection \<open>Identifiers do not repeat\<close>

fun next_tids :: "bool \<Rightarrow> nat \<Rightarrow> OmciCC \<Rightarrow> u16 list" where
  "next_tids hp 0 oo = []"
| "next_tids hp (Suc n) oo = (let (t, oo') = GetNextTid hp oo in t # next_tids hp n oo')"

lemma inj_on_shift_mod: "inj_on (\<lambda>k. (a + k) mod m) {..<m :: nat}"
proof (rule inj_onI)
  have le: "i = j" if "i \<le> j" "j < m" "(a + i) mod m = (a + j) mod m" for i j :: nat
  proof -
    have "m dvd (a + j) - (a + i)"
      using mod_eq_dvd_iff_nat [of "a + i" "a + j" m] that by simp
    then have "m dvd j - i" by simp
    then show ?thesis using that nat_dvd_not_less [of "j - i" m] by fastforce
  qed
  fix x y assume "x \<in> {..<m}" "y \<in> {..<m}" "(a + x) mod m = (a + y) mod m"
  then show "x = y" using le [of x y] le [of y x] by (cases "x \<le> y") auto
qed

lemma distinct_shift_mod:
  assumes "n \<le> (m :: nat)" shows "distinct (map (\<lambda>k. c + (a + k) mod m) [0..<n])"
proof -
  have "inj_on (\<lambda>k. (a + k) mod m) {0..<n}"
    using assms by (auto intro: inj_on_subset [OF inj_on_shift_mod])
  then show ?thesis by (auto simp: distinct_map inj_on_def)
qed

lemma low_tid_step:
  assumes "1 \<le> t" "t < (0x8000 :: u16)"
  shows "unat (if t + 1 \<ge> 0x8000 then 1 else t + 1) = 1 + (unat t mod 0x7FFF)"
proof -
  have t: "1 \<le> unat t" "unat t < 0x8000" using assms by (simp_all add: word_le_nat_alt word_less_nat_alt)
  then have "unat (t + 1) = unat t + 1" by (simp add: unat_word_ariths)
  then show ?thesis using t by (cases "unat t = 0x7FFF") (simp_all add: word_le_nat_alt)
qed

lemma high_tid_step:
  assumes "t \<ge> (0x8000 :: u16)"
  shows "unat (if t + 1 < 0x8000 then 0x8000 else t + 1) = 0x8000 + ((unat t - 0x7FFF) mod 0x8000)"
proof -
  have t: "0x8000 \<le> unat t" "unat t < 65536"
    using assms unat_u16_lt [of t] by (simp_all add: word_le_nat_alt)
  show ?thesis
  proof (cases "unat t = 65535")
    case True
    then have "t = 65535" using word_unat_eq_iff [of t 65535] by simp
    then show ?thesis by simp
  next
    case False
    then have "unat (t + 1) = unat t + 1" using t by (simp add: unat_word_ariths)
    then show ?thesis using t False by (simp add: word_less_nat_alt)
  qed
qed

lemma unat_low_tids:
  assumes "1 \<le> tid oo" "tid oo < 0x8000"
  shows "map unat (next_tids False n oo) =
    map (\<lambda>k. 1 + (unat (tid oo) - 1 + k) mod 0x7FFF) [0..<n]"
  using assms
proof (induction n arbitrary: oo)
  case (Suc n)
  let ?t = "if tid oo + 1 \<ge> 0x8000 then 1 else tid oo + 1"
  let ?oo = "oo\<lparr>tid := ?t\<rparr>"
  have u: "unat ?t = 1 + (unat (tid oo) mod 0x7FFF)" using low_tid_step [OF Suc.prems] .
  have b: "1 \<le> unat (tid oo)" "unat (tid oo) < 0x8000"
    using Suc.prems by (simp_all add: word_le_nat_alt word_less_nat_alt)
  have r: "1 \<le> ?t" "?t < 0x8000"
    using u mod_less_divisor [of "0x7FFF" "unat (tid oo)"]
    unfolding word_le_nat_alt word_less_nat_alt by simp_all
  have "map unat (next_tids False n ?oo) =
      map (\<lambda>k. 1 + (unat ?t - 1 + k) mod 0x7FFF) [0..<n]"
    using Suc.IH [of ?oo] r by simp
  also have "\<dots> = map (\<lambda>k. 1 + (unat (tid oo) - 1 + Suc k) mod 0x7FFF) [0..<n]"
    using b by (simp add: u mod_add_left_eq)
  finally have tl: "map unat (next_tids False n ?oo) =
      map (\<lambda>k. 1 + (unat (tid oo) - 1 + Suc k) mod 0x7FFF) [0..<n]" .
  have hd: "1 + (unat (tid oo) - 1 + 0) mod 0x7FFF = unat (tid oo)" using b by simp
  have "next_tids False (Suc n) oo = tid oo # next_tids False n ?oo"
    by (simp add: GetNextTid_def Let_def)
  then show ?case by (simp only: list.map tl map_upt_Suc hd)
qed simp

lemma unat_high_tids:
  assumes "0x8000 \<le> hpTid oo"
  shows "map unat (next_tids True n oo) =
    map (\<lambda>k. 0x8000 + (unat (hpTid oo) - 0x8000 + k) mod 0x8000) [0..<n]"
  using assms
proof (induction n arbitrary: oo)
  case (Suc n)
  let ?t = "if hpTid oo + 1 < 0x8000 then 0x8000 else hpTid oo + 1"
  let ?oo = "oo\<lparr>hpTid := ?t\<rparr>"
  have u: "unat ?t = 0x8000 + ((unat (hpTid oo) - 0x7FFF) mod 0x8000)" using high_tid_step [OF Suc.prems] .
  have b: "0x8000 \<le> unat (hpTid oo)" "unat (hpTid oo) - 0x8000 < 0x8000"
    using Suc.prems unat_u16_lt [of "hpTid oo"] by (simp_all add: word_le_nat_alt)
  have r: "0x8000 \<le> ?t" using u unfolding word_le_nat_alt by simp
  have "map unat (next_tids True n ?oo) =
      map (\<lambda>k. 0x8000 + (unat ?t - 0x8000 + k) mod 0x8000) [0..<n]"
    using Suc.IH [of ?oo] r by simp
  also have "\<dots> = map (\<lambda>k. 0x8000 + (unat (hpTid oo) - 0x8000 + Suc k) mod 0x8000) [0..<n]"
  proof -
    have "unat (hpTid oo) - 0x7FFF = Suc (unat (hpTid oo) - 0x8000)" using b by simp
    then show ?thesis by (simp add: u mod_add_left_eq)
  qed
  finally have tl: "map unat (next_tids True n ?oo) =
      map (\<lambda>k. 0x8000 + (unat (hpTid oo) - 0x8000 + Suc k) mod 0x8000) [0..<n]" .
  have hd: "0x8000 + (unat (hpTid oo) - 0x8000 + 0) mod 0x8000 = unat (hpTid oo)" using b by simp
  have "next_tids True (Suc n) oo = hpTid oo # next_tids True n ?oo"
    by (simp add: GetNextTid_def Let_def)
  then show ?case by (simp only: list.map tl map_upt_Suc hd)
qed simp


lemma low_tids_in_range:
  assumes "1 \<le> tid oo" "tid oo < 0x8000" "t \<in> set (next_tids False n oo)"
  shows "1 \<le> t \<and> t < 0x8000"
  using imageI [OF assms(3), of unat] unat_low_tids [OF assms(1,2), of n]
  by (auto simp: set_map [symmetric] word_le_nat_alt word_less_nat_alt simp del: set_map) (auto simp: less_Suc_eq_le)

lemma high_tids_in_range:
  assumes "0x8000 \<le> hpTid oo" "t \<in> set (next_tids True m oo)"
  shows "0x8000 \<le> t"
  using imageI [OF assms(2), of unat] unat_high_tids [OF assms(1), of m]
  by (auto simp: set_map [symmetric] word_le_nat_alt simp del: set_map) auto

lemma low_tids_distinct:
  assumes "1 \<le> tid oo" "tid oo < 0x8000" "n \<le> 0x7FFF"
  shows "distinct (next_tids False n oo)"
proof -
  have "distinct (map unat (next_tids False n oo))"
    unfolding unat_low_tids [OF assms(1,2)] by (rule distinct_shift_mod [OF assms(3)])
  then show ?thesis by (simp add: distinct_map)
qed

lemma high_tids_distinct:
  assumes "0x8000 \<le> hpTid oo" "m \<le> 0x8000"
  shows "distinct (next_tids True m oo)"
proof -
  have "distinct (map unat (next_tids True m oo))"
    unfolding unat_high_tids [OF assms(1)] by (rule distinct_shift_mod [OF assms(2)])
  then show ?thesis by (simp add: distinct_map)
qed

text \<open>What the counters satisfy from the creation of the channel on. The low one may be one too
  large: the numbering of the sections of a software image wraps only before the next use.\<close>

definition tids_ok :: "OmciCC \<Rightarrow> bool" where
  "tids_ok oo \<longleftrightarrow> 1 \<le> tid oo \<and> tid oo \<le> 0x8000 \<and> 0x8000 \<le> hpTid oo"

lemma tids_ok_kept:
  assumes "tids_ok oo"
  shows "tids_ok (NewOmciCC d h e a)" "tids_ok (snd (GetNextTid prio oo))" "tids_ok (snd (GetOnuSwSecNextTid oo))"
proof -
  have t: "1 \<le> unat (tid oo)" "unat (tid oo) \<le> 0x8000" "0x8000 \<le> unat (hpTid oo)"
    using assms by (simp_all add: tids_ok_def word_le_nat_alt)
  then have "unat (tid oo + 1) = unat (tid oo) + 1" by (simp add: unat_word_ariths)
  then show "tids_ok (snd (GetNextTid prio oo))" "tids_ok (snd (GetOnuSwSecNextTid oo))"
    using t by (simp_all add: tids_ok_def GetNextTid_def GetOnuSwSecNextTid_def Let_def word_le_nat_alt word_less_nat_alt)
qed (simp add: tids_ok_def NewOmciCC_def)

text \<open>C7: The two counters keep their bounds from the creation of the channel through every identifier
  handed out, also for the sections of a software image. Identifiers of one priority do not repeat within a full
  cycle (0x7FFF low-priority ones, 0x8000 high-priority ones); high-priority ones stay in 0x8000..0xFFFF. Low-priority
  ones stay in 1..0x7FFF and differ from all high-priority ones, except that the first one is 0x8000 when the
  section numbering has left the counter there.\<close>

theorem transaction_ids_unique:
  assumes "tids_ok oo" "n \<le> 0x7FFF" "m \<le> 0x8000"
  shows "distinct (next_tids False n oo) \<and> distinct (next_tids True m oo) \<and>
     (\<forall>t \<in> set (next_tids True m oo). 0x8000 \<le> t) \<and>
     (\<forall>t \<in> set (drop 1 (next_tids False n oo)). 1 \<le> t \<and> t < 0x8000) \<and>
     (0 < n \<longrightarrow> hd (next_tids False n oo) = tid oo) \<and>
     (tid oo \<noteq> 0x8000 \<longrightarrow> set (next_tids False n oo) \<subseteq> {1..<0x8000}) \<and>
     tids_ok (NewOmciCC d h e a) \<and> tids_ok (snd (GetNextTid prio oo)) \<and> tids_ok (snd (GetOnuSwSecNextTid oo))"
proof -
  have hp: "0x8000 \<le> hpTid oo" and lo: "1 \<le> tid oo" using assms(1) by (simp_all add: tids_ok_def)
  have low: "distinct (next_tids False n oo) \<and> (\<forall>t \<in> set (drop 1 (next_tids False n oo)). 1 \<le> t \<and> t < 0x8000) \<and>
     (0 < n \<longrightarrow> hd (next_tids False n oo) = tid oo) \<and>
     (tid oo \<noteq> 0x8000 \<longrightarrow> set (next_tids False n oo) \<subseteq> {1..<0x8000})"
  proof (cases "tid oo = 0x8000")
    case False
    then have t: "tid oo < 0x8000" using assms(1) by (simp add: tids_ok_def less_le)
    have "\<forall>t \<in> set (next_tids False n oo). 1 \<le> t \<and> t < 0x8000" using low_tids_in_range [OF lo t] by blast
    moreover have "set (drop 1 (next_tids False n oo)) \<subseteq> set (next_tids False n oo)" by (rule set_drop_subset)
    ultimately show ?thesis using low_tids_distinct [OF lo t assms(2)] by (cases n) (auto simp: GetNextTid_def Let_def)
  next
    case True
    show ?thesis
    proof (cases n)
      case (Suc k)
      have r: "1 \<le> tid (oo\<lparr>tid := 1\<rparr>)" "tid (oo\<lparr>tid := 1\<rparr>) < 0x8000" "k \<le> 0x7FFF" using assms(2) Suc by simp_all
      have "next_tids False n oo = 0x8000 # next_tids False k (oo\<lparr>tid := 1\<rparr>)"
        using True by (simp add: Suc GetNextTid_def)
      then show ?thesis using low_tids_in_range [OF r(1,2), of _ k] low_tids_distinct [OF r] True by auto
    qed (use True in simp)
  qed
  show ?thesis
    using low high_tids_in_range [OF hp] high_tids_distinct [OF hp assms(3)] tids_ok_kept [OF assms(1)] by blast
qed

theorem transaction_ids_unique_witness:
  "let oo = (NewOmciCC ''onu'' None True True)\<lparr>tid := 0x8000, hpTid := 0xFFFF\<rparr> in
   distinct (next_tids False 4 oo) \<and> hd (next_tids False 4 oo) = 0x8000 \<and> (\<forall>t \<in> set (next_tids True 3 oo). 0x8000 \<le> t)"
  using transaction_ids_unique [of "(NewOmciCC ''onu'' None True True)\<lparr>tid := 0x8000, hpTid := 0xFFFF\<rparr>" 4 3]
  by (simp add: Let_def tids_ok_def)

text \<open>The numbering of software sections wraps only before the next use: a window whose
  last section takes identifier 0x7FFF makes the following low-priority request take 0x8000,
  which belongs to the high-priority range and is the first identifier used there.\<close>

theorem sw_section_tid_leaves_low_range:
  assumes "tid oo = 0x7FFF"
  shows "fst (GetNextTid False (snd (GetOnuSwSecNextTid oo))) = 0x8000 \<and>
         fst (GetNextTid True (NewOmciCC d h e a)) = 0x8000"
  using assms by (simp add: GetNextTid_def GetOnuSwSecNextTid_def NewOmciCC_def Let_def)

theorem sw_section_tid_leaves_low_range_witness:
  "fst (GetNextTid False (snd (GetOnuSwSecNextTid ((NewOmciCC ''onu'' None True True)\<lparr>tid := 0x7FFF\<rparr>)))) = 0x8000"
  using sw_section_tid_leaves_low_range [of "(NewOmciCC ''onu'' None True True)\<lparr>tid := 0x7FFF\<rparr>"]
  by simp


subsection \<open>What the queues send\<close>

text \<open>A quiet environment: the transport accepts everything and the device stays.\<close>

definition quiet :: "tx_env \<Rightarrow> bool" where
  "quiet env \<longleftrightarrow> te_send env = (\<lambda>n. None) \<and> te_done env = (\<lambda>n. False)"

definition sendable :: "OmciTransferStructure \<Rightarrow> bool" where
  "sendable q \<longleftrightarrow> (case OnuSwWindow q of
      None \<Rightarrow> 3 < length (txFrame q)
    | Some w \<Rightarrow> w \<noteq> [] \<and> 3 < length (last w))"

definition plain :: "OmciTransferStructure \<Rightarrow> bool" where
  "plain q \<longleftrightarrow> 3 < length (txFrame q)"

definition tx_effect :: "OmciTransferStructure \<Rightarrow> effect" where
  "tx_effect q = (case OnuSwWindow q of None \<Rightarrow> TxFrame (txFrame q) | Some w \<Rightarrow> TxWindow w)"

definition frame_effect :: "OmciTransferStructure \<Rightarrow> effect" where
  "frame_effect q = TxFrame (txFrame q)"

fun low_trace :: "tx_env \<Rightarrow> nat \<Rightarrow> OmciTransferStructure list \<Rightarrow> effect list" where
  "low_trace env n [] = []"
| "low_trace env n (q # qs) =
     tx_effect q # map frame_effect (te_high env (Suc n)) @
     low_trace env (Suc n + length (te_high env (Suc n))) qs"

text \<open>The state after transmissions that appended \<open>es\<close> in \<open>k\<close> calls; only the frame counters
  are left open.\<close>

definition sent :: "effect list \<Rightarrow> nat \<Rightarrow> OmciCC \<Rightarrow> OmciCC \<Rightarrow> bool" where
  "sent es k oo oo' \<longleftrightarrow> (\<exists>cb ce. oo' = oo\<lparr>txAttempts := txAttempts oo + k, cc_out := cc_out oo @ es,
                                           countersBase := cb, countersExt := ce\<rparr>)"

lemma sent_iff:
  "sent es k oo oo' \<longleftrightarrow> oo' = oo\<lparr>txAttempts := txAttempts oo + k, cc_out := cc_out oo @ es,
     countersBase := countersBase oo', countersExt := countersExt oo'\<rparr>"
proof
  assume "sent es k oo oo'"
  then show "oo' = oo\<lparr>txAttempts := txAttempts oo + k, cc_out := cc_out oo @ es,
     countersBase := countersBase oo', countersExt := countersExt oo'\<rparr>"
    unfolding sent_def by (elim exE) simp
next
  assume "oo' = oo\<lparr>txAttempts := txAttempts oo + k, cc_out := cc_out oo @ es,
     countersBase := countersBase oo', countersExt := countersExt oo'\<rparr>"
  then show "sent es k oo oo'" unfolding sent_def by blast
qed

lemma sent_trans: "sent es k a b \<Longrightarrow> sent es' k' b c \<Longrightarrow> sent (es @ es') (k + k') a c"
  by (auto simp: sent_def add.assoc) blast

lemma sent_update:
  "sent es k a b \<Longrightarrow> sent es k (a\<lparr>highPrioTxQueue := q\<rparr>) (b\<lparr>highPrioTxQueue := q\<rparr>)"
  "sent es k a b \<Longrightarrow> sent es k (a\<lparr>lowPrioTxQueue := q\<rparr>) (b\<lparr>lowPrioTxQueue := q\<rparr>)"
  "sent es k a b \<Longrightarrow> sent es k (a\<lparr>mutexLowPrioTxQueue := m\<rparr>) (b\<lparr>mutexLowPrioTxQueue := m\<rparr>)"
  by (auto simp: sent_iff [of es k "a\<lparr>highPrioTxQueue := q\<rparr>"] sent_iff [of es k "a\<lparr>lowPrioTxQueue := q\<rparr>"]
      sent_iff [of es k "a\<lparr>mutexLowPrioTxQueue := m\<rparr>"]) (auto simp: sent_def)

lemma sent_same: "sent [] 0 a a"
  by (simp add: sent_iff)

lemma sent_fields:
  assumes "sent es k a b"
  shows "txAttempts b = txAttempts a + k" "cc_out b = cc_out a @ es"
    "highPrioTxQueue b = highPrioTxQueue a" "lowPrioTxQueue b = lowPrioTxQueue a"
    "pBaseDeviceHandler b = pBaseDeviceHandler a" "mutexLowPrioTxQueue b = mutexLowPrioTxQueue a"
    "mutexRxSchedMap b = mutexRxSchedMap a" "rxSchedulerMap b = rxSchedulerMap a"
    "monitoredRequests b = monitoredRequests a" "tid b = tid a" "hpTid b = hpTid a"
    "txRetries b = txRetries a" "txTimeouts b = txTimeouts a"
    "pOnuDeviceEntry b = pOnuDeviceEntry a" "rxOmciFrameError b = rxOmciFrameError a"
  using assms by (auto simp: sent_def)

lemmas counter_defs = incrementBaseTxArFrames_def incrementExtTxArFrames_def
  increaseBaseTxNoArFramesBy_def increaseExtTxNoArFramesBy_def

lemma sendOMCIRequest_quiet:
  assumes "quiet env" "plain q"
  shows "\<exists>oo'. sendOMCIRequest env q oo = Done (None, oo') \<and> sent [frame_effect q] 1 oo oo'"
proof (cases "txFrame q ! 3 = BaselineIdent")
  case True
  with assms show ?thesis
    by (auto simp: sendOMCIRequest_def quiet_def plain_def Let_def emit_def frame_effect_def
        cOmciDeviceIdentifierPos_def counter_defs sent_iff)
next
  case False
  with assms show ?thesis
    by (auto simp: sendOMCIRequest_def quiet_def plain_def Let_def emit_def frame_effect_def
        cOmciDeviceIdentifierPos_def counter_defs sent_iff)
qed

lemma sendWindow_quiet:
  assumes "quiet env" "sendable q" "OnuSwWindow q = Some w"
  shows "\<exists>oo'. sendOnuSwSectionsOfWindow env q oo = Done (None, oo') \<and> sent [TxWindow w] 1 oo oo'"
proof (cases "last w ! 3 = BaselineIdent")
  case True
  with assms show ?thesis
    by (auto simp: sendOnuSwSectionsOfWindow_def quiet_def sendable_def Let_def emit_def
        cOmciDeviceIdentifierPos_def counter_defs sent_iff)
next
  case False
  with assms show ?thesis
    by (auto simp: sendOnuSwSectionsOfWindow_def quiet_def sendable_def Let_def emit_def
        cOmciDeviceIdentifierPos_def counter_defs sent_iff)
qed

lemma send_low_quiet:
  assumes "quiet env" "sendable q"
  shows "\<exists>oo'. (if OnuSwWindow q \<noteq> None then sendOnuSwSectionsOfWindow env q oo
                else sendOMCIRequest env q oo) = Done (None, oo') \<and> sent [tx_effect q] 1 oo oo'"
proof (cases "OnuSwWindow q")
  case None
  with assms sendOMCIRequest_quiet [of env q oo] show ?thesis
    by (simp add: sendable_def plain_def tx_effect_def frame_effect_def)
next
  case (Some w)
  with sendWindow_quiet [OF assms Some, of oo] show ?thesis by (simp add: tx_effect_def)
qed

lemma high_loop_quiet:
  assumes "quiet env" "list_all plain qs" "highPrioTxQueue oo = qs"
  shows "\<exists>oo'. high_loop env qs oo = Done (None, oo') \<and>
     sent (map frame_effect qs) (length qs) (oo\<lparr>highPrioTxQueue := []\<rparr>) oo'"
  using assms
proof (induction qs arbitrary: oo)
  case Nil
  then show ?case by (simp add: sent_iff)
next
  case (Cons q qs)
  then obtain o1 where o1: "sendOMCIRequest env q oo = Done (None, o1)" "sent [frame_effect q] 1 oo o1"
    using sendOMCIRequest_quiet [of env q oo] by auto
  let ?o = "o1\<lparr>highPrioTxQueue := qs\<rparr>"
  obtain o2 where o2: "high_loop env qs ?o = Done (None, o2)"
    "sent (map frame_effect qs) (length qs) (o1\<lparr>highPrioTxQueue := []\<rparr>) o2"
    using Cons.IH [of ?o] Cons.prems by auto
  have "sent ([frame_effect q] @ map frame_effect qs) (1 + length qs) (oo\<lparr>highPrioTxQueue := []\<rparr>) o2"
    using sent_trans [OF sent_update(1) [OF o1(2)] o2(2)] .
  moreover have "te_done env n = False" for n using Cons.prems by (simp add: quiet_def)
  ultimately show ?case using o1 o2 by (simp add: Let_def)
qed

lemma sendQueuedHigh_quiet:
  assumes "quiet env" "list_all plain (highPrioTxQueue oo)"
    and "pBaseDeviceHandler oo = Some dh" "\<not> deletionInProgress dh"
  shows "\<exists>oo'. sendQueuedHighPrioRequests env oo = Done (None, oo') \<and>
     sent (map frame_effect (highPrioTxQueue oo)) (length (highPrioTxQueue oo))
          (oo\<lparr>highPrioTxQueue := []\<rparr>) oo'"
  using high_loop_quiet [OF assms(1,2) refl] assms(3,4)
  by (simp add: sendQueuedHighPrioRequests_def)

definition arrivals_plain :: "tx_env \<Rightarrow> bool" where
  "arrivals_plain env \<longleftrightarrow> (\<forall>n. list_all plain (te_high env n))"

lemma low_loop_quiet:
  assumes "quiet env" "arrivals_plain env" "list_all sendable qs" "lowPrioTxQueue oo = qs"
    and "highPrioTxQueue oo = []" "mutexLowPrioTxQueue oo"
    and "pBaseDeviceHandler oo = Some dh" "\<not> deletionInProgress dh"
  shows "\<exists>oo' k. low_loop env qs oo = Done (None, oo') \<and>
     sent (low_trace env (txAttempts oo) qs) k
          (oo\<lparr>mutexLowPrioTxQueue := False, lowPrioTxQueue := []\<rparr>) oo'"
  using assms
proof (induction qs arbitrary: oo)
  case Nil
  then show ?case by (auto simp: unlockLow_def intro!: exI [of _ 0]) (simp add: sent_iff)
next
  case (Cons q qs)
  obtain o1 where o1: "(if OnuSwWindow q \<noteq> None then sendOnuSwSectionsOfWindow env q oo
                else sendOMCIRequest env q oo) = Done (None, o1)" "sent [tx_effect q] 1 oo o1"
    using send_low_quiet [of env q oo] Cons.prems by auto
  let ?o2 = "o1\<lparr>lowPrioTxQueue := qs, mutexLowPrioTxQueue := False\<rparr>"
  let ?o3 = "high_arrivals env ?o2"
  let ?arr = "te_high env (Suc (txAttempts oo))"
  have h: "highPrioTxQueue ?o3 = ?arr" "?o3\<lparr>highPrioTxQueue := []\<rparr> = ?o2"
    using sent_fields(1,3) [OF o1(2)] Cons.prems(5) by (simp_all add: high_arrivals_def)
  have p3: "list_all plain (highPrioTxQueue ?o3)" "pBaseDeviceHandler ?o3 = Some dh"
    using Cons.prems(2,7) sent_fields(5) [OF o1(2)] unfolding h
    by (simp_all add: arrivals_plain_def high_arrivals_def)
  obtain o4 where o4: "sendQueuedHighPrioRequests env ?o3 = Done (None, o4)"
    "sent (map frame_effect ?arr) (length ?arr) ?o2 o4"
    using sendQueuedHigh_quiet [OF Cons.prems(1) p3 Cons.prems(8), unfolded h] by blast
  let ?o5 = "o4\<lparr>mutexLowPrioTxQueue := True\<rparr>"
  have f4: "lowPrioTxQueue o4 = qs" "highPrioTxQueue o4 = []" "mutexLowPrioTxQueue o4 = False"
    "pBaseDeviceHandler o4 = Some dh" "txAttempts o4 = Suc (txAttempts oo) + length ?arr"
    using sent_fields [OF o4(2)] sent_fields [OF o1(2)] Cons.prems by simp_all
  obtain o6 k where o6: "low_loop env qs ?o5 = Done (None, o6)"
    "sent (low_trace env (Suc (txAttempts oo) + length ?arr) qs) k
       (o4\<lparr>mutexLowPrioTxQueue := False, lowPrioTxQueue := []\<rparr>) o6"
    using Cons.IH [of ?o5] Cons.prems f4 by auto
  let ?z = "\<lambda>x. x\<lparr>mutexLowPrioTxQueue := False, lowPrioTxQueue := []\<rparr>"
  have s1: "sent [tx_effect q] 1 (?z oo) (?z o1)"
    using sent_update(2,3) o1(2) by blast
  have s2: "sent (map frame_effect ?arr) (length ?arr) (?z o1) (?z o4)"
    using sent_update(2) [OF sent_update(3) [OF o4(2)], of "[]" False] by simp
  have "sent (low_trace env (txAttempts oo) (q # qs)) (1 + length ?arr + k) (?z oo) o6"
    using sent_trans [OF sent_trans [OF s1 s2] o6(2)] by simp
  moreover have "low_loop env (q # qs) oo = Done (None, o6)"
    using o1(1) o4(1) o6(1) f4(3) Cons.prems(1,6) sent_fields(6) [OF o1(2)]
    by (simp add: quiet_def unlockLow_def lockLow_def)
  ultimately show ?case by blast
qed

lemma sendQueuedRequests_quiet:
  assumes "quiet env" "arrivals_plain env"
    and "list_all plain (highPrioTxQueue oo)" "list_all sendable (lowPrioTxQueue oo)"
    and "pBaseDeviceHandler oo = Some dh" "\<not> deletionInProgress dh" "\<not> mutexLowPrioTxQueue oo"
  shows "\<exists>oo' k. sendQueuedRequests env oo = Done oo' \<and>
     sent (map frame_effect (highPrioTxQueue oo) @
           low_trace env (txAttempts oo + length (highPrioTxQueue oo)) (lowPrioTxQueue oo)) k
       (oo\<lparr>highPrioTxQueue := [], mutexLowPrioTxQueue := False, lowPrioTxQueue := []\<rparr>) oo'"
proof -
  obtain o1 where o1: "sendQueuedHighPrioRequests env oo = Done (None, o1)"
    "sent (map frame_effect (highPrioTxQueue oo)) (length (highPrioTxQueue oo))
       (oo\<lparr>highPrioTxQueue := []\<rparr>) o1"
    using sendQueuedHigh_quiet [OF assms(1,3,5,6)] by blast
  note f1 = sent_fields [OF o1(2)]
  let ?o = "o1\<lparr>mutexLowPrioTxQueue := True\<rparr>"
  let ?z = "\<lambda>x. x\<lparr>mutexLowPrioTxQueue := False, lowPrioTxQueue := []\<rparr>"
  obtain o2 k where o2: "low_loop env (lowPrioTxQueue oo) ?o = Done (None, o2)"
    "sent (low_trace env (txAttempts o1) (lowPrioTxQueue oo)) k (?z ?o) o2"
    using low_loop_quiet [of env "lowPrioTxQueue oo" ?o dh] assms f1 by auto
  have "sendQueuedRequests env oo = Done o2"
    using o1(1) o2(1) f1 assms(5-7)
    by (simp add: sendQueuedRequests_def sendQueuedLowPrioRequests_def lockLow_def)
  moreover have "sent (map frame_effect (highPrioTxQueue oo)) (length (highPrioTxQueue oo))
       (?z (oo\<lparr>highPrioTxQueue := []\<rparr>)) (?z o1)"
    using sent_update(2) [OF sent_update(3) [OF o1(2)]] .
  ultimately show ?thesis
    using sent_trans [of _ _ _ "?z o1"] o2(2) f1(1) by fastforce
qed

text \<open>C2: One run of the send routine empties both queues in order: first the waiting
  high-priority requests, then the low-priority ones, and after each of these the
  high-priority requests that arrived meanwhile, before the next low-priority one. No frame
  is lost or repeated, the locks are free again and no registration changes.\<close>

theorem sendQueuedRequests_order:
  assumes "quiet env" "arrivals_plain env"
    and "list_all plain (highPrioTxQueue oo)" "list_all sendable (lowPrioTxQueue oo)"
    and "pBaseDeviceHandler oo = Some dh" "\<not> deletionInProgress dh" "\<not> mutexLowPrioTxQueue oo"
  shows "\<exists>oo'. sendQueuedRequests env oo = Done oo' \<and>
     cc_out oo' = cc_out oo @ map frame_effect (highPrioTxQueue oo) @
       low_trace env (txAttempts oo + length (highPrioTxQueue oo)) (lowPrioTxQueue oo) \<and>
     highPrioTxQueue oo' = [] \<and> lowPrioTxQueue oo' = [] \<and> \<not> mutexLowPrioTxQueue oo' \<and>
     mutexRxSchedMap oo' = mutexRxSchedMap oo \<and> rxSchedulerMap oo' = rxSchedulerMap oo"
proof -
  obtain oo' k where "sendQueuedRequests env oo = Done oo'" and
    s: "sent (map frame_effect (highPrioTxQueue oo) @
           low_trace env (txAttempts oo + length (highPrioTxQueue oo)) (lowPrioTxQueue oo)) k
       (oo\<lparr>highPrioTxQueue := [], mutexLowPrioTxQueue := False, lowPrioTxQueue := []\<rparr>) oo'"
    using sendQueuedRequests_quiet [OF assms] by blast
  then show ?thesis using sent_fields [OF s] by simp
qed

definition quiet_env :: tx_env where
  "quiet_env = \<lparr> te_send = (\<lambda>n. None), te_done = (\<lambda>n. False), te_high = (\<lambda>n. []) \<rparr>"

definition up_handler :: IdeviceHandler where
  "up_handler = \<lparr> deletionInProgress = False, oltAvailable = True \<rparr>"

definition sample_req :: "u8 \<Rightarrow> u16 \<Rightarrow> OmciTransferStructure" where
  "sample_req b k = zero_ots\<lparr>txFrame := [0, b, 0x49, 0x0A], ots_timeout := 3, ots_retries := 2,
     cbPair := \<lparr> CbEntry = \<lparr> CbRespChannel = 5, CbFunction = Some 1, FramePrint = True \<rparr>, CbKey = k \<rparr>\<rparr>"

theorem sendQueuedRequests_order_witness:
  "let env = quiet_env\<lparr>te_high := (\<lambda>n. if n = 2 then [sample_req 9 9] else [])\<rparr>;
       oo = (NewOmciCC ''onu'' (Some up_handler) True True)\<lparr>
              highPrioTxQueue := [sample_req 1 1], lowPrioTxQueue := [sample_req 2 2, sample_req 3 3]\<rparr>
   in \<exists>oo'. sendQueuedRequests env oo = Done oo' \<and>
        cc_out oo' = map frame_effect [sample_req 1 1, sample_req 2 2, sample_req 9 9, sample_req 3 3]"
proof -
  let ?env = "quiet_env\<lparr>te_high := (\<lambda>n. if n = 2 then [sample_req 9 9] else [])\<rparr>"
  let ?oo = "(NewOmciCC ''onu'' (Some up_handler) True True)\<lparr>
    highPrioTxQueue := [sample_req 1 1], lowPrioTxQueue := [sample_req 2 2, sample_req 3 3]\<rparr>"
  have s: "plain (sample_req b k)" "sendable (sample_req b k)" "OnuSwWindow (sample_req b k) = None" for b k
    by (simp_all add: plain_def sendable_def sample_req_def zero_ots_def)
  have arr: "arrivals_plain ?env" using s by (simp add: arrivals_plain_def quiet_env_def)
  obtain oo' where "sendQueuedRequests ?env ?oo = Done oo'"
    "cc_out oo' = cc_out ?oo @ map frame_effect (highPrioTxQueue ?oo) @
       low_trace ?env (txAttempts ?oo + length (highPrioTxQueue ?oo)) (lowPrioTxQueue ?oo)"
    using sendQueuedRequests_order [of ?env ?oo up_handler, OF _ arr] s
    by (auto simp: quiet_def quiet_env_def up_handler_def NewOmciCC_def)
  then show ?thesis
    using s by (simp add: Let_def NewOmciCC_def tx_effect_def frame_effect_def quiet_env_def)
qed

text \<open>A request the transport refuses is taken off its queue and its registration is
  removed; the requests behind it stay queued, and the error ends the run with the locks
  free.\<close>

theorem low_send_failure:
  assumes "lowPrioTxQueue oo = q # qs" "highPrioTxQueue oo = []"
    and "pBaseDeviceHandler oo = Some dh" "\<not> deletionInProgress dh"
    and "\<not> mutexLowPrioTxQueue oo" "\<not> mutexRxSchedMap oo"
    and "te_send env (txAttempts oo) = Some e" "\<not> te_done env (txAttempts oo)"
    and "OnuSwWindow q \<noteq> Some []"
  shows "sendQueuedRequests env oo =
    Done (oo\<lparr>txAttempts := Suc (txAttempts oo), lowPrioTxQueue := qs,
             rxSchedulerMap := (rxSchedulerMap oo)(CbKey (cbPair q) := None)\<rparr>)"
proof (cases "OnuSwWindow q")
  case None
  with assms show ?thesis
    by (simp add: sendQueuedRequests_def sendQueuedHighPrioRequests_def sendQueuedLowPrioRequests_def
        lockLow_def unlockLow_def sendOMCIRequest_def setRxSched_def lockRxSched_def
        unlockRxSched_def Let_def)
next
  case (Some w)
  with assms show ?thesis
    by (auto simp: sendQueuedRequests_def sendQueuedHighPrioRequests_def sendQueuedLowPrioRequests_def
        lockLow_def unlockLow_def sendOnuSwSectionsOfWindow_def setRxSched_def lockRxSched_def
        unlockRxSched_def Let_def)
qed

theorem low_send_failure_witness:
  "let env = quiet_env\<lparr>te_send := (\<lambda>n. Some ''unreachable'')\<rparr>;
       oo = (NewOmciCC ''onu'' (Some up_handler) True True)\<lparr>
              lowPrioTxQueue := [sample_req 2 2, sample_req 3 3]\<rparr>
   in \<exists>oo'. sendQueuedRequests env oo = Done oo' \<and> lowPrioTxQueue oo' = [sample_req 3 3] \<and> cc_out oo' = []"
  using low_send_failure
    [of "(NewOmciCC ''onu'' (Some up_handler) True True)\<lparr>
              lowPrioTxQueue := [sample_req 2 2, sample_req 3 3]\<rparr>" "sample_req 2 2" "[sample_req 3 3]"
        up_handler "quiet_env\<lparr>te_send := (\<lambda>n. Some ''unreachable'')\<rparr>" "''unreachable''"]
  by (simp add: quiet_env_def sample_req_def zero_ots_def up_handler_def NewOmciCC_def Let_def)

text \<open>While a device is deleted, or after its references were dropped, the low-priority
  send routine returns with its queue mutex locked, and the next low-priority request blocks
  for ever.\<close>

theorem low_queue_lock_leak:
  assumes "pBaseDeviceHandler oo = None \<or> deletionInProgress (the (pBaseDeviceHandler oo))"
    and "\<not> mutexLowPrioTxQueue oo" "map_of (monitoredRequests oo) (CbKey cb) = None"
  shows "\<exists>oo'. sendQueuedRequests env oo = Done oo' \<and> mutexLowPrioTxQueue oo' \<and>
           Send env frame 0 retry False cb ocs oo' = Deadlock"
proof -
  let ?oo = "oo\<lparr>mutexLowPrioTxQueue := True\<rparr>"
  have "sendQueuedRequests env oo = Done ?oo"
    using assms(1,2)
    by (cases "pBaseDeviceHandler oo") (simp_all add: sendQueuedRequests_def
        sendQueuedHighPrioRequests_def sendQueuedLowPrioRequests_def lockLow_def)
  moreover have "Send env frame 0 retry False cb ocs ?oo = Deadlock"
    using assms(3) by (simp add: Send_def Let_def processRequestMonitoring_def pushLow_def lockLow_def)
  ultimately show ?thesis by simp
qed

theorem low_queue_lock_leak_witness:
  "\<exists>oo'. sendQueuedRequests quiet_env (NewOmciCC ''onu'' None True True) = Done oo' \<and>
     Send quiet_env [0, 1, 0x49, 0x0A] 0 2 False (cbPair (sample_req 1 1)) [] oo' = Deadlock"
  using low_queue_lock_leak [of "NewOmciCC ''onu'' None True True" "cbPair (sample_req 1 1)" quiet_env
      "[0, 1, 0x49, 0x0A]" 2 "[]"]
  by (auto simp: NewOmciCC_def)


subsection \<open>Supervision\<close>

text \<open>A channel with nothing queued, its locks free and its device up.\<close>

definition idle :: "OmciCC \<Rightarrow> bool" where
  "idle oo \<longleftrightarrow> lowPrioTxQueue oo = [] \<and> highPrioTxQueue oo = [] \<and> \<not> mutexLowPrioTxQueue oo \<and>
     \<not> mutexRxSchedMap oo \<and>
     (case pBaseDeviceHandler oo of None \<Rightarrow> False | Some dh \<Rightarrow> \<not> deletionInProgress dh)"

definition registered :: "OmciTransferStructure \<Rightarrow> OmciCC \<Rightarrow> OmciCC" where
  "registered req oo =
     oo\<lparr>rxSchedulerMap := (rxSchedulerMap oo)(CbKey (cbPair req) := Some (CbEntry (cbPair req)))\<rparr>"

lemma setRxSched_free:
  "\<not> mutexRxSchedMap oo \<Longrightarrow> setRxSched k v oo = Done (oo\<lparr>rxSchedulerMap := (rxSchedulerMap oo)(k := v)\<rparr>)"
  by (simp add: setRxSched_def lockRxSched_def unlockRxSched_def)

lemma sup_transmit_quiet:
  assumes "quiet env" "te_high env = (\<lambda>n. [])" "plain req" "OnuSwWindow req = None" "idle oo"
  shows "\<exists>oo' k. sup_transmit env req oo = Done (True, oo') \<and>
    sent [frame_effect req] k (registered req oo) oo'"
proof -
  from assms(5) obtain dh where dh: "pBaseDeviceHandler oo = Some dh" "\<not> deletionInProgress dh"
    and q: "lowPrioTxQueue oo = []" "highPrioTxQueue oo = []" "\<not> mutexLowPrioTxQueue oo" "\<not> mutexRxSchedMap oo"
    by (auto simp: idle_def split: option.splits)
  have arr: "arrivals_plain env" using assms(2) by (simp add: arrivals_plain_def)
  let ?o1 = "if highPrio req then oo\<lparr>highPrioTxQueue := [req]\<rparr> else oo\<lparr>lowPrioTxQueue := [req]\<rparr>"
  have push: "(if highPrio req then pushHigh req oo else pushLow req oo) = Done ?o1"
    using q by (simp add: pushHigh_def pushLow_def lockLow_def unlockLow_def)
  have send: "sendable req" using assms(3,4) by (simp add: sendable_def plain_def)
  have eff: "tx_effect req = frame_effect req" using assms(4) by (simp add: tx_effect_def frame_effect_def)
  have base: "(registered req ?o1)\<lparr>highPrioTxQueue := [], mutexLowPrioTxQueue := False, lowPrioTxQueue := []\<rparr> =
      registered req oo"
    using q by (simp add: registered_def)
  have prem: "list_all plain (highPrioTxQueue (registered req ?o1))"
    "list_all sendable (lowPrioTxQueue (registered req ?o1))"
    "pBaseDeviceHandler (registered req ?o1) = Some dh" "\<not> mutexLowPrioTxQueue (registered req ?o1)"
    using dh q assms(3) send by (simp_all add: registered_def)
  obtain oo' k where "sendQueuedRequests env (registered req ?o1) = Done oo'"
    and s: "sent (map frame_effect (highPrioTxQueue (registered req ?o1)) @
       low_trace env (txAttempts (registered req ?o1) + length (highPrioTxQueue (registered req ?o1)))
         (lowPrioTxQueue (registered req ?o1))) k (registered req oo) oo'"
    using sendQueuedRequests_quiet [OF assms(1) arr prem(1-3) dh(2) prem(4), unfolded base] by blast
  moreover have "sent [frame_effect req] k (registered req oo) oo'"
    using s q assms(2) eff by (simp add: registered_def split: if_splits)
  moreover have "sup_transmit env req oo =
      bind_run (sendQueuedRequests env (registered req ?o1)) (\<lambda>oo. Done (True, oo))"
    using dh q push by (simp add: sup_transmit_def setRxSched_free registered_def)
  ultimately show ?thesis by auto
qed

definition final_effects :: "OmciTransferStructure \<Rightarrow> bool \<Rightarrow> bool \<Rightarrow> effect list" where
  "final_effects req olt listens =
     (if olt then [DeviceEvent OnuOmciCommunicationFailureConfig OnuOmciCommunicationFailureConfigDesc]
      else []) @
     (if listens then [TimeoutToFsm (CbRespChannel (CbEntry (cbPair req)))] else [])"

lemma sup_loop_timeouts:
  assumes "quiet env" "te_high env = (\<lambda>n. [])" "plain req" "OnuSwWindow req = None" "idle oo"
    and "ots_retries req = rc + int j"
  shows "\<exists>oo'. sup_loop env req (replicate (Suc j) (TimeAfter l)) rc oo = Done (Finished oo') \<and>
     cc_out oo' = cc_out oo @ replicate (Suc j) (frame_effect req) @
                  final_effects req (olt_available oo) l \<and>
     txRetries oo' = txRetries oo + of_nat j \<and> txTimeouts oo' = txTimeouts oo + 1 \<and>
     rxSchedulerMap oo' = rxSchedulerMap (registered req oo) \<and>
     monitoredRequests oo' = monitoredRequests oo"
  using assms(5,6)
proof (induction j arbitrary: rc oo)
  case 0
  obtain o1 k where o1: "sup_transmit env req oo = Done (True, o1)"
    "sent [frame_effect req] k (registered req oo) o1"
    using sup_transmit_quiet [OF assms(1-4) 0(1)] by blast
  note f = sent_fields [OF o1(2)]
  have "olt_available o1 = olt_available oo" using f by (simp add: olt_available_def registered_def)
  then show ?case
    using o1 f 0(2)
    by (simp add: sup_timeout_final_def final_effects_def emit_def incrementTxTimesouts_def
        registered_def Let_def fun_upd_def)
next
  case (Suc j)
  obtain o1 k where o1: "sup_transmit env req oo = Done (True, o1)"
    "sent [frame_effect req] k (registered req oo) o1"
    using sup_transmit_quiet [OF assms(1-4) Suc.prems(1)] by blast
  note f = sent_fields [OF o1(2)]
  let ?o = "incrementTxRetries o1"
  have i: "idle ?o" "olt_available ?o = olt_available oo"
    using Suc.prems(1) f by (simp_all add: idle_def olt_available_def registered_def incrementTxRetries_def)
  obtain oo' where "sup_loop env req (replicate (Suc j) (TimeAfter l)) (rc + 1) ?o = Done (Finished oo')"
    "cc_out oo' = cc_out ?o @ replicate (Suc j) (frame_effect req) @ final_effects req (olt_available oo) l"
    "txRetries oo' = txRetries ?o + of_nat j" "txTimeouts oo' = txTimeouts ?o + 1"
    "rxSchedulerMap oo' = rxSchedulerMap (registered req ?o)"
    "monitoredRequests oo' = monitoredRequests ?o"
    using Suc.IH [of ?o "rc + 1"] i Suc.prems(2) by auto
  then show ?case
    using o1 f Suc.prems(2) by (simp add: registered_def incrementTxRetries_def fun_upd_def cong: if_cong)
qed


text \<open>C5: A supervised request that is never answered is transmitted once and then once per
  retry, counts its retries and one timeout, reports the failure if the OLT is reachable,
  tells the waiting state machine, and is no longer monitored afterwards.\<close>

theorem unanswered_request_retried:
  assumes "quiet env" "te_high env = (\<lambda>n. [])" "plain req" "OnuSwWindow req = None" "idle oo"
    and "ots_retries req = int r"
  shows "\<exists>oo'. sendWithRxSupervision env req (replicate (Suc r) (TimeAfter listens)) oo = Done (Finished oo') \<and>
     cc_out oo' = cc_out oo @ replicate (Suc r) (TxFrame (txFrame req)) @
       (if olt_available oo then [DeviceEvent OnuOmciCommunicationFailureConfig
                                     OnuOmciCommunicationFailureConfigDesc] else []) @
       (if listens then [TimeoutToFsm (CbRespChannel (CbEntry (cbPair req)))] else []) \<and>
     txRetries oo' = txRetries oo + of_nat r \<and> txTimeouts oo' = txTimeouts oo + 1 \<and>
     map_of (monitoredRequests oo') (CbKey (cbPair req)) = None"
proof -
  let ?req = "req\<lparr>chSuccess := nextChan oo\<rparr>"
  let ?oo = "oo\<lparr>nextChan := nextChan oo + 1,
    monitoredRequests := AList.update (CbKey (cbPair req)) ?req (monitoredRequests oo)\<rparr>"
  have "plain ?req" "OnuSwWindow ?req = None" "ots_retries ?req = 0 + int r" "idle ?oo"
    using assms by (simp_all add: plain_def idle_def)
  from sup_loop_timeouts [OF assms(1,2) this(1,2,4,3), of listens] show ?thesis
    by (auto simp: sendWithRxSupervision_def unmonitor_def frame_effect_def final_effects_def
        olt_available_def Let_def)
qed

theorem unanswered_request_retried_witness:
  "let oo = NewOmciCC ''onu'' (Some up_handler) True True in
   \<exists>oo'. sendWithRxSupervision quiet_env (sample_req 7 7) (replicate 3 (TimeAfter True)) oo = Done (Finished oo') \<and>
     length (cc_out oo') = 5 \<and> txRetries oo' = 2 \<and> txTimeouts oo' = 1"
proof -
  let ?oo = "NewOmciCC ''onu'' (Some up_handler) True True"
  have h: "quiet quiet_env" "te_high quiet_env = (\<lambda>n. [])" "plain (sample_req 7 7)"
    "OnuSwWindow (sample_req 7 7) = None" "idle ?oo" "ots_retries (sample_req 7 7) = int 2"
    by (simp_all add: quiet_def quiet_env_def plain_def sample_req_def zero_ots_def idle_def
        NewOmciCC_def up_handler_def)
  have "olt_available ?oo" "cc_out ?oo = []" "txRetries ?oo = 0" "txTimeouts ?oo = 0"
    by (simp_all add: olt_available_def NewOmciCC_def up_handler_def)
  with unanswered_request_retried [OF h, of True] show ?thesis
    by (auto simp: Let_def numeral_3_eq_3)
qed

text \<open>A channel whose locks are free and whose queued requests have frames that carry a device
  identifier. Whatever the transport answers, the send routine returns and leaves the channel so.\<close>

definition orderly :: "OmciCC \<Rightarrow> bool" where
  "orderly oo \<longleftrightarrow> \<not> mutexLowPrioTxQueue oo \<and> \<not> mutexRxSchedMap oo \<and>
     list_all plain (highPrioTxQueue oo) \<and> list_all sendable (lowPrioTxQueue oo)"

definition device_up :: "OmciCC \<Rightarrow> bool" where
  "device_up oo \<longleftrightarrow> (case pBaseDeviceHandler oo of None \<Rightarrow> False | Some dh \<Rightarrow> \<not> deletionInProgress dh)"

lemma sendOMCIRequest_returns:
  assumes "plain q"
  shows "\<exists>e n cb ce es. sendOMCIRequest env q oo =
    Done (e, oo\<lparr>txAttempts := n, countersBase := cb, countersExt := ce, cc_out := es\<rparr>)"
proof -
  have "\<exists>e oo'. sendOMCIRequest env q oo = Done (e, oo') \<and> oo' = oo\<lparr>txAttempts := txAttempts oo',
      countersBase := countersBase oo', countersExt := countersExt oo', cc_out := cc_out oo'\<rparr>"
    using assms by (cases "te_send env (txAttempts oo)")
      (auto simp: sendOMCIRequest_def plain_def Let_def emit_def cOmciDeviceIdentifierPos_def counter_defs)
  then show ?thesis by metis
qed

lemma sendWindow_returns:
  assumes "sendable q" "OnuSwWindow q = Some w"
  shows "\<exists>e n cb ce es. sendOnuSwSectionsOfWindow env q oo =
    Done (e, oo\<lparr>txAttempts := n, countersBase := cb, countersExt := ce, cc_out := es\<rparr>)"
proof -
  have "\<exists>e oo'. sendOnuSwSectionsOfWindow env q oo = Done (e, oo') \<and> oo' = oo\<lparr>txAttempts := txAttempts oo',
      countersBase := countersBase oo', countersExt := countersExt oo', cc_out := cc_out oo'\<rparr>"
    using assms by (cases "te_send env (txAttempts oo)")
      (auto simp: sendOnuSwSectionsOfWindow_def sendable_def Let_def emit_def cOmciDeviceIdentifierPos_def counter_defs)
  then show ?thesis by metis
qed

lemma send_low_returns:
  assumes "sendable q"
  shows "\<exists>e n cb ce es. (if OnuSwWindow q \<noteq> None then sendOnuSwSectionsOfWindow env q oo else sendOMCIRequest env q oo) =
    Done (e, oo\<lparr>txAttempts := n, countersBase := cb, countersExt := ce, cc_out := es\<rparr>)"
  using assms sendOMCIRequest_returns [of q env oo] sendWindow_returns [of q _ env oo]
  by (cases "OnuSwWindow q") (auto simp: sendable_def plain_def)

lemma high_loop_returns:
  assumes "list_all plain qs" "highPrioTxQueue oo = qs" "\<not> mutexRxSchedMap oo"
  shows "\<exists>e oo'. high_loop env qs oo = Done (e, oo') \<and> \<not> mutexRxSchedMap oo' \<and>
    list_all plain (highPrioTxQueue oo') \<and> lowPrioTxQueue oo' = lowPrioTxQueue oo \<and>
    mutexLowPrioTxQueue oo' = mutexLowPrioTxQueue oo \<and> pBaseDeviceHandler oo' = pBaseDeviceHandler oo"
  using assms
proof (induction qs arbitrary: oo)
  case (Cons q qs)
  obtain e n cb ce es where r: "sendOMCIRequest env q oo =
      Done (e, oo\<lparr>txAttempts := n, countersBase := cb, countersExt := ce, cc_out := es\<rparr>)"
    using sendOMCIRequest_returns [of q env oo] Cons.prems(1) by auto
  show ?case
    using Cons.IH [of "oo\<lparr>txAttempts := n, countersBase := cb, countersExt := ce, cc_out := es, highPrioTxQueue := qs\<rparr>"] Cons.prems r
    by (cases e) (auto simp: setRxSched_free)
qed simp

lemma high_send_returns:
  assumes "device_up oo" "list_all plain (highPrioTxQueue oo)" "\<not> mutexRxSchedMap oo"
  shows "\<exists>e oo'. sendQueuedHighPrioRequests env oo = Done (e, oo') \<and> \<not> mutexRxSchedMap oo' \<and>
    list_all plain (highPrioTxQueue oo') \<and> lowPrioTxQueue oo' = lowPrioTxQueue oo \<and>
    mutexLowPrioTxQueue oo' = mutexLowPrioTxQueue oo \<and> pBaseDeviceHandler oo' = pBaseDeviceHandler oo"
  using high_loop_returns [OF assms(2) refl assms(3)] assms(1)
  by (auto simp: sendQueuedHighPrioRequests_def device_up_def split: option.splits)

lemma low_loop_returns:
  assumes "arrivals_plain env" "list_all sendable qs" "lowPrioTxQueue oo = qs" "mutexLowPrioTxQueue oo"
    and "\<not> mutexRxSchedMap oo" "list_all plain (highPrioTxQueue oo)" "device_up oo"
  shows "\<exists>e oo'. low_loop env qs oo = Done (e, oo') \<and> orderly oo' \<and> device_up oo'"
  using assms
proof (induction qs arbitrary: oo)
  case Nil
  then show ?case by (simp add: unlockLow_def orderly_def device_up_def)
next
  case (Cons q qs)
  show ?case
  proof (cases "te_done env (txAttempts oo)")
    case True
    then show ?thesis using Cons.prems by (simp add: unlockLow_def orderly_def device_up_def)
  next
    case False
    obtain e n cb ce es where r: "(if OnuSwWindow q \<noteq> None then sendOnuSwSectionsOfWindow env q oo else sendOMCIRequest env q oo) =
        Done (e, oo\<lparr>txAttempts := n, countersBase := cb, countersExt := ce, cc_out := es\<rparr>)"
      using send_low_returns [of q env oo] Cons.prems(2) by auto
    let ?o = "oo\<lparr>txAttempts := n, countersBase := cb, countersExt := ce, cc_out := es, lowPrioTxQueue := qs,
      mutexLowPrioTxQueue := False\<rparr>"
    have u: "unlockLow (oo\<lparr>txAttempts := n, countersBase := cb, countersExt := ce, cc_out := es, lowPrioTxQueue := qs\<rparr>) = Done ?o"
      using Cons.prems(4) by (simp add: unlockLow_def)
    show ?thesis
    proof (cases e)
      case (Some x)
      then show ?thesis using False r u Cons.prems by (simp add: setRxSched_free orderly_def device_up_def del: not_None_eq)
    next
      case None
      have "device_up (high_arrivals env ?o)" "list_all plain (highPrioTxQueue (high_arrivals env ?o))"
        "\<not> mutexRxSchedMap (high_arrivals env ?o)"
        using Cons.prems by (simp_all add: high_arrivals_def device_up_def arrivals_plain_def)
      from high_send_returns [OF this, of env] obtain e2 o2 where o2: "sendQueuedHighPrioRequests env (high_arrivals env ?o) = Done (e2, o2)"
        "\<not> mutexRxSchedMap o2" "list_all plain (highPrioTxQueue o2)" "lowPrioTxQueue o2 = qs" "\<not> mutexLowPrioTxQueue o2"
        "pBaseDeviceHandler o2 = pBaseDeviceHandler oo"
        by (auto simp: high_arrivals_def)
      have up: "device_up o2" using Cons.prems(7) o2(6) by (simp add: device_up_def)
      show ?thesis
      proof (cases e2)
        case (Some x)
        then show ?thesis using False r u None o2 up Cons.prems(2) by (simp add: orderly_def del: not_None_eq)
      next
        case inner: None
        have "\<exists>e oo'. low_loop env qs (o2\<lparr>mutexLowPrioTxQueue := True\<rparr>) = Done (e, oo') \<and> orderly oo' \<and> device_up oo'"
          using Cons.IH [of "o2\<lparr>mutexLowPrioTxQueue := True\<rparr>"] Cons.prems(1,2) o2 up by (simp add: device_up_def)
        then show ?thesis using False r u None inner o2(1,5) by (simp add: lockLow_def del: not_None_eq)
      qed
    qed
  qed
qed

lemma sendQueuedRequests_returns:
  assumes "arrivals_plain env" "orderly oo" "device_up oo"
  shows "\<exists>oo'. sendQueuedRequests env oo = Done oo' \<and> orderly oo' \<and> device_up oo'"
proof -
  obtain e o1 where o1: "sendQueuedHighPrioRequests env oo = Done (e, o1)" "\<not> mutexRxSchedMap o1"
    "list_all plain (highPrioTxQueue o1)" "lowPrioTxQueue o1 = lowPrioTxQueue oo" "\<not> mutexLowPrioTxQueue o1"
    "pBaseDeviceHandler o1 = pBaseDeviceHandler oo"
    using high_send_returns [OF assms(3), of env] assms(2) by (auto simp: orderly_def)
  have up: "device_up o1" and q: "list_all sendable (lowPrioTxQueue o1)"
    using assms(2,3) o1(4,6) by (simp_all add: device_up_def orderly_def)
  show ?thesis
  proof (cases e)
    case (Some x)
    then show ?thesis using o1 up q by (simp add: sendQueuedRequests_def orderly_def)
  next
    case None
    let ?o = "o1\<lparr>mutexLowPrioTxQueue := True\<rparr>"
    obtain e2 o2 where o2: "low_loop env (lowPrioTxQueue o1) ?o = Done (e2, o2)" "orderly o2" "device_up o2"
      using low_loop_returns [OF assms(1) q, of ?o] o1 up by (auto simp: device_up_def)
    have "sendQueuedLowPrioRequests env o1 = low_loop env (lowPrioTxQueue o1) ?o"
      using up o1(5) by (auto simp: sendQueuedLowPrioRequests_def lockLow_def device_up_def split: option.splits)
    then show ?thesis using o1(1) o2 None by (simp add: sendQueuedRequests_def)
  qed
qed

lemma sup_transmit_returns:
  assumes "arrivals_plain env" "orderly oo" "if highPrio req then plain req else sendable req"
  shows "\<exists>b oo'. sup_transmit env req oo = Done (b, oo') \<and> orderly oo'"
proof (cases "device_up oo")
  case True
  let ?o = "registered req (if highPrio req then oo\<lparr>highPrioTxQueue := highPrioTxQueue oo @ [req]\<rparr>
    else oo\<lparr>lowPrioTxQueue := lowPrioTxQueue oo @ [req], mutexLowPrioTxQueue := False\<rparr>)"
  have "orderly ?o" "device_up ?o" using assms(2,3) True by (simp_all add: orderly_def device_up_def registered_def)
  from sendQueuedRequests_returns [OF assms(1) this] obtain o1 where o1: "sendQueuedRequests env ?o = Done o1" "orderly o1" by blast
  have "sup_transmit env req oo = bind_run (sendQueuedRequests env ?o) (\<lambda>oo. Done (True, oo))"
    using assms(2) True
    by (auto simp: sup_transmit_def device_up_def orderly_def pushHigh_def pushLow_def lockLow_def unlockLow_def setRxSched_free
        registered_def split: option.splits)
  then show ?thesis using o1 by auto
next
  case False
  then show ?thesis using assms(2) by (auto simp: sup_transmit_def device_up_def split: option.splits)
qed

lemma sup_loop_ends:
  assumes "arrivals_plain env" "if highPrio req then plain req else sendable req"
    and "orderly oo" "ots_retries req - rc < int (length ocs)"
  shows "\<exists>oo'. sup_loop env req ocs rc oo = Done (Finished oo') \<and> orderly oo'"
  using assms(3,4)
proof (induction ocs arbitrary: rc oo)
  case Nil
  then show ?case by simp
next
  case (Cons oc ocs)
  obtain b o1 where o1: "sup_transmit env req oo = Done (b, o1)" "orderly o1"
    using sup_transmit_returns [OF assms(1) Cons.prems(1) assms(2)] by blast
  have k: "orderly (incrementTxRetries o1)" "orderly (sup_timeout_final req l o1)" for l
    using o1(2) by (simp_all add: orderly_def incrementTxRetries_def sup_timeout_final_def incrementTxTimesouts_def emit_def Let_def)
  show ?case
    using Cons.IH [OF k(1), of "rc + 1"] Cons.prems o1 k by (auto split: outcome.splits)
qed




subsection \<open>Invariants of the channel\<close>

text \<open>
  A predicate that the two transmissions keep, that ignores queues, locks, registrations and
  monitoring, and that no event disturbs, is kept by everything the channel sends. The
  contract is used for the exactness of the statistics and for the identifier ranges.
\<close>

fun is_tx :: "effect \<Rightarrow> bool" where
  "is_tx (TxFrame f) = True"
| "is_tx (TxWindow w) = True"
| "is_tx _ = False"

fun sup_state :: "sup_result \<Rightarrow> OmciCC" where
  "sup_state (Finished oo) = oo"
| "sup_state (WaitingIn oo) = oo"

locale cc_invariant =
  fixes P :: "OmciCC \<Rightarrow> bool"
  assumes P_send: "P oo \<Longrightarrow> sendOMCIRequest env q oo = Done (e, oo') \<Longrightarrow> P oo'"
    and P_window: "P oo \<Longrightarrow> sendOnuSwSectionsOfWindow env q oo = Done (e, oo') \<Longrightarrow> P oo'"
    and P_low: "P (oo\<lparr>lowPrioTxQueue := l\<rparr>) = P oo"
    and P_high: "P (oo\<lparr>highPrioTxQueue := l\<rparr>) = P oo"
    and P_mlow: "P (oo\<lparr>mutexLowPrioTxQueue := b\<rparr>) = P oo"
    and P_mrx: "P (oo\<lparr>mutexRxSchedMap := b\<rparr>) = P oo"
    and P_rx: "P (oo\<lparr>rxSchedulerMap := m\<rparr>) = P oo"
    and P_mon: "P (oo\<lparr>monitoredRequests := x\<rparr>) = P oo"
    and P_chan: "P (oo\<lparr>nextChan := n\<rparr>) = P oo"
    and P_retries: "P (oo\<lparr>txRetries := v\<rparr>) = P oo"
    and P_timeouts: "P (oo\<lparr>txTimeouts := v\<rparr>) = P oo"
    and P_emit: "\<not> is_tx ef \<Longrightarrow> P (emit ef oo) = P oo"
begin

lemmas P_simps = P_low P_high P_mlow P_mrx P_rx P_mon P_chan P_retries P_timeouts P_emit

lemma P_locks:
  "lockLow oo = Done oo' \<Longrightarrow> P oo' = P oo" "unlockLow oo = Done oo' \<Longrightarrow> P oo' = P oo"
  "setRxSched k v oo = Done oo' \<Longrightarrow> P oo' = P oo"
  "pushLow r oo = Done oo' \<Longrightarrow> P oo' = P oo" "pushHigh r oo = Done oo' \<Longrightarrow> P oo' = P oo"
  by (auto simp: lockLow_def unlockLow_def setRxSched_def lockRxSched_def unlockRxSched_def
      pushLow_def pushHigh_def P_simps split: if_splits)

lemma P_high_loop: "high_loop env qs oo = Done (e, oo') \<Longrightarrow> P oo \<Longrightarrow> P oo'"
proof (induction env qs oo arbitrary: e oo' rule: high_loop.induct)
  case (2 env q qs oo)
  show ?case
  proof (cases "te_done env (txAttempts oo)")
    case False
    then obtain e1 o1 where o1: "sendOMCIRequest env q oo = Done (e1, o1)"
      using "2.prems"(1) by (auto simp: bind_run_eq_Done)
    then have P1: "P (o1\<lparr>highPrioTxQueue := qs\<rparr>)" using P_send [OF "2.prems"(2)] by (simp add: P_high)
    show ?thesis
      using 2 False o1 P1 by (cases e1) (auto simp: bind_run_eq_Done Let_def dest: P_locks)
  qed (use 2 in simp)
qed simp

lemma P_sendQueuedHigh: "sendQueuedHighPrioRequests env oo = Done (e, oo') \<Longrightarrow> P oo \<Longrightarrow> P oo'"
  by (auto simp: sendQueuedHighPrioRequests_def split: option.splits if_splits dest: P_high_loop)

lemma P_low_loop: "low_loop env qs oo = Done (e, oo') \<Longrightarrow> P oo \<Longrightarrow> P oo'"
proof (induction env qs oo arbitrary: e oo' rule: low_loop.induct)
  case (1 env oo)
  then show ?case by (auto simp: bind_run_eq_Done dest: P_locks)
next
  case (2 env q qs oo)
  show ?case
  proof (cases "te_done env (txAttempts oo)")
    case True
    with 2 show ?thesis by (auto simp: bind_run_eq_Done dest: P_locks)
  next
    case False
    then obtain e1 o1 o2 where
      o1: "(if OnuSwWindow q \<noteq> None then sendOnuSwSectionsOfWindow env q oo
            else sendOMCIRequest env q oo) = Done (e1, o1)"
      and o2: "unlockLow (o1\<lparr>lowPrioTxQueue := qs\<rparr>) = Done o2"
      using "2.prems"(1) by (auto simp: bind_run_eq_Done simp del: not_None_eq split: prod.splits)
    have P2: "P o2"
      using o1 P_send [OF "2.prems"(2)] P_window [OF "2.prems"(2)] P_locks(2) [OF o2]
      by (auto simp: P_low split: if_splits)
    show ?thesis
    proof (cases e1)
      case (Some x)
      with 2 False o1 o2 P2 show ?thesis
        by (auto simp: bind_run_eq_Done simp del: not_None_eq dest: P_locks)
    next
      case None
      then obtain e3 o3 where o3: "sendQueuedHighPrioRequests env (high_arrivals env o2) = Done (e3, o3)"
        using "2.prems"(1) False o1 o2 by (auto simp: bind_run_eq_Done simp del: not_None_eq)
      have P3: "P o3"
        using P_sendQueuedHigh [OF o3] P2 by (simp add: high_arrivals_def P_high)
      show ?thesis
      proof (cases e3)
        case (Some x)
        with "2.prems" False o1 o2 o3 None P3 show ?thesis
          by (auto simp: bind_run_eq_Done simp del: not_None_eq)
      next
        case inner: None
        obtain o4 where "lockLow o3 = Done o4" "low_loop env qs o4 = Done (e, oo')"
          using "2.prems"(1) False o1 o2 o3 None inner
          by (auto simp: bind_run_eq_Done simp del: not_None_eq)
        with "2.IH" False o1 o2 o3 None inner P3 P_locks(1) show ?thesis by metis
      qed
    qed
  qed
qed

lemma P_sendQueuedRequests: "sendQueuedRequests env oo = Done oo' \<Longrightarrow> P oo \<Longrightarrow> P oo'"
  by (auto simp: sendQueuedRequests_def sendQueuedLowPrioRequests_def bind_run_eq_Done
      split: option.splits if_splits dest!: P_sendQueuedHigh P_low_loop P_locks)

lemma P_sup_transmit: "sup_transmit env req oo = Done (b, oo') \<Longrightarrow> P oo \<Longrightarrow> P oo'"
  by (auto simp: sup_transmit_def bind_run_eq_Done split: option.splits if_splits
      dest!: P_sendQueuedRequests P_locks)

lemma P_sup_final: "P (sup_timeout_final req l oo) = P oo"
  by (simp add: sup_timeout_final_def Let_def incrementTxTimesouts_def P_simps)

lemma P_sup_loop: "sup_loop env req ocs rc oo = Done r \<Longrightarrow> P oo \<Longrightarrow> P (sup_state r)"
proof (induction env req ocs rc oo arbitrary: r rule: sup_loop.induct)
  case (1 env req rc oo)
  then show ?case by (auto simp: bind_run_eq_Done split: if_splits dest: P_sup_transmit)
next
  case (2 env req oc ocs rc oo)
  show ?case
  proof (cases "rc > ots_retries req")
    case False
    then obtain s o1 where o1: "sup_transmit env req oo = Done (s, o1)"
      using "2.prems"(1) by (auto simp: bind_run_eq_Done)
    have P1: "P o1" using P_sup_transmit [OF o1 "2.prems"(2)] .
    show ?thesis
    proof (cases "s \<and> rc < ots_retries req \<and> (\<exists>l. oc = TimeAfter l)")
      case True
      then show ?thesis
        using 2 False o1 P1 by (auto simp: incrementTxRetries_def P_retries)
    next
      case stop: False
      with 2 False o1 P1 show ?thesis
        by (auto simp: P_sup_final split: if_splits outcome.splits)
    qed
  qed (use 2 in auto)
qed

lemma P_unmonitor:
  "P (sup_state (case x of Finished oo \<Rightarrow> Finished (unmonitor t oo) | WaitingIn oo \<Rightarrow> WaitingIn oo)) =
   P (sup_state x)"
  by (cases x) (simp_all add: unmonitor_def P_mon)

lemma P_supervised: "sendWithRxSupervision env req ocs oo = Done r \<Longrightarrow> P oo \<Longrightarrow> P (sup_state r)"
  by (auto simp: sendWithRxSupervision_def Let_def bind_run_eq_Done P_unmonitor P_simps
      dest!: P_sup_loop)

lemma P_process: "processRequestMonitoring env req ocs oo = Done r \<Longrightarrow> P oo \<Longrightarrow> P (sup_state r)"
  by (auto simp: processRequestMonitoring_def bind_run_eq_Done split: if_splits
      dest!: P_sendQueuedRequests P_supervised P_locks)

lemma P_Send:
  assumes "Send env f t rt hp cb ocs oo = Done r" "P oo"
  shows "P (case r of Inl (e, oo') \<Rightarrow> oo' | Inr s \<Rightarrow> sup_state s)"
proof -
  obtain o1 where o1: "P o1" and "bind_run (Done o1) (\<lambda>oo.
       let omciTxRequest = \<lparr> chSuccess = nextChan oo, OnuSwWindow = None, cbPair = cb,
               txFrame = f, ots_timeout = t, ots_retries = rt, highPrio = hp,
               withFramePrint = FramePrint (CbEntry cb) \<rparr>;
           oo = oo\<lparr>nextChan := nextChan oo + 1\<rparr>
       in if map_of (monitoredRequests oo) (CbKey cb) = None
          then bind_run (processRequestMonitoring env omciTxRequest ocs oo) (\<lambda>r. Done (Inr r))
          else Done (Inl (''message with tid is processed already'', oo))) = Done r"
    using assms by (auto simp: Send_def bind_run_eq_Done dest!: P_locks split: if_splits)
  then show ?thesis
    by (auto simp: Let_def bind_run_eq_Done P_simps split: if_splits dest!: P_process)
qed

lemma P_window_loop: "window_loop env req ocs rc oo = Done (e, r) \<Longrightarrow> P oo \<Longrightarrow> P (sup_state r)"
proof (induction env req ocs rc oo arbitrary: e r rule: window_loop.induct)
  case (1 env req rc oo)
  then show ?case
    by (auto simp: bind_run_eq_Done split: if_splits dest!: P_locks P_sendQueuedRequests)
next
  case (2 env req oc ocs rc oo)
  show ?case
  proof (cases "rc > ots_retries req")
    case False
    then obtain o1 o2 o3 where o: "pushLow req oo = Done o1"
      "setRxSched (CbKey (cbPair req)) (Some (CbEntry (cbPair req))) o1 = Done o2"
      "sendQueuedRequests env o2 = Done o3"
      using "2.prems"(1) by (auto simp: bind_run_eq_Done)
    have P3: "P o3"
      using P_sendQueuedRequests [OF o(3)] P_locks(3) [OF o(2)] P_locks(4) [OF o(1)] "2.prems"(2) by simp
    show ?thesis
    proof (cases "rc < ots_retries req \<and> (\<exists>l. oc = TimeAfter l)")
      case True
      then show ?thesis using 2 False o P3 by (auto simp: incrementTxRetries_def P_retries)
    next
      case stop: False
      with 2 False o P3 show ?thesis
        by (auto simp: incrementTxTimesouts_def Let_def P_simps split: if_splits outcome.splits)
    qed
  qed (use 2 in auto)
qed

lemma P_SendWindow:
  assumes "SendOnuSwSectionsWindowWithRxSupervision env req t ch fn ocs oo = Done (e, r)" "P oo"
  shows "P (sup_state r)"
  using assms
  by (auto simp: SendOnuSwSectionsWindowWithRxSupervision_def Let_def bind_run_eq_Done P_unmonitor
      P_simps split: if_splits dest!: P_locks P_window_loop)

end

fun window_rest :: "effect \<Rightarrow> nat" where
  "window_rest (TxWindow w) = length w - 1"
| "window_rest _ = 0"

text \<open>The frame of a transmission that asks for a response, and whether it belongs to the baseline or to the
  extended message set.\<close>

fun asking_frame :: "effect \<Rightarrow> bytes option" where
  "asking_frame (TxFrame f) = Some f"
| "asking_frame (TxWindow w) = Some (last w)"
| "asking_frame _ = None"

definition sent_in :: "bool \<Rightarrow> effect \<Rightarrow> bool" where
  "sent_in baseline e \<longleftrightarrow> (case asking_frame e of None \<Rightarrow> False | Some f \<Rightarrow> (f ! 3 = BaselineIdent) = baseline)"

text \<open>The statistics agree with what was sent, per message set: every transmission ends in one frame that asks
  for a response, and the other sections of a window do not.\<close>

definition counts :: "txRxCounters \<Rightarrow> bool \<Rightarrow> effect list \<Rightarrow> bool" where
  "counts cs baseline es \<longleftrightarrow>
     txArFrames cs = of_nat (length (filter (sent_in baseline) es)) \<and>
     txNoArFrames cs = of_nat (sum_list (map window_rest (filter (sent_in baseline) es)))"

definition stats_exact :: "OmciCC \<Rightarrow> bool" where
  "stats_exact oo \<longleftrightarrow> counts (countersBase oo) True (cc_out oo) \<and> counts (countersExt oo) False (cc_out oo)"

definition tids_in_range :: "OmciCC \<Rightarrow> bool" where
  "tids_in_range oo \<longleftrightarrow> 1 \<le> tid oo \<and> tid oo < 0x8000 \<and> 0x8000 \<le> hpTid oo"

lemma sent_in_not_tx: "\<not> is_tx e \<Longrightarrow> \<not> sent_in b e"
  by (cases e) (auto simp: sent_in_def)

lemma sent_in_tx: "sent_in b (TxFrame f) \<longleftrightarrow> (f ! 3 = BaselineIdent) = b" "sent_in b (TxWindow w) \<longleftrightarrow> (last w ! 3 = BaselineIdent) = b"
  by (simp_all add: sent_in_def)

lemmas send_defs = sendOMCIRequest_def sendOnuSwSectionsOfWindow_def Let_def emit_def counter_defs

interpretation stats: cc_invariant stats_exact
proof (unfold_locales, goal_cases)
  case (1 oo env q e oo')
  then show ?case
    by (auto simp: send_defs stats_exact_def counts_def sent_in_tx cOmciDeviceIdentifierPos_def
        split: option.splits if_splits)
next
  case (2 oo env q e oo')
  then show ?case
    by (auto simp: send_defs stats_exact_def counts_def sent_in_tx cOmciDeviceIdentifierPos_def
        split: option.splits if_splits)
next
  case (12 ef oo)
  then show ?case by (simp add: stats_exact_def counts_def emit_def sent_in_not_tx)
qed (simp_all add: stats_exact_def)

interpretation tids: cc_invariant tids_in_range
  by unfold_locales
    (auto simp: send_defs tids_in_range_def split: option.splits if_splits)

text \<open>C4: The statistics stay exact: after any request, supervised or not, refused or not,
  and after any download window, each of the four transmit counters (baseline and extended message set, frames that
  ask for a response and frames that do not) equals the number of such frames sent, modulo the
  counters' 32 bits. A new channel starts with exact statistics.\<close>

theorem statistics_exact:
  "stats_exact (NewOmciCC d h e a) \<and>
   (stats_exact oo \<longrightarrow> Send env f t rt hp cb ocs oo = Done r \<longrightarrow>
      stats_exact (case r of Inl (err, oo') \<Rightarrow> oo' | Inr s \<Rightarrow> sup_state s)) \<and>
   (stats_exact oo \<longrightarrow>
      SendOnuSwSectionsWindowWithRxSupervision env req t ch fn ocs oo = Done (err, s) \<longrightarrow>
      stats_exact (sup_state s))"
proof (intro conjI impI)
  show "stats_exact (NewOmciCC d h e a)"
    by (simp add: stats_exact_def counts_def NewOmciCC_def zero_counters_def)
qed (auto dest: stats.P_Send stats.P_SendWindow)

theorem statistics_exact_witness:
  "\<exists>s. Send quiet_env [0, 7, 0x49, 0x0A] 0 2 False (cbPair (sample_req 7 7)) []
        (NewOmciCC ''onu'' (Some up_handler) True True) = Done (Inr s) \<and>
     stats_exact (sup_state s) \<and> length (cc_out (sup_state s)) = 1"
proof -
  let ?oo = "NewOmciCC ''onu'' (Some up_handler) True True"
  obtain s where s: "Send quiet_env [0, 7, 0x49, 0x0A] 0 2 False (cbPair (sample_req 7 7)) [] ?oo =
      Done (Inr s)" "length (cc_out (sup_state s)) = 1"
    by (simp add: Send_def processRequestMonitoring_def Let_def sample_req_def zero_ots_def
        NewOmciCC_def up_handler_def pushLow_def lockLow_def unlockLow_def
        sendQueuedRequests_def sendQueuedHighPrioRequests_def sendQueuedLowPrioRequests_def
        sendOMCIRequest_def quiet_env_def cOmciDeviceIdentifierPos_def BaselineIdent_def
        incrementBaseTxArFrames_def emit_def high_arrivals_def)
  moreover have "stats_exact ?oo"
    using statistics_exact [where d = "''onu''" and h = "Some up_handler" and e = True and a = True]
    by blast
  ultimately show ?thesis
    using statistics_exact [where oo = ?oo and r = "Inr s" and env = quiet_env
        and f = "[0, 7, 0x49, 0x0A]" and t = 0 and rt = 2 and hp = False
        and cb = "cbPair (sample_req 7 7)" and ocs = "[]"]
    by auto
qed

text \<open>Stopping the channel, when its locks are free, leaves it with the data of a new
  one: empty queues, no registration, first identifiers, zero counters. Only the
  supervisions that do not wait at that moment stay monitored.\<close>

theorem Stop_resets:
  assumes "\<not> mutexLowPrioTxQueue oo" "\<not> mutexRxSchedMap oo"
  shows "\<exists>oo'. Stop ready oo = Done oo' \<and>
    oo' = (NewOmciCC (cc_deviceID oo) (pBaseDeviceHandler oo) (pOnuDeviceEntry oo) (pOnuAlarmManager oo))
      \<lparr>monitoredRequests := monitoredRequests oo, cc_enabled := cc_enabled oo,
        supportExtMsg := supportExtMsg oo, nextChan := nextChan oo, txAttempts := txAttempts oo,
        cc_out := cc_out oo @ map (\<lambda>(k, r). SuccessSignal (chSuccess r) False)
                               (filter (\<lambda>(k, r). ready k) (monitoredRequests oo))\<rparr>"
proof -
  have cancel: "fold (\<lambda>(k, r) oo. if ready k then emit (SuccessSignal (chSuccess r) False) oo else oo) rs oo =
     oo\<lparr>cc_out := cc_out oo @ map (\<lambda>(k, r). SuccessSignal (chSuccess r) False)
                               (filter (\<lambda>(k, r). ready k) rs)\<rparr>" for rs oo
    by (induction rs arbitrary: oo) (auto simp: emit_def)
  show ?thesis
    using assms
    by (simp add: Stop_def CancelRequestMonitoring_def cancel lockLow_def unlockLow_def lockRxSched_def
        unlockRxSched_def ResetConfFailMEs_def NewOmciCC_def Let_def)
qed

theorem Stop_resets_witness:
  "\<exists>oo'. Stop (\<lambda>k. True) ((NewOmciCC ''onu'' None True True)\<lparr>tid := 99, txRetries := 4\<rparr>) = Done oo' \<and>
     tid oo' = 1 \<and> txRetries oo' = 0"
  using Stop_resets [of "(NewOmciCC ''onu'' None True True)\<lparr>tid := 99, txRetries := 4\<rparr>" "\<lambda>k. True"]
  by (auto simp: NewOmciCC_def)

end
