(* ===== verification/Omci_Rx.thy ===== *)
theory Omci_Rx
  imports Omci_Tx
begin

text \<open>
  The receive side of the OMCI channel, \<^verbatim>\<open>internal/pkg/common/omci_cc.go\<close>: the check and
  correction of a received frame, the dispatch of responses to their registered callbacks,
  the decision whether a response advances the MIB data sync counter, and the callback that
  hands a response to a state machine. The decoding of the packet library is an argument.
  The properties say what frames are accepted, that a response reaches its requester exactly
  once, and what an undecodable response does to the channel.
\<close>

subsection \<open>Decoded packets\<close>

definition AK :: u8 where "AK = 0x20"
definition AR :: u8 where "AR = 0x40"

definition CreateResponseType :: u8 where "CreateResponseType = 4 OR AK"
definition DeleteResponseType :: u8 where "DeleteResponseType = 6 OR AK"
definition SetResponseType :: u8 where "SetResponseType = 8 OR AK"
definition GetResponseType :: u8 where "GetResponseType = 9 OR AK"
definition MibUploadNextResponseType :: u8 where "MibUploadNextResponseType = 14 OR AK"
definition TestResponseType :: u8 where "TestResponseType = 18 OR AK"
definition StartSoftwareDownloadResponseType :: u8 where "StartSoftwareDownloadResponseType = 19 OR AK"
definition EndSoftwareDownloadResponseType :: u8 where "EndSoftwareDownloadResponseType = 21 OR AK"
definition ActivateSoftwareResponseType :: u8 where "ActivateSoftwareResponseType = 22 OR AK"
definition CommitSoftwareResponseType :: u8 where "CommitSoftwareResponseType = 23 OR AK"
definition AlarmNotificationType :: u8 where "AlarmNotificationType = 16"
definition AttributeValueChangeType :: u8 where "AttributeValueChangeType = 17"
definition TestResultType :: u8 where "TestResultType = 27"

definition responsesWithMibDataSync :: "u8 list" where
  "responsesWithMibDataSync =
     [CreateResponseType, DeleteResponseType, SetResponseType, StartSoftwareDownloadResponseType,
      EndSoftwareDownloadResponseType, ActivateSoftwareResponseType, CommitSoftwareResponseType]"

lemmas msg_type_defs = AK_def AR_def CreateResponseType_def DeleteResponseType_def
  SetResponseType_def GetResponseType_def MibUploadNextResponseType_def TestResponseType_def
  StartSoftwareDownloadResponseType_def EndSoftwareDownloadResponseType_def
  ActivateSoftwareResponseType_def CommitSoftwareResponseType_def AlarmNotificationType_def
  AttributeValueChangeType_def TestResultType_def

record omci_msg =
  TransactionID :: u16
  MessageType :: u8

datatype omci_layer = OmciLayer omci_msg | OtherLayer

datatype failure = DecodeFailure string | OtherFailure

text \<open>The layer of the message type: its result field, and for a Get response whether the next
  layer is that of unknown attributes.\<close>

record msg_layer =
  ml_Result :: u8
  ml_nextUnknownAttributes :: bool

record packet =
  p_omci :: "omci_layer option"
  p_msgLayer :: "msg_layer option"
  p_errorLayer :: "failure option"
  p_unknownAttributes :: bool

text \<open>The message types that \<^verbatim>\<open>omci.MsgTypeToNextLayer\<close> maps to a layer. The mapping is one to
  one, so a layer is named by its message type.\<close>

definition request_codes :: "u8 list" where
  "request_codes = [4, 6, 8, 9, 11, 12, 13, 14, 15, 18, 19, 20, 21, 22, 23, 24, 25, 26, 28, 29]"

definition plain_types :: "u8 list" where
  "plain_types = map (\<lambda>c. c OR AR) request_codes @ map (\<lambda>c. c OR AK) request_codes @ [20, 16, 17, 27]"

definition MsgTypeToNextLayer :: "u8 \<Rightarrow> u8 option" where
  "MsgTypeToNextLayer mt =
     (if mt \<in> set plain_types \<or>
         mt \<in> set (map (\<lambda>c. c OR 0x80) (filter (\<lambda>c. c \<noteq> 18 OR AR \<and> c \<noteq> 18 OR AK) plain_types))
      then Some mt else None)"

definition contains :: "string \<Rightarrow> string \<Rightarrow> bool" where
  "contains s sub \<longleftrightarrow> list_ex (\<lambda>i. take (length sub) (drop i s) = sub) [0..<length s + 1]"

definition to_lower :: "string \<Rightarrow> string" where
  "to_lower s = map (\<lambda>c. if is_upper c then char_of (char_code c + 32) else c) s"

definition isSuccessfulResponseWithMibDataSync :: "omci_msg \<Rightarrow> packet \<Rightarrow> string + bool" where
  "isSuccessfulResponseWithMibDataSync omciMsg packet =
     (case MsgTypeToNextLayer (MessageType omciMsg) of
        None \<Rightarrow> Inl ''could not map msgType to nextLayer''
      | Some nextLayer \<Rightarrow>
          (case p_msgLayer packet of
             Some msgLayer \<Rightarrow>
               (case p_errorLayer packet of
                  Some failure \<Rightarrow>
                    if nextLayer = MibUploadNextResponseType then Inr False
                    else if nextLayer = GetResponseType \<and> ml_nextUnknownAttributes msgLayer \<and>
                            p_unknownAttributes packet
                    then Inl ''packet contains unknownAttrLayer''
                    else (case failure of
                            DecodeFailure m \<Rightarrow> Inl ''packet contains ErrorLayer with further info''
                          | OtherFailure \<Rightarrow> Inl ''packet contains ErrorLayer'')
                | None \<Rightarrow>
                    Inr (list_ex (\<lambda>v. v = MessageType omciMsg \<and> nextLayer \<in> set responsesWithMibDataSync \<and>
                                      ml_Result msgLayer = 0) responsesWithMibDataSync))
           | None \<Rightarrow>
               (case p_errorLayer packet of
                  Some (DecodeFailure errMsg) \<Rightarrow>
                    if nextLayer = MibUploadNextResponseType \<and> contains (to_lower errMsg) ''table decode''
                    then Inr False
                    else Inl ''could not decode msgLayer of packet, further info available''
                | Some OtherFailure \<Rightarrow> Inl ''could not decode msgLayer of packet, ErrorLayer available''
                | None \<Rightarrow> Inl ''could not decode msgLayer of packet'')))"

subsection \<open>Receiving\<close>

definition receiveOnuMessage :: "omci_msg \<Rightarrow> OmciCC \<Rightarrow> (string option \<times> OmciCC) run" where
  "receiveOnuMessage omciMsg oo =
     (if MessageType omciMsg = AlarmNotificationType then
        (if pOnuAlarmManager oo then Done (None, emit (AlarmToManager (TransactionID omciMsg)) oo)
         else Fatal ''invalid memory address or nil pointer dereference'')
      else Done (Some ''receiveOnuMessageType unimplemented'', oo))"

text \<open>The check of the frame: an error, or the frame with its trailer put right and the
  remembered frame error.\<close>

definition check_frame :: "bytes \<Rightarrow> tOmciReceiveError \<Rightarrow> string + bytes \<times> tOmciReceiveError" where
  "check_frame rxMsg frameError =
     (if length rxMsg < 10 then Inl ''rxOmciMessage has wrong length in general - abort''
      else if rxMsg ! cOmciDeviceIdentifierPos = BaselineIdent then
        (if length rxMsg \<ge> 44 then
           let trailerLen = be_uint16 (take 2 (drop 42 rxMsg)) in
           (if trailerLen \<noteq> of_nat cOmciBaseMessageTrailerLen
            then Inr (take 42 rxMsg @ put_uint16 (of_nat cOmciBaseMessageTrailerLen) @ drop 44 rxMsg,
                      cOmciMessageReceiveErrorTrailerLen)
            else Inr (rxMsg, frameError))
         else if length rxMsg \<ge> cOmciBaseMessageTrailerLen then
           let trailer = [0, 0] @ put_uint16 (of_nat cOmciBaseMessageTrailerLen) @ [0, 0, 0, 0] in
           Inr (take cOmciBaseMessageTrailerLen rxMsg @ trailer, cOmciMessageReceiveErrorMissTrailer)
         else Inl ''rxOmciMessage too small for BaseFormat'')
      else if rxMsg ! cOmciDeviceIdentifierPos = ExtendedIdent then
        (if length rxMsg > 1980 then Inl ''rxOmciMessage has wrong length for OmciExtendedFormat''
         else Inr (rxMsg, frameError))
      else Inl ''rxOmciMessage has wrong Device Identifier'')"

definition countRxAk :: "bytes \<Rightarrow> OmciCC \<Rightarrow> OmciCC" where
  "countRxAk rxMsg oo =
     (if rxMsg ! cOmciDeviceIdentifierPos = BaselineIdent
      then incrementBaseRxAkFrames oo else incrementExtRxAkFrames oo)"

definition countRxNoAk :: "bytes \<Rightarrow> OmciCC \<Rightarrow> OmciCC" where
  "countRxNoAk rxMsg oo =
     (if rxMsg ! cOmciDeviceIdentifierPos = BaselineIdent
      then incrementBaseRxNoAkFrames oo else incrementExtRxNoAkFrames oo)"

definition dispatch_response :: "bytes \<Rightarrow> packet \<Rightarrow> omci_msg \<Rightarrow> OmciCC \<Rightarrow> (string option \<times> OmciCC) run" where
  "dispatch_response rxMsg packet omciMsg oo =
     bind_run (lockRxSched oo) (\<lambda>oo.
       case rxSchedulerMap oo (TransactionID omciMsg) of
         Some rxCallbackEntry \<Rightarrow>
           (case CbFunction rxCallbackEntry of
              Some fn \<Rightarrow>
                let oo = countRxAk rxMsg oo;
                    oo = emit (RunCallback fn (TransactionID omciMsg)) oo
                in (case isSuccessfulResponseWithMibDataSync omciMsg packet of
                      Inl err \<Rightarrow> Done (Some ''could not decode further layers'', oo)
                    | Inr isSuccessfulResponse \<Rightarrow>
                        let oo = (if isSuccessfulResponse then emit MibDataSyncIncremented oo else oo);
                            oo = (if MessageType omciMsg \<noteq> TestResponseType
                                  then oo\<lparr>rxSchedulerMap := (rxSchedulerMap oo)(TransactionID omciMsg := None)\<rparr>
                                  else oo)
                        in bind_run (unlockRxSched oo) (\<lambda>oo. Done (None, oo)))
            | None \<Rightarrow> bind_run (unlockRxSched oo) (\<lambda>oo.
                Done (Some ''could not find registered response handler tor transCorrId'', oo)))
       | None \<Rightarrow> bind_run (unlockRxSched oo) (\<lambda>oo.
           Done (Some ''could not find registered response handler tor transCorrId'', oo)))"

definition dispatch_autonomous :: "bytes \<Rightarrow> omci_msg \<Rightarrow> OmciCC \<Rightarrow> (string option \<times> OmciCC) run" where
  "dispatch_autonomous rxMsg omciMsg oo =
     (if TransactionID omciMsg = 0 then
        receiveOnuMessage omciMsg (countRxNoAk rxMsg oo)
      else bind_run (setRxSched (TransactionID omciMsg) None oo) (\<lambda>oo.
             Done (Some ''autonomous Omci Message with TranSCorrId != 0 not acccepted'', oo)))"

definition ReceiveMessage ::
    "(bytes \<Rightarrow> packet option) \<Rightarrow> bytes \<Rightarrow> OmciCC \<Rightarrow> (string option \<times> OmciCC) run" where
  "ReceiveMessage decode rxMsg oo =
     (case check_frame rxMsg (rxOmciFrameError oo) of
        Inl err \<Rightarrow> Done (Some err, oo)
      | Inr (rxMsg, frameError) \<Rightarrow>
          let oo = oo\<lparr>rxOmciFrameError := frameError\<rparr> in
          (case decode rxMsg of
             None \<Rightarrow> Done (Some ''could not decode rxMsg as OMCI'', oo)
           | Some packet \<Rightarrow>
               (case p_omci packet of
                  None \<Rightarrow> Done (Some ''could not decode omci layer'', oo)
                | Some OtherLayer \<Rightarrow> Done (Some ''could not assign omci layer'', oo)
                | Some (OmciLayer omciMsg) \<Rightarrow>
                    if MessageType omciMsg AND AK = 0 \<and> MessageType omciMsg \<noteq> TestResultType
                    then dispatch_autonomous rxMsg omciMsg oo
                    else dispatch_response rxMsg packet omciMsg oo)))"

text \<open>The registered callback. \<open>ready\<close> tells whether the supervision of the request waits;
  the blocking send to the state machine ends in one of three ways.\<close>

datatype resp_send = Delivered | DeviceContextDone | ChannelClosed

definition receiveOmciResponse ::
    "bool \<Rightarrow> resp_send \<Rightarrow> omci_msg \<Rightarrow> nat \<Rightarrow> OmciCC \<Rightarrow> string option \<times> OmciCC" where
  "receiveOmciResponse ready how omciMsg respChan oo =
     (if \<not> pOnuDeviceEntry oo then (Some ''deviceEntryPointer is nil'', oo)
      else
        let oo = (case map_of (monitoredRequests oo) (TransactionID omciMsg) of
                    Some r \<Rightarrow> if ready then emit (SuccessSignal (chSuccess r) True) oo else oo
                  | None \<Rightarrow> oo)
        in if pBaseDeviceHandler oo = None then (None, oo)
           else (case how of
                   Delivered \<Rightarrow> (None, emit (MessageToFsm respChan (TransactionID omciMsg)) oo)
                 | _ \<Rightarrow> (None, oo)))"


subsection \<open>Frames\<close>

lemma check_frame_again:
  "check_frame m e0 = Inr (m', e) \<Longrightarrow> check_frame m e = Inr (m', e)"
  by (auto simp: check_frame_def Let_def split: if_splits)

lemma be_uint16_prefix: "be_uint16 (put_uint16 v @ xs) = v"
proof -
  have "be_uint16 (put_uint16 v @ xs) = be_uint16 (put_uint16 v)"
    by (simp add: be_uint16_def put_uint16_def)
  then show ?thesis by simp
qed

text \<open>A baseline frame that is accepted carries the trailer length 40 at octets 42 and 43
  and is at least 44 octets long, with its first 40 octets as received; an extended frame
  of at most 1980 octets passes unchanged. Checking an accepted frame again changes nothing.\<close>

theorem accepted_frame:
  assumes "check_frame m e0 = Inr (m', e)"
  shows "(m ! 3 = BaselineIdent \<longrightarrow>
            44 \<le> length m' \<and> be_uint16 (take 2 (drop 42 m')) = 40 \<and> take 40 m' = take 40 m) \<and>
         (m ! 3 = ExtendedIdent \<longrightarrow> m' = m \<and> length m \<le> 1980) \<and>
         (m ! 3 = BaselineIdent \<or> m ! 3 = ExtendedIdent) \<and>
         check_frame m' e = Inr (m', e)"
proof -
  have ne: "BaselineIdent \<noteq> ExtendedIdent" by (simp add: BaselineIdent_def ExtendedIdent_def)
  have pos: "cOmciDeviceIdentifierPos = 3" "cOmciBaseMessageTrailerLen = 40"
    by (simp_all add: cOmciDeviceIdentifierPos_def cOmciBaseMessageTrailerLen_def)
  consider (long) "m ! 3 = BaselineIdent" "44 \<le> length m" "be_uint16 (take 2 (drop 42 m)) \<noteq> 40"
        "m' = take 42 m @ put_uint16 40 @ drop 44 m"
    | (short) "m ! 3 = BaselineIdent" "40 \<le> length m" "length m < 44"
        "m' = take 40 m @ [0, 0] @ put_uint16 40 @ [0, 0, 0, 0]"
    | (good) "m ! 3 = BaselineIdent" "44 \<le> length m" "be_uint16 (take 2 (drop 42 m)) = 40" "m' = m" "e = e0"
    | (ext) "m ! 3 = ExtendedIdent" "m ! 3 \<noteq> BaselineIdent" "m' = m" "length m \<le> 1980" "e = e0"
    using assms by (auto simp: check_frame_def pos Let_def split: if_splits)
  then show ?thesis
  proof cases
    case long
    have l: "44 \<le> length m'" "m' ! 3 = BaselineIdent" "take 40 m' = take 40 m"
      using long by (simp_all add: nth_append)
    have "drop 42 m' = put_uint16 40 @ drop 44 m" using long by simp
    then have "be_uint16 (take 2 (drop 42 m')) = 40" using be_uint16_prefix [of 40 "[]"] by simp
    with l long ne show ?thesis by (simp add: check_frame_def pos)
  next
    case short
    have l: "44 \<le> length m'" "m' ! 3 = BaselineIdent" "take 40 m' = take 40 m"
      using short by (simp_all add: nth_append)
    have "drop 42 m' = put_uint16 40 @ [0, 0, 0, 0]" using short by simp
    then have "be_uint16 (take 2 (drop 42 m')) = 40" using be_uint16_prefix [of 40 "[]"] by simp
    with l short ne show ?thesis by (simp add: check_frame_def pos)
  next
    case good
    with assms ne show ?thesis by simp
  next
    case ext
    with assms show ?thesis by simp
  qed
qed

theorem accepted_frame_witness:
  "let m = replicate 3 0 @ [BaselineIdent] @ replicate 40 0 in
   \<exists>m' e. check_frame m cOmciMessageReceiveNoError = Inr (m', e) \<and>
     be_uint16 (take 2 (drop 42 m')) = 40 \<and> e = cOmciMessageReceiveErrorTrailerLen"
proof -
  let ?m = "replicate 3 0 @ [BaselineIdent] @ replicate 40 0"
  let ?m' = "take 42 ?m @ put_uint16 40 @ drop 44 ?m"
  have c: "check_frame ?m cOmciMessageReceiveNoError = Inr (?m', cOmciMessageReceiveErrorTrailerLen)"
    by code_simp
  have "?m ! 3 = BaselineIdent" by (simp add: nth_append)
  with accepted_frame [OF c] c show ?thesis by (simp add: Let_def)
qed

subsection \<open>Responses\<close>

lemma countRxAk_fields [frame_simps]:
  "cc_out (countRxAk m oo) = cc_out oo" "rxSchedulerMap (countRxAk m oo) = rxSchedulerMap oo"
  "mutexRxSchedMap (countRxAk m oo) = mutexRxSchedMap oo"
  "rxOmciFrameError (countRxAk m oo) = rxOmciFrameError oo"
  "monitoredRequests (countRxAk m oo) = monitoredRequests oo"
  "pOnuDeviceEntry (countRxAk m oo) = pOnuDeviceEntry oo"
  "pBaseDeviceHandler (countRxAk m oo) = pBaseDeviceHandler oo"
  by (simp_all add: countRxAk_def incrementBaseRxAkFrames_def incrementExtRxAkFrames_def)

text \<open>The state after a decodable response to a registered request.\<close>

definition after_response :: "bytes \<Rightarrow> nat \<Rightarrow> u16 \<Rightarrow> bool \<Rightarrow> OmciCC \<Rightarrow> OmciCC" where
  "after_response m fn t synced oo =
     (countRxAk m (oo\<lparr>mutexRxSchedMap := True\<rparr>))
       \<lparr>cc_out := cc_out oo @ RunCallback fn t # (if synced then [MibDataSyncIncremented] else []),
        rxSchedulerMap := (rxSchedulerMap oo)(t := None), mutexRxSchedMap := False\<rparr>"

lemma after_response_fields [frame_simps]:
  "cc_out (after_response m fn t b oo) =
     cc_out oo @ RunCallback fn t # (if b then [MibDataSyncIncremented] else [])"
  "rxSchedulerMap (after_response m fn t b oo) = (rxSchedulerMap oo)(t := None)"
  "mutexRxSchedMap (after_response m fn t b oo) = False"
  "rxOmciFrameError (after_response m fn t b oo) = rxOmciFrameError oo"
  "monitoredRequests (after_response m fn t b oo) = monitoredRequests oo"
  "pOnuDeviceEntry (after_response m fn t b oo) = pOnuDeviceEntry oo"
  "pBaseDeviceHandler (after_response m fn t b oo) = pBaseDeviceHandler oo"
  by (simp_all add: after_response_def countRxAk_fields)

lemma dispatch_response_ok:
  assumes "MessageType msg \<noteq> TestResponseType" "rxSchedulerMap oo (TransactionID msg) = Some entry"
    and "CbFunction entry = Some fn" "isSuccessfulResponseWithMibDataSync msg pk = Inr synced"
    and "\<not> mutexRxSchedMap oo"
  shows "dispatch_response m pk msg oo = Done (None, after_response m fn (TransactionID msg) synced oo)"
  using assms
  by (cases synced) (simp_all add: dispatch_response_def lockRxSched_def unlockRxSched_def Let_def
      emit_def countRxAk_fields after_response_def cong: if_cong)

lemma ReceiveMessage_response:
  assumes "check_frame m (rxOmciFrameError oo) = Inr (m', fe)" "decode m' = Some pk"
    and "p_omci pk = Some (OmciLayer msg)" "MessageType msg AND AK \<noteq> 0"
  shows "ReceiveMessage decode m oo = dispatch_response m' pk msg (oo\<lparr>rxOmciFrameError := fe\<rparr>)"
  using assms by (simp add: ReceiveMessage_def Let_def)

text \<open>A test response keeps its registration, because the result of the test follows it.\<close>

definition after_test_response :: "bytes \<Rightarrow> nat \<Rightarrow> u16 \<Rightarrow> bool \<Rightarrow> OmciCC \<Rightarrow> OmciCC" where
  "after_test_response m fn t synced oo =
     (after_response m fn t synced oo)\<lparr>rxSchedulerMap := rxSchedulerMap oo\<rparr>"

lemma dispatch_test_response_ok:
  assumes "MessageType msg = TestResponseType" "rxSchedulerMap oo (TransactionID msg) = Some entry"
    and "CbFunction entry = Some fn" "isSuccessfulResponseWithMibDataSync msg pk = Inr synced"
    and "\<not> mutexRxSchedMap oo"
  shows "dispatch_response m pk msg oo = Done (None, after_test_response m fn (TransactionID msg) synced oo)"
  using assms
  by (cases synced) (simp_all add: dispatch_response_def lockRxSched_def unlockRxSched_def Let_def
      emit_def countRxAk_fields after_response_def after_test_response_def cong: if_cong)

text \<open>C3: A response whose layers can be decoded is handed to the callback registered for its transaction
  identifier and to no other, once. After any response but a test response the registration is removed, and the
  same frame received again is refused without a callback. After a test response the registration stays for
  the result of the test, so the same frame received again runs the callback again. In both cases the
  other registrations are untouched and the lock is free.\<close>

theorem response_delivered_once:
  assumes "check_frame m (rxOmciFrameError oo) = Inr (m', fe)" "decode m' = Some pk"
    and "p_omci pk = Some (OmciLayer msg)" "MessageType msg AND AK \<noteq> 0"
    and "rxSchedulerMap oo (TransactionID msg) = Some entry" "CbFunction entry = Some fn"
    and "isSuccessfulResponseWithMibDataSync msg pk = Inr synced" "\<not> mutexRxSchedMap oo"
    and es: "es = RunCallback fn (TransactionID msg) # (if synced then [MibDataSyncIncremented] else [])"
  shows "\<exists>oo'. ReceiveMessage decode m oo = Done (None, oo') \<and> cc_out oo' = cc_out oo @ es \<and> \<not> mutexRxSchedMap oo' \<and>
    rxSchedulerMap oo' = (if MessageType msg = TestResponseType then rxSchedulerMap oo
                          else (rxSchedulerMap oo)(TransactionID msg := None)) \<and>
    (if MessageType msg = TestResponseType
     then \<exists>oo''. ReceiveMessage decode m oo' = Done (None, oo'') \<and> cc_out oo'' = cc_out oo' @ es
     else \<exists>err oo''. ReceiveMessage decode m oo' = Done (Some err, oo'') \<and> cc_out oo'' = cc_out oo')"
proof (cases "MessageType msg = TestResponseType")
  case True
  let ?t = "TransactionID msg"
  have r: "ReceiveMessage decode x o1 = Done (None, after_test_response m' fn ?t synced (o1\<lparr>rxOmciFrameError := fe\<rparr>))"
    if "check_frame x (rxOmciFrameError o1) = Inr (m', fe)" "rxSchedulerMap o1 ?t = Some entry" "\<not> mutexRxSchedMap o1" for x o1
    using ReceiveMessage_response [of x o1 m' fe decode pk msg] that True assms(2-4,6,7) by (simp add: dispatch_test_response_ok)
  let ?o = "after_test_response m' fn ?t synced (oo\<lparr>rxOmciFrameError := fe\<rparr>)"
  have f: "rxOmciFrameError ?o = fe" "rxSchedulerMap ?o = rxSchedulerMap oo" "\<not> mutexRxSchedMap ?o" "cc_out ?o = cc_out oo @ es"
    by (simp_all add: after_test_response_def after_response_fields es)
  have "ReceiveMessage decode m ?o = Done (None, after_test_response m' fn ?t synced (?o\<lparr>rxOmciFrameError := fe\<rparr>))"
    using r [of m ?o] check_frame_again [OF assms(1)] f assms(5) by simp
  moreover have "cc_out (after_test_response m' fn ?t synced (?o\<lparr>rxOmciFrameError := fe\<rparr>)) = cc_out ?o @ es"
    by (simp add: after_test_response_def after_response_fields es)
  ultimately show ?thesis using r [OF assms(1,5,8)] f True by auto
next
  case False
  let ?t = "TransactionID msg"
  let ?oo = "after_response m' fn ?t synced (oo\<lparr>rxOmciFrameError := fe\<rparr>)"
  have first: "ReceiveMessage decode m oo = Done (None, ?oo)"
    using ReceiveMessage_response [of m oo m' fe decode pk msg] assms False by (simp add: dispatch_response_ok)
  have idem: "?oo\<lparr>rxOmciFrameError := fe\<rparr> = ?oo" by (simp add: after_response_fields)
  have "ReceiveMessage decode m ?oo = dispatch_response m' pk msg (?oo\<lparr>rxOmciFrameError := fe\<rparr>)"
    using ReceiveMessage_response [of m ?oo m' fe decode pk msg] check_frame_again [OF assms(1)] assms(2-4)
    by (simp add: after_response_fields)
  also have "\<dots> = dispatch_response m' pk msg ?oo" unfolding idem ..
  also have "\<dots> = Done (Some ''could not find registered response handler tor transCorrId'', ?oo)"
    by (simp add: dispatch_response_def lockRxSched_def unlockRxSched_def after_response_fields)
  finally have again: "ReceiveMessage decode m ?oo =
    Done (Some ''could not find registered response handler tor transCorrId'', ?oo)" .
  show ?thesis
    by (rule exI [of _ ?oo]) (use first again False in \<open>simp add: after_response_fields fun_upd_def es\<close>)
qed

definition sample_packet :: "u16 \<Rightarrow> u8 \<Rightarrow> packet" where
  "sample_packet t mt = \<lparr> p_omci = Some (OmciLayer \<lparr> TransactionID = t, MessageType = mt \<rparr>),
     p_msgLayer = Some \<lparr> ml_Result = 0, ml_nextUnknownAttributes = False \<rparr>, p_errorLayer = None,
     p_unknownAttributes = False \<rparr>"

definition sample_entry :: CallbackPairEntry where
  "sample_entry = \<lparr> CbRespChannel = 5, CbFunction = Some 1, FramePrint = True \<rparr>"

definition sample_rx :: bytes where
  "sample_rx = [0, 7, 0x28, 0x0B, 0, 7, 0, 0, 0, 0]"

lemma sample_rx_ok: "check_frame sample_rx e = Inr (sample_rx, e)"
  by (simp add: check_frame_def sample_rx_def cOmciDeviceIdentifierPos_def BaselineIdent_def
      ExtendedIdent_def)

lemma sample_set_response:
  "isSuccessfulResponseWithMibDataSync \<lparr> TransactionID = 7, MessageType = SetResponseType \<rparr>
     (sample_packet 7 SetResponseType) = Inr True"
  by code_simp

theorem response_delivered_once_witness:
  "let oo = (NewOmciCC ''onu'' (Some up_handler) True True)\<lparr>rxSchedulerMap := [7 \<mapsto> sample_entry]\<rparr>;
       decode = (\<lambda>m. Some (sample_packet 7 SetResponseType))
   in \<exists>oo'. ReceiveMessage decode sample_rx oo = Done (None, oo') \<and>
        cc_out oo' = [RunCallback 1 7, MibDataSyncIncremented]"
proof -
  let ?oo = "(NewOmciCC ''onu'' (Some up_handler) True True)\<lparr>rxSchedulerMap := [7 \<mapsto> sample_entry]\<rparr>"
  let ?msg = "\<lparr> TransactionID = 7, MessageType = SetResponseType \<rparr>"
  have "MessageType ?msg AND AK \<noteq> 0" "MessageType ?msg \<noteq> TestResponseType"
    by (simp_all add: msg_type_defs)
  then show ?thesis
    using response_delivered_once [of sample_rx ?oo sample_rx cOmciMessageReceiveNoError
        "\<lambda>m. Some (sample_packet 7 SetResponseType)" "sample_packet 7 SetResponseType" ?msg sample_entry 1 True
        "[RunCallback 1 7, MibDataSyncIncremented]"]
      sample_rx_ok [of cOmciMessageReceiveNoError] sample_set_response
    by (auto simp: NewOmciCC_def sample_packet_def sample_entry_def)
qed

text \<open>A response whose further layers cannot be decoded runs its callback but leaves the
  scheduler mutex locked: the next response and the next supervised request block for
  ever.\<close>

theorem undecodable_response_blocks_channel:
  assumes "check_frame m (rxOmciFrameError oo) = Inr (m', fe)" "decode m' = Some pk"
    and "p_omci pk = Some (OmciLayer msg)" "MessageType msg AND AK \<noteq> 0"
    and "rxSchedulerMap oo (TransactionID msg) = Some entry" "CbFunction entry = Some fn"
    and "isSuccessfulResponseWithMibDataSync msg pk = Inl err" "\<not> mutexRxSchedMap oo"
  shows "\<exists>oo'. ReceiveMessage decode m oo = Done (Some ''could not decode further layers'', oo') \<and>
    ReceiveMessage decode m oo' = Deadlock \<and>
    (\<forall>env f t rt hp cb ocs. t \<noteq> 0 \<longrightarrow> Send env f t rt hp cb ocs oo' = Deadlock)"
proof -
  let ?oo = "emit (RunCallback fn (TransactionID msg))
    (countRxAk m' (oo\<lparr>rxOmciFrameError := fe, mutexRxSchedMap := True\<rparr>))"
  have first: "ReceiveMessage decode m oo = Done (Some ''could not decode further layers'', ?oo)"
    using ReceiveMessage_response [of m oo m' fe decode pk msg] assms
    by (simp add: dispatch_response_def lockRxSched_def Let_def)
  have fields: "rxOmciFrameError ?oo = fe" "mutexRxSchedMap ?oo"
    by (simp_all add: emit_def countRxAk_fields)
  have "ReceiveMessage decode m ?oo = Deadlock"
    using ReceiveMessage_response [of m ?oo m' fe decode pk msg] check_frame_again [OF assms(1)]
      assms(2-4) fields by (simp add: dispatch_response_def lockRxSched_def emit_def)
  moreover have "t \<noteq> 0 \<Longrightarrow> Send env f t rt hp cb ocs ?oo = Deadlock" for env f t rt hp cb ocs
    using fields by (simp add: Send_def setRxSched_def lockRxSched_def)
  ultimately show ?thesis using first by blast
qed

theorem undecodable_response_blocks_channel_witness:
  "let oo = (NewOmciCC ''onu'' (Some up_handler) True True)\<lparr>rxSchedulerMap := [7 \<mapsto> sample_entry]\<rparr>;
       decode = (\<lambda>m. Some ((sample_packet 7 SetResponseType)\<lparr>p_msgLayer := None\<rparr>))
   in \<exists>oo'. ReceiveMessage decode sample_rx oo = Done (Some ''could not decode further layers'', oo') \<and>
        ReceiveMessage decode sample_rx oo' = Deadlock"
proof -
  let ?oo = "(NewOmciCC ''onu'' (Some up_handler) True True)\<lparr>rxSchedulerMap := [7 \<mapsto> sample_entry]\<rparr>"
  let ?msg = "\<lparr> TransactionID = 7, MessageType = SetResponseType \<rparr>"
  let ?pk = "(sample_packet 7 SetResponseType)\<lparr>p_msgLayer := None\<rparr>"
  have "MessageType ?msg AND AK \<noteq> 0" by (simp add: msg_type_defs)
  moreover have "isSuccessfulResponseWithMibDataSync ?msg ?pk = Inl ''could not decode msgLayer of packet''"
    by code_simp
  ultimately show ?thesis
    using undecodable_response_blocks_channel [of sample_rx ?oo sample_rx cOmciMessageReceiveNoError
        "\<lambda>m. Some ?pk" ?pk ?msg sample_entry 1 "''could not decode msgLayer of packet''"]
      sample_rx_ok [of cOmciMessageReceiveNoError]
    by (auto simp: NewOmciCC_def sample_packet_def sample_entry_def)
qed

text \<open>A response advances the MIB data sync counter exactly when it is a decoded answer
  with result success to one of the seven actions that change the MIB.\<close>

theorem mib_data_sync_iff:
  "isSuccessfulResponseWithMibDataSync msg pk = Inr True \<longleftrightarrow>
     MessageType msg \<in> {CreateResponseType, DeleteResponseType, SetResponseType,
        StartSoftwareDownloadResponseType, EndSoftwareDownloadResponseType,
        ActivateSoftwareResponseType, CommitSoftwareResponseType} \<and>
     (\<exists>l. p_msgLayer pk = Some l \<and> ml_Result l = 0) \<and> p_errorLayer pk = None"
proof -
  have set: "set responsesWithMibDataSync = {CreateResponseType, DeleteResponseType, SetResponseType,
        StartSoftwareDownloadResponseType, EndSoftwareDownloadResponseType,
        ActivateSoftwareResponseType, CommitSoftwareResponseType}"
    by (simp add: responsesWithMibDataSync_def)
  have "list_all (\<lambda>t. MsgTypeToNextLayer t = Some t) responsesWithMibDataSync" by code_simp
  then have known: "t \<in> set responsesWithMibDataSync \<Longrightarrow> MsgTypeToNextLayer t = Some t" for t
    by (simp add: list_all_iff)
  have next_id: "MsgTypeToNextLayer t = Some n \<Longrightarrow> n = t" for t n
    by (simp add: MsgTypeToNextLayer_def split: if_splits)
  show ?thesis
    unfolding set [symmetric] isSuccessfulResponseWithMibDataSync_def
    using known [of "MessageType msg"]
    by (auto simp: list_ex_iff dest: next_id split: option.splits failure.splits)
qed


subsection \<open>A request and its response\<close>

text \<open>The state of a channel that waits for the response to a request it has transmitted.\<close>

lemma Send_registers:
  assumes "quiet env" "te_high env = (\<lambda>n. [])" "3 < length f" "idle oo" "t \<noteq> 0" "0 \<le> rt"
    and "map_of (monitoredRequests oo) (CbKey cb) = None"
  shows "\<exists>oo' k req. Send env f t rt hp cb [] oo = Done (Inr (WaitingIn oo')) \<and> chSuccess req = Suc (nextChan oo) \<and>
    sent [TxFrame f] k (oo\<lparr>rxSchedulerMap := (rxSchedulerMap oo)(CbKey cb := Some (CbEntry cb)),
      nextChan := Suc (Suc (nextChan oo)), monitoredRequests := AList.update (CbKey cb) req (monitoredRequests oo)\<rparr>) oo'"
proof -
  let ?req = "\<lparr> chSuccess = Suc (nextChan oo), OnuSwWindow = None, cbPair = cb, txFrame = f,
    ots_timeout = t, ots_retries = rt, highPrio = hp, withFramePrint = FramePrint (CbEntry cb) \<rparr>"
  let ?o = "oo\<lparr>rxSchedulerMap := (rxSchedulerMap oo)(CbKey cb := Some (CbEntry cb)),
    nextChan := Suc (Suc (nextChan oo)),
    monitoredRequests := AList.update (CbKey cb) ?req (monitoredRequests oo)\<rparr>"
  have "plain ?req" "OnuSwWindow ?req = None" "idle ?o" using assms(3,4) by (simp_all add: plain_def idle_def)
  then obtain o1 k where o1: "sup_transmit env ?req ?o = Done (True, o1)"
    "sent [frame_effect ?req] k (registered ?req ?o) o1"
    using sup_transmit_quiet [OF assms(1,2)] by blast
  have free: "\<not> mutexRxSchedMap oo" using assms(4) by (simp add: idle_def)
  have "Send env f t rt hp cb [] oo = Done (Inr (WaitingIn o1))"
    using o1(1) assms(5-7) free
    by (simp add: Send_def setRxSched_free processRequestMonitoring_def sendWithRxSupervision_def Let_def)
  moreover have "registered ?req ?o = ?o" by (simp add: registered_def)
  ultimately show ?thesis using o1(2) by (intro exI [of _ o1] exI [of _ k] exI [of _ ?req]) (simp add: frame_effect_def)
qed

lemma Send_waiting:
  assumes "quiet env" "te_high env = (\<lambda>n. [])" "3 < length f" "idle oo" "t \<noteq> 0" "0 \<le> rt"
    and "map_of (monitoredRequests oo) (CbKey cb) = None"
  shows "\<exists>oo'. Send env f t rt hp cb [] oo = Done (Inr (WaitingIn oo')) \<and>
    cc_out oo' = cc_out oo @ [TxFrame f] \<and> rxSchedulerMap oo' (CbKey cb) = Some (CbEntry cb) \<and>
    (\<exists>req. map_of (monitoredRequests oo') (CbKey cb) = Some req \<and> chSuccess req = Suc (nextChan oo)) \<and>
    \<not> mutexRxSchedMap oo' \<and> pOnuDeviceEntry oo' = pOnuDeviceEntry oo \<and>
    pBaseDeviceHandler oo' = pBaseDeviceHandler oo \<and> rxOmciFrameError oo' = rxOmciFrameError oo"
proof -
  obtain oo' k req where "Send env f t rt hp cb [] oo = Done (Inr (WaitingIn oo'))" "chSuccess req = Suc (nextChan oo)"
    "sent [TxFrame f] k (oo\<lparr>rxSchedulerMap := (rxSchedulerMap oo)(CbKey cb := Some (CbEntry cb)),
      nextChan := Suc (Suc (nextChan oo)), monitoredRequests := AList.update (CbKey cb) req (monitoredRequests oo)\<rparr>) oo'"
    using Send_registers [OF assms] by blast
  with assms(4) show ?thesis using sent_fields by (simp add: idle_def)
qed

text \<open>C1: The whole exchange: a supervised request is transmitted once; the response with its
  identifier runs the registered callback; the callback wakes the supervision of exactly
  this request and hands the message to the state machine that sent it.\<close>

theorem request_response_exchange:
  assumes "quiet env" "te_high env = (\<lambda>n. [])" "3 < length f" "idle oo" "t \<noteq> 0" "0 \<le> rt"
    and "map_of (monitoredRequests oo) (CbKey cb) = None" "CbFunction (CbEntry cb) = Some fn"
    and "pOnuDeviceEntry oo"
    and "check_frame m (rxOmciFrameError oo) = Inr (m', fe)" "decode m' = Some pk"
    and "p_omci pk = Some (OmciLayer msg)" "MessageType msg AND AK \<noteq> 0"
    and "MessageType msg \<noteq> TestResponseType" "TransactionID msg = CbKey cb"
    and "isSuccessfulResponseWithMibDataSync msg pk = Inr synced"
  shows "\<exists>o1 o2 o3. Send env f t rt hp cb [] oo = Done (Inr (WaitingIn o1)) \<and>
    ReceiveMessage decode m o1 = Done (None, o2) \<and>
    receiveOmciResponse True Delivered msg (CbRespChannel (CbEntry cb)) o2 = (None, o3) \<and>
    cc_out o3 = cc_out oo @ [TxFrame f, RunCallback fn (CbKey cb)] @
      (if synced then [MibDataSyncIncremented] else []) @
      [SuccessSignal (Suc (nextChan oo)) True, MessageToFsm (CbRespChannel (CbEntry cb)) (CbKey cb)]"
proof -
  obtain o1 req where o1: "Send env f t rt hp cb [] oo = Done (Inr (WaitingIn o1))"
    "cc_out o1 = cc_out oo @ [TxFrame f]" "rxSchedulerMap o1 (CbKey cb) = Some (CbEntry cb)"
    "map_of (monitoredRequests o1) (CbKey cb) = Some req" "chSuccess req = Suc (nextChan oo)"
    "\<not> mutexRxSchedMap o1" "pOnuDeviceEntry o1" "pBaseDeviceHandler o1 \<noteq> None"
    "rxOmciFrameError o1 = rxOmciFrameError oo"
    using Send_waiting [OF assms(1-7), of hp] assms(4,9) by (auto simp: idle_def split: option.splits)
  let ?o2 = "after_response m' fn (CbKey cb) synced (o1\<lparr>rxOmciFrameError := fe\<rparr>)"
  have r: "ReceiveMessage decode m o1 = Done (None, ?o2)"
    using ReceiveMessage_response [of m o1 m' fe decode pk msg] assms o1
    by (simp add: dispatch_response_ok)
  have "receiveOmciResponse True Delivered msg (CbRespChannel (CbEntry cb)) ?o2 =
    (None, emit (MessageToFsm (CbRespChannel (CbEntry cb)) (CbKey cb))
       (emit (SuccessSignal (Suc (nextChan oo)) True) ?o2))"
    using o1 assms(15) by (auto simp: receiveOmciResponse_def after_response_fields emit_def Let_def)
  with o1 r show ?thesis by (simp add: emit_def after_response_fields)
qed

theorem request_response_exchange_witness:
  "let cb = \<lparr> CbEntry = sample_entry, CbKey = 7 \<rparr>; oo = NewOmciCC ''onu'' (Some up_handler) True True;
       msg = \<lparr> TransactionID = 7, MessageType = SetResponseType \<rparr>
   in \<exists>o1 o2 o3. Send quiet_env [0, 7, 0x48, 0x0A] 3 2 False cb [] oo = Done (Inr (WaitingIn o1)) \<and>
        ReceiveMessage (\<lambda>m. Some (sample_packet 7 SetResponseType)) sample_rx o1 = Done (None, o2) \<and>
        receiveOmciResponse True Delivered msg 5 o2 = (None, o3) \<and>
        cc_out o3 = [TxFrame [0, 7, 0x48, 0x0A], RunCallback 1 7, MibDataSyncIncremented,
                     SuccessSignal 1 True, MessageToFsm 5 7]"
proof -
  let ?cb = "\<lparr> CbEntry = sample_entry, CbKey = 7 \<rparr>"
  let ?oo = "NewOmciCC ''onu'' (Some up_handler) True True"
  let ?msg = "\<lparr> TransactionID = 7, MessageType = SetResponseType \<rparr>"
  let ?pk = "sample_packet 7 SetResponseType"
  have h: "quiet quiet_env" "te_high quiet_env = (\<lambda>n. [])" "idle ?oo" "nextChan ?oo = 0" "cc_out ?oo = []"
    "monitoredRequests ?oo = []" "pOnuDeviceEntry ?oo" "rxOmciFrameError ?oo = cOmciMessageReceiveNoError"
    by (simp_all add: quiet_def quiet_env_def idle_def NewOmciCC_def up_handler_def)
  have m: "MessageType ?msg AND AK \<noteq> 0" "MessageType ?msg \<noteq> TestResponseType"
    by (simp_all add: msg_type_defs)
  show ?thesis
    using request_response_exchange [of quiet_env "[0, 7, 0x48, 0x0A]" ?oo 3 2 ?cb 1 sample_rx sample_rx
        cOmciMessageReceiveNoError "\<lambda>m. Some ?pk" ?pk ?msg True False] h m
      sample_rx_ok [of cOmciMessageReceiveNoError] sample_set_response
    by (auto simp: sample_packet_def sample_entry_def Let_def)
qed

end
