(* ===== verification/Omci_Me.thy ===== *)
theory Omci_Me
  imports Omci_Rx Common_Utils
begin

text \<open>
  The requests of the OMCI channel (\<^verbatim>\<open>omci_cc.go\<close>, the methods \<^verbatim>\<open>SendXxx\<close>): which message they
  build from which class, instance and attributes, with or without default attributes, for which
  channel the response is registered, how often the request is repeated, and what they return.

  The OMCI library is an argument (\<open>omci_lib\<close>): whether it accepts the parameters of a managed
  entity, and the frame it encodes, or its error. A request that was built is handed to \<open>Send\<close> of
  \<open>Omci_CC\<close>; the result carries the state in which its supervision ended or waits.
\<close>

subsection \<open>Message types and classes\<close>

definition MibResetRequestType :: u8 where "MibResetRequestType = 15 OR AR"
definition RebootRequestType :: u8 where "RebootRequestType = 25 OR AR"
definition MibUploadRequestType :: u8 where "MibUploadRequestType = 13 OR AR"
definition MibUploadNextRequestType :: u8 where "MibUploadNextRequestType = 14 OR AR"
definition CreateRequestType :: u8 where "CreateRequestType = 4 OR AR"
definition DeleteRequestType :: u8 where "DeleteRequestType = 6 OR AR"
definition SetRequestType :: u8 where "SetRequestType = 8 OR AR"
definition GetRequestType :: u8 where "GetRequestType = 9 OR AR"
definition GetCurrentDataRequestType :: u8 where "GetCurrentDataRequestType = 28 OR AR"
definition SynchronizeTimeRequestType :: u8 where "SynchronizeTimeRequestType = 24 OR AR"
definition StartSoftwareDownloadRequestType :: u8 where "StartSoftwareDownloadRequestType = 19 OR AR"
definition EndSoftwareDownloadRequestType :: u8 where "EndSoftwareDownloadRequestType = 21 OR AR"
definition ActivateSoftwareRequestType :: u8 where "ActivateSoftwareRequestType = 22 OR AR"
definition CommitSoftwareRequestType :: u8 where "CommitSoftwareRequestType = 23 OR AR"
definition TestRequestType :: u8 where "TestRequestType = 18 OR AR"

datatype me_class =
    Me_MacBridgePortConfigurationData | Me_GemPortNetworkCtp | Me_GemInterworkingTerminationPoint |
    Me_TCont | Me_PriorityQueue | Me_Ieee8021PMapperServiceProfile | Me_VlanTaggingFilterData |
    Me_ExtendedVlanTaggingOperationConfigurationData | Me_TrafficDescriptor |
    Me_MulticastGemInterworkingTerminationPoint | Me_MulticastOperationsProfile |
    Me_MulticastSubscriberConfigInfo | Me_VoipVoiceCtp | Me_VoipMediaProfile | Me_VoiceServiceProfile |
    Me_SipUserData | Me_VoipApplicationServiceProfile | Me_SipAgentConfigData | Me_TcpUdpConfigData |
    Me_IpHostConfigData | Me_RtpProfileData | Me_NetworkDialPlanTable | Me_GalEthernetProfile | Me_Onu2G |
    Me_OnuG | Me_MacBridgeServiceProfile | Me_PhysicalPathTerminationPointEthernetUni |
    Me_VirtualEthernetInterfacePoint | Me_EthernetFramePerformanceMonitoringHistoryDataUpstream |
    Me_EthernetFramePerformanceMonitoringHistoryDataDownstream |
    Me_EthernetPerformanceMonitoringHistoryData | Me_FecPerformanceMonitoringHistoryData |
    Me_GemPortNetworkCtpPerformanceMonitoringHistoryData | Me_EthernetFrameExtendedPm |
    Me_EthernetFrameExtendedPm64Bit | Me_OnuData | Me_SoftwareImage | Me_AniG

fun class_id :: "me_class \<Rightarrow> u16" where
  "class_id Me_MacBridgePortConfigurationData = 47"
| "class_id Me_GemPortNetworkCtp = 268"
| "class_id Me_GemInterworkingTerminationPoint = 266"
| "class_id Me_TCont = 262"
| "class_id Me_PriorityQueue = 277"
| "class_id Me_Ieee8021PMapperServiceProfile = 130"
| "class_id Me_VlanTaggingFilterData = 84"
| "class_id Me_ExtendedVlanTaggingOperationConfigurationData = 171"
| "class_id Me_TrafficDescriptor = 280"
| "class_id Me_MulticastGemInterworkingTerminationPoint = 281"
| "class_id Me_MulticastOperationsProfile = 309"
| "class_id Me_MulticastSubscriberConfigInfo = 310"
| "class_id Me_VoipVoiceCtp = 139"
| "class_id Me_VoipMediaProfile = 142"
| "class_id Me_VoiceServiceProfile = 58"
| "class_id Me_SipUserData = 153"
| "class_id Me_VoipApplicationServiceProfile = 146"
| "class_id Me_SipAgentConfigData = 150"
| "class_id Me_TcpUdpConfigData = 136"
| "class_id Me_IpHostConfigData = 134"
| "class_id Me_RtpProfileData = 143"
| "class_id Me_NetworkDialPlanTable = 145"
| "class_id Me_GalEthernetProfile = 272"
| "class_id Me_Onu2G = 257"
| "class_id Me_OnuG = 256"
| "class_id Me_MacBridgeServiceProfile = 45"
| "class_id Me_PhysicalPathTerminationPointEthernetUni = 11"
| "class_id Me_VirtualEthernetInterfacePoint = 329"
| "class_id Me_EthernetFramePerformanceMonitoringHistoryDataUpstream = 322"
| "class_id Me_EthernetFramePerformanceMonitoringHistoryDataDownstream = 321"
| "class_id Me_EthernetPerformanceMonitoringHistoryData = 24"
| "class_id Me_FecPerformanceMonitoringHistoryData = 312"
| "class_id Me_GemPortNetworkCtpPerformanceMonitoringHistoryData = 341"
| "class_id Me_EthernetFrameExtendedPm = 334"
| "class_id Me_EthernetFrameExtendedPm64Bit = 425"
| "class_id Me_OnuData = 2"
| "class_id Me_SoftwareImage = 7"
| "class_id Me_AniG = 263"

subsection \<open>Managed entities and the OMCI library\<close>

text \<open>The attribute values that occur; a value of another type is kept as its octets.\<close>

datatype attr_value = AvU8 u8 | AvU16 u16 | AvInt int | AvU16s "u16 list" | AvOctets bytes

type_synonym AttributeValueMap = "(string \<times> attr_value) list"

record ParamData =
  pd_EntityID :: u16
  pd_Attributes :: AttributeValueMap

record ManagedEntity =
  GetClassID :: u16
  GetEntityID :: u16
  GetAttributes :: AttributeValueMap

definition param_id :: "u16 \<Rightarrow> ParamData" where
  "param_id i = \<lparr> pd_EntityID = i, pd_Attributes = [] \<rparr>"

record omci_header =
  oh_TransactionID :: u16
  oh_MessageType :: u8
  oh_DeviceIdentifier :: u8

text \<open>The requests that are not built from a managed entity. The first two arguments are the class and
  the instance, \<open>ext\<close> is the flag of the extended message set.\<close>

datatype omci_request =
    MibResetRequest u16 u16 (ext: bool)
  | RebootRequest u16 u16 (ext: bool)
  | MibUploadRequest u16 u16 (ext: bool)
  | MibUploadNextRequest u16 u16 (ext: bool) (CommandSequenceNumber: u16)
  | GetRequest u16 u16 (ext: bool) (AttributeMask: u16)
  | SynchronizeTimeRequest u16 u16 (ext: bool) u16 u8 u8 u8 u8 u8
  | StartSoftwareDownloadRequest u16 u16 (ext: bool) (WindowSize: u8) (ImageSize: u32) u8 "u16 list"
  | DownloadSectionRequest u16 u16 (ext: bool) (SectionNumber: u8) (SectionData: bytes)
  | EndSoftwareDownloadRequest u16 u16 (ext: bool) (CRC32: u32) (ImageSize: u32) u8 "u16 list"
  | ActivateSoftwareRequest u16 u16 (ext: bool) (ActivateFlags: u8)
  | CommitSoftwareRequest u16 u16 (ext: bool)
  | OpticalLineSupervisionTestRequest u16 u16 (ext: bool) (SelectTest: u8) u16 u16

text \<open>\<open>lib_new\<close> is the error of creating the entity; \<open>lib_encode\<close> takes the entity, message type,
  transaction identifier, the option of default attributes and the message set.\<close>

record omci_lib =
  lib_new :: "u16 \<Rightarrow> ParamData \<Rightarrow> string option"
  lib_encode :: "ManagedEntity \<Rightarrow> u8 \<Rightarrow> u16 \<Rightarrow> bool \<Rightarrow> u8 \<Rightarrow> string + bytes"
  lib_serialize :: "omci_header \<Rightarrow> omci_request \<Rightarrow> string + bytes"

text \<open>The surroundings of a request: transport, library, what the supervision sees, and the channels of
  the machines of the device entry.\<close>

record send_ctx =
  sc_env :: tx_env
  sc_lib :: omci_lib
  sc_ocs :: "outcome list"
  GetMibUploadFsmCommChan :: nat
  GetMibDownloadFsmCommChan :: nat
  GetOmciRebootMsgRevChan :: nat

type_synonym 'a send_result = "(string + 'a) \<times> sup_result"
type_synonym me_result = "ManagedEntity send_result"
type_synonym unit_result = "unit send_result"

text \<open>The name of the method \<^verbatim>\<open>receiveOmciResponse\<close> in the table of callbacks.\<close>

definition fn_receiveOmciResponse :: nat where "fn_receiveOmciResponse = 1"

subsection \<open>Building and sending\<close>

definition response_pair :: "u16 \<Rightarrow> nat \<Rightarrow> bool \<Rightarrow> CallbackPair" where
  "response_pair t ch printFrame =
     \<lparr> CbEntry = \<lparr> CbRespChannel = ch, CbFunction = Some fn_receiveOmciResponse, FramePrint = printFrame \<rparr>, CbKey = t \<rparr>"

definition send_built ::
    "send_ctx \<Rightarrow> int \<Rightarrow> int \<Rightarrow> bool \<Rightarrow> CallbackPair \<Rightarrow> 'a \<Rightarrow> string + bytes \<Rightarrow> OmciCC \<Rightarrow> 'a send_result run" where
  "send_built c timeout retry prio cb x built oo =
     (case built of
        Inl e \<Rightarrow> Done (Inl e, Finished oo)
      | Inr pkt \<Rightarrow>
          bind_run (Send (sc_env c) pkt timeout retry prio cb (sc_ocs c) oo) (\<lambda>r.
            Done (case r of Inl (e, oo) \<Rightarrow> (Inl e, Finished oo) | Inr r \<Rightarrow> (Inr x, r))))"

text \<open>A request for a managed entity whose identifier is taken: create the entity, encode, register, send.\<close>

definition send_entity ::
    "send_ctx \<Rightarrow> u16 \<Rightarrow> u8 \<Rightarrow> bool \<Rightarrow> u8 \<Rightarrow> int \<Rightarrow> bool \<Rightarrow> nat \<Rightarrow> ParamData \<Rightarrow> u16 \<Rightarrow> OmciCC \<Rightarrow> me_result run" where
  "send_entity c cls mt defaults ident timeout prio ch p t oo =
     (case lib_new (sc_lib c) cls p of
        Some e \<Rightarrow> Done (Inl e, Finished oo)
      | None \<Rightarrow>
          let m = \<lparr> GetClassID = cls, GetEntityID = pd_EntityID p, GetAttributes = pd_Attributes p \<rparr> in
          send_built c timeout CDefaultRetries prio (response_pair t ch True) m
            (lib_encode (sc_lib c) m mt t defaults ident) oo)"

definition send_class ::
    "send_ctx \<Rightarrow> u16 \<Rightarrow> u8 \<Rightarrow> bool \<Rightarrow> u8 \<Rightarrow> int \<Rightarrow> bool \<Rightarrow> nat \<Rightarrow> ParamData \<Rightarrow> OmciCC \<Rightarrow> me_result run" where
  "send_class c cls mt defaults ident timeout prio ch p oo =
     (let (t, oo) = GetNextTid prio oo in send_entity c cls mt defaults ident timeout prio ch p t oo)"

definition send_me ::
    "send_ctx \<Rightarrow> me_class \<Rightarrow> u8 \<Rightarrow> bool \<Rightarrow> int \<Rightarrow> bool \<Rightarrow> nat \<Rightarrow> ParamData \<Rightarrow> OmciCC \<Rightarrow> me_result run" where
  "send_me c cls mt defaults timeout prio ch p oo =
     send_class c (class_id cls) mt defaults BaselineIdent timeout prio ch p oo"

text \<open>The variadic methods read their first parameter, which panics without one.\<close>

definition send_params ::
    "send_ctx \<Rightarrow> me_class \<Rightarrow> u8 \<Rightarrow> bool \<Rightarrow> int \<Rightarrow> bool \<Rightarrow> nat \<Rightarrow> ParamData list \<Rightarrow> OmciCC \<Rightarrow> me_result run" where
  "send_params c cls mt defaults timeout prio ch params oo =
     (case params of
        [] \<Rightarrow> Fatal ''index out of range [0] with length 0''
      | p # ps \<Rightarrow> send_me c cls mt defaults timeout prio ch p oo)"

text \<open>The requests for the machines of the device entry use its channels: with no entry, a nil pointer.
  The pointer is followed when the frame has been built.\<close>

definition entry_channel :: "OmciCC \<Rightarrow> nat \<Rightarrow> (nat \<Rightarrow> 'a run) \<Rightarrow> 'a run" where
  "entry_channel oo ch f =
     (if pOnuDeviceEntry oo then f ch else Fatal ''invalid memory address or nil pointer dereference'')"

definition send_download ::
    "send_ctx \<Rightarrow> me_class \<Rightarrow> u8 \<Rightarrow> bool \<Rightarrow> int \<Rightarrow> bool \<Rightarrow> ParamData \<Rightarrow> u16 \<Rightarrow> OmciCC \<Rightarrow> me_result run" where
  "send_download c cls mt defaults timeout prio p t oo =
     (case lib_new (sc_lib c) (class_id cls) p of
        Some e \<Rightarrow> Done (Inl e, Finished oo)
      | None \<Rightarrow>
          let m = \<lparr> GetClassID = class_id cls, GetEntityID = pd_EntityID p, GetAttributes = pd_Attributes p \<rparr> in
          (case lib_encode (sc_lib c) m mt t defaults BaselineIdent of
             Inl e \<Rightarrow> Done (Inl e, Finished oo)
           | Inr pkt \<Rightarrow> entry_channel oo (GetMibDownloadFsmCommChan c) (\<lambda>ch.
               send_built c timeout CDefaultRetries prio (response_pair t ch True) m (Inr pkt) oo)))"

text \<open>\<^verbatim>\<open>Serialize\<close> leaves the device identifier to the library.\<close>

definition Serialize :: "send_ctx \<Rightarrow> u8 \<Rightarrow> omci_request \<Rightarrow> u16 \<Rightarrow> string + bytes" where
  "Serialize c msgType request t =
     lib_serialize (sc_lib c) \<lparr> oh_TransactionID = t, oh_MessageType = msgType, oh_DeviceIdentifier = 0 \<rparr> request"

definition serialize_ext :: "send_ctx \<Rightarrow> u8 \<Rightarrow> omci_request \<Rightarrow> u16 \<Rightarrow> string + bytes" where
  "serialize_ext c msgType request t =
     lib_serialize (sc_lib c)
       \<lparr> oh_TransactionID = t, oh_MessageType = msgType, oh_DeviceIdentifier = if ext request then ExtendedIdent else 0 \<rparr> request"

subsection \<open>MIB reset, reboot and upload\<close>

definition SendMibReset :: "send_ctx \<Rightarrow> int \<Rightarrow> bool \<Rightarrow> OmciCC \<Rightarrow> unit_result run" where
  "SendMibReset c timeout prio oo =
     (let request = MibResetRequest (class_id Me_OnuData) 0 False;
          (t, oo) = GetNextTid prio oo in
      case Serialize c MibResetRequestType request t of
        Inl e \<Rightarrow> Done (Inl e, Finished oo)
      | Inr pkt \<Rightarrow> entry_channel oo (GetMibUploadFsmCommChan c) (\<lambda>ch.
          send_built c timeout CDefaultRetries prio (response_pair t ch True) () (Inr pkt) oo))"

text \<open>After the reboot request was sent, the method waits for the response; \<open>waited\<close> is the error of
  that wait.\<close>

definition SendReboot :: "send_ctx \<Rightarrow> string option \<Rightarrow> int \<Rightarrow> bool \<Rightarrow> OmciCC \<Rightarrow> unit_result run" where
  "SendReboot c waited timeout prio oo =
     (let request = RebootRequest (class_id Me_OnuG) 0 False;
          (t, oo) = GetNextTid prio oo in
      case Serialize c RebootRequestType request t of
        Inl e \<Rightarrow> Done (Inl e, Finished oo)
      | Inr pkt \<Rightarrow> entry_channel oo (GetOmciRebootMsgRevChan c) (\<lambda>ch.
          bind_run (send_built c timeout CDefaultRetries prio (response_pair t ch True) () (Inr pkt) oo) (\<lambda>(r, s).
            Done (case r of Inl e \<Rightarrow> (Inl e, s)
              | Inr u \<Rightarrow> (case waited of Some e \<Rightarrow> (Inl e, s) | None \<Rightarrow> (Inr (), s))))))"

definition SendMibUpload :: "send_ctx \<Rightarrow> int \<Rightarrow> bool \<Rightarrow> bool \<Rightarrow> OmciCC \<Rightarrow> unit_result run" where
  "SendMibUpload c timeout prio isExtOmciSupported oo =
     (let (t, oo) = GetNextTid prio oo;
          request = MibUploadRequest (class_id Me_OnuData) 0 isExtOmciSupported in
      case serialize_ext c MibUploadRequestType request t of
        Inl e \<Rightarrow> Done (Inl e, Finished oo)
      | Inr pkt \<Rightarrow>
          let oo = oo\<lparr>UploadSequNo := 0, UploadNoOfCmds := 0\<rparr> in
          entry_channel oo (GetMibUploadFsmCommChan c) (\<lambda>ch.
            send_built c timeout CDefaultRetries prio (response_pair t ch True) () (Inr pkt) oo))"

definition SendMibUploadNext :: "send_ctx \<Rightarrow> int \<Rightarrow> bool \<Rightarrow> bool \<Rightarrow> OmciCC \<Rightarrow> unit_result run" where
  "SendMibUploadNext c timeout prio isExtOmciSupported oo =
     (let (t, oo) = GetNextTid prio oo;
          request = MibUploadNextRequest (class_id Me_OnuData) 0 isExtOmciSupported (UploadSequNo oo) in
      case serialize_ext c MibUploadNextRequestType request t of
        Inl e \<Rightarrow> Done (Inl e, Finished oo)
      | Inr pkt \<Rightarrow>
          let oo = oo\<lparr>UploadSequNo := UploadSequNo oo + 1\<rparr> in
          entry_channel oo (GetMibUploadFsmCommChan c) (\<lambda>ch.
            send_built c timeout CDefaultRetries prio (response_pair t ch True) () (Inr pkt) oo))"

subsection \<open>The MIB download\<close>

definition GalEthernetEID :: u16 where "GalEthernetEID = 1"
definition maxGemPayloadSize :: u16 where "maxGemPayloadSize = 2048"
definition connectivityModeValue :: u8 where "connectivityModeValue = 5"

definition gal_params :: ParamData where
  "gal_params = \<lparr> pd_EntityID = GalEthernetEID, pd_Attributes = [(''MaximumGemPayloadSize'', AvU16 maxGemPayloadSize)] \<rparr>"

definition SendCreateGalEthernetProfile :: "send_ctx \<Rightarrow> int \<Rightarrow> bool \<Rightarrow> OmciCC \<Rightarrow> me_result run" where
  "SendCreateGalEthernetProfile c timeout prio oo =
     (let (t, oo) = GetNextTid prio oo in
      send_download c Me_GalEthernetProfile CreateRequestType False timeout prio gal_params t oo)"

definition onu2g_params :: ParamData where
  "onu2g_params = \<lparr> pd_EntityID = 0, pd_Attributes = [(''CurrentConnectivityMode'', AvU8 connectivityModeValue)] \<rparr>"

definition SendSetOnu2g :: "send_ctx \<Rightarrow> int \<Rightarrow> bool \<Rightarrow> OmciCC \<Rightarrow> me_result run" where
  "SendSetOnu2g c timeout prio oo =
     (let (t, oo) = GetNextTid prio oo in
      send_download c Me_Onu2G SetRequestType False timeout prio onu2g_params t oo)"

definition mbsp_params :: "OnuUniPort \<Rightarrow> ParamData" where
  "mbsp_params aPUniPort =
     \<lparr> pd_EntityID = MacBridgeServiceProfileEID + ucast (MacBpNo aPUniPort),
       pd_Attributes = [(''Priority'', AvInt 0x8000), (''MaxAge'', AvInt (20 * 256)), (''HelloTime'', AvInt (2 * 256)),
         (''ForwardDelay'', AvInt (15 * 256)), (''DynamicFilteringAgeingTime'', AvInt 0)] \<rparr>"

definition SendCreateMBServiceProfile :: "send_ctx \<Rightarrow> OnuUniPort \<Rightarrow> int \<Rightarrow> bool \<Rightarrow> OmciCC \<Rightarrow> me_result run" where
  "SendCreateMBServiceProfile c aPUniPort timeout prio oo =
     (let (t, oo) = GetNextTid prio oo in
      send_download c Me_MacBridgeServiceProfile CreateRequestType True timeout prio (mbsp_params aPUniPort) t oo)"

definition mbpcd_params :: "u16 \<Rightarrow> OnuUniPort \<Rightarrow> ParamData" where
  "mbpcd_params instID aPUniPort =
     \<lparr> pd_EntityID = instID,
       pd_Attributes = [(''BridgeIdPointer'', AvU16 (MacBridgeServiceProfileEID + ucast (MacBpNo aPUniPort))),
         (''PortNum'', AvU8 (MacBpNo aPUniPort)), (''TpType'', AvU8 (uni_port_type_code (PortType aPUniPort))),
         (''TpPointer'', AvU16 (EntityID aPUniPort))] \<rparr>"

definition SendCreateMBPConfigDataUniSide :: "send_ctx \<Rightarrow> OnuUniPort \<Rightarrow> int \<Rightarrow> bool \<Rightarrow> OmciCC \<Rightarrow> me_result run" where
  "SendCreateMBPConfigDataUniSide c aPUniPort timeout prio oo =
     (let (t, oo) = GetNextTid prio oo in
      case GenerateUNISideMBPCDEID (ucast (MacBpNo aPUniPort)) of
        Inl idErr \<Rightarrow> Done (Inl ''invalid UNI side MBPCD instance'', Finished oo)
      | Inr instID \<Rightarrow>
          send_download c Me_MacBridgePortConfigurationData CreateRequestType True timeout prio (mbpcd_params instID aPUniPort) t oo)"

definition evto_params :: "OnuUniPort \<Rightarrow> ParamData" where
  "evto_params aPUniPort =
     \<lparr> pd_EntityID = MacBridgeServiceProfileEID + ucast (MacBpNo aPUniPort),
       pd_Attributes = [(''AssociationType'', AvU8 (if PortType aPUniPort = UniVEIP then 10 else 2)),
         (''AssociatedMePointer'', AvU16 (EntityID aPUniPort))] \<rparr>"

definition SendCreateEVTOConfigData :: "send_ctx \<Rightarrow> OnuUniPort \<Rightarrow> int \<Rightarrow> bool \<Rightarrow> OmciCC \<Rightarrow> me_result run" where
  "SendCreateEVTOConfigData c aPUniPort timeout prio oo =
     (let (t, oo) = GetNextTid prio oo in
      send_download c Me_ExtendedVlanTaggingOperationConfigurationData CreateRequestType True timeout prio
        (evto_params aPUniPort) t oo)"

subsection \<open>Administrative states and get requests\<close>

definition SendSetOnuGLS :: "send_ctx \<Rightarrow> int \<Rightarrow> bool \<Rightarrow> AttributeValueMap \<Rightarrow> nat \<Rightarrow> OmciCC \<Rightarrow> me_result run" where
  "SendSetOnuGLS c timeout prio requestedAttributes rxChan oo =
     send_me c Me_OnuG SetRequestType False timeout prio rxChan
       \<lparr> pd_EntityID = 0, pd_Attributes = requestedAttributes \<rparr> oo"

definition SendSetPptpEthUniLS :: "send_ctx \<Rightarrow> u16 \<Rightarrow> int \<Rightarrow> bool \<Rightarrow> AttributeValueMap \<Rightarrow> nat \<Rightarrow> OmciCC \<Rightarrow> me_result run" where
  "SendSetPptpEthUniLS c aInstNo timeout prio requestedAttributes rxChan oo =
     send_me c Me_PhysicalPathTerminationPointEthernetUni SetRequestType False timeout prio rxChan
       \<lparr> pd_EntityID = aInstNo, pd_Attributes = requestedAttributes \<rparr> oo"

definition SendSetVeipLS :: "send_ctx \<Rightarrow> u16 \<Rightarrow> int \<Rightarrow> bool \<Rightarrow> AttributeValueMap \<Rightarrow> nat \<Rightarrow> OmciCC \<Rightarrow> me_result run" where
  "SendSetVeipLS c aInstNo timeout prio requestedAttributes rxChan oo =
     send_me c Me_VirtualEthernetInterfacePoint SetRequestType False timeout prio rxChan
       \<lparr> pd_EntityID = aInstNo, pd_Attributes = requestedAttributes \<rparr> oo"

definition SendGetMe ::
    "send_ctx \<Rightarrow> u16 \<Rightarrow> u16 \<Rightarrow> AttributeValueMap \<Rightarrow> int \<Rightarrow> bool \<Rightarrow> nat \<Rightarrow> bool \<Rightarrow> OmciCC \<Rightarrow> me_result run" where
  "SendGetMe c classID entityID requestedAttributes timeout prio rxChan isExtendedOmci oo =
     send_class c classID GetRequestType False (if isExtendedOmci then ExtendedIdent else BaselineIdent)
       timeout prio rxChan \<lparr> pd_EntityID = entityID, pd_Attributes = requestedAttributes \<rparr> oo"

definition SendGetCurrentDataME ::
    "send_ctx \<Rightarrow> u16 \<Rightarrow> u16 \<Rightarrow> AttributeValueMap \<Rightarrow> int \<Rightarrow> bool \<Rightarrow> nat \<Rightarrow> bool \<Rightarrow> OmciCC \<Rightarrow> me_result run" where
  "SendGetCurrentDataME c classID entityID requestedAttributes timeout prio rxChan isExtendedOmci oo =
     send_class c classID GetCurrentDataRequestType False (if isExtendedOmci then ExtendedIdent else BaselineIdent)
       timeout prio rxChan \<lparr> pd_EntityID = entityID, pd_Attributes = requestedAttributes \<rparr> oo"

definition SendGetMeWithAttributeMask ::
    "send_ctx \<Rightarrow> u16 \<Rightarrow> u16 \<Rightarrow> u16 \<Rightarrow> int \<Rightarrow> bool \<Rightarrow> nat \<Rightarrow> OmciCC \<Rightarrow> unit_result run" where
  "SendGetMeWithAttributeMask c classID entityID requestedAttributesMask timeout prio rxChan oo =
     (let (t, oo) = GetNextTid prio oo;
          request = GetRequest classID entityID False requestedAttributesMask in
      send_built c timeout CDefaultRetries prio (response_pair t rxChan True) () (Serialize c GetRequestType request t) oo)"

subsection \<open>Create, set and delete requests of the configuration machines\<close>

definition dot1p_params :: "u16 \<Rightarrow> ParamData" where
  "dot1p_params aInstID =
     \<lparr> pd_EntityID = aInstID,
       pd_Attributes = (''TpPointer'', AvInt 0xFFFF) #
         map (\<lambda>i. (''InterworkTpPointerForPBitPriority'' @ format_dec i, AvInt 0xFFFF)) [0..<8] \<rparr>"

definition SendCreateDot1PMapper :: "send_ctx \<Rightarrow> int \<Rightarrow> bool \<Rightarrow> u16 \<Rightarrow> nat \<Rightarrow> OmciCC \<Rightarrow> me_result run" where
  "SendCreateDot1PMapper c timeout prio aInstID rxChan oo =
     send_me c Me_Ieee8021PMapperServiceProfile CreateRequestType True timeout prio rxChan (dot1p_params aInstID) oo"

definition SendCreateMBPConfigDataVar :: "send_ctx \<Rightarrow> int \<Rightarrow> bool \<Rightarrow> nat \<Rightarrow> ParamData list \<Rightarrow> OmciCC \<Rightarrow> me_result run" where
  "SendCreateMBPConfigDataVar c timeout prio rxChan params oo =
     send_params c Me_MacBridgePortConfigurationData CreateRequestType True timeout prio rxChan params oo"

definition SendCreateGemNCTPVar :: "send_ctx \<Rightarrow> int \<Rightarrow> bool \<Rightarrow> nat \<Rightarrow> ParamData list \<Rightarrow> OmciCC \<Rightarrow> me_result run" where
  "SendCreateGemNCTPVar c timeout prio rxChan params oo =
     send_params c Me_GemPortNetworkCtp CreateRequestType True timeout prio rxChan params oo"

definition SendSetGemNCTPVar :: "send_ctx \<Rightarrow> int \<Rightarrow> bool \<Rightarrow> nat \<Rightarrow> ParamData list \<Rightarrow> OmciCC \<Rightarrow> me_result run" where
  "SendSetGemNCTPVar c timeout prio rxChan params oo =
     send_params c Me_GemPortNetworkCtp SetRequestType True timeout prio rxChan params oo"

definition SendCreateGemIWTPVar :: "send_ctx \<Rightarrow> int \<Rightarrow> bool \<Rightarrow> nat \<Rightarrow> ParamData list \<Rightarrow> OmciCC \<Rightarrow> me_result run" where
  "SendCreateGemIWTPVar c timeout prio rxChan params oo =
     send_params c Me_GemInterworkingTerminationPoint CreateRequestType False timeout prio rxChan params oo"

definition SendSetTcontVar :: "send_ctx \<Rightarrow> int \<Rightarrow> bool \<Rightarrow> nat \<Rightarrow> ParamData list \<Rightarrow> OmciCC \<Rightarrow> me_result run" where
  "SendSetTcontVar c timeout prio rxChan params oo =
     send_params c Me_TCont SetRequestType False timeout prio rxChan params oo"

definition SendSetPrioQueueVar :: "send_ctx \<Rightarrow> int \<Rightarrow> bool \<Rightarrow> nat \<Rightarrow> ParamData list \<Rightarrow> OmciCC \<Rightarrow> me_result run" where
  "SendSetPrioQueueVar c timeout prio rxChan params oo =
     send_params c Me_PriorityQueue SetRequestType False timeout prio rxChan params oo"

definition SendSetDot1PMapperVar :: "send_ctx \<Rightarrow> int \<Rightarrow> bool \<Rightarrow> nat \<Rightarrow> ParamData list \<Rightarrow> OmciCC \<Rightarrow> me_result run" where
  "SendSetDot1PMapperVar c timeout prio rxChan params oo =
     send_params c Me_Ieee8021PMapperServiceProfile SetRequestType False timeout prio rxChan params oo"

definition SendCreateVtfdVar :: "send_ctx \<Rightarrow> int \<Rightarrow> bool \<Rightarrow> nat \<Rightarrow> ParamData list \<Rightarrow> OmciCC \<Rightarrow> me_result run" where
  "SendCreateVtfdVar c timeout prio rxChan params oo =
     send_params c Me_VlanTaggingFilterData CreateRequestType False timeout prio rxChan params oo"

definition sendSetVtfdVar :: "send_ctx \<Rightarrow> int \<Rightarrow> bool \<Rightarrow> nat \<Rightarrow> ParamData list \<Rightarrow> OmciCC \<Rightarrow> me_result run" where
  "sendSetVtfdVar c timeout prio rxChan params oo =
     send_params c Me_VlanTaggingFilterData SetRequestType False timeout prio rxChan params oo"

definition SendCreateEvtocdVar :: "send_ctx \<Rightarrow> int \<Rightarrow> bool \<Rightarrow> nat \<Rightarrow> ParamData list \<Rightarrow> OmciCC \<Rightarrow> me_result run" where
  "SendCreateEvtocdVar c timeout prio rxChan params oo =
     send_params c Me_ExtendedVlanTaggingOperationConfigurationData CreateRequestType True timeout prio rxChan params oo"

definition SendSetEvtocdVar :: "send_ctx \<Rightarrow> int \<Rightarrow> bool \<Rightarrow> nat \<Rightarrow> ParamData list \<Rightarrow> OmciCC \<Rightarrow> me_result run" where
  "SendSetEvtocdVar c timeout prio rxChan params oo =
     send_params c Me_ExtendedVlanTaggingOperationConfigurationData SetRequestType False timeout prio rxChan params oo"

definition SendDeleteEvtocd :: "send_ctx \<Rightarrow> int \<Rightarrow> bool \<Rightarrow> nat \<Rightarrow> ParamData list \<Rightarrow> OmciCC \<Rightarrow> me_result run" where
  "SendDeleteEvtocd c timeout prio rxChan params oo =
     send_params c Me_ExtendedVlanTaggingOperationConfigurationData DeleteRequestType False timeout prio rxChan params oo"

definition SendCreateTDVar :: "send_ctx \<Rightarrow> int \<Rightarrow> bool \<Rightarrow> nat \<Rightarrow> ParamData list \<Rightarrow> OmciCC \<Rightarrow> me_result run" where
  "SendCreateTDVar c timeout prio rxChan params oo =
     send_params c Me_TrafficDescriptor CreateRequestType False timeout prio rxChan params oo"

definition sendSetTDVar :: "send_ctx \<Rightarrow> int \<Rightarrow> bool \<Rightarrow> nat \<Rightarrow> ParamData list \<Rightarrow> OmciCC \<Rightarrow> me_result run" where
  "sendSetTDVar c timeout prio rxChan params oo =
     send_params c Me_TrafficDescriptor SetRequestType False timeout prio rxChan params oo"

definition SendCreateMulticastGemIWTPVar :: "send_ctx \<Rightarrow> int \<Rightarrow> bool \<Rightarrow> nat \<Rightarrow> ParamData list \<Rightarrow> OmciCC \<Rightarrow> me_result run" where
  "SendCreateMulticastGemIWTPVar c timeout prio rxChan params oo =
     send_params c Me_MulticastGemInterworkingTerminationPoint CreateRequestType True timeout prio rxChan params oo"

definition SendSetMulticastGemIWTPVar :: "send_ctx \<Rightarrow> int \<Rightarrow> bool \<Rightarrow> nat \<Rightarrow> ParamData list \<Rightarrow> OmciCC \<Rightarrow> me_result run" where
  "SendSetMulticastGemIWTPVar c timeout prio rxChan params oo =
     send_params c Me_MulticastGemInterworkingTerminationPoint SetRequestType True timeout prio rxChan params oo"

definition SendCreateMulticastOperationProfileVar :: "send_ctx \<Rightarrow> int \<Rightarrow> bool \<Rightarrow> nat \<Rightarrow> ParamData list \<Rightarrow> OmciCC \<Rightarrow> me_result run" where
  "SendCreateMulticastOperationProfileVar c timeout prio rxChan params oo =
     send_params c Me_MulticastOperationsProfile CreateRequestType True timeout prio rxChan params oo"

definition SendSetMulticastOperationProfileVar :: "send_ctx \<Rightarrow> int \<Rightarrow> bool \<Rightarrow> nat \<Rightarrow> ParamData list \<Rightarrow> OmciCC \<Rightarrow> me_result run" where
  "SendSetMulticastOperationProfileVar c timeout prio rxChan params oo =
     send_params c Me_MulticastOperationsProfile SetRequestType True timeout prio rxChan params oo"

definition SendCreateMulticastSubConfigInfoVar :: "send_ctx \<Rightarrow> int \<Rightarrow> bool \<Rightarrow> nat \<Rightarrow> ParamData list \<Rightarrow> OmciCC \<Rightarrow> me_result run" where
  "SendCreateMulticastSubConfigInfoVar c timeout prio rxChan params oo =
     send_params c Me_MulticastSubscriberConfigInfo CreateRequestType True timeout prio rxChan params oo"

definition SendCreateVoipVoiceCTP :: "send_ctx \<Rightarrow> int \<Rightarrow> bool \<Rightarrow> nat \<Rightarrow> ParamData list \<Rightarrow> OmciCC \<Rightarrow> me_result run" where
  "SendCreateVoipVoiceCTP c timeout prio rxChan params oo =
     send_params c Me_VoipVoiceCtp CreateRequestType True timeout prio rxChan params oo"

definition SendSetVoipVoiceCTP :: "send_ctx \<Rightarrow> int \<Rightarrow> bool \<Rightarrow> nat \<Rightarrow> ParamData list \<Rightarrow> OmciCC \<Rightarrow> me_result run" where
  "SendSetVoipVoiceCTP c timeout prio rxChan params oo =
     send_params c Me_VoipVoiceCtp SetRequestType True timeout prio rxChan params oo"

definition SendCreateVoipMediaProfile :: "send_ctx \<Rightarrow> int \<Rightarrow> bool \<Rightarrow> nat \<Rightarrow> ParamData list \<Rightarrow> OmciCC \<Rightarrow> me_result run" where
  "SendCreateVoipMediaProfile c timeout prio rxChan params oo =
     send_params c Me_VoipMediaProfile CreateRequestType True timeout prio rxChan params oo"

definition SendSetVoipMediaProfile :: "send_ctx \<Rightarrow> int \<Rightarrow> bool \<Rightarrow> nat \<Rightarrow> ParamData list \<Rightarrow> OmciCC \<Rightarrow> me_result run" where
  "SendSetVoipMediaProfile c timeout prio rxChan params oo =
     send_params c Me_VoipMediaProfile SetRequestType True timeout prio rxChan params oo"

definition SendCreateVoiceServiceProfile :: "send_ctx \<Rightarrow> int \<Rightarrow> bool \<Rightarrow> nat \<Rightarrow> ParamData list \<Rightarrow> OmciCC \<Rightarrow> me_result run" where
  "SendCreateVoiceServiceProfile c timeout prio rxChan params oo =
     send_params c Me_VoiceServiceProfile CreateRequestType True timeout prio rxChan params oo"

definition SendSetVoiceServiceProfile :: "send_ctx \<Rightarrow> int \<Rightarrow> bool \<Rightarrow> nat \<Rightarrow> ParamData list \<Rightarrow> OmciCC \<Rightarrow> me_result run" where
  "SendSetVoiceServiceProfile c timeout prio rxChan params oo =
     send_params c Me_VoiceServiceProfile SetRequestType True timeout prio rxChan params oo"

definition SendCreateSIPUserData :: "send_ctx \<Rightarrow> int \<Rightarrow> bool \<Rightarrow> nat \<Rightarrow> ParamData list \<Rightarrow> OmciCC \<Rightarrow> me_result run" where
  "SendCreateSIPUserData c timeout prio rxChan params oo =
     send_params c Me_SipUserData CreateRequestType True timeout prio rxChan params oo"

definition SendSetSIPUserData :: "send_ctx \<Rightarrow> int \<Rightarrow> bool \<Rightarrow> nat \<Rightarrow> ParamData list \<Rightarrow> OmciCC \<Rightarrow> me_result run" where
  "SendSetSIPUserData c timeout prio rxChan params oo =
     send_params c Me_SipUserData SetRequestType True timeout prio rxChan params oo"

definition SendCreateVoipApplicationServiceProfile :: "send_ctx \<Rightarrow> int \<Rightarrow> bool \<Rightarrow> nat \<Rightarrow> ParamData list \<Rightarrow> OmciCC \<Rightarrow> me_result run" where
  "SendCreateVoipApplicationServiceProfile c timeout prio rxChan params oo =
     send_params c Me_VoipApplicationServiceProfile CreateRequestType True timeout prio rxChan params oo"

definition SendSetVoipApplicationServiceProfile :: "send_ctx \<Rightarrow> int \<Rightarrow> bool \<Rightarrow> nat \<Rightarrow> ParamData list \<Rightarrow> OmciCC \<Rightarrow> me_result run" where
  "SendSetVoipApplicationServiceProfile c timeout prio rxChan params oo =
     send_params c Me_VoipApplicationServiceProfile SetRequestType True timeout prio rxChan params oo"

definition SendCreateSIPAgentConfigData :: "send_ctx \<Rightarrow> int \<Rightarrow> bool \<Rightarrow> nat \<Rightarrow> ParamData list \<Rightarrow> OmciCC \<Rightarrow> me_result run" where
  "SendCreateSIPAgentConfigData c timeout prio rxChan params oo =
     send_params c Me_SipAgentConfigData CreateRequestType True timeout prio rxChan params oo"

definition SendSetSIPAgentConfigData :: "send_ctx \<Rightarrow> int \<Rightarrow> bool \<Rightarrow> nat \<Rightarrow> ParamData list \<Rightarrow> OmciCC \<Rightarrow> me_result run" where
  "SendSetSIPAgentConfigData c timeout prio rxChan params oo =
     send_params c Me_SipAgentConfigData SetRequestType True timeout prio rxChan params oo"

definition SendCreateTCPUDPConfigData :: "send_ctx \<Rightarrow> int \<Rightarrow> bool \<Rightarrow> nat \<Rightarrow> ParamData list \<Rightarrow> OmciCC \<Rightarrow> me_result run" where
  "SendCreateTCPUDPConfigData c timeout prio rxChan params oo =
     send_params c Me_TcpUdpConfigData CreateRequestType True timeout prio rxChan params oo"

definition SendSetTCPUDPConfigData :: "send_ctx \<Rightarrow> int \<Rightarrow> bool \<Rightarrow> nat \<Rightarrow> ParamData list \<Rightarrow> OmciCC \<Rightarrow> me_result run" where
  "SendSetTCPUDPConfigData c timeout prio rxChan params oo =
     send_params c Me_TcpUdpConfigData SetRequestType True timeout prio rxChan params oo"

definition SendCreateIPHostConfigData :: "send_ctx \<Rightarrow> int \<Rightarrow> bool \<Rightarrow> nat \<Rightarrow> ParamData list \<Rightarrow> OmciCC \<Rightarrow> me_result run" where
  "SendCreateIPHostConfigData c timeout prio rxChan params oo =
     send_params c Me_IpHostConfigData CreateRequestType True timeout prio rxChan params oo"

definition SendSetIPHostConfigData :: "send_ctx \<Rightarrow> int \<Rightarrow> bool \<Rightarrow> nat \<Rightarrow> ParamData list \<Rightarrow> OmciCC \<Rightarrow> me_result run" where
  "SendSetIPHostConfigData c timeout prio rxChan params oo =
     send_params c Me_IpHostConfigData SetRequestType True timeout prio rxChan params oo"

definition SendCreateRTPProfileData :: "send_ctx \<Rightarrow> int \<Rightarrow> bool \<Rightarrow> nat \<Rightarrow> ParamData list \<Rightarrow> OmciCC \<Rightarrow> me_result run" where
  "SendCreateRTPProfileData c timeout prio rxChan params oo =
     send_params c Me_RtpProfileData CreateRequestType True timeout prio rxChan params oo"

definition SendSetRTPProfileData :: "send_ctx \<Rightarrow> int \<Rightarrow> bool \<Rightarrow> nat \<Rightarrow> ParamData list \<Rightarrow> OmciCC \<Rightarrow> me_result run" where
  "SendSetRTPProfileData c timeout prio rxChan params oo =
     send_params c Me_RtpProfileData SetRequestType True timeout prio rxChan params oo"

definition SendCreateNetworkDialPlanTable :: "send_ctx \<Rightarrow> int \<Rightarrow> bool \<Rightarrow> nat \<Rightarrow> ParamData list \<Rightarrow> OmciCC \<Rightarrow> me_result run" where
  "SendCreateNetworkDialPlanTable c timeout prio rxChan params oo =
     send_params c Me_NetworkDialPlanTable CreateRequestType True timeout prio rxChan params oo"

definition SendSetNetworkDialPlanTable :: "send_ctx \<Rightarrow> int \<Rightarrow> bool \<Rightarrow> nat \<Rightarrow> ParamData list \<Rightarrow> OmciCC \<Rightarrow> me_result run" where
  "SendSetNetworkDialPlanTable c timeout prio rxChan params oo =
     send_params c Me_NetworkDialPlanTable SetRequestType True timeout prio rxChan params oo"

definition SendDeleteVtfd :: "send_ctx \<Rightarrow> int \<Rightarrow> bool \<Rightarrow> nat \<Rightarrow> u16 \<Rightarrow> OmciCC \<Rightarrow> me_result run" where
  "SendDeleteVtfd c timeout prio rxChan aInstID oo =
     send_me c Me_VlanTaggingFilterData DeleteRequestType False timeout prio rxChan (param_id aInstID) oo"

definition SendDeleteTD :: "send_ctx \<Rightarrow> int \<Rightarrow> bool \<Rightarrow> nat \<Rightarrow> u16 \<Rightarrow> OmciCC \<Rightarrow> me_result run" where
  "SendDeleteTD c timeout prio rxChan aInstID oo =
     send_me c Me_TrafficDescriptor DeleteRequestType False timeout prio rxChan (param_id aInstID) oo"

definition SendDeleteGemIWTP :: "send_ctx \<Rightarrow> int \<Rightarrow> bool \<Rightarrow> nat \<Rightarrow> u16 \<Rightarrow> OmciCC \<Rightarrow> me_result run" where
  "SendDeleteGemIWTP c timeout prio rxChan aInstID oo =
     send_me c Me_GemInterworkingTerminationPoint DeleteRequestType False timeout prio rxChan (param_id aInstID) oo"

definition SendDeleteGemNCTP :: "send_ctx \<Rightarrow> int \<Rightarrow> bool \<Rightarrow> nat \<Rightarrow> u16 \<Rightarrow> OmciCC \<Rightarrow> me_result run" where
  "SendDeleteGemNCTP c timeout prio rxChan aInstID oo =
     send_me c Me_GemPortNetworkCtp DeleteRequestType False timeout prio rxChan (param_id aInstID) oo"

definition SendDeleteDot1PMapper :: "send_ctx \<Rightarrow> int \<Rightarrow> bool \<Rightarrow> nat \<Rightarrow> u16 \<Rightarrow> OmciCC \<Rightarrow> me_result run" where
  "SendDeleteDot1PMapper c timeout prio rxChan aInstID oo =
     send_me c Me_Ieee8021PMapperServiceProfile DeleteRequestType False timeout prio rxChan (param_id aInstID) oo"

definition SendDeleteMBPConfigData :: "send_ctx \<Rightarrow> int \<Rightarrow> bool \<Rightarrow> nat \<Rightarrow> u16 \<Rightarrow> OmciCC \<Rightarrow> me_result run" where
  "SendDeleteMBPConfigData c timeout prio rxChan aInstID oo =
     send_me c Me_MacBridgePortConfigurationData DeleteRequestType False timeout prio rxChan (param_id aInstID) oo"

definition SendDeleteVoipVoiceCTP :: "send_ctx \<Rightarrow> int \<Rightarrow> bool \<Rightarrow> nat \<Rightarrow> u16 \<Rightarrow> OmciCC \<Rightarrow> me_result run" where
  "SendDeleteVoipVoiceCTP c timeout prio rxChan aInstID oo =
     send_me c Me_VoipVoiceCtp DeleteRequestType False timeout prio rxChan (param_id aInstID) oo"

definition SendDeleteVoipMediaProfile :: "send_ctx \<Rightarrow> int \<Rightarrow> bool \<Rightarrow> nat \<Rightarrow> u16 \<Rightarrow> OmciCC \<Rightarrow> me_result run" where
  "SendDeleteVoipMediaProfile c timeout prio rxChan aInstID oo =
     send_me c Me_VoipMediaProfile DeleteRequestType False timeout prio rxChan (param_id aInstID) oo"

definition SendDeleteVoiceServiceProfile :: "send_ctx \<Rightarrow> int \<Rightarrow> bool \<Rightarrow> nat \<Rightarrow> u16 \<Rightarrow> OmciCC \<Rightarrow> me_result run" where
  "SendDeleteVoiceServiceProfile c timeout prio rxChan aInstID oo =
     send_me c Me_VoiceServiceProfile DeleteRequestType False timeout prio rxChan (param_id aInstID) oo"

definition SendDeleteSIPUserData :: "send_ctx \<Rightarrow> int \<Rightarrow> bool \<Rightarrow> nat \<Rightarrow> u16 \<Rightarrow> OmciCC \<Rightarrow> me_result run" where
  "SendDeleteSIPUserData c timeout prio rxChan aInstID oo =
     send_me c Me_SipUserData DeleteRequestType False timeout prio rxChan (param_id aInstID) oo"

definition SendDeleteVoipApplicationServiceProfile :: "send_ctx \<Rightarrow> int \<Rightarrow> bool \<Rightarrow> nat \<Rightarrow> u16 \<Rightarrow> OmciCC \<Rightarrow> me_result run" where
  "SendDeleteVoipApplicationServiceProfile c timeout prio rxChan aInstID oo =
     send_me c Me_VoipApplicationServiceProfile DeleteRequestType False timeout prio rxChan (param_id aInstID) oo"

definition SendDeleteSIPAgentConfigData :: "send_ctx \<Rightarrow> int \<Rightarrow> bool \<Rightarrow> nat \<Rightarrow> u16 \<Rightarrow> OmciCC \<Rightarrow> me_result run" where
  "SendDeleteSIPAgentConfigData c timeout prio rxChan aInstID oo =
     send_me c Me_SipAgentConfigData DeleteRequestType False timeout prio rxChan (param_id aInstID) oo"

definition SendDeleteTCPUDPConfigData :: "send_ctx \<Rightarrow> int \<Rightarrow> bool \<Rightarrow> nat \<Rightarrow> u16 \<Rightarrow> OmciCC \<Rightarrow> me_result run" where
  "SendDeleteTCPUDPConfigData c timeout prio rxChan aInstID oo =
     send_me c Me_TcpUdpConfigData DeleteRequestType False timeout prio rxChan (param_id aInstID) oo"

definition SendDeleteIPHostConfigData :: "send_ctx \<Rightarrow> int \<Rightarrow> bool \<Rightarrow> nat \<Rightarrow> u16 \<Rightarrow> OmciCC \<Rightarrow> me_result run" where
  "SendDeleteIPHostConfigData c timeout prio rxChan aInstID oo =
     send_me c Me_IpHostConfigData DeleteRequestType False timeout prio rxChan (param_id aInstID) oo"

definition SendDeleteRTPProfileData :: "send_ctx \<Rightarrow> int \<Rightarrow> bool \<Rightarrow> nat \<Rightarrow> u16 \<Rightarrow> OmciCC \<Rightarrow> me_result run" where
  "SendDeleteRTPProfileData c timeout prio rxChan aInstID oo =
     send_me c Me_RtpProfileData DeleteRequestType False timeout prio rxChan (param_id aInstID) oo"

definition SendDeleteNetworkDialPlanTable :: "send_ctx \<Rightarrow> int \<Rightarrow> bool \<Rightarrow> nat \<Rightarrow> u16 \<Rightarrow> OmciCC \<Rightarrow> me_result run" where
  "SendDeleteNetworkDialPlanTable c timeout prio rxChan aInstID oo =
     send_me c Me_NetworkDialPlanTable DeleteRequestType False timeout prio rxChan (param_id aInstID) oo"

subsection \<open>Time and performance monitoring\<close>

text \<open>The wall clock in universal time: year, month, day, hour, minute, second.\<close>

definition SendSyncTime :: "send_ctx \<Rightarrow> int \<times> int \<times> int \<times> int \<times> int \<times> int \<Rightarrow> int \<Rightarrow> bool \<Rightarrow> nat \<Rightarrow> OmciCC \<Rightarrow> unit_result run" where
  "SendSyncTime c utcTime timeout prio rxChan oo =
     (let (t, oo) = GetNextTid prio oo;
          (y, mo, d, h, mi, s) = utcTime;
          request = SynchronizeTimeRequest (class_id Me_OnuG) 0 False
            (word_of_int y) (word_of_int mo) (word_of_int d) (word_of_int h) (word_of_int mi) (word_of_int s) in
      send_built c timeout CDefaultRetries prio (response_pair t rxChan True) ()
        (Serialize c SynchronizeTimeRequestType request t) oo)"

definition create_or_delete :: "bool \<Rightarrow> u8" where
  "create_or_delete create = (if create then CreateRequestType else DeleteRequestType)"

definition SendCreateOrDeleteEthernetPerformanceMonitoringHistoryME ::
    "send_ctx \<Rightarrow> int \<Rightarrow> bool \<Rightarrow> bool \<Rightarrow> bool \<Rightarrow> nat \<Rightarrow> u16 \<Rightarrow> OmciCC \<Rightarrow> me_result run" where
  "SendCreateOrDeleteEthernetPerformanceMonitoringHistoryME c timeout prio upstream create rxChan entityID oo =
     send_me c (if upstream then Me_EthernetFramePerformanceMonitoringHistoryDataUpstream
                else Me_EthernetFramePerformanceMonitoringHistoryDataDownstream)
       (create_or_delete create) True timeout prio rxChan (param_id entityID) oo"

definition SendCreateOrDeleteEthernetUniHistoryME ::
    "send_ctx \<Rightarrow> int \<Rightarrow> bool \<Rightarrow> bool \<Rightarrow> nat \<Rightarrow> u16 \<Rightarrow> OmciCC \<Rightarrow> me_result run" where
  "SendCreateOrDeleteEthernetUniHistoryME c timeout prio create rxChan entityID oo =
     send_me c Me_EthernetPerformanceMonitoringHistoryData (create_or_delete create) True timeout prio rxChan
       (param_id entityID) oo"

definition SendCreateOrDeleteFecHistoryME ::
    "send_ctx \<Rightarrow> int \<Rightarrow> bool \<Rightarrow> bool \<Rightarrow> nat \<Rightarrow> u16 \<Rightarrow> OmciCC \<Rightarrow> me_result run" where
  "SendCreateOrDeleteFecHistoryME c timeout prio create rxChan entityID oo =
     send_me c Me_FecPerformanceMonitoringHistoryData (create_or_delete create) True timeout prio rxChan
       (param_id entityID) oo"

definition SendCreateOrDeleteGemPortHistoryME ::
    "send_ctx \<Rightarrow> int \<Rightarrow> bool \<Rightarrow> bool \<Rightarrow> nat \<Rightarrow> u16 \<Rightarrow> OmciCC \<Rightarrow> me_result run" where
  "SendCreateOrDeleteGemPortHistoryME c timeout prio create rxChan entityID oo =
     send_me c Me_GemPortNetworkCtpPerformanceMonitoringHistoryData (create_or_delete create) True timeout prio rxChan
       (param_id entityID) oo"

definition extended_pm_class :: "u16 \<Rightarrow> me_class" where
  "extended_pm_class classID =
     (if classID = class_id Me_EthernetFrameExtendedPm then Me_EthernetFrameExtendedPm else Me_EthernetFrameExtendedPm64Bit)"

definition SendCreateOrDeleteEthernetFrameExtendedPMME ::
    "send_ctx \<Rightarrow> int \<Rightarrow> bool \<Rightarrow> bool \<Rightarrow> bool \<Rightarrow> nat \<Rightarrow> u16 \<Rightarrow> u16 \<Rightarrow> u16 list \<Rightarrow> OmciCC \<Rightarrow> me_result run" where
  "SendCreateOrDeleteEthernetFrameExtendedPMME c timeout prio upstream create rxChan entityID classID controlBlock oo =
     send_me c (extended_pm_class classID) (create_or_delete create) True timeout prio rxChan
       \<lparr> pd_EntityID = entityID, pd_Attributes = [(''ControlBlock'', AvU16s controlBlock)] \<rparr> oo"

definition SendSetEthernetFrameExtendedPMME ::
    "send_ctx \<Rightarrow> int \<Rightarrow> bool \<Rightarrow> nat \<Rightarrow> u16 \<Rightarrow> u16 \<Rightarrow> u16 list \<Rightarrow> OmciCC \<Rightarrow> me_result run" where
  "SendSetEthernetFrameExtendedPMME c timeout prio rxChan entityID classID controlBlock oo =
     send_me c (extended_pm_class classID) SetRequestType False timeout prio rxChan
       \<lparr> pd_EntityID = entityID, pd_Attributes = [(''ControlBlock'', AvU16s controlBlock)] \<rparr> oo"

subsection \<open>Software download and self test\<close>

definition SendStartSoftwareDownload ::
    "send_ctx \<Rightarrow> int \<Rightarrow> bool \<Rightarrow> nat \<Rightarrow> u16 \<Rightarrow> u8 \<Rightarrow> u32 \<Rightarrow> bool \<Rightarrow> OmciCC \<Rightarrow> unit_result run" where
  "SendStartSoftwareDownload c timeout prio rxChan aImageMeID aDownloadWindowSize aFileLen aIsExtendedOmci oo =
     (let (t, oo) = GetNextTid prio oo;
          request = StartSoftwareDownloadRequest (class_id Me_SoftwareImage) aImageMeID aIsExtendedOmci
            aDownloadWindowSize aFileLen 1 [0] in
      send_built c timeout CDefaultRetries prio (response_pair t rxChan True) ()
        (serialize_ext c StartSoftwareDownloadRequestType request t) oo)"

definition SendDownloadSection ::
    "send_ctx \<Rightarrow> int \<Rightarrow> bool \<Rightarrow> nat \<Rightarrow> u16 \<Rightarrow> u8 \<Rightarrow> u8 \<Rightarrow> bytes \<Rightarrow> bool \<Rightarrow> bool \<Rightarrow> OmciCC \<Rightarrow> unit_result run" where
  "SendDownloadSection c aTimeout prio rxChan aImageMeID aAckRequest aDownloadSectionNo aSection aPrint aIsExtendedOmci oo =
     (let (t, oo) = GetNextTid prio oo;
          msgType = (if 0 < aAckRequest then DownloadSectionRequestWithResponseType else DownloadSectionRequestType);
          timeout = (if 0 < aAckRequest then aTimeout else 0);
          request = DownloadSectionRequest (class_id Me_SoftwareImage) aImageMeID aIsExtendedOmci aDownloadSectionNo aSection;
          printFrame = (if 0 < aAckRequest \<or> aDownloadSectionNo = 0 then True else aPrint) in
      send_built c timeout CDefaultRetries prio (response_pair t rxChan printFrame) ()
        (serialize_ext c msgType request t) oo)"

definition SendEndSoftwareDownload ::
    "send_ctx \<Rightarrow> int \<Rightarrow> bool \<Rightarrow> nat \<Rightarrow> u16 \<Rightarrow> u32 \<Rightarrow> u32 \<Rightarrow> bool \<Rightarrow> OmciCC \<Rightarrow> unit_result run" where
  "SendEndSoftwareDownload c timeout prio rxChan aImageMeID aFileLen aImageCrc aIsExtendedOmci oo =
     (let (t, oo) = GetNextTid prio oo;
          request = EndSoftwareDownloadRequest (class_id Me_SoftwareImage) aImageMeID aIsExtendedOmci
            aImageCrc aFileLen 1 [0] in
      send_built c timeout CDefaultRetries prio (response_pair t rxChan True) ()
        (serialize_ext c EndSoftwareDownloadRequestType request t) oo)"

definition SendActivateSoftware :: "send_ctx \<Rightarrow> int \<Rightarrow> bool \<Rightarrow> nat \<Rightarrow> u16 \<Rightarrow> bool \<Rightarrow> OmciCC \<Rightarrow> unit_result run" where
  "SendActivateSoftware c timeout prio rxChan aImageMeID aIsExtendedOmci oo =
     (let (t, oo) = GetNextTid prio oo;
          request = ActivateSoftwareRequest (class_id Me_SoftwareImage) aImageMeID aIsExtendedOmci 0 in
      send_built c timeout CDefaultRetries prio (response_pair t rxChan True) ()
        (serialize_ext c ActivateSoftwareRequestType request t) oo)"

definition SendCommitSoftware :: "send_ctx \<Rightarrow> int \<Rightarrow> bool \<Rightarrow> nat \<Rightarrow> u16 \<Rightarrow> bool \<Rightarrow> OmciCC \<Rightarrow> unit_result run" where
  "SendCommitSoftware c timeout prio rxChan aImageMeID aIsExtendedOmci oo =
     (let (t, oo) = GetNextTid prio oo;
          request = CommitSoftwareRequest (class_id Me_SoftwareImage) aImageMeID aIsExtendedOmci in
      send_built c timeout CDefaultRetries prio (response_pair t rxChan True) ()
        (serialize_ext c CommitSoftwareRequestType request t) oo)"

text \<open>A self test is not repeated; other classes than the optical interface are refused.\<close>

definition SendSelfTestReq :: "send_ctx \<Rightarrow> u16 \<Rightarrow> u16 \<Rightarrow> int \<Rightarrow> bool \<Rightarrow> nat \<Rightarrow> OmciCC \<Rightarrow> unit_result run" where
  "SendSelfTestReq c classID instdID timeout prio rxChan oo =
     (let (t, oo) = GetNextTid prio oo in
      if classID \<noteq> class_id Me_AniG then Done (Inl ''unsupported-class-id-for-self-test-request'', Finished oo)
      else
        let request = OpticalLineSupervisionTestRequest classID instdID False 7 0 0 in
        send_built c timeout 0 prio (response_pair t rxChan True) () (Serialize c TestRequestType request t) oo)"

subsection \<open>Access to the supervised requests\<close>

definition GetMonitoredRequest :: "u16 \<Rightarrow> OmciCC \<Rightarrow> OmciTransferStructure option" where
  "GetMonitoredRequest omciTransID oo = map_of (monitoredRequests oo) omciTransID"

text \<open>Of a missing request the channel is nil, and sending on it blocks forever.\<close>

definition SetChMonitoredRequest :: "u16 \<Rightarrow> bool \<Rightarrow> OmciCC \<Rightarrow> OmciCC run" where
  "SetChMonitoredRequest omciTransID chVal oo =
     (case map_of (monitoredRequests oo) omciTransID of
        None \<Rightarrow> Deadlock
      | Some r \<Rightarrow> Done (emit (SuccessSignal (chSuccess r) chVal) oo))"

end
