(* ===== verification/Omci_Req.thy ===== *)
theory Omci_Req
  imports Omci_Me
begin

text \<open>
  What the requests of the OMCI channel achieve: requests called one after the other keep apart, whatever the order
  of their goroutines, and each response is registered for the channel of its own request; the MIB upload asks for
  the entries one by one; and what happens when an identifier is still in use.

  The locale \<open>request_series\<close> states what one request does to an idle channel when its goroutines run at once; its
  lemmas lift it to any number of requests. It is interpreted on the requests for managed entities and on the
  MIB upload. \<open>schedule_step\<close> takes a request apart into the call and its two goroutines.
\<close>

subsection \<open>Series of requests\<close>

lemma GetNextTid_frame [frame_simps]:
  "rxSchedulerMap (snd (GetNextTid p oo)) = rxSchedulerMap oo" "monitoredRequests (snd (GetNextTid p oo)) = monitoredRequests oo"
  "cc_out (snd (GetNextTid p oo)) = cc_out oo" "idle (snd (GetNextTid p oo)) = idle oo"
  "UploadSequNo (snd (GetNextTid p oo)) = UploadSequNo oo" "pOnuDeviceEntry (snd (GetNextTid p oo)) = pOnuDeviceEntry oo"
  "mutexRxSchedMap (snd (GetNextTid p oo)) = mutexRxSchedMap oo" "nextChan (snd (GetNextTid p oo)) = nextChan oo"
  "UploadNoOfCmds (snd (GetNextTid p oo)) = UploadNoOfCmds oo"
  by (simp_all add: GetNextTid_def Let_def idle_def)

lemma GetNextTid_cong:
  assumes "tid a = tid b" "hpTid a = hpTid b"
  shows "fst (GetNextTid p a) = fst (GetNextTid p b)" "tid (snd (GetNextTid p a)) = tid (snd (GetNextTid p b))"
    "hpTid (snd (GetNextTid p a)) = hpTid (snd (GetNextTid p b))"
  using assms by (simp_all add: GetNextTid_def Let_def)

lemma next_tids_Suc: "next_tids p (Suc n) oo = fst (GetNextTid p oo) # next_tids p n (snd (GetNextTid p oo))"
  by (simp add: split_def Let_def)

declare next_tids.simps(2) [simp del]

lemma next_tids_cong: "tid a = tid b \<Longrightarrow> hpTid a = hpTid b \<Longrightarrow> next_tids p n a = next_tids p n b"
proof (induction n arbitrary: a b)
  case (Suc n)
  note c = GetNextTid_cong [OF Suc.prems, of p]
  show ?case by (simp only: next_tids_Suc c(1) Suc.IH [OF c(2,3)])
qed simp

lemma length_next_tids [simp]: "length (next_tids p n oo) = n"
  by (induction n arbitrary: oo) (simp_all add: next_tids_Suc)

lemma next_tids_distinct:
  assumes "tids_in_range oo" "n \<le> 0x7FFF"
  shows "distinct (next_tids p n oo)"
proof -
  have r: "1 \<le> tid oo" "tid oo < 0x8000" "0x8000 \<le> hpTid oo" using assms(1) by (simp_all add: tids_in_range_def)
  have "distinct (map unat (next_tids False n oo))"
    unfolding unat_low_tids [OF r(1,2)] by (rule distinct_shift_mod [OF assms(2)])
  moreover have "distinct (map unat (next_tids True n oo))"
    unfolding unat_high_tids [OF r(3)] using assms(2) by (intro distinct_shift_mod) simp
  ultimately show ?thesis by (cases p) (simp_all add: distinct_map)
qed

fun send_series :: "('r \<Rightarrow> OmciCC \<Rightarrow> 'a send_result run) \<Rightarrow> 'r list \<Rightarrow> OmciCC \<Rightarrow> OmciCC run" where
  "send_series step [] oo = Done oo"
| "send_series step (r # rs) oo = bind_run (step r oo) (\<lambda>(x, s). send_series step rs (sup_state s))"

text \<open>The frames of a series: a frame depends on its request, its identifier and the sequence number of
  the upload, which \<open>adv\<close> moves on.\<close>

fun series_frames :: "('r \<Rightarrow> u16 \<Rightarrow> u16 \<Rightarrow> bytes) \<Rightarrow> (u16 \<Rightarrow> u16) \<Rightarrow> 'r list \<Rightarrow> u16 list \<Rightarrow> u16 \<Rightarrow> bytes list" where
  "series_frames frame adv (r # rs) (t # ts) n = frame r t n # series_frames frame adv rs ts (adv n)"
| "series_frames frame adv _ _ n = []"

text \<open>Identifiers \<open>ts\<close> that the channel will hand out next, all different and none of them in use.\<close>

definition fresh_ids :: "bool \<Rightarrow> u16 list \<Rightarrow> OmciCC \<Rightarrow> bool" where
  "fresh_ids prio ts oo \<longleftrightarrow>
     next_tids prio (length ts) oo = ts \<and> distinct ts \<and> set ts \<inter> dom (map_of (monitoredRequests oo)) = {}"

lemma fresh_ids_start:
  "tids_in_range oo \<Longrightarrow> n \<le> 0x7FFF \<Longrightarrow> monitoredRequests oo = [] \<Longrightarrow> fresh_ids prio (next_tids prio n oo) oo"
  by (simp add: fresh_ids_def next_tids_distinct)

locale request_series =
  fixes step :: "'r \<Rightarrow> OmciCC \<Rightarrow> 'a send_result run" and prio :: bool and frame :: "'r \<Rightarrow> u16 \<Rightarrow> u16 \<Rightarrow> bytes"
    and adv :: "u16 \<Rightarrow> u16" and chan :: "'r \<Rightarrow> nat" and res :: "'r \<Rightarrow> 'a" and ready :: "OmciCC \<Rightarrow> bool"
  assumes step_registers:
    "ready oo \<Longrightarrow> map_of (monitoredRequests oo) (fst (GetNextTid prio oo)) = None \<Longrightarrow>
     \<exists>oo'. step r oo = Done (Inr (res r), WaitingIn oo') \<and> ready oo' \<and>
       tid oo' = tid (snd (GetNextTid prio oo)) \<and> hpTid oo' = hpTid (snd (GetNextTid prio oo)) \<and>
       UploadSequNo oo' = adv (UploadSequNo oo) \<and> UploadNoOfCmds oo' = UploadNoOfCmds oo \<and>
       rxSchedulerMap oo' = (rxSchedulerMap oo)(fst (GetNextTid prio oo) \<mapsto>
         CbEntry (response_pair (fst (GetNextTid prio oo)) (chan r) True)) \<and>
       dom (map_of (monitoredRequests oo')) = insert (fst (GetNextTid prio oo)) (dom (map_of (monitoredRequests oo))) \<and>
       cc_out oo' = cc_out oo @ [TxFrame (frame r (fst (GetNextTid prio oo)) (UploadSequNo oo))]"
begin

lemma step_fresh:
  assumes "ready oo" "fresh_ids prio (t # ts) oo"
  shows "\<exists>oo'. step r oo = Done (Inr (res r), WaitingIn oo') \<and> ready oo' \<and> fresh_ids prio ts oo' \<and>
    UploadSequNo oo' = adv (UploadSequNo oo) \<and> UploadNoOfCmds oo' = UploadNoOfCmds oo \<and>
    rxSchedulerMap oo' = (rxSchedulerMap oo)(t \<mapsto> CbEntry (response_pair t (chan r) True)) \<and>
    cc_out oo' = cc_out oo @ [TxFrame (frame r t (UploadSequNo oo))]"
proof -
  have t: "fst (GetNextTid prio oo) = t" and ts: "next_tids prio (length ts) (snd (GetNextTid prio oo)) = ts"
    and d: "t \<notin> set ts" "distinct ts" "set (t # ts) \<inter> dom (map_of (monitoredRequests oo)) = {}"
    using assms(2) by (auto simp: fresh_ids_def next_tids_Suc)
  then have "map_of (monitoredRequests oo) (fst (GetNextTid prio oo)) = None" by auto
  then obtain o1 where o1: "step r oo = Done (Inr (res r), WaitingIn o1)" "ready o1"
      "tid o1 = tid (snd (GetNextTid prio oo))" "hpTid o1 = hpTid (snd (GetNextTid prio oo))"
      "UploadSequNo o1 = adv (UploadSequNo oo)" "UploadNoOfCmds o1 = UploadNoOfCmds oo"
      "rxSchedulerMap o1 = (rxSchedulerMap oo)(t \<mapsto> CbEntry (response_pair t (chan r) True))"
      "dom (map_of (monitoredRequests o1)) = insert t (dom (map_of (monitoredRequests oo)))"
      "cc_out o1 = cc_out oo @ [TxFrame (frame r t (UploadSequNo oo))]"
    using step_registers [OF assms(1), of r] unfolding t by blast
  have "next_tids prio (length ts) o1 = ts" using next_tids_cong [OF o1(3,4), of prio "length ts"] ts by simp
  then have "fresh_ids prio ts o1" using d unfolding fresh_ids_def o1(8) by auto
  with o1 show ?thesis by blast
qed

lemma series:
  assumes "ready oo" "fresh_ids prio ts oo" "length rs = length ts"
  shows "\<exists>oo'. send_series step rs oo = Done oo' \<and> ready oo' \<and>
    (\<forall>i < length rs. rxSchedulerMap oo' (ts ! i) = Some (CbEntry (response_pair (ts ! i) (chan (rs ! i)) True))) \<and>
    (\<forall>t. t \<notin> set ts \<longrightarrow> rxSchedulerMap oo' t = rxSchedulerMap oo t) \<and>
    cc_out oo' = cc_out oo @ map TxFrame (series_frames frame adv rs ts (UploadSequNo oo))"
  using assms(3,1,2)
proof (induction rs ts arbitrary: oo rule: list_induct2)
  case Nil
  then show ?case by simp
next
  case (Cons r rs t ts)
  from step_fresh [OF Cons.prems, of r] obtain o1 where o1: "step r oo = Done (Inr (res r), WaitingIn o1)" "ready o1"
      "fresh_ids prio ts o1" "UploadSequNo o1 = adv (UploadSequNo oo)"
      "rxSchedulerMap o1 = (rxSchedulerMap oo)(t \<mapsto> CbEntry (response_pair t (chan r) True))"
      "cc_out o1 = cc_out oo @ [TxFrame (frame r t (UploadSequNo oo))]" by blast
  from Cons.IH [OF o1(2,3)] obtain o2 where o2: "send_series step rs o1 = Done o2" "ready o2"
      "\<forall>i < length rs. rxSchedulerMap o2 (ts ! i) = Some (CbEntry (response_pair (ts ! i) (chan (rs ! i)) True))"
      "\<forall>t. t \<notin> set ts \<longrightarrow> rxSchedulerMap o2 t = rxSchedulerMap o1 t"
      "cc_out o2 = cc_out o1 @ map TxFrame (series_frames frame adv rs ts (UploadSequNo o1))" by blast
  have "t \<notin> set ts" using Cons.prems(2) by (simp add: fresh_ids_def)
  then have "rxSchedulerMap o2 t = Some (CbEntry (response_pair t (chan r) True))" using o2(4) by (simp add: o1)
  with o1 o2 show ?case by (intro exI [of _ o2]) (auto simp: nth_Cons split: nat.splits)
qed

end

subsection \<open>One request\<close>

text \<open>A calm surrounding: the transport takes every frame, nothing else is queued meanwhile, no response
  has arrived yet, the request is supervised, and the library accepts the parameters and encodes every
  request to a frame of more than three octets.\<close>

definition calm :: "send_ctx \<Rightarrow> int \<Rightarrow> bool" where
  "calm c timeout \<longleftrightarrow>
     quiet (sc_env c) \<and> te_high (sc_env c) = (\<lambda>n. []) \<and> sc_ocs c = [] \<and> timeout \<noteq> 0 \<and>
     (\<forall>cls p. lib_new (sc_lib c) cls p = None) \<and>
     (\<forall>m mt t d i. \<exists>f. lib_encode (sc_lib c) m mt t d i = Inr f \<and> 3 < length f) \<and>
     (\<forall>h r. \<exists>f. lib_serialize (sc_lib c) h r = Inr f \<and> 3 < length f)"

lemma built_registers:
  assumes "calm c timeout" "idle oo" "map_of (monitoredRequests oo) (CbKey cb) = None" "3 < length f"
  shows "\<exists>oo'. send_built c timeout CDefaultRetries prio cb x (Inr f) oo = Done (Inr x, WaitingIn oo') \<and> idle oo' \<and>
    tid oo' = tid oo \<and> hpTid oo' = hpTid oo \<and> UploadSequNo oo' = UploadSequNo oo \<and> UploadNoOfCmds oo' = UploadNoOfCmds oo \<and>
    pOnuDeviceEntry oo' = pOnuDeviceEntry oo \<and> rxSchedulerMap oo' = (rxSchedulerMap oo)(CbKey cb \<mapsto> CbEntry cb) \<and>
    dom (map_of (monitoredRequests oo')) = insert (CbKey cb) (dom (map_of (monitoredRequests oo))) \<and>
    cc_out oo' = cc_out oo @ [TxFrame f]"
proof -
  obtain oo' k req where "Send (sc_env c) f timeout CDefaultRetries prio cb [] oo = Done (Inr (WaitingIn oo'))"
    and s: "sent [TxFrame f] k (oo\<lparr>rxSchedulerMap := (rxSchedulerMap oo)(CbKey cb := Some (CbEntry cb)),
      nextChan := Suc (Suc (nextChan oo)), monitoredRequests := AList.update (CbKey cb) req (monitoredRequests oo)\<rparr>) oo'"
    using Send_registers [of "sc_env c" f oo timeout CDefaultRetries cb prio] assms
    by (auto simp: calm_def CDefaultRetries_def)
  moreover have "UploadSequNo oo' = UploadSequNo oo" "UploadNoOfCmds oo' = UploadNoOfCmds oo" using s by (auto simp: sent_def)
  ultimately show ?thesis
    using sent_fields [OF s] assms(1,2) by (simp add: send_built_def calm_def idle_def)
qed

text \<open>A request for a managed entity: class, message type, defaults, parameters and channel.\<close>

type_synonym entity_request = "u16 \<times> u8 \<times> bool \<times> ParamData \<times> nat"

fun send_request :: "send_ctx \<Rightarrow> int \<Rightarrow> bool \<Rightarrow> entity_request \<Rightarrow> OmciCC \<Rightarrow> me_result run" where
  "send_request c timeout prio (cls, mt, d, p, ch) oo = send_class c cls mt d BaselineIdent timeout prio ch p oo"

fun entity_frame :: "omci_lib \<Rightarrow> entity_request \<Rightarrow> u16 \<Rightarrow> bytes" where
  "entity_frame lib (cls, mt, d, p, ch) t =
     projr (lib_encode lib \<lparr> GetClassID = cls, GetEntityID = pd_EntityID p, GetAttributes = pd_Attributes p \<rparr> mt t d BaselineIdent)"

interpretation entities: request_series "send_request c timeout prio" prio "\<lambda>r t n. entity_frame (sc_lib c) r t" "\<lambda>n. n"
    "\<lambda>(cls, mt, d, p, ch). ch"
    "\<lambda>(cls, mt, d, p, ch). \<lparr> GetClassID = cls, GetEntityID = pd_EntityID p, GetAttributes = pd_Attributes p \<rparr>"
    "\<lambda>oo. calm c timeout \<and> idle oo"
  for c timeout prio
proof (unfold_locales, goal_cases)
  case (1 oo r)
  obtain cls mt d p ch where r: "r = (cls, mt, d, p, ch)" by (rule prod_cases5)
  let ?m = "\<lparr> GetClassID = cls, GetEntityID = pd_EntityID p, GetAttributes = pd_Attributes p \<rparr>"
  obtain t o0 where t: "GetNextTid prio oo = (t, o0)" by (rule prod.exhaust)
  obtain f where f: "lib_encode (sc_lib c) ?m mt t d BaselineIdent = Inr f" "3 < length f"
    using 1(1) unfolding calm_def by blast
  have o0: "idle o0" "map_of (monitoredRequests o0) t = None"
    using 1 GetNextTid_frame(2,4) [of prio oo] t by simp_all
  obtain oo' where oo': "send_built c timeout CDefaultRetries prio (response_pair t ch True) ?m (Inr f) o0 =
      Done (Inr ?m, WaitingIn oo')" "idle oo'" "tid oo' = tid o0" "hpTid oo' = hpTid o0"
      "UploadSequNo oo' = UploadSequNo o0" "UploadNoOfCmds oo' = UploadNoOfCmds o0"
      "rxSchedulerMap oo' = (rxSchedulerMap o0)(t \<mapsto> CbEntry (response_pair t ch True))"
      "dom (map_of (monitoredRequests oo')) = insert t (dom (map_of (monitoredRequests o0)))"
      "cc_out oo' = cc_out o0 @ [TxFrame f]"
    using built_registers [of c timeout o0 "response_pair t ch True" f prio ?m] 1(1) o0 f(2)
    by (auto simp: response_pair_def)
  have "send_request c timeout prio r oo = Done (Inr ?m, WaitingIn oo')"
    using 1(1) oo'(1) f(1) by (simp add: r send_class_def send_entity_def t calm_def Let_def)
  with oo' 1(1) show ?case using GetNextTid_frame [of prio oo] f(1) by (simp add: t r)
qed

definition upload_next_frame :: "send_ctx \<Rightarrow> bool \<Rightarrow> u16 \<Rightarrow> u16 \<Rightarrow> bytes" where
  "upload_next_frame c e t n =
     projr (serialize_ext c MibUploadNextRequestType (MibUploadNextRequest (class_id Me_OnuData) 0 e n) t)"

interpretation uploads: request_series "\<lambda>_. SendMibUploadNext c timeout prio e" prio "\<lambda>_. upload_next_frame c e" "\<lambda>n. n + 1"
    "\<lambda>_. GetMibUploadFsmCommChan c" "\<lambda>_. ()" "\<lambda>oo. calm c timeout \<and> idle oo \<and> pOnuDeviceEntry oo"
  for c timeout prio e
proof (unfold_locales, goal_cases)
  case (1 oo r)
  obtain t o0 where t: "GetNextTid prio oo = (t, o0)" by (rule prod.exhaust)
  let ?r = "MibUploadNextRequest (class_id Me_OnuData) 0 e (UploadSequNo o0)"
  let ?o = "o0\<lparr>UploadSequNo := UploadSequNo o0 + 1\<rparr>"
  obtain f where f: "serialize_ext c MibUploadNextRequestType ?r t = Inr f" "3 < length f"
    using 1(1) unfolding calm_def serialize_ext_def by blast
  have o0: "idle ?o" "map_of (monitoredRequests ?o) t = None"
    using 1 GetNextTid_frame(2,4) [of prio oo] t by (simp_all add: idle_def)
  obtain oo' where oo': "send_built c timeout CDefaultRetries prio (response_pair t (GetMibUploadFsmCommChan c) True) () (Inr f) ?o =
      Done (Inr (), WaitingIn oo')" "idle oo'" "tid oo' = tid ?o" "hpTid oo' = hpTid ?o" "UploadSequNo oo' = UploadSequNo ?o"
      "UploadNoOfCmds oo' = UploadNoOfCmds ?o" "pOnuDeviceEntry oo' = pOnuDeviceEntry ?o"
      "rxSchedulerMap oo' = (rxSchedulerMap ?o)(t \<mapsto> CbEntry (response_pair t (GetMibUploadFsmCommChan c) True))"
      "dom (map_of (monitoredRequests oo')) = insert t (dom (map_of (monitoredRequests ?o)))"
      "cc_out oo' = cc_out ?o @ [TxFrame f]"
    using built_registers [of c timeout ?o "response_pair t (GetMibUploadFsmCommChan c) True" f prio "()"] 1(1) o0 f(2)
    by (auto simp: response_pair_def)
  have "SendMibUploadNext c timeout prio e oo = Done (Inr (), WaitingIn oo')"
    using 1(1) oo'(1) f(1) GetNextTid_frame(6) [of prio oo] by (simp add: SendMibUploadNext_def t entry_channel_def)
  with oo' 1(1) show ?case using GetNextTid_frame [of prio oo] f(1) by (simp add: t upload_next_frame_def)
qed

subsection \<open>Calls and goroutines\<close>

text \<open>
  A supervised request leaves the call of \<^verbatim>\<open>Send\<close> with a goroutine for its supervision, and that one
  leaves the queue with a goroutine that sends it. \<open>Send\<close> and \<open>sendWithRxSupervision\<close> of the model run them at
  once; here the three parts are steps of their own, so that the goroutines of several requests run in any order.
\<close>

definition Send_call ::
    "bytes \<Rightarrow> int \<Rightarrow> int \<Rightarrow> bool \<Rightarrow> CallbackPair \<Rightarrow> OmciCC \<Rightarrow> ((string + OmciTransferStructure) \<times> OmciCC) run" where
  "Send_call frame timeout retry prio receiveCallbackPair oo =
     bind_run (if timeout \<noteq> 0
               then setRxSched (CbKey receiveCallbackPair) (Some (CbEntry receiveCallbackPair)) oo
               else Done oo) (\<lambda>oo.
       let omciTxRequest =
             \<lparr> chSuccess = nextChan oo, OnuSwWindow = None, cbPair = receiveCallbackPair,
               txFrame = frame, ots_timeout = timeout, ots_retries = retry, highPrio = prio,
               withFramePrint = FramePrint (CbEntry receiveCallbackPair) \<rparr>;
           oo = oo\<lparr>nextChan := nextChan oo + 1\<rparr>
       in Done (if map_of (monitoredRequests oo) (CbKey receiveCallbackPair) = None
                then (Inr omciTxRequest, oo)
                else (Inl ''message with tid is processed already'', oo)))"

fun call_request ::
    "send_ctx \<Rightarrow> int \<Rightarrow> bool \<Rightarrow> entity_request \<Rightarrow> OmciCC \<Rightarrow> ((string + OmciTransferStructure) \<times> OmciCC) run" where
  "call_request c timeout prio (cls, mt, d, p, ch) oo =
     (let (t, oo) = GetNextTid prio oo in
      case lib_new (sc_lib c) cls p of
        Some e \<Rightarrow> Done (Inl e, oo)
      | None \<Rightarrow>
          let m = \<lparr> GetClassID = cls, GetEntityID = pd_EntityID p, GetAttributes = pd_Attributes p \<rparr> in
          (case lib_encode (sc_lib c) m mt t d BaselineIdent of
             Inl e \<Rightarrow> Done (Inl e, oo)
           | Inr pkt \<Rightarrow> Send_call pkt timeout CDefaultRetries prio (response_pair t ch True) oo))"

definition start_supervision :: "OmciTransferStructure \<Rightarrow> OmciCC \<Rightarrow> OmciCC run" where
  "start_supervision aOmciTxRequest oo =
     (let req = aOmciTxRequest\<lparr>chSuccess := nextChan oo\<rparr>;
          t = CbKey (cbPair req);
          oo = oo\<lparr>nextChan := nextChan oo + 1,
                   monitoredRequests := AList.update t req (monitoredRequests oo)\<rparr>
      in if \<not> device_up oo then Done (unmonitor t oo)
         else bind_run (if highPrio req then pushHigh req oo else pushLow req oo) (\<lambda>oo.
              setRxSched t (Some (CbEntry (cbPair req))) oo))"

text \<open>The call with its goroutines run at once is the request of the model.\<close>

lemma Send_by_parts:
  "timeout \<noteq> 0 \<Longrightarrow> Send env frame timeout retry prio cb ocs oo =
     bind_run (Send_call frame timeout retry prio cb oo) (\<lambda>(x, oo).
       case x of Inl e \<Rightarrow> Done (Inl (e, oo))
       | Inr req \<Rightarrow> bind_run (sendWithRxSupervision env req ocs oo) (\<lambda>r. Done (Inr r)))"
  by (cases "setRxSched (CbKey cb) (Some (CbEntry cb)) oo")
    (simp_all add: Send_def Send_call_def processRequestMonitoring_def Let_def)

lemma send_request_by_parts:
  assumes "timeout \<noteq> 0"
  shows "send_request c timeout prio (cls, mt, d, p, ch) oo =
    bind_run (call_request c timeout prio (cls, mt, d, p, ch) oo) (\<lambda>(x, oo).
      case x of Inl e \<Rightarrow> Done (Inl e, Finished oo)
      | Inr req \<Rightarrow> bind_run (sendWithRxSupervision (sc_env c) req (sc_ocs c) oo) (\<lambda>r.
          Done (Inr \<lparr> GetClassID = cls, GetEntityID = pd_EntityID p, GetAttributes = pd_Attributes p \<rparr>, r)))"
  using assms
  by (auto simp: send_class_def send_entity_def send_built_def Send_by_parts bind_run_assoc split_def Let_def
      split: option.splits sum.splits intro!: arg_cong [where f = "bind_run _"] ext)

lemma supervision_by_parts:
  assumes "0 \<le> ots_retries req" "device_up oo"
  shows "sendWithRxSupervision env req [] oo =
    bind_run (start_supervision req oo) (\<lambda>oo. bind_run (sendQueuedRequests env oo) (\<lambda>oo. Done (WaitingIn oo)))"
  using assms
  by (auto simp: sendWithRxSupervision_def start_supervision_def sup_transmit_def bind_run_assoc device_up_def Let_def
      split: option.splits)

text \<open>A machine or another goroutine calls, a goroutine of supervision starts, a goroutine sends what is queued.\<close>

datatype channel_op = CallRequest entity_request | StartSupervision nat | SendQueued

type_synonym schedule_state = "OmciCC \<times> OmciTransferStructure list \<times> nat"

fun schedule_step :: "send_ctx \<Rightarrow> int \<Rightarrow> bool \<Rightarrow> channel_op \<Rightarrow> schedule_state \<Rightarrow> schedule_state run" where
  "schedule_step c timeout prio (CallRequest r) (oo, ws, n) =
     bind_run (call_request c timeout prio r oo) (\<lambda>(x, oo).
       Done (case x of Inl e \<Rightarrow> (oo, ws, n) | Inr req \<Rightarrow> (oo, ws @ [req], n)))"
| "schedule_step c timeout prio (StartSupervision k) (oo, ws, n) =
     (if k < length ws
      then bind_run (start_supervision (ws ! k) oo) (\<lambda>oo. Done (oo, take k ws @ drop (Suc k) ws, n + 1))
      else Done (oo, ws, n))"
| "schedule_step c timeout prio SendQueued (oo, ws, n) =
     (if n = 0 then Done (oo, ws, n)
      else bind_run (sendQueuedRequests (sc_env c) oo) (\<lambda>oo. Done (oo, ws, n - 1)))"

fun calls :: "channel_op list \<Rightarrow> entity_request list" where
  "calls [] = []"
| "calls (CallRequest r # ops) = r # calls ops"
| "calls (_ # ops) = calls ops"

fun response_channel :: "entity_request \<Rightarrow> nat" where
  "response_channel (cls, mt, d, p, ch) = ch"

definition request_entry :: "u16 \<Rightarrow> entity_request \<Rightarrow> CallbackPairEntry" where
  "request_entry t r = CbEntry (response_pair t (response_channel r) True)"

text \<open>A request of a goroutine that is under way: built for the \<open>i\<close>-th call.\<close>

definition under_way :: "bool \<Rightarrow> entity_request list \<Rightarrow> u16 list \<Rightarrow> OmciTransferStructure \<Rightarrow> bool" where
  "under_way prio rs ts q \<longleftrightarrow> plain q \<and> OnuSwWindow q = None \<and> highPrio q = prio \<and>
     (\<exists>i < length ts. CbKey (cbPair q) = ts ! i \<and> CbEntry (cbPair q) = request_entry (ts ! i) (rs ! i))"

definition queued :: "OmciCC \<Rightarrow> OmciTransferStructure list" where
  "queued oo = highPrioTxQueue oo @ lowPrioTxQueue oo"

text \<open>What holds when the requests \<open>rs\<close> have been called, with \<open>ids\<close> the identifiers of all calls to come.\<close>

definition schedule_inv ::
    "send_ctx \<Rightarrow> bool \<Rightarrow> u16 list \<Rightarrow> effect list \<Rightarrow> entity_request list \<Rightarrow> schedule_state \<Rightarrow> bool" where
  "schedule_inv c prio ids out rs st \<longleftrightarrow> (case st of (oo, ws, n) \<Rightarrow>
     length rs \<le> length ids \<and> orderly oo \<and> device_up oo \<and>
     next_tids prio (length ids - length rs) oo = drop (length rs) ids \<and>
     dom (map_of (monitoredRequests oo)) \<subseteq> set (take (length rs) ids) \<and>
     (\<forall>i < length rs. rxSchedulerMap oo (ids ! i) = Some (request_entry (ids ! i) (rs ! i))) \<and>
     (\<forall>q \<in> set (queued oo @ ws). under_way prio rs (take (length rs) ids) q) \<and>
     (n = 0 \<longrightarrow> queued oo = []) \<and>
     (\<exists>fs. cc_out oo = out @ map TxFrame fs \<and>
        mset fs + mset (map txFrame (queued oo)) + mset (map txFrame ws) =
          mset (map2 (entity_frame (sc_lib c)) rs (take (length rs) ids))))"

lemma GetNextTid_more:
  "orderly (snd (GetNextTid p oo)) = orderly oo" "device_up (snd (GetNextTid p oo)) = device_up oo"
  "queued (snd (GetNextTid p oo)) = queued oo"
  by (simp_all add: GetNextTid_def Let_def orderly_def device_up_def queued_def)

lemma under_way_more:
  "under_way prio rs (take (length rs) ids) q \<Longrightarrow> length rs < length ids \<Longrightarrow>
   under_way prio (rs @ [r]) (take (Suc (length rs)) ids) q"
proof -
  assume a: "under_way prio rs (take (length rs) ids) q" "length rs < length ids"
  then obtain i where "i < length rs" "CbKey (cbPair q) = ids ! i" "CbEntry (cbPair q) = request_entry (ids ! i) (rs ! i)"
    unfolding under_way_def by auto
  with a show ?thesis unfolding under_way_def by (auto simp: nth_append intro!: exI [of _ i])
qed

lemma schedule_call:
  assumes "calm c timeout" "distinct ids" "length rs < length ids" "schedule_inv c prio ids out rs (oo, ws, n)"
  shows "\<exists>st. schedule_step c timeout prio (CallRequest r) (oo, ws, n) = Done st \<and> schedule_inv c prio ids out (rs @ [r]) st"
proof -
  obtain cls mt d p ch where r: "r = (cls, mt, d, p, ch)" by (rule prod_cases5)
  let ?k = "length rs" and ?m = "\<lparr> GetClassID = cls, GetEntityID = pd_EntityID p, GetAttributes = pd_Attributes p \<rparr>"
  let ?t = "ids ! ?k"
  note i = assms(4) [unfolded schedule_inv_def prod.case]
  from i obtain fs where fs: "cc_out oo = out @ map TxFrame fs"
      "mset fs + mset (map txFrame (queued oo)) + mset (map txFrame ws) = mset (map2 (entity_frame (sc_lib c)) rs (take ?k ids))"
    by blast
  obtain o0 where t: "GetNextTid prio oo = (?t, o0)" and rest: "next_tids prio (length ids - Suc ?k) o0 = drop (Suc ?k) ids"
  proof -
    obtain t o0 where g: "GetNextTid prio oo = (t, o0)" by (rule prod.exhaust)
    have "length ids - ?k = Suc (length ids - Suc ?k)" using assms(3) by simp
    then have "t # next_tids prio (length ids - Suc ?k) o0 = drop ?k ids" using i by (simp only: next_tids_Suc g fst_conv snd_conv)
    moreover have "drop ?k ids = ?t # drop (Suc ?k) ids" using assms(3) by (rule Cons_nth_drop_Suc [symmetric])
    ultimately show thesis using that g by simp
  qed
  have fresh: "?t \<notin> set (take ?k ids)" using assms(2,3) by (auto simp: in_set_conv_nth nth_eq_iff_index_eq)
  obtain f where f: "lib_encode (sc_lib c) ?m mt ?t d BaselineIdent = Inr f" "3 < length f"
    using assms(1) unfolding calm_def by blast
  have g: "rxSchedulerMap o0 = rxSchedulerMap oo" "monitoredRequests o0 = monitoredRequests oo" "cc_out o0 = cc_out oo"
    "orderly o0" "device_up o0" "queued o0 = queued oo"
    using i GetNextTid_frame(1-3) [of prio oo] GetNextTid_more [of prio oo] by (simp_all add: t)
  have mon: "map_of (monitoredRequests oo) ?t = None" using i fresh by auto
  let ?cb = "response_pair ?t ch True"
  let ?q = "\<lparr> chSuccess = nextChan o0, OnuSwWindow = None, cbPair = ?cb, txFrame = f, ots_timeout = timeout,
    ots_retries = CDefaultRetries, highPrio = prio, withFramePrint = FramePrint (CbEntry ?cb) \<rparr>"
  let ?o = "o0\<lparr>rxSchedulerMap := (rxSchedulerMap oo)(?t \<mapsto> CbEntry ?cb), nextChan := nextChan o0 + 1\<rparr>"
  have step: "schedule_step c timeout prio (CallRequest r) (oo, ws, n) = Done (?o, ws @ [?q], n)"
    using assms(1) f(1) g mon by (simp add: r t Send_call_def calm_def orderly_def setRxSched_free response_pair_def Let_def)
  have "schedule_inv c prio ids out (rs @ [r]) (?o, ws @ [?q], n)"
    unfolding schedule_inv_def prod.case length_append list.size
  proof (intro conjI exI [of _ fs], goal_cases)
    case 4
    have "next_tids prio m ?o = next_tids prio m o0" for m by (rule next_tids_cong) simp_all
    then show ?case using rest by simp
  next
    case 6
    show ?case using i assms(2,3) fresh
      by (auto simp: nth_append less_Suc_eq request_entry_def r in_set_conv_nth)
  next
    case 7
    have "under_way prio (rs @ [r]) (take (Suc ?k) ids) ?q"
      using f(2) assms(3) by (auto simp: under_way_def plain_def request_entry_def response_pair_def r intro!: exI [of _ ?k])
    then show ?case using i under_way_more [OF _ assms(3)] g(6) by (auto simp: queued_def)
  next
    case 10
    then show ?case using fs(2) f(1) assms(3) g(6) by (simp add: queued_def take_Suc_conv_app_nth r)
  qed (use i assms(3) g fs in \<open>auto simp: orderly_def device_up_def queued_def take_Suc_conv_app_nth\<close>)
  with step show ?thesis by blast
qed



lemma schedule_start:
  assumes "schedule_inv c prio ids out rs (oo, ws, n)"
  shows "\<exists>st. schedule_step c timeout prio (StartSupervision k) (oo, ws, n) = Done st \<and> schedule_inv c prio ids out rs st"
proof (cases "k < length ws")
  case False
  then show ?thesis using assms by simp
next
  case True
  note i = assms [unfolded schedule_inv_def prod.case]
  from i obtain fs where fs: "cc_out oo = out @ map TxFrame fs"
      "mset fs + mset (map txFrame (queued oo)) + mset (map txFrame ws) =
        mset (map2 (entity_frame (sc_lib c)) rs (take (length rs) ids))" by blast
  let ?q = "(ws ! k)\<lparr>chSuccess := nextChan oo\<rparr>" and ?ws = "take k ws @ drop (Suc k) ws"
  have ws: "mset ws = add_mset (ws ! k) (mset ?ws)" "set ws = insert (ws ! k) (set ?ws)"
    using id_take_nth_drop [OF True] by (metis mset.simps(2) mset_append union_mset_add_mset_right)
      (use id_take_nth_drop [OF True] in \<open>metis Un_insert_right list.simps(15) set_append\<close>)
  have u: "under_way prio rs (take (length rs) ids) (ws ! k)" using i ws(2) by auto
  then obtain j where j: "j < length rs" "CbKey (cbPair (ws ! k)) = ids ! j" "CbEntry (cbPair (ws ! k)) = request_entry (ids ! j) (rs ! j)"
    unfolding under_way_def by auto
  have uq: "under_way prio rs (take (length rs) ids) ?q" "plain ?q" "OnuSwWindow ?q = None"
    using u by (auto simp: under_way_def plain_def)
  let ?t = "CbKey (cbPair (ws ! k))"
  let ?o = "(if highPrio (ws ! k) then oo\<lparr>highPrioTxQueue := highPrioTxQueue oo @ [?q]\<rparr>
      else oo\<lparr>lowPrioTxQueue := lowPrioTxQueue oo @ [?q], mutexLowPrioTxQueue := False\<rparr>)
    \<lparr>nextChan := nextChan oo + 1, monitoredRequests := AList.update ?t ?q (monitoredRequests oo),
     rxSchedulerMap := (rxSchedulerMap oo)(?t \<mapsto> CbEntry (cbPair (ws ! k)))\<rparr>"
  have up: "device_up (oo\<lparr>nextChan := a, monitoredRequests := b\<rparr>)" for a b using i by (simp add: device_up_def)
  have step: "schedule_step c timeout prio (StartSupervision k) (oo, ws, n) = Done (?o, ?ws, n + 1)"
    using i True up
    by (cases "highPrio (ws ! k)") (simp_all add: start_supervision_def orderly_def pushHigh_def pushLow_def lockLow_def unlockLow_def
        setRxSched_free Let_def)
  have f: "orderly ?o" "device_up ?o" "mset (queued ?o) = add_mset ?q (mset (queued oo))" "cc_out ?o = cc_out oo"
    "tid ?o = tid oo" "hpTid ?o = hpTid oo" "set (queued ?o) = insert ?q (set (queued oo))"
    "rxSchedulerMap ?o = (rxSchedulerMap oo)(?t \<mapsto> CbEntry (cbPair (ws ! k)))"
    "map_of (monitoredRequests ?o) = (map_of (monitoredRequests oo))(?t \<mapsto> ?q)"
    using i uq by (simp_all add: orderly_def device_up_def queued_def sendable_def plain_def update_conv')
  have "schedule_inv c prio ids out rs (?o, ?ws, n + 1)"
    unfolding schedule_inv_def prod.case
  proof (intro conjI exI [of _ fs], goal_cases)
    case 4
    show ?case using i next_tids_cong [OF f(5,6), of prio "length ids - length rs"] by simp
  next
    case 5
    show ?case using i j by (auto simp: f(9) in_set_conv_nth)
  next
    case 6
    have reg: "\<forall>i < length rs. rxSchedulerMap oo (ids ! i) = Some (request_entry (ids ! i) (rs ! i))" using i by blast
    then have "rxSchedulerMap oo (ids ! j) = Some (CbEntry (cbPair (ws ! k)))" using j(1,3) by simp
    then show ?case using reg j(2) unfolding f(8) fun_upd_apply by metis
  next
    case 7
    show ?case using i uq(1) ws(2) unfolding set_append f(7) by blast
  next
    case 10
    have "mset (map txFrame (queued ?o)) = add_mset (txFrame (ws ! k)) (mset (map txFrame (queued oo)))"
      using f(3) by (simp only: mset_map) simp
    moreover have "mset (map txFrame ws) = add_mset (txFrame (ws ! k)) (mset (map txFrame ?ws))"
      using ws(1) by (simp only: mset_map) simp
    ultimately show ?case using fs(2) by simp
  qed (use i f fs in auto)
  with step show ?thesis by blast
qed

lemma low_trace_plain:
  "te_high env = (\<lambda>n. []) \<Longrightarrow> \<forall>q \<in> set qs. OnuSwWindow q = None \<Longrightarrow> low_trace env n qs = map frame_effect qs"
  by (induction qs arbitrary: n) (simp_all add: tx_effect_def frame_effect_def)

lemma schedule_send:
  assumes "calm c timeout" "schedule_inv c prio ids out rs (oo, ws, n)"
  shows "\<exists>st. schedule_step c timeout prio SendQueued (oo, ws, n) = Done st \<and> schedule_inv c prio ids out rs st"
proof (cases "n = 0")
  case True
  then show ?thesis using assms by simp
next
  case False
  note i = assms(2) [unfolded schedule_inv_def prod.case]
  from i obtain fs where fs: "cc_out oo = out @ map TxFrame fs"
      "mset fs + mset (map txFrame (queued oo)) + mset (map txFrame ws) =
        mset (map2 (entity_frame (sc_lib c)) rs (take (length rs) ids))" by blast
  obtain dh where dh: "pBaseDeviceHandler oo = Some dh" "\<not> deletionInProgress dh"
    using i by (auto simp: device_up_def split: option.splits)
  have q: "quiet (sc_env c)" "te_high (sc_env c) = (\<lambda>n. [])" "arrivals_plain (sc_env c)"
    using assms(1) by (simp_all add: calm_def arrivals_plain_def)
  have "OnuSwWindow q = None" if "q \<in> set (lowPrioTxQueue oo)" for q
  proof -
    have "q \<in> set (queued oo @ ws)" using that by (simp add: queued_def)
    then show ?thesis using i unfolding under_way_def by blast
  qed
  then have low: "low_trace (sc_env c) m (lowPrioTxQueue oo) = map frame_effect (lowPrioTxQueue oo)" for m
    using low_trace_plain [OF q(2)] by blast
  obtain o1 k where o1: "sendQueuedRequests (sc_env c) oo = Done o1"
      and s: "sent (map frame_effect (queued oo)) k (oo\<lparr>highPrioTxQueue := [], mutexLowPrioTxQueue := False, lowPrioTxQueue := []\<rparr>) o1"
    using sendQueuedRequests_quiet [OF q(1,3) _ _ dh] i low by (auto simp: orderly_def queued_def)
  note f = sent_fields [OF s]
  have e: "queued o1 = []" "cc_out o1 = out @ map TxFrame (fs @ map txFrame (queued oo))" "orderly o1" "device_up o1"
    "tid o1 = tid oo" "hpTid o1 = hpTid oo" "rxSchedulerMap o1 = rxSchedulerMap oo" "monitoredRequests o1 = monitoredRequests oo"
    using f i fs(1) by (simp_all add: queued_def orderly_def device_up_def frame_effect_def)
  have "schedule_inv c prio ids out rs (o1, ws, n - 1)"
    unfolding schedule_inv_def prod.case
  proof (intro conjI exI [of _ "fs @ map txFrame (queued oo)"], goal_cases)
    case 4
    show ?case using i next_tids_cong [OF e(5,6), of prio "length ids - length rs"] by simp
  next
    case 10
    show ?case using fs(2) by (simp add: e(1))
  qed (use i e in auto)
  with o1 False show ?thesis by auto
qed

lemma schedule_runs:
  assumes "calm c timeout" "distinct ids" "schedule_inv c prio ids out rs st" "length rs + length (calls ops) \<le> length ids"
  shows "\<exists>st'. run_steps (schedule_step c timeout prio) ops st = Done st' \<and> schedule_inv c prio ids out (rs @ calls ops) st'"
  using assms(3,4)
proof (induction ops arbitrary: rs st)
  case (Cons op ops)
  obtain oo ws n where st: "st = (oo, ws, n)" by (rule prod_cases3)
  show ?case
  proof (cases op)
    case (CallRequest r)
    then obtain st1 where "schedule_step c timeout prio op st = Done st1" "schedule_inv c prio ids out (rs @ [r]) st1"
      using schedule_call [OF assms(1,2), of rs prio out oo ws n r] Cons.prems st by auto
    with Cons.IH [of "rs @ [r]" st1] Cons.prems CallRequest show ?thesis by auto
  next
    case (StartSupervision k)
    then obtain st1 where "schedule_step c timeout prio op st = Done st1" "schedule_inv c prio ids out rs st1"
      using schedule_start [of c prio ids out rs oo ws n timeout k] Cons.prems st by auto
    with Cons.IH [of rs st1] Cons.prems StartSupervision show ?thesis by auto
  next
    case SendQueued
    then obtain st1 where "schedule_step c timeout prio op st = Done st1" "schedule_inv c prio ids out rs st1"
      using schedule_send [OF assms(1), of prio ids out rs oo ws n] Cons.prems st by auto
    with Cons.IH [of rs st1] Cons.prems SendQueued show ?thesis by auto
  qed
qed simp

subsection \<open>Requests keep apart\<close>


text \<open>A library for the witnesses: a frame has the identifier, the message type, the message set and
  the class.\<close>

definition sample_lib :: omci_lib where
  "sample_lib = \<lparr> lib_new = (\<lambda>cls p. None),
     lib_encode = (\<lambda>m mt t d i. Inr (put_uint16 t @ [mt, i] @ put_uint16 (GetClassID m) @ put_uint16 (GetEntityID m))),
     lib_serialize = (\<lambda>h r. Inr (put_uint16 (oh_TransactionID h) @ [oh_MessageType h, oh_DeviceIdentifier h] @
       (case r of MibUploadNextRequest c i e n \<Rightarrow> put_uint16 n | _ \<Rightarrow> []))) \<rparr>"

definition sample_ctx :: send_ctx where
  "sample_ctx = \<lparr> sc_env = quiet_env, sc_lib = sample_lib, sc_ocs = [], GetMibUploadFsmCommChan = 3,
     GetMibDownloadFsmCommChan = 4, GetOmciRebootMsgRevChan = 5 \<rparr>"

definition sample_cc :: OmciCC where
  "sample_cc = NewOmciCC ''onu'' (Some up_handler) True True"

lemma sample_ctx_calm: "calm sample_ctx 3"
  by (simp add: calm_def sample_ctx_def sample_lib_def quiet_def quiet_env_def)

lemma sample_cc_ok: "idle sample_cc" "tids_in_range sample_cc" "monitoredRequests sample_cc = []" "pOnuDeviceEntry sample_cc"
  "cc_out sample_cc = []" "UploadSequNo sample_cc = 0"
  by (simp_all add: sample_cc_def idle_def NewOmciCC_def up_handler_def tids_in_range_def)


text \<open>After the request for a MIB upload, the requests for its entries carry the sequence numbers
  0, 1, 2, ..., each under an identifier of its own and with the response registered for the
  machine of the upload.\<close>

theorem upload_asks_in_sequence:
  assumes "calm c timeout" "idle oo" "tids_in_range oo" "n < 0x7FFF" "monitoredRequests oo = []" "pOnuDeviceEntry oo"
  shows "\<exists>o1 o2 ts. SendMibUpload c timeout prio e oo = Done (Inr (), WaitingIn o1) \<and>
    send_series (\<lambda>_. SendMibUploadNext c timeout prio e) (replicate n ()) o1 = Done o2 \<and>
    next_tids prio (Suc n) oo = fst (GetNextTid prio oo) # ts \<and> distinct (fst (GetNextTid prio oo) # ts) \<and>
    cc_out o2 = cc_out oo @
      TxFrame (projr (serialize_ext c MibUploadRequestType (MibUploadRequest (class_id Me_OnuData) 0 e) (fst (GetNextTid prio oo)))) #
      map (\<lambda>i. TxFrame (upload_next_frame c e (ts ! i) (of_nat i))) [0..<n] \<and>
    (\<forall>t \<in> set (fst (GetNextTid prio oo) # ts). map_option CbRespChannel (rxSchedulerMap o2 t) = Some (GetMibUploadFsmCommChan c))"
proof -
  obtain t o0 where t: "GetNextTid prio oo = (t, o0)" by (rule prod.exhaust)
  let ?r = "MibUploadRequest (class_id Me_OnuData) 0 e" and ?o = "o0\<lparr>UploadSequNo := 0, UploadNoOfCmds := 0\<rparr>"
  let ?ts = "next_tids prio n o0"
  obtain f where f: "serialize_ext c MibUploadRequestType ?r t = Inr f" "3 < length f"
    using assms(1) unfolding calm_def serialize_ext_def by blast
  have o0: "idle ?o" "map_of (monitoredRequests ?o) t = None" "pOnuDeviceEntry ?o"
    using assms(2,5,6) GetNextTid_frame [of prio oo] t by (simp_all add: idle_def)
  have d: "distinct (t # ?ts)"
    using next_tids_distinct [OF assms(3), of "Suc n" prio] assms(4) by (simp add: next_tids_Suc t)
  obtain o1 where o1: "send_built c timeout CDefaultRetries prio (response_pair t (GetMibUploadFsmCommChan c) True) () (Inr f) ?o =
      Done (Inr (), WaitingIn o1)" "idle o1" "tid o1 = tid ?o" "hpTid o1 = hpTid ?o" "UploadSequNo o1 = 0"
      "pOnuDeviceEntry o1"
      "rxSchedulerMap o1 = (rxSchedulerMap ?o)(t \<mapsto> CbEntry (response_pair t (GetMibUploadFsmCommChan c) True))"
      "dom (map_of (monitoredRequests o1)) = {t}" "cc_out o1 = cc_out oo @ [TxFrame f]"
    using built_registers [of c timeout ?o "response_pair t (GetMibUploadFsmCommChan c) True" f prio "()"] assms(1,5) o0 f(2)
      GetNextTid_frame [of prio oo] by (auto simp: response_pair_def t)
  have first: "SendMibUpload c timeout prio e oo = Done (Inr (), WaitingIn o1)"
    using o1(1) f(1) o0(3) by (simp add: SendMibUpload_def t entry_channel_def)
  have "next_tids prio n o1 = ?ts" by (rule next_tids_cong) (simp_all add: o1(3,4))
  then have "fresh_ids prio ?ts o1" using d by (simp add: fresh_ids_def o1(8))
  with uploads.series [of c timeout o1 prio ?ts "replicate n ()" e] assms(1) o1(2,6) obtain o2 where
    o2: "send_series (\<lambda>_. SendMibUploadNext c timeout prio e) (replicate n ()) o1 = Done o2"
      "\<forall>i < n. rxSchedulerMap o2 (?ts ! i) = Some (CbEntry (response_pair (?ts ! i) (GetMibUploadFsmCommChan c) True))"
      "\<forall>t. t \<notin> set ?ts \<longrightarrow> rxSchedulerMap o2 t = rxSchedulerMap o1 t"
      "cc_out o2 = cc_out o1 @ map TxFrame (series_frames (\<lambda>_. upload_next_frame c e) (\<lambda>n. n + 1) (replicate n ()) ?ts (UploadSequNo o1))"
    by auto
  have frames: "series_frames (\<lambda>_. upload_next_frame c e) (\<lambda>n. n + 1) (replicate (length us) ()) us m =
      map (\<lambda>i. upload_next_frame c e (us ! i) (m + of_nat i)) [0..<length us]" for us m
    by (induction us arbitrary: m) (simp_all add: map_upt_Suc add.assoc del: upt_Suc)
  have "\<forall>u \<in> set (t # ?ts). map_option CbRespChannel (rxSchedulerMap o2 u) = Some (GetMibUploadFsmCommChan c)"
    using o2(2,3) d o1(7) by (auto simp: in_set_conv_nth response_pair_def)
  with first o2 frames [of ?ts 0] o1(5,9) d f(1) t show ?thesis
    by (intro exI [of _ o1] exI [of _ o2] exI [of _ ?ts]) (simp add: next_tids_Suc)
qed

theorem upload_asks_in_sequence_witness:
  "\<exists>o1 o2. SendMibUpload sample_ctx 3 True False sample_cc = Done (Inr (), WaitingIn o1) \<and>
    send_series (\<lambda>_. SendMibUploadNext sample_ctx 3 True False) (replicate 2 ()) o1 = Done o2 \<and>
    cc_out o2 = [TxFrame [0x80, 0, 0x4D, 0], TxFrame [0x80, 1, 0x4E, 0, 0, 0], TxFrame [0x80, 2, 0x4E, 0, 0, 1]]"
proof -
  let ?t = "fst (GetNextTid True sample_cc)"
  have t: "next_tids True (Suc 2) sample_cc = [0x8000, 0x8001, 0x8002]" "?t = 0x8000" by code_simp+
  have f: "projr (serialize_ext sample_ctx MibUploadRequestType (MibUploadRequest 2 0 False) 0x8000) = [0x80, 0, 0x4D, 0]"
    "upload_next_frame sample_ctx False 0x8001 0 = [0x80, 1, 0x4E, 0, 0, 0]"
    "upload_next_frame sample_ctx False 0x8002 1 = [0x80, 2, 0x4E, 0, 0, 1]" by code_simp+
  show ?thesis
    using upload_asks_in_sequence [OF sample_ctx_calm sample_cc_ok(1,2), of 2 True False] sample_cc_ok t
    by (auto simp: f numeral_2_eq_2)
qed

text \<open>A request that gets an identifier whose previous request is still supervised is refused, but its
  callback has replaced the registered one: the response to the earlier request, whose supervision goes on,
  is now handed to the channel of the refused one.\<close>

theorem busy_identifier_steals_callback:
  assumes "map_of (monitoredRequests oo) (fst (GetNextTid prio oo)) = Some req" "timeout \<noteq> 0" "\<not> mutexRxSchedMap oo"
    and "\<And>p. lib_new (sc_lib c) classID p = None" "\<And>m mt t d i. \<exists>f. lib_encode (sc_lib c) m mt t d i = Inr f"
  shows "\<exists>e oo'. SendGetMe c classID entityID attrs timeout prio rxChan x oo = Done (Inl e, Finished oo') \<and>
    cc_out oo' = cc_out oo \<and> map_of (monitoredRequests oo') (fst (GetNextTid prio oo)) = Some req \<and>
    map_option CbRespChannel (rxSchedulerMap oo' (fst (GetNextTid prio oo))) = Some rxChan"
proof -
  obtain t o0 where t: "GetNextTid prio oo = (t, o0)" by (rule prod.exhaust)
  let ?m = "\<lparr> GetClassID = classID, GetEntityID = entityID, GetAttributes = attrs \<rparr>"
  obtain f where "lib_encode (sc_lib c) ?m GetRequestType t False (if x then ExtendedIdent else BaselineIdent) = Inr f"
    using assms(5) by blast
  then show ?thesis
    using assms(1-4) GetNextTid_frame [of prio oo]
    by (simp add: SendGetMe_def send_class_def send_entity_def t send_built_def Send_def setRxSched_free response_pair_def Let_def)
qed

theorem busy_identifier_steals_callback_witness:
  "\<exists>e oo'. SendGetMe sample_ctx 256 0 [] 3 False 9 False (sample_cc\<lparr>monitoredRequests := [(1, sample_req 10 1)]\<rparr>) =
      Done (Inl e, Finished oo') \<and> map_option CbRespChannel (rxSchedulerMap oo' 1) = Some 9"
proof -
  have t: "fst (GetNextTid False (sample_cc\<lparr>monitoredRequests := [(1, sample_req 10 1)]\<rparr>)) = 1" by code_simp
  have "\<not> mutexRxSchedMap sample_cc" by (simp add: sample_cc_def NewOmciCC_def)
  then show ?thesis
    using busy_identifier_steals_callback [of "sample_cc\<lparr>monitoredRequests := [(1, sample_req 10 1)]\<rparr>" False
        "sample_req 10 1" 3 sample_ctx 256 0 "[]" 9 False] sample_ctx_calm
    by (auto simp: t calm_def) blast
qed

lemma push_and_send:
  assumes "quiet env" "te_high env = (\<lambda>n. [])" "plain req" "OnuSwWindow req = None" "idle oo"
  shows "\<exists>oo' k. bind_run (if highPrio req then pushHigh req oo else pushLow req oo) (sendQueuedRequests env) = Done oo' \<and>
    sent [frame_effect req] k oo oo'"
proof -
  from assms(5) obtain dh where dh: "pBaseDeviceHandler oo = Some dh" "\<not> deletionInProgress dh"
    and q: "lowPrioTxQueue oo = []" "highPrioTxQueue oo = []" "\<not> mutexLowPrioTxQueue oo"
    by (auto simp: idle_def split: option.splits)
  let ?o = "if highPrio req then oo\<lparr>highPrioTxQueue := [req]\<rparr> else oo\<lparr>lowPrioTxQueue := [req]\<rparr>"
  have push: "(if highPrio req then pushHigh req oo else pushLow req oo) = Done ?o"
    using q by (simp add: pushHigh_def pushLow_def lockLow_def unlockLow_def)
  have base: "?o\<lparr>highPrioTxQueue := [], mutexLowPrioTxQueue := False, lowPrioTxQueue := []\<rparr> = oo" using q by simp
  have prem: "arrivals_plain env" "list_all plain (highPrioTxQueue ?o)" "list_all sendable (lowPrioTxQueue ?o)"
    "pBaseDeviceHandler ?o = Some dh" "\<not> mutexLowPrioTxQueue ?o"
    using assms(2-4) dh q by (simp_all add: arrivals_plain_def sendable_def plain_def)
  obtain oo' k where "sendQueuedRequests env ?o = Done oo'" and s: "sent (map frame_effect (highPrioTxQueue ?o) @
      low_trace env (txAttempts ?o + length (highPrioTxQueue ?o)) (lowPrioTxQueue ?o)) k oo oo'"
    using sendQueuedRequests_quiet [OF assms(1) prem(1-4) dh(2) prem(5), unfolded base] by blast
  moreover have "sent [frame_effect req] k oo oo'"
    using s q assms(2,4) by (simp add: tx_effect_def frame_effect_def split: if_splits)
  ultimately show ?thesis unfolding push by auto
qed

lemma built_unsupervised:
  assumes "calm c timeout" "idle oo" "map_of (monitoredRequests oo) (CbKey cb) = None" "3 < length f"
  shows "\<exists>oo' k. send_built c 0 rt prio cb x (Inr f) oo = Done (Inr x, Finished oo') \<and>
    sent [TxFrame f] k (oo\<lparr>nextChan := nextChan oo + 1\<rparr>) oo'"
proof -
  let ?req = "\<lparr> chSuccess = nextChan oo, OnuSwWindow = None, cbPair = cb, txFrame = f, ots_timeout = 0,
    ots_retries = rt, highPrio = prio, withFramePrint = FramePrint (CbEntry cb) \<rparr>"
  let ?o = "oo\<lparr>nextChan := nextChan oo + 1\<rparr>"
  have "plain ?req" "OnuSwWindow ?req = None" "idle ?o" using assms(2,4) by (simp_all add: plain_def idle_def)
  then obtain oo' k where "bind_run (if highPrio ?req then pushHigh ?req ?o else pushLow ?req ?o) (sendQueuedRequests (sc_env c)) = Done oo'"
    "sent [frame_effect ?req] k ?o oo'"
    using push_and_send [of "sc_env c" ?req ?o] assms(1) by (auto simp: calm_def)
  then show ?thesis
    using assms(3) by (intro exI [of _ oo'] exI [of _ k])
      (auto simp: send_built_def Send_def processRequestMonitoring_def frame_effect_def bind_run_eq_Done Let_def)
qed

text \<open>A section of a software image sent without a request for acknowledgement is transmitted without any
  supervision: no callback is registered and no request is monitored, and the next request may use the channel
  at once; with the request for acknowledgement the response is registered for the upgrade machine.\<close>

theorem section_acknowledgement:
  assumes "calm c timeout" "idle oo" "map_of (monitoredRequests oo) (fst (GetNextTid prio oo)) = None"
  shows "\<exists>s oo'. SendDownloadSection c timeout prio ch img ack secNo sec pr e oo = Done (Inr (), s) \<and> sup_state s = oo' \<and>
    cc_out oo' = cc_out oo @ [TxFrame (projr (serialize_ext c
      (if 0 < ack then DownloadSectionRequestWithResponseType else DownloadSectionRequestType)
      (DownloadSectionRequest (class_id Me_SoftwareImage) img e secNo sec) (fst (GetNextTid prio oo))))] \<and>
    (if 0 < ack
     then map_option CbRespChannel (rxSchedulerMap oo' (fst (GetNextTid prio oo))) = Some ch \<and>
       dom (map_of (monitoredRequests oo')) = insert (fst (GetNextTid prio oo)) (dom (map_of (monitoredRequests oo)))
     else rxSchedulerMap oo' = rxSchedulerMap oo \<and> monitoredRequests oo' = monitoredRequests oo)"
proof -
  obtain t o0 where t: "GetNextTid prio oo = (t, o0)" by (rule prod.exhaust)
  let ?r = "DownloadSectionRequest (class_id Me_SoftwareImage) img e secNo sec"
  let ?mt = "if 0 < ack then DownloadSectionRequestWithResponseType else DownloadSectionRequestType"
  let ?cb = "response_pair t ch (if 0 < ack \<or> secNo = 0 then True else pr)"
  obtain f where f: "serialize_ext c ?mt ?r t = Inr f" "3 < length f"
    using assms(1) unfolding calm_def serialize_ext_def by blast
  have o0: "idle o0" "map_of (monitoredRequests o0) (CbKey ?cb) = None" "cc_out o0 = cc_out oo"
    "monitoredRequests o0 = monitoredRequests oo" "rxSchedulerMap o0 = rxSchedulerMap oo"
    using assms(2,3) GetNextTid_frame [of prio oo] t by (simp_all add: response_pair_def)
  have eq: "SendDownloadSection c timeout prio ch img ack secNo sec pr e oo =
      send_built c (if 0 < ack then timeout else 0) CDefaultRetries prio ?cb () (Inr f) o0"
    unfolding SendDownloadSection_def t Let_def prod.case f(1) by simp
  show ?thesis
  proof (cases "0 < ack")
    case True
    with built_registers [OF assms(1) o0(1,2) f(2), of prio "()"] eq f(1) o0 t show ?thesis
      by (auto simp: response_pair_def)
  next
    case False
    with built_unsupervised [OF assms(1) o0(1,2) f(2), of CDefaultRetries prio "()"] eq obtain oo' k where
      "SendDownloadSection c timeout prio ch img ack secNo sec pr e oo = Done (Inr (), Finished oo')"
      "sent [TxFrame f] k (o0\<lparr>nextChan := nextChan o0 + 1\<rparr>) oo'" by auto
    with False f(1) o0 t sent_fields [OF this(2)] show ?thesis by simp
  qed
qed

theorem section_acknowledgement_witness:
  "\<exists>s. SendDownloadSection sample_ctx 3 False 9 1 0 5 [1, 2] False False sample_cc = Done (Inr (), s) \<and>
    rxSchedulerMap (sup_state s) = Map.empty \<and> length (cc_out (sup_state s)) = 1"
proof -
  have "rxSchedulerMap sample_cc = Map.empty" by (simp add: sample_cc_def NewOmciCC_def)
  then show ?thesis
    using section_acknowledgement [OF sample_ctx_calm sample_cc_ok(1), of False 9 1 0 5 "[1, 2]" False False] sample_cc_ok
    by auto
qed

end
