(* ===== verification/Fsm.thy ===== *)
theory Fsm
  imports Go_Prelude
begin

text \<open>
  The state machines of the adapter are tables interpreted by the package
  \<^verbatim>\<open>looplab/fsm\<close> (vendored, \<^verbatim>\<open>fsm.go\<close>). An entry has an event, the states it may start
  from and the state it leads to. The event method looks the pair of event and current state
  up; an unknown pair is an error; a transition to the current state runs no callback of
  entering and reports \<open>NoTransitionError\<close>; otherwise the state changes first and the enter
  callback runs in the new state.

  The locale \<open>fsm_table\<close> states what a table must satisfy for its machine to be
  deterministic and resettable; the component theories interpret it on their tables.
\<close>

type_synonym ('e, 's) fsm_events = "('e \<times> 's list \<times> 's) list"

datatype fsm_error = InvalidEventError | UnknownEventError | NoTransitionError

text \<open>\<^verbatim>\<open>NewFSM\<close> assigns \<^verbatim>\<open>transitions[eKey{event, src}]\<close> entry by entry, so a later one
  wins.\<close>

definition fsm_matches :: "('e, 's) fsm_events \<Rightarrow> 'e \<Rightarrow> 's \<Rightarrow> ('e, 's) fsm_events" where
  "fsm_matches tab ev st = filter (\<lambda>e. fst e = ev \<and> st \<in> set (fst (snd e))) tab"

definition fsm_transition :: "('e, 's) fsm_events \<Rightarrow> 'e \<Rightarrow> 's \<Rightarrow> 's option" where
  "fsm_transition tab ev st =
     (let es = fsm_matches tab ev st in if es = [] then None else Some (snd (snd (last es))))"

definition fsm_known :: "('e, 's) fsm_events \<Rightarrow> 'e \<Rightarrow> bool" where
  "fsm_known tab ev \<longleftrightarrow> list_ex (\<lambda>(n, srcs, d). n = ev \<and> srcs \<noteq> []) tab"

text \<open>\<^verbatim>\<open>Event\<close> on a component state \<open>x\<close> that contains the machine's current state: \<open>cur\<close> reads
  it, \<open>setcur\<close> writes it and \<open>enter\<close> is the enter callback.\<close>

definition fsm_event ::
    "('e, 's) fsm_events \<Rightarrow> ('x \<Rightarrow> 's) \<Rightarrow> ('s \<Rightarrow> 'x \<Rightarrow> 'x) \<Rightarrow> ('s \<Rightarrow> 'x \<Rightarrow> 'x run) \<Rightarrow> 'e \<Rightarrow> 'x \<Rightarrow>
     (fsm_error option \<times> 'x) run" where
  "fsm_event tab cur setcur enter ev x =
     (case fsm_transition tab ev (cur x) of
        None \<Rightarrow> Done (Some (if fsm_known tab ev then InvalidEventError else UnknownEventError), x)
      | Some dst \<Rightarrow>
          if dst = cur x then Done (Some NoTransitionError, x)
          else bind_run (enter dst (setcur dst x)) (\<lambda>x. Done (None, x)))"

lemma fsm_event_same:
  "fsm_transition tab ev (cur x) = Some (cur x) \<Longrightarrow>
   fsm_event tab cur setcur enter ev x = Done (Some NoTransitionError, x)"
  by (simp add: fsm_event_def)

subsection \<open>Reachable states\<close>

inductive fsm_reach :: "('e, 's) fsm_events \<Rightarrow> 's \<Rightarrow> 's \<Rightarrow> bool" for tab where
  here: "fsm_reach tab s s"
| step: "fsm_reach tab s t \<Longrightarrow> fsm_transition tab ev t = Some u \<Longrightarrow> fsm_reach tab s u"

lemma fsm_reach_trans: "fsm_reach tab t u \<Longrightarrow> fsm_reach tab s t \<Longrightarrow> fsm_reach tab s u"
  by (induction rule: fsm_reach.induct) (auto intro: fsm_reach.step)

lemma fsm_reach_closed:
  assumes "fsm_reach tab s t" "s \<in> S"
    and "\<And>ev u v. u \<in> S \<Longrightarrow> fsm_transition tab ev u = Some v \<Longrightarrow> v \<in> S"
  shows "t \<in> S"
  using assms by (induction rule: fsm_reach.induct) auto

lemma fsm_matches_last:
  assumes "fsm_matches tab ev st \<noteq> []"
  obtains srcs d where "last (fsm_matches tab ev st) = (ev, srcs, d)"
    "(ev, srcs, d) \<in> set tab" "st \<in> set srcs"
proof -
  obtain n srcs d where l: "last (fsm_matches tab ev st) = (n, srcs, d)" by (rule prod_cases3)
  have "(n, srcs, d) \<in> set (fsm_matches tab ev st)" using last_in_set [OF assms] unfolding l .
  then have "n = ev" "(ev, srcs, d) \<in> set tab" "st \<in> set srcs" by (auto simp: fsm_matches_def)
  with l show thesis by (intro that) simp_all
qed

lemma fsm_transition_SomeD:
  assumes "fsm_transition tab ev st = Some d"
  shows "\<exists>srcs. (ev, srcs, d) \<in> set tab \<and> st \<in> set srcs"
proof -
  have ne: "fsm_matches tab ev st \<noteq> []"
    using assms by (auto simp: fsm_transition_def Let_def)
  then obtain srcs d' where "last (fsm_matches tab ev st) = (ev, srcs, d')"
    "(ev, srcs, d') \<in> set tab" "st \<in> set srcs" by (rule fsm_matches_last)
  with ne assms show ?thesis by (auto simp: fsm_transition_def Let_def)
qed

text \<open>The decidable conditions on a table: no two entries disagree, every mentioned state is
  listed, and two given events lead from every listed state to a given rest state.\<close>

definition fsm_det :: "('e, 's) fsm_events \<Rightarrow> bool" where
  "fsm_det tab \<longleftrightarrow>
     list_all (\<lambda>(n, srcs, d). list_all (\<lambda>(n', srcs', d'). n = n' \<longrightarrow> d = d' \<or>
        \<not> list_ex (\<lambda>s. s \<in> set srcs') srcs) tab) tab"

definition fsm_states_ok :: "'s list \<Rightarrow> ('e, 's) fsm_events \<Rightarrow> bool" where
  "fsm_states_ok sts tab \<longleftrightarrow>
     list_all (\<lambda>(n, srcs, d). d \<in> set sts \<and> list_all (\<lambda>s. s \<in> set sts) srcs) tab"

locale fsm_table =
  fixes tab :: "('e, 's) fsm_events" and init :: 's and sts :: "'s list"
    and stop :: "'s \<Rightarrow> 'e list" and rest :: 's
  assumes det: "fsm_det tab"
    and states_ok: "fsm_states_ok sts tab"
    and init_ok: "init \<in> set sts"
    and stop_ok: "s \<in> set sts \<Longrightarrow>
      foldl (\<lambda>o1 ev. Option.bind o1 (fsm_transition tab ev)) (Some s) (stop s) = Some rest"
begin

lemma transition_unique:
  assumes "(ev, srcs, d) \<in> set tab" "st \<in> set srcs"
  shows "fsm_transition tab ev st = Some d"
proof -
  have ne: "fsm_matches tab ev st \<noteq> []"
    using assms by (force simp: fsm_matches_def filter_empty_conv)
  then obtain srcs' d' where l: "last (fsm_matches tab ev st) = (ev, srcs', d')"
    and "(ev, srcs', d') \<in> set tab" "st \<in> set srcs'" by (rule fsm_matches_last)
  then have "d = d'"
    using det assms unfolding fsm_det_def list_all_iff list_ex_iff by fastforce
  then show ?thesis using ne l by (simp add: fsm_transition_def)
qed

lemma reach_states: "fsm_reach tab init s \<Longrightarrow> s \<in> set sts"
proof (erule fsm_reach_closed [OF _ init_ok])
  fix ev u v assume "fsm_transition tab ev u = Some v"
  then show "v \<in> set sts"
    using fsm_transition_SomeD [of tab ev u v] states_ok
    by (auto simp: fsm_states_ok_def list_all_iff)
qed

lemma reach_fold:
  "foldl (\<lambda>o1 ev. Option.bind o1 (fsm_transition tab ev)) (Some s) evs = Some t \<Longrightarrow> fsm_reach tab s t"
proof (induction evs arbitrary: t rule: rev_induct)
  case Nil
  then show ?case by (auto intro: fsm_reach.here)
next
  case (snoc ev evs)
  then show ?case by (auto simp: Option.bind_eq_Some_conv intro: fsm_reach.step)
qed

lemma always_stoppable: "fsm_reach tab init s \<Longrightarrow> fsm_reach tab s rest"
  using reach_fold stop_ok reach_states by blast

end

subsection \<open>Waiting for the ONU\<close>

text \<open>How the wait of a configuration machine for the response to one of its requests ends: with
  the response, after the supervision time, or aborted by a cancellation.\<close>

datatype wait_result = ResponseOk | ResponseTimeout | ResponseAborted

text \<open>A response of the ONU: its kind, whether its layer could be decoded, class, instance
  and result. A created instance may exist already, a deleted one may be unknown.\<close>

datatype omci_response_type = CreateResponse | SetResponse | DeleteResponse | OtherResponse

record omci_response =
  rs_type :: omci_response_type
  rs_layer :: bool
  rs_class :: u16
  rs_instance :: u16
  rs_result :: u8

definition me_Success :: u8 where "me_Success = 0"
definition me_UnknownInstance :: u8 where "me_UnknownInstance = 5"
definition me_InstanceExists :: u8 where "me_InstanceExists = 7"

definition response_failed :: "omci_response \<Rightarrow> bool" where
  "response_failed m \<longleftrightarrow>
     (case rs_type m of
        CreateResponse \<Rightarrow> rs_result m \<noteq> me_Success \<and> rs_result m \<noteq> me_InstanceExists
      | DeleteResponse \<Rightarrow> rs_result m \<noteq> me_UnknownInstance \<and> rs_result m \<noteq> me_Success
      | _ \<Rightarrow> rs_result m \<noteq> me_Success)"

end
