(* ===== verification/Alarm_Mgr.thy ===== *)
theory Alarm_Mgr
  imports Fsm Dev_Db
begin

text \<open>
  The alarm manager, \<^verbatim>\<open>internal/pkg/almgr/alarm_manager.go\<close>: the alarm sync state machine,
  the upload of all alarms of the ONU, the comparison with the adapter's own data base, the
  resynchronisation, and the processing of alarm notifications into raised and cleared
  alarms.

  The maps are association lists; a nil map is \<open>None\<close> and a write to it is a panic. An
  event that the code sends to the state machine from a goroutine of its own is put into the
  list \<open>am_pending\<close>; a step of the machine takes one of them. What the manager sends (the
  two requests and the device events) is appended to \<open>am_out\<close>. The enter callbacks that wait
  on a timer or a channel take the outcome as an argument. \<^verbatim>\<open>GetAlarmMap\<close> of the entity
  definitions, the outcome of the OMCI requests and the data of the device are fields of the
  environment.
\<close>

subsection \<open>Data\<close>

definition circuitPackClassID :: u16 where "circuitPackClassID = 6"
definition physicalPathTerminationPointEthernetUniClassID :: u16 where
  "physicalPathTerminationPointEthernetUniClassID = 11"
definition onuGClassID :: u16 where "onuGClassID = 256"
definition aniGClassID :: u16 where "aniGClassID = 263"
definition alarmBitMapSizeBytes :: nat where "alarmBitMapSizeBytes = 28"
definition AlarmBitmapSize :: u8 where "AlarmBitmapSize = 224"

datatype as_event = AsEvStart | AsEvStop | AsEvAudit | AsEvSync | AsEvSuccess | AsEvFailure | AsEvResync

datatype as_state =
    asStStarting | asStDisabled | asStInSync | asStAuditing | asStResynchronizing | asStIdle

type_synonym alarmInfo = "u16 \<times> u16 \<times> u8"
type_synonym meAlarmKey = "u16 \<times> u16"
type_synonym alarmBitMapDB = "(meAlarmKey \<times> bytes) list"

record alarm_msg =
  EntityClass :: u16
  EntityInstance :: u16
  AlarmBitmap :: bytes
  AlarmSequenceNumber :: u8

datatype EventCategory = Cat_EQUIPMENT | Cat_ENVIRONMENT | Cat_COMMUNICATION

record onuDeviceEvent =
  EventName :: string
  EventDescription :: string
  EventCat :: EventCategory

datatype am_effect =
    SentGetAllAlarms
  | SentGetAllAlarmsNext u16
  | SentDeviceEvent u32 string string EventCategory
  | StartedMessageLoop
  | AsyncReply

datatype pending = PEvent as_event | PAsyncAudit

datatype send_result = SendOk | SerializeError | SendError

datatype am_error = Unavailable | NotFound | OtherError

record OnuAlarmManager =
  am_handler :: bool
  am_entry :: bool
  am_deviceID :: string
  activeAlarms :: "alarmInfo list option"
  am_alarmBitMapDB :: "alarmBitMapDB option"
  onuEventsList :: "((u16 \<times> u8) \<times> onuDeviceEvent) list option"
  am_fsm :: as_state
  oltDbCopy :: "alarmBitMapDB option"
  onuDBCopy :: "alarmBitMapDB option"
  bufferedNotifications :: "alarm_msg list"
  alarmUploadSeqNo :: u16
  alarmUploadNoOfCmdsOrMEs :: u16
  processMessage :: bool
  lastAlarmSequence :: u8
  isExtendedOmci :: bool
  isAsyncAlarmRequest :: bool
  am_pending :: "pending list"
  am_sends :: nat
  am_out :: "am_effect list"

text \<open>\<open>ae_alarmMap c\<close>: \<open>None\<close> when there is no definition of the class, \<open>Some None\<close> when it
  has no alarm map, else the supported alarm numbers in the order the map is ranged over.\<close>

record alarm_env =
  ae_me :: "u16 \<Rightarrow> u16 \<Rightarrow> bool"
  ae_alarmMap :: "u16 \<Rightarrow> u8 list option option"
  ae_auditInterval :: bool
  ae_extOmci :: bool
  ae_send :: "nat \<Rightarrow> send_result"
  ae_uniPorts :: "(u16 \<times> u32) list"
  ae_ponPort :: "u32 option"

abbreviation am_emit :: "am_effect \<Rightarrow> OnuAlarmManager \<Rightarrow> OnuAlarmManager" where
  "am_emit e am \<equiv> am\<lparr>am_out := am_out am @ [e]\<rparr>"

abbreviation am_go :: "pending \<Rightarrow> OnuAlarmManager \<Rightarrow> OnuAlarmManager" where
  "am_go p am \<equiv> am\<lparr>am_pending := am_pending am @ [p]\<rparr>"

definition ev_details :: "string \<Rightarrow> string \<Rightarrow> EventCategory \<Rightarrow> onuDeviceEvent" where
  "ev_details n d c = \<lparr> EventName = n, EventDescription = d, EventCat = c \<rparr>"

definition initial_events :: "((u16 \<times> u8) \<times> onuDeviceEvent) list" where
  "initial_events =
    [((circuitPackClassID, 0), ev_details ''ONU_EQUIPMENT'' ''onu equipment'' Cat_EQUIPMENT),
     ((circuitPackClassID, 2), ev_details ''ONU_SELF_TEST_FAIL'' ''onu self-test failure'' Cat_EQUIPMENT),
     ((circuitPackClassID, 3), ev_details ''ONU_LASER_EOL'' ''onu laser EOL'' Cat_EQUIPMENT),
     ((circuitPackClassID, 4), ev_details ''ONU_TEMP_YELLOW'' ''onu temperature yellow'' Cat_ENVIRONMENT),
     ((circuitPackClassID, 5), ev_details ''ONU_TEMP_RED'' ''onu temperature red'' Cat_ENVIRONMENT),
     ((physicalPathTerminationPointEthernetUniClassID, 0),
        ev_details ''ONU_Ethernet_UNI'' ''LAN Loss Of Signal'' Cat_EQUIPMENT),
     ((onuGClassID, 0), ev_details ''ONU_EQUIPMENT'' ''onu equipment'' Cat_EQUIPMENT),
     ((onuGClassID, 6), ev_details ''ONU_SELF_TEST_FAIL'' ''onu self-test failure'' Cat_EQUIPMENT),
     ((onuGClassID, 7), ev_details ''ONU_DYING_GASP'' ''onu DYING_GASP'' Cat_EQUIPMENT),
     ((onuGClassID, 8), ev_details ''ONU_TEMP_YELLOW'' ''onu temperature yellow'' Cat_ENVIRONMENT),
     ((onuGClassID, 9), ev_details ''ONU_TEMP_RED'' ''onu temperature red'' Cat_ENVIRONMENT),
     ((onuGClassID, 10), ev_details ''ONU_VOLTAGE_YELLOW'' ''onu voltage yellow'' Cat_ENVIRONMENT),
     ((onuGClassID, 11), ev_details ''ONU_VOLTAGE_RED'' ''onu voltage red'' Cat_ENVIRONMENT),
     ((aniGClassID, 0), ev_details ''ONU_LOW_RX_OPTICAL'' ''onu low rx optical power'' Cat_COMMUNICATION),
     ((aniGClassID, 1), ev_details ''ONU_HIGH_RX_OPTICAL'' ''onu high rx optical power'' Cat_COMMUNICATION),
     ((aniGClassID, 2), ev_details ''ONU_BIT_ERROR_BASED_SIGNAL_FAIL''
        ''onu bit error based signal fail'' Cat_COMMUNICATION),
     ((aniGClassID, 3), ev_details ''ONU_BIT_ERROR_BASED_SIGNAL_DEGRADE''
        ''onu bit error based signal degrade'' Cat_COMMUNICATION),
     ((aniGClassID, 4), ev_details ''ONU_LOW_TX_OPTICAL'' ''onu low tx optical power'' Cat_COMMUNICATION),
     ((aniGClassID, 5), ev_details ''ONU_HIGH_TX_OPTICAL'' ''onu high tx optical power'' Cat_COMMUNICATION),
     ((aniGClassID, 6), ev_details ''ONU_LASER_BIAS_CURRENT'' ''onu laser bias current'' Cat_EQUIPMENT)]"

definition NewAlarmManager :: "string \<Rightarrow> OnuAlarmManager" where
  "NewAlarmManager deviceID =
     \<lparr> am_handler = True, am_entry = True, am_deviceID = deviceID, activeAlarms = Some [],
       am_alarmBitMapDB = Some [], onuEventsList = Some initial_events, am_fsm = asStDisabled,
       oltDbCopy = None, onuDBCopy = None, bufferedNotifications = [], alarmUploadSeqNo = 0,
       alarmUploadNoOfCmdsOrMEs = 0, processMessage = False, lastAlarmSequence = 0,
       isExtendedOmci = False, isAsyncAlarmRequest = False, am_pending = [], am_sends = 0,
       am_out = [] \<rparr>"

subsection \<open>The state machine table\<close>

definition alarm_fsm_events :: "(as_event, as_state) fsm_events" where
  "alarm_fsm_events =
    [(AsEvStart, [asStDisabled], asStStarting),
     (AsEvAudit, [asStStarting, asStInSync], asStAuditing),
     (AsEvSync, [asStStarting], asStInSync),
     (AsEvSuccess, [asStAuditing, asStResynchronizing], asStInSync),
     (AsEvFailure, [asStAuditing, asStResynchronizing], asStAuditing),
     (AsEvResync, [asStAuditing], asStResynchronizing),
     (AsEvStop, [asStDisabled, asStStarting, asStAuditing, asStInSync, asStIdle, asStResynchronizing],
        asStDisabled)]"

subsection \<open>Counters\<close>

definition incrementAlarmSequence :: "OnuAlarmManager \<Rightarrow> OnuAlarmManager" where
  "incrementAlarmSequence am =
     am\<lparr>lastAlarmSequence := if lastAlarmSequence am = 255 then 1 else lastAlarmSequence am + 1\<rparr>"

definition resetAlarmSequence :: "OnuAlarmManager \<Rightarrow> OnuAlarmManager" where
  "resetAlarmSequence am = am\<lparr>lastAlarmSequence := 0\<rparr>"

definition ResetAlarmUploadCounters :: "OnuAlarmManager \<Rightarrow> OnuAlarmManager" where
  "ResetAlarmUploadCounters am = am\<lparr>alarmUploadSeqNo := 0, alarmUploadNoOfCmdsOrMEs := 0\<rparr>"

definition IncrementAlarmUploadSeqNo :: "OnuAlarmManager \<Rightarrow> OnuAlarmManager" where
  "IncrementAlarmUploadSeqNo am = am\<lparr>alarmUploadSeqNo := alarmUploadSeqNo am + 1\<rparr>"

definition GetAlarmUploadSeqNo :: "OnuAlarmManager \<Rightarrow> u16" where
  "GetAlarmUploadSeqNo am = alarmUploadSeqNo am"

text \<open>The two requests of the OMCI channel as the manager sees them: they touch its upload
  counters before the request is handed to the channel. \<open>True\<close> tells of an error.\<close>

definition SendGetAllAlarm :: "alarm_env \<Rightarrow> OnuAlarmManager \<Rightarrow> bool \<times> OnuAlarmManager" where
  "SendGetAllAlarm env am =
     (let n = am_sends am; am = am\<lparr>am_sends := n + 1\<rparr> in
      case ae_send env n of
        SerializeError \<Rightarrow> (True, am)
      | SendError \<Rightarrow> (True, ResetAlarmUploadCounters am)
      | SendOk \<Rightarrow> (False, am_emit SentGetAllAlarms (ResetAlarmUploadCounters am)))"

definition SendGetAllAlarmNext :: "alarm_env \<Rightarrow> OnuAlarmManager \<Rightarrow> bool \<times> OnuAlarmManager" where
  "SendGetAllAlarmNext env am =
     (let n = am_sends am; s = GetAlarmUploadSeqNo am; am = am\<lparr>am_sends := n + 1\<rparr> in
      case ae_send env n of
        SerializeError \<Rightarrow> (True, am)
      | SendError \<Rightarrow> (True, IncrementAlarmUploadSeqNo am)
      | SendOk \<Rightarrow> (False, am_emit (SentGetAllAlarmsNext s) (IncrementAlarmUploadSeqNo am)))"

subsection \<open>Alarms and device events\<close>

text \<open>\<^verbatim>\<open>IsAlarmActive\<close> and \<^verbatim>\<open>IsAlarmClear\<close> of the OMCI library: the octet is shifted, not
  masked. \<open>None\<close> is an error.\<close>

definition alarm_octet_shifted :: "alarm_msg \<Rightarrow> u8 \<Rightarrow> u8" where
  "alarm_octet_shifted msg n = drop_bit (7 - unat n mod 8) (AlarmBitmap msg ! (unat n div 8))"

definition alarm_no_ok :: "alarm_env \<Rightarrow> alarm_msg \<Rightarrow> u8 \<Rightarrow> bool" where
  "alarm_no_ok env msg n \<longleftrightarrow> n < AlarmBitmapSize \<and>
     (case ae_alarmMap env (EntityClass msg) of Some (Some ns) \<Rightarrow> n \<in> set ns | _ \<Rightarrow> False)"

definition IsAlarmActive :: "alarm_env \<Rightarrow> alarm_msg \<Rightarrow> u8 \<Rightarrow> bool option" where
  "IsAlarmActive env msg n =
     (if alarm_no_ok env msg n then Some (alarm_octet_shifted msg n = 1) else None)"

definition IsAlarmClear :: "alarm_env \<Rightarrow> alarm_msg \<Rightarrow> u8 \<Rightarrow> bool option" where
  "IsAlarmClear env msg n =
     (if alarm_no_ok env msg n then Some (alarm_octet_shifted msg n = 0) else None)"

definition getIntfIDAlarm :: "alarm_env \<Rightarrow> u16 \<Rightarrow> u16 \<Rightarrow> OnuAlarmManager \<Rightarrow> u32 option" where
  "getIntfIDAlarm env classID instanceID am =
     (if \<not> am_handler am then None
      else if classID = circuitPackClassID \<or> classID = physicalPathTerminationPointEthernetUniClassID
      then map_option snd (find (\<lambda>(e, p). e = instanceID) (ae_uniPorts env))
      else if classID = aniGClassID \<or> classID = onuGClassID then ae_ponPort env
      else None)"

definition getDeviceEventData :: "u16 \<Rightarrow> u8 \<Rightarrow> OnuAlarmManager \<Rightarrow> onuDeviceEvent option" where
  "getDeviceEventData classID alarmNo am =
     (case onuEventsList am of None \<Rightarrow> None | Some l \<Rightarrow> map_of l (classID, alarmNo))"

definition sendAlarm ::
    "alarm_env \<Rightarrow> u16 \<Rightarrow> u16 \<Rightarrow> u8 \<Rightarrow> bool \<Rightarrow> OnuAlarmManager \<Rightarrow> OnuAlarmManager" where
  "sendAlarm env classID instanceID alarm raised am =
     (if \<not> am_handler am \<or> \<not> am_entry am then am
      else case getIntfIDAlarm env classID instanceID am of
        None \<Rightarrow> am
      | Some intfID \<Rightarrow>
          (case getDeviceEventData classID alarm am of
             None \<Rightarrow> am
           | Some d \<Rightarrow>
               let (suffixDesc, clearOrRaiseEvent) =
                     (if raised then (''Raised'', ''RAISE_EVENT'') else (''Cleared'', ''CLEAR_EVENT''))
               in am_emit (SentDeviceEvent intfID
                    (EventName d @ ''_'' @ clearOrRaiseEvent)
                    (EventDescription d @ '' Event - '' @ EventName d @ '' - '' @ suffixDesc)
                    (EventCat d)) am))"

definition insert_key :: "'a \<Rightarrow> 'a list \<Rightarrow> 'a list" where
  "insert_key k l = (if k \<in> set l then l else l @ [k])"

definition raiseAlarm :: "alarm_env \<Rightarrow> u16 \<Rightarrow> u16 \<Rightarrow> u8 \<Rightarrow> OnuAlarmManager \<Rightarrow> OnuAlarmManager run" where
  "raiseAlarm env classID instanceID alarm am =
     (case activeAlarms am of
        None \<Rightarrow> Fatal ''assignment to entry in nil map''
      | Some act \<Rightarrow>
          Done (sendAlarm env classID instanceID alarm True
                 (am\<lparr>activeAlarms := Some (insert_key (classID, instanceID, alarm) act)\<rparr>)))"

definition zero_bitmap :: bytes where "zero_bitmap = replicate alarmBitMapSizeBytes 0"

definition clearAlarm :: "alarm_env \<Rightarrow> u16 \<Rightarrow> u16 \<Rightarrow> u8 \<Rightarrow> OnuAlarmManager \<Rightarrow> OnuAlarmManager" where
  "clearAlarm env classID instanceID alarm am =
     (let am = sendAlarm env classID instanceID alarm False am;
          am = am\<lparr>activeAlarms := map_option (filter (\<lambda>a. a \<noteq> (classID, instanceID, alarm))) (activeAlarms am)\<rparr>;
          stored = (case map_of (map_or_empty (am_alarmBitMapDB am)) (classID, instanceID) of
                      Some b \<Rightarrow> b | None \<Rightarrow> zero_bitmap)
      in if stored = zero_bitmap
         then am\<lparr>am_alarmBitMapDB := map_option (AList.delete (classID, instanceID)) (am_alarmBitMapDB am)\<rparr>
         else am)"

text \<open>The loop over the supported alarm numbers.\<close>

fun alarm_loop :: "alarm_env \<Rightarrow> alarm_msg \<Rightarrow> u8 list \<Rightarrow> OnuAlarmManager \<Rightarrow> (am_error option \<times> OnuAlarmManager) run" where
  "alarm_loop env msg [] am = Done (None, am)"
| "alarm_loop env msg (n # ns) am =
     (if (EntityClass msg, EntityInstance msg, n) \<in> set (case activeAlarms am of Some a \<Rightarrow> a | None \<Rightarrow> [])
      then (case IsAlarmClear env msg n of
              None \<Rightarrow> Done (Some OtherError, am)
            | Some cleared \<Rightarrow>
                alarm_loop env msg ns
                  (if cleared then clearAlarm env (EntityClass msg) (EntityInstance msg) n am else am))
      else (case IsAlarmActive env msg n of
              None \<Rightarrow> Done (Some OtherError, am)
            | Some raised \<Rightarrow>
                if raised
                then bind_run (raiseAlarm env (EntityClass msg) (EntityInstance msg) n am)
                       (alarm_loop env msg ns)
                else alarm_loop env msg ns am))"

definition processAlarmData ::
    "alarm_env \<Rightarrow> alarm_msg \<Rightarrow> OnuAlarmManager \<Rightarrow> (am_error option \<times> OnuAlarmManager) run" where
  "processAlarmData env msg am =
     (if \<not> processMessage am then Done (Some Unavailable, am)
      else if \<not> ae_me env (EntityClass msg) (EntityInstance msg) then Done (Some NotFound, am)
      else if AlarmSequenceNumber msg > 0 \<and> (am_fsm am = asStAuditing \<or> am_fsm am = asStResynchronizing)
      then Done (None, am\<lparr>bufferedNotifications := bufferedNotifications am @ [msg]\<rparr>)
      else
        let am = (if AlarmSequenceNumber msg > 0
                  then let am = incrementAlarmSequence am
                       in if AlarmSequenceNumber msg \<noteq> lastAlarmSequence am \<and> ae_auditInterval env
                          then am_go (PEvent AsEvAudit) am else am
                  else am)
        in case ae_alarmMap env (EntityClass msg) of
             None \<Rightarrow> Done (Some NotFound, am)
           | Some None \<Rightarrow> Done (Some NotFound, am)
           | Some (Some meAlarmMap) \<Rightarrow>
               (case am_alarmBitMapDB am of
                  None \<Rightarrow> Fatal ''assignment to entry in nil map''
                | Some db \<Rightarrow>
                    alarm_loop env msg meAlarmMap
                      (am\<lparr>am_alarmBitMapDB :=
                            Some (AList.update (EntityClass msg, EntityInstance msg) (AlarmBitmap msg) db)\<rparr>)))"

definition HandleOmciAlarmNotificationMessage ::
    "alarm_env \<Rightarrow> alarm_msg option \<Rightarrow> OnuAlarmManager \<Rightarrow> OnuAlarmManager run" where
  "HandleOmciAlarmNotificationMessage env msgLayer am =
     (case msgLayer of
        None \<Rightarrow> Done am
      | Some msgObj \<Rightarrow> bind_run (processAlarmData env msgObj am) (\<lambda>(err, am). Done am))"


subsection \<open>Resynchronisation\<close>

definition createOmciAlarmMessage :: "meAlarmKey \<Rightarrow> bytes \<Rightarrow> alarm_msg" where
  "createOmciAlarmMessage alarm bitmap =
     \<lparr> EntityClass = fst alarm, EntityInstance = snd alarm, AlarmBitmap = bitmap, AlarmSequenceNumber = 0 \<rparr>"

text \<open>An error that is no gRPC status makes \<^verbatim>\<open>status.FromError\<close> fail, and the function returns
  nil.\<close>

definition processAlarm ::
    "alarm_env \<Rightarrow> alarm_msg \<Rightarrow> OnuAlarmManager \<Rightarrow> (am_error option \<times> OnuAlarmManager) run" where
  "processAlarm env msg am =
     bind_run (processAlarmData env msg am) (\<lambda>(err, am).
       case err of
         None \<Rightarrow> Done (None, am)
       | Some NotFound \<Rightarrow> Done (None, am)
       | Some Unavailable \<Rightarrow> Done (Some Unavailable, am)
       | Some OtherError \<Rightarrow> Done (None, am))"

fun process_all ::
    "alarm_env \<Rightarrow> alarm_msg list \<Rightarrow> OnuAlarmManager \<Rightarrow> (am_error option \<times> OnuAlarmManager) run" where
  "process_all env [] am = Done (None, am)"
| "process_all env (m # ms) am =
     bind_run (processAlarm env m am) (\<lambda>(err, am).
       if err \<noteq> None then Done (err, am) else process_all env ms am)"

definition processOnuOnlyDifferences ::
    "alarm_env \<Rightarrow> OnuAlarmManager \<Rightarrow> (am_error option \<times> OnuAlarmManager) run" where
  "processOnuOnlyDifferences env am =
     (let onu = map_or_empty (onuDBCopy am); olt = map_or_empty (oltDbCopy am) in
      process_all env
        (map (\<lambda>(k, b). createOmciAlarmMessage k b) (filter (\<lambda>(k, b). map_of olt k = None) onu)) am)"

definition processOltOnlyDifferences ::
    "alarm_env \<Rightarrow> OnuAlarmManager \<Rightarrow> (am_error option \<times> OnuAlarmManager) run" where
  "processOltOnlyDifferences env am =
     (let onu = map_or_empty (onuDBCopy am); olt = map_or_empty (oltDbCopy am) in
      process_all env
        (map (\<lambda>(k, b). createOmciAlarmMessage k b) (filter (\<lambda>(k, b). map_of onu k = None) olt)) am)"

definition processAttributeDifferences ::
    "alarm_env \<Rightarrow> OnuAlarmManager \<Rightarrow> (am_error option \<times> OnuAlarmManager) run" where
  "processAttributeDifferences env am =
     (let onu = map_or_empty (onuDBCopy am); olt = map_or_empty (oltDbCopy am) in
      process_all env
        (map (\<lambda>(k, b). createOmciAlarmMessage k b)
          (filter (\<lambda>(k, b). map_of olt k \<noteq> None \<and> map_of olt k \<noteq> Some b) onu)) am)"

definition processBufferedNotifications ::
    "alarm_env \<Rightarrow> OnuAlarmManager \<Rightarrow> (am_error option \<times> OnuAlarmManager) run" where
  "processBufferedNotifications env am = process_all env (bufferedNotifications am) am"

definition asFsmResynchronizing :: "alarm_env \<Rightarrow> OnuAlarmManager \<Rightarrow> OnuAlarmManager run" where
  "asFsmResynchronizing env am =
     bind_run (processOnuOnlyDifferences env am) (\<lambda>(err, am). if err \<noteq> None then Done am else
     bind_run (processOltOnlyDifferences env am) (\<lambda>(err, am). if err \<noteq> None then Done am else
     bind_run (processAttributeDifferences env am) (\<lambda>(err, am). if err \<noteq> None then Done am else
     bind_run (processBufferedNotifications env am) (\<lambda>(err, am). if err \<noteq> None then Done am else
     Done (am_go (PEvent AsEvSuccess) am)))))"

subsection \<open>The other enter callbacks\<close>

datatype wait_outcome = TimerFired | StopTimer | AsyncRequest

definition asFsmStarting :: "alarm_env \<Rightarrow> wait_outcome \<Rightarrow> OnuAlarmManager \<Rightarrow> OnuAlarmManager run" where
  "asFsmStarting env w am =
     (let am = am_emit StartedMessageLoop am in
      if ae_auditInterval env
      then Done (if w = StopTimer then am else am_go (PEvent AsEvAudit) am)
      else Done (am_go (PEvent AsEvSync) am))"

definition asFsmAuditing :: "alarm_env \<Rightarrow> OnuAlarmManager \<Rightarrow> OnuAlarmManager run" where
  "asFsmAuditing env am =
     (let am = am\<lparr>bufferedNotifications := [], oltDbCopy := Some [], onuDBCopy := Some []\<rparr>;
          (err, am) = SendGetAllAlarm env am
      in Done (if err then am_go (PEvent AsEvFailure) am else am))"

definition asFsmInSync :: "alarm_env \<Rightarrow> wait_outcome \<Rightarrow> OnuAlarmManager \<Rightarrow> OnuAlarmManager run" where
  "asFsmInSync env w am =
     (let am = (if isAsyncAlarmRequest am then (am_emit AsyncReply am)\<lparr>isAsyncAlarmRequest := False\<rparr> else am)
      in Done (case w of
           StopTimer \<Rightarrow> am
         | AsyncRequest \<Rightarrow> am_go PAsyncAudit am
         | TimerFired \<Rightarrow> if ae_auditInterval env then am_go (PEvent AsEvAudit) am else am))"

definition alarm_enter ::
    "alarm_env \<Rightarrow> wait_outcome \<Rightarrow> as_state \<Rightarrow> OnuAlarmManager \<Rightarrow> OnuAlarmManager run" where
  "alarm_enter env w st am =
     (case st of
        asStStarting \<Rightarrow> asFsmStarting env w am
      | asStAuditing \<Rightarrow> asFsmAuditing env am
      | asStInSync \<Rightarrow> asFsmInSync env w am
      | asStResynchronizing \<Rightarrow> asFsmResynchronizing env am
      | _ \<Rightarrow> Done am)"

definition alarm_event ::
    "alarm_env \<Rightarrow> wait_outcome \<Rightarrow> as_event \<Rightarrow> OnuAlarmManager \<Rightarrow> (fsm_error option \<times> OnuAlarmManager) run" where
  "alarm_event env w ev am =
     fsm_event alarm_fsm_events am_fsm (\<lambda>s am. am\<lparr>am_fsm := s\<rparr>) (alarm_enter env w) ev am"

text \<open>One goroutine that waits to send an event runs.\<close>

definition run_pending ::
    "alarm_env \<Rightarrow> wait_outcome \<Rightarrow> nat \<Rightarrow> OnuAlarmManager \<Rightarrow> OnuAlarmManager run" where
  "run_pending env w i am =
     (if length (am_pending am) \<le> i then Done am
      else
        let p = am_pending am ! i;
            am = am\<lparr>am_pending := take i (am_pending am) @ drop (i + 1) (am_pending am)\<rparr>
        in case p of
             PEvent ev \<Rightarrow> bind_run (alarm_event env w ev am) (\<lambda>(err, am). Done am)
           | PAsyncAudit \<Rightarrow>
               bind_run (alarm_event env w AsEvAudit am) (\<lambda>(err, am).
                 Done (if err \<noteq> None then am_emit AsyncReply (am\<lparr>isAsyncAlarmRequest := False\<rparr>) else am)))"

subsection \<open>The upload of all alarms\<close>

definition range_copy :: "('k \<times> 'v) list option \<Rightarrow> ('k \<times> 'v) list option \<Rightarrow> ('k \<times> 'v) list option run" where
  "range_copy src dst =
     (case dst of
        None \<Rightarrow> (if map_or_empty src = [] then Done None else Fatal ''assignment to entry in nil map'')
      | Some d \<Rightarrow> Done (Some (range_assign (map_or_empty src) d)))"

text \<open>\<^verbatim>\<open>reflect.DeepEqual\<close> on maps: a nil map equals only a nil map.\<close>

definition deep_equal :: "('k \<times> 'v) list option \<Rightarrow> ('k \<times> 'v) list option \<Rightarrow> bool" where
  "deep_equal a b \<longleftrightarrow>
     (case (a, b) of
        (None, None) \<Rightarrow> True
      | (Some x, Some y) \<Rightarrow> list_all (\<lambda>(k, v). map_of y k = map_of x k) x \<and>
                            list_all (\<lambda>(k, v). map_of x k = map_of y k) y
      | _ \<Rightarrow> False)"

definition isAlarmDBDiffPresent :: "OnuAlarmManager \<Rightarrow> bool" where
  "isAlarmDBDiffPresent am \<longleftrightarrow> \<not> deep_equal (onuDBCopy am) (oltDbCopy am)"

definition upload_finished :: "OnuAlarmManager \<Rightarrow> OnuAlarmManager" where
  "upload_finished am =
     am_go (PEvent (if isAlarmDBDiffPresent am then AsEvResync else AsEvSuccess)) am"

definition request_next :: "alarm_env \<Rightarrow> OnuAlarmManager \<Rightarrow> OnuAlarmManager" where
  "request_next env am =
     (let (err, am) = SendGetAllAlarmNext env am in if err then am_go (PEvent AsEvFailure) am else am)"

definition handleOmciGetAllAlarmsResponseMessage ::
    "alarm_env \<Rightarrow> u16 option \<Rightarrow> OnuAlarmManager \<Rightarrow> OnuAlarmManager run" where
  "handleOmciGetAllAlarmsResponseMessage env msgLayer am =
     (case msgLayer of
        None \<Rightarrow> Done am
      | Some numberOfCommands \<Rightarrow>
          if am_fsm am = asStDisabled then Done am
          else
            let am = am\<lparr>alarmUploadNoOfCmdsOrMEs := numberOfCommands\<rparr> in
            if alarmUploadSeqNo am < alarmUploadNoOfCmdsOrMEs am then
              bind_run (range_copy (am_alarmBitMapDB am) (oltDbCopy am)) (\<lambda>olt.
                Done (request_next env ((resetAlarmSequence am)\<lparr>oltDbCopy := olt\<rparr>)))
            else if alarmUploadNoOfCmdsOrMEs am = 0 then
              bind_run (range_copy (am_alarmBitMapDB am) (oltDbCopy am)) (\<lambda>olt.
                Done (upload_finished ((resetAlarmSequence am)\<lparr>oltDbCopy := olt\<rparr>)))
            else Done (am_go (PEvent AsEvFailure) am))"

record alarms_next =
  an_key :: meAlarmKey
  an_bitmap :: bytes
  an_extended :: bool
  an_additional :: "(meAlarmKey \<times> bytes) list"

definition store_onu_alarm :: "meAlarmKey \<Rightarrow> bytes \<Rightarrow> OnuAlarmManager \<Rightarrow> OnuAlarmManager run" where
  "store_onu_alarm k b am =
     (case onuDBCopy am of
        None \<Rightarrow> Fatal ''assignment to entry in nil map''
      | Some d \<Rightarrow> Done (am\<lparr>onuDBCopy := Some (AList.update k b d)\<rparr>))"

fun store_additional :: "(meAlarmKey \<times> bytes) list \<Rightarrow> OnuAlarmManager \<Rightarrow> OnuAlarmManager run" where
  "store_additional [] am = Done am"
| "store_additional ((k, b) # r) am =
     bind_run (store_onu_alarm k b am) (\<lambda>am. store_additional r (IncrementAlarmUploadSeqNo am))"

definition handleOmciGetAllAlarmNextResponseMessage ::
    "alarm_env \<Rightarrow> alarms_next option \<Rightarrow> OnuAlarmManager \<Rightarrow> OnuAlarmManager run" where
  "handleOmciGetAllAlarmNextResponseMessage env msgLayer am =
     (case msgLayer of
        None \<Rightarrow> Done am
      | Some msgObj \<Rightarrow>
          bind_run (store_onu_alarm (an_key msgObj) (an_bitmap msgObj) am) (\<lambda>am.
          bind_run (if an_extended msgObj then store_additional (an_additional msgObj) am else Done am) (\<lambda>am.
            Done (if alarmUploadSeqNo am < alarmUploadNoOfCmdsOrMEs am then request_next env am
                  else upload_finished am))))"

subsection \<open>The message loop, start and stop\<close>

datatype sync_msg =
    GetAllAlarmsResponse "u16 option" | GetAllAlarmsNextResponse "alarms_next option" | OtherOmciMessage

datatype loop_input = InOmci sync_msg | InOther | InNotOk | InStop | InCtxDone

definition handleOmciMessage :: "alarm_env \<Rightarrow> sync_msg \<Rightarrow> OnuAlarmManager \<Rightarrow> OnuAlarmManager run" where
  "handleOmciMessage env msg am =
     (case msg of
        GetAllAlarmsResponse l \<Rightarrow> handleOmciGetAllAlarmsResponseMessage env l am
      | GetAllAlarmsNextResponse l \<Rightarrow> handleOmciGetAllAlarmNextResponseMessage env l am
      | OtherOmciMessage \<Rightarrow> Done am)"

definition stop_processing :: "OnuAlarmManager \<Rightarrow> OnuAlarmManager" where
  "stop_processing am =
     am\<lparr>processMessage := False, activeAlarms := None, am_alarmBitMapDB := None,
        alarmUploadNoOfCmdsOrMEs := 0, alarmUploadSeqNo := 0\<rparr>"

fun processAlarmSyncMessages :: "alarm_env \<Rightarrow> loop_input list \<Rightarrow> OnuAlarmManager \<Rightarrow> OnuAlarmManager run" where
  "processAlarmSyncMessages env [] am = Done am"
| "processAlarmSyncMessages env (i # is) am =
     (case i of
        InOmci msg \<Rightarrow> bind_run (handleOmciMessage env msg am) (processAlarmSyncMessages env is)
      | InOther \<Rightarrow> processAlarmSyncMessages env is am
      | InNotOk \<Rightarrow> processAlarmSyncMessages env is am
      | InStop \<Rightarrow> Done (stop_processing am)
      | InCtxDone \<Rightarrow> Done (stop_processing am))"

definition StartOMCIAlarmMessageProcessing ::
    "alarm_env \<Rightarrow> wait_outcome \<Rightarrow> OnuAlarmManager \<Rightarrow> OnuAlarmManager run" where
  "StartOMCIAlarmMessageProcessing env w am =
     (let am = am\<lparr>processMessage := True,
                   activeAlarms := (case activeAlarms am of None \<Rightarrow> Some [] | Some a \<Rightarrow> Some a),
                   am_alarmBitMapDB := Some [], isExtendedOmci := ae_extOmci env\<rparr>
      in if am_fsm am = asStDisabled
         then bind_run (alarm_event env w AsEvStart am) (\<lambda>(err, am). Done am)
         else Done am)"

record AlarmData =
  ad_ClassId :: u32
  ad_InstanceId :: u32
  ad_Name :: string
  ad_Description :: string

text \<open>The request for the active alarms: the caller sets the flag, wakes the machine and
  waits for its answer or ten seconds.\<close>

definition GetOnuActiveAlarms_request :: "OnuAlarmManager \<Rightarrow> OnuAlarmManager" where
  "GetOnuActiveAlarms_request am = am\<lparr>isAsyncAlarmRequest := True\<rparr>"

definition GetOnuActiveAlarms_answer :: "bool \<Rightarrow> OnuAlarmManager \<Rightarrow> AlarmData list \<times> OnuAlarmManager" where
  "GetOnuActiveAlarms_answer timedOut am =
     (let am = (if timedOut then am\<lparr>isAsyncAlarmRequest := False\<rparr> else am) in
      (map (\<lambda>(c, i, n).
          let d = (case getDeviceEventData c n am of Some d \<Rightarrow> d | None \<Rightarrow> ev_details [] [] Cat_EQUIPMENT)
          in \<lparr> ad_ClassId = ucast c, ad_InstanceId = ucast i, ad_Name = EventName d,
               ad_Description = EventDescription d \<rparr>)
        (case activeAlarms am of None \<Rightarrow> [] | Some a \<Rightarrow> a), am))"

definition am_PrepareForGarbageCollection :: "OnuAlarmManager \<Rightarrow> OnuAlarmManager" where
  "am_PrepareForGarbageCollection am =
     am\<lparr>activeAlarms := None, am_alarmBitMapDB := None, onuEventsList := None, oltDbCopy := None,
        onuDBCopy := None, bufferedNotifications := [], am_handler := False, am_entry := False\<rparr>"

end
