(* ===== verification/Alarm_Sync.thy ===== *)
theory Alarm_Sync
  imports Alarm_Mgr
begin

text \<open>
  Properties of the alarm manager: which states its machine reaches, what a notification does
  to the set of active alarms, how the upload of all alarms proceeds, and what the
  resynchronisation does and does not repair.
\<close>

subsection \<open>The machine\<close>

definition all_as_states :: "as_state list" where
  "all_as_states = [asStStarting, asStDisabled, asStInSync, asStAuditing, asStResynchronizing, asStIdle]"

lemma all_as_states: "s \<in> set all_as_states"
  by (cases s) (simp_all add: all_as_states_def)

lemmas fsm_eval = fsm_transition_def fsm_matches_def Let_def

interpretation alarm_fsm: fsm_table alarm_fsm_events asStDisabled all_as_states "\<lambda>s. [AsEvStop]" asStDisabled
proof (unfold_locales, goal_cases)
  case (4 s)
  show ?case by (cases s) (simp_all add: alarm_fsm_events_def fsm_eval)
qed (auto simp: alarm_fsm_events_def fsm_det_def fsm_states_ok_def all_as_states_def)

text \<open>Every state of the alarm sync machine but the idle one is reached, the table is
  deterministic, and from every state the stop event leads to the disabled state.\<close>

theorem alarm_fsm_states:
  "(fsm_reach alarm_fsm_events asStDisabled s \<longleftrightarrow> s \<noteq> asStIdle) \<and>
   fsm_det alarm_fsm_events \<and> fsm_transition alarm_fsm_events AsEvStop s = Some asStDisabled"
proof -
  have step: "fsm_reach alarm_fsm_events asStDisabled u"
    if "fsm_reach alarm_fsm_events asStDisabled t" "(ev, srcs, u) \<in> set alarm_fsm_events" "t \<in> set srcs"
    for ev srcs t u
    using that alarm_fsm.transition_unique fsm_reach.step by metis
  have disabled: "fsm_reach alarm_fsm_events asStDisabled asStDisabled" by (rule fsm_reach.here)
  have starting: "fsm_reach alarm_fsm_events asStDisabled asStStarting"
    using step [OF disabled, of AsEvStart "[asStDisabled]"] by (simp add: alarm_fsm_events_def)
  have auditing: "fsm_reach alarm_fsm_events asStDisabled asStAuditing"
    using step [OF starting, of AsEvAudit "[asStStarting, asStInSync]"] by (simp add: alarm_fsm_events_def)
  have insync: "fsm_reach alarm_fsm_events asStDisabled asStInSync"
    using step [OF starting, of AsEvSync "[asStStarting]"] by (simp add: alarm_fsm_events_def)
  have resync: "fsm_reach alarm_fsm_events asStDisabled asStResynchronizing"
    using step [OF auditing, of AsEvResync "[asStAuditing]"] by (simp add: alarm_fsm_events_def)
  have "t \<noteq> asStIdle" if "fsm_reach alarm_fsm_events asStDisabled t" for t
  proof -
    have "t \<in> - {asStIdle}"
      by (rule fsm_reach_closed [OF that]) (auto dest!: fsm_transition_SomeD simp: alarm_fsm_events_def)
    then show ?thesis by simp
  qed
  moreover have "fsm_transition alarm_fsm_events AsEvStop s = Some asStDisabled"
    using alarm_fsm.stop_ok [OF all_as_states, of s] by simp
  ultimately show ?thesis
    using disabled starting auditing insync resync alarm_fsm.det by (cases s) auto
qed

text \<open>An audit whose first request fails is not tried again: the failure event finds the
  machine already in the auditing state, so no callback runs, nothing is sent, nothing is
  pending, and a further audit event is refused.\<close>

theorem failed_audit_not_restarted:
  assumes "am_fsm am = asStInSync" "am_pending am = []" "ae_send env (am_sends am) \<noteq> SendOk"
  shows "\<exists>am1 am2. alarm_event env w AsEvAudit am = Done (None, am1) \<and>
    am_pending am1 = [PEvent AsEvFailure] \<and> run_pending env w 0 am1 = Done am2 \<and>
    am_fsm am2 = asStAuditing \<and> am_pending am2 = [] \<and> am_out am2 = am_out am \<and>
    alarm_event env w' AsEvAudit am2 = Done (Some InvalidEventError, am2)"
proof -
  have t: "fsm_transition alarm_fsm_events AsEvAudit asStInSync = Some asStAuditing"
    "fsm_transition alarm_fsm_events AsEvFailure asStAuditing = Some asStAuditing"
    "fsm_transition alarm_fsm_events AsEvAudit asStAuditing = None" "fsm_known alarm_fsm_events AsEvAudit"
    by (simp_all add: alarm_fsm_events_def fsm_eval fsm_known_def)
  show ?thesis
    using assms t
    by (cases "ae_send env (am_sends am)")
      (simp_all add: alarm_event_def fsm_event_def alarm_enter_def asFsmAuditing_def SendGetAllAlarm_def
        ResetAlarmUploadCounters_def run_pending_def Let_def)
qed

definition sample_aenv :: alarm_env where
  "sample_aenv = \<lparr> ae_me = (\<lambda>c i. c = onuGClassID), ae_alarmMap = (\<lambda>c. Some (Some [0, 6, 7, 8, 9, 10, 11])),
     ae_auditInterval = True, ae_extOmci = False, ae_send = (\<lambda>n. SendOk), ae_uniPorts = [(257, 1)],
     ae_ponPort = Some 536870912 \<rparr>"

theorem failed_audit_not_restarted_witness:
  "let am = (NewAlarmManager ''onu'')\<lparr>am_fsm := asStInSync\<rparr>; env = sample_aenv\<lparr>ae_send := (\<lambda>n. SendError)\<rparr>
   in \<exists>am1 am2. alarm_event env TimerFired AsEvAudit am = Done (None, am1) \<and>
        run_pending env TimerFired 0 am1 = Done am2 \<and> am_fsm am2 = asStAuditing \<and> am_pending am2 = []"
  using failed_audit_not_restarted [of "(NewAlarmManager ''onu'')\<lparr>am_fsm := asStInSync\<rparr>"
      "sample_aenv\<lparr>ae_send := (\<lambda>n. SendError)\<rparr>" TimerFired TimerFired]
  by (auto simp: NewAlarmManager_def Let_def)

subsection \<open>Bitmaps\<close>

lemma drop_bit_u8_eq_1:
  assumes "i < 8"
  shows "drop_bit i (b :: u8) = 1 \<longleftrightarrow> bit b i \<and> (\<forall>j. i < j \<and> j < 8 \<longrightarrow> \<not> bit b j)"
proof
  assume e: "drop_bit i b = 1"
  have "bit b (i + n) \<longleftrightarrow> n = 0" for n
    using arg_cong [OF e, of "\<lambda>w. bit w n"] by (simp add: bit_drop_bit_eq bit_1_iff)
  from this [of 0] this show "bit b i \<and> (\<forall>j. i < j \<and> j < 8 \<longrightarrow> \<not> bit b j)"
    by simp (metis add_diff_inverse_nat less_imp_not_less not_less_iff_gr_or_eq zero_less_diff)
next
  assume r: "bit b i \<and> (\<forall>j. i < j \<and> j < 8 \<longrightarrow> \<not> bit b j)"
  show "drop_bit i b = 1"
  proof (rule bit_word_eqI)
    fix n assume "n < LENGTH(8)"
    show "bit (drop_bit i b) n = bit (1 :: u8) n"
      using r bit_imp_le_length [of b "i + n"] by (cases n) (auto simp: bit_drop_bit_eq bit_1_iff)
  qed
qed

lemma drop_bit_u8_eq_0:
  "drop_bit i (b :: u8) = 0 \<longleftrightarrow> (\<forall>j. i \<le> j \<and> j < 8 \<longrightarrow> \<not> bit b j)"
proof
  assume e: "drop_bit i b = 0"
  have "\<not> bit b (i + n)" for n
    using arg_cong [OF e, of "\<lambda>w. bit w n"] by (simp add: bit_drop_bit_eq)
  then show "\<forall>j. i \<le> j \<and> j < 8 \<longrightarrow> \<not> bit b j" by (metis le_add_diff_inverse)
next
  assume r: "\<forall>j. i \<le> j \<and> j < 8 \<longrightarrow> \<not> bit b j"
  show "drop_bit i b = 0"
  proof (rule bit_word_eqI)
    fix n assume "n < LENGTH(8)"
    show "bit (drop_bit i b) n = bit (0 :: u8) n"
      using r bit_imp_le_length [of b "i + n"] by (auto simp: bit_drop_bit_eq)
  qed
qed

text \<open>An alarm counts as active exactly when its bit is set and no alarm with a lower number
  of the same octet is set, and as clear exactly when neither its bit nor one of those is
  set: of two alarms raised in one octet the second is neither active nor clear.\<close>

theorem alarm_bit_meaning:
  assumes "alarm_no_ok env msg n"
  shows "(IsAlarmActive env msg n = Some True \<longleftrightarrow>
            bit (AlarmBitmap msg ! (unat n div 8)) (7 - unat n mod 8) \<and>
            (\<forall>j. 7 - unat n mod 8 < j \<and> j < 8 \<longrightarrow> \<not> bit (AlarmBitmap msg ! (unat n div 8)) j)) \<and>
         (IsAlarmClear env msg n = Some True \<longleftrightarrow>
            (\<forall>j. 7 - unat n mod 8 \<le> j \<and> j < 8 \<longrightarrow> \<not> bit (AlarmBitmap msg ! (unat n div 8)) j))"
  using assms drop_bit_u8_eq_1 [of "7 - unat n mod 8" "AlarmBitmap msg ! (unat n div 8)"]
    drop_bit_u8_eq_0 [of "7 - unat n mod 8" "AlarmBitmap msg ! (unat n div 8)"]
  by (simp add: IsAlarmActive_def IsAlarmClear_def alarm_octet_shifted_def)

theorem alarm_bit_meaning_witness:
  "let msg = \<lparr> EntityClass = onuGClassID, EntityInstance = 0, AlarmBitmap = 3 # replicate 27 0,
               AlarmSequenceNumber = 1 \<rparr>
   in IsAlarmActive sample_aenv msg 6 = Some True \<and> IsAlarmActive sample_aenv msg 7 \<noteq> Some True \<and>
      IsAlarmClear sample_aenv msg 7 \<noteq> Some True"
proof -
  let ?msg = "\<lparr> EntityClass = onuGClassID, EntityInstance = 0, AlarmBitmap = 3 # replicate 27 (0 :: u8),
               AlarmSequenceNumber = 1 \<rparr>"
  have ok: "alarm_no_ok sample_aenv ?msg 6" "alarm_no_ok sample_aenv ?msg 7"
    by (simp_all add: alarm_no_ok_def sample_aenv_def AlarmBitmapSize_def)
  have b: "bit (3 :: u8) 1" "bit (3 :: u8) 0" "j \<noteq> 0 \<Longrightarrow> j \<noteq> 1 \<Longrightarrow> \<not> bit (3 :: u8) j" for j
  proof -
    have "bit (3 :: u8) j \<longleftrightarrow> j = 0 \<or> j = 1" if "j < 8" for j
      using that by (auto simp: less_Suc_eq numeral_eq_Suc bit_numeral_simps)
    then show "bit (3 :: u8) 1" "bit (3 :: u8) 0" "j \<noteq> 0 \<Longrightarrow> j \<noteq> 1 \<Longrightarrow> \<not> bit (3 :: u8) j"
      using bit_imp_le_length [of "3 :: u8" j] by auto
  qed
  show ?thesis
    using alarm_bit_meaning [OF ok(1)] alarm_bit_meaning [OF ok(2)] b
    by (auto simp: Let_def)
qed


subsection \<open>Notifications\<close>

definition active_set :: "OnuAlarmManager \<Rightarrow> alarmInfo set" where
  "active_set am = set (case activeAlarms am of Some a \<Rightarrow> a | None \<Rightarrow> [])"

text \<open>The fields of the manager that the processing of an alarm leaves alone.\<close>

definition sync_part :: "OnuAlarmManager \<Rightarrow> _" where
  "sync_part am = (am_fsm am, am_pending am, bufferedNotifications am, oltDbCopy am, onuDBCopy am,
     lastAlarmSequence am, alarmUploadSeqNo am, processMessage am, am_sends am)"

lemma sendAlarm_fields [frame_simps]:
  "activeAlarms (sendAlarm env c i n r am) = activeAlarms am"
  "am_alarmBitMapDB (sendAlarm env c i n r am) = am_alarmBitMapDB am"
  "sync_part (sendAlarm env c i n r am) = sync_part am"
  by (simp_all add: sendAlarm_def sync_part_def Let_def split: option.splits)

lemma clearAlarm_fields [frame_simps]:
  "activeAlarms (clearAlarm env c i n am) = map_option (filter (\<lambda>a. a \<noteq> (c, i, n))) (activeAlarms am)"
  "sync_part (clearAlarm env c i n am) = sync_part am"
  "k \<noteq> (c, i) \<Longrightarrow> map_of (map_or_empty (am_alarmBitMapDB (clearAlarm env c i n am))) k =
     map_of (map_or_empty (am_alarmBitMapDB am)) k"
  "am_alarmBitMapDB (clearAlarm env c i n am) = None \<longleftrightarrow> am_alarmBitMapDB am = None"
  using sendAlarm_fields [of env c i n False am]
  by (simp_all add: clearAlarm_def Let_def sync_part_def map_or_empty_def split: option.splits)

text \<open>Whether an alarm is active after a notification: an active one stays unless it is clear,
  an inactive one comes up if it is active in the bitmap.\<close>

definition next_active :: "alarm_msg \<Rightarrow> bool \<Rightarrow> u8 \<Rightarrow> bool" where
  "next_active msg was n \<longleftrightarrow>
     (if was then alarm_octet_shifted msg n \<noteq> 0 else alarm_octet_shifted msg n = 1)"

lemma alarm_loop_active:
  assumes "activeAlarms am = Some act" "list_all (alarm_no_ok env msg) ns" "distinct ns"
  shows "\<exists>am' act'. alarm_loop env msg ns am = Done (None, am') \<and> activeAlarms am' = Some act' \<and>
    (\<forall>c i n. (c, i, n) \<in> set act' \<longleftrightarrow>
       (if c = EntityClass msg \<and> i = EntityInstance msg \<and> n \<in> set ns
        then next_active msg ((c, i, n) \<in> set act) n else (c, i, n) \<in> set act)) \<and>
    sync_part am' = sync_part am \<and>
    (\<forall>k. k \<noteq> (EntityClass msg, EntityInstance msg) \<longrightarrow>
       map_of (map_or_empty (am_alarmBitMapDB am')) k = map_of (map_or_empty (am_alarmBitMapDB am)) k) \<and>
    (am_alarmBitMapDB am \<noteq> None \<longrightarrow> am_alarmBitMapDB am' \<noteq> None)"
  using assms
proof (induction ns arbitrary: am act)
  case (Cons n ns)
  let ?c = "EntityClass msg" and ?i = "EntityInstance msg"
  have ok: "alarm_no_ok env msg n" using Cons.prems by simp
  let ?was = "(?c, ?i, n) \<in> set act"
  obtain am1 act1 where am1: "alarm_loop env msg (n # ns) am = alarm_loop env msg ns am1"
    "activeAlarms am1 = Some act1" "sync_part am1 = sync_part am"
    "\<And>a. a \<in> set act1 \<longleftrightarrow> (if a = (?c, ?i, n) then next_active msg ?was n else a \<in> set act)"
    "\<And>k. k \<noteq> (?c, ?i) \<Longrightarrow>
       map_of (map_or_empty (am_alarmBitMapDB am1)) k = map_of (map_or_empty (am_alarmBitMapDB am)) k"
    "am_alarmBitMapDB am \<noteq> None \<Longrightarrow> am_alarmBitMapDB am1 \<noteq> None"
  proof (cases ?was)
    case True
    let ?cl = "alarm_octet_shifted msg n = 0"
    let ?am = "if ?cl then clearAlarm env ?c ?i n am else am"
    show thesis
      by (rule that [of ?am "if ?cl then filter (\<lambda>a. a \<noteq> (?c, ?i, n)) act else act"])
        (use True ok Cons.prems(1) in \<open>auto simp: IsAlarmClear_def clearAlarm_fields next_active_def
           simp del: not_None_eq\<close>)
  next
    case False
    let ?rs = "alarm_octet_shifted msg n = 1"
    let ?am = "if ?rs then sendAlarm env ?c ?i n True (am\<lparr>activeAlarms := Some (insert_key (?c, ?i, n) act)\<rparr>) else am"
    show thesis
      by (rule that [of ?am "if ?rs then insert_key (?c, ?i, n) act else act"])
        (use False ok Cons.prems(1) in \<open>auto simp: IsAlarmActive_def raiseAlarm_def sendAlarm_fields
           next_active_def insert_key_def sync_part_def [of "am\<lparr>activeAlarms := X\<rparr>" for X]
           sync_part_def [of am] simp del: not_None_eq\<close>)
  qed
  have "list_all (alarm_no_ok env msg) ns" "distinct ns" "n \<notin> set ns" using Cons.prems by auto
  then obtain am' act' where am': "alarm_loop env msg ns am1 = Done (None, am')" "activeAlarms am' = Some act'"
    "\<forall>c i m. (c, i, m) \<in> set act' \<longleftrightarrow>
       (if c = ?c \<and> i = ?i \<and> m \<in> set ns then next_active msg ((c, i, m) \<in> set act1) m else (c, i, m) \<in> set act1)"
    "sync_part am' = sync_part am1"
    "\<forall>k. k \<noteq> (?c, ?i) \<longrightarrow>
       map_of (map_or_empty (am_alarmBitMapDB am')) k = map_of (map_or_empty (am_alarmBitMapDB am1)) k"
    "am_alarmBitMapDB am1 \<noteq> None \<longrightarrow> am_alarmBitMapDB am' \<noteq> None"
    using Cons.IH [OF am1(2)] by blast
  show ?case
    by (rule exI [of _ am'], rule exI [of _ act'])
      (use am1 am' \<open>n \<notin> set ns\<close> in \<open>auto split: if_splits\<close>)
qed auto

text \<open>A notification processed outside an audit updates the active alarms of its entity
  exactly as its bitmap says and no others, stores the bitmap, and asks for an early audit
  exactly when its sequence number is not the next one.\<close>

theorem notification_updates_alarms:
  assumes "processMessage am" "ae_me env (EntityClass msg) (EntityInstance msg)"
    and "AlarmSequenceNumber msg > 0" "am_fsm am = asStInSync" "ae_auditInterval env"
    and "ae_alarmMap env (EntityClass msg) = Some (Some ns)" "distinct ns" "\<forall>n \<in> set ns. n < AlarmBitmapSize"
    and "activeAlarms am = Some act" "am_alarmBitMapDB am = Some db"
  shows "\<exists>am' act'. processAlarmData env msg am = Done (None, am') \<and> activeAlarms am' = Some act' \<and>
    (\<forall>c i n. (c, i, n) \<in> set act' \<longleftrightarrow>
       (if c = EntityClass msg \<and> i = EntityInstance msg \<and> n \<in> set ns
        then next_active msg ((c, i, n) \<in> set act) n else (c, i, n) \<in> set act)) \<and>
    am_pending am' = am_pending am @
      (if AlarmSequenceNumber msg = lastAlarmSequence (incrementAlarmSequence am) then []
       else [PEvent AsEvAudit])"
proof -
  let ?k = "(EntityClass msg, EntityInstance msg)"
  let ?am1 = "incrementAlarmSequence am"
  let ?am2 = "if AlarmSequenceNumber msg \<noteq> lastAlarmSequence ?am1 then am_go (PEvent AsEvAudit) ?am1 else ?am1"
  let ?am3 = "?am2\<lparr>am_alarmBitMapDB := Some (AList.update ?k (AlarmBitmap msg) db)\<rparr>"
  have "list_all (alarm_no_ok env msg) ns"
    using assms(6,8) by (simp add: list_all_iff alarm_no_ok_def)
  moreover have "activeAlarms ?am3 = Some act" using assms(9) by (simp add: incrementAlarmSequence_def)
  ultimately obtain am' act' where "alarm_loop env msg ns ?am3 = Done (None, am')" "activeAlarms am' = Some act'"
    "\<forall>c i n. (c, i, n) \<in> set act' \<longleftrightarrow>
       (if c = EntityClass msg \<and> i = EntityInstance msg \<and> n \<in> set ns
        then next_active msg ((c, i, n) \<in> set act) n else (c, i, n) \<in> set act)"
    "sync_part am' = sync_part ?am3"
    using alarm_loop_active [OF _ _ assms(7)] by blast
  moreover have "processAlarmData env msg am = alarm_loop env msg ns ?am3"
    using assms by (simp add: processAlarmData_def Let_def incrementAlarmSequence_def)
  ultimately show ?thesis by (auto simp: sync_part_def incrementAlarmSequence_def)
qed


theorem notification_updates_alarms_witness:
  "let am = (NewAlarmManager ''onu'')\<lparr>am_fsm := asStInSync, processMessage := True\<rparr>;
       msg = \<lparr> EntityClass = onuGClassID, EntityInstance = 0, AlarmBitmap = 1 # replicate 27 0,
               AlarmSequenceNumber = 1 \<rparr>
   in \<exists>am' act'. processAlarmData sample_aenv msg am = Done (None, am') \<and> activeAlarms am' = Some act' \<and>
        (onuGClassID, 0, 7) \<in> set act' \<and> am_pending am' = []"
proof -
  let ?am = "(NewAlarmManager ''onu'')\<lparr>am_fsm := asStInSync, processMessage := True\<rparr>"
  let ?msg = "\<lparr> EntityClass = onuGClassID, EntityInstance = 0, AlarmBitmap = 1 # replicate 27 (0 :: u8),
               AlarmSequenceNumber = 1 \<rparr>"
  have "next_active ?msg False 7" by (simp add: next_active_def alarm_octet_shifted_def)
  moreover have "lastAlarmSequence (incrementAlarmSequence ?am) = 1"
    by (simp add: incrementAlarmSequence_def NewAlarmManager_def)
  moreover have "ae_alarmMap sample_aenv onuGClassID = Some (Some [0, 6, 7, 8, 9, 10, 11])"
    "ae_me sample_aenv onuGClassID 0" "ae_auditInterval sample_aenv" "activeAlarms ?am = Some []"
    "am_alarmBitMapDB ?am = Some []" "am_pending ?am = []" "processMessage ?am" "am_fsm ?am = asStInSync"
    by (simp_all add: sample_aenv_def NewAlarmManager_def)
  ultimately show ?thesis
    using notification_updates_alarms [of ?am sample_aenv ?msg "[0, 6, 7, 8, 9, 10, 11]" "[]" "[]"]
    unfolding Let_def by (fastforce simp: AlarmBitmapSize_def)
qed

subsection \<open>Resynchronisation\<close>

definition env_ok :: "alarm_env \<Rightarrow> bool" where
  "env_ok env \<longleftrightarrow> (\<forall>c ns. ae_alarmMap env c = Some (Some ns) \<longrightarrow> distinct ns \<and> (\<forall>n \<in> set ns. n < AlarmBitmapSize))"

definition stable :: "alarm_env \<Rightarrow> alarm_msg \<Rightarrow> alarmInfo set \<Rightarrow> bool" where
  "stable env msg S \<longleftrightarrow> (\<forall>ns. ae_alarmMap env (EntityClass msg) = Some (Some ns) \<longrightarrow>
     (\<forall>n \<in> set ns. next_active msg ((EntityClass msg, EntityInstance msg, n) \<in> S) n \<longleftrightarrow>
                  (EntityClass msg, EntityInstance msg, n) \<in> S))"

lemma processAlarm_stable:
  assumes "env_ok env" "AlarmSequenceNumber msg = 0" "processMessage am" "activeAlarms am = Some act"
    and "am_alarmBitMapDB am \<noteq> None" "stable env msg (set act)"
  shows "\<exists>am' act'. processAlarm env msg am = Done (None, am') \<and> activeAlarms am' = Some act' \<and>
    set act' = set act \<and> sync_part am' = sync_part am \<and> am_alarmBitMapDB am' \<noteq> None"
proof (cases "\<exists>ns. ae_me env (EntityClass msg) (EntityInstance msg) \<and>
                   ae_alarmMap env (EntityClass msg) = Some (Some ns)")
  case False
  then have "processAlarmData env msg am = Done (Some NotFound, am)"
    using assms by (auto simp: processAlarmData_def Let_def split: option.splits)
  then show ?thesis using assms by (simp add: processAlarm_def)
next
  case True
  then obtain ns where ns: "ae_me env (EntityClass msg) (EntityInstance msg)"
    "ae_alarmMap env (EntityClass msg) = Some (Some ns)" by blast
  obtain db where db: "am_alarmBitMapDB am = Some db" using assms(5) by blast
  let ?k = "(EntityClass msg, EntityInstance msg)"
  let ?am = "am\<lparr>am_alarmBitMapDB := Some (AList.update ?k (AlarmBitmap msg) db)\<rparr>"
  have "distinct ns" "list_all (alarm_no_ok env msg) ns"
    using assms(1) ns(2) by (auto simp: env_ok_def list_all_iff alarm_no_ok_def)
  moreover have "activeAlarms ?am = Some act" using assms(4) by simp
  ultimately obtain am' act' where am': "alarm_loop env msg ns ?am = Done (None, am')"
    "activeAlarms am' = Some act'"
    "\<forall>c i n. (c, i, n) \<in> set act' \<longleftrightarrow>
       (if c = EntityClass msg \<and> i = EntityInstance msg \<and> n \<in> set ns
        then next_active msg ((c, i, n) \<in> set act) n else (c, i, n) \<in> set act)"
    "sync_part am' = sync_part ?am" "am_alarmBitMapDB am' \<noteq> None"
    using alarm_loop_active [of ?am act env msg ns] by auto
  have "set act' = set act" using am'(3) assms(6) ns(2) by (auto simp: stable_def split: if_splits)
  moreover have "processAlarmData env msg am = Done (None, am')"
    using assms(2,3) ns db am'(1) by (simp add: processAlarmData_def Let_def)
  ultimately show ?thesis using am' by (simp add: processAlarm_def sync_part_def)
qed

lemma process_all_stable:
  assumes "env_ok env" "processMessage am" "activeAlarms am = Some act" "am_alarmBitMapDB am \<noteq> None"
    and "\<forall>m \<in> set ms. AlarmSequenceNumber m = 0 \<and> stable env m (set act)"
  shows "\<exists>am' act'. process_all env ms am = Done (None, am') \<and> activeAlarms am' = Some act' \<and>
    set act' = set act \<and> sync_part am' = sync_part am \<and> am_alarmBitMapDB am' \<noteq> None"
  using assms
proof (induction ms arbitrary: am act)
  case (Cons m ms)
  obtain am1 act1 where am1: "processAlarm env m am = Done (None, am1)" "activeAlarms am1 = Some act1"
    "set act1 = set act" "sync_part am1 = sync_part am" "am_alarmBitMapDB am1 \<noteq> None"
    using processAlarm_stable [of env m am act] Cons.prems by auto
  have "processMessage am1" using am1(4) Cons.prems(2) by (simp add: sync_part_def)
  then show ?case using Cons.IH [of am1 act1] Cons.prems am1 by auto
qed auto

text \<open>An alarm the ONU no longer reports is never cleared by a resynchronisation: the
  difference is processed with the adapter's own bitmap, so when the ONU reports no alarm at
  all every active alarm stays active, and the machine still goes to the in-sync state.\<close>

theorem olt_only_alarms_not_cleared:
  assumes "env_ok env" "processMessage am" "activeAlarms am = Some act" "am_alarmBitMapDB am \<noteq> None"
    and "onuDBCopy am = Some []" "oltDbCopy am = Some olt" "bufferedNotifications am = []"
    and "\<forall>(k, b) \<in> set olt. stable env (createOmciAlarmMessage k b) (set act)"
  shows "\<exists>am'. asFsmResynchronizing env am = Done am' \<and> active_set am' = active_set am \<and>
    am_pending am' = am_pending am @ [PEvent AsEvSuccess]"
proof -
  let ?ms = "map (\<lambda>(k, b). createOmciAlarmMessage k b) olt"
  have "\<forall>m \<in> set ?ms. AlarmSequenceNumber m = 0 \<and> stable env m (set act)"
    using assms(8) by (auto simp: createOmciAlarmMessage_def)
  then obtain am' act' where p: "process_all env ?ms am = Done (None, am')" "activeAlarms am' = Some act'"
    "set act' = set act" "sync_part am' = sync_part am"
    using process_all_stable [OF assms(1-4)] by blast
  have same: "onuDBCopy am' = Some []" "bufferedNotifications am' = []" "am_pending am' = am_pending am"
    using p(4) assms(5,7) by (simp_all add: sync_part_def)
  have "asFsmResynchronizing env am = Done (am_go (PEvent AsEvSuccess) am')"
    using p(1) assms(5,6) same
    by (simp add: asFsmResynchronizing_def processOnuOnlyDifferences_def processOltOnlyDifferences_def
        processAttributeDifferences_def processBufferedNotifications_def map_or_empty_def)
  then show ?thesis using p same assms(3) by (simp add: active_set_def)
qed

theorem olt_only_alarms_not_cleared_witness:
  "let am = (NewAlarmManager ''onu'')\<lparr>am_fsm := asStResynchronizing, processMessage := True,
              activeAlarms := Some [(onuGClassID, 0, 7)], onuDBCopy := Some [],
              oltDbCopy := Some [((onuGClassID, 0), 1 # replicate 27 0)]\<rparr>
   in \<exists>am'. asFsmResynchronizing sample_aenv am = Done am' \<and> active_set am' = {(onuGClassID, 0, 7)}"
proof -
  let ?olt = "[((onuGClassID, 0), 1 # replicate 27 (0 :: u8))]"
  let ?am = "(NewAlarmManager ''onu'')\<lparr>am_fsm := asStResynchronizing, processMessage := True,
     activeAlarms := Some [(onuGClassID, 0, 7)], onuDBCopy := Some [], oltDbCopy := Some ?olt\<rparr>"
  have ok: "env_ok sample_aenv" by (simp add: env_ok_def sample_aenv_def AlarmBitmapSize_def)
  have st: "\<forall>(k, b) \<in> set ?olt. stable sample_aenv (createOmciAlarmMessage k b) {(onuGClassID, 0, 7)}"
    by (simp add: stable_def sample_aenv_def createOmciAlarmMessage_def next_active_def alarm_octet_shifted_def)
  show ?thesis
    using olt_only_alarms_not_cleared [of sample_aenv ?am "[(onuGClassID, 0, 7)]" ?olt] ok st
    by (auto simp: NewAlarmManager_def active_set_def Let_def)
qed

text \<open>Notifications that arrive during an audit are never applied: while the buffer is
  worked off the machine is still resynchronising, so each of them is buffered again, and the
  next audit discards them.\<close>

theorem buffered_notifications_not_applied:
  assumes "am_fsm am = asStResynchronizing" "processMessage am"
    and "\<forall>m \<in> set (bufferedNotifications am).
           AlarmSequenceNumber m > 0 \<and> ae_me env (EntityClass m) (EntityInstance m)"
  shows "processBufferedNotifications env am =
      Done (None, am\<lparr>bufferedNotifications := bufferedNotifications am @ bufferedNotifications am\<rparr>) \<and>
    (\<exists>am'. asFsmAuditing env am = Done am' \<and> bufferedNotifications am' = [] \<and>
       active_set am' = active_set am)"
proof -
  have "process_all env ms (am\<lparr>bufferedNotifications := bs\<rparr>) =
      Done (None, am\<lparr>bufferedNotifications := bs @ ms\<rparr>)"
    if "\<forall>m \<in> set ms. AlarmSequenceNumber m > 0 \<and> ae_me env (EntityClass m) (EntityInstance m)" for ms bs
    using that
  proof (induction ms arbitrary: bs)
    case (Cons m ms)
    have "processAlarm env m (am\<lparr>bufferedNotifications := bs\<rparr>) =
        Done (None, am\<lparr>bufferedNotifications := bs @ [m]\<rparr>)"
      using assms(1,2) Cons.prems by (simp add: processAlarm_def processAlarmData_def)
    then show ?case using Cons.IH [of "bs @ [m]"] Cons.prems by simp
  qed simp
  from this [OF assms(3), of "bufferedNotifications am"]
  have "processBufferedNotifications env am =
      Done (None, am\<lparr>bufferedNotifications := bufferedNotifications am @ bufferedNotifications am\<rparr>)"
    by (simp add: processBufferedNotifications_def)
  moreover have "\<exists>am'. asFsmAuditing env am = Done am' \<and> bufferedNotifications am' = [] \<and>
       active_set am' = active_set am"
    by (cases "ae_send env (am_sends am)") (simp_all add: asFsmAuditing_def SendGetAllAlarm_def Let_def
        ResetAlarmUploadCounters_def active_set_def)
  ultimately show ?thesis by blast
qed

theorem buffered_notifications_not_applied_witness:
  "let msg = \<lparr> EntityClass = onuGClassID, EntityInstance = 0, AlarmBitmap = 1 # replicate 27 0,
               AlarmSequenceNumber = 1 \<rparr>;
       am = (NewAlarmManager ''onu'')\<lparr>am_fsm := asStResynchronizing, processMessage := True,
              bufferedNotifications := [msg]\<rparr>
   in processBufferedNotifications sample_aenv am = Done (None, am\<lparr>bufferedNotifications := [msg, msg]\<rparr>)"
proof -
  let ?msg = "\<lparr> EntityClass = onuGClassID, EntityInstance = 0, AlarmBitmap = 1 # replicate 27 (0 :: u8),
               AlarmSequenceNumber = 1 \<rparr>"
  let ?am = "(NewAlarmManager ''onu'')\<lparr>am_fsm := asStResynchronizing, processMessage := True,
              bufferedNotifications := [?msg]\<rparr>"
  show ?thesis
    using buffered_notifications_not_applied [of ?am sample_aenv]
    by (simp add: sample_aenv_def Let_def)
qed


subsection \<open>The upload\<close>

lemma deep_equal_iff: "deep_equal (Some x) (Some y) \<longleftrightarrow> map_of x = map_of y"
proof
  assume d: "deep_equal (Some x) (Some y)"
  show "map_of x = map_of y"
  proof
    fix k
    show "map_of x k = map_of y k"
    proof (cases "map_of x k")
      case (Some v)
      with d map_of_SomeD [OF Some] show ?thesis by (auto simp: deep_equal_def list_all_iff)
    next
      case None
      have "map_of y k = None"
      proof (cases "map_of y k")
        case (Some a)
        with d map_of_SomeD [OF Some] None show ?thesis by (auto simp: deep_equal_def list_all_iff)
      qed simp
      with None show ?thesis by simp
    qed
  qed
qed (simp add: deep_equal_def list_all_iff)

definition next_msg :: "meAlarmKey \<times> bytes \<Rightarrow> loop_input" where
  "next_msg r = InOmci (GetAllAlarmsNextResponse (Some
     \<lparr> an_key = fst r, an_bitmap = snd r, an_extended = False, an_additional = [] \<rparr>))"

lemma request_next_ok:
  assumes "ae_send env = (\<lambda>n. SendOk)"
  shows "request_next env am =
    am\<lparr>am_sends := am_sends am + 1, alarmUploadSeqNo := alarmUploadSeqNo am + 1,
       am_out := am_out am @ [SentGetAllAlarmsNext (alarmUploadSeqNo am)]\<rparr>"
  using assms by (simp add: request_next_def SendGetAllAlarmNext_def IncrementAlarmUploadSeqNo_def
      GetAlarmUploadSeqNo_def Let_def)

lemma upload_loop:
  assumes "ae_send env = (\<lambda>n. SendOk)" "rs \<noteq> []" "length rs \<le> N" "N < 65536"
    and "alarmUploadSeqNo am = of_nat (Suc N - length rs)" "alarmUploadNoOfCmdsOrMEs am = of_nat N"
    and "onuDBCopy am = Some d"
  shows "\<exists>am'. processAlarmSyncMessages env (map next_msg rs) am = Done am' \<and>
    am_out am' = am_out am @ map (\<lambda>i. SentGetAllAlarmsNext (of_nat i)) [Suc N - length rs..<N] \<and>
    onuDBCopy am' = Some (range_assign rs d) \<and> oltDbCopy am' = oltDbCopy am \<and>
    am_pending am' = am_pending am @
      [PEvent (if deep_equal (Some (range_assign rs d)) (oltDbCopy am) then AsEvSuccess else AsEvResync)]"
  using assms(2-)
proof (induction rs arbitrary: am d)
  case (Cons r rs)
  obtain k b where r: "r = (k, b)" by fastforce
  let ?d = "AList.update k b d"
  let ?am1 = "am\<lparr>onuDBCopy := Some ?d\<rparr>"
  have ra: "range_assign (r # rs) d = range_assign rs ?d" by (simp add: range_assign_def r)
  have h: "handleOmciMessage env (GetAllAlarmsNextResponse (Some
       \<lparr> an_key = fst r, an_bitmap = snd r, an_extended = False, an_additional = [] \<rparr>)) am =
     Done (if alarmUploadSeqNo am < alarmUploadNoOfCmdsOrMEs am then request_next env ?am1 else upload_finished ?am1)"
    using Cons.prems(6) by (simp add: handleOmciMessage_def handleOmciGetAllAlarmNextResponseMessage_def
        store_onu_alarm_def r)
  have un: "unat (of_nat m :: u16) = m" if "m < 65536" for m
    using that by (simp add: unat_of_nat)
  show ?case
  proof (cases "rs = []")
    case True
    then have "\<not> alarmUploadSeqNo am < alarmUploadNoOfCmdsOrMEs am" using Cons.prems by simp
    with True h ra show ?thesis
      by (auto simp: next_msg_def upload_finished_def isAlarmDBDiffPresent_def range_assign_def)
  next
    case False
    let ?n = "Suc N - length (r # rs)"
    let ?am2 = "request_next env ?am1"
    have n: "?n < N" "Suc ?n = Suc N - length rs" using False Cons.prems(2) by (cases rs; simp)+
    have "unat (of_nat ?n :: u16) = ?n" by (rule un) (use n Cons.prems(3) in linarith)
    then have "alarmUploadSeqNo am < alarmUploadNoOfCmdsOrMEs am"
      unfolding Cons.prems(4,5) word_less_nat_alt using n(1) un [OF Cons.prems(3)] by (simp only:)
    then have step: "processAlarmSyncMessages env (map next_msg (r # rs)) am =
        processAlarmSyncMessages env (map next_msg rs) ?am2"
      using h by (simp add: next_msg_def)
    have f: "alarmUploadSeqNo ?am2 = of_nat (Suc N - length rs)" "alarmUploadNoOfCmdsOrMEs ?am2 = of_nat N"
      "onuDBCopy ?am2 = Some ?d" "oltDbCopy ?am2 = oltDbCopy am" "am_pending ?am2 = am_pending am"
      "am_out ?am2 = am_out am @ [SentGetAllAlarmsNext (of_nat ?n)]"
      using Cons.prems(4,5) n(2) by (simp_all add: request_next_ok [OF assms(1)])
    have up: "[?n..<N] = ?n # [Suc N - length rs..<N]" using n by (simp add: upt_conv_Cons)
    show ?thesis
      using Cons.IH [of ?am2 ?d] False Cons.prems(2,3) f step ra up by auto
  qed
qed simp

text \<open>C40: The upload of all alarms: the ONU announces a number of entries, the manager asks for
  them one by one with the sequence numbers from zero, collects what the ONU reports, and then
  resynchronises exactly when the report differs from its own data base.\<close>

theorem alarm_upload_complete:
  assumes "am_fsm am = asStAuditing" "ae_send env = (\<lambda>n. SendOk)" "alarmUploadSeqNo am = 0"
    and "onuDBCopy am = Some []" "oltDbCopy am = Some []" "am_alarmBitMapDB am = Some db" "distinct (akeys db)"
    and "distinct (akeys rs)" "length rs < 65536"
  shows "\<exists>am' onu olt. processAlarmSyncMessages env
      (InOmci (GetAllAlarmsResponse (Some (of_nat (length rs)))) # map next_msg rs) am = Done am' \<and>
    am_out am' = am_out am @ map (\<lambda>i. SentGetAllAlarmsNext (of_nat i)) [0..<length rs] \<and>
    onuDBCopy am' = Some onu \<and> map_of onu = map_of rs \<and> oltDbCopy am' = Some olt \<and> map_of olt = map_of db \<and>
    am_pending am' = am_pending am @ [PEvent (if map_of rs = map_of db then AsEvSuccess else AsEvResync)]"
proof -
  let ?olt = "range_assign db []"
  have olt: "map_of ?olt = map_of db" using map_of_range_assign [OF assms(7), of "[]"] by simp
  have onu: "map_of (range_assign rs []) = map_of rs" using map_of_range_assign [OF assms(8), of "[]"] by simp
  let ?am0 = "(resetAlarmSequence (am\<lparr>alarmUploadNoOfCmdsOrMEs := of_nat (length rs)\<rparr>))\<lparr>oltDbCopy := Some ?olt\<rparr>"
  show ?thesis
  proof (cases "rs = []")
    case True
    then show ?thesis
      using assms(1,3-6) olt
      by (simp add: handleOmciMessage_def handleOmciGetAllAlarmsResponseMessage_def range_copy_def Let_def
          map_or_empty_def resetAlarmSequence_def upload_finished_def isAlarmDBDiffPresent_def deep_equal_iff)
  next
    case False
    let ?am1 = "request_next env ?am0"
    have "0 < (of_nat (length rs) :: u16)"
      using False assms(9) by (simp add: word_less_nat_alt unat_of_nat)
    then have first: "handleOmciMessage env (GetAllAlarmsResponse (Some (of_nat (length rs)))) am = Done ?am1"
      using assms(1,3,5,6) by (simp add: handleOmciMessage_def handleOmciGetAllAlarmsResponseMessage_def
          range_copy_def map_or_empty_def resetAlarmSequence_def Let_def)
    have f: "alarmUploadSeqNo ?am1 = of_nat (Suc (length rs) - length rs)"
      "alarmUploadNoOfCmdsOrMEs ?am1 = of_nat (length rs)" "onuDBCopy ?am1 = Some []" "oltDbCopy ?am1 = Some ?olt"
      "am_pending ?am1 = am_pending am" "am_out ?am1 = am_out am @ [SentGetAllAlarmsNext 0]"
      using assms(3,4) by (simp_all add: request_next_ok [OF assms(2)] resetAlarmSequence_def)
    have up: "[0..<length rs] = 0 # [Suc (length rs) - length rs..<length rs]"
      using False by (simp add: upt_conv_Cons)
    show ?thesis
      using upload_loop [OF assms(2) False order.refl assms(9) f(1-3)] first f onu olt up
      by (auto simp: deep_equal_iff)
  qed
qed

theorem alarm_upload_complete_witness:
  "let am = (NewAlarmManager ''onu'')\<lparr>am_fsm := asStAuditing, onuDBCopy := Some [], oltDbCopy := Some []\<rparr>;
       rs = [((onuGClassID, 0), 1 # replicate 27 0), ((aniGClassID, 1), 2 # replicate 27 0)]
   in \<exists>am'. processAlarmSyncMessages sample_aenv
         (InOmci (GetAllAlarmsResponse (Some 2)) # map next_msg rs) am = Done am' \<and>
        am_out am' = [SentGetAllAlarmsNext 0, SentGetAllAlarmsNext 1] \<and>
        am_pending am' = [PEvent AsEvResync]"
proof -
  let ?am = "(NewAlarmManager ''onu'')\<lparr>am_fsm := asStAuditing, onuDBCopy := Some [], oltDbCopy := Some []\<rparr>"
  let ?rs = "[((onuGClassID, 0), 1 # replicate 27 (0 :: u8)), ((aniGClassID, 1), 2 # replicate 27 0)]"
  have ne: "onuGClassID \<noteq> aniGClassID" by (simp add: onuGClassID_def aniGClassID_def)
  have "map_of ?rs (onuGClassID, 0) \<noteq> None" by simp
  then have "map_of ?rs \<noteq> Map.empty" by force
  then show ?thesis
    using alarm_upload_complete [of ?am sample_aenv "[]" ?rs] ne
    by (auto simp: NewAlarmManager_def sample_aenv_def Let_def numeral_2_eq_2 upt_conv_Cons)
qed

end
