(* ===== verification/Vlan_Evtocd.thy ===== *)
theory Vlan_Evtocd
  imports Go_Prelude Common_Utils
begin

text \<open>
  The VLAN rules of a UNI port and the entries of the extended VLAN tagging operation table
  they are turned into (\<^verbatim>\<open>internal/pkg/avcfg/omci_vlan_config.go\<close>): the normalisation of a
  rule, the sixteen bytes of each table entry, and the OMCI requests that configure and
  remove a rule. The table of the ONU, which the requests write, is specified as G.988
  documents it: an entry is identified by its two filter words, and a treatment of all ones
  deletes it.
\<close>

subsection \<open>Constants\<close>

definition cDefaultDownstreamMode :: u8 where "cDefaultDownstreamMode = 0"
definition cDefaultTpid :: u16 where "cDefaultTpid = 0x8100"
definition cVtfdTableSize :: nat where "cVtfdTableSize = 64"
definition cMaxAllowedFlows :: nat where "cMaxAllowedFlows = cVtfdTableSize"

definition cFilterPrioOffset :: nat where "cFilterPrioOffset = 28"
definition cFilterVidOffset :: nat where "cFilterVidOffset = 15"
definition cFilterTpidOffset :: nat where "cFilterTpidOffset = 12"
definition cFilterEtherTypeOffset :: nat where "cFilterEtherTypeOffset = 0"
definition cTreatTTROffset :: nat where "cTreatTTROffset = 30"
definition cTreatPrioOffset :: nat where "cTreatPrioOffset = 16"
definition cTreatVidOffset :: nat where "cTreatVidOffset = 3"
definition cTreatTpidOffset :: nat where "cTreatTpidOffset = 0"

definition cPrioIgnoreTag :: u32 where "cPrioIgnoreTag = 15"
definition cPrioDefaultFilter :: u32 where "cPrioDefaultFilter = 14"
definition cPrioDoNotFilter :: u32 where "cPrioDoNotFilter = 8"
definition cDoNotFilterVid :: u32 where "cDoNotFilterVid = 4096"
definition cDoNotFilterTPID :: u32 where "cDoNotFilterTPID = 0"
definition cDoNotFilterEtherType :: u32 where "cDoNotFilterEtherType = 0"
definition cDoNotAddPrio :: u32 where "cDoNotAddPrio = 15"
definition cCopyPrioFromInner :: u32 where "cCopyPrioFromInner = 8"
definition cCopyPrioFromOuter :: u32 where "cCopyPrioFromOuter = 9"
definition cDontCareVid :: u32 where "cDontCareVid = 0"
definition cDontCareTpid :: u32 where "cDontCareTpid = 0"
definition cSetOutputTpidCopyDei :: u32 where "cSetOutputTpidCopyDei = 4"

definition OFPVID_NONE :: u32 where "OFPVID_NONE = 0"
definition OFPVID_PRESENT :: u32 where "OFPVID_PRESENT = 4096"

lemmas evtocd_consts =
  cFilterPrioOffset_def cFilterVidOffset_def cFilterTpidOffset_def cFilterEtherTypeOffset_def
  cTreatTTROffset_def cTreatPrioOffset_def cTreatVidOffset_def cTreatTpidOffset_def
  cPrioIgnoreTag_def cPrioDefaultFilter_def cPrioDoNotFilter_def cDoNotFilterVid_def
  cDoNotFilterTPID_def cDoNotFilterEtherType_def cDoNotAddPrio_def cCopyPrioFromInner_def
  cCopyPrioFromOuter_def cDontCareVid_def cDontCareTpid_def cSetOutputTpidCopyDei_def

subsection \<open>Rules\<close>

record UniVlanRuleParams =
  MatchVid :: u32
  MatchPcp :: u32
  TagsToRemove :: u32
  SetVid :: u32
  SetPcp :: u32
  InnerCvlan :: u16
  TpID :: u8

text \<open>The adjustments both \<^verbatim>\<open>initUniFlowParams\<close> and \<^verbatim>\<open>SetUniFlowParams\<close> make.\<close>

definition rule_params ::
    "bool \<Rightarrow> u8 \<Rightarrow> u16 \<Rightarrow> u8 \<Rightarrow> u16 \<Rightarrow> u8 \<Rightarrow> u16 \<Rightarrow> UniVlanRuleParams" where
  "rule_params acceptIncrementalEvto aTpID aMatchVlan aMatchPcp aSetVlan aSetPcp innerCvlan =
     (let r = \<lparr> MatchVid = ucast aMatchVlan, MatchPcp = ucast aMatchPcp, TagsToRemove = 1,
                SetVid = ucast aSetVlan, SetPcp = ucast aSetPcp, InnerCvlan = innerCvlan,
                TpID = aTpID \<rparr>;
          r = (if SetVid r = OFPVID_PRESENT then r\<lparr>MatchVid := OFPVID_PRESENT\<rparr>
               else if \<not> acceptIncrementalEvto then r\<lparr>MatchVid := OFPVID_PRESENT\<rparr>
               else r)
      in if MatchVid r = OFPVID_PRESENT
         then let r = r\<lparr>TagsToRemove := 0, MatchPcp := cPrioIgnoreTag\<rparr>
              in if SetPcp r = cCopyPrioFromInner then r\<lparr>SetPcp := 0\<rparr> else r
         else r)"

subsection \<open>Table entries\<close>

definition filter_outer :: "u32 \<Rightarrow> u32 \<Rightarrow> u32" where
  "filter_outer prio vid =
     push_bit cFilterPrioOffset prio OR push_bit cFilterVidOffset vid OR
     push_bit cFilterTpidOffset cDoNotFilterTPID"

definition filter_inner :: "u32 \<Rightarrow> u32 \<Rightarrow> u32" where
  "filter_inner prio vid =
     push_bit cFilterPrioOffset prio OR push_bit cFilterVidOffset vid OR
     push_bit cFilterTpidOffset cDoNotFilterTPID OR
     push_bit cFilterEtherTypeOffset cDoNotFilterEtherType"

definition treat_outer :: "u32 \<Rightarrow> u32 \<Rightarrow> u32 \<Rightarrow> u32" where
  "treat_outer ttr prio vid =
     push_bit cTreatTTROffset ttr OR push_bit cTreatPrioOffset prio OR
     push_bit cTreatVidOffset vid OR push_bit cTreatTpidOffset cDontCareTpid"

definition treat_inner :: "u32 \<Rightarrow> u32 \<Rightarrow> u32 \<Rightarrow> u32" where
  "treat_inner prio vid tpid =
     push_bit cTreatPrioOffset prio OR push_bit cTreatVidOffset vid OR push_bit cTreatTpidOffset tpid"

definition evtocd_entry :: "u32 \<Rightarrow> u32 \<Rightarrow> u32 \<Rightarrow> u32 \<Rightarrow> bytes" where
  "evtocd_entry fo fi to ti = put_uint32 fo @ put_uint32 fi @ put_uint32 to @ put_uint32 ti"

definition transparent_entry :: bytes where
  "transparent_entry =
     evtocd_entry (filter_outer cPrioIgnoreTag cDoNotFilterVid)
                  (filter_inner cPrioDefaultFilter cDoNotFilterVid)
                  (treat_outer 0 cDoNotAddPrio cDontCareVid)
                  (treat_inner cDoNotAddPrio cDontCareVid cSetOutputTpidCopyDei)"

definition single_tagged_entry :: "UniVlanRuleParams \<Rightarrow> bytes" where
  "single_tagged_entry r =
     evtocd_entry (filter_outer cPrioIgnoreTag cDoNotFilterVid)
                  (filter_inner (MatchPcp r) (MatchVid r))
                  (treat_outer (TagsToRemove r) cDoNotAddPrio cDontCareVid)
                  (treat_inner (SetPcp r) (SetVid r) cSetOutputTpidCopyDei)"

definition double_tagged_entry :: "UniVlanRuleParams \<Rightarrow> bytes" where
  "double_tagged_entry r =
     evtocd_entry (filter_outer (MatchPcp r) (MatchVid r))
                  (filter_inner cPrioDefaultFilter (ucast (InnerCvlan r)))
                  (treat_outer (TagsToRemove r) cCopyPrioFromOuter (SetVid r))
                  (treat_inner cDoNotAddPrio (ucast (InnerCvlan r)) cDontCareTpid)"

definition untagged_entry :: "UniVlanRuleParams \<Rightarrow> bytes" where
  "untagged_entry r =
     evtocd_entry (filter_outer cPrioIgnoreTag cDoNotFilterVid)
                  (filter_inner cPrioIgnoreTag cDoNotFilterVid)
                  (treat_outer 0 cDoNotAddPrio cDontCareVid)
                  (treat_inner 0 (SetVid r) cSetOutputTpidCopyDei)"

definition priotagged_entry :: "UniVlanRuleParams \<Rightarrow> bytes" where
  "priotagged_entry r =
     evtocd_entry (filter_outer cPrioIgnoreTag cDoNotFilterVid)
                  (filter_inner cPrioDoNotFilter 0)
                  (treat_outer 1 cDoNotAddPrio cDontCareVid)
                  (treat_inner cCopyPrioFromInner (SetVid r) cSetOutputTpidCopyDei)"

definition default_transparent_entry :: bytes where
  "default_transparent_entry =
     evtocd_entry (filter_outer cPrioIgnoreTag cDoNotFilterVid)
                  (filter_inner cPrioDefaultFilter cDoNotFilterVid)
                  (treat_outer 0 cDoNotAddPrio cDontCareVid)
                  (treat_inner cDoNotAddPrio cDontCareVid cDontCareTpid)"

definition clear_single_tagged_entry :: "UniVlanRuleParams \<Rightarrow> bytes" where
  "clear_single_tagged_entry r =
     evtocd_entry (filter_outer cPrioIgnoreTag cDoNotFilterVid)
                  (filter_inner (MatchPcp r) (MatchVid r)) 0xFFFFFFFF 0xFFFFFFFF"

definition clear_double_tagged_entry :: "UniVlanRuleParams \<Rightarrow> bytes" where
  "clear_double_tagged_entry r =
     evtocd_entry (filter_outer cPrioIgnoreTag (MatchVid r))
                  (filter_inner cPrioIgnoreTag cDoNotFilterVid) 0xFFFFFFFF 0xFFFFFFFF"

definition reset_untagged_entry :: bytes where
  "reset_untagged_entry =
     evtocd_entry (filter_outer cPrioIgnoreTag cDoNotFilterVid)
                  (filter_inner cPrioIgnoreTag cDoNotFilterVid)
                  (treat_outer 0 cDoNotAddPrio cDontCareVid)
                  (treat_inner cDoNotAddPrio cDontCareVid cDontCareTpid)"

definition clear_priotagged_entry :: bytes where
  "clear_priotagged_entry =
     evtocd_entry (filter_outer cPrioIgnoreTag cDoNotFilterVid)
                  (filter_inner cPrioDoNotFilter 0) 0xFFFFFFFF 0xFFFFFFFF"

subsection \<open>The requests of a rule\<close>

text \<open>The OMCI requests of the component: EVTOCD is the extended VLAN tagging operation
  configuration data, VTFD the VLAN tagging filter data.\<close>

datatype vlan_omci =
    CreateEvtocd u16 u8 u16
  | SetEvtocdTpid u16 u16 u16 u8
  | SetEvtocdTable u16 bytes
  | DeleteEvtocd u16
  | CreateVtfd u16 "u16 list" u8 u8
  | DeleteVtfd u16

definition first_flow_requests :: "OnuUniPort \<Rightarrow> u16 \<Rightarrow> vlan_omci list" where
  "first_flow_requests port evtocdID =
     [CreateEvtocd evtocdID (if PortType port = UniVEIP then 10 else 2) (EntityID port),
      SetEvtocdTpid evtocdID cDefaultTpid cDefaultTpid cDefaultDownstreamMode]"

definition config_entries :: "bool \<Rightarrow> UniVlanRuleParams \<Rightarrow> bytes list" where
  "config_entries acceptIncrementalEvto r =
     (if SetVid r = OFPVID_PRESENT \<and> ucast (InnerCvlan r) = OFPVID_NONE then [transparent_entry]
      else if acceptIncrementalEvto then
        (if ucast (InnerCvlan r) = OFPVID_NONE then [single_tagged_entry r] else [double_tagged_entry r])
      else [untagged_entry r, priotagged_entry r])"

definition config_requests ::
    "OnuUniPort \<Rightarrow> bool \<Rightarrow> u16 \<Rightarrow> u8 \<Rightarrow> UniVlanRuleParams \<Rightarrow> vlan_omci list" where
  "config_requests port acceptIncrementalEvto evtocdID aFlowEntryNo r =
     (if aFlowEntryNo = 0 then first_flow_requests port evtocdID else []) @
     map (SetEvtocdTable evtocdID) (config_entries acceptIncrementalEvto r)"

definition removal_requests :: "bool \<Rightarrow> u16 \<Rightarrow> u8 \<Rightarrow> UniVlanRuleParams \<Rightarrow> vlan_omci list" where
  "removal_requests acceptIncrementalEvto evtocdID configuredUniFlow r =
     (if SetVid r = OFPVID_PRESENT then [SetEvtocdTable evtocdID default_transparent_entry]
      else if acceptIncrementalEvto then
        (if ucast (InnerCvlan r) = OFPVID_NONE then [SetEvtocdTable evtocdID (clear_single_tagged_entry r)]
         else [SetEvtocdTable evtocdID (clear_double_tagged_entry r)])
      else if configuredUniFlow = 1 then [DeleteEvtocd evtocdID]
      else [SetEvtocdTable evtocdID reset_untagged_entry, SetEvtocdTable evtocdID clear_priotagged_entry])"

subsection \<open>The table of the ONU\<close>

text \<open>
  The receiver of the entries, which is not code of the adapter and only serves to state what the entries achieve: the
  tagging table of ITU-T G.988, 9.3.13, where the first eight octets of an entry are the filter that identifies it, the other
  eight its treatment, and a treatment of all ones deletes the entry.
\<close>

type_synonym evtocd_table = "bytes \<rightharpoonup> bytes"

definition onu_set_entry :: "bytes \<Rightarrow> evtocd_table \<Rightarrow> evtocd_table" where
  "onu_set_entry e t =
     t(take 8 e := (if drop 8 e = replicate 8 0xFF then None else Some (drop 8 e)))"

definition onu_request :: "vlan_omci \<Rightarrow> evtocd_table \<Rightarrow> evtocd_table" where
  "onu_request q t =
     (case q of SetEvtocdTable i e \<Rightarrow> onu_set_entry e t | DeleteEvtocd i \<Rightarrow> Map.empty | _ \<Rightarrow> t)"

definition onu_requests :: "vlan_omci list \<Rightarrow> evtocd_table \<Rightarrow> evtocd_table" where
  "onu_requests qs t = fold onu_request qs t"

subsection \<open>Bit fields\<close>

lemma u32_high_bits:
  assumes "unat (x :: u32) < 2 ^ k" "k \<le> n"
  shows "\<not> bit x n"
proof
  assume "bit x n"
  then have "bit (unat x) n" by (simp add: bit_unsigned_iff bit_imp_le_length)
  then have "bit (take_bit k (unat x)) n" using assms(1) by (simp only: take_bit_nat_eq_self)
  then show False using assms(2) by (simp add: bit_take_bit_iff)
qed

definition field :: "nat \<Rightarrow> nat \<Rightarrow> u32 \<Rightarrow> u32" where
  "field pos width w = take_bit width (drop_bit pos w)"

lemma field_or: "field p n (a OR b) = field p n a OR field p n b"
  by (rule bit_word_eqI) (auto simp: field_def bit_simps)

lemma field_here:
  assumes "unat x < 2 ^ n" "p + n \<le> 32" shows "field p n (push_bit p x) = x"
proof (rule bit_word_eqI)
  fix k assume "k < LENGTH(32)"
  have "bit x k \<Longrightarrow> k < n" using u32_high_bits [OF assms(1), of k] by (meson not_le)
  then show "bit (field p n (push_bit p x)) k \<longleftrightarrow> bit x k"
    using assms(2) by (auto simp: field_def bit_simps)
qed

lemma field_below:
  assumes "unat x < 2 ^ m" "q + m \<le> p" shows "field p n (push_bit q x) = 0"
proof (rule bit_word_eqI)
  fix k assume "k < LENGTH(32)"
  have "\<not> bit x (p + k - q)" by (rule u32_high_bits [OF assms(1)]) (use assms(2) in simp)
  then show "bit (field p n (push_bit q x)) k \<longleftrightarrow> bit 0 k" by (simp add: field_def bit_simps)
qed

lemma field_above:
  assumes "p + n \<le> q" shows "field p n (push_bit q x) = 0"
  using assms by (intro bit_word_eqI) (auto simp: field_def bit_simps)

lemma field_zero: "field p n 0 = 0"
  by (simp add: field_def)

lemma filter_fields:
  assumes "unat prio < 16" "unat vid < 8192"
  shows "field 28 4 (filter_outer prio vid) = prio" "field 15 13 (filter_outer prio vid) = vid"
        "field 28 4 (filter_inner prio vid) = prio" "field 15 13 (filter_inner prio vid) = vid"
  using assms field_below [of vid 13 15 28 4] 
  by (simp_all add: filter_outer_def filter_inner_def evtocd_consts field_or field_zero field_here field_above)

lemma treat_outer_fields:
  assumes "unat ttr < 4" "unat prio < 16" "unat vid < 8192"
  shows "field 30 2 (treat_outer ttr prio vid) = ttr" "field 16 4 (treat_outer ttr prio vid) = prio"
        "field 3 13 (treat_outer ttr prio vid) = vid"
  using assms field_below [of vid 13 3 16 4] field_below [of prio 4 16 30 2] field_below [of vid 13 3 30 2]
  by (simp_all add: treat_outer_def evtocd_consts field_or field_zero field_here field_above)

lemma treat_inner_fields:
  assumes "unat prio < 16" "unat vid < 8192" "unat tpid < 8"
  shows "field 16 4 (treat_inner prio vid tpid) = prio" "field 3 13 (treat_inner prio vid tpid) = vid"
        "field 0 3 (treat_inner prio vid tpid) = tpid"
  using assms field_below [of vid 13 3 16 4] field_below [of tpid 3 0 16 4] field_below [of tpid 3 0 3 13]
     field_here [of tpid 3 0]
  by (simp_all add: treat_inner_def evtocd_consts field_or field_zero field_here field_above)

lemmas entry_fields = filter_fields treat_outer_fields treat_inner_fields

lemma unat_ucast_16_32 [simp]: "unat (ucast (x :: u16) :: u32) = unat x"
  using unat_u16_lt [of x] by (simp add: unsigned_ucast_eq take_bit_nat_eq_self)

lemma unat_ucast_8_32 [simp]: "unat (ucast (x :: u8) :: u32) = unat x"
  using unat_u8_lt [of x] by (simp add: unsigned_ucast_eq take_bit_nat_eq_self)

lemma ucast_16_32_eq [simp]: "(ucast (x :: u16) :: u32) = ucast y \<longleftrightarrow> x = y"
  by (metis unat_ucast_16_32 word_unat_eq_iff)

subsection \<open>Reading the entries back\<close>

text \<open>The fields of a table entry at their positions in G.988.\<close>

record evtocd_fields =
  outer_filter :: "u32 \<times> u32"
  inner_filter :: "u32 \<times> u32"
  tags_to_remove :: u32
  outer_treatment :: "u32 \<times> u32"
  inner_treatment :: "u32 \<times> u32 \<times> u32"

definition decode_entry :: "bytes \<Rightarrow> evtocd_fields" where
  "decode_entry e =
     (let w = (\<lambda>i. be_uint32 (take 4 (drop (4 * i) e))) in
      \<lparr> outer_filter = (field 28 4 (w 0), field 15 13 (w 0)),
        inner_filter = (field 28 4 (w 1), field 15 13 (w 1)),
        tags_to_remove = field 30 2 (w 2),
        outer_treatment = (field 16 4 (w 2), field 3 13 (w 2)),
        inner_treatment = (field 16 4 (w 3), field 3 13 (w 3), field 0 3 (w 3)) \<rparr>)"

lemma decode_evtocd_entry:
  "decode_entry (evtocd_entry a b c d) =
     \<lparr> outer_filter = (field 28 4 a, field 15 13 a), inner_filter = (field 28 4 b, field 15 13 b),
       tags_to_remove = field 30 2 c, outer_treatment = (field 16 4 c, field 3 13 c),
       inner_treatment = (field 16 4 d, field 3 13 d, field 0 3 d) \<rparr>"
  by (simp add: decode_entry_def evtocd_entry_def Let_def)

definition rule_ok :: "UniVlanRuleParams \<Rightarrow> bool" where
  "rule_ok r \<longleftrightarrow> unat (MatchPcp r) < 16 \<and> unat (MatchVid r) < 8192 \<and> unat (TagsToRemove r) < 4 \<and>
     unat (SetPcp r) < 16 \<and> unat (SetVid r) < 8192 \<and> unat (InnerCvlan r) < 8192"

lemma rule_params_ok:
  assumes "unat mv < 8192" "unat mp < 16" "unat sv < 8192" "unat sp < 16" "unat ic < 8192"
  shows "rule_ok (rule_params a tp mv mp sv sp ic)"
  using assms
  by (auto simp: rule_ok_def rule_params_def Let_def OFPVID_PRESENT_def cPrioIgnoreTag_def
      cCopyPrioFromInner_def)

text \<open>C37: For every flow the core can send (VLAN ids of at most 13 bits, priorities of at most
  4), the table entries the ONU gets for the normalised rule hold, at the bit positions of
  G.988, exactly the filter and the treatment of the rule: the default filter left as it is
  for a transparent rule, a translation of the single tag, a rewritten outer tag with the
  inner one filtered on, or, without the incremental option, one entry for untagged and one
  for priority-tagged frames.\<close>

theorem config_entries_decode:
  assumes "unat mv < 8192" "unat mp < 16" "unat sv < 8192" "unat sp < 16" "unat ic < 8192"
    and r: "r = rule_params accept tp mv mp sv sp ic"
  shows "map decode_entry (config_entries accept r) =
    (if sv = 4096 \<and> ic = 0 then
       [\<lparr> outer_filter = (15, 4096), inner_filter = (14, 4096), tags_to_remove = 0,
          outer_treatment = (15, 0), inner_treatment = (15, 0, 4) \<rparr>]
     else if accept \<and> ic = 0 then
       [\<lparr> outer_filter = (15, 4096), inner_filter = (MatchPcp r, MatchVid r), tags_to_remove = TagsToRemove r,
          outer_treatment = (15, 0), inner_treatment = (SetPcp r, ucast sv, 4) \<rparr>]
     else if accept then
       [\<lparr> outer_filter = (MatchPcp r, MatchVid r), inner_filter = (14, ucast ic), tags_to_remove = TagsToRemove r,
          outer_treatment = (9, ucast sv), inner_treatment = (15, ucast ic, 0) \<rparr>]
     else
       [\<lparr> outer_filter = (15, 4096), inner_filter = (15, 4096), tags_to_remove = 0,
          outer_treatment = (15, 0), inner_treatment = (0, ucast sv, 4) \<rparr>,
        \<lparr> outer_filter = (15, 4096), inner_filter = (8, 0), tags_to_remove = 1,
          outer_treatment = (15, 0), inner_treatment = (8, ucast sv, 4) \<rparr>])"
proof -
  have ok: "rule_ok r" unfolding r by (rule rule_params_ok) (use assms in simp_all)
  have f: "SetVid r = ucast sv" "InnerCvlan r = ic"
    by (auto simp: r rule_params_def Let_def)
  have sv: "(ucast sv :: u32) = OFPVID_PRESENT \<longleftrightarrow> sv = 4096"
    using ucast_16_32_eq [of sv 4096] by (simp add: OFPVID_PRESENT_def)
  have ic: "(ucast ic :: u32) = 0 \<longleftrightarrow> ic = 0"
    using ucast_16_32_eq [of ic 0] by simp
  show ?thesis
    using ok assms(1-5)
    by (simp add: config_entries_def f sv ic transparent_entry_def single_tagged_entry_def
        double_tagged_entry_def untagged_entry_def priotagged_entry_def decode_evtocd_entry
        entry_fields rule_ok_def evtocd_consts OFPVID_NONE_def)
qed

theorem config_entries_decode_witness:
  "map decode_entry (config_entries True (rule_params True 64 100 8 200 3 0)) =
     [\<lparr> outer_filter = (15, 4096), inner_filter = (8, 100), tags_to_remove = 1,
        outer_treatment = (15, 0), inner_treatment = (3, 200, 4) \<rparr>]"
  using config_entries_decode [of 100 8 200 3 0 "rule_params True 64 100 8 200 3 0" True 64]
  by (simp add: rule_params_def Let_def OFPVID_PRESENT_def)

subsection \<open>Rules in the table of the ONU\<close>

lemma entry_key: "take 8 (evtocd_entry a b c d) = put_uint32 a @ put_uint32 b"
  and entry_value: "drop 8 (evtocd_entry a b c d) = put_uint32 c @ put_uint32 d"
  by (simp_all add: evtocd_entry_def)

lemma put_uint32_ones: "put_uint32 0xFFFFFFFF = replicate 4 0xFF"
  by code_simp

lemma delete_value: "put_uint32 0xFFFFFFFF @ put_uint32 0xFFFFFFFF = replicate 8 0xFF"
  by (simp add: put_uint32_ones flip: replicate_add)

lemma value_is_delete: "put_uint32 c @ put_uint32 d = replicate 8 0xFF \<longleftrightarrow> c = 0xFFFFFFFF \<and> d = 0xFFFFFFFF"
  by (simp flip: delete_value)

lemma onu_set_entry_evtocd:
  "onu_set_entry (evtocd_entry a b c d) t =
     t(put_uint32 a @ put_uint32 b :=
         if c = 0xFFFFFFFF \<and> d = 0xFFFFFFFF then None else Some (put_uint32 c @ put_uint32 d))"
  by (simp add: onu_set_entry_def entry_key entry_value value_is_delete)

lemma filter_inner_inject:
  assumes "unat p < 16" "unat v < 8192" "unat p' < 16" "unat v' < 8192"
  shows "filter_inner p v = filter_inner p' v' \<longleftrightarrow> p = p' \<and> v = v'"
  using assms by (metis filter_fields(3,4))

lemma treat_outer_not_ones:
  assumes "unat ttr < 4" shows "treat_outer ttr cDoNotAddPrio cDontCareVid \<noteq> 0xFFFFFFFF"
proof
  assume "treat_outer ttr cDoNotAddPrio cDontCareVid = 0xFFFFFFFF"
  then have "field 3 13 (treat_outer ttr cDoNotAddPrio cDontCareVid) = field 3 13 0xFFFFFFFF" by simp
  then show False
    using treat_outer_fields(3) [OF assms, of cDoNotAddPrio cDontCareVid]
    by (simp add: evtocd_consts field_def)
qed

definition assign :: "('r \<Rightarrow> 'k) \<Rightarrow> ('r \<Rightarrow> 'v) \<Rightarrow> 'r \<Rightarrow> ('k \<Rightarrow> 'v) \<Rightarrow> 'k \<Rightarrow> 'v" where
  "assign k v r t = t(k r := v r)"

lemma assign_upd: "k a \<noteq> y \<Longrightarrow> (assign k v a t)(y := x) = assign k v a (t(y := x))"
  by (rule ext) (simp add: assign_def)

lemma assign_same: "k a = y \<Longrightarrow> (assign k v a t)(y := x) = t(y := x)"
  by (rule ext) (simp add: assign_def)

lemma fold_assign_outside:
  "y \<notin> k ` set rs \<Longrightarrow> (fold (assign k v) rs t)(y := x) = fold (assign k v) rs (t(y := x))"
proof (induction rs arbitrary: t)
  case (Cons a rs)
  then have a: "k a \<noteq> y" and y: "y \<notin> k ` set rs" by auto
  show ?case by (simp only: fold_simps Cons.IH [OF y] assign_upd [of k a y, OF a])
qed simp

lemma fold_assign_remove:
  "distinct (map k rs) \<Longrightarrow> r \<in> set rs \<Longrightarrow>
   (fold (assign k v) rs t)(k r := t (k r)) = fold (assign k v) (remove1 r rs) t"
proof (induction rs arbitrary: t)
  case (Cons a rs)
  show ?case
  proof (cases "a = r")
    case True
    with Cons.prems have "k r \<notin> k ` set rs" by simp
    with True show ?thesis
      by (simp only: fold_simps fold_assign_outside assign_same remove1.simps simp_thms if_True fun_upd_triv)
  next
    case False
    with Cons.prems have r: "r \<in> set rs" "k a \<noteq> k r" "distinct (map k rs)" by auto
    have "assign k v a t (k r) = t (k r)" using r(2) by (simp add: assign_def)
    with Cons.IH [OF r(3) r(1), of "assign k v a t"] not_sym [OF False] show ?thesis
      by (simp only: fold_simps remove1.simps if_False)
  qed
qed simp

definition plain_rule :: "UniVlanRuleParams \<Rightarrow> bool" where
  "plain_rule r \<longleftrightarrow> rule_ok r \<and> SetVid r \<noteq> OFPVID_PRESENT \<and> InnerCvlan r = 0"

definition rule_key :: "UniVlanRuleParams \<Rightarrow> bytes" where
  "rule_key r = put_uint32 (filter_outer cPrioIgnoreTag cDoNotFilterVid) @
                put_uint32 (filter_inner (MatchPcp r) (MatchVid r))"

definition rule_treatment :: "UniVlanRuleParams \<Rightarrow> bytes" where
  "rule_treatment r = put_uint32 (treat_outer (TagsToRemove r) cDoNotAddPrio cDontCareVid) @
                      put_uint32 (treat_inner (SetPcp r) (SetVid r) cSetOutputTpidCopyDei)"

lemma rule_key_inject:
  "rule_ok r \<Longrightarrow> rule_ok r' \<Longrightarrow> rule_key r = rule_key r' \<longleftrightarrow> MatchPcp r = MatchPcp r' \<and> MatchVid r = MatchVid r'"
  by (simp add: rule_key_def rule_ok_def filter_inner_inject)

lemma onu_config_plain:
  "plain_rule r \<Longrightarrow> onu_requests (config_requests port True i n r) t = assign rule_key (Some \<circ> rule_treatment) r t"
  using treat_outer_not_ones [of "TagsToRemove r"]
  by (simp add: plain_rule_def rule_ok_def onu_requests_def config_requests_def first_flow_requests_def
      onu_request_def config_entries_def single_tagged_entry_def onu_set_entry_evtocd OFPVID_NONE_def
      rule_key_def rule_treatment_def assign_def)

lemma onu_remove_plain:
  "plain_rule r \<Longrightarrow> onu_requests (removal_requests True i c r) t = t(rule_key r := None)"
  by (simp add: plain_rule_def onu_requests_def removal_requests_def onu_request_def OFPVID_NONE_def
      clear_single_tagged_entry_def onu_set_entry_evtocd rule_key_def)

text \<open>C38: With the incremental option, configuring single-tagged rules that are not transparent (\<open>plain_rule\<close>), no two of them
  with the same filter priority and VID, and then removing one of them leaves the table of the ONU as if that rule had never
  been configured, provided that the table had no entry for the filter of that rule before; this holds for every order of the
  rules, whatever else the table holds. It does not hold for double-tagged rules, as the next property shows.\<close>

theorem rule_removal_exact:
  assumes rs: "\<forall>q \<in> set rs. plain_rule q" "distinct (map (\<lambda>q. (MatchPcp q, MatchVid q)) rs)"
    and r: "r \<in> set rs" "t (take 8 (single_tagged_entry r)) = None"
  shows "onu_requests (removal_requests True i c r)
           (fold (\<lambda>q. onu_requests (config_requests port True i (n q) q)) rs t) =
         fold (\<lambda>q. onu_requests (config_requests port True i (n q) q)) (remove1 r rs) t"
proof -
  let ?f = "\<lambda>q. onu_requests (config_requests port True i (n q) q)"
  let ?g = "assign rule_key (Some \<circ> rule_treatment)"
  have eq: "fold ?f qs t' = fold ?g qs t'" if "set qs \<subseteq> set rs" for qs t'
  proof (rule fold_cong [OF refl refl])
    show "?f x = ?g x" if "x \<in> set qs" for x
      using that \<open>set qs \<subseteq> set rs\<close> rs(1) by (intro ext) (simp add: onu_config_plain subset_eq)
  qed
  have "inj_on rule_key (set rs)"
    using rs(1) rs(2) by (auto simp: inj_on_def rule_key_inject plain_rule_def distinct_map)
  then have d: "distinct (map rule_key rs)"
    using rs(2) by (simp add: distinct_map)
  have k: "take 8 (single_tagged_entry r) = rule_key r"
    by (simp add: single_tagged_entry_def entry_key rule_key_def)
  have "onu_requests (removal_requests True i c r) (fold ?f rs t) = (fold ?g rs t)(rule_key r := t (rule_key r))"
    using rs(1) r k by (simp add: onu_remove_plain eq)
  also have "\<dots> = fold ?g (remove1 r rs) t"
    by (rule fold_assign_remove [OF d r(1)])
  also have "\<dots> = fold ?f (remove1 r rs) t"
    by (simp add: eq set_remove1_subset)
  finally show ?thesis .
qed

definition sample_rule :: "u16 \<Rightarrow> UniVlanRuleParams" where
  "sample_rule v = rule_params True 64 v 8 (v + 100) 3 0"

theorem rule_removal_exact_witness:
  "onu_requests (removal_requests True 1 2 (sample_rule 5))
     (fold (\<lambda>q. onu_requests (config_requests (NewOnuUniPort 0 1 257 UniPPTP) True 1 0 q))
        [sample_rule 5, sample_rule 6] Map.empty) =
   fold (\<lambda>q. onu_requests (config_requests (NewOnuUniPort 0 1 257 UniPPTP) True 1 0 q))
     (remove1 (sample_rule 5) [sample_rule 5, sample_rule 6]) Map.empty"
  by (rule rule_removal_exact)
     (simp_all add: plain_rule_def rule_ok_def sample_rule_def rule_params_def Let_def OFPVID_PRESENT_def)

text \<open>C39: The removal of a double-tagged rule deletes nothing of what its configuration wrote:
  the filter it sends has the priority \<open>15\<close> for the inner tag and not the \<open>14\<close> of the
  configuration, so the entry stays in the table of the ONU with its treatment.\<close>

theorem double_tagged_rule_stays:
  assumes "rule_ok r" "SetVid r \<noteq> OFPVID_PRESENT" "InnerCvlan r \<noteq> 0"
  shows "onu_requests (removal_requests True i c r) (onu_requests (config_requests port True i n r) t)
           (take 8 (double_tagged_entry r)) = Some (drop 8 (double_tagged_entry r))"
proof -
  have ic: "(ucast (InnerCvlan r) :: u32) \<noteq> 0"
    using assms(3) ucast_16_32_eq [of "InnerCvlan r" 0] by simp
  have to: "treat_outer (TagsToRemove r) cCopyPrioFromOuter (SetVid r) \<noteq> 0xFFFFFFFF"
  proof
    assume "treat_outer (TagsToRemove r) cCopyPrioFromOuter (SetVid r) = 0xFFFFFFFF"
    then have "field 16 4 (treat_outer (TagsToRemove r) cCopyPrioFromOuter (SetVid r)) = field 16 4 0xFFFFFFFF"
      by simp
    moreover have "field 16 4 (treat_outer (TagsToRemove r) cCopyPrioFromOuter (SetVid r)) = 9"
      using assms(1) by (simp add: treat_outer_fields rule_ok_def cCopyPrioFromOuter_def)
    ultimately show False by (simp add: field_def)
  qed
  have fi: "filter_inner cPrioDefaultFilter (ucast (InnerCvlan r)) \<noteq> filter_inner cPrioIgnoreTag cDoNotFilterVid"
    using assms(1) by (simp add: filter_inner_inject rule_ok_def evtocd_consts)
  show ?thesis
    using assms(2) ic to fi
    by (simp add: onu_requests_def config_requests_def removal_requests_def first_flow_requests_def
        onu_request_def config_entries_def double_tagged_entry_def clear_double_tagged_entry_def
        onu_set_entry_evtocd OFPVID_NONE_def entry_key entry_value)
qed

theorem double_tagged_rule_stays_witness:
  "onu_requests (removal_requests True 1 1 (rule_params True 64 100 8 200 3 7))
     (onu_requests (config_requests (NewOnuUniPort 0 1 257 UniPPTP) True 1 0 (rule_params True 64 100 8 200 3 7))
       Map.empty)
     (take 8 (double_tagged_entry (rule_params True 64 100 8 200 3 7))) =
   Some (drop 8 (double_tagged_entry (rule_params True 64 100 8 200 3 7)))"
  by (rule double_tagged_rule_stays)
     (simp_all add: rule_ok_def rule_params_def Let_def OFPVID_PRESENT_def)

end
