(* ===== verification/Vlan_Cfg.thy ===== *)
theory Vlan_Cfg
  imports Vlan_Evtocd Fsm
begin

text \<open>
  The state machine that configures the VLAN rules of one UNI port
  (\<^verbatim>\<open>UniVlanConfigFsm\<close> of \<^verbatim>\<open>internal/pkg/avcfg/omci_vlan_config.go\<close>), with the data of
  the rules and all operations that change it.

  The mutex \<^verbatim>\<open>mutexFlowParams\<close> is the flag \<open>vf_locked\<close>. Goroutines are entries of
  \<open>vf_tasks\<close> that run later, in any order. An enter callback runs inside of \<^verbatim>\<open>Event\<close>, which
  holds the event mutex of the state machine library: a direct call of \<^verbatim>\<open>Event\<close> from there
  never returns and is \<open>Deadlock\<close>. An addition that waits for a removal takes the outcome of
  the wait and what the other goroutines do in between as an argument. Requests to the ONU,
  their responses, the persistency and the tech-profile component answer through the
  environment; background configuration is one step from its first request to its last. The
  pointers to the device handler and the state machine are those of a live object (before
  \<^verbatim>\<open>PrepareForGarbageCollection\<close>).
\<close>

subsection \<open>Data\<close>

datatype vlan_event =
    VlanEvStart | VlanEvPrepareDone | VlanEvWaitTechProf | VlanEvCancelOutstandingConfig
  | VlanEvContinueConfig | VlanEvStartConfig | VlanEvRxConfigVtfd | VlanEvRxConfigEvtocd
  | VlanEvWaitTPIncr | VlanEvIncrFlowConfig | VlanEvRenew | VlanEvRemFlowConfig
  | VlanEvRemFlowDone | VlanEvFlowDataRemoved | VlanEvReset | VlanEvRestart
  | VlanEvSkipOmciConfig | VlanEvSkipIncFlowConfig

datatype vlan_state =
    VlanStDisabled | VlanStPreparing | VlanStStarting | VlanStWaitingTechProf | VlanStConfigVtfd
  | VlanStConfigEvtocd | VlanStConfigDone | VlanStIncrFlowWaitTP | VlanStConfigIncrFlow
  | VlanStRemoveFlow | VlanStCleanupDone | VlanStResetting

definition vlan_fsm_events :: "(vlan_event, vlan_state) fsm_events" where
  "vlan_fsm_events =
    [(VlanEvStart, [VlanStDisabled], VlanStPreparing),
     (VlanEvPrepareDone, [VlanStPreparing], VlanStStarting),
     (VlanEvWaitTechProf, [VlanStStarting], VlanStWaitingTechProf),
     (VlanEvCancelOutstandingConfig, [VlanStWaitingTechProf], VlanStConfigDone),
     (VlanEvContinueConfig, [VlanStWaitingTechProf], VlanStConfigVtfd),
     (VlanEvStartConfig, [VlanStStarting], VlanStConfigVtfd),
     (VlanEvRxConfigVtfd, [VlanStConfigVtfd], VlanStConfigEvtocd),
     (VlanEvRxConfigEvtocd, [VlanStConfigEvtocd, VlanStConfigIncrFlow], VlanStConfigDone),
     (VlanEvRenew, [VlanStConfigDone], VlanStStarting),
     (VlanEvWaitTPIncr, [VlanStConfigDone], VlanStIncrFlowWaitTP),
     (VlanEvIncrFlowConfig, [VlanStConfigDone, VlanStIncrFlowWaitTP], VlanStConfigIncrFlow),
     (VlanEvRemFlowConfig, [VlanStConfigDone], VlanStRemoveFlow),
     (VlanEvRemFlowDone, [VlanStRemoveFlow], VlanStCleanupDone),
     (VlanEvFlowDataRemoved, [VlanStCleanupDone], VlanStConfigDone),
     (VlanEvReset, [VlanStStarting, VlanStWaitingTechProf, VlanStConfigVtfd, VlanStConfigEvtocd,
        VlanStConfigDone, VlanStConfigIncrFlow, VlanStRemoveFlow, VlanStCleanupDone, VlanStPreparing],
        VlanStResetting),
     (VlanEvRestart, [VlanStResetting], VlanStDisabled),
     (VlanEvSkipOmciConfig, [VlanStPreparing], VlanStConfigDone),
     (VlanEvSkipOmciConfig, [VlanStConfigDone], VlanStConfigIncrFlow),
     (VlanEvSkipIncFlowConfig, [VlanStConfigIncrFlow], VlanStConfigDone)]"

text \<open>A response channel is a number, \<open>None\<close> the nil pointer; a meter is a number.\<close>

record UniVlanFlowParams =
  Meter :: "nat option"
  RespChan :: "nat option"
  CookieSlice :: "u64 list"
  VlanRuleParams :: UniVlanRuleParams

record uniRemoveVlanFlowParams =
  rm_respChan :: "nat option"
  rm_cookie :: u64
  rm_vlanRuleParams :: UniVlanRuleParams
  rm_isSuspendedOnAdd :: bool

datatype vlan_error =
    SuspendAborted | CookieAddAborted | RuleAddAborted | FsmNotReady | FlowLimitExceeded
  | CounterMismatch | FsmEventError fsm_error | StoreError | CookieSliceEmpty | CookieNotFound
  | WaitTimeout | WaitAborted | SendFailed | InternalError | ConfigCancelled

text \<open>Effects on the other components, in their order.\<close>

datatype vlan_effect =
    OmciRequest vlan_omci
  | ConfigFailureTimeout u16 u16
  | ConfigFailureResponse u16 u16 u8
  | ResponseReceived
  | FlowResponse nat "vlan_error option"
  | StorePers "UniVlanFlowParams list" bool
  | SetProfileToDelete u8
  | StatusUpdate u8
  | ResumeSuspendedAdd bool
  | CookieDeleted bool
  | FlowDeleteSignal
  | AbortMessageProcessing
  | StartMessageProcessing
  | ReconcileFinished
  | RebootConfigFinished
  | SetMulticastMEs u8
  | CreateTrafficDescriptors u8
  | RemoveVlanFilterFsm

text \<open>What goroutines still have to do: send an event with its argument, configure the first or
  a further rule, remove the entries of a rule, report to the device handler (with the offset
  of the request event at that time, or a fixed one), remove the machine.\<close>

datatype vlan_task =
    TEvent vlan_event "u8 option"
  | TConfigFirst
  | TConfigIncr
  | TRemoveEvtocd UniVlanRuleParams
  | TStatus "u8 option"
  | TRemoveFsm

record UniVlanConfigFsm =
  actualUniFlowParam :: UniVlanFlowParams
  pOnuUniPort :: OnuUniPort
  uniVlanFlowParamsSlice :: "UniVlanFlowParams list"
  uniRemoveFlowsSlice :: "uniRemoveVlanFlowParams list"
  requestEvent :: u8
  delayNewRuleCookie :: u64
  vlanFilterList :: "u16 list"
  evtocdID :: u16
  acceptIncrementalEvtoOption :: bool
  isCanceled :: bool
  pLastTxMeInstance :: "(u16 \<times> u16) option"
  NumUniFlows :: u8
  ConfiguredUniFlow :: u8
  numVlanFilterEntries :: u8
  requestEventOffset :: u8
  TpIDWaitingFor :: u8
  signalOnFlowDelete :: bool
  lastFlowToReconcile :: bool
  lastFlowToConfigOnReboot :: bool
  vf_locked :: bool
  vf_fsm :: vlan_state
  vf_tasks :: "vlan_task list"
  vf_requests :: nat
  vf_waits :: nat
  vf_stores :: nat
  vf_out :: "vlan_effect list"

text \<open>The environment: the tech-profile state of the port per profile, the device state, and
  the outcome of the n-th request, of the n-th wait for a response and of the n-th access to
  the persistency (\<open>True\<close> tells of an error); the results of the multicast and the traffic
  descriptor configuration of a profile's GEM ports.\<close>

record vlan_env =
  ve_techProfileDone :: "u8 \<Rightarrow> bool"
  ve_skipReconciling :: bool
  ve_reconciling :: bool
  ve_readyForOmci :: bool
  ve_send :: "nat \<Rightarrow> bool"
  ve_wait :: "nat \<Rightarrow> wait_result"
  ve_store :: "nat \<Rightarrow> bool"
  ve_multicast :: "u8 \<Rightarrow> bool list"
  ve_trafficDescriptors :: "u8 \<Rightarrow> bool list"
  ve_flowDeleteChannelFree :: bool

definition cDeviceEventOffsetAddWithKvStore :: u8 where "cDeviceEventOffsetAddWithKvStore = 0"
definition cDeviceEventOffsetAddNoKvStore :: u8 where "cDeviceEventOffsetAddNoKvStore = 1"
definition cDeviceEventOffsetRemoveWithKvStore :: u8 where "cDeviceEventOffsetRemoveWithKvStore = 2"
definition cDeviceEventOffsetRemoveNoKvStore :: u8 where "cDeviceEventOffsetRemoveNoKvStore = 3"

abbreviation vf_emit :: "vlan_effect \<Rightarrow> UniVlanConfigFsm \<Rightarrow> UniVlanConfigFsm" where
  "vf_emit e s \<equiv> s\<lparr>vf_out := vf_out s @ [e]\<rparr>"

abbreviation vf_go :: "vlan_task \<Rightarrow> UniVlanConfigFsm \<Rightarrow> UniVlanConfigFsm" where
  "vf_go t s \<equiv> s\<lparr>vf_tasks := vf_tasks s @ [t]\<rparr>"

definition vf_lock :: "UniVlanConfigFsm \<Rightarrow> UniVlanConfigFsm run" where
  "vf_lock s = (if vf_locked s then Deadlock else Done (s\<lparr>vf_locked := True\<rparr>))"

definition vf_unlock :: "UniVlanConfigFsm \<Rightarrow> UniVlanConfigFsm run" where
  "vf_unlock s = (if vf_locked s then Done (s\<lparr>vf_locked := False\<rparr>)
                  else Fatal ''sync: unlock of unlocked mutex'')"

subsection \<open>Helpers\<close>

definition pushReponseOnFlowResponseChannel ::
    "nat option \<Rightarrow> vlan_error option \<Rightarrow> UniVlanConfigFsm \<Rightarrow> UniVlanConfigFsm" where
  "pushReponseOnFlowResponseChannel respChan err s =
     (case respChan of None \<Rightarrow> s | Some c \<Rightarrow> vf_emit (FlowResponse c err) s)"

text \<open>The call of \<^verbatim>\<open>StorePersUniFlowConfig\<close>; \<open>True\<close> tells of an error.\<close>

definition store_pers :: "vlan_env \<Rightarrow> bool \<Rightarrow> UniVlanConfigFsm \<Rightarrow> bool \<times> UniVlanConfigFsm" where
  "store_pers env kvStoreWrite s =
     (ve_store env (vf_stores s),
      vf_emit (StorePers (uniVlanFlowParamsSlice s) kvStoreWrite) (s\<lparr>vf_stores := vf_stores s + 1\<rparr>))"

definition reconcileVlanFilterList :: "u16 \<Rightarrow> UniVlanConfigFsm \<Rightarrow> UniVlanConfigFsm run" where
  "reconcileVlanFilterList aSetVid s =
     (if aSetVid = 4096 then Done s
      else if cVtfdTableSize \<le> unat (numVlanFilterEntries s) then Fatal ''index out of range''
      else Done (s\<lparr>vlanFilterList := (vlanFilterList s)[unat (numVlanFilterEntries s) := aSetVid],
                   numVlanFilterEntries := numVlanFilterEntries s + 1\<rparr>))"

definition IsFlowRemovePending :: "UniVlanConfigFsm \<Rightarrow> (bool \<times> UniVlanConfigFsm) run" where
  "IsFlowRemovePending s =
     bind_run (vf_lock s) (\<lambda>s.
       if uniRemoveFlowsSlice s \<noteq> []
       then bind_run (vf_unlock (s\<lparr>signalOnFlowDelete := True\<rparr>)) (\<lambda>s. Done (True, s))
       else bind_run (vf_unlock s) (\<lambda>s. Done (False, s)))"

definition GetWaitingTpID :: "UniVlanConfigFsm \<Rightarrow> (u8 \<times> UniVlanConfigFsm) run" where
  "GetWaitingTpID s =
     bind_run (vf_lock s) (\<lambda>s. bind_run (vf_unlock s) (\<lambda>s. Done (TpIDWaitingFor s, s)))"

definition VlanTaggingFilterDataClassID :: u16 where "VlanTaggingFilterDataClassID = 84"
definition ExtendedVlanTaggingOperationConfigurationDataClassID :: u16 where
  "ExtendedVlanTaggingOperationConfigurationDataClassID = 171"

text \<open>Class and instance of the entity a request is about.\<close>

definition me_of_request :: "vlan_omci \<Rightarrow> u16 \<times> u16" where
  "me_of_request q =
     (case q of
        CreateVtfd i l f n \<Rightarrow> (VlanTaggingFilterDataClassID, i)
      | DeleteVtfd i \<Rightarrow> (VlanTaggingFilterDataClassID, i)
      | CreateEvtocd i a p \<Rightarrow> (ExtendedVlanTaggingOperationConfigurationDataClassID, i)
      | SetEvtocdTpid i a b m \<Rightarrow> (ExtendedVlanTaggingOperationConfigurationDataClassID, i)
      | SetEvtocdTable i e \<Rightarrow> (ExtendedVlanTaggingOperationConfigurationDataClassID, i)
      | DeleteEvtocd i \<Rightarrow> (ExtendedVlanTaggingOperationConfigurationDataClassID, i))"

text \<open>The request is counted, recorded and, on success, remembered as the last one sent.\<close>

definition send_request :: "vlan_env \<Rightarrow> vlan_omci \<Rightarrow> UniVlanConfigFsm \<Rightarrow> bool \<times> UniVlanConfigFsm" where
  "send_request env q s =
     (let n = vf_requests s; s = s\<lparr>vf_requests := n + 1\<rparr> in
      if ve_send env n then (True, s) else (False, vf_emit (OmciRequest q) (s\<lparr>pLastTxMeInstance := Some (me_of_request q)\<rparr>)))"

definition waitforOmciResponse :: "vlan_env \<Rightarrow> UniVlanConfigFsm \<Rightarrow> vlan_error option \<times> UniVlanConfigFsm" where
  "waitforOmciResponse env s =
     (if isCanceled s then (Some WaitAborted, s)
      else let n = vf_waits s; s = s\<lparr>vf_waits := n + 1\<rparr> in
           case ve_wait env n of
             ResponseOk \<Rightarrow> (None, s)
           | ResponseTimeout \<Rightarrow> (Some WaitTimeout,
               case pLastTxMeInstance s of None \<Rightarrow> s | Some (c, i) \<Rightarrow> vf_emit (ConfigFailureTimeout c i) s)
           | ResponseAborted \<Rightarrow> (Some WaitAborted, s))"

subsection \<open>The slice of rules\<close>

text \<open>The loop that looks for the rule with a cookie: an earlier rule without cookies is an
  error.\<close>

fun find_cookie :: "u64 \<Rightarrow> nat \<Rightarrow> UniVlanFlowParams list \<Rightarrow> vlan_error + nat option" where
  "find_cookie c i [] = Inr None"
| "find_cookie c i (f # fs) =
     (if CookieSlice f = [] then Inl CookieSliceEmpty
      else if c \<in> set (CookieSlice f) then Inr (Some i)
      else find_cookie c (i + 1) fs)"

definition cut_out :: "nat \<Rightarrow> 'a list \<Rightarrow> 'a list" where
  "cut_out i xs = take i xs @ drop (i + 1) xs"

definition removeFlowFromParamsSlice ::
    "vlan_env \<Rightarrow> u64 \<Rightarrow> bool \<Rightarrow> UniVlanConfigFsm \<Rightarrow> vlan_error option \<times> UniVlanConfigFsm" where
  "removeFlowFromParamsSlice env aCookie aWasConfigured s =
     (case find_cookie aCookie 0 (uniVlanFlowParamsSlice s) of
        Inl e \<Rightarrow> (Some e, s)
      | Inr None \<Rightarrow> (Some CookieNotFound, s)
      | Inr (Some flow) \<Rightarrow>
          let stored = uniVlanFlowParamsSlice s ! flow;
              s = (if length (uniVlanFlowParamsSlice s) \<le> 1
                   then s\<lparr>NumUniFlows := 0, ConfiguredUniFlow := 0, uniVlanFlowParamsSlice := []\<rparr>
                   else
                     let s = s\<lparr>NumUniFlows := NumUniFlows s - 1\<rparr>;
                         s = (if aWasConfigured \<and> ConfiguredUniFlow s > 0
                              then s\<lparr>ConfiguredUniFlow := ConfiguredUniFlow s - 1\<rparr> else s);
                         s = (if \<not> aWasConfigured
                              then pushReponseOnFlowResponseChannel (RespChan stored) None s else s)
                     in s\<lparr>uniVlanFlowParamsSlice := cut_out flow (uniVlanFlowParamsSlice s)\<rparr>);
              (err, s) = store_pers env False s
          in (if err then Some StoreError else None, s))"

definition updateTechProfileToDelete :: "u8 \<Rightarrow> UniVlanConfigFsm \<Rightarrow> UniVlanConfigFsm run" where
  "updateTechProfileToDelete usedTpID s =
     (if list_ex (\<lambda>f. TpID (VlanRuleParams f) = usedTpID) (uniVlanFlowParamsSlice s) then Done s
      else bind_run (vf_unlock s) (\<lambda>s. vf_lock (vf_emit (SetProfileToDelete usedTpID) s)))"

subsection \<open>Enter callbacks\<close>

definition vtfd_id :: "UniVlanConfigFsm \<Rightarrow> u8 \<Rightarrow> u16" where
  "vtfd_id s tpID =
     (case GenerateANISideMBPCDEID (ucast (MacBpNo (pOnuUniPort s))) (ucast tpID) of Inl e \<Rightarrow> 0 | Inr e \<Rightarrow> e)"

definition one_vid :: "u16 \<Rightarrow> u16 list" where
  "one_vid vid = vid # replicate (cVtfdTableSize - 1) 0"

abbreviation actual_rule :: "UniVlanConfigFsm \<Rightarrow> UniVlanRuleParams" where
  "actual_rule s \<equiv> VlanRuleParams (actualUniFlowParam s)"

definition enterPreparing :: "vlan_env \<Rightarrow> UniVlanConfigFsm \<Rightarrow> UniVlanConfigFsm run" where
  "enterPreparing env s =
     Done (vf_go (TEvent (if ve_skipReconciling env then VlanEvSkipOmciConfig else VlanEvPrepareDone) None)
       (vf_emit StartMessageProcessing s))"

definition enterConfigStarting :: "vlan_env \<Rightarrow> UniVlanConfigFsm \<Rightarrow> UniVlanConfigFsm run" where
  "enterConfigStarting env s =
     bind_run (vf_lock s) (\<lambda>s.
       case uniVlanFlowParamsSlice s of
         [] \<Rightarrow> bind_run (vf_unlock s) (\<lambda>s. Done (vf_go (TEvent VlanEvReset None) s))
       | f # _ \<Rightarrow>
           let tpID = TpID (VlanRuleParams f) in
           bind_run (vf_unlock (s\<lparr>actualUniFlowParam := f, TpIDWaitingFor := tpID\<rparr>)) (\<lambda>s.
             Done (vf_go (TEvent (if ve_techProfileDone env tpID then VlanEvStartConfig else VlanEvWaitTechProf) None) s)))"

definition enterConfigVtfd :: "vlan_env \<Rightarrow> UniVlanConfigFsm \<Rightarrow> UniVlanConfigFsm run" where
  "enterConfigVtfd env s =
     bind_run (vf_lock s) (\<lambda>s.
       let s = s\<lparr>TpIDWaitingFor := 0\<rparr> in
       if SetVid (actual_rule s) = OFPVID_PRESENT
       then bind_run (vf_unlock s) (\<lambda>s. Done (vf_go (TEvent VlanEvRxConfigVtfd None) s))
       else
         let vid = ucast (SetVid (actual_rule s)) :: u16 in
         bind_run (vf_unlock (s\<lparr>vlanFilterList := (vlanFilterList s)[0 := vid]\<rparr>)) (\<lambda>s.
           let s = s\<lparr>numVlanFilterEntries := 1\<rparr>;
               (err, s) = send_request env (CreateVtfd (vtfd_id s (TpID (actual_rule s))) (one_vid vid) 0x10 1) s
           in Done (if err then vf_go (TEvent VlanEvReset None) s else s)))"

definition enterConfigEvtocd :: "UniVlanConfigFsm \<Rightarrow> UniVlanConfigFsm run" where
  "enterConfigEvtocd s =
     Done (vf_go TConfigFirst (s\<lparr>requestEventOffset := cDeviceEventOffsetAddWithKvStore\<rparr>))"

definition enterVlanConfigDone :: "vlan_env \<Rightarrow> UniVlanConfigFsm \<Rightarrow> UniVlanConfigFsm run" where
  "enterVlanConfigDone env s =
     bind_run (vf_lock s) (\<lambda>s.
       let s = (if uniVlanFlowParamsSlice s \<noteq> [] \<and> \<not> ve_reconciling env
                then pushReponseOnFlowResponseChannel (RespChan (actualUniFlowParam s)) None s else s)
       in if uniRemoveFlowsSlice s \<noteq> []
          then bind_run (vf_unlock s) (\<lambda>s. Done (vf_go (TEvent VlanEvRemFlowConfig None) s))
          else
            let s = (if lastFlowToReconcile s then vf_emit ReconcileFinished s else s);
                s = (if lastFlowToConfigOnReboot s then vf_emit RebootConfigFinished s else s)
            in if ve_skipReconciling env then vf_unlock (s\<lparr>ConfiguredUniFlow := NumUniFlows s\<rparr>)
               else if ConfiguredUniFlow s < NumUniFlows s then
                 (if ConfiguredUniFlow s = 0
                  then bind_run (vf_unlock s) (\<lambda>s. Done (vf_go (TEvent VlanEvRenew None) s))
                  else if length (uniVlanFlowParamsSlice s) < unat (ConfiguredUniFlow s)
                  then bind_run (vf_unlock s) (\<lambda>s. Done (vf_go (TEvent VlanEvReset None) s))
                  else if length (uniVlanFlowParamsSlice s) = unat (ConfiguredUniFlow s)
                  then Fatal ''index out of range''
                  else
                    let f = uniVlanFlowParamsSlice s ! unat (ConfiguredUniFlow s);
                        tpID = TpID (VlanRuleParams f)
                    in bind_run (vf_unlock (s\<lparr>actualUniFlowParam := f, TpIDWaitingFor := tpID\<rparr>)) (\<lambda>s.
                         Done (vf_go (TEvent (if ve_techProfileDone env tpID then VlanEvIncrFlowConfig
                                              else VlanEvWaitTPIncr) None) s)))
               else bind_run (vf_unlock s) (\<lambda>s. Done (vf_go (TStatus None) s)))"

text \<open>The filter of a further rule. With an entry in the list already, a failing request calls
  \<^verbatim>\<open>Event\<close> from inside of the callback.\<close>

definition add_vtfd_entry :: "vlan_env \<Rightarrow> UniVlanConfigFsm \<Rightarrow> (bool \<times> UniVlanConfigFsm) run" where
  "add_vtfd_entry env s =
     (let vid = ucast (SetVid (actual_rule s)) :: u16; i = vtfd_id s (TpID (actual_rule s));
          n = numVlanFilterEntries s
      in if n = 0 then
           let s = s\<lparr>vlanFilterList := (vlanFilterList s)[0 := vid], numVlanFilterEntries := 1\<rparr>;
               (err, s) = send_request env (CreateVtfd i (one_vid vid) 0x10 1) s
           in Done (err, s)
         else if cVtfdTableSize \<le> unat n then Fatal ''index out of range''
         else
           let s = s\<lparr>vlanFilterList := (vlanFilterList s)[unat n := vid], numVlanFilterEntries := n + 1\<rparr>;
               (err, s) = send_request env (CreateVtfd i (one_vid vid) 0x10 (n + 1)) s
           in if err then bind_run (vf_unlock s) (\<lambda>s. Deadlock) else Done (False, s))"

definition enterConfigIncrFlow :: "vlan_env \<Rightarrow> UniVlanConfigFsm \<Rightarrow> UniVlanConfigFsm run" where
  "enterConfigIncrFlow env s =
     (if ve_skipReconciling env then Done (vf_go (TEvent VlanEvSkipIncFlowConfig None) s)
      else
        bind_run (vf_lock s) (\<lambda>s.
        bind_run (if SetVid (actual_rule s) = OFPVID_PRESENT then Done (False, s\<lparr>TpIDWaitingFor := 0\<rparr>)
                  else bind_run (add_vtfd_entry env (s\<lparr>TpIDWaitingFor := 0\<rparr>)) (\<lambda>(err, s).
                    if err then Done (True, s)
                    else let (werr, s) = waitforOmciResponse env s in Done (werr \<noteq> None, s)))
          (\<lambda>(err, s).
            if err then bind_run (vf_unlock s) (\<lambda>s. Done (vf_go (TEvent VlanEvReset None) s))
            else bind_run (vf_unlock (s\<lparr>requestEventOffset := cDeviceEventOffsetAddWithKvStore\<rparr>)) (\<lambda>s.
                   Done (vf_go TConfigIncr s)))))"

fun find_index :: "('a \<Rightarrow> bool) \<Rightarrow> 'a list \<Rightarrow> nat option" where
  "find_index P [] = None"
| "find_index P (x # xs) = (if P x then Some 0 else map_option Suc (find_index P xs))"

definition list_without :: "nat \<Rightarrow> nat \<Rightarrow> u16 list \<Rightarrow> u16 list" where
  "list_without n pos l =
     map (\<lambda>i. if i < pos then l ! i else if i < cVtfdTableSize - 1 then l ! (i + 1) else 0) [0..<n] @
     replicate (cVtfdTableSize - n) 0"

text \<open>The VLAN filter of a rule that is removed; \<open>True\<close> when the machine has to be reset. A
  failing request calls \<^verbatim>\<open>Event\<close> from inside of the callback.\<close>

definition clear_vtfd :: "vlan_env \<Rightarrow> UniVlanRuleParams \<Rightarrow> (UniVlanConfigFsm \<Rightarrow> UniVlanConfigFsm run) \<Rightarrow>
    UniVlanConfigFsm \<Rightarrow> (bool \<times> UniVlanConfigFsm) run" where
  "clear_vtfd env r update s =
     bind_run
       (if ve_readyForOmci env
        then let (err, s) = send_request env (DeleteVtfd (vtfd_id s (TpID r))) s
             in if err then Deadlock
                else let (werr, s) = waitforOmciResponse env s in Done (werr \<noteq> None, s)
        else Done (False, s))
       (\<lambda>(failed, s).
          if failed then Done (True, s)
          else bind_run (vf_lock s) (\<lambda>s. bind_run (update s) (\<lambda>s. bind_run (vf_unlock s) (\<lambda>s. Done (False, s)))))"

definition remove_vtfd_entry :: "vlan_env \<Rightarrow> UniVlanRuleParams \<Rightarrow> UniVlanConfigFsm \<Rightarrow> (bool \<times> UniVlanConfigFsm) run" where
  "remove_vtfd_entry env r s =
     (if SetVid r = OFPVID_PRESENT then Done (False, s)
      else if numVlanFilterEntries s = 1 then
        clear_vtfd env r
          (\<lambda>s. Done (s\<lparr>vlanFilterList := (vlanFilterList s)[0 := 0], numVlanFilterEntries := 0\<rparr>)) s
      else
        let n = unat (numVlanFilterEntries s) in
        case find_index (\<lambda>v. ucast v = SetVid r) (take n (vlanFilterList s)) of
          None \<Rightarrow> Done (False, s)
        | Some pos \<Rightarrow>
            let l = list_without n pos (vlanFilterList s) in
            clear_vtfd env r
              (\<lambda>s. if cVtfdTableSize \<le> n then Fatal ''index out of range''
                   else Done (s\<lparr>vlanFilterList := take (n + 1) l @ drop (n + 1) (vlanFilterList s),
                                numVlanFilterEntries := numVlanFilterEntries s - 1\<rparr>)) s)"

definition enterRemoveFlow :: "vlan_env \<Rightarrow> UniVlanConfigFsm \<Rightarrow> UniVlanConfigFsm run" where
  "enterRemoveFlow env s =
     bind_run (vf_lock s) (\<lambda>s.
       case uniRemoveFlowsSlice s of
         [] \<Rightarrow> Fatal ''index out of range''
       | rm # _ \<Rightarrow>
           let r = rm_vlanRuleParams rm in
           bind_run (vf_unlock s) (\<lambda>s.
           bind_run (remove_vtfd_entry env r s) (\<lambda>(failed, s).
             Done (vf_go (if failed then TEvent VlanEvReset None
                          else if ve_readyForOmci env then TRemoveEvtocd r
                          else TEvent VlanEvRemFlowDone (Some (TpID r))) s))))"

definition enterVlanCleanupDone :: "vlan_env \<Rightarrow> u8 option \<Rightarrow> UniVlanConfigFsm \<Rightarrow> UniVlanConfigFsm run" where
  "enterVlanCleanupDone env arg s =
     (let tpID = (case arg of None \<Rightarrow> 0 | Some t \<Rightarrow> t) in
      bind_run (vf_lock s) (\<lambda>s.
        case uniRemoveFlowsSlice s of
          [] \<Rightarrow> Fatal ''index out of range''
        | rm # rms \<Rightarrow>
            let (err, s) = removeFlowFromParamsSlice env (rm_cookie rm) True s in
            if err \<noteq> None then bind_run (vf_unlock s) (\<lambda>s. Done (vf_go (TEvent VlanEvReset None) s))
            else
              bind_run (if rm_isSuspendedOnAdd rm
                        then bind_run (vf_unlock s) (\<lambda>s. vf_lock (vf_emit (ResumeSuspendedAdd True) s))
                        else Done s) (\<lambda>s.
              bind_run (vf_unlock (s\<lparr>uniRemoveFlowsSlice := rms\<rparr>)) (\<lambda>s.
              bind_run (vf_lock (vf_go (TEvent VlanEvFlowDataRemoved None)
                          (s\<lparr>requestEventOffset := cDeviceEventOffsetRemoveWithKvStore\<rparr>))) (\<lambda>s.
              if rm_cookie rm = delayNewRuleCookie s \<and> delayNewRuleCookie s = 0 then Deadlock
              else
                let s = (if rm_cookie rm = delayNewRuleCookie s then vf_emit (CookieDeleted True) s else s);
                    s = (if signalOnFlowDelete s \<and> rms = [] \<and> 0 < tpID \<and> ve_flowDeleteChannelFree env
                         then (vf_emit FlowDeleteSignal s)\<lparr>signalOnFlowDelete := False\<rparr> else s)
                in bind_run (vf_unlock s) (\<lambda>s.
                     Done (pushReponseOnFlowResponseChannel (rm_respChan rm) None s)))))))"

definition reset_removals :: "UniVlanConfigFsm \<Rightarrow> UniVlanConfigFsm" where
  "reset_removals s =
     fold (\<lambda>rm s. pushReponseOnFlowResponseChannel (rm_respChan rm)
                    (if isCanceled s then None else Some InternalError)
                    (if rm_isSuspendedOnAdd rm then vf_emit (ResumeSuspendedAdd False) s else s))
       (uniRemoveFlowsSlice s) s"

definition reset_rules :: "UniVlanConfigFsm \<Rightarrow> UniVlanConfigFsm" where
  "reset_rules s =
     fold (\<lambda>f s. pushReponseOnFlowResponseChannel (RespChan f)
                   (Some (if isCanceled s then ConfigCancelled else InternalError)) s)
       (uniVlanFlowParamsSlice s) s"

definition enterResetting :: "UniVlanConfigFsm \<Rightarrow> UniVlanConfigFsm run" where
  "enterResetting s =
     bind_run (vf_lock (vf_emit AbortMessageProcessing (s\<lparr>pLastTxMeInstance := None\<rparr>))) (\<lambda>s.
     bind_run (if delayNewRuleCookie s \<noteq> 0
               then bind_run (vf_unlock s) (\<lambda>s. vf_lock (vf_emit (CookieDeleted False) s))
               else Done s) (\<lambda>s.
     bind_run (vf_unlock (reset_rules (reset_removals s))) (\<lambda>s.
       Done (vf_go (TEvent VlanEvRestart None) s))))"

definition enterDisabled :: "UniVlanConfigFsm \<Rightarrow> UniVlanConfigFsm run" where
  "enterDisabled s = Done (vf_go TRemoveFsm s)"

definition vlan_enter ::
    "vlan_env \<Rightarrow> u8 option \<Rightarrow> vlan_state \<Rightarrow> UniVlanConfigFsm \<Rightarrow> UniVlanConfigFsm run" where
  "vlan_enter env arg st s =
     (case st of
        VlanStPreparing \<Rightarrow> enterPreparing env s
      | VlanStStarting \<Rightarrow> enterConfigStarting env s
      | VlanStConfigVtfd \<Rightarrow> enterConfigVtfd env s
      | VlanStConfigEvtocd \<Rightarrow> enterConfigEvtocd s
      | VlanStConfigDone \<Rightarrow> enterVlanConfigDone env s
      | VlanStConfigIncrFlow \<Rightarrow> enterConfigIncrFlow env s
      | VlanStRemoveFlow \<Rightarrow> enterRemoveFlow env s
      | VlanStCleanupDone \<Rightarrow> enterVlanCleanupDone env arg s
      | VlanStResetting \<Rightarrow> enterResetting s
      | VlanStDisabled \<Rightarrow> enterDisabled s
      | _ \<Rightarrow> Done s)"

definition vlan_fire ::
    "vlan_env \<Rightarrow> vlan_event \<Rightarrow> u8 option \<Rightarrow> UniVlanConfigFsm \<Rightarrow> (fsm_error option \<times> UniVlanConfigFsm) run" where
  "vlan_fire env ev arg s =
     fsm_event vlan_fsm_events vf_fsm (\<lambda>st s. s\<lparr>vf_fsm := st\<rparr>) (vlan_enter env arg) ev s"

subsection \<open>Background work\<close>

text \<open>One request after the other, each followed by the wait for its response; a failure resets
  the machine.\<close>

fun run_requests ::
    "vlan_env \<Rightarrow> vlan_omci list \<Rightarrow> UniVlanConfigFsm \<Rightarrow> (vlan_error option \<times> UniVlanConfigFsm) run" where
  "run_requests env [] s = Done (None, s)"
| "run_requests env (q # qs) s =
     (let (err, s) = send_request env q s in
      if err then bind_run (vlan_fire env VlanEvReset None s) (\<lambda>(e, s). Done (Some SendFailed, s))
      else let (werr, s) = waitforOmciResponse env s in
           if werr \<noteq> None then bind_run (vlan_fire env VlanEvReset None s) (\<lambda>(e, s). Done (werr, s))
           else run_requests env qs s)"

definition performConfigEvtocdEntries ::
    "vlan_env \<Rightarrow> u8 \<Rightarrow> UniVlanConfigFsm \<Rightarrow> (vlan_error option \<times> UniVlanConfigFsm) run" where
  "performConfigEvtocdEntries env aFlowEntryNo s =
     bind_run (run_requests env (config_requests (pOnuUniPort s) (acceptIncrementalEvtoOption s) (evtocdID s)
                                   aFlowEntryNo (actual_rule s)) s) (\<lambda>(err, s).
       if err \<noteq> None then Done (err, s)
       else bind_run (vf_lock s) (\<lambda>s.
            bind_run (vf_unlock (s\<lparr>ConfiguredUniFlow := ConfiguredUniFlow s + 1\<rparr>)) (\<lambda>s. Done (None, s))))"

definition removeEvtocdEntries ::
    "vlan_env \<Rightarrow> UniVlanRuleParams \<Rightarrow> UniVlanConfigFsm \<Rightarrow> UniVlanConfigFsm run" where
  "removeEvtocdEntries env r s =
     bind_run (run_requests env (removal_requests (acceptIncrementalEvtoOption s) (evtocdID s)
                                   (ConfiguredUniFlow s) r) s) (\<lambda>(err, s).
       if err \<noteq> None then Done s
       else bind_run (vlan_fire env VlanEvRemFlowDone (Some (TpID r)) s) (\<lambda>(e, s). Done s))"

text \<open>The configuration of the multicast entities or of the traffic descriptors, GEM port by
  GEM port; each failure asks for a reset, and the loop goes on.\<close>

fun gem_loop :: "vlan_env \<Rightarrow> vlan_effect \<Rightarrow> bool list \<Rightarrow> UniVlanConfigFsm \<Rightarrow> UniVlanConfigFsm run" where
  "gem_loop env e [] s = Done s"
| "gem_loop env e (failed # bs) s =
     (let s = vf_emit e s in
      if failed then bind_run (vlan_fire env VlanEvReset None s) (\<lambda>(err, s). gem_loop env e bs s)
      else gem_loop env e bs s)"

definition after_config :: "vlan_env \<Rightarrow> UniVlanConfigFsm \<Rightarrow> UniVlanConfigFsm run" where
  "after_config env s =
     (let tpID = TpID (actual_rule s) in
      bind_run (gem_loop env (SetMulticastMEs tpID) (ve_multicast env tpID) s) (\<lambda>s.
      bind_run (if Meter (actualUniFlowParam s) \<noteq> None
                then gem_loop env (CreateTrafficDescriptors tpID) (ve_trafficDescriptors env tpID) s
                else Done s) (\<lambda>s.
      bind_run (vlan_fire env VlanEvRxConfigEvtocd None s) (\<lambda>(e, s). Done s))))"

definition config_task :: "vlan_env \<Rightarrow> bool \<Rightarrow> UniVlanConfigFsm \<Rightarrow> UniVlanConfigFsm run" where
  "config_task env first s =
     bind_run (performConfigEvtocdEntries env (if first then 0 else ConfiguredUniFlow s) s) (\<lambda>(err, s).
       if err \<noteq> None then Done s else after_config env s)"

definition run_task :: "vlan_env \<Rightarrow> vlan_task \<Rightarrow> UniVlanConfigFsm \<Rightarrow> UniVlanConfigFsm run" where
  "run_task env t s =
     (case t of
        TEvent ev arg \<Rightarrow> bind_run (vlan_fire env ev arg s) (\<lambda>(err, s). Done s)
      | TConfigFirst \<Rightarrow> config_task env True s
      | TConfigIncr \<Rightarrow> config_task env False s
      | TRemoveEvtocd r \<Rightarrow> removeEvtocdEntries env r s
      | TStatus off \<Rightarrow>
          Done (vf_emit (StatusUpdate (requestEvent s +
            (case off of None \<Rightarrow> requestEventOffset s | Some k \<Rightarrow> k))) s)
      | TRemoveFsm \<Rightarrow> Done (vf_emit RemoveVlanFilterFsm s))"

text \<open>One of the waiting goroutines runs.\<close>

definition run_nth_task :: "vlan_env \<Rightarrow> nat \<Rightarrow> UniVlanConfigFsm \<Rightarrow> UniVlanConfigFsm run" where
  "run_nth_task env i s =
     (if length (vf_tasks s) \<le> i then Done s
      else run_task env (vf_tasks s ! i) (s\<lparr>vf_tasks := cut_out i (vf_tasks s)\<rparr>))"

subsection \<open>Removing rules\<close>

definition removeRuleComplete ::
    "vlan_env \<Rightarrow> UniVlanFlowParams \<Rightarrow> u64 \<Rightarrow> nat option \<Rightarrow> UniVlanConfigFsm \<Rightarrow> (bool \<times> UniVlanConfigFsm) run" where
  "removeRuleComplete env aUniFlowParams aCookie respChan s =
     (let cancelPendingConfig = (vf_fsm s = VlanStWaitingTechProf);
          s = (if cancelPendingConfig then s
               else s\<lparr>uniRemoveFlowsSlice := uniRemoveFlowsSlice s @
                       [\<lparr> rm_respChan = respChan, rm_cookie = aCookie,
                          rm_vlanRuleParams = VlanRuleParams aUniFlowParams, rm_isSuspendedOnAdd = False \<rparr>]\<rparr>);
          usedTpID = TpID (VlanRuleParams aUniFlowParams)
      in bind_run
           (if cancelPendingConfig then Done s
            else if length (uniVlanFlowParamsSlice s) \<le> 1
            then bind_run (vf_unlock s) (\<lambda>s. vf_lock (vf_emit (SetProfileToDelete usedTpID) s))
            else updateTechProfileToDelete usedTpID s) (\<lambda>s.
         if cancelPendingConfig then
           let (err, s) = removeFlowFromParamsSlice env aCookie False s in
           if err \<noteq> None then
             bind_run (vf_unlock s) (\<lambda>s.
             bind_run (vlan_fire env VlanEvReset None s) (\<lambda>(e, s). Done (False, s)))
           else
             bind_run (vf_unlock (s\<lparr>requestEventOffset := cDeviceEventOffsetRemoveWithKvStore\<rparr>)) (\<lambda>s.
             bind_run (vlan_fire env VlanEvCancelOutstandingConfig None s) (\<lambda>(e, s).
             bind_run (vf_lock s) (\<lambda>s. Done (True, s))))
         else if vf_fsm s = VlanStConfigDone then
           bind_run (vf_unlock s) (\<lambda>s.
           bind_run (vlan_fire env VlanEvRemFlowConfig None s) (\<lambda>(e, s).
           bind_run (vf_lock s) (\<lambda>s. Done (True, s))))
         else Done (True, pushReponseOnFlowResponseChannel respChan None s)))"

text \<open>The first rule that has the cookie, with the position of the cookie.\<close>

fun find_rule :: "u64 \<Rightarrow> nat \<Rightarrow> UniVlanFlowParams list \<Rightarrow> (nat \<times> nat) option" where
  "find_rule c i [] = None"
| "find_rule c i (f # fs) =
     (case find_index (\<lambda>x. x = c) (CookieSlice f) of
        Some j \<Rightarrow> Some (i, j) | None \<Rightarrow> find_rule c (i + 1) fs)"

definition RemoveUniFlowParams ::
    "vlan_env \<Rightarrow> u64 \<Rightarrow> nat option \<Rightarrow> UniVlanConfigFsm \<Rightarrow> (vlan_error option \<times> UniVlanConfigFsm) run" where
  "RemoveUniFlowParams env aCookie respChan s =
     (let unknownCookie = (\<lambda>s. (None,
            pushReponseOnFlowResponseChannel respChan None
              (vf_go (TStatus (Some cDeviceEventOffsetRemoveNoKvStore)) s)))
      in bind_run (vf_lock s) (\<lambda>s.
         bind_run
           (case find_rule aCookie 0 (uniVlanFlowParamsSlice s) of
              None \<Rightarrow> Done (unknownCookie s)
            | Some (flow, i) \<Rightarrow>
                let stored = uniVlanFlowParamsSlice s ! flow in
                if length (CookieSlice stored) = 1
                then bind_run (removeRuleComplete env stored aCookie respChan s) (\<lambda>(found, s).
                       Done (if found then (None, s) else unknownCookie s))
                else
                  let rest = cut_out i (CookieSlice stored);
                      s = s\<lparr>uniVlanFlowParamsSlice :=
                             (uniVlanFlowParamsSlice s)[flow := stored\<lparr>CookieSlice := rest\<rparr>]\<rparr>;
                      s = vf_go (TStatus (Some cDeviceEventOffsetRemoveNoKvStore)) s;
                      s = (if aCookie = delayNewRuleCookie s then s\<lparr>delayNewRuleCookie := rest ! 0\<rparr> else s);
                      s = pushReponseOnFlowResponseChannel respChan None s;
                      (err, s) = store_pers env True s
                  in Done (if err then Some StoreError else None, s))
           (\<lambda>(err, s). bind_run (vf_unlock s) (\<lambda>s. Done (err, s)))))"

subsection \<open>Adding rules\<close>

text \<open>
  A suspended addition: what the other goroutines do to the machine in the meantime, and how
  the wait ends. A pointer into \<^verbatim>\<open>uniRemoveFlowsSlice\<close> is written after a timeout; the slice
  may have moved to another array by then (\<open>SuspTimeout False\<close>).
\<close>

datatype susp_outcome = SuspResumed bool | SuspTimeout bool

record suspension =
  su_others :: "UniVlanConfigFsm \<Rightarrow> UniVlanConfigFsm"
  su_outcome :: susp_outcome

definition suspendAddRule ::
    "suspension \<Rightarrow> nat \<Rightarrow> UniVlanConfigFsm \<Rightarrow> (vlan_error option \<times> UniVlanConfigFsm) run" where
  "suspendAddRule w flow s =
     bind_run (vf_lock s) (\<lambda>s.
     bind_run (vf_unlock (s\<lparr>uniRemoveFlowsSlice :=
                 (uniRemoveFlowsSlice s)[flow := (uniRemoveFlowsSlice s ! flow)\<lparr>rm_isSuspendedOnAdd := True\<rparr>]\<rparr>)) (\<lambda>s.
       let s = su_others w s in
       case su_outcome w of
         SuspResumed success \<Rightarrow> Done (if success then None else Some SuspendAborted, s)
       | SuspTimeout live \<Rightarrow>
           bind_run (vf_lock s) (\<lambda>s.
           bind_run (vf_unlock
             (if live \<and> flow < length (uniRemoveFlowsSlice s)
              then s\<lparr>uniRemoveFlowsSlice :=
                      (uniRemoveFlowsSlice s)[flow := (uniRemoveFlowsSlice s ! flow)\<lparr>rm_isSuspendedOnAdd := False\<rparr>]\<rparr>
              else s)) (\<lambda>s. Done (Some SuspendAborted, s)))))"

definition delayNewRuleForCookie :: "u64 list \<Rightarrow> UniVlanConfigFsm \<Rightarrow> u64 \<times> UniVlanConfigFsm" where
  "delayNewRuleForCookie aCookieSlice s =
     (if delayNewRuleCookie s = 0 \<and> length aCookieSlice = 1 \<and>
         list_ex (\<lambda>f. aCookieSlice ! 0 \<in> set (CookieSlice f)) (uniVlanFlowParamsSlice s)
      then (aCookieSlice ! 0, s\<lparr>delayNewRuleCookie := aCookieSlice ! 0\<rparr>)
      else (0, s))"

definition suspendNewRule :: "suspension \<Rightarrow> UniVlanConfigFsm \<Rightarrow> (bool \<times> UniVlanConfigFsm) run" where
  "suspendNewRule w s =
     bind_run (vf_lock s) (\<lambda>s. bind_run (vf_unlock s) (\<lambda>s.
       let s = su_others w s;
           cookieDeleted = (case su_outcome w of SuspResumed d \<Rightarrow> d | SuspTimeout _ \<Rightarrow> True)
       in bind_run (vf_lock s) (\<lambda>s. bind_run (vf_unlock (s\<lparr>delayNewRuleCookie := 0\<rparr>)) (\<lambda>s.
            Done (cookieDeleted, s)))))"

definition suspendIfRequiredNewRule ::
    "suspension \<Rightarrow> u64 list \<Rightarrow> UniVlanConfigFsm \<Rightarrow> (u64 \<times> bool \<times> UniVlanConfigFsm) run" where
  "suspendIfRequiredNewRule w aCookieSlice s =
     bind_run (vf_lock s) (\<lambda>s.
       let (delayedCookie, s) = delayNewRuleForCookie aCookieSlice s in
       bind_run (vf_unlock s) (\<lambda>s.
         if delayedCookie \<noteq> 0
         then bind_run (suspendNewRule w s) (\<lambda>(ok, s). Done (delayedCookie, ok, s))
         else Done (delayedCookie, True, s)))"

definition add_cookie :: "nat \<Rightarrow> u64 \<Rightarrow> UniVlanConfigFsm \<Rightarrow> UniVlanConfigFsm" where
  "add_cookie flow cookie s =
     (let f = uniVlanFlowParamsSlice s ! flow in
      s\<lparr>uniVlanFlowParamsSlice := (uniVlanFlowParamsSlice s)[flow := f\<lparr>CookieSlice := CookieSlice f @ [cookie]\<rparr>]\<rparr>)"

definition reviseFlowConstellation ::
    "u64 \<Rightarrow> UniVlanRuleParams \<Rightarrow> UniVlanConfigFsm \<Rightarrow> (bool \<times> bool \<times> UniVlanConfigFsm) run" where
  "reviseFlowConstellation aCookie r s =
     bind_run (vf_lock s) (\<lambda>s.
       let (modified, appendRule, s) =
         (case find_index (\<lambda>f. VlanRuleParams f = r) (uniVlanFlowParamsSlice s) of
            None \<Rightarrow> (True, True, s)
          | Some flow \<Rightarrow>
              if aCookie \<in> set (CookieSlice (uniVlanFlowParamsSlice s ! flow)) then (False, False, s)
              else (True, False, add_cookie flow aCookie s))
       in bind_run (vf_unlock s) (\<lambda>s. Done (modified, appendRule, s)))"

text \<open>The cookies of an existing rule. The loop compares with the cookies the rule had at its
  start. The first component tells that a suspension was aborted; the mutex is free then.\<close>

fun cookie_loop ::
    "suspension \<Rightarrow> UniVlanRuleParams \<Rightarrow> u64 list \<Rightarrow> u64 list \<Rightarrow> nat \<Rightarrow> u64 list \<Rightarrow> bool \<Rightarrow> bool \<Rightarrow>
     UniVlanConfigFsm \<Rightarrow> (bool \<times> bool \<times> bool \<times> UniVlanConfigFsm) run" where
  "cookie_loop w r cookies stored flow [] modify appendRule s = Done (False, modify, appendRule, s)"
| "cookie_loop w r cookies stored flow (c # cs) modify appendRule s =
     (if c \<in> set stored then cookie_loop w r cookies stored flow cs modify appendRule s
      else
        let (delayedCookie, s) = delayNewRuleForCookie cookies s in
        if delayedCookie \<noteq> 0 then
          bind_run (vf_unlock s) (\<lambda>s.
          bind_run (suspendNewRule w s) (\<lambda>(deleteSuccess, s).
            if \<not> deleteSuccess then Done (True, modify, appendRule, s)
            else bind_run (reviseFlowConstellation delayedCookie r s) (\<lambda>(modify, appendRule, s).
                 bind_run (vf_lock s) (\<lambda>s. cookie_loop w r cookies stored flow cs modify appendRule s))))
        else cookie_loop w r cookies stored flow cs True appendRule (add_cookie flow c s))"

text \<open>Leaving \<^verbatim>\<open>SetUniFlowParams\<close> with an error that is also sent to the requester.\<close>

definition fail_flow ::
    "nat option \<Rightarrow> vlan_error \<Rightarrow> UniVlanConfigFsm \<Rightarrow> (vlan_error option \<times> UniVlanConfigFsm) run" where
  "fail_flow respChan e s = Done (Some e, pushReponseOnFlowResponseChannel respChan (Some e) s)"

text \<open>Appending a rule, called with the mutex held. \<open>Some res\<close> means that \<^verbatim>\<open>SetUniFlowParams\<close>
  returns \<open>res\<close> here.\<close>

definition trigger_rule ::
    "vlan_env \<Rightarrow> nat option \<Rightarrow> UniVlanConfigFsm \<Rightarrow> (vlan_error option option \<times> UniVlanConfigFsm) run" where
  "trigger_rule env respChan s =
     (let fail = (\<lambda>e s. Done (Some (Some e), pushReponseOnFlowResponseChannel respChan (Some e) s)) in
      if vf_fsm s \<noteq> VlanStConfigDone then bind_run (vf_unlock s) (\<lambda>s. Done (None, s))
      else if ConfiguredUniFlow s = 0
      then bind_run (vf_unlock s) (\<lambda>s.
           bind_run (vlan_fire env VlanEvRenew None s) (\<lambda>(e, s). Done (None, s)))
      else if length (uniVlanFlowParamsSlice s) < unat (ConfiguredUniFlow s)
      then bind_run (vf_unlock s) (fail CounterMismatch)
      else if length (uniVlanFlowParamsSlice s) = unat (ConfiguredUniFlow s)
      then Fatal ''index out of range''
      else
        let f = uniVlanFlowParamsSlice s ! unat (ConfiguredUniFlow s);
            tpID = TpID (VlanRuleParams f)
        in bind_run (vf_unlock (s\<lparr>actualUniFlowParam := f, TpIDWaitingFor := tpID\<rparr>)) (\<lambda>s.
           bind_run (vlan_fire env (if ve_techProfileDone env tpID then VlanEvIncrFlowConfig
                                     else VlanEvWaitTPIncr) None s) (\<lambda>(e, s).
             case e of None \<Rightarrow> Done (None, s) | Some e \<Rightarrow> fail (FsmEventError e) s)))"

definition append_rule ::
    "vlan_env \<Rightarrow> UniVlanFlowParams \<Rightarrow> UniVlanConfigFsm \<Rightarrow> (vlan_error option option \<times> UniVlanConfigFsm) run" where
  "append_rule env f s =
     (let fail = (\<lambda>e s. Done (Some (Some e), pushReponseOnFlowResponseChannel (RespChan f) (Some e) s)) in
      if vf_fsm s = VlanStResetting \<or> vf_fsm s = VlanStDisabled
      then bind_run (vf_unlock s) (fail FsmNotReady)
      else if cMaxAllowedFlows \<le> unat (NumUniFlows s)
      then bind_run (vf_unlock s) (fail FlowLimitExceeded)
      else
        let s = s\<lparr>uniVlanFlowParamsSlice := uniVlanFlowParamsSlice s @ [f]\<rparr> in
        if length (uniVlanFlowParamsSlice s) \<le> unat (NumUniFlows s) then Fatal ''index out of range''
        else if ve_skipReconciling env then
          bind_run (reconcileVlanFilterList (ucast (SetVid (VlanRuleParams f))) s) (\<lambda>s.
          bind_run (vf_unlock (s\<lparr>NumUniFlows := NumUniFlows s + 1\<rparr>)) (\<lambda>s.
            if vf_fsm s = VlanStConfigDone
            then bind_run (vlan_fire env VlanEvSkipOmciConfig None s) (\<lambda>(e, s).
                   case e of None \<Rightarrow> Done (Some None, s) | Some e \<Rightarrow> fail (FsmEventError e) s)
            else Done (Some None, s)))
        else trigger_rule env (RespChan f) (s\<lparr>NumUniFlows := NumUniFlows s + 1\<rparr>))"

definition store_rules ::
    "vlan_env \<Rightarrow> bool \<Rightarrow> UniVlanConfigFsm \<Rightarrow> (vlan_error option \<times> UniVlanConfigFsm) run" where
  "store_rules env kvStoreWrite s =
     bind_run (vf_lock s) (\<lambda>s.
       let (err, s) = store_pers env kvStoreWrite s in
       bind_run (vf_unlock s) (\<lambda>s. Done (if err then Some StoreError else None, s)))"

text \<open>The second half of \<^verbatim>\<open>SetUniFlowParams\<close>: the rule is appended, or nothing is left to do
  for the ONU.\<close>

definition finish_set ::
    "vlan_env \<Rightarrow> UniVlanFlowParams \<Rightarrow> bool \<Rightarrow> bool \<Rightarrow> UniVlanConfigFsm \<Rightarrow>
     (vlan_error option \<times> UniVlanConfigFsm) run" where
  "finish_set env f flowCookieModify requestAppendRule s =
     (if requestAppendRule then
        bind_run (vf_lock s) (\<lambda>s.
        bind_run (append_rule env f s) (\<lambda>(ret, s).
          case ret of
            Some res \<Rightarrow> Done (res, s)
          | None \<Rightarrow> if flowCookieModify then store_rules env False s else Done (None, s)))
      else
        bind_run (vf_lock (pushReponseOnFlowResponseChannel (RespChan f) None s)) (\<lambda>s.
        bind_run (vf_unlock s) (\<lambda>s.
          let s = (if NumUniFlows s = ConfiguredUniFlow s
                   then vf_go (TStatus (Some cDeviceEventOffsetAddNoKvStore)) s else s)
          in if flowCookieModify then store_rules env True s else Done (None, s))))"

text \<open>The wait for the removal of the same rule.\<close>

definition await_removal ::
    "suspension \<Rightarrow> UniVlanRuleParams \<Rightarrow> UniVlanConfigFsm \<Rightarrow> (vlan_error option \<times> UniVlanConfigFsm) run" where
  "await_removal w r s =
     bind_run (vf_lock s) (\<lambda>s.
       case find_index (\<lambda>rm. rm_vlanRuleParams rm = r) (uniRemoveFlowsSlice s) of
         None \<Rightarrow> bind_run (vf_unlock s) (\<lambda>s. Done (None, s))
       | Some flow \<Rightarrow>
           bind_run (vf_unlock s) (\<lambda>s.
           bind_run (suspendAddRule w flow s) (\<lambda>(err, s).
             if err \<noteq> None then Done (err, s)
             else bind_run (vf_lock s) (\<lambda>s. bind_run (vf_unlock s) (\<lambda>s. Done (None, s))))))"

definition SetUniFlowParams ::
    "vlan_env \<Rightarrow> suspension \<Rightarrow> suspension \<Rightarrow> u8 \<Rightarrow> u64 list \<Rightarrow> u16 \<Rightarrow> u8 \<Rightarrow> u16 \<Rightarrow> u8 \<Rightarrow> u16 \<Rightarrow>
     bool \<Rightarrow> bool \<Rightarrow> nat option \<Rightarrow> nat option \<Rightarrow> UniVlanConfigFsm \<Rightarrow>
     (vlan_error option \<times> UniVlanConfigFsm) run" where
  "SetUniFlowParams env w1 w2 aTpID aCookieSlice aMatchVlan aMatchPcp aSetVlan aSetPcp aInnerCvlan
       lastToReconcile lastToConfigOnReboot aMeter respChan s =
     (let r = rule_params (acceptIncrementalEvtoOption s) aTpID aMatchVlan aMatchPcp aSetVlan aSetPcp aInnerCvlan;
          f = \<lparr> Meter = aMeter, RespChan = respChan, CookieSlice = aCookieSlice, VlanRuleParams = r \<rparr>
      in bind_run (await_removal w1 r s) (\<lambda>(err, s).
           if err \<noteq> None then fail_flow respChan SuspendAborted s
           else
             bind_run (vf_lock (s\<lparr>lastFlowToReconcile := lastToReconcile,
                                  lastFlowToConfigOnReboot := lastToConfigOnReboot\<rparr>)) (\<lambda>s.
               case find_index (\<lambda>g. VlanRuleParams g = r) (uniVlanFlowParamsSlice s) of
                 Some flow \<Rightarrow>
                   bind_run (cookie_loop w2 r aCookieSlice (CookieSlice (uniVlanFlowParamsSlice s ! flow))
                               flow aCookieSlice False False s) (\<lambda>(aborted, modify, appendRule, s).
                     if aborted then fail_flow respChan CookieAddAborted s
                     else bind_run (vf_unlock s) (\<lambda>s. finish_set env f modify appendRule s))
               | None \<Rightarrow>
                   bind_run (vf_unlock s) (\<lambda>s.
                   bind_run (suspendIfRequiredNewRule w2 aCookieSlice s) (\<lambda>(delayedCookie, deleteSuccess, s).
                     if \<not> deleteSuccess then fail_flow respChan RuleAddAborted s
                     else if delayedCookie \<noteq> 0
                     then bind_run (reviseFlowConstellation delayedCookie r s) (\<lambda>(modify, appendRule, s).
                            finish_set env f modify appendRule s)
                     else finish_set env f True True s)))))"

subsection \<open>Creation and cancellation\<close>

definition zero_rule :: UniVlanRuleParams where
  "zero_rule = \<lparr> MatchVid = 0, MatchPcp = 0, TagsToRemove = 0, SetVid = 0, SetPcp = 0, InnerCvlan = 0, TpID = 0 \<rparr>"

definition zero_flow :: UniVlanFlowParams where
  "zero_flow = \<lparr> Meter = None, RespChan = None, CookieSlice = [], VlanRuleParams = zero_rule \<rparr>"

definition initUniFlowParams ::
    "vlan_env \<Rightarrow> u8 \<Rightarrow> u64 list \<Rightarrow> u16 \<Rightarrow> u8 \<Rightarrow> u16 \<Rightarrow> u8 \<Rightarrow> u16 \<Rightarrow> nat option \<Rightarrow> nat option \<Rightarrow>
     UniVlanConfigFsm \<Rightarrow> (vlan_error option \<times> UniVlanConfigFsm) run" where
  "initUniFlowParams env aTpID aCookieSlice aMatchVlan aMatchPcp aSetVlan aSetPcp innerCvlan aMeter respChan s =
     (let r = rule_params (acceptIncrementalEvtoOption s) aTpID aMatchVlan aMatchPcp aSetVlan aSetPcp innerCvlan;
          f = \<lparr> Meter = aMeter, RespChan = respChan, CookieSlice = aCookieSlice, VlanRuleParams = r \<rparr>;
          s = s\<lparr>uniVlanFlowParamsSlice := [f]\<rparr>
      in bind_run (if ve_skipReconciling env then reconcileVlanFilterList (ucast (SetVid r)) s else Done s) (\<lambda>s.
           let s = s\<lparr>evtocdID := MacBridgeServiceProfileEID + ucast (MacBpNo (pOnuUniPort s)),
                     NumUniFlows := 1, uniRemoveFlowsSlice := []\<rparr>;
               (err, s) = store_pers env True s
           in Done (if err then Some StoreError else None, s)))"

definition NewUniVlanConfigFsm ::
    "vlan_env \<Rightarrow> OnuUniPort \<Rightarrow> u8 \<Rightarrow> u8 \<Rightarrow> bool \<Rightarrow> u64 list \<Rightarrow> u16 \<Rightarrow> u8 \<Rightarrow> u16 \<Rightarrow> u8 \<Rightarrow> u16 \<Rightarrow>
     bool \<Rightarrow> bool \<Rightarrow> nat option \<Rightarrow> nat option \<Rightarrow> UniVlanConfigFsm run" where
  "NewUniVlanConfigFsm env port aTechProfileID aRequestEvent aAcceptIncrementalEvto aCookieSlice
       aMatchVlan aMatchPcp aSetVlan aSetPcp innerCvlan lastFlowToRec lastFlowToConfOnReboot aMeter respChan =
     bind_run
       (initUniFlowParams env aTechProfileID aCookieSlice aMatchVlan aMatchPcp aSetVlan aSetPcp innerCvlan
          aMeter respChan
          \<lparr> actualUniFlowParam = zero_flow, pOnuUniPort = port, uniVlanFlowParamsSlice = [],
            uniRemoveFlowsSlice = [], requestEvent = aRequestEvent, delayNewRuleCookie = 0,
            vlanFilterList = replicate cVtfdTableSize 0, evtocdID = 0,
            acceptIncrementalEvtoOption = aAcceptIncrementalEvto, isCanceled = False,
            pLastTxMeInstance = None, NumUniFlows = 0, ConfiguredUniFlow = 0,
            numVlanFilterEntries = 0, requestEventOffset = 0, TpIDWaitingFor = 0,
            signalOnFlowDelete = False, lastFlowToReconcile = lastFlowToRec,
            lastFlowToConfigOnReboot = lastFlowToConfOnReboot, vf_locked = False,
            vf_fsm = VlanStDisabled, vf_tasks = [], vf_requests = 0, vf_waits = 0, vf_stores = 0,
            vf_out = [] \<rparr>)
       (\<lambda>(err, s). Done s)"

definition CancelProcessing :: "vlan_env \<Rightarrow> UniVlanConfigFsm \<Rightarrow> UniVlanConfigFsm run" where
  "CancelProcessing env s =
     bind_run (vlan_fire env VlanEvReset None (s\<lparr>isCanceled := True\<rparr>)) (\<lambda>(err, s). Done s)"

subsection \<open>Responses\<close>

text \<open>The responses to the requests for the other entities the machine configures (multicast,
  traffic descriptors) are accepted by their names in the same way and are not part of the model.\<close>

definition handleOmciVlanConfigMessage ::
    "vlan_env \<Rightarrow> omci_response \<Rightarrow> UniVlanConfigFsm \<Rightarrow> UniVlanConfigFsm run" where
  "handleOmciVlanConfigMessage env m s =
     (if rs_type m = OtherResponse \<or> \<not> rs_layer m then Done s
      else if response_failed m then Done (vf_emit (ConfigFailureResponse (rs_class m) (rs_instance m) (rs_result m)) s)
      else if pLastTxMeInstance s = Some (rs_class m, rs_instance m) then
        (if rs_type m = CreateResponse \<and> vf_fsm s = VlanStConfigVtfd
         then bind_run (vlan_fire env VlanEvRxConfigVtfd None s) (\<lambda>(e, s). Done s)
         else Done (vf_emit ResponseReceived s))
      else Done s)"

datatype vlan_message = VlanOmci omci_response | VlanAbort | VlanOther | VlanChannelClosed

fun processOmciVlanMessages ::
    "vlan_env \<Rightarrow> vlan_message list \<Rightarrow> UniVlanConfigFsm \<Rightarrow> UniVlanConfigFsm run" where
  "processOmciVlanMessages env [] s = Done s"
| "processOmciVlanMessages env (m # ms) s =
     (case m of
        VlanOmci r \<Rightarrow> bind_run (handleOmciVlanConfigMessage env r s) (processOmciVlanMessages env ms)
      | VlanAbort \<Rightarrow> Done s
      | VlanOther \<Rightarrow> processOmciVlanMessages env ms s
      | VlanChannelClosed \<Rightarrow> bind_run (vlan_fire env VlanEvReset None s) (\<lambda>(e, s). Done s))"

end
