(* ===== verification/Vlan_Inv.thy ===== *)
theory Vlan_Inv
  imports Vlan_Cfg
begin

text \<open>
  The invariant of the VLAN configuration of a UNI port: the number of rules is the length of
  the slice of rules and at most 64, the filter list has 64 entries of which at most 64 are
  used, and the mutex of the rules is free between operations. Every operation of the machine
  keeps it whenever it returns.
\<close>

lemma lock_wp [wp_simps]:
  "ensures (vf_lock s) Q \<longleftrightarrow> (\<not> vf_locked s \<longrightarrow> Q (s\<lparr>vf_locked := True\<rparr>))"
  "ensures (vf_unlock s) Q \<longleftrightarrow> (vf_locked s \<longrightarrow> Q (s\<lparr>vf_locked := False\<rparr>))"
  by (simp_all add: vf_lock_def vf_unlock_def wp_simps)

definition rules_inv :: "UniVlanConfigFsm \<Rightarrow> bool" where
  "rules_inv s \<longleftrightarrow> length (uniVlanFlowParamsSlice s) = unat (NumUniFlows s) \<and>
     length (uniVlanFlowParamsSlice s) \<le> cMaxAllowedFlows \<and>
     length (vlanFilterList s) = cVtfdTableSize \<and> unat (numVlanFilterEntries s) \<le> cVtfdTableSize"

definition vlan_inv :: "bool \<Rightarrow> UniVlanConfigFsm \<Rightarrow> bool" where
  "vlan_inv b s \<longleftrightarrow> vf_locked s = b \<and> rules_inv s"

lemma push_fields [simp]:
  "rules_inv (pushReponseOnFlowResponseChannel c e s) = rules_inv s"
  "vf_locked (pushReponseOnFlowResponseChannel c e s) = vf_locked s"
  "uniVlanFlowParamsSlice (pushReponseOnFlowResponseChannel c e s) = uniVlanFlowParamsSlice s"
  "vf_fsm (pushReponseOnFlowResponseChannel c e s) = vf_fsm s"
  by (simp_all add: pushReponseOnFlowResponseChannel_def rules_inv_def split: option.splits)

lemma send_request_inv [simp]:
  "rules_inv (snd (send_request env q s)) = rules_inv s"
  "vf_locked (snd (send_request env q s)) = vf_locked s"
  by (simp_all add: send_request_def rules_inv_def Let_def)

lemma wait_inv [simp]:
  "rules_inv (snd (waitforOmciResponse env s)) = rules_inv s"
  "vf_locked (snd (waitforOmciResponse env s)) = vf_locked s"
  by (simp_all add: waitforOmciResponse_def rules_inv_def Let_def split: wait_result.splits option.splits)

lemma store_inv [simp]:
  "rules_inv (snd (store_pers env b s)) = rules_inv s"
  "vf_locked (snd (store_pers env b s)) = vf_locked s"
  by (simp_all add: store_pers_def rules_inv_def)

lemma find_cookie_bound: "find_cookie c i fs = Inr (Some j) \<Longrightarrow> i \<le> j \<and> j < i + length fs"
  by (induction c i fs rule: find_cookie.induct) (auto split: if_splits)

lemma length_cut_out [simp]: "i < length xs \<Longrightarrow> length (cut_out i xs) = length xs - 1"
  by (simp add: cut_out_def)

lemma unat_u8_minus_1: "(x :: u8) \<noteq> 0 \<Longrightarrow> unat (x - 1) = unat x - 1"
  by (rule unat_minus_one)


lemma inv_go [simp]: "rules_inv (s\<lparr>vf_tasks := x\<rparr>) = rules_inv s" "rules_inv (s\<lparr>vf_out := o'\<rparr>) = rules_inv s"
  "rules_inv (s\<lparr>vf_locked := b\<rparr>) = rules_inv s" "rules_inv (s\<lparr>actualUniFlowParam := f\<rparr>) = rules_inv s"
  "rules_inv (s\<lparr>TpIDWaitingFor := t\<rparr>) = rules_inv s" "rules_inv (s\<lparr>requestEventOffset := u\<rparr>) = rules_inv s"
  "rules_inv (s\<lparr>ConfiguredUniFlow := c\<rparr>) = rules_inv s" "rules_inv (s\<lparr>uniRemoveFlowsSlice := l\<rparr>) = rules_inv s"
  "rules_inv (s\<lparr>signalOnFlowDelete := b\<rparr>) = rules_inv s" "rules_inv (s\<lparr>pLastTxMeInstance := p\<rparr>) = rules_inv s"
  "rules_inv (s\<lparr>vf_fsm := st\<rparr>) = rules_inv s" "rules_inv (s\<lparr>delayNewRuleCookie := d\<rparr>) = rules_inv s"
  "rules_inv (s\<lparr>isCanceled := b\<rparr>) = rules_inv s" "rules_inv (s\<lparr>lastFlowToReconcile := b\<rparr>) = rules_inv s"
  "rules_inv (s\<lparr>lastFlowToConfigOnReboot := b\<rparr>) = rules_inv s"
  by (simp_all add: rules_inv_def)

lemma rules_inv_slice [simp]:
  "length l = length (uniVlanFlowParamsSlice s) \<Longrightarrow> rules_inv (s\<lparr>uniVlanFlowParamsSlice := l\<rparr>) = rules_inv s"
  by (simp add: rules_inv_def)

lemma removeFlow_inv:
  "rules_inv s \<Longrightarrow> rules_inv (snd (removeFlowFromParamsSlice env c b s)) \<and>
     vf_locked (snd (removeFlowFromParamsSlice env c b s)) = vf_locked s"
proof (cases "find_cookie c 0 (uniVlanFlowParamsSlice s)")
  case (Inr r)
  assume inv: "rules_inv s"
  show ?thesis
  proof (cases r)
    case (Some i)
    with Inr have i: "i < length (uniVlanFlowParamsSlice s)" using find_cookie_bound by fastforce
    then have "NumUniFlows s \<noteq> 0" using inv by (auto simp: rules_inv_def)
    then show ?thesis
      using inv i Inr Some unfolding rules_inv_def
      by (auto simp: removeFlowFromParamsSlice_def store_pers_def Let_def cMaxAllowedFlows_def cVtfdTableSize_def
          unat_u8_minus_1 pushReponseOnFlowResponseChannel_def split: option.splits)
  qed (simp add: removeFlowFromParamsSlice_def Inr inv)
qed (simp add: removeFlowFromParamsSlice_def)

lemma requests_keep_filters [simp]:
  "numVlanFilterEntries (snd (send_request env q s)) = numVlanFilterEntries s"
  "numVlanFilterEntries (snd (waitforOmciResponse env s)) = numVlanFilterEntries s"
  by (simp_all add: send_request_def waitforOmciResponse_def Let_def split: wait_result.splits option.splits)

lemma clear_vtfd_inv:
  assumes inv: "vlan_inv False s"
    and u: "\<And>s'. vlan_inv True s' \<Longrightarrow> numVlanFilterEntries s' = numVlanFilterEntries s \<Longrightarrow>
             ensures (upd s') (vlan_inv True)"
  shows "ensures (clear_vtfd env r upd s) (\<lambda>(f, s). vlan_inv False s)"
proof -
  have k: "ensures (bind_run (upd (s'\<lparr>vf_locked := True\<rparr>)) (\<lambda>s. bind_run (vf_unlock s) (\<lambda>s. Done (False, s))))
            (\<lambda>(f, s). vlan_inv False s)"
    if "vlan_inv False s'" "numVlanFilterEntries s' = numVlanFilterEntries s" for s'
  proof -
    have "vlan_inv True (s'\<lparr>vf_locked := True\<rparr>)" using that(1) by (simp add: vlan_inv_def)
    from u [OF this] that(2) show ?thesis
      by (simp add: wp_simps) (erule ensures_mono, simp add: vlan_inv_def)
  qed
  show ?thesis
    using inv k by (auto simp: clear_vtfd_def wp_simps split_beta Let_def vlan_inv_def)
qed

lemma rules_inv_filter:
  "rules_inv s \<Longrightarrow> length l = cVtfdTableSize \<Longrightarrow> unat n \<le> cVtfdTableSize \<Longrightarrow>
   rules_inv (s\<lparr>vlanFilterList := l, numVlanFilterEntries := n\<rparr>)"
  by (simp add: rules_inv_def)

lemma length_list_without: "n \<le> cVtfdTableSize \<Longrightarrow> length (list_without n p l) = cVtfdTableSize"
  by (simp add: list_without_def)

lemma unat_u8_plus_1: "unat (x :: u8) < 64 \<Longrightarrow> unat (x + 1) = unat x + 1"
  by (simp add: unat_word_ariths)

lemma find_index_Some: "find_index P xs = Some i \<Longrightarrow> i < length xs \<and> P (xs ! i) \<and> (\<forall>j<i. \<not> P (xs ! j))"
  by (induction xs arbitrary: i) (auto split: if_splits simp: less_Suc_eq_0_disj)

lemma find_index_None: "find_index P xs = None \<longleftrightarrow> (\<forall>x \<in> set xs. \<not> P x)"
  by (induction xs) auto

lemma remove_vtfd_inv:
  assumes inv: "vlan_inv False s"
  shows "ensures (remove_vtfd_entry env r s) (\<lambda>(f, s). vlan_inv False s)"
proof -
  define n where "n = unat (numVlanFilterEntries s)"
  have 1: "ensures (clear_vtfd env r (\<lambda>s. Done (s\<lparr>vlanFilterList := (vlanFilterList s)[0 := 0], numVlanFilterEntries := 0\<rparr>)) s)
            (\<lambda>(f, s). vlan_inv False s)"
    by (rule clear_vtfd_inv [OF inv]) (simp add: wp_simps vlan_inv_def rules_inv_def)
  have 2: "ensures (clear_vtfd env r (\<lambda>s. if cVtfdTableSize \<le> n then Fatal ''index out of range''
       else Done (s\<lparr>vlanFilterList := take (n + 1) (list_without n p l) @ drop (n + 1) (vlanFilterList s),
                    numVlanFilterEntries := numVlanFilterEntries s - 1\<rparr>)) s) (\<lambda>(f, s). vlan_inv False s)"
    if "0 < n" for p l
  proof (rule clear_vtfd_inv [OF inv])
    fix s' assume s': "vlan_inv True s'" "numVlanFilterEntries s' = numVlanFilterEntries s"
    with that have "numVlanFilterEntries s' \<noteq> 0" by (auto simp: n_def)
    with s' show "ensures (if cVtfdTableSize \<le> n then Fatal ''index out of range''
       else Done (s'\<lparr>vlanFilterList := take (n + 1) (list_without n p l) @ drop (n + 1) (vlanFilterList s'),
                     numVlanFilterEntries := numVlanFilterEntries s' - 1\<rparr>)) (vlan_inv True)"
      by (auto simp: wp_simps vlan_inv_def rules_inv_def unat_u8_minus_1 length_list_without cVtfdTableSize_def)
  qed
  have "find_index P (take n xs) = Some p \<Longrightarrow> 0 < n" for P p and xs :: "u16 list"
    using find_index_Some [of P "take n xs" p] by auto
  then show ?thesis
    using 1 2 inv by (auto simp: remove_vtfd_entry_def Let_def wp_simps simp flip: n_def split: option.splits)
qed

lemma add_vtfd_inv:
  "vlan_inv True s \<Longrightarrow> ensures (add_vtfd_entry env s) (\<lambda>(f, s). vlan_inv True s)"
  by (auto simp: add_vtfd_entry_def wp_simps Let_def split_beta vlan_inv_def unat_u8_plus_1 cVtfdTableSize_def
      intro!: rules_inv_filter) (simp_all add: rules_inv_def cVtfdTableSize_def)

lemma enterPreparing_inv: "vlan_inv False s \<Longrightarrow> ensures (enterPreparing env s) (vlan_inv False)"
  by (simp add: enterPreparing_def wp_simps vlan_inv_def)

lemma enterConfigStarting_inv: "vlan_inv False s \<Longrightarrow> ensures (enterConfigStarting env s) (vlan_inv False)"
  by (simp add: enterConfigStarting_def wp_simps vlan_inv_def Let_def split: list.splits)

lemma enterConfigVtfd_inv: "vlan_inv False s \<Longrightarrow> ensures (enterConfigVtfd env s) (vlan_inv False)"
  by (auto simp: enterConfigVtfd_def wp_simps vlan_inv_def Let_def split_beta)
     (simp_all add: rules_inv_def cVtfdTableSize_def)

lemma enterVlanConfigDone_inv: "vlan_inv False s \<Longrightarrow> ensures (enterVlanConfigDone env s) (vlan_inv False)"
  by (simp add: enterVlanConfigDone_def wp_simps vlan_inv_def Let_def)

lemma enterConfigIncrFlow_inv:
  assumes "vlan_inv False s" shows "ensures (enterConfigIncrFlow env s) (vlan_inv False)"
proof -
  have "vlan_inv True (s\<lparr>vf_locked := True, TpIDWaitingFor := 0\<rparr>)" using assms by (simp add: vlan_inv_def)
  from add_vtfd_inv [OF this, of env] show ?thesis
    using assms
    by (auto simp: enterConfigIncrFlow_def wp_simps vlan_inv_def Let_def split_beta elim!: ensures_mono)
qed

lemma enterRemoveFlow_inv:
  assumes "vlan_inv False s" shows "ensures (enterRemoveFlow env s) (vlan_inv False)"
proof -
  have "vlan_inv False (s\<lparr>vf_locked := False\<rparr>)" using assms by (simp add: vlan_inv_def)
  from ensures_mono [OF remove_vtfd_inv [OF this]] show ?thesis
    using assms
    by (auto simp: enterRemoveFlow_def wp_simps vlan_inv_def Let_def split: list.splits prod.splits)
qed

lemma enterVlanCleanupDone_inv:
  assumes "vlan_inv False s" shows "ensures (enterVlanCleanupDone env arg s) (vlan_inv False)"
proof -
  have "rules_inv (s\<lparr>vf_locked := True\<rparr>)" using assms by (simp add: vlan_inv_def)
  from removeFlow_inv [OF this] show ?thesis
    by (simp add: enterVlanCleanupDone_def wp_simps vlan_inv_def Let_def split_beta split: list.splits)
qed

lemma fold_keeps:
  "(\<And>x s. g (f x s) = g s) \<Longrightarrow> g (fold f xs s) = g s"
  by (induction xs arbitrary: s) auto

lemma reset_keeps [simp]:
  "rules_inv (reset_rules s) = rules_inv s" "vf_locked (reset_rules s) = vf_locked s"
  "rules_inv (reset_removals s) = rules_inv s" "vf_locked (reset_removals s) = vf_locked s"
  unfolding reset_rules_def reset_removals_def by (rule fold_keeps, simp)+

lemma enterResetting_inv: "vlan_inv False s \<Longrightarrow> ensures (enterResetting s) (vlan_inv False)"
  by (simp add: enterResetting_def wp_simps vlan_inv_def)

lemma vlan_enter_inv: "vlan_inv False s \<Longrightarrow> ensures (vlan_enter env arg st s) (vlan_inv False)"
  by (cases st) (simp_all add: vlan_enter_def enterPreparing_inv enterConfigStarting_inv enterConfigVtfd_inv
      enterVlanConfigDone_inv enterConfigIncrFlow_inv enterRemoveFlow_inv enterVlanCleanupDone_inv
      enterResetting_inv, simp_all add: enterConfigEvtocd_def enterDisabled_def wp_simps vlan_inv_def)

lemma vlan_fire_inv: "vlan_inv False s \<Longrightarrow> ensures (vlan_fire env ev arg s) (\<lambda>(e, s). vlan_inv False s)"
  by (auto simp: vlan_fire_def fsm_event_def wp_simps vlan_inv_def split: option.splits
      intro!: ensures_mono [OF vlan_enter_inv])

lemmas event_step = ensures_mono [OF vlan_fire_inv]

lemma run_requests_inv:
  "vlan_inv False s \<Longrightarrow> ensures (run_requests env qs s) (\<lambda>(e, s). vlan_inv False s)"
proof (induction qs arbitrary: s)
  case (Cons q qs)
  have "vlan_inv False (snd (send_request env q s))" using Cons.prems by (simp add: vlan_inv_def)
  moreover from this have "vlan_inv False (snd (waitforOmciResponse env (snd (send_request env q s))))"
    by (simp add: vlan_inv_def)
  ultimately show ?case
    using Cons.IH by (auto simp: wp_simps Let_def split_beta intro!: event_step)
qed (simp add: wp_simps)

lemma performConfig_inv:
  "vlan_inv False s \<Longrightarrow> ensures (performConfigEvtocdEntries env n s) (\<lambda>(e, s). vlan_inv False s)"
  by (auto simp: performConfigEvtocdEntries_def wp_simps vlan_inv_def split_beta
      intro!: ensures_mono [OF run_requests_inv])

lemma removeEvtocd_inv: "vlan_inv False s \<Longrightarrow> ensures (removeEvtocdEntries env r s) (vlan_inv False)"
  by (auto simp: removeEvtocdEntries_def wp_simps split_beta
      intro!: ensures_mono [OF run_requests_inv] event_step)

lemma gem_loop_inv: "vlan_inv False s \<Longrightarrow> ensures (gem_loop env e bs s) (vlan_inv False)"
proof (induction bs arbitrary: s)
  case (Cons b bs)
  have "vlan_inv False (vf_emit e s)" using Cons.prems by (simp add: vlan_inv_def)
  with Cons.IH show ?case by (auto simp: wp_simps Let_def split_beta intro!: event_step)
qed (simp add: wp_simps)

lemma after_config_inv: "vlan_inv False s \<Longrightarrow> ensures (after_config env s) (vlan_inv False)"
  by (auto simp: after_config_def wp_simps Let_def split_beta
      intro!: ensures_mono [OF gem_loop_inv] event_step)

lemma run_task_inv: "vlan_inv False s \<Longrightarrow> ensures (run_task env t s) (vlan_inv False)"
  by (cases t)
     (auto simp: run_task_def config_task_def wp_simps split_beta removeEvtocd_inv after_config_inv
       intro!: event_step ensures_mono [OF performConfig_inv],
      simp_all add: vlan_inv_def)

lemma run_nth_task_inv: "vlan_inv False s \<Longrightarrow> ensures (run_nth_task env i s) (vlan_inv False)"
  by (simp add: run_nth_task_def wp_simps) (intro impI run_task_inv, simp add: vlan_inv_def)

lemma updateTp_inv: "vlan_inv True s \<Longrightarrow> ensures (updateTechProfileToDelete tp s) (vlan_inv True)"
  by (simp add: updateTechProfileToDelete_def wp_simps vlan_inv_def)

lemma removeRule_inv:
  assumes inv: "vlan_inv True s"
  shows "ensures (removeRuleComplete env f c resp s) (\<lambda>(found, s). vlan_inv found s)"
proof (cases "vf_fsm s = VlanStWaitingTechProf")
  case True
  have "rules_inv s" using inv by (simp add: vlan_inv_def)
  from removeFlow_inv [OF this, of env c False] True inv show ?thesis
    by (auto simp: removeRuleComplete_def Let_def wp_simps split_beta vlan_inv_def
        intro!: event_step)
next
  case False
  let ?s = "s\<lparr>uniRemoveFlowsSlice := uniRemoveFlowsSlice s @
              [\<lparr> rm_respChan = resp, rm_cookie = c, rm_vlanRuleParams = VlanRuleParams f, rm_isSuspendedOnAdd = False \<rparr>]\<rparr>"
  have s: "vlan_inv True ?s" using inv by (simp add: vlan_inv_def)
  let ?first = "if length (uniVlanFlowParamsSlice ?s) \<le> 1
      then bind_run (vf_unlock ?s) (\<lambda>s. vf_lock (vf_emit (SetProfileToDelete (TpID (VlanRuleParams f))) s))
      else updateTechProfileToDelete (TpID (VlanRuleParams f)) ?s"
  let ?rest = "\<lambda>s'. if vf_fsm s' = VlanStConfigDone then
           bind_run (vf_unlock s') (\<lambda>s.
           bind_run (vlan_fire env VlanEvRemFlowConfig None s) (\<lambda>(e, s).
           bind_run (vf_lock s) (\<lambda>s. Done (True, s))))
         else Done (True, pushReponseOnFlowResponseChannel resp None s')"
  have "ensures ?first (vlan_inv True)"
    using s updateTp_inv [OF s] by (simp add: wp_simps vlan_inv_def)
  moreover have "ensures (?rest s') (\<lambda>(found, s). vlan_inv found s)" if "vlan_inv True s'" for s'
    using that by (auto simp: wp_simps vlan_inv_def split_beta intro!: event_step)
  ultimately have "ensures (bind_run ?first ?rest) (\<lambda>(found, s). vlan_inv found s)"
    by (rule ensures_bind)
  moreover have "removeRuleComplete env f c resp s = bind_run ?first ?rest"
    using False by (simp add: removeRuleComplete_def Let_def)
  ultimately show ?thesis by (simp only:)
qed

lemma RemoveUniFlowParams_inv:
  assumes inv: "vlan_inv False s"
  shows "ensures (RemoveUniFlowParams env c resp s) (\<lambda>(e, s). vlan_inv False s)"
proof -
  have s: "vlan_inv True (s\<lparr>vf_locked := True\<rparr>)" using inv by (simp add: vlan_inv_def)
  show ?thesis
    using inv ensures_mono [OF removeRule_inv [OF s]]
    by (auto simp: RemoveUniFlowParams_def Let_def wp_simps split_beta vlan_inv_def split: option.splits)
qed

definition susp_ok :: "suspension \<Rightarrow> bool" where
  "susp_ok w \<longleftrightarrow> (\<forall>s. vlan_inv False s \<longrightarrow> vlan_inv False (su_others w s))"

lemma suspendAddRule_inv:
  assumes "vlan_inv False s" "susp_ok w"
  shows "ensures (suspendAddRule w i s) (\<lambda>(e, s). vlan_inv False s)"
proof -
  let ?s = "s\<lparr>vf_locked := True, uniRemoveFlowsSlice := (uniRemoveFlowsSlice s)
      [i := (uniRemoveFlowsSlice s ! i)\<lparr>rm_isSuspendedOnAdd := True\<rparr>], vf_locked := False\<rparr>"
  have "vlan_inv False ?s" using assms by (simp add: vlan_inv_def)
  then have "vlan_inv False (su_others w ?s)" using assms(2) by (simp only: susp_ok_def)
  then show ?thesis
    using assms(1) by (simp add: suspendAddRule_def wp_simps vlan_inv_def Let_def split: susp_outcome.splits)
qed

lemma suspendNewRule_inv:
  assumes "vlan_inv False s" "susp_ok w"
  shows "ensures (suspendNewRule w s) (\<lambda>(e, s). vlan_inv False s)"
proof -
  have "vlan_inv False (s\<lparr>vf_locked := True, vf_locked := False\<rparr>)" using assms by (simp add: vlan_inv_def)
  then have "vlan_inv False (su_others w (s\<lparr>vf_locked := True, vf_locked := False\<rparr>))"
    using assms(2) by (simp only: susp_ok_def)
  then show ?thesis
    using assms(1) by (simp add: suspendNewRule_def wp_simps vlan_inv_def Let_def)
qed

lemma delay_inv [simp]:
  "rules_inv (snd (delayNewRuleForCookie cs s)) = rules_inv s"
  "vf_locked (snd (delayNewRuleForCookie cs s)) = vf_locked s"
  by (simp_all add: delayNewRuleForCookie_def)

lemma add_cookie_inv [simp]:
  "rules_inv (add_cookie i c s) = rules_inv s" "vf_locked (add_cookie i c s) = vf_locked s"
  by (simp_all add: add_cookie_def Let_def)

lemma suspendIfRequired_inv:
  assumes "vlan_inv False s" "susp_ok w"
  shows "ensures (suspendIfRequiredNewRule w cs s) (\<lambda>(d, e, s). vlan_inv False s)"
  using assms
  by (auto simp: suspendIfRequiredNewRule_def wp_simps Let_def split_beta vlan_inv_def
      intro!: ensures_mono [OF suspendNewRule_inv])

lemma revise_inv:
  "vlan_inv False s \<Longrightarrow> ensures (reviseFlowConstellation c r s) (\<lambda>(m, a, s). vlan_inv False s)"
  by (simp add: reviseFlowConstellation_def wp_simps Let_def vlan_inv_def split: option.splits)

lemma cookie_loop_inv:
  assumes w: "susp_ok w"
  shows "vlan_inv True s \<Longrightarrow>
    ensures (cookie_loop w r cs st i xs m a s) (\<lambda>(aborted, m, a, s). vlan_inv (\<not> aborted) s)"
proof (induction xs arbitrary: m a s)
  case (Cons x xs)
  obtain d s' where ds: "delayNewRuleForCookie cs s = (d, s')" by (cases "delayNewRuleForCookie cs s")
  let ?Q = "\<lambda>(aborted, m, a, s). vlan_inv (\<not> aborted) s"
  have s: "vlan_inv True s'" "vlan_inv False (s'\<lparr>vf_locked := False\<rparr>)" "vlan_inv True (add_cookie i x s')"
    "vf_unlock s' = Done (s'\<lparr>vf_locked := False\<rparr>)"
    using Cons.prems delay_inv [of cs s] by (simp_all add: vlan_inv_def ds vf_unlock_def)
  have r: "ensures (bind_run (reviseFlowConstellation d r s') (\<lambda>(m, a, s).
      bind_run (vf_lock s) (\<lambda>s. cookie_loop w r cs st i xs m a s))) ?Q" if "vlan_inv False s'" for s'
    by (rule ensures_bind [OF revise_inv [OF that]]) (auto simp: wp_simps intro!: Cons.IH, simp add: vlan_inv_def)
  have "ensures (bind_run (suspendNewRule w (s'\<lparr>vf_locked := False\<rparr>)) (\<lambda>(ok, s).
      if \<not> ok then Done (True, m, a, s)
      else bind_run (reviseFlowConstellation d r s) (\<lambda>(m, a, s).
           bind_run (vf_lock s) (\<lambda>s. cookie_loop w r cs st i xs m a s)))) ?Q"
    by (rule ensures_bind [OF suspendNewRule_inv [OF s(2) w]]) (use r in \<open>auto simp: ensures_simps(1)\<close>)
  with s Cons.IH [OF s(3)] Cons.IH [OF Cons.prems] show ?case by (simp add: ds)
qed (simp add: wp_simps)

lemma fail_flow_inv: "vlan_inv False s \<Longrightarrow> ensures (fail_flow c e s) (\<lambda>(e, s). vlan_inv False s)"
  by (simp add: fail_flow_def wp_simps vlan_inv_def)

lemma trigger_rule_inv:
  "vlan_inv True s \<Longrightarrow> ensures (trigger_rule env c s) (\<lambda>(e, s). vlan_inv False s)"
  by (auto simp: trigger_rule_def Let_def wp_simps vlan_inv_def split_beta split: option.splits
      intro!: event_step)

lemma rules_inv_append:
  "rules_inv s \<Longrightarrow> \<not> cMaxAllowedFlows \<le> unat (NumUniFlows s) \<Longrightarrow>
   rules_inv (s\<lparr>uniVlanFlowParamsSlice := uniVlanFlowParamsSlice s @ [f], NumUniFlows := NumUniFlows s + 1\<rparr>)"
  by (simp add: rules_inv_def cMaxAllowedFlows_def cVtfdTableSize_def unat_u8_plus_1)

lemma reconcile_inv:
  "rules_inv s \<Longrightarrow> \<not> cMaxAllowedFlows \<le> unat (NumUniFlows s) \<Longrightarrow>
   ensures (reconcileVlanFilterList v (s\<lparr>uniVlanFlowParamsSlice := uniVlanFlowParamsSlice s @ [f]\<rparr>))
     (\<lambda>s'. vf_locked s' = vf_locked s \<and> rules_inv (s'\<lparr>NumUniFlows := NumUniFlows s' + 1\<rparr>))"
  by (auto simp: reconcileVlanFilterList_def wp_simps rules_inv_def cMaxAllowedFlows_def cVtfdTableSize_def
      unat_u8_plus_1)

lemma append_rule_inv:
  assumes inv: "vlan_inv True s"
  shows "ensures (append_rule env f s) (\<lambda>(e, s). vlan_inv False s)"
proof (cases "cMaxAllowedFlows \<le> unat (NumUniFlows s)")
  case True
  then show ?thesis
    using inv by (auto simp: append_rule_def Let_def wp_simps vlan_inv_def)
next
  case False
  have r: "rules_inv s" using inv by (simp add: vlan_inv_def)
  let ?s = "s\<lparr>uniVlanFlowParamsSlice := uniVlanFlowParamsSlice s @ [f]\<rparr>"
  have t: "ensures (trigger_rule env (RespChan f) (?s\<lparr>NumUniFlows := NumUniFlows s + 1\<rparr>)) (\<lambda>(e, s). vlan_inv False s)"
    by (rule trigger_rule_inv) (use inv rules_inv_append [OF r False] in \<open>simp add: vlan_inv_def\<close>)
  have "ensures (bind_run (reconcileVlanFilterList (ucast (SetVid (VlanRuleParams f))) ?s) (\<lambda>s.
          bind_run (vf_unlock (s\<lparr>NumUniFlows := NumUniFlows s + 1\<rparr>)) (\<lambda>s.
            if vf_fsm s = VlanStConfigDone
            then bind_run (vlan_fire env VlanEvSkipOmciConfig None s) (\<lambda>(e, s).
                   case e of None \<Rightarrow> Done (Some None, s)
                   | Some e \<Rightarrow> Done (Some (Some (FsmEventError e)),
                       pushReponseOnFlowResponseChannel (RespChan f) (Some (FsmEventError e)) s))
            else Done (Some None, s)))) (\<lambda>(e, s). vlan_inv False s)"
    by (rule ensures_bind [OF reconcile_inv [OF r False]])
       (auto simp: wp_simps vlan_inv_def split_beta split: option.splits intro!: event_step)
  with t inv False show ?thesis
    by (simp add: append_rule_def Let_def wp_simps) (simp add: vlan_inv_def)
qed

lemma store_rules_inv: "vlan_inv False s \<Longrightarrow> ensures (store_rules env b s) (\<lambda>(e, s). vlan_inv False s)"
  by (simp add: store_rules_def wp_simps Let_def split_beta vlan_inv_def)

lemma finish_set_inv:
  assumes inv: "vlan_inv False s"
  shows "ensures (finish_set env f m a s) (\<lambda>(e, s). vlan_inv False s)"
proof (cases a)
  case True
  have "vlan_inv True (s\<lparr>vf_locked := True\<rparr>)" using inv by (simp add: vlan_inv_def)
  then have "ensures (bind_run (append_rule env f (s\<lparr>vf_locked := True\<rparr>)) (\<lambda>(ret, s).
          case ret of
            Some res \<Rightarrow> Done (res, s)
          | None \<Rightarrow> if m then store_rules env False s else Done (None, s))) (\<lambda>(e, s). vlan_inv False s)"
    by (rule ensures_bind [OF append_rule_inv])
       (auto simp: ensures_simps(1) store_rules_inv split: option.splits)
  with True inv show ?thesis by (simp add: finish_set_def vf_lock_def vlan_inv_def)
next
  case False
  with inv show ?thesis
    by (auto simp: finish_set_def wp_simps Let_def intro!: store_rules_inv) (simp_all add: vlan_inv_def)
qed

lemma await_removal_inv:
  assumes "vlan_inv False s" "susp_ok w"
  shows "ensures (await_removal w r s) (\<lambda>(e, s). vlan_inv False s)"
  using assms
  by (auto simp: await_removal_def wp_simps vlan_inv_def split_beta split: option.splits
      intro!: ensures_mono [OF suspendAddRule_inv])

lemma set_known_rule_inv:
  assumes "vlan_inv True s" and w: "susp_ok w"
  shows "ensures (bind_run (cookie_loop w r cs st i cs False False s) (\<lambda>(aborted, m, a, s).
           if aborted then fail_flow resp CookieAddAborted s
           else bind_run (vf_unlock s) (\<lambda>s. finish_set env f m a s))) (\<lambda>(e, s). vlan_inv False s)"
  by (rule ensures_bind [OF cookie_loop_inv [OF w assms(1)]])
     (auto simp: wp_simps intro!: fail_flow_inv finish_set_inv, simp add: vlan_inv_def)

lemma set_new_rule_inv:
  assumes "vlan_inv False s" and w: "susp_ok w"
  shows "ensures (bind_run (suspendIfRequiredNewRule w cs s) (\<lambda>(d, ok, s).
           if \<not> ok then fail_flow resp RuleAddAborted s
           else if d \<noteq> 0 then bind_run (reviseFlowConstellation d r s) (\<lambda>(m, a, s). finish_set env f m a s)
           else finish_set env f True True s)) (\<lambda>(e, s). vlan_inv False s)"
  by (rule ensures_bind [OF suspendIfRequired_inv [OF assms]])
     (auto intro!: fail_flow_inv finish_set_inv ensures_bind [OF revise_inv])

lemma SetUniFlowParams_inv:
  assumes inv: "vlan_inv False s" and w: "susp_ok w1" "susp_ok w2"
  shows "ensures (SetUniFlowParams env w1 w2 tp cs mv mp sv sp ic lr lb meter resp s) (\<lambda>(e, s). vlan_inv False s)"
  unfolding SetUniFlowParams_def Let_def
proof (rule ensures_bind [OF await_removal_inv [OF inv w(1)]], goal_cases)
  case (1 x)
  obtain e t where x: "x = (e, t)" by fastforce
  let ?t = "t\<lparr>lastFlowToReconcile := lr, lastFlowToConfigOnReboot := lb\<rparr>"
  have t: "vlan_inv False t" "vlan_inv True (?t\<lparr>vf_locked := True\<rparr>)" "vlan_inv False (?t\<lparr>vf_locked := False\<rparr>)"
    "vf_lock ?t = Done (?t\<lparr>vf_locked := True\<rparr>)"
    using 1 by (simp_all add: x vlan_inv_def vf_lock_def)
  show ?case
    using t(1,4) set_known_rule_inv [OF t(2) w(2)] set_new_rule_inv [OF t(3) w(2)]
    by (simp add: x fail_flow_inv vf_unlock_def split: option.splits)
qed

subsection \<open>All operations\<close>

datatype vlan_op =
    OpSet suspension suspension u8 "u64 list" u16 u8 u16 u8 u16 bool bool "nat option" "nat option"
  | OpRemove u64 "nat option"
  | OpTask nat
  | OpEvent vlan_event "u8 option"
  | OpCancel
  | OpMessage omci_response
  | OpRemovePendingQuery

fun vlan_step :: "vlan_env \<times> vlan_op \<Rightarrow> UniVlanConfigFsm \<Rightarrow> UniVlanConfigFsm run" where
  "vlan_step (env, OpSet w1 w2 tp cs mv mp sv sp ic lr lb meter resp) s =
     bind_run (SetUniFlowParams env w1 w2 tp cs mv mp sv sp ic lr lb meter resp s) (\<lambda>(e, s). Done s)"
| "vlan_step (env, OpRemove c resp) s = bind_run (RemoveUniFlowParams env c resp s) (\<lambda>(e, s). Done s)"
| "vlan_step (env, OpTask i) s = run_nth_task env i s"
| "vlan_step (env, OpEvent ev arg) s = bind_run (vlan_fire env ev arg s) (\<lambda>(e, s). Done s)"
| "vlan_step (env, OpCancel) s = CancelProcessing env s"
| "vlan_step (env, OpMessage m) s = handleOmciVlanConfigMessage env m s"
| "vlan_step (env, OpRemovePendingQuery) s = bind_run (IsFlowRemovePending s) (\<lambda>(b, s). Done s)"

fun op_ok :: "vlan_env \<times> vlan_op \<Rightarrow> bool" where
  "op_ok (env, OpSet w1 w2 tp cs mv mp sv sp ic lr lb meter resp) \<longleftrightarrow> susp_ok w1 \<and> susp_ok w2"
| "op_ok (env, op) \<longleftrightarrow> True"

lemma drop_result_inv:
  "ensures r (\<lambda>(e, s). vlan_inv False s) \<Longrightarrow> ensures (bind_run r (\<lambda>(e, s). Done s)) (vlan_inv False)"
  by (erule ensures_bind) (auto simp: wp_simps)

lemma CancelProcessing_inv: "vlan_inv False s \<Longrightarrow> ensures (CancelProcessing env s) (vlan_inv False)"
  unfolding CancelProcessing_def by (intro drop_result_inv vlan_fire_inv) (simp add: vlan_inv_def)

lemma handleMessage_inv: "vlan_inv False s \<Longrightarrow> ensures (handleOmciVlanConfigMessage env m s) (vlan_inv False)"
  using drop_result_inv [OF vlan_fire_inv, of s env VlanEvRxConfigVtfd None]
  by (auto simp: handleOmciVlanConfigMessage_def ensures_if ensures_simps(1) vlan_inv_def)

lemma IsFlowRemovePending_inv:
  "vlan_inv False s \<Longrightarrow> ensures (IsFlowRemovePending s) (\<lambda>(b, s). vlan_inv False s)"
  by (simp add: IsFlowRemovePending_def wp_simps vlan_inv_def)

lemma vlan_step_inv: "op_ok a \<Longrightarrow> vlan_inv False s \<Longrightarrow> ensures (vlan_step a s) (vlan_inv False)"
  by (induction a s rule: vlan_step.induct)
     (auto simp only: vlan_step.simps op_ok.simps intro!: drop_result_inv SetUniFlowParams_inv RemoveUniFlowParams_inv
        run_nth_task_inv vlan_fire_inv CancelProcessing_inv handleMessage_inv IsFlowRemovePending_inv)

interpretation vlan_rules: run_invariant vlan_step op_ok "vlan_inv False"
  by unfold_locales (rule vlan_step_inv)

lemma NewUniVlanConfigFsm_inv:
  "ensures (NewUniVlanConfigFsm env port tp rq acc cs mv mp sv sp ic lr lb meter resp) (vlan_inv False)"
  by (simp add: NewUniVlanConfigFsm_def initUniFlowParams_def Let_def wp_simps store_pers_def vlan_inv_def
      rules_inv_def reconcileVlanFilterList_def cVtfdTableSize_def cMaxAllowedFlows_def)

end
