(* ===== verification/Vlan_Flows.thy ===== *)
theory Vlan_Flows
  imports Vlan_Inv
begin

text \<open>
  What the VLAN machine of a UNI port (\<^verbatim>\<open>src/internal/pkg/avcfg/omci_vlan_config.go\<close>) does from the
  call that adds or removes a flow to the answer on the response channel: the requests it sends,
  the rules it keeps, what it stores. The error paths on which the mutex of the rules is not
  released, or on which an event raised inside a callback blocks the machine, are stated as such.
\<close>

subsection \<open>An undisturbed environment\<close>

text \<open>Every request is sent and answered, every store works, and the ONU is not being reconciled.\<close>

definition calm_env :: "vlan_env \<Rightarrow> bool" where
  "calm_env env \<longleftrightarrow> (\<forall>n. \<not> ve_send env n \<and> ve_wait env n = ResponseOk \<and> \<not> ve_store env n) \<and>
     \<not> ve_skipReconciling env \<and> \<not> ve_reconciling env \<and> ve_readyForOmci env"

definition requested :: "vlan_omci list \<Rightarrow> UniVlanConfigFsm \<Rightarrow> UniVlanConfigFsm" where
  "requested qs s =
     s\<lparr>vf_requests := vf_requests s + length qs, vf_waits := vf_waits s + length qs,
       vf_out := vf_out s @ map OmciRequest qs,
       pLastTxMeInstance := if qs = [] then pLastTxMeInstance s else Some (me_of_request (last qs))\<rparr>"

lemma send_request_calm:
  "calm_env env \<Longrightarrow> send_request env q s =
     (False, s\<lparr>vf_requests := vf_requests s + 1, pLastTxMeInstance := Some (me_of_request q),
               vf_out := vf_out s @ [OmciRequest q]\<rparr>)"
  by (simp add: send_request_def calm_env_def Let_def)

lemma wait_calm:
  "calm_env env \<Longrightarrow> \<not> isCanceled s \<Longrightarrow> waitforOmciResponse env s = (None, s\<lparr>vf_waits := vf_waits s + 1\<rparr>)"
  by (simp add: waitforOmciResponse_def calm_env_def Let_def)

lemma run_requests_calm:
  "calm_env env \<Longrightarrow> \<not> isCanceled s \<Longrightarrow> run_requests env qs s = Done (None, requested qs s)"
proof (induction qs arbitrary: s)
  case (Cons q qs)
  let ?s = "s\<lparr>vf_requests := vf_requests s + 1, pLastTxMeInstance := Some (me_of_request q),
       vf_out := vf_out s @ [OmciRequest q], vf_waits := vf_waits s + 1\<rparr>"
  have "requested qs ?s = requested (q # qs) s" by (simp add: requested_def)
  with Cons.IH [of ?s] Cons.prems show ?case by (simp add: send_request_calm wait_calm)
qed (simp add: requested_def)

lemma store_calm:
  "calm_env env \<Longrightarrow> store_pers env b s =
    (False, s\<lparr>vf_stores := vf_stores s + 1, vf_out := vf_out s @ [StorePers (uniVlanFlowParamsSlice s) b]\<rparr>)"
  by (simp add: store_pers_def calm_env_def)

lemmas vlan_fsm_eval = vlan_fire_def fsm_event_def fsm_transition_def fsm_matches_def vlan_fsm_events_def Let_def
lemmas vlan_locks = vf_lock_def vf_unlock_def

lemma no_delay:
  "\<forall>g \<in> set (uniVlanFlowParamsSlice s). c \<notin> set (CookieSlice g) \<Longrightarrow> delayNewRuleForCookie [c] s = (0, s)"
  by (auto simp: delayNewRuleForCookie_def list_ex_iff)

lemma calm_flags [simp]:
  "calm_env env \<Longrightarrow> \<not> ve_skipReconciling env" "calm_env env \<Longrightarrow> \<not> ve_reconciling env"
  "calm_env env \<Longrightarrow> ve_readyForOmci env"
  by (simp_all add: calm_env_def)

lemma rule_params_keeps [simp]:
  "TpID (rule_params a tp mv mp sv sp ic) = tp" "SetVid (rule_params a tp mv mp sv sp ic) = ucast sv"
  "InnerCvlan (rule_params a tp mv mp sv sp ic) = ic"
  by (simp_all add: rule_params_def Let_def)

lemma SetVid_present [simp]: "(ucast (sv :: u16) :: u32) = OFPVID_PRESENT \<longleftrightarrow> sv = 4096"
  using ucast_16_32_eq [of sv 4096] by (simp add: OFPVID_PRESENT_def)

lemma ucast_back [simp]: "(ucast (ucast (sv :: u16) :: u32) :: u16) = sv"
  by (rule bit_word_eqI) (simp add: bit_simps)

lemma event_ok:
  "fsm_transition vlan_fsm_events ev (vf_fsm s) = Some st \<Longrightarrow> st \<noteq> vf_fsm s \<Longrightarrow>
   vlan_fire env ev arg s = bind_run (vlan_enter env arg st (s\<lparr>vf_fsm := st\<rparr>)) (\<lambda>s. Done (None, s))"
  by (simp add: vlan_fire_def fsm_event_def)

lemma vlan_transitions [simp]:
  "fsm_transition vlan_fsm_events VlanEvIncrFlowConfig VlanStConfigDone = Some VlanStConfigIncrFlow"
  "fsm_transition vlan_fsm_events VlanEvRxConfigEvtocd VlanStConfigIncrFlow = Some VlanStConfigDone"
  "fsm_transition vlan_fsm_events VlanEvRemFlowConfig VlanStConfigDone = Some VlanStRemoveFlow"
  "fsm_transition vlan_fsm_events VlanEvRemFlowDone VlanStRemoveFlow = Some VlanStCleanupDone"
  "fsm_transition vlan_fsm_events VlanEvFlowDataRemoved VlanStCleanupDone = Some VlanStConfigDone"
  by (simp_all add: vlan_fsm_eval)

lemma enterConfigIncrFlow_calm:
  assumes "calm_env env" "\<not> vf_locked s" "\<not> isCanceled s" "SetVid (actual_rule s) \<noteq> OFPVID_PRESENT"
    "numVlanFilterEntries s \<noteq> 0" "unat (numVlanFilterEntries s) < 64"
  shows "enterConfigIncrFlow env s =
    (let vid = ucast (SetVid (actual_rule s)); n = numVlanFilterEntries s;
         q = CreateVtfd (vtfd_id s (TpID (actual_rule s))) (one_vid vid) 0x10 (n + 1)
     in Done (vf_go TConfigIncr ((requested [q] s)
          \<lparr>TpIDWaitingFor := 0, vlanFilterList := (vlanFilterList s)[unat n := vid],
           numVlanFilterEntries := n + 1, requestEventOffset := 0\<rparr>)))"
  using assms
  by (simp add: enterConfigIncrFlow_def vlan_locks add_vtfd_entry_def Let_def cVtfdTableSize_def
      send_request_calm wait_calm requested_def vtfd_id_def cDeviceEventOffsetAddWithKvStore_def)

subsection \<open>Adding a flow\<close>

text \<open>All rules are configured and no work is pending.\<close>

definition settled :: "UniVlanConfigFsm \<Rightarrow> bool" where
  "settled s \<longleftrightarrow> vlan_inv False s \<and> vf_fsm s = VlanStConfigDone \<and> vf_tasks s = [] \<and> uniRemoveFlowsSlice s = [] \<and>
     \<not> isCanceled s \<and> NumUniFlows s \<noteq> 0 \<and> ConfiguredUniFlow s = NumUniFlows s"

text \<open>C27: A flow with a new rule, added to a port whose rules are all configured: the tagging filter
  of its bridge port is created (for the rule's VID alone, although its entry count is that of the
  whole list), the rules are stored, the tagging table of the port gets exactly the entries of the
  rule, the caller is answered without error, and the machine ends configured with one rule
  more.\<close>

theorem new_rule_configured:
  assumes env: "calm_env env" "ve_techProfileDone env tp" "ve_multicast env tp = []"
    and s: "settled s" "unat (NumUniFlows s) < 64"
      "numVlanFilterEntries s \<noteq> 0" "unat (numVlanFilterEntries s) < 64"
    and r: "r = rule_params (acceptIncrementalEvtoOption s) tp mv mp sv sp ic" "sv \<noteq> 4096"
      "\<forall>g \<in> set (uniVlanFlowParamsSlice s). VlanRuleParams g \<noteq> r \<and> c \<notin> set (CookieSlice g)"
    and f: "f = \<lparr> Meter = None, RespChan = Some ch, CookieSlice = [c], VlanRuleParams = r \<rparr>"
  shows "\<exists>s1 s2. SetUniFlowParams env w1 w2 tp [c] mv mp sv sp ic False False None (Some ch) s = Done (None, s1) \<and>
     run_nth_task env 0 s1 = Done s2 \<and> vf_fsm s2 = VlanStConfigDone \<and> \<not> vf_locked s2 \<and>
     uniVlanFlowParamsSlice s2 = uniVlanFlowParamsSlice s @ [f] \<and>
     NumUniFlows s2 = NumUniFlows s + 1 \<and> ConfiguredUniFlow s2 = NumUniFlows s + 1 \<and>
     vlanFilterList s2 = (vlanFilterList s)[unat (numVlanFilterEntries s) := sv] \<and>
     vf_out s2 = vf_out s @
       [OmciRequest (CreateVtfd (vtfd_id s tp) (one_vid sv) 0x10 (numVlanFilterEntries s + 1)),
        StorePers (uniVlanFlowParamsSlice s @ [f]) False] @
       map OmciRequest (config_requests (pOnuUniPort s) (acceptIncrementalEvtoOption s) (evtocdID s)
                          (ConfiguredUniFlow s) r) @
       [FlowResponse ch None]"
proof -
  have fi: "find_index (\<lambda>g. VlanRuleParams g = r) (uniVlanFlowParamsSlice s) = None"
    using r(3) by (simp add: find_index_None)
  have nd: "\<forall>g \<in> set (uniVlanFlowParamsSlice s). c \<notin> set (CookieSlice g)" using r(3) by simp
  have len: "length (uniVlanFlowParamsSlice s) = unat (NumUniFlows s)" "\<not> vf_locked s"
    using s by (simp_all add: settled_def vlan_inv_def rules_inv_def)
  have nth: "(uniVlanFlowParamsSlice s @ [x]) ! unat (NumUniFlows s) = x" for x
    by (simp flip: len(1))
  have [simp]: "TpID r = tp" "SetVid r = ucast sv" using r(1) by simp_all
  note st = s(1) [unfolded settled_def]
  have lt: "\<not> 64 \<le> unat (NumUniFlows s)" using s(2) by simp
  obtain s1 where set: "SetUniFlowParams env w1 w2 tp [c] mv mp sv sp ic False False None (Some ch) s = Done (None, s1)"
    and s1: "vf_fsm s1 = VlanStConfigIncrFlow" "vf_tasks s1 = [TConfigIncr]" "\<not> vf_locked s1" "actualUniFlowParam s1 = f"
    "uniVlanFlowParamsSlice s1 = uniVlanFlowParamsSlice s @ [f]" "NumUniFlows s1 = NumUniFlows s + 1"
    "ConfiguredUniFlow s1 = NumUniFlows s" "pOnuUniPort s1 = pOnuUniPort s" "evtocdID s1 = evtocdID s"
    "acceptIncrementalEvtoOption s1 = acceptIncrementalEvtoOption s" "uniRemoveFlowsSlice s1 = []" "\<not> isCanceled s1"
    "\<not> lastFlowToReconcile s1" "\<not> lastFlowToConfigOnReboot s1"
    "vlanFilterList s1 = (vlanFilterList s)[unat (numVlanFilterEntries s) := sv]"
    "vf_out s1 = vf_out s @
       [OmciRequest (CreateVtfd (vtfd_id s tp) (one_vid sv) 0x10 (numVlanFilterEntries s + 1)),
        StorePers (uniVlanFlowParamsSlice s @ [f]) False]"
    by atomize_elim
      (simp add: SetUniFlowParams_def r(1)[symmetric] f await_removal_def vlan_locks st suspendIfRequiredNewRule_def Let_def
        finish_set_def append_rule_def cMaxAllowedFlows_def cVtfdTableSize_def no_delay nd len trigger_rule_def fi env nth s
        event_ok vlan_enter_def enterConfigIncrFlow_calm r(2) requested_def store_rules_def store_calm lt vtfd_id_def)
  obtain s2 where "run_nth_task env 0 s1 = Done s2" "vf_fsm s2 = VlanStConfigDone" "\<not> vf_locked s2"
     "uniVlanFlowParamsSlice s2 = uniVlanFlowParamsSlice s @ [f]"
     "NumUniFlows s2 = NumUniFlows s + 1" "ConfiguredUniFlow s2 = NumUniFlows s + 1"
     "vlanFilterList s2 = vlanFilterList s1"
     "vf_out s2 = vf_out s1 @ map OmciRequest (config_requests (pOnuUniPort s) (acceptIncrementalEvtoOption s) (evtocdID s)
                          (ConfiguredUniFlow s) r) @ [FlowResponse ch None]"
    using s1 env st
    by atomize_elim
      (simp add: run_nth_task_def cut_out_def run_task_def config_task_def performConfigEvtocdEntries_def run_requests_calm
        requested_def vlan_locks after_config_def Let_def f event_ok vlan_enter_def enterVlanConfigDone_def
        pushReponseOnFlowResponseChannel_def)
  with set s1 show ?thesis by fastforce
qed

definition sample_env :: vlan_env where
  "sample_env = \<lparr> ve_techProfileDone = (\<lambda>_. True), ve_skipReconciling = False, ve_reconciling = False,
     ve_readyForOmci = True, ve_send = (\<lambda>_. False), ve_wait = (\<lambda>_. ResponseOk), ve_store = (\<lambda>_. False),
     ve_multicast = (\<lambda>_. []), ve_trafficDescriptors = (\<lambda>_. []), ve_flowDeleteChannelFree = True \<rparr>"

definition sample_flow :: "u16 \<Rightarrow> u64 list \<Rightarrow> UniVlanFlowParams" where
  "sample_flow v cs = \<lparr> Meter = None, RespChan = None, CookieSlice = cs, VlanRuleParams = sample_rule v \<rparr>"

text \<open>A port with the given rules, all of them configured.\<close>

definition sample_fsm :: "UniVlanFlowParams list \<Rightarrow> UniVlanConfigFsm" where
  "sample_fsm fs =
     \<lparr> actualUniFlowParam = zero_flow, pOnuUniPort = NewOnuUniPort 0 1 257 UniPPTP, uniVlanFlowParamsSlice = fs,
       uniRemoveFlowsSlice = [], requestEvent = 11, delayNewRuleCookie = 0,
       vlanFilterList = map (\<lambda>f. ucast (SetVid (VlanRuleParams f))) fs @ replicate (64 - length fs) 0, evtocdID = 513,
       acceptIncrementalEvtoOption = True, isCanceled = False, pLastTxMeInstance = None,
       NumUniFlows = of_nat (length fs), ConfiguredUniFlow = of_nat (length fs),
       numVlanFilterEntries = of_nat (length fs), requestEventOffset = 0, TpIDWaitingFor = 0,
       signalOnFlowDelete = False, lastFlowToReconcile = False, lastFlowToConfigOnReboot = False,
       vf_locked = False, vf_fsm = VlanStConfigDone, vf_tasks = [], vf_requests = 0, vf_waits = 0,
       vf_stores = 0, vf_out = [] \<rparr>"

lemma sample_calm: "calm_env sample_env"
  by (simp add: calm_env_def sample_env_def)

definition no_suspension :: suspension where
  "no_suspension = \<lparr> su_others = (\<lambda>s. s), su_outcome = SuspResumed True \<rparr>"

theorem new_rule_configured_witness:
  "\<exists>s1 s2. SetUniFlowParams sample_env no_suspension no_suspension 64 [7] 6 8 106 3 0 False False None (Some 1)
       (sample_fsm [sample_flow 5 [3]]) = Done (None, s1) \<and>
     run_nth_task sample_env 0 s1 = Done s2 \<and> length (uniVlanFlowParamsSlice s2) = 2 \<and> ConfiguredUniFlow s2 = 2"
proof -
  let ?s = "sample_fsm [sample_flow 5 [3]]"
  have "settled ?s" by (simp add: settled_def vlan_inv_def rules_inv_def sample_fsm_def cMaxAllowedFlows_def cVtfdTableSize_def)
  then obtain s1 s2 where "SetUniFlowParams sample_env no_suspension no_suspension 64 [7] 6 8 106 3 0 False False None (Some 1) ?s = Done (None, s1)"
    "run_nth_task sample_env 0 s1 = Done s2" "uniVlanFlowParamsSlice s2 = uniVlanFlowParamsSlice ?s @ [\<lparr> Meter = None, RespChan = Some 1, CookieSlice = [7], VlanRuleParams = rule_params True 64 6 8 106 3 0\<rparr>]"
     "ConfiguredUniFlow s2 = NumUniFlows ?s + 1"
    using new_rule_configured [OF sample_calm, of 64 ?s "rule_params True 64 6 8 106 3 0" 6 8 106 3 0 7 _ 1 no_suspension no_suspension, OF _ _ _ _ _ _ _ _ _ refl]
    by (auto simp: sample_env_def sample_fsm_def sample_flow_def sample_rule_def rule_params_def Let_def OFPVID_PRESENT_def)
  then show ?thesis by (auto simp: sample_fsm_def)
qed

subsection \<open>Removing a flow\<close>

lemma find_index_eq [simp]: "find_index (\<lambda>x. x = c) [c] = Some 0"
  by simp

lemma find_rule_at:
  "\<forall>h \<in> set fs. c \<notin> set (CookieSlice h) \<Longrightarrow> CookieSlice g = [c] \<Longrightarrow>
   find_rule c i (fs @ g # gs) = Some (i + length fs, 0)"
proof (induction fs arbitrary: i)
  case (Cons h fs)
  have "find_index (\<lambda>x. x = c) (CookieSlice h) = None" using Cons.prems(1) by (auto simp: find_index_None)
  with Cons show ?case by simp
qed simp

lemma find_cookie_at:
  "\<forall>h \<in> set fs. c \<notin> set (CookieSlice h) \<and> CookieSlice h \<noteq> [] \<Longrightarrow> CookieSlice g = [c] \<Longrightarrow>
   find_cookie c i (fs @ g # gs) = Inr (Some (i + length fs))"
  by (induction fs arbitrary: i) auto

lemma cut_out_at [simp]: "cut_out (length fs) (fs @ g # gs) = fs @ gs"
  by (simp add: cut_out_def)

lemma cut_out_nth:
  "pos < length xs \<Longrightarrow> i < length xs - 1 \<Longrightarrow> cut_out pos xs ! i = (if i < pos then xs ! i else xs ! (i + 1))"
  by (auto simp: cut_out_def nth_append)

lemma list_without_cuts:
  assumes "pos < n" "n < cVtfdTableSize" "length l = cVtfdTableSize"
  shows "take (n - 1) (list_without n pos l) = cut_out pos (take n l)"
proof (rule nth_equalityI)
  show "length (take (n - 1) (list_without n pos l)) = length (cut_out pos (take n l))"
    using assms by (simp add: list_without_def cut_out_def)
  fix i assume "i < length (take (n - 1) (list_without n pos l))"
  then have i: "i < n - 1" using assms by (simp add: list_without_def)
  then show "take (n - 1) (list_without n pos l) ! i = cut_out pos (take n l) ! i"
    using assms by (auto simp: list_without_def cut_out_nth nth_append cVtfdTableSize_def)
qed

text \<open>C28: Removing the only flow of a rule, with other rules left: the tagging filter is deleted,
  the entries of the rule are cleared, the remaining rules are stored, the caller is answered
  without error, the filter list loses the VID at its place and keeps the order of the others, and
  the machine ends configured with the remaining rules. The tech profile of the rule is in no case
  marked for deletion.\<close>

theorem rule_removed:
  assumes env: "calm_env env"
    and s: "settled s" "uniVlanFlowParamsSlice s = fs @ g # gs" "fs @ gs \<noteq> []"
      "n = numVlanFilterEntries s" "2 \<le> unat n" "unat n < 64" "delayNewRuleCookie s = 0" "\<not> signalOnFlowDelete s"
      "\<not> lastFlowToReconcile s" "\<not> lastFlowToConfigOnReboot s"
    and g: "VlanRuleParams g = r" "SetVid r \<noteq> OFPVID_PRESENT" "CookieSlice g = [c]" "c \<noteq> 0"
      "\<forall>h \<in> set fs. c \<notin> set (CookieSlice h) \<and> CookieSlice h \<noteq> []"
      "find_index (\<lambda>v. ucast v = SetVid r) (take (unat n) (vlanFilterList s)) = Some pos"
  shows "\<exists>s1 s2 s3. RemoveUniFlowParams env c (Some ch) s = Done (None, s1) \<and>
     run_nth_task env 0 s1 = Done s2 \<and> run_nth_task env 0 s2 = Done s3 \<and>
     vf_fsm s3 = VlanStConfigDone \<and> \<not> vf_locked s3 \<and> uniVlanFlowParamsSlice s3 = fs @ gs \<and>
     NumUniFlows s3 = NumUniFlows s - 1 \<and> ConfiguredUniFlow s3 = NumUniFlows s - 1 \<and> uniRemoveFlowsSlice s3 = [] \<and>
     numVlanFilterEntries s3 = n - 1 \<and>
     take (unat n - 1) (vlanFilterList s3) = cut_out pos (take (unat n) (vlanFilterList s)) \<and>
     vf_out s3 = vf_out s @ [OmciRequest (DeleteVtfd (vtfd_id s (TpID r)))] @
       map OmciRequest (removal_requests (acceptIncrementalEvtoOption s) (evtocdID s) (ConfiguredUniFlow s) r) @
       [StorePers (fs @ gs) False, FlowResponse ch None] @
       (case RespChan (actualUniFlowParam s) of None \<Rightarrow> [] | Some a \<Rightarrow> [FlowResponse a None])"
proof -
  note st = s(1) [unfolded settled_def vlan_inv_def rules_inv_def]
  have fl: "find_rule c 0 (fs @ g # gs) = Some (length fs, 0)" using g by (subst find_rule_at) auto
  have fc: "find_cookie c 0 (fs @ g # gs) = Inr (Some (length fs))" using g by (subst find_cookie_at) auto
  have pos: "pos < unat n" using find_index_Some [OF g(6)] by simp
  have n1: "n \<noteq> 1" using s(5) by auto
  have ne: "fs = [] \<longrightarrow> gs \<noteq> []" "\<not> (fs = [] \<and> gs = [])" "\<not> 64 \<le> unat n" using s(3,6) by auto
  have len: "length (vlanFilterList s) = 64" "unat (NumUniFlows s) = Suc (length fs + length gs)"
    using st s(2) by (simp_all add: cVtfdTableSize_def)
  have pn: "0 < NumUniFlows s" using st by (simp add: word_gt_0)
  obtain s1 where rm: "RemoveUniFlowParams env c (Some ch) s = Done (None, s1)"
    and s1: "vf_fsm s1 = VlanStRemoveFlow" "vf_tasks s1 = [TRemoveEvtocd r]" "\<not> vf_locked s1"
      "uniVlanFlowParamsSlice s1 = fs @ g # gs" "NumUniFlows s1 = NumUniFlows s" "ConfiguredUniFlow s1 = NumUniFlows s"
      "uniRemoveFlowsSlice s1 = [\<lparr> rm_respChan = Some ch, rm_cookie = c, rm_vlanRuleParams = r, rm_isSuspendedOnAdd = False \<rparr>]"
      "acceptIncrementalEvtoOption s1 = acceptIncrementalEvtoOption s" "evtocdID s1 = evtocdID s" "\<not> isCanceled s1"
      "delayNewRuleCookie s1 = 0" "\<not> signalOnFlowDelete s1" "\<not> lastFlowToReconcile s1" "\<not> lastFlowToConfigOnReboot s1"
      "actualUniFlowParam s1 = actualUniFlowParam s" "numVlanFilterEntries s1 = n - 1"
      "vlanFilterList s1 = take (unat n + 1) (list_without (unat n) pos (vlanFilterList s)) @
         drop (unat n + 1) (vlanFilterList s)"
      "vf_out s1 = vf_out s @ [OmciRequest (DeleteVtfd (vtfd_id s (TpID r)))]"
    by atomize_elim
      (simp add: RemoveUniFlowParams_def Let_def vlan_locks st s(2) fl g removeRuleComplete_def
        updateTechProfileToDelete_def ne event_ok vlan_enter_def enterRemoveFlow_def remove_vtfd_entry_def s(4)[symmetric]
        s(7-10) n1 clear_vtfd_def env send_request_calm wait_calm cVtfdTableSize_def vtfd_id_def)
  obtain s2 where s2: "run_nth_task env 0 s1 = Done s2"
    "vf_fsm s2 = VlanStCleanupDone" "vf_tasks s2 = [TEvent VlanEvFlowDataRemoved None]" "\<not> vf_locked s2"
      "uniVlanFlowParamsSlice s2 = fs @ gs" "NumUniFlows s2 = NumUniFlows s - 1" "ConfiguredUniFlow s2 = NumUniFlows s - 1"
      "uniRemoveFlowsSlice s2 = []" "\<not> lastFlowToReconcile s2" "\<not> lastFlowToConfigOnReboot s2"
      "actualUniFlowParam s2 = actualUniFlowParam s" "numVlanFilterEntries s2 = n - 1"
      "vlanFilterList s2 = vlanFilterList s1"
      "vf_out s2 = vf_out s1 @
       map OmciRequest (removal_requests (acceptIncrementalEvtoOption s) (evtocdID s) (ConfiguredUniFlow s) r) @
       [StorePers (fs @ gs) False, FlowResponse ch None]"
    using s1 env st g(4)
    by atomize_elim
      (simp add: run_nth_task_def cut_out_def run_task_def removeEvtocdEntries_def run_requests_calm requested_def
        event_ok vlan_enter_def enterVlanCleanupDone_def vlan_locks removeFlowFromParamsSlice_def fc Let_def ne
        store_calm pushReponseOnFlowResponseChannel_def pn)
  obtain s3 where s3: "run_nth_task env 0 s2 = Done s3" "vf_fsm s3 = VlanStConfigDone" "\<not> vf_locked s3"
      "uniVlanFlowParamsSlice s3 = fs @ gs" "NumUniFlows s3 = NumUniFlows s - 1" "ConfiguredUniFlow s3 = NumUniFlows s - 1"
      "uniRemoveFlowsSlice s3 = []" "numVlanFilterEntries s3 = n - 1" "vlanFilterList s3 = vlanFilterList s1"
      "vf_out s3 = vf_out s2 @
        (case RespChan (actualUniFlowParam s) of None \<Rightarrow> [] | Some a \<Rightarrow> [FlowResponse a None])"
    by atomize_elim
      (simp add: s2(2-13) env ne run_nth_task_def cut_out_def run_task_def event_ok vlan_enter_def enterVlanConfigDone_def vlan_locks
        Let_def pushReponseOnFlowResponseChannel_def split: option.splits)
  have cut: "take (unat n - 1) (vlanFilterList s1) = cut_out pos (take (unat n) (vlanFilterList s))"
    using list_without_cuts [OF pos, of "vlanFilterList s"] s1(17) len s(6)
    by (simp add: cVtfdTableSize_def length_list_without)
  show ?thesis
    by (rule exI [of _ s1], rule exI [of _ s2], rule exI [of _ s3]) (simp add: rm s1(18) s2 s3 cut [simplified])
qed

theorem rule_removed_witness:
  "\<exists>s1 s2 s3. RemoveUniFlowParams sample_env 7 (Some 1) (sample_fsm [sample_flow 5 [3], sample_flow 6 [7]]) = Done (None, s1) \<and>
     run_nth_task sample_env 0 s1 = Done s2 \<and> run_nth_task sample_env 0 s2 = Done s3 \<and>
     uniVlanFlowParamsSlice s3 = [sample_flow 5 [3]] \<and> NumUniFlows s3 = 1"
proof -
  let ?s = "sample_fsm [sample_flow 5 [3], sample_flow 6 [7]]"
  let ?g = "sample_flow 6 [7]"
  have st: "settled ?s"
    by (simp add: settled_def vlan_inv_def rules_inv_def sample_fsm_def cMaxAllowedFlows_def cVtfdTableSize_def)
  have p: "uniVlanFlowParamsSlice ?s = [sample_flow 5 [3]] @ ?g # []" "[sample_flow 5 [3]] @ [] \<noteq> []"
    "2 = numVlanFilterEntries ?s" "2 \<le> unat (2 :: u8)" "unat (2 :: u8) < 64" "delayNewRuleCookie ?s = 0"
    "\<not> signalOnFlowDelete ?s" "\<not> lastFlowToReconcile ?s" "\<not> lastFlowToConfigOnReboot ?s"
    "VlanRuleParams ?g = sample_rule 6" "SetVid (sample_rule 6) \<noteq> OFPVID_PRESENT" "CookieSlice ?g = [7]" "(7 :: u64) \<noteq> 0"
    "\<forall>h \<in> set [sample_flow 5 [3]]. 7 \<notin> set (CookieSlice h) \<and> CookieSlice h \<noteq> []"
    "find_index (\<lambda>v. ucast v = SetVid (sample_rule 6)) (take (unat (2 :: u8)) (vlanFilterList ?s)) = Some 1"
    by (simp_all add: sample_fsm_def sample_flow_def sample_rule_def OFPVID_PRESENT_def)
  obtain s1 s2 s3 where "RemoveUniFlowParams sample_env 7 (Some 1) ?s = Done (None, s1)"
    "run_nth_task sample_env 0 s1 = Done s2" "run_nth_task sample_env 0 s2 = Done s3"
    "uniVlanFlowParamsSlice s3 = [sample_flow 5 [3]] @ []" "NumUniFlows s3 = NumUniFlows ?s - 1"
    using rule_removed [OF sample_calm st p, of 1] by (elim exE conjE) (rule that)
  then show ?thesis by (intro exI conjI) (assumption, assumption, assumption, simp_all add: sample_fsm_def)
qed

subsection \<open>The rules over the life of the machine\<close>

text \<open>C29: From its creation on, after any sequence of added and removed flows, events,
  responses, cancellations and background work (with whatever happens while a flow is suspended
  keeping the rules consistent too), a VLAN machine that has not failed has exactly as many rules
  as its counter tells, at most 64 of them, a filter list of 64 places with at most 64 in use, and
  its mutex free.\<close>

theorem vlan_rules_invariant:
  assumes "NewUniVlanConfigFsm env port tp rq acc cs mv mp sv sp ic lr lb meter resp = Done s0"
    and "\<forall>a \<in> set ops. op_ok a" "run_steps vlan_step ops s0 = Done s"
  shows "length (uniVlanFlowParamsSlice s) = unat (NumUniFlows s) \<and> unat (NumUniFlows s) \<le> 64 \<and>
         length (vlanFilterList s) = 64 \<and> unat (numVlanFilterEntries s) \<le> 64 \<and> \<not> vf_locked s"
proof -
  have "vlan_inv False s0" using NewUniVlanConfigFsm_inv assms(1) by (rule ensuresD)
  from ensuresD [OF vlan_rules.steps_inv [OF assms(2) this] assms(3)] show ?thesis
    by (simp add: vlan_inv_def rules_inv_def cMaxAllowedFlows_def cVtfdTableSize_def)
qed

definition sample_ops :: "(vlan_env \<times> vlan_op) list" where
  "sample_ops = [(sample_env, OpEvent VlanEvStart None), (sample_env, OpTask 0), (sample_env, OpTask 0),
     (sample_env, OpMessage \<lparr> rs_type = CreateResponse, rs_layer = True, rs_class = 84, rs_instance = 4289,
        rs_result = 0 \<rparr>), (sample_env, OpTask 0),
     (sample_env, OpSet no_suspension no_suspension 65 [9] 6 8 106 3 0 False False None (Some 1)),
     (sample_env, OpTask 1), (sample_env, OpRemove 9 None), (sample_env, OpTask 2), (sample_env, OpTask 2)]"

definition sample_run :: "UniVlanConfigFsm run" where
  "sample_run = bind_run (NewUniVlanConfigFsm sample_env (NewOnuUniPort 0 1 257 UniPPTP) 64 11 True [3] 5 8 105 3 0
     False False None None) (run_steps vlan_step sample_ops)"

theorem vlan_rules_invariant_witness:
  "\<exists>s. sample_run = Done s \<and> vf_fsm s = VlanStConfigDone \<and> NumUniFlows s = 1 \<and>
     length (uniVlanFlowParamsSlice s) = unat (NumUniFlows s)"
proof -
  have "case sample_run of Done s \<Rightarrow> vf_fsm s = VlanStConfigDone \<and> NumUniFlows s = 1 | _ \<Rightarrow> False" by code_simp
  then obtain s where s: "sample_run = Done s" "vf_fsm s = VlanStConfigDone \<and> NumUniFlows s = 1" by (auto split: run.splits)
  then obtain s0 where s0: "NewUniVlanConfigFsm sample_env (NewOnuUniPort 0 1 257 UniPPTP) 64 11 True [3] 5 8 105 3 0
     False False None None = Done s0" "run_steps vlan_step sample_ops s0 = Done s"
    by (auto simp: sample_run_def bind_run_eq_Done)
  have "\<forall>a \<in> set sample_ops. op_ok a" by (simp add: sample_ops_def no_suspension_def susp_ok_def)
  from vlan_rules_invariant [OF s0(1) this s0(2)] s show ?thesis by blast
qed

subsection \<open>Failures that block the port\<close>

text \<open>When the tagging filter for an additional rule cannot be created, the machine raises its
  reset event inside the callback of the running event and blocks for ever.\<close>

theorem vtfd_failure_deadlocks:
  assumes "vf_fsm s = VlanStConfigDone \<or> vf_fsm s = VlanStIncrFlowWaitTP" "\<not> vf_locked s"
    "\<not> ve_skipReconciling env" "SetVid (actual_rule s) \<noteq> OFPVID_PRESENT"
    "numVlanFilterEntries s \<noteq> 0" "unat (numVlanFilterEntries s) < 64" "ve_send env (vf_requests s)"
  shows "vlan_fire env VlanEvIncrFlowConfig None s = Deadlock"
  using assms
  by (auto simp: vlan_fsm_eval vlan_enter_def enterConfigIncrFlow_def vlan_locks add_vtfd_entry_def
      send_request_def cVtfdTableSize_def)

definition failing_env :: vlan_env where
  "failing_env = sample_env\<lparr>ve_send := (\<lambda>_. True), ve_store := (\<lambda>_. True)\<rparr>"

theorem vtfd_failure_deadlocks_witness:
  "vlan_fire failing_env VlanEvIncrFlowConfig None
     ((sample_fsm [sample_flow 5 [3], sample_flow 6 [7]])\<lparr>actualUniFlowParam := sample_flow 6 [7]\<rparr>) = Deadlock"
  by (rule vtfd_failure_deadlocks)
    (simp_all add: sample_fsm_def sample_flow_def failing_env_def sample_env_def sample_rule_def OFPVID_PRESENT_def)

lemma removeFlow_keeps:
  "vf_locked (snd (removeFlowFromParamsSlice env c b s)) = vf_locked s"
  "vf_fsm (snd (removeFlowFromParamsSlice env c b s)) = vf_fsm s"
  "ve_store env (vf_stores s) \<Longrightarrow> fst (removeFlowFromParamsSlice env c b s) \<noteq> None"
  by (simp_all add: removeFlowFromParamsSlice_def store_pers_def Let_def pushReponseOnFlowResponseChannel_def
      split: sum.splits option.splits)

lemma push_keeps [simp]:
  "vf_locked (pushReponseOnFlowResponseChannel ch e s) = vf_locked s"
  "isCanceled (pushReponseOnFlowResponseChannel ch e s) = isCanceled s"
  by (simp_all add: pushReponseOnFlowResponseChannel_def split: option.splits)

lemma reset_locked [simp]:
  "vf_locked (reset_removals s) = vf_locked s" "vf_locked (reset_rules s) = vf_locked s"
proof -
  have "vf_locked (fold (\<lambda>rm s. pushReponseOnFlowResponseChannel (rm_respChan rm)
                    (if isCanceled s then None else Some InternalError)
                    (if rm_isSuspendedOnAdd rm then vf_emit (ResumeSuspendedAdd False) s else s)) rs s) = vf_locked s" for rs
    by (induction rs arbitrary: s) auto
  then show "vf_locked (reset_removals s) = vf_locked s" by (simp only: reset_removals_def)
  have "vf_locked (fold (\<lambda>f s. pushReponseOnFlowResponseChannel (RespChan f)
                   (Some (if isCanceled s then ConfigCancelled else InternalError)) s) fs s) = vf_locked s" for fs
    by (induction fs arbitrary: s) auto
  then show "vf_locked (reset_rules s) = vf_locked s" by (simp only: reset_rules_def)
qed

lemma enterResetting_unlocked:
  assumes "\<not> vf_locked s"
  obtains s' where "enterResetting s = Done s'" "\<not> vf_locked s'"
  using assms that by (cases "delayNewRuleCookie s = 0") (simp_all add: enterResetting_def vlan_locks)

lemma vlan_reset_transition [simp]:
  "fsm_transition vlan_fsm_events VlanEvReset VlanStWaitingTechProf = Some VlanStResetting"
  by (simp add: fsm_transition_def fsm_matches_def vlan_fsm_events_def Let_def)

lemma reset_unlocked:
  assumes "\<not> vf_locked s" "vf_fsm s = VlanStWaitingTechProf"
  obtains s' where "vlan_fire env VlanEvReset arg s = Done (None, s')" "\<not> vf_locked s'"
proof -
  obtain s' where "enterResetting (s\<lparr>vf_fsm := VlanStResetting\<rparr>) = Done s'" "\<not> vf_locked s'"
    using enterResetting_unlocked [of "s\<lparr>vf_fsm := VlanStResetting\<rparr>"] assms(1) by auto
  with assms(2) that show ?thesis by (simp add: event_ok vlan_enter_def)
qed

text \<open>Removing the flow of a rule that still waits for its tech profile, with a failing store:
  the mutex of the rules is released twice, which ends the adapter.\<close>

theorem aborted_add_store_failure:
  assumes "\<not> vf_locked s" "vf_fsm s = VlanStWaitingTechProf" "find_rule c 0 (uniVlanFlowParamsSlice s) = Some (i, j)"
    "length (CookieSlice (uniVlanFlowParamsSlice s ! i)) = 1" "ve_store env (vf_stores s)"
  shows "RemoveUniFlowParams env c resp s = Fatal ''sync: unlock of unlocked mutex''"
proof -
  let ?l = "s\<lparr>vf_locked := True\<rparr>"
  obtain e t where t: "removeFlowFromParamsSlice env c False ?l = (Some e, t)" "vf_locked t" "vf_fsm t = VlanStWaitingTechProf"
    using removeFlow_keeps [where env = env and c = c and b = False and s = ?l] assms(2,5)
    by (cases "removeFlowFromParamsSlice env c False ?l") auto
  obtain t' where t': "vlan_fire env VlanEvReset None (t\<lparr>vf_locked := False\<rparr>) = Done (None, t')" "\<not> vf_locked t'"
    using reset_unlocked [of "t\<lparr>vf_locked := False\<rparr>"] t(3) by auto
  show ?thesis
    using assms t t' by (simp add: RemoveUniFlowParams_def Let_def vlan_locks removeRuleComplete_def)
qed

definition awaiting_fsm :: UniVlanConfigFsm where
  "awaiting_fsm = (sample_fsm [sample_flow 5 [3]])\<lparr>vf_fsm := VlanStWaitingTechProf\<rparr>"

theorem aborted_add_store_failure_witness:
  "RemoveUniFlowParams failing_env 3 None awaiting_fsm = Fatal ''sync: unlock of unlocked mutex''"
  by (rule aborted_add_store_failure [where i = 0 and j = 0])
    (simp_all add: awaiting_fsm_def sample_fsm_def sample_flow_def failing_env_def)

subsection \<open>Leaving the machine\<close>

definition all_vlan_states :: "vlan_state list" where
  "all_vlan_states = [VlanStDisabled, VlanStPreparing, VlanStStarting, VlanStWaitingTechProf, VlanStConfigVtfd,
     VlanStConfigEvtocd, VlanStConfigDone, VlanStIncrFlowWaitTP, VlanStConfigIncrFlow, VlanStRemoveFlow,
     VlanStCleanupDone, VlanStResetting]"

definition vlan_stop :: "vlan_state \<Rightarrow> vlan_event list" where
  "vlan_stop st =
     (case st of VlanStDisabled \<Rightarrow> [] | VlanStResetting \<Rightarrow> [VlanEvRestart]
      | VlanStIncrFlowWaitTP \<Rightarrow> [VlanEvIncrFlowConfig, VlanEvReset, VlanEvRestart]
      | _ \<Rightarrow> [VlanEvReset, VlanEvRestart])"

lemmas vlan_table = fsm_transition_def fsm_matches_def vlan_fsm_events_def Let_def

interpretation vlan_fsm: fsm_table vlan_fsm_events VlanStDisabled all_vlan_states vlan_stop VlanStDisabled
proof (unfold_locales, goal_cases)
  case (4 s)
  show ?case by (cases s) (simp_all add: vlan_stop_def vlan_table)
qed (auto simp: vlan_fsm_events_def fsm_det_def fsm_states_ok_def all_vlan_states_def)

lemma all_vlan_states: "s \<in> set all_vlan_states"
  by (cases s) (simp_all add: all_vlan_states_def)

text \<open>The VLAN machine can return to its disabled state from every state, but the reset event
  is defined in all states except three: besides the resetting and the disabled state it is
  missing where an additional rule waits for its tech profile. There a cancellation, as on the
  deletion of the device, only leaves its mark and the machine goes on waiting.\<close>

theorem vlan_reset_gap:
  "fsm_reach vlan_fsm_events st VlanStDisabled \<and>
   (fsm_transition vlan_fsm_events VlanEvReset st = None \<longleftrightarrow>
     st \<in> {VlanStIncrFlowWaitTP, VlanStResetting, VlanStDisabled}) \<and>
   CancelProcessing env (s\<lparr>vf_fsm := VlanStIncrFlowWaitTP\<rparr>) = Done (s\<lparr>isCanceled := True, vf_fsm := VlanStIncrFlowWaitTP\<rparr>)"
proof (intro conjI)
  show "fsm_reach vlan_fsm_events st VlanStDisabled"
    by (rule vlan_fsm.reach_fold [OF vlan_fsm.stop_ok [OF all_vlan_states]])
  show "(fsm_transition vlan_fsm_events VlanEvReset st = None) \<longleftrightarrow>
     st \<in> {VlanStIncrFlowWaitTP, VlanStResetting, VlanStDisabled}"
    by (cases st) (simp_all add: vlan_table)
  show "CancelProcessing env (s\<lparr>vf_fsm := VlanStIncrFlowWaitTP\<rparr>) = Done (s\<lparr>isCanceled := True, vf_fsm := VlanStIncrFlowWaitTP\<rparr>)"
    by (simp add: CancelProcessing_def vlan_fsm_eval)
qed

end
