(* ===== verification/Tech_Prof.thy ===== *)
theory Tech_Prof
  imports Dev_Db Common_Utils Fsm
begin

text \<open>
  The tech profiles of the UNI ports of an ONU
  (\<^verbatim>\<open>src/internal/pkg/avcfg/onu_uni_tp.go\<close>) and the data of the machine that configures the
  ANI side for a profile (\<^verbatim>\<open>src/internal/pkg/avcfg/omci_ani_config.go\<close>): the tables per UNI
  and profile, the translation of a profile instance into T-CONT and GEM port parameters, and
  the T-CONT instances the device entry hands out (\<^verbatim>\<open>src/internal/pkg/mib/onu_device_entry.go\<close>).

  The tables and the machines that write to them are one state, the record \<open>OnuUniTechProf\<close>.
  Its mutex guards critical sections; a section is one atomic step (\<open>tp_section\<close>) that needs the
  mutex free, and the one call chain that keeps the mutex over other calls sets the flag.
\<close>

subsection \<open>Parameters of a profile\<close>

definition cGemDirUniToAni :: u8 where "cGemDirUniToAni = 1"
definition cGemDirAniToUni :: u8 where "cGemDirAniToUni = 2"
definition cGemDirBiDirect :: u8 where "cGemDirBiDirect = 3"
definition binaryStringPrefix :: string where "binaryStringPrefix = ''0b''"

datatype ResourceEntry = CResourceGemPort | CResourceTcont

record tTechProfileIndication =
  techProfileType :: string
  techProfileID :: u8
  techProfileConfigDone :: bool
  techProfileToDelete :: bool

record tcontParamStruct =
  allocID :: u16
  schedPolicy :: u8

record gemPortParamStruct =
  pbitString :: string
  discardPolicy :: string
  queueSchedPolicy :: string
  staticACL :: string
  dynamicACL :: string
  gemPortID :: u16
  removeGemID :: u16
  multicastGemPortID :: u16
  direction :: u8
  gemPortEncState :: u8
  prioQueueIndex :: u8
  queueWeight :: u8
  isMulticast :: bool

type_synonym gem_map = "(u16 \<times> gemPortParamStruct) list"

record tcontGemList =
  mapGemPortParams :: gem_map
  tcontParams :: tcontParamStruct

text \<open>\<^verbatim>\<open>UniTP\<close>: UNI and profile.\<close>

type_synonym UniTP = "u8 \<times> u8"

text \<open>The profile instance handed over by the OLT adapter, as far as it is read; the two policies
  are given by the names of their values.\<close>

record SchedulerAttributes =
  sa_AllocId :: u32
  sa_QSchedPolicy :: string

record GemPortAttributes =
  ga_GemportId :: u32
  ga_PbitMap :: string
  ga_AesEncryption :: string
  ga_SchedulingPolicy :: string
  ga_PriorityQ :: u32
  ga_Weight :: u32
  ga_DiscardPolicy :: string
  ga_IsMulticast :: string
  ga_MulticastGemId :: u32
  ga_DynamicAccessControlList :: string
  ga_StaticAccessControlList :: string

record TechProfileInstance =
  ti_UsScheduler :: "SchedulerAttributes option"
  ti_NumGemPorts :: u32
  ti_UpstreamGemPortAttributeList :: "GemPortAttributes list"
  ti_DownstreamGemPortAttributeList :: "GemPortAttributes list"

subsection \<open>Translation of a profile instance\<close>

datatype parse_error =
    InvalidPriorityQueue u32 | InvalidMulticastPriorityQueue u32 | NoGemPortRead

definition TrimPrefix :: "string \<Rightarrow> string \<Rightarrow> string" where
  "TrimPrefix s p = (if take (length p) s = p then drop (length p) s else s)"

text \<open>\<^verbatim>\<open>strconv.ParseBool\<close>, \<open>None\<close> for its error.\<close>

definition ParseBool :: "string \<Rightarrow> bool option" where
  "ParseBool s =
     (if s \<in> set [''1'', ''t'', ''T'', ''true'', ''TRUE'', ''True''] then Some True
      else if s \<in> set [''0'', ''f'', ''F'', ''false'', ''FALSE'', ''False''] then Some False
      else None)"

definition enc_state :: "string \<Rightarrow> u8" where
  "enc_state aes = (if aes = ''True'' then 1 else 0)"

definition upstream_gem :: "GemPortAttributes \<Rightarrow> gemPortParamStruct" where
  "upstream_gem c =
     \<lparr> pbitString = TrimPrefix (ga_PbitMap c) binaryStringPrefix, discardPolicy = ga_DiscardPolicy c,
       queueSchedPolicy = ga_SchedulingPolicy c, staticACL = [], dynamicACL = [],
       gemPortID = ucast (ga_GemportId c), removeGemID = 0, multicastGemPortID = 0,
       direction = cGemDirBiDirect, gemPortEncState = enc_state (ga_AesEncryption c),
       prioQueueIndex = ucast (ga_PriorityQ c), queueWeight = ucast (ga_Weight c), isMulticast = False \<rparr>"

definition multicast_gem :: "GemPortAttributes \<Rightarrow> gemPortParamStruct" where
  "multicast_gem c =
     \<lparr> pbitString = TrimPrefix (ga_PbitMap c) binaryStringPrefix, discardPolicy = ga_DiscardPolicy c,
       queueSchedPolicy = ga_SchedulingPolicy c, staticACL = ga_StaticAccessControlList c,
       dynamicACL = ga_DynamicAccessControlList c, gemPortID = ucast (ga_MulticastGemId c), removeGemID = 0,
       multicastGemPortID = ucast (ga_MulticastGemId c), direction = cGemDirAniToUni,
       gemPortEncState = enc_state (ga_AesEncryption c), prioQueueIndex = ucast (ga_PriorityQ c),
       queueWeight = ucast (ga_Weight c), isMulticast = True \<rparr>"

text \<open>The loop over the upstream list stops at the announced number of GEM ports; \<open>pos\<close> counts the
  positions, and the flag tells whether the first one was read.\<close>

fun parse_upstream ::
    "u32 \<Rightarrow> nat \<Rightarrow> GemPortAttributes list \<Rightarrow> bool \<times> gem_map \<Rightarrow> parse_error + (bool \<times> gem_map)" where
  "parse_upstream num pos [] (read, m) = Inr (read, m)"
| "parse_upstream num pos (c # cs) (read, m) =
     (if of_nat pos = num then Inr (read, m)
      else if 7 < ga_PriorityQ c then Inl (InvalidPriorityQueue (ga_PriorityQ c))
      else parse_upstream num (pos + 1) cs
             (read \<or> pos = 0, AList.update (ucast (ga_GemportId c)) (upstream_gem c) m))"

fun parse_downstream :: "GemPortAttributes list \<Rightarrow> gem_map \<Rightarrow> parse_error + gem_map" where
  "parse_downstream [] m = Inr m"
| "parse_downstream (c # cs) m =
     (case (if ga_IsMulticast c = [] then Some False else ParseBool (ga_IsMulticast c)) of
        None \<Rightarrow> parse_downstream cs m
      | Some False \<Rightarrow> parse_downstream cs m
      | Some True \<Rightarrow>
          let mcastGemID = ucast (ga_MulticastGemId c) :: u16 in
          if map_of m mcastGemID \<noteq> None then parse_downstream cs m
          else if 7 < ga_PriorityQ c then Inl (InvalidMulticastPriorityQueue (ga_PriorityQ c))
          else parse_downstream cs (AList.update mcastGemID (multicast_gem c) m))"

definition nil_deref :: "'a run" where
  "nil_deref = Fatal ''invalid memory address or nil pointer dereference''"

definition parseAndValidateTechProfileConfig ::
    "TechProfileInstance option \<Rightarrow> (parse_error + tcontGemList) run" where
  "parseAndValidateTechProfileConfig tpInst =
     (case tpInst of None \<Rightarrow> nil_deref
      | Some ti \<Rightarrow>
        (case ti_UsScheduler ti of None \<Rightarrow> nil_deref
         | Some sched \<Rightarrow> Done
            (let tcont = \<lparr> allocID = ucast (sa_AllocId sched),
                           schedPolicy = (if sa_QSchedPolicy sched = ''StrictPriority'' then 1 else 2) \<rparr>
             in case parse_upstream (ti_NumGemPorts ti) 0 (ti_UpstreamGemPortAttributeList ti) (False, []) of
                  Inl e \<Rightarrow> Inl e
                | Inr (loGemPortRead, m) \<Rightarrow>
                    (case parse_downstream (ti_DownstreamGemPortAttributeList ti) m of
                       Inl e \<Rightarrow> Inl e
                     | Inr m \<Rightarrow>
                         if \<not> loGemPortRead then Inl NoGemPortRead
                         else Inr \<lparr> mapGemPortParams = m, tcontParams = tcont \<rparr>))))"

subsection \<open>The machine of a profile\<close>

datatype ani_event =
    aniEvStart | aniEvReadAniSideConfig | aniEvPrepareConfig | aniEvStartConfig | aniEvRxDot1pmapCResp
  | aniEvRxMbpcdResp | aniEvRxTcontsResp | aniEvRxGemntcpsResp | aniEvRxGemiwsResp | aniEvRxPrioqsResp
  | aniEvRxDot1pmapSResp | aniEvRemGemiw | aniEvWaitFlowRem | aniEvFlowRemDone | aniEvRxRemGemiwResp
  | aniEvRxRemGemntpResp | aniEvRxRemTdResp | aniEvRemTcontPath | aniEvRxResetTcontResp
  | aniEvRxRem1pMapperResp | aniEvRxRemAniBPCDResp | aniEvTimeoutSimple | aniEvTimeoutMids | aniEvReset
  | aniEvRestart | aniEvSkipOmciConfig | aniEvRemGemDone

datatype ani_state =
    aniStDisabled | aniStStarting | aniStReadAniSideConfig | aniStPrepareConfig | aniStCreatingDot1PMapper
  | aniStCreatingMBPCD | aniStSettingTconts | aniStCreatingGemNCTPs | aniStCreatingGemIWs | aniStSettingPQs
  | aniStSettingDot1PMapper | aniStConfigDone | aniStRemovingGemIW | aniStWaitingFlowRem
  | aniStRemovingGemNCTP | aniStRemovingTD | aniStResetTcont | aniStRemDot1PMapper | aniStRemAniBPCD
  | aniStRemoveDone | aniStResetting

definition ani_fsm_events :: "(ani_event, ani_state) fsm_events" where
  "ani_fsm_events =
    [(aniEvStart, [aniStDisabled], aniStStarting),
     (aniEvReadAniSideConfig, [aniStStarting], aniStReadAniSideConfig),
     (aniEvPrepareConfig, [aniStReadAniSideConfig], aniStPrepareConfig),
     (aniEvStartConfig, [aniStPrepareConfig], aniStCreatingDot1PMapper),
     (aniEvRxDot1pmapCResp, [aniStCreatingDot1PMapper], aniStCreatingMBPCD),
     (aniEvRxMbpcdResp, [aniStCreatingMBPCD], aniStSettingTconts),
     (aniEvRxTcontsResp, [aniStSettingTconts], aniStCreatingGemNCTPs),
     (aniEvRxGemntcpsResp, [aniStCreatingGemNCTPs], aniStCreatingGemIWs),
     (aniEvRxGemiwsResp, [aniStCreatingGemIWs], aniStSettingPQs),
     (aniEvRxPrioqsResp, [aniStSettingPQs], aniStSettingDot1PMapper),
     (aniEvRxDot1pmapSResp, [aniStSettingDot1PMapper], aniStConfigDone),
     (aniEvRemGemiw, [aniStConfigDone], aniStRemovingGemIW),
     (aniEvWaitFlowRem, [aniStRemovingGemIW], aniStWaitingFlowRem),
     (aniEvFlowRemDone, [aniStWaitingFlowRem], aniStRemovingGemIW),
     (aniEvRxRemGemiwResp, [aniStRemovingGemIW], aniStRemovingGemNCTP),
     (aniEvRxRemGemntpResp, [aniStRemovingGemNCTP], aniStRemovingTD),
     (aniEvRxRemTdResp, [aniStRemovingTD], aniStRemDot1PMapper),
     (aniEvRemGemDone, [aniStRemDot1PMapper], aniStConfigDone),
     (aniEvRxRem1pMapperResp, [aniStRemDot1PMapper], aniStRemAniBPCD),
     (aniEvRxRemAniBPCDResp, [aniStRemAniBPCD], aniStRemoveDone),
     (aniEvRemTcontPath, [aniStConfigDone], aniStResetTcont),
     (aniEvRxResetTcontResp, [aniStResetTcont], aniStConfigDone),
     (aniEvTimeoutSimple, [aniStCreatingDot1PMapper, aniStCreatingMBPCD, aniStSettingTconts, aniStSettingDot1PMapper,
        aniStRemovingGemIW, aniStRemovingGemNCTP, aniStRemovingTD, aniStResetTcont, aniStRemDot1PMapper,
        aniStRemAniBPCD, aniStRemoveDone], aniStStarting),
     (aniEvTimeoutMids, [aniStCreatingGemNCTPs, aniStCreatingGemIWs, aniStSettingPQs], aniStStarting),
     (aniEvReset, [aniStStarting, aniStReadAniSideConfig, aniStPrepareConfig, aniStCreatingDot1PMapper,
        aniStCreatingMBPCD, aniStSettingTconts, aniStCreatingGemNCTPs, aniStCreatingGemIWs, aniStSettingPQs,
        aniStSettingDot1PMapper, aniStConfigDone, aniStRemovingGemIW, aniStWaitingFlowRem, aniStRemovingGemNCTP,
        aniStRemovingTD, aniStResetTcont, aniStRemDot1PMapper, aniStRemAniBPCD, aniStRemoveDone], aniStResetting),
     (aniEvRestart, [aniStResetting], aniStDisabled),
     (aniEvSkipOmciConfig, [aniStStarting, aniStReadAniSideConfig, aniStPrepareConfig], aniStConfigDone)]"

text \<open>What is sent to the ONU. The last argument of a GEM port tells whether the key ring for
  downstream encryption is set; a queue is given a scheduler and a weight, each if at all; the
  mapper gets the GEM port of each of the eight priorities.\<close>

datatype ani_omci =
    CreateDot1PMapper u16
  | CreateMBPCD u16 u16 u8 u16
  | SetTcont u16 u16
  | CreateGemNCTP u16 u16 u8 u16 u16 bool
  | CreateGemIW u16 u16
  | CreateMulticastGemIW u16
  | SetMulticastTable u16 bytes
  | SetPrioQueue u16 "u16 option" "u8 option"
  | SetDot1PMapper u16 "u16 list"
  | DeleteGemIW u16 | DeleteGemNCTP u16 | DeleteTD u16 | DeleteDot1PMapper u16 | DeleteMBPCD u16

record ponAniGemPortAttribs =
  pa_qosPolicy :: string
  pa_pbitString :: string
  pa_staticACL :: string
  pa_dynamicACL :: string
  pa_gemPortID :: u16
  pa_upQueueID :: u16
  pa_downQueueID :: u16
  pa_multicastGemID :: u16
  pa_direction :: u8
  pa_weight :: u8
  pa_isMulticast :: bool

text \<open>What goroutines of a machine still have to do.\<close>

datatype ani_task = AEvent ani_event | ACreateGemNCTPs | ACreateGemIWs | ASetPQs

record UniPonAniConfigFsm =
  af_pOnuUniPort :: OnuUniPort
  af_techProfileID :: u8
  af_techProfileType :: string
  af_techProfileInst :: "TechProfileInstance option"
  af_requestEvent :: u8
  af_gemPortAttribsSlice :: "ponAniGemPortAttribs list"
  af_mapperSP0ID :: u16
  af_macBPCD0ID :: u16
  af_tcont0ID :: u16
  af_alloc0ID :: u16
  af_isCanceled :: bool
  af_procStep :: u8
  af_chanSet :: bool
  af_requestEventOffset :: u8
  af_isWaitingForFlowDelete :: bool
  af_tcontSetBefore :: bool
  af_pLastTxMeInstance :: "(u16 \<times> u16) option"
  af_fsm :: ani_state
  af_tasks :: "ani_task list"

definition uniTpKey :: "UniPonAniConfigFsm \<Rightarrow> UniTP" where
  "uniTpKey a = (UniID (af_pOnuUniPort a), af_techProfileID a)"

definition hasMulticastGem :: "UniPonAniConfigFsm \<Rightarrow> bool" where
  "hasMulticastGem a = list_ex pa_isMulticast (af_gemPortAttribsSlice a)"

subsection \<open>The tables of the ONU\<close>

datatype tp_error =
    InvalidPathFormat string | TechProfileExists u8 u8 | ResetInParallel | NoValidOnuDevice
  | WrongStateToStart | WrongStateToRemove | CannotTriggerEvent | ConfigAborted
  | ParseFailed parse_error | ResetDuringProcessing

text \<open>Effects on the other components, in their order. \<open>StepFinished\<close> is the non-blocking send
  that tells the waiting caller the processing step, or 0 for an error.\<close>

datatype ani_effect =
    AniRequest ani_omci
  | AniFailureTimeout u16 u16
  | AniFailureResponse u16 u16 u8
  | AniResponseReceived
  | StepFinished u8
  | AniStatusUpdate u8
  | VerifyUniVlanConfigRequest u8 u8
  | AniStartProcessing
  | AniAbortProcessing
  | AniConfigFSMFailure u8
  | AddGemPortForPerfMonitoring u16
  | RemoveGemPortForPerfMonitoring u16
  | AniResourceRemoved

record OnuUniTechProf =
  mapUniTpIndication :: "UniTP \<rightharpoonup> tTechProfileIndication"
  mapPonAniConfig :: "(UniTP \<times> tcontGemList) list"
  PAniConfigFsm :: "(UniTP \<times> UniPonAniConfigFsm) list option"
  ProcResult :: "UniTP \<Rightarrow> tp_error option"
  tpProfileExists :: "UniTP \<rightharpoonup> bool"
  tpProfileResetting :: "UniTP \<rightharpoonup> bool"
  mapRemoveGemEntry :: "UniTP \<rightharpoonup> gemPortParamStruct"
  tp_locked :: bool
  PersTcontMap :: "(u16 \<times> u16) list"
  tp_db :: OnuDeviceDB
  tp_cmn :: cmn_store
  tp_requests :: nat
  tp_waits :: nat
  tp_out :: "ani_effect list"

definition NewOnuUniTechProf :: "OnuDeviceDB \<Rightarrow> cmn_store \<Rightarrow> (u16 \<times> u16) list \<Rightarrow> OnuUniTechProf" where
  "NewOnuUniTechProf db h tconts =
     \<lparr> mapUniTpIndication = Map.empty, mapPonAniConfig = [], PAniConfigFsm = None, ProcResult = (\<lambda>_. None),
       tpProfileExists = Map.empty, tpProfileResetting = Map.empty, mapRemoveGemEntry = Map.empty,
       tp_locked = False, PersTcontMap = tconts, tp_db = db, tp_cmn = h, tp_requests = 0, tp_waits = 0,
       tp_out = [] \<rparr>"

abbreviation tp_emit :: "ani_effect \<Rightarrow> OnuUniTechProf \<Rightarrow> OnuUniTechProf" where
  "tp_emit e s \<equiv> s\<lparr>tp_out := tp_out s @ [e]\<rparr>"

text \<open>A critical section under \<^verbatim>\<open>MutexTPState\<close>.\<close>

definition tp_section :: "(OnuUniTechProf \<Rightarrow> 'a) \<Rightarrow> OnuUniTechProf \<Rightarrow> 'a run" where
  "tp_section f s = (if tp_locked s then Deadlock else Done (f s))"

definition ResetTpProcessingErrorIndication :: "u8 \<Rightarrow> u8 \<Rightarrow> OnuUniTechProf \<Rightarrow> OnuUniTechProf run" where
  "ResetTpProcessingErrorIndication aUniID aTpID =
     tp_section (\<lambda>s. s\<lparr>ProcResult := (ProcResult s)((aUniID, aTpID) := None)\<rparr>)"

definition GetTpProcessingErrorIndication :: "u8 \<Rightarrow> u8 \<Rightarrow> OnuUniTechProf \<Rightarrow> tp_error option run" where
  "GetTpProcessingErrorIndication aUniID aTpID = tp_section (\<lambda>s. ProcResult s (aUniID, aTpID))"

definition SendChTpConfigProcessingFinished :: "u8 \<Rightarrow> OnuUniTechProf \<Rightarrow> OnuUniTechProf" where
  "SendChTpConfigProcessingFinished v s = tp_emit (StepFinished v) s"

definition deleteGemPortParams :: "UniTP \<Rightarrow> OnuUniTechProf \<Rightarrow> OnuUniTechProf run" where
  "deleteGemPortParams k s =
     bind_run (tp_section (\<lambda>s. s) s) (\<lambda>s.
       case map_of (mapPonAniConfig s) k of
         None \<Rightarrow> Done (s\<lparr>mapRemoveGemEntry := (mapRemoveGemEntry s)(k := None)\<rparr>)
       | Some cfg \<Rightarrow>
           (case mapRemoveGemEntry s k of
              None \<Rightarrow> nil_deref
            | Some g \<Rightarrow>
                Done (s\<lparr>mapPonAniConfig := AList.update k
                          (cfg\<lparr>mapGemPortParams := AList.delete (removeGemID g) (mapGemPortParams cfg)\<rparr>)
                          (mapPonAniConfig s),
                        mapRemoveGemEntry := (mapRemoveGemEntry s)(k := None)\<rparr>)))"

definition clearAniSideConfig :: "u8 \<Rightarrow> u8 \<Rightarrow> OnuUniTechProf \<Rightarrow> OnuUniTechProf run" where
  "clearAniSideConfig aUniID aTpID =
     tp_section (\<lambda>s. let k = (aUniID, aTpID) in
       s\<lparr>mapUniTpIndication := (mapUniTpIndication s)(k := None),
         mapPonAniConfig := AList.delete k (mapPonAniConfig s),
         tpProfileExists := (tpProfileExists s)(k := None),
         tpProfileResetting := (tpProfileResetting s)(k := None)\<rparr>)"

definition setConfigDone :: "u8 \<Rightarrow> u8 \<Rightarrow> bool \<Rightarrow> OnuUniTechProf \<Rightarrow> OnuUniTechProf run" where
  "setConfigDone aUniID aTpID aState =
     tp_section (\<lambda>s. let k = (aUniID, aTpID) in
       case mapUniTpIndication s k of None \<Rightarrow> s
       | Some i \<Rightarrow> s\<lparr>mapUniTpIndication := (mapUniTpIndication s)(k \<mapsto> i\<lparr>techProfileConfigDone := aState\<rparr>)\<rparr>)"

definition getTechProfileDone :: "u8 \<Rightarrow> u8 \<Rightarrow> OnuUniTechProf \<Rightarrow> bool run" where
  "getTechProfileDone aUniID aTpID =
     tp_section (\<lambda>s. case mapUniTpIndication s (aUniID, aTpID) of None \<Rightarrow> False
       | Some i \<Rightarrow> if techProfileID i = aTpID
                   then (if techProfileToDelete i then False else techProfileConfigDone i) else False)"

definition SetProfileToDelete :: "u8 \<Rightarrow> u8 \<Rightarrow> bool \<Rightarrow> OnuUniTechProf \<Rightarrow> OnuUniTechProf run" where
  "SetProfileToDelete aUniID aTpID aState =
     tp_section (\<lambda>s. let k = (aUniID, aTpID) in
       case mapUniTpIndication s k of None \<Rightarrow> s
       | Some i \<Rightarrow> s\<lparr>mapUniTpIndication := (mapUniTpIndication s)(k \<mapsto> i\<lparr>techProfileToDelete := aState\<rparr>)\<rparr>)"

definition getMulticastGemPorts :: "u8 \<Rightarrow> u8 \<Rightarrow> OnuUniTechProf \<Rightarrow> u16 list run" where
  "getMulticastGemPorts aUniID aTpID =
     tp_section (\<lambda>s. case map_of (mapPonAniConfig s) (aUniID, aTpID) of None \<Rightarrow> []
       | Some cfg \<Rightarrow> map (multicastGemPortID \<circ> snd) (filter (isMulticast \<circ> snd) (mapGemPortParams cfg)))"

definition getBidirectionalGemPortIDsForTP :: "u8 \<Rightarrow> u8 \<Rightarrow> OnuUniTechProf \<Rightarrow> u16 list run" where
  "getBidirectionalGemPortIDsForTP aUniID aTpID =
     tp_section (\<lambda>s. case map_of (mapPonAniConfig s) (aUniID, aTpID) of None \<Rightarrow> []
       | Some cfg \<Rightarrow> map (gemPortID \<circ> snd) (filter (\<lambda>e. \<not> isMulticast (snd e)) (mapGemPortParams cfg)))"

definition GetAllBidirectionalGemPortIDsForOnu :: "OnuUniTechProf \<Rightarrow> u16 list run" where
  "GetAllBidirectionalGemPortIDsForOnu =
     tp_section (\<lambda>s. concat (map (\<lambda>(k, cfg).
       map fst (filter (\<lambda>e. \<not> isMulticast (snd e)) (mapGemPortParams cfg))) (mapPonAniConfig s)))"

text \<open>GEM ports of upstream direction, each counted once.\<close>

definition add_us_gem :: "u16 \<times> gemPortParamStruct \<Rightarrow> u16 list \<Rightarrow> u16 list" where
  "add_us_gem e found =
     (let (i, g) = e in
      if direction g = cGemDirBiDirect \<or> direction g = cGemDirUniToAni
      then (if list_ex (\<lambda>f. f = i) found then found else found @ [i]) else found)"

definition GetNumberOfConfiguredUsGemPorts :: "OnuUniTechProf \<Rightarrow> nat run" where
  "GetNumberOfConfiguredUsGemPorts =
     tp_section (\<lambda>s. length (fold (\<lambda>(k, cfg). fold add_us_gem (mapGemPortParams cfg)) (mapPonAniConfig s) []))"

definition setProfileResetting :: "u8 \<Rightarrow> u8 \<Rightarrow> bool \<Rightarrow> OnuUniTechProf \<Rightarrow> OnuUniTechProf run" where
  "setProfileResetting aUniID aTpID aState =
     tp_section (\<lambda>s. s\<lparr>tpProfileResetting := (tpProfileResetting s)((aUniID, aTpID) \<mapsto> aState)\<rparr>)"

definition GetProfileResetting :: "UniTP \<Rightarrow> OnuUniTechProf \<Rightarrow> bool run" where
  "GetProfileResetting k = tp_section (\<lambda>s. case tpProfileResetting s k of Some b \<Rightarrow> b | None \<Rightarrow> False)"

definition GetGEMportToAllocIDMappingForONU :: "OnuUniTechProf \<Rightarrow> (u16 \<times> u16) list" where
  "GetGEMportToAllocIDMappingForONU s =
     fold (\<lambda>(k, cfg). fold (\<lambda>e. AList.update (fst e) (allocID (tcontParams cfg))) (mapGemPortParams cfg))
       (mapPonAniConfig s) []"

definition fsms :: "OnuUniTechProf \<Rightarrow> (UniTP \<times> UniPonAniConfigFsm) list" where
  "fsms s = (case PAniConfigFsm s of None \<Rightarrow> [] | Some m \<Rightarrow> m)"

definition IsTechProfileInstancePresent :: "u8 \<Rightarrow> u8 \<Rightarrow> OnuUniTechProf \<Rightarrow> bool run" where
  "IsTechProfileInstancePresent uniID tpID =
     tp_section (\<lambda>s. case map_of (fsms s) (uniID, tpID) of None \<Rightarrow> False
       | Some a \<Rightarrow> af_techProfileInst a \<noteq> None)"

definition multicastConfiguredForOtherUniTps :: "UniTP \<Rightarrow> OnuUniTechProf \<Rightarrow> bool" where
  "multicastConfiguredForOtherUniTps k s =
     list_ex (\<lambda>(k', a). \<not> (fst (uniTpKey a) = fst k \<and> snd (uniTpKey a) = snd k) \<and> hasMulticastGem a) (fsms s)"

subsection \<open>T-CONT instances\<close>

definition TContClassID :: u16 where "TContClassID = 262"

text \<open>The instance of the allocation identifier, and whether it had one before.\<close>

definition AllocateFreeTcont :: "u16 \<Rightarrow> OnuUniTechProf \<Rightarrow> ((u16 \<times> bool) option \<times> OnuUniTechProf) run" where
  "AllocateFreeTcont aAllocID s =
     (case map_of (PersTcontMap s) aAllocID of
        Some entityID \<Rightarrow> Done (Some (entityID, True), s)
      | None \<Rightarrow>
          bind_run (GetSortedInstKeys (tp_db s) TContClassID (tp_cmn s)) (\<lambda>tcontInstKeys.
            case List.find (\<lambda>instID. \<not> list_ex (\<lambda>(a, v). v = instID) (PersTcontMap s)) tcontInstKeys of
              Some instID \<Rightarrow>
                Done (Some (instID, False), s\<lparr>PersTcontMap := AList.update aAllocID instID (PersTcontMap s)\<rparr>)
            | None \<Rightarrow> Done (None, s)))"

definition FreeTcont :: "u16 \<Rightarrow> OnuUniTechProf \<Rightarrow> OnuUniTechProf" where
  "FreeTcont aAllocID s = s\<lparr>PersTcontMap := AList.delete aAllocID (PersTcontMap s)\<rparr>"

end
