(* ===== verification/Ani_Cfg.thy ===== *)
theory Ani_Cfg
  imports Tech_Prof
begin

text \<open>
  The state machine that configures the ANI side of a UNI port for a tech profile
  (\<^verbatim>\<open>src/internal/pkg/avcfg/omci_ani_config.go\<close>): its enter functions, the background
  routines that create the GEM ports and set the priority queues, the responses of the ONU and
  the cancellation.

  An operation works on the machine and on the tables it shares with the other machines of the
  ONU. A goroutine is a pending task of the machine; the outcome of the n-th request and of the
  n-th wait comes from the environment, and so does what the VLAN machine of the port answers.
\<close>

type_synonym ani = "UniPonAniConfigFsm \<times> OnuUniTechProf"

text \<open>\<open>an_flowRemovePending\<close> is the answer of the VLAN machine, \<open>None\<close> without a machine;
  \<open>an_flowWait\<close> tells how waiting for the flow removal ends.\<close>

record ani_env =
  an_send :: "nat \<Rightarrow> bool"
  an_wait :: "nat \<Rightarrow> wait_result"
  an_skipReconciling :: bool
  an_readyForOmci :: bool
  an_onuDevice :: bool
  an_metrics :: bool
  an_flowRemovePending :: "bool option"
  an_flowWait :: wait_result
  an_conv32 :: "int \<Rightarrow> u32"
  an_conv16 :: "int \<Rightarrow> u16"

abbreviation a_go :: "ani_task \<Rightarrow> UniPonAniConfigFsm \<Rightarrow> UniPonAniConfigFsm" where
  "a_go t a \<equiv> a\<lparr>af_tasks := af_tasks a @ [t]\<rparr>"

subsection \<open>Requests\<close>

definition Dot1PMapperClassID :: u16 where "Dot1PMapperClassID = 130"
definition MBPCDClassID :: u16 where "MBPCDClassID = 47"
definition GemPortNetworkCtpClassID :: u16 where "GemPortNetworkCtpClassID = 268"
definition GemInterworkingTerminationPointClassID :: u16 where "GemInterworkingTerminationPointClassID = 266"
definition MulticastGemIWClassID :: u16 where "MulticastGemIWClassID = 281"
definition PriorityQueueClassID :: u16 where "PriorityQueueClassID = 277"
definition TrafficDescriptorClassID :: u16 where "TrafficDescriptorClassID = 280"
definition Onu2GClassID :: u16 where "Onu2GClassID = 257"
definition GemPortPMHistoryClassID :: u16 where "GemPortPMHistoryClassID = 341"
definition UnusedTcontAllocID :: u16 where "UnusedTcontAllocID = 0xFFFF"

lemmas ani_classes =
  Dot1PMapperClassID_def MBPCDClassID_def GemPortNetworkCtpClassID_def GemInterworkingTerminationPointClassID_def
  MulticastGemIWClassID_def PriorityQueueClassID_def TrafficDescriptorClassID_def TContClassID_def

text \<open>Class and instance of the managed entity a request is about.\<close>

fun me_of_ani :: "ani_omci \<Rightarrow> u16 \<times> u16" where
  "me_of_ani (CreateDot1PMapper i) = (Dot1PMapperClassID, i)"
| "me_of_ani (CreateMBPCD i br pn tp) = (MBPCDClassID, i)"
| "me_of_ani (SetTcont i al) = (TContClassID, i)"
| "me_of_ani (CreateGemNCTP i tc d up dn enc) = (GemPortNetworkCtpClassID, i)"
| "me_of_ani (CreateGemIW i mp) = (GemInterworkingTerminationPointClassID, i)"
| "me_of_ani (CreateMulticastGemIW i) = (MulticastGemIWClassID, i)"
| "me_of_ani (SetMulticastTable i tab) = (MulticastGemIWClassID, i)"
| "me_of_ani (SetPrioQueue i ts w) = (PriorityQueueClassID, i)"
| "me_of_ani (SetDot1PMapper i ps) = (Dot1PMapperClassID, i)"
| "me_of_ani (DeleteGemIW i) = (GemInterworkingTerminationPointClassID, i)"
| "me_of_ani (DeleteGemNCTP i) = (GemPortNetworkCtpClassID, i)"
| "me_of_ani (DeleteTD i) = (TrafficDescriptorClassID, i)"
| "me_of_ani (DeleteDot1PMapper i) = (Dot1PMapperClassID, i)"
| "me_of_ani (DeleteMBPCD i) = (MBPCDClassID, i)"

definition ani_send :: "ani_env \<Rightarrow> ani_omci \<Rightarrow> ani \<Rightarrow> bool \<times> ani" where
  "ani_send env q x =
     (let (a, s) = x; failed = an_send env (tp_requests s); s = s\<lparr>tp_requests := tp_requests s + 1\<rparr>
      in if failed then (True, a, s)
         else (False, a\<lparr>af_pLastTxMeInstance := Some (me_of_ani q)\<rparr>, tp_emit (AniRequest q) s))"

text \<open>An enter function that cannot send its request lets a goroutine reset the machine.\<close>

definition send_or_reset :: "ani_env \<Rightarrow> ani_omci \<Rightarrow> ani \<Rightarrow> bool \<times> ani" where
  "send_or_reset env q x =
     (case ani_send env q x of
        (True, a, s) \<Rightarrow> (True, a_go (AEvent aniEvReset) a, s)
      | (False, y) \<Rightarrow> (False, y))"

text \<open>\<open>True\<close> when the wait failed.\<close>

definition ani_waitforOmciResponse :: "ani_env \<Rightarrow> ani \<Rightarrow> bool \<times> ani" where
  "ani_waitforOmciResponse env x =
     (let (a, s) = x in
      if af_isCanceled a then (True, a, s)
      else let w = an_wait env (tp_waits s); s = s\<lparr>tp_waits := tp_waits s + 1\<rparr> in
        case w of
          ResponseOk \<Rightarrow> (False, a, s)
        | ResponseAborted \<Rightarrow> (True, a, s)
        | ResponseTimeout \<Rightarrow>
            (True, a, case af_pLastTxMeInstance a of None \<Rightarrow> s
                      | Some (c, i) \<Rightarrow> tp_emit (AniFailureTimeout c i) s))"

subsection \<open>Configuration\<close>

definition enterConfigStartingState :: "ani \<Rightarrow> ani run" where
  "enterConfigStartingState x =
     (let (a, s) = x in
      Done (a_go (AEvent aniEvReadAniSideConfig) (a\<lparr>af_gemPortAttribsSlice := [], af_isCanceled := False\<rparr>),
            tp_emit AniStartProcessing s))"

definition abort_read :: "tp_error \<Rightarrow> ani \<Rightarrow> ani run" where
  "abort_read e x =
     (let (a, s) = x; k = uniTpKey a in
      bind_run (tp_section (\<lambda>s. s\<lparr>mapPonAniConfig := AList.delete k (mapPonAniConfig s),
                                  ProcResult := (ProcResult s)(k := Some e)\<rparr>) s) (\<lambda>s.
      Done (a_go (AEvent aniEvReset) a, s)))"

definition enterReadAniSideConfig :: "ani \<Rightarrow> ani run" where
  "enterReadAniSideConfig x =
     (let (a, s) = x; k = uniTpKey a in
      if mapUniTpIndication s k = None then nil_deref
      else
        bind_run (parseAndValidateTechProfileConfig (af_techProfileInst a)) (\<lambda>r.
          case r of
            Inl e \<Rightarrow> abort_read (ParseFailed e) (a, s)
          | Inr validatedConfig \<Rightarrow>
              bind_run (GetProfileResetting k s) (\<lambda>resetting.
                if resetting then abort_read ResetDuringProcessing (a, s)
                else
                  bind_run (tp_section (\<lambda>s. s\<lparr>mapPonAniConfig := AList.update k validatedConfig (mapPonAniConfig s)\<rparr>) s)
                    (\<lambda>s. Done (a_go (AEvent aniEvPrepareConfig) a, s)))))"

text \<open>The queues whose related port names T-CONT and priority (upstream) or UNI and priority
  (downstream); the search ends when both are found.\<close>

fun queue_loop ::
    "(int \<Rightarrow> u32) \<Rightarrow> OnuDeviceDB \<Rightarrow> cmn_store \<Rightarrow> u32 \<Rightarrow> u32 \<Rightarrow> u16 list \<Rightarrow> u16 option \<times> u16 option \<Rightarrow>
     (u16 option \<times> u16 option) run" where
  "queue_loop conv db h us ds [] f = Done f"
| "queue_loop conv db h us ds (q # qs) f =
     bind_run (GetMe db PriorityQueueClassID q h) (\<lambda>attribs.
       case map_of (map_or_empty attribs) ''RelatedPort'' of
         None \<Rightarrow> queue_loop conv db h us ds qs f
       | Some v \<Rightarrow>
           if v = AvNil then queue_loop conv db h us ds qs f
           else bind_run (GetUint32Attrib conv v) (\<lambda>r.
             case r of
               Inl e \<Rightarrow> queue_loop conv db h us ds qs f
             | Inr relatedPort \<Rightarrow>
                 let f = (if relatedPort = us then (Some q, snd f)
                          else if relatedPort AND 0xFFFFFF = ds \<and> q < 0x8000 then (fst f, Some q) else f)
                 in if fst f \<noteq> None \<and> snd f \<noteq> None then Done f else queue_loop conv db h us ds qs f))"

definition usQrelPortMask :: "u16 \<Rightarrow> u8 \<Rightarrow> u32" where
  "usQrelPortMask tcont prio = push_bit 16 (ucast tcont) + ucast prio"

definition dsQrelPortMask :: "u8 \<Rightarrow> u8 \<Rightarrow> u32" where
  "dsQrelPortMask uni prio = push_bit 16 (ucast (uni + 1)) + ucast prio"

definition opt_id :: "u16 option \<Rightarrow> u16" where
  "opt_id q = (case q of None \<Rightarrow> 0 | Some i \<Rightarrow> i)"

text \<open>Without any priority queue in the data base the GEM port keeps the identifier 0.\<close>

definition gem_attribs :: "ani_env \<Rightarrow> ani \<Rightarrow> gemPortParamStruct \<Rightarrow> ponAniGemPortAttribs run" where
  "gem_attribs env x g =
     (let (a, s) = x in
      bind_run (GetSortedInstKeys (tp_db s) PriorityQueueClassID (tp_cmn s)) (\<lambda>queueInstKeys.
      bind_run (if queueInstKeys = [] then Done (0, None, None)
                else bind_run (queue_loop (an_conv32 env) (tp_db s) (tp_cmn s)
                                 (usQrelPortMask (af_tcont0ID a) (prioQueueIndex g))
                                 (dsQrelPortMask (UniID (af_pOnuUniPort a)) (prioQueueIndex g))
                                 queueInstKeys (None, None)) (\<lambda>(up, dn). Done (gemPortID g, up, dn)))
        (\<lambda>(i, up, dn). Done
          \<lparr> pa_qosPolicy = queueSchedPolicy g, pa_pbitString = pbitString g,
            pa_staticACL = (if isMulticast g then staticACL g else []),
            pa_dynamicACL = (if isMulticast g then dynamicACL g else []),
            pa_gemPortID = (if isMulticast g then multicastGemPortID g else i),
            pa_upQueueID = opt_id up, pa_downQueueID = opt_id dn,
            pa_multicastGemID = (if isMulticast g then multicastGemPortID g else 0),
            pa_direction = direction g, pa_weight = queueWeight g, pa_isMulticast = isMulticast g \<rparr>)))"

definition gem_nctp_attributes :: "u16 \<Rightarrow> ponAniGemPortAttribs \<Rightarrow> (string \<times> attr_value) list" where
  "gem_nctp_attributes tcont p =
     [(''PortId'', AvUint16 (pa_gemPortID p)), (''TContPointer'', AvUint16 tcont),
      (''Direction'', AvUint8 (pa_direction p)),
      (''TrafficManagementPointerForUpstream'', AvUint16 (pa_upQueueID p)),
      (''PriorityQueuePointerForDownStream'', AvUint16 (pa_downQueueID p))]"

definition put_me :: "u16 \<Rightarrow> u16 \<Rightarrow> AttributeValueMap \<Rightarrow> OnuUniTechProf \<Rightarrow> OnuUniTechProf run" where
  "put_me c i attribs s = bind_run (PutOnuSpeficMe c i attribs (tp_db s)) (\<lambda>db. Done (s\<lparr>tp_db := db\<rparr>))"

definition delete_me :: "u16 \<Rightarrow> u16 \<Rightarrow> OnuUniTechProf \<Rightarrow> OnuUniTechProf run" where
  "delete_me c i s =
     bind_run (DeleteMe c i (tp_db s, tp_cmn s)) (\<lambda>(db, h). Done (s\<lparr>tp_db := db, tp_cmn := h\<rparr>))"

text \<open>While the ONU is reconciled without sending, the entities of the GEM port only enter the
  data base.\<close>

definition reconcile_gem :: "UniPonAniConfigFsm \<Rightarrow> ponAniGemPortAttribs \<Rightarrow> OnuUniTechProf \<Rightarrow> OnuUniTechProf run" where
  "reconcile_gem a p s =
     bind_run (put_me GemPortNetworkCtpClassID (pa_gemPortID p) (Some (gem_nctp_attributes (af_tcont0ID a) p)) s) (\<lambda>s.
     bind_run (put_me GemPortPMHistoryClassID (pa_gemPortID p) None s)
       (put_me GemInterworkingTerminationPointClassID (pa_gemPortID p) None))"

fun collect_gems :: "ani_env \<Rightarrow> gem_map \<Rightarrow> ani \<Rightarrow> ani run" where
  "collect_gems env [] x = Done x"
| "collect_gems env ((i, g) # gs) (a, s) =
     bind_run (gem_attribs env (a, s) g) (\<lambda>p.
     bind_run (if an_skipReconciling env then reconcile_gem a p s else Done s) (\<lambda>s.
       collect_gems env gs (a\<lparr>af_gemPortAttribsSlice := af_gemPortAttribsSlice a @ [p]\<rparr>, s)))"

definition allocate_and_collect :: "ani_env \<Rightarrow> ani \<Rightarrow> ani run" where
  "allocate_and_collect env x =
     (let (a, s) = x in
      bind_run (tp_section (\<lambda>s. map_of (mapPonAniConfig s) (uniTpKey a)) s) (\<lambda>c.
        case c of None \<Rightarrow> nil_deref
        | Some cfg \<Rightarrow>
            bind_run (AllocateFreeTcont (allocID (tcontParams cfg)) s) (\<lambda>(r, s).
              case r of
                None \<Rightarrow> Done (a_go (AEvent aniEvReset) a, s)
              | Some (tcontInstID, used) \<Rightarrow>
                  bind_run (collect_gems env (mapGemPortParams cfg)
                              (a\<lparr>af_tcont0ID := tcontInstID, af_alloc0ID := allocID (tcontParams cfg)\<rparr>, s)) (\<lambda>(a, s).
                  Done (a_go (AEvent (if an_skipReconciling env then aniEvSkipOmciConfig else aniEvStartConfig)) a, s)))))"

definition prepareAndEnterConfigState :: "ani_env \<Rightarrow> ani \<Rightarrow> ani run" where
  "prepareAndEnterConfigState env x =
     (let (a, s) = x; bp = ucast (MacBpNo (af_pOnuUniPort a)) :: u16; tp = ucast (af_techProfileID a) :: u16 in
      case GenerateIeeMaperServiceProfileEID bp tp of
        Inl e \<Rightarrow> Done (a\<lparr>af_mapperSP0ID := 0\<rparr>, s)
      | Inr mapper \<Rightarrow>
          (case GenerateANISideMBPCDEID bp tp of
             Inl e \<Rightarrow> Done (a\<lparr>af_mapperSP0ID := mapper, af_macBPCD0ID := 0\<rparr>, s)
           | Inr mbpcd \<Rightarrow>
               let a = a\<lparr>af_mapperSP0ID := mapper, af_macBPCD0ID := mbpcd\<rparr> in
               if \<not> an_onuDevice env then Done (a, s) else allocate_and_collect env (a, s)))"

definition enterCreatingDot1PMapper :: "ani_env \<Rightarrow> ani \<Rightarrow> ani run" where
  "enterCreatingDot1PMapper env x =
     (let (a, s) = x in
      Done (snd (send_or_reset env (CreateDot1PMapper (af_mapperSP0ID a)) (a\<lparr>af_requestEventOffset := 0\<rparr>, s))))"

definition enterCreatingMBPCD :: "ani_env \<Rightarrow> ani \<Rightarrow> ani run" where
  "enterCreatingMBPCD env x =
     (let (a, s) = x;
          bridgePtr = MacBridgeServiceProfileEID + ucast (MacBpNo (af_pOnuUniPort a));
          macBpNo = (case GenerateANISideMBPCDPortNo (ucast (af_techProfileID a)) of Inl e \<Rightarrow> 0xFF | Inr n \<Rightarrow> n)
      in Done (snd (send_or_reset env (CreateMBPCD (af_macBPCD0ID a) bridgePtr (ucast macBpNo) (af_mapperSP0ID a)) x)))"

definition enterSettingTconts :: "ani_env \<Rightarrow> ani \<Rightarrow> ani run" where
  "enterSettingTconts env x =
     (let (a, s) = x in
      if af_tcontSetBefore a then Done (a_go (AEvent aniEvRxTcontsResp) a, s)
      else Done (snd (send_or_reset env (SetTcont (af_tcont0ID a) (af_alloc0ID a)) x)))"

text \<open>The GEM port of each priority: the first unicast port whose string has a 1 at the place of
  the priority. The strings are read at eight places without a look at their length.\<close>

definition assign_prios :: "ponAniGemPortAttribs \<Rightarrow> u16 list \<Rightarrow> u16 list run" where
  "assign_prios p arr =
     (if pa_isMulticast p \<or> pa_pbitString p = [] then Done arr
      else if length (pa_pbitString p) < 8 then Fatal ''index out of range''
      else Done (map (\<lambda>i. if pa_pbitString p ! (7 - i) = CHR ''1'' \<and> arr ! i = 0 then pa_gemPortID p else arr ! i) [0..<8]))"

fun prio_loop :: "ponAniGemPortAttribs list \<Rightarrow> u16 list \<Rightarrow> u16 list run" where
  "prio_loop [] arr = Done arr"
| "prio_loop (p # ps) arr = bind_run (assign_prios p arr) (prio_loop ps)"

definition enterSettingDot1PMapper :: "ani_env \<Rightarrow> ani \<Rightarrow> ani run" where
  "enterSettingDot1PMapper env x =
     (let (a, s) = x in
      bind_run (prio_loop (af_gemPortAttribsSlice a) (replicate 8 0)) (\<lambda>loPrioGemPortArray.
        if list_all (\<lambda>v. v = 0) loPrioGemPortArray then Done (a_go (AEvent aniEvRxDot1pmapSResp) a, s)
        else Done (snd (send_or_reset env (SetDot1PMapper (af_mapperSP0ID a)
                          (map (\<lambda>v. if v \<noteq> 0 then v else 0xffff) loPrioGemPortArray)) x))))"

definition finish_step :: "u8 \<Rightarrow> ani \<Rightarrow> ani" where
  "finish_step v x =
     (let (a, s) = x in
      if af_chanSet a then (a\<lparr>af_chanSet := False\<rparr>, tp_emit (StepFinished v) s) else (a, s))"

definition enterAniConfigDone :: "ani_env \<Rightarrow> ani \<Rightarrow> ani run" where
  "enterAniConfigDone env x =
     (let (a, s) = x; uni = UniID (af_pOnuUniPort a); tp = af_techProfileID a in
      bind_run (setConfigDone uni tp True s) (\<lambda>s.
        let s = (if an_skipReconciling env then s
                 else let s = tp_emit (AniStatusUpdate (af_requestEvent a + af_requestEventOffset a)) s
                      in if af_requestEventOffset a = 0 then tp_emit (VerifyUniVlanConfigRequest uni tp) s else s)
        in Done (finish_step (af_procStep a) (a, s))))"

subsection \<open>Removal\<close>

text \<open>The GEM port to be removed; a missing entry is a nil pointer.\<close>

definition removed_gem :: "ani \<Rightarrow> u16 run" where
  "removed_gem x =
     (let (a, s) = x in
      bind_run (tp_section (\<lambda>s. mapRemoveGemEntry s (uniTpKey a)) s) (\<lambda>g.
        case g of None \<Rightarrow> nil_deref | Some g \<Rightarrow> Done (gemPortID g)))"

definition enterRemovingGemIW :: "ani_env \<Rightarrow> ani \<Rightarrow> ani run" where
  "enterRemovingGemIW env x =
     (let (a, s) = x in
      if an_flowRemovePending env = Some True then Done (a_go (AEvent aniEvWaitFlowRem) a, s)
      else bind_run (removed_gem (a, s)) (\<lambda>loGemPortID.
        let (failed, a, s) = send_or_reset env (DeleteGemIW loGemPortID) (a\<lparr>af_requestEventOffset := 1\<rparr>, s)
        in if failed then Done (a, s)
           else bind_run (delete_me GemInterworkingTerminationPointClassID loGemPortID s) (\<lambda>s. Done (a, s))))"

definition enterWaitingFlowRem :: "ani_env \<Rightarrow> ani \<Rightarrow> ani run" where
  "enterWaitingFlowRem env x =
     (let (a, s) = x in
      Done (a_go (AEvent (if an_flowWait env = ResponseAborted then aniEvReset else aniEvFlowRemDone))
              (a\<lparr>af_isWaitingForFlowDelete := False\<rparr>), s))"

definition enterRemovingGemNCTP :: "ani_env \<Rightarrow> ani \<Rightarrow> ani run" where
  "enterRemovingGemNCTP env x =
     bind_run (removed_gem x) (\<lambda>loGemPortID.
       let (failed, a, s) = send_or_reset env (DeleteGemNCTP loGemPortID) x
       in if failed then Done (a, s)
          else bind_run (delete_me GemPortNetworkCtpClassID loGemPortID s) (\<lambda>s.
            Done (a, if an_metrics env then tp_emit (RemoveGemPortForPerfMonitoring loGemPortID) s else s)))"

definition enterRemovingTD :: "ani_env \<Rightarrow> ani \<Rightarrow> ani run" where
  "enterRemovingTD env x =
     bind_run (removed_gem x) (\<lambda>loGemPortID. Done (snd (send_or_reset env (DeleteTD loGemPortID) x)))"

definition enterResettingTcont :: "ani_env \<Rightarrow> ani \<Rightarrow> ani run" where
  "enterResettingTcont env x =
     (let (a, s) = x in
      Done (snd (send_or_reset env (SetTcont (af_tcont0ID a) UnusedTcontAllocID) (a\<lparr>af_requestEventOffset := 1\<rparr>, s))))"

definition unicastGemCount :: "UniTP \<Rightarrow> OnuUniTechProf \<Rightarrow> nat" where
  "unicastGemCount k s =
     (case map_of (mapPonAniConfig s) k of None \<Rightarrow> 0
      | Some cfg \<Rightarrow> length (filter (\<lambda>e. \<not> isMulticast (snd e)) (mapGemPortParams cfg)))"

definition enterRemoving1pMapper :: "ani_env \<Rightarrow> ani \<Rightarrow> ani run" where
  "enterRemoving1pMapper env x =
     (let (a, s) = x in
      bind_run (tp_section (unicastGemCount (uniTpKey a)) s) (\<lambda>n.
        if 1 < n then Done (a_go (AEvent aniEvRemGemDone) a, s)
        else Done (snd (send_or_reset env (DeleteDot1PMapper (af_mapperSP0ID a)) x))))"

definition enterRemovingAniBPCD :: "ani_env \<Rightarrow> ani \<Rightarrow> ani run" where
  "enterRemovingAniBPCD env x =
     (let (a, s) = x in Done (snd (send_or_reset env (DeleteMBPCD (af_macBPCD0ID a)) x)))"

definition enterAniRemoveDone :: "ani \<Rightarrow> ani run" where
  "enterAniRemoveDone x =
     (let (a, s) = x;
          (a, s) = finish_step (af_procStep a) (a, tp_emit (AniStatusUpdate (af_requestEvent a + af_requestEventOffset a)) s)
      in Done (a_go (AEvent aniEvReset) a, s))"

definition enterResettingState :: "ani \<Rightarrow> ani run" where
  "enterResettingState x =
     (let (a, s) = finish_step 0 x in
      Done (a_go (AEvent aniEvRestart) a,
            tp_emit (AniConfigFSMFailure (UniID (af_pOnuUniPort a))) (tp_emit AniAbortProcessing s)))"

definition enterDisabledState :: "ani \<Rightarrow> ani run" where
  "enterDisabledState x = (let (a, s) = x in Done (a\<lparr>af_pLastTxMeInstance := None\<rparr>, s))"

definition ani_enter :: "ani_env \<Rightarrow> ani_state \<Rightarrow> ani \<Rightarrow> ani run" where
  "ani_enter env st x =
     (case st of
        aniStStarting \<Rightarrow> enterConfigStartingState x
      | aniStReadAniSideConfig \<Rightarrow> enterReadAniSideConfig x
      | aniStPrepareConfig \<Rightarrow> prepareAndEnterConfigState env x
      | aniStCreatingDot1PMapper \<Rightarrow> enterCreatingDot1PMapper env x
      | aniStCreatingMBPCD \<Rightarrow> enterCreatingMBPCD env x
      | aniStSettingTconts \<Rightarrow> enterSettingTconts env x
      | aniStCreatingGemNCTPs \<Rightarrow> Done (a_go ACreateGemNCTPs (fst x), snd x)
      | aniStCreatingGemIWs \<Rightarrow> Done (a_go ACreateGemIWs (fst x), snd x)
      | aniStSettingPQs \<Rightarrow> Done (a_go ASetPQs (fst x), snd x)
      | aniStSettingDot1PMapper \<Rightarrow> enterSettingDot1PMapper env x
      | aniStConfigDone \<Rightarrow> enterAniConfigDone env x
      | aniStRemovingGemIW \<Rightarrow> enterRemovingGemIW env x
      | aniStWaitingFlowRem \<Rightarrow> enterWaitingFlowRem env x
      | aniStRemovingGemNCTP \<Rightarrow> enterRemovingGemNCTP env x
      | aniStRemovingTD \<Rightarrow> enterRemovingTD env x
      | aniStResetTcont \<Rightarrow> enterResettingTcont env x
      | aniStRemDot1PMapper \<Rightarrow> enterRemoving1pMapper env x
      | aniStRemAniBPCD \<Rightarrow> enterRemovingAniBPCD env x
      | aniStRemoveDone \<Rightarrow> enterAniRemoveDone x
      | aniStResetting \<Rightarrow> enterResettingState x
      | aniStDisabled \<Rightarrow> enterDisabledState x)"

definition ani_fire :: "ani_env \<Rightarrow> ani_event \<Rightarrow> ani \<Rightarrow> (fsm_error option \<times> ani) run" where
  "ani_fire env ev x =
     fsm_event ani_fsm_events (\<lambda>x. af_fsm (fst x)) (\<lambda>st x. ((fst x)\<lparr>af_fsm := st\<rparr>, snd x)) (ani_enter env) ev x"

text \<open>An event whose error is ignored.\<close>

definition ani_event_ignored :: "ani_env \<Rightarrow> ani_event \<Rightarrow> ani \<Rightarrow> ani run" where
  "ani_event_ignored env ev x = bind_run (ani_fire env ev x) (\<lambda>(e, x). Done x)"

subsection \<open>Background routines\<close>

text \<open>One request and the wait for its response; \<open>True\<close> after a failure, which resets the
  machine.\<close>

definition ani_exchange :: "ani_env \<Rightarrow> ani_omci \<Rightarrow> ani \<Rightarrow> (bool \<times> ani) run" where
  "ani_exchange env q x =
     (case ani_send env q x of
        (True, x) \<Rightarrow> bind_run (ani_event_ignored env aniEvReset x) (\<lambda>x. Done (True, x))
      | (False, x) \<Rightarrow>
          (case ani_waitforOmciResponse env x of
             (True, x) \<Rightarrow> bind_run (ani_event_ignored env aniEvReset x) (\<lambda>x. Done (True, x))
           | (False, x) \<Rightarrow> Done (False, x)))"

definition cTechProfileTypeXgsPon :: string where "cTechProfileTypeXgsPon = ''XGS-PON''"

fun nctp_loop :: "ani_env \<Rightarrow> ponAniGemPortAttribs list \<Rightarrow> ani \<Rightarrow> ani run" where
  "nctp_loop env [] x = ani_event_ignored env aniEvRxGemntcpsResp x"
| "nctp_loop env (p # ps) x =
     (let (a, s) = x; enc = (af_techProfileType a = cTechProfileTypeXgsPon);
          attribs = gem_nctp_attributes (af_tcont0ID a) p @ (if enc then [(''EncryptionKeyRing'', AvInt 3)] else [])
      in bind_run (ani_exchange env (CreateGemNCTP (pa_gemPortID p) (af_tcont0ID a) (pa_direction p)
                                       (pa_upQueueID p) (pa_downQueueID p) enc) x) (\<lambda>(failed, a, s).
           if failed then Done (a, s)
           else bind_run (put_me GemPortNetworkCtpClassID (pa_gemPortID p) (Some attribs) s) (\<lambda>s.
             nctp_loop env ps
               (a, if an_metrics env then tp_emit (AddGemPortForPerfMonitoring (pa_gemPortID p)) s else s))))"

definition performCreatingGemNCTPs :: "ani_env \<Rightarrow> ani \<Rightarrow> ani run" where
  "performCreatingGemNCTPs env x = nctp_loop env (af_gemPortAttribsSlice (fst x)) x"

definition ip4 :: "u8 \<Rightarrow> u8 \<Rightarrow> u8 \<Rightarrow> u8 \<Rightarrow> u32" where
  "ip4 a b c d = (case IPToInt32 (replicate 10 0 @ [0xff, 0xff, a, b, c, d]) of Some v \<Rightarrow> v | None \<Rightarrow> 0)"

definition ipv4MulticastTable :: "u16 \<Rightarrow> bytes" where
  "ipv4MulticastTable gem = put_uint16 gem @ put_uint16 0 @ put_uint32 (ip4 224 0 0 0) @ put_uint32 (ip4 239 255 255 255)"

definition GalEthernetEID :: u16 where "GalEthernetEID = 1"

definition iw_attributes :: "u16 \<Rightarrow> ponAniGemPortAttribs \<Rightarrow> (string \<times> attr_value) list" where
  "iw_attributes mapper p =
     (if pa_isMulticast p
      then [(''GemPortNetworkCtpConnectivityPointer'', AvUint16 (pa_multicastGemID p)),
            (''InterworkingOption'', AvInt 0), (''ServiceProfilePointer'', AvInt 0),
            (''GalProfilePointer'', AvUint16 GalEthernetEID)]
      else [(''GemPortNetworkCtpConnectivityPointer'', AvUint16 (pa_gemPortID p)),
            (''InterworkingOption'', AvInt 5), (''ServiceProfilePointer'', AvUint16 mapper),
            (''InterworkingTerminationPointPointer'', AvInt 0),
            (''GalProfilePointer'', AvUint16 GalEthernetEID)])"

fun iw_loop :: "ani_env \<Rightarrow> ponAniGemPortAttribs list \<Rightarrow> ani \<Rightarrow> ani run" where
  "iw_loop env [] x = ani_event_ignored env aniEvRxGemiwsResp x"
| "iw_loop env (p # ps) x =
     (let (a, s) = x;
          store = (\<lambda>(failed, a, s). if failed then Done (a, s)
            else bind_run (put_me GemInterworkingTerminationPointClassID (pa_gemPortID p)
                             (Some (iw_attributes (af_mapperSP0ID a) p)) s) (\<lambda>s. iw_loop env ps (a, s)))
      in if pa_isMulticast p then
           (if multicastConfiguredForOtherUniTps (uniTpKey a) s then iw_loop env ps x
            else bind_run (ani_exchange env (CreateMulticastGemIW (pa_multicastGemID p)) x) (\<lambda>(failed, x).
                   if failed then Done x
                   else bind_run (ani_exchange env (SetMulticastTable (pa_multicastGemID p)
                                     (ipv4MulticastTable (pa_multicastGemID p))) x) store))
         else bind_run (ani_exchange env (CreateGemIW (pa_gemPortID p) (af_mapperSP0ID a)) x) store)"

definition performCreatingGemIWs :: "ani_env \<Rightarrow> ani \<Rightarrow> ani run" where
  "performCreatingGemIWs env x = iw_loop env (af_gemPortAttribsSlice (fst x)) x"

definition cu16StrictPrioWeight :: u16 where "cu16StrictPrioWeight = 0xFFFF"

text \<open>The upstream queues of the profile with their weights, in the order of first use.\<close>

definition add_queue :: "ponAniGemPortAttribs \<Rightarrow> (u16 \<times> u16) list \<Rightarrow> (u16 \<times> u16) list" where
  "add_queue p m =
     (if pa_isMulticast p then m
      else if pa_qosPolicy p = ''WRR''
      then (if map_of m (pa_upQueueID p) = None then AList.update (pa_upQueueID p) (ucast (pa_weight p)) m else m)
      else AList.update (pa_upQueueID p) cu16StrictPrioWeight m)"

definition queue_request :: "bool \<Rightarrow> u16 \<times> u16 \<Rightarrow> ani_omci option" where
  "queue_request trafficSchedPtrSetSupported kv =
     (let (q, w) = kv in
      if trafficSchedPtrSetSupported
      then (if w = cu16StrictPrioWeight then Some (SetPrioQueue q (Some 0) None)
            else Some (SetPrioQueue q (Some 0x8000) (Some (ucast w))))
      else if w = cu16StrictPrioWeight then None else Some (SetPrioQueue q None (Some (ucast w))))"

fun pq_loop :: "ani_env \<Rightarrow> bool \<Rightarrow> (u16 \<times> u16) list \<Rightarrow> ani \<Rightarrow> ani run" where
  "pq_loop env sched [] x = ani_event_ignored env aniEvRxPrioqsResp x"
| "pq_loop env sched (kv # kvs) x =
     (case queue_request sched kv of
        None \<Rightarrow> pq_loop env sched kvs x
      | Some q \<Rightarrow>
          bind_run (ani_exchange env q x) (\<lambda>(failed, x). if failed then Done x else pq_loop env sched kvs x))"

definition bitTrafficSchedulerPtrSetPermitted :: u16 where "bitTrafficSchedulerPtrSetPermitted = 0x0002"

definition performSettingPQs :: "ani_env \<Rightarrow> ani \<Rightarrow> ani run" where
  "performSettingPQs env x =
     (let (a, s) = x in
      if af_tcontSetBefore a then Done (a_go (AEvent aniEvRxPrioqsResp) a, s)
      else
        bind_run (GetMe (tp_db s) Onu2GClassID 0 (tp_cmn s)) (\<lambda>loOnu2g.
          case map_of (map_or_empty loOnu2g) ''QualityOfServiceQosConfigurationFlexibility'' of
            None \<Rightarrow> ani_event_ignored env aniEvReset x
          | Some v \<Rightarrow>
              if v = AvNil then ani_event_ignored env aniEvReset x
              else bind_run (GetUint16Attrib (an_conv16 env) v) (\<lambda>r.
                case r of
                  Inl e \<Rightarrow> ani_event_ignored env aniEvReset x
                | Inr flex \<Rightarrow>
                    pq_loop env (flex AND bitTrafficSchedulerPtrSetPermitted = bitTrafficSchedulerPtrSetPermitted)
                      (fold add_queue (af_gemPortAttribsSlice a) []) x)))"

definition run_ani_task :: "ani_env \<Rightarrow> ani_task \<Rightarrow> ani \<Rightarrow> ani run" where
  "run_ani_task env t x =
     (case t of
        AEvent ev \<Rightarrow> ani_event_ignored env ev x
      | ACreateGemNCTPs \<Rightarrow> performCreatingGemNCTPs env x
      | ACreateGemIWs \<Rightarrow> performCreatingGemIWs env x
      | ASetPQs \<Rightarrow> performSettingPQs env x)"

text \<open>One of the waiting goroutines runs.\<close>

definition run_nth_ani_task :: "ani_env \<Rightarrow> nat \<Rightarrow> ani \<Rightarrow> ani run" where
  "run_nth_ani_task env i x =
     (let (a, s) = x in
      if length (af_tasks a) \<le> i then Done x
      else run_ani_task env (af_tasks a ! i) (a\<lparr>af_tasks := take i (af_tasks a) @ drop (i + 1) (af_tasks a)\<rparr>, s))"

subsection \<open>Responses\<close>

text \<open>The event a successful response to the last request leads to, by the class of its entity;
  \<open>Inr ()\<close> wakes the waiting background routine.\<close>

definition response_event :: "UniPonAniConfigFsm \<Rightarrow> omci_response \<Rightarrow> (ani_event + unit) option" where
  "response_event a m =
     (let c = rs_class m in
      case rs_type m of
        CreateResponse \<Rightarrow>
          (if c = Dot1PMapperClassID then Some (Inl aniEvRxDot1pmapCResp)
           else if c = MBPCDClassID then Some (Inl aniEvRxMbpcdResp)
           else if c \<in> {GemPortNetworkCtpClassID, GemInterworkingTerminationPointClassID, MulticastGemIWClassID}
           then Some (Inr ()) else None)
      | SetResponse \<Rightarrow>
          (if c = TContClassID
           then Some (Inl (if af_requestEventOffset a = 0 then aniEvRxTcontsResp else aniEvRxResetTcontResp))
           else if c \<in> {PriorityQueueClassID, MulticastGemIWClassID} then Some (Inr ())
           else if c = Dot1PMapperClassID then Some (Inl aniEvRxDot1pmapSResp) else None)
      | DeleteResponse \<Rightarrow>
          (if c = GemInterworkingTerminationPointClassID then Some (Inl aniEvRxRemGemiwResp)
           else if c = GemPortNetworkCtpClassID then Some (Inl aniEvRxRemGemntpResp)
           else if c = TrafficDescriptorClassID then Some (Inl aniEvRxRemTdResp)
           else if c = Dot1PMapperClassID then Some (Inl aniEvRxRem1pMapperResp)
           else if c = MBPCDClassID then Some (Inl aniEvRxRemAniBPCDResp) else None)
      | OtherResponse \<Rightarrow> None)"

text \<open>A T-CONT that could not be set is given back.\<close>

definition handleOmciAniConfigSetFailResponseMessage :: "ani_env \<Rightarrow> omci_response \<Rightarrow> ani \<Rightarrow> ani run" where
  "handleOmciAniConfigSetFailResponseMessage env m x =
     (let (a, s) = x in
      if af_pLastTxMeInstance a = Some (rs_class m, rs_instance m) \<and> rs_class m = TContClassID then
        bind_run (tp_section (\<lambda>s. map_of (mapPonAniConfig s) (uniTpKey a)) s) (\<lambda>c.
          case c of
            Some cfg \<Rightarrow>
              if af_requestEventOffset a = 0 \<and> \<not> af_tcontSetBefore a \<and> an_onuDevice env
              then Done (a, FreeTcont (allocID (tcontParams cfg)) s) else Done (a, s)
          | None \<Rightarrow> Done (a, s))
      else Done (a, s))"

definition handleOmciAniConfigMessage :: "ani_env \<Rightarrow> omci_response \<Rightarrow> ani \<Rightarrow> ani run" where
  "handleOmciAniConfigMessage env m x =
     (let (a, s) = x in
      if rs_type m = OtherResponse \<or> \<not> rs_layer m then Done x
      else if response_failed m then
        (let x = (a, tp_emit (AniFailureResponse (rs_class m) (rs_instance m) (rs_result m)) s) in
         if rs_type m = SetResponse then handleOmciAniConfigSetFailResponseMessage env m x else Done x)
      else if af_pLastTxMeInstance a = Some (rs_class m, rs_instance m) then
        (case response_event a m of
           None \<Rightarrow> Done x
         | Some (Inl ev) \<Rightarrow> ani_event_ignored env ev x
         | Some (Inr u) \<Rightarrow> Done (a, tp_emit AniResponseReceived s))
      else Done x)"

datatype ani_message = AniOmci omci_response | AniAbort | AniOther | AniChannelClosed

fun processOmciAniMessages :: "ani_env \<Rightarrow> ani_message list \<Rightarrow> ani \<Rightarrow> ani run" where
  "processOmciAniMessages env [] x = Done x"
| "processOmciAniMessages env (m # ms) x =
     (case m of
        AniOmci r \<Rightarrow> bind_run (handleOmciAniConfigMessage env r x) (processOmciAniMessages env ms)
      | AniAbort \<Rightarrow> Done x
      | AniOther \<Rightarrow> processOmciAniMessages env ms x
      | AniChannelClosed \<Rightarrow> ani_event_ignored env aniEvReset x)"

definition ani_CancelProcessing :: "ani_env \<Rightarrow> ani \<Rightarrow> ani run" where
  "ani_CancelProcessing env x =
     (let (a, s) = x; uni = UniID (af_pOnuUniPort a); tp = af_techProfileID a in
      bind_run (if af_fsm a \<noteq> aniStDisabled \<and> af_fsm a \<noteq> aniStResetting
                then setProfileResetting uni tp True s else Done s) (\<lambda>s.
      bind_run (ani_event_ignored env aniEvReset
                  (a\<lparr>af_isCanceled := True, af_isWaitingForFlowDelete := False\<rparr>, s)) (\<lambda>(a, s).
      bind_run (clearAniSideConfig uni tp s) (\<lambda>s. Done (a, s)))))"

definition NewUniPonAniConfigFsm ::
    "OnuUniPort \<Rightarrow> u8 \<Rightarrow> string \<Rightarrow> u8 \<Rightarrow> TechProfileInstance option \<Rightarrow> UniPonAniConfigFsm" where
  "NewUniPonAniConfigFsm apUniPort aTechProfileID aTechProfileType aRequestEvent aTpInst =
     \<lparr> af_pOnuUniPort = apUniPort, af_techProfileID = aTechProfileID, af_techProfileType = aTechProfileType,
       af_techProfileInst = aTpInst, af_requestEvent = aRequestEvent, af_gemPortAttribsSlice = [],
       af_mapperSP0ID = 0, af_macBPCD0ID = 0, af_tcont0ID = 0, af_alloc0ID = 0, af_isCanceled = False,
       af_procStep = 0, af_chanSet = False, af_requestEventOffset = 0, af_isWaitingForFlowDelete = False,
       af_tcontSetBefore = False, af_pLastTxMeInstance = None, af_fsm = aniStDisabled, af_tasks = [] \<rparr>"

definition setFsmCompleteChannel :: "u8 \<Rightarrow> UniPonAniConfigFsm \<Rightarrow> UniPonAniConfigFsm" where
  "setFsmCompleteChannel aProcStep a = a\<lparr>af_procStep := aProcStep, af_chanSet := True\<rparr>"

end
