(* ===== verification/Uni_Tp.thy ===== *)
theory Uni_Tp
  imports Ani_Cfg
begin

text \<open>
  The operations on the tech profiles of an ONU that drive the ANI machines
  (\<^verbatim>\<open>src/internal/pkg/avcfg/onu_uni_tp.go\<close>): configuring a profile of a UNI, removing a GEM
  port or the T-CONT of a profile, and the check whether a profile is cleared; then the machines
  of an ONU as a whole, step by step.

  A caller that waits for the end of the processing is given what the others do meanwhile and
  the value it receives at last, or none when its context ends first.
\<close>

definition OmciAniConfigDone :: u8 where "OmciAniConfigDone = 11"

subsection \<open>Running a machine\<close>

definition on_fsm :: "UniTP \<Rightarrow> (ani \<Rightarrow> ('a \<times> ani) run) \<Rightarrow> OnuUniTechProf \<Rightarrow> ('a \<times> OnuUniTechProf) run" where
  "on_fsm k f s =
     (case map_of (fsms s) k of
        None \<Rightarrow> nil_deref
      | Some a \<Rightarrow>
          bind_run (f (a, s)) (\<lambda>(r, a, s). Done (r, s\<lparr>PAniConfigFsm := map_option (AList.update k a) (PAniConfigFsm s)\<rparr>)))"

definition runAniConfigFsm ::
    "ani_env \<Rightarrow> ani_event \<Rightarrow> u8 \<Rightarrow> u8 \<Rightarrow> u8 \<Rightarrow> OnuUniTechProf \<Rightarrow> (tp_error option \<times> OnuUniTechProf) run" where
  "runAniConfigFsm env aEvent aProcessingStep aUniID aTpID =
     on_fsm (aUniID, aTpID) (\<lambda>(a, s).
       if aEvent = aniEvStart \<and> af_fsm a \<noteq> aniStDisabled then Done (Some WrongStateToStart, a, s)
       else if aEvent \<noteq> aniEvStart \<and> af_fsm a \<noteq> aniStConfigDone then Done (Some WrongStateToRemove, a, s)
       else bind_run (ani_fire env aEvent (setFsmCompleteChannel aProcessingStep a, s)) (\<lambda>(e, x).
              Done (if e \<noteq> None then Some CannotTriggerEvent else None, x)))"

definition reset_if_present :: "ani_env \<Rightarrow> UniTP \<Rightarrow> OnuUniTechProf \<Rightarrow> OnuUniTechProf run" where
  "reset_if_present env k s =
     (if map_of (fsms s) k = None then Done s
      else bind_run (on_fsm k (ani_fire env aniEvReset) s) (\<lambda>(e, s). Done s))"

definition createAniConfigFsm ::
    "ani_env \<Rightarrow> u8 \<Rightarrow> u8 \<Rightarrow> TechProfileInstance option \<Rightarrow> OnuUniPort \<Rightarrow> u8 \<Rightarrow> u8 \<Rightarrow> OnuUniTechProf \<Rightarrow>
     (tp_error option \<times> OnuUniTechProf) run" where
  "createAniConfigFsm env aUniID aTpID tpInst apCurrentUniPort devEvent aProcessingStep s =
     (if \<not> an_onuDevice env then Done (Some NoValidOnuDevice, s)
      else case mapUniTpIndication s (aUniID, aTpID) of
        None \<Rightarrow> nil_deref
      | Some i \<Rightarrow>
          let a = NewUniPonAniConfigFsm apCurrentUniPort aTpID (techProfileType i) devEvent tpInst;
              s = s\<lparr>PAniConfigFsm := Some (AList.update (aUniID, aTpID) a (fsms s))\<rparr>
          in runAniConfigFsm env aniEvStart aProcessingStep aUniID aTpID s)"

subsection \<open>Configuring a profile\<close>

text \<open>What \<^verbatim>\<open>setAniSideConfigFromTechProfile\<close> does while it holds the mutex.\<close>

definition start_profile ::
    "ani_env \<Rightarrow> u8 \<Rightarrow> u8 \<Rightarrow> string \<Rightarrow> TechProfileInstance option \<Rightarrow> OnuUniPort \<Rightarrow> u8 \<Rightarrow> OnuUniTechProf \<Rightarrow>
     (tp_error option \<times> OnuUniTechProf) run" where
  "start_profile env aUniID aTpID profType tpInst apCurrentUniPort aProcessingStep s =
     (let k = (aUniID, aTpID); s = s\<lparr>tpProfileExists := (tpProfileExists s)(k \<mapsto> False)\<rparr>;
          old = mapUniTpIndication s k
      in if (case old of Some i \<Rightarrow> aTpID = techProfileID i | None \<Rightarrow> False)
         then Done (Some (TechProfileExists aUniID aTpID),
                    SendChTpConfigProcessingFinished 0 (s\<lparr>tpProfileExists := (tpProfileExists s)(k \<mapsto> True)\<rparr>))
         else
           let s = (if old = None then s else s\<lparr>mapPonAniConfig := AList.delete k (mapPonAniConfig s)\<rparr>);
               s = s\<lparr>mapUniTpIndication := (mapUniTpIndication s)(k \<mapsto>
                       \<lparr> techProfileType = profType, techProfileID = aTpID, techProfileConfigDone = False,
                         techProfileToDelete = False \<rparr>)\<rparr>
           in if map_of (fsms s) k = None
              then createAniConfigFsm env aUniID aTpID tpInst apCurrentUniPort OmciAniConfigDone aProcessingStep s
              else runAniConfigFsm env aniEvStart aProcessingStep aUniID aTpID s)"

definition setAniSideConfigFromTechProfile ::
    "ani_env \<Rightarrow> u8 \<Rightarrow> u8 \<Rightarrow> string \<Rightarrow> TechProfileInstance option \<Rightarrow> OnuUniPort \<Rightarrow> u8 \<Rightarrow> OnuUniTechProf \<Rightarrow>
     (tp_error option \<times> OnuUniTechProf) run" where
  "setAniSideConfigFromTechProfile env aUniID aTpID aPathString tpInst apCurrentUniPort aProcessingStep s =
     (let subStringSlice = split_on CHR ''/'' aPathString in
      if length subStringSlice \<le> 2
      then Done (Some (InvalidPathFormat aPathString), SendChTpConfigProcessingFinished 0 s)
      else if tp_locked s then Deadlock
      else bind_run (start_profile env aUniID aTpID (subStringSlice ! 0) tpInst apCurrentUniPort aProcessingStep
                       (s\<lparr>tp_locked := True\<rparr>)) (\<lambda>(e, s). Done (e, s\<lparr>tp_locked := False\<rparr>)))"

record tp_wait =
  tw_others :: "OnuUniTechProf \<Rightarrow> OnuUniTechProf run"
  tw_received :: "u8 option"

definition waitForTimeoutOrCompletion :: "tp_wait \<Rightarrow> u8 \<Rightarrow> OnuUniTechProf \<Rightarrow> (bool \<times> OnuUniTechProf) run" where
  "waitForTimeoutOrCompletion w aProcessingStep s =
     bind_run (tw_others w s) (\<lambda>s. Done (tw_received w = Some aProcessingStep, s))"

definition set_result :: "UniTP \<Rightarrow> tp_error \<Rightarrow> OnuUniTechProf \<Rightarrow> OnuUniTechProf run" where
  "set_result k e = tp_section (\<lambda>s. s\<lparr>ProcResult := (ProcResult s)(k := Some e)\<rparr>)"

definition ConfigureUniTp ::
    "ani_env \<Rightarrow> tp_wait \<Rightarrow> u8 \<Rightarrow> string \<Rightarrow> TechProfileInstance option \<Rightarrow> OnuUniPort \<Rightarrow> OnuUniTechProf \<Rightarrow> OnuUniTechProf run" where
  "ConfigureUniTp env w aUniID aPathString tpInst pCurrentUniPort s =
     (let TpID = fst (GetTpIDFromTpPath aPathString); k = (aUniID, TpID) in
      bind_run (GetProfileResetting k s) (\<lambda>resetting.
        if resetting then set_result k ResetInParallel s
        else
          bind_run (setAniSideConfigFromTechProfile env aUniID TpID aPathString tpInst pCurrentUniPort 1 s) (\<lambda>(e, s).
            case e of
              Some err \<Rightarrow> set_result k err s
            | None \<Rightarrow>
                bind_run (waitForTimeoutOrCompletion w 1 s) (\<lambda>(done, s).
                  if done then Done s
                  else bind_run (if ProcResult s k = None then set_result k ConfigAborted s else tp_section (\<lambda>s. s) s)
                         (reset_if_present env k)))))"

subsection \<open>Removing resources\<close>

text \<open>The entry of the GEM port notes its own identifier for the removal and is remembered. An
  entry remembered by an earlier request stays when there is no such GEM port.\<close>

definition mark_gem :: "UniTP \<Rightarrow> u16 \<Rightarrow> tcontGemList \<Rightarrow> OnuUniTechProf \<Rightarrow> OnuUniTechProf" where
  "mark_gem k i cfg s =
     (case map_of (mapGemPortParams cfg) i of
        None \<Rightarrow> s
      | Some g \<Rightarrow>
          let g = g\<lparr>removeGemID := i\<rparr> in
          s\<lparr>mapPonAniConfig := AList.update k (cfg\<lparr>mapGemPortParams := AList.update i g (mapGemPortParams cfg)\<rparr>)
              (mapPonAniConfig s),
            mapRemoveGemEntry := (mapRemoveGemEntry s)(k \<mapsto> g)\<rparr>)"

text \<open>The common end of both removals: the machine runs, and the caller waits for it; \<open>True\<close>
  when the processing is finished.\<close>

definition run_removal ::
    "ani_env \<Rightarrow> tp_wait \<Rightarrow> ani_event \<Rightarrow> UniTP \<Rightarrow> OnuUniTechProf \<Rightarrow> (bool \<times> OnuUniTechProf) run" where
  "run_removal env w ev k s =
     bind_run (runAniConfigFsm env ev 1 (fst k) (snd k) s) (\<lambda>(e, s).
       if e \<noteq> None then Done (False, s)
       else bind_run (waitForTimeoutOrCompletion w 1 s) (\<lambda>(done, s).
         if done then Done (True, s)
         else bind_run (reset_if_present env k s) (\<lambda>s. Done (False, s))))"

definition delete_gem :: "ani_env \<Rightarrow> tp_wait \<Rightarrow> UniTP \<Rightarrow> OnuUniTechProf \<Rightarrow> OnuUniTechProf run" where
  "delete_gem env w k s =
     (if mapRemoveGemEntry s k = None then Done s
      else
        bind_run
          (if \<not> an_readyForOmci env then Done (True, s)
           else if map_of (fsms s) k = None then bind_run (deleteGemPortParams k s) (\<lambda>s. Done (False, s))
           else bind_run (GetProfileResetting k s) (\<lambda>resetting.
             if resetting then bind_run (deleteGemPortParams k s) (\<lambda>s. Done (False, s))
             else run_removal env w aniEvRemGemiw k s))
          (\<lambda>(finished, s).
            if \<not> finished then Done s
            else if mapRemoveGemEntry s k = None then nil_deref else deleteGemPortParams k s))"

definition DeleteTpResource ::
    "ani_env \<Rightarrow> tp_wait \<Rightarrow> u8 \<Rightarrow> u8 \<Rightarrow> ResourceEntry \<Rightarrow> u32 \<Rightarrow> OnuUniTechProf \<Rightarrow> OnuUniTechProf run" where
  "DeleteTpResource env w aUniID aTpID aResource aEntryID s =
     (let k = (aUniID, aTpID) in
      bind_run (tp_section (\<lambda>s. map_of (mapPonAniConfig s) k) s) (\<lambda>c.
        case c of None \<Rightarrow> Done s
        | Some cfg \<Rightarrow>
            (case aResource of
               CResourceGemPort \<Rightarrow> delete_gem env w k (mark_gem k (ucast aEntryID) cfg s)
             | CResourceTcont \<Rightarrow>
                 if allocID (tcontParams cfg) \<noteq> ucast aEntryID \<or> map_of (fsms s) k = None \<or> \<not> an_readyForOmci env
                 then Done s
                 else bind_run (GetProfileResetting k s) (\<lambda>resetting.
                   if resetting then Done s
                   else bind_run (run_removal env w aniEvRemTcontPath k s) (\<lambda>(finished, s). Done s)))))"

definition IsTechProfileConfigCleared :: "ani_env \<Rightarrow> u8 \<Rightarrow> u8 \<Rightarrow> OnuUniTechProf \<Rightarrow> (bool \<times> OnuUniTechProf) run" where
  "IsTechProfileConfigCleared env uniID tpID s =
     (let k = (uniID, tpID) in
      bind_run (tp_section (\<lambda>s. map_of (mapPonAniConfig s) k) s) (\<lambda>c.
        case c of
          Some cfg \<Rightarrow>
            if unicastGemCount k s = 0 \<or> allocID (tcontParams cfg) = 0 then
              bind_run (clearAniSideConfig uniID tpID s) (\<lambda>s.
              bind_run (reset_if_present env k s) (\<lambda>s. Done (True, tp_emit AniResourceRemoved s)))
            else Done (False, s)
        | None \<Rightarrow> Done (False, s)))"

subsection \<open>Steps\<close>

datatype tp_op =
    TpTask UniTP nat
  | TpMessage UniTP omci_response
  | TpCancel UniTP
  | TpConfigure tp_wait u8 string "TechProfileInstance option" OnuUniPort
  | TpDelete tp_wait u8 u8 ResourceEntry u32
  | TpCleared u8 u8
  | TpToDelete u8 u8 bool
  | TpResetError u8 u8
  | TpFreeTcont u16

definition ani_step :: "UniTP \<Rightarrow> (ani \<Rightarrow> ani run) \<Rightarrow> OnuUniTechProf \<Rightarrow> OnuUniTechProf run" where
  "ani_step k f s =
     (if map_of (fsms s) k = None then Done s
      else bind_run (on_fsm k (\<lambda>x. bind_run (f x) (\<lambda>x. Done ((), x))) s) (\<lambda>(u, s). Done s))"

fun tp_step :: "ani_env \<times> tp_op \<Rightarrow> OnuUniTechProf \<Rightarrow> OnuUniTechProf run" where
  "tp_step (env, TpTask k i) s = ani_step k (run_nth_ani_task env i) s"
| "tp_step (env, TpMessage k m) s = ani_step k (handleOmciAniConfigMessage env m) s"
| "tp_step (env, TpCancel k) s = ani_step k (ani_CancelProcessing env) s"
| "tp_step (env, TpConfigure w u p ti port) s = ConfigureUniTp env w u p ti port s"
| "tp_step (env, TpDelete w u t r i) s = DeleteTpResource env w u t r i s"
| "tp_step (env, TpCleared u t) s = bind_run (IsTechProfileConfigCleared env u t s) (\<lambda>(b, s). Done s)"
| "tp_step (env, TpToDelete u t b) s = SetProfileToDelete u t b s"
| "tp_step (env, TpResetError u t) s = ResetTpProcessingErrorIndication u t s"
| "tp_step (env, TpFreeTcont al) s = Done (FreeTcont al s)"

end
