(* ===== verification/Ani_Props.thy ===== *)
theory Ani_Props
  imports Uni_Tp "HOL-Library.Multiset"
begin

text \<open>
  What the translation of a profile yields and what the priority bits of its GEM ports mean for
  the 802.1p mapper (\<^verbatim>\<open>omci_ani_config.go\<close>): types of the collected parameters, independence
  of the order in which Go ranges over the map of the GEM ports, and the bit maps that end the
  adapter. First the profile, the tables and the environment on which the theorems about tech
  profiles are exercised.
\<close>

subsection \<open>A sample profile\<close>

definition sample_common :: OnuCmnMEDB where
  "sample_common = NewOnuCmnMEDB\<lparr>MeDb := Some
     [(262, [(0x8001, Some []), (0x8002, Some [])]),
      (277, [(0x8001, Some [(''RelatedPort'', AvUint32 0x80010001)]), (1, Some [(''RelatedPort'', AvFloat64 0x01010001)])]),
      (257, [(0, Some [(''QualityOfServiceQosConfigurationFlexibility'', AvUint16 2)])])]\<rparr>"

definition sample_tables :: OnuUniTechProf where
  "sample_tables = NewOnuUniTechProf ((NewOnuDeviceDB ''onu'')\<lparr>CommonMeDb := Some 0\<rparr>) [0 \<mapsto> sample_common] []"

definition sample_gem :: "u32 \<Rightarrow> string \<Rightarrow> GemPortAttributes" where
  "sample_gem i pbits = \<lparr> ga_GemportId = i, ga_PbitMap = pbits, ga_AesEncryption = ''True'', ga_SchedulingPolicy = ''WRR'',
     ga_PriorityQ = 1, ga_Weight = 10, ga_DiscardPolicy = ''TailDrop'', ga_IsMulticast = [], ga_MulticastGemId = 0,
     ga_DynamicAccessControlList = [], ga_StaticAccessControlList = [] \<rparr>"

definition sample_profile :: "u32 \<Rightarrow> string \<Rightarrow> TechProfileInstance" where
  "sample_profile gem pbits =
    \<lparr> ti_UsScheduler = Some \<lparr> sa_AllocId = 1024, sa_QSchedPolicy = ''StrictPriority'' \<rparr>, ti_NumGemPorts = 1,
      ti_UpstreamGemPortAttributeList = [sample_gem gem pbits], ti_DownstreamGemPortAttributeList = [] \<rparr>"

definition sample_ani_env :: ani_env where
  "sample_ani_env = \<lparr> an_send = (\<lambda>_. False), an_wait = (\<lambda>_. ResponseOk), an_skipReconciling = False, an_readyForOmci = True,
     an_onuDevice = True, an_metrics = True, an_flowRemovePending = Some False, an_flowWait = ResponseOk,
     an_conv32 = (\<lambda>_. 0), an_conv16 = (\<lambda>_. 0) \<rparr>"

definition ok_response :: "omci_response_type \<Rightarrow> u16 \<Rightarrow> u16 \<Rightarrow> omci_response" where
  "ok_response t c i = \<lparr> rs_type = t, rs_layer = True, rs_class = c, rs_instance = i, rs_result = 0 \<rparr>"

subsection \<open>Translation of profiles\<close>

text \<open>Every entry is stored under its own identifier, with a queue index of at most 7; a multicast
  entry is downstream, any other bidirectional.\<close>

definition gem_entry_ok :: "u16 \<times> gemPortParamStruct \<Rightarrow> bool" where
  "gem_entry_ok e \<longleftrightarrow>
     (let (i, g) = e in gemPortID g = i \<and> prioQueueIndex g \<le> 7 \<and>
        (if isMulticast g then multicastGemPortID g = i \<and> direction g = cGemDirAniToUni
         else direction g = cGemDirBiDirect))"

definition gem_map_ok :: "gem_map \<Rightarrow> bool" where
  "gem_map_ok m \<longleftrightarrow> distinct (akeys m) \<and> list_all gem_entry_ok m"

lemma set_update_subset: "set (AList.update k v m) \<subseteq> insert (k, v) (set m)"
  by (induction m) auto

lemma gem_map_ok_update: "gem_map_ok m \<Longrightarrow> gem_entry_ok (i, g) \<Longrightarrow> gem_map_ok (AList.update i g m)"
  using set_update_subset [of i g m] by (auto simp: gem_map_ok_def list_all_iff)

lemma ucast_le_7: "\<not> 7 < (x :: u32) \<Longrightarrow> (ucast x :: u8) \<le> 7"
proof -
  assume "\<not> 7 < x"
  then have x: "unat x \<le> 7" by (simp add: word_less_nat_alt not_less)
  have "unat (ucast x :: u8) \<le> 7"
    using le_trans [OF take_bit_nat_less_eq_self x] by (simp add: unsigned_ucast_eq)
  then show ?thesis by (simp add: word_le_nat_alt)
qed

lemma parse_upstream_ok:
  "parse_upstream num pos cs (read, m) = Inr (read', m') \<Longrightarrow> gem_map_ok m \<Longrightarrow>
   gem_map_ok m' \<and> (read' \<and> \<not> read \<longrightarrow> m' \<noteq> []) \<and> (m \<noteq> [] \<longrightarrow> m' \<noteq> [])"
proof (induction num pos cs "(read, m)" arbitrary: read m rule: parse_upstream.induct)
  case (2 num pos c cs read m)
  show ?case
  proof (cases "of_nat pos = num")
    case False
    then have p: "\<not> 7 < ga_PriorityQ c" using 2(2) by (auto split: if_splits)
    let ?m = "AList.update (ucast (ga_GemportId c)) (upstream_gem c) m"
    have "gem_entry_ok (ucast (ga_GemportId c), upstream_gem c)"
      using ucast_le_7 [OF p] by (simp add: gem_entry_ok_def upstream_gem_def)
    then have ok: "gem_map_ok ?m" using 2(3) by (rule gem_map_ok_update [rotated])
    have "?m \<noteq> []" by (cases m) auto
    then show ?thesis using 2(1) [OF False p _ ok] 2(2) False p by simp
  qed (use 2 in simp)
qed simp

lemma parse_downstream_ok:
  "parse_downstream cs m = Inr m' \<Longrightarrow> gem_map_ok m \<Longrightarrow> gem_map_ok m' \<and> (m \<noteq> [] \<longrightarrow> m' \<noteq> [])"
proof (induction cs arbitrary: m)
  case (Cons c cs)
  let ?i = "ucast (ga_MulticastGemId c) :: u16"
  let ?b = "if ga_IsMulticast c = [] then Some False else ParseBool (ga_IsMulticast c)"
  show ?case
  proof (cases "?b = Some True \<and> map_of m ?i = None")
    case True
    then have p: "\<not> 7 < ga_PriorityQ c" using Cons.prems(1) by (auto split: if_splits)
    have "gem_entry_ok (?i, multicast_gem c)"
      using ucast_le_7 [OF p] by (simp add: gem_entry_ok_def multicast_gem_def)
    then have "gem_map_ok (AList.update ?i (multicast_gem c) m)"
      using Cons.prems(2) by (rule gem_map_ok_update [rotated])
    moreover have "AList.update ?i (multicast_gem c) m \<noteq> []" by (cases m) auto
    moreover have "parse_downstream cs (AList.update ?i (multicast_gem c) m) = Inr m'"
      using Cons.prems(1) True p by (auto split: if_splits)
    ultimately show ?thesis using Cons.IH by blast
  next
    case False
    then have "parse_downstream cs m = Inr m'"
      using Cons.prems(1) by (auto simp: Let_def split: option.splits bool.splits if_splits)
    then show ?thesis using Cons.IH Cons.prems(2) by blast
  qed
qed simp

text \<open>C32: A profile that is accepted gives a map of GEM ports with one entry per identifier and at
  least one entry; every entry carries its own identifier and a queue index of at most 7, and is
  downstream when it is a multicast entry and bidirectional otherwise.\<close>
theorem parsed_profile_ok:
  assumes "parseAndValidateTechProfileConfig tpInst = Done (Inr cfg)"
  shows "distinct (akeys (mapGemPortParams cfg)) \<and> mapGemPortParams cfg \<noteq> [] \<and>
         (\<forall>(i, g) \<in> set (mapGemPortParams cfg). gemPortID g = i \<and> prioQueueIndex g \<le> 7 \<and>
            (if isMulticast g then multicastGemPortID g = i \<and> direction g = cGemDirAniToUni
             else direction g = cGemDirBiDirect))"
proof -
  obtain ti m read where ti: "tpInst = Some ti"
    and up: "parse_upstream (ti_NumGemPorts ti) 0 (ti_UpstreamGemPortAttributeList ti) (False, []) = Inr (read, m)"
    and dn: "parse_downstream (ti_DownstreamGemPortAttributeList ti) m = Inr (mapGemPortParams cfg)" and read
    using assms by (auto simp: parseAndValidateTechProfileConfig_def nil_deref_def Let_def
        split: option.splits sum.splits if_splits prod.splits)
  have "gem_map_ok m \<and> m \<noteq> []" using parse_upstream_ok [OF up] \<open>read\<close> by (simp add: gem_map_ok_def)
  then have "gem_map_ok (mapGemPortParams cfg)" "mapGemPortParams cfg \<noteq> []" using parse_downstream_ok [OF dn] by auto
  then show ?thesis by (auto simp: gem_map_ok_def gem_entry_ok_def list_all_iff split: prod.splits)
qed

theorem parsed_profile_ok_witness:
  "\<exists>cfg. parseAndValidateTechProfileConfig (Some (sample_profile 1025 ''0b00000010'')) = Done (Inr cfg) \<and>
     map (\<lambda>(i, g). prioQueueIndex g \<le> 7 \<and> direction g = cGemDirBiDirect) (mapGemPortParams cfg) = [True]"
proof -
  let ?r = "parseAndValidateTechProfileConfig (Some (sample_profile 1025 ''0b00000010''))"
  have "case ?r of Done (Inr cfg) \<Rightarrow> map (\<lambda>(i, g). (i, isMulticast g)) (mapGemPortParams cfg) = [(1025, False)] | _ \<Rightarrow> False"
    by code_simp
  then obtain cfg g where "?r = Done (Inr cfg)" "mapGemPortParams cfg = [(1025, g)]" "\<not> isMulticast g"
    by (auto split: run.splits sum.splits)
  then show ?thesis using parsed_profile_ok [of "Some (sample_profile 1025 ''0b00000010'')" cfg] by simp
qed

subsection \<open>The priorities of the mapper\<close>

definition serves :: "ponAniGemPortAttribs \<Rightarrow> nat \<Rightarrow> bool" where
  "serves p i \<longleftrightarrow> \<not> pa_isMulticast p \<and> pa_pbitString p \<noteq> [] \<and> pa_pbitString p ! (7 - i) = CHR ''1''"

definition pbits_ok :: "ponAniGemPortAttribs \<Rightarrow> bool" where
  "pbits_ok p \<longleftrightarrow> pa_isMulticast p \<or> pa_pbitString p = [] \<or> 8 \<le> length (pa_pbitString p)"

lemma assign_prios_ok:
  "pbits_ok p \<Longrightarrow> length arr = 8 \<Longrightarrow>
   \<exists>arr'. assign_prios p arr = Done arr' \<and> length arr' = 8 \<and>
     (\<forall>i<8. arr' ! i = (if serves p i \<and> arr ! i = 0 then pa_gemPortID p else arr ! i))"
  by (auto simp: assign_prios_def pbits_ok_def serves_def)

definition first_server :: "nat \<Rightarrow> ponAniGemPortAttribs list \<Rightarrow> u16" where
  "first_server i ps = (case filter (\<lambda>p. serves p i \<and> pa_gemPortID p \<noteq> 0) ps of [] \<Rightarrow> 0 | p # _ \<Rightarrow> pa_gemPortID p)"

lemma prio_loop_ok:
  "list_all pbits_ok ps \<Longrightarrow> length arr = 8 \<Longrightarrow>
   \<exists>arr'. prio_loop ps arr = Done arr' \<and> length arr' = 8 \<and>
     (\<forall>i<8. arr' ! i = (if arr ! i = 0 then first_server i ps else arr ! i))"
proof (induction ps arbitrary: arr)
  case (Cons p ps)
  obtain arr1 where 1: "assign_prios p arr = Done arr1" "length arr1 = 8"
    "\<forall>i<8. arr1 ! i = (if serves p i \<and> arr ! i = 0 then pa_gemPortID p else arr ! i)"
    using assign_prios_ok [of p arr] Cons.prems by auto
  obtain arr2 where 2: "prio_loop ps arr1 = Done arr2" "length arr2 = 8"
    "\<forall>i<8. arr2 ! i = (if arr1 ! i = 0 then first_server i ps else arr1 ! i)"
    using Cons.IH [OF _ 1(2)] Cons.prems by auto
  have "\<forall>i<8. arr2 ! i = (if arr ! i = 0 then first_server i (p # ps) else arr ! i)"
    using 1(3) 2(3) by (auto simp: first_server_def)
  with 1 2 show ?case by simp
qed (simp add: first_server_def)

lemma first_server_unique:
  assumes "\<forall>p \<in> set ps. \<forall>q \<in> set ps. serves p i \<and> serves q i \<longrightarrow> p = q" "p \<in> set ps" "serves p i"
  shows "first_server i ps = pa_gemPortID p"
proof (cases "filter (\<lambda>p. serves p i \<and> pa_gemPortID p \<noteq> 0) ps")
  case Nil
  then show ?thesis using assms by (auto simp: first_server_def filter_empty_conv)
next
  case (Cons q qs)
  then have "q \<in> set (filter (\<lambda>p. serves p i \<and> pa_gemPortID p \<noteq> 0) ps)" by simp
  then have "q \<in> set ps" "serves q i" by simp_all
  then show ?thesis using assms Cons by (auto simp: first_server_def)
qed

lemma first_server_none:
  "\<forall>p \<in> set ps. \<not> serves p i \<Longrightarrow> first_server i ps = 0"
  by (simp add: first_server_def filter_empty_conv split: list.splits)

text \<open>C33: When no two GEM ports claim the same priority and every bit map has its eight places, the
  pointers of the mapper do not depend on the order in which the GEM ports are visited: each
  priority leads to the GEM port that claims it, and to none when no GEM port does.\<close>

theorem prio_assignment:
  assumes "mset ps = mset ps'" "\<forall>p \<in> set ps. pbits_ok p"
    and "\<forall>i < 8. \<forall>p \<in> set ps. \<forall>q \<in> set ps. serves p i \<and> serves q i \<longrightarrow> p = q"
  shows "\<exists>arr. prio_loop ps (replicate 8 0) = Done arr \<and> prio_loop ps' (replicate 8 0) = Done arr \<and> length arr = 8 \<and>
     (\<forall>i < 8. (\<forall>p \<in> set ps. serves p i \<longrightarrow> arr ! i = pa_gemPortID p) \<and>
              ((\<forall>p \<in> set ps. \<not> serves p i) \<longrightarrow> arr ! i = 0))"
proof -
  have eq: "set ps = set ps'" using assms(1) by (rule mset_eq_setD)
  obtain arr where 1: "prio_loop ps (replicate 8 0) = Done arr" "length arr = 8" "\<forall>i<8. arr ! i = first_server i ps"
    using prio_loop_ok [of ps "replicate 8 0"] assms(2) by (auto simp: list_all_iff)
  obtain arr' where 2: "prio_loop ps' (replicate 8 0) = Done arr'" "length arr' = 8" "\<forall>i<8. arr' ! i = first_server i ps'"
    using prio_loop_ok [of ps' "replicate 8 0"] assms(2) eq by (auto simp: list_all_iff)
  have "arr ! i = arr' ! i" if i: "i < 8" for i
  proof (cases "\<exists>p \<in> set ps. serves p i")
    case True
    then obtain p where "p \<in> set ps" "serves p i" by blast
    then show ?thesis using 1(3) 2(3) i first_server_unique [of ps i p] first_server_unique [of ps' i p] assms(3) eq by simp
  next
    case False
    then show ?thesis using 1(3) 2(3) i eq by (simp add: first_server_none)
  qed
  then have "arr = arr'" using 1(2) 2(2) by (simp add: list_eq_iff_nth_eq)
  with 1 2 show ?thesis using assms(3) by (auto simp: first_server_unique first_server_none)
qed

text \<open>One unicast GEM port with a non-empty bit map of fewer than eight places ends the adapter
  when the mapper is set, whatever the other GEM ports are.\<close>

theorem short_pbit_map_panics:
  assumes "p \<in> set (af_gemPortAttribsSlice a)" "\<not> pbits_ok p"
  shows "enterSettingDot1PMapper env (a, s) = Fatal ''index out of range''"
proof -
  have "prio_loop ps arr = Fatal ''index out of range''" if "p \<in> set ps" for ps arr
    using that
  proof (induction ps arbitrary: arr)
    case (Cons q ps)
    then show ?case
    proof (cases "pbits_ok q")
      case True
      then have "q \<noteq> p" using assms(2) by auto
      then show ?thesis using Cons True by (auto simp: assign_prios_def pbits_ok_def)
    qed (auto simp: assign_prios_def pbits_ok_def)
  qed simp
  then show ?thesis using assms(1) by (simp add: enterSettingDot1PMapper_def)
qed

text \<open>Two GEM ports, one for priority 1 and one for all others.\<close>

definition sample_attribs :: "u16 \<Rightarrow> string \<Rightarrow> ponAniGemPortAttribs" where
  "sample_attribs i pbits = \<lparr> pa_qosPolicy = ''WRR'', pa_pbitString = pbits, pa_staticACL = [], pa_dynamicACL = [],
     pa_gemPortID = i, pa_upQueueID = 0, pa_downQueueID = 0, pa_multicastGemID = 0, pa_direction = cGemDirBiDirect,
     pa_weight = 0, pa_isMulticast = False \<rparr>"

lemma sample_attribs_serve:
  "i < 8 \<Longrightarrow> serves (sample_attribs 1025 ''00000010'') i \<longleftrightarrow> i = 1"
  "i < 8 \<Longrightarrow> serves (sample_attribs 1026 ''11111101'') i \<longleftrightarrow> i \<noteq> 1"
  by (auto simp: serves_def sample_attribs_def less_Suc_eq numeral_eq_Suc)

lemma sample_attribs_gem: "pa_gemPortID (sample_attribs i pbits) = i"
  by (simp add: sample_attribs_def)

theorem prio_assignment_witness:
  "\<exists>arr. prio_loop [sample_attribs 1025 ''00000010'', sample_attribs 1026 ''11111101''] (replicate 8 0) = Done arr \<and>
     prio_loop [sample_attribs 1026 ''11111101'', sample_attribs 1025 ''00000010''] (replicate 8 0) = Done arr \<and>
     arr ! 1 = 1025 \<and> arr ! 5 = 1026"
proof -
  let ?p = "sample_attribs 1025 ''00000010''"
  let ?q = "sample_attribs 1026 ''11111101''"
  have "mset [?p, ?q] = mset [?q, ?p]" "\<forall>p \<in> set [?p, ?q]. pbits_ok p"
    "\<forall>i < 8. \<forall>p \<in> set [?p, ?q]. \<forall>q \<in> set [?p, ?q]. serves p i \<and> serves q i \<longrightarrow> p = q"
    by (auto simp: pbits_ok_def sample_attribs_serve) (auto simp: sample_attribs_def)
  from prio_assignment [OF this] obtain arr where
    "prio_loop [?p, ?q] (replicate 8 0) = Done arr" "prio_loop [?q, ?p] (replicate 8 0) = Done arr"
    "\<forall>i < 8. \<forall>p \<in> set [?p, ?q]. serves p i \<longrightarrow> arr ! i = pa_gemPortID p" by blast
  moreover from this(3) have "arr ! 1 = 1025" "arr ! 5 = 1026"
    by (auto simp: sample_attribs_serve sample_attribs_gem dest: spec [of _ 1] spec [of _ 5])
  ultimately show ?thesis by blast
qed

theorem short_pbit_map_panics_witness:
  "enterSettingDot1PMapper sample_ani_env
     ((NewUniPonAniConfigFsm (NewOnuUniPort 0 1 257 UniPPTP) 64 ''service'' OmciAniConfigDone None)
        \<lparr>af_gemPortAttribsSlice := [sample_attribs 1025 ''00000010'', sample_attribs 1026 ''111'']\<rparr>, sample_tables) =
   Fatal ''index out of range''"
  by (rule short_pbit_map_panics [of "sample_attribs 1026 ''111''"]) (simp_all add: pbits_ok_def sample_attribs_def)

end
