(* ===== verification/Tp_Inv.thy ===== *)
theory Tp_Inv
  imports Ani_Props
begin

text \<open>
  What every operation on the tech profiles of an ONU keeps: the mutex of the tables is free
  between operations, and the table of T-CONTs gives an instance to one allocation identifier
  only. A caller that waits for a machine lets the others work meanwhile; what they do is a
  sequence of operations of the same kind, so the admissible operations are defined inductively.
  The machines do not learn whether a T-CONT was in use before, which the second theorem shows
  to give a shared instance away.
\<close>

subsection \<open>The tables\<close>

definition tp_inv :: "bool \<Rightarrow> OnuUniTechProf \<Rightarrow> bool" where
  "tp_inv b s \<longleftrightarrow> tp_locked s = b \<and> distinct (akeys (PersTcontMap s)) \<and> distinct (map snd (PersTcontMap s))"

lemma tp_inv_frame:
  "tp_inv b s \<Longrightarrow> tp_locked s' = tp_locked s \<Longrightarrow> PersTcontMap s' = PersTcontMap s \<Longrightarrow> tp_inv b s'"
  by (simp add: tp_inv_def)

lemma tp_inv_updates [simp]:
  "tp_inv b (s\<lparr>tp_out := x1\<rparr>) = tp_inv b s" "tp_inv b (s\<lparr>tp_requests := x2\<rparr>) = tp_inv b s"
  "tp_inv b (s\<lparr>tp_waits := x2\<rparr>) = tp_inv b s" "tp_inv b (s\<lparr>tp_db := x3\<rparr>) = tp_inv b s"
  "tp_inv b (s\<lparr>tp_cmn := x4\<rparr>) = tp_inv b s" "tp_inv b (s\<lparr>mapPonAniConfig := x5\<rparr>) = tp_inv b s"
  "tp_inv b (s\<lparr>ProcResult := x6\<rparr>) = tp_inv b s" "tp_inv b (s\<lparr>mapUniTpIndication := x7\<rparr>) = tp_inv b s"
  "tp_inv b (s\<lparr>PAniConfigFsm := x8\<rparr>) = tp_inv b s" "tp_inv b (s\<lparr>tpProfileExists := x9\<rparr>) = tp_inv b s"
  "tp_inv b (s\<lparr>tpProfileResetting := x9\<rparr>) = tp_inv b s" "tp_inv b (s\<lparr>mapRemoveGemEntry := x10\<rparr>) = tp_inv b s"
  by (simp_all add: tp_inv_def)

lemma tp_section_inv [wp_simps]: "ensures (tp_section f s) Q \<longleftrightarrow> \<not> tp_locked s \<longrightarrow> Q (f s)"
  by (simp add: tp_section_def ensures_def)

lemma nil_deref_inv [wp_simps]: "ensures nil_deref Q"
  by (simp add: nil_deref_def ensures_def)

lemma ani_send_inv: "ani_send env q x = (e, y) \<Longrightarrow> tp_inv b (snd y) = tp_inv b (snd x)"
  by (cases x) (auto simp: ani_send_def Let_def split: if_splits)

lemma send_or_reset_inv: "tp_inv b (snd (snd (send_or_reset env q x))) = tp_inv b (snd x)"
proof -
  obtain e a s where "ani_send env q x = (e, a, s)" by (cases "ani_send env q x") auto
  with ani_send_inv [OF this] show ?thesis by (cases e) (simp_all add: send_or_reset_def)
qed

lemma ani_wait_inv: "ani_waitforOmciResponse env x = (e, y) \<Longrightarrow> tp_inv b (snd y) = tp_inv b (snd x)"
  by (cases x) (auto simp: ani_waitforOmciResponse_def Let_def split: if_splits wait_result.splits option.splits)

lemma put_me_inv: "tp_inv b s \<Longrightarrow> ensures (put_me c i at s) (tp_inv b)"
  unfolding put_me_def by (rule ensures_bind [OF ensures_any]) (simp add: wp_simps)

lemma delete_me_inv: "tp_inv b s \<Longrightarrow> ensures (delete_me c i s) (tp_inv b)"
  unfolding delete_me_def by (rule ensures_bind [OF ensures_any]) (auto simp: wp_simps)

lemma reconcile_gem_inv: "tp_inv b s \<Longrightarrow> ensures (reconcile_gem a p s) (tp_inv b)"
  unfolding reconcile_gem_def by (intro ensures_bind [OF put_me_inv] put_me_inv)

lemma collect_gems_inv: "tp_inv b (snd x) \<Longrightarrow> ensures (collect_gems env gs x) (\<lambda>y. tp_inv b (snd y))"
proof (induction env gs x rule: collect_gems.induct)
  case (2 env i g gs a s)
  have h: "ensures (if an_skipReconciling env then reconcile_gem a p s else Done s) (tp_inv b)" for p
    using 2(2) by (simp add: reconcile_gem_inv wp_simps)
  show ?case unfolding collect_gems.simps
  proof (rule ensures_bind [OF ensures_any])
    fix p
    show "ensures (bind_run (if an_skipReconciling env then reconcile_gem a p s else Done s) (\<lambda>s.
        collect_gems env gs (a\<lparr>af_gemPortAttribsSlice := af_gemPortAttribsSlice a @ [p]\<rparr>, s))) (\<lambda>y. tp_inv b (snd y))"
      by (rule ensures_bind [OF h]) (simp add: 2(1))
  qed
qed (simp add: wp_simps)

lemma find_free: "List.find (\<lambda>i. \<not> list_ex (\<lambda>(a, v). v = i) m) keys = Some i \<Longrightarrow> (al, i) \<notin> set m"
  by (auto simp: find_Some_iff list_ex_iff)

lemma update_new: "map_of m k = None \<Longrightarrow> AList.update k v m = m @ [(k, v)]"
  by (induction m) (auto split: if_splits)

lemma AllocateFreeTcont_inv:
  assumes "tp_inv b s"
  shows "ensures (AllocateFreeTcont al s) (\<lambda>(r, s). tp_inv b s)"
proof (cases "map_of (PersTcontMap s) al")
  case None
  show ?thesis unfolding AllocateFreeTcont_def
    apply (simp add: None)
    apply (rule ensures_bind [OF ensures_any])
    using assms None by (auto simp: wp_simps tp_inv_def update_new split: option.splits dest: find_free)
qed (simp add: AllocateFreeTcont_def wp_simps assms)

lemma FreeTcont_inv: "tp_inv b s \<Longrightarrow> tp_inv b (FreeTcont al s)"
  by (simp add: tp_inv_def FreeTcont_def) (metis AList.delete_eq distinct_map_filter)

lemma finish_step_inv [simp]: "tp_inv b (snd (finish_step v x)) = tp_inv b (snd x)"
  by (cases x) (simp add: finish_step_def)

lemma allocate_and_collect_inv:
  "tp_inv b (snd x) \<Longrightarrow> ensures (allocate_and_collect env x) (\<lambda>y. tp_inv b (snd y))"
proof (cases x)
  case (Pair a s)
  assume "tp_inv b (snd x)"
  then have s: "tp_inv b s" by (simp add: Pair)
  have g: "ensures (collect_gems env gs (a', s')) (\<lambda>(a, s). tp_inv b s)" if "tp_inv b s'" for gs a' s'
    by (rule ensures_mono [OF collect_gems_inv [of b]]) (use that in auto)
  show ?thesis unfolding Pair allocate_and_collect_def
    using s by (auto simp: wp_simps split: option.splits intro!: ensures_mono [OF AllocateFreeTcont_inv [OF s]]
        ensures_mono [OF g])
qed

lemma send_Done: "tp_inv b (snd x) \<Longrightarrow> ensures (Done (snd (send_or_reset env q x))) (\<lambda>y. tp_inv b (snd y))"
  by (simp add: wp_simps send_or_reset_inv)

lemma prepare_inv:
  "tp_inv b (snd x) \<Longrightarrow> ensures (prepareAndEnterConfigState env x) (\<lambda>y. tp_inv b (snd y))"
  by (cases x) (auto simp: prepareAndEnterConfigState_def Let_def wp_simps split: sum.splits intro!: allocate_and_collect_inv)

lemma abort_read_inv: "tp_inv b (snd x) \<Longrightarrow> ensures (abort_read e x) (\<lambda>y. tp_inv b (snd y))"
  by (cases x) (simp add: abort_read_def Let_def wp_simps)

lemma read_inv: "tp_inv b (snd x) \<Longrightarrow> ensures (enterReadAniSideConfig x) (\<lambda>y. tp_inv b (snd y))"
  by (cases x) (auto simp: enterReadAniSideConfig_def Let_def wp_simps GetProfileResetting_def abort_read_inv
      intro!: ensures_mono [OF ensures_any] split: sum.splits)

lemma removed_gem_any: "(\<And>i. ensures (f i) Q) \<Longrightarrow> ensures (bind_run (removed_gem x) f) Q"
  by (rule ensures_bind [OF ensures_any])

lemma send_then_inv:
  assumes "tp_inv b (snd x)" "\<And>a s. tp_inv b s \<Longrightarrow> ensures (f a s) (\<lambda>y. tp_inv b (snd y))"
  shows "ensures (case send_or_reset env q x of (failed, a, s) \<Rightarrow> if failed then Done (a, s) else f a s) (\<lambda>y. tp_inv b (snd y))"
proof -
  obtain e a s where "send_or_reset env q x = (e, a, s)" by (cases "send_or_reset env q x") auto
  moreover from this have "tp_inv b s" using send_or_reset_inv [of b env q x] assms(1) by simp
  ultimately show ?thesis using assms(2) by (simp add: wp_simps)
qed

lemma removingGemIW_inv: "tp_inv b (snd x) \<Longrightarrow> ensures (enterRemovingGemIW env x) (\<lambda>y. tp_inv b (snd y))"
  by (cases x) (auto simp: enterRemovingGemIW_def wp_simps(1) intro!: removed_gem_any send_then_inv
      ensures_bind [OF delete_me_inv])

lemma removingGemNCTP_inv: "tp_inv b (snd x) \<Longrightarrow> ensures (enterRemovingGemNCTP env x) (\<lambda>y. tp_inv b (snd y))"
  by (cases x) (auto simp: enterRemovingGemNCTP_def wp_simps(1) intro!: removed_gem_any send_then_inv
      ensures_bind [OF delete_me_inv])

lemma configDone_inv: "tp_inv b (snd x) \<Longrightarrow> ensures (enterAniConfigDone env x) (\<lambda>y. tp_inv b (snd y))"
  by (cases x) (simp add: enterAniConfigDone_def setConfigDone_def Let_def wp_simps split: option.splits)

lemma settingDot1P_inv: "tp_inv b (snd x) \<Longrightarrow> ensures (enterSettingDot1PMapper env x) (\<lambda>y. tp_inv b (snd y))"
  by (cases x) (auto simp: enterSettingDot1PMapper_def wp_simps(1) send_or_reset_inv intro!: ensures_bind [OF ensures_any])

lemmas enter_inv = prepare_inv read_inv removingGemIW_inv removingGemNCTP_inv configDone_inv settingDot1P_inv

lemma ani_enter_inv: "tp_inv b (snd x) \<Longrightarrow> ensures (ani_enter env st x) (\<lambda>y. tp_inv b (snd y))"
proof -
  assume x: "tp_inv b (snd x)"
  have r: "ensures (enterResettingState x) (\<lambda>y. tp_inv b (snd y))"
  proof -
    have "tp_inv b (snd (finish_step 0 x))" using x by simp
    then show ?thesis by (cases "finish_step 0 x") (simp add: enterResettingState_def wp_simps)
  qed
  have d: "ensures (enterAniRemoveDone x) (\<lambda>y. tp_inv b (snd y))"
  proof (cases x)
    case (Pair a s)
    let ?x = "(a, tp_emit (AniStatusUpdate (af_requestEvent a + af_requestEventOffset a)) s)"
    have "tp_inv b (snd (finish_step (af_procStep a) ?x))" using x Pair by simp
    then show ?thesis by (cases "finish_step (af_procStep a) ?x") (simp add: enterAniRemoveDone_def wp_simps Pair)
  qed
  obtain a s where p: "x = (a, s)" by (cases x)
  show ?thesis
    using x r d enter_inv [OF x]
    by (cases st) (simp_all add: ani_enter_def wp_simps send_or_reset_inv p enterConfigStartingState_def
        enterCreatingDot1PMapper_def enterCreatingMBPCD_def enterSettingTconts_def enterWaitingFlowRem_def
        enterResettingTcont_def enterRemovingAniBPCD_def enterDisabledState_def Let_def
        enterRemoving1pMapper_def enterRemovingTD_def removed_gem_def split: option.splits)
qed

lemma ani_fire_inv: "tp_inv b (snd x) \<Longrightarrow> ensures (ani_fire env ev x) (\<lambda>(e, y). tp_inv b (snd y))"
  by (auto simp: ani_fire_def fsm_event_def wp_simps split: option.splits intro!: ensures_mono [OF ani_enter_inv])

lemma ignored_inv: "tp_inv b (snd x) \<Longrightarrow> ensures (ani_event_ignored env ev x) (\<lambda>y. tp_inv b (snd y))"
  unfolding ani_event_ignored_def by (rule ensures_bind [OF ani_fire_inv]) (auto simp: wp_simps)

lemma exchange_inv: "tp_inv b (snd x) \<Longrightarrow> ensures (ani_exchange env q x) (\<lambda>(f, y). tp_inv b (snd y))"
proof -
  assume x: "tp_inv b (snd x)"
  obtain e y where y: "ani_send env q x = (e, y)" by (cases "ani_send env q x")
  obtain f z where z: "ani_waitforOmciResponse env y = (f, z)" by (cases "ani_waitforOmciResponse env y")
  have i: "tp_inv b (snd y)" "tp_inv b (snd z)" using x ani_send_inv [OF y] ani_wait_inv [OF z] by auto
  then have "ensures (bind_run (ani_event_ignored env aniEvReset y) (\<lambda>x. Done (True, x))) (\<lambda>(f, y). tp_inv b (snd y))"
    "ensures (bind_run (ani_event_ignored env aniEvReset z) (\<lambda>x. Done (True, x))) (\<lambda>(f, y). tp_inv b (snd y))"
    by (simp_all add: wp_simps ignored_inv)
  then show ?thesis using i by (cases e; cases f) (simp_all add: ani_exchange_def y z wp_simps)
qed

lemma exchange_store_inv:
  assumes "\<And>a s. tp_inv b s \<Longrightarrow> ensures (g a s) (\<lambda>y. tp_inv b (snd y))" "tp_inv b (snd x)"
  shows "ensures (bind_run (ani_exchange env q x) (\<lambda>(failed, a, s). if failed then Done (a, s)
           else bind_run (put_me c i (at a) s) (g a))) (\<lambda>y. tp_inv b (snd y))"
  by (rule ensures_bind [OF exchange_inv [OF assms(2)]])
    (auto simp: wp_simps(1) intro!: ensures_bind [OF put_me_inv] assms(1))

lemma nctp_loop_inv: "tp_inv b (snd x) \<Longrightarrow> ensures (nctp_loop env ps x) (\<lambda>y. tp_inv b (snd y))"
proof (induction ps arbitrary: x)
  case (Cons p ps)
  obtain a s where x: "x = (a, s)" by (cases x)
  show ?case unfolding nctp_loop.simps x Let_def split_conv
    by (rule exchange_store_inv) (use Cons in \<open>auto simp: x\<close>)
qed (simp add: ignored_inv)

lemma iw_loop_inv: "tp_inv b (snd x) \<Longrightarrow> ensures (iw_loop env ps x) (\<lambda>y. tp_inv b (snd y))"
proof (induction ps arbitrary: x)
  case (Cons p ps)
  obtain a s where x: "x = (a, s)" by (cases x)
  have st: "ensures (bind_run (ani_exchange env q y) (\<lambda>(failed, a, s). if failed then Done (a, s)
            else bind_run (put_me GemInterworkingTerminationPointClassID (pa_gemPortID p)
                             (Some (iw_attributes (af_mapperSP0ID a) p)) s) (\<lambda>s. iw_loop env ps (a, s))))
        (\<lambda>y. tp_inv b (snd y))" if "tp_inv b (snd y)" for q y
    by (rule exchange_store_inv) (use that Cons.IH in auto)
  show ?case unfolding iw_loop.simps x Let_def split_conv
    using Cons x by (auto simp: wp_simps(1) intro!: st ensures_bind [OF exchange_inv])
qed (simp add: ignored_inv)

lemma pq_loop_inv: "tp_inv b (snd x) \<Longrightarrow> ensures (pq_loop env sched kvs x) (\<lambda>y. tp_inv b (snd y))"
proof (induction kvs arbitrary: x)
  case (Cons kv kvs)
  then show ?case by (auto split: option.splits simp: wp_simps(1) intro!: ensures_bind [OF exchange_inv])
qed (simp add: ignored_inv)

lemma settingPQs_inv: "tp_inv b (snd x) \<Longrightarrow> ensures (performSettingPQs env x) (\<lambda>y. tp_inv b (snd y))"
  by (cases x) (auto simp: performSettingPQs_def Let_def wp_simps(1) ignored_inv pq_loop_inv
      intro!: ensures_bind [OF ensures_any] split: option.splits sum.splits)

lemma task_inv: "tp_inv b (snd x) \<Longrightarrow> ensures (run_ani_task env t x) (\<lambda>y. tp_inv b (snd y))"
  by (cases t) (simp_all add: run_ani_task_def ignored_inv performCreatingGemNCTPs_def performCreatingGemIWs_def
      nctp_loop_inv iw_loop_inv settingPQs_inv)

lemma nth_task_inv: "tp_inv b (snd x) \<Longrightarrow> ensures (run_nth_ani_task env i x) (\<lambda>y. tp_inv b (snd y))"
  by (cases x) (simp add: run_nth_ani_task_def task_inv wp_simps(1))

lemma message_inv: "tp_inv b (snd x) \<Longrightarrow> ensures (handleOmciAniConfigMessage env m x) (\<lambda>y. tp_inv b (snd y))"
  by (cases x) (auto simp: handleOmciAniConfigMessage_def handleOmciAniConfigSetFailResponseMessage_def Let_def wp_simps
      ignored_inv FreeTcont_inv split: option.splits sum.splits)

lemma clear_inv: "tp_inv b s \<Longrightarrow> ensures (clearAniSideConfig u t s) (tp_inv b)"
  by (simp add: clearAniSideConfig_def wp_simps Let_def)

lemma cancel_inv: "tp_inv b (snd x) \<Longrightarrow> ensures (ani_CancelProcessing env x) (\<lambda>y. tp_inv b (snd y))"
  by (cases x) (auto simp: ani_CancelProcessing_def Let_def wp_simps setProfileResetting_def
      intro!: ensures_mono [OF ignored_inv] ensures_mono [OF clear_inv])

subsection \<open>Operations\<close>

lemma on_fsm_inv:
  assumes "tp_inv b s" "\<And>x. tp_inv b (snd x) \<Longrightarrow> ensures (f x) (\<lambda>(r, y). tp_inv b (snd y))"
  shows "ensures (on_fsm k f s) (\<lambda>(r, s). tp_inv b s)"
  using assms(1) assms(2) [of "(_, s)"]
  by (auto simp: on_fsm_def wp_simps split: option.splits intro!: ensures_mono [OF assms(2)])

lemma run_fsm_inv: "tp_inv b s \<Longrightarrow> ensures (runAniConfigFsm env ev st u t s) (\<lambda>(e, s). tp_inv b s)"
  unfolding runAniConfigFsm_def
  by (erule on_fsm_inv) (auto simp: wp_simps intro!: ensures_mono [OF ani_fire_inv])

lemma reset_present_inv: "tp_inv b s \<Longrightarrow> ensures (reset_if_present env k s) (tp_inv b)"
  by (auto simp: reset_if_present_def wp_simps intro!: ensures_mono [OF on_fsm_inv] ani_fire_inv)

lemma create_inv: "tp_inv b s \<Longrightarrow> ensures (createAniConfigFsm env u t ti p ev st s) (\<lambda>(e, s). tp_inv b s)"
  by (auto simp: createAniConfigFsm_def wp_simps Let_def run_fsm_inv split: option.splits)

lemma start_profile_inv: "tp_inv b s \<Longrightarrow> ensures (start_profile env u t pt ti p st s) (\<lambda>(e, s). tp_inv b s)"
  by (auto simp: start_profile_def wp_simps Let_def run_fsm_inv create_inv SendChTpConfigProcessingFinished_def split: option.splits)

lemma set_config_inv:
  "tp_inv False s \<Longrightarrow> ensures (setAniSideConfigFromTechProfile env u t path ti p st s) (\<lambda>(e, s). tp_inv False s)"
proof -
  assume s: "tp_inv False s"
  then have "tp_inv True (s\<lparr>tp_locked := True\<rparr>)" by (simp add: tp_inv_def)
  from start_profile_inv [OF this] show ?thesis using s
    by (auto simp: setAniSideConfigFromTechProfile_def wp_simps Let_def SendChTpConfigProcessingFinished_def tp_inv_def
        intro!: ensures_mono [OF start_profile_inv [where b = True]])
qed

definition wait_ok :: "tp_wait \<Rightarrow> bool" where
  "wait_ok w \<longleftrightarrow> (\<forall>s. tp_inv False s \<longrightarrow> ensures (tw_others w s) (tp_inv False))"

lemma waiting_inv:
  "wait_ok w \<Longrightarrow> tp_inv False s \<Longrightarrow> ensures (waitForTimeoutOrCompletion w st s) (\<lambda>(d, s). tp_inv False s)"
  by (simp add: waitForTimeoutOrCompletion_def wait_ok_def wp_simps)

lemma set_result_inv: "tp_inv b s \<Longrightarrow> ensures (set_result k e s) (tp_inv b)"
  by (simp add: set_result_def wp_simps)

lemma configure_inv:
  assumes "wait_ok w" "tp_inv False s"
  shows "ensures (ConfigureUniTp env w u path ti p s) (tp_inv False)"
  using assms
  by (auto simp: ConfigureUniTp_def Let_def GetProfileResetting_def wp_simps set_result_inv split: option.splits
      intro!: ensures_mono [OF set_config_inv] ensures_mono [OF waiting_inv] ensures_mono [OF set_result_inv] reset_present_inv)

lemma delete_params_inv: "tp_inv b s \<Longrightarrow> ensures (deleteGemPortParams k s) (tp_inv b)"
  by (auto simp: deleteGemPortParams_def wp_simps split: option.splits)

lemma run_removal_inv:
  assumes "wait_ok w" "tp_inv False s"
  shows "ensures (run_removal env w ev k s) (\<lambda>(f, s). tp_inv False s)"
  using assms
  by (auto simp: run_removal_def wp_simps intro!: ensures_mono [OF run_fsm_inv] ensures_mono [OF waiting_inv]
      ensures_mono [OF reset_present_inv])

lemma delete_gem_inv:
  assumes "wait_ok w" "tp_inv False s"
  shows "ensures (delete_gem env w k s) (tp_inv False)"
  using assms
  by (auto simp: delete_gem_def wp_simps GetProfileResetting_def delete_params_inv intro!: ensures_mono [OF run_removal_inv]
      ensures_mono [OF delete_params_inv])

lemma delete_inv:
  assumes "wait_ok w" "tp_inv False s"
  shows "ensures (DeleteTpResource env w u t r i s) (tp_inv False)"
  using assms
  by (auto simp: DeleteTpResource_def Let_def wp_simps GetProfileResetting_def mark_gem_def delete_gem_inv
      split: option.splits ResourceEntry.splits intro!: ensures_mono [OF run_removal_inv] delete_gem_inv)

lemma cleared_inv: "tp_inv b s \<Longrightarrow> ensures (IsTechProfileConfigCleared env u t s) (\<lambda>(c, s). tp_inv b s)"
  by (auto simp: IsTechProfileConfigCleared_def Let_def wp_simps split: option.splits
      intro!: ensures_mono [OF clear_inv] ensures_mono [OF reset_present_inv])

lemma ani_step_inv:
  assumes "tp_inv b s" "\<And>x. tp_inv b (snd x) \<Longrightarrow> ensures (f x) (\<lambda>y. tp_inv b (snd y))"
  shows "ensures (ani_step k f s) (tp_inv b)"
  using assms by (auto simp: ani_step_def wp_simps intro!: ensures_mono [OF on_fsm_inv] ensures_mono [OF assms(2)])

subsection \<open>Sequences of operations\<close>

fun wait_of :: "tp_op \<Rightarrow> tp_wait option" where
  "wait_of (TpConfigure w u p ti port) = Some w"
| "wait_of (TpDelete w u t r i) = Some w"
| "wait_of op = None"

inductive proper_op :: "ani_env \<times> tp_op \<Rightarrow> bool" where
  immediate: "wait_of op = None \<Longrightarrow> proper_op (env, op)"
| waiting: "wait_of op = Some w \<Longrightarrow> tw_others w = run_steps tp_step ops \<Longrightarrow> (\<And>a. a \<in> set ops \<Longrightarrow> proper_op a) \<Longrightarrow>
    proper_op (env, op)"

lemma tp_step_ok:
  "(\<And>w. wait_of op = Some w \<Longrightarrow> wait_ok w) \<Longrightarrow> tp_inv False s \<Longrightarrow> ensures (tp_step (env, op) s) (tp_inv False)"
  by (cases op)
    (auto simp: wp_simps(1,4) SetProfileToDelete_def ResetTpProcessingErrorIndication_def tp_section_inv Let_def FreeTcont_inv
      split: option.splits
      intro!: ani_step_inv nth_task_inv message_inv cancel_inv configure_inv delete_inv ensures_mono [OF cleared_inv])

lemma run_steps_inv:
  "(\<And>a s. a \<in> set ops \<Longrightarrow> P s \<Longrightarrow> ensures (step a s) P) \<Longrightarrow> P s \<Longrightarrow> ensures (run_steps step ops s) P"
  by (induction ops arbitrary: s) (auto simp: wp_simps(1) intro!: ensures_bind [where P = P])

lemma proper_step_inv: "proper_op a \<Longrightarrow> tp_inv False s \<Longrightarrow> ensures (tp_step a s) (tp_inv False)"
proof (induction a arbitrary: s rule: proper_op.induct)
  case (waiting op w ops env)
  have "wait_ok w" unfolding wait_ok_def waiting(2) by (blast intro: run_steps_inv waiting(4))
  with waiting(1,5) show ?case by (intro tp_step_ok) auto
qed (auto intro: tp_step_ok)

interpretation tp_tables: run_invariant tp_step proper_op "tp_inv False"
  by unfold_locales (rule proper_step_inv)

text \<open>C31: Whatever sequence of operations follows the creation of the tables, with whatever the other
  goroutines do while a caller waits, the mutex is free afterwards and no T-CONT instance is given
  to two allocation identifiers.\<close>

theorem tconts_exclusive:
  assumes "\<forall>a \<in> set ops. proper_op a" "run_steps tp_step ops (NewOnuUniTechProf db h []) = Done s"
  shows "\<not> tp_locked s \<and> distinct (akeys (PersTcontMap s)) \<and>
     (\<forall>al al' t. (al, t) \<in> set (PersTcontMap s) \<and> (al', t) \<in> set (PersTcontMap s) \<longrightarrow> al = al')"
proof -
  have "tp_inv False (NewOnuUniTechProf db h [])" by (simp add: tp_inv_def NewOnuUniTechProf_def)
  with tp_tables.steps_inv assms have "tp_inv False s" by (blast intro: ensuresD)
  then show ?thesis by (fastforce simp: tp_inv_def distinct_map inj_on_def)
qed

definition sample_ops :: "(ani_env \<times> tp_op) list" where
  "sample_ops = map (Pair sample_ani_env)
     [TpConfigure \<lparr> tw_others = run_steps tp_step (map (Pair sample_ani_env) [TpTask (0, 64) 0, TpTask (0, 64) 0]), tw_received = None \<rparr>
        0 (tp_path ''XGS-PON'' 64 ''12345abcd'' 0 1 1) (Some (sample_profile 1025 ''0b00000010'')) (NewOnuUniPort 0 1 257 UniPPTP), TpCleared 0 64]"

theorem tconts_exclusive_witness:
  "\<exists>s. run_steps tp_step sample_ops sample_tables = Done s \<and> PersTcontMap s = [(1024, 0x8001)] \<and> \<not> tp_locked s"
proof -
  have "case run_steps tp_step sample_ops sample_tables of Done s \<Rightarrow> PersTcontMap s = [(1024, 0x8001)] | _ \<Rightarrow> False"
    by code_simp
  then obtain s where s: "run_steps tp_step sample_ops sample_tables = Done s" "PersTcontMap s = [(1024, 0x8001)]"
    by (auto split: run.splits)
  have "proper_op (sample_ani_env, TpConfigure \<lparr> tw_others = run_steps tp_step
      (map (Pair sample_ani_env) [TpTask (0, 64) 0, TpTask (0, 64) 0]), tw_received = None \<rparr> u p ti port)" for u p ti port
    by (rule proper_op.waiting) (auto intro: proper_op.immediate)
  then have "\<forall>a \<in> set sample_ops. proper_op a" by (simp add: sample_ops_def proper_op.immediate)
  from tconts_exclusive [OF this s(1) [unfolded sample_tables_def]] s show ?thesis by blast
qed

subsection \<open>A shared T-CONT given away\<close>

lemma collect_gems_tables:
  "\<not> an_skipReconciling env \<Longrightarrow> collect_gems env gs (a, s) = Done (a', s') \<Longrightarrow>
   s' = s \<and> af_tcont0ID a' = af_tcont0ID a \<and> af_tcontSetBefore a' = af_tcontSetBefore a \<and>
   af_requestEventOffset a' = af_requestEventOffset a \<and> uniTpKey a' = uniTpKey a"
proof (induction gs arbitrary: a)
  case (Cons e gs)
  obtain i g where e: "e = (i, g)" by (cases e)
  obtain p where p: "gem_attribs env (a, s) g = Done p"
    using Cons.prems by (cases "gem_attribs env (a, s) g") (auto simp: e)
  from Cons.IH [OF Cons.prems(1)] Cons.prems p show ?case by (fastforce simp: e uniTpKey_def)
qed simp

lemma Allocate_same:
  assumes "AllocateFreeTcont al s0 = Done (Some (tc, False), s)" "map_of (PersTcontMap s0) al' = None"
    "PersTcontMap s2 = PersTcontMap s0" "tp_db s2 = tp_db s" "tp_cmn s2 = tp_cmn s"
  shows "\<exists>s3. AllocateFreeTcont al' s2 = Done (Some (tc, False), s3)"
  using assms by (cases "GetSortedInstKeys (tp_db s0) TContClassID (tp_cmn s0)")
    (auto simp: AllocateFreeTcont_def split: option.splits if_splits)

lemma delete_updated: "map_of m k = None \<Longrightarrow> AList.delete k (AList.update k v m) = m"
  by (induction m) (auto simp: AList.delete_eq split: if_splits)

text \<open>C34: A profile has been given a T-CONT. A second profile with the same allocation identifier gets
  the same instance, but its machine does not note that the instance was in use: when the ONU
  refuses to set the T-CONT for the second profile, the entry that serves the first one is
  deleted, and the next allocation identifier is given the instance the first profile still
  uses.\<close>

theorem tcont_failure_frees_shared:
  assumes first: "AllocateFreeTcont al s0 = Done (Some (tc, False), s)"
    and cfg: "map_of (mapPonAniConfig s) (uniTpKey a) = Some cfg" "allocID (tcontParams cfg) = al"
    and a: "\<not> af_tcontSetBefore a" "af_requestEventOffset a = 0"
    and env: "an_onuDevice env" "\<not> an_skipReconciling env"
    and second: "allocate_and_collect env (a, s) = Done (a1, s1)"
    and m: "rs_type m = SetResponse" "rs_layer m" "rs_class m = TContClassID" "rs_instance m = tc" "response_failed m"
    and other: "map_of (PersTcontMap s0) al' = None"
  shows "af_tcont0ID a1 = tc \<and>
    (\<exists>a2 s2 s3. handleOmciAniConfigMessage env m (a1\<lparr>af_pLastTxMeInstance := Some (TContClassID, tc)\<rparr>, s1) = Done (a2, s2) \<and>
       map_of (PersTcontMap s2) al = None \<and> AllocateFreeTcont al' s2 = Done (Some (tc, False), s3))"
proof -
  have new: "map_of (PersTcontMap s0) al = None" "PersTcontMap s = AList.update al tc (PersTcontMap s0)"
    using first by (cases "GetSortedInstKeys (tp_db s0) TContClassID (tp_cmn s0)";
        auto simp: AllocateFreeTcont_def split: option.splits if_splits)+
  then have again: "AllocateFreeTcont al s = Done (Some (tc, True), s)" by (simp add: AllocateFreeTcont_def)
  have unlocked: "\<not> tp_locked s" using second by (auto simp: allocate_and_collect_def tp_section_def split: if_splits)
  obtain a' where "collect_gems env (mapGemPortParams cfg) (a\<lparr>af_tcont0ID := tc, af_alloc0ID := al\<rparr>, s) = Done (a', s1)"
    and a1: "a1 = a_go (AEvent aniEvStartConfig) a'"
    using second cfg again unlocked env
    by (cases "collect_gems env (mapGemPortParams cfg) (a\<lparr>af_tcont0ID := tc, af_alloc0ID := al\<rparr>, s)")
      (auto simp: allocate_and_collect_def tp_section_def)
  from collect_gems_tables [OF env(2) this(1)] have
    k: "s1 = s" "af_tcont0ID a' = tc" "\<not> af_tcontSetBefore a'" "af_requestEventOffset a' = 0" "uniTpKey a' = uniTpKey a"
    using a by (simp_all add: uniTpKey_def)
  let ?s2 = "FreeTcont al (tp_emit (AniFailureResponse TContClassID tc (rs_result m)) s)"
  let ?x = "a1\<lparr>af_pLastTxMeInstance := Some (TContClassID, tc)\<rparr>"
  have "handleOmciAniConfigMessage env m (?x, s1) = Done (?x, ?s2)"
    using k m cfg env unlocked
    by (simp add: handleOmciAniConfigMessage_def handleOmciAniConfigSetFailResponseMessage_def tp_section_def a1 uniTpKey_def)
  moreover have "PersTcontMap ?s2 = PersTcontMap s0" using new by (simp add: FreeTcont_def delete_updated)
  ultimately show ?thesis using k(2) a1 new(1) Allocate_same [OF first other, of ?s2] by (simp add: FreeTcont_def)
qed

definition sample_shared :: OnuUniTechProf where
  "sample_shared = sample_tables\<lparr>mapPonAniConfig :=
     [((1, 64), \<lparr> mapGemPortParams = [(1026, upstream_gem (sample_gem 1026 ''0b00000010''))],
                  tcontParams = \<lparr> allocID = 1024, schedPolicy = 1 \<rparr> \<rparr>)]\<rparr>"

theorem tcont_failure_frees_shared_witness:
  "\<exists>a1 a2 s s1 s2 s3. AllocateFreeTcont 1024 sample_shared = Done (Some (0x8001, False), s) \<and>
     allocate_and_collect sample_ani_env
       (NewUniPonAniConfigFsm (NewOnuUniPort 1 2 258 UniPPTP) 64 ''XGS-PON'' OmciAniConfigDone None, s) = Done (a1, s1) \<and>
     handleOmciAniConfigMessage sample_ani_env ((ok_response SetResponse TContClassID 0x8001)\<lparr>rs_result := 1\<rparr>)
       (a1\<lparr>af_pLastTxMeInstance := Some (TContClassID, 0x8001)\<rparr>, s1) = Done (a2, s2) \<and>
     AllocateFreeTcont 1025 s2 = Done (Some (0x8001, False), s3)"
proof -
  let ?a = "NewUniPonAniConfigFsm (NewOnuUniPort 1 2 258 UniPPTP) 64 ''XGS-PON'' OmciAniConfigDone None"
  let ?m = "(ok_response SetResponse TContClassID 0x8001)\<lparr>rs_result := 1\<rparr>"
  have "case AllocateFreeTcont 1024 sample_shared of
      Done (r, s) \<Rightarrow> r = Some (0x8001, False) \<and> map_option (\<lambda>c. allocID (tcontParams c)) (map_of (mapPonAniConfig s) (uniTpKey ?a)) = Some 1024 \<and>
        (case allocate_and_collect sample_ani_env (?a, s) of Done x \<Rightarrow> True | _ \<Rightarrow> False)
    | _ \<Rightarrow> False"
    by code_simp
  then obtain s cfg a1 s1 where
    f: "AllocateFreeTcont 1024 sample_shared = Done (Some (0x8001, False), s)"
    "map_of (mapPonAniConfig s) (uniTpKey ?a) = Some cfg" "allocID (tcontParams cfg) = 1024"
    and al: "allocate_and_collect sample_ani_env (?a, s) = Done (a1, s1)"
    by (auto simp: run_case)
  moreover have "\<not> af_tcontSetBefore ?a" "af_requestEventOffset ?a = 0" "an_onuDevice sample_ani_env"
    "\<not> an_skipReconciling sample_ani_env" "map_of (PersTcontMap sample_shared) 1025 = None"
    by code_simp+
  moreover have "rs_type ?m = SetResponse" "rs_layer ?m" "rs_class ?m = TContClassID" "rs_instance ?m = 0x8001" "response_failed ?m"
    by code_simp+
  ultimately have "\<exists>a2 s2 s3. handleOmciAniConfigMessage sample_ani_env ?m (a1\<lparr>af_pLastTxMeInstance := Some (TContClassID, 0x8001)\<rparr>, s1) = Done (a2, s2) \<and>
      map_of (PersTcontMap s2) 1024 = None \<and> AllocateFreeTcont 1025 s2 = Done (Some (0x8001, False), s3)"
    using tcont_failure_frees_shared [where al = 1024 and al' = 1025 and m = ?m] by blast
  with f(1) al show ?thesis by blast
qed

end
