(* ===== verification/Tp_Flows.thy ===== *)
theory Tp_Flows
  imports Ani_Props
begin

text \<open>
  The configuration of a new tech profile from the call of
  \<^verbatim>\<open>setAniSideConfigFromTechProfile\<close> to the state \<^verbatim>\<open>aniStConfigDone\<close>, with an ONU that
  answers every request: the steps of the machine, its goroutines and the responses of the ONU
  in the order in which they happen, and the exact requests the ONU receives.
\<close>

subsection \<open>An undisturbed ONU\<close>

definition calm_ani :: "ani_env \<Rightarrow> bool" where
  "calm_ani env \<longleftrightarrow> (\<forall>n. \<not> an_send env n \<and> an_wait env n = ResponseOk) \<and> \<not> an_skipReconciling env \<and> an_onuDevice env"

definition requests_of :: "ani_effect list \<Rightarrow> ani_omci list" where
  "requests_of es = concat (map (\<lambda>e. case e of AniRequest q \<Rightarrow> [q] | _ \<Rightarrow> []) es)"

lemma requests_of_append [simp]: "requests_of (es @ fs) = requests_of es @ requests_of fs"
  by (simp add: requests_of_def)

lemma requests_of_one [simp]:
  "requests_of [] = []" "requests_of (AniRequest q # es) = q # requests_of es"
  "\<nexists>q. e = AniRequest q \<Longrightarrow> requests_of (e # es) = requests_of es"
  by (auto simp: requests_of_def split: ani_effect.splits)

text \<open>Only requests and the data base of the ONU changed.\<close>

definition progress :: "ani_omci list \<Rightarrow> OnuUniTechProf \<Rightarrow> OnuUniTechProf \<Rightarrow> bool" where
  "progress qs s s' \<longleftrightarrow> requests_of (tp_out s') = requests_of (tp_out s) @ qs \<and>
     tp_locked s' = tp_locked s \<and> PAniConfigFsm s' = PAniConfigFsm s \<and> mapUniTpIndication s' = mapUniTpIndication s \<and>
     mapPonAniConfig s' = mapPonAniConfig s \<and> ProcResult s' = ProcResult s \<and> PersTcontMap s' = PersTcontMap s \<and>
     tp_cmn s' = tp_cmn s \<and> CommonMeDb (tp_db s') = CommonMeDb (tp_db s)"

lemma progress_refl [simp]: "progress [] s s"
  by (simp add: progress_def)

lemma progress_trans: "progress qs s t \<Longrightarrow> progress rs t u \<Longrightarrow> progress (qs @ rs) s u"
  by (simp add: progress_def)

lemma progress_put:
  "\<exists>s'. put_me c i (Some at) s = Done s' \<and> progress [] s s'"
  by (auto simp: put_me_def PutOnuSpeficMe_def put_specific_def merge_attribs_def progress_def
      split: option.splits)

subsection \<open>Requests without disturbance\<close>

definition ani_at :: "ani_state \<Rightarrow> ani_task list \<Rightarrow> (u16 \<times> u16) option \<Rightarrow> UniPonAniConfigFsm \<Rightarrow> UniPonAniConfigFsm" where
  "ani_at st ts l c = c\<lparr>af_fsm := st, af_tasks := ts, af_pLastTxMeInstance := l\<rparr>"

lemma ani_at_updates [simp]:
  "(ani_at st ts l c)\<lparr>af_fsm := st'\<rparr> = ani_at st' ts l c"
  "(ani_at st ts l c)\<lparr>af_tasks := ts'\<rparr> = ani_at st ts' l c"
  "(ani_at st ts l c)\<lparr>af_pLastTxMeInstance := l'\<rparr> = ani_at st ts l' c"
  "(ani_at st ts l c)\<lparr>af_chanSet := ch\<rparr> = ani_at st ts l (c\<lparr>af_chanSet := ch\<rparr>)"
  "(ani_at st ts l c)\<lparr>af_requestEventOffset := off\<rparr> = ani_at st ts l (c\<lparr>af_requestEventOffset := off\<rparr>)"
  "(ani_at st ts l c)\<lparr>af_mapperSP0ID := mp, af_macBPCD0ID := bp\<rparr> = ani_at st ts l (c\<lparr>af_mapperSP0ID := mp, af_macBPCD0ID := bp\<rparr>)"
  "(ani_at st ts l c)\<lparr>af_tcont0ID := tc, af_alloc0ID := al\<rparr> = ani_at st ts l (c\<lparr>af_tcont0ID := tc, af_alloc0ID := al\<rparr>)"
  "(ani_at st ts l c)\<lparr>af_gemPortAttribsSlice := ps\<rparr> = ani_at st ts l (c\<lparr>af_gemPortAttribsSlice := ps\<rparr>)"
  by (cases c; simp add: ani_at_def)+

lemma ani_at_fields [simp]:
  "af_fsm (ani_at st ts l c) = st" "af_tasks (ani_at st ts l c) = ts" "af_pLastTxMeInstance (ani_at st ts l c) = l"
  "uniTpKey (ani_at st ts l c) = uniTpKey c" "af_isCanceled (ani_at st ts l c) = af_isCanceled c"
  "af_pOnuUniPort (ani_at st ts l c) = af_pOnuUniPort c" "af_techProfileID (ani_at st ts l c) = af_techProfileID c"
  "af_techProfileInst (ani_at st ts l c) = af_techProfileInst c" "af_techProfileType (ani_at st ts l c) = af_techProfileType c"
  "af_gemPortAttribsSlice (ani_at st ts l c) = af_gemPortAttribsSlice c" "af_mapperSP0ID (ani_at st ts l c) = af_mapperSP0ID c"
  "af_macBPCD0ID (ani_at st ts l c) = af_macBPCD0ID c" "af_tcont0ID (ani_at st ts l c) = af_tcont0ID c"
  "af_alloc0ID (ani_at st ts l c) = af_alloc0ID c" "af_tcontSetBefore (ani_at st ts l c) = af_tcontSetBefore c"
  "af_requestEventOffset (ani_at st ts l c) = af_requestEventOffset c" "af_chanSet (ani_at st ts l c) = af_chanSet c"
  "af_procStep (ani_at st ts l c) = af_procStep c" "af_requestEvent (ani_at st ts l c) = af_requestEvent c"
  by (simp_all add: ani_at_def uniTpKey_def)

lemma uniTpKey_updates [simp]:
  "uniTpKey (c\<lparr>af_mapperSP0ID := x\<rparr>) = uniTpKey c" "uniTpKey (c\<lparr>af_macBPCD0ID := x\<rparr>) = uniTpKey c"
  by (simp_all add: uniTpKey_def)

lemma send_calm:
  "calm_ani env \<Longrightarrow> send_or_reset env q (ani_at st ts l c, s) =
     (False, ani_at st ts (Some (me_of_ani q)) c, tp_emit (AniRequest q) (s\<lparr>tp_requests := tp_requests s + 1\<rparr>))"
  by (simp add: send_or_reset_def ani_send_def calm_ani_def Let_def)

lemma progress_emit: "progress [q] s (tp_emit (AniRequest q) (s\<lparr>tp_requests := n\<rparr>))"
  by (simp add: progress_def)

lemma exchange_calm:
  assumes "calm_ani env" "\<not> af_isCanceled c"
  shows "\<exists>s'. ani_exchange env q (ani_at st ts l c, s) = Done (False, ani_at st ts (Some (me_of_ani q)) c, s') \<and> progress [q] s s'"
  using assms by (simp add: ani_exchange_def ani_send_def ani_waitforOmciResponse_def calm_ani_def Let_def progress_def)

definition nctp_request :: "UniPonAniConfigFsm \<Rightarrow> ponAniGemPortAttribs \<Rightarrow> ani_omci" where
  "nctp_request c p = CreateGemNCTP (pa_gemPortID p) (af_tcont0ID c) (pa_direction p) (pa_upQueueID p) (pa_downQueueID p)
     (af_techProfileType c = cTechProfileTypeXgsPon)"

lemma nctp_loop_calm:
  assumes "calm_ani env" "\<not> af_isCanceled c"
  shows "\<exists>l' s'. nctp_loop env ps (ani_at st ts l c, s) = ani_event_ignored env aniEvRxGemntcpsResp (ani_at st ts l' c, s') \<and>
     progress (map (nctp_request c) ps) s s'"
proof (induction ps arbitrary: l s)
  case (Cons p ps)
  obtain s1 where 1: "ani_exchange env (nctp_request c p) (ani_at st ts l c, s) =
      Done (False, ani_at st ts (Some (me_of_ani (nctp_request c p))) c, s1)" "progress [nctp_request c p] s s1"
    using exchange_calm [OF assms] by blast
  let ?at = "gem_nctp_attributes (af_tcont0ID c) p @
    (if af_techProfileType c = cTechProfileTypeXgsPon then [(''EncryptionKeyRing'', AvInt 3)] else [])"
  obtain s2 where 2: "put_me GemPortNetworkCtpClassID (pa_gemPortID p) (Some ?at) s1 = Done s2" "progress [] s1 s2"
    using progress_put by blast
  let ?s3 = "if an_metrics env then tp_emit (AddGemPortForPerfMonitoring (pa_gemPortID p)) s2 else s2"
  have 3: "progress [] s2 ?s3" by (simp add: progress_def)
  obtain l' s' where 4: "nctp_loop env ps (ani_at st ts (Some (me_of_ani (nctp_request c p))) c, ?s3) =
      ani_event_ignored env aniEvRxGemntcpsResp (ani_at st ts l' c, s')" "progress (map (nctp_request c) ps) ?s3 s'"
    using Cons.IH by blast
  have "progress (nctp_request c p # map (nctp_request c) ps) s s'"
    using progress_trans [OF progress_trans [OF progress_trans [OF 1(2) 2(2)] 3] 4(2)] by simp
  moreover have "nctp_loop env (p # ps) (ani_at st ts l c, s) =
      ani_event_ignored env aniEvRxGemntcpsResp (ani_at st ts l' c, s')"
    using 1(1) 2(1) 4(1) by (simp add: nctp_request_def Let_def)
  ultimately show ?case by auto
qed (auto intro!: exI)

definition iw_requests :: "bool \<Rightarrow> UniPonAniConfigFsm \<Rightarrow> ponAniGemPortAttribs \<Rightarrow> ani_omci list" where
  "iw_requests others c p =
     (if pa_isMulticast p
      then (if others then [] else [CreateMulticastGemIW (pa_multicastGemID p),
              SetMulticastTable (pa_multicastGemID p) (ipv4MulticastTable (pa_multicastGemID p))])
      else [CreateGemIW (pa_gemPortID p) (af_mapperSP0ID c)])"

lemma others_progress: "progress qs s s' \<Longrightarrow> multicastConfiguredForOtherUniTps k s' = multicastConfiguredForOtherUniTps k s"
  by (simp add: multicastConfiguredForOtherUniTps_def progress_def fsms_def)

lemma iw_loop_calm:
  assumes "calm_ani env" "\<not> af_isCanceled c"
  shows "\<exists>l' s'. iw_loop env ps (ani_at st ts l c, s) = ani_event_ignored env aniEvRxGemiwsResp (ani_at st ts l' c, s') \<and>
     progress (concat (map (iw_requests (multicastConfiguredForOtherUniTps (uniTpKey c) s) c) ps)) s s'"
proof (induction ps arbitrary: l s)
  case (Cons p ps)
  let ?b = "multicastConfiguredForOtherUniTps (uniTpKey c) s"
  show ?case
  proof (cases "pa_isMulticast p \<and> ?b")
    case True
    then show ?thesis using Cons.IH [of l s] by (simp add: iw_requests_def)
  next
    case False
    obtain q l1 s1 where 1: "iw_loop env (p # ps) (ani_at st ts l c, s) =
        bind_run (ani_exchange env q (ani_at st ts l1 c, s1)) (\<lambda>(failed, a, s). if failed then Done (a, s)
            else bind_run (put_me GemInterworkingTerminationPointClassID (pa_gemPortID p)
                             (Some (iw_attributes (af_mapperSP0ID a) p)) s) (\<lambda>s. iw_loop env ps (a, s)))"
      "\<exists>rs. progress rs s s1 \<and> iw_requests ?b c p = rs @ [q]"
    proof (cases "pa_isMulticast p")
      case True
      obtain t where t: "ani_exchange env (CreateMulticastGemIW (pa_multicastGemID p)) (ani_at st ts l c, s) =
          Done (False, ani_at st ts (Some (me_of_ani (CreateMulticastGemIW (pa_multicastGemID p)))) c, t)"
        "progress [CreateMulticastGemIW (pa_multicastGemID p)] s t"
        using exchange_calm [OF assms] by blast
      show ?thesis
        by (rule that [of "SetMulticastTable (pa_multicastGemID p) (ipv4MulticastTable (pa_multicastGemID p))"
              "Some (me_of_ani (CreateMulticastGemIW (pa_multicastGemID p)))" t])
          (use t False True in \<open>auto simp: iw_requests_def Let_def\<close>)
    next
      case False
      show ?thesis
        by (rule that [of "CreateGemIW (pa_gemPortID p) (af_mapperSP0ID c)" l s])
          (use False in \<open>auto simp: iw_requests_def Let_def intro: exI [of _ "[]"]\<close>)
    qed
    obtain s2 where 2: "ani_exchange env q (ani_at st ts l1 c, s1) = Done (False, ani_at st ts (Some (me_of_ani q)) c, s2)"
      "progress [q] s1 s2" using exchange_calm [OF assms] by blast
    obtain s3 where 3: "put_me GemInterworkingTerminationPointClassID (pa_gemPortID p)
        (Some (iw_attributes (af_mapperSP0ID c) p)) s2 = Done s3" "progress [] s2 s3" using progress_put by blast
    obtain rs where rs: "progress rs s s1" "iw_requests ?b c p = rs @ [q]" using 1(2) by blast
    have p3: "progress (iw_requests ?b c p) s s3"
      using progress_trans [OF progress_trans [OF rs(1) 2(2)] 3(2)] rs(2) by simp
    obtain l' s' where 4: "iw_loop env ps (ani_at st ts (Some (me_of_ani q)) c, s3) =
        ani_event_ignored env aniEvRxGemiwsResp (ani_at st ts l' c, s')"
      "progress (concat (map (iw_requests ?b c) ps)) s3 s'"
      using Cons.IH [of "Some (me_of_ani q)" s3] others_progress [OF p3] by auto
    have "iw_loop env (p # ps) (ani_at st ts l c, s) = ani_event_ignored env aniEvRxGemiwsResp (ani_at st ts l' c, s')"
      unfolding 1(1) using 2(1) 3(1) 4(1) by simp
    with progress_trans [OF p3 4(2)] show ?thesis by auto
  qed
qed (auto intro!: exI)

definition pq_requests :: "bool \<Rightarrow> (u16 \<times> u16) list \<Rightarrow> ani_omci list" where
  "pq_requests sched kvs = concat (map (\<lambda>kv. case queue_request sched kv of None \<Rightarrow> [] | Some q \<Rightarrow> [q]) kvs)"

lemma pq_loop_calm:
  assumes "calm_ani env" "\<not> af_isCanceled c"
  shows "\<exists>l' s'. pq_loop env sched kvs (ani_at st ts l c, s) = ani_event_ignored env aniEvRxPrioqsResp (ani_at st ts l' c, s') \<and>
     progress (pq_requests sched kvs) s s'"
proof (induction kvs arbitrary: l s)
  case (Cons kv kvs)
  show ?case
  proof (cases "queue_request sched kv")
    case None
    then show ?thesis using Cons.IH [of l s] by (simp add: pq_requests_def)
  next
    case (Some q)
    obtain s1 where 1: "ani_exchange env q (ani_at st ts l c, s) = Done (False, ani_at st ts (Some (me_of_ani q)) c, s1)"
      "progress [q] s s1" using exchange_calm [OF assms] by blast
    obtain l' s' where 2: "pq_loop env sched kvs (ani_at st ts (Some (me_of_ani q)) c, s1) =
        ani_event_ignored env aniEvRxPrioqsResp (ani_at st ts l' c, s')" "progress (pq_requests sched kvs) s1 s'"
      using Cons.IH by blast
    show ?thesis using progress_trans [OF 1(2) 2(2)] 1(1) 2(1) Some by (auto simp: pq_requests_def)
  qed
qed (auto simp: pq_requests_def intro!: exI)


subsection \<open>Steps of one machine\<close>

lemma others_update:
  "map_of m k = Some a \<or> map_of m k = None \<Longrightarrow> uniTpKey a = k \<Longrightarrow> uniTpKey a' = k \<Longrightarrow>
   list_ex (\<lambda>(k', a). \<not> (fst (uniTpKey a) = fst k \<and> snd (uniTpKey a) = snd k) \<and> hasMulticastGem a) (AList.update k a' m) =
   list_ex (\<lambda>(k', a). \<not> (fst (uniTpKey a) = fst k \<and> snd (uniTpKey a) = snd k) \<and> hasMulticastGem a) m"
  by (induction m) (auto split: if_splits)

definition advance :: "UniTP \<Rightarrow> ani_omci list \<Rightarrow> OnuUniTechProf \<Rightarrow> OnuUniTechProf \<Rightarrow> bool" where
  "advance k qs s s' \<longleftrightarrow> requests_of (tp_out s') = requests_of (tp_out s) @ qs \<and>
     tp_locked s' = tp_locked s \<and> mapUniTpIndication s' = mapUniTpIndication s \<and>
     mapPonAniConfig s' = mapPonAniConfig s \<and> PersTcontMap s' = PersTcontMap s \<and>
     tp_cmn s' = tp_cmn s \<and> CommonMeDb (tp_db s') = CommonMeDb (tp_db s) \<and>
     multicastConfiguredForOtherUniTps k s' = multicastConfiguredForOtherUniTps k s"

lemma advance_trans: "advance k qs s t \<Longrightarrow> advance k rs t u \<Longrightarrow> advance k (qs @ rs) s u"
  by (simp add: advance_def)

lemma ani_step_run:
  assumes "map_of (fsms s) k = Some a" "f (a, s) = Done (a', s')" "PAniConfigFsm s' = PAniConfigFsm s"
    "uniTpKey a = k" "uniTpKey a' = k"
  defines "t \<equiv> s'\<lparr>PAniConfigFsm := map_option (AList.update k a') (PAniConfigFsm s')\<rparr>"
  shows "ani_step k f s = Done t" "map_of (fsms t) k = Some a'"
    "multicastConfiguredForOtherUniTps k t = multicastConfiguredForOtherUniTps k s"
proof -
  obtain m where m: "PAniConfigFsm s = Some m" using assms(1) by (auto simp: fsms_def split: option.splits)
  show "ani_step k f s = Done t" using assms by (simp add: ani_step_def on_fsm_def)
  show "map_of (fsms t) k = Some a'" using assms(3) by (simp add: t_def fsms_def m)
  show "multicastConfiguredForOtherUniTps k t = multicastConfiguredForOtherUniTps k s"
    using others_update [of m k a a'] assms m by (simp add: multicastConfiguredForOtherUniTps_def fsms_def)
qed

lemma ani_step_obtain:
  assumes "map_of (fsms s) k = Some a" "f (a, s) = Done (a', s')" "PAniConfigFsm s' = PAniConfigFsm s"
    "uniTpKey a = k" "uniTpKey a' = k"
  obtains t where "ani_step k f s = Done t" "map_of (fsms t) k = Some a'"
    "multicastConfiguredForOtherUniTps k t = multicastConfiguredForOtherUniTps k s"
    "tp_out t = tp_out s'" "tp_locked t = tp_locked s'" "mapUniTpIndication t = mapUniTpIndication s'"
    "mapPonAniConfig t = mapPonAniConfig s'" "PersTcontMap t = PersTcontMap s'" "tp_cmn t = tp_cmn s'" "tp_db t = tp_db s'"
  using ani_step_run [of s k a f a' s'] assms that by simp

lemma advance_step:
  assumes "map_of (fsms s) k = Some a" "f (a, s) = Done (a', s')" "progress qs s s'" "uniTpKey a = k" "uniTpKey a' = k"
  obtains t where "ani_step k f s = Done t" "map_of (fsms t) k = Some a'" "advance k qs s t" "tp_out t = tp_out s'"
  using ani_step_run [of s k a f a' s'] assms that by (auto simp: progress_def advance_def)

lemma ani_fire_to:
  "fsm_transition ani_fsm_events ev st = Some st' \<Longrightarrow> st' \<noteq> st \<Longrightarrow>
   ani_event_ignored env ev (ani_at st ts l c, s) = ani_enter env st' (ani_at st' ts l c, s)"
  by (simp add: ani_event_ignored_def ani_fire_def fsm_event_def bind_run_assoc)

lemma ani_transitions [simp]:
  "fsm_transition ani_fsm_events aniEvStart aniStDisabled = Some aniStStarting"
  "fsm_transition ani_fsm_events aniEvReadAniSideConfig aniStStarting = Some aniStReadAniSideConfig"
  "fsm_transition ani_fsm_events aniEvPrepareConfig aniStReadAniSideConfig = Some aniStPrepareConfig"
  "fsm_transition ani_fsm_events aniEvStartConfig aniStPrepareConfig = Some aniStCreatingDot1PMapper"
  "fsm_transition ani_fsm_events aniEvRxDot1pmapCResp aniStCreatingDot1PMapper = Some aniStCreatingMBPCD"
  "fsm_transition ani_fsm_events aniEvRxMbpcdResp aniStCreatingMBPCD = Some aniStSettingTconts"
  "fsm_transition ani_fsm_events aniEvRxTcontsResp aniStSettingTconts = Some aniStCreatingGemNCTPs"
  "fsm_transition ani_fsm_events aniEvRxGemntcpsResp aniStCreatingGemNCTPs = Some aniStCreatingGemIWs"
  "fsm_transition ani_fsm_events aniEvRxGemiwsResp aniStCreatingGemIWs = Some aniStSettingPQs"
  "fsm_transition ani_fsm_events aniEvRxPrioqsResp aniStSettingPQs = Some aniStSettingDot1PMapper"
  "fsm_transition ani_fsm_events aniEvRxDot1pmapSResp aniStSettingDot1PMapper = Some aniStConfigDone"
  by (simp_all add: fsm_transition_def fsm_matches_def ani_fsm_events_def Let_def)

lemma run_first_task:
  "run_nth_ani_task env 0 (ani_at st (t # ts) l c, s) = run_ani_task env t (ani_at st ts l c, s)"
  by (simp add: run_nth_ani_task_def)

lemma ok_message:
  assumes "response_event c (ok_response t cl i) = Some (Inl ev)" "t \<noteq> OtherResponse"
  shows "handleOmciAniConfigMessage env (ok_response t cl i) (ani_at st ts (Some (cl, i)) c, s) =
    ani_event_ignored env ev (ani_at st ts (Some (cl, i)) c, s)"
proof -
  have "response_event (ani_at st ts l c) m = response_event c m" for l m
    by (simp add: response_event_def)
  then show ?thesis using assms
    by (simp add: handleOmciAniConfigMessage_def ok_response_def response_failed_def me_Success_def
        split: omci_response_type.splits)
qed

subsection \<open>The first steps\<close>

lemma Allocate_frame:
  assumes "AllocateFreeTcont al s = Done (r, t)"
    and "PersTcontMap s' = PersTcontMap s" "tp_db s' = tp_db s" "tp_cmn s' = tp_cmn s"
  shows "AllocateFreeTcont al s' = Done (r, s'\<lparr>PersTcontMap := PersTcontMap t\<rparr>)"
  using assms
  by (cases "GetSortedInstKeys (tp_db s) TContClassID (tp_cmn s)") (auto simp: AllocateFreeTcont_def split: option.splits)

text \<open>The parameters of the GEM ports as the machine collects them.\<close>

definition gems_collected :: "ani_env \<Rightarrow> OnuUniPort \<Rightarrow> u16 \<Rightarrow> OnuUniTechProf \<Rightarrow> gem_map \<Rightarrow> ponAniGemPortAttribs list \<Rightarrow> bool" where
  "gems_collected env port tcont s gs ps \<longleftrightarrow>
     list_all2 (\<lambda>e p. gem_attribs env ((NewUniPonAniConfigFsm port 0 [] 0 None)\<lparr>af_tcont0ID := tcont\<rparr>, s) (snd e) = Done p) gs ps"

lemma gem_attribs_frame:
  assumes "af_tcont0ID a' = af_tcont0ID a" "af_pOnuUniPort a' = af_pOnuUniPort a" "tp_db s' = tp_db s" "tp_cmn s' = tp_cmn s"
  shows "gem_attribs env (a', s') g = gem_attribs env (a, s) g"
  by (simp only: gem_attribs_def Let_def split_conv assms)

lemma collect_gems_calm:
  assumes "gems_collected env port tcont s gs ps" "\<not> an_skipReconciling env" "af_tcont0ID c = tcont" "af_pOnuUniPort c = port"
    "tp_db s' = tp_db s" "tp_cmn s' = tp_cmn s"
  shows "collect_gems env gs (ani_at st ts l c, s') =
    Done (ani_at st ts l (c\<lparr>af_gemPortAttribsSlice := af_gemPortAttribsSlice c @ ps\<rparr>), s')"
  using assms
proof (induction gs arbitrary: ps c)
  case (Cons e gs)
  obtain p qs where ps: "ps = p # qs" using Cons.prems(1) by (auto simp: gems_collected_def list_all2_Cons1)
  have "gem_attribs env (ani_at st ts l c, s') (snd e) = Done p"
    using Cons.prems gem_attribs_frame [of "ani_at st ts l c" "(NewUniPonAniConfigFsm port 0 [] 0 None)\<lparr>af_tcont0ID := tcont\<rparr>" s' s]
    by (simp add: gems_collected_def ps NewUniPonAniConfigFsm_def)
  moreover have "gems_collected env port tcont s gs qs" using Cons.prems(1) by (simp add: gems_collected_def ps)
  ultimately show ?case
    using Cons.IH [of qs "c\<lparr>af_gemPortAttribsSlice := af_gemPortAttribsSlice c @ [p]\<rparr>"] Cons.prems
    by (cases e) (simp add: ps)
qed (simp add: gems_collected_def)

definition profile_steps :: "UniTP \<Rightarrow> u16 \<Rightarrow> u16 \<Rightarrow> u16 \<Rightarrow> tp_op list" where
  "profile_steps k mapper mbpcd tcont =
     [TpTask k 0, TpTask k 0, TpTask k 0,
      TpMessage k (ok_response CreateResponse Dot1PMapperClassID mapper),
      TpMessage k (ok_response CreateResponse MBPCDClassID mbpcd),
      TpMessage k (ok_response SetResponse TContClassID tcont),
      TpTask k 0, TpTask k 0, TpTask k 0,
      TpMessage k (ok_response SetResponse Dot1PMapperClassID mapper)]"

text \<open>The machine of a profile after its parameters are collected.\<close>

definition collected_fsm ::
    "OnuUniPort \<Rightarrow> u8 \<Rightarrow> string \<Rightarrow> TechProfileInstance option \<Rightarrow> u16 \<Rightarrow> u16 \<Rightarrow> u16 \<Rightarrow> u16 \<Rightarrow> ponAniGemPortAttribs list \<Rightarrow>
     UniPonAniConfigFsm" where
  "collected_fsm port tp ty ti mapper mbpcd tcont al ps =
     (NewUniPonAniConfigFsm port tp ty OmciAniConfigDone ti)\<lparr>af_procStep := 1, af_chanSet := True, af_mapperSP0ID := mapper,
        af_macBPCD0ID := mbpcd, af_tcont0ID := tcont, af_alloc0ID := al, af_gemPortAttribsSlice := ps\<rparr>"

lemma profile_prepared:
  assumes env: "calm_ani env" and s: "\<not> tp_locked s" "mapUniTpIndication s k = None" "map_of (fsms s) k = None"
    "tpProfileResetting s k \<noteq> Some True"
    and k: "k = (UniID port, tp)" and path: "2 < length (split_on CHR ''/'' path)" "ty = split_on CHR ''/'' path ! 0"
    and cfg: "parseAndValidateTechProfileConfig ti = Done (Inr cfg)"
    and ids: "GenerateIeeMaperServiceProfileEID (ucast (MacBpNo port)) (ucast tp) = Inr mapper"
      "GenerateANISideMBPCDEID (ucast (MacBpNo port)) (ucast tp) = Inr mbpcd"
    and tcont: "AllocateFreeTcont (allocID (tcontParams cfg)) s = Done (Some (tc, used), sT)"
    and gems: "gems_collected env port tc s (mapGemPortParams cfg) ps"
  obtains s0 s2 where
    "setAniSideConfigFromTechProfile env (UniID port) tp path ti port 1 s = Done (None, s0)"
    "run_steps tp_step [(env, TpTask k 0), (env, TpTask k 0)] s0 = Done s2"
    "map_of (fsms s2) k = Some (ani_at aniStPrepareConfig [AEvent aniEvStartConfig] None
        (collected_fsm port tp ty ti mapper mbpcd tc (allocID (tcontParams cfg)) ps))"
    "requests_of (tp_out s2) = requests_of (tp_out s)" "\<not> tp_locked s2"
    "mapUniTpIndication s2 k = Some \<lparr> techProfileType = ty, techProfileID = tp, techProfileConfigDone = False,
        techProfileToDelete = False \<rparr>"
    "map_of (mapPonAniConfig s2) k = Some cfg" "PersTcontMap s2 = PersTcontMap sT" "tp_db s2 = tp_db s" "tp_cmn s2 = tp_cmn s"
    "multicastConfiguredForOtherUniTps k s2 = multicastConfiguredForOtherUniTps k s"
proof -
  let ?al = "allocID (tcontParams cfg)"
  let ?c = "(NewUniPonAniConfigFsm port tp ty OmciAniConfigDone ti)\<lparr>af_procStep := 1, af_chanSet := True\<rparr>"
  have kc: "uniTpKey ?c = k" and inst: "af_techProfileInst ?c = ti" and port: "af_pOnuUniPort ?c = port" and tpid: "af_techProfileID ?c = tp"
    by (simp_all add: uniTpKey_def NewUniPonAniConfigFsm_def k)
  obtain s0 where s0: "setAniSideConfigFromTechProfile env (UniID port) tp path ti port 1 s = Done (None, s0)"
    and a0: "map_of (fsms s0) k = Some (ani_at aniStStarting [AEvent aniEvReadAniSideConfig] None ?c)"
    and f0: "requests_of (tp_out s0) = requests_of (tp_out s)" "\<not> tp_locked s0" "mapUniTpIndication s0 k = Some
        \<lparr> techProfileType = ty, techProfileID = tp, techProfileConfigDone = False, techProfileToDelete = False \<rparr>"
      "PersTcontMap s0 = PersTcontMap s" "tp_db s0 = tp_db s" "tp_cmn s0 = tp_cmn s"
      "tpProfileResetting s0 = tpProfileResetting s"
      "multicastConfiguredForOtherUniTps k s0 = multicastConfiguredForOtherUniTps k s"
    proof -
    let ?a = "ani_at aniStStarting [AEvent aniEvReadAniSideConfig] None ?c"
    let ?N = "NewUniPonAniConfigFsm port tp ty OmciAniConfigDone ti"
    have N: "?N = ani_at aniStDisabled [] None ?N" by (simp add: ani_at_def NewUniPonAniConfigFsm_def)
    have st: "ani_fire env aniEvStart (setFsmCompleteChannel 1 ?N, x) = Done (None, ?a, tp_emit AniStartProcessing x)" for x
      by (simp add: ani_fire_def fsm_event_def ani_enter_def enterConfigStartingState_def setFsmCompleteChannel_def
          NewUniPonAniConfigFsm_def ani_at_def)
    have nf: "af_fsm ?N = aniStDisabled" "uniTpKey ?N = k" "uniTpKey ?a = k"
      by (simp_all add: NewUniPonAniConfigFsm_def uniTpKey_def k)
    let ?m = "AList.update k ?a (AList.update k ?N (fsms s))"
    have u: "list_ex (\<lambda>(k', a). \<not> (fst (uniTpKey a) = fst k \<and> snd (uniTpKey a) = snd k) \<and> hasMulticastGem a) ?m =
        multicastConfiguredForOtherUniTps k s"
      using others_update [of "fsms s" k ?N ?N] others_update [of "AList.update k ?N (fsms s)" k ?N ?a] s(3) nf
      by (simp add: multicastConfiguredForOtherUniTps_def)
    let ?sx = "s\<lparr>tp_locked := True, tpProfileExists := (tpProfileExists s)(k \<mapsto> False),
        mapUniTpIndication := (mapUniTpIndication s)(k \<mapsto> \<lparr> techProfileType = ty, techProfileID = tp,
          techProfileConfigDone = False, techProfileToDelete = False \<rparr>)\<rparr>"
    let ?sy = "?sx\<lparr>PAniConfigFsm := Some (AList.update k ?N (fsms s))\<rparr>"
    have fx: "fsms (s\<lparr>tp_locked := l, tpProfileExists := x, mapUniTpIndication := y\<rparr>) = fsms s" for l x y
      by (simp add: fsms_def)
    have run: "runAniConfigFsm env aniEvStart 1 (UniID port) tp ?sy =
        Done (None, (tp_emit AniStartProcessing ?sy)\<lparr>PAniConfigFsm := Some ?m\<rparr>)"
      using st [of ?sy] nf(1) by (simp add: runAniConfigFsm_def on_fsm_def fsms_def k)
    have "start_profile env (UniID port) tp ty ti port 1 (s\<lparr>tp_locked := True\<rparr>) =
        Done (None, (tp_emit AniStartProcessing ?sy)\<lparr>PAniConfigFsm := Some ?m\<rparr>)"
      using s env run by (simp add: start_profile_def Let_def createAniConfigFsm_def k calm_ani_def fx)
    then have "setAniSideConfigFromTechProfile env (UniID port) tp path ti port 1 s =
        Done (None, (tp_emit AniStartProcessing ?sy)\<lparr>PAniConfigFsm := Some ?m, tp_locked := False\<rparr>)"
      using s(1) path by (simp add: setAniSideConfigFromTechProfile_def Let_def)
    then show ?thesis
      by (rule that) (use u in \<open>simp_all add: fsms_def multicastConfiguredForOtherUniTps_def\<close>)
  qed
  obtain s1 where s1: "tp_step (env, TpTask k 0) s0 = Done s1"
    and a1: "map_of (fsms s1) k = Some (ani_at aniStReadAniSideConfig [AEvent aniEvPrepareConfig] None ?c)"
    and f1: "requests_of (tp_out s1) = requests_of (tp_out s)" "\<not> tp_locked s1" "mapUniTpIndication s1 k = mapUniTpIndication s0 k"
      "map_of (mapPonAniConfig s1) k = Some cfg"
      "PersTcontMap s1 = PersTcontMap s" "tp_db s1 = tp_db s" "tp_cmn s1 = tp_cmn s"
      "multicastConfiguredForOtherUniTps k s1 = multicastConfiguredForOtherUniTps k s"
  proof -
    let ?a' = "ani_at aniStReadAniSideConfig [AEvent aniEvPrepareConfig] None ?c"
    let ?s' = "s0\<lparr>mapPonAniConfig := AList.update k cfg (mapPonAniConfig s0)\<rparr>"
    have "tpProfileResetting s0 k \<noteq> Some True" using f0 s(4) by simp
    then have r: "run_nth_ani_task env 0 (ani_at aniStStarting [AEvent aniEvReadAniSideConfig] None ?c, s0) = Done (?a', ?s')"
      using f0 cfg by (auto simp: run_first_task run_ani_task_def ani_fire_to ani_enter_def enterReadAniSideConfig_def Let_def kc inst
          GetProfileResetting_def tp_section_def split: option.splits bool.splits)
    show ?thesis
      by (rule ani_step_obtain [where f = "run_nth_ani_task env 0", OF a0 r]) (use f0 kc in \<open>simp_all add: that\<close>)
  qed
  obtain s2 where "tp_step (env, TpTask k 0) s1 = Done s2"
    "map_of (fsms s2) k = Some (ani_at aniStPrepareConfig [AEvent aniEvStartConfig] None
        (collected_fsm port tp ty ti mapper mbpcd tc ?al ps))"
    "requests_of (tp_out s2) = requests_of (tp_out s)" "\<not> tp_locked s2" "mapUniTpIndication s2 k = mapUniTpIndication s0 k"
      "map_of (mapPonAniConfig s2) k = Some cfg"
      "PersTcontMap s2 = PersTcontMap sT" "tp_db s2 = tp_db s" "tp_cmn s2 = tp_cmn s"
      "multicastConfiguredForOtherUniTps k s2 = multicastConfiguredForOtherUniTps k s"
  proof -
    let ?d = "collected_fsm port tp ty ti mapper mbpcd tc ?al ps"
    let ?c' = "?c\<lparr>af_mapperSP0ID := mapper, af_macBPCD0ID := mbpcd, af_tcont0ID := tc, af_alloc0ID := ?al\<rparr>"
    let ?a' = "ani_at aniStPrepareConfig [AEvent aniEvStartConfig] None ?d"
    let ?s' = "s1\<lparr>PersTcontMap := PersTcontMap sT\<rparr>"
    have d: "ani_at st ts l (?c'\<lparr>af_gemPortAttribsSlice := af_gemPortAttribsSlice ?c' @ ps\<rparr>) = ani_at st ts l ?d" for st ts l
      by (simp add: collected_fsm_def NewUniPonAniConfigFsm_def)
    have al: "AllocateFreeTcont ?al s1 = Done (Some (tc, used), ?s')"
      by (rule Allocate_frame [OF tcont]) (use f1 in simp_all)
    have "collect_gems env (mapGemPortParams cfg) (ani_at aniStPrepareConfig [] None ?c', ?s') =
        Done (ani_at aniStPrepareConfig [] None (?c'\<lparr>af_gemPortAttribsSlice := af_gemPortAttribsSlice ?c' @ ps\<rparr>), ?s')"
      by (rule collect_gems_calm [OF gems]) (use env f1 in \<open>simp_all add: calm_ani_def NewUniPonAniConfigFsm_def\<close>)
    then have co: "collect_gems env (mapGemPortParams cfg) (ani_at aniStPrepareConfig [] None ?c', ?s') =
        Done (ani_at aniStPrepareConfig [] None ?d, ?s')" by (simp only: d)
    have "run_nth_ani_task env 0 (ani_at aniStReadAniSideConfig [AEvent aniEvPrepareConfig] None ?c, s1) = Done (?a', ?s')"
      using f1 ids env co al
      by (simp add: run_first_task run_ani_task_def ani_fire_to ani_enter_def prepareAndEnterConfigState_def Let_def
          allocate_and_collect_def tp_section_def kc port tpid calm_ani_def)
    note r = this
    have "uniTpKey ?d = k" by (simp add: uniTpKey_def collected_fsm_def NewUniPonAniConfigFsm_def k)
    with kc have ky: "PAniConfigFsm ?s' = PAniConfigFsm s1"
      "uniTpKey (ani_at aniStReadAniSideConfig [AEvent aniEvPrepareConfig] None ?c) = k" "uniTpKey ?a' = k" by simp_all
    obtain t where "ani_step k (run_nth_ani_task env 0) s1 = Done t" "map_of (fsms t) k = Some ?a'"
      "multicastConfiguredForOtherUniTps k t = multicastConfiguredForOtherUniTps k s1"
      "tp_out t = tp_out ?s'" "tp_locked t = tp_locked ?s'" "mapUniTpIndication t = mapUniTpIndication ?s'"
      "mapPonAniConfig t = mapPonAniConfig ?s'" "PersTcontMap t = PersTcontMap ?s'" "tp_cmn t = tp_cmn ?s'" "tp_db t = tp_db ?s'"
      by (rule ani_step_obtain [where f = "run_nth_ani_task env 0", OF a1 r ky])
    with f1 show ?thesis by (intro that [of t]) simp_all
  qed
  with that s0 s1 f0(3) show ?thesis by simp
qed

subsection \<open>The exchange with the ONU\<close>

definition onu2g_flexibility :: "ani_env \<Rightarrow> OnuUniTechProf \<Rightarrow> u16 \<Rightarrow> bool" where
  "onu2g_flexibility env s flex \<longleftrightarrow>
     (\<exists>p cm at v. CommonMeDb (tp_db s) = Some p \<and> tp_cmn s p = Some cm \<and>
        nested_get (map_or_empty (MeDb cm)) Onu2GClassID 0 = Some (Some at) \<and>
        map_of at ''QualityOfServiceQosConfigurationFlexibility'' = Some v \<and> v \<noteq> AvNil \<and>
        GetUint16Attrib (an_conv16 env) v = Done (Inr flex))"

lemma setting_pqs_calm:
  assumes "calm_ani env" "\<not> af_isCanceled c" "onu2g_flexibility env s flex" "\<not> af_tcontSetBefore c"
  shows "\<exists>l' s'. performSettingPQs env (ani_at st ts l c, s) = ani_event_ignored env aniEvRxPrioqsResp (ani_at st ts l' c, s') \<and>
     progress (pq_requests (flex AND bitTrafficSchedulerPtrSetPermitted = bitTrafficSchedulerPtrSetPermitted)
       (fold add_queue (af_gemPortAttribsSlice c) [])) s s'"
  using assms(3) pq_loop_calm [OF assms(1,2)] assms(4)
  by (auto simp: onu2g_flexibility_def performSettingPQs_def GetMe_def deref_common_def map_or_empty_def)

lemma advance_onu2g: "advance k qs s t \<Longrightarrow> onu2g_flexibility env t flex = onu2g_flexibility env s flex"
  by (simp add: advance_def onu2g_flexibility_def)

definition profile_requests :: "UniPonAniConfigFsm \<Rightarrow> u16 \<Rightarrow> bool \<Rightarrow> bool \<Rightarrow> u16 list \<Rightarrow> ani_omci list" where
  "profile_requests c portNo others sched arr =
     [CreateDot1PMapper (af_mapperSP0ID c),
      CreateMBPCD (af_macBPCD0ID c) (MacBridgeServiceProfileEID + ucast (MacBpNo (af_pOnuUniPort c))) (ucast portNo) (af_mapperSP0ID c),
      SetTcont (af_tcont0ID c) (af_alloc0ID c)] @
     map (nctp_request c) (af_gemPortAttribsSlice c) @
     concat (map (iw_requests others c) (af_gemPortAttribsSlice c)) @
     pq_requests sched (fold add_queue (af_gemPortAttribsSlice c) []) @
     [SetDot1PMapper (af_mapperSP0ID c) (map (\<lambda>v. if v \<noteq> 0 then v else 0xffff) arr)]"

lemma profile_exchanged:
  fixes c s2
  assumes env: "calm_ani env" and k: "uniTpKey c = k" "k = (UniID (af_pOnuUniPort c), af_techProfileID c)"
    and c: "\<not> af_isCanceled c" "af_requestEventOffset c = 0" "\<not> af_tcontSetBefore c" "af_chanSet c" "af_procStep c = 1"
    and a: "map_of (fsms s2) k = Some (ani_at aniStPrepareConfig [AEvent aniEvStartConfig] None c)"
    and pn: "GenerateANISideMBPCDPortNo (ucast (af_techProfileID c)) = Inr pno"
    and onu: "onu2g_flexibility env s2 flex"
    and arr: "prio_loop (af_gemPortAttribsSlice c) (replicate 8 0) = Done arr" "\<exists>v \<in> set arr. v \<noteq> 0"
    and s2: "\<not> tp_locked s2" "mapUniTpIndication s2 k = Some i" "techProfileID i = snd k" "\<not> techProfileToDelete i"
  shows "\<exists>s'. run_steps tp_step (map (Pair env) (drop 2 (profile_steps k (af_mapperSP0ID c) (af_macBPCD0ID c) (af_tcont0ID c)))) s2 = Done s' \<and>
     map_option af_fsm (map_of (fsms s') k) = Some aniStConfigDone \<and>
     requests_of (tp_out s') = requests_of (tp_out s2) @ profile_requests c pno (multicastConfiguredForOtherUniTps k s2)
       (flex AND bitTrafficSchedulerPtrSetPermitted = bitTrafficSchedulerPtrSetPermitted) arr \<and>
     (\<exists>es. tp_out s' = es @ [AniStatusUpdate (af_requestEvent c), VerifyUniVlanConfigRequest (fst k) (snd k), StepFinished 1]) \<and>
     getTechProfileDone (fst k) (snd k) s' = Done True \<and>
     map_of (mapPonAniConfig s') k = map_of (mapPonAniConfig s2) k \<and> PersTcontMap s' = PersTcontMap s2"
proof -
  let ?ps = "af_gemPortAttribsSlice c"
  let ?others = "multicastConfiguredForOtherUniTps k s2"
  let ?sched = "flex AND bitTrafficSchedulerPtrSetPermitted = bitTrafficSchedulerPtrSetPermitted"
  let ?m1 = "CreateDot1PMapper (af_mapperSP0ID c)"
  let ?m2 = "CreateMBPCD (af_macBPCD0ID c) (MacBridgeServiceProfileEID + ucast (MacBpNo (af_pOnuUniPort c))) (ucast pno) (af_mapperSP0ID c)"
  let ?m3 = "SetTcont (af_tcont0ID c) (af_alloc0ID c)"
  have c0: "c\<lparr>af_requestEventOffset := 0\<rparr> = c" using c(2) by simp
  note [simp] = k(1)
  have "run_nth_ani_task env 0 (ani_at aniStPrepareConfig [AEvent aniEvStartConfig] None c, s2) =
      Done (ani_at aniStCreatingDot1PMapper [] (Some (me_of_ani ?m1)) c, tp_emit (AniRequest ?m1) (s2\<lparr>tp_requests := tp_requests s2 + 1\<rparr>))"
    by (simp add: run_first_task run_ani_task_def ani_fire_to ani_enter_def enterCreatingDot1PMapper_def send_calm env c0)
  from advance_step [where f = "run_nth_ani_task env 0", OF a this progress_emit] obtain s3 where
    3: "ani_step k (run_nth_ani_task env 0) s2 = Done s3"
       "map_of (fsms s3) k = Some (ani_at aniStCreatingDot1PMapper [] (Some (me_of_ani ?m1)) c)" "advance k [?m1] s2 s3" by auto
  have ev: "response_event c (ok_response CreateResponse Dot1PMapperClassID i) = Some (Inl aniEvRxDot1pmapCResp)"
    "response_event c (ok_response CreateResponse MBPCDClassID i) = Some (Inl aniEvRxMbpcdResp)"
    "response_event c (ok_response SetResponse TContClassID i) = Some (Inl aniEvRxTcontsResp)"
    "response_event c (ok_response SetResponse Dot1PMapperClassID i) = Some (Inl aniEvRxDot1pmapSResp)" for i
    using c(2) by (simp_all add: response_event_def ok_response_def ani_classes)
  let ?r1 = "ok_response CreateResponse Dot1PMapperClassID (af_mapperSP0ID c)"
  have "handleOmciAniConfigMessage env ?r1 (ani_at aniStCreatingDot1PMapper [] (Some (me_of_ani ?m1)) c, s3) =
      Done (ani_at aniStCreatingMBPCD [] (Some (me_of_ani ?m2)) c, tp_emit (AniRequest ?m2) (s3\<lparr>tp_requests := tp_requests s3 + 1\<rparr>))"
    by (simp add: ok_message ev ani_fire_to ani_enter_def enterCreatingMBPCD_def pn send_calm env Let_def)
  from advance_step [where f = "handleOmciAniConfigMessage env ?r1", OF 3(2) this progress_emit] obtain s4 where
    4: "ani_step k (handleOmciAniConfigMessage env ?r1) s3 = Done s4"
       "map_of (fsms s4) k = Some (ani_at aniStCreatingMBPCD [] (Some (me_of_ani ?m2)) c)" "advance k [?m2] s3 s4" by auto
  let ?r2 = "ok_response CreateResponse MBPCDClassID (af_macBPCD0ID c)"
  have "handleOmciAniConfigMessage env ?r2 (ani_at aniStCreatingMBPCD [] (Some (me_of_ani ?m2)) c, s4) =
      Done (ani_at aniStSettingTconts [] (Some (me_of_ani ?m3)) c, tp_emit (AniRequest ?m3) (s4\<lparr>tp_requests := tp_requests s4 + 1\<rparr>))"
    by (simp add: ok_message ev ani_fire_to ani_enter_def enterSettingTconts_def send_calm env Let_def c)
  from advance_step [where f = "handleOmciAniConfigMessage env ?r2", OF 4(2) this progress_emit] obtain s5 where
    5: "ani_step k (handleOmciAniConfigMessage env ?r2) s4 = Done s5"
       "map_of (fsms s5) k = Some (ani_at aniStSettingTconts [] (Some (me_of_ani ?m3)) c)" "advance k [?m3] s4 s5" by auto
  let ?r3 = "ok_response SetResponse TContClassID (af_tcont0ID c)"
  have "handleOmciAniConfigMessage env ?r3 (ani_at aniStSettingTconts [] (Some (me_of_ani ?m3)) c, s5) =
      Done (ani_at aniStCreatingGemNCTPs [ACreateGemNCTPs] (Some (me_of_ani ?m3)) c, s5)"
    by (simp add: ok_message ev ani_fire_to ani_enter_def)
  from advance_step [where f = "handleOmciAniConfigMessage env ?r3", OF 5(2) this progress_refl] obtain s6 where
    6: "ani_step k (handleOmciAniConfigMessage env ?r3) s5 = Done s6"
       "map_of (fsms s6) k = Some (ani_at aniStCreatingGemNCTPs [ACreateGemNCTPs] (Some (me_of_ani ?m3)) c)" "advance k [] s5 s6" by auto
  obtain l7 t7 where "nctp_loop env ?ps (ani_at aniStCreatingGemNCTPs [] (Some (me_of_ani ?m3)) c, s6) =
        ani_event_ignored env aniEvRxGemntcpsResp (ani_at aniStCreatingGemNCTPs [] l7 c, t7)"
    and p7: "progress (map (nctp_request c) ?ps) s6 t7" using nctp_loop_calm [OF env c(1)] by blast
  then have "run_nth_ani_task env 0 (ani_at aniStCreatingGemNCTPs [ACreateGemNCTPs] (Some (me_of_ani ?m3)) c, s6) =
      Done (ani_at aniStCreatingGemIWs [ACreateGemIWs] l7 c, t7)"
    by (simp add: run_first_task run_ani_task_def performCreatingGemNCTPs_def ani_fire_to ani_enter_def)
  from advance_step [where f = "run_nth_ani_task env 0", OF 6(2) this p7] obtain s7 where
    7: "ani_step k (run_nth_ani_task env 0) s6 = Done s7" "map_of (fsms s7) k = Some (ani_at aniStCreatingGemIWs [ACreateGemIWs] l7 c)"
       "advance k (map (nctp_request c) ?ps) s6 s7" by auto
  have oth: "multicastConfiguredForOtherUniTps k s7 = ?others" using 3 4 5 6 7 by (simp add: advance_def)
  obtain l8 t8 where "iw_loop env ?ps (ani_at aniStCreatingGemIWs [] l7 c, s7) =
        ani_event_ignored env aniEvRxGemiwsResp (ani_at aniStCreatingGemIWs [] l8 c, t8)"
    and p8: "progress (concat (map (iw_requests ?others c) ?ps)) s7 t8" using iw_loop_calm [OF env c(1), of ?ps aniStCreatingGemIWs "[]" l7 s7] oth by auto
  then have "run_nth_ani_task env 0 (ani_at aniStCreatingGemIWs [ACreateGemIWs] l7 c, s7) =
      Done (ani_at aniStSettingPQs [ASetPQs] l8 c, t8)"
    by (simp add: run_first_task run_ani_task_def performCreatingGemIWs_def ani_fire_to ani_enter_def)
  from advance_step [where f = "run_nth_ani_task env 0", OF 7(2) this p8] obtain s8 where
    8: "ani_step k (run_nth_ani_task env 0) s7 = Done s8" "map_of (fsms s8) k = Some (ani_at aniStSettingPQs [ASetPQs] l8 c)"
       "advance k (concat (map (iw_requests ?others c) ?ps)) s7 s8" by auto
  have adv8: "advance k ([?m1] @ [?m2] @ [?m3] @ [] @ map (nctp_request c) ?ps @ concat (map (iw_requests ?others c) ?ps)) s2 s8"
    using 3(3) 4(3) 5(3) 6(3) 7(3) 8(3) by (simp add: advance_def)
  then have onu8: "onu2g_flexibility env s8 flex" using onu advance_onu2g by blast
  let ?pq = "pq_requests ?sched (fold add_queue ?ps [])"
  let ?m9 = "SetDot1PMapper (af_mapperSP0ID c) (map (\<lambda>v. if v \<noteq> 0 then v else 0xffff) arr)"
  obtain l9 t9 where "performSettingPQs env (ani_at aniStSettingPQs [] l8 c, s8) =
        ani_event_ignored env aniEvRxPrioqsResp (ani_at aniStSettingPQs [] l9 c, t9)"
    and p9: "progress ?pq s8 t9" using setting_pqs_calm [OF env c(1) onu8 c(3)] by blast
  moreover have "\<not> list_all (\<lambda>v. v = 0) arr" using arr(2) by (auto simp: list_all_iff)
  ultimately have "run_nth_ani_task env 0 (ani_at aniStSettingPQs [ASetPQs] l8 c, s8) =
      Done (ani_at aniStSettingDot1PMapper [] (Some (me_of_ani ?m9)) c, tp_emit (AniRequest ?m9) (t9\<lparr>tp_requests := tp_requests t9 + 1\<rparr>))"
    using arr(1) by (simp add: run_first_task run_ani_task_def ani_fire_to ani_enter_def enterSettingDot1PMapper_def send_calm env)
  from advance_step [where f = "run_nth_ani_task env 0", OF 8(2) this progress_trans [OF p9 progress_emit]] obtain s9 where
    9: "ani_step k (run_nth_ani_task env 0) s8 = Done s9"
       "map_of (fsms s9) k = Some (ani_at aniStSettingDot1PMapper [] (Some (me_of_ani ?m9)) c)" "advance k (?pq @ [?m9]) s8 s9" by auto
  let ?r4 = "ok_response SetResponse Dot1PMapperClassID (af_mapperSP0ID c)"
  let ?s10 = "s9\<lparr>mapUniTpIndication := (mapUniTpIndication s9)(k \<mapsto> i\<lparr>techProfileConfigDone := True\<rparr>),
     tp_out := tp_out s9 @ [AniStatusUpdate (af_requestEvent c), VerifyUniVlanConfigRequest (fst k) (snd k), StepFinished 1]\<rparr>"
  let ?a10 = "ani_at aniStConfigDone [] (Some (me_of_ani ?m9)) (c\<lparr>af_chanSet := False\<rparr>)"
  have s9: "\<not> tp_locked s9" "mapUniTpIndication s9 k = Some i" using adv8 9(3) s2 by (simp_all add: advance_def)
  have r10: "handleOmciAniConfigMessage env ?r4 (ani_at aniStSettingDot1PMapper [] (Some (me_of_ani ?m9)) c, s9) = Done (?a10, ?s10)"
    using s9 c env k(2) by (simp add: ok_message ev ani_fire_to ani_enter_def enterAniConfigDone_def setConfigDone_def tp_section_def
        Let_def finish_step_def calm_ani_def)
  have ky: "PAniConfigFsm ?s10 = PAniConfigFsm s9" "uniTpKey (ani_at aniStSettingDot1PMapper [] (Some (me_of_ani ?m9)) c) = k"
    "uniTpKey ?a10 = k" by (simp_all add: uniTpKey_def k(2))
  obtain t where t: "ani_step k (handleOmciAniConfigMessage env ?r4) s9 = Done t" "map_of (fsms t) k = Some ?a10"
      "multicastConfiguredForOtherUniTps k t = multicastConfiguredForOtherUniTps k s9"
      "tp_out t = tp_out ?s10" "tp_locked t = tp_locked ?s10" "mapUniTpIndication t = mapUniTpIndication ?s10"
      "mapPonAniConfig t = mapPonAniConfig ?s10" "PersTcontMap t = PersTcontMap ?s10" "tp_cmn t = tp_cmn ?s10" "tp_db t = tp_db ?s10"
    by (rule ani_step_obtain [where f = "handleOmciAniConfigMessage env ?r4", OF 9(2) r10 ky])
  have "run_steps tp_step (map (Pair env) (drop 2 (profile_steps k (af_mapperSP0ID c) (af_macBPCD0ID c) (af_tcont0ID c)))) s2 = Done t"
    using 3(1) 4(1) 5(1) 6(1) 7(1) 8(1) 9(1) t(1) by (simp add: profile_steps_def)
  moreover have "getTechProfileDone (fst k) (snd k) t = Done True"
    using t s9 s2 by (simp add: getTechProfileDone_def tp_section_def)
  moreover have "requests_of (tp_out t) = requests_of (tp_out s2) @ profile_requests c pno ?others ?sched arr"
    using t(4) adv8 9(3) by (simp add: advance_def profile_requests_def)
  ultimately show ?thesis using t adv8 9(3) by (intro exI [of _ t]) (simp add: advance_def)
qed

subsection \<open>The whole configuration\<close>

text \<open>C30: A new tech profile is configured: after the call has started the machine, its goroutines and
  the responses of the ONU bring it to \<^verbatim>\<open>aniStConfigDone\<close>. The ONU has then been sent exactly
  the requests of the profile in their order (mapper, bridge port, T-CONT, GEM ports, interworking
  points, priority queues, and the priorities of the mapper), the caller is answered with its step,
  the VLAN machine is asked to go on, the profile is noted as done, its parameters are stored and
  the T-CONT stays allocated.\<close>

theorem profile_configured:
  assumes env: "calm_ani env" and s: "\<not> tp_locked s" "mapUniTpIndication s k = None" "map_of (fsms s) k = None"
    "tpProfileResetting s k \<noteq> Some True"
    and k: "k = (UniID port, tp)" and path: "2 < length (split_on CHR ''/'' path)" "ty = split_on CHR ''/'' path ! 0"
    and cfg: "parseAndValidateTechProfileConfig ti = Done (Inr cfg)"
    and ids: "GenerateIeeMaperServiceProfileEID (ucast (MacBpNo port)) (ucast tp) = Inr mapper"
      "GenerateANISideMBPCDEID (ucast (MacBpNo port)) (ucast tp) = Inr mbpcd"
      "GenerateANISideMBPCDPortNo (ucast tp) = Inr pno"
    and tcont: "AllocateFreeTcont (allocID (tcontParams cfg)) s = Done (Some (tc, used), sT)"
    and gems: "gems_collected env port tc s (mapGemPortParams cfg) ps"
    and onu: "onu2g_flexibility env s flex"
    and arr: "prio_loop ps (replicate 8 0) = Done arr" "\<exists>v \<in> set arr. v \<noteq> 0"
  shows "\<exists>s0 s'. setAniSideConfigFromTechProfile env (UniID port) tp path ti port 1 s = Done (None, s0) \<and>
     run_steps tp_step (map (Pair env) (profile_steps k mapper mbpcd tc)) s0 = Done s' \<and>
     map_option af_fsm (map_of (fsms s') k) = Some aniStConfigDone \<and>
     requests_of (tp_out s') = requests_of (tp_out s) @
       profile_requests (collected_fsm port tp ty ti mapper mbpcd tc (allocID (tcontParams cfg)) ps) pno
         (multicastConfiguredForOtherUniTps k s)
         (flex AND bitTrafficSchedulerPtrSetPermitted = bitTrafficSchedulerPtrSetPermitted) arr \<and>
     (\<exists>es. tp_out s' = es @ [AniStatusUpdate OmciAniConfigDone, VerifyUniVlanConfigRequest (UniID port) tp, StepFinished 1]) \<and>
     getTechProfileDone (UniID port) tp s' = Done True \<and>
     map_of (mapPonAniConfig s') k = Some cfg \<and> PersTcontMap s' = PersTcontMap sT"
proof -
  let ?c = "collected_fsm port tp ty ti mapper mbpcd tc (allocID (tcontParams cfg)) ps"
  obtain s0 s2 where
    0: "setAniSideConfigFromTechProfile env (UniID port) tp path ti port 1 s = Done (None, s0)"
    "run_steps tp_step [(env, TpTask k 0), (env, TpTask k 0)] s0 = Done s2"
    and 2: "map_of (fsms s2) k = Some (ani_at aniStPrepareConfig [AEvent aniEvStartConfig] None ?c)"
    "requests_of (tp_out s2) = requests_of (tp_out s)" "\<not> tp_locked s2"
    "mapUniTpIndication s2 k = Some \<lparr> techProfileType = ty, techProfileID = tp, techProfileConfigDone = False,
        techProfileToDelete = False \<rparr>"
    "map_of (mapPonAniConfig s2) k = Some cfg" "PersTcontMap s2 = PersTcontMap sT" "tp_db s2 = tp_db s" "tp_cmn s2 = tp_cmn s"
    "multicastConfiguredForOtherUniTps k s2 = multicastConfiguredForOtherUniTps k s"
    by (rule profile_prepared [OF env s k path cfg ids(1,2) tcont gems])
  have c: "uniTpKey ?c = k" "k = (UniID (af_pOnuUniPort ?c), af_techProfileID ?c)" "\<not> af_isCanceled ?c"
    "af_requestEventOffset ?c = 0" "\<not> af_tcontSetBefore ?c" "af_chanSet ?c" "af_procStep ?c = 1"
    "GenerateANISideMBPCDPortNo (ucast (af_techProfileID ?c)) = Inr pno"
    "prio_loop (af_gemPortAttribsSlice ?c) (replicate 8 0) = Done arr"
    "af_mapperSP0ID ?c = mapper" "af_macBPCD0ID ?c = mbpcd" "af_tcont0ID ?c = tc" "af_requestEvent ?c = OmciAniConfigDone"
    using ids(3) arr(1) by (simp_all add: collected_fsm_def NewUniPonAniConfigFsm_def uniTpKey_def k)
  have "onu2g_flexibility env s2 flex" using onu by (simp add: onu2g_flexibility_def 2)
  from profile_exchanged [OF env c(1-7) 2(1) c(8) this c(9) arr(2) 2(3,4)] obtain s' where
    *: "run_steps tp_step (map (Pair env) (drop 2 (profile_steps k mapper mbpcd tc))) s2 = Done s'"
    "map_option af_fsm (map_of (fsms s') k) = Some aniStConfigDone"
    "requests_of (tp_out s') = requests_of (tp_out s2) @ profile_requests ?c pno (multicastConfiguredForOtherUniTps k s2)
       (flex AND bitTrafficSchedulerPtrSetPermitted = bitTrafficSchedulerPtrSetPermitted) arr"
    "\<exists>es. tp_out s' = es @ [AniStatusUpdate OmciAniConfigDone, VerifyUniVlanConfigRequest (fst k) (snd k), StepFinished 1]"
    "getTechProfileDone (fst k) (snd k) s' = Done True"
    "map_of (mapPonAniConfig s') k = map_of (mapPonAniConfig s2) k" "PersTcontMap s' = PersTcontMap s2"
    by (auto simp: c(10-13) k)
  have "map (Pair env) (profile_steps k mapper mbpcd tc) =
      [(env, TpTask k 0), (env, TpTask k 0)] @ map (Pair env) (drop 2 (profile_steps k mapper mbpcd tc))"
    by (simp add: profile_steps_def)
  then have "run_steps tp_step (map (Pair env) (profile_steps k mapper mbpcd tc)) s0 = Done s'"
    using 0(2) *(1) by (simp only: run_steps_append bind_run.simps)
  then show ?thesis using 0(1) 2 *(2-) k by (intro exI [of _ s0] exI [of _ s']) simp
qed

theorem profile_configured_witness:
  "\<exists>s0 s'. setAniSideConfigFromTechProfile sample_ani_env 0 64 ''XGS-PON/64/olt''
       (Some (sample_profile 1025 ''0b00000010'')) (NewOnuUniPort 0 1 257 UniPPTP) 1 sample_tables = Done (None, s0) \<and>
     run_steps tp_step (map (Pair sample_ani_env) (profile_steps (0, 64) 0x10c1 0x10c1 0x8001)) s0 = Done s' \<and>
     getTechProfileDone 0 64 s' = Done True \<and> PersTcontMap s' = [(1024, 0x8001)]"
proof -
  let ?env = sample_ani_env
  let ?port = "NewOnuUniPort 0 1 257 UniPPTP"
  let ?ti = "Some (sample_profile 1025 ''0b00000010'')"
  let ?gem = "upstream_gem (sample_gem 1025 ''0b00000010'')"
  have "case parseAndValidateTechProfileConfig ?ti of
      Done (Inr cfg) \<Rightarrow> mapGemPortParams cfg = [(1025, ?gem)] \<and> allocID (tcontParams cfg) = 1024 | _ \<Rightarrow> False"
    by code_simp
  then obtain cfg where cfg: "parseAndValidateTechProfileConfig ?ti = Done (Inr cfg)"
    "mapGemPortParams cfg = [(1025, ?gem)]" "allocID (tcontParams cfg) = 1024"
    by (auto simp: split: run.splits sum.splits)
  have "case AllocateFreeTcont 1024 sample_tables of
      Done (r, s) \<Rightarrow> r = Some (0x8001, False) \<and> PersTcontMap s = [(1024, 0x8001)] | _ \<Rightarrow> False"
    by code_simp
  then obtain sT where tc: "AllocateFreeTcont (allocID (tcontParams cfg)) sample_tables = Done (Some (0x8001, False), sT)"
    "PersTcontMap sT = [(1024, 0x8001)]" by (auto simp: run_case cfg)
  have "case gem_attribs ?env ((NewUniPonAniConfigFsm ?port 0 [] 0 None)\<lparr>af_tcont0ID := 0x8001\<rparr>, sample_tables) ?gem of
      Done p \<Rightarrow> (case prio_loop [p] (replicate 8 0) of Done arr \<Rightarrow> list_ex (\<lambda>v. v \<noteq> 0) arr | _ \<Rightarrow> False) | _ \<Rightarrow> False"
    by code_simp
  then obtain p arr where p: "gems_collected ?env ?port 0x8001 sample_tables (mapGemPortParams cfg) [p]"
    "prio_loop [p] (replicate 8 0) = Done arr" "\<exists>v \<in> set arr. v \<noteq> 0"
    by (auto simp: run_case cfg gems_collected_def list_ex_iff simp del: prio_loop.simps)
  have onu: "onu2g_flexibility ?env sample_tables 2"
    unfolding onu2g_flexibility_def
    by (intro exI [of _ 0] exI [of _ sample_common] exI [of _ "[(''QualityOfServiceQosConfigurationFlexibility'', AvUint16 2)]"]
          exI [of _ "AvUint16 2"]) code_simp
  have calm: "calm_ani ?env" by (simp add: calm_ani_def sample_ani_env_def)
  have t: "\<not> tp_locked sample_tables" "mapUniTpIndication sample_tables (0, 64) = None" "map_of (fsms sample_tables) (0, 64) = None"
    "tpProfileResetting sample_tables (0, 64) \<noteq> Some True" by code_simp+
  have ids: "(0, 64) = (UniID ?port, 64 :: u8)" "2 < length (split_on CHR ''/'' ''XGS-PON/64/olt'')" "''XGS-PON'' = split_on CHR ''/'' ''XGS-PON/64/olt'' ! 0"
    "GenerateIeeMaperServiceProfileEID (ucast (MacBpNo ?port)) (ucast (64 :: u8)) = Inr 0x10c1"
    "GenerateANISideMBPCDEID (ucast (MacBpNo ?port)) (ucast (64 :: u8)) = Inr 0x10c1"
    by code_simp+
  have "case GenerateANISideMBPCDPortNo (ucast (64 :: u8)) of Inr pno \<Rightarrow> True | Inl e \<Rightarrow> False" by code_simp
  then obtain pno where pno: "GenerateANISideMBPCDPortNo (ucast (64 :: u8)) = Inr pno" by (auto split: sum.splits)
  from profile_configured [OF calm t ids(1-3) cfg(1) ids(4,5) pno tc(1) p(1) onu p(2,3)] ids(1) tc(2) show ?thesis by auto
qed

end
