(* ===== verification/Uni_Lock.thy ===== *)
theory Uni_Lock
  imports Common_Utils Fsm
begin

text \<open>
  Locking and unlocking the UNI ports of an ONU (\<^verbatim>\<open>src/internal/pkg/uniprt/uniportadmin.go\<close>),
  the part of the device handler that creates and runs the two machines, and the query of the
  status of a port (\<^verbatim>\<open>uniportstatus.go\<close>).

  A machine sets the administrative state of the ONU and of its ports, the ONU last when it locks
  and first when it unlocks. Events raised by goroutines and the loop over the ports are tasks. A
  request may be refused by the channel; the wait of the loop for a response ends with a value
  on the channel, after the supervision time (possibly after the message loop has seen the
  time-out of the request itself), or with the deletion of the device.
\<close>

subsection \<open>The machines\<close>

datatype uni_event = UniEvStart | UniEvStartAdmin | UniEvRxUnisResp | UniEvRxOnugResp | UniEvTimeoutSimple
  | UniEvTimeoutUnis | UniEvReset | UniEvRestart | UniEvOmciTimeout

datatype uni_state = UniStDisabled | UniStStarting | UniStSettingUnis | UniStSettingOnuG | UniStAdminDone
  | UniStResetting | UniStOmciTimeout

definition uni_fsm_events :: "bool \<Rightarrow> (uni_event, uni_state) fsm_events" where
  "uni_fsm_events aAdminState =
    [(UniEvStart, [UniStDisabled], UniStStarting)] @
    (if aAdminState then
       [(UniEvStartAdmin, [UniStStarting], UniStSettingUnis),
        (UniEvRxUnisResp, [UniStSettingUnis], UniStSettingOnuG),
        (UniEvRxOnugResp, [UniStSettingOnuG], UniStAdminDone)]
     else
       [(UniEvStartAdmin, [UniStStarting], UniStSettingOnuG),
        (UniEvRxOnugResp, [UniStSettingOnuG], UniStSettingUnis),
        (UniEvRxUnisResp, [UniStSettingUnis], UniStAdminDone)]) @
    [(UniEvTimeoutSimple, [UniStSettingOnuG], UniStStarting),
     (UniEvTimeoutUnis, [UniStSettingUnis], UniStStarting),
     (UniEvReset, [UniStStarting, UniStSettingOnuG, UniStSettingUnis, UniStAdminDone], UniStResetting),
     (UniEvRestart, [UniStStarting, UniStSettingOnuG, UniStSettingUnis, UniStAdminDone, UniStResetting], UniStDisabled),
     (UniEvOmciTimeout, [UniStSettingOnuG, UniStSettingUnis], UniStOmciTimeout)]"

text \<open>The device events of the component, by their numbers.\<close>

type_synonym OnuDeviceEvent = int

definition UniLockStateDone :: OnuDeviceEvent where "UniLockStateDone = 4"
definition UniUnlockStateDone :: OnuDeviceEvent where "UniUnlockStateDone = 5"
definition UniDisableStateDone :: OnuDeviceEvent where "UniDisableStateDone = 6"
definition UniEnableStateDone :: OnuDeviceEvent where "UniEnableStateDone = 7"
definition UniEnableStateFailed :: OnuDeviceEvent where "UniEnableStateFailed = 8"

definition uni_OnuGClassID :: u16 where "uni_OnuGClassID = 256"
definition uni_PptpClassID :: u16 where "uni_PptpClassID = 11"
definition uni_VeipClassID :: u16 where "uni_VeipClassID = 329"

text \<open>A set request of an administrative state: class, instance, value.\<close>

datatype lock_effect =
    SetAdmin u16 u16 u8
  | ProcStatusUpdate OnuDeviceEvent
  | AbortMessages
  | InitializationFailedEvent bool
  | LockResponse

datatype lock_task = LEvent uni_event | LPortAdminSet

datatype send_outcome = SendOk | SendNil | SendErr

datatype lock_wait = LwResponse bool | LwTimeout bool | LwDeviceDone

record lock_env =
  lk_send :: "nat \<Rightarrow> send_outcome"
  lk_wait :: "nat \<Rightarrow> lock_wait"
  lk_ports :: "OnuUniPort list"
  lk_UniPortMask :: u64

record LockStateFsm =
  ls_fsm :: uni_state
  ls_adminState :: bool
  ls_requestEvent :: OnuDeviceEvent
  ls_pLastTxMeInstance :: "(u16 \<times> u16) option"
  ls_tasks :: "lock_task list"
  ls_out :: "lock_effect list"
  ls_sent :: nat
  ls_waited :: nat

definition NewLockStateFsm :: "bool \<Rightarrow> OnuDeviceEvent \<Rightarrow> LockStateFsm" where
  "NewLockStateFsm aAdminState aRequestEvent =
     \<lparr> ls_fsm = UniStDisabled, ls_adminState = aAdminState, ls_requestEvent = aRequestEvent,
       ls_pLastTxMeInstance = None, ls_tasks = [], ls_out = [], ls_sent = 0, ls_waited = 0 \<rparr>"

definition SetSuccessEvent :: "OnuDeviceEvent \<Rightarrow> LockStateFsm \<Rightarrow> LockStateFsm" where
  "SetSuccessEvent aEvent s = s\<lparr>ls_requestEvent := aEvent\<rparr>"

abbreviation ls_go :: "lock_task \<Rightarrow> LockStateFsm \<Rightarrow> LockStateFsm" where
  "ls_go t s \<equiv> s\<lparr>ls_tasks := ls_tasks s @ [t]\<rparr>"

abbreviation ls_emit :: "lock_effect \<Rightarrow> LockStateFsm \<Rightarrow> LockStateFsm" where
  "ls_emit e s \<equiv> s\<lparr>ls_out := ls_out s @ [e]\<rparr>"

definition omciAdminState :: "LockStateFsm \<Rightarrow> u8" where
  "omciAdminState s = (if ls_adminState s then 1 else 0)"

text \<open>Failures are reported for unlocking only.\<close>

definition note_failure :: "LockStateFsm \<Rightarrow> LockStateFsm" where
  "note_failure s = (if omciAdminState s = 0 then SetSuccessEvent UniEnableStateFailed s else s)"

text \<open>A set request; \<open>True\<close> when it is not sent. A refused request leaves the last instance.\<close>

definition send_admin :: "lock_env \<Rightarrow> u16 \<Rightarrow> u16 \<Rightarrow> LockStateFsm \<Rightarrow> bool \<times> LockStateFsm" where
  "send_admin env c i s =
     (let r = lk_send env (ls_sent s); s = s\<lparr>ls_sent := ls_sent s + 1\<rparr> in
      case r of
        SendErr \<Rightarrow> (True, note_failure s)
      | SendNil \<Rightarrow> (True, note_failure (s\<lparr>ls_pLastTxMeInstance := None\<rparr>))
      | SendOk \<Rightarrow> (False, ls_emit (SetAdmin c i (omciAdminState s)) (s\<lparr>ls_pLastTxMeInstance := Some (c, i)\<rparr>)))"

definition enterAdminStartingState :: "LockStateFsm \<Rightarrow> LockStateFsm" where
  "enterAdminStartingState s = ls_go (LEvent UniEvStartAdmin) s"

definition enterSettingOnuGState :: "lock_env \<Rightarrow> LockStateFsm \<Rightarrow> LockStateFsm" where
  "enterSettingOnuGState env s =
     (let (failed, s) = send_admin env uni_OnuGClassID 0 s in
      if failed then ls_go (LEvent UniEvReset) s else s)"

definition enterSettingUnisState :: "LockStateFsm \<Rightarrow> LockStateFsm" where
  "enterSettingUnisState s = ls_go LPortAdminSet s"

definition enterAdminDoneState :: "LockStateFsm \<Rightarrow> LockStateFsm" where
  "enterAdminDoneState s = ls_go (LEvent UniEvReset) (ls_emit (ProcStatusUpdate (ls_requestEvent s)) s)"

definition ls_enterResettingState :: "LockStateFsm \<Rightarrow> LockStateFsm" where
  "ls_enterResettingState s =
     (let s = (if ls_requestEvent s = UniEnableStateFailed then ls_emit (ProcStatusUpdate (ls_requestEvent s)) s else s);
          s = ls_go (LEvent UniEvRestart) (ls_emit AbortMessages s)
      in s\<lparr>ls_pLastTxMeInstance := None\<rparr>)"

definition enterOmciTimeoutState :: "LockStateFsm \<Rightarrow> LockStateFsm" where
  "enterOmciTimeoutState s = ls_emit (InitializationFailedEvent True) s"

definition lock_enter :: "lock_env \<Rightarrow> uni_state \<Rightarrow> LockStateFsm \<Rightarrow> LockStateFsm run" where
  "lock_enter env st s =
     Done (case st of
        UniStStarting \<Rightarrow> enterAdminStartingState s
      | UniStSettingOnuG \<Rightarrow> enterSettingOnuGState env s
      | UniStSettingUnis \<Rightarrow> enterSettingUnisState s
      | UniStAdminDone \<Rightarrow> enterAdminDoneState s
      | UniStResetting \<Rightarrow> ls_enterResettingState s
      | UniStOmciTimeout \<Rightarrow> enterOmciTimeoutState s
      | UniStDisabled \<Rightarrow> s)"

definition lock_fire :: "lock_env \<Rightarrow> uni_event \<Rightarrow> LockStateFsm \<Rightarrow> (fsm_error option \<times> LockStateFsm) run" where
  "lock_fire env ev s =
     fsm_event (uni_fsm_events (ls_adminState s)) ls_fsm (\<lambda>st s. s\<lparr>ls_fsm := st\<rparr>) (lock_enter env) ev s"

definition lock_event_ignored :: "lock_env \<Rightarrow> uni_event \<Rightarrow> LockStateFsm \<Rightarrow> LockStateFsm run" where
  "lock_event_ignored env ev s = bind_run (lock_fire env ev s) (\<lambda>(e, s). Done s)"

subsection \<open>The loop over the ports\<close>

text \<open>\<open>True\<close> when the wait failed.\<close>

definition ls_waitforOmciResponse :: "lock_env \<Rightarrow> LockStateFsm \<Rightarrow> (bool \<times> LockStateFsm) run" where
  "ls_waitforOmciResponse env s =
     (let w = lk_wait env (ls_waited s); s = s\<lparr>ls_waited := ls_waited s + 1\<rparr> in
      case w of
        LwResponse ok \<Rightarrow> Done (\<not> ok, if ok then s else ls_emit (InitializationFailedEvent False) s)
      | LwTimeout reported \<Rightarrow>
          if reported then bind_run (lock_event_ignored env UniEvOmciTimeout s) (\<lambda>s. Done (True, s)) else Done (True, s)
      | LwDeviceDone \<Rightarrow> Done (True, s))"

text \<open>The ports that take part: all when locking, those of the mask when unlocking. \<^verbatim>\<open>1<<uniPort.UniID\<close>
  is an \<^verbatim>\<open>int\<close>.\<close>

definition port_selected :: "lock_env \<Rightarrow> u8 \<Rightarrow> OnuUniPort \<Rightarrow> bool" where
  "port_selected env adm p \<longleftrightarrow>
     adm = 1 \<or> and (push_bit (unat (UniID p)) 1) (lk_UniPortMask env) = (push_bit (unat (UniID p)) 1 :: u64)"

fun port_class :: "UniPortType \<Rightarrow> u16 option" where
  "port_class UniPPTP = Some uni_PptpClassID"
| "port_class UniVEIP = Some uni_VeipClassID"
| "port_class UniPPTPPots = None"

fun port_loop :: "lock_env \<Rightarrow> OnuUniPort list \<Rightarrow> LockStateFsm \<Rightarrow> LockStateFsm run" where
  "port_loop env [] s = lock_event_ignored env UniEvRxUnisResp s"
| "port_loop env (p # ps) s =
     (if \<not> port_selected env (omciAdminState s) p then port_loop env ps s
      else case port_class (PortType p) of
        None \<Rightarrow> port_loop env ps s
      | Some c \<Rightarrow>
          let (failed, s) = send_admin env c (EntityID p) s in
          if failed then lock_event_ignored env UniEvReset s
          else bind_run (ls_waitforOmciResponse env s) (\<lambda>(failed, s).
            if failed then lock_event_ignored env UniEvReset (note_failure s) else port_loop env ps s))"

definition performUniPortAdminSet :: "lock_env \<Rightarrow> LockStateFsm \<Rightarrow> LockStateFsm run" where
  "performUniPortAdminSet env s = port_loop env (lk_ports env) s"

definition run_lock_task :: "lock_env \<Rightarrow> nat \<Rightarrow> LockStateFsm \<Rightarrow> LockStateFsm run" where
  "run_lock_task env i s =
     (if length (ls_tasks s) \<le> i then Done s
      else
        let t = ls_tasks s ! i; s = s\<lparr>ls_tasks := take i (ls_tasks s) @ drop (Suc i) (ls_tasks s)\<rparr> in
        case t of LEvent ev \<Rightarrow> lock_event_ignored env ev s | LPortAdminSet \<Rightarrow> performUniPortAdminSet env s)"

subsection \<open>Messages\<close>

definition handleOmciLockStateMessage :: "lock_env \<Rightarrow> omci_response \<Rightarrow> LockStateFsm \<Rightarrow> LockStateFsm run" where
  "handleOmciLockStateMessage env m s =
     (if rs_type m \<noteq> SetResponse \<or> \<not> rs_layer m \<or> rs_result m \<noteq> me_Success then Done s
      else if ls_pLastTxMeInstance s = Some (rs_class m, rs_instance m) then
        (if rs_class m = uni_OnuGClassID then lock_event_ignored env UniEvRxOnugResp s
         else if rs_class m = uni_PptpClassID \<or> rs_class m = uni_VeipClassID then Done (ls_emit LockResponse s)
         else Done s)
      else Done s)"

datatype lock_message = LockOmci omci_response | LockAbort | LockTimeOutOccurred | LockOther | LockChannelClosed

fun processOmciLockMessages :: "lock_env \<Rightarrow> lock_message list \<Rightarrow> LockStateFsm \<Rightarrow> LockStateFsm run" where
  "processOmciLockMessages env [] s = Done s"
| "processOmciLockMessages env (m # ms) s =
     (case m of
        LockOmci r \<Rightarrow> bind_run (handleOmciLockStateMessage env r s) (processOmciLockMessages env ms)
      | LockAbort \<Rightarrow> Done s
      | LockTimeOutOccurred \<Rightarrow> lock_event_ignored env UniEvOmciTimeout s
      | LockOther \<Rightarrow> processOmciLockMessages env ms s
      | LockChannelClosed \<Rightarrow> lock_event_ignored env UniEvRestart s)"

datatype lock_op = LsTask nat | LsMessages "lock_message list" | LsEvent uni_event | LsSuccessEvent OnuDeviceEvent

fun lock_step :: "lock_env \<times> lock_op \<Rightarrow> LockStateFsm \<Rightarrow> LockStateFsm run" where
  "lock_step (env, LsTask i) s = run_lock_task env i s"
| "lock_step (env, LsMessages ms) s = processOmciLockMessages env ms s"
| "lock_step (env, LsEvent ev) s = lock_event_ignored env ev s"
| "lock_step (env, LsSuccessEvent ev) s = Done (SetSuccessEvent ev s)"

subsection \<open>The device handler\<close>

record lock_fsms =
  pLockStateFsm :: "LockStateFsm option"
  pUnlockStateFsm :: "LockStateFsm option"

text \<open>The machine of the other direction is reset, then the requested one starts if it is
  disabled. A missing machine is a nil pointer.\<close>

definition reset_running :: "lock_env \<Rightarrow> LockStateFsm option \<Rightarrow> LockStateFsm option run" where
  "reset_running env m =
     (case m of None \<Rightarrow> Done None
      | Some s \<Rightarrow> if ls_fsm s = UniStDisabled then Done (Some s)
                  else bind_run (lock_event_ignored env UniEvReset s) (\<lambda>s. Done (Some s)))"

definition start_if_disabled :: "lock_env \<Rightarrow> LockStateFsm \<Rightarrow> LockStateFsm run" where
  "start_if_disabled env s = (if ls_fsm s = UniStDisabled then lock_event_ignored env UniEvStart s else Done s)"

definition runUniLockFsm :: "lock_env \<Rightarrow> bool \<Rightarrow> lock_fsms \<Rightarrow> lock_fsms run" where
  "runUniLockFsm env aAdminState dh =
     (if aAdminState then
        case pLockStateFsm dh of
          None \<Rightarrow> Fatal ''invalid memory address or nil pointer dereference''
        | Some s \<Rightarrow>
            bind_run (reset_running env (pUnlockStateFsm dh)) (\<lambda>u.
            bind_run (start_if_disabled env s) (\<lambda>s. Done (dh\<lparr>pLockStateFsm := Some s, pUnlockStateFsm := u\<rparr>)))
      else
        case pUnlockStateFsm dh of
          None \<Rightarrow> Fatal ''invalid memory address or nil pointer dereference''
        | Some s \<Rightarrow>
            bind_run (reset_running env (pLockStateFsm dh)) (\<lambda>l.
            bind_run (start_if_disabled env s) (\<lambda>s. Done (dh\<lparr>pLockStateFsm := l, pUnlockStateFsm := Some s\<rparr>))))"

definition createUniLockFsm :: "lock_env \<Rightarrow> bool \<Rightarrow> bool \<Rightarrow> OnuDeviceEvent \<Rightarrow> lock_fsms \<Rightarrow> lock_fsms run" where
  "createUniLockFsm env hasDevEntry aAdminState devEvent dh =
     (if \<not> hasDevEntry then Done dh
      else let s = NewLockStateFsm aAdminState devEvent in
        runUniLockFsm env aAdminState
          (if aAdminState then dh\<lparr>pLockStateFsm := Some s\<rparr> else dh\<lparr>pUnlockStateFsm := Some s\<rparr>))"

subsection \<open>The status of a port\<close>

datatype uni_info_state = StateUndefined | StateZero | StateOne

text \<open>The two state fields of the answer: \<open>StateZero\<close> is enabled or unlocked, \<open>StateOne\<close> disabled
  or locked.\<close>

datatype uni_error = INTERNAL_ERROR | TIMEOUT | INVALID_PORT_TYPE

record uni_info =
  ui_OperState :: uni_info_state
  ui_AdmState :: uni_info_state
  ui_ConfigInd :: u8

text \<open>The attributes of a get response by name; the values of the three are octets.\<close>

type_synonym uni_attributes = "(string \<times> u8) list"

definition octet_state :: "u8 \<Rightarrow> uni_info_state" where
  "octet_state v = (if v = 0 then StateZero else if v = 1 then StateOne else StateUndefined)"

text \<open>The numbers of the enumeration of the answer; values without an entry become 0.\<close>

definition configIndMap :: "u8 \<Rightarrow> u8" where
  "configIndMap v =
     (case map_of [(0, 0), (1, 1), (2, 2), (3, 3), (4, 4), (17, 5), (18, 6), (19, 7)] v of Some c \<Rightarrow> c | None \<Rightarrow> 0)"

record get_response =
  gr_isGetResponse :: bool
  gr_layer :: bool
  gr_result :: u8
  gr_attributes :: uni_attributes

definition processGetUnitStatusResp :: "get_response \<Rightarrow> uni_error + uni_info" where
  "processGetUnitStatusResp msg =
     (if \<not> gr_isGetResponse msg \<or> \<not> gr_layer msg \<or> gr_result msg \<noteq> me_Success then Inl INTERNAL_ERROR
      else
        let at = map_of (gr_attributes msg);
            oper = (case at ''OperationalState'' of Some v \<Rightarrow> octet_state v | None \<Rightarrow> StateUndefined)
        in case at ''OperationalState'' of
             None \<Rightarrow> Inl INTERNAL_ERROR
           | Some adm \<Rightarrow>
               (case at ''ConfigurationInd'' of
                  None \<Rightarrow> Inl INTERNAL_ERROR
                | Some v \<Rightarrow> Inr \<lparr> ui_OperState = oper, ui_AdmState = octet_state adm, ui_ConfigInd = configIndMap v \<rparr>))"

datatype status_wait = SwDone | SwTimeout | SwOther | SwOmci get_response

definition waitforGetUniPortStatus :: "status_wait \<Rightarrow> uni_error + uni_info" where
  "waitforGetUniPortStatus w =
     (case w of SwDone \<Rightarrow> Inl INTERNAL_ERROR | SwTimeout \<Rightarrow> Inl TIMEOUT | SwOther \<Rightarrow> Inl INTERNAL_ERROR
      | SwOmci msg \<Rightarrow> processGetUnitStatusResp msg)"

text \<open>The ports in the order they are visited; the outcome of the request and of the wait.\<close>

fun GetUniPortStatus ::
    "(nat \<Rightarrow> send_outcome) \<Rightarrow> status_wait \<Rightarrow> u32 \<Rightarrow> nat \<Rightarrow> OnuUniPort list \<Rightarrow> uni_error + uni_info" where
  "GetUniPortStatus send w uniIdx n [] = Inl INVALID_PORT_TYPE"
| "GetUniPortStatus send w uniIdx n (p # ps) =
     (if UniID p = ucast uniIdx \<and> PortType p = UniPPTP then
        (case send n of SendErr \<Rightarrow> Inl INTERNAL_ERROR | SendOk \<Rightarrow> waitforGetUniPortStatus w
         | SendNil \<Rightarrow> GetUniPortStatus send w uniIdx (n + 1) ps)
      else GetUniPortStatus send w uniIdx n ps)"

end
