(* ===== verification/Uni_Props.thy ===== *)
theory Uni_Props
  imports Uni_Lock
begin

text \<open>
  What the lock and unlock machines achieve (\<^verbatim>\<open>uniportadmin.go\<close>): seen from the ONU, a run of a
  machine is one assignment of the administrative state to the ONU and to the selected ports; where
  a run ends, for every refused request, every wait for a port and every outcome of the request for
  the ONU itself: only a rejection of that request, or a reported time-out, leaves the machine
  waiting; after a reported time-out no event leads away; and what the status query reports of a port
  (\<^verbatim>\<open>uniportstatus.go\<close>).
\<close>

subsection \<open>Single events\<close>

lemmas uni_table = fsm_transition_def fsm_matches_def uni_fsm_events_def Let_def
lemmas lock_eval = lock_event_ignored_def lock_fire_def fsm_event_def lock_enter_def

lemma lock_event_to:
  "fsm_transition (uni_fsm_events (ls_adminState s)) ev (ls_fsm s) = Some st \<Longrightarrow> st \<noteq> ls_fsm s \<Longrightarrow>
   lock_event_ignored env ev s = lock_enter env st (s\<lparr>ls_fsm := st\<rparr>)"
  by (simp add: lock_event_ignored_def lock_fire_def fsm_event_def lock_enter_def)

lemma lock_event_Done: "\<exists>s'. lock_event_ignored env ev s = Done s'"
  by (simp add: lock_eval split: option.splits)

lemma uni_transitions [simp]:
  "fsm_transition (uni_fsm_events b) UniEvStart UniStDisabled = Some UniStStarting"
  "fsm_transition (uni_fsm_events b) UniEvStartAdmin UniStStarting = Some (if b then UniStSettingUnis else UniStSettingOnuG)"
  "fsm_transition (uni_fsm_events b) UniEvRxUnisResp UniStSettingUnis = Some (if b then UniStSettingOnuG else UniStAdminDone)"
  "fsm_transition (uni_fsm_events b) UniEvRxOnugResp UniStSettingOnuG = Some (if b then UniStAdminDone else UniStSettingUnis)"
  "fsm_transition (uni_fsm_events b) UniEvReset UniStSettingUnis = Some UniStResetting"
  "fsm_transition (uni_fsm_events b) UniEvReset UniStSettingOnuG = Some UniStResetting"
  "fsm_transition (uni_fsm_events b) UniEvReset UniStAdminDone = Some UniStResetting"
  "fsm_transition (uni_fsm_events b) UniEvRestart UniStResetting = Some UniStDisabled"
  "fsm_transition (uni_fsm_events b) UniEvOmciTimeout UniStSettingOnuG = Some UniStOmciTimeout"
  "fsm_transition (uni_fsm_events b) UniEvOmciTimeout UniStSettingUnis = Some UniStOmciTimeout"
  by (simp_all add: uni_table)

lemma no_way_out: "fsm_transition (uni_fsm_events b) ev UniStOmciTimeout = None"
  by (cases ev; cases b) (simp_all add: uni_table)

lemma run_first_lock_task:
  "ls_tasks s = t # ts \<Longrightarrow> lock_step (env, LsTask 0) s =
     (case t of LEvent ev \<Rightarrow> lock_event_ignored env ev (s\<lparr>ls_tasks := ts\<rparr>)
      | LPortAdminSet \<Rightarrow> performUniPortAdminSet env (s\<lparr>ls_tasks := ts\<rparr>))"
  by (simp add: run_lock_task_def Let_def)

definition onug_ok :: omci_response where
  "onug_ok = \<lparr> rs_type = SetResponse, rs_layer = True, rs_class = uni_OnuGClassID, rs_instance = 0, rs_result = 0 \<rparr>"

lemma onug_answer:
  "ls_pLastTxMeInstance s = Some (uni_OnuGClassID, 0) \<Longrightarrow>
   lock_step (env, LsMessages [LockOmci onug_ok]) s = lock_event_ignored env UniEvRxOnugResp s"
  using lock_event_Done [of env UniEvRxOnugResp s]
  by (auto simp: handleOmciLockStateMessage_def onug_ok_def me_Success_def)

subsection \<open>The administrative states of the ONU\<close>

fun apply_admin :: "lock_effect \<Rightarrow> (u16 \<times> u16 \<Rightarrow> u8) \<Rightarrow> (u16 \<times> u16 \<Rightarrow> u8)" where
  "apply_admin (SetAdmin c i v) adm = adm((c, i) := v)"
| "apply_admin e adm = adm"

text \<open>The specification: the ONU and the selected ports of a supported type get the state.\<close>

definition port_me :: "lock_env \<Rightarrow> u8 \<Rightarrow> OnuUniPort \<Rightarrow> (u16 \<times> u16) option" where
  "port_me env v p =
     (if port_selected env v p then map_option (\<lambda>c. (c, EntityID p)) (port_class (PortType p)) else None)"

definition admin_spec :: "lock_env \<Rightarrow> bool \<Rightarrow> (u16 \<times> u16 \<Rightarrow> u8) \<Rightarrow> (u16 \<times> u16 \<Rightarrow> u8)" where
  "admin_spec env lock adm = (\<lambda>m.
     let v = (if lock then 1 else 0) in
     if m = (uni_OnuGClassID, 0) \<or> Some m \<in> port_me env v ` set (lk_ports env) then v else adm m)"

definition port_requests :: "lock_env \<Rightarrow> u8 \<Rightarrow> OnuUniPort list \<Rightarrow> lock_effect list" where
  "port_requests env v ps =
     concat (map (\<lambda>p. case port_me env v p of Some (c, i) \<Rightarrow> [SetAdmin c i v] | None \<Rightarrow> []) ps)"

lemma apply_port_requests:
  "fold apply_admin (port_requests env v ps) adm = (\<lambda>m. if Some m \<in> port_me env v ` set ps then v else adm m)"
proof (induction ps arbitrary: adm)
  case (Cons p ps)
  then show ?case
    by (cases "port_me env v p") (auto simp: port_requests_def fun_eq_iff split: prod.splits)
qed (simp add: port_requests_def)

definition status_updates :: "lock_effect list \<Rightarrow> OnuDeviceEvent list" where
  "status_updates es = concat (map (\<lambda>e. case e of ProcStatusUpdate ev \<Rightarrow> [ev] | _ \<Rightarrow> []) es)"

lemma status_updates_append [simp]: "status_updates (es @ fs) = status_updates es @ status_updates fs"
  by (simp add: status_updates_def)

lemma status_updates_one [simp]:
  "status_updates [] = []" "status_updates (ProcStatusUpdate ev # es) = ev # status_updates es"
  "status_updates (SetAdmin c i v # es) = status_updates es" "status_updates (AbortMessages # es) = status_updates es"
  "status_updates (InitializationFailedEvent b # es) = status_updates es" "status_updates (LockResponse # es) = status_updates es"
  by (simp_all add: status_updates_def)

lemma status_port_requests [simp]: "status_updates (port_requests env v ps) = []"
  by (induction ps) (auto simp: port_requests_def split: option.splits)

definition calm_lock :: "lock_env \<Rightarrow> bool" where
  "calm_lock env \<longleftrightarrow> (\<forall>n. lk_send env n = SendOk \<and> lk_wait env n = LwResponse True)"

text \<open>A state by its components.\<close>

abbreviation lock_state ::
    "uni_state \<Rightarrow> bool \<Rightarrow> OnuDeviceEvent \<Rightarrow> (u16 \<times> u16) option \<Rightarrow> lock_task list \<Rightarrow> lock_effect list \<Rightarrow> nat \<Rightarrow> nat \<Rightarrow> LockStateFsm" where
  "lock_state st b ev l ts out n m \<equiv>
     \<lparr> ls_fsm = st, ls_adminState = b, ls_requestEvent = ev, ls_pLastTxMeInstance = l, ls_tasks = ts, ls_out = out,
       ls_sent = n, ls_waited = m \<rparr>"

lemma omciAdminState_state [simp]: "omciAdminState (lock_state st b ev l ts out n m) = (if b then 1 else 0)"
  by (simp add: omciAdminState_def)

lemma port_loop_calm:
  assumes "calm_lock env"
  shows "\<exists>l' n' m'. port_loop env ps (lock_state st b ev l ts out n m) = lock_event_ignored env UniEvRxUnisResp
     (lock_state st b ev l' ts (out @ port_requests env (if b then 1 else 0) ps) n' m')"
proof (induction ps arbitrary: l out n m)
  case Nil
  show ?case by (auto simp: port_requests_def)
next
  case (Cons p ps)
  let ?v = "if b then 1 else 0 :: u8"
  show ?case
  proof (cases "port_me env ?v p")
    case None
    then have "port_loop env (p # ps) (lock_state st b ev l ts out n m) = port_loop env ps (lock_state st b ev l ts out n m)"
      "port_requests env ?v (p # ps) = port_requests env ?v ps"
      by (auto simp: port_me_def port_requests_def split: if_splits option.splits)
    then show ?thesis using Cons.IH [of l out n m] by simp
  next
    case (Some ci)
    then obtain c where c: "port_class (PortType p) = Some c" "ci = (c, EntityID p)" "port_selected env ?v p"
      by (auto simp: port_me_def split: if_splits)
    have "port_loop env (p # ps) (lock_state st b ev l ts out n m) =
        port_loop env ps (lock_state st b ev (Some ci) ts (out @ [SetAdmin c (EntityID p) ?v]) (Suc n) (Suc m))"
      using assms c by (simp add: calm_lock_def send_admin_def ls_waitforOmciResponse_def Let_def)
    moreover have "port_requests env ?v (p # ps) = SetAdmin c (EntityID p) ?v # port_requests env ?v ps"
      using c Some by (simp add: port_requests_def)
    ultimately show ?thesis using Cons.IH [of "Some ci" "out @ [SetAdmin c (EntityID p) ?v]" "Suc n" "Suc m"] by simp
  qed
qed

text \<open>The order of the steps of a run in which every request is answered.\<close>

definition lock_ops :: "bool \<Rightarrow> lock_op list" where
  "lock_ops lock =
     LsEvent UniEvStart # LsTask 0 #
     (if lock then [LsTask 0, LsMessages [LockOmci onug_ok]] else [LsMessages [LockOmci onug_ok], LsTask 0]) @
     [LsTask 0, LsTask 0]"

lemma calm_send:
  "calm_lock env \<Longrightarrow> enterSettingOnuGState env (lock_state st b ev l ts out n m) =
     lock_state st b ev (Some (uni_OnuGClassID, 0)) ts (out @ [SetAdmin uni_OnuGClassID 0 (if b then 1 else 0)]) (Suc n) m"
  by (simp add: enterSettingOnuGState_def send_admin_def calm_lock_def Let_def)

lemmas lock_run_simps = run_lock_task_def performUniPortAdminSet_def lock_event_to lock_enter_def enterAdminStartingState_def
  enterSettingUnisState_def calm_send enterAdminDoneState_def ls_enterResettingState_def handleOmciLockStateMessage_def
  onug_ok_def me_Success_def

text \<open>C35: A run of the lock or the unlock machine refines one assignment: when every request is
  answered, the steps of the machine bring it back to its disabled state, the requests it has
  sent, applied to the administrative states of the ONU in their order, give the state asked for
  to the ONU and to exactly the selected ports and change no other, whatever the order in which
  the ports are visited, and the device handler is notified once, with the event of the request.\<close>

theorem lock_refines_assignment:
  assumes env: "calm_lock env" and s: "ls_fsm s = UniStDisabled" "ls_tasks s = []" "ls_requestEvent s \<noteq> UniEnableStateFailed"
  shows "\<exists>s' out. run_steps lock_step (map (Pair env) (lock_ops (ls_adminState s))) s = Done s' \<and>
     ls_fsm s' = UniStDisabled \<and> ls_tasks s' = [] \<and> ls_out s' = ls_out s @ out \<and>
     fold apply_admin out adm = admin_spec env (ls_adminState s) adm \<and> status_updates out = [ls_requestEvent s]"
proof -
  obtain b ev l out0 n m where st: "s = lock_state UniStDisabled b ev l [] out0 n m"
    using s(1,2) by (cases s) auto
  let ?v = "if b then 1 else 0 :: u8"
  let ?ports = "port_requests env ?v (lk_ports env)"
  let ?onu = "[SetAdmin uni_OnuGClassID 0 ?v]"
  let ?out = "(if b then ?ports @ ?onu else ?onu @ ?ports) @ [ProcStatusUpdate ev, AbortMessages]"
  have ev: "ev \<noteq> UniEnableStateFailed" using s(3) st by simp
  have run: "\<exists>n' m'. run_steps lock_step (map (Pair env) (lock_ops b)) s = Done (lock_state UniStDisabled b ev None [] (out0 @ ?out) n' m')"
  proof (cases b)
    case True
    obtain l' n' m' where "port_loop env (lk_ports env) (lock_state UniStSettingUnis b ev l [] out0 n m) =
        lock_event_ignored env UniEvRxUnisResp (lock_state UniStSettingUnis b ev l' [] (out0 @ ?ports) n' m')"
      using port_loop_calm [OF env] by blast
    then show ?thesis using True ev env by (simp add: st lock_ops_def lock_run_simps)
  next
    case False
    obtain l' n' m' where "port_loop env (lk_ports env)
        (lock_state UniStSettingUnis b ev (Some (uni_OnuGClassID, 0)) [] (out0 @ ?onu) (Suc n) m) =
        lock_event_ignored env UniEvRxUnisResp (lock_state UniStSettingUnis b ev l' [] ((out0 @ ?onu) @ ?ports) n' m')"
      using port_loop_calm [OF env] by blast
    then show ?thesis using False ev env by (simp add: st lock_ops_def lock_run_simps)
  qed
  moreover have "fold apply_admin ?out adm = admin_spec env b adm"
    by (auto simp: apply_port_requests admin_spec_def fun_eq_iff)
  moreover have "status_updates ?out = [ev]" by simp
  ultimately show ?thesis by (auto simp: st)
qed

definition sample_lock_env :: lock_env where
  "sample_lock_env = \<lparr> lk_send = (\<lambda>_. SendOk), lk_wait = (\<lambda>_. LwResponse True),
     lk_ports = [NewOnuUniPort 0 256 257 UniPPTP, NewOnuUniPort 1 272 258 UniPPTP, NewOnuUniPort 2 288 2561 UniVEIP],
     lk_UniPortMask = 5 \<rparr>"

theorem lock_refines_assignment_witness:
  "\<exists>s' out. run_steps lock_step (map (Pair sample_lock_env) (lock_ops False)) (NewLockStateFsm False UniEnableStateDone) = Done s' \<and>
     ls_fsm s' = UniStDisabled \<and> ls_out s' = out \<and>
     fold apply_admin out (\<lambda>_. 1) (uni_PptpClassID, 257) = 0 \<and> fold apply_admin out (\<lambda>_. 1) (uni_PptpClassID, 258) = 1 \<and>
     status_updates out = [UniEnableStateDone]"
proof -
  let ?s = "NewLockStateFsm False UniEnableStateDone"
  have h: "calm_lock sample_lock_env" "ls_fsm ?s = UniStDisabled" "ls_tasks ?s = []" "ls_requestEvent ?s \<noteq> UniEnableStateFailed"
    "ls_adminState ?s = False" "ls_out ?s = []" "ls_requestEvent ?s = UniEnableStateDone"
    by (simp_all add: calm_lock_def sample_lock_env_def NewLockStateFsm_def UniEnableStateFailed_def UniEnableStateDone_def)
  have "admin_spec sample_lock_env False (\<lambda>_. 1) (uni_PptpClassID, 257) = 0"
    "admin_spec sample_lock_env False (\<lambda>_. 1) (uni_PptpClassID, 258) = 1"
    by code_simp+
  with lock_refines_assignment [OF h(1-4), of "\<lambda>_. 1"] show ?thesis by (auto simp: h(5-7))
qed

subsection \<open>Every run ends\<close>

definition onu_asked :: "lock_effect list \<Rightarrow> bool" where
  "onu_asked es \<longleftrightarrow> (\<exists>v. SetAdmin uni_OnuGClassID 0 v \<in> set es)"

lemma onu_asked_simps [simp]:
  "\<not> onu_asked []" "onu_asked (es @ fs) \<longleftrightarrow> onu_asked es \<or> onu_asked fs"
  "onu_asked (SetAdmin c i v # es) \<longleftrightarrow> c = uni_OnuGClassID \<and> i = 0 \<or> onu_asked es"
  "onu_asked (ProcStatusUpdate ev # es) \<longleftrightarrow> onu_asked es" "onu_asked (AbortMessages # es) \<longleftrightarrow> onu_asked es"
  "onu_asked (InitializationFailedEvent b # es) \<longleftrightarrow> onu_asked es"
  by (auto simp: onu_asked_def)

lemma port_class_onug [simp]: "port_class t = Some c \<Longrightarrow> c \<noteq> uni_OnuGClassID"
  by (cases t) (auto simp: uni_OnuGClassID_def uni_PptpClassID_def uni_VeipClassID_def)

lemma port_loop_ends:
  assumes "\<forall>k. lk_wait env k \<noteq> LwTimeout True"
  shows "\<exists>l' es n' m'. status_updates es = [] \<and> \<not> onu_asked es \<and>
     (port_loop env ps (lock_state st b ev l ts out n m) =
        lock_event_ignored env UniEvRxUnisResp (lock_state st b ev l' ts (out @ es) n' m') \<or>
      port_loop env ps (lock_state st b ev l ts out n m) =
        lock_event_ignored env UniEvReset (lock_state st b (if b then ev else UniEnableStateFailed) l' ts (out @ es) n' m'))"
  (is "\<exists>l' es n' m'. ?P ps l out n m l' es n' m'")
proof (induction ps arbitrary: l out n m)
  case Nil
  have "?P [] l out n m l [] n m" by simp
  then show ?case by blast
next
  case (Cons p ps)
  let ?v = "if b then 1 else 0 :: u8"
  show ?case
  proof (cases "port_me env ?v p")
    case None
    then have "port_loop env (p # ps) (lock_state st b ev l ts out n m) = port_loop env ps (lock_state st b ev l ts out n m)"
      by (auto simp: port_me_def split: if_splits option.splits)
    then show ?thesis using Cons.IH [of l out n m] by simp
  next
    case (Some ci)
    then obtain c where c: "port_class (PortType p) = Some c" "ci = (c, EntityID p)" "port_selected env ?v p"
      by (auto simp: port_me_def split: if_splits)
    let ?es = "[SetAdmin c (EntityID p) ?v]"
    note loop = c port_class_onug [OF c(1)] send_admin_def ls_waitforOmciResponse_def Let_def note_failure_def SetSuccessEvent_def
    consider "lk_send env n = SendErr" | "lk_send env n = SendNil" | "lk_send env n = SendOk" "lk_wait env m = LwResponse True"
      | "lk_send env n = SendOk" "lk_wait env m = LwResponse False" | "lk_send env n = SendOk" "lk_wait env m = LwTimeout False"
      | "lk_send env n = SendOk" "lk_wait env m = LwDeviceDone"
      using assms by (metis (full_types) lock_wait.exhaust send_outcome.exhaust)
    then show ?thesis
    proof cases
      case 1
      then have "?P (p # ps) l out n m l [] (Suc n) m" by (simp add: loop)
      then show ?thesis by blast
    next
      case 2
      then have "?P (p # ps) l out n m None [] (Suc n) m" by (simp add: loop)
      then show ?thesis by blast
    next
      case 3
      then have "port_loop env (p # ps) (lock_state st b ev l ts out n m) =
          port_loop env ps (lock_state st b ev (Some ci) ts (out @ ?es) (Suc n) (Suc m))" by (simp add: loop)
      moreover obtain l' es n' m' where "?P ps (Some ci) (out @ ?es) (Suc n) (Suc m) l' es n' m'" using Cons.IH by blast
      ultimately have "?P (p # ps) l out n m l' (?es @ es) n' m'"
        using port_class_onug [OF c(1)] by simp
      then show ?thesis by blast
    next
      case 4
      then have "?P (p # ps) l out n m (Some ci) (?es @ [InitializationFailedEvent False]) (Suc n) (Suc m)" by (simp add: loop)
      then show ?thesis by blast
    next
      case 5
      then have "?P (p # ps) l out n m (Some ci) ?es (Suc n) (Suc m)" by (simp add: loop)
      then show ?thesis by blast
    next
      case 6
      then have "?P (p # ps) l out n m (Some ci) ?es (Suc n) (Suc m)" by (simp add: loop)
      then show ?thesis by blast
    qed
  qed
qed

text \<open>What becomes of the request for the ONU itself: the ONU answers it with a result, or the
  channel reports that it has timed out.\<close>

datatype onug_outcome = OnugAnswers u8 | OnugTimesOut

definition onug_message :: "onug_outcome \<Rightarrow> lock_message" where
  "onug_message a = (case a of OnugAnswers r \<Rightarrow> LockOmci (onug_ok\<lparr>rs_result := r\<rparr>) | OnugTimesOut \<Rightarrow> LockTimeOutOccurred)"

text \<open>The next step of a machine that is left alone: its oldest goroutine, or what the channel
  delivers when it waits.\<close>

definition drive_op :: "onug_outcome \<Rightarrow> LockStateFsm \<Rightarrow> lock_op" where
  "drive_op a s = (if ls_tasks s = [] then LsMessages [onug_message a] else LsTask 0)"

primrec drive :: "nat \<Rightarrow> lock_env \<Rightarrow> onug_outcome \<Rightarrow> LockStateFsm \<Rightarrow> LockStateFsm run" where
  "drive 0 env a s = Done s"
| "drive (Suc n) env a s =
     (if ls_fsm s = UniStDisabled then Done s else bind_run (lock_step (env, drive_op a s) s) (drive n env a))"

lemma drive_disabled: "ls_fsm s = UniStDisabled \<Longrightarrow> drive n env a s = Done s"
  by (cases n) simp_all

lemma drive_task:
  "drive (Suc n) env a (lock_state st b ev l [LEvent e] out k m) =
     (if st = UniStDisabled then Done (lock_state st b ev l [LEvent e] out k m)
      else bind_run (lock_event_ignored env e (lock_state st b ev l [] out k m)) (drive n env a))"
  by (simp add: drive_op_def run_lock_task_def)

lemma drive_reset:
  "st \<in> {UniStSettingUnis, UniStSettingOnuG, UniStAdminDone} \<Longrightarrow>
   bind_run (lock_event_ignored env UniEvReset (lock_state st b ev l [] out k m)) (drive (Suc n) env a) =
   Done (lock_state UniStDisabled b ev None []
     (out @ (if ev = UniEnableStateFailed then [ProcStatusUpdate ev] else []) @ [AbortMessages]) k m)"
  by (auto simp: lock_event_to lock_enter_def ls_enterResettingState_def drive_task drive_disabled simp del: drive.simps)

lemma drive_admin_done:
  assumes "ev \<noteq> UniEnableStateFailed"
  shows "drive (Suc (Suc n)) env a (lock_state UniStAdminDone b ev l [LEvent UniEvReset] out k m) =
    Done (lock_state UniStDisabled b ev None [] (out @ [AbortMessages]) k m)"
  using assms by (simp add: drive_task drive_reset del: drive.simps)

text \<open>Setting the ONU itself, which comes last when locking and first when unlocking.\<close>

lemma onug_cases:
  obtains (sent) "enterSettingOnuGState env (lock_state st b ev l [] out k m) =
      lock_state st b ev (Some (uni_OnuGClassID, 0)) [] (out @ [SetAdmin uni_OnuGClassID 0 (if b then 1 else 0)]) (Suc k) m"
  | (refused) l' where "enterSettingOnuGState env (lock_state st b ev l [] out k m) =
      lock_state st b (if b then ev else UniEnableStateFailed) l' [LEvent UniEvReset] out (Suc k) m"
  by (cases "lk_send env k")
    (auto simp: enterSettingOnuGState_def send_admin_def Let_def note_failure_def SetSuccessEvent_def)

lemma drive_answer:
  "st \<noteq> UniStDisabled \<Longrightarrow>
   drive (Suc n) env (OnugAnswers me_Success) (lock_state st b ev (Some (uni_OnuGClassID, 0)) [] out k m) =
     bind_run (lock_event_ignored env UniEvRxOnugResp (lock_state st b ev (Some (uni_OnuGClassID, 0)) [] out k m))
       (drive n env (OnugAnswers me_Success))"
  using onug_answer [of "lock_state st b ev (Some (uni_OnuGClassID, 0)) [] out k m" env]
  by (simp add: drive_op_def onug_message_def onug_ok_def me_Success_def)

text \<open>A rejection is dropped, and after a reported time-out nothing moves the machine any more.\<close>

lemma drive_rejected:
  "r \<noteq> me_Success \<Longrightarrow> ls_tasks s = [] \<Longrightarrow> drive n env (OnugAnswers r) s = Done s"
  by (induction n) (simp_all add: drive_op_def onug_message_def handleOmciLockStateMessage_def)

lemma drive_after_timeout:
  "ls_fsm s = UniStOmciTimeout \<Longrightarrow> ls_tasks s = [] \<Longrightarrow> drive n env OnugTimesOut s = Done s"
  by (induction n) (simp_all add: drive_op_def onug_message_def lock_eval no_way_out)

definition onug_end :: "onug_outcome \<Rightarrow> uni_state" where
  "onug_end a = (case a of OnugAnswers _ \<Rightarrow> UniStSettingOnuG | OnugTimesOut \<Rightarrow> UniStOmciTimeout)"

lemma drive_failed:
  assumes "a \<noteq> OnugAnswers me_Success"
  shows "\<exists>s' es. drive (Suc n) env a (lock_state UniStSettingOnuG b ev l [] out k m) = Done s' \<and> ls_tasks s' = [] \<and>
    ls_fsm s' = onug_end a \<and> ls_out s' = out @ es \<and> status_updates es = [] \<and> \<not> onu_asked es"
proof (cases a)
  case (OnugAnswers r)
  then have "drive (Suc n) env a (lock_state UniStSettingOnuG b ev l [] out k m) = Done (lock_state UniStSettingOnuG b ev l [] out k m)"
    using assms by (simp add: drive_rejected del: drive.simps)
  then show ?thesis by (simp add: OnugAnswers onug_end_def)
next
  case OnugTimesOut
  have "drive (Suc n) env a (lock_state UniStSettingOnuG b ev l [] out k m) =
      Done (lock_state UniStOmciTimeout b ev l [] (out @ [InitializationFailedEvent True]) k m)"
    by (simp add: OnugTimesOut drive_op_def onug_message_def lock_event_to lock_enter_def enterOmciTimeoutState_def drive_after_timeout)
  then show ?thesis by (simp add: OnugTimesOut onug_end_def)
qed

text \<open>How a run ends that has produced \<open>es\<close>.\<close>

definition run_result :: "onug_outcome \<Rightarrow> bool \<Rightarrow> OnuDeviceEvent \<Rightarrow> lock_effect list \<Rightarrow> LockStateFsm \<Rightarrow> bool" where
  "run_result a lock ev es s \<longleftrightarrow> ls_tasks s = [] \<and>
     (if a = OnugAnswers me_Success \<or> \<not> onu_asked es
      then ls_fsm s = UniStDisabled \<and> status_updates es \<in> (if lock then {[ev], []} else {[ev], [UniEnableStateFailed]})
      else ls_fsm s = onug_end a \<and> status_updates es = [])"

lemma run_result_before:
  "run_result a lock ev es s \<Longrightarrow> status_updates fs = [] \<Longrightarrow> \<not> onu_asked fs \<Longrightarrow> run_result a lock ev (fs @ es) s"
  by (simp add: run_result_def)

lemma finish_lock:
  assumes "ev \<noteq> UniEnableStateFailed"
  shows "\<exists>es s'. bind_run (lock_event_ignored env UniEvRxUnisResp (lock_state UniStSettingUnis True ev l [] out k m)) (drive 3 env a) =
      Done s' \<and> ls_out s' = out @ es \<and> run_result a True ev es s'"
proof (cases rule: onug_cases [of env UniStSettingOnuG True ev l out k m])
  case sent
  let ?onug = "[SetAdmin uni_OnuGClassID 0 1]"
  have d: "bind_run (lock_event_ignored env UniEvRxUnisResp (lock_state UniStSettingUnis True ev l [] out k m)) (drive 3 env a) =
      drive 3 env a (lock_state UniStSettingOnuG True ev (Some (uni_OnuGClassID, 0)) [] (out @ ?onug) (Suc k) m)"
    using sent by (simp add: lock_event_to lock_enter_def del: drive.simps)
  show ?thesis
  proof (cases "a = OnugAnswers me_Success")
    case True
    then show ?thesis unfolding d using assms
      by (simp add: lock_event_to lock_enter_def drive_answer eval_nat_numeral enterAdminDoneState_def drive_admin_done run_result_def
          del: drive.simps)
  next
    case False
    obtain s' es where s': "drive (Suc 2) env a (lock_state UniStSettingOnuG True ev (Some (uni_OnuGClassID, 0)) [] (out @ ?onug) (Suc k) m) =
        Done s'" "ls_tasks s' = []" "ls_fsm s' = onug_end a" "ls_out s' = (out @ ?onug) @ es" "status_updates es = []" "\<not> onu_asked es"
      using drive_failed [OF False] by blast
    have "ls_out s' = out @ (?onug @ es)" "run_result a True ev (?onug @ es) s'" using s' False by (simp_all add: run_result_def)
    moreover have "drive 3 env a (lock_state UniStSettingOnuG True ev (Some (uni_OnuGClassID, 0)) [] (out @ ?onug) (Suc k) m) = Done s'"
      using s'(1) by (simp only: eval_nat_numeral)
    ultimately show ?thesis unfolding d by blast
  qed
next
  case (refused l')
  then have "bind_run (lock_event_ignored env UniEvRxUnisResp (lock_state UniStSettingUnis True ev l [] out k m)) (drive 3 env a) =
      bind_run (lock_event_ignored env UniEvReset (lock_state UniStSettingOnuG True ev l' [] out (Suc k) m)) (drive 2 env a)"
    by (simp add: lock_event_to [where ev = UniEvRxUnisResp] lock_enter_def drive_task numeral_3_eq_3 numeral_2_eq_2 del: drive.simps)
  then show ?thesis using assms by (simp add: numeral_2_eq_2 drive_reset run_result_def del: drive.simps)
qed

lemma finish_unlock:
  assumes "ev \<noteq> UniEnableStateFailed"
  shows "bind_run (lock_event_ignored env UniEvRxUnisResp (lock_state UniStSettingUnis False ev l [] out k m)) (drive 2 env a) =
      Done (lock_state UniStDisabled False ev None [] (out @ [ProcStatusUpdate ev, AbortMessages]) k m)"
  using assms by (simp add: lock_event_to lock_enter_def enterAdminDoneState_def eval_nat_numeral drive_admin_done del: drive.simps)

text \<open>The loop over the ports as a step.\<close>

lemma drive_ports:
  "st \<noteq> UniStDisabled \<Longrightarrow> drive (Suc n) env a (lock_state st b ev l [LPortAdminSet] out k m) =
     bind_run (port_loop env (lk_ports env) (lock_state st b ev l [] out k m)) (drive n env a)"
  by (simp add: drive_op_def run_lock_task_def performUniPortAdminSet_def)

lemma drive_unlock_ports:
  assumes "\<forall>k. lk_wait env k \<noteq> LwTimeout True" "ev \<noteq> UniEnableStateFailed"
  shows "\<exists>es ev' k' m'. drive 3 env a (lock_state UniStSettingUnis False ev l [LPortAdminSet] out k m) =
      Done (lock_state UniStDisabled False ev' None [] (out @ es) k' m') \<and> status_updates es \<in> {[ev], [UniEnableStateFailed]}"
proof -
  obtain l' es k' m' where es: "status_updates es = []" and
    "port_loop env (lk_ports env) (lock_state UniStSettingUnis False ev l [] out k m) =
        lock_event_ignored env UniEvRxUnisResp (lock_state UniStSettingUnis False ev l' [] (out @ es) k' m') \<or>
     port_loop env (lk_ports env) (lock_state UniStSettingUnis False ev l [] out k m) =
        lock_event_ignored env UniEvReset (lock_state UniStSettingUnis False UniEnableStateFailed l' [] (out @ es) k' m')"
    using port_loop_ends [OF assms(1), of "lk_ports env" UniStSettingUnis False ev l "[]" out k m] by auto
  then show ?thesis using assms(2) finish_unlock [OF assms(2), of env l' "out @ es" k' m' a] es
    by (auto simp: numeral_3_eq_3 numeral_2_eq_2 drive_ports drive_reset simp del: drive.simps)
qed

lemma drive_lock_ports:
  assumes "\<forall>k. lk_wait env k \<noteq> LwTimeout True" "ev \<noteq> UniEnableStateFailed"
  shows "\<exists>es s'. drive 4 env a (lock_state UniStSettingUnis True ev l [LPortAdminSet] out k m) = Done s' \<and>
      ls_out s' = out @ es \<and> run_result a True ev es s'"
proof -
  obtain l' es k' m' where es: "status_updates es = []" "\<not> onu_asked es" and
    d: "port_loop env (lk_ports env) (lock_state UniStSettingUnis True ev l [] out k m) =
        lock_event_ignored env UniEvRxUnisResp (lock_state UniStSettingUnis True ev l' [] (out @ es) k' m') \<or>
     port_loop env (lk_ports env) (lock_state UniStSettingUnis True ev l [] out k m) =
        lock_event_ignored env UniEvReset (lock_state UniStSettingUnis True ev l' [] (out @ es) k' m')"
    using port_loop_ends [OF assms(1), of "lk_ports env" UniStSettingUnis True ev l "[]" out k m] by auto
  have r: "drive 4 env a (lock_state UniStSettingUnis True ev l [LPortAdminSet] out k m) =
      bind_run (port_loop env (lk_ports env) (lock_state UniStSettingUnis True ev l [] out k m)) (drive 3 env a)"
    by (simp add: eval_nat_numeral drive_ports del: drive.simps)
  from d show ?thesis
  proof
    assume p: "port_loop env (lk_ports env) (lock_state UniStSettingUnis True ev l [] out k m) =
        lock_event_ignored env UniEvRxUnisResp (lock_state UniStSettingUnis True ev l' [] (out @ es) k' m')"
    obtain fs s' where fs: "bind_run (lock_event_ignored env UniEvRxUnisResp
        (lock_state UniStSettingUnis True ev l' [] (out @ es) k' m')) (drive 3 env a) = Done s'"
      "ls_out s' = (out @ es) @ fs" "run_result a True ev fs s'"
      using finish_lock [OF assms(2)] by blast
    have "ls_out s' = out @ (es @ fs)" "run_result a True ev (es @ fs) s'"
      using fs(2) run_result_before [OF fs(3) es] by simp_all
    then show ?thesis unfolding r p using fs(1) by blast
  next
    assume "port_loop env (lk_ports env) (lock_state UniStSettingUnis True ev l [] out k m) =
        lock_event_ignored env UniEvReset (lock_state UniStSettingUnis True ev l' [] (out @ es) k' m')"
    then show ?thesis using es assms(2) unfolding r by (simp add: numeral_3_eq_3 drive_reset run_result_def del: drive.simps)
  qed
qed

text \<open>An unlock run, which begins with the ONU.\<close>

lemma drive_unlock_onug:
  assumes env: "\<forall>k. lk_wait env k \<noteq> LwTimeout True" and ev: "ev \<noteq> UniEnableStateFailed"
  shows "\<exists>s' es. drive 4 env a (lock_state UniStSettingOnuG False ev (Some (uni_OnuGClassID, 0)) []
      (out @ [SetAdmin uni_OnuGClassID 0 0]) k m) = Done s' \<and> ls_out s' = out @ es \<and> run_result a False ev es s'"
proof (cases "a = OnugAnswers me_Success")
  case True
  let ?onug = "[SetAdmin uni_OnuGClassID 0 0]"
  have d: "drive 4 env a (lock_state UniStSettingOnuG False ev (Some (uni_OnuGClassID, 0)) [] (out @ ?onug) k m) =
      drive 3 env a (lock_state UniStSettingUnis False ev (Some (uni_OnuGClassID, 0)) [LPortAdminSet] (out @ ?onug) k m)"
    using True by (simp add: eval_nat_numeral drive_answer lock_event_to lock_enter_def enterSettingUnisState_def del: drive.simps)
  obtain es ev' k' m' where "drive 3 env a (lock_state UniStSettingUnis False ev (Some (uni_OnuGClassID, 0)) [LPortAdminSet]
      (out @ ?onug) k m) = Done (lock_state UniStDisabled False ev' None [] ((out @ ?onug) @ es) k' m')"
    "status_updates es \<in> {[ev], [UniEnableStateFailed]}"
    using drive_unlock_ports [OF env ev] by blast
  then show ?thesis unfolding d using True
    by (intro exI [of _ "lock_state UniStDisabled False ev' None [] ((out @ ?onug) @ es) k' m'"] exI [of _ "?onug @ es"])
      (auto simp: run_result_def)
next
  case False
  let ?onug = "[SetAdmin uni_OnuGClassID 0 0]"
  obtain s' es where s': "drive (Suc 3) env a (lock_state UniStSettingOnuG False ev (Some (uni_OnuGClassID, 0)) [] (out @ ?onug) k m) =
      Done s'" "ls_tasks s' = []" "ls_fsm s' = onug_end a" "ls_out s' = (out @ ?onug) @ es" "status_updates es = []" "\<not> onu_asked es"
    using drive_failed [OF False] by blast
  have "drive 4 env a (lock_state UniStSettingOnuG False ev (Some (uni_OnuGClassID, 0)) [] (out @ ?onug) k m) = Done s'"
    using s'(1) by (simp del: drive.simps add: numeral_eq_Suc)
  moreover have "ls_out s' = out @ (?onug @ es)" "run_result a False ev (?onug @ es) s'" using s' False by (simp_all add: run_result_def)
  ultimately show ?thesis by blast
qed

text \<open>C36: Where a run of a machine ends, for every refusal of a request by the channel, every end
  of the waits for the ports short of a reported time-out, and every outcome \<open>a\<close> of the request
  for the ONU itself. When the ONU has answered that request with success, or the run never came
  to send it, then five steps after its start the machine is disabled again and has nothing left
  to do; an unlock run has notified the device handler exactly once, with the event of the
  request or with the failure, and a lock run at most once. When the ONU has rejected the request, the
  run does not end: the machine stays in the state setting the ONU with nothing left to do and
  without any notification; a reported time-out takes it to its time-out state, from
  which nothing leads away.\<close>

theorem lock_run_ends:
  assumes env: "\<forall>k. lk_wait env k \<noteq> LwTimeout True"
    and s: "ls_fsm s = UniStDisabled" "ls_tasks s = []" "ls_requestEvent s \<noteq> UniEnableStateFailed"
  shows "\<exists>s0 s' es. lock_step (env, LsEvent UniEvStart) s = Done s0 \<and> drive 5 env a s0 = Done s' \<and>
     ls_tasks s' = [] \<and> ls_out s' = ls_out s @ es \<and>
     (if a = OnugAnswers me_Success \<or> (\<forall>v. SetAdmin uni_OnuGClassID 0 v \<notin> set es)
      then ls_fsm s' = UniStDisabled \<and>
        (if ls_adminState s then status_updates es \<in> {[ls_requestEvent s], []}
         else status_updates es \<in> {[ls_requestEvent s], [UniEnableStateFailed]})
      else ls_fsm s' = (if a = OnugTimesOut then UniStOmciTimeout else UniStSettingOnuG) \<and> status_updates es = [])"
proof -
  obtain b ev l out n m where st: "s = lock_state UniStDisabled b ev l [] out n m"
    using s(1,2) by (cases s) auto
  have ev: "ev \<noteq> UniEnableStateFailed" using s(3) st by simp
  let ?s0 = "lock_state UniStStarting b ev l [LEvent UniEvStartAdmin] out n m"
  have 0: "lock_step (env, LsEvent UniEvStart) s = Done ?s0"
    by (simp add: st lock_event_to lock_enter_def enterAdminStartingState_def)
  have "\<exists>s' es. drive 5 env a ?s0 = Done s' \<and> ls_out s' = out @ es \<and> run_result a b ev es s'"
  proof (cases b)
    case True
    have "drive 5 env a ?s0 = drive 4 env a (lock_state UniStSettingUnis True ev l [LPortAdminSet] out n m)"
      using True by (simp add: eval_nat_numeral drive_task lock_event_to lock_enter_def enterSettingUnisState_def del: drive.simps)
    with drive_lock_ports [OF env ev, of a l out n m] True show ?thesis by auto
  next
    case False
    have d: "drive 5 env a ?s0 = drive 4 env a (enterSettingOnuGState env (lock_state UniStSettingOnuG False ev l [] out n m))"
      using False by (simp add: eval_nat_numeral drive_task lock_event_to lock_enter_def del: drive.simps)
    show ?thesis
    proof (cases rule: onug_cases [of env UniStSettingOnuG False ev l out n m])
      case sent
      then show ?thesis unfolding d sent using False drive_unlock_onug [OF env ev, of a out "Suc n" m] by simp
    next
      case (refused l')
      then show ?thesis unfolding d refused using False ev
        by (simp add: eval_nat_numeral drive_task drive_reset run_result_def del: drive.simps)
    qed
  qed
  then obtain s' es where "drive 5 env a ?s0 = Done s'" "ls_out s' = out @ es" "run_result a b ev es s'" by blast
  moreover have "ls_out s = out" "ls_adminState s = b" "ls_requestEvent s = ev" by (simp_all add: st)
  moreover have "onug_end a = (if a = OnugTimesOut then UniStOmciTimeout else UniStSettingOnuG)"
    by (cases a) (simp_all add: onug_end_def)
  moreover have "(\<forall>v. SetAdmin uni_OnuGClassID 0 v \<notin> set es) \<longleftrightarrow> \<not> onu_asked es" by (simp add: onu_asked_def)
  ultimately show ?thesis using 0 unfolding run_result_def
    by (intro exI [of _ ?s0] exI [of _ s'] exI [of _ es]) (auto simp del: drive.simps split: if_splits)
qed

text \<open>An unlock run whose third request is refused, and a lock run that the ONU rejects.\<close>

theorem lock_run_ends_witness:
  "(\<exists>s0 s'. lock_step (sample_lock_env\<lparr>lk_send := \<lambda>n. if n = 2 then SendErr else SendOk\<rparr>, LsEvent UniEvStart)
       (NewLockStateFsm False UniEnableStateDone) = Done s0 \<and>
     drive 5 (sample_lock_env\<lparr>lk_send := \<lambda>n. if n = 2 then SendErr else SendOk\<rparr>) (OnugAnswers me_Success) s0 = Done s' \<and>
     ls_fsm s' = UniStDisabled) \<and>
   (\<exists>s0 s' es. lock_step (sample_lock_env, LsEvent UniEvStart) (NewLockStateFsm True UniDisableStateDone) = Done s0 \<and>
     drive 5 sample_lock_env (OnugAnswers 1) s0 = Done s' \<and> ls_out s' = es \<and> status_updates es = [] \<and> ls_fsm s' = UniStSettingOnuG)"
proof (rule conjI)
  let ?env = "sample_lock_env\<lparr>lk_send := \<lambda>n. if n = 2 then SendErr else SendOk\<rparr>"
  let ?s = "NewLockStateFsm False UniEnableStateDone"
  have "\<forall>k. lk_wait ?env k \<noteq> LwTimeout True" "ls_fsm ?s = UniStDisabled" "ls_tasks ?s = []" "ls_requestEvent ?s \<noteq> UniEnableStateFailed"
    by (simp_all add: sample_lock_env_def NewLockStateFsm_def UniEnableStateFailed_def UniEnableStateDone_def)
  from lock_run_ends [OF this, of "OnugAnswers me_Success"]
  show "\<exists>s0 s'. lock_step (?env, LsEvent UniEvStart) ?s = Done s0 \<and>
     drive 5 ?env (OnugAnswers me_Success) s0 = Done s' \<and> ls_fsm s' = UniStDisabled" by auto
next
  let ?s = "NewLockStateFsm True UniDisableStateDone"
  have h: "\<forall>k. lk_wait sample_lock_env k \<noteq> LwTimeout True" "ls_fsm ?s = UniStDisabled" "ls_tasks ?s = []"
    "ls_requestEvent ?s \<noteq> UniEnableStateFailed"
    by (simp_all add: sample_lock_env_def NewLockStateFsm_def UniEnableStateFailed_def UniDisableStateDone_def)
  let ?start = "lock_state UniStStarting True UniDisableStateDone None [LEvent UniEvStartAdmin] [] 0 0"
  have s0: "lock_step (sample_lock_env, LsEvent UniEvStart) ?s = Done ?start"
    by (simp add: NewLockStateFsm_def lock_event_to lock_enter_def enterAdminStartingState_def)
  have "case drive 5 sample_lock_env (OnugAnswers 1) ?start of Done s' \<Rightarrow> SetAdmin uni_OnuGClassID 0 1 \<in> set (ls_out s') | _ \<Rightarrow> False"
    by code_simp
  then have asked: "\<exists>s'. drive 5 sample_lock_env (OnugAnswers 1) ?start = Done s' \<and> SetAdmin uni_OnuGClassID 0 1 \<in> set (ls_out s')"
    by (simp split: run.splits del: drive.simps)
  from lock_run_ends [OF h, of "OnugAnswers 1"] asked s0
  show "\<exists>s0 s' es. lock_step (sample_lock_env, LsEvent UniEvStart) ?s = Done s0 \<and>
     drive 5 sample_lock_env (OnugAnswers 1) s0 = Done s' \<and> ls_out s' = es \<and> status_updates es = [] \<and> ls_fsm s' = UniStSettingOnuG"
    by (auto simp: me_Success_def NewLockStateFsm_def simp del: drive.simps split: if_splits)
qed

subsection \<open>A reported time-out\<close>

lemma stuck_event: "ls_fsm s = UniStOmciTimeout \<Longrightarrow> lock_event_ignored env ev s = Done s"
  by (simp add: lock_eval no_way_out)

lemma stuck_messages:
  "ls_fsm s = UniStOmciTimeout \<Longrightarrow> \<exists>s'. processOmciLockMessages env ms s = Done s' \<and> ls_fsm s' = UniStOmciTimeout"
proof (induction ms arbitrary: s)
  case (Cons m ms)
  show ?case
  proof (cases m)
    case (LockOmci r)
    have "\<exists>s1. handleOmciLockStateMessage env r s = Done s1 \<and> ls_fsm s1 = UniStOmciTimeout"
      using Cons.prems by (auto simp: handleOmciLockStateMessage_def stuck_event)
    then show ?thesis using Cons.IH LockOmci by auto
  qed (use Cons in \<open>simp_all add: stuck_event\<close>)
qed simp

lemma stuck_ports:
  "ls_fsm s = UniStOmciTimeout \<Longrightarrow> \<exists>s'. port_loop env ps s = Done s' \<and> ls_fsm s' = UniStOmciTimeout"
proof (induction ps arbitrary: s)
  case (Cons p ps)
  have snd: "ls_fsm (snd (send_admin env c i s)) = UniStOmciTimeout" for c i
    using Cons.prems by (simp add: send_admin_def Let_def note_failure_def SetSuccessEvent_def split: send_outcome.splits)
  have wait: "\<exists>f t'. ls_waitforOmciResponse env t = Done (f, t') \<and> ls_fsm t' = UniStOmciTimeout" if "ls_fsm t = UniStOmciTimeout" for t
    using that by (cases "lk_wait env (ls_waited t)") (auto simp: ls_waitforOmciResponse_def Let_def stuck_event)
  have keep: "ls_fsm (note_failure t) = ls_fsm t" for t by (simp add: note_failure_def SetSuccessEvent_def)
  show ?case
  proof (cases "port_selected env (omciAdminState s) p \<and> port_class (PortType p) \<noteq> None")
    case False
    then show ?thesis using Cons by (auto split: option.splits)
  next
    case True
    then obtain c where c: "port_class (PortType p) = Some c" by auto
    obtain f t where t: "send_admin env c (EntityID p) s = (f, t)" by (cases "send_admin env c (EntityID p) s")
    then have tf: "ls_fsm t = UniStOmciTimeout" using snd [of c "EntityID p"] by simp
    obtain f' t' where t': "ls_waitforOmciResponse env t = Done (f', t')" "ls_fsm t' = UniStOmciTimeout" using wait [OF tf] by blast
    then show ?thesis using True c t tf Cons.IH [OF t'(2)] by (simp add: stuck_event keep)
  qed
qed (simp add: stuck_event)

lemma stuck_step:
  "ls_fsm s = UniStOmciTimeout \<Longrightarrow> \<exists>s'. lock_step (env, op) s = Done s' \<and> ls_fsm s' = UniStOmciTimeout"
  by (cases op) (auto simp: run_lock_task_def performUniPortAdminSet_def stuck_event stuck_messages stuck_ports Let_def
      SetSuccessEvent_def split: lock_task.splits)

text \<open>When the message loop of a machine sees the time-out of its request, the machine is lost: it
  goes to \<^verbatim>\<open>UniStOmciTimeout\<close>, which no event, goroutine or message ever leaves, and every later
  request to lock or unlock leaves it there without starting it.\<close>

theorem reported_timeout_is_final:
  assumes "ls_fsm s \<in> {UniStSettingOnuG, UniStSettingUnis}"
    and "lock_step (env, LsMessages [LockTimeOutOccurred]) s = Done s1"
  shows "ls_fsm s1 = UniStOmciTimeout \<and>
     (\<exists>s'. run_steps lock_step ops s1 = Done s' \<and> ls_fsm s' = UniStOmciTimeout \<and>
        runUniLockFsm env' True (dh\<lparr>pLockStateFsm := Some s', pUnlockStateFsm := None\<rparr>) =
          Done (dh\<lparr>pLockStateFsm := Some s', pUnlockStateFsm := None\<rparr>))"
proof -
  have 1: "ls_fsm s1 = UniStOmciTimeout"
    using assms by (auto simp: lock_event_to lock_enter_def enterOmciTimeoutState_def)
  have "\<exists>s'. run_steps lock_step ops t = Done s' \<and> ls_fsm s' = UniStOmciTimeout" if "ls_fsm t = UniStOmciTimeout" for t
    using that
  proof (induction ops arbitrary: t)
    case (Cons a ops)
    obtain t' where "lock_step a t = Done t'" "ls_fsm t' = UniStOmciTimeout"
      using stuck_step [OF Cons.prems, of "fst a" "snd a"] by auto
    then show ?case using Cons.IH by simp
  qed simp
  then obtain s' where s': "run_steps lock_step ops s1 = Done s'" "ls_fsm s' = UniStOmciTimeout" using 1 by blast
  then have "runUniLockFsm env' True (dh\<lparr>pLockStateFsm := Some s', pUnlockStateFsm := None\<rparr>) =
      Done (dh\<lparr>pLockStateFsm := Some s', pUnlockStateFsm := None\<rparr>)"
    by (simp add: runUniLockFsm_def reset_running_def start_if_disabled_def)
  with 1 s' show ?thesis by blast
qed

theorem reported_timeout_is_final_witness:
  "\<exists>s1 s'. lock_step (sample_lock_env, LsMessages [LockTimeOutOccurred])
      ((NewLockStateFsm True UniLockStateDone)\<lparr>ls_fsm := UniStSettingOnuG\<rparr>) = Done s1 \<and>
    run_steps lock_step [(sample_lock_env, LsEvent UniEvReset), (sample_lock_env, LsEvent UniEvStart)] s1 = Done s' \<and>
    ls_fsm s' = UniStOmciTimeout"
proof -
  let ?s = "(NewLockStateFsm True UniLockStateDone)\<lparr>ls_fsm := UniStSettingOnuG\<rparr>"
  obtain s1 where "lock_step (sample_lock_env, LsMessages [LockTimeOutOccurred]) ?s = Done s1"
    using lock_event_Done [of sample_lock_env UniEvOmciTimeout ?s] by auto
  with reported_timeout_is_final [of ?s sample_lock_env s1
      "[(sample_lock_env, LsEvent UniEvReset), (sample_lock_env, LsEvent UniEvStart)]"] show ?thesis by auto
qed

subsection \<open>The status of a port\<close>

text \<open>The administrative state in the answer of a status query is the operational state: whatever
  administrative state the ONU reports, the answer is the same, and its two state fields agree.\<close>

theorem status_reports_oper_as_admin:
  "processGetUnitStatusResp (msg\<lparr>gr_attributes := (''AdministrativeState'', v) # gr_attributes msg\<rparr>) = processGetUnitStatusResp msg \<and>
   (\<forall>info. processGetUnitStatusResp msg = Inr info \<longrightarrow> ui_AdmState info = ui_OperState info)"
  by (auto simp: processGetUnitStatusResp_def Let_def split: option.splits)

theorem status_reports_oper_as_admin_witness:
  "\<exists>info. processGetUnitStatusResp \<lparr> gr_isGetResponse = True, gr_layer = True, gr_result = 0, gr_attributes =
       [(''AdministrativeState'', 1), (''OperationalState'', 0), (''ConfigurationInd'', 3)] \<rparr> = Inr info \<and>
     ui_AdmState info = StateZero"
proof -
  let ?m = "\<lparr> gr_isGetResponse = True, gr_layer = True, gr_result = 0, gr_attributes =
       [(''AdministrativeState'', 1), (''OperationalState'', 0), (''ConfigurationInd'', 3)] \<rparr>"
  have "case processGetUnitStatusResp ?m of Inr info \<Rightarrow> ui_OperState info = StateZero | Inl e \<Rightarrow> False" by code_simp
  then obtain info where "processGetUnitStatusResp ?m = Inr info" "ui_OperState info = StateZero" by (auto split: sum.splits)
  with status_reports_oper_as_admin [where msg = ?m and v = 0] show ?thesis by auto
qed

end
