(* ===== verification/Mib_Dl.thy ===== *)
theory Mib_Dl
  imports Omci_Req Uni_Lock
begin

text \<open>
  The MIB download (\<^verbatim>\<open>mib_download.go\<close>, its table in \<^verbatim>\<open>onu_device_entry.go\<close>) and its start by the device
  handler: after the upload the adapter creates a GAL profile, sets the connectivity mode of the ONU and
  creates for every UNI port a bridge, a bridge port and a tagging operation.

  The component works on the OMCI channel itself: its requests are the methods of \<open>Omci_Me\<close>, applied to
  the channel in its state. Events raised by goroutines and the loop over the ports are tasks; how a wait
  for a response ends is an argument.
\<close>

subsection \<open>The machine\<close>

datatype dl_event = DlEvStart | DlEvCreateGal | DlEvRxGalResp | DlEvRxOnu2gResp | DlEvRxBridgeResp | DlEvTimeoutSimple
  | DlEvTimeoutBridge | DlEvReset | DlEvRestart

datatype dl_state = DlStDisabled | DlStStarting | DlStCreatingGal | DlStSettingOnu2g | DlStBridgeInit | DlStDownloaded
  | DlStResetting

definition mib_dl_events :: "(dl_event, dl_state) fsm_events" where
  "mib_dl_events =
    [(DlEvStart, [DlStDisabled], DlStStarting),
     (DlEvCreateGal, [DlStStarting], DlStCreatingGal),
     (DlEvRxGalResp, [DlStCreatingGal], DlStSettingOnu2g),
     (DlEvRxOnu2gResp, [DlStSettingOnu2g], DlStBridgeInit),
     (DlEvRxBridgeResp, [DlStBridgeInit], DlStDownloaded),
     (DlEvTimeoutSimple, [DlStCreatingGal, DlStSettingOnu2g], DlStStarting),
     (DlEvTimeoutBridge, [DlStBridgeInit], DlStStarting),
     (DlEvReset, [DlStStarting, DlStCreatingGal, DlStSettingOnu2g, DlStBridgeInit, DlStDownloaded], DlStResetting),
     (DlEvRestart, [DlStStarting, DlStCreatingGal, DlStSettingOnu2g, DlStBridgeInit, DlStDownloaded, DlStResetting],
      DlStDisabled)]"

definition DeviceStatusInit :: OnuDeviceEvent where "DeviceStatusInit = 0"
definition MibDatabaseSync :: OnuDeviceEvent where "MibDatabaseSync = 1"
definition MibDownloadDone :: OnuDeviceEvent where "MibDownloadDone = 3"

datatype dl_effect = DlProcStatusUpdate OnuDeviceEvent | DlStartLoop | DlAbortMessages | DlInitializationFailed | DlResponse

datatype dl_task = DlTask dl_event | DlBridgeSetup

datatype dl_wait = DwTimeout | DwReceived bool | DwDeviceDone

text \<open>The surroundings of each request by its number, the OMCI time-out, how the waits end, the ports in
  the order they are visited, and the names the library gives to classes and results.\<close>

record dl_env =
  de_ctx :: "nat \<Rightarrow> send_ctx"
  de_timeout :: int
  de_wait :: "nat \<Rightarrow> dl_wait"
  de_ports :: "OnuUniPort list"
  de_className :: "u16 \<Rightarrow> string"
  de_resultName :: "u8 \<Rightarrow> string"

record mib_dl =
  md_fsm :: dl_state
  md_cc :: OmciCC
  md_pLastTxMeInstance :: "(u16 \<times> u16) option"
  md_omciMessageReceived :: bool
  md_devState :: OnuDeviceEvent
  md_mibDownloadSuccess :: bool
  md_tasks :: "dl_task list"
  md_out :: "dl_effect list"
  md_sent :: nat
  md_waited :: nat

definition new_mib_dl :: "OmciCC \<Rightarrow> mib_dl" where
  "new_mib_dl cc =
     \<lparr> md_fsm = DlStDisabled, md_cc = cc, md_pLastTxMeInstance = None, md_omciMessageReceived = False,
       md_devState = DeviceStatusInit, md_mibDownloadSuccess = False, md_tasks = [], md_out = [], md_sent = 0, md_waited = 0 \<rparr>"

abbreviation md_go :: "dl_task \<Rightarrow> mib_dl \<Rightarrow> mib_dl" where
  "md_go t s \<equiv> s\<lparr>md_tasks := md_tasks s @ [t]\<rparr>"

abbreviation md_emit :: "dl_effect \<Rightarrow> mib_dl \<Rightarrow> mib_dl" where
  "md_emit e s \<equiv> s\<lparr>md_out := md_out s @ [e]\<rparr>"

definition SetMibDownloadSuccess :: "bool \<Rightarrow> mib_dl \<Rightarrow> mib_dl" where
  "SetMibDownloadSuccess success s = s\<lparr>md_mibDownloadSuccess := success\<rparr>"

definition IsMibDownloadSuccessful :: "mib_dl \<Rightarrow> bool" where
  "IsMibDownloadSuccessful s = md_mibDownloadSuccess s"

text \<open>A device event is relayed once: the state of the device only grows until it is reset.\<close>

definition transferSystemEvent :: "OnuDeviceEvent \<Rightarrow> mib_dl \<Rightarrow> mib_dl" where
  "transferSystemEvent devEvent s =
     (if devEvent = MibDatabaseSync \<or> devEvent = MibDownloadDone then
        (if md_devState s < devEvent then md_emit (DlProcStatusUpdate devEvent) (s\<lparr>md_devState := devEvent\<rparr>) else s)
      else s)"

text \<open>A request of the machine; \<open>True\<close> when it failed, which leaves the last instance.\<close>

definition dl_send :: "dl_env \<Rightarrow> (send_ctx \<Rightarrow> int \<Rightarrow> OmciCC \<Rightarrow> me_result run) \<Rightarrow> mib_dl \<Rightarrow> (bool \<times> mib_dl) run" where
  "dl_send env f s =
     bind_run (f (de_ctx env (md_sent s)) (de_timeout env) (md_cc s)) (\<lambda>(r, sr).
       let s = s\<lparr>md_cc := sup_state sr, md_sent := md_sent s + 1\<rparr> in
       case r of
         Inl e \<Rightarrow> Done (True, s)
       | Inr m \<Rightarrow> Done (False, s\<lparr>md_pLastTxMeInstance := Some (GetClassID m, GetEntityID m)\<rparr>))"

subsection \<open>Entering the states\<close>

definition enterDLStartingState :: "mib_dl \<Rightarrow> mib_dl" where
  "enterDLStartingState s = md_emit DlStartLoop (s\<lparr>md_omciMessageReceived := True\<rparr>)"

definition enterCreatingGalState :: "dl_env \<Rightarrow> mib_dl \<Rightarrow> mib_dl run" where
  "enterCreatingGalState env s =
     bind_run (dl_send env (\<lambda>c t. SendCreateGalEthernetProfile c t True) s) (\<lambda>(failed, s).
       Done (if failed then md_go (DlTask DlEvReset) s else s))"

definition enterSettingOnu2gState :: "dl_env \<Rightarrow> mib_dl \<Rightarrow> mib_dl run" where
  "enterSettingOnu2gState env s =
     bind_run (dl_send env (\<lambda>c t. SendSetOnu2g c t True) s) (\<lambda>(failed, s).
       Done (if failed then md_go (DlTask DlEvReset) s else s))"

definition enterBridgeInitState :: "mib_dl \<Rightarrow> mib_dl" where
  "enterBridgeInitState s = md_go DlBridgeSetup s"

definition enterDownloadedState :: "mib_dl \<Rightarrow> mib_dl" where
  "enterDownloadedState s = md_go (DlTask DlEvReset) (SetMibDownloadSuccess True (transferSystemEvent MibDownloadDone s))"

definition md_enterResettingState :: "mib_dl \<Rightarrow> mib_dl" where
  "md_enterResettingState s =
     (let s = md_go (DlTask DlEvRestart) (md_emit DlAbortMessages s)
      in if IsMibDownloadSuccessful s then s else md_emit DlInitializationFailed s)"

definition dl_enter :: "dl_env \<Rightarrow> dl_state \<Rightarrow> mib_dl \<Rightarrow> mib_dl run" where
  "dl_enter env st s =
     (case st of
        DlStStarting \<Rightarrow> Done (enterDLStartingState s)
      | DlStCreatingGal \<Rightarrow> enterCreatingGalState env s
      | DlStSettingOnu2g \<Rightarrow> enterSettingOnu2gState env s
      | DlStBridgeInit \<Rightarrow> Done (enterBridgeInitState s)
      | DlStDownloaded \<Rightarrow> Done (enterDownloadedState s)
      | DlStResetting \<Rightarrow> Done (md_enterResettingState s)
      | DlStDisabled \<Rightarrow> Done s)"

definition dl_fire :: "dl_env \<Rightarrow> dl_event \<Rightarrow> mib_dl \<Rightarrow> (fsm_error option \<times> mib_dl) run" where
  "dl_fire env ev s = fsm_event mib_dl_events md_fsm (\<lambda>st s. s\<lparr>md_fsm := st\<rparr>) (dl_enter env) ev s"

definition dl_event_ignored :: "dl_env \<Rightarrow> dl_event \<Rightarrow> mib_dl \<Rightarrow> mib_dl run" where
  "dl_event_ignored env ev s = bind_run (dl_fire env ev s) (\<lambda>(e, s). Done s)"

subsection \<open>The bridges of the UNI ports\<close>

text \<open>\<open>True\<close> when the wait failed.\<close>

definition md_waitforOmciResponse :: "dl_env \<Rightarrow> mib_dl \<Rightarrow> (bool \<times> mib_dl) run" where
  "md_waitforOmciResponse env s =
     (let w = de_wait env (md_waited s); s = s\<lparr>md_waited := md_waited s + 1\<rparr> in
      case w of
        DwTimeout \<Rightarrow>
          (case md_pLastTxMeInstance s of
             None \<Rightarrow> Done (True, s)
           | Some (c, i) \<Rightarrow>
               bind_run (NotifyAboutOnuConfigFailure OnuConfigFailureTimeout c i (de_className env c) (de_resultName env 0) (md_cc s))
                 (\<lambda>cc. Done (True, s\<lparr>md_cc := cc\<rparr>)))
      | DwReceived success \<Rightarrow> Done (\<not> success, s)
      | DwDeviceDone \<Rightarrow> Done (True, s))"

definition bridge_request :: "dl_env \<Rightarrow> (send_ctx \<Rightarrow> int \<Rightarrow> OmciCC \<Rightarrow> me_result run) \<Rightarrow> mib_dl \<Rightarrow> (bool \<times> mib_dl) run" where
  "bridge_request env f s =
     bind_run (dl_send env f s) (\<lambda>(failed, s). if failed then Done (True, s) else md_waitforOmciResponse env s)"

definition bridge_port :: "dl_env \<Rightarrow> OnuUniPort \<Rightarrow> mib_dl \<Rightarrow> (bool \<times> mib_dl) run" where
  "bridge_port env uniPort s =
     bind_run (bridge_request env (\<lambda>c t. SendCreateMBServiceProfile c uniPort t True) s) (\<lambda>(failed, s).
       if failed then Done (True, s)
       else bind_run (bridge_request env (\<lambda>c t. SendCreateMBPConfigDataUniSide c uniPort t True) s) (\<lambda>(failed, s).
         if failed then Done (True, s)
         else bridge_request env (\<lambda>c t. SendCreateEVTOConfigData c uniPort t True) s))"

fun bridge_loop :: "dl_env \<Rightarrow> OnuUniPort list \<Rightarrow> mib_dl \<Rightarrow> mib_dl run" where
  "bridge_loop env [] s = dl_event_ignored env DlEvRxBridgeResp s"
| "bridge_loop env (p # ps) s =
     bind_run (bridge_port env p s) (\<lambda>(failed, s).
       if failed then dl_event_ignored env DlEvReset s else bridge_loop env ps s)"

definition performInitialBridgeSetup :: "dl_env \<Rightarrow> mib_dl \<Rightarrow> mib_dl run" where
  "performInitialBridgeSetup env s = bridge_loop env (de_ports env) s"

definition run_dl_task :: "dl_env \<Rightarrow> nat \<Rightarrow> mib_dl \<Rightarrow> mib_dl run" where
  "run_dl_task env i s =
     (if length (md_tasks s) \<le> i then Done s
      else
        let t = md_tasks s ! i; s = s\<lparr>md_tasks := take i (md_tasks s) @ drop (Suc i) (md_tasks s)\<rparr> in
        case t of DlTask ev \<Rightarrow> dl_event_ignored env ev s | DlBridgeSetup \<Rightarrow> performInitialBridgeSetup env s)"

subsection \<open>Messages\<close>

definition config_failure :: "dl_env \<Rightarrow> omci_response \<Rightarrow> mib_dl \<Rightarrow> mib_dl run" where
  "config_failure env m s =
     bind_run (NotifyAboutOnuConfigFailure OnuConfigFailureResponseErr (rs_class m) (rs_instance m)
         (de_className env (rs_class m)) (de_resultName env (rs_result m)) (md_cc s))
       (\<lambda>cc. Done (s\<lparr>md_cc := cc\<rparr>))"

text \<open>The library names a class uniquely, so the names the code compares are compared as classes.\<close>

definition handleOmciMibDownloadCreateResponseMessage :: "dl_env \<Rightarrow> omci_response \<Rightarrow> mib_dl \<Rightarrow> mib_dl run" where
  "handleOmciMibDownloadCreateResponseMessage env m s =
     (if \<not> rs_layer m then Done s
      else if rs_result m \<noteq> me_Success \<and> rs_result m \<noteq> me_InstanceExists then config_failure env m s
      else if md_pLastTxMeInstance s = Some (rs_class m, rs_instance m) then
        (if rs_class m = class_id Me_GalEthernetProfile then dl_event_ignored env DlEvRxGalResp s
         else if rs_class m \<in> {class_id Me_MacBridgeServiceProfile, class_id Me_MacBridgePortConfigurationData,
             class_id Me_ExtendedVlanTaggingOperationConfigurationData} then Done (md_emit DlResponse s)
         else Done s)
      else Done s)"

definition handleOmciMibDownloadSetResponseMessage :: "dl_env \<Rightarrow> omci_response \<Rightarrow> mib_dl \<Rightarrow> mib_dl run" where
  "handleOmciMibDownloadSetResponseMessage env m s =
     (if \<not> rs_layer m then Done s
      else if rs_result m \<noteq> me_Success then config_failure env m s
      else if md_pLastTxMeInstance s = Some (rs_class m, rs_instance m) then
        (if rs_class m = class_id Me_Onu2G then dl_event_ignored env DlEvRxOnu2gResp s else Done s)
      else Done s)"

definition handleOmciMibDownloadMessage :: "dl_env \<Rightarrow> omci_response \<Rightarrow> mib_dl \<Rightarrow> mib_dl run" where
  "handleOmciMibDownloadMessage env m s =
     (case rs_type m of
        CreateResponse \<Rightarrow> handleOmciMibDownloadCreateResponseMessage env m s
      | SetResponse \<Rightarrow> handleOmciMibDownloadSetResponseMessage env m s
      | _ \<Rightarrow> Done s)"

text \<open>A message of the loop; other test messages include the reported time-out of a request.\<close>

datatype dl_message = DlOmci omci_response | DlAbort | DlTestOther | DlOther | DlChannelClosed

fun processMibDownloadMessages :: "dl_env \<Rightarrow> dl_message list \<Rightarrow> mib_dl \<Rightarrow> mib_dl run" where
  "processMibDownloadMessages env [] s = Done s"
| "processMibDownloadMessages env (m # ms) s =
     (case m of
        DlOmci r \<Rightarrow> bind_run (handleOmciMibDownloadMessage env r s) (processMibDownloadMessages env ms)
      | DlAbort \<Rightarrow> Done s
      | DlTestOther \<Rightarrow> processMibDownloadMessages env ms s
      | DlOther \<Rightarrow> processMibDownloadMessages env ms s
      | DlChannelClosed \<Rightarrow> dl_event_ignored env DlEvRestart s)"

subsection \<open>The device handler\<close>

text \<open>The download starts when the ports are locked; an error of the second event is only logged.\<close>

definition processUniLockStateDoneEvent :: "dl_env \<Rightarrow> mib_dl \<Rightarrow> mib_dl run" where
  "processUniLockStateDoneEvent env s =
     (if md_fsm s = DlStDisabled then
        bind_run (dl_fire env DlEvStart s) (\<lambda>(err, s).
          if err \<noteq> None then Done s else dl_event_ignored env DlEvCreateGal s)
      else Done s)"

text \<open>The state of the device is set back when the entry is stopped and when the MIB is reset after a failed
  audit or reconciliation.\<close>

definition md_Stop :: "bool \<Rightarrow> (u16 \<Rightarrow> bool) \<Rightarrow> mib_dl \<Rightarrow> mib_dl run" where
  "md_Stop abResetOmciCC ready s =
     bind_run (if abResetOmciCC then Stop ready (md_cc s) else Done (md_cc s)) (\<lambda>cc.
       Done (s\<lparr>md_cc := cc, md_devState := DeviceStatusInit\<rparr>))"

definition md_resetDevState :: "mib_dl \<Rightarrow> mib_dl" where
  "md_resetDevState s = s\<lparr>md_devState := DeviceStatusInit\<rparr>"

datatype dl_op = DlTaskRun nat | DlMessages "dl_message list" | DlRaise dl_event | DlUniLockDone | DlSystemEvent OnuDeviceEvent
  | DlEntryStop bool "u16 \<Rightarrow> bool" | DlMibReset

fun dl_step :: "dl_env \<times> dl_op \<Rightarrow> mib_dl \<Rightarrow> mib_dl run" where
  "dl_step (env, DlTaskRun i) s = run_dl_task env i s"
| "dl_step (env, DlMessages ms) s = processMibDownloadMessages env ms s"
| "dl_step (env, DlRaise ev) s = dl_event_ignored env ev s"
| "dl_step (env, DlUniLockDone) s = processUniLockStateDoneEvent env s"
| "dl_step (env, DlSystemEvent ev) s = Done (transferSystemEvent ev s)"
| "dl_step (env, DlEntryStop ab ready) s = md_Stop ab ready s"
| "dl_step (env, DlMibReset) s = Done (md_resetDevState s)"

end
