(* ===== verification/Mib_Props.thy ===== *)
theory Mib_Props
  imports Mib_Dl
begin

text \<open>
  What the MIB download achieves: on a calm channel it transmits exactly the requests for the GAL profile,
  the connectivity mode and the bridges of all ports, in order, reports its end once and returns to its
  rest state; the created instances refer to each other; the end is never reported twice; and a
  rejected or unanswered first request leaves the machine waiting for ever.
\<close>

subsection \<open>The table\<close>

lemmas dl_table = fsm_transition_def fsm_matches_def mib_dl_events_def Let_def

lemma dl_transitions [simp]:
  "fsm_transition mib_dl_events DlEvStart DlStDisabled = Some DlStStarting"
  "fsm_transition mib_dl_events DlEvCreateGal DlStStarting = Some DlStCreatingGal"
  "fsm_transition mib_dl_events DlEvRxGalResp DlStCreatingGal = Some DlStSettingOnu2g"
  "fsm_transition mib_dl_events DlEvRxOnu2gResp DlStSettingOnu2g = Some DlStBridgeInit"
  "fsm_transition mib_dl_events DlEvRxBridgeResp DlStBridgeInit = Some DlStDownloaded"
  "fsm_transition mib_dl_events DlEvReset DlStDownloaded = Some DlStResetting"
  "fsm_transition mib_dl_events DlEvReset DlStBridgeInit = Some DlStResetting"
  "fsm_transition mib_dl_events DlEvRestart DlStResetting = Some DlStDisabled"
  by (simp_all add: dl_table)

interpretation mib_dl_table: fsm_table mib_dl_events DlStDisabled
    "[DlStDisabled, DlStStarting, DlStCreatingGal, DlStSettingOnu2g, DlStBridgeInit, DlStDownloaded, DlStResetting]"
    "\<lambda>s. if s = DlStDisabled then [] else [DlEvRestart]" DlStDisabled
  by unfold_locales (auto simp: fsm_det_def fsm_states_ok_def mib_dl_events_def fsm_transition_def fsm_matches_def)

lemma dl_event_to:
  "fsm_transition mib_dl_events ev (md_fsm s) = Some st \<Longrightarrow> st \<noteq> md_fsm s \<Longrightarrow>
   dl_event_ignored env ev s = dl_enter env st (s\<lparr>md_fsm := st\<rparr>)"
  by (simp add: dl_event_ignored_def dl_fire_def fsm_event_def bind_run_assoc)

subsection \<open>The requests\<close>

text \<open>A request of the download: class, message type, default attributes, parameters.\<close>

type_synonym dl_request = "me_class \<times> u8 \<times> bool \<times> ParamData"

fun dl_entity :: "dl_request \<Rightarrow> ManagedEntity" where
  "dl_entity (cls, mt, d, p) =
     \<lparr> GetClassID = class_id cls, GetEntityID = pd_EntityID p, GetAttributes = pd_Attributes p \<rparr>"

fun dl_frame :: "omci_lib \<Rightarrow> dl_request \<Rightarrow> u16 \<Rightarrow> bytes" where
  "dl_frame lib (cls, mt, d, p) t = projr (lib_encode lib (dl_entity (cls, mt, d, p)) mt t d BaselineIdent)"

fun dl_request_send :: "send_ctx \<Rightarrow> int \<Rightarrow> dl_request \<Rightarrow> OmciCC \<Rightarrow> me_result run" where
  "dl_request_send c timeout (cls, mt, d, p) oo =
     (let (t, oo) = GetNextTid True oo in send_download c cls mt d timeout True p t oo)"

interpretation downloads: request_series "dl_request_send c timeout" True "\<lambda>r t n. dl_frame (sc_lib c) r t" "\<lambda>n. n"
    "\<lambda>_. GetMibDownloadFsmCommChan c" dl_entity "\<lambda>oo. calm c timeout \<and> idle oo \<and> pOnuDeviceEntry oo"
  for c timeout
proof (unfold_locales, goal_cases)
  case (1 oo r)
  obtain cls mt d p where r: "r = (cls, mt, d, p)" by (rule prod_cases4)
  obtain t o0 where t: "GetNextTid True oo = (t, o0)" by (rule prod.exhaust)
  let ?cb = "response_pair t (GetMibDownloadFsmCommChan c) True"
  obtain f where f: "lib_encode (sc_lib c) (dl_entity r) mt t d BaselineIdent = Inr f" "3 < length f"
    using 1(1) unfolding calm_def by blast
  have o0: "idle o0" "map_of (monitoredRequests o0) t = None" "pOnuDeviceEntry o0"
    using 1 GetNextTid_frame(2,4,6) [of True oo] t by simp_all
  obtain oo' where oo': "send_built c timeout CDefaultRetries True ?cb (dl_entity r) (Inr f) o0 =
      Done (Inr (dl_entity r), WaitingIn oo')" "idle oo'" "tid oo' = tid o0" "hpTid oo' = hpTid o0"
      "UploadSequNo oo' = UploadSequNo o0" "UploadNoOfCmds oo' = UploadNoOfCmds o0" "pOnuDeviceEntry oo' = pOnuDeviceEntry o0"
      "rxSchedulerMap oo' = (rxSchedulerMap o0)(t \<mapsto> CbEntry ?cb)"
      "dom (map_of (monitoredRequests oo')) = insert t (dom (map_of (monitoredRequests o0)))"
      "cc_out oo' = cc_out o0 @ [TxFrame f]"
    using built_registers [of c timeout o0 ?cb f True "dl_entity r"] 1(1) o0 f(2) by (auto simp: response_pair_def)
  have "dl_request_send c timeout r oo = Done (Inr (dl_entity r), WaitingIn oo')"
    using 1(1) oo'(1) f(1) o0(3) by (simp add: r send_download_def entry_channel_def t calm_def)
  with oo' 1(1) show ?case using GetNextTid_frame [of True oo] f(1) by (simp add: t r)
qed

definition gal_request :: dl_request where "gal_request = (Me_GalEthernetProfile, CreateRequestType, False, gal_params)"
definition onu2g_request :: dl_request where "onu2g_request = (Me_Onu2G, SetRequestType, False, onu2g_params)"

text \<open>The instance of the bridge port of a UNI: the number of a port has eight bits, so it is always valid.\<close>

definition uni_mbpcd :: "OnuUniPort \<Rightarrow> u16" where
  "uni_mbpcd p = projr (GenerateUNISideMBPCDEID (ucast (MacBpNo p)))"

definition port_dl_requests :: "OnuUniPort \<Rightarrow> dl_request list" where
  "port_dl_requests p =
     [(Me_MacBridgeServiceProfile, CreateRequestType, True, mbsp_params p),
      (Me_MacBridgePortConfigurationData, CreateRequestType, True, mbpcd_params (uni_mbpcd p) p),
      (Me_ExtendedVlanTaggingOperationConfigurationData, CreateRequestType, True, evto_params p)]"

definition download_requests :: "OnuUniPort list \<Rightarrow> dl_request list" where
  "download_requests ps = gal_request # onu2g_request # concat (map port_dl_requests ps)"

lemma unat_ucast_u8: "unat (ucast (b :: u8) :: u16) = unat b"
  using unat_u8_lt [of b] by (simp add: unsigned_ucast_eq take_bit_nat_eq_self)

lemma ucast_u8_inject: "(ucast a :: u16) = ucast b \<Longrightarrow> a = b" for a b :: u8
  by (metis unat_ucast_u8 word_unat_eq_iff)

lemma uni_mbpcd_valid: "GenerateUNISideMBPCDEID (ucast (b :: u8)) = Inr (MacBridgePortUniBaseEID + ucast b)"
proof -
  have "\<not> maxUni < ucast b" using unat_u8_lt [of b] by (simp add: maxUni_def word_less_nat_alt unat_ucast_u8)
  then show ?thesis by (auto simp: GenerateUNISideMBPCDEID_def)
qed

lemma dl_sends:
  "SendCreateGalEthernetProfile c t True = dl_request_send c t gal_request"
  "SendSetOnu2g c t True = dl_request_send c t onu2g_request"
  "SendCreateMBServiceProfile c p t True = dl_request_send c t (port_dl_requests p ! 0)"
  "SendCreateMBPConfigDataUniSide c p t True = dl_request_send c t (port_dl_requests p ! 1)"
  "SendCreateEVTOConfigData c p t True = dl_request_send c t (port_dl_requests p ! 2)"
  by (auto simp: fun_eq_iff SendCreateGalEthernetProfile_def SendSetOnu2g_def SendCreateMBServiceProfile_def
      SendCreateMBPConfigDataUniSide_def SendCreateEVTOConfigData_def gal_request_def onu2g_request_def
      port_dl_requests_def uni_mbpcd_def uni_mbpcd_valid split: prod.splits)

subsection \<open>A run in which every request is answered\<close>

abbreviation dl_at :: "dl_state \<Rightarrow> OmciCC \<Rightarrow> (u16 \<times> u16) option \<Rightarrow> bool \<Rightarrow> OnuDeviceEvent \<Rightarrow> bool \<Rightarrow> dl_task list \<Rightarrow>
    dl_effect list \<Rightarrow> nat \<Rightarrow> nat \<Rightarrow> mib_dl" where
  "dl_at st cc l rx dv ok tk out n m \<equiv>
     \<lparr> md_fsm = st, md_cc = cc, md_pLastTxMeInstance = l, md_omciMessageReceived = rx, md_devState = dv,
       md_mibDownloadSuccess = ok, md_tasks = tk, md_out = out, md_sent = n, md_waited = m \<rparr>"

definition calm_dl :: "dl_env \<Rightarrow> send_ctx \<Rightarrow> bool" where
  "calm_dl env c \<longleftrightarrow> (\<forall>n. de_ctx env n = c \<and> de_wait env n = DwReceived True) \<and> calm c (de_timeout env)"

definition dl_ready :: "u16 list \<Rightarrow> OmciCC \<Rightarrow> bool" where
  "dl_ready ts cc \<longleftrightarrow> idle cc \<and> pOnuDeviceEntry cc \<and> fresh_ids True ts cc"

definition me_id :: "dl_request \<Rightarrow> u16 \<times> u16" where
  "me_id r = (GetClassID (dl_entity r), GetEntityID (dl_entity r))"

lemma dl_send_calm:
  assumes "calm_dl env c" "dl_ready (t # ts) cc"
  shows "\<exists>cc'. dl_send env (\<lambda>c t. dl_request_send c t r) (dl_at st cc l rx dv ok tk out n m) =
      Done (False, dl_at st cc' (Some (me_id r)) rx dv ok tk out (Suc n) m) \<and> dl_ready ts cc' \<and>
    cc_out cc' = cc_out cc @ [TxFrame (dl_frame (sc_lib c) r t)]"
proof -
  from downloads.step_fresh [of c "de_timeout env" cc t ts r] assms obtain cc' where
    "dl_request_send c (de_timeout env) r cc = Done (Inr (dl_entity r), WaitingIn cc')" "idle cc'" "pOnuDeviceEntry cc'"
    "fresh_ids True ts cc'" "cc_out cc' = cc_out cc @ [TxFrame (dl_frame (sc_lib c) r t)]"
    by (auto simp: calm_dl_def dl_ready_def)
  with assms(1) show ?thesis by (simp add: dl_send_def calm_dl_def dl_ready_def me_id_def)
qed

lemma bridge_request_calm:
  assumes "calm_dl env c" "dl_ready (t # ts) cc"
  shows "\<exists>cc'. bridge_request env (\<lambda>c t. dl_request_send c t r) (dl_at st cc l rx dv ok tk out n m) =
      Done (False, dl_at st cc' (Some (me_id r)) rx dv ok tk out (Suc n) (Suc m)) \<and> dl_ready ts cc' \<and>
    cc_out cc' = cc_out cc @ [TxFrame (dl_frame (sc_lib c) r t)]"
  using dl_send_calm [OF assms, of r st l rx dv ok tk out n m] assms(1)
  by (auto simp: bridge_request_def md_waitforOmciResponse_def calm_dl_def)

lemma bridge_port_calm:
  assumes "calm_dl env c" "dl_ready (t1 # t2 # t3 # ts) cc"
  shows "\<exists>cc' l'. bridge_port env p (dl_at st cc l rx dv ok tk out n m) =
      Done (False, dl_at st cc' l' rx dv ok tk out (n + 3) (m + 3)) \<and> dl_ready ts cc' \<and>
    cc_out cc' = cc_out cc @ map2 (\<lambda>r t. TxFrame (dl_frame (sc_lib c) r t)) (port_dl_requests p) [t1, t2, t3]"
proof -
  let ?r = "\<lambda>i. port_dl_requests p ! i"
  obtain c1 where c1: "bridge_request env (\<lambda>c t. dl_request_send c t (?r 0)) (dl_at st cc l rx dv ok tk out n m) =
      Done (False, dl_at st c1 (Some (me_id (?r 0))) rx dv ok tk out (Suc n) (Suc m))" "dl_ready (t2 # t3 # ts) c1"
      "cc_out c1 = cc_out cc @ [TxFrame (dl_frame (sc_lib c) (?r 0) t1)]"
    using bridge_request_calm [OF assms] by blast
  obtain c2 where c2: "bridge_request env (\<lambda>c t. dl_request_send c t (?r 1)) (dl_at st c1 (Some (me_id (?r 0))) rx dv ok tk out (Suc n) (Suc m)) =
      Done (False, dl_at st c2 (Some (me_id (?r 1))) rx dv ok tk out (Suc (Suc n)) (Suc (Suc m)))" "dl_ready (t3 # ts) c2"
      "cc_out c2 = cc_out c1 @ [TxFrame (dl_frame (sc_lib c) (?r 1) t2)]"
    using bridge_request_calm [OF assms(1) c1(2)] by blast
  obtain c3 where c3: "bridge_request env (\<lambda>c t. dl_request_send c t (?r 2)) (dl_at st c2 (Some (me_id (?r 1))) rx dv ok tk out (Suc (Suc n)) (Suc (Suc m))) =
      Done (False, dl_at st c3 (Some (me_id (?r 2))) rx dv ok tk out (Suc (Suc (Suc n))) (Suc (Suc (Suc m))))" "dl_ready ts c3"
      "cc_out c3 = cc_out c2 @ [TxFrame (dl_frame (sc_lib c) (?r 2) t3)]"
    using bridge_request_calm [OF assms(1) c2(2)] by blast
  have "map2 (\<lambda>r t. TxFrame (dl_frame (sc_lib c) r t)) (port_dl_requests p) [t1, t2, t3] =
      [TxFrame (dl_frame (sc_lib c) (?r 0) t1), TxFrame (dl_frame (sc_lib c) (?r 1) t2), TxFrame (dl_frame (sc_lib c) (?r 2) t3)]"
    by (simp add: port_dl_requests_def)
  then have "cc_out c3 = cc_out cc @ map2 (\<lambda>r t. TxFrame (dl_frame (sc_lib c) r t)) (port_dl_requests p) [t1, t2, t3]"
    using c1(3) c2(3) c3(3) by simp
  then show ?thesis
    using c1(1) c2(1) c3(1,2) by (simp add: bridge_port_def dl_sends numeral_3_eq_3)
qed

lemma bridge_loop_calm:
  assumes "calm_dl env c" "dl_ready ts cc" "length ts = length (concat (map port_dl_requests ps))"
  shows "\<exists>cc' l' n' m'. bridge_loop env ps (dl_at st cc l rx dv ok tk out n m) =
      dl_event_ignored env DlEvRxBridgeResp (dl_at st cc' l' rx dv ok tk out n' m') \<and>
    cc_out cc' = cc_out cc @ map2 (\<lambda>r t. TxFrame (dl_frame (sc_lib c) r t)) (concat (map port_dl_requests ps)) ts"
  using assms(2,3)
proof (induction ps arbitrary: ts cc l n m)
  case Nil
  then show ?case by (auto intro!: exI)
next
  case (Cons p ps)
  have "length (port_dl_requests p) = 3" by (simp add: port_dl_requests_def)
  with Cons.prems(2) obtain t1 t2 t3 us where ts: "ts = t1 # t2 # t3 # us" "length us = length (concat (map port_dl_requests ps))"
    by (cases ts; cases "tl ts"; cases "tl (tl ts)") auto
  obtain c1 l1 where c1: "bridge_port env p (dl_at st cc l rx dv ok tk out n m) =
      Done (False, dl_at st c1 l1 rx dv ok tk out (n + 3) (m + 3))" "dl_ready us c1"
      "cc_out c1 = cc_out cc @ map2 (\<lambda>r t. TxFrame (dl_frame (sc_lib c) r t)) (port_dl_requests p) [t1, t2, t3]"
    using bridge_port_calm [OF assms(1) Cons.prems(1) [unfolded ts(1)]] by blast
  have "zip (port_dl_requests p @ concat (map port_dl_requests ps)) ts =
      zip (port_dl_requests p) [t1, t2, t3] @ zip (concat (map port_dl_requests ps)) us"
    by (simp add: ts zip_append1 port_dl_requests_def)
  then show ?case
    using Cons.IH [OF c1(2) ts(2), of l1 "n + 3" "m + 3"] c1 by auto
qed


definition gal_ok :: omci_response where
  "gal_ok = \<lparr> rs_type = CreateResponse, rs_layer = True, rs_class = 272, rs_instance = 1, rs_result = 0 \<rparr>"

definition onu2g_ok :: omci_response where
  "onu2g_ok = \<lparr> rs_type = SetResponse, rs_layer = True, rs_class = 257, rs_instance = 0, rs_result = 0 \<rparr>"

text \<open>The order of a run: start by the device handler, the two responses, the loop over the ports, and
  the reset and restart it leads to.\<close>

definition dl_ops :: "dl_op list" where
  "dl_ops = [DlUniLockDone, DlMessages [DlOmci gal_ok], DlMessages [DlOmci onu2g_ok], DlTaskRun 0, DlTaskRun 0, DlTaskRun 0]"

lemma me_id_first: "me_id gal_request = (272, 1)" "me_id onu2g_request = (257, 0)"
  by (simp_all add: me_id_def gal_request_def onu2g_request_def gal_params_def onu2g_params_def GalEthernetEID_def)

lemma dl_start_calm:
  assumes "calm_dl env c" "dl_ready (t # ts) cc"
  shows "\<exists>cc'. dl_step (env, DlUniLockDone) (new_mib_dl cc) =
      Done (dl_at DlStCreatingGal cc' (Some (272, 1)) True 0 False [] [DlStartLoop] 1 0) \<and> dl_ready ts cc' \<and>
    cc_out cc' = cc_out cc @ [TxFrame (dl_frame (sc_lib c) gal_request t)]"
  using dl_send_calm [OF assms, of gal_request DlStCreatingGal None True 0 False "[]" "[DlStartLoop]" 0 0]
  by (auto simp: processUniLockStateDoneEvent_def new_mib_dl_def dl_fire_def fsm_event_def dl_enter_def enterDLStartingState_def
      dl_event_ignored_def enterCreatingGalState_def dl_sends DeviceStatusInit_def me_id_first)

lemma dl_gal_calm:
  assumes "calm_dl env c" "dl_ready (t # ts) cc"
  shows "\<exists>cc'. dl_step (env, DlMessages [DlOmci gal_ok]) (dl_at DlStCreatingGal cc (Some (272, 1)) rx dv ok tk out n m) =
      Done (dl_at DlStSettingOnu2g cc' (Some (257, 0)) rx dv ok tk out (Suc n) m) \<and> dl_ready ts cc' \<and>
    cc_out cc' = cc_out cc @ [TxFrame (dl_frame (sc_lib c) onu2g_request t)]"
  using dl_send_calm [OF assms, of onu2g_request DlStSettingOnu2g "Some (272, 1)" rx dv ok tk out n m]
  by (auto simp: handleOmciMibDownloadMessage_def handleOmciMibDownloadCreateResponseMessage_def gal_ok_def me_Success_def
      dl_event_to dl_enter_def enterSettingOnu2gState_def dl_sends me_id_first)

lemma dl_onu2g_calm:
  "dl_step (env, DlMessages [DlOmci onu2g_ok]) (dl_at DlStSettingOnu2g cc (Some (257, 0)) rx dv ok tk out n m) =
   Done (dl_at DlStBridgeInit cc (Some (257, 0)) rx dv ok (tk @ [DlBridgeSetup]) out n m)"
  by (simp add: handleOmciMibDownloadMessage_def handleOmciMibDownloadSetResponseMessage_def onu2g_ok_def me_Success_def
      dl_event_to dl_enter_def enterBridgeInitState_def)

lemma dl_first_task:
  "dl_step (env, DlTaskRun 0) (dl_at st cc l rx dv ok (t # tk) out n m) =
     (case t of DlTask ev \<Rightarrow> dl_event_ignored env ev (dl_at st cc l rx dv ok tk out n m)
      | DlBridgeSetup \<Rightarrow> performInitialBridgeSetup env (dl_at st cc l rx dv ok tk out n m))"
  by (simp add: run_dl_task_def Let_def)

text \<open>C9: The MIB download. Started by the device handler on an idle channel, with every request accepted and
  answered, it transmits exactly the requests for the GAL profile, the connectivity mode and, for every port,
  the bridge, the bridge port and the tagging operation, in this order and with the identifiers the
  channel hands out; it reports its end once, notes its success and is back in its rest state.\<close>

theorem download_complete:
  assumes "calm_dl env c" "idle cc" "pOnuDeviceEntry cc" "tids_in_range cc" "monitoredRequests cc = []"
    and "length (download_requests (de_ports env)) \<le> 0x7FFF"
  shows "\<exists>s. run_steps dl_step (map (Pair env) dl_ops) (new_mib_dl cc) = Done s \<and> md_fsm s = DlStDisabled \<and> md_tasks s = [] \<and>
    IsMibDownloadSuccessful s \<and> md_out s = [DlStartLoop, DlProcStatusUpdate MibDownloadDone, DlAbortMessages] \<and>
    cc_out (md_cc s) = cc_out cc @ map2 (\<lambda>r t. TxFrame (dl_frame (sc_lib c) r t)) (download_requests (de_ports env))
      (next_tids True (length (download_requests (de_ports env))) cc)"
proof -
  let ?rs = "concat (map port_dl_requests (de_ports env))"
  define t1 where "t1 = fst (GetNextTid True cc)"
  define t2 where "t2 = fst (GetNextTid True (snd (GetNextTid True cc)))"
  define ts where "ts = next_tids True (length ?rs) (snd (GetNextTid True (snd (GetNextTid True cc))))"
  have ts: "next_tids True (length (download_requests (de_ports env))) cc = t1 # t2 # ts" "length ts = length ?rs"
    by (simp_all add: download_requests_def next_tids_Suc t1_def t2_def ts_def)
  have r: "dl_ready (t1 # t2 # ts) cc"
    using fresh_ids_start [OF assms(4,6,5), of True] assms(2,3) unfolding dl_ready_def ts(1) by blast
  obtain c1 where c1: "dl_step (env, DlUniLockDone) (new_mib_dl cc) =
      Done (dl_at DlStCreatingGal c1 (Some (272, 1)) True 0 False [] [DlStartLoop] 1 0)" "dl_ready (t2 # ts) c1"
      "cc_out c1 = cc_out cc @ [TxFrame (dl_frame (sc_lib c) gal_request t1)]"
    using dl_start_calm [OF assms(1) r] by blast
  obtain c2 where c2: "dl_step (env, DlMessages [DlOmci gal_ok]) (dl_at DlStCreatingGal c1 (Some (272, 1)) True 0 False [] [DlStartLoop] 1 0) =
      Done (dl_at DlStSettingOnu2g c2 (Some (257, 0)) True 0 False [] [DlStartLoop] (Suc 1) 0)" "dl_ready ts c2"
      "cc_out c2 = cc_out c1 @ [TxFrame (dl_frame (sc_lib c) onu2g_request t2)]"
    using dl_gal_calm [OF assms(1) c1(2)] by blast
  obtain c3 l n m where c3: "bridge_loop env (de_ports env) (dl_at DlStBridgeInit c2 (Some (257, 0)) True 0 False [] [DlStartLoop] (Suc 1) 0) =
      dl_event_ignored env DlEvRxBridgeResp (dl_at DlStBridgeInit c3 l True 0 False [] [DlStartLoop] n m)"
      "cc_out c3 = cc_out c2 @ map2 (\<lambda>r t. TxFrame (dl_frame (sc_lib c) r t)) ?rs ts"
    using bridge_loop_calm [OF assms(1) c2(2) ts(2)] by blast
  have "run_steps dl_step (map (Pair env) dl_ops) (new_mib_dl cc) =
      Done (dl_at DlStDisabled c3 l True 3 True [] [DlStartLoop, DlProcStatusUpdate MibDownloadDone, DlAbortMessages] n m)"
    unfolding dl_ops_def list.map run_steps.simps c1(1) c2(1) bind_run.simps dl_onu2g_calm
    by (simp add: dl_first_task performInitialBridgeSetup_def c3(1) [simplified] dl_event_to dl_enter_def enterDownloadedState_def
        transferSystemEvent_def SetMibDownloadSuccess_def MibDownloadDone_def MibDatabaseSync_def md_enterResettingState_def
        IsMibDownloadSuccessful_def del: dl_step.simps)
  then show ?thesis
    using c1(3) c2(3) c3(2) ts(1) by (simp add: IsMibDownloadSuccessful_def download_requests_def)
qed

definition sample_ports :: "OnuUniPort list" where
  "sample_ports = [NewOnuUniPort 0 256 0x0101 UniPPTP, NewOnuUniPort 1 257 0x0102 UniVEIP]"

definition sample_dl_env :: dl_env where
  "sample_dl_env = \<lparr> de_ctx = (\<lambda>n. sample_ctx), de_timeout = 3, de_wait = (\<lambda>n. DwReceived True), de_ports = sample_ports,
     de_className = (\<lambda>c. ''class''), de_resultName = (\<lambda>r. ''result'') \<rparr>"

theorem download_complete_witness:
  "\<exists>s. run_steps dl_step (map (Pair sample_dl_env) dl_ops) (new_mib_dl sample_cc) = Done s \<and> md_fsm s = DlStDisabled \<and>
    length (cc_out (md_cc s)) = 8 \<and> cc_out (md_cc s) ! 7 = TxFrame [0x80, 7, 0x44, 0x0A, 0, 171, 2, 3]"
proof -
  have e: "calm_dl sample_dl_env sample_ctx" "de_ports sample_dl_env = sample_ports"
    using sample_ctx_calm by (simp_all add: calm_dl_def sample_dl_env_def)
  have l: "length (download_requests sample_ports) = 8"
    by (simp add: download_requests_def sample_ports_def port_dl_requests_def)
  have t: "next_tids True 8 sample_cc ! 7 = 0x8007" by code_simp
  have f: "dl_frame (sc_lib sample_ctx) (download_requests sample_ports ! 7) 0x8007 = [0x80, 7, 0x44, 0x0A, 0, 171, 2, 3]" by code_simp
  have "map2 (\<lambda>r t. TxFrame (dl_frame (sc_lib sample_ctx) r t)) (download_requests sample_ports) (next_tids True 8 sample_cc) ! 7 =
      TxFrame [0x80, 7, 0x44, 0x0A, 0, 171, 2, 3]"
    using f by (simp add: l t)
  then show ?thesis
    using download_complete [OF e(1) sample_cc_ok(1,4,2,3)] by (auto simp: e(2) l sample_cc_ok(5))
qed

text \<open>No two requests of a MIB download address the same instance, for ports with different bridge
  port numbers, and the bridge port of a UNI points to the bridge created just before it.\<close>

theorem download_instances_linked:
  assumes "distinct (map MacBpNo ps)"
  shows "distinct (map me_id (download_requests ps)) \<and>
    (\<forall>p \<in> set ps. map_of (pd_Attributes (mbpcd_params (uni_mbpcd p) p)) ''BridgeIdPointer'' =
        Some (AvU16 (snd (me_id (port_dl_requests p ! 0)))))"
proof
  have ids: "map me_id (port_dl_requests p) =
      [(45, MacBridgeServiceProfileEID + ucast (MacBpNo p)), (47, MacBridgePortUniBaseEID + ucast (MacBpNo p)),
       (171, MacBridgeServiceProfileEID + ucast (MacBpNo p))]" for p
    by (simp add: port_dl_requests_def me_id_def mbsp_params_def mbpcd_params_def evto_params_def uni_mbpcd_def uni_mbpcd_valid)
  have "distinct (map me_id (concat (map port_dl_requests ps)))" using assms
    by (induction ps) (auto simp: map_concat ids dest!: ucast_u8_inject)
  moreover have cls: "x \<in> set (map me_id (concat (map port_dl_requests ps))) \<Longrightarrow> fst x \<in> {45, 47, 171}" for x
    by (induction ps) (auto simp: map_concat ids)
  moreover have "(272, 1) \<notin> set (map me_id (concat (map port_dl_requests ps)))"
    "(257, 0) \<notin> set (map me_id (concat (map port_dl_requests ps)))"
    using cls [of "(272, 1)"] cls [of "(257, 0)"] by auto
  ultimately show "distinct (map me_id (download_requests ps))"
    by (simp add: download_requests_def me_id_first)
  show "\<forall>p \<in> set ps. map_of (pd_Attributes (mbpcd_params (uni_mbpcd p) p)) ''BridgeIdPointer'' =
      Some (AvU16 (snd (me_id (port_dl_requests p ! 0))))"
    by (simp add: mbpcd_params_def me_id_def port_dl_requests_def mbsp_params_def)
qed

theorem download_instances_linked_witness:
  "distinct (map me_id (download_requests sample_ports))"
proof -
  have "distinct (map MacBpNo sample_ports)" by code_simp
  then show ?thesis using download_instances_linked by blast
qed

subsection \<open>Unhelpful answers\<close>

text \<open>A message that does not answer the request in hand with success: a rejected or other response, a
  reported time-out, or something unknown.\<close>

definition unhelpful :: "(u16 \<times> u16) option \<Rightarrow> dl_message \<Rightarrow> bool" where
  "unhelpful l m \<longleftrightarrow>
     (case m of
        DlOmci r \<Rightarrow> response_failed r \<or> l \<noteq> Some (rs_class r, rs_instance r)
      | DlTestOther \<Rightarrow> True | DlOther \<Rightarrow> True | DlAbort \<Rightarrow> False | DlChannelClosed \<Rightarrow> False)"

lemma config_failure_keeps:
  "pOnuDeviceEntry (md_cc s) \<Longrightarrow> \<exists>cc. config_failure env m s = Done (s\<lparr>md_cc := cc\<rparr>) \<and> pOnuDeviceEntry cc"
  by (cases "confFailMeAlreadyHandled (rs_class m) (md_cc s)")
    (auto simp: config_failure_def NotifyAboutOnuConfigFailure_def Let_def appendConfFailMe_def emit_def intro: exI [of _ "md_cc s"])

lemma unhelpful_handled:
  assumes "unhelpful (md_pLastTxMeInstance s) (DlOmci r)" "pOnuDeviceEntry (md_cc s)"
  shows "\<exists>cc. handleOmciMibDownloadMessage env r s = Done (s\<lparr>md_cc := cc\<rparr>) \<and> pOnuDeviceEntry cc"
proof -
  have same: "\<exists>cc. Done s = Done (s\<lparr>md_cc := cc\<rparr>) \<and> pOnuDeviceEntry cc" using assms(2) by (intro exI [of _ "md_cc s"]) simp
  show ?thesis
    using assms(1) config_failure_keeps [OF assms(2), of env r] same
    by (cases "rs_type r") (auto simp: unhelpful_def response_failed_def handleOmciMibDownloadMessage_def
        handleOmciMibDownloadCreateResponseMessage_def handleOmciMibDownloadSetResponseMessage_def)
qed

lemma unhelpful_messages:
  assumes "list_all (unhelpful (md_pLastTxMeInstance s)) ms" "pOnuDeviceEntry (md_cc s)"
  shows "\<exists>cc. processMibDownloadMessages env ms s = Done (s\<lparr>md_cc := cc\<rparr>)"
  using assms
proof (induction ms arbitrary: s)
  case Nil
  then show ?case by (intro exI [of _ "md_cc s"]) simp
next
  case (Cons m ms)
  show ?case
  proof (cases m)
    case (DlOmci r)
    then obtain cc where cc: "handleOmciMibDownloadMessage env r s = Done (s\<lparr>md_cc := cc\<rparr>)" "pOnuDeviceEntry cc"
      using unhelpful_handled [of s r env] Cons.prems by auto
    then show ?thesis using Cons.IH [of "s\<lparr>md_cc := cc\<rparr>"] Cons.prems DlOmci by simp
  qed (use Cons.IH [of s] Cons.prems in \<open>auto simp: unhelpful_def\<close>)
qed

text \<open>C13: A first request of the download (the GAL profile or the connectivity mode) that the ONU rejects or
  does not answer leaves the machine where it is, with nothing to be done: the reported time-out is
  ignored like a rejection, the events for it are never raised, and a new start is refused.\<close>

theorem rejected_first_request_hangs:
  assumes "md_fsm s = DlStCreatingGal \<or> md_fsm s = DlStSettingOnu2g" "md_tasks s = []" "pOnuDeviceEntry (md_cc s)"
    and "list_all (unhelpful (md_pLastTxMeInstance s)) ms"
  shows "\<exists>s'. dl_step (env, DlMessages ms) s = Done s' \<and> md_fsm s' = md_fsm s \<and> md_tasks s' = [] \<and> md_out s' = md_out s \<and>
    dl_step (env, DlUniLockDone) s' = Done s' \<and> dl_step (env, DlTaskRun i) s' = Done s'"
  using unhelpful_messages [OF assms(4,3), of env] assms(1,2)
  by (auto simp: processUniLockStateDoneEvent_def run_dl_task_def)

theorem rejected_first_request_hangs_witness:
  "\<exists>s'. dl_step (sample_dl_env, DlMessages [DlOmci (gal_ok\<lparr>rs_result := 3\<rparr>), DlTestOther])
      (dl_at DlStCreatingGal sample_cc (Some (272, 1)) True 0 False [] [] 1 0) = Done s' \<and> md_fsm s' = DlStCreatingGal \<and>
    dl_step (sample_dl_env, DlUniLockDone) s' = Done s'"
  using rejected_first_request_hangs [of "dl_at DlStCreatingGal sample_cc (Some (272, 1)) True 0 False [] [] 1 0"
      "[DlOmci (gal_ok\<lparr>rs_result := 3\<rparr>), DlTestOther]" sample_dl_env 0] sample_cc_ok
  by (auto simp: unhelpful_def response_failed_def gal_ok_def me_Success_def me_InstanceExists_def)

subsection \<open>The end is reported once\<close>

definition done_reports :: "mib_dl \<Rightarrow> nat" where
  "done_reports s = length (filter (\<lambda>e. e = DlProcStatusUpdate MibDownloadDone) (md_out s))"

definition reported_once :: "int \<Rightarrow> mib_dl \<Rightarrow> bool" where
  "reported_once b s \<longleftrightarrow> int (done_reports s) \<le> b + (if md_devState s < MibDownloadDone then 0 else 1)"

lemma done_reports_frame [frame_simps]:
  "done_reports (s\<lparr>md_cc := a\<rparr>) = done_reports s" "done_reports (s\<lparr>md_fsm := f\<rparr>) = done_reports s"
  "done_reports (s\<lparr>md_tasks := c\<rparr>) = done_reports s" "done_reports (s\<lparr>md_pLastTxMeInstance := d\<rparr>) = done_reports s"
  "done_reports (s\<lparr>md_sent := n\<rparr>) = done_reports s" "done_reports (s\<lparr>md_waited := n\<rparr>) = done_reports s"
  "done_reports (s\<lparr>md_omciMessageReceived := e\<rparr>) = done_reports s" "done_reports (s\<lparr>md_mibDownloadSuccess := e\<rparr>) = done_reports s"
  by (simp_all add: done_reports_def)

lemma reported_once_frame [frame_simps]:
  "reported_once b (s\<lparr>md_cc := a\<rparr>) = reported_once b s" "reported_once b (s\<lparr>md_fsm := f\<rparr>) = reported_once b s"
  "reported_once b (s\<lparr>md_tasks := c\<rparr>) = reported_once b s" "reported_once b (s\<lparr>md_pLastTxMeInstance := d\<rparr>) = reported_once b s"
  "reported_once b (s\<lparr>md_sent := n\<rparr>) = reported_once b s" "reported_once b (s\<lparr>md_waited := n\<rparr>) = reported_once b s"
  "reported_once b (s\<lparr>md_omciMessageReceived := e\<rparr>) = reported_once b s"
  "reported_once b (s\<lparr>md_mibDownloadSuccess := e\<rparr>) = reported_once b s"
  by (simp_all add: reported_once_def frame_simps)

lemma reported_once_emit [frame_simps]:
  "e \<noteq> DlProcStatusUpdate MibDownloadDone \<Longrightarrow> reported_once b (md_emit e s) = reported_once b s"
  by (simp add: reported_once_def done_reports_def)

lemma transfer_inv [inv_intros]: "reported_once b s \<Longrightarrow> reported_once b (transferSystemEvent ev s)"
  by (auto simp: transferSystemEvent_def reported_once_def done_reports_def MibDownloadDone_def MibDatabaseSync_def DeviceStatusInit_def)

lemma dl_send_inv: "reported_once b s \<Longrightarrow> ensures (dl_send env f s) (\<lambda>(x, s). reported_once b s)"
  unfolding dl_send_def
  by (rule ensures_bind [OF ensures_any]) (auto simp: frame_simps wp_simps Let_def split: sum.splits prod.splits)

lemma dl_enter_inv: "reported_once b s \<Longrightarrow> ensures (dl_enter env st s) (reported_once b)"
proof -
  assume i: "reported_once b s"
  have task: "ensures (bind_run (dl_send env f s) (\<lambda>(failed, s). Done (if failed then md_go t s else s))) (reported_once b)" for f t
    by (rule ensures_bind [OF dl_send_inv [OF i]]) (auto simp: frame_simps wp_simps)
  have down: "reported_once b (enterDownloadedState s)"
    using transfer_inv [OF i, of MibDownloadDone] by (simp add: enterDownloadedState_def SetMibDownloadSuccess_def frame_simps)
  have rest: "reported_once b (enterDLStartingState s)" "reported_once b (enterBridgeInitState s)" "reported_once b (md_enterResettingState s)"
    using i by (auto simp: reported_once_def done_reports_def enterDLStartingState_def enterBridgeInitState_def
        md_enterResettingState_def Let_def)
  show ?thesis
    using i down rest task
    by (cases st) (simp_all add: dl_enter_def enterCreatingGalState_def enterSettingOnu2gState_def ensures_simps(1))
qed

lemma dl_event_inv: "reported_once b s \<Longrightarrow> ensures (dl_event_ignored env ev s) (reported_once b)"
  unfolding dl_event_ignored_def dl_fire_def fsm_event_def
  by (auto simp: wp_simps frame_simps split: option.splits intro!: ensures_mono [OF dl_enter_inv])

lemma wait_keeps_inv: "reported_once b s \<Longrightarrow> ensures (md_waitforOmciResponse env s) (\<lambda>(x, s). reported_once b s)"
  by (auto simp: md_waitforOmciResponse_def Let_def wp_simps frame_simps split: dl_wait.splits option.splits
      intro!: ensures_mono [OF ensures_any])

lemma bridge_request_inv: "reported_once b s \<Longrightarrow> ensures (bridge_request env f s) (\<lambda>(x, s). reported_once b s)"
  unfolding bridge_request_def
  by (rule ensures_bind [OF dl_send_inv]) (auto simp: wp_simps intro: wait_keeps_inv)

lemma bridge_port_inv: "reported_once b s \<Longrightarrow> ensures (bridge_port env p s) (\<lambda>(x, s). reported_once b s)"
  unfolding bridge_port_def
  by (auto simp: wp_simps intro!: ensures_mono [OF bridge_request_inv])

lemma bridge_loop_inv: "reported_once b s \<Longrightarrow> ensures (bridge_loop env ps s) (reported_once b)"
proof (induction ps arbitrary: s)
  case (Cons p ps)
  show ?case
    using Cons by (auto simp: wp_simps intro!: ensures_mono [OF bridge_port_inv] dl_event_inv)
qed (simp add: dl_event_inv)

lemma config_failure_inv: "reported_once b s \<Longrightarrow> ensures (config_failure env m s) (reported_once b)"
  unfolding config_failure_def by (auto simp: wp_simps frame_simps intro!: ensures_mono [OF ensures_any])

lemma dl_message_inv: "reported_once b s \<Longrightarrow> ensures (handleOmciMibDownloadMessage env m s) (reported_once b)"
  by (auto simp: handleOmciMibDownloadMessage_def handleOmciMibDownloadCreateResponseMessage_def
      handleOmciMibDownloadSetResponseMessage_def wp_simps frame_simps intro: config_failure_inv dl_event_inv
      split: omci_response_type.splits)

lemma dl_messages_inv: "reported_once b s \<Longrightarrow> ensures (processMibDownloadMessages env ms s) (reported_once b)"
proof (induction ms arbitrary: s)
  case (Cons m ms)
  then show ?case
    by (auto simp: wp_simps intro: dl_event_inv intro!: ensures_mono [OF dl_message_inv] split: dl_message.splits)
qed (simp add: wp_simps)

text \<open>The operations that set the state of the device back, after which the end may be reported again.\<close>

fun sets_back :: "dl_op \<Rightarrow> bool" where
  "sets_back (DlEntryStop ab ready) = True"
| "sets_back DlMibReset = True"
| "sets_back _ = False"

definition set_backs :: "(dl_env \<times> dl_op) list \<Rightarrow> nat" where
  "set_backs ops = length (filter (\<lambda>(env, op). sets_back op) ops)"

lemma dl_step_inv: "reported_once b s \<Longrightarrow> \<not> sets_back (snd a) \<Longrightarrow> ensures (dl_step a s) (reported_once b)"
proof -
  assume i: "reported_once b s" and n: "\<not> sets_back (snd a)"
  obtain env op where a: "a = (env, op)" by (rule prod.exhaust)
  have st: "ensures (dl_fire env ev s) (\<lambda>(e, s). reported_once b s)" for ev
    using dl_event_inv [OF i, of env ev] by (auto simp: dl_event_ignored_def wp_simps split_def)
  show ?thesis
  proof (cases op)
    case (DlTaskRun n)
    then show ?thesis
      using i by (auto simp: a run_dl_task_def performInitialBridgeSetup_def Let_def wp_simps frame_simps
          intro!: dl_event_inv bridge_loop_inv split: dl_task.splits)
  next
    case DlUniLockDone
    then show ?thesis
      using i by (auto simp: a processUniLockStateDoneEvent_def wp_simps intro!: ensures_mono [OF st] dl_event_inv)
  qed (use i n in \<open>simp_all add: a dl_messages_inv dl_event_inv transfer_inv wp_simps\<close>)
qed

lemma dl_set_back_inv: "reported_once b s \<Longrightarrow> sets_back (snd a) \<Longrightarrow> ensures (dl_step a s) (reported_once (b + 1))"
proof -
  assume i: "reported_once b s" and n: "sets_back (snd a)"
  have "reported_once (b + 1) (s\<lparr>md_devState := DeviceStatusInit\<rparr>)"
    using i by (simp add: reported_once_def done_reports_def split: if_splits)
  then have "reported_once (b + 1) (s\<lparr>md_cc := cc, md_devState := DeviceStatusInit\<rparr>)" for cc
    by (simp add: reported_once_def done_reports_def)
  then show ?thesis using n \<open>reported_once (b + 1) (s\<lparr>md_devState := DeviceStatusInit\<rparr>)\<close>
    by (cases a; cases "snd a") (auto simp: md_Stop_def md_resetDevState_def wp_simps intro: ensures_mono [OF ensures_any])
qed

interpretation mib_dl_reports: run_invariant dl_step "\<lambda>a. \<not> sets_back (snd a)" "reported_once b" for b
  by unfold_locales (rule dl_step_inv)

lemma dl_runs_inv: "reported_once b s \<Longrightarrow> ensures (run_steps dl_step ops s) (reported_once (b + int (set_backs ops)))"
proof (induction ops arbitrary: b s)
  case (Cons a ops)
  show ?case
  proof (cases "sets_back (snd a)")
    case True
    have "ensures (bind_run (dl_step a s) (run_steps dl_step ops)) (reported_once (b + 1 + int (set_backs ops)))"
      by (rule ensures_bind [OF dl_set_back_inv [OF Cons.prems True] Cons.IH])
    then show ?thesis using True by (simp add: set_backs_def split_def add.assoc)
  next
    case False
    have "ensures (bind_run (dl_step a s) (run_steps dl_step ops)) (reported_once (b + int (set_backs ops)))"
      by (rule ensures_bind [OF dl_step_inv [OF Cons.prems False] Cons.IH])
    then show ?thesis using False by (simp add: set_backs_def split_def)
  qed
qed (simp add: wp_simps set_backs_def)

text \<open>C12: Whatever tasks, messages, events, starts and resets of the device state a MIB download sees in any order,
  with any behaviour of channel and ONU, the end of the download is reported to the device handler at most once more
  often than the device state is set back (by a stop of the device entry or a MIB reset of the synchronisation). In
  particular, from any state, it is reported at most once before the next such operation, and not at all
  when it has been reported since the last one.\<close>

theorem download_reported_once:
  "ensures (run_steps dl_step ops (new_mib_dl cc)) (\<lambda>s. done_reports s \<le> 1 + set_backs ops) \<and>
   (set_backs ops = 0 \<longrightarrow> ensures (run_steps dl_step ops s0)
      (\<lambda>s. done_reports s \<le> done_reports s0 + (if md_devState s0 < MibDownloadDone then 1 else 0)))"
proof (intro conjI impI)
  have "reported_once 0 (new_mib_dl cc)" by (simp add: reported_once_def done_reports_def new_mib_dl_def)
  from dl_runs_inv [OF this, of ops]
  show "ensures (run_steps dl_step ops (new_mib_dl cc)) (\<lambda>s. done_reports s \<le> 1 + set_backs ops)"
    by (rule ensures_mono) (auto simp: reported_once_def split: if_splits)
next
  assume n: "set_backs ops = 0"
  have "reported_once (int (done_reports s0) - (if md_devState s0 < MibDownloadDone then 0 else 1)) s0"
    by (simp add: reported_once_def)
  from dl_runs_inv [OF this, of ops] n
  have "ensures (run_steps dl_step ops s0) (reported_once (int (done_reports s0) - (if md_devState s0 < MibDownloadDone then 0 else 1)))"
    by simp
  then show "ensures (run_steps dl_step ops s0)
      (\<lambda>s. done_reports s \<le> done_reports s0 + (if md_devState s0 < MibDownloadDone then 1 else 0))"
    by (rule ensures_mono) (auto simp: reported_once_def split: if_splits)
qed

text \<open>After a stop of the entry the end is reported a second time, without it the second event is dropped.\<close>

theorem download_reported_once_witness:
  "\<exists>s1 s2. run_steps dl_step [(sample_dl_env, DlSystemEvent MibDownloadDone), (sample_dl_env, DlSystemEvent MibDownloadDone)]
      (new_mib_dl sample_cc) = Done s1 \<and> done_reports s1 = 1 \<and>
    run_steps dl_step [(sample_dl_env, DlEntryStop False (\<lambda>t. True)), (sample_dl_env, DlSystemEvent MibDownloadDone)] s1 = Done s2 \<and>
    done_reports s2 = 2"
proof -
  let ?ops = "[(sample_dl_env, DlSystemEvent MibDownloadDone), (sample_dl_env, DlSystemEvent MibDownloadDone)]"
  let ?s1 = "(new_mib_dl sample_cc)\<lparr>md_devState := 3, md_out := [DlProcStatusUpdate 3]\<rparr>"
  let ?s2 = "?s1\<lparr>md_out := [DlProcStatusUpdate 3, DlProcStatusUpdate 3]\<rparr>"
  have r: "run_steps dl_step ?ops (new_mib_dl sample_cc) = Done ?s1"
    "run_steps dl_step [(sample_dl_env, DlEntryStop False (\<lambda>t. True)), (sample_dl_env, DlSystemEvent MibDownloadDone)] ?s1 = Done ?s2"
    by (simp_all add: transferSystemEvent_def MibDownloadDone_def MibDatabaseSync_def new_mib_dl_def DeviceStatusInit_def md_Stop_def)
  moreover have "done_reports ?s1 \<le> 1"
    using download_reported_once [of ?ops sample_cc "new_mib_dl sample_cc"] r(1)
    by (simp add: set_backs_def ensures_def done_reports_def new_mib_dl_def MibDownloadDone_def DeviceStatusInit_def)
  ultimately show ?thesis
    by (intro exI [of _ ?s1] exI [of _ ?s2]) (simp add: done_reports_def MibDownloadDone_def)
qed

end
