(* ===== verification/Onu_Entry.thy ===== *)
theory Onu_Entry
  imports Vlan_Cfg Common_Utils
begin

text \<open>
  The persistent data of the device entry (\<^verbatim>\<open>onu_device_entry.go\<close>, parts of \<^verbatim>\<open>mib_sync.go\<close>): what the
  adapter remembers of an ONU across restarts and writes to a key-value store, the two software images the
  ONU reports, and the retrieval of technology profiles from the parent adapter before a reconcilement.

  The key-value store and the parent adapter are arguments. The mutexes of the persistent data and of the
  profile instances are flags of the state, since one path returns with both held. The slice of flows is
  modelled with the array behind it, which the code shifts while it ranges over it.
\<close>

subsection \<open>Data\<close>

record uniPersConfig =
  PersUniID :: u8
  PersTpPathMap :: "(u8 \<times> string) list option"
  PersFlowParams :: "UniVlanFlowParams list"

record onuPersistentData =
  PersTcontMap :: "(u16 \<times> u16) list"
  PersSerialNumber :: string
  PersMacAddress :: string
  PersVendorID :: string
  PersVersion :: string
  PersEquipmentID :: string
  PersActiveSwVersion :: string
  PersAdminState :: string
  PersOperState :: string
  PersUniConfig :: "uniPersConfig list"
  PersMibAuditInterval :: int
  PersAlarmAuditInterval :: int
  PersOnuID :: u32
  PersIntfID :: u32
  PersMibLastDbSync :: u32
  PersIsExtOmciSupported :: bool
  PersUniUnlockDone :: bool
  PersUniDisableDone :: bool
  PersRebootInProgress :: bool
  PersMibDataSyncAdpt :: u8

definition initial_pers :: "int \<Rightarrow> int \<Rightarrow> onuPersistentData" where
  "initial_pers mibAuditInterval alarmAuditInterval =
     \<lparr> PersTcontMap = [], PersSerialNumber = [], PersMacAddress = [], PersVendorID = [], PersVersion = [],
       PersEquipmentID = [], PersActiveSwVersion = [], PersAdminState = [], PersOperState = [], PersUniConfig = [],
       PersMibAuditInterval = mibAuditInterval, PersAlarmAuditInterval = alarmAuditInterval, PersOnuID = 0, PersIntfID = 0,
       PersMibLastDbSync = 0, PersIsExtOmciSupported = False, PersUniUnlockDone = False, PersUniDisableDone = False,
       PersRebootInProgress = False, PersMibDataSyncAdpt = 0 \<rparr>"

record SEntrySwImageIndication =
  sw_Version :: string
  sw_EntityID :: u16
  sw_Valid :: bool
  sw_IsCommitted :: u8

record SswImageIndications =
  ActiveEntityEntry :: SEntrySwImageIndication
  InActiveEntityEntry :: SEntrySwImageIndication

record onu_entry =
  oe_pers :: onuPersistentData
  oe_persLocked :: bool
  oe_reconLocked :: bool
  oe_ReconciledTpInstances :: "(u8 \<times> (u8 \<times> nat) list) list"
  oe_sw :: SswImageIndications
  oe_mibAuditInterval :: int
  oe_alarmAuditInterval :: int
  oe_hasStore :: bool

text \<open>A section under \<^verbatim>\<open>MutexPersOnuConfig\<close>.\<close>

definition pers_section :: "('z onu_entry_scheme \<Rightarrow> 'a run) \<Rightarrow> 'z onu_entry_scheme \<Rightarrow> 'a run" where
  "pers_section f s = (if oe_persLocked s then Deadlock else f s)"

definition on_pers :: "(onuPersistentData \<Rightarrow> onuPersistentData) \<Rightarrow> 'z onu_entry_scheme \<Rightarrow> 'z onu_entry_scheme run" where
  "on_pers f = pers_section (\<lambda>s. Done (s\<lparr>oe_pers := f (oe_pers s)\<rparr>))"

definition IsNewOnu :: "'z onu_entry_scheme \<Rightarrow> bool run" where
  "IsNewOnu = pers_section (\<lambda>s. Done (PersMibLastDbSync (oe_pers s) = 0))"

definition SetPersActiveSwVersion :: "string \<Rightarrow> 'z onu_entry_scheme \<Rightarrow> 'z onu_entry_scheme run" where
  "SetPersActiveSwVersion v = on_pers (\<lambda>d. d\<lparr>PersActiveSwVersion := v\<rparr>)"

subsection \<open>The MIB data sync counter\<close>

text \<open>0 is reserved for a reset MIB.\<close>

definition next_mds :: "u8 \<Rightarrow> u8" where
  "next_mds v = (if v < 255 then v + 1 else 1)"

definition IncrementMibDataSync :: "'z onu_entry_scheme \<Rightarrow> 'z onu_entry_scheme run" where
  "IncrementMibDataSync = on_pers (\<lambda>d. d\<lparr>PersMibDataSyncAdpt := next_mds (PersMibDataSyncAdpt d)\<rparr>)"

subsection \<open>Software images\<close>

definition FirstSwImageMeID :: u16 where "FirstSwImageMeID = 0"
definition SecondSwImageMeID :: u16 where "SecondSwImageMeID = 1"
definition SwIsUncommitted :: u8 where "SwIsUncommitted = 0"
definition SwIsActive :: u8 where "SwIsActive = 1"

definition GetActiveImageMeID :: "'z onu_entry_scheme \<Rightarrow> string + u16" where
  "GetActiveImageMeID s =
     (if sw_Valid (ActiveEntityEntry (oe_sw s)) then Inr (sw_EntityID (ActiveEntityEntry (oe_sw s)))
      else Inl ''no valid active image found'')"

definition GetInactiveImageMeID :: "'z onu_entry_scheme \<Rightarrow> string + u16" where
  "GetInactiveImageMeID s =
     (if sw_Valid (InActiveEntityEntry (oe_sw s)) then Inr (sw_EntityID (InActiveEntityEntry (oe_sw s)))
      else Inl ''no valid inactive image found'')"

definition IsImageToBeCommitted :: "u16 \<Rightarrow> 'z onu_entry_scheme \<Rightarrow> bool" where
  "IsImageToBeCommitted aImageID s \<longleftrightarrow>
     sw_Valid (ActiveEntityEntry (oe_sw s)) \<and> sw_EntityID (ActiveEntityEntry (oe_sw s)) = aImageID \<and>
     sw_IsCommitted (ActiveEntityEntry (oe_sw s)) = SwIsUncommitted"

definition GetActiveImageVersion :: "'z onu_entry_scheme \<Rightarrow> string" where
  "GetActiveImageVersion s =
     (if sw_Valid (ActiveEntityEntry (oe_sw s)) then sw_Version (ActiveEntityEntry (oe_sw s)) else [])"

definition GetInactiveImageVersion :: "'z onu_entry_scheme \<Rightarrow> string" where
  "GetInactiveImageVersion s =
     (if sw_Valid (InActiveEntityEntry (oe_sw s)) then sw_Version (InActiveEntityEntry (oe_sw s)) else [])"

definition ModifySwImageInactiveVersion :: "string \<Rightarrow> 'z onu_entry_scheme \<Rightarrow> 'z onu_entry_scheme" where
  "ModifySwImageInactiveVersion v s =
     s\<lparr>oe_sw := oe_sw s\<lparr>InActiveEntityEntry := InActiveEntityEntry (oe_sw s)\<lparr>sw_Version := v\<rparr>\<rparr>\<rparr>"

definition ModifySwImageActiveCommit :: "u8 \<Rightarrow> 'z onu_entry_scheme \<Rightarrow> 'z onu_entry_scheme" where
  "ModifySwImageActiveCommit c s =
     s\<lparr>oe_sw := oe_sw s\<lparr>ActiveEntityEntry := ActiveEntityEntry (oe_sw s)\<lparr>sw_IsCommitted := c\<rparr>\<rparr>\<rparr>"

text \<open>The report of the first image is taken as it is and invalidates what is known of the other; the report
  of the second gives way to the first where they conflict.\<close>

definition first_image :: "string \<Rightarrow> u8 \<Rightarrow> u8 \<Rightarrow> SswImageIndications \<Rightarrow> SswImageIndications" where
  "first_image version isActive isCommitted sw =
     (let e = \<lparr> sw_Version = version, sw_EntityID = FirstSwImageMeID, sw_Valid = True, sw_IsCommitted = isCommitted \<rparr> in
      if isActive = SwIsActive
      then sw\<lparr>ActiveEntityEntry := e, InActiveEntityEntry := InActiveEntityEntry sw\<lparr>sw_Valid := False\<rparr>\<rparr>
      else sw\<lparr>InActiveEntityEntry := e, ActiveEntityEntry := ActiveEntityEntry sw\<lparr>sw_Valid := False\<rparr>\<rparr>)"

definition second_image :: "string \<Rightarrow> u8 \<Rightarrow> u8 \<Rightarrow> SswImageIndications \<Rightarrow> SswImageIndications" where
  "second_image version isActive isCommitted sw =
     (let e = \<lparr> sw_Version = version, sw_EntityID = SecondSwImageMeID, sw_Valid = True, sw_IsCommitted = isCommitted \<rparr> in
      if isActive = SwIsActive then
        (if sw_Valid (ActiveEntityEntry sw) then sw\<lparr>InActiveEntityEntry := e\<rparr> else sw\<lparr>ActiveEntityEntry := e\<rparr>)
      else
        let sw = (if sw_Valid (InActiveEntityEntry sw)
              then sw\<lparr>ActiveEntityEntry := \<lparr> sw_Version = sw_Version (InActiveEntityEntry sw), sw_EntityID = FirstSwImageMeID,
                     sw_Valid = True, sw_IsCommitted = sw_IsCommitted (InActiveEntityEntry sw) \<rparr>\<rparr>
              else sw)
        in sw\<lparr>InActiveEntityEntry := e\<rparr>)"

subsection \<open>Profile paths and flows\<close>

text \<open>The first entry of the UNI, or none.\<close>

fun update_uni :: "u8 \<Rightarrow> (uniPersConfig \<Rightarrow> 'a \<times> uniPersConfig) \<Rightarrow> uniPersConfig list \<Rightarrow> ('a \<times> uniPersConfig list) option" where
  "update_uni u f [] = None"
| "update_uni u f (c # cs) =
     (if PersUniID c = u then (case f c of (x, c) \<Rightarrow> Some (x, c # cs))
      else (case update_uni u f cs of None \<Rightarrow> None | Some (x, cs) \<Rightarrow> Some (x, c # cs)))"

definition StoreOnuUniTpPath :: "u8 \<Rightarrow> u8 \<Rightarrow> string \<Rightarrow> 'z onu_entry_scheme \<Rightarrow> 'z onu_entry_scheme run" where
  "StoreOnuUniTpPath aUniID aTpID aPathString = on_pers (\<lambda>d.
     case update_uni aUniID (\<lambda>c. ((), c\<lparr>PersTpPathMap := Some (AList.update aTpID aPathString
            (case PersTpPathMap c of None \<Rightarrow> [] | Some m \<Rightarrow> m))\<rparr>)) (PersUniConfig d) of
       Some ((), cs) \<Rightarrow> d\<lparr>PersUniConfig := cs\<rparr>
     | None \<Rightarrow> d\<lparr>PersUniConfig := PersUniConfig d @
         [\<lparr> PersUniID = aUniID, PersTpPathMap = Some [(aTpID, aPathString)], PersFlowParams = [] \<rparr>]\<rparr>)"

text \<open>What an update of a path does: nothing known of the UNI, no change (with the path that is set), a
  change, or a write to a nil map.\<close>

datatype path_update = PathSame string | PathChanged | PathNilMap

definition set_path :: "u8 \<Rightarrow> string \<Rightarrow> uniPersConfig \<Rightarrow> path_update \<times> uniPersConfig" where
  "set_path aTpID aPathString c =
     (let m = (case PersTpPathMap c of None \<Rightarrow> [] | Some m \<Rightarrow> m);
          existingPath = (case map_of m aTpID of None \<Rightarrow> [] | Some p \<Rightarrow> p) in
      if existingPath \<noteq> aPathString then
        (if PersTpPathMap c = None then (PathNilMap, c)
         else (PathChanged, c\<lparr>PersTpPathMap := Some (AList.update aTpID aPathString m)\<rparr>))
      else (PathSame existingPath, c))"

text \<open>The result is \<open>True\<close> for a change; the second says whether the waiting flows are to be verified.\<close>

definition UpdateOnuUniTpPath ::
    "u8 \<Rightarrow> u8 \<Rightarrow> string \<Rightarrow> 'z onu_entry_scheme \<Rightarrow> (bool \<times> bool \<times> 'z onu_entry_scheme) run" where
  "UpdateOnuUniTpPath aUniID aTpID aPathString = pers_section (\<lambda>s.
     let d = oe_pers s in
     case update_uni aUniID (set_path aTpID aPathString) (PersUniConfig d) of
       Some (PathNilMap, cs) \<Rightarrow> Fatal ''assignment to entry in nil map''
     | Some (PathChanged, cs) \<Rightarrow> Done (True, False, s\<lparr>oe_pers := d\<lparr>PersUniConfig := cs\<rparr>\<rparr>)
     | Some (PathSame p, cs) \<Rightarrow> Done (False, p \<noteq> [], s)
     | None \<Rightarrow>
         if aPathString = [] then Done (False, False, s)
         else Done (True, False, s\<lparr>oe_pers := d\<lparr>PersUniConfig := PersUniConfig d @
           [\<lparr> PersUniID = aUniID, PersTpPathMap = Some [(aTpID, aPathString)], PersFlowParams = [] \<rparr>]\<rparr>\<rparr>))"

definition UpdateOnuUniFlowConfig :: "u8 \<Rightarrow> UniVlanFlowParams list \<Rightarrow> 'z onu_entry_scheme \<Rightarrow> 'z onu_entry_scheme run" where
  "UpdateOnuUniFlowConfig aUniID flows = on_pers (\<lambda>d.
     case update_uni aUniID (\<lambda>c. ((), c\<lparr>PersFlowParams := flows\<rparr>)) (PersUniConfig d) of
       Some ((), cs) \<Rightarrow> d\<lparr>PersUniConfig := cs\<rparr>
     | None \<Rightarrow> d\<lparr>PersUniConfig := PersUniConfig d @
         [\<lparr> PersUniID = aUniID, PersTpPathMap = Some [], PersFlowParams = flows \<rparr>]\<rparr>)"

subsection \<open>The key-value store of the ONU\<close>

text \<open>What is written: the response channel of a flow is not part of the record.\<close>

definition marshalled :: "onuPersistentData \<Rightarrow> onuPersistentData" where
  "marshalled d =
     d\<lparr>PersUniConfig := map (\<lambda>c. c\<lparr>PersFlowParams := map (\<lambda>f. f\<lparr>RespChan := None\<rparr>) (PersFlowParams c)\<rparr>) (PersUniConfig d)\<rparr>"

text \<open>A read: error, nothing, the data, or a text that cannot be decoded completely.\<close>

datatype pers_value = PvError | PvAbsent | PvData onuPersistentData | PvBad onuPersistentData

record store_env =
  se_get :: pers_value
  se_put :: "onuPersistentData \<Rightarrow> string option"
  se_delete :: "string option"
  se_handlerExists :: bool
  se_deletionInProgress :: bool
  se_onuIndication :: "(u32 \<times> u32 \<times> string \<times> string) option"

definition RestoreDataFromOnuKvStore :: "store_env \<Rightarrow> 'z onu_entry_scheme \<Rightarrow> (string option \<times> 'z onu_entry_scheme) run" where
  "RestoreDataFromOnuKvStore env s =
     (if \<not> oe_hasStore s then Done (Some ''onuKVStore-not-set-abort'', s)
      else pers_section (\<lambda>s.
        let s = s\<lparr>oe_pers := initial_pers (oe_mibAuditInterval s) (oe_alarmAuditInterval s)\<rparr> in
        case se_get env of
          PvData d \<Rightarrow> Done (None, s\<lparr>oe_pers := d\<rparr>)
        | PvBad d \<Rightarrow> Done (Some ''unable-to-unmarshal-ONU-data'', s\<lparr>oe_pers := d\<rparr>)
        | PvAbsent \<Rightarrow> Done (Some ''no-ONU-data-found'', s)
        | PvError \<Rightarrow> Done (Some ''unable-to-read-from-KVstore'', s)) s)"

definition deletePersistentData :: "store_env \<Rightarrow> 'z onu_entry_scheme \<Rightarrow> (string option \<times> 'z onu_entry_scheme) run" where
  "deletePersistentData env = pers_section (\<lambda>s.
     Done (se_delete env, s\<lparr>oe_pers := initial_pers (oe_mibAuditInterval s) (oe_alarmAuditInterval s)\<rparr>))"

definition DeleteDataFromOnuKvStore :: "store_env \<Rightarrow> 'z onu_entry_scheme \<Rightarrow> (string option \<times> 'z onu_entry_scheme) run" where
  "DeleteDataFromOnuKvStore env s =
     (if \<not> oe_hasStore s then Done (Some ''onu-data delete aborted: onuKVStore not set'', s) else deletePersistentData env s)"

definition storeDataInOnuKvStore :: "store_env \<Rightarrow> 'z onu_entry_scheme \<Rightarrow> (string option \<times> 'z onu_entry_scheme) run" where
  "storeDataInOnuKvStore env = pers_section (\<lambda>s.
     if \<not> se_handlerExists env \<or> se_deletionInProgress env then Done (None, s)
     else case se_onuIndication env of
       None \<Rightarrow> Done (Some ''onuIndication not set, unable to load ONU-data'', s)
     | Some (onuId, intfId, adminState, operState) \<Rightarrow>
         let s = s\<lparr>oe_pers := (oe_pers s)\<lparr>PersOnuID := onuId, PersIntfID := intfId, PersAdminState := adminState,
               PersOperState := operState\<rparr>\<rparr>
         in Done (se_put env (marshalled (oe_pers s)), s))"

text \<open>The last result says whether the failure event was raised.\<close>

definition UpdateOnuKvStore :: "store_env \<Rightarrow> 'z onu_entry_scheme \<Rightarrow> (string option \<times> bool \<times> 'z onu_entry_scheme) run" where
  "UpdateOnuKvStore env s =
     (if \<not> oe_hasStore s then Done (Some ''onu-data update aborted: onuKVStore not set'', False, s)
      else bind_run (storeDataInOnuKvStore env s) (\<lambda>(err, s). Done (err, err \<noteq> None, s)))"

subsection \<open>Technology profiles of the parent adapter\<close>

text \<open>How an attempt to get a profile instance ends, and whether the device context ends while the next
  attempt is awaited.\<close>

datatype tp_reply = TpError | TpMissing | TpInstance nat

record parent_env =
  pe_reply :: "u8 \<Rightarrow> string \<Rightarrow> nat \<Rightarrow> tp_reply"
  pe_deviceDone :: "u8 \<Rightarrow> string \<Rightarrow> nat \<Rightarrow> bool"

definition maxRetries :: nat where "maxRetries = 3"

fun tp_retry :: "parent_env \<Rightarrow> u8 \<Rightarrow> string \<Rightarrow> nat \<Rightarrow> nat \<Rightarrow> tp_reply option" where
  "tp_retry env uniID tpPath n 0 = Some TpError"
| "tp_retry env uniID tpPath n (Suc k) =
     (if pe_deviceDone env uniID tpPath n then None
      else if pe_reply env uniID tpPath n = TpError then tp_retry env uniID tpPath (Suc n) k
      else Some (pe_reply env uniID tpPath n))"

definition fetch_tp :: "parent_env \<Rightarrow> u8 \<Rightarrow> string \<Rightarrow> tp_reply option" where
  "fetch_tp env uniID tpPath =
     (if pe_reply env uniID tpPath 0 = TpError then tp_retry env uniID tpPath 1 maxRetries
      else Some (pe_reply env uniID tpPath 0))"

text \<open>The deletion of the flows of a profile: the range goes over the array \<open>arr\<close> as it is shifted; the slice
  has \<open>k\<close> elements, or is an empty slice of its own (\<open>None\<close>).\<close>

definition slice_panic :: "'a run" where
  "slice_panic = Fatal ''slice bounds out of range''"

fun drop_flows_loop :: "u8 \<Rightarrow> nat \<Rightarrow> nat \<Rightarrow> UniVlanFlowParams list \<Rightarrow> nat option \<Rightarrow> UniVlanFlowParams list run" where
  "drop_flows_loop tpID 0 i arr k = Done (case k of None \<Rightarrow> [] | Some k \<Rightarrow> take k arr)"
| "drop_flows_loop tpID (Suc n) i arr k =
     (if TpID (VlanRuleParams (arr ! i)) = tpID then
        (case k of
           None \<Rightarrow> slice_panic
         | Some k \<Rightarrow>
             if k = 1 then drop_flows_loop tpID n (Suc i) arr None
             else if k < Suc i then slice_panic
             else drop_flows_loop tpID n (Suc i) (take i arr @ drop (Suc i) (take k arr) @ drop (k - 1) arr) (Some (k - 1)))
      else drop_flows_loop tpID n (Suc i) arr k)"

definition drop_flows :: "u8 \<Rightarrow> UniVlanFlowParams list \<Rightarrow> UniVlanFlowParams list run" where
  "drop_flows tpID flows = drop_flows_loop tpID (length flows) 0 flows (Some (length flows))"

text \<open>One path of one UNI: the instances found so far, whether all were present, the configuration.
  \<open>None\<close> when the device context ended.\<close>

type_synonym tp_found = "(u8 \<times> nat) list \<times> bool \<times> uniPersConfig"

definition retrieve_path :: "parent_env \<Rightarrow> u8 \<times> string \<Rightarrow> tp_found \<Rightarrow> tp_found option run" where
  "retrieve_path env tp r =
     (let (insts, allPresent, c) = r; (tpID, tpPath) = tp in
      if tpPath = [] then Done (Some r)
      else case fetch_tp env (PersUniID c) tpPath of
        None \<Rightarrow> Done None
      | Some (TpInstance t) \<Rightarrow> Done (Some (AList.update tpID t insts, allPresent, c))
      | Some _ \<Rightarrow>
          bind_run (drop_flows tpID (PersFlowParams c)) (\<lambda>flows.
            Done (Some (insts, False, c\<lparr>PersTpPathMap := map_option (AList.delete tpID) (PersTpPathMap c), PersFlowParams := flows\<rparr>))))"

fun retrieve_paths :: "parent_env \<Rightarrow> (u8 \<times> string) list \<Rightarrow> tp_found \<Rightarrow> (bool \<times> tp_found) run" where
  "retrieve_paths env [] r = Done (False, r)"
| "retrieve_paths env (tp # tps) r =
     bind_run (retrieve_path env tp r) (\<lambda>o1. case o1 of None \<Rightarrow> Done (True, r) | Some r \<Rightarrow> retrieve_paths env tps r)"

fun retrieve_unis :: "parent_env \<Rightarrow> uniPersConfig list \<Rightarrow> (u8 \<times> (u8 \<times> nat) list) list \<Rightarrow> bool \<Rightarrow>
    (bool \<times> uniPersConfig list \<times> (u8 \<times> (u8 \<times> nat) list) list \<times> bool) run" where
  "retrieve_unis env [] found allPresent = Done (False, [], found, allPresent)"
| "retrieve_unis env (c # cs) found allPresent =
     bind_run (retrieve_paths env (case PersTpPathMap c of None \<Rightarrow> [] | Some m \<Rightarrow> m) ([], allPresent, c)) (\<lambda>(aborted, insts, allPresent, c).
       let found = AList.update (PersUniID c) insts found in
       if aborted then Done (True, c # cs, found, allPresent)
       else bind_run (retrieve_unis env cs found allPresent) (\<lambda>(aborted, cs, found, allPresent).
         Done (aborted, c # cs, found, allPresent)))"

text \<open>When the device context ends, the function returns \<open>False\<close> with both mutexes held.\<close>

definition getAllStoredTpInstFromParentAdapter ::
    "parent_env \<Rightarrow> 'z onu_entry_scheme \<Rightarrow> (bool \<times> 'z onu_entry_scheme) run" where
  "getAllStoredTpInstFromParentAdapter env = pers_section (\<lambda>s.
     if oe_reconLocked s then Deadlock
     else bind_run (retrieve_unis env (PersUniConfig (oe_pers s)) (oe_ReconciledTpInstances s) True)
       (\<lambda>(aborted, cs, found, allPresent).
         Done (\<not> aborted \<and> allPresent,
           s\<lparr>oe_pers := (oe_pers s)\<lparr>PersUniConfig := cs\<rparr>, oe_ReconciledTpInstances := found,
             oe_persLocked := aborted, oe_reconLocked := aborted\<rparr>)))"


subsection \<open>What holds\<close>

lemma on_pers_free: "\<not> oe_persLocked s \<Longrightarrow> on_pers f s = Done (s\<lparr>oe_pers := f (oe_pers s)\<rparr>)"
  by (simp add: on_pers_def pers_section_def)

lemma next_mds_mod: "unat (next_mds v) = unat v mod 255 + 1"
proof (cases "v < 255")
  case True
  then have "unat v < 255" by (simp add: word_less_nat_alt)
  then show ?thesis using True by (simp add: next_mds_def unat_word_ariths)
next
  case False
  then have "unat v = 255" using unat_u8_lt [of v] by (simp add: word_less_nat_alt)
  then show ?thesis using False by (simp add: next_mds_def)
qed

lemma unat_pos: "unat (w :: u8) = k + 1 \<Longrightarrow> w \<noteq> 0"
  by auto

text \<open>The counter by which adapter and ONU compare their MIBs: after \<open>n + 1\<close> configuration changes it has advanced
  by that number in the cycle 1, ..., 255, as the ONU counts; in particular it is never 0 again, the value of a reset
  MIB, and no other persistent data has changed.\<close>

theorem mib_data_sync_cycles:
  assumes "\<not> oe_persLocked s"
  shows "\<exists>v. run_steps (\<lambda>_. IncrementMibDataSync) (replicate (Suc n) ()) s =
       Done (s\<lparr>oe_pers := (oe_pers s)\<lparr>PersMibDataSyncAdpt := v\<rparr>\<rparr>) \<and>
     unat v = (unat (PersMibDataSyncAdpt (oe_pers s)) + n) mod 255 + 1 \<and> v \<noteq> 0"
proof (induction n)
  case 0
  show ?case using assms unat_pos [OF next_mds_mod] by (auto simp: IncrementMibDataSync_def on_pers_free next_mds_mod)
next
  case (Suc n)
  then obtain v where v: "run_steps (\<lambda>_. IncrementMibDataSync) (replicate (Suc n) ()) s =
       Done (s\<lparr>oe_pers := (oe_pers s)\<lparr>PersMibDataSyncAdpt := v\<rparr>\<rparr>)"
     "unat v = (unat (PersMibDataSyncAdpt (oe_pers s)) + n) mod 255 + 1" by blast
  let ?w = "next_mds v"
  have w: "unat ?w = (unat (PersMibDataSyncAdpt (oe_pers s)) + Suc n) mod 255 + 1"
    unfolding next_mds_mod v(2) by (simp add: mod_Suc_eq)
  then have "?w \<noteq> 0" by (rule unat_pos)
  moreover have "replicate (Suc (Suc n)) () = replicate (Suc n) () @ [()]" by (simp add: replicate_append_same)
  then have r: "run_steps (\<lambda>_. IncrementMibDataSync) (replicate (Suc (Suc n)) ()) s =
      bind_run (run_steps (\<lambda>_. IncrementMibDataSync) (replicate (Suc n) ()) s) (run_steps (\<lambda>_. IncrementMibDataSync) [()])"
    by (simp only: run_steps_append)
  moreover have "run_steps (\<lambda>_. IncrementMibDataSync) (replicate (Suc (Suc n)) ()) s =
      Done (s\<lparr>oe_pers := (oe_pers s)\<lparr>PersMibDataSyncAdpt := ?w\<rparr>\<rparr>)"
    unfolding r v(1) using assms by (simp add: IncrementMibDataSync_def on_pers_free)
  ultimately show ?case using w by blast
qed

text \<open>After the ONU has reported both of its software images, the adapter holds exactly one active and one
  inactive image, with the version and commit state reported for them: the second image counts as active only if it
  reports so and the first does not. Conflicting reports, two active or two inactive images, are settled in favour
  of the first.\<close>

theorem images_settled:
  fixes v1 v2 :: string
  shows "let sw = second_image v2 a2 c2 (first_image v1 a1 c1 sw0);
      e1 = \<lparr> sw_Version = v1, sw_EntityID = 0, sw_Valid = True, sw_IsCommitted = c1 \<rparr>;
      e2 = \<lparr> sw_Version = v2, sw_EntityID = 1, sw_Valid = True, sw_IsCommitted = c2 \<rparr>
    in if a2 = SwIsActive \<and> a1 \<noteq> SwIsActive
       then ActiveEntityEntry sw = e2 \<and> InActiveEntityEntry sw = e1
       else ActiveEntityEntry sw = e1 \<and> InActiveEntityEntry sw = e2"
  by (simp add: second_image_def first_image_def FirstSwImageMeID_def SecondSwImageMeID_def Let_def)


text \<open>The path stored for a profile of a UNI.\<close>

definition uni_path :: "uniPersConfig \<Rightarrow> u8 \<Rightarrow> string" where
  "uni_path c t = (case PersTpPathMap c of None \<Rightarrow> [] | Some m \<Rightarrow> (case map_of m t of None \<Rightarrow> [] | Some p \<Rightarrow> p))"

definition stored_path :: "onuPersistentData \<Rightarrow> u8 \<Rightarrow> u8 \<Rightarrow> string" where
  "stored_path d u t = (case List.find (\<lambda>c. PersUniID c = u) (PersUniConfig d) of None \<Rightarrow> [] | Some c \<Rightarrow> uni_path c t)"

lemma set_path_eq:
  "set_path t p c =
     (if uni_path c t = p then (PathSame p, c)
      else case PersTpPathMap c of None \<Rightarrow> (PathNilMap, c)
        | Some m \<Rightarrow> (PathChanged, c\<lparr>PersTpPathMap := Some (AList.update t p m)\<rparr>))"
  by (auto simp: set_path_def uni_path_def Let_def split: option.splits)

lemma set_path_cases:
  obtains "fst (set_path t p c) = PathNilMap"
  | "fst (set_path t p c) = PathSame p" "uni_path c t = p"
  | "fst (set_path t p c) = PathChanged" "uni_path c t \<noteq> p"
    "\<forall>t'. uni_path (snd (set_path t p c)) t' = (if t' = t then p else uni_path c t')"
proof (cases "uni_path c t = p")
  case True
  then show thesis by (intro that(2)) (simp_all add: set_path_eq)
next
  case False
  show thesis
  proof (cases "PersTpPathMap c")
    case None
    then show thesis using False by (intro that(1)) (simp add: set_path_eq)
  next
    case (Some m)
    then show thesis using False by (intro that(3)) (simp_all add: set_path_eq, simp_all add: uni_path_def)
  qed
qed

lemma update_uni_None: "update_uni u f cs = None \<longleftrightarrow> List.find (\<lambda>c. PersUniID c = u) cs = None"
  by (induction cs) (auto split: option.splits prod.splits)

lemma update_uni_Some:
  assumes "update_uni u f cs = Some (x, cs')" "\<And>c. PersUniID (snd (f c)) = PersUniID c"
  shows "\<exists>c. List.find (\<lambda>c. PersUniID c = u) cs = Some c \<and> x = fst (f c) \<and>
    (\<forall>v. List.find (\<lambda>c. PersUniID c = v) cs' =
       (if v = u then Some (snd (f c)) else List.find (\<lambda>c. PersUniID c = v) cs))"
  using assms
proof (induction cs arbitrary: cs')
  case (Cons c cs)
  show ?case
  proof (cases "PersUniID c = u")
    case True
    obtain y d where d: "f c = (y, d)" by (rule prod.exhaust)
    then have "PersUniID d = u" using Cons.prems(2) [of c] True by simp
    with Cons.prems(1) True d show ?thesis by (auto simp: d)
  next
    case False
    then obtain ds where "update_uni u f cs = Some (x, ds)" "cs' = c # ds"
      using Cons.prems(1) by (auto split: option.splits prod.splits)
    with Cons.IH [of ds] Cons.prems(2) False show ?thesis by auto
  qed
qed simp

lemma find_append: "List.find P (xs @ ys) = (case List.find P xs of Some x \<Rightarrow> Some x | None \<Rightarrow> List.find P ys)"
  by (induction xs) auto

text \<open>Storing a profile path: an update that returns leaves the given path for this profile of this UNI (the empty
  path for a deletion), leaves every other profile and UNI as it was, and reports a change exactly if the path was
  different before.\<close>

theorem tp_path_updated:
  assumes "UpdateOnuUniTpPath u t p s = Done (changed, verify, s')"
  shows "(\<forall>u' t'. stored_path (oe_pers s') u' t' = (if u' = u \<and> t' = t then p else stored_path (oe_pers s) u' t')) \<and>
     (changed \<longleftrightarrow> stored_path (oe_pers s) u t \<noteq> p)"
proof (cases "update_uni u (set_path t p) (PersUniConfig (oe_pers s))")
  case None
  then have "stored_path (oe_pers s) u t' = []" for t' by (simp add: stored_path_def update_uni_None)
  moreover have "(p = [] \<longrightarrow> s' = s \<and> \<not> changed) \<and> (p \<noteq> [] \<longrightarrow> changed \<and> oe_pers s' = (oe_pers s)\<lparr>PersUniConfig :=
      PersUniConfig (oe_pers s) @ [\<lparr> PersUniID = u, PersTpPathMap = Some [(t, p)], PersFlowParams = [] \<rparr>]\<rparr>)"
    using None assms by (auto simp: UpdateOnuUniTpPath_def pers_section_def Let_def split: if_splits)
  ultimately show ?thesis
    using None by (cases "p = []") (auto simp: update_uni_None stored_path_def uni_path_def find_append split: option.splits)
next
  case (Some r)
  obtain x cs where r: "update_uni u (set_path t p) (PersUniConfig (oe_pers s)) = Some (x, cs)" using Some by (cases r) auto
  have k: "PersUniID (snd (set_path t p c)) = PersUniID c" for c by (simp add: set_path_def Let_def)
  obtain c where c: "List.find (\<lambda>c. PersUniID c = u) (PersUniConfig (oe_pers s)) = Some c" "x = fst (set_path t p c)"
    "\<forall>v. List.find (\<lambda>c. PersUniID c = v) cs =
       (if v = u then Some (snd (set_path t p c)) else List.find (\<lambda>c. PersUniID c = v) (PersUniConfig (oe_pers s)))"
    using update_uni_Some [OF r k] by blast
  show ?thesis
  proof (cases rule: set_path_cases [of t p c])
    case 1
    then show ?thesis using assms r c(2) by (simp add: UpdateOnuUniTpPath_def pers_section_def Let_def split: if_splits)
  next
    case 2
    then have "s' = s" "\<not> changed"
      using assms r c(2) by (auto simp: UpdateOnuUniTpPath_def pers_section_def Let_def split: if_splits)
    then show ?thesis using 2 c(1) by (simp add: stored_path_def)
  next
    case 3
    then have "oe_pers s' = (oe_pers s)\<lparr>PersUniConfig := cs\<rparr>" "changed"
      using assms r c(2) by (auto simp: UpdateOnuUniTpPath_def pers_section_def Let_def split: if_splits)
    then show ?thesis using 3 c by (simp add: stored_path_def)
  qed
qed


subsection \<open>Deleting the flows of a missing profile\<close>

abbreviation flow_tp :: "UniVlanFlowParams \<Rightarrow> u8" where
  "flow_tp f \<equiv> TpID (VlanRuleParams f)"

lemma drop_loop_skip:
  "\<forall>j. i \<le> j \<and> j < i + m \<longrightarrow> flow_tp (arr ! j) \<noteq> t \<Longrightarrow>
   drop_flows_loop t (m + n) i arr k = drop_flows_loop t n (i + m) arr k"
proof (induction m arbitrary: i)
  case (Suc m)
  have "flow_tp (arr ! i) \<noteq> t" "\<forall>j. Suc i \<le> j \<and> j < Suc i + m \<longrightarrow> flow_tp (arr ! j) \<noteq> t" using Suc.prems by auto
  then show ?case using Suc.IH [of "Suc i"] by simp
qed simp

lemma drop_flows_skip:
  assumes "\<forall>f \<in> set pre. flow_tp f \<noteq> t"
  shows "drop_flows t (pre @ fs) =
    drop_flows_loop t (length fs) (length pre) (pre @ fs) (Some (length pre + length fs))"
  using drop_loop_skip [of 0 "length pre" "pre @ fs" t "length fs" "Some (length pre + length fs)"] assms
  by (simp add: drop_flows_def nth_append)

text \<open>One flow of the profile is cut out; two adjacent ones behind another flow exceed the slice.\<close>

lemma drop_flows_one:
  assumes "\<forall>f \<in> set pre \<union> set post. flow_tp f \<noteq> t" "flow_tp f = t"
  shows "drop_flows t (pre @ f # post) = Done (pre @ post)"
proof (cases "pre = [] \<and> post = []")
  case True
  then show ?thesis using assms(2) by (simp add: drop_flows_def)
next
  case False
  let ?n = "length pre + length post"
  let ?arr = "pre @ post @ [last (f # post)]"
  have k: "Suc ?n \<noteq> 1" using False by auto
  have "drop ?n (pre @ f # post) = [last (f # post)]"
    by (induction post rule: rev_induct) (simp_all)
  then have "drop_flows t (pre @ f # post) = drop_flows_loop t (length post) (Suc (length pre)) ?arr (Some ?n)"
    using drop_flows_skip [of pre t "f # post"] assms k by (auto simp: nth_append)
  also have "\<dots> = drop_flows_loop t 0 (Suc (length pre) + length post) ?arr (Some ?n)"
  proof -
    have "flow_tp (?arr ! j) \<noteq> t" if "Suc (length pre) \<le> j" "j < Suc (length pre) + length post" for j
    proof -
      have "?arr ! j \<in> set post"
        using that by (cases "j - length pre < length post") (auto simp: nth_append split: if_splits)
      then show ?thesis using assms(1) by auto
    qed
    then show ?thesis using drop_loop_skip [of "Suc (length pre)" "length post" ?arr t 0 "Some ?n"] by simp
  qed
  finally show ?thesis by simp
qed

lemma drop_flows_two:
  assumes "\<forall>f \<in> set pre. flow_tp f \<noteq> t" "pre \<noteq> []" "flow_tp f = t" "flow_tp g = t"
  shows "drop_flows t (pre @ [f, g]) = slice_panic"
  using drop_flows_skip [OF assms(1), of "[f, g]"] assms(2-4) by (simp add: nth_append numeral_2_eq_2)

text \<open>A technology profile the parent adapter no longer knows can end the process: when a UNI has a flow of another
  profile followed by two flows of the missing one, the deletion of the flows shortens the slice it ranges over and
  then cuts behind its end. The code means to delete the flows of the missing profile, as it does when there is only
  one.\<close>

theorem missing_profile_panics:
  assumes "\<not> oe_persLocked s" "\<not> oe_reconLocked s"
    and "PersUniConfig (oe_pers s) = [c]" "PersTpPathMap c = Some [(t, path)]" "path \<noteq> []"
    and "pe_reply env (PersUniID c) path 0 = TpMissing"
    and "PersFlowParams c = pre @ [f, g]" "pre \<noteq> []" "\<forall>f \<in> set pre. flow_tp f \<noteq> t" "flow_tp f = t" "flow_tp g = t"
  shows "getAllStoredTpInstFromParentAdapter env s = Fatal ''slice bounds out of range''"
  using assms
  by (simp add: getAllStoredTpInstFromParentAdapter_def pers_section_def retrieve_path_def fetch_tp_def
      drop_flows_two slice_panic_def)

text \<open>C19: When the ONU is deleted while a profile is awaited from the parent adapter, the retrieval returns with the
  mutexes of the persistent data and of the profile instances held; from then on the operations on the persistent
  data block for ever: counting a configuration change, storing a path or flows, writing to the key-value store,
  and another retrieval.\<close>

theorem aborted_retrieval_keeps_locks:
  assumes "\<not> oe_persLocked s" "\<not> oe_reconLocked s" "oe_hasStore s"
    and "PersUniConfig (oe_pers s) = c # cs" "PersTpPathMap c = Some ((t, path) # paths)" "path \<noteq> []"
    and "pe_reply env (PersUniID c) path 0 = TpError" "pe_deviceDone env (PersUniID c) path 1"
  shows "\<exists>s'. getAllStoredTpInstFromParentAdapter env s = Done (False, s') \<and>
     IncrementMibDataSync s' = Deadlock \<and> UpdateOnuUniTpPath u t' p s' = Deadlock \<and>
     UpdateOnuUniFlowConfig u flows s' = Deadlock \<and> UpdateOnuKvStore senv s' = Deadlock \<and>
     getAllStoredTpInstFromParentAdapter env' s' = Deadlock"
proof -
  have "fetch_tp env (PersUniID c) path = None"
    using assms(7,8) by (simp add: fetch_tp_def maxRetries_def numeral_3_eq_3)
  then have "retrieve_paths env ((t, path) # paths) ([], True, c) = Done (True, [], True, c)"
    using assms(6) by (simp add: retrieve_path_def)
  then obtain s' where "getAllStoredTpInstFromParentAdapter env s = Done (False, s')" "oe_persLocked s'" "oe_hasStore s'"
    using assms(1-5) by (auto simp: getAllStoredTpInstFromParentAdapter_def pers_section_def Let_def)
  then show ?thesis
    by (auto simp: IncrementMibDataSync_def UpdateOnuUniTpPath_def UpdateOnuUniFlowConfig_def UpdateOnuKvStore_def
        storeDataInOnuKvStore_def getAllStoredTpInstFromParentAdapter_def on_pers_def pers_section_def)
qed

subsection \<open>Witnesses\<close>

definition sample_flow :: "u8 \<Rightarrow> UniVlanFlowParams" where
  "sample_flow t = \<lparr> Meter = None, RespChan = None, CookieSlice = [1],
     VlanRuleParams = \<lparr> MatchVid = 4096, MatchPcp = 0, TagsToRemove = 0, SetVid = 0, SetPcp = 0, InnerCvlan = 0, TpID = t \<rparr> \<rparr>"

definition sample_entry :: onu_entry where
  "sample_entry =
     \<lparr> oe_pers = (initial_pers 0 0)\<lparr>PersUniConfig := [\<lparr> PersUniID = 0, PersTpPathMap = Some [(64, ''path'')],
           PersFlowParams = [sample_flow 65, sample_flow 64, sample_flow 64] \<rparr>]\<rparr>,
       oe_persLocked = False, oe_reconLocked = False, oe_ReconciledTpInstances = [],
       oe_sw = \<lparr> ActiveEntityEntry = \<lparr> sw_Version = [], sw_EntityID = 0, sw_Valid = False, sw_IsCommitted = 0 \<rparr>,
         InActiveEntityEntry = \<lparr> sw_Version = [], sw_EntityID = 0, sw_Valid = False, sw_IsCommitted = 0 \<rparr> \<rparr>,
       oe_mibAuditInterval = 0, oe_alarmAuditInterval = 0, oe_hasStore = True \<rparr>"

theorem mib_data_sync_cycles_witness:
  "\<exists>v. run_steps (\<lambda>_. IncrementMibDataSync) (replicate (Suc 2) ()) sample_entry =
       Done (sample_entry\<lparr>oe_pers := (oe_pers sample_entry)\<lparr>PersMibDataSyncAdpt := v\<rparr>\<rparr>) \<and> unat v = 3"
  using mib_data_sync_cycles [of sample_entry 2] by (auto simp: sample_entry_def initial_pers_def)

theorem tp_path_updated_witness:
  "\<exists>s'. UpdateOnuUniTpPath 0 65 ''new'' sample_entry = Done (True, False, s') \<and>
     stored_path (oe_pers s') 0 65 = ''new'' \<and> stored_path (oe_pers s') 0 64 = ''path''"
proof -
  obtain s' where s': "UpdateOnuUniTpPath 0 65 ''new'' sample_entry = Done (True, False, s')"
    by (simp add: UpdateOnuUniTpPath_def pers_section_def sample_entry_def initial_pers_def set_path_def)
  have "stored_path (oe_pers sample_entry) 0 64 = ''path''" by (simp add: stored_path_def uni_path_def sample_entry_def)
  with tp_path_updated [OF s'] s' show ?thesis by auto
qed

theorem missing_profile_panics_witness:
  "getAllStoredTpInstFromParentAdapter \<lparr> pe_reply = (\<lambda>u p n. TpMissing), pe_deviceDone = (\<lambda>u p n. False) \<rparr> sample_entry =
     Fatal ''slice bounds out of range''"
  using missing_profile_panics [of sample_entry "hd (PersUniConfig (oe_pers sample_entry))" 64 "''path''"
      "\<lparr> pe_reply = (\<lambda>u p n. TpMissing), pe_deviceDone = (\<lambda>u p n. False) \<rparr>" "[sample_flow 65]" "sample_flow 64" "sample_flow 64"]
  by (simp add: sample_entry_def sample_flow_def)

theorem aborted_retrieval_keeps_locks_witness:
  "\<exists>s'. getAllStoredTpInstFromParentAdapter \<lparr> pe_reply = (\<lambda>u p n. TpError), pe_deviceDone = (\<lambda>u p n. True) \<rparr> sample_entry =
      Done (False, s') \<and> IncrementMibDataSync s' = Deadlock"
proof -
  let ?env = "\<lparr> pe_reply = (\<lambda>u p n. TpError), pe_deviceDone = (\<lambda>u p n. True) \<rparr>"
  let ?c = "hd (PersUniConfig (oe_pers sample_entry))"
  have "\<not> oe_persLocked sample_entry" "\<not> oe_reconLocked sample_entry" "oe_hasStore sample_entry"
    "PersUniConfig (oe_pers sample_entry) = ?c # []" "PersTpPathMap ?c = Some ((64, ''path'') # [])" "''path'' \<noteq> []"
    "pe_reply ?env (PersUniID ?c) ''path'' 0 = TpError" "pe_deviceDone ?env (PersUniID ?c) ''path'' 1"
    by (simp_all add: sample_entry_def)
  from aborted_retrieval_keeps_locks [OF this] show ?thesis by fast
qed

end
