(* ===== verification/Mib_Tmpl.thy ===== *)
theory Mib_Tmpl
  imports Dev_Db Onu_Entry
begin

text \<open>
  The tables and templates ONUs of one type share (\<^verbatim>\<open>openonu.go\<close>, the second half of \<^verbatim>\<open>mib_sync.go\<close>): the
  adapter keeps one table of managed entities per template path, guarded by a lock of the table and by an
  adapter-wide mutex, and the template as JSON text in a key-value store.

  Attribute maps are objects: the template routine enters the very map of the common table into the table
  of the ONU. The model records which instances are shared in this way (\<open>ac_shared\<close>) and lets a write
  through one table show in the other. Of JSON the model has the values; the text that carries them, and the
  removal of zero characters from it, are not represented. The strings that occur are ASCII. The key-value
  store is an argument: what each access returns.
\<close>

subsection \<open>The adapter\<close>

record mib_adapter =
  ac_templateMutex :: bool
  ac_generated :: "(string \<times> bool) list"
  ac_MibDatabaseMap :: "(string \<times> nat) list"
  ac_cmn :: cmn_store
  ac_meDbLocked :: "nat list"
  ac_next :: nat
  ac_shared :: "(string \<times> nat \<times> u16 \<times> u16) list"

definition new_mib_adapter :: mib_adapter where
  "new_mib_adapter =
     \<lparr> ac_templateMutex = False, ac_generated = [], ac_MibDatabaseMap = [], ac_cmn = Map.empty, ac_meDbLocked = [],
       ac_next = 0, ac_shared = [] \<rparr>"

definition LockMutexMibTemplateGenerated :: "mib_adapter \<Rightarrow> mib_adapter run" where
  "LockMutexMibTemplateGenerated ac = (if ac_templateMutex ac then Deadlock else Done (ac\<lparr>ac_templateMutex := True\<rparr>))"

definition UnlockMutexMibTemplateGenerated :: "mib_adapter \<Rightarrow> mib_adapter run" where
  "UnlockMutexMibTemplateGenerated ac =
     (if ac_templateMutex ac then Done (ac\<lparr>ac_templateMutex := False\<rparr>) else Fatal ''sync: unlock of unlocked mutex'')"

definition lock_MeDb :: "nat \<Rightarrow> mib_adapter \<Rightarrow> mib_adapter run" where
  "lock_MeDb p ac = (if p \<in> set (ac_meDbLocked ac) then Deadlock else Done (ac\<lparr>ac_meDbLocked := p # ac_meDbLocked ac\<rparr>))"

definition unlock_MeDb :: "nat \<Rightarrow> mib_adapter \<Rightarrow> mib_adapter run" where
  "unlock_MeDb p ac =
     (if p \<in> set (ac_meDbLocked ac) then Done (ac\<lparr>ac_meDbLocked := removeAll p (ac_meDbLocked ac)\<rparr>)
      else Fatal ''sync: Unlock of unlocked RWMutex'')"

definition GetMibTemplatesGenerated :: "string \<Rightarrow> mib_adapter \<Rightarrow> bool option" where
  "GetMibTemplatesGenerated path ac = map_of (ac_generated ac) path"

definition SetMibTemplatesGenerated :: "string \<Rightarrow> bool \<Rightarrow> mib_adapter \<Rightarrow> mib_adapter" where
  "SetMibTemplatesGenerated path v ac = ac\<lparr>ac_generated := AList.update path v (ac_generated ac)\<rparr>"

text \<open>The entry, and whether it existed before (the error of the source).\<close>

definition CreateEntryAtMibDatabaseMap :: "string \<Rightarrow> mib_adapter \<Rightarrow> nat \<times> bool \<times> mib_adapter" where
  "CreateEntryAtMibDatabaseMap key ac =
     (case map_of (ac_MibDatabaseMap ac) key of
        Some p \<Rightarrow> (p, True, ac)
      | None \<Rightarrow>
          let p = ac_next ac in
          (p, False, ac\<lparr>ac_MibDatabaseMap := AList.update key p (ac_MibDatabaseMap ac),
             ac_cmn := (ac_cmn ac)(p \<mapsto> NewOnuCmnMEDB), ac_next := p + 1\<rparr>))"

definition FetchEntryFromMibDatabaseMap :: "string \<Rightarrow> mib_adapter \<Rightarrow> nat option" where
  "FetchEntryFromMibDatabaseMap key ac = map_of (ac_MibDatabaseMap ac) key"

definition upd_cmn :: "nat \<Rightarrow> (OnuCmnMEDB \<Rightarrow> OnuCmnMEDB) \<Rightarrow> mib_adapter \<Rightarrow> mib_adapter" where
  "upd_cmn p f ac = ac\<lparr>ac_cmn := (ac_cmn ac)(p := map_option f (ac_cmn ac p))\<rparr>"

text \<open>The reset gives the table new maps, so no instance of it is shared any more.\<close>

definition ResetEntryFromMibDatabaseMap :: "string \<Rightarrow> mib_adapter \<Rightarrow> mib_adapter run" where
  "ResetEntryFromMibDatabaseMap key ac =
     (case map_of (ac_MibDatabaseMap ac) key of
        None \<Rightarrow> Done ac
      | Some p \<Rightarrow>
          bind_run (lock_MeDb p ac) (\<lambda>ac.
            unlock_MeDb p (upd_cmn p (\<lambda>cm. cm\<lparr>MeDb := Some [], UnknownMeAndAttribDb := []\<rparr>)
              (ac\<lparr>ac_shared := filter (\<lambda>(d, q, c, i). q \<noteq> p) (ac_shared ac)\<rparr>))))"

definition DeleteEntryFromMibDatabaseMap :: "string \<Rightarrow> mib_adapter \<Rightarrow> mib_adapter" where
  "DeleteEntryFromMibDatabaseMap key ac = ac\<lparr>ac_MibDatabaseMap := AList.delete key (ac_MibDatabaseMap ac)\<rparr>"

subsection \<open>JSON\<close>

text \<open>Numbers are decoded to \<^verbatim>\<open>float64\<close>, of which the data base keeps the integer part: an integer of more than
  53 bits is rounded to the nearest, to even in the middle. An octet string is marshalled as base64.\<close>

datatype json = JNull | JNum int | JStr string | JObj "(string \<times> json) list" | JOther

fun excess_bits :: "nat \<Rightarrow> nat" where
  "excess_bits n = (if n < 2 ^ 53 then 0 else Suc (excess_bits (n div 2)))"

declare excess_bits.simps [simp del]

definition round_53 :: "nat \<Rightarrow> nat" where
  "round_53 n =
     (let k = excess_bits n; q = n div 2 ^ k; r = n mod 2 ^ k in
      (if 2 * r > 2 ^ k \<or> (2 * r = 2 ^ k \<and> odd q) then q + 1 else q) * 2 ^ k)"

definition float64_of :: "int \<Rightarrow> int" where
  "float64_of n = (if n < 0 then - int (round_53 (nat (- n))) else int (round_53 (nat n)))"

definition base64_char :: "nat \<Rightarrow> char" where
  "base64_char n =
     (if n < 26 then char_of (65 + n) else if n < 52 then char_of (71 + n) else if n < 62 then char_of (n - 4)
      else if n = 62 then CHR ''+'' else CHR ''/'')"

fun base64 :: "bytes \<Rightarrow> string" where
  "base64 [] = []"
| "base64 [a] = [base64_char (unat a div 4), base64_char (unat a mod 4 * 16), CHR ''='', CHR ''='']"
| "base64 [a, b] =
     [base64_char (unat a div 4), base64_char (unat a mod 4 * 16 + unat b div 16), base64_char (unat b mod 16 * 4), CHR ''='']"
| "base64 (a # b # c # bs) =
     base64_char (unat a div 4) # base64_char (unat a mod 4 * 16 + unat b div 16) #
     base64_char (unat b mod 16 * 4 + unat c div 64) # base64_char (unat c mod 64) # base64 bs"

fun attr_json :: "attr_value \<Rightarrow> json" where
  "attr_json AvNil = JNull"
| "attr_json (AvFloat64 f) = JNum f"
| "attr_json (AvUint8 w) = JNum (uint w)"
| "attr_json (AvUint16 w) = JNum (uint w)"
| "attr_json (AvUint32 w) = JNum (uint w)"
| "attr_json (AvUint64 w) = JNum (uint w)"
| "attr_json (AvInt n) = JNum n"
| "attr_json (AvBytes b) = JStr (base64 b)"
| "attr_json (AvString s) = JStr s"
| "attr_json AvOther = JOther"

fun json_attr :: "json \<Rightarrow> attr_value" where
  "json_attr JNull = AvNil"
| "json_attr (JNum n) = AvFloat64 (float64_of n)"
| "json_attr (JStr s) = AvString s"
| "json_attr (JObj m) = AvOther"
| "json_attr JOther = AvOther"

subsection \<open>The device entry, as far as templates need it\<close>

record mib_tmpl = onu_entry +
  mt_db :: OnuDeviceDB
  mt_ac :: mib_adapter
  mt_path :: string
  mt_gets :: nat
  mt_puts :: nat

abbreviation mt_serial :: "'z mib_tmpl_scheme \<Rightarrow> string" where
  "mt_serial s \<equiv> PersSerialNumber (oe_pers s)"

abbreviation mt_mac :: "'z mib_tmpl_scheme \<Rightarrow> string" where
  "mt_mac s \<equiv> PersMacAddress (oe_pers s)"

text \<open>What the accesses to the key-value store return, by their number: a read fails, finds nothing, finds a
  text that is no JSON object, or the members of an object.\<close>

datatype kv_value = KvError | KvAbsent | KvText | KvObject "(string \<times> json) list"

record tmpl_env =
  te_get :: "nat \<Rightarrow> string \<Rightarrow> kv_value"
  te_put :: "nat \<Rightarrow> string \<Rightarrow> (string \<times> json) list \<Rightarrow> string option"
  te_now :: string

definition nil_deref :: "'a run" where
  "nil_deref = Fatal ''invalid memory address or nil pointer dereference''"

definition kv_read :: "tmpl_env \<Rightarrow> 'z mib_tmpl_scheme \<Rightarrow> kv_value \<times> 'z mib_tmpl_scheme" where
  "kv_read env s = (te_get env (mt_gets s) (mt_path s), s\<lparr>mt_gets := mt_gets s + 1\<rparr>)"

definition buildMibTemplatePath :: "'z mib_tmpl_scheme \<Rightarrow> string run" where
  "buildMibTemplatePath = pers_section (\<lambda>s.
     Done (PersVendorID (oe_pers s) @ ''/'' @ PersVersion (oe_pers s) @ ''/'' @ PersActiveSwVersion (oe_pers s)))"

definition common_of :: "'z mib_tmpl_scheme \<Rightarrow> (nat \<times> OnuCmnMEDB) run" where
  "common_of s = deref_common (mt_db s) (ac_cmn (mt_ac s))"

definition common_attribs :: "u16 \<Rightarrow> u16 \<Rightarrow> 'z mib_tmpl_scheme \<Rightarrow> (string \<times> attr_value) list option" where
  "common_attribs c i s =
     (case common_of s of
        Done (p, cm) \<Rightarrow> (case nested_get (map_or_empty (MeDb cm)) c i of Some a \<Rightarrow> a | None \<Rightarrow> None)
      | _ \<Rightarrow> None)"

definition on_ac :: "(mib_adapter \<Rightarrow> mib_adapter) \<Rightarrow> 'z mib_tmpl_scheme \<Rightarrow> 'z mib_tmpl_scheme" where
  "on_ac f s = s\<lparr>mt_ac := f (mt_ac s)\<rparr>"

definition run_ac :: "(mib_adapter \<Rightarrow> mib_adapter run) \<Rightarrow> 'z mib_tmpl_scheme \<Rightarrow> 'z mib_tmpl_scheme run" where
  "run_ac f s = bind_run (f (mt_ac s)) (\<lambda>ac. Done (s\<lparr>mt_ac := ac\<rparr>))"

definition is_shared :: "u16 \<Rightarrow> u16 \<Rightarrow> 'z mib_tmpl_scheme \<Rightarrow> bool" where
  "is_shared c i s \<longleftrightarrow>
     (case CommonMeDb (mt_db s) of None \<Rightarrow> False | Some p \<Rightarrow> (db_deviceID (mt_db s), p, c, i) \<in> set (ac_shared (mt_ac s)))"

text \<open>A new content of the map of an instance: the common table and, for a shared instance, the own one.\<close>

definition set_common :: "u16 \<Rightarrow> u16 \<Rightarrow> (string \<times> attr_value) list \<Rightarrow> 'z mib_tmpl_scheme \<Rightarrow> 'z mib_tmpl_scheme" where
  "set_common c i a s =
     (case CommonMeDb (mt_db s) of
        None \<Rightarrow> s
      | Some p \<Rightarrow>
          s\<lparr>mt_ac := upd_cmn p (\<lambda>cm. cm\<lparr>MeDb := map_option (nested_set c i (Some a)) (MeDb cm)\<rparr>) (mt_ac s),
            mt_db := (if is_shared c i s
              then mt_db s\<lparr>OnuSpecificMeDb := nested_set c i (Some a) (OnuSpecificMeDb (mt_db s))\<rparr> else mt_db s)\<rparr>)"

text \<open>\<^verbatim>\<open>PutOnuSpeficMe\<close> with a map of its own (\<open>fresh\<close>), or with the map of the common table: an instance
  without a map then gets the map itself. A write into a shared map shows in the common table.\<close>

definition put_own :: "bool \<Rightarrow> u16 \<Rightarrow> u16 \<Rightarrow> (string \<times> attr_value) list \<Rightarrow> 'z mib_tmpl_scheme \<Rightarrow> 'z mib_tmpl_scheme run" where
  "put_own fresh c i a s =
     (if c = OnuDataClassID then Done s
      else if is_shared c i s then
        Done (set_common c i (range_assign a (case common_attribs c i s of None \<Rightarrow> [] | Some b \<Rightarrow> b)) s)
      else
        bind_run (PutOnuSpeficMe c i (Some a) (mt_db s)) (\<lambda>db.
          Done (let shares = \<not> fresh \<and> (case nested_get (OnuSpecificMeDb (mt_db s)) c i of Some (Some b) \<Rightarrow> False | _ \<Rightarrow> True)
            in s\<lparr>mt_db := db,
                 mt_ac := (case CommonMeDb db of
                     Some p \<Rightarrow> if shares then mt_ac s\<lparr>ac_shared := (db_deviceID db, p, c, i) # ac_shared (mt_ac s)\<rparr> else mt_ac s
                   | None \<Rightarrow> mt_ac s)\<rparr>)))"

definition table_instances :: "MeDbMap \<Rightarrow> (u16 \<times> u16) list" where
  "table_instances m = concat (map (\<lambda>(c, insts). map (\<lambda>(i, a). (c, i)) insts) m)"

subsection \<open>Creating the template\<close>

definition CUnknownItuG988ManagedEntity :: string where "CUnknownItuG988ManagedEntity = ''UnknownItuG988ManagedEntity''"
definition CUnknownVendorSpecificManagedEntity :: string where
  "CUnknownVendorSpecificManagedEntity = ''UnknownVendorSpecificManagedEntity''"
definition CUnknownAttributesManagedEntity :: string where
  "CUnknownAttributesManagedEntity = ''UnknownAttributesManagedEntity''"

text \<open>The attribute that differs between ONUs of one type, and what stands for it in the template.\<close>

definition onu_attribute :: "u16 \<Rightarrow> (string \<times> string) option" where
  "onu_attribute c =
     (if c = 6 \<or> c = 256 then Some (''SerialNumber'', ''%SERIAL_NUMBER%'')
      else if c = 134 then Some (''MacAddress'', ''%MAC_ADDRESS%'') else None)"

definition mask_instance :: "u16 \<times> u16 \<Rightarrow> 'z mib_tmpl_scheme \<Rightarrow> 'z mib_tmpl_scheme run" where
  "mask_instance ci s =
     (let (c, i) = ci in
      case onu_attribute c of
        None \<Rightarrow> Done s
      | Some (name, mark) \<Rightarrow>
          (case common_attribs c i s of
             None \<Rightarrow> Done s
           | Some a \<Rightarrow>
               if map_of a name = None then Done s
               else bind_run (put_own False c i a s) (\<lambda>s. Done (set_common c i (AList.update name (AvString mark) a) s))))"

definition strip_instance :: "u16 \<times> u16 \<Rightarrow> 'z mib_tmpl_scheme \<Rightarrow> 'z mib_tmpl_scheme run" where
  "strip_instance ci s =
     (let (c, i) = ci in
      case common_attribs c i s of
        None \<Rightarrow> if onu_attribute c = None then Done s else Fatal ''assignment to entry in nil map''
      | Some a \<Rightarrow>
          let a = AList.delete ''ManagedEntityId'' a in
          Done (set_common c i
            (case onu_attribute c of
               None \<Rightarrow> a | Some (name, mark) \<Rightarrow> AList.update name (AvString mark) (AList.delete name a)) s))"

definition attribs_json :: "AttributeValueMap \<Rightarrow> json" where
  "attribs_json a = (case a of None \<Rightarrow> JNull | Some l \<Rightarrow> JObj (map (\<lambda>(k, v). (k, attr_json v)) l))"

definition class_json :: "MeInstMap \<Rightarrow> json" where
  "class_json insts = JObj (map (\<lambda>(i, a). (format_dec (unat i), JObj [(''Attributes'', attribs_json a)])) insts)"

definition unknown_json :: "(u16 \<times> (u16 \<times> unknownAttribs) list) list \<Rightarrow> json" where
  "unknown_json m = JObj (map (\<lambda>(c, insts). (format_dec (unat c), JObj (map (\<lambda>(i, u). (format_dec (unat i),
     JObj [(''AttributeMask'', JStr (AttribMask u)), (''AttributeBytes'', JStr (AttribBytes u))])) insts))) m)"

definition template_members :: "string \<Rightarrow> string \<Rightarrow> OnuCmnMEDB \<Rightarrow> (string \<times> json) list" where
  "template_members path now cm =
     [(''TemplateName'', JStr path), (''TemplateCreated'', JStr now)] @
     map (\<lambda>(c, insts). (format_dec (unat c), class_json insts)) (map_or_empty (MeDb cm)) @
     map (\<lambda>(n, m). (n, unknown_json m)) (UnknownMeAndAttribDb cm)"

text \<open>The values of a table can all be marshalled, so the only error is that of the key-value store.\<close>

definition createAndPersistMibTemplate ::
    "tmpl_env \<Rightarrow> 'z mib_tmpl_scheme \<Rightarrow> (string option \<times> 'z mib_tmpl_scheme) run" where
  "createAndPersistMibTemplate env s =
     bind_run (common_of s) (\<lambda>(p, cm).
     let insts = table_instances (map_or_empty (MeDb cm)) in
     bind_run (run_steps mask_instance insts s) (\<lambda>s.
     bind_run (run_steps strip_instance insts s) (\<lambda>s.
     bind_run (common_of s) (\<lambda>(p, cm).
       let err = te_put env (mt_puts s) (mt_path s) (template_members (mt_path s) (te_now env) cm);
           s = s\<lparr>mt_puts := mt_puts s + 1\<rparr> in
       Done (err, if err = None then s else on_ac (SetMibTemplatesGenerated (mt_path s) False) s)))))"

subsection \<open>The entries of one ONU\<close>

definition updateAttribute :: "string \<Rightarrow> u16 \<Rightarrow> u16 \<Rightarrow> string \<Rightarrow> 'z mib_tmpl_scheme \<Rightarrow> 'z mib_tmpl_scheme run" where
  "updateAttribute attributeName classID entityID newValue s =
     (case common_attribs classID entityID s of
        None \<Rightarrow> Done s
      | Some attributesMap \<Rightarrow>
          if map_of attributesMap attributeName = None then Done s
          else put_own True classID entityID (AList.update attributeName (AvString newValue) attributesMap) s)"

definition update_entry :: "u16 \<times> u16 \<Rightarrow> 'z mib_tmpl_scheme \<Rightarrow> 'z mib_tmpl_scheme run" where
  "update_entry ci s =
     (let (c, i) = ci in
      if c = 6 \<or> c = 256 then updateAttribute ''SerialNumber'' c i (mt_serial s) s
      else if c = 134 then updateAttribute ''MacAddress'' c i (mt_mac s) s
      else Done s)"

definition updateOnuSpecificEntries :: "'z mib_tmpl_scheme \<Rightarrow> 'z mib_tmpl_scheme run" where
  "updateOnuSpecificEntries s =
     bind_run (common_of s) (\<lambda>(p, cm). run_steps update_entry (table_instances (map_or_empty (MeDb cm))) s)"

subsection \<open>Loading a template\<close>

definition supportedClassIds :: "u16 list" where
  "supportedClassIds = [5, 6, 7, 11, 53, 131, 133, 134, 256, 257, 262, 263, 264, 277, 278, 329, 332, 336]"

definition isSupportedClassID :: "u16 \<Rightarrow> bool" where
  "isSupportedClassID meClassID \<longleftrightarrow> meClassID \<in> set supportedClassIds"

text \<open>\<^verbatim>\<open>strconv.ParseUint(s, 10, 16)\<close>.\<close>

definition parse_u16 :: "string \<Rightarrow> u16 option" where
  "parse_u16 s =
     (if s \<noteq> [] \<and> list_all is_digit s \<and> digits_val s < 65536 then Some (of_nat (digits_val s)) else None)"

definition as_object :: "json \<Rightarrow> (string \<times> json) list run" where
  "as_object j = (case j of JObj m \<Rightarrow> Done m | _ \<Rightarrow> Fatal ''interface conversion'')"

definition load_attribs :: "u16 \<Rightarrow> u16 \<Rightarrow> (string \<times> json) list \<Rightarrow> MeDbMap \<Rightarrow> MeDbMap run" where
  "load_attribs c i m meDb =
     bind_run (merge_attribs (case nested_get meDb c i of Some a \<Rightarrow> a | None \<Rightarrow> Some []) (Some (map (\<lambda>(k, v). (k, json_attr v)) m)))
       (\<lambda>a. Done (nested_set c i a meDb))"

definition load_instance :: "u16 \<Rightarrow> string \<times> json \<Rightarrow> MeDbMap \<Rightarrow> MeDbMap run" where
  "load_instance c kv meDb =
     (case parse_u16 (fst kv) of
        None \<Rightarrow> Done meDb
      | Some i \<Rightarrow>
          bind_run (as_object (snd kv)) (\<lambda>m.
            case map_of m ''Attributes'' of
              Some (JObj attributes) \<Rightarrow> load_attribs c i attributes meDb
            | _ \<Rightarrow> Done meDb))"

definition load_class :: "string \<times> json \<Rightarrow> MeDbMap \<Rightarrow> MeDbMap run" where
  "load_class kv meDb =
     (case parse_u16 (fst kv) of
        None \<Rightarrow> Done meDb
      | Some c \<Rightarrow>
          if isSupportedClassID c then bind_run (as_object (snd kv)) (\<lambda>m. run_steps (load_instance c) m meDb)
          else Done meDb)"

definition populateMibDatabase :: "nat \<Rightarrow> (string \<times> json) list \<Rightarrow> mib_adapter \<Rightarrow> mib_adapter run" where
  "populateMibDatabase p members ac =
     bind_run (lock_MeDb p ac) (\<lambda>ac.
       case ac_cmn ac p of
         None \<Rightarrow> nil_deref
       | Some cm \<Rightarrow>
           bind_run (run_steps load_class members (map_or_empty (MeDb cm))) (\<lambda>meDb.
             if MeDb cm = None \<and> meDb \<noteq> [] then Fatal ''assignment to entry in nil map''
             else unlock_MeDb p (upd_cmn p (\<lambda>cm. cm\<lparr>MeDb := map_option (\<lambda>_. meDb) (MeDb cm)\<rparr>) ac)))"

text \<open>A text that is no JSON object is only logged.\<close>

definition processMibTemplate :: "kv_value \<Rightarrow> 'z mib_tmpl_scheme \<Rightarrow> 'z mib_tmpl_scheme run" where
  "processMibTemplate v s =
     (case v of
        KvObject members \<Rightarrow>
          let (p, existed, ac) = CreateEntryAtMibDatabaseMap (mt_path s) (mt_ac s) in
          bind_run (populateMibDatabase p members ac) (\<lambda>ac.
            Done (s\<lparr>mt_ac := upd_cmn p (\<lambda>cm. cm\<lparr>cm_MIBUploadStatus := Completed\<rparr>) ac,
                    mt_db := mt_db s\<lparr>CommonMeDb := Some p\<rparr>\<rparr>))
      | _ \<Rightarrow> Done s)"

text \<open>The adapter-wide mutex is released on every path; \<open>True\<close> when a table was found.\<close>

definition getMibFromTemplate :: "tmpl_env \<Rightarrow> 'z mib_tmpl_scheme \<Rightarrow> (bool \<times> 'z mib_tmpl_scheme) run" where
  "getMibFromTemplate env s =
     bind_run (buildMibTemplatePath s) (\<lambda>path.
     bind_run (run_ac LockMutexMibTemplateGenerated (s\<lparr>mt_path := path\<rparr>)) (\<lambda>s.
       bind_run
        (case FetchEntryFromMibDatabaseMap (mt_path s) (mt_ac s) of
           Some p \<Rightarrow>
             bind_run (updateOnuSpecificEntries (s\<lparr>mt_db := mt_db s\<lparr>CommonMeDb := Some p\<rparr>\<rparr>)) (\<lambda>s. Done (True, s))
         | None \<Rightarrow>
             let (v, s) = kv_read env s in
             if v = KvError \<or> v = KvAbsent then Done (False, s)
             else bind_run (processMibTemplate v s) (\<lambda>s. Done (True, s)))
        (\<lambda>(ok, s). bind_run (run_ac UnlockMutexMibTemplateGenerated s) (\<lambda>s. Done (ok, s)))))"

definition IsMIBTemplateGenerated :: "'z mib_tmpl_scheme \<Rightarrow> (bool \<times> 'z mib_tmpl_scheme) run" where
  "IsMIBTemplateGenerated s =
     bind_run (run_ac LockMutexMibTemplateGenerated s) (\<lambda>s.
       let r = GetMibTemplatesGenerated (mt_path s) (mt_ac s) \<noteq> None in
       bind_run (run_ac UnlockMutexMibTemplateGenerated s) (\<lambda>s. Done (r, s)))"

end
