(* ===== verification/Mib_Share.thy ===== *)
theory Mib_Share
  imports Mib_Tmpl
begin

text \<open>
  What ONUs of one type share: a template written at the end of an upload and loaded again gives the same
  table, apart from the classes that are not loaded, the attributes of one ONU and the representation of
  values; and the table in memory keeps the serial number of the ONU that was uploaded.
\<close>

subsection \<open>Loading what was written\<close>

lemma parse_u16_format [simp]: "parse_u16 (format_dec (unat c)) = Some c"
  using format_dec_digits [of "unat c"] unat_u16_lt [of c]
  by (simp add: parse_u16_def nonempty_class_def digits_val_format_dec)

text \<open>The value read back.\<close>

definition reread :: "attr_value \<Rightarrow> attr_value" where
  "reread v = json_attr (attr_json v)"

definition reread_map :: "(string \<times> attr_value) list \<Rightarrow> (string \<times> attr_value) list" where
  "reread_map a = map (\<lambda>(k, v). (k, reread v)) a"

lemma map_of_reread: "map_of (reread_map a) k = map_option reread (map_of a k)"
  by (induction a) (auto simp: reread_map_def)

lemma akeys_reread [simp]: "akeys (reread_map a) = akeys a"
  by (auto simp: reread_map_def)

lemma map_of_range_assign_nil: "distinct (akeys a) \<Longrightarrow> map_of (range_assign a []) = map_of a"
  by (simp add: map_of_range_assign)

lemma load_attribs_new:
  assumes "nested_get meDb c i = None"
  shows "load_attribs c i (map (\<lambda>(k, v). (k, attr_json v)) a) meDb =
     Done (nested_set c i (Some (range_assign (reread_map a) [])) meDb)"
  using assms
  by (simp add: load_attribs_def merge_attribs_def map_or_empty_def reread_map_def reread_def comp_def prod.case_distrib)

text \<open>No nil map, and attribute names are distinct.\<close>

definition proper_insts :: "MeInstMap \<Rightarrow> bool" where
  "proper_insts insts \<longleftrightarrow> distinct (akeys insts) \<and> (\<forall>(i, a) \<in> set insts. \<exists>l. a = Some l \<and> distinct (akeys l))"

lemma load_instances:
  assumes "proper_insts insts" "\<forall>i \<in> fst ` set insts. nested_get meDb c i = None"
  shows "\<exists>meDb'. run_steps (load_instance c)
       (map (\<lambda>(i, a). (format_dec (unat i), JObj [(''Attributes'', attribs_json a)])) insts) meDb = Done meDb' \<and>
     (\<forall>d i. nested_get meDb' d i =
       (if d = c \<and> i \<in> fst ` set insts then map_option (\<lambda>a. map_option (\<lambda>l. range_assign (reread_map l) []) a) (map_of insts i)
        else nested_get meDb d i))"
  using assms
proof (induction insts arbitrary: meDb)
  case (Cons x insts)
  obtain i l where x: "x = (i, Some l)" using Cons.prems(1) by (force simp: proper_insts_def)
  let ?m = "nested_set c i (Some (range_assign (reread_map l) [])) meDb"
  have i: "i \<notin> fst ` set insts" using Cons.prems(1) by (simp add: proper_insts_def x)
  have "proper_insts insts" "\<forall>j \<in> fst ` set insts. nested_get ?m c j = None"
    using Cons.prems i by (auto simp: proper_insts_def x)
  from Cons.IH [OF this] obtain meDb' where m: "run_steps (load_instance c)
       (map (\<lambda>(i, a). (format_dec (unat i), JObj [(''Attributes'', attribs_json a)])) insts) ?m = Done meDb'"
     "\<forall>d j. nested_get meDb' d j =
       (if d = c \<and> j \<in> fst ` set insts then map_option (\<lambda>a. map_option (\<lambda>l. range_assign (reread_map l) []) a) (map_of insts j)
        else nested_get ?m d j)" by blast
  have "load_instance c (format_dec (unat i), JObj [(''Attributes'', attribs_json (Some l))]) meDb = Done ?m"
    using Cons.prems(2) by (simp add: load_instance_def as_object_def attribs_json_def load_attribs_new x)
  with m i show ?case by (auto simp: x)
qed simp

definition proper_table :: "MeDbMap \<Rightarrow> bool" where
  "proper_table m \<longleftrightarrow> distinct (akeys m) \<and> (\<forall>(c, insts) \<in> set m. proper_insts insts)"

lemma load_classes:
  assumes "proper_table m" "\<forall>c \<in> fst ` set m. \<forall>i. nested_get meDb c i = None"
  shows "\<exists>meDb'. run_steps load_class (map (\<lambda>(c, insts). (format_dec (unat c), class_json insts)) m) meDb = Done meDb' \<and>
     (\<forall>c i. nested_get meDb' c i =
       (if c \<in> fst ` set m \<and> isSupportedClassID c
        then map_option (\<lambda>a. map_option (\<lambda>l. range_assign (reread_map l) []) a) (nested_get m c i)
        else nested_get meDb c i))"
  using assms
proof (induction m arbitrary: meDb)
  case (Cons x m)
  obtain c insts where x: "x = (c, insts)" by fastforce
  have c: "c \<notin> fst ` set m" and p: "proper_table m" "proper_insts insts"
    using Cons.prems(1) by (auto simp: proper_table_def x)
  show ?case
  proof (cases "isSupportedClassID c")
    case False
    then have "load_class (format_dec (unat c), class_json insts) meDb = Done meDb"
      by (simp add: load_class_def)
    moreover have "\<forall>d \<in> fst ` set m. \<forall>i. nested_get meDb d i = None" using Cons.prems(2) by (simp add: x)
    ultimately show ?thesis using Cons.IH [OF p(1), of meDb] c False by (auto simp: x nested_get_def)
  next
    case True
    have "\<forall>i \<in> fst ` set insts. nested_get meDb c i = None" using Cons.prems(2) by (simp add: x)
    from load_instances [OF p(2) this] obtain m1 where m1: "load_class (format_dec (unat c), class_json insts) meDb = Done m1"
      "\<forall>d i. nested_get m1 d i = (if d = c \<and> i \<in> fst ` set insts
          then map_option (\<lambda>a. map_option (\<lambda>l. range_assign (reread_map l) []) a) (map_of insts i) else nested_get meDb d i)"
      using True by (auto simp: load_class_def class_json_def as_object_def)
    have "\<forall>d \<in> fst ` set m. \<forall>i. nested_get m1 d i = None" using Cons.prems(2) m1(2) c by (auto simp: x)
    from Cons.IH [OF p(1) this] obtain m2 where
      m2: "run_steps load_class (map (\<lambda>(c, insts). (format_dec (unat c), class_json insts)) m) m1 = Done m2"
      "\<forall>c i. nested_get m2 c i = (if c \<in> fst ` set m \<and> isSupportedClassID c
        then map_option (\<lambda>a. map_option (\<lambda>l. range_assign (reread_map l) []) a) (nested_get m c i) else nested_get m1 c i)"
      by blast
    have "map_of insts i = None \<longleftrightarrow> i \<notin> fst ` set insts" for i by (simp add: map_of_eq_None_iff)
    moreover have "nested_get meDb c i = None" for i using Cons.prems(2) by (simp add: x)
    ultimately show ?thesis using m1 m2 c True by (auto simp: x nested_get_def)
  qed
qed simp


subsection \<open>What is written\<close>

text \<open>Entry by entry, the routine works on the map of one instance of the common table.\<close>

definition has_table :: "nat \<Rightarrow> OnuCmnMEDB \<Rightarrow> MeDbMap \<Rightarrow> 'z mib_tmpl_scheme \<Rightarrow> bool" where
  "has_table p cm m s \<longleftrightarrow> CommonMeDb (mt_db s) = Some p \<and> ac_cmn (mt_ac s) p = Some cm \<and> MeDb cm = Some m"

lemma common_of_table: "has_table p cm m s \<Longrightarrow> common_of s = Done (p, cm)"
  by (simp add: has_table_def common_of_def deref_common_def)

lemma common_attribs_table:
  "has_table p cm m s \<Longrightarrow> common_attribs c i s = (case nested_get m c i of Some a \<Rightarrow> a | None \<Rightarrow> None)"
  by (simp add: common_attribs_def common_of_table) (simp add: has_table_def map_or_empty_def)

lemma set_common_table:
  "has_table p cm m s \<Longrightarrow> has_table p (cm\<lparr>MeDb := Some (nested_set c i (Some a) m)\<rparr>) (nested_set c i (Some a) m) (set_common c i a s)"
  by (simp add: has_table_def set_common_def upd_cmn_def)

lemma set_common_frame [simp]:
  "mt_path (set_common c i a s) = mt_path s" "mt_puts (set_common c i a s) = mt_puts s"
  "oe_pers (set_common c i a s) = oe_pers s"
  by (simp_all add: set_common_def split: option.splits)

lemma put_specific_runs: "\<exists>m'. put_specific c i (Some a) m = Done m'"
  by (auto simp: put_specific_def merge_attribs_def split: option.splits)

text \<open>Entering a map into the own table leaves the common one as it is, unless the map is shared.\<close>

lemma put_own_unshared:
  assumes "has_table p cm m s" "\<not> is_shared c i s"
  shows "\<exists>s'. put_own fresh c i a s = Done s' \<and> has_table p cm m s' \<and>
    mt_path s' = mt_path s \<and> mt_puts s' = mt_puts s \<and> oe_pers s' = oe_pers s"
proof -
  obtain m' where "put_specific c i (Some a) (OnuSpecificMeDb (mt_db s)) = Done m'" using put_specific_runs by blast
  then show ?thesis using assms by (auto simp: put_own_def PutOnuSpeficMe_def has_table_def Let_def)
qed

lemma put_own_runs:
  assumes "has_table p cm m s"
  shows "\<exists>s' m'. put_own fresh c i a s = Done s' \<and> has_table p (cm\<lparr>MeDb := Some m'\<rparr>) m' s' \<and>
    (m' = m \<or> m' = nested_set c i (Some (range_assign a (case common_attribs c i s of None \<Rightarrow> [] | Some b \<Rightarrow> b))) m) \<and>
    mt_path s' = mt_path s \<and> mt_puts s' = mt_puts s \<and> oe_pers s' = oe_pers s"
proof (cases "is_shared c i s \<and> c \<noteq> OnuDataClassID")
  case True
  then show ?thesis using set_common_table [OF assms] by (auto simp: put_own_def)
next
  case False
  have cm: "cm\<lparr>MeDb := Some m\<rparr> = cm" using assms by (simp add: has_table_def)
  show ?thesis
  proof (cases "c = OnuDataClassID")
    case True
    then show ?thesis using assms cm by (intro exI [of _ s] exI [of _ m]) (simp add: put_own_def)
  next
    case False
    with \<open>\<not> (is_shared c i s \<and> c \<noteq> OnuDataClassID)\<close> have "\<not> is_shared c i s" by simp
    from put_own_unshared [OF assms this, of fresh a] cm show ?thesis by (metis (no_types))
  qed
qed


lemma proper_table_alt:
  "proper_table m \<longleftrightarrow> wf_medb m \<and> (\<forall>c i a. nested_get m c i = Some a \<longrightarrow> (\<exists>l. a = Some l \<and> distinct (akeys l)))"
proof
  assume *: "proper_table m"
  then have "wf_medb m" by (auto simp: proper_table_def wf_medb_def proper_insts_def)
  moreover have "\<exists>l. a = Some l \<and> distinct (akeys l)" if "nested_get m c i = Some a" for c i a
    using that * by (auto simp: nested_get_def proper_table_def proper_insts_def dest!: map_of_SomeD split: option.splits)
  ultimately show "wf_medb m \<and> (\<forall>c i a. nested_get m c i = Some a \<longrightarrow> (\<exists>l. a = Some l \<and> distinct (akeys l)))" by blast
next
  assume *: "wf_medb m \<and> (\<forall>c i a. nested_get m c i = Some a \<longrightarrow> (\<exists>l. a = Some l \<and> distinct (akeys l)))"
  have "proper_insts insts" if "(c, insts) \<in> set m" for c insts
  proof -
    have "distinct (akeys insts)" "map_of m c = Some insts" using that * by (auto simp: wf_medb_def)
    then have "\<exists>l. a = Some l \<and> distinct (akeys l)" if "(i, a) \<in> set insts" for i a
    proof -
      have "nested_get m c i = Some a"
        using \<open>distinct (akeys insts)\<close> \<open>map_of m c = Some insts\<close> that by (simp add: nested_get_def)
      with * show ?thesis by blast
    qed
    with \<open>distinct (akeys insts)\<close> show ?thesis by (auto simp: proper_insts_def)
  qed
  with * show "proper_table m" by (auto simp: proper_table_def wf_medb_def)
qed

lemma proper_table_set: "proper_table m \<Longrightarrow> distinct (akeys l) \<Longrightarrow> proper_table (nested_set c i (Some l) m)"
  by (auto simp: proper_table_alt wf_medb_set split: if_splits)

lemma proper_entry:
  assumes "proper_table m" "nested_get m c i = Some a"
  obtains l where "a = Some l" "distinct (akeys l)"
  using assms unfolding proper_table_alt by blast

lemma table_instances_iff: "wf_medb m \<Longrightarrow> (c, i) \<in> set (table_instances m) \<longleftrightarrow> nested_get m c i \<noteq> None"
proof (induction m)
  case (Cons x m)
  obtain d insts where x: "x = (d, insts)" by fastforce
  have w: "wf_medb m" "d \<notin> fst ` set m" using Cons.prems by (auto simp: wf_medb_def x)
  have "map_of m d = None" using w(2) by (simp add: map_of_eq_None_iff)
  moreover have "(c, i) \<in> set (map (\<lambda>(i, a). (d, i)) insts) \<longleftrightarrow> c = d \<and> map_of insts i \<noteq> None"
    by (force simp: map_of_eq_None_iff)
  ultimately show ?case using Cons.IH [OF w(1)] by (auto simp: table_instances_def x nested_get_def)
qed (simp add: table_instances_def nested_get_def)

lemma table_instances_distinct: "wf_medb m \<Longrightarrow> distinct (table_instances m)"
proof (induction m)
  case (Cons x m)
  obtain c insts where x: "x = (c, insts)" by fastforce
  have d: "wf_medb m" "c \<notin> fst ` set m" "distinct (akeys insts)" using Cons.prems by (auto simp: wf_medb_def x)
  have "distinct (map (\<lambda>(i, a). (c, i)) insts)"
    using d(3) by (induction insts) force+
  with Cons.IH [OF d(1)] d(2) show ?case by (force simp: table_instances_def x)
qed (simp add: table_instances_def)

text \<open>A routine that rewrites the maps of the instances one by one: \<open>g\<close> is what it makes of a map.\<close>

locale table_pass =
  fixes f :: "u16 \<times> u16 \<Rightarrow> 'z mib_tmpl_scheme \<Rightarrow> 'z mib_tmpl_scheme run"
    and g :: "u16 \<Rightarrow> (string \<rightharpoonup> attr_value) \<Rightarrow> (string \<rightharpoonup> attr_value)"
  assumes step: "has_table p cm m s \<Longrightarrow> proper_table m \<Longrightarrow> nested_get m c i = Some (Some l) \<Longrightarrow>
    \<exists>s' l'. f (c, i) s = Done s' \<and> distinct (akeys l') \<and> map_of l' = g c (map_of l) \<and>
      has_table p (cm\<lparr>MeDb := Some (nested_set c i (Some l') m)\<rparr>) (nested_set c i (Some l') m) s' \<and>
      mt_path s' = mt_path s \<and> mt_puts s' = mt_puts s"
begin

lemma pass:
  assumes "has_table p cm m s" "proper_table m" "distinct cis" "\<forall>(c, i) \<in> set cis. nested_get m c i \<noteq> None"
  shows "\<exists>s' m'. run_steps f cis s = Done s' \<and> has_table p (cm\<lparr>MeDb := Some m'\<rparr>) m' s' \<and> proper_table m' \<and>
    mt_path s' = mt_path s \<and> mt_puts s' = mt_puts s \<and>
    (\<forall>c i. case nested_get m c i of None \<Rightarrow> nested_get m' c i = None
       | Some a \<Rightarrow> \<exists>l l'. a = Some l \<and> nested_get m' c i = Some (Some l') \<and>
           map_of l' = (if (c, i) \<in> set cis then g c (map_of l) else map_of l))"
  using assms
proof (induction cis arbitrary: s cm m)
  case Nil
  have "cm\<lparr>MeDb := Some m\<rparr> = cm" using Nil.prems(1) by (simp add: has_table_def)
  with Nil.prems show ?case by (intro exI [of _ s] exI [of _ m]) (auto split: option.splits elim: proper_entry)
next
  case (Cons ci cis)
  obtain c i where ci: "ci = (c, i)" by (rule prod.exhaust)
  obtain l where l: "nested_get m c i = Some (Some l)"
    using Cons.prems(2,4) by (auto simp: ci elim: proper_entry)
  obtain s1 l1 where s1: "f (c, i) s = Done s1" "distinct (akeys l1)" "map_of l1 = g c (map_of l)"
    "has_table p (cm\<lparr>MeDb := Some (nested_set c i (Some l1) m)\<rparr>) (nested_set c i (Some l1) m) s1"
    "mt_path s1 = mt_path s" "mt_puts s1 = mt_puts s"
    using step [OF Cons.prems(1,2) l] by blast
  let ?m = "nested_set c i (Some l1) m"
  have p: "proper_table ?m" by (rule proper_table_set [OF Cons.prems(2) s1(2)])
  have q: "\<forall>(d, j) \<in> set cis. nested_get ?m d j \<noteq> None" using Cons.prems(4) by auto
  obtain s2 m2 where s2: "run_steps f cis s1 = Done s2" "has_table p (cm\<lparr>MeDb := Some m2\<rparr>) m2 s2" "proper_table m2"
    "mt_path s2 = mt_path s" "mt_puts s2 = mt_puts s"
    and e: "\<forall>d j. case nested_get ?m d j of None \<Rightarrow> nested_get m2 d j = None
       | Some a \<Rightarrow> \<exists>l l'. a = Some l \<and> nested_get m2 d j = Some (Some l') \<and>
           map_of l' = (if (d, j) \<in> set cis then g d (map_of l) else map_of l)"
    using Cons.IH [OF s1(4) p _ q] Cons.prems(3) s1(5,6) by auto
  have "case nested_get m d j of None \<Rightarrow> nested_get m2 d j = None
       | Some a \<Rightarrow> \<exists>l l'. a = Some l \<and> nested_get m2 d j = Some (Some l') \<and>
           map_of l' = (if (d, j) \<in> set (ci # cis) then g d (map_of l) else map_of l)" for d j
    using spec [OF spec [OF e, of d], of j] l s1(3) Cons.prems(3)
    by (cases "d = c \<and> j = i") (auto simp: ci split: option.splits if_splits)
  with s1(1) s2 show ?case by (intro exI [of _ s2] exI [of _ m2]) (simp add: ci)
qed

end


lemma update_same: "map_of m k = Some v \<Longrightarrow> AList.update k v m = m"
  by (induction m) auto

lemma update_twice: "AList.update k v (AList.update k w m) = AList.update k v m"
  by (induction m) auto

lemma nested_set_same: "nested_get m c i = Some v \<Longrightarrow> nested_set c i v m = m"
  by (auto simp: nested_get_def nested_set_def update_same split: option.splits)

lemma nested_set_twice: "nested_set c i v (nested_set c i w m) = nested_set c i v m"
  by (simp add: nested_set_def update_twice)

lemma has_table_same:
  "has_table p cm m s \<Longrightarrow> nested_get m c i = Some (Some l) \<Longrightarrow>
   has_table p (cm\<lparr>MeDb := Some (nested_set c i (Some l) m)\<rparr>) (nested_set c i (Some l) m) s"
  by (simp add: has_table_def nested_set_same)

definition mask_map :: "u16 \<Rightarrow> (string \<rightharpoonup> attr_value) \<Rightarrow> (string \<rightharpoonup> attr_value)" where
  "mask_map c a =
     (case onu_attribute c of None \<Rightarrow> a
      | Some (name, mark) \<Rightarrow> if a name = None then a else a(name \<mapsto> AvString mark))"

definition template_map :: "u16 \<Rightarrow> (string \<rightharpoonup> attr_value) \<Rightarrow> (string \<rightharpoonup> attr_value)" where
  "template_map c a =
     (case onu_attribute c of None \<Rightarrow> a(''ManagedEntityId'' := None)
      | Some (name, mark) \<Rightarrow> a(''ManagedEntityId'' := None, name \<mapsto> AvString mark))"

lemma template_mask: "template_map c (mask_map c a) = template_map c a"
  by (auto simp: template_map_def mask_map_def split: option.splits)

interpretation masking: table_pass mask_instance mask_map
proof (unfold_locales, goal_cases)
  case (1 p cm m s c i l)
  have a: "common_attribs c i s = Some l" using 1(1,3) by (simp add: common_attribs_table)
  have d: "distinct (akeys l)" using 1(2,3) by (auto elim: proper_entry)
  show ?case
  proof (cases "\<exists>name mark. onu_attribute c = Some (name, mark) \<and> map_of l name \<noteq> None")
    case False
    then have "mask_instance (c, i) s = Done s" "mask_map c (map_of l) = map_of l"
      using a by (auto simp: mask_instance_def mask_map_def split: option.splits)
    with d has_table_same [OF 1(1,3)] show ?thesis by fastforce
  next
    case True
    then obtain name mark where n: "onu_attribute c = Some (name, mark)" "map_of l name \<noteq> None" by blast
    obtain s1 m1 where s1: "put_own False c i l s = Done s1" "has_table p (cm\<lparr>MeDb := Some m1\<rparr>) m1 s1"
      "m1 = m \<or> m1 = nested_set c i (Some (range_assign l l)) m" "mt_path s1 = mt_path s" "mt_puts s1 = mt_puts s"
      using put_own_runs [OF 1(1), of False c i l] a by auto
    let ?l = "AList.update name (AvString mark) l"
    have "mask_instance (c, i) s = Done (set_common c i ?l s1)" using n a s1(1) by (auto simp: mask_instance_def)
    moreover have "has_table p (cm\<lparr>MeDb := Some (nested_set c i (Some ?l) m)\<rparr>) (nested_set c i (Some ?l) m) (set_common c i ?l s1)"
      using set_common_table [OF s1(2), of c i ?l] s1(3) by (auto simp: nested_set_twice)
    moreover have "mask_map c (map_of l) = map_of ?l" using n by (auto simp: mask_map_def)
    ultimately show ?thesis using d s1(4,5) by (intro exI [of _ "set_common c i ?l s1"] exI [of _ ?l]) simp
  qed
qed

interpretation stripping: table_pass strip_instance template_map
proof (unfold_locales, goal_cases)
  case (1 p cm m s c i l)
  have a: "common_attribs c i s = Some l" using 1(1,3) by (simp add: common_attribs_table)
  have d: "distinct (akeys l)" using 1(2,3) by (auto elim: proper_entry)
  let ?l = "case onu_attribute c of None \<Rightarrow> AList.delete ''ManagedEntityId'' l
    | Some (name, mark) \<Rightarrow> AList.update name (AvString mark) (AList.delete name (AList.delete ''ManagedEntityId'' l))"
  have "strip_instance (c, i) s = Done (set_common c i ?l s)" by (simp add: strip_instance_def a Let_def)
  moreover have "map_of ?l = template_map c (map_of l)" by (auto simp: template_map_def split: option.splits)
  moreover have "distinct (akeys ?l)" using d by (simp split: option.splits)
  ultimately show ?case using set_common_table [OF 1(1), of c i ?l]
    by (intro exI [of _ "set_common c i ?l s"] exI [of _ ?l]) simp
qed


text \<open>A table as a function, apart from the order of attributes.\<close>

definition table_map :: "MeDbMap \<Rightarrow> u16 \<Rightarrow> u16 \<Rightarrow> (string \<rightharpoonup> attr_value) option" where
  "table_map m c i = map_option (\<lambda>a. map_of (map_or_empty a)) (nested_get m c i)"

lemma created:
  assumes "has_table p cm m s" "proper_table m"
  shows "\<exists>s' m'. createAndPersistMibTemplate env s =
      Done (te_put env (mt_puts s) (mt_path s) (template_members (mt_path s) (te_now env) (cm\<lparr>MeDb := Some m'\<rparr>)), s') \<and>
    proper_table m' \<and> (\<forall>c i. table_map m' c i = map_option (template_map c) (table_map m c i))"
proof -
  let ?cis = "table_instances m"
  have w: "wf_medb m" using assms(2) by (simp add: proper_table_alt)
  have d: "distinct ?cis" "\<forall>(c, i) \<in> set ?cis. nested_get m c i \<noteq> None"
    using table_instances_distinct [OF w] table_instances_iff [OF w] by auto
  obtain s1 m1 where s1: "run_steps mask_instance ?cis s = Done s1" "has_table p (cm\<lparr>MeDb := Some m1\<rparr>) m1 s1" "proper_table m1"
    "mt_path s1 = mt_path s" "mt_puts s1 = mt_puts s"
    and e1: "\<forall>c i. case nested_get m c i of None \<Rightarrow> nested_get m1 c i = None
       | Some a \<Rightarrow> \<exists>l l'. a = Some l \<and> nested_get m1 c i = Some (Some l') \<and>
           map_of l' = (if (c, i) \<in> set ?cis then mask_map c (map_of l) else map_of l)"
    using masking.pass [OF assms d] by blast
  have "\<forall>(c, i) \<in> set ?cis. nested_get m1 c i \<noteq> None" using d(2) e1 by (fastforce split: option.splits)
  from stripping.pass [OF s1(2,3) d(1) this] obtain s2 m2 where
    s2: "run_steps strip_instance ?cis s1 = Done s2" "has_table p (cm\<lparr>MeDb := Some m2\<rparr>) m2 s2" "proper_table m2"
    "mt_path s2 = mt_path s" "mt_puts s2 = mt_puts s"
    and e2: "\<forall>c i. case nested_get m1 c i of None \<Rightarrow> nested_get m2 c i = None
       | Some a \<Rightarrow> \<exists>l l'. a = Some l \<and> nested_get m2 c i = Some (Some l') \<and>
           map_of l' = (if (c, i) \<in> set ?cis then template_map c (map_of l) else map_of l)"
    using s1(4,5) by auto
  have "table_map m2 c i = map_option (template_map c) (table_map m c i)" for c i
    using spec [OF spec [OF e1, of c], of i] spec [OF spec [OF e2, of c], of i] table_instances_iff [OF w, of c i]
    by (cases "nested_get m c i") (auto simp: table_map_def map_or_empty_def template_mask)
  moreover have "map_or_empty (MeDb cm) = m" using assms(1) by (simp add: has_table_def map_or_empty_def)
  ultimately show ?thesis
    using s1 s2 common_of_table [OF assms(1)] common_of_table [OF s2(2)]
    by (auto simp: createAndPersistMibTemplate_def Let_def)
qed

lemma unknown_not_numbers:
  assumes "n \<in> {CUnknownItuG988ManagedEntity, CUnknownVendorSpecificManagedEntity, CUnknownAttributesManagedEntity,
    ''TemplateName'', ''TemplateCreated''}"
  shows "parse_u16 n = None"
  using assms
  by (auto simp: parse_u16_def is_digit_def char_code_def CUnknownItuG988ManagedEntity_def
      CUnknownVendorSpecificManagedEntity_def CUnknownAttributesManagedEntity_def)

definition unknown_names_ok :: "OnuCmnMEDB \<Rightarrow> bool" where
  "unknown_names_ok cm \<longleftrightarrow> fst ` set (UnknownMeAndAttribDb cm) \<subseteq>
     {CUnknownItuG988ManagedEntity, CUnknownVendorSpecificManagedEntity, CUnknownAttributesManagedEntity}"

lemma load_skipped: "\<forall>kv \<in> set kvs. parse_u16 (fst kv) = None \<Longrightarrow> run_steps load_class kvs meDb = Done meDb"
  by (induction kvs) (simp_all add: load_class_def)

lemma load_template:
  assumes "proper_table m" "MeDb cm = Some m" "unknown_names_ok cm"
  shows "\<exists>m'. run_steps load_class (template_members path now cm) [] = Done m' \<and>
    (\<forall>c i. table_map m' c i =
       (if isSupportedClassID c then map_option (\<lambda>a. map_option reread \<circ> a) (table_map m c i) else None))"
proof -
  let ?cs = "map (\<lambda>(c, insts). (format_dec (unat c), class_json insts)) m"
  let ?us = "map (\<lambda>(n, u). (n, unknown_json u)) (UnknownMeAndAttribDb cm)"
  obtain m' where m': "run_steps load_class ?cs [] = Done m'"
    and e: "\<And>c i. nested_get m' c i = (if c \<in> fst ` set m \<and> isSupportedClassID c
        then map_option (\<lambda>a. map_option (\<lambda>l. range_assign (reread_map l) []) a) (nested_get m c i) else None)"
    using load_classes [OF assms(1), of "[]"] by (auto simp: nested_get_def)
  have "run_steps load_class ?us m' = Done m'"
    using assms(3) by (intro load_skipped) (auto simp: unknown_names_ok_def intro!: unknown_not_numbers)
  with m' have "run_steps load_class (template_members path now cm) [] = Done m'"
    by (simp add: template_members_def assms(2) map_or_empty_def run_steps_append load_class_def unknown_not_numbers)
  moreover have "table_map m' c i =
      (if isSupportedClassID c then map_option (\<lambda>a. map_option reread \<circ> a) (table_map m c i) else None)" for c i
  proof (cases "nested_get m c i")
    case None
    then show ?thesis by (simp add: table_map_def e)
  next
    case (Some a)
    then obtain l where l: "a = Some l" "distinct (akeys l)" by (rule proper_entry [OF assms(1)])
    have "c \<in> fst ` set m" using Some by (force simp: nested_get_def dest: map_of_SomeD split: option.splits)
    with Some l show ?thesis
      by (auto simp: table_map_def e map_or_empty_def map_of_range_assign_nil map_of_reread fun_eq_iff)
  qed
  ultimately show ?thesis by blast
qed

text \<open>An ONU with an ONU-G and a class that is not loaded, at the end of its upload.\<close>

definition sample_table :: MeDbMap where
  "sample_table = [(256, [(0, Some [(''ManagedEntityId'', AvUint16 0), (''SerialNumber'', AvBytes [1, 2]), (''OperationalState'', AvUint8 1)])]),
     (310, [(1, Some [(''MeType'', AvUint8 0)])])]"

definition sample_cmn :: OnuCmnMEDB where
  "sample_cmn = \<lparr> MeDb = Some sample_table, UnknownMeAndAttribDb = [], cm_MIBUploadStatus = NotStarted \<rparr>"

definition sample_tmpl :: mib_tmpl where
  "sample_tmpl =
     \<lparr> oe_pers = (initial_pers 0 0)\<lparr>PersSerialNumber := ''ABCD00000001''\<rparr>, oe_persLocked = False, oe_reconLocked = False,
       oe_ReconciledTpInstances = [],
       oe_sw = \<lparr> ActiveEntityEntry = \<lparr> sw_Version = [], sw_EntityID = 0, sw_Valid = False, sw_IsCommitted = 0 \<rparr>,
         InActiveEntityEntry = \<lparr> sw_Version = [], sw_EntityID = 0, sw_Valid = False, sw_IsCommitted = 0 \<rparr> \<rparr>,
       oe_mibAuditInterval = 0, oe_alarmAuditInterval = 0, oe_hasStore = True,
       mt_db = \<lparr> db_deviceID = ''onu-a'', CommonMeDb = Some 0, OnuSpecificMeDb = [] \<rparr>,
       mt_ac = new_mib_adapter\<lparr>ac_MibDatabaseMap := [(''v/1/2'', 0)], ac_cmn := [0 \<mapsto> sample_cmn], ac_next := 1\<rparr>,
       mt_path = ''v/1/2'', mt_gets = 0, mt_puts = 0 \<rparr>"

definition sample_kv :: tmpl_env where
  "sample_kv = \<lparr> te_get = (\<lambda>n p. KvAbsent), te_put = (\<lambda>n p t. None), te_now = ''2024'' \<rparr>"

lemma sample_table_ok: "has_table 0 sample_cmn sample_table sample_tmpl" "proper_table sample_table" "unknown_names_ok sample_cmn"
  by (auto simp: has_table_def sample_tmpl_def sample_cmn_def proper_table_def proper_insts_def sample_table_def unknown_names_ok_def)

text \<open>C15: A template is a faithful copy of the table of an ONU type. At the end of an upload the table is written
  as a template; when another adapter that knows no table of this type loads it, the new table is complete and
  holds, for every class the adapter supports, exactly the uploaded instances with their attributes, read back
  through JSON (numbers as floating point, octets as base64), without the redundant instance attribute, and with a
  placeholder where the serial number or the MAC address of the ONU stood. Other classes are left out.\<close>

theorem template_roundtrip:
  fixes s :: "'y mib_tmpl_scheme" and r :: "'z mib_tmpl_scheme"
  assumes "has_table p cm m s" "proper_table m" "unknown_names_ok cm"
    and "mt_path r = mt_path s" "FetchEntryFromMibDatabaseMap (mt_path s) (mt_ac r) = None"
    and "ac_next (mt_ac r) \<notin> set (ac_meDbLocked (mt_ac r))"
  shows "\<exists>T s' r' q cm' m'.
     createAndPersistMibTemplate env s = Done (te_put env (mt_puts s) (mt_path s) T, s') \<and>
     processMibTemplate (KvObject T) r = Done r' \<and> has_table q cm' m' r' \<and> cm_MIBUploadStatus cm' = Completed \<and>
     (\<forall>c i. table_map m' c i =
        (if isSupportedClassID c then map_option (\<lambda>a. map_option reread \<circ> template_map c a) (table_map m c i) else None))"
proof -
  obtain s' m1 where s': "createAndPersistMibTemplate env s =
      Done (te_put env (mt_puts s) (mt_path s) (template_members (mt_path s) (te_now env) (cm\<lparr>MeDb := Some m1\<rparr>)), s')"
    "proper_table m1" "\<forall>c i. table_map m1 c i = map_option (template_map c) (table_map m c i)"
    using created [OF assms(1,2), of env] by blast
  let ?T = "template_members (mt_path s) (te_now env) (cm\<lparr>MeDb := Some m1\<rparr>)"
  obtain m2 where m2: "run_steps load_class ?T [] = Done m2" "\<forall>c i. table_map m2 c i =
       (if isSupportedClassID c then map_option (\<lambda>a. map_option reread \<circ> a) (table_map m1 c i) else None)"
    using load_template [OF s'(2), of "cm\<lparr>MeDb := Some m1\<rparr>" "mt_path s" "te_now env"] assms(3)
    by (auto simp: unknown_names_ok_def)
  let ?q = "ac_next (mt_ac r)"
  have "\<exists>r' cm'. processMibTemplate (KvObject ?T) r = Done r' \<and> has_table ?q cm' m2 r' \<and> cm_MIBUploadStatus cm' = Completed"
    using assms(4-6) m2(1)
    by (simp add: processMibTemplate_def CreateEntryAtMibDatabaseMap_def FetchEntryFromMibDatabaseMap_def Let_def
        populateMibDatabase_def lock_MeDb_def unlock_MeDb_def NewOnuCmnMEDB_def map_or_empty_def upd_cmn_def has_table_def)
  moreover have "table_map m2 c i =
        (if isSupportedClassID c then map_option (\<lambda>a. map_option reread \<circ> template_map c a) (table_map m c i) else None)" for c i
    using s'(3) m2(2) by (simp add: option.map_comp comp_def)
  ultimately show ?thesis using s'(1) by blast
qed


theorem template_roundtrip_witness:
  "let r = sample_tmpl\<lparr>mt_ac := new_mib_adapter\<rparr> in
   \<exists>T s' r' q cm' m'.
     createAndPersistMibTemplate sample_kv sample_tmpl = Done (None, s') \<and> processMibTemplate (KvObject T) r = Done r' \<and>
     has_table q cm' m' r' \<and> table_map m' 310 1 = None \<and>
     (\<exists>a. table_map m' 256 0 = Some a \<and> a ''SerialNumber'' = Some (AvString ''%SERIAL_NUMBER%'') \<and>
        a ''OperationalState'' = Some (AvFloat64 1) \<and> a ''ManagedEntityId'' = None)"
proof -
  let ?r = "sample_tmpl\<lparr>mt_ac := new_mib_adapter\<rparr>"
  have r: "mt_path ?r = mt_path sample_tmpl" "FetchEntryFromMibDatabaseMap (mt_path sample_tmpl) (mt_ac ?r) = None"
    "ac_next (mt_ac ?r) \<notin> set (ac_meDbLocked (mt_ac ?r))"
    by (simp_all add: sample_tmpl_def new_mib_adapter_def FetchEntryFromMibDatabaseMap_def)
  have t: "table_map sample_table 256 0 =
      Some [''ManagedEntityId'' \<mapsto> AvUint16 0, ''SerialNumber'' \<mapsto> AvBytes [1, 2], ''OperationalState'' \<mapsto> AvUint8 1]"
    by (auto simp: table_map_def sample_table_def nested_get_def map_or_empty_def fun_eq_iff)
  have s: "isSupportedClassID 256" "\<not> isSupportedClassID 310" by (simp_all add: isSupportedClassID_def supportedClassIds_def)
  have f: "float64_of 1 = 1" by (simp add: float64_of_def round_53_def excess_bits.simps Let_def)
  have "te_put sample_kv n p T = None" for n p T by (simp add: sample_kv_def)
  with template_roundtrip [OF sample_table_ok r, of sample_kv] obtain T s' r' q cm' m' where
    x: "createAndPersistMibTemplate sample_kv sample_tmpl = Done (None, s')" "processMibTemplate (KvObject T) ?r = Done r'"
    "has_table q cm' m' r'" and e: "\<forall>c i. table_map m' c i = (if isSupportedClassID c
        then map_option (\<lambda>a. map_option reread \<circ> template_map c a) (table_map sample_table c i) else None)" by auto
  have "table_map m' 310 1 = None" "\<exists>a. table_map m' 256 0 = Some a \<and> a ''SerialNumber'' = Some (AvString ''%SERIAL_NUMBER%'') \<and>
        a ''OperationalState'' = Some (AvFloat64 1) \<and> a ''ManagedEntityId'' = None"
    by (simp_all add: e t s f template_map_def onu_attribute_def reread_def)
  with x show ?thesis unfolding Let_def by blast
qed

subsection \<open>The serial number\<close>

text \<open>What the routines see of one instance.\<close>

definition inst_view :: "u16 \<Rightarrow> u16 \<Rightarrow> 'z mib_tmpl_scheme \<Rightarrow>
    (string \<times> attr_value) list option \<times> AttributeValueMap option \<times> bool \<times> string" where
  "inst_view c i s = (common_attribs c i s, nested_get (OnuSpecificMeDb (mt_db s)) c i, is_shared c i s, mt_serial s)"

definition tabled :: "nat \<Rightarrow> (u16 \<times> u16) set \<Rightarrow> 'z mib_tmpl_scheme \<Rightarrow> bool" where
  "tabled p D s \<longleftrightarrow> (\<exists>cm m. has_table p cm m s) \<and> (\<forall>(d, j) \<in> D. \<exists>l. common_attribs d j s = Some l \<and> distinct (akeys l))"

lemma common_attribs_set:
  assumes "has_table p cm m s"
  shows "common_attribs c i (set_common d j a s) = (if c = d \<and> i = j then Some a else common_attribs c i s)"
  using common_attribs_table [OF assms] common_attribs_table [OF set_common_table [OF assms]] by simp

lemma is_shared_set [simp]: "is_shared c i (set_common d j a s) = is_shared c i s"
  by (auto simp: set_common_def is_shared_def upd_cmn_def split: option.splits)

lemma set_common_view:
  assumes "tabled p D s" "distinct (akeys a)"
  shows "tabled p D (set_common d j a s)"
    and "(d, j) \<noteq> (c, i) \<Longrightarrow> inst_view c i (set_common d j a s) = inst_view c i s"
    and "inst_view d j (set_common d j a s) =
      (Some a, if is_shared d j s then Some (Some a) else nested_get (OnuSpecificMeDb (mt_db s)) d j, is_shared d j s, mt_serial s)"
proof -
  obtain cm m where h: "has_table p cm m s" using assms by (auto simp: tabled_def)
  have "\<exists>cm m. has_table p cm m (set_common d j a s)" using set_common_table [OF h] by blast
  then show "tabled p D (set_common d j a s)"
    using assms by (fastforce simp: tabled_def common_attribs_set [OF h])
  show "(d, j) \<noteq> (c, i) \<Longrightarrow> inst_view c i (set_common d j a s) = inst_view c i s"
    and "inst_view d j (set_common d j a s) =
      (Some a, if is_shared d j s then Some (Some a) else nested_get (OnuSpecificMeDb (mt_db s)) d j, is_shared d j s, mt_serial s)"
    using h by (auto simp: inst_view_def common_attribs_set [OF h]) (auto simp: set_common_def has_table_def)
qed

lemma distinct_range_assign: "distinct (akeys old) \<Longrightarrow> distinct (akeys (range_assign new old))"
  unfolding range_assign_def by (induction new arbitrary: old) auto

lemma put_specific_get:
  assumes "put_specific c i (Some a) m = Done m'" "c \<noteq> OnuDataClassID"
  shows "nested_get m' d j = (if d = c \<and> j = i
    then Some (Some (case nested_get m c i of Some (Some b) \<Rightarrow> range_assign a b | _ \<Rightarrow> a)) else nested_get m d j)"
  using assms by (auto simp: put_specific_def merge_attribs_def map_or_empty_def nested_get_new_class
      nested_get_def [of m c i] split: option.splits)

lemma put_own_view:
  assumes "tabled p D s" "distinct (akeys a)" "d \<noteq> OnuDataClassID" "common_attribs d j s = Some b" "distinct (akeys b)"
  shows "\<exists>s'. put_own fresh d j a s = Done s' \<and> tabled p D s' \<and>
    (\<forall>c i. (d, j) \<noteq> (c, i) \<longrightarrow> inst_view c i s' = inst_view c i s) \<and>
    (let x = (case nested_get (OnuSpecificMeDb (mt_db s)) d j of Some (Some e) \<Rightarrow> range_assign a e | _ \<Rightarrow> a) in
     inst_view d j s' =
      (if is_shared d j s then (Some (range_assign a b), Some (Some (range_assign a b)), True, mt_serial s)
       else (Some b, Some (Some x),
             \<not> fresh \<and> (case nested_get (OnuSpecificMeDb (mt_db s)) d j of Some (Some e) \<Rightarrow> False | _ \<Rightarrow> True), mt_serial s)))"
proof (cases "is_shared d j s")
  case True
  let ?s = "set_common d j (range_assign a b) s"
  have "put_own fresh d j a s = Done ?s" using True assms(3,4) by (simp add: put_own_def)
  with True set_common_view [OF assms(1) distinct_range_assign [OF assms(5)]] show ?thesis
    by (intro exI [of _ ?s]) (simp add: Let_def)
next
  case False
  obtain cm m where h: "has_table p cm m s" using assms(1) by (auto simp: tabled_def)
  obtain m' where m': "put_specific d j (Some a) (OnuSpecificMeDb (mt_db s)) = Done m'" using put_specific_runs by blast
  define shares where "shares \<longleftrightarrow>
    \<not> fresh \<and> (case nested_get (OnuSpecificMeDb (mt_db s)) d j of Some (Some e) \<Rightarrow> False | _ \<Rightarrow> True)"
  define s' where "s' = s\<lparr>mt_db := mt_db s\<lparr>OnuSpecificMeDb := m'\<rparr>,
    mt_ac := (if shares then mt_ac s\<lparr>ac_shared := (db_deviceID (mt_db s), p, d, j) # ac_shared (mt_ac s)\<rparr> else mt_ac s)\<rparr>"
  have "put_own fresh d j a s = Done s'"
    using False assms(3) h m' by (simp add: put_own_def PutOnuSpeficMe_def has_table_def Let_def s'_def shares_def)
  moreover have h': "has_table p cm m s'" using h by (simp add: has_table_def s'_def)
  moreover have ca: "common_attribs c i s' = common_attribs c i s" for c i
    by (simp add: common_attribs_table [OF h] common_attribs_table [OF h'])
  moreover have "tabled p D s'" using assms(1) h' unfolding tabled_def ca by blast
  moreover have "is_shared c i s' \<longleftrightarrow> is_shared c i s \<or> (c = d \<and> i = j \<and> shares)" for c i
    using h by (auto simp: is_shared_def s'_def has_table_def)
  moreover have "mt_serial s' = mt_serial s" "OnuSpecificMeDb (mt_db s') = m'" by (simp_all add: s'_def)
  ultimately show ?thesis
    using False assms(1,4) put_specific_get [OF m' assms(3)]
    by (intro exI [of _ s']) (auto simp: inst_view_def Let_def shares_def)
qed

text \<open>A pass over distinct instances acts on the view of an instance once.\<close>

lemma run_steps_at:
  assumes "\<And>a s. a \<in> set as \<Longrightarrow> T s \<Longrightarrow> \<exists>s'. f a s = Done s' \<and> T s' \<and> (if a = x then F (V s) (V s') else V s' = V s)"
    and "distinct as" "x \<in> set as" "T s"
  shows "\<exists>s'. run_steps f as s = Done s' \<and> T s' \<and> F (V s) (V s')"
proof -
  have keep: "\<exists>s'. run_steps f bs s = Done s' \<and> T s' \<and> V s' = V s" if "set bs \<subseteq> set as" "x \<notin> set bs" "T s" for bs s
    using that
  proof (induction bs arbitrary: s)
    case (Cons b bs)
    then obtain s1 where s1: "f b s = Done s1" "T s1" "V s1 = V s" using assms(1) [of b s] by (auto split: if_splits)
    with Cons.IH [of s1] Cons.prems show ?case by auto
  qed simp
  obtain ys zs where as: "as = ys @ x # zs" "x \<notin> set ys" "x \<notin> set zs"
    using assms(2,3) by (auto dest: split_list)
  obtain s1 where s1: "run_steps f ys s = Done s1" "T s1" "V s1 = V s" using keep [of ys s] as assms(4) by auto
  obtain s2 where s2: "f x s1 = Done s2" "T s2" "F (V s) (V s2)" using assms(1) [of x s1] s1 as by auto
  obtain s3 where "run_steps f zs s2 = Done s3" "T s3" "V s3 = V s2" using keep [of zs s2] as s2 by auto
  with s1 s2 as(1) show ?thesis by (auto simp: run_steps_append)
qed


lemma onu_attribute_class: "onu_attribute d = Some x \<Longrightarrow> d \<noteq> OnuDataClassID"
  by (auto simp: onu_attribute_def OnuDataClassID_def split: if_splits)

definition with_serial :: "string \<Rightarrow> (string \<times> attr_value) list option \<times> AttributeValueMap option \<times> bool \<times> string \<Rightarrow> bool" where
  "with_serial ser v \<longleftrightarrow> (\<exists>l. v = (Some l, Some (Some l), True, ser) \<and> distinct (akeys l) \<and> map_of l ''SerialNumber'' \<noteq> None)"

lemma mask_instance_view:
  assumes "tabled p D s" "(d, j) \<in> D"
  shows "\<exists>s'. mask_instance (d, j) s = Done s' \<and> tabled p D s' \<and>
    (\<forall>c i. (d, j) \<noteq> (c, i) \<longrightarrow> inst_view c i s' = inst_view c i s) \<and>
    (\<forall>l. d = 6 \<or> d = 256 \<longrightarrow> inst_view d j s = (Some l, None, False, mt_serial s) \<longrightarrow> distinct (akeys l) \<longrightarrow>
       map_of l ''SerialNumber'' \<noteq> None \<longrightarrow> with_serial (mt_serial s) (inst_view d j s'))"
proof -
  obtain l where l: "common_attribs d j s = Some l" "distinct (akeys l)" using assms by (auto simp: tabled_def)
  show ?thesis
  proof (cases "\<exists>name mark. onu_attribute d = Some (name, mark) \<and> map_of l name \<noteq> None")
    case False
    then have "mask_instance (d, j) s = Done s" using l by (auto simp: mask_instance_def split: option.splits)
    moreover have "\<not> (inst_view d j s = (Some k, None, False, mt_serial s) \<and> map_of k ''SerialNumber'' \<noteq> None)"
      if "d = 6 \<or> d = 256" for k
      using False that l by (auto simp: inst_view_def onu_attribute_def)
    ultimately show ?thesis using assms(1) by (intro exI [of _ s]) auto
  next
    case True
    then obtain name mark where n: "onu_attribute d = Some (name, mark)" "map_of l name \<noteq> None" by blast
    let ?l = "AList.update name (AvString mark) l"
    have dl: "distinct (akeys ?l)" using l(2) by simp
    obtain s1 where s1: "put_own False d j l s = Done s1" "tabled p D s1"
      "\<forall>c i. (d, j) \<noteq> (c, i) \<longrightarrow> inst_view c i s1 = inst_view c i s"
      and w: "inst_view d j s1 = (if is_shared d j s then (Some (range_assign l l), Some (Some (range_assign l l)), True, mt_serial s)
       else (Some l, Some (Some (case nested_get (OnuSpecificMeDb (mt_db s)) d j of Some (Some e) \<Rightarrow> range_assign l e | _ \<Rightarrow> l)),
         \<not> False \<and> (case nested_get (OnuSpecificMeDb (mt_db s)) d j of Some (Some e) \<Rightarrow> False | _ \<Rightarrow> True), mt_serial s))"
      using put_own_view [OF assms(1) l(2) onu_attribute_class [OF n(1)] l, of False] unfolding Let_def by blast
    have v1: "inst_view d j s1 = (Some l, Some (Some l), True, mt_serial s)" if "inst_view d j s = (Some l, None, False, mt_serial s)"
      using that unfolding w by (simp add: inst_view_def)
    have "mask_instance (d, j) s = Done (set_common d j ?l s1)" using n l s1(1) by (auto simp: mask_instance_def)
    moreover have "with_serial (mt_serial s) (inst_view d j (set_common d j ?l s1))"
      if "d = 6 \<or> d = 256" "inst_view d j s = (Some k, None, False, mt_serial s)" for k
    proof -
      have "k = l" "name = ''SerialNumber''" using that n(1) l(1) by (auto simp: inst_view_def onu_attribute_def)
      then show ?thesis using v1 that dl set_common_view(3) [OF s1(2) dl, of d j] by (auto simp: inst_view_def with_serial_def)
    qed
    ultimately show ?thesis
      using s1(3) set_common_view [OF s1(2) dl] by (intro exI [of _ "set_common d j ?l s1"]) auto
  qed
qed

lemma strip_instance_view:
  assumes "tabled p D s" "(d, j) \<in> D"
  shows "\<exists>s'. strip_instance (d, j) s = Done s' \<and> tabled p D s' \<and>
    (\<forall>c i. (d, j) \<noteq> (c, i) \<longrightarrow> inst_view c i s' = inst_view c i s) \<and>
    (\<forall>ser. with_serial ser (inst_view d j s) \<longrightarrow> with_serial ser (inst_view d j s'))"
proof -
  obtain l where l: "common_attribs d j s = Some l" "distinct (akeys l)" using assms by (auto simp: tabled_def)
  let ?l = "case onu_attribute d of None \<Rightarrow> AList.delete ''ManagedEntityId'' l
    | Some (name, mark) \<Rightarrow> AList.update name (AvString mark) (AList.delete name (AList.delete ''ManagedEntityId'' l))"
  let ?s = "set_common d j ?l s"
  have dl: "distinct (akeys ?l)" using l(2) by (simp split: option.splits)
  have "strip_instance (d, j) s = Done ?s" by (simp add: strip_instance_def l(1) Let_def)
  moreover have k: "map_of l ''SerialNumber'' \<noteq> None \<Longrightarrow> map_of ?l ''SerialNumber'' \<noteq> None" by (simp split: option.splits)
  have "with_serial ser (inst_view d j ?s)" if w: "with_serial ser (inst_view d j s)" for ser
  proof -
    have "map_of l ''SerialNumber'' \<noteq> None" "is_shared d j s" "ser = mt_serial s"
      using w l(1) by (auto simp: with_serial_def inst_view_def)
    with k dl set_common_view(3) [OF assms(1) dl, of d j] show ?thesis unfolding with_serial_def by auto
  qed
  ultimately show ?thesis using set_common_view [OF assms(1) dl] by (intro exI [of _ ?s]) auto
qed

lemma update_entry_view:
  assumes "tabled p D s" "(d, j) \<in> D"
  shows "\<exists>s'. update_entry (d, j) s = Done s' \<and> tabled p D s' \<and>
    (\<forall>c i. (d, j) \<noteq> (c, i) \<longrightarrow> inst_view c i s' = inst_view c i s) \<and>
    (\<forall>ser. d = 6 \<or> d = 256 \<longrightarrow> with_serial ser (inst_view d j s) \<longrightarrow>
       (\<exists>l. fst (inst_view d j s') = Some l \<and> map_of l ''SerialNumber'' = Some (AvString ser)))"
proof -
  obtain l where l: "common_attribs d j s = Some l" "distinct (akeys l)" using assms by (auto simp: tabled_def)
  have same: "\<exists>s'. updateAttribute name d j v s = Done s' \<and> tabled p D s' \<and>
    (\<forall>c i. (d, j) \<noteq> (c, i) \<longrightarrow> inst_view c i s' = inst_view c i s) \<and>
    (is_shared d j s \<longrightarrow> map_of l name \<noteq> None \<longrightarrow>
       fst (inst_view d j s') = Some (range_assign (AList.update name (AvString v) l) l))"
    if "d \<noteq> OnuDataClassID" for name v
  proof (cases "map_of l name = None")
    case True
    then show ?thesis using l assms(1) by (intro exI [of _ s]) (simp add: updateAttribute_def)
  next
    case False
    have "distinct (akeys (AList.update name (AvString v) l))" using l(2) by simp
    from put_own_view [OF assms(1) this that l, of True] False l show ?thesis
      by (auto simp: updateAttribute_def Let_def split: if_splits)
  qed
  have r: "map_of (range_assign (AList.update n v l) l) n = Some v" for n v
    using l(2) by (simp add: map_of_range_assign)
  consider "d = 6 \<or> d = 256" | "d = 134" | "d \<noteq> 6" "d \<noteq> 256" "d \<noteq> 134" by blast
  then show ?thesis
  proof cases
    case 1
    then have "d \<noteq> OnuDataClassID" "update_entry (d, j) s = updateAttribute ''SerialNumber'' d j (mt_serial s) s"
      by (auto simp: OnuDataClassID_def update_entry_def)
    with same [of "''SerialNumber''" "mt_serial s"] l(1) r show ?thesis
      by (auto simp: with_serial_def inst_view_def)
  next
    case 2
    then have "update_entry (d, j) s = updateAttribute ''MacAddress'' d j (mt_mac s) s" by (simp add: update_entry_def)
    moreover have "d \<noteq> OnuDataClassID" using 2 by (simp add: OnuDataClassID_def)
    ultimately show ?thesis using same [of "''MacAddress''" "mt_mac s"] 2 by auto
  next
    case 3
    then show ?thesis using assms(1) by (intro exI [of _ s]) (simp add: update_entry_def)
  qed
qed


lemma tabled_table:
  assumes "has_table p cm m s" "proper_table m"
  shows "tabled p (set (table_instances m)) s"
proof -
  have w: "wf_medb m" using assms(2) by (simp add: proper_table_alt)
  then show ?thesis
    using assms table_instances_iff [OF w] unfolding tabled_def
    by (auto simp: common_attribs_table [OF assms(1)] proper_table_alt)
qed

text \<open>The two passes of the template routine share the map of the instance.\<close>

lemma template_shares:
  assumes "has_table p cm m s" "proper_table m" "c = 6 \<or> c = 256" "distinct (akeys l)"
    and "nested_get m c i \<noteq> None" "inst_view c i s = (Some l, None, False, mt_serial s)" "map_of l ''SerialNumber'' \<noteq> None"
  shows "\<exists>err s' cm' m'. createAndPersistMibTemplate env s = Done (err, s') \<and> has_table p cm' m' s' \<and> proper_table m' \<and>
    nested_get m' c i \<noteq> None \<and> with_serial (mt_serial s) (inst_view c i s')"
proof -
  let ?cis = "table_instances m"
  let ?V = "inst_view c i"
  have w: "wf_medb m" using assms(2) by (simp add: proper_table_alt)
  have x: "(c, i) \<in> set ?cis" "distinct ?cis" using table_instances_iff [OF w] table_instances_distinct [OF w] assms(5) by auto
  have y: "\<forall>(d, j) \<in> set ?cis. nested_get m d j \<noteq> None" using table_instances_iff [OF w] by auto
  obtain s1 m1 where s1: "run_steps mask_instance ?cis s = Done s1" "has_table p (cm\<lparr>MeDb := Some m1\<rparr>) m1 s1" "proper_table m1"
    and e1: "\<forall>c i. case nested_get m c i of None \<Rightarrow> nested_get m1 c i = None
       | Some a \<Rightarrow> \<exists>l l'. a = Some l \<and> nested_get m1 c i = Some (Some l') \<and>
           map_of l' = (if (c, i) \<in> set ?cis then mask_map c (map_of l) else map_of l)"
    using masking.pass [OF assms(1,2) x(2) y] by blast
  have "\<exists>s'. run_steps mask_instance ?cis s = Done s' \<and> tabled p (set ?cis) s' \<and>
      (?V s = (Some l, None, False, mt_serial s) \<longrightarrow> with_serial (mt_serial s) (?V s'))"
  proof (rule run_steps_at [where T = "tabled p (set ?cis)" and V = ?V and
      F = "\<lambda>v v'. v = (Some l, None, False, mt_serial s) \<longrightarrow> with_serial (mt_serial s) v'",
      OF _ x(2,1) tabled_table [OF assms(1,2)]], goal_cases)
    case (1 a s')
    obtain d j where a: "a = (d, j)" by (rule prod.exhaust)
    obtain s2 where s2: "mask_instance (d, j) s' = Done s2" "tabled p (set ?cis) s2"
      "(d, j) \<noteq> (c, i) \<longrightarrow> ?V s2 = ?V s'"
      "d = 6 \<or> d = 256 \<longrightarrow> inst_view d j s' = (Some l, None, False, mt_serial s') \<longrightarrow> with_serial (mt_serial s') (inst_view d j s2)"
      using mask_instance_view [of p "set ?cis" s' d j] 1 assms(4,7) unfolding a by blast
    have "with_serial (mt_serial s) (?V s2)" if "a = (c, i)" "?V s' = (Some l, None, False, mt_serial s)"
    proof -
      have "mt_serial s' = mt_serial s" using that(2) by (simp add: inst_view_def)
      with s2(4) that assms(3) show ?thesis by (auto simp: a)
    qed
    with s2(1-3) show ?case by (intro exI [of _ s2]) (auto simp: a)
  qed
  with s1(1) assms(6) have t1: "tabled p (set ?cis) s1" "with_serial (mt_serial s) (?V s1)" by auto
  have z: "\<forall>(d, j) \<in> set ?cis. nested_get m1 d j \<noteq> None" using y e1 by (fastforce split: option.splits)
  obtain s2 m2 where s2: "run_steps strip_instance ?cis s1 = Done s2" "has_table p (cm\<lparr>MeDb := Some m2\<rparr>) m2 s2" "proper_table m2"
    and e2: "\<forall>c i. case nested_get m1 c i of None \<Rightarrow> nested_get m2 c i = None
       | Some a \<Rightarrow> \<exists>l l'. a = Some l \<and> nested_get m2 c i = Some (Some l') \<and>
           map_of l' = (if (c, i) \<in> set ?cis then template_map c (map_of l) else map_of l)"
    using stripping.pass [OF s1(2,3) x(2) z] by auto
  have "\<exists>s'. run_steps strip_instance ?cis s1 = Done s' \<and> tabled p (set ?cis) s' \<and>
      (with_serial (mt_serial s) (?V s1) \<longrightarrow> with_serial (mt_serial s) (?V s'))"
  proof (rule run_steps_at [where T = "tabled p (set ?cis)" and V = ?V and
      F = "\<lambda>v v'. with_serial (mt_serial s) v \<longrightarrow> with_serial (mt_serial s) v'", OF _ x(2,1) t1(1)], goal_cases)
    case (1 a s')
    obtain d j where a: "a = (d, j)" by (rule prod.exhaust)
    show ?case using strip_instance_view [of p "set ?cis" s' d j] 1 by (auto simp: a)
  qed
  with s2(1) t1 have "with_serial (mt_serial s) (?V s2)" by auto
  moreover have "nested_get m2 c i \<noteq> None"
    using z x(1) spec [OF spec [OF e2, of c], of i] by (auto split: option.splits)
  moreover have "map_or_empty (MeDb cm) = m" using assms(1) by (simp add: has_table_def map_or_empty_def)
  ultimately show ?thesis
    using s1(1) s2 common_of_table [OF assms(1)] common_of_table [OF s2(2)]
    by (auto simp: createAndPersistMibTemplate_def Let_def has_table_def on_ac_def SetMibTemplatesGenerated_def inst_view_def
        common_attribs_def common_of_def is_shared_def)
qed

text \<open>C17: The table the ONUs of one type share keeps the serial number of the ONU that was uploaded. At the end of
  the upload the serial number is masked in the common table and the ONU gets entries of its own; since the entry of
  the own table is the map of the common one, writing the serial number back into the own entry writes it into the
  common table again. Every other ONU of this type, which reads the common table first, then finds the serial number
  of the first ONU in its circuit packs and in its ONU-G, whatever its own table holds.\<close>

theorem serial_number_leaks:
  assumes "has_table p cm m s" "proper_table m" "c = 6 \<or> c = 256"
    and "nested_get m c i = Some (Some l)" "map_of l ''SerialNumber'' \<noteq> None"
    and "nested_get (OnuSpecificMeDb (mt_db s)) c i = None" "\<not> is_shared c i s"
  shows "\<exists>err s1 s2 l'. createAndPersistMibTemplate env s = Done (err, s1) \<and> updateOnuSpecificEntries s1 = Done s2 \<and>
     map_of l' ''SerialNumber'' = Some (AvString (mt_serial s)) \<and>
     (\<forall>db. CommonMeDb db = Some p \<longrightarrow> GetMe db c i (ac_cmn (mt_ac s2)) = Done (Some l'))"
proof -
  have dl: "distinct (akeys l)" using assms(2,4) by (auto elim: proper_entry)
  have v: "inst_view c i s = (Some l, None, False, mt_serial s)"
    using assms(4,6,7) by (simp add: inst_view_def common_attribs_table [OF assms(1)])
  obtain err s1 cm1 m1 where s1: "createAndPersistMibTemplate env s = Done (err, s1)" "has_table p cm1 m1 s1" "proper_table m1"
      "nested_get m1 c i \<noteq> None" "with_serial (mt_serial s) (inst_view c i s1)"
    using template_shares [OF assms(1-3) dl _ v assms(5)] assms(4) by blast
  let ?cis = "table_instances m1"
  have w: "wf_medb m1" using s1(3) by (simp add: proper_table_alt)
  have x: "(c, i) \<in> set ?cis" "distinct ?cis" using table_instances_iff [OF w] table_instances_distinct [OF w] s1(4) by auto
  have "\<exists>s'. run_steps update_entry ?cis s1 = Done s' \<and> tabled p (set ?cis) s' \<and>
      (with_serial (mt_serial s) (inst_view c i s1) \<longrightarrow>
        (\<exists>l'. fst (inst_view c i s') = Some l' \<and> map_of l' ''SerialNumber'' = Some (AvString (mt_serial s))))"
  proof (rule run_steps_at [where T = "tabled p (set ?cis)" and V = "inst_view c i" and
      F = "\<lambda>v v'. with_serial (mt_serial s) v \<longrightarrow>
        (\<exists>l'. fst v' = Some l' \<and> map_of l' ''SerialNumber'' = Some (AvString (mt_serial s)))",
      OF _ x(2,1) tabled_table [OF s1(2,3)]], goal_cases)
    case (1 a s')
    obtain d j where a: "a = (d, j)" by (rule prod.exhaust)
    show ?case using update_entry_view [of p "set ?cis" s' d j] 1 assms(3) by (auto simp: a)
  qed
  then obtain s2 l' where s2: "run_steps update_entry ?cis s1 = Done s2" "tabled p (set ?cis) s2"
      "common_attribs c i s2 = Some l'" "map_of l' ''SerialNumber'' = Some (AvString (mt_serial s))"
    using s1(5) by (auto simp: inst_view_def)
  have "updateOnuSpecificEntries s1 = Done s2"
    using s2(1) s1(2) by (simp add: updateOnuSpecificEntries_def common_of_table) (simp add: has_table_def map_or_empty_def)
  moreover obtain cm2 m2 where h: "has_table p cm2 m2 s2" using s2(2) by (auto simp: tabled_def)
  moreover have "nested_get m2 c i = Some (Some l')"
    using s2(3) common_attribs_table [OF h] by (auto split: option.splits)
  ultimately show ?thesis
    using s1(1) s2(4) by (auto simp: GetMe_def deref_common_def has_table_def map_or_empty_def intro!: exI [of _ l'])
qed


theorem serial_number_leaks_witness:
  "\<exists>err s1 s2 l'. createAndPersistMibTemplate sample_kv sample_tmpl = Done (err, s1) \<and> updateOnuSpecificEntries s1 = Done s2 \<and>
     map_of l' ''SerialNumber'' = Some (AvString ''ABCD00000001'') \<and>
     GetMe \<lparr> db_deviceID = ''onu-b'', CommonMeDb = Some 0, OnuSpecificMeDb = [] \<rparr> 256 0 (ac_cmn (mt_ac s2)) = Done (Some l')"
proof -
  have "nested_get sample_table 256 0 =
      Some (Some [(''ManagedEntityId'', AvUint16 0), (''SerialNumber'', AvBytes [1, 2]), (''OperationalState'', AvUint8 1)])"
    "nested_get (OnuSpecificMeDb (mt_db sample_tmpl)) 256 0 = None" "\<not> is_shared 256 0 sample_tmpl"
    by (simp_all add: sample_table_def nested_get_def sample_tmpl_def is_shared_def new_mib_adapter_def)
  moreover have "mt_serial sample_tmpl = ''ABCD00000001''" by (simp add: sample_tmpl_def)
  ultimately show ?thesis
    using serial_number_leaks [OF sample_table_ok(1,2), of 256 0 _ sample_kv] by fastforce
qed

end
