(* ===== verification/Mib_Sync.thy ===== *)
theory Mib_Sync
  imports Mib_Tmpl Mib_Dl
begin

text \<open>
  The MIB synchronisation (\<^verbatim>\<open>mib_sync.go\<close>, its table in \<^verbatim>\<open>onu_device_entry.go\<close>): the machine that resets the
  MIB of an ONU, reads its identity and software images, takes the MIB from a shared table or a template or uploads
  it, audits it, and examines after a restart of the adapter whether the ONU still has the configuration the adapter
  knows.

  The state extends that of \<open>Mib_Tmpl\<close> by the machine, the OMCI channel and the last request. Goroutines are
  tasks; the channel of the machine is a queue of two messages which one or more loops read (\<open>ul_loops\<close>). What
  the device handler, the OMCI test and the ONU answer are arguments.
\<close>

subsection \<open>The machine\<close>

datatype ul_evt = UlEvStart | UlEvResetMib | UlEvGetVendorAndSerial | UlEvGetVersion | UlEvGetEquipIDAndOmcc
  | UlEvTestExtOmciSupport | UlEvGetFirstSwVersion | UlEvGetSecondSwVersion | UlEvGetMacAddress | UlEvGetMibTemplate
  | UlEvUploadMib | UlEvVerifyAndStoreTPs | UlEvExamineMds | UlEvSuccess | UlEvMismatch | UlEvAuditMib | UlEvForceResync
  | UlEvDiffsFound | UlEvTimeout | UlEvStop

datatype ul_state = UlStDisabled | UlStStarting | UlStResettingMib | UlStGettingVendorAndSerial | UlStGettingVersion
  | UlStGettingEquipIDAndOmcc | UlStTestingExtOmciSupport | UlStGettingFirstSwVersion | UlStGettingSecondSwVersion
  | UlStGettingMacAddress | UlStGettingMibTemplate | UlStUploading | UlStUploadDone | UlStInSync | UlStVerifyingAndStoringTPs
  | UlStExaminingMds | UlStResynchronizing | UlStExaminingMdsSuccess | UlStAuditing | UlStReAuditing | UlStOutOfSync

definition ul_timeout_states :: "ul_state list" where
  "ul_timeout_states =
     [UlStResettingMib, UlStGettingVendorAndSerial, UlStGettingVersion, UlStGettingEquipIDAndOmcc, UlStTestingExtOmciSupport,
      UlStGettingFirstSwVersion, UlStGettingSecondSwVersion, UlStGettingMacAddress, UlStGettingMibTemplate, UlStUploading,
      UlStResynchronizing, UlStVerifyingAndStoringTPs, UlStExaminingMds, UlStUploadDone, UlStInSync, UlStOutOfSync,
      UlStAuditing, UlStReAuditing]"

definition mib_ul_events :: "(ul_evt, ul_state) fsm_events" where
  "mib_ul_events =
    [(UlEvStart, [UlStDisabled], UlStStarting),
     (UlEvResetMib, [UlStStarting], UlStResettingMib),
     (UlEvGetVendorAndSerial, [UlStResettingMib], UlStGettingVendorAndSerial),
     (UlEvGetVersion, [UlStGettingVendorAndSerial], UlStGettingVersion),
     (UlEvGetEquipIDAndOmcc, [UlStGettingVersion], UlStGettingEquipIDAndOmcc),
     (UlEvTestExtOmciSupport, [UlStGettingEquipIDAndOmcc], UlStTestingExtOmciSupport),
     (UlEvGetFirstSwVersion, [UlStGettingEquipIDAndOmcc, UlStTestingExtOmciSupport], UlStGettingFirstSwVersion),
     (UlEvGetSecondSwVersion, [UlStGettingFirstSwVersion], UlStGettingSecondSwVersion),
     (UlEvGetMacAddress, [UlStGettingSecondSwVersion], UlStGettingMacAddress),
     (UlEvGetMibTemplate, [UlStGettingMacAddress], UlStGettingMibTemplate),
     (UlEvUploadMib, [UlStGettingMibTemplate], UlStUploading),
     (UlEvVerifyAndStoreTPs, [UlStStarting], UlStVerifyingAndStoringTPs),
     (UlEvSuccess, [UlStVerifyingAndStoringTPs], UlStExaminingMds),
     (UlEvMismatch, [UlStVerifyingAndStoringTPs], UlStResettingMib),
     (UlEvSuccess, [UlStGettingMibTemplate], UlStUploadDone),
     (UlEvSuccess, [UlStUploading], UlStUploadDone),
     (UlEvSuccess, [UlStUploadDone], UlStInSync),
     (UlEvSuccess, [UlStExaminingMds], UlStExaminingMdsSuccess),
     (UlEvMismatch, [UlStExaminingMds], UlStResettingMib),
     (UlEvSuccess, [UlStExaminingMdsSuccess], UlStInSync),
     (UlEvMismatch, [UlStExaminingMdsSuccess], UlStResettingMib),
     (UlEvAuditMib, [UlStInSync], UlStAuditing),
     (UlEvSuccess, [UlStOutOfSync], UlStInSync),
     (UlEvAuditMib, [UlStOutOfSync], UlStAuditing),
     (UlEvSuccess, [UlStAuditing], UlStInSync),
     (UlEvMismatch, [UlStAuditing], UlStReAuditing),
     (UlEvForceResync, [UlStAuditing], UlStResynchronizing),
     (UlEvSuccess, [UlStReAuditing], UlStInSync),
     (UlEvMismatch, [UlStReAuditing], UlStResettingMib),
     (UlEvSuccess, [UlStResynchronizing], UlStInSync),
     (UlEvDiffsFound, [UlStResynchronizing], UlStOutOfSync),
     (UlEvTimeout, ul_timeout_states, UlStStarting),
     (UlEvStop, UlStStarting # ul_timeout_states, UlStDisabled)]"

subsection \<open>Messages\<close>

type_synonym me_attributes = "(string \<times> Dev_Db.attr_value) list"

record uploaded_me =
  um_name :: string
  um_class :: u16
  um_inst :: u16
  um_mask :: u16
  um_attributes :: me_attributes

record unknown_attr =
  ua_class :: u16
  ua_inst :: u16
  ua_mask :: u16
  ua_data :: bytes

record upload_entry =
  ue_reported :: uploaded_me
  ue_payload :: bytes
  ue_unknown :: "unknown_attr list"
  ue_extended :: bool
  ue_additional :: "uploaded_me list"

text \<open>The layers of a response: missing, of another type than expected, or decoded. For a missing layer of an upload
  response it matters whether a decode failure is reported, and whether it is about a table attribute.\<close>

datatype 'a layer = LayerMissing | LayerWrong | Layer 'a

record get_response =
  gr_class :: u16
  gr_inst :: u16
  gr_result :: u8
  gr_attributes :: me_attributes

datatype ul_response =
    MibResetResponse "u8 layer"
  | MibUploadResponse "u16 layer"
  | MibUploadNextResponse "upload_entry layer" "bool option"
  | GetResponse "get_response layer"
  | OtherResponse

datatype ul_message = UlAbort | UlTimeOutOccurred | UlTemplateOk | UlTemplateFailed | UlTestOther
  | UlOmci ul_response | UlUnknownMessage | UlChannelClosed

subsection \<open>State and surroundings\<close>

datatype ul_task = UlTask ul_evt | UlAuditTimer | UlStoreAndMismatch | UlStoreOnly | UlSuccessOnReboot | UlWaitForFlows

datatype ul_effect = UlProcStatusUpdate OnuDeviceEvent | UlInitializationFailed | UlPrepareReconciling | UlDeviceEvent string
  | UlReasonUpdate string | UlReconcilingReasonUpdate | UlStorePersistentData | UlStartReconciling | UlAddAllUniPorts
  | UlReadyForOmciConfig | UlStartCollector | UlStartAlarmManager | UlFlowHandler u8 | UlUniPortsDisabled | UlUniPortsEnabled
  | UlFlowConfigOnReboot | UlReconcileFlows | UlFlowsFinished bool

datatype flows_end = FlowsDone | FlowsAborted | FlowsExpired

record ul_env =
  uv_ctx :: "nat \<Rightarrow> send_ctx"
  uv_timeout :: int
  uv_kv :: tmpl_env
  uv_parent :: parent_env
  uv_octets :: "Dev_Db.attr_value \<Rightarrow> bytes option"
  uv_now :: u32
  uv_isReconciling :: bool
  uv_skipOnuConfigReconciling :: bool
  uv_skipOnuConfigEnabled :: bool
  uv_extTest :: bool
  uv_extOmciEnabled :: bool
  uv_auditStart :: bool
  uv_collectorRunning :: bool
  uv_alarmManagerRunning :: bool
  uv_uniPorts :: "u8 list"
  uv_uniPortMask :: u8
  uv_flowMonitoring :: "u8 \<Rightarrow> bool"
  uv_deviceTechProf :: bool
  uv_reconcileTechProf :: bool

record mib_ul = mib_tmpl +
  ul_fsm :: ul_state
  ul_cc :: OmciCC
  ul_lastMe :: "(u16 \<times> u16) option"
  ul_lastType :: u8
  ul_repeatCount :: u8
  ul_devState :: OnuDeviceEvent
  ul_mibDownloadSuccess :: bool
  ul_raiseFailure :: bool
  ul_running :: bool
  ul_loops :: nat
  ul_queue :: "ul_message list"
  ul_reconcilingFlows :: bool
  ul_tasks :: "ul_task list"
  ul_out :: "ul_effect list"
  ul_sent :: nat

abbreviation ul_go :: "ul_task \<Rightarrow> mib_ul \<Rightarrow> mib_ul" where
  "ul_go t s \<equiv> s\<lparr>ul_tasks := ul_tasks s @ [t]\<rparr>"

abbreviation ul_emit :: "ul_effect \<Rightarrow> mib_ul \<Rightarrow> mib_ul" where
  "ul_emit e s \<equiv> s\<lparr>ul_out := ul_out s @ [e]\<rparr>"

definition ul_transferSystemEvent :: "OnuDeviceEvent \<Rightarrow> mib_ul \<Rightarrow> mib_ul" where
  "ul_transferSystemEvent devEvent s =
     (if devEvent = MibDatabaseSync \<or> devEvent = MibDownloadDone then
        (if ul_devState s < devEvent then ul_emit (UlProcStatusUpdate devEvent) (s\<lparr>ul_devState := devEvent\<rparr>) else s)
      else s)"

text \<open>A send to the channel of the machine by the loop that reads it.\<close>

definition ul_send_self :: "ul_message \<Rightarrow> mib_ul \<Rightarrow> mib_ul run" where
  "ul_send_self m s = (if 2 \<le> length (ul_queue s) then Deadlock else Done (s\<lparr>ul_queue := ul_queue s @ [m]\<rparr>))"

subsection \<open>Requests\<close>

text \<open>A request without result: an error is ignored.\<close>

definition ul_request :: "ul_env \<Rightarrow> (send_ctx \<Rightarrow> OmciCC \<Rightarrow> 'a send_result run) \<Rightarrow> mib_ul \<Rightarrow> ((string + 'a) \<times> mib_ul) run" where
  "ul_request env f s =
     bind_run (f (uv_ctx env (ul_sent s)) (ul_cc s)) (\<lambda>(r, sr).
       Done (r, s\<lparr>ul_cc := sup_state sr, ul_sent := ul_sent s + 1\<rparr>))"

definition ul_get ::
    "ul_env \<Rightarrow> me_class \<Rightarrow> u16 \<Rightarrow> AttributeValueMap \<Rightarrow> bool \<Rightarrow> mib_ul \<Rightarrow> ((string + ManagedEntity) \<times> mib_ul) run" where
  "ul_get env cls inst attrs extended s =
     ul_request env (\<lambda>c. SendGetMe c (class_id cls) inst attrs (uv_timeout env) True (GetMibUploadFsmCommChan c) extended) s"

text \<open>The request of a state: on an error the machine is stopped, otherwise the request is the last one.\<close>

definition ul_get_state :: "ul_env \<Rightarrow> me_class \<Rightarrow> u16 \<Rightarrow> AttributeValueMap \<Rightarrow> bool \<Rightarrow> mib_ul \<Rightarrow> mib_ul run" where
  "ul_get_state env cls inst attrs extended s =
     bind_run (ul_get env cls inst attrs extended s) (\<lambda>(r, s).
       case r of
         Inl e \<Rightarrow> Done (ul_go (UlTask UlEvStop) s)
       | Inr m \<Rightarrow> Done (s\<lparr>ul_lastType := GetRequestType, ul_lastMe := Some (GetClassID m, GetEntityID m)\<rparr>))"

definition is_ext :: "mib_ul \<Rightarrow> bool run" where
  "is_ext = pers_section (\<lambda>s. Done (PersIsExtOmciSupported (oe_pers s)))"

definition requestMdsValue :: "ul_env \<Rightarrow> mib_ul \<Rightarrow> mib_ul run" where
  "requestMdsValue env s =
     bind_run (is_ext s) (\<lambda>ext.
     bind_run (ul_get env Me_OnuData 0 [(''MibDataSync'', AvOctets [])] ext s) (\<lambda>(r, s).
       case r of
         Inl e \<Rightarrow> Done (ul_go (UlTask UlEvStop) s)
       | Inr m \<Rightarrow> Done (s\<lparr>ul_lastType := GetRequestType, ul_lastMe := Some (GetClassID m, GetEntityID m), ul_repeatCount := 0\<rparr>)))"

subsection \<open>Entering the states\<close>

definition ul_enterDisabledState :: "mib_ul \<Rightarrow> mib_ul" where
  "ul_enterDisabledState s =
     (if ul_raiseFailure s then (ul_emit UlInitializationFailed s)\<lparr>ul_raiseFailure := False\<rparr> else s)"

text \<open>The new device data base shares no map with any table.\<close>

definition ul_enterStartingState :: "mib_ul \<Rightarrow> mib_ul" where
  "ul_enterStartingState s =
     s\<lparr>ul_raiseFailure := True, mt_db := NewOnuDeviceDB (db_deviceID (mt_db s)),
       mt_ac := (mt_ac s)\<lparr>ac_shared := filter (\<lambda>(d, r). d \<noteq> db_deviceID (mt_db s)) (ac_shared (mt_ac s))\<rparr>,
       ul_running := True, ul_loops := ul_loops s + 1\<rparr>"

definition enterResettingMibState :: "ul_env \<Rightarrow> mib_ul \<Rightarrow> mib_ul run" where
  "enterResettingMibState env s =
     bind_run (IsNewOnu s) (\<lambda>isNew.
       let s = (if (\<not> isNew \<and> \<not> uv_isReconciling env) \<or> uv_skipOnuConfigReconciling env
                then (ul_emit UlPrepareReconciling s)\<lparr>ul_devState := DeviceStatusInit\<rparr> else s) in
       bind_run (ul_request env (\<lambda>c. SendMibReset c (uv_timeout env) True) s) (\<lambda>(r, s).
         Done (s\<lparr>ul_lastType := MibResetRequestType, ul_repeatCount := 0\<rparr>)))"

definition enterGettingVendorAndSerialState :: "ul_env \<Rightarrow> mib_ul \<Rightarrow> mib_ul run" where
  "enterGettingVendorAndSerialState env =
     ul_get_state env Me_OnuG 0 [(''VendorId'', AvOctets []), (''SerialNumber'', AvInt 0)] False"

definition enterGettingVersionState :: "ul_env \<Rightarrow> mib_ul \<Rightarrow> mib_ul run" where
  "enterGettingVersionState env = ul_get_state env Me_OnuG 0 [(''Version'', AvOctets [])] False"

definition enterGettingEquipIDAndOmccVersState :: "ul_env \<Rightarrow> mib_ul \<Rightarrow> mib_ul run" where
  "enterGettingEquipIDAndOmccVersState env =
     ul_get_state env Me_Onu2G 0
       [(''EquipmentId'', AvOctets []), (''OpticalNetworkUnitManagementAndControlChannelOmccVersion'', AvInt 0)] False"

text \<open>The test of the extended message set; a missing answer counts as a failure.\<close>

definition enterTestingExtOmciSupportState :: "ul_env \<Rightarrow> mib_ul \<Rightarrow> mib_ul run" where
  "enterTestingExtOmciSupportState env s =
     bind_run (if uv_extTest env then Done s else on_pers (\<lambda>d. d\<lparr>PersIsExtOmciSupported := False\<rparr>) s) (\<lambda>s.
       Done (ul_go (UlTask UlEvGetFirstSwVersion) s))"

definition ul_get_image :: "ul_env \<Rightarrow> u16 \<Rightarrow> mib_ul \<Rightarrow> mib_ul run" where
  "ul_get_image env inst s =
     bind_run (is_ext s) (\<lambda>ext. ul_get_state env Me_SoftwareImage inst
       [(''IsCommitted'', AvInt 0), (''IsActive'', AvInt 0), (''Version'', AvOctets [])] ext s)"

definition enterGettingFirstSwVersionState :: "ul_env \<Rightarrow> mib_ul \<Rightarrow> mib_ul run" where
  "enterGettingFirstSwVersionState env = ul_get_image env FirstSwImageMeID"

definition enterGettingSecondSwVersionState :: "ul_env \<Rightarrow> mib_ul \<Rightarrow> mib_ul run" where
  "enterGettingSecondSwVersionState env = ul_get_image env SecondSwImageMeID"

definition enterGettingMacAddressState :: "ul_env \<Rightarrow> mib_ul \<Rightarrow> mib_ul run" where
  "enterGettingMacAddressState env s =
     bind_run (is_ext s) (\<lambda>ext. ul_get_state env Me_IpHostConfigData 1 [(''MacAddress'', AvOctets [])] ext s)"

text \<open>The table of the type: it exists and is complete, it exists from an upload that failed, it is made from the
  template, or there is none; then the upload starts with the adapter-wide mutex and the lock of the table held.\<close>

definition common_exists :: "ul_env \<Rightarrow> nat \<Rightarrow> mib_ul \<Rightarrow> (ul_message \<times> mib_ul) run" where
  "common_exists env p s =
     bind_run (run_ac LockMutexMibTemplateGenerated s) (\<lambda>s.
     let s = s\<lparr>mt_db := mt_db s\<lparr>CommonMeDb := Some p\<rparr>\<rparr>; (v, s) = kv_read (uv_kv env) s in
     bind_run (if v = KvAbsent then bind_run (createAndPersistMibTemplate (uv_kv env) s) (\<lambda>(err, s). Done s) else Done s) (\<lambda>s.
     bind_run (common_of s) (\<lambda>(p, cm).
       if cm_MIBUploadStatus cm = Completed then
         bind_run (run_ac (lock_MeDb p) s) (\<lambda>s.
         bind_run (updateOnuSpecificEntries s) (\<lambda>s.
         bind_run (run_ac (unlock_MeDb p) s) (\<lambda>s.
         bind_run (run_ac UnlockMutexMibTemplateGenerated s) (\<lambda>s. Done (UlTemplateOk, s)))))
       else
         bind_run (run_ac (ResetEntryFromMibDatabaseMap (mt_path s)) s) (\<lambda>s.
         bind_run (run_ac (lock_MeDb p) s) (\<lambda>s.
         bind_run (run_ac UnlockMutexMibTemplateGenerated s) (\<lambda>s. Done (UlTemplateFailed, s)))))))"

definition common_missing :: "ul_env \<Rightarrow> mib_ul \<Rightarrow> (ul_message \<times> mib_ul) run" where
  "common_missing env s =
     (let (v, s) = kv_read (uv_kv env) s in
      if v = KvError \<or> v = KvAbsent then
        bind_run (run_ac LockMutexMibTemplateGenerated s) (\<lambda>s.
          let (p, existed, ac) = CreateEntryAtMibDatabaseMap (mt_path s) (mt_ac s) in
          bind_run (run_ac (lock_MeDb p) (s\<lparr>mt_ac := ac, mt_db := mt_db s\<lparr>CommonMeDb := Some p\<rparr>\<rparr>)) (\<lambda>s.
            Done (UlTemplateFailed, s)))
      else bind_run (processMibTemplate v s) (\<lambda>s. Done (UlTemplateOk, s)))"

definition enterGettingMibTemplateState :: "ul_env \<Rightarrow> mib_ul \<Rightarrow> mib_ul run" where
  "enterGettingMibTemplateState env s =
     bind_run (if sw_Valid (ActiveEntityEntry (oe_sw s)) then SetPersActiveSwVersion (sw_Version (ActiveEntityEntry (oe_sw s))) s
               else Done s) (\<lambda>s.
     bind_run (buildMibTemplatePath s) (\<lambda>path.
       let s = s\<lparr>mt_path := path\<rparr> in
       bind_run (case FetchEntryFromMibDatabaseMap path (mt_ac s) of
           Some p \<Rightarrow> common_exists env p s
         | None \<Rightarrow> common_missing env s) (\<lambda>(m, s). ul_send_self m s)))"

definition enterUploadingState :: "ul_env \<Rightarrow> mib_ul \<Rightarrow> mib_ul run" where
  "enterUploadingState env s =
     bind_run (is_ext s) (\<lambda>ext.
     bind_run (ul_request env (\<lambda>c. SendMibUpload c (uv_timeout env) True ext) s) (\<lambda>(r, s).
       Done (s\<lparr>ul_lastType := MibUploadRequestType\<rparr>)))"

definition enterUploadDoneState :: "mib_ul \<Rightarrow> mib_ul" where
  "enterUploadDoneState s = ul_go (UlTask UlEvSuccess) (ul_transferSystemEvent MibDatabaseSync s)"

definition enterInSyncState :: "ul_env \<Rightarrow> mib_ul \<Rightarrow> mib_ul run" where
  "enterInSyncState env s =
     bind_run (on_pers (\<lambda>d. d\<lparr>PersMibLastDbSync := uv_now env\<rparr>) s) (\<lambda>s.
       Done (if 0 < oe_mibAuditInterval s then ul_go UlAuditTimer s else s))"

definition enterVerifyingAndStoringTPsState :: "ul_env \<Rightarrow> mib_ul \<Rightarrow> mib_ul run" where
  "enterVerifyingAndStoringTPsState env s =
     bind_run (getAllStoredTpInstFromParentAdapter (uv_parent env) s) (\<lambda>(ok, s).
       Done (if ok then ul_go (UlTask UlEvSuccess) s
             else ul_go UlStoreAndMismatch (ul_emit UlReconcilingReasonUpdate s)))"

definition enterExaminingMdsState :: "ul_env \<Rightarrow> mib_ul \<Rightarrow> mib_ul run" where
  "enterExaminingMdsState env s =
     (if uv_skipOnuConfigEnabled env then Done (ul_go (UlTask UlEvSuccess) s) else requestMdsValue env s)"

definition flow_handlers :: "ul_env \<Rightarrow> ul_effect list" where
  "flow_handlers env =
     map UlFlowHandler (filter (\<lambda>u. push_bit (unat u) 1 AND uv_uniPortMask env = push_bit (unat u) 1 \<and> \<not> uv_flowMonitoring env u)
       (uv_uniPorts env))"

definition reconcile_steps :: "ul_env \<Rightarrow> mib_ul \<Rightarrow> mib_ul run" where
  "reconcile_steps env s =
     (let s = s\<lparr>ul_mibDownloadSuccess := True, ul_out := ul_out s @
            [UlStartReconciling, UlAddAllUniPorts, UlReasonUpdate ''initial-mib-downloaded'', UlReadyForOmciConfig] @
            (if uv_collectorRunning env then [] else [UlStartCollector]) @
            (if uv_alarmManagerRunning env then [] else [UlStartAlarmManager]) @ flow_handlers env\<rparr> in
      pers_section (\<lambda>s.
        let s = (if PersUniDisableDone (oe_pers s)
                 then s\<lparr>ul_out := ul_out s @ [UlUniPortsDisabled, UlReasonUpdate ''omci-admin-lock'']\<rparr>
                 else ul_emit UlUniPortsEnabled s) in
        Done (if PersRebootInProgress (oe_pers s) then ul_go UlSuccessOnReboot s
              else if uv_reconcileTechProf env
              then (ul_emit UlReconcileFlows (ul_go UlWaitForFlows s))\<lparr>ul_reconcilingFlows := True\<rparr> else s)) s)"

definition enterExaminingMdsSuccessState :: "ul_env \<Rightarrow> mib_ul \<Rightarrow> mib_ul run" where
  "enterExaminingMdsSuccessState env s =
     bind_run (getMibFromTemplate (uv_kv env) s) (\<lambda>(found, s).
       if found then reconcile_steps env s else Done (ul_go (UlTask UlEvMismatch) s))"

definition ul_enterAuditingState :: "ul_env \<Rightarrow> mib_ul \<Rightarrow> mib_ul run" where
  "ul_enterAuditingState env s =
     (if uv_auditStart env then requestMdsValue env s else Done (ul_go (UlTask UlEvSuccess) s))"

definition enterReAuditingState :: "ul_env \<Rightarrow> mib_ul \<Rightarrow> mib_ul run" where
  "enterReAuditingState env s =
     (if uv_auditStart env then requestMdsValue env s else Done (ul_go (UlTask UlEvSuccess) s))"

definition ul_enter :: "ul_env \<Rightarrow> ul_state \<Rightarrow> mib_ul \<Rightarrow> mib_ul run" where
  "ul_enter env st s =
     (case st of
        UlStDisabled \<Rightarrow> Done (ul_enterDisabledState s)
      | UlStStarting \<Rightarrow> Done (ul_enterStartingState s)
      | UlStResettingMib \<Rightarrow> enterResettingMibState env s
      | UlStGettingVendorAndSerial \<Rightarrow> enterGettingVendorAndSerialState env s
      | UlStGettingVersion \<Rightarrow> enterGettingVersionState env s
      | UlStGettingEquipIDAndOmcc \<Rightarrow> enterGettingEquipIDAndOmccVersState env s
      | UlStTestingExtOmciSupport \<Rightarrow> enterTestingExtOmciSupportState env s
      | UlStGettingFirstSwVersion \<Rightarrow> enterGettingFirstSwVersionState env s
      | UlStGettingSecondSwVersion \<Rightarrow> enterGettingSecondSwVersionState env s
      | UlStGettingMacAddress \<Rightarrow> enterGettingMacAddressState env s
      | UlStGettingMibTemplate \<Rightarrow> enterGettingMibTemplateState env s
      | UlStUploading \<Rightarrow> enterUploadingState env s
      | UlStUploadDone \<Rightarrow> Done (enterUploadDoneState s)
      | UlStInSync \<Rightarrow> enterInSyncState env s
      | UlStVerifyingAndStoringTPs \<Rightarrow> enterVerifyingAndStoringTPsState env s
      | UlStExaminingMds \<Rightarrow> enterExaminingMdsState env s
      | UlStExaminingMdsSuccess \<Rightarrow> enterExaminingMdsSuccessState env s
      | UlStAuditing \<Rightarrow> ul_enterAuditingState env s
      | UlStReAuditing \<Rightarrow> enterReAuditingState env s
      | UlStResynchronizing \<Rightarrow> Done s
      | UlStOutOfSync \<Rightarrow> Done s)"

definition ul_event :: "ul_env \<Rightarrow> ul_evt \<Rightarrow> mib_ul \<Rightarrow> mib_ul run" where
  "ul_event env ev s =
     bind_run (fsm_event mib_ul_events ul_fsm (\<lambda>st s. s\<lparr>ul_fsm := st\<rparr>) (ul_enter env) ev s) (\<lambda>(e, s). Done s)"


subsection \<open>Responses to the reset and to the upload\<close>

definition me_UnknownEntity :: u8 where "me_UnknownEntity = 4"
definition me_ProcessingError :: u8 where "me_ProcessingError = 1"
definition me_NotSupported :: u8 where "me_NotSupported = 2"

text \<open>A response in another state may answer an old reset: then the request for the counter is repeated once.\<close>

definition handleOmciMibResetResponseMessage :: "ul_env \<Rightarrow> u8 layer \<Rightarrow> mib_ul \<Rightarrow> mib_ul run" where
  "handleOmciMibResetResponseMessage env m s =
     (if ul_fsm s = UlStResettingMib then
        (if m = Layer me_Success then
           bind_run (on_pers (\<lambda>d. d\<lparr>PersMibDataSyncAdpt := 0\<rparr>) s) (\<lambda>s.
             ul_event env UlEvGetVendorAndSerial (s\<lparr>ul_cc := ResetConfFailMEs (ul_cc s), ul_mibDownloadSuccess := False\<rparr>))
         else ul_event env UlEvStop s)
      else if ul_lastType s = GetRequestType \<and> ul_repeatCount s = 0 then
        bind_run (ul_get env Me_OnuData 0 [(''MibDataSync'', AvOctets [])] False s) (\<lambda>(r, s).
          case r of Inl e \<Rightarrow> ul_event env UlEvStop s | Inr m \<Rightarrow> Done (s\<lparr>ul_repeatCount := 1\<rparr>))
      else Done s)"

definition ul_upload_next :: "ul_env \<Rightarrow> mib_ul \<Rightarrow> mib_ul run" where
  "ul_upload_next env s =
     bind_run (is_ext s) (\<lambda>ext.
     bind_run (ul_request env (\<lambda>c. SendMibUploadNext c (uv_timeout env) True ext) s) (\<lambda>(r, s).
       Done (s\<lparr>ul_lastType := MibUploadNextRequestType\<rparr>)))"

definition handleOmciMibUploadResponseMessage :: "ul_env \<Rightarrow> u16 layer \<Rightarrow> mib_ul \<Rightarrow> mib_ul run" where
  "handleOmciMibUploadResponseMessage env m s =
     (case m of
        Layer n \<Rightarrow>
          let s = s\<lparr>ul_cc := (ul_cc s)\<lparr>UploadNoOfCmds := n\<rparr>\<rparr> in
          if UploadSequNo (ul_cc s) < n then ul_upload_next env s else ul_event env UlEvTimeout s
      | _ \<Rightarrow> Done s)"

text \<open>\<^verbatim>\<open>PutMe\<close> and \<^verbatim>\<open>PutUnknownMeOrAttrib\<close> on the common table; the map of a shared instance is also that of the
  own table.\<close>

definition ul_on_cmn :: "(OnuDeviceDB \<Rightarrow> cmn_store \<Rightarrow> cmn_store run) \<Rightarrow> mib_ul \<Rightarrow> mib_ul run" where
  "ul_on_cmn f s = bind_run (f (mt_db s) (ac_cmn (mt_ac s))) (\<lambda>h. Done (s\<lparr>mt_ac := (mt_ac s)\<lparr>ac_cmn := h\<rparr>\<rparr>))"

definition ul_PutMe :: "u16 \<Rightarrow> u16 \<Rightarrow> me_attributes \<Rightarrow> mib_ul \<Rightarrow> mib_ul run" where
  "ul_PutMe c i a s =
     bind_run (ul_on_cmn (\<lambda>db. PutMe db c i (Some a)) s) (\<lambda>s.
       Done (case common_attribs c i s of
               Some b \<Rightarrow> if is_shared c i s
                 then s\<lparr>mt_db := (mt_db s)\<lparr>OnuSpecificMeDb := nested_set c i (Some b) (OnuSpecificMeDb (mt_db s))\<rparr>\<rparr> else s
             | None \<Rightarrow> s))"

definition unknown_me :: "string \<Rightarrow> bool" where
  "unknown_me n \<longleftrightarrow> n = CUnknownItuG988ManagedEntity \<or> n = CUnknownVendorSpecificManagedEntity"

definition put_unknown_attr :: "unknown_attr \<Rightarrow> mib_ul \<Rightarrow> mib_ul run" where
  "put_unknown_attr u =
     ul_on_cmn (\<lambda>db. PutUnknownMeOrAttrib db CUnknownAttributesManagedEntity (ua_class u) (ua_inst u) (ua_mask u) (ua_data u))"

definition put_reported :: "upload_entry \<Rightarrow> mib_ul \<Rightarrow> mib_ul run" where
  "put_reported e s =
     (let m = ue_reported e in
      if unknown_me (um_name m) then
        (if length (ue_payload e) < 6 then Fatal ''slice bounds out of range''
         else ul_on_cmn (\<lambda>db. PutUnknownMeOrAttrib db (um_name m) (um_class m) (um_inst m) (um_mask m) (drop 6 (ue_payload e))) s)
      else bind_run (run_steps put_unknown_attr (ue_unknown e) s) (ul_PutMe (um_class m) (um_inst m) (um_attributes m)))"

definition attrib_octets :: "ul_env \<Rightarrow> me_attributes \<Rightarrow> bytes" where
  "attrib_octets env a =
     concat (map (\<lambda>(k, v). if k = ''ManagedEntityId'' then [] else case uv_octets env v of None \<Rightarrow> [] | Some b \<Rightarrow> b) a)"

definition put_additional :: "ul_env \<Rightarrow> uploaded_me \<Rightarrow> mib_ul \<Rightarrow> mib_ul run" where
  "put_additional env m =
     (if unknown_me (um_name m)
      then ul_on_cmn (\<lambda>db. PutUnknownMeOrAttrib db (um_name m) (um_class m) (um_inst m) (um_mask m) (attrib_octets env (um_attributes m)))
      else ul_PutMe (um_class m) (um_inst m) (um_attributes m))"

text \<open>The end of an upload: the template is written, the entries of this ONU are made, the table is complete and
  its lock and the adapter-wide mutex are released.\<close>

definition upload_complete :: "ul_env \<Rightarrow> mib_ul \<Rightarrow> mib_ul run" where
  "upload_complete env s =
     bind_run (createAndPersistMibTemplate (uv_kv env) s) (\<lambda>(err, s).
     bind_run (updateOnuSpecificEntries s) (\<lambda>s.
       case FetchEntryFromMibDatabaseMap (mt_path s) (mt_ac s) of
         None \<Rightarrow> nil_deref
       | Some p \<Rightarrow>
           let s = on_ac (upd_cmn p (\<lambda>cm. cm\<lparr>cm_MIBUploadStatus := Completed\<rparr>)) s in
           bind_run (common_of s) (\<lambda>(q, cm).
           bind_run (run_ac (unlock_MeDb q) s) (\<lambda>s.
           bind_run (run_ac UnlockMutexMibTemplateGenerated (on_ac (SetMibTemplatesGenerated (mt_path s) True) s)) (\<lambda>s.
             ul_event env UlEvSuccess s)))))"

definition upload_continue :: "ul_env \<Rightarrow> mib_ul \<Rightarrow> mib_ul run" where
  "upload_continue env s =
     (if UploadSequNo (ul_cc s) < UploadNoOfCmds (ul_cc s) then ul_upload_next env s else upload_complete env s)"

definition handleOmciMibUploadNextResponseMessage ::
    "ul_env \<Rightarrow> upload_entry layer \<Rightarrow> bool option \<Rightarrow> mib_ul \<Rightarrow> mib_ul run" where
  "handleOmciMibUploadNextResponseMessage env m failure s =
     (case m of
        LayerWrong \<Rightarrow> Done s
      | Layer e \<Rightarrow>
          bind_run (put_reported e s) (\<lambda>s.
          bind_run (if ue_extended e then run_steps (put_additional env) (ue_additional e) s else Done s) (upload_continue env))
      | LayerMissing \<Rightarrow> if failure = Some False then Done s else upload_continue env s)"

subsection \<open>Responses to the read requests\<close>

definition octets_of :: "ul_env \<Rightarrow> Dev_Db.attr_value \<Rightarrow> bytes" where
  "octets_of env v = (case uv_octets env v of None \<Rightarrow> [] | Some b \<Rightarrow> b)"

definition go_string :: "bytes \<Rightarrow> string" where
  "go_string b = map (\<lambda>x. char_of (unat x)) b"

definition trim_string :: "ul_env \<Rightarrow> Dev_Db.attr_value \<Rightarrow> string" where
  "trim_string env v = go_string (TrimStringFromMeOctet (octets_of env) v)"

definition hex_string :: "bytes \<Rightarrow> string" where
  "hex_string b = concat (map hex_byte b)"

definition serial_string :: "bytes \<Rightarrow> string" where
  "serial_string b =
     (if length b = 8 then go_string (take 4 b) @ hex_string (drop 4 b) else ''0000000000000000'')"

definition mac_string :: "bytes \<Rightarrow> string" where
  "mac_string b = (if length b = 6 then hex_string b else ''000000000000'')"

definition handleOmciGetResponseOnuG :: "ul_env \<Rightarrow> me_attributes \<Rightarrow> mib_ul \<Rightarrow> mib_ul run" where
  "handleOmciGetResponseOnuG env a s =
     (if ul_fsm s = UlStGettingVendorAndSerial then
        (case map_of a ''VendorId'' of
           None \<Rightarrow> ul_event env UlEvStop s
         | Some v \<Rightarrow>
             let vendorID = (let x = trim_string env v in if x = [] then ''____'' else x) in
             bind_run (on_pers (\<lambda>d. d\<lparr>PersVendorID := vendorID\<rparr>) s) (\<lambda>s.
               case map_of a ''SerialNumber'' of
                 None \<Rightarrow> ul_event env UlEvStop s
               | Some v \<Rightarrow>
                   bind_run (on_pers (\<lambda>d. d\<lparr>PersSerialNumber := serial_string (octets_of env v)\<rparr>) s) (ul_event env UlEvGetVersion)))
      else if ul_fsm s = UlStGettingVersion then
        (case map_of a ''Version'' of
           None \<Rightarrow> ul_event env UlEvStop s
         | Some v \<Rightarrow>
             let version = (let x = trim_string env v in if x = [] then ''______________'' else x) in
             bind_run (on_pers (\<lambda>d. d\<lparr>PersVersion := version\<rparr>) s) (ul_event env UlEvGetEquipIDAndOmcc))
      else ul_event env UlEvStop s)"

text \<open>The versions of the OMCI channel that are known, and those with the extended message set.\<close>

definition omccVersionSupportsExtendedOmciFormat :: "u8 \<Rightarrow> bool option" where
  "omccVersionSupportsExtendedOmciFormat v =
     (if v \<in> {0x80, 0x81, 0x82, 0x83, 0x84, 0x85, 0x86, 0xA0, 0xA1, 0xA2, 0xA3} then Some False
      else if v \<in> {0x96, 0xB0, 0xB1, 0xB2, 0xB3, 0xB4} then Some True else None)"

definition get_response_onu2g :: "ul_env \<Rightarrow> me_attributes \<Rightarrow> mib_ul \<Rightarrow> mib_ul run" where
  "get_response_onu2g env a s =
     (let equipmentID = (case map_of a ''EquipmentId'' of
            None \<Rightarrow> ''NOT_PRESENT_EQUIP_ID''
          | Some v \<Rightarrow> (let x = trim_string env v in if x = [] then ''EMPTY_EQUIP_ID'' else x)) in
      bind_run (on_pers (\<lambda>d. d\<lparr>PersEquipmentID := equipmentID\<rparr>) s) (\<lambda>s.
        case map_of a ''OpticalNetworkUnitManagementAndControlChannelOmccVersion'' of
          None \<Rightarrow> ul_event env UlEvStop s
        | Some (AvUint8 v) \<Rightarrow>
            let supported = omccVersionSupportsExtendedOmciFormat v = Some True \<and> uv_extOmciEnabled env in
            bind_run (on_pers (\<lambda>d. d\<lparr>PersIsExtOmciSupported := supported\<rparr>) s)
              (ul_event env (if supported then UlEvTestExtOmciSupport else UlEvGetFirstSwVersion))
        | Some _ \<Rightarrow> Fatal ''interface conversion''))"

text \<open>\<open>False\<close> when a mandatory attribute is missing.\<close>

definition HandleSwImageIndications :: "ul_env \<Rightarrow> u16 \<Rightarrow> me_attributes \<Rightarrow> mib_ul \<Rightarrow> (bool \<times> mib_ul) run" where
  "HandleSwImageIndications env entityID a s =
     (case (map_of a ''IsCommitted'', map_of a ''IsActive'', map_of a ''Version'') of
        (Some c, Some act, Some v) \<Rightarrow>
          (case (c, act) of
             (AvUint8 c, AvUint8 act) \<Rightarrow>
               let version = trim_string env v in
               if entityID = FirstSwImageMeID then
                 bind_run (ul_event env UlEvGetSecondSwVersion (s\<lparr>oe_sw := first_image version act c (oe_sw s)\<rparr>)) (\<lambda>s. Done (True, s))
               else if entityID = SecondSwImageMeID then
                 bind_run (ul_event env UlEvGetMacAddress (s\<lparr>oe_sw := second_image version act c (oe_sw s)\<rparr>)) (\<lambda>s. Done (True, s))
               else Done (True, s)
           | _ \<Rightarrow> Fatal ''interface conversion'')
      | _ \<Rightarrow> Done (False, s))"

definition checkMdsValue :: "ul_env \<Rightarrow> u8 \<Rightarrow> mib_ul \<Rightarrow> mib_ul run" where
  "checkMdsValue env mibDataSyncOnu = pers_section (\<lambda>s.
     let mdsValuesAreEqual = PersMibDataSyncAdpt (oe_pers s) = mibDataSyncOnu in
     if ul_fsm s = UlStAuditing then ul_event env (if mdsValuesAreEqual then UlEvSuccess else UlEvMismatch) s
     else if ul_fsm s = UlStReAuditing then
       (if mdsValuesAreEqual then ul_event env UlEvSuccess s
        else
          bind_run (getAllStoredTpInstFromParentAdapter (uv_parent env) (ul_emit (UlDeviceEvent ''ONU_MIB_AUDIT_FAILURE_MDS'') s))
            (\<lambda>(ok, s). ul_event env UlEvMismatch (if ok then s else ul_go UlStoreOnly (ul_emit UlReconcilingReasonUpdate s))))
     else if ul_fsm s = UlStExaminingMds then
       ul_event env (if mdsValuesAreEqual \<and> mibDataSyncOnu \<noteq> 0 then UlEvSuccess else UlEvMismatch) s
     else Done s)"

text \<open>An unsupported IP host means no MAC address; every other error stops the machine.\<close>

definition handleOmciGetResponseErrors :: "ul_env \<Rightarrow> get_response \<Rightarrow> mib_ul \<Rightarrow> (bool \<times> mib_ul) run" where
  "handleOmciGetResponseErrors env m s =
     (if gr_result m \<in> {me_UnknownInstance, me_UnknownEntity, me_ProcessingError, me_NotSupported} then
        (if ul_lastMe s = Some (gr_class m, gr_inst m) then
           (if gr_class m = class_id Me_IpHostConfigData then
              bind_run (on_pers (\<lambda>d. d\<lparr>PersMacAddress := ''000000000000''\<rparr>) s) (\<lambda>s.
                bind_run (ul_event env UlEvGetMibTemplate s) (\<lambda>s. Done (True, s)))
            else Done (False, s))
         else Done (True, s))
      else Done (False, s))"

definition get_response_me :: "ul_env \<Rightarrow> u16 \<Rightarrow> u16 \<Rightarrow> me_attributes \<Rightarrow> mib_ul \<Rightarrow> mib_ul run" where
  "get_response_me env cls entityID a s =
     (if cls = class_id Me_OnuG then handleOmciGetResponseOnuG env a s
      else if cls = class_id Me_Onu2G then get_response_onu2g env a s
      else if cls = class_id Me_SoftwareImage then
        (if SecondSwImageMeID < entityID then Done s
         else bind_run (HandleSwImageIndications env entityID a s) (\<lambda>(ok, s). if ok then Done s else ul_event env UlEvStop s))
      else if cls = class_id Me_IpHostConfigData then
        bind_run (on_pers (\<lambda>d. d\<lparr>PersMacAddress :=
            (case map_of a ''MacAddress'' of None \<Rightarrow> ''000000000000'' | Some v \<Rightarrow> mac_string (octets_of env v))\<rparr>) s)
          (ul_event env UlEvGetMibTemplate)
      else if cls = class_id Me_OnuData then
        (case map_of a ''MibDataSync'' of
           Some (AvUint8 v) \<Rightarrow> checkMdsValue env v s
         | Some _ \<Rightarrow> Fatal ''interface conversion''
         | None \<Rightarrow> ul_event env UlEvStop s)
      else ul_event env UlEvStop s)"

definition handleOmciGetResponseMessage :: "ul_env \<Rightarrow> get_response layer \<Rightarrow> mib_ul \<Rightarrow> mib_ul run" where
  "handleOmciGetResponseMessage env m s =
     (if ul_lastType s \<noteq> GetRequestType \<or> ul_lastMe s = None then
        (if ul_lastType s = MibResetRequestType \<and> ul_repeatCount s = 0 then
           bind_run (ul_request env (\<lambda>c. SendMibReset c (uv_timeout env) True) s) (\<lambda>(r, s). Done (s\<lparr>ul_repeatCount := 1\<rparr>))
         else Done s)
      else case m of
        Layer r \<Rightarrow>
          if gr_result r = me_Success then
            (if ul_lastMe s = Some (gr_class r, gr_inst r) then get_response_me env (gr_class r) (gr_inst r) (gr_attributes r) s
             else ul_event env UlEvStop s)
          else bind_run (handleOmciGetResponseErrors env r s) (\<lambda>(ok, s). if ok then Done s else ul_event env UlEvStop s)
      | _ \<Rightarrow> ul_event env UlEvStop s)"

definition ul_handleOmciMessage :: "ul_env \<Rightarrow> ul_response \<Rightarrow> mib_ul \<Rightarrow> mib_ul run" where
  "ul_handleOmciMessage env m s =
     (case m of
        MibResetResponse l \<Rightarrow> handleOmciMibResetResponseMessage env l s
      | MibUploadResponse l \<Rightarrow> handleOmciMibUploadResponseMessage env l s
      | MibUploadNextResponse l f \<Rightarrow> handleOmciMibUploadNextResponseMessage env l f s
      | GetResponse l \<Rightarrow> handleOmciGetResponseMessage env l s
      | OtherResponse \<Rightarrow> Done s)"

subsection \<open>The loop and its surroundings\<close>

definition handleTestMsg :: "ul_env \<Rightarrow> ul_message \<Rightarrow> mib_ul \<Rightarrow> mib_ul run" where
  "handleTestMsg env m s =
     (case m of UlTemplateFailed \<Rightarrow> ul_event env UlEvUploadMib s | UlTemplateOk \<Rightarrow> ul_event env UlEvSuccess s | _ \<Rightarrow> Done s)"

text \<open>One iteration of the loop. When it ends, the machine is stopped; only the time-out leaves the flag that a loop
  is running.\<close>

definition processMibSyncMessage :: "ul_env \<Rightarrow> ul_message \<Rightarrow> mib_ul \<Rightarrow> mib_ul run" where
  "processMibSyncMessage env m s =
     (case m of
        UlChannelClosed \<Rightarrow> ul_event env UlEvStop (s\<lparr>ul_running := False, ul_loops := ul_loops s - 1\<rparr>)
      | UlAbort \<Rightarrow> ul_event env UlEvStop (s\<lparr>ul_running := False, ul_loops := ul_loops s - 1\<rparr>)
      | UlTimeOutOccurred \<Rightarrow> ul_event env UlEvStop (s\<lparr>ul_loops := ul_loops s - 1\<rparr>)
      | UlOmci r \<Rightarrow> ul_handleOmciMessage env r s
      | UlUnknownMessage \<Rightarrow> Done s
      | _ \<Rightarrow> handleTestMsg env m s)"

definition process_next :: "ul_env \<Rightarrow> mib_ul \<Rightarrow> mib_ul run" where
  "process_next env s =
     (if ul_loops s = 0 then Done s
      else case ul_queue s of [] \<Rightarrow> Done s | m # ms \<Rightarrow> processMibSyncMessage env m (s\<lparr>ul_queue := ms\<rparr>))"

text \<open>A message of another goroutine arrives if there is room.\<close>

definition ul_arrive :: "ul_message \<Rightarrow> mib_ul \<Rightarrow> mib_ul" where
  "ul_arrive m s = (if length (ul_queue s) < 2 then s\<lparr>ul_queue := ul_queue s @ [m]\<rparr> else s)"

text \<open>The abort message needs room in the channel, or a loop that makes room.\<close>

definition ul_CancelProcessing :: "ul_env \<Rightarrow> mib_ul \<Rightarrow> mib_ul run" where
  "ul_CancelProcessing env s =
     (let s = s\<lparr>ul_raiseFailure := False\<rparr>;
          s = (if ul_reconcilingFlows s then ul_emit (UlFlowsFinished False) s else s) in
      if ul_running s then
        (if 2 \<le> length (ul_queue s) \<and> ul_loops s = 0 then Deadlock
         else ul_event env UlEvStop (s\<lparr>ul_queue := ul_queue s @ [UlAbort]\<rparr>))
      else Done s)"

definition run_ul_task :: "ul_env \<Rightarrow> nat \<Rightarrow> flows_end \<Rightarrow> mib_ul \<Rightarrow> mib_ul run" where
  "run_ul_task env i fe s =
     (if length (ul_tasks s) \<le> i then Done s
      else
        let t = ul_tasks s ! i; s = s\<lparr>ul_tasks := take i (ul_tasks s) @ drop (Suc i) (ul_tasks s)\<rparr> in
        case t of
          UlTask ev \<Rightarrow> ul_event env ev s
        | UlAuditTimer \<Rightarrow> ul_event env UlEvAuditMib s
        | UlStoreAndMismatch \<Rightarrow> ul_event env UlEvMismatch (ul_emit UlStorePersistentData s)
        | UlStoreOnly \<Rightarrow> Done (ul_emit UlStorePersistentData s)
        | UlSuccessOnReboot \<Rightarrow>
            bind_run (ul_event env UlEvSuccess s) (\<lambda>s. Done (if uv_deviceTechProf env then ul_emit UlFlowConfigOnReboot s else s))
        | UlWaitForFlows \<Rightarrow>
            bind_run (case fe of FlowsDone \<Rightarrow> ul_event env UlEvSuccess s | FlowsAborted \<Rightarrow> Done s
                      | FlowsExpired \<Rightarrow> ul_event env UlEvMismatch s)
              (\<lambda>s. Done (s\<lparr>ul_reconcilingFlows := False\<rparr>)))"

datatype ul_op = UlRaise ul_evt | UlArrive ul_message | UlNext | UlRunTask nat flows_end | UlCancel | UlIncrementMds

fun ul_step :: "ul_env \<times> ul_op \<Rightarrow> mib_ul \<Rightarrow> mib_ul run" where
  "ul_step (env, UlRaise ev) s = ul_event env ev s"
| "ul_step (env, UlArrive m) s = Done (ul_arrive m s)"
| "ul_step (env, UlNext) s = process_next env s"
| "ul_step (env, UlRunTask i fe) s = run_ul_task env i fe s"
| "ul_step (env, UlCancel) s = ul_CancelProcessing env s"
| "ul_step (env, UlIncrementMds) s = IncrementMibDataSync s"

end
