(* ===== verification/Sync_Props.thy ===== *)
theory Sync_Props
  imports Mib_Sync Mib_Share
begin

text \<open>
  What the MIB synchronisation achieves and where it fails: an audit resets the MIB exactly after two mismatches in a row; a failed upload
  blocks the other ONUs, a cancelled examination cannot be started again, and a time-out leaves a message that
  stops the next start.
\<close>

subsection \<open>The table\<close>

lemma ul_states [simp]: "st \<in> set (UlStStarting # ul_timeout_states) \<longleftrightarrow> st \<noteq> UlStDisabled \<and> st \<noteq> UlStExaminingMdsSuccess"
  by (cases st) (simp_all add: ul_timeout_states_def)

lemma ul_transitions [simp]:
  "fsm_transition mib_ul_events UlEvStart st = (if st = UlStDisabled then Some UlStStarting else None)"
  "fsm_transition mib_ul_events UlEvStop st =
     (if st \<noteq> UlStDisabled \<and> st \<noteq> UlStExaminingMdsSuccess then Some UlStDisabled else None)"
  "fsm_transition mib_ul_events UlEvUploadMib st = (if st = UlStGettingMibTemplate then Some UlStUploading else None)"
  "fsm_transition mib_ul_events UlEvGetMibTemplate st = (if st = UlStGettingMacAddress then Some UlStGettingMibTemplate else None)"
  "fsm_transition mib_ul_events UlEvAuditMib st = (if st = UlStInSync \<or> st = UlStOutOfSync then Some UlStAuditing else None)"
  using ul_states [of st] by (simp_all add: fsm_transition_def fsm_matches_def mib_ul_events_def Let_def)

lemma ul_success [simp]:
  "fsm_transition mib_ul_events UlEvSuccess UlStUploading = Some UlStUploadDone"
  "fsm_transition mib_ul_events UlEvSuccess UlStUploadDone = Some UlStInSync"
  "fsm_transition mib_ul_events UlEvSuccess UlStAuditing = Some UlStInSync"
  "fsm_transition mib_ul_events UlEvSuccess UlStReAuditing = Some UlStInSync"
  "fsm_transition mib_ul_events UlEvMismatch UlStAuditing = Some UlStReAuditing"
  "fsm_transition mib_ul_events UlEvMismatch UlStReAuditing = Some UlStResettingMib"
  by (simp_all add: fsm_transition_def fsm_matches_def mib_ul_events_def Let_def)

interpretation mib_ul_table: fsm_table mib_ul_events UlStDisabled
    "[UlStDisabled, UlStStarting, UlStResettingMib, UlStGettingVendorAndSerial, UlStGettingVersion,
      UlStGettingEquipIDAndOmcc, UlStTestingExtOmciSupport, UlStGettingFirstSwVersion, UlStGettingSecondSwVersion,
      UlStGettingMacAddress, UlStGettingMibTemplate, UlStUploading, UlStUploadDone, UlStInSync, UlStVerifyingAndStoringTPs,
      UlStExaminingMds, UlStResynchronizing, UlStExaminingMdsSuccess, UlStAuditing, UlStReAuditing, UlStOutOfSync]"
    "\<lambda>s. if s = UlStDisabled then [] else if s = UlStExaminingMdsSuccess then [UlEvSuccess, UlEvStop] else [UlEvStop]" UlStDisabled
proof (unfold_locales, goal_cases)
  case 1
  show ?case by (simp add: fsm_det_def mib_ul_events_def ul_timeout_states_def)
next
  case 2
  show ?case by (simp add: fsm_states_ok_def mib_ul_events_def ul_timeout_states_def)
next
  case (4 s)
  have "fsm_transition mib_ul_events UlEvSuccess UlStExaminingMdsSuccess = Some UlStInSync"
    by (simp add: fsm_transition_def fsm_matches_def mib_ul_events_def Let_def)
  then show ?case by simp
qed simp

lemma ul_event_to:
  "fsm_transition mib_ul_events ev (ul_fsm s) = Some st \<Longrightarrow> st \<noteq> ul_fsm s \<Longrightarrow> ul_event env ev s = ul_enter env st (s\<lparr>ul_fsm := st\<rparr>)"
  by (simp add: ul_event_def fsm_event_def bind_run_assoc)

lemma ul_event_refused: "fsm_transition mib_ul_events ev (ul_fsm s) = None \<Longrightarrow> ul_event env ev s = Done s"
  by (simp add: ul_event_def fsm_event_def)

lemma ul_stop:
  "ul_event env UlEvStop s =
     Done (if ul_fsm s = UlStDisabled \<or> ul_fsm s = UlStExaminingMdsSuccess then s
           else ul_enterDisabledState (s\<lparr>ul_fsm := UlStDisabled\<rparr>))"
proof (cases "ul_fsm s = UlStDisabled \<or> ul_fsm s = UlStExaminingMdsSuccess")
  case False
  then have "fsm_transition mib_ul_events UlEvStop (ul_fsm s) = Some UlStDisabled" "UlStDisabled \<noteq> ul_fsm s" by auto
  from ul_event_to [OF this] False show ?thesis by (simp add: ul_enter_def)
qed (auto intro: ul_event_refused)

text \<open>C18: A cancelled examination never ends. When an ONU is disabled while the adapter restores its flows after a restart,
  the machine is in a state from which the stop event does not lead: the cancellation ends the message loop and
  tells the waiting goroutine to give up, but the machine keeps its state, so no later start gets it going: the
  ONU, once enabled again, is not synchronised any more.\<close>

theorem cancelled_examination_is_stuck:
  assumes "ul_fsm s = UlStExaminingMdsSuccess" "ul_running s" "ul_loops s = 1" "ul_queue s = []"
    and "ul_tasks s = [UlWaitForFlows]"
  shows "\<exists>s'. run_steps ul_step [(env, UlCancel), (env, UlNext), (env, UlRunTask 0 FlowsAborted)] s = Done s' \<and>
     ul_fsm s' = UlStExaminingMdsSuccess \<and> \<not> ul_running s' \<and> ul_loops s' = 0 \<and> ul_tasks s' = [] \<and>
     (\<forall>env'. ul_event env' UlEvStart s' = Done s' \<and> ul_event env' UlEvStop s' = Done s')"
  using assms
  by (simp add: ul_CancelProcessing_def Let_def ul_stop process_next_def processMibSyncMessage_def run_ul_task_def ul_event_refused)

text \<open>A time-out poisons the next start. The message of an unanswered request ends the loop and disables the machine
  but leaves the flag that a loop is running; a cancellation then puts an abort message into the channel, which
  nobody reads. The loop of the next start reads it first: it ends before a single request was sent, and the
  failure of the initialisation is reported.\<close>

theorem stale_abort_stops_restart:
  assumes "ul_fsm s \<noteq> UlStDisabled" "ul_fsm s \<noteq> UlStExaminingMdsSuccess" "ul_running s" "ul_loops s = 1"
    and "ul_queue s = [UlTimeOutOccurred]"
  shows "\<exists>s'. run_steps ul_step [(env, UlNext), (env, UlCancel), (env, UlRaise UlEvStart), (env, UlNext)] s = Done s' \<and>
     ul_fsm s' = UlStDisabled \<and> ul_loops s' = 0 \<and> ul_sent s' = ul_sent s \<and> last (ul_out s') = UlInitializationFailed"
  using assms
  by (auto simp: process_next_def processMibSyncMessage_def ul_stop ul_CancelProcessing_def Let_def ul_enterDisabledState_def
      ul_event_to ul_enter_def ul_enterStartingState_def)


subsection \<open>Requests on a calm channel\<close>

definition calm_ul :: "ul_env \<Rightarrow> send_ctx \<Rightarrow> bool" where
  "calm_ul env c \<longleftrightarrow> (\<forall>n. uv_ctx env n = c) \<and> calm c (uv_timeout env)"

definition cc_ready :: "u16 list \<Rightarrow> OmciCC \<Rightarrow> bool" where
  "cc_ready ts oo \<longleftrightarrow> idle oo \<and> pOnuDeviceEntry oo \<and> fresh_ids True ts oo"

lemma fresh_step:
  assumes "fresh_ids prio (t # ts) oo" "tid o1 = tid (snd (GetNextTid prio oo))" "hpTid o1 = hpTid (snd (GetNextTid prio oo))"
    and "dom (map_of (monitoredRequests o1)) = insert t (dom (map_of (monitoredRequests oo)))"
  shows "fst (GetNextTid prio oo) = t" "fresh_ids prio ts o1"
proof -
  have t: "fst (GetNextTid prio oo) = t" and ts: "next_tids prio (length ts) (snd (GetNextTid prio oo)) = ts"
    and d: "t \<notin> set ts" "distinct ts" "set (t # ts) \<inter> dom (map_of (monitoredRequests oo)) = {}"
    using assms(1) by (auto simp: fresh_ids_def next_tids_Suc)
  have "next_tids prio (length ts) o1 = ts" using next_tids_cong [OF assms(2,3), of prio "length ts"] ts by simp
  then show "fresh_ids prio ts o1" using d unfolding fresh_ids_def assms(4) by auto
  show "fst (GetNextTid prio oo) = t" by (rule t)
qed

text \<open>A request that was built and takes the next identifier.\<close>

lemma built_fresh:
  assumes "calm c timeout" "idle oo" "fresh_ids prio (t # ts) oo" "3 < length f"
    and "o1 = (snd (GetNextTid prio oo))\<lparr>UploadSequNo := n, UploadNoOfCmds := k\<rparr>"
  shows "\<exists>oo'. send_built c timeout CDefaultRetries prio (response_pair t ch True) x (Inr f) o1 = Done (Inr x, WaitingIn oo') \<and>
    idle oo' \<and> pOnuDeviceEntry oo' = pOnuDeviceEntry oo \<and> fresh_ids prio ts oo' \<and> UploadSequNo oo' = n \<and> UploadNoOfCmds oo' = k \<and>
    cc_out oo' = cc_out oo @ [TxFrame f]"
proof -
  have o1: "idle o1" "map_of (monitoredRequests o1) t = None" "monitoredRequests o1 = monitoredRequests oo" "cc_out o1 = cc_out oo"
    "tid o1 = tid (snd (GetNextTid prio oo))" "hpTid o1 = hpTid (snd (GetNextTid prio oo))" "pOnuDeviceEntry o1 = pOnuDeviceEntry oo"
    using assms(2,3,5) GetNextTid_frame [of prio oo] by (auto simp: idle_def fresh_ids_def)
  obtain oo' where oo': "send_built c timeout CDefaultRetries prio (response_pair t ch True) x (Inr f) o1 = Done (Inr x, WaitingIn oo')"
      "idle oo'" "tid oo' = tid o1" "hpTid oo' = hpTid o1" "UploadSequNo oo' = UploadSequNo o1" "UploadNoOfCmds oo' = UploadNoOfCmds o1"
      "pOnuDeviceEntry oo' = pOnuDeviceEntry o1"
      "dom (map_of (monitoredRequests oo')) = insert t (dom (map_of (monitoredRequests o1)))" "cc_out oo' = cc_out o1 @ [TxFrame f]"
    using built_registers [of c timeout o1 "response_pair t ch True" f prio x] assms(1,4) o1(1,2) by (auto simp: response_pair_def)
  have "fresh_ids prio ts oo'" using fresh_step(2) [OF assms(3), of oo'] oo'(3,4,8) o1(3,5,6) by simp
  with oo' o1(4,7) assms(5) show ?thesis by simp
qed

lemma fresh_first: "fresh_ids prio (t # ts) oo \<Longrightarrow> fst (GetNextTid prio oo) = t"
  by (simp add: fresh_ids_def next_tids_Suc)

lemma SendMibUpload_calm:
  assumes "calm c timeout" "cc_ready (t # ts) oo"
  shows "\<exists>oo'. SendMibUpload c timeout True e oo = Done (Inr (), WaitingIn oo') \<and> cc_ready ts oo' \<and> UploadSequNo oo' = 0 \<and>
    cc_out oo' = cc_out oo @ [TxFrame (projr (serialize_ext c MibUploadRequestType (MibUploadRequest 2 0 e) t))]"
proof -
  have oo: "idle oo" "pOnuDeviceEntry oo" "fresh_ids True (t # ts) oo" using assms(2) by (simp_all add: cc_ready_def)
  obtain f where f: "serialize_ext c MibUploadRequestType (MibUploadRequest 2 0 e) t = Inr f" "3 < length f"
    using assms(1) unfolding calm_def serialize_ext_def by blast
  obtain o0 where t: "GetNextTid True oo = (t, o0)" using fresh_first [OF oo(3)] by (metis prod.collapse)
  have "pOnuDeviceEntry o0" using GetNextTid_frame(6) [of True oo] t oo(2) by simp
  with f(1) t built_fresh [OF assms(1) oo(1,3) f(2), of "o0\<lparr>UploadSequNo := 0, UploadNoOfCmds := 0\<rparr>" 0 0 "GetMibUploadFsmCommChan c" "()"] oo(2)
  show ?thesis by (auto simp: SendMibUpload_def entry_channel_def cc_ready_def)
qed

lemma SendMibReset_calm:
  assumes "calm c timeout" "cc_ready (t # ts) oo"
  shows "\<exists>oo'. SendMibReset c timeout True oo = Done (Inr (), WaitingIn oo') \<and> cc_ready ts oo' \<and>
    (\<exists>f. cc_out oo' = cc_out oo @ [TxFrame f] \<and> Serialize c MibResetRequestType (MibResetRequest 2 0 False) t = Inr f)"
proof -
  have oo: "idle oo" "pOnuDeviceEntry oo" "fresh_ids True (t # ts) oo" using assms(2) by (simp_all add: cc_ready_def)
  obtain f where f: "Serialize c MibResetRequestType (MibResetRequest 2 0 False) t = Inr f" "3 < length f"
    using assms(1) unfolding calm_def Serialize_def by blast
  obtain o0 where t: "GetNextTid True oo = (t, o0)" using fresh_first [OF oo(3)] by (metis prod.collapse)
  have "pOnuDeviceEntry o0" using GetNextTid_frame(6) [of True oo] t oo(2) by simp
  with f(1) t built_fresh [OF assms(1) oo(1,3) f(2), of o0 "UploadNoOfCmds o0" "UploadSequNo o0" "GetMibUploadFsmCommChan c" "()"] oo(2)
  show ?thesis by (auto simp: SendMibReset_def entry_channel_def cc_ready_def)
qed

lemma SendGetMe_calm:
  assumes "calm c timeout" "cc_ready (t # ts) oo"
  shows "\<exists>oo'. SendGetMe c cls inst a timeout True ch e oo =
      Done (Inr \<lparr> GetClassID = cls, GetEntityID = inst, GetAttributes = a \<rparr>, WaitingIn oo') \<and> cc_ready ts oo' \<and>
    (\<exists>f. cc_out oo' = cc_out oo @ [TxFrame f] \<and>
      lib_encode (sc_lib c) \<lparr> GetClassID = cls, GetEntityID = inst, GetAttributes = a \<rparr> GetRequestType t False
        (if e then ExtendedIdent else BaselineIdent) = Inr f)"
proof -
  have oo: "idle oo" "pOnuDeviceEntry oo" "fresh_ids True (t # ts) oo" using assms(2) by (simp_all add: cc_ready_def)
  let ?m = "\<lparr> GetClassID = cls, GetEntityID = inst, GetAttributes = a \<rparr>"
  let ?i = "if e then ExtendedIdent else BaselineIdent"
  obtain f where f: "lib_encode (sc_lib c) ?m GetRequestType t False ?i = Inr f" "3 < length f"
    using assms(1) unfolding calm_def by blast
  obtain o0 where t: "GetNextTid True oo = (t, o0)" using fresh_first [OF oo(3)] by (metis prod.collapse)
  have n: "lib_new (sc_lib c) cls p = None" for p using assms(1) by (simp add: calm_def)
  from f(1) t n built_fresh [OF assms(1) oo(1,3) f(2), of o0 "UploadNoOfCmds o0" "UploadSequNo o0" ch ?m] oo(2)
  show ?thesis by (auto simp: SendGetMe_def send_class_def send_entity_def cc_ready_def Let_def)
qed


subsection \<open>An upload that fails\<close>

definition type_path :: "mib_ul \<Rightarrow> string" where
  "type_path s = PersVendorID (oe_pers s) @ ''/'' @ PersVersion (oe_pers s) @ ''/'' @
     (if sw_Valid (ActiveEntityEntry (oe_sw s)) then sw_Version (ActiveEntityEntry (oe_sw s)) else PersActiveSwVersion (oe_pers s))"

definition no_template :: "ul_env \<Rightarrow> mib_ul \<Rightarrow> bool" where
  "no_template env s \<longleftrightarrow> te_get (uv_kv env) (mt_gets s) (type_path s) \<in> {KvError, KvAbsent}"

text \<open>The state in which the type of the ONU is known.\<close>

definition typed :: "mib_ul \<Rightarrow> mib_ul" where
  "typed s = (if sw_Valid (ActiveEntityEntry (oe_sw s))
     then s\<lparr>ul_fsm := UlStGettingMibTemplate, oe_pers := (oe_pers s)\<lparr>PersActiveSwVersion := sw_Version (ActiveEntityEntry (oe_sw s))\<rparr>\<rparr>
     else s\<lparr>ul_fsm := UlStGettingMibTemplate\<rparr>)\<lparr>mt_path := type_path s\<rparr>"

lemma typed_fields [simp]:
  "mt_ac (typed s) = mt_ac s" "mt_gets (typed s) = mt_gets s" "mt_path (typed s) = type_path s"
  "ul_fsm (typed s) = UlStGettingMibTemplate" "ul_loops (typed s) = ul_loops s" "ul_queue (typed s) = ul_queue s"
  "ul_cc (typed s) = ul_cc s" "ul_sent (typed s) = ul_sent s" "oe_persLocked (typed s) = oe_persLocked s"
  by (simp_all add: typed_def)

lemma enter_template:
  assumes "ul_fsm s = UlStGettingMacAddress" "\<not> oe_persLocked s"
  shows "ul_event env UlEvGetMibTemplate s =
    bind_run (case FetchEntryFromMibDatabaseMap (type_path s) (mt_ac s) of
        Some p \<Rightarrow> common_exists env p (typed s) | None \<Rightarrow> common_missing env (typed s)) (\<lambda>(m, s). ul_send_self m s)"
proof -
  have "ul_event env UlEvGetMibTemplate s = enterGettingMibTemplateState env (s\<lparr>ul_fsm := UlStGettingMibTemplate\<rparr>)"
    using ul_event_to [of UlEvGetMibTemplate s UlStGettingMibTemplate env] assms(1) by (simp add: ul_enter_def)
  then show ?thesis
    using assms(2) by (cases "sw_Valid (ActiveEntityEntry (oe_sw s))")
      (simp_all add: enterGettingMibTemplateState_def SetPersActiveSwVersion_def on_pers_def pers_section_def
        buildMibTemplatePath_def typed_def type_path_def Let_def cong: option.case_cong)
qed

lemma template_locked:
  assumes "ul_fsm s = UlStGettingMacAddress" "\<not> oe_persLocked s" "ac_templateMutex (mt_ac s)"
    and "FetchEntryFromMibDatabaseMap (type_path s) (mt_ac s) \<noteq> None \<or> no_template env s"
  shows "ul_event env UlEvGetMibTemplate s = Deadlock"
proof -
  have l: "run_ac LockMutexMibTemplateGenerated x = Deadlock" if "mt_ac x = mt_ac s" for x :: mib_ul
    using that assms(3) by (simp add: run_ac_def LockMutexMibTemplateGenerated_def)
  have "common_exists env p (typed s) = Deadlock" for p by (simp add: common_exists_def l)
  moreover have "common_missing env (typed s) = Deadlock" if "no_template env s"
    using that by (auto simp: common_missing_def kv_read_def no_template_def l Let_def)
  ultimately show ?thesis unfolding enter_template [OF assms(1,2)] using assms(4) by (auto split: option.splits)
qed

text \<open>C16: A failed upload blocks the other ONUs. The first ONU of a type, for which there is neither a table nor a
  template, starts its upload with the adapter-wide mutex held. When the ONU stops answering, the machine is
  disabled and the failure reported, but the mutex is not released: from then on every ONU that reaches the
  template state and finds a table of its type, or no template, blocks for ever, this ONU after a restart
  included, and so does every ONU that is to be restored from a template. The branch of the code for a table
  left by a failed upload is never reached.\<close>

theorem failed_upload_blocks_others:
  assumes "calm_ul env c" "cc_ready [t] (ul_cc s)" "ul_fsm s = UlStGettingMacAddress" "\<not> oe_persLocked s"
    and "ul_loops s = 1" "ul_queue s = []" "\<not> ac_templateMutex (mt_ac s)" "ac_next (mt_ac s) \<notin> set (ac_meDbLocked (mt_ac s))"
    and "FetchEntryFromMibDatabaseMap (type_path s) (mt_ac s) = None" "no_template env s"
  shows "\<exists>s'. run_steps ul_step
       [(env, UlRaise UlEvGetMibTemplate), (env, UlNext), (env, UlArrive UlTimeOutOccurred), (env, UlNext)] s = Done s' \<and>
     ul_fsm s' = UlStDisabled \<and> ul_sent s' = ul_sent s + 1 \<and>
     (\<forall>b env'. mt_ac b = mt_ac s' \<and> \<not> oe_persLocked b \<longrightarrow>
        getMibFromTemplate (uv_kv env') b = Deadlock \<and>
        (ul_fsm b = UlStGettingMacAddress \<and>
          (FetchEntryFromMibDatabaseMap (type_path b) (mt_ac b) \<noteq> None \<or> no_template env' b) \<longrightarrow>
         ul_event env' UlEvGetMibTemplate b = Deadlock))"
proof -
  have "\<exists>s0. common_missing env (typed s) = Done (UlTemplateFailed, s0) \<and> ul_fsm s0 = UlStGettingMibTemplate \<and> ul_loops s0 = 1 \<and>
      ul_queue s0 = [] \<and> ul_cc s0 = ul_cc s \<and> ul_sent s0 = ul_sent s \<and> \<not> oe_persLocked s0 \<and> ac_templateMutex (mt_ac s0)"
    using assms(4-10)
    by (auto simp: common_missing_def kv_read_def no_template_def run_ac_def LockMutexMibTemplateGenerated_def
        CreateEntryAtMibDatabaseMap_def FetchEntryFromMibDatabaseMap_def lock_MeDb_def Let_def)
  then obtain s1 where e1: "ul_event env UlEvGetMibTemplate s = Done s1"
    and f1: "ul_fsm s1 = UlStGettingMibTemplate" "ul_loops s1 = 1" "ul_queue s1 = [UlTemplateFailed]" "ul_cc s1 = ul_cc s"
    "ul_sent s1 = ul_sent s" "\<not> oe_persLocked s1" "ac_templateMutex (mt_ac s1)"
    using enter_template [OF assms(3,4), of env] assms(9) by (auto simp: ul_send_self_def)
  obtain cc where cc: "SendMibUpload c (uv_timeout env) True (PersIsExtOmciSupported (oe_pers s1)) (ul_cc s) = Done (Inr (), WaitingIn cc)"
    using SendMibUpload_calm [of c "uv_timeout env" t "[]" "ul_cc s"] assms(1,2) by (auto simp: calm_ul_def)
  define s2 where "s2 = s1\<lparr>ul_fsm := UlStUploading, ul_queue := [], ul_cc := cc, ul_sent := ul_sent s + 1, ul_lastType := MibUploadRequestType\<rparr>"
  have e2: "process_next env s1 = Done s2"
    using f1 cc assms(1) ul_event_to [of UlEvUploadMib "s1\<lparr>ul_queue := []\<rparr>" UlStUploading env]
    by (simp add: process_next_def processMibSyncMessage_def handleTestMsg_def ul_enter_def enterUploadingState_def is_ext_def
        pers_section_def ul_request_def calm_ul_def s2_def)
  have "\<exists>s3. process_next env (ul_arrive UlTimeOutOccurred s2) = Done s3 \<and> ul_fsm s3 = UlStDisabled \<and> ul_sent s3 = ul_sent s + 1 \<and>
      ac_templateMutex (mt_ac s3)"
    using f1 by (simp add: ul_arrive_def process_next_def processMibSyncMessage_def ul_stop ul_enterDisabledState_def s2_def)
  then obtain s3 where e3: "process_next env (ul_arrive UlTimeOutOccurred s2) = Done s3"
    and f3: "ul_fsm s3 = UlStDisabled" "ul_sent s3 = ul_sent s + 1" "ac_templateMutex (mt_ac s3)" by blast
  from e1 e2 e3 have run: "run_steps ul_step
      [(env, UlRaise UlEvGetMibTemplate), (env, UlNext), (env, UlArrive UlTimeOutOccurred), (env, UlNext)] s = Done s3" by simp
  have "getMibFromTemplate (uv_kv env') b = Deadlock" if "mt_ac b = mt_ac s3" "\<not> oe_persLocked b" for b :: mib_ul and env'
    using that f3(3) by (simp add: getMibFromTemplate_def buildMibTemplatePath_def pers_section_def run_ac_def LockMutexMibTemplateGenerated_def)
  with run f3 template_locked show ?thesis by (intro exI [of _ s3]) auto
qed


subsection \<open>The audit\<close>

definition mds_answer :: "u8 \<Rightarrow> ul_message" where
  "mds_answer v = UlOmci (GetResponse (Layer \<lparr> gr_class = 2, gr_inst = 0, gr_result = me_Success,
     gr_attributes = [(''MibDataSync'', AvUint8 v)] \<rparr>))"

text \<open>The two requests of an audit: to read the counter, and to reset the MIB.\<close>

definition mds_request :: "send_ctx \<Rightarrow> bool \<Rightarrow> u16 \<Rightarrow> string + bytes" where
  "mds_request c e t = lib_encode (sc_lib c) \<lparr> GetClassID = 2, GetEntityID = 0, GetAttributes = [(''MibDataSync'', AvOctets [])] \<rparr>
     GetRequestType t False (if e then ExtendedIdent else BaselineIdent)"

definition mib_reset_request :: "send_ctx \<Rightarrow> u16 \<Rightarrow> string + bytes" where
  "mib_reset_request c t = Serialize c MibResetRequestType (MibResetRequest 2 0 False) t"

text \<open>The machine in a state, with fresh identifiers and free mutexes; and with the counter as its last request.\<close>

definition audit_ready :: "ul_state \<Rightarrow> u16 list \<Rightarrow> u8 \<Rightarrow> uniPersConfig list \<Rightarrow> bool \<Rightarrow> mib_ul \<Rightarrow> bool" where
  "audit_ready st ts mds cfg e s \<longleftrightarrow> ul_fsm s = st \<and> cc_ready ts (ul_cc s) \<and> \<not> oe_persLocked s \<and> \<not> oe_reconLocked s \<and>
     ul_loops s = 1 \<and> ul_queue s = [] \<and> PersMibDataSyncAdpt (oe_pers s) = mds \<and> PersUniConfig (oe_pers s) = cfg \<and>
     PersIsExtOmciSupported (oe_pers s) = e"

definition audit_at :: "ul_state \<Rightarrow> u16 list \<Rightarrow> u8 \<Rightarrow> uniPersConfig list \<Rightarrow> bool \<Rightarrow> mib_ul \<Rightarrow> bool" where
  "audit_at st ts mds cfg e s \<longleftrightarrow> audit_ready st ts mds cfg e s \<and> ul_lastType s = GetRequestType \<and> ul_lastMe s = Some (2, 0)"

lemmas audit_defs = audit_at_def audit_ready_def

lemma requestMds_calm:
  assumes "calm_ul env c" "cc_ready (t # ts) (ul_cc s)" "\<not> oe_persLocked s"
  shows "\<exists>cc f. requestMdsValue env s = Done (s\<lparr>ul_cc := cc, ul_sent := ul_sent s + 1, ul_lastType := GetRequestType,
      ul_lastMe := Some (2, 0), ul_repeatCount := 0\<rparr>) \<and> cc_ready ts cc \<and> cc_out cc = cc_out (ul_cc s) @ [TxFrame f] \<and>
      mds_request c (PersIsExtOmciSupported (oe_pers s)) t = Inr f"
proof -
  have c: "calm c (uv_timeout env)" "uv_ctx env n = c" for n using assms(1) by (simp_all add: calm_ul_def)
  from SendGetMe_calm [OF c(1) assms(2), of 2 0 "[(''MibDataSync'', AvOctets [])]" "GetMibUploadFsmCommChan c"
      "PersIsExtOmciSupported (oe_pers s)"] c(2) assms(3)
  show ?thesis by (auto simp: requestMdsValue_def is_ext_def pers_section_def ul_get_def ul_request_def mds_request_def)
qed

lemma read_answer:
  assumes "audit_at st ts mds cfg e s"
  shows "run_steps ul_step [(env, UlArrive (mds_answer v)), (env, UlNext)] s = checkMdsValue env v (s\<lparr>ul_queue := []\<rparr>)"
proof -
  have "ul_queue s = []" "ul_loops s = 1" "ul_lastType s = GetRequestType" "ul_lastMe s = Some (2, 0)"
    using assms by (simp_all add: audit_defs)
  moreover have "run_steps ul_step [] = Done" by (simp add: fun_eq_iff)
  ultimately show ?thesis
    by (simp add: ul_arrive_def process_next_def processMibSyncMessage_def mds_answer_def ul_handleOmciMessage_def
        handleOmciGetResponseMessage_def get_response_me_def)
qed

lemma in_sync:
  assumes "audit_at st ts mds cfg e s" "fsm_transition mib_ul_events UlEvSuccess st = Some UlStInSync" "st \<noteq> UlStInSync"
  shows "\<exists>s'. ul_event env UlEvSuccess s = Done s' \<and> audit_at UlStInSync ts mds cfg e s' \<and> ul_out s' = ul_out s \<and> ul_cc s' = ul_cc s"
  using assms ul_event_to [of UlEvSuccess s UlStInSync env]
  by (auto simp: audit_defs ul_enter_def enterInSyncState_def on_pers_def pers_section_def)

lemma audit_request:
  assumes "calm_ul env c" "uv_auditStart env" "audit_ready st (t # ts) mds cfg e s" "fsm_transition mib_ul_events ev st = Some st'"
    and "st \<noteq> st'" "st' = UlStAuditing \<or> st' = UlStReAuditing"
  shows "\<exists>s' f. ul_event env ev s = Done s' \<and> audit_at st' ts mds cfg e s' \<and> ul_out s' = ul_out s \<and>
    cc_out (ul_cc s') = cc_out (ul_cc s) @ [TxFrame f] \<and> mds_request c e t = Inr f"
proof -
  have s: "ul_fsm s = st" "cc_ready (t # ts) (ul_cc s)" "\<not> oe_persLocked s" using assms(3) by (simp_all add: audit_defs)
  have "ul_event env ev s = requestMdsValue env (s\<lparr>ul_fsm := st'\<rparr>)"
    using ul_event_to [of ev s st' env] s(1) assms(2,4-6) by (auto simp: ul_enter_def ul_enterAuditingState_def enterReAuditingState_def)
  then show ?thesis
    using requestMds_calm [OF assms(1), of t ts "s\<lparr>ul_fsm := st'\<rparr>"] s assms(3) by (auto simp: audit_defs)
qed

lemma queue_same: "audit_at st ts mds cfg e s \<Longrightarrow> s\<lparr>ul_queue := []\<rparr> = s"
  by (simp add: audit_defs)

lemma reset_request:
  assumes "calm_ul env c" "cc_ready [t] (ul_cc s)" "ul_fsm s = UlStReAuditing" "\<not> oe_persLocked s"
  shows "\<exists>s'. ul_event env UlEvMismatch s = Done s' \<and> ul_fsm s' = UlStResettingMib \<and> oe_pers s' = oe_pers s \<and>
     (\<exists>out. ul_out s' = ul_out s @ out) \<and>
     (\<exists>f. cc_out (ul_cc s') = cc_out (ul_cc s) @ [TxFrame f] \<and> mib_reset_request c t = Inr f)"
proof -
  have c: "calm c (uv_timeout env)" "uv_ctx env n = c" for n using assms(1) by (simp_all add: calm_ul_def)
  obtain cc f where cc: "SendMibReset c (uv_timeout env) True (ul_cc s) = Done (Inr (), WaitingIn cc)"
    and f: "cc_out cc = cc_out (ul_cc s) @ [TxFrame f]" "mib_reset_request c t = Inr f"
    using SendMibReset_calm [OF c(1) assms(2)] by (auto simp: mib_reset_request_def)
  have "ul_event env UlEvMismatch s = enterResettingMibState env (s\<lparr>ul_fsm := UlStResettingMib\<rparr>)"
    using ul_event_to [of UlEvMismatch s UlStResettingMib env] assms(3) by (simp add: ul_enter_def)
  with cc f c(2) assms(4) show ?thesis
    by (simp add: enterResettingMibState_def IsNewOnu_def pers_section_def ul_request_def Let_def)
qed

lemma second_mismatch:
  assumes "calm_ul env c" "audit_at UlStReAuditing [t] mds cfg e s" "v \<noteq> mds"
    and "\<forall>found. \<exists>cs found' ok. retrieve_unis (uv_parent env) cfg found True = Done (False, cs, found', ok)"
  shows "\<exists>s'. checkMdsValue env v s = Done s' \<and> ul_fsm s' = UlStResettingMib \<and> PersMibDataSyncAdpt (oe_pers s') = mds \<and>
     (\<exists>out. ul_out s' = ul_out s @ UlDeviceEvent ''ONU_MIB_AUDIT_FAILURE_MDS'' # out) \<and>
     (\<exists>f. cc_out (ul_cc s') = cc_out (ul_cc s) @ [TxFrame f] \<and> mib_reset_request c t = Inr f)"
proof -
  have s: "ul_fsm s = UlStReAuditing" "cc_ready [t] (ul_cc s)" "\<not> oe_persLocked s" "\<not> oe_reconLocked s"
    "PersMibDataSyncAdpt (oe_pers s) = mds" "PersUniConfig (oe_pers s) = cfg"
    using assms(2) by (simp_all add: audit_defs)
  obtain cs found ok where r: "retrieve_unis (uv_parent env) cfg (oe_ReconciledTpInstances s) True = Done (False, cs, found, ok)"
    using assms(4) by blast
  have "\<exists>s1. getAllStoredTpInstFromParentAdapter (uv_parent env) (ul_emit (UlDeviceEvent ''ONU_MIB_AUDIT_FAILURE_MDS'') s) = Done (ok, s1) \<and>
      ul_fsm s1 = UlStReAuditing \<and> ul_cc s1 = ul_cc s \<and> \<not> oe_persLocked s1 \<and> PersMibDataSyncAdpt (oe_pers s1) = mds \<and>
      ul_out s1 = ul_out s @ [UlDeviceEvent ''ONU_MIB_AUDIT_FAILURE_MDS'']"
    using r s by (simp add: getAllStoredTpInstFromParentAdapter_def pers_section_def)
  then obtain s1 where s1: "getAllStoredTpInstFromParentAdapter (uv_parent env) (ul_emit (UlDeviceEvent ''ONU_MIB_AUDIT_FAILURE_MDS'') s) = Done (ok, s1)"
      "ul_fsm s1 = UlStReAuditing" "ul_cc s1 = ul_cc s" "\<not> oe_persLocked s1" "PersMibDataSyncAdpt (oe_pers s1) = mds"
      "ul_out s1 = ul_out s @ [UlDeviceEvent ''ONU_MIB_AUDIT_FAILURE_MDS'']" by blast
  let ?s2 = "if ok then s1 else ul_go UlStoreOnly (ul_emit UlReconcilingReasonUpdate s1)"
  have "checkMdsValue env v s = ul_event env UlEvMismatch ?s2"
    using s s1(1) assms(3) by (simp add: checkMdsValue_def pers_section_def Let_def)
  moreover have "ul_fsm ?s2 = UlStReAuditing" "cc_ready [t] (ul_cc ?s2)" "ul_cc ?s2 = ul_cc s" "\<not> oe_persLocked ?s2" "oe_pers ?s2 = oe_pers s1"
    "\<exists>out. ul_out ?s2 = ul_out s1 @ out"
    using s1 s(2) by simp_all
  ultimately show ?thesis using reset_request [OF assms(1), of t ?s2] s1(5,6) by fastforce
qed

text \<open>C14: The MIB of an ONU is reset by an audit exactly after two mismatches in a row. When the audit begins, the machine,
  in sync, transmits a request to read the counter of the ONU; the answer ends it when it equals the counter of the adapter; otherwise a second
  request to read it is transmitted, and only if its answer differs too the failure is reported as a device event
  and the request to reset the MIB is transmitted. No other frame is sent. The counter of the adapter does not
  change in between. The channel is idle, its next three identifiers are free, and the query of the parent
  adapter for the stored instances is not cut off.\<close>

theorem audit_resets_after_two_mismatches:
  assumes "calm_ul env c" "uv_auditStart env" "audit_ready UlStInSync [t1, t2, t3] mds cfg e s"
    and "\<forall>found. \<exists>cs found' ok. retrieve_unis (uv_parent env) cfg found True = Done (False, cs, found', ok)"
  shows "\<exists>s' fs. run_steps ul_step [(env, UlRaise UlEvAuditMib), (env, UlArrive (mds_answer v1)), (env, UlNext),
        (env, UlArrive (mds_answer v2)), (env, UlNext)] s = Done s' \<and>
     cc_out (ul_cc s') = cc_out (ul_cc s) @ map TxFrame fs \<and>
     map Inr fs = (if v1 = mds then [mds_request c e t1]
       else if v2 = mds then [mds_request c e t1, mds_request c e t2]
       else [mds_request c e t1, mds_request c e t2, mib_reset_request c t3]) \<and>
     ul_fsm s' = (if v1 \<noteq> mds \<and> v2 \<noteq> mds then UlStResettingMib else UlStInSync) \<and>
     (UlDeviceEvent ''ONU_MIB_AUDIT_FAILURE_MDS'' \<in> set (drop (length (ul_out s)) (ul_out s')) \<longleftrightarrow> v1 \<noteq> mds \<and> v2 \<noteq> mds) \<and>
     PersMibDataSyncAdpt (oe_pers s') = mds"
proof -
  let ?ans = "\<lambda>v. [(env, UlArrive (mds_answer v)), (env, UlNext)]"
  obtain s1 f1 where s1: "ul_event env UlEvAuditMib s = Done s1" "audit_at UlStAuditing [t2, t3] mds cfg e s1" "ul_out s1 = ul_out s"
    and f1: "cc_out (ul_cc s1) = cc_out (ul_cc s) @ [TxFrame f1]" "mds_request c e t1 = Inr f1"
    using audit_request [OF assms(1-3), of UlEvAuditMib UlStAuditing] by auto
  have steps: "run_steps ul_step ((env, UlRaise UlEvAuditMib) # ?ans v1 @ ?ans v2) s =
      bind_run (run_steps ul_step (?ans v1) s1) (run_steps ul_step (?ans v2))" using s1(1) by (simp only: run_steps.simps ul_step.simps bind_run.simps run_steps_append)
  note a1 = read_answer [OF s1(2), of env v1] queue_same [OF s1(2)]
  show ?thesis
  proof (cases "v1 = mds")
    case True
    have "checkMdsValue env v1 s1 = ul_event env UlEvSuccess s1"
      using s1(2) True by (simp add: checkMdsValue_def pers_section_def audit_defs Let_def)
    with in_sync [OF s1(2)] obtain s2 where s2: "run_steps ul_step (?ans v1) s1 = Done s2" "audit_at UlStInSync [t2, t3] mds cfg e s2"
      "ul_out s2 = ul_out s1" "ul_cc s2 = ul_cc s1" using a1 by auto
    have "run_steps ul_step (?ans v2) s2 = Done s2"
      using read_answer [OF s2(2), of env v2] queue_same [OF s2(2)] s2(2)
      by (simp add: checkMdsValue_def pers_section_def audit_defs Let_def)
    with steps s2 s1(3) f1 True show ?thesis by (intro exI [of _ s2] exI [of _ "[f1]"]) (auto simp: audit_defs)
  next
    case False
    have "checkMdsValue env v1 s1 = ul_event env UlEvMismatch s1"
      using s1(2) False by (simp add: checkMdsValue_def pers_section_def audit_defs Let_def)
    moreover have "audit_ready UlStAuditing [t2, t3] mds cfg e s1" using s1(2) by (simp add: audit_at_def)
    ultimately obtain s2 f2 where
      s2: "run_steps ul_step (?ans v1) s1 = Done s2" "audit_at UlStReAuditing [t3] mds cfg e s2" "ul_out s2 = ul_out s1"
      and f2: "cc_out (ul_cc s2) = cc_out (ul_cc s1) @ [TxFrame f2]" "mds_request c e t2 = Inr f2"
      using audit_request [OF assms(1,2), of UlStAuditing t2 "[t3]" mds cfg e s1 UlEvMismatch UlStReAuditing] a1 by auto
    note a2 = read_answer [OF s2(2), of env v2] queue_same [OF s2(2)]
    show ?thesis
    proof (cases "v2 = mds")
      case True
      have "checkMdsValue env v2 s2 = ul_event env UlEvSuccess s2"
        using s2(2) True by (simp add: checkMdsValue_def pers_section_def audit_defs Let_def)
      with in_sync [OF s2(2)] obtain s3 where "run_steps ul_step (?ans v2) s2 = Done s3" "audit_at UlStInSync [t3] mds cfg e s3"
        "ul_out s3 = ul_out s2" "ul_cc s3 = ul_cc s2" using a2 by auto
      with steps s2 s1(3) f1 f2 False True show ?thesis by (intro exI [of _ s3] exI [of _ "[f1, f2]"]) (auto simp: audit_defs)
    next
      case mism: False
      obtain s3 out f3 where "run_steps ul_step (?ans v2) s2 = Done s3" and s3: "ul_fsm s3 = UlStResettingMib"
        "PersMibDataSyncAdpt (oe_pers s3) = mds" "ul_out s3 = ul_out s2 @ UlDeviceEvent ''ONU_MIB_AUDIT_FAILURE_MDS'' # out"
        "cc_out (ul_cc s3) = cc_out (ul_cc s2) @ [TxFrame f3]" "mib_reset_request c t3 = Inr f3"
        using second_mismatch [OF assms(1) s2(2) mism assms(4)] unfolding a2 by blast
      with steps s2(1) have "run_steps ul_step ((env, UlRaise UlEvAuditMib) # ?ans v1 @ ?ans v2) s = Done s3"
        by (simp only: bind_run.simps)
      with s3 s2(3) s1(3) f1 f2 False mism show ?thesis by (intro exI [of _ s3] exI [of _ "[f1, f2, f3]"]) simp
    qed
  qed
qed


subsection \<open>Witnesses\<close>

definition sample_ul_env :: ul_env where
  "sample_ul_env =
     \<lparr> uv_ctx = (\<lambda>n. sample_ctx), uv_timeout = 3, uv_kv = sample_kv,
       uv_parent = \<lparr> pe_reply = (\<lambda>u p n. TpMissing), pe_deviceDone = (\<lambda>u p n. False) \<rparr>, uv_octets = (\<lambda>v. None), uv_now = 0,
       uv_isReconciling = False, uv_skipOnuConfigReconciling = False, uv_skipOnuConfigEnabled = False, uv_extTest = False,
       uv_extOmciEnabled = False, uv_auditStart = True, uv_collectorRunning = False, uv_alarmManagerRunning = False,
       uv_uniPorts = [0], uv_uniPortMask = 1, uv_flowMonitoring = (\<lambda>u. False), uv_deviceTechProf = True,
       uv_reconcileTechProf = True \<rparr>"

definition sample_ul :: "ul_state \<Rightarrow> ul_message list \<Rightarrow> ul_task list \<Rightarrow> mib_ul" where
  "sample_ul st q ts =
     \<lparr> oe_pers = (initial_pers 0 0)\<lparr>PersMibDataSyncAdpt := 5\<rparr>, oe_persLocked = False, oe_reconLocked = False, oe_ReconciledTpInstances = [],
       oe_sw = \<lparr> ActiveEntityEntry = \<lparr> sw_Version = [], sw_EntityID = 0, sw_Valid = False, sw_IsCommitted = 0 \<rparr>,
         InActiveEntityEntry = \<lparr> sw_Version = [], sw_EntityID = 0, sw_Valid = False, sw_IsCommitted = 0 \<rparr> \<rparr>,
       oe_mibAuditInterval = 0, oe_alarmAuditInterval = 0, oe_hasStore = True,
       mt_db = \<lparr> db_deviceID = ''onu-a'', CommonMeDb = None, OnuSpecificMeDb = [] \<rparr>, mt_ac = new_mib_adapter,
       mt_path = [], mt_gets = 0, mt_puts = 0,
       ul_fsm = st, ul_cc = sample_cc, ul_lastMe = Some (2, 0), ul_lastType = GetRequestType, ul_repeatCount = 0,
       ul_devState = DeviceStatusInit, ul_mibDownloadSuccess = True, ul_raiseFailure = False, ul_running = True, ul_loops = 1,
       ul_queue = q, ul_reconcilingFlows = False, ul_tasks = ts, ul_out = [], ul_sent = 0 \<rparr>"

lemma sample_ul_calm: "calm_ul sample_ul_env sample_ctx"
  using sample_ctx_calm by (simp add: calm_ul_def sample_ul_env_def)

lemma sample_cc_ready: "cc_ready [0x8000, 0x8001, 0x8002] sample_cc" "cc_ready [0x8000] sample_cc"
proof -
  have "next_tids True 3 sample_cc = [0x8000, 0x8001, 0x8002]" "next_tids True 1 sample_cc = [0x8000]" by code_simp+
  then show "cc_ready [0x8000, 0x8001, 0x8002] sample_cc" "cc_ready [0x8000] sample_cc"
    using sample_cc_ok by (simp_all add: cc_ready_def fresh_ids_def numeral_3_eq_3)
qed

theorem cancelled_examination_is_stuck_witness:
  "\<exists>s'. run_steps ul_step [(sample_ul_env, UlCancel), (sample_ul_env, UlNext), (sample_ul_env, UlRunTask 0 FlowsAborted)]
        (sample_ul UlStExaminingMdsSuccess [] [UlWaitForFlows]) = Done s' \<and> ul_event sample_ul_env UlEvStart s' = Done s'"
  using cancelled_examination_is_stuck [of "sample_ul UlStExaminingMdsSuccess [] [UlWaitForFlows]" sample_ul_env]
  by (auto simp: sample_ul_def)

theorem stale_abort_stops_restart_witness:
  "\<exists>s'. run_steps ul_step [(sample_ul_env, UlNext), (sample_ul_env, UlCancel), (sample_ul_env, UlRaise UlEvStart), (sample_ul_env, UlNext)]
        (sample_ul UlStUploading [UlTimeOutOccurred] []) = Done s' \<and> ul_fsm s' = UlStDisabled \<and> ul_sent s' = 0"
  using stale_abort_stops_restart [of "sample_ul UlStUploading [UlTimeOutOccurred] []" sample_ul_env]
  by (auto simp: sample_ul_def)

theorem failed_upload_blocks_others_witness:
  "\<exists>s'. run_steps ul_step [(sample_ul_env, UlRaise UlEvGetMibTemplate), (sample_ul_env, UlNext),
        (sample_ul_env, UlArrive UlTimeOutOccurred), (sample_ul_env, UlNext)] (sample_ul UlStGettingMacAddress [] []) = Done s' \<and>
     ul_event sample_ul_env UlEvGetMibTemplate ((sample_ul UlStGettingMacAddress [] [])\<lparr>mt_ac := mt_ac s'\<rparr>) = Deadlock"
proof -
  let ?s = "sample_ul UlStGettingMacAddress [] []"
  have s: "ul_fsm ?s = UlStGettingMacAddress" "\<not> oe_persLocked ?s" "ul_loops ?s = 1" "ul_queue ?s = []" "cc_ready [0x8000] (ul_cc ?s)"
    "\<not> ac_templateMutex (mt_ac ?s)" "ac_next (mt_ac ?s) \<notin> set (ac_meDbLocked (mt_ac ?s))"
    "FetchEntryFromMibDatabaseMap (type_path ?s) (mt_ac ?s) = None"
    using sample_cc_ready by (simp_all add: sample_ul_def new_mib_adapter_def FetchEntryFromMibDatabaseMap_def)
  have n: "no_template sample_ul_env (?s\<lparr>mt_ac := a\<rparr>)" for a
    by (simp add: no_template_def sample_ul_env_def sample_kv_def)
  have "no_template sample_ul_env ?s" by (simp add: no_template_def sample_ul_env_def sample_kv_def)
  from failed_upload_blocks_others [OF sample_ul_calm s(5,1-4,6-8) this] obtain s' where
    "run_steps ul_step [(sample_ul_env, UlRaise UlEvGetMibTemplate), (sample_ul_env, UlNext),
        (sample_ul_env, UlArrive UlTimeOutOccurred), (sample_ul_env, UlNext)] ?s = Done s'"
    and b: "\<And>b. mt_ac b = mt_ac s' \<Longrightarrow> \<not> oe_persLocked b \<Longrightarrow> ul_fsm b = UlStGettingMacAddress \<Longrightarrow> no_template sample_ul_env b \<Longrightarrow>
      ul_event sample_ul_env UlEvGetMibTemplate b = Deadlock" by blast
  moreover have "ul_event sample_ul_env UlEvGetMibTemplate (?s\<lparr>mt_ac := mt_ac s'\<rparr>) = Deadlock"
    by (rule b) (use s n in simp_all)
  ultimately show ?thesis by blast
qed

lemma mds_values: "(6 :: u8) \<noteq> 5" "(7 :: u8) \<noteq> 5" by simp_all

theorem audit_resets_after_two_mismatches_witness:
  "\<exists>s' f1 f2 f3. run_steps ul_step [(sample_ul_env, UlRaise UlEvAuditMib), (sample_ul_env, UlArrive (mds_answer 6)), (sample_ul_env, UlNext),
        (sample_ul_env, UlArrive (mds_answer 7)), (sample_ul_env, UlNext)] (sample_ul UlStInSync [] []) = Done s' \<and>
     ul_fsm s' = UlStResettingMib \<and>
     cc_out (ul_cc s') = cc_out (ul_cc (sample_ul UlStInSync [] [])) @ [TxFrame f1, TxFrame f2, TxFrame f3] \<and>
     mib_reset_request sample_ctx 0x8002 = Inr f3"
proof -
  have a: "audit_ready UlStInSync [0x8000, 0x8001, 0x8002] 5 [] False (sample_ul UlStInSync [] [])"
    using sample_cc_ready by (simp add: audit_ready_def sample_ul_def initial_pers_def)
  have u: "uv_auditStart sample_ul_env" by (simp add: sample_ul_env_def)
  have "\<forall>found. \<exists>cs found' ok. retrieve_unis (uv_parent sample_ul_env) [] found True = Done (False, cs, found', ok)" by auto
  from audit_resets_after_two_mismatches [OF sample_ul_calm u a this, of 6 7] show ?thesis
    by (auto simp: mds_values Cons_eq_map_conv map_eq_Cons_conv)
qed

end
