(* ===== verification/Sw_Crc.thy ===== *)
theory Sw_Crc
  imports Go_Prelude
begin

text \<open>
  The checksum of a software image: \<^verbatim>\<open>crc32a.go\<close> of the vendored package and the byte-order conversion of
  \<^verbatim>\<open>swupg/omci_onu_upgrade.go\<close>. The checksum sent to the ONU is shown to be the CRC of ITU-T I.363.5, computed bit by
  bit.
\<close>

unbundle bit_operations_syntax

subsection \<open>The code\<close>

definition crc_table :: "u32 list" where
  "crc_table =
    [0x00000000, 0x04C11DB7, 0x09823B6E, 0x0D4326D9, 0x130476DC, 0x17C56B6B, 0x1A864DB2, 0x1E475005,
     0x2608EDB8, 0x22C9F00F, 0x2F8AD6D6, 0x2B4BCB61, 0x350C9B64, 0x31CD86D3, 0x3C8EA00A, 0x384FBDBD,
     0x4C11DB70, 0x48D0C6C7, 0x4593E01E, 0x4152FDA9, 0x5F15ADAC, 0x5BD4B01B, 0x569796C2, 0x52568B75,
     0x6A1936C8, 0x6ED82B7F, 0x639B0DA6, 0x675A1011, 0x791D4014, 0x7DDC5DA3, 0x709F7B7A, 0x745E66CD,
     0x9823B6E0, 0x9CE2AB57, 0x91A18D8E, 0x95609039, 0x8B27C03C, 0x8FE6DD8B, 0x82A5FB52, 0x8664E6E5,
     0xBE2B5B58, 0xBAEA46EF, 0xB7A96036, 0xB3687D81, 0xAD2F2D84, 0xA9EE3033, 0xA4AD16EA, 0xA06C0B5D,
     0xD4326D90, 0xD0F37027, 0xDDB056FE, 0xD9714B49, 0xC7361B4C, 0xC3F706FB, 0xCEB42022, 0xCA753D95,
     0xF23A8028, 0xF6FB9D9F, 0xFBB8BB46, 0xFF79A6F1, 0xE13EF6F4, 0xE5FFEB43, 0xE8BCCD9A, 0xEC7DD02D,
     0x34867077, 0x30476DC0, 0x3D044B19, 0x39C556AE, 0x278206AB, 0x23431B1C, 0x2E003DC5, 0x2AC12072,
     0x128E9DCF, 0x164F8078, 0x1B0CA6A1, 0x1FCDBB16, 0x018AEB13, 0x054BF6A4, 0x0808D07D, 0x0CC9CDCA,
     0x7897AB07, 0x7C56B6B0, 0x71159069, 0x75D48DDE, 0x6B93DDDB, 0x6F52C06C, 0x6211E6B5, 0x66D0FB02,
     0x5E9F46BF, 0x5A5E5B08, 0x571D7DD1, 0x53DC6066, 0x4D9B3063, 0x495A2DD4, 0x44190B0D, 0x40D816BA,
     0xACA5C697, 0xA864DB20, 0xA527FDF9, 0xA1E6E04E, 0xBFA1B04B, 0xBB60ADFC, 0xB6238B25, 0xB2E29692,
     0x8AAD2B2F, 0x8E6C3698, 0x832F1041, 0x87EE0DF6, 0x99A95DF3, 0x9D684044, 0x902B669D, 0x94EA7B2A,
     0xE0B41DE7, 0xE4750050, 0xE9362689, 0xEDF73B3E, 0xF3B06B3B, 0xF771768C, 0xFA325055, 0xFEF34DE2,
     0xC6BCF05F, 0xC27DEDE8, 0xCF3ECB31, 0xCBFFD686, 0xD5B88683, 0xD1799B34, 0xDC3ABDED, 0xD8FBA05A,
     0x690CE0EE, 0x6DCDFD59, 0x608EDB80, 0x644FC637, 0x7A089632, 0x7EC98B85, 0x738AAD5C, 0x774BB0EB,
     0x4F040D56, 0x4BC510E1, 0x46863638, 0x42472B8F, 0x5C007B8A, 0x58C1663D, 0x558240E4, 0x51435D53,
     0x251D3B9E, 0x21DC2629, 0x2C9F00F0, 0x285E1D47, 0x36194D42, 0x32D850F5, 0x3F9B762C, 0x3B5A6B9B,
     0x0315D626, 0x07D4CB91, 0x0A97ED48, 0x0E56F0FF, 0x1011A0FA, 0x14D0BD4D, 0x19939B94, 0x1D528623,
     0xF12F560E, 0xF5EE4BB9, 0xF8AD6D60, 0xFC6C70D7, 0xE22B20D2, 0xE6EA3D65, 0xEBA91BBC, 0xEF68060B,
     0xD727BBB6, 0xD3E6A601, 0xDEA580D8, 0xDA649D6F, 0xC423CD6A, 0xC0E2D0DD, 0xCDA1F604, 0xC960EBB3,
     0xBD3E8D7E, 0xB9FF90C9, 0xB4BCB610, 0xB07DABA7, 0xAE3AFBA2, 0xAAFBE615, 0xA7B8C0CC, 0xA379DD7B,
     0x9B3660C6, 0x9FF77D71, 0x92B45BA8, 0x9675461F, 0x8832161A, 0x8CF30BAD, 0x81B02D74, 0x857130C3,
     0x5D8A9099, 0x594B8D2E, 0x5408ABF7, 0x50C9B640, 0x4E8EE645, 0x4A4FFBF2, 0x470CDD2B, 0x43CDC09C,
     0x7B827D21, 0x7F436096, 0x7200464F, 0x76C15BF8, 0x68860BFD, 0x6C47164A, 0x61043093, 0x65C52D24,
     0x119B4BE9, 0x155A565E, 0x18197087, 0x1CD86D30, 0x029F3D35, 0x065E2082, 0x0B1D065B, 0x0FDC1BEC,
     0x3793A651, 0x3352BBE6, 0x3E119D3F, 0x3AD08088, 0x2497D08D, 0x2056CD3A, 0x2D15EBE3, 0x29D4F654,
     0xC5A92679, 0xC1683BCE, 0xCC2B1D17, 0xC8EA00A0, 0xD6AD50A5, 0xD26C4D12, 0xDF2F6BCB, 0xDBEE767C,
     0xE3A1CBC1, 0xE760D676, 0xEA23F0AF, 0xEEE2ED18, 0xF0A5BD1D, 0xF464A0AA, 0xF9278673, 0xFDE69BC4,
     0x89B8FD09, 0x8D79E0BE, 0x803AC667, 0x84FBDBD0, 0x9ABC8BD5, 0x9E7D9662, 0x933EB0BB, 0x97FFAD0C,
     0xAFB010B1, 0xAB710D06, 0xA6322BDF, 0xA2F33668, 0xBCB4666D, 0xB8757BDA, 0xB5365D03, 0xB1F740B4]"

definition crc_byte :: "u32 \<Rightarrow> u8 \<Rightarrow> u32" where
  "crc_byte crc b = push_bit 8 crc XOR (crc_table ! unat (drop_bit 24 crc XOR (ucast b AND 0xFF)))"

text \<open>The digest is little-endian, and read as a big-endian number.\<close>

definition crc_digest :: "bytes \<Rightarrow> bytes" where
  "crc_digest data =
     (let crc = NOT (foldl crc_byte (NOT 0) data) in
      [ucast (crc AND 0xFF), ucast (drop_bit 8 crc AND 0xFF), ucast (drop_bit 16 crc AND 0xFF), ucast (drop_bit 24 crc AND 0xFF)])"

definition BigEndian_Uint32 :: "bytes \<Rightarrow> u32" where
  "BigEndian_Uint32 b =
     ucast (b ! 3) OR push_bit 8 (ucast (b ! 2)) OR push_bit 16 (ucast (b ! 1)) OR push_bit 24 (ucast (b ! 0))"

definition LittleEndian_PutUint32 :: "u32 \<Rightarrow> bytes" where
  "LittleEndian_PutUint32 v = [ucast v, ucast (drop_bit 8 v), ucast (drop_bit 16 v), ucast (drop_bit 24 v)]"

definition Checksum :: "bytes \<Rightarrow> u32" where
  "Checksum data = BigEndian_Uint32 (crc_digest data)"

definition image_crc :: "bytes \<Rightarrow> u32" where
  "image_crc data = BigEndian_Uint32 (LittleEndian_PutUint32 (Checksum data))"

subsection \<open>The specification\<close>

text \<open>Division by the generator polynomial: the message is shifted in bit by bit, most significant first.\<close>

definition crc_poly :: u32 where "crc_poly = 0x04C11DB7"

definition crc_shift :: "u32 \<Rightarrow> u32" where
  "crc_shift r = (if bit r 31 then push_bit 1 r XOR crc_poly else push_bit 1 r)"

definition crc_bit :: "u32 \<Rightarrow> bool \<Rightarrow> u32" where
  "crc_bit r b = (if bit r 31 \<noteq> b then push_bit 1 r XOR crc_poly else push_bit 1 r)"

definition bits_of :: "u8 \<Rightarrow> bool list" where
  "bits_of b = map (bit b) [7, 6, 5, 4, 3, 2, 1, 0]"

definition aal5_crc :: "bytes \<Rightarrow> u32" where
  "aal5_crc data = NOT (foldl crc_bit (NOT 0) (concat (map bits_of data)))"

subsection \<open>The table implements the division\<close>

text \<open>The entries 2i and 2i + 1 follow from entry i, which determines the whole table.\<close>

lemma table_doubles: "concat (map (\<lambda>t. [crc_shift t, crc_shift t XOR crc_poly]) (take 128 crc_table)) = crc_table"
  by (simp add: crc_table_def crc_shift_def crc_poly_def)

lemma nth_pairs:
  "j < length xs \<Longrightarrow> concat (map (\<lambda>t. [f t, g t]) xs) ! (2 * j) = f (xs ! j)"
  "j < length xs \<Longrightarrow> concat (map (\<lambda>t. [f t, g t]) xs) ! (2 * j + 1) = g (xs ! j)"
proof (induction xs arbitrary: j)
  case (Cons x xs)
  {
    case 1
    then show ?case using Cons.IH(1) by (cases j) simp_all
  next
    case 2
    then show ?case using Cons.IH(2) by (cases j) simp_all
  }
qed simp_all

lemma crc_shift_xor: "crc_shift (x XOR y) = crc_shift x XOR crc_shift y"
  by (auto simp: crc_shift_def bit_simps push_bit_xor ac_simps)

lemma shifts_xor: "(crc_shift ^^ n) (x XOR y) = (crc_shift ^^ n) x XOR (crc_shift ^^ n) y"
  by (induction n) (simp_all add: crc_shift_xor)

lemma shifts_low: "n \<le> 8 \<Longrightarrow> (crc_shift ^^ n) (take_bit 24 c) = push_bit n (take_bit 24 c)"
proof (induction n)
  case (Suc n)
  then have "\<not> bit (push_bit n (take_bit 24 c)) 31" by (auto simp: bit_push_bit_iff bit_take_bit_iff)
  with Suc show ?case by (simp add: crc_shift_def)
qed simp

lemma table_even_odd:
  assumes "j < 128"
  shows "crc_table ! (2 * j) = crc_shift (crc_table ! j)" "crc_table ! (2 * j + 1) = crc_shift (crc_table ! j) XOR crc_poly"
proof -
  have l: "length crc_table = 256" by (simp add: crc_table_def)
  show "crc_table ! (2 * j) = crc_shift (crc_table ! j)" "crc_table ! (2 * j + 1) = crc_shift (crc_table ! j) XOR crc_poly"
    using nth_pairs [of j "take 128 crc_table" crc_shift "\<lambda>t. crc_shift t XOR crc_poly"] assms l
    unfolding table_doubles by simp_all
qed

lemma shifts_one: "(crc_shift ^^ 8) (push_bit 24 1) = crc_poly"
proof -
  have "(crc_shift ^^ n) (push_bit 24 1) = push_bit (24 + n) 1" if "n \<le> 7" for n
    using that
  proof (induction n)
    case (Suc n)
    then have "\<not> bit (push_bit (24 + n) (1 :: u32)) 31" by (auto simp: bit_simps)
    moreover have "push_bit 1 (push_bit (24 + n) (1 :: u32)) = push_bit (24 + Suc n) 1" by (simp only: push_bit_push_bit) simp
    ultimately have "crc_shift (push_bit (24 + n) 1) = push_bit (24 + Suc n) 1" unfolding crc_shift_def by (simp only: if_False)
    with Suc show ?case by (simp del: push_bit_of_1)
  qed simp
  from this [of 7] have "(crc_shift ^^ Suc 7) (push_bit 24 1) = crc_shift (push_bit (24 + 7) 1)"
    by (simp only: funpow.simps comp_apply order_refl)
  moreover have "crc_shift (push_bit (24 + 7) 1) = crc_poly" by (simp add: crc_shift_def crc_poly_def)
  moreover have "Suc 7 = 8" by simp
  ultimately show ?thesis by metis
qed

lemma table_entry_nat: "i < 256 \<Longrightarrow> crc_table ! i = (crc_shift ^^ 8) (push_bit 24 (word_of_nat i))"
proof (induction i rule: less_induct)
  case (less i)
  let ?j = "i div 2"
  have even: "crc_table ! (2 * ?j) = (crc_shift ^^ 8) (push_bit 24 (word_of_nat (2 * ?j)))"
  proof (cases "i = 0 \<or> i = 1")
    case True
    have "(crc_shift ^^ 8) 0 = 0" by (simp add: crc_shift_def numeral_eq_Suc)
    then show ?thesis using True by (auto simp: crc_table_def)
  next
    case False
    then have j: "?j < i" "?j < 128" using less.prems by auto
    then have u: "unat (word_of_nat ?j :: u32) = ?j" by (simp add: unat_of_nat)
    have "\<not> bit (push_bit 24 (word_of_nat ?j :: u32)) 31"
      using j(2) by (simp add: bit_push_bit_iff bit_of_nat_iff) (simp add: bit_iff_odd)
    then have "crc_shift (push_bit 24 (word_of_nat ?j)) = push_bit 24 (word_of_nat (2 * ?j))"
      by (simp add: crc_shift_def push_bit_eq_mult)
    then show ?thesis
      using table_even_odd(1) [OF j(2)] less.IH [OF j(1)] j(2) by (simp add: funpow_swap1 flip: funpow.simps(2))
  qed
  show ?case
  proof (cases "even i")
    case True
    with even show ?thesis by simp
  next
    case False
    then have i: "i = 2 * ?j + 1" "?j < 128" using less.prems by auto
    have x: "push_bit 24 (word_of_nat (2 * ?j + 1) :: u32) = push_bit 24 (word_of_nat (2 * ?j)) XOR push_bit 24 1"
    proof -
      have "word_of_nat (2 * ?j + 1) = (word_of_nat (2 * ?j) :: u32) XOR 1"
        by (rule bit_word_eqI) (auto simp: bit_simps even_bit_succ_iff)
      then show ?thesis by (simp add: push_bit_xor)
    qed
    have "crc_table ! (2 * ?j + 1) = crc_table ! (2 * ?j) XOR crc_poly" using table_even_odd [OF i(2)] by simp
    then show ?thesis using even i x shifts_one by (metis shifts_xor)
  qed
qed

lemma split_word: "(c :: u32) = take_bit 24 c XOR push_bit 24 (drop_bit 24 c)"
  by (rule bit_word_eqI) (auto simp: bit_simps)

lemma byte_mask: "ucast (b :: u8) AND 0xFF = (ucast b :: u32)" "v AND 0xFF = (take_bit 8 v :: u32)"
proof -
  have f: "(0xFF :: u32) = mask 8" by (simp add: mask_eq_exp_minus_1)
  show "ucast (b :: u8) AND 0xFF = (ucast b :: u32)" unfolding f by (rule bit_word_eqI) (auto simp: bit_simps dest: bit_imp_le_length)
  show "v AND 0xFF = (take_bit 8 v :: u32)" unfolding f by (rule take_bit_eq_mask [symmetric])
qed

lemma crc_byte_shifts: "crc_byte c b = (crc_shift ^^ 8) (c XOR push_bit 24 (ucast b))"
proof -
  let ?i = "drop_bit 24 c XOR ucast b"
  have m: "ucast b AND 0xFF = (ucast b :: u32)" by (rule byte_mask)
  have "take_bit 8 ?i = ?i" by (rule bit_word_eqI) (auto simp: bit_simps dest: bit_imp_le_length)
  then have "unat ?i = take_bit 8 (unat ?i)" by (simp only: flip: unsigned_take_bit_eq)
  then have "unat ?i < 2 ^ 8" using take_bit_nat_less_exp [of 8 "unat ?i"] by (simp only:)
  then have t: "crc_table ! unat ?i = (crc_shift ^^ 8) (push_bit 24 ?i)" using table_entry_nat [of "unat ?i"] by simp
  have "c XOR push_bit 24 (ucast b) = take_bit 24 c XOR push_bit 24 ?i"
    by (rule bit_word_eqI) (auto simp: bit_simps dest: bit_imp_le_length)
  moreover have "push_bit 8 (take_bit 24 c) = push_bit 8 c"
    by (rule bit_word_eqI) (auto simp: bit_simps)
  ultimately show ?thesis
    using t shifts_low [of 8 c] by (simp add: crc_byte_def m shifts_xor)
qed

lemma crc_shift_bit: "bit y 31 = v \<Longrightarrow> crc_shift (r XOR y) = crc_bit r v XOR push_bit 1 y"
  by (auto simp: crc_shift_def crc_bit_def bit_simps push_bit_xor ac_simps)

lemma shifts_bits: "(crc_shift ^^ 8) (c XOR push_bit 24 (ucast b)) = foldl crc_bit c (bits_of b)"
proof -
  let ?x = "push_bit 24 (ucast b) :: u32"
  have v: "bit (push_bit k ?x) 31 = bit b (7 - k)" if "k \<le> 7" for k
    using that by (auto simp: bit_simps)
  have z: "push_bit 8 ?x = 0" by (rule bit_word_eqI) (auto simp: bit_simps)
  have step: "(crc_shift ^^ k) (c XOR ?x) = foldl crc_bit c (map (\<lambda>i. bit b (7 - i)) [0..<k]) XOR push_bit k ?x" if "k \<le> 8" for k
    using that
  proof (induction k)
    case (Suc k)
    then show ?case
      using crc_shift_bit [OF v [of k], of "foldl crc_bit c (map (\<lambda>i. bit b (7 - i)) [0..<k])"] by simp
  qed simp
  have "map (\<lambda>i. bit b (7 - i)) [0..<8] = bits_of b" by (simp add: bits_of_def upt_rec)
  with step [of 8] z show ?thesis by simp
qed

lemma crc_bytes: "foldl crc_byte c data = foldl crc_bit c (concat (map bits_of data))"
  by (induction data arbitrary: c) (simp_all add: crc_byte_shifts shifts_bits)

lemma little_of_big: "LittleEndian_PutUint32 (BigEndian_Uint32 [a, b, c, d]) = [d, c, b, a]"
proof -
  have "ucast (BigEndian_Uint32 [a, b, c, d]) = d" "ucast (drop_bit 8 (BigEndian_Uint32 [a, b, c, d])) = c"
    "ucast (drop_bit 16 (BigEndian_Uint32 [a, b, c, d])) = b" "ucast (drop_bit 24 (BigEndian_Uint32 [a, b, c, d])) = a"
    by (rule bit_word_eqI; auto simp: BigEndian_Uint32_def bit_simps dest: bit_imp_le_length)+
  then show ?thesis by (simp add: LittleEndian_PutUint32_def)
qed

lemma big_of_bytes:
  "BigEndian_Uint32 [ucast (drop_bit 24 v AND 0xFF), ucast (drop_bit 16 v AND 0xFF), ucast (drop_bit 8 v AND 0xFF), ucast (v AND 0xFF)] = v"
  (is "?w = v")
proof (rule bit_word_eqI)
  fix n :: nat
  consider "n < 8" | "8 \<le> n" "n < 16" | "16 \<le> n" "n < 24" | "24 \<le> n" by linarith
  moreover assume "n < LENGTH(32)"
  ultimately show "bit ?w n = bit v n"
    unfolding byte_mask(2) BigEndian_Uint32_def by cases (auto simp: bit_simps)
qed

text \<open>C11: The checksum with which a download is finished is the CRC-32 of ITU-T I.363.5 of the image: the table-driven
  computation agrees with the division of the message by the generator polynomial bit by bit, and the two
  reversals of the byte order, one in the package and one in the caller, cancel out.\<close>

theorem image_crc_is_aal5: "image_crc data = aal5_crc data"
  by (simp add: image_crc_def Checksum_def crc_digest_def Let_def little_of_big big_of_bytes aal5_crc_def crc_bytes)

end
