(* ===== verification/Sw_Upg.thy ===== *)
theory Sw_Upg
  imports Mib_Sync Sw_Crc
begin

text \<open>
  \<^verbatim>\<open>swupg/omci_onu_upgrade.go\<close>: the state machine that downloads a software image to the ONU, activates and commits it. The image
  is cut into sections, the sections are sent in windows, and every window is acknowledged. The file managers
  are an argument; goroutines are tasks. Two waits are part of the state: the enter function of
  \<open>UpgradeStWaitEndDL\<close> waits for a response with the event mutex of the state machine held, so that other
  events block, and the channel \<^verbatim>\<open>chOnuDlReady\<close> has a queue of receivers.
\<close>

subsection \<open>Events, states and constants\<close>

datatype upg_evt = UpgradeEvStart | UpgradeEvDisable | UpgradeEvAdapterDownload | UpgradeEvPrepareSwDownload
  | UpgradeEvRxStartSwDownload | UpgradeEvWaitWindowAck | UpgradeEvContinueNextWindow | UpgradeEvEndSwDownload
  | UpgradeEvWaitEndDownload | UpgradeEvContinueFinalize | UpgradeEvCheckImageName | UpgradeEvWaitForActivate
  | UpgradeEvRequestActivate | UpgradeEvActivationDone | UpgradeEvWaitForCommit | UpgradeEvCommitSw | UpgradeEvCheckCommitted
  | UpgradeEvReset | UpgradeEvAbort | UpgradeEvRestart | UpgradeEvAbortSwDownload

datatype upg_state = UpgradeStDisabled | UpgradeStStarting | UpgradeStWaitingAdapterDL | UpgradeStPreparingDL | UpgradeStDLSection
  | UpgradeStVerifyWindow | UpgradeStFinalizeDL | UpgradeStWaitEndDL | UpgradeStCheckImageName | UpgradeStWaitForActivate
  | UpgradeStRequestingActivate | UpgradeStActivated | UpgradeStWaitForCommit | UpgradeStCommitSw | UpgradeStCheckCommitted
  | UpgradeStResetting | UpgradeStRestarting | UpgradeStAbortingDL

definition upg_reset_states :: "upg_state list" where
  "upg_reset_states =
     [UpgradeStStarting, UpgradeStWaitingAdapterDL, UpgradeStPreparingDL, UpgradeStDLSection, UpgradeStVerifyWindow,
      UpgradeStDLSection, UpgradeStFinalizeDL, UpgradeStWaitEndDL, UpgradeStCheckImageName, UpgradeStWaitForActivate]"

definition upg_events :: "(upg_evt, upg_state) fsm_events" where
  "upg_events =
    [(UpgradeEvStart, [UpgradeStDisabled], UpgradeStStarting),
     (UpgradeEvAdapterDownload, [UpgradeStStarting], UpgradeStWaitingAdapterDL),
     (UpgradeEvPrepareSwDownload, [UpgradeStStarting, UpgradeStWaitingAdapterDL], UpgradeStPreparingDL),
     (UpgradeEvRxStartSwDownload, [UpgradeStPreparingDL], UpgradeStDLSection),
     (UpgradeEvWaitWindowAck, [UpgradeStDLSection], UpgradeStVerifyWindow),
     (UpgradeEvContinueNextWindow, [UpgradeStVerifyWindow], UpgradeStDLSection),
     (UpgradeEvEndSwDownload, [UpgradeStVerifyWindow], UpgradeStFinalizeDL),
     (UpgradeEvWaitEndDownload, [UpgradeStFinalizeDL], UpgradeStWaitEndDL),
     (UpgradeEvContinueFinalize, [UpgradeStWaitEndDL], UpgradeStFinalizeDL),
     (UpgradeEvCheckImageName, [UpgradeStWaitEndDL], UpgradeStCheckImageName),
     (UpgradeEvWaitForActivate, [UpgradeStWaitEndDL, UpgradeStCheckImageName], UpgradeStWaitForActivate),
     (UpgradeEvRequestActivate,
       [UpgradeStStarting, UpgradeStWaitEndDL, UpgradeStCheckImageName, UpgradeStWaitForActivate], UpgradeStRequestingActivate),
     (UpgradeEvActivationDone, [UpgradeStRequestingActivate], UpgradeStActivated),
     (UpgradeEvWaitForCommit, [UpgradeStRequestingActivate], UpgradeStWaitForCommit),
     (UpgradeEvCommitSw,
       [UpgradeStStarting, UpgradeStRequestingActivate, UpgradeStWaitForCommit, UpgradeStActivated], UpgradeStCommitSw),
     (UpgradeEvCheckCommitted, [UpgradeStCommitSw], UpgradeStCheckCommitted),
     (UpgradeEvReset, upg_reset_states @ [UpgradeStCommitSw, UpgradeStCheckCommitted, UpgradeStAbortingDL], UpgradeStResetting),
     (UpgradeEvAbort,
       upg_reset_states @ [UpgradeStRequestingActivate, UpgradeStActivated, UpgradeStWaitForCommit,
         UpgradeStCommitSw, UpgradeStCheckCommitted], UpgradeStResetting),
     (UpgradeEvAbortSwDownload, [UpgradeStResetting], UpgradeStAbortingDL),
     (UpgradeEvRestart, [UpgradeStResetting, UpgradeStAbortingDL], UpgradeStRestarting),
     (UpgradeEvDisable, [UpgradeStRestarting], UpgradeStDisabled)]"

datatype tUpgradePhase = cUpgradeUndefined | cUpgradeDownloading | cUpgradeDownloaded | cUpgradeActivating | cUpgradeActivated
  | cUpgradeCommitting | cUpgradeCommitted

datatype tEndSwDlResponseResult = cEndSwDlResponseSuccess | cEndSwDlResponseBusy | cEndSwDlResponseAbort

datatype ImageDownloadState = ImageState_DOWNLOAD_UNKNOWN | ImageState_DOWNLOAD_SUCCEEDED | ImageState_DOWNLOAD_REQUESTED
  | ImageState_DOWNLOAD_STARTED | ImageState_DOWNLOAD_FAILED | ImageState_DOWNLOAD_UNSUPPORTED | ImageState_DOWNLOAD_CANCELLING
  | ImageState_DOWNLOAD_CANCELLED

datatype ImageFailureReason = ImageState_NO_ERROR | ImageState_INVALID_URL | ImageState_DEVICE_BUSY | ImageState_INSUFFICIENT_SPACE
  | ImageState_UNKNOWN_ERROR | ImageState_CANCELLED_ON_REQUEST | ImageState_CANCELLED_ON_ONU_STATE
  | ImageState_VENDOR_DEVICE_MISMATCH | ImageState_OMCI_TRANSFER_ERROR | ImageState_IMAGE_REFUSED_BY_ONU

datatype ImageActivationState = ImageState_IMAGE_UNKNOWN | ImageState_IMAGE_INACTIVE | ImageState_IMAGE_ACTIVATING
  | ImageState_IMAGE_ACTIVE | ImageState_IMAGE_COMMITTING | ImageState_IMAGE_COMMITTED | ImageState_IMAGE_ACTIVATION_ABORTING
  | ImageState_IMAGE_ACTIVATION_ABORTED | ImageState_IMAGE_COMMIT_ABORTING | ImageState_IMAGE_COMMIT_ABORTED
  | ImageState_IMAGE_DOWNLOADING | ImageState_IMAGE_DOWNLOADING_ABORTED

definition cOmciDownloadSectionSizeBaseLine :: int where "cOmciDownloadSectionSizeBaseLine = 31"
definition cOmciDownloadWindowSizeLimitBaseLine :: u8 where "cOmciDownloadWindowSizeLimitBaseLine = 31"
definition cOmciDownloadSectionSizeExtLine :: int where "cOmciDownloadSectionSizeExtLine = 1965"
definition cOmciDownloadWindowSizeLimitExtLine :: u8 where "cOmciDownloadWindowSizeLimitExtLine = 7"
definition cWaitCountEndSwDl :: u8 where "cWaitCountEndSwDl = 6"
definition cMaxRetryAttemptsForDownloadWindow :: u8 where "cMaxRetryAttemptsForDownloadWindow = 3"
definition SwIsInactive :: u8 where "SwIsInactive = 0"
definition SwIsCommitted :: u8 where "SwIsCommitted = 1"
definition me_DeviceBusy :: u8 where "me_DeviceBusy = 6"

subsection \<open>State and surroundings\<close>

datatype upg_task = UpgTask upg_evt | RunSwDlSectionWindow | DelayAndSendEndSwDl | DelayedEndSwDl
  | UpgCancel bool ImageFailureReason | UpgCancelEvent bool ImageFailureReason

text \<open>Who waits at \<^verbatim>\<open>chOnuDlReady\<close>: the monitor of the device handler and the timer of the download.\<close>

datatype dl_receiver = DlMonitor | DlTimer

record ImageState =
  is_Version :: string
  is_DownloadState :: ImageDownloadState
  is_Reason :: ImageFailureReason
  is_ImageState :: ImageActivationState

datatype upg_effect = RequestDownloadReady string | RemoveReadyRequest string | CancelDownload string | UpgAbortMessages
  | RemoveOnuUpgradeFsm ImageState

record upg_env =
  ug_ctx :: "nat \<Rightarrow> send_ctx"
  ug_timeout :: int
  ug_fileLen :: "bool \<Rightarrow> string + int"
  ug_image :: "bool \<Rightarrow> string + bytes"
  ug_octets :: "Dev_Db.attr_value \<Rightarrow> bytes option"

record sw_upg = onu_entry +
  up_fsm :: upg_state
  up_cc :: OmciCC
  up_CommChan :: nat
  pLastTxMeInstance :: "(u16 \<times> u16) option"
  imageVersion :: string
  imageIdentifier :: string
  imageBuffer :: bytes
  omciDownloadSectionSize :: int
  origImageLength :: u32
  imageCRC :: u32
  imageLength :: u32
  noOfSections :: u32
  nextDownloadSectionsAbsolute :: u32
  noOfWindows :: u32
  nextDownloadWindow :: u32
  abortRequested :: ImageFailureReason
  volthaDownloadState :: ImageDownloadState
  volthaDownloadReason :: ImageFailureReason
  volthaImageState :: ImageActivationState
  InactiveImageMeID :: u16
  omciDownloadWindowSizeLimit :: u8
  omciDownloadWindowSizeLast :: u8
  nextDownloadSectionsWindow :: u8
  maxRetryAttemptsForDownloadWindow :: u8
  delayEndSwDl :: bool
  repeatAbort :: bool
  waitCountEndSwDl :: u8
  useAPIVersion43 :: bool
  isWaitingForAdapterDlResponse :: bool
  activateImage :: bool
  commitImage :: bool
  conditionalCancelRequested :: bool
  upgradePhase :: tUpgradePhase
  isEndSwDlOpen :: bool
  isExtendedOmci :: bool
  up_loop :: bool
  up_stuck :: bool
  up_waitEnd :: bool
  up_blocked :: "(bool \<times> upg_evt) list"
  up_receivers :: "dl_receiver list"
  up_abortWaits :: nat
  up_tasks :: "upg_task list"
  up_out :: "upg_effect list"
  up_sent :: nat

abbreviation up_go :: "upg_task \<Rightarrow> sw_upg \<Rightarrow> sw_upg" where
  "up_go t s \<equiv> s\<lparr>up_tasks := up_tasks s @ [t]\<rparr>"

abbreviation up_emit :: "upg_effect \<Rightarrow> sw_upg \<Rightarrow> sw_upg" where
  "up_emit e s \<equiv> s\<lparr>up_out := up_out s @ [e]\<rparr>"

definition NewOnuUpgradeFsm :: "nat \<Rightarrow> OmciCC \<Rightarrow> onu_entry \<Rightarrow> sw_upg" where
  "NewOnuUpgradeFsm aCommChannel cc entry =
     (let ext = PersIsExtOmciSupported (oe_pers entry) in
      onu_entry.extend entry
       \<lparr> up_fsm = UpgradeStDisabled, up_cc = cc, up_CommChan = aCommChannel, pLastTxMeInstance = None,
         imageVersion = [], imageIdentifier = [], imageBuffer = [],
         omciDownloadSectionSize = (if ext then cOmciDownloadSectionSizeExtLine else cOmciDownloadSectionSizeBaseLine),
         origImageLength = 0, imageCRC = 0, imageLength = 0, noOfSections = 0, nextDownloadSectionsAbsolute = 0,
         noOfWindows = 0, nextDownloadWindow = 0, abortRequested = ImageState_NO_ERROR,
         volthaDownloadState = ImageState_DOWNLOAD_UNKNOWN, volthaDownloadReason = ImageState_NO_ERROR,
         volthaImageState = ImageState_IMAGE_UNKNOWN, InactiveImageMeID = 0,
         omciDownloadWindowSizeLimit =
           (if ext then cOmciDownloadWindowSizeLimitExtLine else cOmciDownloadWindowSizeLimitBaseLine),
         omciDownloadWindowSizeLast = 0, nextDownloadSectionsWindow = 0,
         maxRetryAttemptsForDownloadWindow = cMaxRetryAttemptsForDownloadWindow, delayEndSwDl = False, repeatAbort = False,
         waitCountEndSwDl = cWaitCountEndSwDl, useAPIVersion43 = False, isWaitingForAdapterDlResponse = False,
         activateImage = False, commitImage = False, conditionalCancelRequested = False, upgradePhase = cUpgradeUndefined,
         isEndSwDlOpen = False, isExtendedOmci = ext, up_loop = False, up_stuck = False, up_waitEnd = False, up_blocked = [],
         up_receivers = [], up_abortWaits = 0, up_tasks = [], up_out = [], up_sent = 0 \<rparr>)"

definition up_request :: "upg_env \<Rightarrow> (send_ctx \<Rightarrow> OmciCC \<Rightarrow> 'a send_result run) \<Rightarrow> sw_upg \<Rightarrow> ((string + 'a) \<times> sw_upg) run" where
  "up_request env f s =
     bind_run (f (ug_ctx env (up_sent s)) (up_cc s)) (\<lambda>(r, sr).
       Done (r, s\<lparr>up_cc := sup_state sr, up_sent := up_sent s + 1\<rparr>))"

text \<open>A send to \<^verbatim>\<open>chOnuDlReady\<close> that does not wait: the receiver that has waited longest gets the value.\<close>

definition notify_dl_ready :: "sw_upg \<Rightarrow> sw_upg" where
  "notify_dl_ready s = s\<lparr>up_receivers := tl (up_receivers s)\<rparr>"

text \<open>The failure of \<^verbatim>\<open>abortOnOmciError\<close>, and its asynchronous form.\<close>

definition omci_error :: "sw_upg \<Rightarrow> sw_upg" where
  "omci_error s = s\<lparr>conditionalCancelRequested := False, volthaDownloadReason := ImageState_OMCI_TRANSFER_ERROR\<rparr>"

definition abort_async :: "sw_upg \<Rightarrow> sw_upg" where
  "abort_async s = up_go (UpgTask UpgradeEvAbort) (omci_error s)"

subsection \<open>Entering the states\<close>

definition enterStarting :: "sw_upg \<Rightarrow> sw_upg" where
  "enterStarting s = s\<lparr>up_loop := True\<rparr>"

definition enterWaitingAdapterDL :: "sw_upg \<Rightarrow> sw_upg" where
  "enterWaitingAdapterDL s = up_emit (RequestDownloadReady (imageIdentifier s)) (s\<lparr>isWaitingForAdapterDlResponse := True\<rparr>)"

text \<open>The image is copied, and padded to whole sections in the baseline message set.\<close>

definition load_image :: "int \<Rightarrow> bytes \<Rightarrow> sw_upg \<Rightarrow> sw_upg" where
  "load_image fileLen img s =
     (let sz = omciDownloadSectionSize s;
          buf = take (nat fileLen) img @ replicate (nat fileLen - length img) 0;
          sections = (word_of_int (fileLen div sz) :: u32);
          rest = fileLen mod sz;
          buf = (if 0 < rest \<and> \<not> isExtendedOmci s then buf @ replicate (nat (sz - rest)) 0 else buf);
          sections = (if 0 < rest then sections + 1 else sections)
      in s\<lparr>imageBuffer := buf, noOfSections := sections, origImageLength := word_of_int fileLen,
           imageLength := word_of_int (int (length buf))\<rparr>)"

definition start_download :: "upg_env \<Rightarrow> sw_upg \<Rightarrow> sw_upg run" where
  "start_download env s =
     (let s = s\<lparr>up_receivers := up_receivers s @ [DlTimer]\<rparr> in
      bind_run (up_request env (\<lambda>c. SendStartSoftwareDownload c (ug_timeout env) False (up_CommChan s) (InactiveImageMeID s)
          (omciDownloadWindowSizeLimit s) (origImageLength s) (isExtendedOmci s)) s) (\<lambda>(r, s).
        case r of Inl e \<Rightarrow> Done (abort_async s) | Inr x \<Rightarrow> Done (s\<lparr>isEndSwDlOpen := True\<rparr>)))"

definition enterPreparingDL :: "upg_env \<Rightarrow> sw_upg \<Rightarrow> sw_upg run" where
  "enterPreparingDL env s =
     (let failed = up_go (UpgTask UpgradeEvAbort) (s\<lparr>volthaDownloadReason := ImageState_UNKNOWN_ERROR\<rparr>) in
      case ug_fileLen env (useAPIVersion43 s) of
        Inl e \<Rightarrow> Done failed
      | Inr fileLen \<Rightarrow>
          if fileLen = 0 \<or> fileLen > 0xFFFFFFFF then Done failed
          else (case ug_image env (useAPIVersion43 s) of
                  Inl e \<Rightarrow> Done failed
                | Inr img \<Rightarrow> start_download env (load_image fileLen img s)))"

definition enterDownloadSection :: "sw_upg \<Rightarrow> sw_upg" where
  "enterDownloadSection s = up_go RunSwDlSectionWindow s"

definition enterFinalizeDL :: "sw_upg \<Rightarrow> sw_upg" where
  "enterFinalizeDL s = up_go DelayAndSendEndSwDl s"

text \<open>The wait begins; it ends with \<open>end_wait\<close> below.\<close>

definition enterWaitEndDL :: "sw_upg \<Rightarrow> sw_upg" where
  "enterWaitEndDL s =
     (if waitCountEndSwDl s = 0
      then up_go (UpgTask UpgradeEvAbort) (s\<lparr>volthaDownloadReason := ImageState_IMAGE_REFUSED_BY_ONU\<rparr>)
      else s\<lparr>waitCountEndSwDl := waitCountEndSwDl s - 1, up_waitEnd := True\<rparr>)"

definition get_image :: "upg_env \<Rightarrow> sw_upg \<Rightarrow> sw_upg run" where
  "get_image env s =
     bind_run (up_request env (\<lambda>c. SendGetMe c (class_id Me_SoftwareImage) (InactiveImageMeID s)
         [(''IsCommitted'', AvInt 0), (''IsActive'', AvInt 0), (''Version'', AvOctets [])] (ug_timeout env) False (up_CommChan s)
         (isExtendedOmci s)) s) (\<lambda>(r, s).
       case r of Inl e \<Rightarrow> Done (abort_async s) | Inr m \<Rightarrow> Done (s\<lparr>pLastTxMeInstance := Some (GetClassID m, GetEntityID m)\<rparr>))"

definition enterCheckImageName :: "upg_env \<Rightarrow> sw_upg \<Rightarrow> sw_upg run" where
  "enterCheckImageName = get_image"

definition enterActivateSw :: "upg_env \<Rightarrow> sw_upg \<Rightarrow> sw_upg run" where
  "enterActivateSw env s =
     bind_run (up_request env (\<lambda>c. SendActivateSoftware c (ug_timeout env) False (up_CommChan s) (InactiveImageMeID s) (isExtendedOmci s)) s)
       (\<lambda>(r, s). case r of
          Inl e \<Rightarrow> Done (abort_async s)
        | Inr x \<Rightarrow> Done (s\<lparr>upgradePhase := cUpgradeActivating, volthaImageState := ImageState_IMAGE_ACTIVATING\<rparr>))"

definition enterCommitSw :: "upg_env \<Rightarrow> sw_upg \<Rightarrow> sw_upg run" where
  "enterCommitSw env s =
     (if GetActiveImageMeID s = Inr (InactiveImageMeID s) then
        let s = s\<lparr>volthaImageState := ImageState_IMAGE_COMMITTING, upgradePhase := cUpgradeCommitting\<rparr> in
        bind_run (up_request env (\<lambda>c. SendCommitSoftware c (ug_timeout env) False (up_CommChan s) (InactiveImageMeID s) (isExtendedOmci s)) s)
          (\<lambda>(r, s). case r of Inl e \<Rightarrow> Done (abort_async s) | Inr x \<Rightarrow> Done s)
      else Done (up_go (UpgTask UpgradeEvAbort)
        (s\<lparr>conditionalCancelRequested := False, volthaDownloadReason := ImageState_CANCELLED_ON_ONU_STATE\<rparr>)))"

definition enterCheckCommitted :: "upg_env \<Rightarrow> sw_upg \<Rightarrow> sw_upg run" where
  "enterCheckCommitted = get_image"

definition downloading_aborted :: "sw_upg \<Rightarrow> sw_upg" where
  "downloading_aborted s =
     (let s = (if volthaDownloadReason s = ImageState_CANCELLED_ON_REQUEST
               then s\<lparr>volthaDownloadState := ImageState_DOWNLOAD_CANCELLED\<rparr>
               else if volthaDownloadReason s \<noteq> ImageState_NO_ERROR then s\<lparr>volthaDownloadState := ImageState_DOWNLOAD_FAILED\<rparr>
               else s)
      in s\<lparr>volthaImageState := ImageState_IMAGE_DOWNLOADING_ABORTED\<rparr>)"

definition stateUpdateOnReset :: "sw_upg \<Rightarrow> sw_upg" where
  "stateUpdateOnReset s =
     (if \<not> conditionalCancelRequested s then
        (case upgradePhase s of
           cUpgradeUndefined \<Rightarrow> downloading_aborted s
         | cUpgradeDownloading \<Rightarrow> downloading_aborted s
         | cUpgradeActivating \<Rightarrow> s\<lparr>volthaImageState := ImageState_IMAGE_ACTIVATION_ABORTED\<rparr>
         | cUpgradeCommitting \<Rightarrow> s\<lparr>volthaImageState := ImageState_IMAGE_COMMIT_ABORTED\<rparr>
         | _ \<Rightarrow> s)
      else s\<lparr>volthaDownloadState := ImageState_DOWNLOAD_FAILED, volthaDownloadReason := ImageState_CANCELLED_ON_ONU_STATE,
             volthaImageState := ImageState_IMAGE_DOWNLOADING_ABORTED\<rparr>)"


text \<open>The download of a cancelled image is aborted at the ONU first, with a delay when this is repeated.\<close>

definition upg_enterResetting :: "sw_upg \<Rightarrow> sw_upg" where
  "upg_enterResetting s =
     (let s = stateUpdateOnReset s;
          s = notify_dl_ready (s\<lparr>abortRequested := volthaDownloadReason s\<rparr>)
      in if isEndSwDlOpen s
         then up_go (UpgTask UpgradeEvAbortSwDownload)
           (if repeatAbort s then s\<lparr>delayEndSwDl := True\<rparr> else s\<lparr>delayEndSwDl := False, waitCountEndSwDl := cWaitCountEndSwDl\<rparr>)
         else up_go (UpgTask UpgradeEvRestart) s)"

definition enterAbortingDL :: "upg_env \<Rightarrow> sw_upg \<Rightarrow> sw_upg run" where
  "enterAbortingDL env s =
     bind_run (up_request env (\<lambda>c. SendEndSoftwareDownload c (ug_timeout env) False (up_CommChan s) (InactiveImageMeID s)
         0 0xFFFFFFFF (isExtendedOmci s)) s) (\<lambda>(r, s).
       case r of Inl e \<Rightarrow> Done (up_go (UpgTask UpgradeEvRestart) s) | Inr x \<Rightarrow> Done (s\<lparr>up_abortWaits := up_abortWaits s + 1\<rparr>))"

definition enterRestarting :: "sw_upg \<Rightarrow> sw_upg" where
  "enterRestarting s = up_go (UpgTask UpgradeEvDisable) (up_emit UpgAbortMessages s)"

definition upg_enterDisabled :: "sw_upg \<Rightarrow> sw_upg" where
  "upg_enterDisabled s =
     up_emit (RemoveOnuUpgradeFsm \<lparr> is_Version = imageVersion s, is_DownloadState = volthaDownloadState s,
       is_Reason = volthaDownloadReason s, is_ImageState = volthaImageState s \<rparr>) s"

definition upg_enter :: "upg_env \<Rightarrow> upg_state \<Rightarrow> sw_upg \<Rightarrow> sw_upg run" where
  "upg_enter env st s =
     (case st of
        UpgradeStStarting \<Rightarrow> Done (enterStarting s)
      | UpgradeStWaitingAdapterDL \<Rightarrow> Done (enterWaitingAdapterDL s)
      | UpgradeStPreparingDL \<Rightarrow> enterPreparingDL env s
      | UpgradeStDLSection \<Rightarrow> Done (enterDownloadSection s)
      | UpgradeStVerifyWindow \<Rightarrow> Done s
      | UpgradeStFinalizeDL \<Rightarrow> Done (enterFinalizeDL s)
      | UpgradeStWaitEndDL \<Rightarrow> Done (enterWaitEndDL s)
      | UpgradeStCheckImageName \<Rightarrow> enterCheckImageName env s
      | UpgradeStRequestingActivate \<Rightarrow> enterActivateSw env s
      | UpgradeStCommitSw \<Rightarrow> enterCommitSw env s
      | UpgradeStCheckCommitted \<Rightarrow> enterCheckCommitted env s
      | UpgradeStResetting \<Rightarrow> Done (upg_enterResetting s)
      | UpgradeStAbortingDL \<Rightarrow> enterAbortingDL env s
      | UpgradeStRestarting \<Rightarrow> Done (enterRestarting s)
      | UpgradeStDisabled \<Rightarrow> Done (upg_enterDisabled s)
      | UpgradeStWaitForActivate \<Rightarrow> Done s
      | UpgradeStActivated \<Rightarrow> Done s
      | UpgradeStWaitForCommit \<Rightarrow> Done s)"

definition upg_event :: "upg_env \<Rightarrow> upg_evt \<Rightarrow> sw_upg \<Rightarrow> sw_upg run" where
  "upg_event env ev s =
     bind_run (fsm_event upg_events up_fsm (\<lambda>st s. s\<lparr>up_fsm := st\<rparr>) (upg_enter env) ev s) (\<lambda>(e, s). Done s)"

text \<open>An event raised while the enter function waits blocks its goroutine; \<open>loop\<close> tells that this is the loop that
  reads the responses.\<close>

definition upg_call :: "upg_env \<Rightarrow> bool \<Rightarrow> upg_evt \<Rightarrow> sw_upg \<Rightarrow> sw_upg run" where
  "upg_call env loop ev s = (if up_waitEnd s then Done (s\<lparr>up_blocked := up_blocked s @ [(loop, ev)]\<rparr>) else upg_event env ev s)"

definition abortOnOmciError :: "upg_env \<Rightarrow> bool \<Rightarrow> bool \<Rightarrow> sw_upg \<Rightarrow> sw_upg run" where
  "abortOnOmciError env loop aAsync s =
     (if aAsync then Done (abort_async s) else upg_call env loop UpgradeEvAbort (omci_error s))"

subsection \<open>The interface of the device handler\<close>

definition SetDownloadParams :: "u16 \<Rightarrow> sw_upg \<Rightarrow> bool \<times> sw_upg" where
  "SetDownloadParams aInactiveImageID s =
     (if up_fsm s = UpgradeStStarting
      then (True, up_go (UpgTask UpgradeEvPrepareSwDownload)
        (s\<lparr>InactiveImageMeID := aInactiveImageID, activateImage := True, commitImage := True\<rparr>))
      else (False, s))"

definition SetDownloadParamsAfterDownload ::
    "upg_env \<Rightarrow> u16 \<Rightarrow> string \<Rightarrow> bool \<Rightarrow> bool \<Rightarrow> string \<Rightarrow> sw_upg \<Rightarrow> (bool \<times> sw_upg) run" where
  "SetDownloadParamsAfterDownload env aInactiveImageID version activateOnSuccess commitOnSuccess aImageIdentifier s =
     (if up_fsm s = UpgradeStStarting
      then bind_run (upg_call env False UpgradeEvAdapterDownload
          (s\<lparr>useAPIVersion43 := True, InactiveImageMeID := aInactiveImageID, imageIdentifier := aImageIdentifier,
             imageVersion := version, activateImage := activateOnSuccess, commitImage := commitOnSuccess,
             volthaDownloadState := ImageState_DOWNLOAD_STARTED\<rparr>)) (\<lambda>s. Done (True, s))
      else Done (False, s))"

definition SetActivationParamsRunning :: "upg_env \<Rightarrow> string \<Rightarrow> bool \<Rightarrow> sw_upg \<Rightarrow> (bool \<times> sw_upg) run" where
  "SetActivationParamsRunning env aImageIdentifier aCommit s =
     (if aImageIdentifier \<noteq> imageIdentifier s then Done (False, s)
      else
        let s = s\<lparr>activateImage := True, commitImage := aCommit\<rparr> in
        bind_run (if up_fsm s = UpgradeStWaitForActivate then upg_call env False UpgradeEvRequestActivate s else Done s)
          (\<lambda>s. Done (True, s)))"

definition SetActivationParamsStart :: "upg_env \<Rightarrow> string \<Rightarrow> u16 \<Rightarrow> bool \<Rightarrow> sw_upg \<Rightarrow> (bool \<times> sw_upg) run" where
  "SetActivationParamsStart env aImageVersion aInactiveImageID aCommit s =
     (if up_fsm s = UpgradeStStarting
      then bind_run (upg_call env False UpgradeEvRequestActivate
          (s\<lparr>useAPIVersion43 := True, InactiveImageMeID := aInactiveImageID, imageVersion := aImageVersion,
             activateImage := True, commitImage := aCommit, volthaImageState := ImageState_IMAGE_ACTIVATING\<rparr>)) (\<lambda>s. Done (True, s))
      else Done (False, s))"

definition SetCommitmentParamsRunning :: "upg_env \<Rightarrow> string \<Rightarrow> string \<Rightarrow> sw_upg \<Rightarrow> (bool \<times> sw_upg) run" where
  "SetCommitmentParamsRunning env aImageIdentifier aImageVersion s =
     (if aImageIdentifier \<noteq> imageIdentifier s \<and> aImageVersion \<noteq> imageVersion s then Done (False, s)
      else bind_run (upg_call env False UpgradeEvCommitSw (s\<lparr>commitImage := True\<rparr>)) (\<lambda>s. Done (True, s)))"

definition SetCommitmentParamsStart :: "upg_env \<Rightarrow> string \<Rightarrow> u16 \<Rightarrow> sw_upg \<Rightarrow> (bool \<times> sw_upg) run" where
  "SetCommitmentParamsStart env aImageVersion aActiveImageID s =
     (if up_fsm s = UpgradeStStarting
      then bind_run (upg_call env False UpgradeEvCommitSw
          (s\<lparr>useAPIVersion43 := True, InactiveImageMeID := aActiveImageID, imageVersion := aImageVersion, commitImage := True,
             volthaImageState := ImageState_IMAGE_COMMITTING\<rparr>)) (\<lambda>s. Done (True, s))
      else Done (False, s))"

definition GetCommitFlag :: "sw_upg \<Rightarrow> bool" where
  "GetCommitFlag s = commitImage s"

definition GetImageStates :: "string \<Rightarrow> string \<Rightarrow> sw_upg \<Rightarrow> ImageState" where
  "GetImageStates aImageIdentifier aVersion s =
     (if aImageIdentifier = imageIdentifier s \<or> aVersion = imageVersion s
      then \<lparr> is_Version = aVersion, is_DownloadState = volthaDownloadState s, is_Reason = volthaDownloadReason s,
             is_ImageState = volthaImageState s \<rparr>
      else \<lparr> is_Version = aVersion, is_DownloadState = ImageState_DOWNLOAD_UNKNOWN, is_Reason = ImageState_NO_ERROR,
             is_ImageState = ImageState_IMAGE_UNKNOWN \<rparr>)"

definition SetImageStateActive :: "sw_upg \<Rightarrow> sw_upg" where
  "SetImageStateActive s = s\<lparr>upgradePhase := cUpgradeActivated, volthaImageState := ImageState_IMAGE_ACTIVE\<rparr>"

text \<open>A cancellation ends the wait for the adapter's download and the delay before the end of the download, and leaves
  the rest to a goroutine.\<close>

definition upg_CancelProcessing :: "bool \<Rightarrow> ImageFailureReason \<Rightarrow> sw_upg \<Rightarrow> sw_upg" where
  "upg_CancelProcessing abCompleteAbort aReason s =
     (let s = s\<lparr>abortRequested := aReason\<rparr>;
          s = (if isWaitingForAdapterDlResponse s
               then up_emit (RemoveReadyRequest (imageIdentifier s)) (s\<lparr>isWaitingForAdapterDlResponse := False\<rparr>) else s)
      in up_go (UpgCancel abCompleteAbort aReason) (s\<lparr>up_tasks := remove1 DelayedEndSwDl (up_tasks s)\<rparr>))"

subsection \<open>Sending the sections\<close>

definition section_frame :: "send_ctx \<Rightarrow> u16 \<Rightarrow> u8 \<Rightarrow> bool \<Rightarrow> u16 \<Rightarrow> u8 \<Rightarrow> bytes \<Rightarrow> string + bytes" where
  "section_frame c t msgType extended meID no data =
     serialize_ext c msgType (DownloadSectionRequest (class_id Me_SoftwareImage) meID extended no data) t"

definition send_window :: "upg_env \<Rightarrow> OmciTransferStructure \<Rightarrow> sw_upg \<Rightarrow> sw_upg run" where
  "send_window env req s =
     (let c = ug_ctx env (up_sent s) in
      bind_run (SendOnuSwSectionsWindowWithRxSupervision (sc_env c) req (ug_timeout env) (up_CommChan s)
          fn_receiveOmciResponse (sc_ocs c) (up_cc s)) (\<lambda>(err, sr).
        let s = s\<lparr>up_cc := sup_state sr, up_sent := up_sent s + 1\<rparr> in
        if err = None then Done s else abortOnOmciError env False False s))"

lemma window_counts_down: "(n :: u8) \<noteq> limit \<Longrightarrow> unat (limit - (n + 1)) < unat (limit - n)"
  by (rule measure_unat [of "limit - n", simplified diff_diff_eq]) simp

text \<open>The loop over the sections of a window. It ends with the window counter reaching its limit at the latest.\<close>

function section_loop :: "upg_env \<Rightarrow> bytes list \<Rightarrow> sw_upg \<Rightarrow> sw_upg run" where
  "section_loop env msgs s =
     (if abortRequested s \<noteq> ImageState_NO_ERROR
      then upg_call env False UpgradeEvAbort (s\<lparr>volthaDownloadReason := abortRequested s\<rparr>)
      else
        let start = nextDownloadSectionsAbsolute s * word_of_int (omciDownloadSectionSize s);
            stop = start + word_of_int (omciDownloadSectionSize s) - 1;
            stop = (if isExtendedOmci s \<and> stop > origImageLength s - 1 then origImageLength s - 1 else stop) in
        if start + 1 > imageLength s \<or> stop + 1 > imageLength s
        then upg_call env False UpgradeEvAbort (s\<lparr>volthaDownloadReason := ImageState_UNKNOWN_ERROR\<rparr>)
        else if stop + 1 < start then slice_panic
        else
          let downloadSection = take (unat (stop + 1) - unat start) (drop (unat start) (imageBuffer s));
              final = nextDownloadSectionsAbsolute s + 1 \<ge> noOfSections s;
              ack = (if nextDownloadSectionsWindow s = omciDownloadWindowSizeLimit s \<or> final then 1 else 0);
              s = (if final then s\<lparr>omciDownloadWindowSizeLast := nextDownloadSectionsWindow s\<rparr> else s);
              ((err, req), msgs, cc) = PrepareOnuSectionsOfWindow (section_frame (ug_ctx env (up_sent s)))
                (InactiveImageMeID s) ack (nextDownloadSectionsWindow s) downloadSection msgs (isExtendedOmci s) (up_cc s);
              s = s\<lparr>up_cc := cc\<rparr> in
          if err \<noteq> None then abortOnOmciError env False False s
          else
            let s = s\<lparr>nextDownloadSectionsAbsolute := nextDownloadSectionsAbsolute s + 1\<rparr> in
            if ack = 1 then
              (if OnuSwWindow req = None then abortOnOmciError env False False s
               else bind_run (upg_call env False UpgradeEvWaitWindowAck s) (send_window env req))
            else section_loop env msgs (s\<lparr>nextDownloadSectionsWindow := nextDownloadSectionsWindow s + 1\<rparr>))"
  by pat_completeness auto

termination
  by (relation "measure (\<lambda>(env, msgs, s). unat (omciDownloadWindowSizeLimit s - nextDownloadSectionsWindow s))")
    (auto intro: window_counts_down split: if_splits)


declare section_loop.simps [simp del]

definition runSwDlSectionWindow :: "upg_env \<Rightarrow> sw_upg \<Rightarrow> sw_upg run" where
  "runSwDlSectionWindow env s =
     (let s = s\<lparr>upgradePhase := cUpgradeDownloading\<rparr>;
          s = (if nextDownloadSectionsAbsolute s = 0 then s\<lparr>volthaImageState := ImageState_IMAGE_DOWNLOADING\<rparr> else s)
      in section_loop env [] s)"

subsection \<open>The end of the download\<close>

definition send_end :: "upg_env \<Rightarrow> sw_upg \<Rightarrow> sw_upg run" where
  "send_end env s =
     bind_run (up_request env (\<lambda>c. SendEndSoftwareDownload c (ug_timeout env) False (up_CommChan s) (InactiveImageMeID s)
         (origImageLength s) (imageCRC s) (isExtendedOmci s)) s) (\<lambda>(r, s).
       case r of Inl e \<Rightarrow> Done (abort_async s) | Inr x \<Rightarrow> upg_call env False UpgradeEvWaitEndDownload (s\<lparr>isEndSwDlOpen := False\<rparr>))"

definition delayAndSendEndSwDl :: "upg_env \<Rightarrow> sw_upg \<Rightarrow> sw_upg run" where
  "delayAndSendEndSwDl env s = (if delayEndSwDl s then Done (up_go DelayedEndSwDl s) else send_end env s)"

text \<open>The wait in \<open>UpgradeStWaitEndDL\<close> ends: its time has passed, or a value arrives.\<close>

definition end_wait :: "bool option \<Rightarrow> sw_upg \<Rightarrow> sw_upg" where
  "end_wait r s =
     (let s = s\<lparr>up_waitEnd := False\<rparr> in
      case r of
        None \<Rightarrow> up_go (UpgTask UpgradeEvContinueFinalize) (s\<lparr>delayEndSwDl := False\<rparr>)
      | Some success \<Rightarrow>
          let s = s\<lparr>isEndSwDlOpen := False\<rparr> in
          if success
          then up_go (UpgTask (if useAPIVersion43 s then UpgradeEvCheckImageName
                 else if activateImage s then UpgradeEvRequestActivate else UpgradeEvWaitForActivate)) s
          else abort_async s)"

definition abortingDlEvaluateResponse :: "tEndSwDlResponseResult \<Rightarrow> sw_upg \<Rightarrow> bool \<times> sw_upg" where
  "abortingDlEvaluateResponse aResponseResult s =
     (case aResponseResult of
        cEndSwDlResponseBusy \<Rightarrow>
          if waitCountEndSwDl s = 0 then (True, up_go (UpgTask UpgradeEvRestart) s)
          else (True, up_go (UpgTask UpgradeEvReset) (s\<lparr>waitCountEndSwDl := waitCountEndSwDl s - 1, repeatAbort := True\<rparr>))
      | _ \<Rightarrow> (False, s))"

text \<open>The goroutine that waits for the response to the abort; without it the sender blocks.\<close>

definition abort_response :: "upg_env \<Rightarrow> tEndSwDlResponseResult \<Rightarrow> sw_upg \<Rightarrow> sw_upg run" where
  "abort_response env r s =
     (let (handled, s) = abortingDlEvaluateResponse r (s\<lparr>up_abortWaits := up_abortWaits s - 1\<rparr>) in
      if handled then Done s else upg_call env False UpgradeEvRestart s)"

definition send_abort_response :: "upg_env \<Rightarrow> tEndSwDlResponseResult \<Rightarrow> sw_upg \<Rightarrow> sw_upg run" where
  "send_abort_response env r s = (if up_abortWaits s = 0 then Done (s\<lparr>up_stuck := True\<rparr>) else abort_response env r s)"

subsection \<open>Responses\<close>

datatype upg_response =
    StartSoftwareDownloadResponse "(u8 \<times> u16 \<times> u8) layer"
  | DownloadSectionResponse "(u8 \<times> u16 \<times> u8) layer"
  | EndSoftwareDownloadResponse "(u8 \<times> u16) layer"
  | ActivateSoftwareResponse "(u8 \<times> u16) layer"
  | CommitSoftwareResponse "(u8 \<times> u16) layer"
  | SwGetResponse "get_response layer"
  | UpgOtherResponse

datatype upg_message = UpgAbortProcessing | UpgTestOther | UpgUnknownMessage | UpgChannelClosed | UpgOmci upg_response

text \<open>The ONU may ask for another window size; the number of windows is computed from it in eight bits.\<close>

definition handleRxStartSwDownloadResponse :: "upg_env \<Rightarrow> (u8 \<times> u16 \<times> u8) layer \<Rightarrow> sw_upg \<Rightarrow> sw_upg run" where
  "handleRxStartSwDownloadResponse env l s =
     (case l of
        Layer (result, instance, windowSize) \<Rightarrow>
          if result \<noteq> me_Success then abortOnOmciError env True False s
          else if instance = InactiveImageMeID s then
            let s = s\<lparr>omciDownloadWindowSizeLimit := windowSize\<rparr>;
                n = (ucast (omciDownloadWindowSizeLimit s + 1) :: u32) in
            if n = 0 then Fatal ''integer divide by zero''
            else
              let windows = noOfSections s div n;
                  windows = (if noOfSections s mod n > 0 then windows + 1 else windows) in
              upg_call env True UpgradeEvRxStartSwDownload
                (s\<lparr>noOfWindows := windows, nextDownloadSectionsAbsolute := 0, nextDownloadSectionsWindow := 0, nextDownloadWindow := 0\<rparr>)
          else abortOnOmciError env True False s
      | _ \<Rightarrow> abortOnOmciError env True False s)"

definition retrySoftwareDownload :: "upg_env \<Rightarrow> sw_upg \<Rightarrow> sw_upg run" where
  "retrySoftwareDownload env s =
     (if maxRetryAttemptsForDownloadWindow s > 0 then
        upg_call env True UpgradeEvContinueNextWindow
          (s\<lparr>maxRetryAttemptsForDownloadWindow := maxRetryAttemptsForDownloadWindow s - 1, nextDownloadSectionsWindow := 0,
             nextDownloadSectionsAbsolute := nextDownloadWindow s * ucast (omciDownloadWindowSizeLimit s + 1)\<rparr>)
      else abortOnOmciError env True False s)"

definition handleRxSwSectionResponse :: "upg_env \<Rightarrow> (u8 \<times> u16 \<times> u8) layer \<Rightarrow> sw_upg \<Rightarrow> sw_upg run" where
  "handleRxSwSectionResponse env l s =
     (if up_fsm s \<noteq> UpgradeStVerifyWindow then Done s
      else case l of
        Layer (result, instance, sectionNumber) \<Rightarrow>
          if result \<noteq> me_Success then
            (if result = me_ProcessingError then retrySoftwareDownload env s else abortOnOmciError env True False s)
          else if instance = InactiveImageMeID s then
            let s = s\<lparr>nextDownloadWindow := nextDownloadWindow s + 1\<rparr> in
            if nextDownloadWindow s \<ge> noOfWindows s then
              (if sectionNumber \<noteq> omciDownloadWindowSizeLast s then abortOnOmciError env True False s
               else upg_call env True UpgradeEvEndSwDownload
                 (s\<lparr>delayEndSwDl := True, imageCRC := image_crc (take (unat (origImageLength s)) (imageBuffer s))\<rparr>))
            else if sectionNumber \<noteq> omciDownloadWindowSizeLimit s then abortOnOmciError env True False s
            else upg_call env True UpgradeEvContinueNextWindow (s\<lparr>nextDownloadSectionsWindow := 0\<rparr>)
          else abortOnOmciError env True False s
      | _ \<Rightarrow> abortOnOmciError env True False s)"

definition handleRxEndSwDownloadResponse :: "upg_env \<Rightarrow> (u8 \<times> u16) layer \<Rightarrow> sw_upg \<Rightarrow> sw_upg run" where
  "handleRxEndSwDownloadResponse env l s =
     (let inAbortingState = up_fsm s = UpgradeStAbortingDL in
      case l of
        Layer (result, instance) \<Rightarrow>
          if result \<noteq> me_Success then
            (if result = me_DeviceBusy then
               (if inAbortingState then send_abort_response env cEndSwDlResponseBusy s else Done s)
             else if inAbortingState then send_abort_response env cEndSwDlResponseAbort s
             else upg_call env True UpgradeEvAbort
               (notify_dl_ready (s\<lparr>conditionalCancelRequested := False, volthaDownloadReason := ImageState_CANCELLED_ON_ONU_STATE\<rparr>)))
          else if instance = InactiveImageMeID s then
            (if inAbortingState then send_abort_response env cEndSwDlResponseSuccess s
             else
               let s = (if useAPIVersion43 s then s
                        else notify_dl_ready (s\<lparr>volthaDownloadState := ImageState_DOWNLOAD_SUCCEEDED,
                                               volthaImageState := ImageState_IMAGE_INACTIVE\<rparr>))
               in Done (if up_waitEnd s then end_wait (Some True) s else s))
          else Done s
      | _ \<Rightarrow> if inAbortingState then Done s else abortOnOmciError env True False s)"

definition verifyOnuSwStatusAfterDownload :: "upg_env \<Rightarrow> u16 \<Rightarrow> string \<Rightarrow> u8 \<Rightarrow> u8 \<Rightarrow> sw_upg \<Rightarrow> sw_upg run" where
  "verifyOnuSwStatusAfterDownload env aInstanceID aImageVersion aImageIsActive aImageIsCommitted s =
     (if aInstanceID = InactiveImageMeID s \<and> aImageIsActive = SwIsInactive \<and> aImageIsCommitted = SwIsUncommitted then
        (if aImageVersion \<noteq> imageVersion s then
           upg_call env True UpgradeEvAbort (notify_dl_ready (s\<lparr>volthaDownloadReason := ImageState_CANCELLED_ON_ONU_STATE\<rparr>))
         else
           let s = s\<lparr>upgradePhase := cUpgradeDownloaded, volthaDownloadState := ImageState_DOWNLOAD_SUCCEEDED,
                     volthaImageState := ImageState_IMAGE_INACTIVE\<rparr>;
               s = ModifySwImageInactiveVersion (imageVersion s) s in
           bind_run (upg_call env True (if activateImage s then UpgradeEvRequestActivate else UpgradeEvWaitForActivate) s)
             (\<lambda>s. Done (notify_dl_ready s)))
      else upg_call env True UpgradeEvAbort (s\<lparr>volthaDownloadReason := ImageState_CANCELLED_ON_ONU_STATE\<rparr>))"

text \<open>The attributes of an image: a missing version is an error, the other two default to zero.\<close>

definition image_attributes :: "upg_env \<Rightarrow> me_attributes \<Rightarrow> (u8 \<times> u8 \<times> string) option run" where
  "image_attributes env a =
     (case (map_of a ''IsCommitted'', map_of a ''IsActive'') of
        (Some c, Some act) \<Rightarrow>
          (case map_of a ''Version'' of
             None \<Rightarrow> Done None
           | Some v \<Rightarrow>
               (case (c, act) of
                  (AvUint8 c, AvUint8 act) \<Rightarrow>
                    Done (Some (c, act, go_string (TrimStringFromMeOctet
                      (\<lambda>v. case ug_octets env v of None \<Rightarrow> [] | Some b \<Rightarrow> b) v)))
                | _ \<Rightarrow> Fatal ''interface conversion''))
      | _ \<Rightarrow> Done (Some (0, 0, [])))"

definition check_committed :: "upg_env \<Rightarrow> u16 \<Rightarrow> string \<Rightarrow> u8 \<Rightarrow> u8 \<Rightarrow> sw_upg \<Rightarrow> sw_upg run" where
  "check_committed env instance version isActive isCommitted s =
     (let s = s\<lparr>conditionalCancelRequested := False\<rparr>;
          failed = s\<lparr>volthaDownloadReason := ImageState_CANCELLED_ON_ONU_STATE\<rparr> in
      if instance = InactiveImageMeID s \<and> isActive = SwIsActive \<and> \<not> (useAPIVersion43 s \<and> version \<noteq> imageVersion s)
         \<and> isCommitted = SwIsCommitted
      then upg_call env True UpgradeEvAbort
        (ModifySwImageActiveCommit isCommitted
          (s\<lparr>upgradePhase := cUpgradeCommitted, volthaImageState := ImageState_IMAGE_COMMITTED\<rparr>))
      else upg_call env True UpgradeEvAbort failed)"

definition handleRxSwGetResponse :: "upg_env \<Rightarrow> get_response layer \<Rightarrow> sw_upg \<Rightarrow> sw_upg run" where
  "handleRxSwGetResponse env l s =
     (case l of
        Layer m \<Rightarrow>
          if gr_class m \<noteq> class_id Me_SoftwareImage then abortOnOmciError env True False s
          else (case pLastTxMeInstance s of
            None \<Rightarrow> nil_deref
          | Some (cls, meID) \<Rightarrow>
              if gr_class m = cls \<and> gr_inst m = meID then
                (if gr_result m \<noteq> me_Success then abortOnOmciError env True False s
                 else bind_run (image_attributes env (gr_attributes m)) (\<lambda>attrs. case attrs of
                    None \<Rightarrow> abortOnOmciError env True False s
                  | Some (isCommitted, isActive, version) \<Rightarrow>
                      if up_fsm s = UpgradeStCheckImageName
                      then verifyOnuSwStatusAfterDownload env (gr_inst m) version isActive isCommitted s
                      else check_committed env (gr_inst m) version isActive isCommitted s))
              else Done s)
      | _ \<Rightarrow> abortOnOmciError env True False s)"

definition handleOmciOnuUpgradeMessage :: "upg_env \<Rightarrow> upg_response \<Rightarrow> sw_upg \<Rightarrow> sw_upg run" where
  "handleOmciOnuUpgradeMessage env r s =
     (case r of
        StartSoftwareDownloadResponse l \<Rightarrow> handleRxStartSwDownloadResponse env l s
      | DownloadSectionResponse l \<Rightarrow> handleRxSwSectionResponse env l s
      | EndSoftwareDownloadResponse l \<Rightarrow> handleRxEndSwDownloadResponse env l s
      | ActivateSoftwareResponse l \<Rightarrow>
          (case l of
             Layer (result, instance) \<Rightarrow>
               if result \<noteq> me_Success \<or> instance \<noteq> InactiveImageMeID s then abortOnOmciError env True False s
               else upg_call env True (if commitImage s then UpgradeEvWaitForCommit else UpgradeEvActivationDone) s
           | _ \<Rightarrow> abortOnOmciError env True False s)
      | CommitSoftwareResponse l \<Rightarrow>
          (case l of
             Layer (result, instance) \<Rightarrow>
               if result \<noteq> me_Success \<or> instance \<noteq> InactiveImageMeID s then abortOnOmciError env True False s
               else upg_call env True UpgradeEvCheckCommitted s
           | _ \<Rightarrow> abortOnOmciError env True False s)
      | SwGetResponse l \<Rightarrow> handleRxSwGetResponse env l s
      | UpgOtherResponse \<Rightarrow> Done s)"

definition processOmciUpgradeMessage :: "upg_env \<Rightarrow> upg_message \<Rightarrow> sw_upg \<Rightarrow> sw_upg run" where
  "processOmciUpgradeMessage env m s =
     (if \<not> up_loop s \<or> up_stuck s \<or> list_ex fst (up_blocked s) then Done s
      else case m of
        UpgAbortProcessing \<Rightarrow> Done (s\<lparr>up_loop := False\<rparr>)
      | UpgTestOther \<Rightarrow> Done s
      | UpgUnknownMessage \<Rightarrow> Done s
      | UpgChannelClosed \<Rightarrow> bind_run (abortOnOmciError env True True s) (\<lambda>s. Done (s\<lparr>up_loop := False\<rparr>))
      | UpgOmci r \<Rightarrow> handleOmciOnuUpgradeMessage env r s)"

subsection \<open>Goroutines\<close>

definition waitOnDownloadToAdapterReady :: "upg_env \<Rightarrow> bool option \<Rightarrow> sw_upg \<Rightarrow> sw_upg run" where
  "waitOnDownloadToAdapterReady env r s =
     (if \<not> isWaitingForAdapterDlResponse s then Done s
      else
        let s = s\<lparr>isWaitingForAdapterDlResponse := False\<rparr> in
        case r of
          None \<Rightarrow>
            upg_call env False UpgradeEvAbort
              (up_emit (CancelDownload (imageIdentifier s)) (up_emit (RemoveReadyRequest (imageIdentifier s))
                (s\<lparr>conditionalCancelRequested := False, volthaDownloadReason := ImageState_UNKNOWN_ERROR\<rparr>)))
        | Some True \<Rightarrow> upg_call env False UpgradeEvPrepareSwDownload s
        | Some False \<Rightarrow> Done (up_emit (RemoveReadyRequest (imageIdentifier s)) s))"

definition waitOnDownloadToOnuReady_timeout :: "upg_env \<Rightarrow> sw_upg \<Rightarrow> sw_upg run" where
  "waitOnDownloadToOnuReady_timeout env s =
     (if DlTimer \<in> set (up_receivers s)
      then abortOnOmciError env False False (s\<lparr>up_receivers := remove1 DlTimer (up_receivers s)\<rparr>) else Done s)"

definition waitOnAbortEndSwDlResponse_timeout :: "upg_env \<Rightarrow> sw_upg \<Rightarrow> sw_upg run" where
  "waitOnAbortEndSwDlResponse_timeout env s =
     (if up_abortWaits s = 0 then Done s else upg_call env False UpgradeEvRestart (s\<lparr>up_abortWaits := up_abortWaits s - 1\<rparr>))"

text \<open>The goroutine of a cancellation first ends a wait for a response, and blocks where nobody waits.\<close>

definition run_cancel :: "upg_env \<Rightarrow> bool \<Rightarrow> ImageFailureReason \<Rightarrow> sw_upg \<Rightarrow> sw_upg run" where
  "run_cancel env complete reason s =
     (if up_fsm s = UpgradeStWaitEndDL then
        Done (if up_waitEnd s then up_go (UpgCancelEvent complete reason) (end_wait (Some False) s)
              else up_go (UpgCancel complete reason) s)
      else if up_fsm s = UpgradeStAbortingDL then
        (if up_abortWaits s = 0 then Done (up_go (UpgCancel complete reason) s)
         else bind_run (abort_response env cEndSwDlResponseAbort s) (\<lambda>s. Done (up_go (UpgCancelEvent complete reason) s)))
      else Done (up_go (UpgCancelEvent complete reason) s))"

definition run_cancel_event :: "upg_env \<Rightarrow> bool \<Rightarrow> ImageFailureReason \<Rightarrow> sw_upg \<Rightarrow> sw_upg run" where
  "run_cancel_event env complete reason s =
     (if complete
      then upg_call env False UpgradeEvAbort (s\<lparr>conditionalCancelRequested := False, volthaDownloadReason := reason\<rparr>)
      else upg_call env False UpgradeEvReset (s\<lparr>conditionalCancelRequested := True\<rparr>))"

definition run_upg_task :: "upg_env \<Rightarrow> upg_task \<Rightarrow> sw_upg \<Rightarrow> sw_upg run" where
  "run_upg_task env t s =
     (case t of
        UpgTask ev \<Rightarrow> upg_call env False ev s
      | RunSwDlSectionWindow \<Rightarrow> runSwDlSectionWindow env s
      | DelayAndSendEndSwDl \<Rightarrow> delayAndSendEndSwDl env s
      | DelayedEndSwDl \<Rightarrow> send_end env s
      | UpgCancel complete reason \<Rightarrow> run_cancel env complete reason s
      | UpgCancelEvent complete reason \<Rightarrow> run_cancel_event env complete reason s)"

datatype upg_op = UpgRaise upg_evt | UpgReceive upg_message | UpgRunTask nat | UpgWaitExpires | UpgUnblock nat
  | UpgAdapterDl "bool option" | UpgDownloadTimeout | UpgAbortTimeout | UpgMonitor | UpgMonitorEnds
  | UpgParams u16 | UpgParamsAfter u16 string bool bool string | UpgActivateRunning string bool | UpgActivateStart string u16 bool
  | UpgCommitRunning string string | UpgCommitStart string u16 | UpgImageActive | UpgCancelRequest bool ImageFailureReason

text \<open>One step: a call of the device handler, a message, a goroutine or the end of a wait.\<close>

fun upg_step :: "upg_env \<times> upg_op \<Rightarrow> sw_upg \<Rightarrow> sw_upg run" where
  "upg_step (env, UpgRaise ev) s = upg_call env False ev s"
| "upg_step (env, UpgReceive m) s = processOmciUpgradeMessage env m s"
| "upg_step (env, UpgRunTask n) s =
     (if n < length (up_tasks s)
      then run_upg_task env (up_tasks s ! n) (s\<lparr>up_tasks := take n (up_tasks s) @ drop (Suc n) (up_tasks s)\<rparr>) else Done s)"
| "upg_step (env, UpgWaitExpires) s = Done (if up_waitEnd s then end_wait None s else s)"
| "upg_step (env, UpgUnblock n) s =
     (if up_waitEnd s \<or> length (up_blocked s) \<le> n then Done s
      else upg_event env (snd (up_blocked s ! n)) (s\<lparr>up_blocked := take n (up_blocked s) @ drop (Suc n) (up_blocked s)\<rparr>))"
| "upg_step (env, UpgAdapterDl r) s = waitOnDownloadToAdapterReady env r s"
| "upg_step (env, UpgDownloadTimeout) s = waitOnDownloadToOnuReady_timeout env s"
| "upg_step (env, UpgAbortTimeout) s = waitOnAbortEndSwDlResponse_timeout env s"
| "upg_step (env, UpgMonitor) s = Done (s\<lparr>up_receivers := up_receivers s @ [DlMonitor]\<rparr>)"
| "upg_step (env, UpgMonitorEnds) s = Done (s\<lparr>up_receivers := remove1 DlMonitor (up_receivers s)\<rparr>)"
| "upg_step (env, UpgParams i) s = Done (snd (SetDownloadParams i s))"
| "upg_step (env, UpgParamsAfter i v a c name) s = bind_run (SetDownloadParamsAfterDownload env i v a c name s) (\<lambda>(ok, s). Done s)"
| "upg_step (env, UpgActivateRunning name c) s = bind_run (SetActivationParamsRunning env name c s) (\<lambda>(ok, s). Done s)"
| "upg_step (env, UpgActivateStart v i c) s = bind_run (SetActivationParamsStart env v i c s) (\<lambda>(ok, s). Done s)"
| "upg_step (env, UpgCommitRunning name v) s = bind_run (SetCommitmentParamsRunning env name v s) (\<lambda>(ok, s). Done s)"
| "upg_step (env, UpgCommitStart v i) s = bind_run (SetCommitmentParamsStart env v i s) (\<lambda>(ok, s). Done s)"
| "upg_step (env, UpgImageActive) s = Done (SetImageStateActive s)"
| "upg_step (env, UpgCancelRequest complete reason) s = Done (upg_CancelProcessing complete reason s)"

end
