(* ===== verification/Upg_Props.thy ===== *)
theory Upg_Props
  imports Sw_Upg Omci_Req
begin

text \<open>
  What the upgrade of an ONU achieves: the sections that are sent make up the image, window by window, with repeated
  windows where the ONU reports an error.
\<close>

subsection \<open>The image and its sections\<close>

definition section_size :: "bool \<Rightarrow> nat" where
  "section_size extended = (if extended then 1965 else 31)"

definition section_count :: "bool \<Rightarrow> bytes \<Rightarrow> nat" where
  "section_count extended img = (length img + section_size extended - 1) div section_size extended"

definition padded :: "bool \<Rightarrow> bytes \<Rightarrow> bytes" where
  "padded extended img =
     (if extended then img else img @ replicate (section_count extended img * section_size extended - length img) 0)"

definition image_section :: "bool \<Rightarrow> bytes \<Rightarrow> nat \<Rightarrow> bytes" where
  "image_section extended img i = take (section_size extended) (drop (i * section_size extended) (padded extended img))"

definition window_count :: "bool \<Rightarrow> bytes \<Rightarrow> u8 \<Rightarrow> nat" where
  "window_count extended img w = (section_count extended img + unat w) div (unat w + 1)"

lemma section_size_pos [simp]: "0 < section_size e" "section_size e \<noteq> 0" "Suc 0 \<le> section_size e"
  by (simp_all add: section_size_def)

lemma count_bounds:
  "length img \<le> section_count e img * section_size e" "section_count e img * section_size e < length img + section_size e"
proof -
  let ?z = "section_size e" let ?x = "length img + ?z - 1"
  have "?x = ?x div ?z * ?z + ?x mod ?z" "?x mod ?z < ?z" by (simp_all only: div_mult_mod_eq mod_less_divisor section_size_pos)
  moreover have "0 < ?z" by simp
  ultimately show "length img \<le> section_count e img * ?z" "section_count e img * ?z < length img + ?z"
    unfolding section_count_def by linarith+
qed

lemma length_padded: "length (padded e img) = (if e then length img else section_count e img * section_size e)"
  using count_bounds(1) [of img e] by (cases e) (simp_all add: padded_def)

lemma concat_chunks: "concat (map (\<lambda>i. take z (drop (i * z) xs)) [0..<n]) = take (n * z) xs"
proof (induction n)
  case (Suc n)
  then show ?case by (simp add: take_add [symmetric] add.commute)
qed simp

text \<open>The sections in their order are the image, padded with zeros in the baseline message set.\<close>

lemma sections_concat: "concat (map (image_section e img) [0..<section_count e img]) = padded e img"
  using concat_chunks [of "section_size e" "padded e img" "section_count e img"] count_bounds(1) [of img e]
  by (cases e) (simp_all add: image_section_def [abs_def] length_padded)

subsection \<open>Loading the image\<close>

definition loaded :: "bytes \<Rightarrow> sw_upg \<Rightarrow> bool" where
  "loaded img s \<longleftrightarrow>
     (let e = isExtendedOmci s in
      img \<noteq> [] \<and> length img + 1965 < 2 ^ 32 \<and> omciDownloadSectionSize s = int (section_size e) \<and>
      imageBuffer s = padded e img \<and> noOfSections s = of_nat (section_count e img) \<and>
      origImageLength s = of_nat (length img) \<and> imageLength s = of_nat (length (padded e img)))"

lemma div_mod_cases:
  fixes n z :: nat
  assumes "0 < z"
  obtains q r where "n div z = q" "n mod z = r" "n = q * z + r" "r < z"
  using div_mult_mod_eq [of n z] mod_less_divisor [OF assms, of n] by metis

lemma ceiling_div:
  assumes "0 < z"
  shows "(n + z - 1) div z = n div z + (if n mod z = 0 then 0 else 1 :: nat)"
proof -
  obtain q r where q: "n div z = q" "n mod z = r" "n = q * z + r" "r < z" using div_mod_cases [OF assms] .
  have "(q * z + r + z - 1) div z = q + (if r = 0 then 0 else 1)"
    using q(4) by (intro div_nat_eqI) (auto simp: algebra_simps)
  then show ?thesis by (simp only: q(1,2) flip: q(3))
qed

lemma section_count_div:
  "section_count e img = length img div section_size e + (if length img mod section_size e = 0 then 0 else 1)"
  unfolding section_count_def by (rule ceiling_div) simp

lemma padding_length:
  "section_count e img * section_size e - length img =
     (if length img mod section_size e = 0 then 0 else section_size e - length img mod section_size e)"
proof -
  obtain q r where q: "length img div section_size e = q" "length img mod section_size e = r"
    "length img = q * section_size e + r" "r < section_size e"
    using div_mod_cases [OF section_size_pos(1)] .
  then show ?thesis by (simp add: section_count_div)
qed

lemma load_image_loaded:
  assumes "omciDownloadSectionSize s = int (section_size (isExtendedOmci s))" "img \<noteq> []" "length img + 1965 < 2 ^ 32"
  shows "loaded img (load_image (int (length img)) img s)"
proof -
  define z where "z = section_size (isExtendedOmci s)"
  obtain q r where q: "length img div z = q" "length img mod z = r" "length img = q * z + r" "r < z"
    using div_mod_cases [of z "length img"] by (auto simp: z_def)
  have sz: "omciDownloadSectionSize s = int z" using assms(1) by (simp add: z_def)
  have d: "int (length img) div int z = int q" "int (length img) mod int z = int r"
    using q(1,2) by (simp_all add: zdiv_int [symmetric] zmod_int [symmetric])
  have p: "nat (int z - int r) = z - r" by linarith
  have c: "section_count (isExtendedOmci s) img = q + (if r = 0 then 0 else 1)"
    using q(1,2) by (simp add: section_count_div z_def)
  have l: "section_count (isExtendedOmci s) img * section_size (isExtendedOmci s) - length img = (if r = 0 then 0 else z - r)"
    using q(2) by (simp add: padding_length z_def)
  have "imageBuffer (load_image (int (length img)) img s) = padded (isExtendedOmci s) img"
    using l by (cases "isExtendedOmci s") (simp_all add: load_image_def Let_def sz d p padded_def)
  moreover have "noOfSections (load_image (int (length img)) img s) = of_nat (section_count (isExtendedOmci s) img)"
    "imageLength (load_image (int (length img)) img s) = of_nat (length (imageBuffer (load_image (int (length img)) img s)))"
    "isExtendedOmci (load_image (int (length img)) img s) = isExtendedOmci s"
    "omciDownloadSectionSize (load_image (int (length img)) img s) = int z"
    "origImageLength (load_image (int (length img)) img s) = of_nat (length img)"
    by (simp_all add: load_image_def Let_def sz d c)
  ultimately show ?thesis using assms(2,3) by (simp add: loaded_def z_def)
qed

lemma loaded_bounds:
  assumes "loaded img s"
  shows "0 < section_count (isExtendedOmci s) img" "length (padded (isExtendedOmci s) img) < 2 ^ 32"
    "section_count (isExtendedOmci s) img \<le> length (padded (isExtendedOmci s) img)"
    "section_count (isExtendedOmci s) img * section_size (isExtendedOmci s) < 2 ^ 32"
proof -
  let ?e = "isExtendedOmci s"
  have i: "img \<noteq> []" "length img + 1965 < 2 ^ 32" using assms by (simp_all add: loaded_def Let_def)
  note b = count_bounds [where img = img and e = ?e]
  show n: "0 < section_count ?e img"
  proof (rule ccontr)
    assume "\<not> 0 < section_count ?e img"
    with b(1) i(1) show False by simp
  qed
  have z: "section_size ?e \<le> 1965" by (simp add: section_size_def)
  then show u: "section_count ?e img * section_size ?e < 2 ^ 32" using b(2) i(2) by linarith
  show "length (padded ?e img) < 2 ^ 32" using u i(2) by (cases ?e) (simp_all add: length_padded)
  have "section_count ?e img \<le> length img"
  proof -
    obtain q r where q: "length img div section_size ?e = q" "length img mod section_size ?e = r"
      "length img = q * section_size ?e + r" using div_mod_cases [OF section_size_pos(1)] .
    have "q \<le> q * section_size ?e" by (simp add: section_size_def)
    moreover have "section_count ?e img \<le> q + r" using q(1,2) by (simp add: section_count_div)
    ultimately show ?thesis using q(3) by linarith
  qed
  moreover have "section_count ?e img \<le> section_count ?e img * section_size ?e" by simp
  ultimately show "section_count ?e img \<le> length (padded ?e img)" by (cases ?e) (simp_all add: length_padded)
qed


subsection \<open>One section\<close>

definition section_start :: "sw_upg \<Rightarrow> u32" where
  "section_start s = nextDownloadSectionsAbsolute s * word_of_int (omciDownloadSectionSize s)"

definition section_stop :: "sw_upg \<Rightarrow> u32" where
  "section_stop s =
     (let stop = section_start s + word_of_int (omciDownloadSectionSize s) - 1 in
      if isExtendedOmci s \<and> stop > origImageLength s - 1 then origImageLength s - 1 else stop)"

lemma of_nat_less [simp]: "m < 2 ^ 32 \<Longrightarrow> n < 2 ^ 32 \<Longrightarrow> (of_nat m :: u32) < of_nat n \<longleftrightarrow> m < n"
  by (simp add: word_less_nat_alt unat_of_nat)

lemma unat_small: "n < 2 ^ 32 \<Longrightarrow> unat (of_nat n :: u32) = n"
  by (simp add: unat_of_nat)

lemma Suc_min_pred: "0 < x \<Longrightarrow> 0 < l \<Longrightarrow> Suc (min (x - 1) (l - 1)) = min x l"
  by (auto simp: min_def)

lemma section_bounds:
  assumes "loaded img s" "nextDownloadSectionsAbsolute s = of_nat a" "a < section_count (isExtendedOmci s) img"
  shows "section_start s = of_nat (a * section_size (isExtendedOmci s))"
    "section_stop s + 1 = of_nat (min ((a + 1) * section_size (isExtendedOmci s)) (length (padded (isExtendedOmci s) img)))"
    "a * section_size (isExtendedOmci s) < length (padded (isExtendedOmci s) img)"
proof -
  define e where "e = isExtendedOmci s"
  define z where "z = section_size e"
  define n where "n = section_count e img"
  define l where "l = length (padded e img)"
  have s: "omciDownloadSectionSize s = int z" "origImageLength s = of_nat (length img)"
    using assms(1) by (simp_all add: loaded_def Let_def z_def e_def)
  have b: "n * z < 2 ^ 32" "l < 2 ^ 32" "n * z < length img + z" "length img \<le> n * z" "0 < z"
    using loaded_bounds [OF assms(1)] count_bounds [where img = img and e = e] by (simp_all add: n_def z_def e_def l_def)
  have l: "l = (if e then length img else n * z)" by (simp add: l_def length_padded n_def z_def)
  have an: "a < n" using assms(3) by (simp add: n_def e_def)
  have "(a + 1) * z \<le> n * z" using assms(3) by (intro mult_le_mono1) (simp add: n_def e_def)
  then have a: "a * z + z \<le> n * z" by simp
  show st: "section_start s = of_nat (a * section_size (isExtendedOmci s))"
    by (simp add: section_start_def assms(2) s z_def e_def)
  show lt: "a * section_size (isExtendedOmci s) < length (padded (isExtendedOmci s) img)"
    using a b l an unfolding l_def [symmetric] z_def [symmetric] e_def [symmetric] by (cases e) simp_all
  have stop: "section_start s + word_of_int (omciDownloadSectionSize s) - 1 = of_nat (a * z + z - 1)"
    using b(5) by (simp add: st s z_def [symmetric] e_def [symmetric] of_nat_diff)
  show "section_stop s + 1 = of_nat (min ((a + 1) * section_size (isExtendedOmci s)) (length (padded (isExtendedOmci s) img)))"
  proof (cases e)
    case False
    then show ?thesis
      using a l b(5) unfolding section_stop_def stop Let_def l_def [symmetric] z_def [symmetric] e_def [symmetric]
      by (simp add: of_nat_diff min_def)
  next
    case True
    then have ll: "l = length img" "0 < l" using l lt by (auto simp: l_def e_def)
    have "Suc 0 \<le> length img" using ll by (simp add: Suc_le_eq)
    then have o: "origImageLength s - 1 = of_nat (l - 1)" unfolding s ll by (simp only: of_nat_diff) simp
    have cmp: "origImageLength s - 1 < of_nat (a * z + z - 1) \<longleftrightarrow> l - 1 < a * z + z - 1"
      unfolding o using a b(1,2) by (intro of_nat_less) auto
    have "section_stop s = of_nat (min (a * z + z - 1) (l - 1))"
    proof (cases "l - 1 < a * z + z - 1")
      case T: True
      then have "origImageLength s - 1 < of_nat (a * z + z - 1)" using cmp by blast
      with True T show ?thesis unfolding section_stop_def stop Let_def e_def [symmetric] by (simp only: o if_True simp_thms min_def) simp
    next
      case F: False
      then have "\<not> origImageLength s - 1 < of_nat (a * z + z - 1)" using cmp by blast
      with F show ?thesis unfolding section_stop_def stop Let_def by (simp only: simp_thms if_False min_def) simp
    qed
    then have "section_stop s + 1 = of_nat (Suc (min (a * z + z - 1) (l - 1)))" by (simp only: of_nat_Suc add.commute)
    moreover have "Suc (min (a * z + z - 1) (l - 1)) = min ((a + 1) * z) l"
      using b(5) ll(2) Suc_min_pred [of "a * z + z" l] by (simp add: add.commute)
    ultimately show ?thesis unfolding l_def z_def e_def by (simp only:)
  qed
qed

lemma section_slice:
  assumes "loaded img s" "nextDownloadSectionsAbsolute s = of_nat a" "a < section_count (isExtendedOmci s) img"
  shows "\<not> section_start s + 1 > imageLength s" "\<not> section_stop s + 1 > imageLength s" "\<not> section_stop s + 1 < section_start s"
    "take (unat (section_stop s + 1) - unat (section_start s)) (drop (unat (section_start s)) (imageBuffer s)) =
       image_section (isExtendedOmci s) img a"
proof -
  define e where "e = isExtendedOmci s"
  define z where "z = section_size e"
  define l where "l = length (padded e img)"
  have sb: "section_start s = of_nat (a * z)" "section_stop s + 1 = of_nat (min ((a + 1) * z) l)" "a * z < l"
    using section_bounds [OF assms] by (simp_all add: e_def z_def l_def)
  have f: "imageLength s = of_nat l" "imageBuffer s = padded e img" "l < 2 ^ 32"
    using assms(1) loaded_bounds(2) [OF assms(1)] by (simp_all add: loaded_def Let_def l_def e_def)
  have u: "unat (section_start s) = a * z" "unat (section_stop s + 1) = min ((a + 1) * z) l"
    unfolding sb(1,2) using sb(3) f(3) by (simp_all add: unat_small del: of_nat_mult)
  have "section_start s + 1 = of_nat (a * z + 1)" by (simp add: sb)
  then show "\<not> section_start s + 1 > imageLength s" unfolding f(1) using sb(3) f(3) by (simp del: of_nat_add of_nat_mult of_nat_Suc)
  show "\<not> section_stop s + 1 > imageLength s" unfolding f(1) sb(2) using f(3) by (simp del: of_nat_add of_nat_mult)
  show "\<not> section_stop s + 1 < section_start s"
    unfolding sb(1,2) using sb(3) f(3) by (simp del: of_nat_add of_nat_mult) 
  have "take (min ((a + 1) * z) l - a * z) (drop (a * z) (padded e img)) = take z (drop (a * z) (padded e img))"
    using sb(3) by (simp add: l_def min_def)
  then show "take (unat (section_stop s + 1) - unat (section_start s)) (drop (unat (section_start s)) (imageBuffer s)) =
       image_section (isExtendedOmci s) img a"
    by (simp only: u f(2)) (simp add: image_section_def z_def e_def)
qed

end
