(* ===== verification/Upg_Send.thy ===== *)
theory Upg_Send
  imports Upg_Props
begin

text \<open>
  The transfer of an image on a calm channel, window by window, to the request that ends the download: a processing
  error repeats the window, the fourth one and any other error abort the download.
\<close>

subsection \<open>One window on the channel\<close>

lemma window_sent:
  assumes "calm c timeout" "idle oo" "OnuSwWindow req = Some w" "w \<noteq> []" "3 < length (last w)"
  shows "\<exists>oo'. SendOnuSwSectionsWindowWithRxSupervision (sc_env c) req timeout ch fn (sc_ocs c) oo = Done (None, WaitingIn oo') \<and>
    idle oo' \<and> tid oo' = tid oo \<and> cc_out oo' = cc_out oo @ [TxWindow w]"
proof -
  let ?t = "GetOnuSwSecLastTid oo"
  let ?pair = "\<lparr> CbEntry = \<lparr> CbRespChannel = ch, CbFunction = Some fn, FramePrint = True \<rparr>, CbKey = ?t \<rparr>"
  let ?req = "req\<lparr>cbPair := ?pair, chSuccess := nextChan oo, ots_timeout := timeout, ots_retries := CDefaultRetries\<rparr>"
  let ?o = "oo\<lparr>rxSchedulerMap := (rxSchedulerMap oo)(?t \<mapsto> CbEntry ?pair), nextChan := nextChan oo + 1,
    monitoredRequests := AList.update ?t ?req (monitoredRequests oo)\<rparr>"
  let ?r = "registered ?req (?o\<lparr>lowPrioTxQueue := [?req]\<rparr>)"
  from assms(2) obtain dh where dh: "pBaseDeviceHandler oo = Some dh" "\<not> deletionInProgress dh"
    and q: "lowPrioTxQueue oo = []" "highPrioTxQueue oo = []" "\<not> mutexLowPrioTxQueue oo" "\<not> mutexRxSchedMap oo"
    by (auto simp: idle_def split: option.splits)
  have prem: "arrivals_plain (sc_env c)" "list_all plain (highPrioTxQueue ?r)" "list_all sendable (lowPrioTxQueue ?r)"
    "pBaseDeviceHandler ?r = Some dh" "\<not> mutexLowPrioTxQueue ?r" "quiet (sc_env c)"
    using assms(1,3-5) dh q by (simp_all add: arrivals_plain_def calm_def sendable_def registered_def)
  obtain oo' k where s: "sendQueuedRequests (sc_env c) ?r = Done oo'"
    "sent (map frame_effect (highPrioTxQueue ?r) @ low_trace (sc_env c) (txAttempts ?r + length (highPrioTxQueue ?r)) (lowPrioTxQueue ?r)) k
       (?r\<lparr>highPrioTxQueue := [], mutexLowPrioTxQueue := False, lowPrioTxQueue := []\<rparr>) oo'"
    using sendQueuedRequests_quiet [OF prem(6,1,2,3,4) dh(2) prem(5)] by blast
  have push: "pushLow ?req ?o = Done (?o\<lparr>lowPrioTxQueue := [?req]\<rparr>)"
    using q by (simp add: pushLow_def lockLow_def unlockLow_def)
  have reg: "setRxSched (CbKey (cbPair ?req)) (Some (CbEntry (cbPair ?req))) (?o\<lparr>lowPrioTxQueue := [?req]\<rparr>) = Done ?r"
    using q by (simp add: setRxSched_free registered_def)
  have "ots_retries ?req < 0 \<longleftrightarrow> False" by (simp add: CDefaultRetries_def)
  then have loop: "window_loop (sc_env c) ?req (sc_ocs c) 0 ?o = Done (None, WaitingIn oo')"
    using assms(1) by (simp only: calm_def window_loop.simps push reg s(1) bind_run.simps if_False)
  have "timeout \<noteq> 0" using assms(1) by (simp add: calm_def)
  then have "SendOnuSwSectionsWindowWithRxSupervision (sc_env c) req timeout ch fn (sc_ocs c) oo = Done (None, WaitingIn oo')"
    using loop by (simp add: SendOnuSwSectionsWindowWithRxSupervision_def setRxSched_free q Let_def assms(3))
  moreover have "cc_out oo' = cc_out oo @ [TxWindow w]" "idle oo'" "tid oo' = tid oo"
    using sent_fields [OF s(2)] assms(1,3) q dh by (simp_all add: registered_def calm_def tx_effect_def idle_def)
  ultimately show ?thesis by blast
qed


subsection \<open>The sections of a window\<close>

definition is_section_frame :: "send_ctx \<Rightarrow> bool \<Rightarrow> bytes \<Rightarrow> u16 \<Rightarrow> u8 \<Rightarrow> nat \<Rightarrow> bytes \<Rightarrow> bool" where
  "is_section_frame c e img m w i f \<longleftrightarrow>
     (\<exists>t. section_frame c t
        (if i mod (unat w + 1) = unat w \<or> i + 1 = section_count e img then DownloadSectionRequestWithResponseType
         else DownloadSectionRequestType) e m (of_nat (i mod (unat w + 1))) (image_section e img i) = Inr f)"

definition window_end :: "bool \<Rightarrow> bytes \<Rightarrow> u8 \<Rightarrow> nat \<Rightarrow> nat" where
  "window_end e img w j = min ((j + 1) * (unat w + 1)) (section_count e img)"

definition window_frames :: "send_ctx \<Rightarrow> bool \<Rightarrow> bytes \<Rightarrow> u16 \<Rightarrow> u8 \<Rightarrow> nat \<Rightarrow> bytes list \<Rightarrow> bool" where
  "window_frames c e img m w j fs \<longleftrightarrow> list_all2 (is_section_frame c e img m w) [j * (unat w + 1)..<window_end e img w j] fs"

definition transferring :: "bool \<Rightarrow> bytes \<Rightarrow> u16 \<Rightarrow> u8 \<Rightarrow> sw_upg \<Rightarrow> bool" where
  "transferring e img m w s \<longleftrightarrow>
     loaded img s \<and> isExtendedOmci s = e \<and> InactiveImageMeID s = m \<and> omciDownloadWindowSizeLimit s = w \<and>
     abortRequested s = ImageState_NO_ERROR \<and> idle (up_cc s) \<and> noOfWindows s = of_nat (window_count e img w) \<and>
     up_loop s \<and> \<not> up_stuck s \<and> up_blocked s = [] \<and> \<not> up_waitEnd s"

definition calm_up :: "upg_env \<Rightarrow> send_ctx \<Rightarrow> bool" where
  "calm_up env c \<longleftrightarrow> (\<forall>n. ug_ctx env n = c) \<and> calm c (ug_timeout env)"

lemma transferring_updates:
  "transferring e img m w (s\<lparr>omciDownloadWindowSizeLast := x1\<rparr>) = transferring e img m w s"
  "transferring e img m w (s\<lparr>nextDownloadSectionsAbsolute := x2\<rparr>) = transferring e img m w s"
  "transferring e img m w (s\<lparr>nextDownloadSectionsWindow := x3\<rparr>) = transferring e img m w s"
  "transferring e img m w (s\<lparr>nextDownloadWindow := x4\<rparr>) = transferring e img m w s"
  "transferring e img m w (s\<lparr>maxRetryAttemptsForDownloadWindow := x3\<rparr>) = transferring e img m w s"
  "transferring e img m w (s\<lparr>up_fsm := x5\<rparr>) = transferring e img m w s"
  "transferring e img m w (s\<lparr>up_tasks := x6\<rparr>) = transferring e img m w s"
  "transferring e img m w (s\<lparr>up_sent := x7\<rparr>) = transferring e img m w s"
  "transferring e img m w (s\<lparr>upgradePhase := x8\<rparr>) = transferring e img m w s"
  "transferring e img m w (s\<lparr>volthaImageState := x9\<rparr>) = transferring e img m w s"
  "transferring e img m w (s\<lparr>delayEndSwDl := x10\<rparr>) = transferring e img m w s"
  "transferring e img m w (s\<lparr>imageCRC := x11\<rparr>) = transferring e img m w s"
  "transferring e img m w s \<Longrightarrow> idle cc \<Longrightarrow> transferring e img m w (s\<lparr>up_cc := cc\<rparr>)"
  by (simp_all add: transferring_def loaded_def Let_def)

lemma section_loop_unfold:
  "section_loop env msgs s =
     (if abortRequested s \<noteq> ImageState_NO_ERROR
      then upg_call env False UpgradeEvAbort (s\<lparr>volthaDownloadReason := abortRequested s\<rparr>)
      else if section_start s + 1 > imageLength s \<or> section_stop s + 1 > imageLength s
        then upg_call env False UpgradeEvAbort (s\<lparr>volthaDownloadReason := ImageState_UNKNOWN_ERROR\<rparr>)
        else if section_stop s + 1 < section_start s then slice_panic
        else
          let downloadSection = take (unat (section_stop s + 1) - unat (section_start s)) (drop (unat (section_start s)) (imageBuffer s));
              final = nextDownloadSectionsAbsolute s + 1 \<ge> noOfSections s;
              ack = (if nextDownloadSectionsWindow s = omciDownloadWindowSizeLimit s \<or> final then 1 else 0);
              s = (if final then s\<lparr>omciDownloadWindowSizeLast := nextDownloadSectionsWindow s\<rparr> else s);
              ((err, req), msgs, cc) = PrepareOnuSectionsOfWindow (section_frame (ug_ctx env (up_sent s)))
                (InactiveImageMeID s) ack (nextDownloadSectionsWindow s) downloadSection msgs (isExtendedOmci s) (up_cc s);
              s = s\<lparr>up_cc := cc\<rparr> in
          if err \<noteq> None then abortOnOmciError env False False s
          else
            let s = s\<lparr>nextDownloadSectionsAbsolute := nextDownloadSectionsAbsolute s + 1\<rparr> in
            if ack = 1 then
              (if OnuSwWindow req = None then abortOnOmciError env False False s
               else bind_run (upg_call env False UpgradeEvWaitWindowAck s) (send_window env req))
            else section_loop env msgs (s\<lparr>nextDownloadSectionsWindow := nextDownloadSectionsWindow s + 1\<rparr>))"
  unfolding section_loop.simps [of env msgs s] by (simp only: section_start_def section_stop_def Let_def)

definition next_tid_cc :: "sw_upg \<Rightarrow> OmciCC" where
  "next_tid_cc s = snd (GetOnuSwSecNextTid (up_cc s))"

lemma idle_next_tid: "idle (next_tid_cc s) = idle (up_cc s)" "cc_out (next_tid_cc s) = cc_out (up_cc s)"
  by (simp_all add: next_tid_cc_def GetOnuSwSecNextTid_def idle_def Let_def)

lemma section_step:
  fixes s :: sw_upg
  defines "e \<equiv> isExtendedOmci s"
  assumes "calm_up env c" "transferring e img m w s" "nextDownloadSectionsAbsolute s = of_nat (st + b)"
    "nextDownloadSectionsWindow s = of_nat b" "b \<le> unat w" "st mod (unat w + 1) = 0" "st + b < section_count e img"
  defines "lst \<equiv> b = unat w \<or> st + b + 1 = section_count e img"
  defines "s1 \<equiv> (if st + b + 1 = section_count e img then s\<lparr>omciDownloadWindowSizeLast := of_nat b\<rparr> else s)
    \<lparr>up_cc := next_tid_cc s, nextDownloadSectionsAbsolute := of_nat (st + b + 1)\<rparr>"
  shows "\<exists>f. is_section_frame c e img m w (st + b) f \<and> 3 < length f \<and>
    section_loop env msgs s =
      (if lst
       then bind_run (upg_event env UpgradeEvWaitWindowAck s1)
         (send_window env (zero_ots\<lparr>withFramePrint := True, OnuSwWindow := Some (msgs @ [f])\<rparr>))
       else section_loop env (msgs @ [f]) (s1\<lparr>nextDownloadSectionsWindow := of_nat (b + 1)\<rparr>))"
proof -
  let ?N = "section_count e img"
  obtain t cc where t: "GetOnuSwSecNextTid (up_cc s) = (t, cc)" by (rule prod.exhaust)
  have tr: "loaded img s" "abortRequested s = ImageState_NO_ERROR" "omciDownloadWindowSizeLimit s = w" "InactiveImageMeID s = m"
    "\<not> up_waitEnd s"
    using assms(3) by (simp_all add: transferring_def)
  note sl = section_slice [OF tr(1) assms(4), folded e_def, OF assms(8)]
  have N: "noOfSections s = of_nat ?N" "?N < 2 ^ 32"
    using tr(1) loaded_bounds(2,3) [OF tr(1)] by (simp_all add: loaded_def Let_def e_def)
  have "nextDownloadSectionsAbsolute s + 1 = of_nat (st + b + 1)" by (simp add: assms(4))
  moreover have "(of_nat (st + b + 1) :: u32) \<ge> of_nat ?N \<longleftrightarrow> st + b + 1 = ?N"
    using N(2) assms(8) by (simp add: linorder_not_less [symmetric] del: of_nat_add of_nat_Suc) linarith
  ultimately have fin: "nextDownloadSectionsAbsolute s + 1 \<ge> noOfSections s \<longleftrightarrow> st + b + 1 = ?N" by (simp only: N(1))
  have "unat w < 256" by (rule unat_u8_lt)
  then have lim: "nextDownloadSectionsWindow s = w \<longleftrightarrow> b = unat w"
    using assms(5,6) by (auto simp: unat_of_nat)
  have md: "(st + b) mod (unat w + 1) = b" using assms(6,7) by (simp add: mod_add_left_eq [symmetric])
  let ?mt = "if lst then DownloadSectionRequestWithResponseType else DownloadSectionRequestType"
  obtain f where f: "section_frame c t ?mt e m (of_nat b) (image_section e img (st + b)) = Inr f" "3 < length f"
    using assms(2) unfolding calm_up_def calm_def section_frame_def serialize_ext_def by blast
  have "is_section_frame c e img m w (st + b) f"
    unfolding is_section_frame_def md using f(1) by (auto simp: lst_def)
  moreover have "section_loop env msgs s =
      (if lst
       then bind_run (upg_event env UpgradeEvWaitWindowAck s1)
         (send_window env (zero_ots\<lparr>withFramePrint := True, OnuSwWindow := Some (msgs @ [f])\<rparr>))
       else section_loop env (msgs @ [f]) (s1\<lparr>nextDownloadSectionsWindow := of_nat (b + 1)\<rparr>))"
  proof -
    have cc: "next_tid_cc s = cc" by (simp add: next_tid_cc_def t)
    have env: "ug_ctx env n = c" for n using assms(2) by (simp add: calm_up_def)
    have abs: "nextDownloadSectionsAbsolute s + 1 = of_nat (st + b + 1)" by (simp add: assms(4))
    show ?thesis
    proof (cases "st + b + 1 = ?N")
      case True
      with fin have fin: "nextDownloadSectionsAbsolute s + 1 \<ge> noOfSections s" by blast
      have "lst" using True by (simp add: lst_def)
      with True show ?thesis
        unfolding section_loop_unfold [of env msgs s] sl(4)
        using fin f(1) assms(5) tr sl(1-3)
        by (simp add: PrepareOnuSectionsOfWindow_def t env s1_def cc abs [unfolded True] upg_call_def e_def Let_def)
    next
      case False
      then have nfin: "\<not> nextDownloadSectionsAbsolute s + 1 \<ge> noOfSections s" using fin by blast
      from False have l: "lst \<longleftrightarrow> nextDownloadSectionsWindow s = w" unfolding lim by (simp add: lst_def)
      then have "lst \<longleftrightarrow> of_nat b = w" by (simp add: assms(5))
      then show ?thesis
        unfolding section_loop_unfold [of env msgs s] sl(4)
        using nfin f(1) assms(5) tr sl(1-3) False
        by (cases lst) (simp_all add: PrepareOnuSectionsOfWindow_def t env s1_def cc abs upg_call_def e_def Let_def add.commute [of _ "1 :: u8"])
    qed
  qed
  ultimately show ?thesis using f(2) by blast
qed


lemma upg_event_quiet:
  "fsm_transition upg_events ev (up_fsm s) = Some st \<Longrightarrow> st \<noteq> up_fsm s \<Longrightarrow>
   upg_event env ev s = upg_enter env st (s\<lparr>up_fsm := st\<rparr>)"
  by (simp add: upg_event_def fsm_event_def bind_run_assoc)

lemma window_acknowledged:
  assumes "calm_up env c" "transferring e img m w s" "up_fsm s = UpgradeStDLSection" "fs \<noteq> []" "3 < length (last fs)"
  shows "\<exists>cc. bind_run (upg_event env UpgradeEvWaitWindowAck s)
      (send_window env (zero_ots\<lparr>withFramePrint := True, OnuSwWindow := Some fs\<rparr>)) =
      Done (s\<lparr>up_fsm := UpgradeStVerifyWindow, up_cc := cc, up_sent := up_sent s + 1\<rparr>) \<and> idle cc \<and>
      cc_out cc = cc_out (up_cc s) @ [TxWindow fs]"
proof -
  have "fsm_transition upg_events UpgradeEvWaitWindowAck UpgradeStDLSection = Some UpgradeStVerifyWindow" by code_simp
  then have ev: "upg_event env UpgradeEvWaitWindowAck s = Done (s\<lparr>up_fsm := UpgradeStVerifyWindow\<rparr>)"
    using assms(3) by (simp add: upg_event_quiet upg_enter_def)
  have c: "calm c (ug_timeout env)" "ug_ctx env n = c" for n using assms(1) by (simp_all add: calm_up_def)
  have i: "idle (up_cc s)" using assms(2) by (simp add: transferring_def)
  from window_sent [OF c(1) i _ assms(4,5), of "zero_ots\<lparr>withFramePrint := True, OnuSwWindow := Some fs\<rparr>"]
  obtain cc where "SendOnuSwSectionsWindowWithRxSupervision (sc_env c) (zero_ots\<lparr>withFramePrint := True, OnuSwWindow := Some fs\<rparr>)
      (ug_timeout env) (up_CommChan s) fn_receiveOmciResponse (sc_ocs c) (up_cc s) = Done (None, WaitingIn cc)"
    "idle cc" "cc_out cc = cc_out (up_cc s) @ [TxWindow fs]" by fastforce
  then show ?thesis by (intro exI [of _ cc]) (simp add: ev send_window_def c(2))
qed

lemma window_loop_calm:
  assumes "calm_up env c" "transferring e img m w s" "up_fsm s = UpgradeStDLSection"
    "nextDownloadSectionsAbsolute s = of_nat (j * (unat w + 1) + b)" "nextDownloadSectionsWindow s = of_nat b" "b \<le> unat w"
    "j * (unat w + 1) + b < section_count e img"
    "list_all2 (is_section_frame c e img m w) [j * (unat w + 1)..<j * (unat w + 1) + b] fs"
  shows "\<exists>s' gs. section_loop env fs s = Done s' \<and> transferring e img m w s' \<and> up_fsm s' = UpgradeStVerifyWindow \<and>
    nextDownloadWindow s' = nextDownloadWindow s \<and> up_tasks s' = up_tasks s \<and>
    maxRetryAttemptsForDownloadWindow s' = maxRetryAttemptsForDownloadWindow s \<and>
    window_frames c e img m w j gs \<and> cc_out (up_cc s') = cc_out (up_cc s) @ [TxWindow gs] \<and>
    nextDownloadSectionsAbsolute s' = of_nat (window_end e img w j) \<and>
    (window_end e img w j = section_count e img \<longrightarrow>
       omciDownloadWindowSizeLast s' = of_nat (section_count e img - 1 - j * (unat w + 1)))"
  using assms(2-8)
proof (induction "unat w - b" arbitrary: b s fs rule: less_induct)
  case less
  let ?st = "j * (unat w + 1)"
  have e: "isExtendedOmci s = e" using less.prems(1) by (simp add: transferring_def)
  have st: "?st mod (unat w + 1) = 0" by (rule mod_mult_self2_is_0)
  define s1 where "s1 = (if ?st + b + 1 = section_count e img then s\<lparr>omciDownloadWindowSizeLast := of_nat b\<rparr> else s)
    \<lparr>up_cc := next_tid_cc s, nextDownloadSectionsAbsolute := of_nat (?st + b + 1)\<rparr>"
  obtain f where f: "is_section_frame c e img m w (?st + b) f" "3 < length f"
    "section_loop env fs s =
      (if b = unat w \<or> ?st + b + 1 = section_count e img
       then bind_run (upg_event env UpgradeEvWaitWindowAck s1)
         (send_window env (zero_ots\<lparr>withFramePrint := True, OnuSwWindow := Some (fs @ [f])\<rparr>))
       else section_loop env (fs @ [f]) (s1\<lparr>nextDownloadSectionsWindow := of_nat (b + 1)\<rparr>))"
    using section_step [where s = s and msgs = fs, unfolded e, OF assms(1) less.prems(1,3,4,5) st less.prems(6)]
    unfolding s1_def e by blast
  have fs: "list_all2 (is_section_frame c e img m w) [?st..<Suc (?st + b)] (fs @ [f])"
    using less.prems(7) f(1) by (simp add: list_all2_appendI)
  have i: "idle (next_tid_cc s)" using less.prems(1) by (simp add: idle_next_tid transferring_def)
  then have s1: "transferring e img m w s1" "up_fsm s1 = UpgradeStDLSection" "nextDownloadWindow s1 = nextDownloadWindow s"
    "up_tasks s1 = up_tasks s" "maxRetryAttemptsForDownloadWindow s1 = maxRetryAttemptsForDownloadWindow s"
    "cc_out (up_cc s1) = cc_out (up_cc s)" "nextDownloadSectionsAbsolute s1 = of_nat (?st + Suc b)"
    "?st + b + 1 = section_count e img \<Longrightarrow> omciDownloadWindowSizeLast s1 = of_nat b"
    using less.prems(1,2) by (simp_all add: s1_def transferring_updates idle_next_tid)
  show ?case
  proof (cases "b = unat w \<or> ?st + b + 1 = section_count e img")
    case True
    then have we: "window_end e img w j = Suc (?st + b)" using less.prems(5,6) by (auto simp: window_end_def)
    obtain cc where "bind_run (upg_event env UpgradeEvWaitWindowAck s1)
        (send_window env (zero_ots\<lparr>withFramePrint := True, OnuSwWindow := Some (fs @ [f])\<rparr>)) =
        Done (s1\<lparr>up_fsm := UpgradeStVerifyWindow, up_cc := cc, up_sent := up_sent s1 + 1\<rparr>)" "idle cc"
        "cc_out cc = cc_out (up_cc s1) @ [TxWindow (fs @ [f])]"
      using window_acknowledged [OF assms(1) s1(1,2), of "fs @ [f]"] f(2) by auto
    moreover have "nextDownloadSectionsAbsolute s1 = of_nat (window_end e img w j)" using s1(7) by (simp add: we)
    moreover have "window_frames c e img m w j (fs @ [f])" using fs by (simp only: window_frames_def we)
    moreover have "window_end e img w j = section_count e img \<longrightarrow>
       omciDownloadWindowSizeLast s1 = of_nat (section_count e img - 1 - ?st)"
    proof
      assume "window_end e img w j = section_count e img"
      then have "?st + b + 1 = section_count e img" "section_count e img - 1 - ?st = b" using we by simp_all
      then show "omciDownloadWindowSizeLast s1 = of_nat (section_count e img - 1 - ?st)" using s1(8) by simp
    qed
    ultimately show ?thesis
      using f(3) True s1(1-6)
      by (intro exI [of _ "s1\<lparr>up_fsm := UpgradeStVerifyWindow, up_cc := cc, up_sent := up_sent s1 + 1\<rparr>"] exI [of _ "fs @ [f]"] conjI)
        (simp_all add: transferring_updates)
  next
    case False
    let ?s = "s1\<lparr>nextDownloadSectionsWindow := of_nat (b + 1)\<rparr>"
    have n: "unat w - Suc b < unat w - b" "Suc b \<le> unat w" "?st + Suc b < section_count e img"
      using False less.prems(5,6) by auto
    have t: "transferring e img m w ?s" "up_fsm ?s = UpgradeStDLSection" "nextDownloadSectionsAbsolute ?s = of_nat (?st + Suc b)"
      "nextDownloadSectionsWindow ?s = of_nat (Suc b)"
      using s1 by (simp_all add: transferring_updates)
    from less.hyps [OF n(1) t n(2,3), of "fs @ [f]"] fs f(3) s1 False show ?thesis by simp
  qed
qed


subsection \<open>The answers of the ONU\<close>

lemma windows_cover:
  "j < window_count e img w \<longleftrightarrow> j * (unat w + 1) < section_count e img"
  "j < window_count e img w \<Longrightarrow> window_end e img w j = (if j + 1 = window_count e img w then section_count e img else (j + 1) * (unat w + 1))"
proof -
  let ?z = "unat w + 1" let ?n = "section_count e img"
  have c: "window_count e img w = (?n + ?z - 1) div ?z" by (simp add: window_count_def)
  have l: "i < window_count e img w \<longleftrightarrow> i * ?z < ?n" for i
  proof -
    have "i < (?n + ?z - 1) div ?z \<longleftrightarrow> Suc i * ?z \<le> ?n + ?z - 1"
      by (simp add: less_eq_div_iff_mult_less_eq flip: Suc_le_eq)
    also have "\<dots> \<longleftrightarrow> i * ?z < ?n" by auto
    finally show ?thesis unfolding c .
  qed
  show "j < window_count e img w \<longleftrightarrow> j * ?z < ?n" by (rule l)
  assume j: "j < window_count e img w"
  show "window_end e img w j = (if j + 1 = window_count e img w then ?n else (j + 1) * ?z)"
    using l [of "j + 1"] j by (auto simp: window_end_def min_def)
qed

lemma window_bounds:
  assumes "loaded img s" "j < window_count (isExtendedOmci s) img w"
  shows "window_count (isExtendedOmci s) img w < 2 ^ 32" "j * (unat w + 1) < 2 ^ 32"
proof -
  let ?e = "isExtendedOmci s"
  have n: "section_count ?e img < 2 ^ 32" using loaded_bounds(2,3) [OF assms(1)] by linarith
  then show "j * (unat w + 1) < 2 ^ 32" using windows_cover(1) [of j ?e img w] assms(2) by linarith
  have "window_count ?e img w \<le> section_count ?e img"
  proof (rule ccontr)
    assume "\<not> ?thesis"
    then have "section_count ?e img * (unat w + 1) < section_count ?e img" using windows_cover(1) by (metis not_le)
    then show False by simp
  qed
  with n show "window_count ?e img w < 2 ^ 32" by linarith
qed

definition window_reply :: "bool \<Rightarrow> bytes \<Rightarrow> u16 \<Rightarrow> u8 \<Rightarrow> nat \<Rightarrow> u8 \<Rightarrow> upg_response" where
  "window_reply e img m w j x =
     DownloadSectionResponse (Layer (x, m, of_nat (window_end e img w j - 1 - j * (unat w + 1))))"

definition window_answer :: "bool \<Rightarrow> bytes \<Rightarrow> u16 \<Rightarrow> u8 \<Rightarrow> nat \<Rightarrow> bool \<Rightarrow> upg_response" where
  "window_answer e img m w j r = window_reply e img m w j (if r then me_Success else me_ProcessingError)"

definition sent_window :: "bool \<Rightarrow> bytes \<Rightarrow> u16 \<Rightarrow> u8 \<Rightarrow> nat \<Rightarrow> sw_upg \<Rightarrow> bool" where
  "sent_window e img m w j s \<longleftrightarrow>
     transferring e img m w s \<and> up_fsm s = UpgradeStVerifyWindow \<and> up_tasks s = [] \<and> nextDownloadWindow s = of_nat j \<and>
     nextDownloadSectionsAbsolute s = of_nat (window_end e img w j) \<and>
     (window_end e img w j = section_count e img \<longrightarrow>
       omciDownloadWindowSizeLast s = of_nat (section_count e img - 1 - j * (unat w + 1)))"

definition next_window :: "bool \<Rightarrow> bytes \<Rightarrow> u16 \<Rightarrow> u8 \<Rightarrow> nat \<Rightarrow> sw_upg \<Rightarrow> bool" where
  "next_window e img m w j s \<longleftrightarrow>
     transferring e img m w s \<and> up_fsm s = UpgradeStDLSection \<and> up_tasks s = [RunSwDlSectionWindow] \<and> nextDownloadWindow s = of_nat j \<and>
     nextDownloadSectionsAbsolute s = of_nat (j * (unat w + 1)) \<and> nextDownloadSectionsWindow s = 0"

lemma upg_transitions:
  "fsm_transition upg_events UpgradeEvContinueNextWindow UpgradeStVerifyWindow = Some UpgradeStDLSection"
  "fsm_transition upg_events UpgradeEvEndSwDownload UpgradeStVerifyWindow = Some UpgradeStFinalizeDL"
  "fsm_transition upg_events UpgradeEvPrepareSwDownload UpgradeStWaitingAdapterDL = Some UpgradeStPreparingDL"
  "fsm_transition upg_events UpgradeEvRxStartSwDownload UpgradeStPreparingDL = Some UpgradeStDLSection"
  "fsm_transition upg_events UpgradeEvAbort UpgradeStVerifyWindow = Some UpgradeStResetting"
  "fsm_transition upg_events UpgradeEvWaitEndDownload UpgradeStFinalizeDL = Some UpgradeStWaitEndDL"
  by code_simp+

lemma receive_window_reply:
  assumes "sent_window e img m w j s"
  shows "upg_step (env, UpgReceive (UpgOmci (window_reply e img m w j x))) s =
    handleRxSwSectionResponse env (Layer (x, m, of_nat (window_end e img w j - 1 - j * (unat w + 1)))) s"
  using assms
  by (simp add: sent_window_def transferring_def processOmciUpgradeMessage_def handleOmciOnuUpgradeMessage_def window_reply_def)

lemmas receive_window_answer = receive_window_reply [where x = "if r then me_Success else me_ProcessingError" for r, folded window_answer_def]

lemma window_sent_calm:
  assumes "calm_up env c" "next_window e img m w j s" "j < window_count e img w"
  shows "\<exists>s' fs. upg_step (env, UpgRunTask 0) s = Done s' \<and> sent_window e img m w j s' \<and>
    window_frames c e img m w j fs \<and> cc_out (up_cc s') = cc_out (up_cc s) @ [TxWindow fs] \<and>
    maxRetryAttemptsForDownloadWindow s' = maxRetryAttemptsForDownloadWindow s"
proof -
  define s0 where "s0 = (let s = s\<lparr>up_tasks := [], upgradePhase := cUpgradeDownloading\<rparr> in
    if nextDownloadSectionsAbsolute s = 0 then s\<lparr>volthaImageState := ImageState_IMAGE_DOWNLOADING\<rparr> else s)"
  have s0: "transferring e img m w s0" "up_fsm s0 = UpgradeStDLSection" "nextDownloadSectionsAbsolute s0 = of_nat (j * (unat w + 1) + 0)"
    "nextDownloadSectionsWindow s0 = of_nat 0" "nextDownloadWindow s0 = of_nat j" "up_tasks s0 = []" "up_cc s0 = up_cc s"
    "maxRetryAttemptsForDownloadWindow s0 = maxRetryAttemptsForDownloadWindow s"
    using assms(2) by (simp_all add: s0_def next_window_def Let_def transferring_updates)
  have "upg_step (env, UpgRunTask 0) s = section_loop env [] s0"
    using assms(2) by (simp add: run_upg_task_def runSwDlSectionWindow_def next_window_def s0_def Let_def)
  moreover have lt: "j * (unat w + 1) + 0 < section_count e img" using assms(3) windows_cover(1) by simp
  ultimately show ?thesis
    using window_loop_calm [OF assms(1) s0(1-4) _ lt, of "[]"] s0(5-8) by (auto simp: sent_window_def)
qed

lemma window_accepted:
  assumes "sent_window e img m w j s" "j + 1 < window_count e img w"
  shows "\<exists>s'. upg_step (env, UpgReceive (UpgOmci (window_answer e img m w j True))) s = Done s' \<and> next_window e img m w (j + 1) s' \<and>
    up_cc s' = up_cc s \<and> maxRetryAttemptsForDownloadWindow s' = maxRetryAttemptsForDownloadWindow s"
proof -
  have t: "transferring e img m w s" "loaded img s" "isExtendedOmci s = e" "InactiveImageMeID s = m" "noOfWindows s = of_nat (window_count e img w)"
    "omciDownloadWindowSizeLimit s = w" "\<not> up_waitEnd s" "up_fsm s = UpgradeStVerifyWindow" "up_tasks s = []"
    "nextDownloadWindow s = of_nat j"
    using assms(1) by (simp_all add: sent_window_def transferring_def)
  have we: "window_end e img w j = (j + 1) * (unat w + 1)" using windows_cover(2) [of j e img w] assms(2) by simp
  have no: "(of_nat (window_end e img w j - 1 - j * (unat w + 1)) :: u8) = w" by (simp add: we)
  have b: "window_count e img w < 2 ^ 32" using window_bounds(1) [OF t(2)] assms(2) t(3) by auto
  have "\<not> (of_nat (j + 1) :: u32) \<ge> of_nat (window_count e img w)"
    using assms(2) b by (simp add: linorder_not_le del: of_nat_add of_nat_Suc)
  then have "\<not> nextDownloadWindow s + 1 \<ge> noOfWindows s" unfolding t(5,10) by (simp add: add.commute [of _ "1 :: u32"])
  then show ?thesis
    using t we upg_transitions(1) assms(1) unfolding receive_window_answer [OF assms(1)] no
    by (simp add: handleRxSwSectionResponse_def upg_call_def upg_event_quiet upg_enter_def enterDownloadSection_def next_window_def
        transferring_updates sent_window_def add.commute)
qed


lemma window_repeated:
  assumes "sent_window e img m w j s" "j < window_count e img w" "w \<noteq> 255" "0 < unat (maxRetryAttemptsForDownloadWindow s)"
  shows "\<exists>s'. upg_step (env, UpgReceive (UpgOmci (window_answer e img m w j False))) s = Done s' \<and> next_window e img m w j s' \<and>
    up_cc s' = up_cc s \<and> unat (maxRetryAttemptsForDownloadWindow s') = unat (maxRetryAttemptsForDownloadWindow s) - 1"
proof -
  have t: "transferring e img m w s" "omciDownloadWindowSizeLimit s = w" "\<not> up_waitEnd s" "up_fsm s = UpgradeStVerifyWindow"
    "up_tasks s = []" "nextDownloadWindow s = of_nat j"
    using assms(1) by (simp_all add: sent_window_def transferring_def)
  have "unat w + 1 < 256" using assms(3) unat_u8_lt [of w] by (auto simp: word_unat_eq_iff)
  then have w: "unat (w + 1) = unat w + 1" by (simp add: unat_word_ariths)
  have "(of_nat (unat (w + 1)) :: u32) = ucast (w + 1)" by simp
  then have u: "(ucast (w + 1) :: u32) = of_nat (unat w + 1)" by (simp only: w)
  let ?v = "maxRetryAttemptsForDownloadWindow s"
  have v: "0 < ?v" "unat (?v - 1) = unat ?v - 1" using assms(4) by (simp_all add: word_gt_0 unat_minus_one unat_gt_0)
  have n: "(me_ProcessingError = me_Success) = False" by code_simp
  show ?thesis
    using t v upg_transitions(1) assms(1) u unfolding receive_window_answer [OF assms(1)]
    by (simp add: handleRxSwSectionResponse_def n retrySoftwareDownload_def upg_call_def upg_event_quiet upg_enter_def
        enterDownloadSection_def next_window_def transferring_updates sent_window_def distrib_left)
qed

lemma image_accepted:
  assumes "sent_window e img m w j s" "j + 1 = window_count e img w"
  shows "\<exists>s'. upg_step (env, UpgReceive (UpgOmci (window_answer e img m w j True))) s = Done s' \<and> up_fsm s' = UpgradeStFinalizeDL \<and>
    up_tasks s' = [DelayAndSendEndSwDl] \<and> delayEndSwDl s' \<and> imageCRC s' = aal5_crc img \<and> origImageLength s' = of_nat (length img) \<and>
    up_cc s' = up_cc s \<and> transferring e img m w s'"
proof -
  have t: "transferring e img m w s" "loaded img s" "isExtendedOmci s = e" "InactiveImageMeID s = m" "noOfWindows s = of_nat (window_count e img w)"
    "\<not> up_waitEnd s" "up_fsm s = UpgradeStVerifyWindow" "up_tasks s = []" "nextDownloadWindow s = of_nat j"
    using assms(1) by (simp_all add: sent_window_def transferring_def)
  have we: "window_end e img w j = section_count e img" using windows_cover(2) [of j e img w] assms(2) by simp
  then have l: "omciDownloadWindowSizeLast s = of_nat (window_end e img w j - 1 - j * (unat w + 1))"
    using assms(1) by (simp add: sent_window_def)
  have d: "noOfWindows s = nextDownloadWindow s + 1" unfolding t(5,9) assms(2) [symmetric] by (simp add: add.commute)
  have "imageBuffer s = padded e img" "origImageLength s = of_nat (length img)" "length img < 2 ^ 32"
    using t(2,3) by (simp_all add: loaded_def Let_def)
  then have "take (unat (origImageLength s)) (imageBuffer s) = img" "origImageLength s = of_nat (length img)"
    by (simp_all add: unat_small padded_def)
  then show ?thesis
    using t d upg_transitions(2) unfolding receive_window_answer [OF assms(1)] l [symmetric]
    by (simp add: handleRxSwSectionResponse_def upg_call_def upg_event_quiet upg_enter_def enterFinalizeDL_def image_crc_is_aal5
        transferring_updates)
qed

text \<open>Any other result aborts the download, and so does a processing error without an attempt left.\<close>

definition download_aborted :: "sw_upg \<Rightarrow> bool" where
  "download_aborted s \<longleftrightarrow>
     up_fsm s = UpgradeStResetting \<and> volthaDownloadReason s = ImageState_OMCI_TRANSFER_ERROR \<and>
     (up_tasks s = [UpgTask UpgradeEvAbortSwDownload] \<or> up_tasks s = [UpgTask UpgradeEvRestart])"

lemma stateUpdateOnReset_fields:
  "up_fsm (stateUpdateOnReset s) = up_fsm s" "\<not> conditionalCancelRequested s \<Longrightarrow> volthaDownloadReason (stateUpdateOnReset s) = volthaDownloadReason s"
  "up_tasks (stateUpdateOnReset s) = up_tasks s" "up_cc (stateUpdateOnReset s) = up_cc s"
  by (simp_all add: stateUpdateOnReset_def downloading_aborted_def split: tUpgradePhase.splits)

lemma notify_dl_ready_fields:
  "up_fsm (notify_dl_ready s) = up_fsm s" "volthaDownloadReason (notify_dl_ready s) = volthaDownloadReason s"
  "up_tasks (notify_dl_ready s) = up_tasks s" "up_cc (notify_dl_ready s) = up_cc s"
  by (simp_all add: notify_dl_ready_def Let_def)

lemma window_refused:
  assumes "sent_window e img m w j s" "x \<noteq> me_Success" "x = me_ProcessingError \<Longrightarrow> maxRetryAttemptsForDownloadWindow s = 0"
  shows "\<exists>s'. upg_step (env, UpgReceive (UpgOmci (window_reply e img m w j x))) s = Done s' \<and> download_aborted s' \<and> up_cc s' = up_cc s"
proof -
  have t: "\<not> up_waitEnd s" "up_fsm s = UpgradeStVerifyWindow" "up_tasks s = []"
    using assms(1) by (simp_all add: sent_window_def transferring_def)
  have "upg_step (env, UpgReceive (UpgOmci (window_reply e img m w j x))) s = abortOnOmciError env True False s"
    unfolding receive_window_reply [OF assms(1)] using t(2) assms(2,3)
    by (auto simp: handleRxSwSectionResponse_def retrySoftwareDownload_def)
  also have "\<dots> = Done (upg_enterResetting (omci_error s\<lparr>up_fsm := UpgradeStResetting\<rparr>))"
    using t upg_transitions(5) by (simp add: abortOnOmciError_def omci_error_def upg_call_def upg_event_quiet upg_enter_def)
  finally show ?thesis
    using t by (simp add: download_aborted_def upg_enterResetting_def Let_def stateUpdateOnReset_fields notify_dl_ready_fields omci_error_def)
qed

text \<open>The window that each attempt sends: the next one after a success, the same one after an error.\<close>

fun attempts :: "nat \<Rightarrow> bool list \<Rightarrow> nat list" where
  "attempts j [] = []"
| "attempts j (r # rs) = j # attempts (if r then j + 1 else j) rs"

fun transfer_ops :: "bool \<Rightarrow> bytes \<Rightarrow> u16 \<Rightarrow> u8 \<Rightarrow> nat \<Rightarrow> bool list \<Rightarrow> upg_op list" where
  "transfer_ops e img m w j [] = []"
| "transfer_ops e img m w j (r # rs) =
     UpgRunTask 0 # UpgReceive (UpgOmci (window_answer e img m w j r)) # transfer_ops e img m w (if r then j + 1 else j) rs"

lemma transfer_calm:
  assumes "calm_up env c" "w \<noteq> 255" "next_window e img m w j s" "j + count_list rs True < window_count e img w"
    "count_list rs False \<le> unat (maxRetryAttemptsForDownloadWindow s)"
  shows "\<exists>s' ws. run_steps upg_step (map (Pair env) (transfer_ops e img m w j rs)) s = Done s' \<and>
    next_window e img m w (j + count_list rs True) s' \<and>
    unat (maxRetryAttemptsForDownloadWindow s') = unat (maxRetryAttemptsForDownloadWindow s) - count_list rs False \<and>
    list_all2 (window_frames c e img m w) (attempts j rs) ws \<and> cc_out (up_cc s') = cc_out (up_cc s) @ map TxWindow ws"
  using assms(3-5)
proof (induction rs arbitrary: j s)
  case Nil
  then show ?case by (auto intro!: exI [of _ "[]"])
next
  case (Cons r rs)
  have j: "j < window_count e img w" using Cons.prems(2) by simp
  obtain s1 fs where s1: "upg_step (env, UpgRunTask 0) s = Done s1" "sent_window e img m w j s1" "window_frames c e img m w j fs"
      "cc_out (up_cc s1) = cc_out (up_cc s) @ [TxWindow fs]"
      "maxRetryAttemptsForDownloadWindow s1 = maxRetryAttemptsForDownloadWindow s"
    using window_sent_calm [OF assms(1) Cons.prems(1) j] by blast
  let ?j = "if r then j + 1 else j"
  have "r \<Longrightarrow> j + 1 < window_count e img w" using Cons.prems(2) by simp
  moreover have "\<not> r \<Longrightarrow> 0 < unat (maxRetryAttemptsForDownloadWindow s1)" using Cons.prems(3) s1(5) by simp
  ultimately obtain s2 where s2: "upg_step (env, UpgReceive (UpgOmci (window_answer e img m w j r))) s1 = Done s2"
    "next_window e img m w ?j s2" "up_cc s2 = up_cc s1"
    "unat (maxRetryAttemptsForDownloadWindow s2) = unat (maxRetryAttemptsForDownloadWindow s1) - (if r then 0 else 1)"
    using window_accepted [OF s1(2), of env] window_repeated [OF s1(2) j assms(2), of env] by (cases r) auto
  have n: "?j + count_list rs True = j + count_list (r # rs) True" by simp
  have "?j + count_list rs True < window_count e img w" "count_list rs False \<le> unat (maxRetryAttemptsForDownloadWindow s2)"
    using Cons.prems(2,3) s2(4) s1(5) by (auto split: if_splits)
  then obtain s3 ws where s3: "run_steps upg_step (map (Pair env) (transfer_ops e img m w ?j rs)) s2 = Done s3"
    "next_window e img m w (j + count_list (r # rs) True) s3"
    "unat (maxRetryAttemptsForDownloadWindow s3) = unat (maxRetryAttemptsForDownloadWindow s2) - count_list rs False"
    "list_all2 (window_frames c e img m w) (attempts ?j rs) ws" "cc_out (up_cc s3) = cc_out (up_cc s2) @ map TxWindow ws"
    using Cons.IH [OF s2(2)] unfolding n by blast
  have "unat (maxRetryAttemptsForDownloadWindow s3) = unat (maxRetryAttemptsForDownloadWindow s) - count_list (r # rs) False"
    using s3(3) s2(4) s1(5) by simp
  with s1 s2 s3 show ?case by (intro exI [of _ s3] exI [of _ "fs # ws"]) simp
qed


subsection \<open>The whole transfer\<close>

definition awaiting_image :: "sw_upg \<Rightarrow> bool" where
  "awaiting_image s \<longleftrightarrow>
     up_fsm s = UpgradeStWaitingAdapterDL \<and> isWaitingForAdapterDlResponse s \<and> abortRequested s = ImageState_NO_ERROR \<and>
     idle (up_cc s) \<and> map_of (monitoredRequests (up_cc s)) (fst (GetNextTid False (up_cc s))) = None \<and>
     up_loop s \<and> \<not> up_stuck s \<and> up_blocked s = [] \<and> \<not> up_waitEnd s \<and> up_tasks s = [] \<and>
     omciDownloadSectionSize s = int (section_size (isExtendedOmci s)) \<and>
     maxRetryAttemptsForDownloadWindow s = cMaxRetryAttemptsForDownloadWindow"

text \<open>A request of the machine on a calm channel, with an identifier that is not in use.\<close>

lemma request_sent:
  assumes "calm c timeout" "idle oo" "map_of (monitoredRequests oo) (fst (GetNextTid prio oo)) = None"
  shows "\<exists>f cc. (let (t, oo) = GetNextTid prio oo in send_built c timeout CDefaultRetries prio (response_pair t ch True) ()
      (serialize_ext c mt (q :: omci_request) t) oo) = Done (Inr (), WaitingIn cc) \<and> idle cc \<and> cc_out cc = cc_out oo @ [TxFrame f] \<and>
    serialize_ext c mt q (fst (GetNextTid prio oo)) = Inr f"
proof -
  obtain t o0 where t: "GetNextTid prio oo = (t, o0)" by (rule prod.exhaust)
  obtain f where f: "serialize_ext c mt q t = Inr f" "3 < length f" using assms(1) unfolding calm_def serialize_ext_def by blast
  have o0: "idle o0" "map_of (monitoredRequests o0) (CbKey (response_pair t ch True)) = None" "cc_out o0 = cc_out oo"
    using assms(2,3) GetNextTid_frame [of prio oo] t by (simp_all add: response_pair_def)
  from built_registers [OF assms(1) o0(1,2) f(2), of prio "()"] obtain cc where
    "send_built c timeout CDefaultRetries prio (response_pair t ch True) () (Inr f) o0 = Done (Inr (), WaitingIn cc)"
    "idle cc" "cc_out cc = cc_out o0 @ [TxFrame f]" by blast
  with f o0 t show ?thesis by simp
qed

lemma up_request_sent:
  assumes "calm_up env c" "idle (up_cc s)" "map_of (monitoredRequests (up_cc s)) (fst (GetNextTid False (up_cc s))) = None"
    "\<And>c oo. snd_req c oo = (let (t, oo) = GetNextTid False oo in send_built c (ug_timeout env) CDefaultRetries False (response_pair t ch True) ()
      (serialize_ext c mt (q :: omci_request) t) oo)"
  shows "\<exists>f cc. up_request env snd_req s = Done (Inr (), s\<lparr>up_cc := cc, up_sent := up_sent s + 1\<rparr>) \<and> idle cc \<and>
    cc_out cc = cc_out (up_cc s) @ [TxFrame f] \<and> serialize_ext c mt q (fst (GetNextTid False (up_cc s))) = Inr f"
proof -
  have c: "calm c (ug_timeout env)" "ug_ctx env n = c" for n using assms(1) by (simp_all add: calm_up_def)
  from request_sent [OF c(1) assms(2,3), of ch mt q] show ?thesis
    by (auto simp: up_request_def c(2) assms(4) simp del: split_paired_Ex)
qed

lemma word_div_small:
  assumes "n < 2 ^ 32" "0 < z" "z < 2 ^ 32"
  shows "(of_nat n :: u32) div of_nat z = of_nat (n div z)" "(of_nat n :: u32) mod of_nat z = of_nat (n mod z)"
proof -
  have "n div z < 2 ^ 32" "n mod z < 2 ^ 32"
    using assms div_le_dividend [of n z] mod_less_eq_dividend [of n z] by linarith+
  then show "(of_nat n :: u32) div of_nat z = of_nat (n div z)" "(of_nat n :: u32) mod of_nat z = of_nat (n mod z)"
    using assms by (simp_all add: word_unat_eq_iff unat_div unat_mod unat_of_nat)
qed

lemma positive_of_nat: "k < 2 ^ 32 \<Longrightarrow> (of_nat k :: u32) > 0 \<longleftrightarrow> k \<noteq> 0"
  using of_nat_less [of 0 k] by (simp del: of_nat_less)

lemma start_accepted:
  assumes "loaded img s" "isExtendedOmci s = e" "InactiveImageMeID s = m" "w \<noteq> 255" "up_fsm s = UpgradeStPreparingDL"
    "abortRequested s = ImageState_NO_ERROR" "idle (up_cc s)" "up_loop s" "\<not> up_stuck s" "up_blocked s = []" "\<not> up_waitEnd s" "up_tasks s = []"
  shows "\<exists>s'. upg_step (env, UpgReceive (UpgOmci (StartSoftwareDownloadResponse (Layer (me_Success, m, w))))) s = Done s' \<and>
    next_window e img m w 0 s' \<and> up_cc s' = up_cc s \<and>
    maxRetryAttemptsForDownloadWindow s' = maxRetryAttemptsForDownloadWindow s"
proof -
  have "unat w + 1 < 256" using assms(4) unat_u8_lt [of w] by (auto simp: word_unat_eq_iff)
  then have w: "unat (w + 1) = unat w + 1" "unat w + 1 < 2 ^ 32" by (simp_all add: unat_word_ariths)
  have "(of_nat (unat (w + 1)) :: u32) = ucast (w + 1)" by simp
  then have u: "(ucast (w + 1) :: u32) = of_nat (unat w + 1)" by (simp only: w)
  have "unat (of_nat (unat w + 1) :: u32) = unat w + 1" using w(2) by (rule unat_small)
  then have u0: "(of_nat (unat w + 1) :: u32) \<noteq> 0" by (metis add_is_0 one_neq_zero unat_0)
  have N: "noOfSections s = of_nat (section_count e img)" "section_count e img < 2 ^ 32"
    using assms(1,2) loaded_bounds(2,3) [OF assms(1)] by (simp_all add: loaded_def Let_def)
  have md: "(of_nat (section_count e img mod (unat w + 1)) :: u32) > 0 \<longleftrightarrow> section_count e img mod (unat w + 1) \<noteq> 0"
  proof -
    have "section_count e img mod (unat w + 1) < 2 ^ 32" using N(2) mod_less_eq_dividend le_less_trans by blast
    then show ?thesis by (rule positive_of_nat)
  qed
  let ?n = "ucast (w + 1) :: u32"
  have n0: "?n \<noteq> 0" unfolding u by (rule u0)
  have W: "(if noOfSections s mod ?n > 0 then noOfSections s div ?n + 1 else noOfSections s div ?n) = of_nat (window_count e img w)"
  proof -
    define z where "z = unat w + 1"
    have z: "0 < z" "z < 2 ^ 32" "?n = of_nat z" using w(2) u by (simp_all add: z_def)
    have "window_count e img w = section_count e img div z + (if section_count e img mod z = 0 then 0 else 1)"
      unfolding window_count_def using ceiling_div [OF z(1), of "section_count e img"] by (simp add: z_def)
    then show ?thesis
      unfolding z(3) N(1) word_div_small [OF N(2) z(1,2)] md [folded z_def] by simp
  qed
  let ?s = "s\<lparr>omciDownloadWindowSizeLimit := w, noOfWindows := of_nat (window_count e img w), nextDownloadSectionsAbsolute := 0,
    nextDownloadSectionsWindow := 0, nextDownloadWindow := 0\<rparr>"
  have "upg_step (env, UpgReceive (UpgOmci (StartSoftwareDownloadResponse (Layer (me_Success, m, w))))) s =
      upg_call env True UpgradeEvRxStartSwDownload ?s"
    using assms(3,8-10) n0 W
    by (simp add: processOmciUpgradeMessage_def handleOmciOnuUpgradeMessage_def handleRxStartSwDownloadResponse_def Let_def)
  moreover have "\<dots> = Done (?s\<lparr>up_fsm := UpgradeStDLSection, up_tasks := [RunSwDlSectionWindow]\<rparr>)"
    using assms(5,11,12) upg_transitions(4)
    by (simp add: upg_call_def upg_event_quiet upg_enter_def enterDownloadSection_def)
  moreover have "transferring e img m w ?s"
    using assms(1-3,6-11) by (simp add: transferring_def loaded_def)
  ultimately show ?thesis by (simp add: next_window_def transferring_updates)
qed


lemma download_prepared:
  assumes "calm_up env c" "awaiting_image s" "ug_fileLen env (useAPIVersion43 s) = Inr (int (length img))"
    "ug_image env (useAPIVersion43 s) = Inr img" "img \<noteq> []" "length img + 1965 < 2 ^ 32"
  shows "\<exists>s' f. upg_step (env, UpgAdapterDl (Some True)) s = Done s' \<and> loaded img s' \<and> isExtendedOmci s' = isExtendedOmci s \<and>
    InactiveImageMeID s' = InactiveImageMeID s \<and> up_fsm s' = UpgradeStPreparingDL \<and> abortRequested s' = ImageState_NO_ERROR \<and>
    idle (up_cc s') \<and> up_loop s' \<and> \<not> up_stuck s' \<and> up_blocked s' = [] \<and> \<not> up_waitEnd s' \<and> up_tasks s' = [] \<and>
    maxRetryAttemptsForDownloadWindow s' = cMaxRetryAttemptsForDownloadWindow \<and>
    cc_out (up_cc s') = cc_out (up_cc s) @ [TxFrame f] \<and>
    serialize_ext c StartSoftwareDownloadRequestType (StartSoftwareDownloadRequest (class_id Me_SoftwareImage) (InactiveImageMeID s)
      (isExtendedOmci s) (omciDownloadWindowSizeLimit s) (of_nat (length img)) 1 [0]) (fst (GetNextTid False (up_cc s))) = Inr f"
proof -
  let ?s0 = "s\<lparr>isWaitingForAdapterDlResponse := False, up_fsm := UpgradeStPreparingDL\<rparr>"
  let ?s1 = "load_image (int (length img)) img ?s0"
  let ?s2 = "?s1\<lparr>up_receivers := up_receivers ?s1 @ [DlTimer]\<rparr>"
  note a = assms(2) [unfolded awaiting_image_def]
  have ld: "loaded img ?s1" using a assms(5,6) by (intro load_image_loaded) simp_all
  have l: "up_cc ?s2 = up_cc s" "InactiveImageMeID ?s2 = InactiveImageMeID s" "isExtendedOmci ?s2 = isExtendedOmci s"
    "omciDownloadWindowSizeLimit ?s2 = omciDownloadWindowSizeLimit s" "up_CommChan ?s2 = up_CommChan s"
    "origImageLength ?s2 = of_nat (length img)" "up_fsm ?s2 = UpgradeStPreparingDL" "abortRequested ?s2 = abortRequested s"
    "up_loop ?s2 = up_loop s" "up_stuck ?s2 = up_stuck s" "up_blocked ?s2 = up_blocked s" "up_waitEnd ?s2 = up_waitEnd s"
    "up_tasks ?s2 = up_tasks s" "maxRetryAttemptsForDownloadWindow ?s2 = maxRetryAttemptsForDownloadWindow s"
    by (simp_all add: load_image_def Let_def)
  have ld2: "loaded img ?s2" using ld by (simp add: loaded_def)
  let ?q = "StartSoftwareDownloadRequest (class_id Me_SoftwareImage) (InactiveImageMeID ?s2) (isExtendedOmci ?s2)
    (omciDownloadWindowSizeLimit ?s2) (origImageLength ?s2) 1 [0]"
  have fresh: "idle (up_cc ?s2)" "map_of (monitoredRequests (up_cc ?s2)) (fst (GetNextTid False (up_cc ?s2))) = None"
    using a by (simp_all only: l(1) simp_thms)
  have req: "SendStartSoftwareDownload c (ug_timeout env) False (up_CommChan ?s2) (InactiveImageMeID ?s2)
          (omciDownloadWindowSizeLimit ?s2) (origImageLength ?s2) (isExtendedOmci ?s2) oo =
      (let (t, oo) = GetNextTid False oo in send_built c (ug_timeout env) CDefaultRetries False (response_pair t (up_CommChan ?s2) True) ()
        (serialize_ext c StartSoftwareDownloadRequestType ?q t) oo)" for c oo
    by (simp only: SendStartSoftwareDownload_def Let_def)
  obtain f cc where f: "up_request env (\<lambda>c. SendStartSoftwareDownload c (ug_timeout env) False (up_CommChan ?s2) (InactiveImageMeID ?s2)
          (omciDownloadWindowSizeLimit ?s2) (origImageLength ?s2) (isExtendedOmci ?s2)) ?s2 =
      Done (Inr (), ?s2\<lparr>up_cc := cc, up_sent := up_sent ?s2 + 1\<rparr>)" "idle cc" "cc_out cc = cc_out (up_cc ?s2) @ [TxFrame f]"
    "serialize_ext c StartSoftwareDownloadRequestType ?q (fst (GetNextTid False (up_cc ?s2))) = Inr f"
    using up_request_sent [OF assms(1) fresh req] by blast
  have len: "\<not> (int (length img) = 0 \<or> int (length img) > 0xFFFFFFFF)" using assms(5,6) by simp
  have "upg_step (env, UpgAdapterDl (Some True)) s = start_download env ?s1"
    using a assms(3,4) len upg_transitions(3)
    by (simp add: waitOnDownloadToAdapterReady_def upg_call_def upg_event_quiet upg_enter_def enterPreparingDL_def)
  moreover have "\<dots> = Done (?s2\<lparr>up_cc := cc, up_sent := up_sent ?s2 + 1, isEndSwDlOpen := True\<rparr>)"
    unfolding start_download_def Let_def f(1) by simp
  moreover have "loaded img (?s2\<lparr>up_cc := cc, up_sent := up_sent ?s2 + 1, isEndSwDlOpen := True\<rparr>)" using ld2 by (simp add: loaded_def)
  ultimately show ?thesis
    using f(2-4) l a by (intro exI [of _ "?s2\<lparr>up_cc := cc, up_sent := up_sent ?s2 + 1, isEndSwDlOpen := True\<rparr>"] exI [of _ f]) simp
qed

lemma me_ProcessingError_neq: "me_ProcessingError \<noteq> me_Success"
  by code_simp

lemma window_reply_outcome:
  assumes "sent_window e img m w j s" "j < window_count e img w" "w \<noteq> 255"
  obtains s' where "upg_step (env, UpgReceive (UpgOmci (window_reply e img m w j x))) s = Done s'" "up_cc s' = up_cc s"
    "x = me_Success \<and> j + 1 = window_count e img w \<Longrightarrow> up_fsm s' = UpgradeStFinalizeDL \<and> up_tasks s' = [DelayAndSendEndSwDl] \<and>
      delayEndSwDl s' \<and> imageCRC s' = aal5_crc img \<and> origImageLength s' = of_nat (length img) \<and> transferring e img m w s'"
    "x \<noteq> me_Success \<and> (x = me_ProcessingError \<longrightarrow> maxRetryAttemptsForDownloadWindow s = 0) \<Longrightarrow> download_aborted s'"
proof (cases "x \<noteq> me_Success \<and> (x = me_ProcessingError \<longrightarrow> maxRetryAttemptsForDownloadWindow s = 0)")
  case True
  with window_refused [OF assms(1), of x env] that show ?thesis by blast
next
  case False
  then consider "x = me_Success" "j + 1 = window_count e img w" | "x = me_Success" "j + 1 < window_count e img w"
    | "x = me_ProcessingError" "0 < unat (maxRetryAttemptsForDownloadWindow s)" "x \<noteq> me_Success"
    using assms(2) by (metis Suc_eq_plus1 Suc_lessI unat_gt_0 me_ProcessingError_neq)
  then show ?thesis
  proof cases
    case 1
    with image_accepted [OF assms(1), of env] that show ?thesis by (auto simp: window_answer_def)
  next
    case 2
    with window_accepted [OF assms(1), of env] that show ?thesis by (auto simp: window_answer_def)
  next
    case 3
    with window_repeated [OF assms, of env] that False show ?thesis by (auto simp: window_answer_def)
  qed
qed

text \<open>The end request, with the length and the check sum of the image.\<close>

lemma end_sent:
  assumes "calm_up env c" "transferring e img m w s" "up_fsm s = UpgradeStFinalizeDL" "up_tasks s = [DelayAndSendEndSwDl]" "delayEndSwDl s"
    "map_of (monitoredRequests (up_cc s)) (fst (GetNextTid False (up_cc s))) = None"
  shows "\<exists>s' f. run_steps upg_step (map (Pair env) [UpgRunTask 0, UpgRunTask 0]) s = Done s' \<and>
    up_fsm s' = UpgradeStWaitEndDL \<and> cc_out (up_cc s') = cc_out (up_cc s) @ [TxFrame f] \<and>
    serialize_ext c EndSoftwareDownloadRequestType (EndSoftwareDownloadRequest (class_id Me_SoftwareImage) m e (imageCRC s)
      (origImageLength s) 1 [0]) (fst (GetNextTid False (up_cc s))) = Inr f"
proof -
  let ?s = "s\<lparr>up_tasks := []\<rparr>"
  have t: "idle (up_cc ?s)" "InactiveImageMeID s = m" "isExtendedOmci s = e" "\<not> up_waitEnd s" using assms(2) by (simp_all add: transferring_def)
  have fresh: "map_of (monitoredRequests (up_cc ?s)) (fst (GetNextTid False (up_cc ?s))) = None" using assms(6) by simp
  let ?q = "EndSoftwareDownloadRequest (class_id Me_SoftwareImage) m e (imageCRC s) (origImageLength s) 1 [0]"
  have req: "SendEndSoftwareDownload c (ug_timeout env) False (up_CommChan s) m (origImageLength s) (imageCRC s) e oo =
      (let (t, oo) = GetNextTid False oo in send_built c (ug_timeout env) CDefaultRetries False (response_pair t (up_CommChan s) True) ()
        (serialize_ext c EndSoftwareDownloadRequestType ?q t) oo)" for c oo
    by (simp only: SendEndSoftwareDownload_def Let_def)
  obtain f cc where f: "up_request env (\<lambda>c. SendEndSoftwareDownload c (ug_timeout env) False (up_CommChan s) m (origImageLength s)
      (imageCRC s) e) ?s = Done (Inr (), ?s\<lparr>up_cc := cc, up_sent := up_sent ?s + 1\<rparr>)" "cc_out cc = cc_out (up_cc ?s) @ [TxFrame f]"
    "serialize_ext c EndSoftwareDownloadRequestType ?q (fst (GetNextTid False (up_cc ?s))) = Inr f"
    using up_request_sent [OF assms(1) t(1) fresh req] by blast
  have "run_steps upg_step (map (Pair env) [UpgRunTask 0, UpgRunTask 0]) s = send_end env ?s"
    using assms(4,5) by (cases "send_end env ?s") (simp_all add: run_upg_task_def delayAndSendEndSwDl_def)
  also have "\<dots> = Done (enterWaitEndDL (?s\<lparr>up_cc := cc, up_sent := up_sent ?s + 1, isEndSwDlOpen := False, up_fsm := UpgradeStWaitEndDL\<rparr>))"
    using f(1) t assms(3) upg_transitions(6) by (simp add: send_end_def upg_call_def upg_event_quiet upg_enter_def)
  finally show ?thesis using f(2,3) by (auto simp: enterWaitEndDL_def)
qed

text \<open>C10: The transfer of an image. When the image is available, has less than about 4 GB, and the ONU agrees to a window size other than 255, the image is sent
  window by window: every attempt transmits exactly the sections of its window, in order, numbered from 0 within
  the window, and only the last one asks for a response. After a success the next window follows, after one of the first
  three processing errors of the download the same window again; \<open>rs\<close> are the answers to all attempts but the
  last one, and \<open>x\<close> the answer to that. A processing error after three others aborts the
  download, and so does any other error at any time. The sections together are the image, padded with zeros in the baseline
  message set. When the last window is accepted the download is finished: with an identifier that is not in use the next
  frame is the request to end it, with the length and the CRC of the image.\<close>

theorem image_transferred:
  assumes "calm_up env c" "awaiting_image s" "ug_fileLen env (useAPIVersion43 s) = Inr (int (length img))"
    "ug_image env (useAPIVersion43 s) = Inr img" "img \<noteq> []" "length img + 1965 < 2 ^ 32" "w \<noteq> 255"
    "isExtendedOmci s = e" "InactiveImageMeID s = m"
    "count_list rs True < window_count e img w" "count_list rs False \<le> 3"
  shows "\<exists>s' f ws. run_steps upg_step (map (Pair env) (UpgAdapterDl (Some True) #
        UpgReceive (UpgOmci (StartSoftwareDownloadResponse (Layer (me_Success, m, w)))) # transfer_ops e img m w 0 rs @
        [UpgRunTask 0, UpgReceive (UpgOmci (window_reply e img m w (count_list rs True) x))])) s = Done s' \<and>
      cc_out (up_cc s') = cc_out (up_cc s) @ TxFrame f # map TxWindow ws \<and>
      serialize_ext c StartSoftwareDownloadRequestType (StartSoftwareDownloadRequest (class_id Me_SoftwareImage) m
        e (omciDownloadWindowSizeLimit s) (of_nat (length img)) 1 [0]) (fst (GetNextTid False (up_cc s))) = Inr f \<and>
      list_all2 (window_frames c e img m w) (attempts 0 rs @ [count_list rs True]) ws \<and>
      concat (map (image_section e img) [0..<section_count e img]) = padded e img \<and>
      (x = me_Success \<and> count_list rs True + 1 = window_count e img w \<longrightarrow>
        up_fsm s' = UpgradeStFinalizeDL \<and> imageCRC s' = aal5_crc img \<and>
        (map_of (monitoredRequests (up_cc s')) (fst (GetNextTid False (up_cc s'))) = None \<longrightarrow>
          (\<exists>s'' g. run_steps upg_step (map (Pair env) [UpgRunTask 0, UpgRunTask 0]) s' = Done s'' \<and>
            up_fsm s'' = UpgradeStWaitEndDL \<and> cc_out (up_cc s'') = cc_out (up_cc s') @ [TxFrame g] \<and>
            serialize_ext c EndSoftwareDownloadRequestType (EndSoftwareDownloadRequest (class_id Me_SoftwareImage) m e
              (aal5_crc img) (of_nat (length img)) 1 [0]) (fst (GetNextTid False (up_cc s'))) = Inr g))) \<and>
      (x \<noteq> me_Success \<and> (x = me_ProcessingError \<longrightarrow> count_list rs False = 3) \<longrightarrow> download_aborted s')"
proof -
  let ?k = "count_list rs True"
  obtain s1 f where s1: "upg_step (env, UpgAdapterDl (Some True)) s = Done s1" "loaded img s1" "isExtendedOmci s1 = e"
      "InactiveImageMeID s1 = m" "up_fsm s1 = UpgradeStPreparingDL" "abortRequested s1 = ImageState_NO_ERROR" "idle (up_cc s1)"
      "up_loop s1" "\<not> up_stuck s1" "up_blocked s1 = []" "\<not> up_waitEnd s1" "up_tasks s1 = []"
    and r1: "maxRetryAttemptsForDownloadWindow s1 = cMaxRetryAttemptsForDownloadWindow"
    and f: "cc_out (up_cc s1) = cc_out (up_cc s) @ [TxFrame f]"
      "serialize_ext c StartSoftwareDownloadRequestType (StartSoftwareDownloadRequest (class_id Me_SoftwareImage) m
        e (omciDownloadWindowSizeLimit s) (of_nat (length img)) 1 [0]) (fst (GetNextTid False (up_cc s))) = Inr f"
    using download_prepared [OF assms(1-6)] unfolding assms(8,9) by blast
  obtain s2 where s2: "upg_step (env, UpgReceive (UpgOmci (StartSoftwareDownloadResponse (Layer (me_Success, m, w))))) s1 = Done s2"
      "next_window e img m w 0 s2" "up_cc s2 = up_cc s1" "maxRetryAttemptsForDownloadWindow s2 = maxRetryAttemptsForDownloadWindow s1"
    using start_accepted [OF s1(2-4) assms(7) s1(5-12)] by blast
  have rs: "0 + ?k < window_count e img w" "count_list rs False \<le> unat (maxRetryAttemptsForDownloadWindow s2)"
    using assms(10,11) s2(4) r1 by (simp_all add: cMaxRetryAttemptsForDownloadWindow_def)
  obtain s3 ws where s3: "run_steps upg_step (map (Pair env) (transfer_ops e img m w 0 rs)) s2 = Done s3"
      "next_window e img m w (0 + ?k) s3"
      "unat (maxRetryAttemptsForDownloadWindow s3) = unat (maxRetryAttemptsForDownloadWindow s2) - count_list rs False"
      "list_all2 (window_frames c e img m w) (attempts 0 rs) ws" "cc_out (up_cc s3) = cc_out (up_cc s2) @ map TxWindow ws"
    using transfer_calm [OF assms(1,7) s2(2) rs] by blast
  obtain s4 fs where s4: "upg_step (env, UpgRunTask 0) s3 = Done s4" "sent_window e img m w ?k s4" "window_frames c e img m w ?k fs"
      "cc_out (up_cc s4) = cc_out (up_cc s3) @ [TxWindow fs]"
      "maxRetryAttemptsForDownloadWindow s4 = maxRetryAttemptsForDownloadWindow s3"
    using window_sent_calm [OF assms(1) s3(2) rs(1)] by auto
  obtain s5 where s5: "upg_step (env, UpgReceive (UpgOmci (window_reply e img m w ?k x))) s4 = Done s5" "up_cc s5 = up_cc s4"
    "x = me_Success \<and> ?k + 1 = window_count e img w \<Longrightarrow> up_fsm s5 = UpgradeStFinalizeDL \<and> up_tasks s5 = [DelayAndSendEndSwDl] \<and>
      delayEndSwDl s5 \<and> imageCRC s5 = aal5_crc img \<and> origImageLength s5 = of_nat (length img) \<and> transferring e img m w s5"
    "x \<noteq> me_Success \<and> (x = me_ProcessingError \<longrightarrow> count_list rs False = 3) \<Longrightarrow> download_aborted s5"
  proof -
    have z: "count_list rs False = 3 \<Longrightarrow> maxRetryAttemptsForDownloadWindow s4 = 0"
      using s4(5) s3(3) s2(4) r1 by (simp add: cMaxRetryAttemptsForDownloadWindow_def unat_eq_zero)
    show ?thesis
      using that window_reply_outcome [OF s4(2) rs(1) [unfolded add_0] assms(7), of env x] z by blast
  qed
  have sent: "cc_out (up_cc s5) = cc_out (up_cc s) @ TxFrame f # map TxWindow (ws @ [fs])"
    using s5(2) s4(4) s3(5) s2(3) f(1) by simp
  have ws: "list_all2 (window_frames c e img m w) (attempts 0 rs @ [?k]) (ws @ [fs])"
    using s3(4) s4(3) by (simp add: list_all2_appendI)
  have run: "run_steps upg_step (map (Pair env) (UpgAdapterDl (Some True) #
        UpgReceive (UpgOmci (StartSoftwareDownloadResponse (Layer (me_Success, m, w)))) # transfer_ops e img m w 0 rs @
        [UpgRunTask 0, UpgReceive (UpgOmci (window_reply e img m w ?k x))])) s = Done s5"
    using s1(1) s2(1) s3(1) s4(1) s5(1) by (simp add: run_steps_append)
  show ?thesis
    using run sent f(2) ws sections_concat s5(3,4) end_sent [OF assms(1), of e img m w s5]
    by (intro exI [of _ s5] exI [of _ f] exI [of _ "ws @ [fs]"]) auto
qed

definition sample_image :: bytes where "sample_image = replicate 40 7"

definition sample_up_env :: upg_env where
  "sample_up_env = \<lparr> ug_ctx = (\<lambda>n. sample_ctx), ug_timeout = 3, ug_fileLen = (\<lambda>v. Inr 40), ug_image = (\<lambda>v. Inr sample_image),
     ug_octets = (\<lambda>v. None) \<rparr>"

definition sample_upg :: "upg_state \<Rightarrow> sw_upg" where
  "sample_upg st = (NewOnuUpgradeFsm 9 sample_cc (Onu_Entry.sample_entry\<lparr>oe_pers := (oe_pers Onu_Entry.sample_entry)\<lparr>PersIsExtOmciSupported := False\<rparr>\<rparr>))
     \<lparr>up_fsm := st, isWaitingForAdapterDlResponse := True, up_loop := True, InactiveImageMeID := 1\<rparr>"

lemma sample_up_calm: "calm_up sample_up_env sample_ctx"
  using sample_ctx_calm by (simp add: calm_up_def sample_up_env_def)

lemma sample_upg_waits:
  "awaiting_image (sample_upg UpgradeStWaitingAdapterDL)" "isExtendedOmci (sample_upg UpgradeStWaitingAdapterDL) = False"
  "InactiveImageMeID (sample_upg UpgradeStWaitingAdapterDL) = 1"
  using sample_cc_ok
  by (simp_all add: awaiting_image_def sample_upg_def NewOnuUpgradeFsm_def Let_def onu_entry.defs section_size_def
      cOmciDownloadSectionSizeBaseLine_def)

abbreviation sample_transfer :: "bool list \<Rightarrow> u8 \<Rightarrow> sw_upg run" where
  "sample_transfer rs x \<equiv> run_steps upg_step (map (Pair sample_up_env) (UpgAdapterDl (Some True) #
      UpgReceive (UpgOmci (StartSoftwareDownloadResponse (Layer (me_Success, 1, 0)))) #
      transfer_ops False sample_image 1 0 0 rs @
      [UpgRunTask 0, UpgReceive (UpgOmci (window_reply False sample_image 1 0 (count_list rs True) x))])) (sample_upg UpgradeStWaitingAdapterDL)"

lemma sample_transfer_fresh:
  "case sample_transfer [True, False] me_Success of
     Done s \<Rightarrow> map_of (monitoredRequests (up_cc s)) (fst (GetNextTid False (up_cc s))) = None | _ \<Rightarrow> False"
  by code_simp

text \<open>A transfer in which the second window is repeated, to its end request, and one that is given up.\<close>

theorem image_transferred_witness:
  "(\<exists>s' s'' f ws g. sample_transfer [True, False] me_Success = Done s' \<and>
     list_all2 (window_frames sample_ctx False sample_image 1 0) [0, 1, 1] ws \<and>
     run_steps upg_step (map (Pair sample_up_env) [UpgRunTask 0, UpgRunTask 0]) s' = Done s'' \<and>
     up_fsm s'' = UpgradeStWaitEndDL \<and> cc_out (up_cc s'') = cc_out (up_cc (sample_upg UpgradeStWaitingAdapterDL)) @
       TxFrame f # map TxWindow ws @ [TxFrame g]) \<and>
   (\<exists>s'. sample_transfer [False, False, False] me_ProcessingError = Done s' \<and> download_aborted s')"
proof -
  let ?s = "sample_upg UpgradeStWaitingAdapterDL"
  note h = sample_upg_waits
  have i: "length sample_image = 40" "sample_image \<noteq> []" by (simp_all add: sample_image_def)
  have env: "ug_fileLen sample_up_env (useAPIVersion43 ?s) = Inr (int (length sample_image))"
    "ug_image sample_up_env (useAPIVersion43 ?s) = Inr sample_image" "length sample_image + 1965 < 2 ^ 32" "(0 :: u8) \<noteq> 255"
    by (simp_all add: sample_up_env_def i)
  have wc: "window_count False sample_image 0 = 2" by (simp add: window_count_def section_count_def section_size_def i)
  note tr = image_transferred [OF sample_up_calm h(1) env(1,2) i(2) env(3,4) h(2,3), unfolded wc]
  obtain s' f ws where r: "sample_transfer [True, False] me_Success = Done s'"
      "cc_out (up_cc s') = cc_out (up_cc ?s) @ TxFrame f # map TxWindow ws"
      "list_all2 (window_frames sample_ctx False sample_image 1 0) [0, 1, 1] ws"
    and d: "map_of (monitoredRequests (up_cc s')) (fst (GetNextTid False (up_cc s'))) = None \<longrightarrow>
          (\<exists>s'' g. run_steps upg_step (map (Pair sample_up_env) [UpgRunTask 0, UpgRunTask 0]) s' = Done s'' \<and>
            up_fsm s'' = UpgradeStWaitEndDL \<and> cc_out (up_cc s'') = cc_out (up_cc s') @ [TxFrame g])"
    using tr [of "[True, False]" me_Success] by auto
  obtain s'' g where e: "run_steps upg_step (map (Pair sample_up_env) [UpgRunTask 0, UpgRunTask 0]) s' = Done s''"
    "up_fsm s'' = UpgradeStWaitEndDL" "cc_out (up_cc s'') = cc_out (up_cc s') @ [TxFrame g]"
    using sample_transfer_fresh d unfolding r(1) by auto
  have "\<exists>s'. sample_transfer [False, False, False] me_ProcessingError = Done s' \<and> download_aborted s'"
    using tr [of "[False, False, False]" me_ProcessingError] me_ProcessingError_neq by auto
  moreover have "cc_out (up_cc s'') = cc_out (up_cc ?s) @ TxFrame f # map TxWindow ws @ [TxFrame g]" using r(2) e(3) by simp
  ultimately show ?thesis using r(1,3) e(1,2) by blast
qed

end
