(* ===== verification/Self_Test.thy ===== *)
theory Self_Test
  imports Mib_Sync Complex_Main
begin

text \<open>
  The self test of the optical interface, \<^verbatim>\<open>omcitst/omci_self_test_handler.go\<close>, and the request that tests the OMCI
  channel, \<^verbatim>\<open>omcitst/omci_test_request.go\<close>. Every self test has a control block with a state machine of its own; the
  blocks that were created are a list and a reference is a position in it. Every event is raised by a goroutine, and a
  goroutine waits for the next message of the ONU: both are tasks. A channel of answers has room for as many values
  as its capacity, and one more while its reader waits; a goroutine that finds no room blocks for ever. The values of
  the answer are exact; the rounding of \<^verbatim>\<open>float32\<close> is not modelled.
\<close>

subsection \<open>Data\<close>

datatype st_evt = selfTestEventTestRequest | selfTestEventTestResponseSuccess | selfTestEventTestResultSuccess | selfTestEventAbort

datatype st_state = selfTestStNull | selfTestStHandleSelfTestReq | selfTestStHandleSelfTestResp | selfTestStHandleTestResult

definition self_test_events :: "(st_evt, st_state) fsm_events" where
  "self_test_events =
    [(selfTestEventTestRequest, [selfTestStNull], selfTestStHandleSelfTestReq),
     (selfTestEventTestResponseSuccess, [selfTestStHandleSelfTestReq], selfTestStHandleSelfTestResp),
     (selfTestEventTestResultSuccess, [selfTestStHandleSelfTestResp], selfTestStNull),
     (selfTestEventAbort, [selfTestStHandleSelfTestReq, selfTestStHandleSelfTestResp, selfTestStHandleTestResult, selfTestStNull],
       selfTestStNull)]"

datatype gv_request = GetOnuOpticalInfo | GetOtherValue

datatype gv_reason = GvReasonUndefined | GvUnsupported | GvInternalError | GvTimeout

record optical_info =
  PowerFeedVoltage :: rat
  ReceivedOpticalPower :: rat
  MeanOpticalLaunchPower :: rat
  LaserBiasCurrent :: rat
  Temperature :: rat

datatype gv_response = GvError gv_reason | GvOptical optical_info

record optical_result =
  or_PowerFeedVoltage :: u16
  or_ReceivedOpticalPower :: u16
  or_MeanOpticalLaunch :: u16
  or_LaserBiasCurrent :: u16
  or_Temperature :: u16

text \<open>A message of the ONU: the layer of a response may be missing or have another type.\<close>

datatype st_message =
    TestResponse u16 "(u8 \<times> u16) layer"
  | TestResult "optical_result layer"
  | StOtherOmci

datatype st_input = StMessage st_message | StTestMsg | StChannelClosed | StExpired

text \<open>\<open>sf_room\<close> is how many more values the channel of the answers takes, \<open>sf_answers\<close> what was sent to it.\<close>

record fsmCb =
  sf_fsm :: st_state
  sf_CommChan :: nat
  sf_request :: gv_request
  sf_entityID :: u16
  sf_cap :: nat
  sf_room :: nat
  sf_answers :: "gv_response list"

datatype st_task = StEvent nat st_evt "u16 option" | StStart u16 | StWait nat u16 | StStopped nat

record self_test =
  st_db :: OnuDeviceDB
  st_cmn :: cmn_store
  st_cc :: OmciCC
  selfTestFsmMap :: "(u16 \<times> nat) list"
  SelfTestHandlerActive :: bool
  st_listening :: bool
  st_cbs :: "fsmCb list"
  st_tasks :: "st_task list"
  st_blocked :: nat
  st_sent :: nat

record st_env =
  se_ctx :: "nat \<Rightarrow> send_ctx"
  se_timeout :: int

abbreviation st_go :: "st_task \<Rightarrow> self_test \<Rightarrow> self_test" where
  "st_go t s \<equiv> s\<lparr>st_tasks := st_tasks s @ [t]\<rparr>"

abbreviation st_cb :: "self_test \<Rightarrow> nat \<Rightarrow> fsmCb" where
  "st_cb s i \<equiv> st_cbs s ! i"

definition st_update :: "nat \<Rightarrow> (fsmCb \<Rightarrow> fsmCb) \<Rightarrow> self_test \<Rightarrow> self_test" where
  "st_update i f s = s\<lparr>st_cbs := (st_cbs s)[i := f (st_cb s i)]\<rparr>"

subsection \<open>Answers\<close>

definition getMeClassID :: "gv_request \<Rightarrow> u16 option" where
  "getMeClassID r = (case r of GetOnuOpticalInfo \<Rightarrow> Some (class_id Me_AniG) | GetOtherValue \<Rightarrow> None)"

definition triggerFsmEvent :: "nat \<Rightarrow> st_evt \<Rightarrow> u16 option \<Rightarrow> self_test \<Rightarrow> self_test" where
  "triggerFsmEvent i ev arg s = st_go (StEvent i ev arg) s"

text \<open>A value for the channel of the answers; the flag tells whether the goroutine goes on.\<close>

definition st_push :: "nat \<Rightarrow> gv_response \<Rightarrow> self_test \<Rightarrow> bool \<times> self_test" where
  "st_push i r s =
     (if sf_room (st_cb s i) = 0 then (False, s\<lparr>st_blocked := st_blocked s + 1\<rparr>)
      else (True, st_update i (\<lambda>cb. cb\<lparr>sf_room := sf_room cb - 1, sf_answers := sf_answers cb @ [r]\<rparr>) s))"

definition selfTestRequestComplete :: "gv_request \<Rightarrow> self_test \<Rightarrow> self_test" where
  "selfTestRequestComplete r s =
     (case getMeClassID r of None \<Rightarrow> s | Some c \<Rightarrow> s\<lparr>selfTestFsmMap := AList.delete c (selfTestFsmMap s)\<rparr>)"

definition submitFailureGetValueResponse :: "nat \<Rightarrow> gv_reason \<Rightarrow> self_test \<Rightarrow> bool \<times> self_test" where
  "submitFailureGetValueResponse i reason s =
     (case getMeClassID (sf_request (st_cb s i)) of
        None \<Rightarrow> (True, s)
      | Some c \<Rightarrow> st_push i (GvError reason) (s\<lparr>selfTestFsmMap := AList.delete c (selfTestFsmMap s)\<rparr>))"

definition st_fail :: "nat \<Rightarrow> gv_reason \<Rightarrow> self_test \<Rightarrow> self_test" where
  "st_fail i reason s = snd (submitFailureGetValueResponse i reason (triggerFsmEvent i selfTestEventAbort None s))"

subsection \<open>Entering the states\<close>

definition selfTestFsmHandleSelfTestRequest :: "st_env \<Rightarrow> u16 \<Rightarrow> self_test \<Rightarrow> self_test run" where
  "selfTestFsmHandleSelfTestRequest env classID s =
     (case map_of (selfTestFsmMap s) classID of
        None \<Rightarrow> Done s
      | Some i \<Rightarrow>
          bind_run (GetSortedInstKeys (st_db s) classID (st_cmn s)) (\<lambda>instKeys.
            case instKeys of
              [] \<Rightarrow> Done (st_fail i GvInternalError s)
            | inst # rest \<Rightarrow>
                let entityID = (if sf_entityID (st_cb s i) = 0 then inst else sf_entityID (st_cb s i)) in
                bind_run (SendSelfTestReq (se_ctx env (st_sent s)) classID entityID (se_timeout env) False
                    (sf_CommChan (st_cb s i)) (st_cc s)) (\<lambda>(r, sr).
                  let s = s\<lparr>st_cc := sup_state sr, st_sent := st_sent s + 1\<rparr> in
                  Done (case r of Inl e \<Rightarrow> st_fail i GvInternalError s | Inr x \<Rightarrow> st_go (StStart classID) s))))"

definition selfTestFsmHandleSelfTestResponse :: "u16 \<Rightarrow> self_test \<Rightarrow> self_test" where
  "selfTestFsmHandleSelfTestResponse classID s = st_go (StStart classID) s"

text \<open>The class is the argument of the event; reading a missing argument panics.\<close>

definition st_enter :: "st_env \<Rightarrow> u16 option \<Rightarrow> st_state \<Rightarrow> self_test \<Rightarrow> self_test run" where
  "st_enter env arg st s =
     (case st of
        selfTestStHandleSelfTestReq \<Rightarrow>
          (case arg of None \<Rightarrow> Fatal ''index out of range'' | Some c \<Rightarrow> selfTestFsmHandleSelfTestRequest env c s)
      | selfTestStHandleSelfTestResp \<Rightarrow>
          (case arg of None \<Rightarrow> Fatal ''index out of range'' | Some c \<Rightarrow> Done (selfTestFsmHandleSelfTestResponse c s))
      | _ \<Rightarrow> Done s)"

definition st_event :: "st_env \<Rightarrow> nat \<Rightarrow> st_evt \<Rightarrow> u16 option \<Rightarrow> self_test \<Rightarrow> self_test run" where
  "st_event env i ev arg s =
     bind_run (fsm_event self_test_events (\<lambda>s. sf_fsm (st_cb s i)) (\<lambda>st. st_update i (\<lambda>cb. cb\<lparr>sf_fsm := st\<rparr>))
        (st_enter env arg) ev s) (\<lambda>(e, s). Done s)"

subsection \<open>Messages of the ONU\<close>

definition st_release :: "u16 \<Rightarrow> self_test \<Rightarrow> self_test" where
  "st_release t s = s\<lparr>st_cc := ReleaseTid t (st_cc s)\<rparr>"

definition handleOmciTestResponse :: "nat \<Rightarrow> u16 \<Rightarrow> u16 \<Rightarrow> (u8 \<times> u16) layer \<Rightarrow> self_test \<Rightarrow> self_test" where
  "handleOmciTestResponse i classID t l s =
     (case l of
        Layer (result, cls) \<Rightarrow>
          if result = me_Success \<and> cls = classID then triggerFsmEvent i selfTestEventTestResponseSuccess (Some classID) s
          else st_fail i GvUnsupported (st_release t s)
      | _ \<Rightarrow> st_fail i GvInternalError (st_release t s))"

text \<open>Volts in steps of 20 mV, powers in steps of 0.002 dB above a microwatt, a current in steps of 2 uA, and degrees
  in steps of 1/256.\<close>

definition optical_values :: "optical_result \<Rightarrow> optical_info" where
  "optical_values r =
     \<lparr> PowerFeedVoltage = of_int (sint (TwosComplementToSignedInt16 (or_PowerFeedVoltage r))) / 50,
       ReceivedOpticalPower = of_int (sint (TwosComplementToSignedInt16 (or_ReceivedOpticalPower r))) / 500 - 30,
       MeanOpticalLaunchPower = of_int (sint (TwosComplementToSignedInt16 (or_MeanOpticalLaunch r))) / 500 - 30,
       LaserBiasCurrent = of_int (uint (or_LaserBiasCurrent r)) / 500000 * 1000,
       Temperature = of_int (sint (TwosComplementToSignedInt16 (or_Temperature r))) / 256 \<rparr>"

definition handleOmciTestResult :: "nat \<Rightarrow> u16 \<Rightarrow> optical_result layer \<Rightarrow> self_test \<Rightarrow> self_test" where
  "handleOmciTestResult i classID l s =
     (case l of
        Layer r \<Rightarrow>
          if classID \<noteq> class_id Me_AniG then st_fail i GvInternalError s
          else
            let (ok, s) = st_push i (GvOptical (optical_values r)) (triggerFsmEvent i selfTestEventTestResultSuccess None s)
            in if ok then selfTestRequestComplete (sf_request (st_cb s i)) s else s
      | _ \<Rightarrow> st_fail i GvInternalError s)"

definition st_handleOmciMessage :: "nat \<Rightarrow> u16 \<Rightarrow> st_message \<Rightarrow> self_test \<Rightarrow> self_test" where
  "st_handleOmciMessage i classID m s =
     (case m of
        TestResponse t l \<Rightarrow> handleOmciTestResponse i classID t l s
      | TestResult l \<Rightarrow> handleOmciTestResult i classID l s
      | StOtherOmci \<Rightarrow> st_fail i GvUnsupported s)"

text \<open>The goroutine that waits: it looks the control block up and then reads one message. A closed channel yields a
  message of type zero, and the function goes on with it after its first failure.\<close>

definition handleOmciResponse :: "u16 \<Rightarrow> self_test \<Rightarrow> self_test" where
  "handleOmciResponse classID s =
     (case map_of (selfTestFsmMap s) classID of None \<Rightarrow> s | Some i \<Rightarrow> st_go (StWait i classID) s)"

definition st_unknown_type :: "nat \<Rightarrow> self_test \<Rightarrow> self_test" where
  "st_unknown_type i s = snd (submitFailureGetValueResponse i GvUnsupported s)"

definition response_received :: "nat \<Rightarrow> u16 \<Rightarrow> st_input \<Rightarrow> self_test \<Rightarrow> self_test" where
  "response_received i classID m s =
     (case m of
        StMessage m \<Rightarrow> st_handleOmciMessage i classID m s
      | StTestMsg \<Rightarrow> st_unknown_type i s
      | StChannelClosed \<Rightarrow>
          (let (ok, s) = submitFailureGetValueResponse i GvInternalError (triggerFsmEvent i selfTestEventAbort None s)
           in if ok then st_unknown_type i s else s)
      | StExpired \<Rightarrow> st_fail i GvTimeout s)"

subsection \<open>The module\<close>

definition st_Start :: "self_test \<Rightarrow> self_test" where
  "st_Start s = (if SelfTestHandlerActive s then s else s\<lparr>SelfTestHandlerActive := True, st_listening := True\<rparr>)"

definition NewSelfTestMsgHandlerCb :: "OnuDeviceDB \<Rightarrow> cmn_store \<Rightarrow> OmciCC \<Rightarrow> self_test" where
  "NewSelfTestMsgHandlerCb db h cc =
     st_Start \<lparr> st_db = db, st_cmn = h, st_cc = cc, selfTestFsmMap = [], SelfTestHandlerActive = False, st_listening = False,
       st_cbs = [], st_tasks = [], st_blocked = 0, st_sent = 0 \<rparr>"

text \<open>The clean-up hands a block to the goroutine that waits for it, and answers itself where none waits.\<close>

fun stop_entries :: "(u16 \<times> nat) list \<Rightarrow> self_test \<Rightarrow> self_test run" where
  "stop_entries [] s = Done s"
| "stop_entries ((c, i) # es) s =
     (if StWait i c \<in> set (st_tasks s)
      then stop_entries es (st_go (StStopped i) (s\<lparr>st_tasks := remove1 (StWait i c) (st_tasks s)\<rparr>))
      else
        let (ok, s) = submitFailureGetValueResponse i GvReasonUndefined (triggerFsmEvent i selfTestEventAbort None s)
        in if ok then stop_entries es s else Deadlock)"

definition waitForStopSelfTestModuleSignal :: "self_test \<Rightarrow> self_test run" where
  "waitForStopSelfTestModuleSignal s =
     bind_run (stop_entries (selfTestFsmMap s) s) (\<lambda>s. Done (s\<lparr>selfTestFsmMap := []\<rparr>))"

text \<open>The signal blocks for ever when no goroutine listens; the end of the clean-up is awaited.\<close>

definition st_Stop :: "self_test \<Rightarrow> self_test run" where
  "st_Stop s =
     (if \<not> SelfTestHandlerActive s then Done s
      else if \<not> st_listening s then Deadlock
      else waitForStopSelfTestModuleSignal (s\<lparr>st_listening := False, SelfTestHandlerActive := False\<rparr>))"

definition SetSelfTestHandlerIsRunning :: "bool \<Rightarrow> self_test \<Rightarrow> self_test" where
  "SetSelfTestHandlerIsRunning active s = s\<lparr>SelfTestHandlerActive := active\<rparr>"

definition GetSelfTestHandlerIsRunning :: "self_test \<Rightarrow> bool" where
  "GetSelfTestHandlerIsRunning s = SelfTestHandlerActive s"

definition initiateNewSelfTestFsm :: "gv_request \<Rightarrow> nat \<Rightarrow> u16 \<Rightarrow> u16 \<Rightarrow> nat \<Rightarrow> self_test \<Rightarrow> self_test" where
  "initiateNewSelfTestFsm r ch classID entityID cap s =
     (let i = length (st_cbs s);
          cb = \<lparr> sf_fsm = selfTestStNull, sf_CommChan = ch, sf_request = r, sf_entityID = entityID, sf_cap = cap,
                 sf_room = cap + 1, sf_answers = [] \<rparr>
      in triggerFsmEvent i selfTestEventTestRequest (Some classID)
           (s\<lparr>st_cbs := st_cbs s @ [cb], selfTestFsmMap := AList.update classID i (selfTestFsmMap s)\<rparr>))"

definition SelfTestRequestStartForInstance ::
    "gv_request \<Rightarrow> u16 \<Rightarrow> nat \<Rightarrow> nat \<Rightarrow> self_test \<Rightarrow> string option \<times> self_test" where
  "SelfTestRequestStartForInstance r entityID ch cap s =
     (if \<not> SelfTestHandlerActive s then (Some ''self-test-fsm-not-active'', s)
      else case getMeClassID r of
        None \<Rightarrow> (Some ''unsupported me class id for self test'', s)
      | Some c \<Rightarrow>
          if map_of (selfTestFsmMap s) c \<noteq> None then (Some ''self-test-already-in-progress'', s)
          else (None, initiateNewSelfTestFsm r ch c entityID cap s))"

definition SelfTestRequestStart :: "gv_request \<Rightarrow> nat \<Rightarrow> nat \<Rightarrow> self_test \<Rightarrow> string option \<times> self_test" where
  "SelfTestRequestStart r ch cap s = SelfTestRequestStartForInstance r 0 ch cap s"

text \<open>A goroutine runs: \<open>m\<close> is what the wait ends with.\<close>

definition run_st_task :: "st_env \<Rightarrow> st_input \<Rightarrow> st_task \<Rightarrow> self_test \<Rightarrow> self_test run" where
  "run_st_task env m t s =
     (case t of
        StEvent i ev arg \<Rightarrow> st_event env i ev arg s
      | StStart c \<Rightarrow> Done (handleOmciResponse c s)
      | StWait i c \<Rightarrow> Done (response_received i c m s)
      | StStopped i \<Rightarrow> Done (st_fail i GvReasonUndefined s))"

text \<open>The reader of a channel with capacity may leave, and the capacity remains; the reader of a channel without one stays.\<close>

definition st_leave :: "nat \<Rightarrow> self_test \<Rightarrow> self_test" where
  "st_leave i s =
     (if i < length (st_cbs s) \<and> sf_answers (st_cb s i) = [] \<and> 0 < sf_cap (st_cb s i) then st_update i (\<lambda>cb. cb\<lparr>sf_room := sf_cap cb\<rparr>) s else s)"

datatype st_op = StRequest gv_request u16 nat nat | StRun st_input nat | StStop | StRestart | StLeave nat

fun st_step :: "st_env \<times> st_op \<Rightarrow> self_test \<Rightarrow> self_test run" where
  "st_step (env, StRequest r inst ch cap) s = Done (snd (SelfTestRequestStartForInstance r inst ch cap s))"
| "st_step (env, StRun m n) s =
     (if n < length (st_tasks s)
      then run_st_task env m (st_tasks s ! n) (s\<lparr>st_tasks := take n (st_tasks s) @ drop (Suc n) (st_tasks s)\<rparr>) else Done s)"
| "st_step (env, StStop) s = st_Stop s"
| "st_step (env, StRestart) s = Done (st_Start s)"
| "st_step (env, StLeave i) s = Done (st_leave i s)"

subsection \<open>The test of the OMCI channel\<close>

record OmciTestRequest =
  ot_cc :: "OmciCC option"
  ot_verifyDone :: "bool list"
  ot_txSeqNo :: u16
  ot_extended :: bool
  ot_started :: bool
  ot_result :: bool
  ot_exclusiveCc :: bool
  ot_allowFailure :: bool

definition NewOmciTestRequest :: "OmciCC option \<Rightarrow> bool \<Rightarrow> bool \<Rightarrow> bool \<Rightarrow> OmciTestRequest" where
  "NewOmciTestRequest cc extended exclusive allowFailure =
     \<lparr> ot_cc = cc, ot_verifyDone = [], ot_txSeqNo = 0, ot_extended = extended, ot_started = False, ot_result = False,
       ot_exclusiveCc = exclusive, ot_allowFailure = allowFailure \<rparr>"

definition fn_ReceiveOmciVerifyResponse :: nat where "fn_ReceiveOmciVerifyResponse = 2"
definition CTestRequestOmciTimeout :: int where "CTestRequestOmciTimeout = 5"

definition onu2g_get :: ParamData where
  "onu2g_get = \<lparr> pd_EntityID = 0, pd_Attributes =
     [(''EquipmentId'', AvOctets []), (''OpticalNetworkUnitManagementAndControlChannelOmccVersion'', AvInt 0)] \<rparr>"

definition createOnu2gGet :: "send_ctx \<Rightarrow> u16 \<Rightarrow> OmciTestRequest \<Rightarrow> (string + bytes) \<times> OmciTestRequest" where
  "createOnu2gGet c t o1 =
     (case lib_new (sc_lib c) (class_id Me_Onu2G) onu2g_get of
        Some e \<Rightarrow> (Inl e, o1)
      | None \<Rightarrow>
          let m = \<lparr> GetClassID = class_id Me_Onu2G, GetEntityID = pd_EntityID onu2g_get,
                    GetAttributes = pd_Attributes onu2g_get \<rparr> in
          (case lib_encode (sc_lib c) m GetRequestType t False (if ot_extended o1 then ExtendedIdent else BaselineIdent) of
             Inl e \<Rightarrow> (Inl e, o1)
           | Inr pkt \<Rightarrow> (Inr pkt, o1\<lparr>ot_txSeqNo := t\<rparr>)))"

text \<open>An error of the encoding is ignored; an empty packet is sent then.\<close>

definition PerformOmciTest :: "send_ctx \<Rightarrow> OmciTestRequest \<Rightarrow> OmciTestRequest run" where
  "PerformOmciTest c o1 =
     (case ot_cc o1 of
        None \<Rightarrow> Done o1
      | Some oo \<Rightarrow>
          let (t, oo) = GetNextTid False oo;
              (r, o1) = createOnu2gGet c t o1;
              onu2gGet = (case r of Inl e \<Rightarrow> [] | Inr p \<Rightarrow> p);
              cb = \<lparr> CbEntry = \<lparr> CbRespChannel = 0, CbFunction = Some fn_ReceiveOmciVerifyResponse, FramePrint = True \<rparr>, CbKey = t \<rparr> in
          bind_run (Send (sc_env c) onu2gGet CTestRequestOmciTimeout CDefaultRetries False cb (sc_ocs c) oo) (\<lambda>r.
            Done (o1\<lparr>ot_cc := Some (case r of Inl (e, oo) \<Rightarrow> oo | Inr sr \<Rightarrow> sup_state sr)\<rparr>)))"

definition ReceiveOmciVerifyResponse :: "u16 \<Rightarrow> u8 \<Rightarrow> u8 \<Rightarrow> OmciTestRequest \<Rightarrow> (string option \<times> OmciTestRequest) run" where
  "ReceiveOmciVerifyResponse t msgType ident o1 =
     (let refuse = (\<lambda>e. Done (Some e, o1\<lparr>ot_verifyDone := ot_verifyDone o1 @ [False]\<rparr>)) in
      if t \<noteq> ot_txSeqNo o1 then refuse ''unexpected TransCorrId''
      else if msgType \<noteq> GetResponseType then refuse ''unexpected MessageType''
      else if ot_extended o1 \<and> ident \<noteq> ExtendedIdent then refuse ''unexpected DeviceIdentifier''
      else (case ot_cc o1 of
              None \<Rightarrow> Fatal ''invalid memory address or nil pointer dereference''
            | Some oo \<Rightarrow>
                bind_run (if GetMonitoredRequest t oo \<noteq> None then SetChMonitoredRequest t True oo else Done oo) (\<lambda>oo.
                  Done (None, o1\<lparr>ot_cc := Some oo, ot_result := True, ot_verifyDone := ot_verifyDone o1 @ [True]\<rparr>))))"

end
