(* ===== verification/Self_Props.thy ===== *)
theory Self_Props
  imports Self_Test
begin

text \<open>
  An accepted self test is answered at most once, and while the module is not stopped the goroutine that carries it is not lost, unless
  the ONU repeats its first response; then the self test is never answered.
\<close>

interpretation st_table: fsm_table self_test_events selfTestStNull
    "[selfTestStNull, selfTestStHandleSelfTestReq, selfTestStHandleSelfTestResp, selfTestStHandleTestResult]"
    "\<lambda>_. [selfTestEventAbort]" selfTestStNull
proof
  show "fsm_det self_test_events" by code_simp
  show "fsm_states_ok [selfTestStNull, selfTestStHandleSelfTestReq, selfTestStHandleSelfTestResp, selfTestStHandleTestResult]
      self_test_events" by code_simp
  fix s assume "s \<in> set [selfTestStNull, selfTestStHandleSelfTestReq, selfTestStHandleSelfTestResp, selfTestStHandleTestResult]"
  show "foldl (\<lambda>o1 ev. Option.bind o1 (fsm_transition self_test_events ev)) (Some s) [selfTestEventAbort] = Some selfTestStNull"
    by (cases s; simp add: fsm_transition_def fsm_matches_def self_test_events_def)
qed simp

lemma st_transitions [simp]:
  "fsm_transition self_test_events selfTestEventTestRequest st =
     (if st = selfTestStNull then Some selfTestStHandleSelfTestReq else None)"
  "fsm_transition self_test_events selfTestEventTestResponseSuccess st =
     (if st = selfTestStHandleSelfTestReq then Some selfTestStHandleSelfTestResp else None)"
  "fsm_transition self_test_events selfTestEventTestResultSuccess st =
     (if st = selfTestStHandleSelfTestResp then Some selfTestStNull else None)"
  "fsm_transition self_test_events selfTestEventAbort st = Some selfTestStNull"
  by (cases st; simp add: fsm_transition_def fsm_matches_def self_test_events_def)+

subsection \<open>Who answers\<close>

declare class_id.simps [simp del]

abbreviation ani :: u16 where "ani \<equiv> class_id Me_AniG"

text \<open>The goroutine that carries the request of block \<open>i\<close> on, and the goroutines that only end a state machine.\<close>

fun carries :: "nat \<Rightarrow> st_state \<Rightarrow> st_task \<Rightarrow> bool" where
  "carries i st (StEvent j ev arg) \<longleftrightarrow> j = i \<and> arg = Some ani \<and>
     (ev = selfTestEventTestRequest \<and> st = selfTestStNull \<or>
      ev = selfTestEventTestResponseSuccess \<and> st = selfTestStHandleSelfTestReq)"
| "carries i st (StStart c) \<longleftrightarrow> c = ani \<and> (st = selfTestStHandleSelfTestReq \<or> st = selfTestStHandleSelfTestResp)"
| "carries i st (StWait j c) \<longleftrightarrow> j = i \<and> c = ani \<and> (st = selfTestStHandleSelfTestReq \<or> st = selfTestStHandleSelfTestResp)"
| "carries i st (StStopped j) \<longleftrightarrow> False"

fun ends :: "st_task \<Rightarrow> nat option" where
  "ends (StEvent j selfTestEventAbort arg) = Some j"
| "ends (StEvent j selfTestEventTestResultSuccess arg) = Some j"
| "ends t = None"

text \<open>The blocks of the list \<open>J\<close> are served once.\<close>

definition served :: "(nat \<Rightarrow> bool) \<Rightarrow> self_test \<Rightarrow> bool" where
  "served J s \<longleftrightarrow> (\<forall>j < length (st_cbs s). J j \<longrightarrow> length (sf_answers (st_cb s j)) = 1) \<and> st_blocked s = 0"

definition ending :: "(nat \<Rightarrow> bool) \<Rightarrow> nat \<Rightarrow> st_task list \<Rightarrow> bool" where
  "ending J k ts \<longleftrightarrow> (\<forall>t \<in> set ts. \<exists>j < k. ends t = Some j \<and> J j)"

definition open_block :: "nat \<Rightarrow> self_test \<Rightarrow> bool" where
  "open_block i s \<longleftrightarrow> selfTestFsmMap s = [(ani, i)] \<and> i < length (st_cbs s) \<and> sf_answers (st_cb s i) = [] \<and>
     0 < sf_room (st_cb s i) \<and> sf_request (st_cb s i) = GetOnuOpticalInfo"

definition st_inv :: "self_test \<Rightarrow> bool" where
  "st_inv s \<longleftrightarrow>
     (selfTestFsmMap s = [] \<and> ending (\<lambda>j. True) (length (st_cbs s)) (st_tasks s) \<and> served (\<lambda>j. True) s \<or>
      (\<exists>i ts t us. open_block i s \<and> st_tasks s = ts @ t # us \<and> carries i (sf_fsm (st_cb s i)) t \<and>
         ending (\<lambda>j. j \<noteq> i) (length (st_cbs s)) (ts @ us) \<and> served (\<lambda>j. j \<noteq> i) s))"

text \<open>Between the removal of the carrying goroutine and its last action.\<close>

definition carried :: "nat \<Rightarrow> self_test \<Rightarrow> bool" where
  "carried i s \<longleftrightarrow> open_block i s \<and> ending (\<lambda>j. j \<noteq> i) (length (st_cbs s)) (st_tasks s) \<and> served (\<lambda>j. j \<noteq> i) s"

lemma invI:
  assumes "open_block i s" "st_tasks s = ts @ t # us" "carries i (sf_fsm (st_cb s i)) t"
    "ending (\<lambda>j. j \<noteq> i) (length (st_cbs s)) (ts @ us)" "served (\<lambda>j. j \<noteq> i) s"
  shows "st_inv s"
  using assms unfolding st_inv_def by blast

lemma carried_go: "carried i s \<Longrightarrow> carries i (sf_fsm (st_cb s i)) t \<Longrightarrow> st_inv (st_go t s)"
  by (rule invI [where i = i and ts = "st_tasks s" and t = t and us = "[]"])
    (auto simp: carried_def open_block_def served_def)

text \<open>An answer closes the block.\<close>

lemma answered:
  assumes c: "carried i s" and t: "\<forall>t \<in> set ts. ends t = Some i"
    and s': "selfTestFsmMap s' = []" "st_tasks s' = st_tasks s @ ts"
      "st_cbs s' = (st_cbs s)[i := (st_cb s i)\<lparr>sf_room := n, sf_answers := [r]\<rparr>]" "st_blocked s' = st_blocked s"
  shows "st_inv s'"
proof -
  have "ending (\<lambda>j. True) (length (st_cbs s')) (st_tasks s')" using c t s'(2,3) by (fastforce simp: carried_def ending_def open_block_def)
  moreover have "served (\<lambda>j. True) s'" using c s' by (auto simp: carried_def served_def open_block_def nth_list_update)
  ultimately show ?thesis using s'(1) by (simp add: st_inv_def)
qed

lemma carriedD:
  assumes "carried i s"
  shows "selfTestFsmMap s = [(ani, i)]" "i < length (st_cbs s)" "sf_answers (st_cb s i) = []" "sf_room (st_cb s i) \<noteq> 0"
    "sf_request (st_cb s i) = GetOnuOpticalInfo"
  using assms by (simp_all add: carried_def open_block_def)

lemmas answer_defs = st_fail_def submitFailureGetValueResponse_def triggerFsmEvent_def st_push_def getMeClassID_def
  selfTestRequestComplete_def st_update_def

lemma st_fail_carried: "carried i s \<Longrightarrow> st_inv (st_fail i reason s)"
  by (rule answered [of i s "[StEvent i selfTestEventAbort None]"]) (simp_all add: answer_defs carriedD)

lemma result_carried: "carried i s \<Longrightarrow> st_inv (handleOmciTestResult i ani (Layer l) s)"
  by (rule answered [of i s "[StEvent i selfTestEventTestResultSuccess None]"])
    (simp_all add: handleOmciTestResult_def answer_defs carriedD)

lemma carried_cc: "carried i s \<Longrightarrow> carried i (s\<lparr>st_cc := cc\<rparr>)" "carried i s \<Longrightarrow> carried i (s\<lparr>st_cc := cc, st_sent := n\<rparr>)"
  by (simp_all add: carried_def open_block_def served_def)

lemma carried_fsm: "carried i s \<Longrightarrow> carried i (st_update i (\<lambda>cb. cb\<lparr>sf_fsm := st\<rparr>) s)"
  by (auto simp: carried_def open_block_def served_def st_update_def nth_list_update)


subsection \<open>Steps\<close>

lemma upd_swap: "s\<lparr>st_tasks := ts\<rparr>\<lparr>st_cbs := cbs\<rparr> = s\<lparr>st_cbs := cbs, st_tasks := ts\<rparr>"
  by (cases s) simp

text \<open>A goroutine that ends a machine changes that machine only.\<close>

lemma fsm_same: "st = sf_fsm cb \<Longrightarrow> cb\<lparr>sf_fsm := st\<rparr> = cb"
  by simp

lemma run_ending:
  assumes "ends t = Some j"
  shows "\<exists>st. run_st_task env m t s = Done (s\<lparr>st_cbs := (st_cbs s)[j := (st_cb s j)\<lparr>sf_fsm := st\<rparr>]\<rparr>)"
proof -
  obtain ev arg where t: "t = StEvent j ev arg" "ev = selfTestEventAbort \<or> ev = selfTestEventTestResultSuccess"
    using assms by (cases t rule: ends.cases) auto
  let ?st = "if ev = selfTestEventAbort \<or> sf_fsm (st_cb s j) = selfTestStHandleSelfTestResp then selfTestStNull else sf_fsm (st_cb s j)"
  have "run_st_task env m t s = Done (s\<lparr>st_cbs := (st_cbs s)[j := (st_cb s j)\<lparr>sf_fsm := ?st\<rparr>]\<rparr>)"
    using t(2) by (auto simp: t(1) run_st_task_def st_event_def fsm_event_def st_update_def st_enter_def fsm_same)
  then show ?thesis by blast
qed

lemma enter_request:
  assumes "carried i s" "sf_fsm (st_cb s i) = selfTestStHandleSelfTestReq"
  shows "ensures (selfTestFsmHandleSelfTestRequest env ani s) st_inv"
proof -
  have f: "st_inv (st_fail i GvInternalError (s\<lparr>st_cc := cc, st_sent := n\<rparr>))" for cc n
    by (rule st_fail_carried) (rule carried_cc(2) [OF assms(1)])
  have g: "st_inv (st_go (StStart ani) (s\<lparr>st_cc := cc, st_sent := n\<rparr>))" for cc n
    by (rule carried_go [OF carried_cc(2) [OF assms(1)]]) (simp add: assms(2))
  have step: "ensures (case ks of [] \<Rightarrow> Done (st_fail i GvInternalError s) | inst # rest \<Rightarrow> h inst) st_inv"
    if "\<And>inst. ensures (h inst) st_inv" for ks :: "u16 list" and h
    using that st_fail_carried [OF assms(1)] by (simp add: wp_simps split: list.split)
  have send: "ensures (bind_run r (\<lambda>(x, sr). Done (case x of
        Inl e \<Rightarrow> st_fail i GvInternalError (s\<lparr>st_cc := sup_state sr, st_sent := Suc (st_sent s)\<rparr>)
      | Inr u \<Rightarrow> st_go (StStart ani) (s\<lparr>st_cc := sup_state sr, st_sent := Suc (st_sent s)\<rparr>)))) st_inv" for r :: "unit_result run"
    by (rule ensures_bind [OF ensures_any]) (use f g in \<open>simp add: wp_simps split: prod.split sum.split\<close>)
  show ?thesis
    unfolding selfTestFsmHandleSelfTestRequest_def
    using step [OF send] by (simp add: carriedD(1) [OF assms(1)] Let_def ensures_bind [OF ensures_any])
qed

lemma run_carrier:
  assumes c: "carried i s" and t: "carries i (sf_fsm (st_cb s i)) t"
    and m: "m \<noteq> StChannelClosed" "\<forall>x. t = StWait i ani \<and> m = StMessage (TestResponse x (Layer (me_Success, ani)))
      \<longrightarrow> sf_fsm (st_cb s i) = selfTestStHandleSelfTestReq"
  shows "ensures (run_st_task env m t s) st_inv"
proof (cases t)
  case (StEvent j ev arg)
  have fs: "carried i (st_update i (\<lambda>cb. cb\<lparr>sf_fsm := st\<rparr>) s)" for st by (rule carried_fsm [OF c])
  have at: "sf_fsm (st_cb (st_update i (\<lambda>cb. cb\<lparr>sf_fsm := st\<rparr>) s) i) = st" for st
    using carriedD(2) [OF c] by (simp add: st_update_def)
  from t StEvent consider "j = i" "arg = Some ani" "ev = selfTestEventTestRequest" "sf_fsm (st_cb s i) = selfTestStNull"
    | "j = i" "arg = Some ani" "ev = selfTestEventTestResponseSuccess" "sf_fsm (st_cb s i) = selfTestStHandleSelfTestReq"
    by auto
  then show ?thesis
  proof cases
    case 1
    then show ?thesis
      using enter_request [OF fs at, of env]
      by (simp add: StEvent run_st_task_def st_event_def fsm_event_def st_enter_def wp_simps)
  next
    case 2
    then show ?thesis
      using carried_go [OF fs, of _ "StStart ani"] at
      by (simp add: StEvent run_st_task_def st_event_def fsm_event_def st_enter_def wp_simps selfTestFsmHandleSelfTestResponse_def)
  qed
next
  case (StStart k)
  then show ?thesis
    using t carried_go [OF c, of "StWait i ani"]
    by (auto simp: run_st_task_def handleOmciResponse_def carriedD(1) [OF c] wp_simps)
next
  case (StWait j k)
  then have tw: "t = StWait i ani" using t by simp
  have f: "st_inv (st_fail i r s)" "st_inv (st_fail i r (st_release x s))" for r x
    using st_fail_carried [OF c] st_fail_carried [OF carried_cc(1) [OF c]] by (simp_all add: st_release_def)
  have u: "st_inv (st_unknown_type i s)"
    by (rule answered [of i s "[]"]) (simp_all add: c st_unknown_type_def answer_defs carriedD [OF c])
  have r: "st_inv (triggerFsmEvent i selfTestEventTestResponseSuccess (Some ani) s)"
    if "sf_fsm (st_cb s i) = selfTestStHandleSelfTestReq"
    unfolding triggerFsmEvent_def by (rule carried_go [OF c]) (simp add: that)
  show ?thesis
    using m f u r result_carried [OF c]
    by (cases m) (auto simp: tw run_st_task_def response_received_def st_handleOmciMessage_def handleOmciTestResponse_def wp_simps
        handleOmciTestResult_def split: st_message.splits layer.splits)
qed (use t in simp)


lemma ending_subset: "ending J k ts \<Longrightarrow> set us \<subseteq> set ts \<Longrightarrow> ending J k us"
  by (auto simp: ending_def)

lemma served_update: "served J s \<Longrightarrow> sf_answers cb = sf_answers (st_cb s j) \<Longrightarrow> served J (s\<lparr>st_cbs := (st_cbs s)[j := cb], st_tasks := ts\<rparr>)"
  by (cases "j < length (st_cbs s)") (auto simp: served_def nth_list_update not_less)

lemma nth_append3:
  assumes "n < length (ts @ t # us)" "n \<noteq> length ts"
  shows "(ts @ t # us) ! n \<in> set (ts @ us) \<and>
    (\<exists>ts' us'. take n (ts @ t # us) @ drop (Suc n) (ts @ t # us) = ts' @ t # us' \<and> set (ts' @ us') \<subseteq> set (ts @ us))"
proof (cases "n < length ts")
  case True
  then show ?thesis
    by (intro conjI exI [of _ "take n ts @ drop (Suc n) ts"] exI [of _ us])
      (auto simp: nth_append dest: in_set_takeD in_set_dropD)
next
  case False
  define k where "k = n - Suc (length ts)"
  with False assms have n: "n = length ts + Suc k" "k < length us" by auto
  then show ?thesis
    by (intro conjI exI [of _ ts] exI [of _ "take k us @ drop (Suc k) us"])
      (auto simp: nth_append dest: in_set_takeD in_set_dropD)
qed

abbreviation others :: "nat \<Rightarrow> self_test \<Rightarrow> self_test" where
  "others n s \<equiv> s\<lparr>st_tasks := take n (st_tasks s) @ drop (Suc n) (st_tasks s)\<rparr>"

text \<open>Which steps are covered: no stop, no closed channel, and no second success response of the ONU to one request.\<close>

definition second_response :: "st_input \<Rightarrow> st_task \<Rightarrow> self_test \<Rightarrow> bool" where
  "second_response m t s \<longleftrightarrow>
     (\<exists>i x. t = StWait i ani \<and> m = StMessage (TestResponse x (Layer (me_Success, ani))) \<and>
        sf_fsm (st_cb s i) \<noteq> selfTestStHandleSelfTestReq)"

definition st_calm :: "st_op \<Rightarrow> self_test \<Rightarrow> bool" where
  "st_calm op s \<longleftrightarrow>
     (case op of
        StStop \<Rightarrow> False
      | StRun m n \<Rightarrow> m \<noteq> StChannelClosed \<and> (n < length (st_tasks s) \<longrightarrow> \<not> second_response m (st_tasks s ! n) s)
      | _ \<Rightarrow> True)"

lemma run_inv:
  assumes s: "st_inv s" and n: "n < length (st_tasks s)" and m: "m \<noteq> StChannelClosed" "\<not> second_response m (st_tasks s ! n) s"
  shows "ensures (run_st_task env m (st_tasks s ! n) (others n s)) st_inv"
proof -
  consider "selfTestFsmMap s = []" "ending (\<lambda>j. True) (length (st_cbs s)) (st_tasks s)" "served (\<lambda>j. True) s"
    | i ts t us where "open_block i s" "st_tasks s = ts @ t # us" "carries i (sf_fsm (st_cb s i)) t"
        "ending (\<lambda>j. j \<noteq> i) (length (st_cbs s)) (ts @ us)" "served (\<lambda>j. j \<noteq> i) s"
    using s unfolding st_inv_def by blast
  then show ?thesis
  proof cases
    case 1
    obtain j where "ends (st_tasks s ! n) = Some j" using 1(2) nth_mem [OF n] by (auto simp: ending_def)
    then obtain st where r: "run_st_task env m (st_tasks s ! n) (others n s) =
        Done (s\<lparr>st_cbs := (st_cbs s)[j := (st_cb s j)\<lparr>sf_fsm := st\<rparr>], st_tasks := take n (st_tasks s) @ drop (Suc n) (st_tasks s)\<rparr>)"
      using run_ending [of "st_tasks s ! n" j env m "others n s"] by (auto simp: upd_swap)
    have "ending (\<lambda>j. True) (length (st_cbs s)) (take n (st_tasks s) @ drop (Suc n) (st_tasks s))"
      by (rule ending_subset [OF 1(2)]) (auto dest: in_set_takeD in_set_dropD)
    then show ?thesis
      using 1 served_update [OF 1(3)] by (simp add: r wp_simps st_inv_def)
  next
    case (2 i ts t us)
    show ?thesis
    proof (cases "n = length ts")
      case True
      have t: "st_tasks s ! n = t" by (simp add: 2 True)
      have o: "others n s = s\<lparr>st_tasks := ts @ us\<rparr>" by (simp add: 2 True)
      have c: "carried i (others n s)" unfolding o using 2 by (simp add: carried_def open_block_def served_def)
      show ?thesis
        unfolding t using m(2) 2(3)
        by (intro run_carrier [OF c] m(1)) (auto simp: o second_response_def t)
    next
      case False
      obtain ts' us' where d: "st_tasks s ! n \<in> set (ts @ us)" "set (ts' @ us') \<subseteq> set (ts @ us)"
        "take n (st_tasks s) @ drop (Suc n) (st_tasks s) = ts' @ t # us'"
        using nth_append3 [of n ts t us] False n unfolding 2(2) by metis
      obtain j where j: "ends (st_tasks s ! n) = Some j" "j \<noteq> i" using 2(4) d(1) by (auto simp: ending_def)
      then obtain st where r: "run_st_task env m (st_tasks s ! n) (others n s) =
          Done (s\<lparr>st_cbs := (st_cbs s)[j := (st_cb s j)\<lparr>sf_fsm := st\<rparr>], st_tasks := ts' @ t # us'\<rparr>)"
        using run_ending [of "st_tasks s ! n" j env m "others n s"] d(3) by (auto simp: upd_swap)
      have "st_inv (s\<lparr>st_cbs := (st_cbs s)[j := (st_cb s j)\<lparr>sf_fsm := st\<rparr>], st_tasks := ts' @ t # us'\<rparr>)"
        using 2 j ending_subset [OF 2(4) d(2)] served_update [OF 2(5)]
        by (intro invI [where i = i and ts = ts' and t = t and us = us']) (simp_all add: open_block_def)
      then show ?thesis by (simp add: r wp_simps)
    qed
  qed
qed


lemma request_inv:
  assumes "st_inv s"
  shows "st_inv (snd (SelfTestRequestStartForInstance r inst ch cap s))"
proof (cases "SelfTestHandlerActive s \<and> r = GetOnuOpticalInfo \<and> selfTestFsmMap s = []")
  case True
  let ?i = "length (st_cbs s)" and ?s = "snd (SelfTestRequestStartForInstance r inst ch cap s)"
  from True assms have e: "ending (\<lambda>j. True) (length (st_cbs s)) (st_tasks s)" "served (\<lambda>j. True) s"
    by (auto simp: st_inv_def open_block_def)
  have s': "st_tasks ?s = st_tasks s @ [StEvent ?i selfTestEventTestRequest (Some ani)]" "selfTestFsmMap ?s = [(ani, ?i)]"
    "st_blocked ?s = st_blocked s" "st_cbs ?s = st_cbs s @ [\<lparr> sf_fsm = selfTestStNull, sf_CommChan = ch, sf_request = r,
       sf_entityID = inst, sf_cap = cap, sf_room = cap + 1, sf_answers = [] \<rparr>]"
    using True by (simp_all add: SelfTestRequestStartForInstance_def getMeClassID_def initiateNewSelfTestFsm_def triggerFsmEvent_def Let_def)
  have "ending (\<lambda>j. j \<noteq> ?i) (length (st_cbs ?s)) (st_tasks s @ [])" using e(1) s'(4) by (fastforce simp: ending_def)
  moreover have "served (\<lambda>j. j \<noteq> ?i) ?s" using e(2) s' by (auto simp: served_def nth_append)
  ultimately show ?thesis
    using s' True by (intro invI [where i = ?i]) (auto simp: open_block_def)
next
  case False
  then have "snd (SelfTestRequestStartForInstance r inst ch cap s) = s"
    using assms by (auto simp: SelfTestRequestStartForInstance_def getMeClassID_def st_inv_def open_block_def split: gv_request.splits)
  then show ?thesis using assms by simp
qed

lemma inv_frame:
  assumes "st_inv s" "selfTestFsmMap s' = selfTestFsmMap s" "st_tasks s' = st_tasks s" "st_blocked s' = st_blocked s"
    "length (st_cbs s') = length (st_cbs s)"
    "\<And>i. i < length (st_cbs s) \<Longrightarrow> sf_answers (st_cb s' i) = sf_answers (st_cb s i) \<and> sf_fsm (st_cb s' i) = sf_fsm (st_cb s i) \<and>
       sf_request (st_cb s' i) = sf_request (st_cb s i) \<and> (0 < sf_room (st_cb s i) \<longrightarrow> 0 < sf_room (st_cb s' i))"
  shows "st_inv s'"
  using assms by (auto simp: st_inv_def open_block_def served_def)

lemma leave_inv: "st_inv s \<Longrightarrow> st_inv (st_leave i s)"
  by (erule inv_frame) (auto simp: st_leave_def st_update_def nth_list_update)

lemma start_inv: "st_inv s \<Longrightarrow> st_inv (st_Start s)"
  by (erule inv_frame) (auto simp: st_Start_def)

lemma step_inv: "st_inv s \<Longrightarrow> st_calm op s \<Longrightarrow> ensures (st_step (env, op) s) st_inv"
  by (cases op) (auto simp: st_calm_def wp_simps request_inv leave_inv start_inv run_inv)

subsection \<open>Runs\<close>

text \<open>The states the module reaches from its creation by calm steps.\<close>

inductive st_reach :: "self_test \<Rightarrow> bool" where
  st_new: "st_reach (NewSelfTestMsgHandlerCb db h cc)"
| st_next: "st_reach s \<Longrightarrow> st_calm op s \<Longrightarrow> st_step (env, op) s = Done s' \<Longrightarrow> st_reach s'"

lemma reach_inv: "st_reach s \<Longrightarrow> st_inv s"
proof (induction rule: st_reach.induct)
  case (st_new db h cc)
  then show ?case by (simp add: NewSelfTestMsgHandlerCb_def st_Start_def st_inv_def ending_def served_def)
next
  case (st_next s op env s')
  then show ?case using ensuresD [OF step_inv] by blast
qed

lemma not_carries: "ends t = Some j \<Longrightarrow> \<not> carries i st t"
  by (cases t rule: ends.cases) auto

text \<open>What the module needs of the device data base and of the OMCI channel: the look-up of the instances and the request return.\<close>

definition channel_returns :: "st_env \<Rightarrow> self_test \<Rightarrow> bool" where
  "channel_returns env s \<longleftrightarrow> (\<exists>ks. GetSortedInstKeys (st_db s) ani (st_cmn s) = Done ks) \<and>
     (\<forall>inst ch. \<exists>r. SendSelfTestReq (se_ctx env (st_sent s)) ani inst (se_timeout env) False ch (st_cc s) = Done r)"

lemma request_returns:
  assumes "channel_returns env s"
  shows "\<exists>s'. selfTestFsmHandleSelfTestRequest env ani s = Done s'"
proof (cases "map_of (selfTestFsmMap s) ani")
  case (Some i)
  obtain ks where ks: "GetSortedInstKeys (st_db s) ani (st_cmn s) = Done ks" using assms by (auto simp: channel_returns_def)
  show ?thesis
  proof (cases ks)
    case (Cons inst rest)
    let ?inst = "if sf_entityID (st_cb s i) = 0 then inst else sf_entityID (st_cb s i)"
    obtain r where "SendSelfTestReq (se_ctx env (st_sent s)) ani ?inst (se_timeout env) False (sf_CommChan (st_cb s i)) (st_cc s) = Done r"
      using assms unfolding channel_returns_def by blast
    then show ?thesis by (cases r) (simp add: selfTestFsmHandleSelfTestRequest_def Some ks Cons Let_def)
  qed (simp add: selfTestFsmHandleSelfTestRequest_def Some ks)
qed (simp add: selfTestFsmHandleSelfTestRequest_def)

lemma carrier_returns:
  assumes "carries i (sf_fsm (st_cb s i)) t" "channel_returns env s"
  shows "\<exists>s'. run_st_task env m t s = Done s'"
proof (cases t)
  case (StEvent j ev arg)
  have "channel_returns env (st_update i (\<lambda>cb. cb\<lparr>sf_fsm := st\<rparr>) s)" for st
    using assms(2) by (simp add: channel_returns_def st_update_def)
  then obtain s1 where "selfTestFsmHandleSelfTestRequest env ani (st_update i (\<lambda>cb. cb\<lparr>sf_fsm := selfTestStHandleSelfTestReq\<rparr>) s) = Done s1"
    using request_returns by blast
  then show ?thesis
    using assms(1) by (auto simp: StEvent run_st_task_def st_event_def fsm_event_def st_enter_def)
qed (simp_all add: run_st_task_def)

lemma calm_step_returns:
  assumes s: "st_inv s" and op: "op \<noteq> StStop" and ch: "channel_returns env s"
  shows "\<exists>s'. st_step (env, op) s = Done s'"
proof (cases op)
  case (StRun m n)
  show ?thesis
  proof (cases "n < length (st_tasks s)")
    case True
    let ?t = "st_tasks s ! n"
    have o: "channel_returns env (others n s)" using ch by (simp add: channel_returns_def)
    have "(\<exists>j. ends ?t = Some j) \<or> (\<exists>i. carries i (sf_fsm (st_cb s i)) ?t)"
    proof -
      have "?t \<in> set (st_tasks s)" using True by simp
      then show ?thesis using s by (fastforce simp: st_inv_def ending_def)
    qed
    then show ?thesis
      using run_ending [of ?t _ env m "others n s"] carrier_returns [OF _ o, of _ ?t m] True by (auto simp: StRun)
  qed (simp add: StRun)
qed (use op in simp_all)

text \<open>C25: No accepted self test is lost while no stop of the module is requested, no channel is closed and the ONU does not repeat
  its success response to the same test request (\<open>st_calm\<close>; what a repeated one does is shown below). Under these conditions every
  accepted self test is answered at most once, no answer is sent to a full channel, a self test without an
  answer is the one in the table and is carried by exactly one goroutine, and, as long as the device data base and the OMCI channel
  return, every step of the module returns: it neither blocks nor panics. The delivery of a message to the module belongs to
  the OMCI channel and is not part of this: a result that comes after the wait has ended finds no reader.\<close>

theorem self_test_not_lost:
  assumes "st_reach s" "i < length (st_cbs s)"
  shows "length (sf_answers (st_cb s i)) \<le> 1 \<and> st_blocked s = 0 \<and>
    (sf_answers (st_cb s i) = [] \<longleftrightarrow> map_of (selfTestFsmMap s) ani = Some i) \<and>
    (sf_answers (st_cb s i) = [] \<longrightarrow> (\<exists>!n. n < length (st_tasks s) \<and> carries i (sf_fsm (st_cb s i)) (st_tasks s ! n))) \<and>
    (\<forall>env op. st_calm op s \<and> channel_returns env s \<longrightarrow> (\<exists>s'. st_step (env, op) s = Done s'))"
proof -
  have ret: "\<forall>env op. st_calm op s \<and> channel_returns env s \<longrightarrow> (\<exists>s'. st_step (env, op) s = Done s')"
  proof (intro allI impI)
    fix env op
    assume a: "st_calm op s \<and> channel_returns env s"
    then have "op \<noteq> StStop" by (auto simp: st_calm_def)
    with a show "\<exists>s'. st_step (env, op) s = Done s'" using calm_step_returns [OF reach_inv [OF assms(1)]] by blast
  qed
  consider "selfTestFsmMap s = []" "served (\<lambda>j. True) s"
    | k ts t us where "open_block k s" "st_tasks s = ts @ t # us" "carries k (sf_fsm (st_cb s k)) t"
        "ending (\<lambda>j. j \<noteq> k) (length (st_cbs s)) (ts @ us)" "served (\<lambda>j. j \<noteq> k) s"
    using reach_inv [OF assms(1)] unfolding st_inv_def by blast
  then show ?thesis
  proof cases
    case 1
    then show ?thesis using assms(2) ret by (auto simp: served_def)
  next
    case (2 k ts t us)
    have "n = length ts" if n: "n < length (st_tasks s)" "carries k (sf_fsm (st_cb s k)) (st_tasks s ! n)" for n
    proof (rule ccontr)
      assume "n \<noteq> length ts"
      then have "st_tasks s ! n \<in> set (ts @ us)" using nth_append3 [of n ts t us] n(1) unfolding 2(2) by blast
      then obtain j where "ends (st_tasks s ! n) = Some j" using 2(4) unfolding ending_def by blast
      then show False using not_carries n(2) by blast
    qed
    moreover have "length ts < length (st_tasks s)" "st_tasks s ! length ts = t" by (simp_all add: 2)
    ultimately have u: "\<exists>!n. n < length (st_tasks s) \<and> carries k (sf_fsm (st_cb s k)) (st_tasks s ! n)" using 2(3) by blast
    show ?thesis
    proof (cases "i = k")
      case True
      then show ?thesis using 2(1,5) u ret by (simp add: open_block_def served_def)
    next
      case False
      then have "length (sf_answers (st_cb s i)) = 1" using 2(5) assms(2) by (simp add: served_def)
      then show ?thesis using 2(1,5) False ret by (auto simp: open_block_def served_def)
    qed
  qed
qed


subsection \<open>A repeated response\<close>

text \<open>Nobody carries the request of block \<open>i\<close>, and it is still in the table.\<close>

definition lost :: "nat \<Rightarrow> self_test \<Rightarrow> bool" where
  "lost i s \<longleftrightarrow> selfTestFsmMap s = [(ani, i)] \<and> i < length (st_cbs s) \<and> sf_answers (st_cb s i) = [] \<and>
     sf_fsm (st_cb s i) = selfTestStHandleSelfTestResp \<and>
     (\<forall>t \<in> set (st_tasks s). t = StEvent i selfTestEventTestResponseSuccess (Some ani) \<or> (\<exists>j. j \<noteq> i \<and> ends t = Some j))"

lemma lost_run:
  assumes "lost i s" "n < length (st_tasks s)"
  shows "ensures (run_st_task env m (st_tasks s ! n) (others n s)) (lost i)"
proof -
  have sub: "\<forall>t \<in> set (take n (st_tasks s) @ drop (Suc n) (st_tasks s)).
      t = StEvent i selfTestEventTestResponseSuccess (Some ani) \<or> (\<exists>j. j \<noteq> i \<and> ends t = Some j)"
    using assms(1) by (auto simp: lost_def dest: in_set_takeD in_set_dropD)
  consider "st_tasks s ! n = StEvent i selfTestEventTestResponseSuccess (Some ani)" | j where "j \<noteq> i" "ends (st_tasks s ! n) = Some j"
    using assms(1) nth_mem [OF assms(2)] by (auto simp: lost_def)
  then show ?thesis
  proof cases
    case 1
    then have "run_st_task env m (st_tasks s ! n) (others n s) = Done (others n s)"
      using assms(1) by (simp add: run_st_task_def st_event_def fsm_event_def lost_def)
    then show ?thesis using assms(1) sub by (simp add: wp_simps lost_def)
  next
    case (2 j)
    then obtain st where "run_st_task env m (st_tasks s ! n) (others n s) =
        Done (s\<lparr>st_cbs := (st_cbs s)[j := (st_cb s j)\<lparr>sf_fsm := st\<rparr>], st_tasks := take n (st_tasks s) @ drop (Suc n) (st_tasks s)\<rparr>)"
      using run_ending [of "st_tasks s ! n" j env m "others n s"] by (auto simp: upd_swap)
    then show ?thesis using assms(1) sub 2(1) by (simp add: wp_simps lost_def)
  qed
qed

lemma lost_request: "lost i s \<Longrightarrow> snd (SelfTestRequestStartForInstance r inst ch cap s) = s \<and>
    fst (SelfTestRequestStartForInstance r inst ch cap s) \<noteq> None"
  by (auto simp: SelfTestRequestStartForInstance_def getMeClassID_def lost_def split: gv_request.splits)

lemma lost_step: "lost i s \<Longrightarrow> op \<noteq> StStop \<Longrightarrow> ensures (st_step (env, op) s) (lost i)"
  by (cases op) (simp_all add: wp_simps lost_request lost_run,
    auto simp: lost_def st_Start_def st_leave_def st_update_def nth_list_update)

interpretation lost_runs: run_invariant st_step "\<lambda>(env, op). op \<noteq> StStop" "lost i" for i
  by unfold_locales (auto intro: lost_step)

lemma waiting_in_response:
  assumes "st_inv s" "n < length (st_tasks s)" "st_tasks s ! n = StWait i ani" "sf_fsm (st_cb s i) = selfTestStHandleSelfTestResp"
  shows "lost i (triggerFsmEvent i selfTestEventTestResponseSuccess (Some ani) (others n s))"
proof -
  obtain k ts t us where b: "open_block k s" "st_tasks s = ts @ t # us" "carries k (sf_fsm (st_cb s k)) t"
      "ending (\<lambda>j. j \<noteq> k) (length (st_cbs s)) (ts @ us)"
    using assms(1) nth_mem [OF assms(2)] assms(3) by (fastforce simp: st_inv_def ending_def)
  have n: "n = length ts"
  proof (rule ccontr)
    assume "n \<noteq> length ts"
    then have "StWait i ani \<in> set (ts @ us)"
      using nth_append3 [of n ts t us] assms(2,3) unfolding b(2) by simp
    with b(4) have "\<exists>j. ends (StWait i ani) = Some j" unfolding ending_def by blast
    then show False by simp
  qed
  then have "k = i" using b(2,3) assms(3) by simp
  then show ?thesis
    using b n assms(4) by (fastforce simp: lost_def triggerFsmEvent_def open_block_def ending_def)
qed

text \<open>C26: When the ONU repeats the success response to the test request while its result is awaited, the request is lost:
  until the module is stopped, nothing the ONU, the callers or the clock do yields an answer, the caller waits for
  ever, and every other self test is refused.\<close>

theorem second_response_loses_self_test:
  assumes "st_reach s" "n < length (st_tasks s)" "st_tasks s ! n = StWait i ani"
    and "sf_fsm (st_cb s i) = selfTestStHandleSelfTestResp" "\<forall>(env, op) \<in> set ops. op \<noteq> StStop"
    and "run_steps st_step ((env, StRun (StMessage (TestResponse t (Layer (me_Success, ani)))) n) # ops) s = Done s'"
  shows "sf_answers (st_cb s' i) = [] \<and> fst (SelfTestRequestStartForInstance r inst ch cap s') \<noteq> None"
proof -
  have "lost i (triggerFsmEvent i selfTestEventTestResponseSuccess (Some ani) (others n s))"
    by (rule waiting_in_response [OF reach_inv [OF assms(1)] assms(2-4)])
  then have "lost i s'"
    using assms(2,3,6) ensuresD [OF lost_runs.steps_inv [OF assms(5)]]
    by (auto simp: run_st_task_def response_received_def st_handleOmciMessage_def handleOmciTestResponse_def)
  then show ?thesis using lost_request by (auto simp: lost_def)
qed


subsection \<open>Witnesses\<close>

definition sample_st_env :: st_env where
  "sample_st_env = \<lparr> se_ctx = (\<lambda>n. sample_ctx), se_timeout = 3 \<rparr>"

definition sample_st :: self_test where
  "sample_st = NewSelfTestMsgHandlerCb \<lparr> db_deviceID = ''onu'', CommonMeDb = Some 0, OnuSpecificMeDb = [(ani, [(0x8001, Some [])])] \<rparr>
     [0 \<mapsto> NewOnuCmnMEDB] sample_cc"

lemma sample_send: "\<exists>oo'. SendSelfTestReq sample_ctx ani inst 3 False ch sample_cc = Done (Inr (), WaitingIn oo')"
proof -
  let ?oo = "snd (GetNextTid False sample_cc)" and ?t = "fst (GetNextTid False sample_cc)"
  let ?q = "OpticalLineSupervisionTestRequest ani inst False 7 0 0"
  have c: "quiet (sc_env sample_ctx)" "te_high (sc_env sample_ctx) = (\<lambda>n. [])" "sc_ocs sample_ctx = []"
    using sample_ctx_calm by (simp_all add: calm_def)
  obtain f where f: "Serialize sample_ctx TestRequestType ?q ?t = Inr f" "3 < length f"
    using sample_ctx_calm unfolding calm_def Serialize_def by blast
  have i: "idle ?oo" "map_of (monitoredRequests ?oo) (CbKey (response_pair ?t ch True)) = None"
    using sample_cc_ok by (simp_all add: frame_simps)
  obtain oo' k req where "Send (sc_env sample_ctx) f 3 0 False (response_pair ?t ch True) [] ?oo = Done (Inr (WaitingIn oo'))"
    using Send_registers [OF c(1,2) f(2) i(1), of 3 0 "response_pair ?t ch True" False] i(2) by auto
  then show ?thesis
    by (simp add: SendSelfTestReq_def send_built_def f(1) c(3) case_prod_beta Let_def)
qed

text \<open>One self test up to the wait for its result.\<close>

definition sample_ops :: "(st_env \<times> st_op) list" where
  "sample_ops = map (Pair sample_st_env)
     [StRequest GetOnuOpticalInfo 0 9 0, StRun StExpired 0, StRun StExpired 0,
      StRun (StMessage (TestResponse 1 (Layer (me_Success, ani)))) 0, StRun StExpired 0, StRun StExpired 0]"

definition sample_at :: "OmciCC \<Rightarrow> nat \<Rightarrow> st_state \<Rightarrow> st_task \<Rightarrow> self_test" where
  "sample_at cc n st t = sample_st\<lparr>st_cc := cc, selfTestFsmMap := [(ani, 0)],
     st_cbs := [\<lparr> sf_fsm = st, sf_CommChan = 9, sf_request = GetOnuOpticalInfo, sf_entityID = 0,
       sf_cap = 0, sf_room = 1, sf_answers = [] \<rparr>], st_tasks := [t], st_sent := n\<rparr>"

lemmas sample_defs = sample_at_def sample_st_def NewSelfTestMsgHandlerCb_def st_Start_def SelfTestRequestStartForInstance_def
  getMeClassID_def initiateNewSelfTestFsm_def triggerFsmEvent_def Let_def run_st_task_def st_event_def fsm_event_def st_enter_def
  selfTestFsmHandleSelfTestResponse_def st_update_def handleOmciResponse_def response_received_def
  st_handleOmciMessage_def handleOmciTestResponse_def

lemma sample_request:
  "st_step (e, StRequest GetOnuOpticalInfo 0 9 0) sample_st =
     Done (sample_at sample_cc 0 selfTestStNull (StEvent 0 selfTestEventTestRequest (Some ani)))"
  by (simp add: sample_defs)

lemma sample_event:
  "\<exists>cc. st_step (sample_st_env, StRun m 0) (sample_at sample_cc 0 selfTestStNull (StEvent 0 selfTestEventTestRequest (Some ani))) =
     Done (sample_at cc 1 selfTestStHandleSelfTestReq (StStart ani))"
proof -
  obtain oo' where "SendSelfTestReq sample_ctx ani 0x8001 3 False 9 sample_cc = Done (Inr (), WaitingIn oo')"
    using sample_send by blast
  then show ?thesis
    by (simp add: sample_defs selfTestFsmHandleSelfTestRequest_def GetSortedInstKeys_def deref_common_def NewOnuCmnMEDB_def
        inner_keys_def map_or_empty_def sample_st_env_def)
qed

lemma sample_next:
  "st_step (e, StRun m 0) (sample_at cc n st (StStart ani)) = Done (sample_at cc n st (StWait 0 ani))"
  "st_step (e, StRun (StMessage (TestResponse t (Layer (me_Success, ani)))) 0) (sample_at cc n st (StWait 0 ani)) =
     Done (sample_at cc n st (StEvent 0 selfTestEventTestResponseSuccess (Some ani)))"
  "st_step (e, StRun m 0) (sample_at cc n selfTestStHandleSelfTestReq (StEvent 0 selfTestEventTestResponseSuccess (Some ani))) =
     Done (sample_at cc n selfTestStHandleSelfTestResp (StStart ani))"
  by (simp_all add: sample_defs)

lemma sample_reach: "\<exists>cc. st_reach (sample_at cc 1 selfTestStHandleSelfTestResp (StWait 0 ani))"
proof -
  have calm: "st_calm (StRun StExpired 0) s" for s by (simp add: st_calm_def second_response_def)
  have r0: "st_reach (sample_at sample_cc 0 selfTestStNull (StEvent 0 selfTestEventTestRequest (Some ani)))"
    by (rule st_next [OF _ _ sample_request]) (simp_all add: sample_st_def st_new st_calm_def)
  obtain cc where e: "st_step (sample_st_env, StRun StExpired 0)
      (sample_at sample_cc 0 selfTestStNull (StEvent 0 selfTestEventTestRequest (Some ani))) =
      Done (sample_at cc 1 selfTestStHandleSelfTestReq (StStart ani))"
    using sample_event by blast
  have "st_reach (sample_at cc 1 selfTestStHandleSelfTestReq (StWait 0 ani))"
    by (rule st_next [OF st_next [OF r0 calm e] calm sample_next(1)])
  then have "st_reach (sample_at cc 1 selfTestStHandleSelfTestReq (StEvent 0 selfTestEventTestResponseSuccess (Some ani)))"
    by (rule st_next [OF _ _ sample_next(2)]) (simp add: st_calm_def second_response_def sample_at_def)
  then have "st_reach (sample_at cc 1 selfTestStHandleSelfTestResp (StWait 0 ani))"
    by (intro st_next [OF st_next [OF _ calm sample_next(3)] calm sample_next(1)])
  then show ?thesis by blast
qed

text \<open>A self test that was just accepted, and one that waits for its result.\<close>

theorem self_test_not_lost_witness:
  "(\<exists>s'. st_step (sample_st_env, StRun StExpired 0) (sample_at sample_cc 0 selfTestStNull (StEvent 0 selfTestEventTestRequest (Some ani))) = Done s') \<and>
   (\<exists>s. length (st_cbs s) = 1 \<and> st_blocked s = 0 \<and> (\<exists>!n. n < length (st_tasks s) \<and> carries 0 (sf_fsm (st_cb s 0)) (st_tasks s ! n)))"
proof (rule conjI)
  let ?s = "sample_at sample_cc 0 selfTestStNull (StEvent 0 selfTestEventTestRequest (Some ani))"
  have r: "st_reach ?s" by (rule st_next [OF _ _ sample_request]) (simp_all add: sample_st_def st_new st_calm_def)
  have c: "st_calm (StRun StExpired 0) ?s" by (simp add: st_calm_def second_response_def)
  have "\<exists>r. SendSelfTestReq sample_ctx ani inst 3 False ch sample_cc = Done r" for inst ch
    using sample_send [of inst ch] by blast
  then have ch: "channel_returns sample_st_env ?s"
    by (simp add: channel_returns_def sample_defs GetSortedInstKeys_def deref_common_def NewOnuCmnMEDB_def
        inner_keys_def map_or_empty_def sample_st_env_def)
  have "0 < length (st_cbs ?s)" by (simp add: sample_at_def)
  from self_test_not_lost [OF r this] c ch
  show "\<exists>s'. st_step (sample_st_env, StRun StExpired 0) ?s = Done s'" by blast
next
  obtain cc where r: "st_reach (sample_at cc 1 selfTestStHandleSelfTestResp (StWait 0 ani))" using sample_reach by blast
  let ?s = "sample_at cc 1 selfTestStHandleSelfTestResp (StWait 0 ani)"
  have l: "length (st_cbs ?s) = 1" "sf_answers (st_cb ?s 0) = []" by (simp_all add: sample_at_def)
  have "0 < length (st_cbs ?s)" using l(1) by simp
  from self_test_not_lost [OF r this] l
  show "\<exists>s. length (st_cbs s) = 1 \<and> st_blocked s = 0 \<and> (\<exists>!n. n < length (st_tasks s) \<and> carries 0 (sf_fsm (st_cb s 0)) (st_tasks s ! n))"
    by blast
qed

theorem second_response_loses_self_test_witness:
  "\<exists>s s'. st_reach s \<and> run_steps st_step [(sample_st_env, StRun (StMessage (TestResponse 7 (Layer (me_Success, ani)))) 0),
       (sample_st_env, StRun StExpired 0)] s = Done s' \<and>
     sf_answers (st_cb s' 0) = [] \<and> fst (SelfTestRequestStartForInstance GetOnuOpticalInfo 0 5 0 s') \<noteq> None"
proof -
  obtain cc where r: "st_reach (sample_at cc 1 selfTestStHandleSelfTestResp (StWait 0 ani))" using sample_reach by blast
  let ?s = "sample_at cc 1 selfTestStHandleSelfTestResp (StWait 0 ani)"
  have h: "0 < length (st_tasks ?s)" "st_tasks ?s ! 0 = StWait 0 ani" "sf_fsm (st_cb ?s 0) = selfTestStHandleSelfTestResp"
    by (simp_all add: sample_at_def)
  have ops: "\<forall>(env, op) \<in> set [(sample_st_env, StRun StExpired 0)]. op \<noteq> StStop" by simp
  have "st_step (sample_st_env, StRun StExpired 0)
      (sample_at cc 1 selfTestStHandleSelfTestResp (StEvent 0 selfTestEventTestResponseSuccess (Some ani))) =
    Done ((sample_at cc 1 selfTestStHandleSelfTestResp (StStart ani))\<lparr>st_tasks := []\<rparr>)"
    by (simp add: sample_defs)
  note x = this
  have e: "run_steps st_step ((sample_st_env, StRun (StMessage (TestResponse 7 (Layer (me_Success, ani)))) 0) #
      [(sample_st_env, StRun StExpired 0)]) ?s = Done ((sample_at cc 1 selfTestStHandleSelfTestResp (StStart ani))\<lparr>st_tasks := []\<rparr>)"
    by (simp only: run_steps.simps sample_next(2) bind_run.simps x)
  show ?thesis using second_response_loses_self_test [OF r h ops e, of GetOnuOpticalInfo 0 5 0] r e by blast
qed

end
