(* ===== verification/Pm_Mgr.thy ===== *)
theory Pm_Mgr
  imports Tech_Prof Self_Test
begin

text \<open>
  \<^verbatim>\<open>pmmgr/onu_metrics_manager.go\<close>: the manager of the metrics of an ONU. This theory holds its data: groups of
  metrics and their configuration, the instances of a group and their copy in the key-value store, the messages
  of the ONU with the channels they are handed to, and the values that are published. A \<^verbatim>\<open>float32\<close> is an integer
  rounded to 24 significant bits, since every value comes from an integer.
\<close>

subsection \<open>Groups\<close>

definition DefaultMetricCollectionFrequency :: u32 where "DefaultMetricCollectionFrequency = 900"
definition FrequencyGranularity :: u32 where "FrequencyGranularity = 5"
definition OpticalPowerGroupMetricName :: string where "OpticalPowerGroupMetricName = ''PON_Optical''"
definition UniStatusGroupMetricName :: string where "UniStatusGroupMetricName = ''UNI_Status''"
definition EthernetBridgeHistoryName :: string where "EthernetBridgeHistoryName = ''Ethernet_Bridge_Port_History''"
definition EthernetUniHistoryName :: string where "EthernetUniHistoryName = ''Ethernet_UNI_History''"
definition FecHistoryName :: string where "FecHistoryName = ''FEC_History''"
definition GemPortHistoryName :: string where "GemPortHistoryName = ''GEM_Port_History''"

lemmas pm_name_defs = OpticalPowerGroupMetricName_def UniStatusGroupMetricName_def EthernetBridgeHistoryName_def
  EthernetUniHistoryName_def FecHistoryName_def GemPortHistoryName_def

datatype pm_type = PmCounter | PmGauge | PmContext

definition OpticalPowerGroupMetrics :: "(string \<times> pm_type) list" where
  "OpticalPowerGroupMetrics =
     [(''ani_g_instance_id'', PmContext), (''transmit_power_dBm'', PmGauge), (''receive_power_dBm'', PmGauge),
      (''supply_voltage_Volts'', PmGauge), (''laser_bias_current_mA'', PmGauge), (''temperature_Celsius'', PmGauge)]"

definition UniStatusGroupMetrics :: "(string \<times> pm_type) list" where
  "UniStatusGroupMetrics =
     [(''uni_port_no'', PmContext), (''me_class_id'', PmContext), (''entity_id'', PmContext),
      (''configuration_ind'', PmGauge), (''oper_status'', PmGauge), (''uni_admin_state'', PmGauge)]"

definition EthernetBridgeHistory :: "(string \<times> pm_type) list" where
  "EthernetBridgeHistory =
     [(''class_id'', PmContext), (''entity_id'', PmContext), (''interval_end_time'', PmContext),
      (''parent_class_id'', PmContext), (''parent_entity_id'', PmContext), (''upstream'', PmContext)] @
     map (\<lambda>k. (k, PmCounter))
       [''drop_events'', ''octets'', ''packets'', ''broadcast_packets'', ''multicast_packets'', ''crc_errored_packets'',
        ''undersize_packets'', ''oversize_packets'', ''64_octets'', ''65_to_127_octets'', ''128_to_255_octets'',
        ''256_to_511_octets'', ''512_to_1023_octets'', ''1024_to_1518_octets'']"

definition EthernetUniHistory :: "(string \<times> pm_type) list" where
  "EthernetUniHistory =
     [(''class_id'', PmContext), (''entity_id'', PmContext), (''interval_end_time'', PmContext)] @
     map (\<lambda>k. (k, PmCounter))
       [''fcs_errors'', ''excessive_collision_counter'', ''late_collision_counter'', ''frames_too_long'',
        ''buffer_overflows_on_rx'', ''buffer_overflows_on_tx'', ''single_collision_frame_counter'',
        ''multiple_collisions_frame_counter'', ''sqe_counter'', ''deferred_tx_counter'', ''internal_mac_tx_error_counter'',
        ''carrier_sense_error_counter'', ''alignment_error_counter'', ''internal_mac_rx_error_counter'']"

definition FecHistory :: "(string \<times> pm_type) list" where
  "FecHistory =
     [(''class_id'', PmContext), (''entity_id'', PmContext), (''interval_end_time'', PmContext)] @
     map (\<lambda>k. (k, PmCounter))
       [''corrected_bytes'', ''corrected_code_words'', ''uncorrectable_code_words'', ''total_code_words'', ''fec_seconds'']"

definition GemPortHistory :: "(string \<times> pm_type) list" where
  "GemPortHistory =
     [(''class_id'', PmContext), (''entity_id'', PmContext), (''interval_end_time'', PmContext)] @
     map (\<lambda>k. (k, PmCounter))
       [''transmitted_gem_frames'', ''received_gem_frames'', ''received_payload_bytes'', ''transmitted_payload_bytes'',
        ''encryption_key_errors'']"

record pmMEData =
  InstancesActive :: "u16 list"
  InstancesToDelete :: "u16 list"
  InstancesToAdd :: "u16 list"

record groupMetric =
  gm_NextCollectionInterval :: int
  gm_metricMap :: "(string \<times> pm_type) list"
  gm_pmMEData :: "pmMEData option"
  gm_groupName :: string
  gm_Frequency :: u32
  gm_collectAttempts :: u32
  gm_Enabled :: bool
  IsL2PMCounter :: bool

record standaloneMetric =
  sm_NextCollectionInterval :: int
  sm_metricName :: string
  sm_Frequency :: u32
  sm_Enabled :: bool

text \<open>The configuration of the core, \<^verbatim>\<open>voltha.PmConfigs\<close>, kept by the device handler.\<close>

record PmConfig =
  pcf_Name :: string
  pcf_Type :: pm_type
  pcf_Enabled :: bool
  pcf_SampleFreq :: u32

record PmGroupConfig =
  pg_GroupName :: string
  pg_GroupFreq :: u32
  pg_Enabled :: bool
  pg_Metrics :: "PmConfig list"

record PmConfigs =
  pcs_DefaultFreq :: u32
  pcs_Grouped :: bool
  pcs_FreqOverride :: bool
  pcs_Groups :: "PmGroupConfig list"
  pcs_Metrics :: "PmConfig list"

subsection \<open>Messages and channels\<close>

datatype pm_chan = ChUniStatus | ChL2Pm | ChExtendedPm | ChOptical | ChSyncTime | ChCreateOrDelete | ChExtendedResponse

datatype pm_value = VAttributes me_attributes | VBool bool | VResult u8

datatype pm_message =
    PmGetResponse "get_response layer"
  | PmGetCurrentDataResponse "get_response layer"
  | PmSynchronizeTimeResponse "(u8 \<times> u16) layer"
  | PmCreateResponse "(u8 \<times> u16) layer"
  | PmDeleteResponse "(u8 \<times> u16) layer"
  | PmSetResponse "(u8 \<times> u16) layer"
  | PmOtherMessage

definition me_UniG :: u16 where "me_UniG = 264"

definition l2_history_classes :: "u16 list" where
  "l2_history_classes = map class_id [Me_EthernetFramePerformanceMonitoringHistoryDataUpstream,
     Me_EthernetFramePerformanceMonitoringHistoryDataDownstream, Me_EthernetPerformanceMonitoringHistoryData,
     Me_FecPerformanceMonitoringHistoryData, Me_GemPortNetworkCtpPerformanceMonitoringHistoryData]"

definition extended_classes :: "u16 list" where
  "extended_classes = map class_id [Me_EthernetFrameExtendedPm, Me_EthernetFrameExtendedPm64Bit]"

text \<open>What a message is handed to; \<open>None\<close> where it is only logged.\<close>

definition pm_handleOmciGetResponseMessage :: "get_response layer \<Rightarrow> (pm_chan \<times> pm_value) option" where
  "pm_handleOmciGetResponseMessage l =
     (case l of
        Layer m \<Rightarrow>
          if gr_result m = me_Success then
            (if gr_class m \<in> {me_UniG, class_id Me_PhysicalPathTerminationPointEthernetUni, class_id Me_VirtualEthernetInterfacePoint}
             then Some (ChUniStatus, VAttributes (gr_attributes m))
             else if gr_class m \<in> set l2_history_classes then Some (ChL2Pm, VAttributes (gr_attributes m))
             else if gr_class m \<in> set extended_classes then Some (ChExtendedPm, VAttributes (gr_attributes m))
             else None)
          else if gr_class m \<in> set extended_classes then Some (ChExtendedPm, VAttributes (gr_attributes m))
          else None
      | _ \<Rightarrow> None)"

definition handleOmciGetCurrentDataResponseMessage :: "get_response layer \<Rightarrow> (pm_chan \<times> pm_value) option" where
  "handleOmciGetCurrentDataResponseMessage l =
     (case l of
        Layer m \<Rightarrow>
          if gr_class m \<in> set extended_classes then Some (ChExtendedPm, VAttributes (gr_attributes m))
          else if gr_class m = class_id Me_GemPortNetworkCtpPerformanceMonitoringHistoryData
          then Some (ChL2Pm, VAttributes (gr_attributes m))
          else if gr_class m = class_id Me_FecPerformanceMonitoringHistoryData then Some (ChOptical, VAttributes (gr_attributes m))
          else None
      | _ \<Rightarrow> None)"

definition handleOmciSynchronizeTimeResponseMessage :: "(u8 \<times> u16) layer \<Rightarrow> (pm_chan \<times> pm_value) option" where
  "handleOmciSynchronizeTimeResponseMessage l =
     (case l of
        Layer (result, cls) \<Rightarrow> Some (ChSyncTime, VBool (result = me_Success \<and> cls = class_id Me_OnuG))
      | _ \<Rightarrow> None)"

definition handleOmciCreateResponseMessage :: "(u8 \<times> u16) layer \<Rightarrow> (pm_chan \<times> pm_value) option" where
  "handleOmciCreateResponseMessage l =
     (case l of
        Layer (result, cls) \<Rightarrow>
          if cls \<in> set l2_history_classes then Some (ChCreateOrDelete, VBool (result = me_Success \<or> result = me_InstanceExists))
          else if cls \<in> set extended_classes then Some (ChExtendedResponse, VResult result)
          else None
      | _ \<Rightarrow> None)"

definition handleOmciDeleteResponseMessage :: "(u8 \<times> u16) layer \<Rightarrow> (pm_chan \<times> pm_value) option" where
  "handleOmciDeleteResponseMessage l =
     (case l of
        Layer (result, cls) \<Rightarrow>
          if cls \<in> set l2_history_classes then Some (ChCreateOrDelete, VBool (result = me_Success \<or> result = me_UnknownInstance))
          else None
      | _ \<Rightarrow> None)"

definition handleOmciSetResponseMessage :: "(u8 \<times> u16) layer \<Rightarrow> (pm_chan \<times> pm_value) option" where
  "handleOmciSetResponseMessage l =
     (case l of
        Layer (result, cls) \<Rightarrow> if cls \<in> set extended_classes then Some (ChExtendedResponse, VResult result) else None
      | _ \<Rightarrow> None)"

definition pm_handleOmciMessage :: "pm_message \<Rightarrow> (pm_chan \<times> pm_value) option" where
  "pm_handleOmciMessage m =
     (case m of
        PmGetResponse l \<Rightarrow> pm_handleOmciGetResponseMessage l
      | PmGetCurrentDataResponse l \<Rightarrow> handleOmciGetCurrentDataResponseMessage l
      | PmSynchronizeTimeResponse l \<Rightarrow> handleOmciSynchronizeTimeResponseMessage l
      | PmCreateResponse l \<Rightarrow> handleOmciCreateResponseMessage l
      | PmDeleteResponse l \<Rightarrow> handleOmciDeleteResponseMessage l
      | PmSetResponse l \<Rightarrow> handleOmciSetResponseMessage l
      | PmOtherMessage \<Rightarrow> None)"

subsection \<open>State and surroundings\<close>

datatype l2pm_evt = L2PmEventInit | L2PmEventTick | L2PmEventSuccess | L2PmEventFailure | L2PmEventAddMe | L2PmEventDeleteMe
  | L2PmEventStop

datatype l2pm_state = L2PmStNull | L2PmStStarting | L2PmStSyncTime | L2PmStIdle | L2PmStCreatePmMe | L2PmStDeletePmMe
  | L2PmStCollectData

text \<open>A goroutine that raises an event, and whether it tests the machine for nil before; the goroutines that collect.\<close>

datatype pm_task = PmEvent bool l2pm_evt | PmCollectOptical | PmCollectUniStatus

type_synonym metric_data = "(string \<times> int) list"

text \<open>How the self test of an instance of the ANI ends for its caller.\<close>

datatype optical_answer = SelfTestRefused string bool | SelfTestAnswer gv_response | OpticalStopped

datatype pm_effect = PublishMetrics "(string \<times> metric_data) list" | PublishOptical "(string \<times> rat) list list"

datatype pm_stored = KvData pmMEData | KvClass u16 | KvGarbage

text \<open>What surrounds the manager. \<open>pe_in\<close> are the messages that arrive during the wait with a number, \<open>pe_late\<close> those
  that arrive after it. \<open>pe_masks\<close> is the order in which a map of masks is visited, and \<open>pe_convert\<close> the conversion to
  \<^verbatim>\<open>uint32\<close> of a value out of its range, which Go leaves to the machine.\<close>

record pm_env =
  pe_ctx :: "nat \<Rightarrow> send_ctx"
  pe_timeout :: int
  pe_utc :: "int \<times> int \<times> int \<times> int \<times> int \<times> int"
  pe_now :: int
  pe_metricsEnabled :: bool
  pe_in :: "nat \<Rightarrow> pm_message list"
  pe_late :: "nat \<Rightarrow> pm_message list"
  pe_deleting :: "nat \<Rightarrow> bool"
  pe_cancel :: "nat \<Rightarrow> bool"
  pe_stop :: "nat \<Rightarrow> bool"
  pe_new :: "u16 \<Rightarrow> bool"
  pe_attrs :: "u16 \<Rightarrow> (string \<times> int \<times> Omci_Me.attr_value) list"
  pe_unis :: "OnuUniPort list"
  pe_onuTP :: "OnuUniTechProf option"
  pe_selfTest :: "u16 \<Rightarrow> optical_answer"
  pe_kvGet :: "string \<Rightarrow> bool"
  pe_kvPut :: "nat \<Rightarrow> bool"
  pe_masks :: "nat \<Rightarrow> u16 list \<Rightarrow> u16 list"
  pe_convert :: "int \<Rightarrow> u32"

text \<open>\<open>mm_queue\<close> are the messages of the ONU that the loop has not handed on, \<open>mm_waits\<close> counts the waits. The key-value
  stores of the manager are one list here, with the group or the ONU type as key.\<close>

record OnuMetricsManager =
  mm_fsm :: l2pm_state
  mm_cc :: OmciCC
  mm_CommChan :: nat
  mm_db :: OnuDeviceDB
  mm_cmn :: cmn_store
  mm_pmConfigs :: "PmConfigs option"
  NextGlobalMetricCollectionTime :: int
  GroupMetricMap :: "(string \<times> groupMetric) list"
  StandaloneMetricMap :: "(string \<times> standaloneMetric) list"
  mm_kv :: "(string \<times> pm_stored) list"
  mm_extKey :: string
  extUpStreamME :: "(u16 \<times> ManagedEntity) list option"
  extDownStreamME :: "(u16 \<times> ManagedEntity) list option"
  activeL2Pms :: "string list"
  l2PmToDelete :: "string list"
  l2PmToAdd :: "string list"
  maxL2PMGetPayLoadSize :: int
  supportedExtClass :: u16
  omciProcessingActive :: bool
  tickGenerationActive :: bool
  deviceDeletionInProgress :: bool
  readyForExtendedPm :: bool
  extendedPmOngoing :: bool
  mm_isExtendedOmci :: bool
  mm_hasStore :: bool
  mm_cleaned :: bool
  mm_ctxDone :: bool
  mm_stopCollect :: bool
  mm_syncBuffer :: "bool option"
  mm_queue :: "pm_message list"
  mm_tickers :: nat
  mm_gcComplete :: bool
  mm_tasks :: "pm_task list"
  mm_out :: "pm_effect list"
  mm_sent :: nat
  mm_waits :: nat
  mm_puts :: nat

abbreviation mm_go :: "pm_task \<Rightarrow> OnuMetricsManager \<Rightarrow> OnuMetricsManager" where
  "mm_go t s \<equiv> s\<lparr>mm_tasks := mm_tasks s @ [t]\<rparr>"

abbreviation mm_emit :: "pm_effect \<Rightarrow> OnuMetricsManager \<Rightarrow> OnuMetricsManager" where
  "mm_emit e s \<equiv> s\<lparr>mm_out := mm_out s @ [e]\<rparr>"

definition pm_request :: "pm_env \<Rightarrow> (send_ctx \<Rightarrow> OmciCC \<Rightarrow> 'a send_result run) \<Rightarrow> OnuMetricsManager \<Rightarrow>
    ((string + 'a) \<times> OnuMetricsManager) run" where
  "pm_request env f s =
     bind_run (f (pe_ctx env (mm_sent s)) (mm_cc s)) (\<lambda>(r, sr).
       Done (r, s\<lparr>mm_cc := sup_state sr, mm_sent := mm_sent s + 1\<rparr>))"

text \<open>The loop of \<^verbatim>\<open>ProcessOmciMessages\<close> hands on what needs no reader: an unhandled message, and one value for the
  channel of the time synchronisation, which has a buffer. A message for another channel waits for its reader, and
  what comes after it waits as well.\<close>

fun pm_drain :: "pm_message list \<Rightarrow> bool option \<Rightarrow> pm_message list \<times> bool option" where
  "pm_drain [] b = ([], b)"
| "pm_drain (m # ms) b =
     (case pm_handleOmciMessage m of
        None \<Rightarrow> pm_drain ms b
      | Some (ChSyncTime, VBool v) \<Rightarrow> (if b = None then pm_drain ms (Some v) else (m # ms, b))
      | Some _ \<Rightarrow> (m # ms, b))"

definition pm_process :: "pm_message list \<Rightarrow> OnuMetricsManager \<Rightarrow> OnuMetricsManager" where
  "pm_process ms s =
     (if omciProcessingActive s
      then let (q, b) = pm_drain (mm_queue s @ ms) (mm_syncBuffer s) in s\<lparr>mm_queue := q, mm_syncBuffer := b\<rparr>
      else s\<lparr>mm_queue := mm_queue s @ ms\<rparr>)"

text \<open>A reader waits at channel \<open>ch\<close>: it gets the next message if that is for it. During the wait the ONU may be deleted.\<close>

definition pm_take :: "pm_chan \<Rightarrow> OnuMetricsManager \<Rightarrow> pm_value option \<times> OnuMetricsManager" where
  "pm_take ch s =
     (if ch = ChSyncTime then
        (case mm_syncBuffer s of
           None \<Rightarrow> (None, s)
         | Some v \<Rightarrow> (Some (VBool v), pm_process [] (s\<lparr>mm_syncBuffer := None\<rparr>)))
      else if omciProcessingActive s then
        (case mm_queue s of
           [] \<Rightarrow> (None, s)
         | m # ms \<Rightarrow>
             (case pm_handleOmciMessage m of
                None \<Rightarrow> (None, s)
              | Some (c, v) \<Rightarrow> if c = ch then (Some v, pm_process [] (s\<lparr>mm_queue := ms\<rparr>)) else (None, s)))
      else (None, s))"

definition pm_wait :: "pm_env \<Rightarrow> pm_chan \<Rightarrow> OnuMetricsManager \<Rightarrow> pm_value option \<times> OnuMetricsManager" where
  "pm_wait env ch s =
     (let n = mm_waits s;
          (v, s) = pm_take ch (pm_process (pe_in env n) s);
          s = pm_process (pe_late env n) s
      in (v, s\<lparr>mm_waits := n + 1, deviceDeletionInProgress := deviceDeletionInProgress s \<or> pe_deleting env n,
              mm_ctxDone := mm_ctxDone s \<or> pe_cancel env n, mm_stopCollect := mm_stopCollect s \<or> pe_stop env n\<rparr>))"

subsection \<open>Lists\<close>

definition appendIfMissing :: "'a list \<Rightarrow> 'a \<Rightarrow> 'a list" where
  "appendIfMissing xs n = (if n \<in> set xs then xs else xs @ [n])"

definition removeIfFound :: "'a list \<Rightarrow> 'a \<Rightarrow> 'a list" where
  "removeIfFound xs n = remove1 n xs"

lemma set_appendIfMissing [simp]: "set (appendIfMissing xs n) = insert n (set xs)"
  by (auto simp: appendIfMissing_def)

lemma distinct_appendIfMissing [simp]: "distinct xs \<Longrightarrow> distinct (appendIfMissing xs n)"
  by (auto simp: appendIfMissing_def)

lemma set_removeIfFound [simp]: "distinct xs \<Longrightarrow> set (removeIfFound xs n) = set xs - {n}"
  by (simp add: removeIfFound_def)

lemma distinct_removeIfFound [simp]: "distinct xs \<Longrightarrow> distinct (removeIfFound xs n)"
  by (simp add: removeIfFound_def)

subsection \<open>Instances of a group\<close>

datatype pm_action = CPmAdd | CPmAdded | CPmRemove | CPmRemoved

definition change_pm_data :: "pm_action \<Rightarrow> u16 \<Rightarrow> pmMEData \<Rightarrow> pmMEData" where
  "change_pm_data a i d =
     (case a of
        CPmAdd \<Rightarrow> d\<lparr>InstancesToAdd := appendIfMissing (InstancesToAdd d) i,
                    InstancesToDelete := removeIfFound (InstancesToDelete d) i,
                    InstancesActive := removeIfFound (InstancesActive d) i\<rparr>
      | CPmAdded \<Rightarrow> d\<lparr>InstancesActive := appendIfMissing (InstancesActive d) i,
                      InstancesToAdd := removeIfFound (InstancesToAdd d) i,
                      InstancesToDelete := removeIfFound (InstancesToDelete d) i\<rparr>
      | CPmRemove \<Rightarrow> d\<lparr>InstancesToDelete := appendIfMissing (InstancesToDelete d) i,
                       InstancesToAdd := removeIfFound (InstancesToAdd d) i,
                       InstancesActive := removeIfFound (InstancesActive d) i\<rparr>
      | CPmRemoved \<Rightarrow> d\<lparr>InstancesToDelete := removeIfFound (InstancesToDelete d) i,
                        InstancesToAdd := removeIfFound (InstancesToAdd d) i,
                        InstancesActive := removeIfFound (InstancesActive d) i\<rparr>)"

definition group_update :: "string \<Rightarrow> (groupMetric \<Rightarrow> groupMetric) \<Rightarrow> OnuMetricsManager \<Rightarrow> OnuMetricsManager" where
  "group_update n f s =
     s\<lparr>GroupMetricMap := map (\<lambda>(k, g). (k, if k = n then f g else g)) (GroupMetricMap s)\<rparr>"

definition getPmData :: "pm_env \<Rightarrow> string \<Rightarrow> OnuMetricsManager \<Rightarrow> string + pmMEData option" where
  "getPmData env n s =
     (case map_of (GroupMetricMap s) n of
        Some g \<Rightarrow> Inr (gm_pmMEData g)
      | None \<Rightarrow>
          if \<not> mm_hasStore s then Inl ''pmKvStore not set''
          else if \<not> pe_kvGet env n then Inl ''unable-to-read-from-KVstore''
          else (case map_of (mm_kv s) n of
                  Some (KvData d) \<Rightarrow> Inr (Some d)
                | None \<Rightarrow> Inr (Some \<lparr> InstancesActive = [], InstancesToDelete = [], InstancesToAdd = [] \<rparr>)
                | _ \<Rightarrow> Inl ''unable-to-unmarshal-PM-data''))"

text \<open>A group that is not in the map has a stored value only; assigning to its missing entry panics.\<close>

definition updatePmData :: "pm_env \<Rightarrow> string \<Rightarrow> u16 \<Rightarrow> pm_action \<Rightarrow> OnuMetricsManager \<Rightarrow> OnuMetricsManager run" where
  "updatePmData env n i a s =
     (if \<not> mm_hasStore s then Done s
      else case getPmData env n s of
        Inl e \<Rightarrow> Done s
      | Inr None \<Rightarrow> Done s
      | Inr (Some d) \<Rightarrow>
          if map_of (GroupMetricMap s) n = None then Fatal ''invalid memory address or nil pointer dereference''
          else
            let d = change_pm_data a i d;
                s = group_update n (\<lambda>g. g\<lparr>gm_pmMEData := Some d\<rparr>) s;
                k = mm_puts s;
                s = s\<lparr>mm_puts := k + 1\<rparr>
            in Done (if pe_kvPut env k then s\<lparr>mm_kv := AList.update n (KvData d) (mm_kv s)\<rparr> else s))"

fun restore_groups :: "pm_env \<Rightarrow> string list \<Rightarrow> OnuMetricsManager \<Rightarrow> bool \<times> OnuMetricsManager" where
  "restore_groups env [] s = (True, s)"
| "restore_groups env (n # ns) s =
     (let empty = \<lparr> InstancesActive = [], InstancesToDelete = [], InstancesToAdd = [] \<rparr>;
          put = (\<lambda>d. group_update n (\<lambda>g. g\<lparr>gm_pmMEData := Some d\<rparr>) s);
          (ok, d) = (if \<not> pe_kvGet env n then (False, empty)
                     else case map_of (mm_kv s) n of
                            None \<Rightarrow> (True, empty)
                          | Some (KvData d) \<Rightarrow> (True, d)
                          | Some _ \<Rightarrow> (False, empty));
          (ok', s) = restore_groups env ns (put d)
      in (ok \<and> ok', s))"

definition restorePmData :: "pm_env \<Rightarrow> OnuMetricsManager \<Rightarrow> bool \<times> OnuMetricsManager" where
  "restorePmData env s =
     (if \<not> mm_hasStore s then (False, s) else restore_groups env (akeys (GroupMetricMap s)) s)"

definition clear_groups :: "pm_env \<Rightarrow> OnuMetricsManager \<Rightarrow> bool \<times> OnuMetricsManager" where
  "clear_groups env s =
     (let ns = akeys (GroupMetricMap s); k = mm_puts s;
          gone = map fst (filter (\<lambda>(n, j). pe_kvPut env (k + j)) (zip ns [0..<length ns]))
      in (length gone = length ns,
          s\<lparr>mm_puts := k + length ns, mm_kv := filter (\<lambda>(n, v). n \<notin> set gone) (mm_kv s)\<rparr>))"

definition clearPmGroupData :: "pm_env \<Rightarrow> OnuMetricsManager \<Rightarrow> OnuMetricsManager" where
  "clearPmGroupData env s = (if mm_hasStore s then snd (clear_groups env s) else s)"

definition ClearAllPmData :: "pm_env \<Rightarrow> OnuMetricsManager \<Rightarrow> bool \<times> OnuMetricsManager" where
  "ClearAllPmData env s = (if mm_hasStore s then clear_groups env s else (False, s))"

end
