(* ===== verification/Pm_Cfg.thy ===== *)
theory Pm_Cfg
  imports Pm_Mgr
begin

text \<open>
  The configuration of the metrics, \<^verbatim>\<open>pmmgr/onu_metrics_manager.go\<close> and \<^verbatim>\<open>core/device_handler.go\<close>: the groups and their defaults,
  changes the core asks for, the GEM ports that are monitored, and the tick of the collector.
\<close>

subsection \<open>Start\<close>

definition initializeGroupMetric :: "pm_env \<Rightarrow> (string \<times> pm_type) list \<Rightarrow> string \<Rightarrow> bool \<Rightarrow> u32 \<Rightarrow> PmConfigs \<Rightarrow> PmConfigs" where
  "initializeGroupMetric env grpMtrcs grpName grpEnabled grpFreq cfg =
     (let enabled = (grpEnabled \<and> pe_metricsEnabled env);
          ms = map (\<lambda>(k, v). \<lparr> pcf_Name = k, pcf_Type = v, pcf_Enabled = enabled, pcf_SampleFreq = grpFreq \<rparr>) grpMtrcs
      in cfg\<lparr>pcs_Groups := pcs_Groups cfg @
           [\<lparr> pg_GroupName = grpName, pg_GroupFreq = grpFreq, pg_Enabled = enabled, pg_Metrics = ms \<rparr>]\<rparr>)"

definition initializeAllGroupMetrics :: "pm_env \<Rightarrow> PmConfigs" where
  "initializeAllGroupMetrics env =
     (let cfg = \<lparr> pcs_DefaultFreq = DefaultMetricCollectionFrequency, pcs_Grouped = True, pcs_FreqOverride = True,
                  pcs_Groups = [], pcs_Metrics = [] \<rparr>;
          cfg = initializeGroupMetric env OpticalPowerGroupMetrics OpticalPowerGroupMetricName True 300 cfg;
          cfg = initializeGroupMetric env UniStatusGroupMetrics UniStatusGroupMetricName True 300 cfg;
          cfg = initializeGroupMetric env EthernetBridgeHistory EthernetBridgeHistoryName True 900 cfg;
          cfg = initializeGroupMetric env EthernetUniHistory EthernetUniHistoryName True 900 cfg;
          cfg = initializeGroupMetric env FecHistory FecHistoryName True 900 cfg
      in initializeGroupMetric env GemPortHistory GemPortHistoryName True 900 cfg)"

definition local_group :: "PmGroupConfig \<Rightarrow> groupMetric" where
  "local_group g =
     (let n = pg_GroupName g;
          (ms, l2) = (if n = OpticalPowerGroupMetricName then (OpticalPowerGroupMetrics, False)
                      else if n = UniStatusGroupMetricName then (UniStatusGroupMetrics, False)
                      else if n = EthernetBridgeHistoryName then (EthernetBridgeHistory, True)
                      else if n = EthernetUniHistoryName then (EthernetUniHistory, True)
                      else if n = FecHistoryName then (FecHistory, True)
                      else if n = GemPortHistoryName then (GemPortHistory, True)
                      else ([], False))
      in \<lparr> gm_NextCollectionInterval = 0, gm_metricMap = ms, gm_pmMEData = None, gm_groupName = n,
           gm_Frequency = pg_GroupFreq g, gm_collectAttempts = 0, gm_Enabled = pg_Enabled g, IsL2PMCounter = l2 \<rparr>)"

definition populateLocalGroupMetricData :: "PmConfigs \<Rightarrow> OnuMetricsManager \<Rightarrow> OnuMetricsManager" where
  "populateLocalGroupMetricData cfg s =
     s\<lparr>GroupMetricMap := fold (\<lambda>g m. AList.update (pg_GroupName g) (local_group g) m) (pcs_Groups cfg) (GroupMetricMap s),
       StandaloneMetricMap := fold (\<lambda>m l. AList.update (pcf_Name m)
         \<lparr> sm_NextCollectionInterval = 0, sm_metricName = pcf_Name m, sm_Frequency = pcf_SampleFreq m, sm_Enabled = pcf_Enabled m \<rparr> l)
         (pcs_Metrics cfg) (StandaloneMetricMap s)\<rparr>"

text \<open>The configuration of the device handler is read through a pointer.\<close>

definition with_cfg :: "OnuMetricsManager \<Rightarrow> (PmConfigs \<Rightarrow> 'a run) \<Rightarrow> 'a run" where
  "with_cfg s f = (case mm_pmConfigs s of None \<Rightarrow> Fatal ''invalid memory address or nil pointer dereference'' | Some c \<Rightarrow> f c)"

definition after_freq :: "pm_env \<Rightarrow> u32 \<Rightarrow> int" where
  "after_freq env f = pe_now env + uint f"

definition InitializeMetricCollectionTime :: "pm_env \<Rightarrow> OnuMetricsManager \<Rightarrow> OnuMetricsManager run" where
  "InitializeMetricCollectionTime env s =
     with_cfg s (\<lambda>cfg. Done
       (if pcs_FreqOverride cfg
        then s\<lparr>GroupMetricMap := map (\<lambda>(k, g). (k, if gm_Enabled g \<and> \<not> IsL2PMCounter g
                  then g\<lparr>gm_NextCollectionInterval := after_freq env (gm_Frequency g)\<rparr> else g)) (GroupMetricMap s),
               StandaloneMetricMap := map (\<lambda>(k, m). (k, if sm_Enabled m
                  then m\<lparr>sm_NextCollectionInterval := after_freq env (sm_Frequency m)\<rparr> else m)) (StandaloneMetricMap s)\<rparr>
        else s\<lparr>NextGlobalMetricCollectionTime := after_freq env (pcs_DefaultFreq cfg)\<rparr>))"

text \<open>The stores of the two key-value paths are there or the manager is not created.\<close>

definition NewOnuMetricsManager ::
    "pm_env \<Rightarrow> OnuMetricsManager \<Rightarrow> bool \<Rightarrow> bool \<Rightarrow> OnuMetricsManager option run" where
  "NewOnuMetricsManager env s store extStore =
     (let s = s\<lparr>mm_fsm := L2PmStNull, GroupMetricMap := [], StandaloneMetricMap := [], extUpStreamME := Some [], extDownStreamME := Some [],
                activeL2Pms := [], l2PmToDelete := [], l2PmToAdd := [], maxL2PMGetPayLoadSize := 0, supportedExtClass := 0,
                omciProcessingActive := False, tickGenerationActive := False, deviceDeletionInProgress := False,
                readyForExtendedPm := False, extendedPmOngoing := False, mm_isExtendedOmci := False, mm_hasStore := False,
                mm_cleaned := False, mm_stopCollect := False, mm_syncBuffer := None, mm_queue := [], mm_tickers := 0,
                mm_gcComplete := False, mm_tasks := []\<rparr>;
          cfg = (case mm_pmConfigs s of None \<Rightarrow> initializeAllGroupMetrics env | Some c \<Rightarrow> c);
          s = populateLocalGroupMetricData cfg (s\<lparr>mm_pmConfigs := Some cfg\<rparr>) in
      bind_run (InitializeMetricCollectionTime env s) (\<lambda>s.
        if \<not> store then Done None
        else
          let (ok, s) = restorePmData env (s\<lparr>mm_hasStore := True\<rparr>)
          in Done (if extStore then Some s else None)))"

subsection \<open>Changes of the configuration\<close>

definition freq_ok :: "u32 \<Rightarrow> bool" where
  "freq_ok f \<longleftrightarrow> \<not> (f = 0 \<or> f > 0 \<and> f mod FrequencyGranularity \<noteq> 0)"

definition UpdateDefaultFrequency :: "pm_env \<Rightarrow> PmConfigs \<Rightarrow> OnuMetricsManager \<Rightarrow> (string option \<times> OnuMetricsManager) run" where
  "UpdateDefaultFrequency env p s =
     (if \<not> freq_ok (pcs_DefaultFreq p) then Done (Some ''frequency-should-be-a-multiple'', s)
      else with_cfg s (\<lambda>cfg. Done (None, s\<lparr>mm_pmConfigs := Some (cfg\<lparr>pcs_DefaultFreq := pcs_DefaultFreq p\<rparr>),
             NextGlobalMetricCollectionTime := after_freq env (pcs_DefaultFreq p)\<rparr>)))"

fun find_index :: "('a \<Rightarrow> bool) \<Rightarrow> 'a list \<Rightarrow> (nat \<times> 'a) option" where
  "find_index P [] = None"
| "find_index P (x # xs) = (if P x then Some (0, x) else map_option (\<lambda>(i, y). (Suc i, y)) (find_index P xs))"

text \<open>The stored configuration is changed at the position of the group in the request; a position beyond it panics.\<close>

definition set_group :: "nat \<Rightarrow> (PmGroupConfig \<Rightarrow> PmGroupConfig) \<Rightarrow> OnuMetricsManager \<Rightarrow> OnuMetricsManager run" where
  "set_group i f s =
     with_cfg s (\<lambda>cfg. if i < length (pcs_Groups cfg)
       then Done (s\<lparr>mm_pmConfigs := Some (cfg\<lparr>pcs_Groups := (pcs_Groups cfg)[i := f (pcs_Groups cfg ! i)]\<rparr>)\<rparr>)
       else Fatal ''index out of range'')"

definition set_metric :: "nat \<Rightarrow> (PmConfig \<Rightarrow> PmConfig) \<Rightarrow> OnuMetricsManager \<Rightarrow> OnuMetricsManager run" where
  "set_metric i f s =
     with_cfg s (\<lambda>cfg. if i < length (pcs_Metrics cfg)
       then Done (s\<lparr>mm_pmConfigs := Some (cfg\<lparr>pcs_Metrics := (pcs_Metrics cfg)[i := f (pcs_Metrics cfg ! i)]\<rparr>)\<rparr>)
       else Fatal ''index out of range'')"

definition UpdateGroupFreq ::
    "pm_env \<Rightarrow> string \<Rightarrow> PmConfigs \<Rightarrow> OnuMetricsManager \<Rightarrow> (string option \<times> OnuMetricsManager) run" where
  "UpdateGroupFreq env n p s =
     (case find_index (\<lambda>g. pg_GroupName g = n) (pcs_Groups p) of
        None \<Rightarrow> Done (Some ''group-name-not-found'', s)
      | Some (i, g) \<Rightarrow>
          if \<not> freq_ok (pg_GroupFreq g) then Done (Some ''frequency-should-be-a-multiple'', s)
          else (case map_of (GroupMetricMap s) n of
            None \<Rightarrow> Done (Some ''internal-error-during-group-freq-update'', s)
          | Some v \<Rightarrow>
              if IsL2PMCounter v then Done (Some ''internal-error-during-group-freq-update'', s)
              else bind_run (set_group i (\<lambda>c. c\<lparr>pg_GroupFreq := pg_GroupFreq g\<rparr>) s) (\<lambda>s.
                Done (None, group_update n (\<lambda>v. v\<lparr>gm_Frequency := pg_GroupFreq g,
                  gm_NextCollectionInterval := after_freq env (pg_GroupFreq g)\<rparr>) s))))"

text \<open>The frequency of a standalone metric is looked for among the groups.\<close>

definition UpdateMetricFreq ::
    "pm_env \<Rightarrow> string \<Rightarrow> PmConfigs \<Rightarrow> OnuMetricsManager \<Rightarrow> (string option \<times> OnuMetricsManager) run" where
  "UpdateMetricFreq env n p s =
     (case find_index (\<lambda>m. pcf_Name m = n) (pcs_Metrics p) of
        None \<Rightarrow> Done (Some ''metric-name-not-found'', s)
      | Some (i, m) \<Rightarrow>
          if \<not> freq_ok (pcf_SampleFreq m) then Done (Some ''frequency-should-be-a-multiple'', s)
          else (case map_of (GroupMetricMap s) n of
            None \<Rightarrow> Done (Some ''internal-error-during-standalone-metric-update'', s)
          | Some v \<Rightarrow> bind_run (set_metric i (\<lambda>c. c\<lparr>pcf_SampleFreq := pcf_SampleFreq m\<rparr>) s) (\<lambda>s.
                Done (None, group_update n (\<lambda>v. v\<lparr>gm_Frequency := pcf_SampleFreq m,
                  gm_NextCollectionInterval := after_freq env (pcf_SampleFreq m)\<rparr>) s))))"

subsection \<open>GEM ports\<close>

definition pm_data_or_panic :: "string \<Rightarrow> OnuMetricsManager \<Rightarrow> (pmMEData \<Rightarrow> 'a run) \<Rightarrow> 'a run" where
  "pm_data_or_panic n s f =
     (case Option.bind (map_of (GroupMetricMap s) n) gm_pmMEData of
        None \<Rightarrow> Fatal ''invalid memory address or nil pointer dereference''
      | Some d \<Rightarrow> f d)"

definition note_to_add :: "u16 \<Rightarrow> pmMEData \<Rightarrow> pmMEData" where
  "note_to_add i d = d\<lparr>InstancesToAdd := appendIfMissing (InstancesToAdd d) i, InstancesToDelete := removeIfFound (InstancesToDelete d) i\<rparr>"

definition note_to_delete :: "u16 \<Rightarrow> pmMEData \<Rightarrow> pmMEData" where
  "note_to_delete i d = d\<lparr>InstancesToDelete := appendIfMissing (InstancesToDelete d) i, InstancesToAdd := removeIfFound (InstancesToAdd d) i\<rparr>"

definition set_pm_data :: "string \<Rightarrow> pmMEData \<Rightarrow> OnuMetricsManager \<Rightarrow> OnuMetricsManager" where
  "set_pm_data n d = group_update n (\<lambda>g. g\<lparr>gm_pmMEData := Some d\<rparr>)"

fun note_gem_ports :: "(u16 \<Rightarrow> pmMEData \<Rightarrow> pmMEData) \<Rightarrow> u16 list \<Rightarrow> OnuMetricsManager \<Rightarrow> OnuMetricsManager run" where
  "note_gem_ports f [] s = Done s"
| "note_gem_ports f (i # is) s =
     bind_run (pm_data_or_panic GemPortHistoryName s (\<lambda>d. Done (set_pm_data GemPortHistoryName (f i d) s))) (note_gem_ports f is)"

definition bidirectional_gem_ports :: "pm_env \<Rightarrow> (u16 \<Rightarrow> pmMEData \<Rightarrow> pmMEData) \<Rightarrow> OnuMetricsManager \<Rightarrow> OnuMetricsManager run" where
  "bidirectional_gem_ports env f s =
     (case pe_onuTP env of
        None \<Rightarrow> Done s
      | Some tp \<Rightarrow> bind_run (GetAllBidirectionalGemPortIDsForOnu tp) (\<lambda>ids. note_gem_ports f ids s))"

definition updateGemPortNTPInstanceToAddForPerfMonitoring :: "pm_env \<Rightarrow> OnuMetricsManager \<Rightarrow> OnuMetricsManager run" where
  "updateGemPortNTPInstanceToAddForPerfMonitoring env = bidirectional_gem_ports env note_to_add"

definition updateGemPortNTPInstanceToDeleteForPerfMonitoring :: "pm_env \<Rightarrow> OnuMetricsManager \<Rightarrow> OnuMetricsManager run" where
  "updateGemPortNTPInstanceToDeleteForPerfMonitoring env = bidirectional_gem_ports env note_to_delete"

definition AddGemPortForPerfMonitoring :: "u16 \<Rightarrow> OnuMetricsManager \<Rightarrow> OnuMetricsManager run" where
  "AddGemPortForPerfMonitoring i s =
     pm_data_or_panic GemPortHistoryName s (\<lambda>d.
       let s = set_pm_data GemPortHistoryName (note_to_add i d) s;
           s = mm_go (PmEvent False L2PmEventAddMe) (s\<lparr>l2PmToAdd := appendIfMissing (l2PmToAdd s) GemPortHistoryName\<rparr>) in
       bind_run (PutOnuSpeficMe (class_id Me_GemPortNetworkCtpPerformanceMonitoringHistoryData) i None (mm_db s))
         (\<lambda>db. Done (s\<lparr>mm_db := db\<rparr>)))"

definition RemoveGemPortForPerfMonitoring :: "u16 \<Rightarrow> OnuMetricsManager \<Rightarrow> OnuMetricsManager run" where
  "RemoveGemPortForPerfMonitoring i s =
     pm_data_or_panic GemPortHistoryName s (\<lambda>d.
       let s = set_pm_data GemPortHistoryName (note_to_delete i d) s;
           s = mm_go (PmEvent False L2PmEventDeleteMe) (s\<lparr>l2PmToDelete := appendIfMissing (l2PmToDelete s) GemPortHistoryName\<rparr>) in
       bind_run (DeleteMe (class_id Me_GemPortNetworkCtpPerformanceMonitoringHistoryData) i (mm_db s, mm_cmn s))
         (\<lambda>(db, h). Done (s\<lparr>mm_db := db, mm_cmn := h\<rparr>)))"

text \<open>The loop over the groups of the request goes on to its last one when the name is not found, and a request
  without groups is refused.\<close>

definition requested_group :: "('a \<Rightarrow> bool) \<Rightarrow> 'a list \<Rightarrow> (nat \<times> 'a) option" where
  "requested_group P gs =
     (case find_index P gs of
        Some r \<Rightarrow> Some r
      | None \<Rightarrow> if gs = [] then None else Some (length gs - 1, last gs))"

definition UpdateGroupSupport ::
    "pm_env \<Rightarrow> string \<Rightarrow> PmConfigs \<Rightarrow> OnuMetricsManager \<Rightarrow> (string option \<times> OnuMetricsManager) run" where
  "UpdateGroupSupport env n p s =
     (case requested_group (\<lambda>g. pg_GroupName g = n) (pcs_Groups p) of
        None \<Rightarrow> Done (Some ''group-not-found'', s)
      | Some (i, grp) \<Rightarrow>
          (case map_of (GroupMetricMap s) n of
             None \<Rightarrow> Done (Some ''internal-error-during-group-support-update'', s)
           | Some v \<Rightarrow>
               if gm_Enabled v = pg_Enabled grp then Done (Some ''internal-error-during-group-support-update'', s)
               else bind_run (set_group i (\<lambda>c. c\<lparr>pg_Enabled := pg_Enabled grp\<rparr>) s) (\<lambda>s.
                 let s = group_update n (\<lambda>v. v\<lparr>gm_Enabled := pg_Enabled grp\<rparr>) s; name = gm_groupName v in
                 if pg_Enabled grp then
                   (if IsL2PMCounter v then
                      let s = s\<lparr>l2PmToAdd := appendIfMissing (l2PmToAdd s) name, l2PmToDelete := removeIfFound (l2PmToDelete s) name\<rparr> in
                      bind_run (if name = GemPortHistoryName then updateGemPortNTPInstanceToAddForPerfMonitoring env s else Done s)
                        (\<lambda>s. Done (None, s))
                    else with_cfg s (\<lambda>cfg. Done (None,
                      if pcs_FreqOverride cfg
                      then group_update n (\<lambda>v. v\<lparr>gm_NextCollectionInterval := after_freq env (gm_Frequency v)\<rparr>) s else s)))
                 else
                   (if IsL2PMCounter v then
                      let s = s\<lparr>l2PmToDelete := appendIfMissing (l2PmToDelete s) name, l2PmToAdd := removeIfFound (l2PmToAdd s) name\<rparr> in
                      bind_run (if name = GemPortHistoryName then updateGemPortNTPInstanceToDeleteForPerfMonitoring env s else Done s)
                        (\<lambda>s. Done (None, s))
                    else Done (None, s)))))"

definition UpdateMetricSupport ::
    "pm_env \<Rightarrow> string \<Rightarrow> PmConfigs \<Rightarrow> OnuMetricsManager \<Rightarrow> (string option \<times> OnuMetricsManager) run" where
  "UpdateMetricSupport env n p s =
     (case requested_group (\<lambda>m. pcf_Name m = n) (pcs_Metrics p) of
        None \<Rightarrow> Done (Some ''metric-not-found'', s)
      | Some (i, m) \<Rightarrow>
          (case map_of (StandaloneMetricMap s) n of
             None \<Rightarrow> Done (Some ''internal-error-during-standalone-support-update'', s)
           | Some v \<Rightarrow>
               if sm_Enabled v = pcf_Enabled m then Done (Some ''internal-error-during-standalone-support-update'', s)
               else bind_run (set_metric i (\<lambda>c. c\<lparr>pcf_Enabled := pcf_Enabled m\<rparr>) s) (\<lambda>s.
                 with_cfg s (\<lambda>cfg. Done (None, s\<lparr>StandaloneMetricMap := map (\<lambda>(k, x). (k,
                   if k = n then x\<lparr>sm_Enabled := pcf_Enabled m, sm_NextCollectionInterval :=
                     (if pcf_Enabled m \<and> pcs_FreqOverride cfg then after_freq env (sm_Frequency x) else sm_NextCollectionInterval x)\<rparr>
                   else x)) (StandaloneMetricMap s)\<rparr>)))))"

subsection \<open>Requests of the core\<close>

type_synonym cfg_result = "string list \<times> OnuMetricsManager"

definition cfg_step :: "(OnuMetricsManager \<Rightarrow> (string option \<times> OnuMetricsManager) run) \<Rightarrow> cfg_result \<Rightarrow> cfg_result run" where
  "cfg_step f x = (let (es, s) = x in bind_run (f s) (\<lambda>(e, s). Done (case e of None \<Rightarrow> es | Some e \<Rightarrow> es @ [e], s)))"

definition handleGlobalPmConfigUpdates :: "pm_env \<Rightarrow> PmConfigs \<Rightarrow> cfg_result \<Rightarrow> cfg_result run" where
  "handleGlobalPmConfigUpdates env p x =
     with_cfg (snd x) (\<lambda>cfg. if pcs_DefaultFreq p \<noteq> pcs_DefaultFreq cfg then cfg_step (UpdateDefaultFrequency env p) x else Done x)"

text \<open>The map is read once for both comparisons, and what it points to changes with the first.\<close>

fun handleGroupPmConfigUpdates :: "pm_env \<Rightarrow> PmConfigs \<Rightarrow> PmGroupConfig list \<Rightarrow> cfg_result \<Rightarrow> cfg_result run" where
  "handleGroupPmConfigUpdates env p [] x = Done x"
| "handleGroupPmConfigUpdates env p (v # vs) x =
     (let n = pg_GroupName v in
      bind_run (case map_of (GroupMetricMap (snd x)) n of
                  Some m \<Rightarrow> if gm_Frequency m \<noteq> pg_GroupFreq v then cfg_step (UpdateGroupFreq env n p) x else Done x
                | None \<Rightarrow> Done x) (\<lambda>x.
      bind_run (case map_of (GroupMetricMap (snd x)) n of
                  Some m \<Rightarrow> if gm_Enabled m \<noteq> pg_Enabled v then cfg_step (UpdateGroupSupport env n p) x else Done x
                | None \<Rightarrow> Done x) (handleGroupPmConfigUpdates env p vs)))"

fun handleStandalonePmConfigUpdates :: "pm_env \<Rightarrow> PmConfigs \<Rightarrow> PmConfig list \<Rightarrow> cfg_result \<Rightarrow> cfg_result run" where
  "handleStandalonePmConfigUpdates env p [] x = Done x"
| "handleStandalonePmConfigUpdates env p (v # vs) x =
     (let n = pcf_Name v in
      bind_run (case map_of (StandaloneMetricMap (snd x)) n of
                  Some m \<Rightarrow> if sm_Frequency m \<noteq> pcf_SampleFreq v then cfg_step (UpdateMetricFreq env n p) x else Done x
                | None \<Rightarrow> Done x) (\<lambda>x.
      bind_run (case map_of (StandaloneMetricMap (snd x)) n of
                  Some m \<Rightarrow> if sm_Enabled m \<noteq> pcf_Enabled v then cfg_step (UpdateMetricSupport env n p) x else Done x
                | None \<Rightarrow> Done x) (handleStandalonePmConfigUpdates env p vs)))"

definition updatePmConfig :: "pm_env \<Rightarrow> PmConfigs \<Rightarrow> OnuMetricsManager \<Rightarrow> cfg_result run" where
  "updatePmConfig env p s =
     bind_run (handleGlobalPmConfigUpdates env p ([], s)) (\<lambda>(e1, s).
     bind_run (handleGroupPmConfigUpdates env p (pcs_Groups p) ([], s)) (\<lambda>(e2, s).
     bind_run (handleStandalonePmConfigUpdates env p (pcs_Metrics p) ([], s)) (\<lambda>(e3, s). Done (e3 @ e2 @ e1, s))))"

subsection \<open>The collector of the device handler\<close>

definition due :: "pm_env \<Rightarrow> int \<Rightarrow> bool" where
  "due env t \<longleftrightarrow> t \<le> pe_now env"

definition CollectAllGroupAndStandaloneMetrics :: "PmConfigs \<Rightarrow> OnuMetricsManager \<Rightarrow> OnuMetricsManager" where
  "CollectAllGroupAndStandaloneMetrics cfg s =
     (if pcs_Grouped cfg then mm_go PmCollectUniStatus (mm_go PmCollectOptical s) else s)"

definition CollectGroupMetric :: "string \<Rightarrow> OnuMetricsManager \<Rightarrow> OnuMetricsManager" where
  "CollectGroupMetric n s =
     (if n = OpticalPowerGroupMetricName then mm_go PmCollectOptical s
      else if n = UniStatusGroupMetricName then mm_go PmCollectUniStatus s else s)"

definition collector_tick :: "pm_env \<Rightarrow> OnuMetricsManager \<Rightarrow> OnuMetricsManager run" where
  "collector_tick env s =
     with_cfg s (\<lambda>cfg. Done
       (if \<not> pcs_FreqOverride cfg then
          (if due env (NextGlobalMetricCollectionTime s)
           then (CollectAllGroupAndStandaloneMetrics cfg s)
             \<lparr>NextGlobalMetricCollectionTime := NextGlobalMetricCollectionTime s + uint (pcs_DefaultFreq cfg)\<rparr>
           else s)
        else if pcs_Grouped cfg then
          let dueGroup = (\<lambda>g. gm_Enabled g \<and> \<not> IsL2PMCounter g \<and> due env (gm_NextCollectionInterval g));
              dueMetric = (\<lambda>m. sm_Enabled m \<and> due env (sm_NextCollectionInterval m));
              s = fold (\<lambda>(n, g) s. if dueGroup g then CollectGroupMetric n s else s) (GroupMetricMap s) s
          in s\<lparr>GroupMetricMap := map (\<lambda>(n, g). (n, if dueGroup g
                 then g\<lparr>gm_NextCollectionInterval := gm_NextCollectionInterval g + uint (gm_Frequency g)\<rparr> else g)) (GroupMetricMap s),
               StandaloneMetricMap := map (\<lambda>(n, m). (n, if dueMetric m
                 then m\<lparr>sm_NextCollectionInterval := sm_NextCollectionInterval m + uint (sm_Frequency m)\<rparr> else m)) (StandaloneMetricMap s)\<rparr>
        else s))"

text \<open>The end of the collector: the signal for the loop over the messages blocks while that loop waits for a reader.\<close>

definition stop_collector :: "OnuMetricsManager \<Rightarrow> OnuMetricsManager run" where
  "stop_collector s =
     (let s = mm_go (PmEvent True L2PmEventStop) s in
      bind_run (if omciProcessingActive s
                then if mm_queue s = [] then Done (s\<lparr>omciProcessingActive := False\<rparr>) else Deadlock
                else Done s) (\<lambda>s.
        Done (if tickGenerationActive s then s\<lparr>mm_tickers := mm_tickers s - 1, tickGenerationActive := False\<rparr> else s)))"

text \<open>The start of the loop over the messages, when none is running: one waiting message and the value of the time
  synchronisation are dropped.\<close>

definition MaxBaselineL2PMGetPayLoadSize :: int where "MaxBaselineL2PMGetPayLoadSize = 24"
definition MaxExtendedL2PMGetPayLoadSize :: int where "MaxExtendedL2PMGetPayLoadSize = 1980 - 17 - 1 - 4"

definition ProcessOmciMessages_start :: "bool \<Rightarrow> OnuMetricsManager \<Rightarrow> OnuMetricsManager" where
  "ProcessOmciMessages_start isExt s =
     pm_process [] (s\<lparr>mm_queue := tl (mm_queue s), mm_syncBuffer := None, mm_isExtendedOmci := isExt,
       maxL2PMGetPayLoadSize := (if isExt then MaxExtendedL2PMGetPayLoadSize else MaxBaselineL2PMGetPayLoadSize),
       omciProcessingActive := True\<rparr>)"

end
