(* ===== verification/Pm_Fsm.thy ===== *)
theory Pm_Fsm
  imports Pm_Cfg
begin

text \<open>
  The state machine of the counters of layer 2, \<^verbatim>\<open>pmmgr/onu_metrics_manager.go\<close>: it creates and deletes the entities
  that count, and collects their values every 15 minutes. The enter functions run with the event mutex of the
  machine held; a goroutine is a task. An event that an enter function raises itself blocks for ever.
\<close>

subsection \<open>Published values\<close>

text \<open>A \<^verbatim>\<open>float32\<close> has 24 significant bits; the rounding is to nearest, ties to even.\<close>

fun excess_bits :: "nat \<Rightarrow> nat" where
  "excess_bits n = (if n < 2 ^ 24 then 0 else Suc (excess_bits (n div 2)))"

declare excess_bits.simps [simp del]

definition float32_of_nat :: "nat \<Rightarrow> nat" where
  "float32_of_nat n =
     (let e = excess_bits n; q = n div 2 ^ e; r = n mod 2 ^ e in
      if e = 0 then n
      else if 2 ^ e < 2 * r \<or> 2 * r = 2 ^ e \<and> odd q then (q + 1) * 2 ^ e else q * 2 ^ e)"

definition float32_of_int :: "int \<Rightarrow> int" where
  "float32_of_int i = (if 0 \<le> i then int (float32_of_nat (nat i)) else - int (float32_of_nat (nat (- i))))"

datatype counter_kind = Kind16 | Kind32 | Kind64

text \<open>A type assertion to the type of the counter.\<close>

fun counter_value :: "counter_kind \<Rightarrow> Dev_Db.attr_value \<Rightarrow> nat option" where
  "counter_value Kind16 (AvUint16 v) = Some (unat v)"
| "counter_value Kind32 (AvUint32 v) = Some (unat v)"
| "counter_value Kind64 (AvUint64 v) = Some (unat v)"
| "counter_value _ _ = None"

type_synonym counter_table = "(string \<times> string \<times> counter_kind) list"

definition bridge_counters :: counter_table where
  "bridge_counters =
     [(''entity_id'', ''ManagedEntityId'', Kind16), (''drop_events'', ''DropEvents'', Kind32), (''octets'', ''Octets'', Kind32),
      (''packets'', ''Packets'', Kind32), (''broadcast_packets'', ''BroadcastPackets'', Kind32),
      (''multicast_packets'', ''MulticastPackets'', Kind32), (''crc_errored_packets'', ''CrcErroredPackets'', Kind32),
      (''undersize_packets'', ''UndersizePackets'', Kind32), (''oversize_packets'', ''OversizePackets'', Kind32),
      (''64_octets'', ''Packets64Octets'', Kind32), (''65_to_127_octets'', ''Packets65To127Octets'', Kind32),
      (''128_to_255_octets'', ''Packets128To255Octets'', Kind32), (''256_to_511_octets'', ''Packets256To511Octets'', Kind32),
      (''512_to_1023_octets'', ''Packets512To1023Octets'', Kind32),
      (''1024_to_1518_octets'', ''Packets1024To1518Octets'', Kind32)]"

definition uni_counters :: counter_table where
  "uni_counters =
     [(''entity_id'', ''ManagedEntityId'', Kind16), (''fcs_errors'', ''FcsErrors'', Kind32),
      (''excessive_collision_counter'', ''ExcessiveCollisionCounter'', Kind32),
      (''late_collision_counter'', ''LateCollisionCounter'', Kind32), (''frames_too_long'', ''FramesTooLong'', Kind32),
      (''buffer_overflows_on_rx'', ''BufferOverflowsOnReceive'', Kind32),
      (''buffer_overflows_on_tx'', ''BufferOverflowsOnTransmit'', Kind32),
      (''single_collision_frame_counter'', ''SingleCollisionFrameCounter'', Kind32),
      (''multiple_collisions_frame_counter'', ''MultipleCollisionsFrameCounter'', Kind32),
      (''sqe_counter'', ''SqeCounter'', Kind32), (''deferred_tx_counter'', ''DeferredTransmissionCounter'', Kind32),
      (''internal_mac_tx_error_counter'', ''InternalMacTransmitErrorCounter'', Kind32),
      (''carrier_sense_error_counter'', ''CarrierSenseErrorCounter'', Kind32),
      (''alignment_error_counter'', ''AlignmentErrorCounter'', Kind32),
      (''internal_mac_rx_error_counter'', ''InternalMacReceiveErrorCounter'', Kind32)]"

definition fec_counters :: counter_table where
  "fec_counters =
     [(''entity_id'', ''ManagedEntityId'', Kind16), (''corrected_bytes'', ''CorrectedBytes'', Kind32),
      (''corrected_code_words'', ''CorrectedCodeWords'', Kind32),
      (''uncorrectable_code_words'', ''UncorrectableCodeWords'', Kind32),
      (''total_code_words'', ''TotalCodeWords'', Kind32), (''fec_seconds'', ''FecSeconds'', Kind16)]"

definition gem_counters :: counter_table where
  "gem_counters =
     [(''entity_id'', ''ManagedEntityId'', Kind16), (''transmitted_gem_frames'', ''TransmittedGemFrames'', Kind32),
      (''received_gem_frames'', ''ReceivedGemFrames'', Kind32), (''received_payload_bytes'', ''ReceivedPayloadBytes'', Kind64),
      (''transmitted_payload_bytes'', ''TransmittedPayloadBytes'', Kind64),
      (''encryption_key_errors'', ''EncryptionKeyErrors'', Kind32)]"

text \<open>A metric that is known already keeps its value.\<close>

fun fill_metrics :: "counter_table \<Rightarrow> me_attributes \<Rightarrow> string list \<Rightarrow> metric_data \<Rightarrow> metric_data run" where
  "fill_metrics tab a [] d = Done d"
| "fill_metrics tab a (k # ks) d =
     (if map_of d k \<noteq> None then fill_metrics tab a ks d
      else case map_of tab k of
        None \<Rightarrow> fill_metrics tab a ks d
      | Some (attr, kind) \<Rightarrow>
          (case map_of a attr of
             None \<Rightarrow> fill_metrics tab a ks d
           | Some v \<Rightarrow>
               if v = AvNil then fill_metrics tab a ks d
               else (case counter_value kind v of
                       None \<Rightarrow> Fatal ''interface conversion''
                     | Some x \<Rightarrow> fill_metrics tab a ks (d @ [(k, float32_of_int (int x))]))))"

definition updateAndValidateIntervalEndTime :: "me_attributes \<Rightarrow> int \<Rightarrow> (bool \<times> int) run" where
  "updateAndValidateIntervalEndTime a t =
     (case map_of a ''IntervalEndTime'' of
        Some (AvUint8 v) \<Rightarrow> Done (if t = -1 then (True, uint v) else (uint v = t, t))
      | None \<Rightarrow> Done (if t = -1 then (False, t) else (0 = t, t))
      | Some AvNil \<Rightarrow> Done (if t = -1 then (False, t) else (0 = t, t))
      | Some _ \<Rightarrow> Fatal ''interface conversion'')"

subsection \<open>Collecting the counters of an entity\<close>

text \<open>The request for the attributes \<open>req\<close> of an entity. \<open>raise\<close> is what a failed send does; the result is \<open>None\<close> after an
  error. A response counts only while the device exists.\<close>

definition pm_get :: "pm_env \<Rightarrow> (OnuMetricsManager \<Rightarrow> OnuMetricsManager run) \<Rightarrow> pm_chan \<Rightarrow> u16 \<Rightarrow> u16 \<Rightarrow> Omci_Me.AttributeValueMap \<Rightarrow> bool \<Rightarrow>
    OnuMetricsManager \<Rightarrow> (me_attributes option \<times> OnuMetricsManager) run" where
  "pm_get env raise ch cls i req isCurrent s =
     (if mm_ctxDone s then Done (None, s)
      else bind_run (pm_request env (\<lambda>c. (if isCurrent then SendGetCurrentDataME else SendGetMe) c cls i req (pe_timeout env) True
          (mm_CommChan s) (mm_isExtendedOmci s)) s) (\<lambda>(r, s).
        case r of
          Inl e \<Rightarrow> bind_run (raise s) (\<lambda>s. Done (None, s))
        | Inr m \<Rightarrow> (case pm_wait env ch s of
            (Some (VAttributes a), s) \<Rightarrow> Done (Some a, s)
          | (_, s) \<Rightarrow> Done (None, s))))"

type_synonym collect_state = "metric_data \<times> int \<times> OnuMetricsManager"

definition populate_metrics :: "counter_table \<Rightarrow> (string \<times> pm_type) list \<Rightarrow> pm_chan \<Rightarrow> pm_env \<Rightarrow>
    (OnuMetricsManager \<Rightarrow> OnuMetricsManager run) \<Rightarrow> u16 \<Rightarrow> u16 \<Rightarrow> bool \<Rightarrow> Omci_Me.AttributeValueMap \<Rightarrow> collect_state \<Rightarrow>
    (bool \<times> collect_state) run" where
  "populate_metrics tab grp ch env raise cls i isCurrent req x =
     (let (d, t, s) = x in
      bind_run (pm_get env raise ch cls i (AList.update ''IntervalEndTime'' (AvInt 0) req) isCurrent s) (\<lambda>(a, s).
        case a of
          None \<Rightarrow> Done (False, d, t, s)
        | Some a \<Rightarrow>
            bind_run (updateAndValidateIntervalEndTime a t) (\<lambda>(valid, t).
              if \<not> valid then Done (False, d, t, s)
              else bind_run (fill_metrics tab a (map fst grp) d) (\<lambda>d. Done (True, d, t, s)))))"

definition failure_async :: "OnuMetricsManager \<Rightarrow> OnuMetricsManager run" where
  "failure_async s = Done (mm_go (PmEvent False L2PmEventFailure) s)"

definition populateEthernetBridgeHistoryMetrics where
  "populateEthernetBridgeHistoryMetrics env raise = populate_metrics bridge_counters EthernetBridgeHistory ChL2Pm env failure_async"

definition populateEthernetUniHistoryMetrics where
  "populateEthernetUniHistoryMetrics env raise = populate_metrics uni_counters EthernetUniHistory ChL2Pm env raise"

definition populateFecHistoryMetrics where
  "populateFecHistoryMetrics env raise cls i isCurrent =
     populate_metrics fec_counters FecHistory (if isCurrent then ChOptical else ChL2Pm) env raise cls i isCurrent"

definition populateGemPortMetrics where
  "populateGemPortMetrics env raise = populate_metrics gem_counters GemPortHistory ChL2Pm env raise"

text \<open>The attributes are requested in groups that fit into a response.\<close>

definition skipped_attribute :: "string \<Rightarrow> bool" where
  "skipped_attribute n \<longleftrightarrow> n = ''ManagedEntityId'' \<or> n = ''IntervalEndTime'' \<or> n = ''ThresholdData12Id''"

fun populate_loop :: "(Omci_Me.AttributeValueMap \<Rightarrow> collect_state \<Rightarrow> (bool \<times> collect_state) run) \<Rightarrow> int \<Rightarrow>
    (string \<times> int \<times> Omci_Me.attr_value) list \<Rightarrow> Omci_Me.AttributeValueMap \<Rightarrow> int \<Rightarrow> collect_state \<Rightarrow> (bool \<times> collect_state) run" where
  "populate_loop grpFunc limit [] req used x = grpFunc req x"
| "populate_loop grpFunc limit ((n, sz, def) # as) req used x =
     (if skipped_attribute n then populate_loop grpFunc limit as req used x
      else if sz + used \<le> limit then populate_loop grpFunc limit as (AList.update n def req) (sz + used) x
      else bind_run (grpFunc req x) (\<lambda>(ok, x).
        if \<not> ok then Done (False, x) else populate_loop grpFunc limit as [(n, def)] sz x))"

definition history_function :: "pm_env \<Rightarrow> (OnuMetricsManager \<Rightarrow> OnuMetricsManager run) \<Rightarrow> u16 \<Rightarrow> u16 \<Rightarrow> bool \<Rightarrow>
    (Omci_Me.AttributeValueMap \<Rightarrow> collect_state \<Rightarrow> (bool \<times> collect_state) run) option" where
  "history_function env raise cls i isCurrent =
     (if cls = class_id Me_EthernetFramePerformanceMonitoringHistoryDataUpstream \<or>
         cls = class_id Me_EthernetFramePerformanceMonitoringHistoryDataDownstream
      then Some (populateEthernetBridgeHistoryMetrics env raise cls i isCurrent)
      else if cls = class_id Me_EthernetPerformanceMonitoringHistoryData
      then Some (populateEthernetUniHistoryMetrics env raise cls i isCurrent)
      else if cls = class_id Me_FecPerformanceMonitoringHistoryData
      then Some (populateFecHistoryMetrics env raise cls i isCurrent)
      else if cls = class_id Me_GemPortNetworkCtpPerformanceMonitoringHistoryData
      then Some (populateGemPortMetrics env raise cls i isCurrent)
      else None)"

definition populateGroupSpecificMetrics :: "pm_env \<Rightarrow> (OnuMetricsManager \<Rightarrow> OnuMetricsManager run) \<Rightarrow> u16 \<Rightarrow> u16 \<Rightarrow> bool \<Rightarrow>
    collect_state \<Rightarrow> (bool \<times> collect_state) run" where
  "populateGroupSpecificMetrics env raise cls i isCurrent x =
     (case history_function env raise cls i isCurrent of
        None \<Rightarrow> Done (False, x)
      | Some f \<Rightarrow> populate_loop f (maxL2PMGetPayLoadSize (snd (snd x))) (pe_attrs env cls) [] 0 x)"

definition collect_history :: "pm_env \<Rightarrow> (OnuMetricsManager \<Rightarrow> OnuMetricsManager run) \<Rightarrow> string \<Rightarrow> u16 \<Rightarrow> u16 \<Rightarrow> bool \<Rightarrow>
    (string \<times> int) list \<Rightarrow> OnuMetricsManager \<Rightarrow> ((string \<times> metric_data) option \<times> OnuMetricsManager) run" where
  "collect_history env raise title cls i isCurrent context_data s =
     (if \<not> pe_new env cls then Done (None, s)
      else bind_run (populateGroupSpecificMetrics env raise cls i isCurrent ([], -1, s)) (\<lambda>(ok, d, t, s).
        if \<not> ok then Done (None, s)
        else
          let d = AList.update ''class_id'' (uint cls) d;
              d = AList.update ''interval_end_time'' t d;
              d = fold (\<lambda>(k, v). AList.update k v) context_data d
          in Done (Some (title, d), s)))"

definition collectEthernetFramePerformanceMonitoringHistoryData where
  "collectEthernetFramePerformanceMonitoringHistoryData env raise upstream i =
     collect_history env raise EthernetBridgeHistoryName
       (class_id (if upstream then Me_EthernetFramePerformanceMonitoringHistoryDataUpstream
                  else Me_EthernetFramePerformanceMonitoringHistoryDataDownstream)) i False
       [(''parent_class_id'', 46), (''parent_entity_id'', uint i), (''upstream'', if upstream then 1 else 0)]"

definition collectEthernetUniHistoryData where
  "collectEthernetUniHistoryData env raise i =
     collect_history env raise EthernetUniHistoryName (class_id Me_EthernetPerformanceMonitoringHistoryData) i False []"

definition collectFecHistoryData where
  "collectFecHistoryData env raise i isCurrent =
     collect_history env raise FecHistoryName (class_id Me_FecPerformanceMonitoringHistoryData) i isCurrent []"

definition collectGemHistoryData where
  "collectGemHistoryData env raise i isCurrent =
     collect_history env raise GemPortHistoryName (class_id Me_GemPortNetworkCtpPerformanceMonitoringHistoryData) i isCurrent []"

subsection \<open>The table\<close>

definition l2pm_events :: "(l2pm_evt, l2pm_state) fsm_events" where
  "l2pm_events =
    [(L2PmEventInit, [L2PmStNull], L2PmStStarting),
     (L2PmEventTick, [L2PmStStarting], L2PmStSyncTime),
     (L2PmEventTick, [L2PmStIdle, L2PmStCreatePmMe, L2PmStDeletePmMe], L2PmStCollectData),
     (L2PmEventSuccess, [L2PmStSyncTime, L2PmStCreatePmMe, L2PmStDeletePmMe, L2PmStCollectData], L2PmStIdle),
     (L2PmEventFailure, [L2PmStCreatePmMe, L2PmStDeletePmMe, L2PmStCollectData], L2PmStIdle),
     (L2PmEventFailure, [L2PmStSyncTime], L2PmStSyncTime),
     (L2PmEventAddMe, [L2PmStIdle], L2PmStCreatePmMe),
     (L2PmEventDeleteMe, [L2PmStIdle], L2PmStDeletePmMe),
     (L2PmEventStop, [L2PmStNull, L2PmStStarting, L2PmStSyncTime, L2PmStIdle, L2PmStCreatePmMe, L2PmStDeletePmMe,
       L2PmStCollectData], L2PmStNull)]"

subsection \<open>Entering the states\<close>

text \<open>The enabled counters that are not active are to be added, the disabled active ones to be deleted.\<close>

definition l2PMFsmStarting :: "OnuMetricsManager \<Rightarrow> OnuMetricsManager" where
  "l2PMFsmStarting s =
     (if deviceDeletionInProgress s then s
      else
        let s = s\<lparr>mm_stopCollect := False\<rparr>;
            l2 = filter (\<lambda>(n, g). IsL2PMCounter g) (GroupMetricMap s);
            add = map fst (filter (\<lambda>(n, g). gm_Enabled g \<and> n \<notin> set (activeL2Pms s)) l2);
            del = map fst (filter (\<lambda>(n, g). \<not> gm_Enabled g \<and> n \<in> set (activeL2Pms s)) l2)
        in mm_go (PmEvent True L2PmEventTick)
             (s\<lparr>l2PmToAdd := foldl appendIfMissing (l2PmToAdd s) add,
                l2PmToDelete := foldl appendIfMissing (l2PmToDelete s) del\<rparr>))"

definition pm_syncTime :: "pm_env \<Rightarrow> OnuMetricsManager \<Rightarrow> (bool \<times> OnuMetricsManager) run" where
  "pm_syncTime env s =
     (if deviceDeletionInProgress s then Done (True, s)
      else if \<not> omciProcessingActive s then Done (False, s)
      else bind_run (pm_request env (\<lambda>c. SendSyncTime c (pe_utc env) (pe_timeout env) True (mm_CommChan s)) s) (\<lambda>(r, s).
        case r of
          Inl e \<Rightarrow> Done (False, s)
        | Inr x \<Rightarrow> (case pm_wait env ChSyncTime s of (v, s) \<Rightarrow> Done (v = Some (VBool True), s))))"

text \<open>A failed synchronisation raises the failure after 15 seconds, and goes on as a successful one.\<close>

definition l2PMFsmSyncTime :: "pm_env \<Rightarrow> OnuMetricsManager \<Rightarrow> OnuMetricsManager run" where
  "l2PMFsmSyncTime env s =
     (if deviceDeletionInProgress s then Done s
      else bind_run (pm_syncTime env s) (\<lambda>(ok, s).
        if \<not> ok \<and> deviceDeletionInProgress s then Done s
        else
          let s = (if ok then s else mm_go (PmEvent True L2PmEventFailure) s);
              s = s\<lparr>mm_tickers := mm_tickers s + 1, tickGenerationActive := True\<rparr>
          in Done (mm_go (PmEvent True L2PmEventSuccess) s)))"

definition l2PMFsmNull :: "pm_env \<Rightarrow> l2pm_evt \<Rightarrow> OnuMetricsManager \<Rightarrow> OnuMetricsManager" where
  "l2PMFsmNull env ev s =
     (let s = s\<lparr>activeL2Pms := [], l2PmToAdd := [], l2PmToDelete := []\<rparr>;
          s = (if ev = L2PmEventStop then clearPmGroupData env s else s)
      in s\<lparr>mm_gcComplete := True\<rparr>)"

definition l2PMFsmIdle :: "OnuMetricsManager \<Rightarrow> OnuMetricsManager" where
  "l2PMFsmIdle s =
     (if deviceDeletionInProgress s then s
      else if l2PmToDelete s \<noteq> [] then mm_go (PmEvent False L2PmEventDeleteMe) s
      else if l2PmToAdd s \<noteq> [] then mm_go (PmEvent False L2PmEventAddMe) s
      else s)"

subsection \<open>Collection\<close>

text \<open>An event raised within an enter function finds the event mutex taken.\<close>

definition raise_in_callback :: "OnuMetricsManager \<Rightarrow> OnuMetricsManager run" where
  "raise_in_callback s = Deadlock"

fun collect_each :: "('i \<Rightarrow> OnuMetricsManager \<Rightarrow> ((string \<times> metric_data) option \<times> OnuMetricsManager) run) \<Rightarrow> 'i list \<Rightarrow>
    (string \<times> metric_data) list \<Rightarrow> OnuMetricsManager \<Rightarrow> ((string \<times> metric_data) list \<times> OnuMetricsManager) run" where
  "collect_each f [] acc s = Done (acc, s)"
| "collect_each f (i # is) acc s =
     bind_run (f i s) (\<lambda>(m, s). collect_each f is (case m of None \<Rightarrow> acc | Some m \<Rightarrow> acc @ [m]) s)"

definition collect_group :: "pm_env \<Rightarrow> string \<Rightarrow> u16 list \<Rightarrow> OnuMetricsManager \<Rightarrow> ((string \<times> metric_data) list \<times> OnuMetricsManager) run" where
  "collect_group env n ids s =
     (let raise = raise_in_callback in
      if n = EthernetBridgeHistoryName then
        collect_each (\<lambda>(i, upstream). collectEthernetFramePerformanceMonitoringHistoryData env raise upstream i)
          (concat (map (\<lambda>i. [(i, True), (i, False)]) ids)) [] s
      else if n = EthernetUniHistoryName then collect_each (collectEthernetUniHistoryData env raise) ids [] s
      else if n = FecHistoryName then collect_each (\<lambda>i. collectFecHistoryData env raise i False) ids [] s
      else if n = GemPortHistoryName then collect_each (\<lambda>i. collectGemHistoryData env raise i False) ids [] s
      else Done ([], s))"

definition handleMetricsPublish :: "string \<Rightarrow> (string \<times> metric_data) list \<Rightarrow> OnuMetricsManager \<Rightarrow> OnuMetricsManager" where
  "handleMetricsPublish n ms s =
     (if ms \<noteq> [] then mm_emit (PublishMetrics ms) s
      else
        let s = group_update n (\<lambda>g. g\<lparr>gm_collectAttempts := gm_collectAttempts g + 1\<rparr>) s in
        case map_of (GroupMetricMap s) n of
          Some g \<Rightarrow> if gm_collectAttempts g > 3 then s\<lparr>activeL2Pms := removeIfFound (activeL2Pms s) n\<rparr> else s
        | None \<Rightarrow> s)"

text \<open>The flag tells whether the loop ended by itself.\<close>

fun collect_groups :: "pm_env \<Rightarrow> string list \<Rightarrow> OnuMetricsManager \<Rightarrow> (bool \<times> OnuMetricsManager) run" where
  "collect_groups env [] s = Done (True, s)"
| "collect_groups env (n # ns) s =
     (if mm_ctxDone s then Done (False, s)
      else if mm_stopCollect s then Done (False, s\<lparr>mm_stopCollect := False\<rparr>)
      else pm_data_or_panic n s (\<lambda>d.
        bind_run (collect_group env n (InstancesActive d) s) (\<lambda>(ms, s). collect_groups env ns (handleMetricsPublish n ms s))))"

definition l2PmFsmCollectData :: "pm_env \<Rightarrow> OnuMetricsManager \<Rightarrow> OnuMetricsManager run" where
  "l2PmFsmCollectData env s =
     (if deviceDeletionInProgress s then Done s
      else bind_run (collect_groups env (activeL2Pms s) s) (\<lambda>(ok, s).
        Done (if ok then mm_go (PmEvent False L2PmEventSuccess) s else s)))"

subsection \<open>Creating and deleting the entities\<close>

definition L2PmCreateAttempts :: nat where "L2PmCreateAttempts = 3"
definition L2PmDeleteAttempts :: nat where "L2PmDeleteAttempts = 3"

definition waitForResponseOrTimeout :: "pm_env \<Rightarrow> OnuMetricsManager \<Rightarrow> bool \<times> OnuMetricsManager" where
  "waitForResponseOrTimeout env s =
     (if \<not> omciProcessingActive s then (False, s)
      else case pm_wait env ChCreateOrDelete s of (v, s) \<Rightarrow> (v = Some (VBool True), s))"

text \<open>A loop over entities goes on with a flag, or the enter function returns.\<close>

datatype pm_flow = Go bool OnuMetricsManager | Ret OnuMetricsManager

fun each_entity :: "('i \<Rightarrow> OnuMetricsManager \<Rightarrow> pm_flow run) \<Rightarrow> 'i list \<Rightarrow> bool \<Rightarrow> OnuMetricsManager \<Rightarrow> pm_flow run" where
  "each_entity f [] b s = Done (Go b s)"
| "each_entity f (i # is) b s =
     bind_run (f i s) (\<lambda>r. case r of Ret s \<Rightarrow> Done (Ret s) | Go b' s \<Rightarrow> each_entity f is (b \<or> b') s)"

type_synonym pm_send = "send_ctx \<Rightarrow> OmciCC \<Rightarrow> me_result run"

text \<open>The attempts of one entity: the request is repeated for bridge ports and UNIs, and sent before the loop for the
  others. \<open>failed\<close> is what follows a failed send.\<close>

fun create_attempts :: "pm_env \<Rightarrow> string \<Rightarrow> u16 \<Rightarrow> pm_send option \<Rightarrow> (OnuMetricsManager \<Rightarrow> pm_flow run) \<Rightarrow> nat \<Rightarrow> OnuMetricsManager \<Rightarrow>
    pm_flow run" where
  "create_attempts env n i send failed 0 s = bind_run (updatePmData env n i CPmRemoved s) (\<lambda>s. Done (Go False s))"
| "create_attempts env n i send failed (Suc k) s =
     bind_run (case send of None \<Rightarrow> Done (True, s)
       | Some f \<Rightarrow> bind_run (pm_request env f s) (\<lambda>(r, s). Done (case r of Inl e \<Rightarrow> False | Inr m \<Rightarrow> True, s))) (\<lambda>(sent, s).
       if \<not> sent then failed s
       else
         let (resp, s) = waitForResponseOrTimeout env s in
         if resp then bind_run (updatePmData env n i CPmAdded s) (\<lambda>s. Done (Go True s))
         else if deviceDeletionInProgress s then Done (Ret s)
         else create_attempts env n i send failed k s)"

definition create_repeated :: "pm_env \<Rightarrow> string \<Rightarrow> (OnuMetricsManager \<Rightarrow> pm_flow run) \<Rightarrow> u16 \<times> pm_send \<Rightarrow> OnuMetricsManager \<Rightarrow> pm_flow run" where
  "create_repeated env n failed e s =
     (let (i, send) = e in
      bind_run (updatePmData env n i CPmAdd s) (create_attempts env n i (Some send) failed L2PmCreateAttempts))"

definition create_once :: "pm_env \<Rightarrow> string \<Rightarrow> (OnuMetricsManager \<Rightarrow> pm_flow run) \<Rightarrow> u16 \<times> pm_send \<Rightarrow> OnuMetricsManager \<Rightarrow> pm_flow run" where
  "create_once env n failed e s =
     (let (i, send) = e in
      bind_run (pm_request env send s) (\<lambda>(r, s).
        case r of
          Inl x \<Rightarrow> failed s
        | Inr m \<Rightarrow> bind_run (updatePmData env n i CPmAdd s) (create_attempts env n i None failed L2PmCreateAttempts)))"

definition fail_async :: "OnuMetricsManager \<Rightarrow> pm_flow run" where
  "fail_async s = Done (Ret (mm_go (PmEvent False L2PmEventFailure) s))"

definition fail_sync :: "OnuMetricsManager \<Rightarrow> pm_flow run" where
  "fail_sync s = bind_run (raise_in_callback s) (\<lambda>s. Done (Ret s))"

definition bridge_requests :: "pm_env \<Rightarrow> nat \<Rightarrow> bool \<Rightarrow> u16 list \<Rightarrow> (u16 \<times> pm_send) list" where
  "bridge_requests env ch create ids =
     concat (map (\<lambda>upstream. map (\<lambda>i. (i, \<lambda>c. SendCreateOrDeleteEthernetPerformanceMonitoringHistoryME c (pe_timeout env) True upstream
       create ch i)) ids) [True, False])"

definition uni_requests :: "pm_env \<Rightarrow> nat \<Rightarrow> bool \<Rightarrow> u16 list \<Rightarrow> (u16 \<times> pm_send) list" where
  "uni_requests env ch create ids = map (\<lambda>i. (i, \<lambda>c. SendCreateOrDeleteEthernetUniHistoryME c (pe_timeout env) True create ch i)) ids"

definition fec_requests :: "pm_env \<Rightarrow> nat \<Rightarrow> bool \<Rightarrow> u16 list \<Rightarrow> (u16 \<times> pm_send) list" where
  "fec_requests env ch create ids = map (\<lambda>i. (i, \<lambda>c. SendCreateOrDeleteFecHistoryME c (pe_timeout env) True create ch i)) ids"

definition gem_requests :: "pm_env \<Rightarrow> nat \<Rightarrow> bool \<Rightarrow> u16 list \<Rightarrow> (u16 \<times> pm_send) list" where
  "gem_requests env ch create ids = map (\<lambda>i. (i, \<lambda>c. SendCreateOrDeleteGemPortHistoryME c (pe_timeout env) True create ch i)) ids"

text \<open>What a group needs: whether anything was created for it, or nothing to do.\<close>

definition create_group :: "pm_env \<Rightarrow> string \<Rightarrow> OnuMetricsManager \<Rightarrow> (bool \<times> pm_flow) run" where
  "create_group env n s =
     (let ch = mm_CommChan s; entity = (\<lambda>r. bind_run r (\<lambda>f. Done (True, f))) in
      if n = EthernetBridgeHistoryName then
        entity (each_entity (create_repeated env n fail_async)
          (bridge_requests env ch True (map (\<lambda>u. MacBridgePortAniBaseEID + EntityID u) (pe_unis env))) False s)
      else if n = EthernetUniHistoryName then
        entity (each_entity (create_repeated env n fail_sync)
          (uni_requests env ch True (map EntityID (filter (\<lambda>u. PortType u = UniPPTP) (pe_unis env)))) False s)
      else if n = FecHistoryName then
        bind_run (GetSortedInstKeys (mm_db s) (class_id Me_AniG) (mm_cmn s)) (\<lambda>ids.
          entity (each_entity (create_once env n fail_sync) (fec_requests env ch True ids) False s))
      else if n = GemPortHistoryName then
        pm_data_or_panic n s (\<lambda>d.
          if InstancesToAdd d = [] then Done (False, Go False (s\<lparr>l2PmToAdd := removeIfFound (l2PmToAdd s) n\<rparr>))
          else entity (each_entity (create_once env n fail_sync) (gem_requests env ch True (InstancesToAdd d)) False s))
      else Done (True, Go False s))"

definition disable_group :: "string \<Rightarrow> OnuMetricsManager \<Rightarrow> OnuMetricsManager run" where
  "disable_group n s =
     (if map_of (GroupMetricMap s) n = None then Fatal ''invalid memory address or nil pointer dereference''
      else Done (group_update n (\<lambda>g. g\<lparr>gm_Enabled := False\<rparr>) s))"

definition group_created :: "string \<Rightarrow> bool \<Rightarrow> OnuMetricsManager \<Rightarrow> OnuMetricsManager run" where
  "group_created n atLeastOneSuccess s =
     (if atLeastOneSuccess then
        let s = s\<lparr>activeL2Pms := appendIfMissing (activeL2Pms s) n\<rparr>;
            done = s\<lparr>l2PmToAdd := removeIfFound (l2PmToAdd s) n\<rparr> in
        if n \<noteq> GemPortHistoryName then Done done
        else pm_data_or_panic n s (\<lambda>d. Done (if InstancesToAdd d = [] then done else s))
      else bind_run (disable_group n s) (\<lambda>s. Done (s\<lparr>l2PmToAdd := removeIfFound (l2PmToAdd s) n\<rparr>)))"

fun create_groups :: "pm_env \<Rightarrow> string list \<Rightarrow> OnuMetricsManager \<Rightarrow> pm_flow run" where
  "create_groups env [] s = Done (Go True s)"
| "create_groups env (n # ns) s =
     bind_run (create_group env n s) (\<lambda>(tried, r).
       case r of
         Ret s \<Rightarrow> Done (Ret s)
       | Go b s \<Rightarrow> bind_run (if tried then group_created n b s else Done s) (create_groups env ns))"

definition pm_finish :: "pm_flow \<Rightarrow> OnuMetricsManager" where
  "pm_finish r = (case r of Ret s \<Rightarrow> s | Go b s \<Rightarrow> mm_go (PmEvent False L2PmEventSuccess) s)"

definition l2PmFsmCreatePM :: "pm_env \<Rightarrow> OnuMetricsManager \<Rightarrow> OnuMetricsManager run" where
  "l2PmFsmCreatePM env s =
     (if deviceDeletionInProgress s then Done s
      else bind_run (create_groups env (l2PmToAdd s) s) (\<lambda>r. Done (pm_finish r)))"

text \<open>A deletion: the flag is set by every attempt that fails. Bridge ports note the instance at every attempt.\<close>

fun delete_attempts :: "pm_env \<Rightarrow> string \<Rightarrow> u16 \<Rightarrow> pm_send \<Rightarrow> bool \<Rightarrow> (OnuMetricsManager \<Rightarrow> pm_flow run) \<Rightarrow> nat \<Rightarrow> bool \<Rightarrow>
    OnuMetricsManager \<Rightarrow> pm_flow run" where
  "delete_attempts env n i send note failed 0 b s = bind_run (updatePmData env n i CPmRemoved s) (\<lambda>s. Done (Go b s))"
| "delete_attempts env n i send note failed (Suc k) b s =
     bind_run (pm_request env send s) (\<lambda>(r, s).
       case r of
         Inl e \<Rightarrow> failed s
       | Inr m \<Rightarrow>
           bind_run (if note then updatePmData env n i CPmRemove s else Done s) (\<lambda>s.
             let (resp, s) = waitForResponseOrTimeout env s in
             if resp then bind_run (updatePmData env n i CPmRemoved s) (\<lambda>s. Done (Go b s))
             else if deviceDeletionInProgress s then Done (Ret s)
             else delete_attempts env n i send note failed k True s))"

definition delete_each :: "pm_env \<Rightarrow> string \<Rightarrow> bool \<Rightarrow> (OnuMetricsManager \<Rightarrow> pm_flow run) \<Rightarrow> (u16 \<times> pm_send) list \<Rightarrow> OnuMetricsManager \<Rightarrow>
    pm_flow run" where
  "delete_each env n note failed es s =
     each_entity (\<lambda>(i, send). delete_attempts env n i send note failed L2PmDeleteAttempts False) es False s"

definition delete_entities :: "pm_env \<Rightarrow> string \<Rightarrow> u16 list \<Rightarrow> OnuMetricsManager \<Rightarrow> pm_flow run" where
  "delete_entities env n ids s =
     (let ch = mm_CommChan s in
      if n = EthernetBridgeHistoryName then delete_each env n True fail_async (bridge_requests env ch False ids) s
      else if n = EthernetUniHistoryName then delete_each env n False fail_async (uni_requests env ch False ids) s
      else if n = FecHistoryName then delete_each env n False fail_sync (fec_requests env ch False ids) s
      else if n = GemPortHistoryName then delete_each env n False fail_sync (gem_requests env ch False ids) s
      else Done (Go False s))"

definition group_deleted :: "string \<Rightarrow> bool \<Rightarrow> OnuMetricsManager \<Rightarrow> OnuMetricsManager run" where
  "group_deleted n atLeastOneDeleteFailure s =
     (let s = s\<lparr>activeL2Pms := removeIfFound (activeL2Pms s) n\<rparr>;
          done = s\<lparr>l2PmToDelete := removeIfFound (l2PmToDelete s) n\<rparr> in
      if atLeastOneDeleteFailure then disable_group n done
      else if n \<noteq> GemPortHistoryName then Done done
      else pm_data_or_panic n s (\<lambda>d. Done (if InstancesToDelete d = [] then done else s)))"

text \<open>What is deleted are the active instances of the group.\<close>

fun delete_groups :: "pm_env \<Rightarrow> string list \<Rightarrow> OnuMetricsManager \<Rightarrow> pm_flow run" where
  "delete_groups env [] s = Done (Go True s)"
| "delete_groups env (n # ns) s =
     pm_data_or_panic n s (\<lambda>d.
       if InstancesActive d = []
       then delete_groups env ns (s\<lparr>activeL2Pms := removeIfFound (activeL2Pms s) n, l2PmToDelete := removeIfFound (l2PmToDelete s) n\<rparr>)
       else bind_run (delete_entities env n (InstancesActive d) s) (\<lambda>r.
         case r of
           Ret s \<Rightarrow> Done (Ret s)
         | Go b s \<Rightarrow> bind_run (group_deleted n b s) (delete_groups env ns)))"

definition l2PmFsmDeletePM :: "pm_env \<Rightarrow> OnuMetricsManager \<Rightarrow> OnuMetricsManager run" where
  "l2PmFsmDeletePM env s =
     (if deviceDeletionInProgress s then Done s
      else bind_run (delete_groups env (l2PmToDelete s) s) (\<lambda>r. Done (pm_finish r)))"

subsection \<open>Events\<close>

definition l2pm_enter :: "pm_env \<Rightarrow> l2pm_evt \<Rightarrow> l2pm_state \<Rightarrow> OnuMetricsManager \<Rightarrow> OnuMetricsManager run" where
  "l2pm_enter env ev st s =
     (case st of
        L2PmStNull \<Rightarrow> Done (l2PMFsmNull env ev s)
      | L2PmStIdle \<Rightarrow> Done (l2PMFsmIdle s)
      | L2PmStStarting \<Rightarrow> Done (l2PMFsmStarting s)
      | L2PmStSyncTime \<Rightarrow> l2PMFsmSyncTime env s
      | L2PmStCollectData \<Rightarrow> l2PmFsmCollectData env s
      | L2PmStCreatePmMe \<Rightarrow> l2PmFsmCreatePM env s
      | L2PmStDeletePmMe \<Rightarrow> l2PmFsmDeletePM env s)"

definition l2pm_event :: "pm_env \<Rightarrow> l2pm_evt \<Rightarrow> OnuMetricsManager \<Rightarrow> OnuMetricsManager run" where
  "l2pm_event env ev s =
     bind_run (fsm_event l2pm_events mm_fsm (\<lambda>st s. s\<lparr>mm_fsm := st\<rparr>) (l2pm_enter env ev) ev s) (\<lambda>(e, s). Done s)"

text \<open>The goroutine of an event, after the references of the manager were released or before.\<close>

definition run_pm_event :: "pm_env \<Rightarrow> bool \<Rightarrow> l2pm_evt \<Rightarrow> OnuMetricsManager \<Rightarrow> OnuMetricsManager run" where
  "run_pm_event env checked ev s =
     (if mm_cleaned s then (if checked then Done s else Fatal ''invalid memory address or nil pointer dereference'')
      else l2pm_event env ev s)"

definition CleanupOnDeviceDeletion :: "OnuMetricsManager \<Rightarrow> OnuMetricsManager" where
  "CleanupOnDeviceDeletion s =
     s\<lparr>GroupMetricMap := [], StandaloneMetricMap := [], extUpStreamME := None, extDownStreamME := None, activeL2Pms := [],
       l2PmToAdd := [], l2PmToDelete := [], mm_hasStore := False, mm_cleaned := True\<rparr>"

definition SetdeviceDeletionInProgress :: "bool \<Rightarrow> OnuMetricsManager \<Rightarrow> OnuMetricsManager" where
  "SetdeviceDeletionInProgress deleted s = s\<lparr>deviceDeletionInProgress := True\<rparr>"

text \<open>A ticker fires.\<close>

definition generateTicks_tick :: "OnuMetricsManager \<Rightarrow> OnuMetricsManager" where
  "generateTicks_tick s = (if mm_tickers s = 0 then s else mm_go (PmEvent True L2PmEventTick) s)"

end
