(* ===== verification/Pm_Ext.thy ===== *)
theory Pm_Ext
  imports Pm_Fsm Mib_Sync
begin

text \<open>
  The metrics that are not collected by the state machine, \<^verbatim>\<open>pmmgr/onu_metrics_manager.go\<close>: the optical values, the
  state of the UNIs, the extended counters of Ethernet frames with their creation and reset, the current counters of
  GEM ports and of the forward error correction; and the goroutines of the manager.
\<close>

text \<open>Outside the enter functions a failed send raises the event at once.\<close>

definition raise_failure :: "pm_env \<Rightarrow> OnuMetricsManager \<Rightarrow> OnuMetricsManager run" where
  "raise_failure env s = l2pm_event env L2PmEventFailure s"

definition group_enabled :: "string \<Rightarrow> OnuMetricsManager \<Rightarrow> bool run" where
  "group_enabled n s =
     (case map_of (GroupMetricMap s) n of
        None \<Rightarrow> Fatal ''invalid memory address or nil pointer dereference''
      | Some g \<Rightarrow> Done (gm_Enabled g))"

subsection \<open>Optical values\<close>

definition optical_metrics :: "u16 \<Rightarrow> optical_info \<Rightarrow> (string \<times> rat) list" where
  "optical_metrics i o1 =
     [(''ani_g_instance_id'', of_int (uint i)), (''transmit_power_dBm'', MeanOpticalLaunchPower o1),
      (''receive_power_dBm'', ReceivedOpticalPower o1), (''supply_voltage_Volts'', PowerFeedVoltage o1),
      (''laser_bias_current_mA'', LaserBiasCurrent o1), (''temperature_Celsius'', Temperature o1)]"

fun optical_each :: "pm_env \<Rightarrow> u16 list \<Rightarrow> (string \<times> rat) list list \<Rightarrow> OnuMetricsManager \<Rightarrow>
    ((string \<times> rat) list list option \<times> OnuMetricsManager) run" where
  "optical_each env [] acc s = Done (if acc = [] then None else Some acc, s)"
| "optical_each env (i # is) acc s =
     (case pe_selfTest env i of
        SelfTestRefused e notFound \<Rightarrow> bind_run (if notFound then Done s else raise_failure env s) (\<lambda>s. Done (None, s))
      | SelfTestAnswer (GvError r) \<Rightarrow> Done (None, s)
      | SelfTestAnswer (GvOptical o1) \<Rightarrow> optical_each env is (acc @ [optical_metrics i o1]) s
      | OpticalStopped \<Rightarrow> Done (None, s))"

definition collectOpticalMetrics :: "pm_env \<Rightarrow> OnuMetricsManager \<Rightarrow> ((string \<times> rat) list list option \<times> OnuMetricsManager) run" where
  "collectOpticalMetrics env s =
     bind_run (group_enabled OpticalPowerGroupMetricName s) (\<lambda>enabled.
       if \<not> enabled then Done (None, s)
       else bind_run (GetSortedInstKeys (mm_db s) (class_id Me_AniG) (mm_cmn s)) (\<lambda>ids. optical_each env ids [] s))"

subsection \<open>State of the UNIs\<close>

type_synonym status_table = "(string \<times> string) list"

definition unig_status :: status_table where
  "unig_status = [(''uni_admin_state'', ''AdministrativeState'')]"

definition pptp_status :: status_table where
  "pptp_status = [(''configuration_ind'', ''ConfigurationInd''), (''oper_status'', ''OperationalState''),
     (''uni_admin_state'', ''AdministrativeState'')]"

definition veip_status :: status_table where
  "veip_status = [(''oper_status'', ''OperationalState''), (''uni_admin_state'', ''AdministrativeState'')]"

fun status_values :: "me_attributes \<Rightarrow> status_table \<Rightarrow> metric_data run" where
  "status_values a [] = Done []"
| "status_values a ((k, attr) # ks) =
     (case map_of a attr of
        None \<Rightarrow> status_values a ks
      | Some AvNil \<Rightarrow> status_values a ks
      | Some (AvUint8 v) \<Rightarrow> bind_run (status_values a ks) (\<lambda>d. Done ((k, uint v) # d))
      | Some v \<Rightarrow> Fatal ''interface conversion'')"

definition status_entity :: "pm_env \<Rightarrow> me_attributes \<Rightarrow> metric_data run" where
  "status_entity env a =
     (case map_of a ''ManagedEntityId'' of
        None \<Rightarrow> Done []
      | Some AvNil \<Rightarrow> Done []
      | Some (AvUint16 i) \<Rightarrow>
          Done ((''entity_id'', uint i) #
            (case find (\<lambda>u. EntityID u = i) (pe_unis env) of
               None \<Rightarrow> [] | Some u \<Rightarrow> [(''uni_port_no'', float32_of_int (uint (PortNo u)))]))
      | Some v \<Rightarrow> Fatal ''interface conversion'')"

text \<open>The instances of a class: no response ends the loop of the class, an error the collection.\<close>

fun status_each :: "pm_env \<Rightarrow> u16 \<Rightarrow> status_table \<Rightarrow> u16 list \<Rightarrow> (string \<times> metric_data) list \<Rightarrow> OnuMetricsManager \<Rightarrow>
    ((string \<times> metric_data) list option \<times> OnuMetricsManager) run" where
  "status_each env cls tab [] acc s = Done (Some acc, s)"
| "status_each env cls tab (i # is) acc s =
     (if mm_ctxDone s then Done (None, s)
      else bind_run (pm_request env (\<lambda>c. SendGetMe c cls i (map (\<lambda>(k, attr). (attr, AvInt 0)) tab) (pe_timeout env) True
          (mm_CommChan s) (mm_isExtendedOmci s)) s) (\<lambda>(r, s).
        case r of
          Inl e \<Rightarrow> bind_run (raise_failure env s) (\<lambda>s. Done (None, s))
        | Inr m \<Rightarrow> (case pm_wait env ChUniStatus s of
            (Some (VAttributes a), s) \<Rightarrow>
              bind_run (status_values a tab) (\<lambda>d.
              bind_run (status_entity env a) (\<lambda>e.
                status_each env cls tab is (acc @ [(UniStatusGroupMetricName, d @ e @ [(''me_class_id'', uint cls)])]) s))
          | (_, s) \<Rightarrow> Done (Some acc, s))))"

fun status_classes :: "pm_env \<Rightarrow> (u16 \<times> status_table) list \<Rightarrow> (string \<times> metric_data) list \<Rightarrow> OnuMetricsManager \<Rightarrow>
    ((string \<times> metric_data) list option \<times> OnuMetricsManager) run" where
  "status_classes env [] acc s = Done (if acc = [] then None else Some acc, s)"
| "status_classes env ((cls, tab) # cs) acc s =
     bind_run (GetSortedInstKeys (mm_db s) cls (mm_cmn s)) (\<lambda>ids.
       bind_run (status_each env cls tab ids acc s) (\<lambda>(r, s).
         case r of None \<Rightarrow> Done (None, s) | Some acc \<Rightarrow> status_classes env cs acc s))"

definition collectUniStatusMetrics :: "pm_env \<Rightarrow> OnuMetricsManager \<Rightarrow> ((string \<times> metric_data) list option \<times> OnuMetricsManager) run" where
  "collectUniStatusMetrics env s =
     bind_run (group_enabled UniStatusGroupMetricName s) (\<lambda>enabled.
       if \<not> enabled then Done (None, s)
       else status_classes env [(me_UniG, unig_status), (class_id Me_PhysicalPathTerminationPointEthernetUni, pptp_status),
              (class_id Me_VirtualEthernetInterfacePoint, veip_status)] [] s)"

subsection \<open>Extended counters: creation\<close>

definition me_ParameterError :: u8 where "me_ParameterError = 3"
definition me_AttributeFailure :: u8 where "me_AttributeFailure = 9"

definition ExtendedPmCreateAttempts :: nat where "ExtendedPmCreateAttempts = 3"

datatype ext_kv = ExtKvError | ExtKvMissing | ExtKvClass u16

definition getEthernetFrameExtendedMETypeFromKvStore :: "pm_env \<Rightarrow> OnuMetricsManager \<Rightarrow> ext_kv" where
  "getEthernetFrameExtendedMETypeFromKvStore env s =
     (if \<not> pe_kvGet env (mm_extKey s) then ExtKvError
      else case map_of (mm_kv s) (mm_extKey s) of
        None \<Rightarrow> ExtKvMissing
      | Some (KvClass c) \<Rightarrow> ExtKvClass c
      | Some _ \<Rightarrow> ExtKvError)"

definition getControlBlockForExtendedPMDirection :: "bool \<Rightarrow> u16 \<Rightarrow> bool \<Rightarrow> u16 list" where
  "getControlBlockForExtendedPMDirection upstream entityID reset =
     [0, class_id Me_PhysicalPathTerminationPointEthernetUni, entityID, if reset then push_bit 15 1 else 0, 0x4000,
      if upstream then 1 else 3, 0, 0]"

text \<open>The response to a creation: whether the class is supported, and whether the creation succeeded.\<close>

definition waitForEthernetFrameCreateOrDeleteResponseOrTimeout ::
    "pm_env \<Rightarrow> OnuMetricsManager \<Rightarrow> (bool \<times> bool) \<times> OnuMetricsManager" where
  "waitForEthernetFrameCreateOrDeleteResponseOrTimeout env s =
     (if \<not> omciProcessingActive s \<or> deviceDeletionInProgress s then ((False, False), s)
      else case pm_wait env ChExtendedResponse s of
        (Some (VResult r), s) \<Rightarrow>
          (if r = me_Success \<or> r = me_InstanceExists then (True, True)
           else if r \<in> {me_UnknownEntity, me_ParameterError, me_ProcessingError, me_NotSupported, me_AttributeFailure} then (False, False)
           else (True, False), s)
      | (_, s) \<Rightarrow> ((False, False), s))"

datatype ext_try = ExtCreated | ExtFailed bool

definition note_extended_me :: "bool \<Rightarrow> u16 \<Rightarrow> ManagedEntity \<Rightarrow> OnuMetricsManager \<Rightarrow> OnuMetricsManager run" where
  "note_extended_me upstream i m s =
     (case (if upstream then extUpStreamME s else extDownStreamME s) of
        None \<Rightarrow> Fatal ''assignment to entry in nil map''
      | Some l \<Rightarrow> Done (if upstream then s\<lparr>extUpStreamME := Some (AList.update i m l)\<rparr>
                        else s\<lparr>extDownStreamME := Some (AList.update i m l)\<rparr>))"

fun ext_attempts :: "pm_env \<Rightarrow> bool \<Rightarrow> u16 \<Rightarrow> pm_send \<Rightarrow> nat \<Rightarrow> OnuMetricsManager \<Rightarrow> (ext_try \<times> OnuMetricsManager) run" where
  "ext_attempts env upstream i send 0 s = Done (ExtFailed True, s)"
| "ext_attempts env upstream i send (Suc k) s =
     bind_run (pm_request env send s) (\<lambda>(r, s).
       case r of
         Inl e \<Rightarrow> Done (ExtFailed False, s)
       | Inr m \<Rightarrow>
           (case waitForEthernetFrameCreateOrDeleteResponseOrTimeout env s of
              ((supported, ok), s) \<Rightarrow>
                if ok then bind_run (note_extended_me upstream i m s) (\<lambda>s. Done (ExtCreated, s))
                else if \<not> supported then Done (ExtFailed False, s)
                else ext_attempts env upstream i send k s))"

fun ext_entities :: "pm_env \<Rightarrow> u16 \<Rightarrow> (bool \<times> u16) list \<Rightarrow> OnuMetricsManager \<Rightarrow> (ext_try \<times> OnuMetricsManager) run" where
  "ext_entities env meType [] s = Done (ExtCreated, s)"
| "ext_entities env meType ((upstream, uni) # es) s =
     (let i = (if upstream then uni + 0x100 else uni);
          block = getControlBlockForExtendedPMDirection upstream uni False in
      bind_run (ext_attempts env upstream i (\<lambda>c. SendCreateOrDeleteEthernetFrameExtendedPMME c (pe_timeout env) True upstream True
          (mm_CommChan s) i meType block) ExtendedPmCreateAttempts s) (\<lambda>(r, s).
        case r of ExtFailed b \<Rightarrow> Done (ExtFailed b, s) | ExtCreated \<Rightarrow> ext_entities env meType es s))"

definition ext_directions :: "pm_env \<Rightarrow> (bool \<times> u16) list" where
  "ext_directions env = concat (map (\<lambda>upstream. map (\<lambda>u. (upstream, EntityID u)) (pe_unis env)) [True, False])"

definition tryCreateExtPmMe :: "pm_env \<Rightarrow> u16 \<Rightarrow> OnuMetricsManager \<Rightarrow> (ext_try \<times> OnuMetricsManager) run" where
  "tryCreateExtPmMe env meType s = ext_entities env meType (ext_directions env) s"

definition putExtPmMeKvStore :: "pm_env \<Rightarrow> OnuMetricsManager \<Rightarrow> OnuMetricsManager" where
  "putExtPmMeKvStore env s =
     (let k = mm_puts s; s = s\<lparr>mm_puts := k + 1\<rparr> in
      if pe_kvPut env k then s\<lparr>mm_kv := AList.update (mm_extKey s) (KvClass (supportedExtClass s)) (mm_kv s)\<rparr> else s)"

definition extended_supported :: "pm_env \<Rightarrow> u16 \<Rightarrow> OnuMetricsManager \<Rightarrow> OnuMetricsManager" where
  "extended_supported env cls s = (putExtPmMeKvStore env (s\<lparr>supportedExtClass := cls\<rparr>))\<lparr>readyForExtendedPm := True\<rparr>"

definition CreateEthernetFrameExtendedPMME :: "pm_env \<Rightarrow> OnuMetricsManager \<Rightarrow> OnuMetricsManager run" where
  "CreateEthernetFrameExtendedPMME env s =
     (case getEthernetFrameExtendedMETypeFromKvStore env s of
        ExtKvError \<Rightarrow> Done s
      | ExtKvClass c \<Rightarrow>
          bind_run (tryCreateExtPmMe env c (s\<lparr>supportedExtClass := c\<rparr>)) (\<lambda>(r, s).
            Done (if r = ExtCreated then s\<lparr>readyForExtendedPm := True\<rparr> else s))
      | ExtKvMissing \<Rightarrow>
          bind_run (tryCreateExtPmMe env (class_id Me_EthernetFrameExtendedPm64Bit) s) (\<lambda>(r, s).
            case r of
              ExtCreated \<Rightarrow> Done (extended_supported env (class_id Me_EthernetFrameExtendedPm64Bit) s)
            | ExtFailed True \<Rightarrow> Done s
            | ExtFailed False \<Rightarrow>
                bind_run (tryCreateExtPmMe env (class_id Me_EthernetFrameExtendedPm) s) (\<lambda>(r, s).
                  Done (if r = ExtCreated then extended_supported env (class_id Me_EthernetFrameExtendedPm) s else s))))"

subsection \<open>Extended counters: reset\<close>

definition waitForResetResponseOrTimeout :: "pm_env \<Rightarrow> OnuMetricsManager \<Rightarrow> bool \<times> OnuMetricsManager" where
  "waitForResetResponseOrTimeout env s =
     (if \<not> omciProcessingActive s then (False, s)
      else case pm_wait env ChExtendedResponse s of (v, s) \<Rightarrow> (v = Some (VResult me_Success), s))"

definition setControlBlockResetFlagForEthernetExtendedPMME ::
    "pm_env \<Rightarrow> bool \<Rightarrow> u16 \<Rightarrow> bool \<Rightarrow> OnuMetricsManager \<Rightarrow> (bool \<times> OnuMetricsManager) run" where
  "setControlBlockResetFlagForEthernetExtendedPMME env upstream i reset s =
     (let uni = (if upstream then i - 0x100 else i);
          block = getControlBlockForExtendedPMDirection upstream uni reset in
      bind_run (pm_request env (\<lambda>c. SendSetEthernetFrameExtendedPMME c (pe_timeout env) True (mm_CommChan s) i
          (supportedExtClass s) block) s) (\<lambda>(r, s).
        case r of Inl e \<Rightarrow> Done (False, s) | Inr m \<Rightarrow> Done (waitForResetResponseOrTimeout env s)))"

fun reset_each :: "pm_env \<Rightarrow> (bool \<times> u16 \<times> bool) list \<Rightarrow> OnuMetricsManager \<Rightarrow> (bool \<times> OnuMetricsManager) run" where
  "reset_each env [] s = Done (True, s)"
| "reset_each env ((upstream, i, reset) # rs) s =
     bind_run (setControlBlockResetFlagForEthernetExtendedPMME env upstream i reset s) (\<lambda>(ok, s).
       if ok then reset_each env rs s else Done (False, s))"

text \<open>The flag is set in every entity, and then cleared in every entity.\<close>

definition resetEthernetFrameExtendedPMCounters ::
    "pm_env \<Rightarrow> u16 list \<Rightarrow> u16 list \<Rightarrow> OnuMetricsManager \<Rightarrow> (bool \<times> OnuMetricsManager) run" where
  "resetEthernetFrameExtendedPMCounters env up down =
     reset_each env (concat (map (\<lambda>flag. map (\<lambda>i. (True, i, flag)) up @ map (\<lambda>i. (False, i, flag)) down) [True, False]))"

subsection \<open>Extended counters: collection\<close>

definition UnsupportedCounterValue32bit :: u64 where "UnsupportedCounterValue32bit = 4294967294"
definition UnsupportedCounterValue64bit :: u64 where "UnsupportedCounterValue64bit = 18446744073709551614"

type_synonym ext_table = "(u16 \<times> string list) list"

definition maskToEthernetFrameExtendedPM32Bit :: ext_table where
  "maskToEthernetFrameExtendedPM32Bit =
     [(0x3F00, [''drop_events'', ''octets'', ''frames'', ''broadcast_frames'', ''multicast_frames'', ''crc_errored_frames'']),
      (0x00FC, [''undersize_frames'', ''oversize_frames'', ''64_octets'', ''65_to_127_octets'', ''128_to_255_octets'',
        ''256_to_511_octets'']),
      (0x0003, [''512_to_1023_octets'', ''1024_to_1518_octets''])]"

definition maskToEthernetFrameExtendedPM64Bit :: ext_table where
  "maskToEthernetFrameExtendedPM64Bit =
     [(0x3800, [''drop_events'', ''octets'', ''frames'']),
      (0x0700, [''broadcast_frames'', ''multicast_frames'', ''crc_errored_frames'']),
      (0x00E0, [''undersize_frames'', ''oversize_frames'', ''64_octets'']),
      (0x001C, [''65_to_127_octets'', ''128_to_255_octets'', ''256_to_511_octets'']),
      (0x0003, [''512_to_1023_octets'', ''1024_to_1518_octets''])]"

text \<open>The attribute of a counter and its bit in the mask of what was received.\<close>

definition ext_attributes :: "(string \<times> string \<times> u16) list" where
  "ext_attributes =
     [(''drop_events'', ''DropEvents'', 0x2000), (''octets'', ''Octets'', 0x1000), (''frames'', ''Frames'', 0x800),
      (''broadcast_frames'', ''BroadcastFrames'', 0x400), (''multicast_frames'', ''MulticastFrames'', 0x200),
      (''crc_errored_frames'', ''CrcErroredFrames'', 0x100), (''undersize_frames'', ''UndersizeFrames'', 0x80),
      (''oversize_frames'', ''OversizeFrames'', 0x40), (''64_octets'', ''Frames64Octets'', 0x20),
      (''65_to_127_octets'', ''Frames65To127Octets'', 0x10), (''128_to_255_octets'', ''Frames128To255Octets'', 0x8),
      (''256_to_511_octets'', ''Frames256To511Octets'', 0x4), (''512_to_1023_octets'', ''Frames512To1023Octets'', 0x2),
      (''1024_to_1518_octets'', ''Frames1024To1518Octets'', 0x1)]"

type_synonym ext_data = "(string \<times> u64) list"

definition ext_is32 :: "OnuMetricsManager \<Rightarrow> bool" where
  "ext_is32 s \<longleftrightarrow> supportedExtClass s = class_id Me_EthernetFrameExtendedPm"

definition ext_table_of :: "OnuMetricsManager \<Rightarrow> ext_table" where
  "ext_table_of s = (if ext_is32 s then maskToEthernetFrameExtendedPM32Bit else maskToEthernetFrameExtendedPM64Bit)"

definition ext_unsupported :: "OnuMetricsManager \<Rightarrow> u64" where
  "ext_unsupported s = (if ext_is32 s then UnsupportedCounterValue32bit else UnsupportedCounterValue64bit)"

fun ext_values :: "counter_kind \<Rightarrow> u64 \<Rightarrow> me_attributes \<Rightarrow> string list \<Rightarrow> u16 \<Rightarrow> ext_data \<Rightarrow> (u16 \<times> ext_data) run" where
  "ext_values kind bad a [] m d = Done (m, d)"
| "ext_values kind bad a (k # ks) m d =
     (if map_of d k \<noteq> None then ext_values kind bad a ks m d
      else case map_of ext_attributes k of
        None \<Rightarrow> ext_values kind bad a ks m d
      | Some (attr, flag) \<Rightarrow>
          (case map_of a attr of
             None \<Rightarrow> ext_values kind bad a ks m (d @ [(k, bad)])
           | Some v \<Rightarrow>
               if v = AvNil then ext_values kind bad a ks m d
               else (case counter_value kind v of
                       None \<Rightarrow> Fatal ''interface conversion''
                     | Some x \<Rightarrow> ext_values kind bad a ks (or m flag) (d @ [(k, of_nat x)]))))"

definition ext_keys :: "ext_table \<Rightarrow> u16 \<Rightarrow> string list" where
  "ext_keys tab msk = (case map_of tab msk of None \<Rightarrow> [] | Some ks \<Rightarrow> ks)"

definition getEthFrameExtPMDataFromResponse :: "me_attributes \<Rightarrow> u16 \<Rightarrow> ext_data \<Rightarrow> (u16 \<times> ext_data) run" where
  "getEthFrameExtPMDataFromResponse a msk =
     ext_values Kind32 UnsupportedCounterValue32bit a (ext_keys maskToEthernetFrameExtendedPM32Bit msk) 0"

definition getEthFrameExtPM64BitDataFromResponse :: "me_attributes \<Rightarrow> u16 \<Rightarrow> ext_data \<Rightarrow> (u16 \<times> ext_data) run" where
  "getEthFrameExtPM64BitDataFromResponse a msk =
     ext_values Kind64 UnsupportedCounterValue64bit a (ext_keys maskToEthernetFrameExtendedPM64Bit msk) 0"

datatype ext_reason = ExtInternalError | ExtTimeout | ExtInvalidReqType

definition populateEthernetFrameExtendedPMMetrics ::
    "pm_env \<Rightarrow> u16 \<Rightarrow> u16 \<Rightarrow> ext_data \<Rightarrow> u16 \<Rightarrow> OnuMetricsManager \<Rightarrow> ((ext_reason + ext_data \<times> u16) \<times> OnuMetricsManager) run" where
  "populateEthernetFrameExtendedPMMetrics env i msk d sumMask s =
     bind_run (pm_request env (\<lambda>c. SendGetMeWithAttributeMask c (supportedExtClass s) i msk (pe_timeout env) True (mm_CommChan s)) s)
       (\<lambda>(r, s). case r of
          Inl e \<Rightarrow> Done (Inl ExtInternalError, s)
        | Inr u \<Rightarrow> (case pm_wait env ChExtendedPm s of
            (Some (VAttributes a), s) \<Rightarrow>
              bind_run ((if ext_is32 s then getEthFrameExtPMDataFromResponse else getEthFrameExtPM64BitDataFromResponse) a msk d)
                (\<lambda>(m, d). Done (Inr (d, sumMask + m), s))
          | (_, s) \<Rightarrow> Done (Inl ExtTimeout, s)))"

definition fillAllErrorCountersEthernetFrameExtendedPM :: "OnuMetricsManager \<Rightarrow> ext_data \<Rightarrow> ext_data" where
  "fillAllErrorCountersEthernetFrameExtendedPM s d =
     fold (\<lambda>k d. if map_of d k = None then d @ [(k, ext_unsupported s)] else d) (concat (map snd (ext_table_of s))) d"

fun ext_masks :: "pm_env \<Rightarrow> u16 \<Rightarrow> u16 list \<Rightarrow> ext_data \<Rightarrow> u16 \<Rightarrow> OnuMetricsManager \<Rightarrow>
    ((ext_reason + ext_data \<times> u16) \<times> OnuMetricsManager) run" where
  "ext_masks env i [] d sumMask s = Done (Inr (d, sumMask), s)"
| "ext_masks env i (msk # ms) d sumMask s =
     bind_run (populateEthernetFrameExtendedPMMetrics env i msk d sumMask s) (\<lambda>(r, s).
       case r of
         Inl e \<Rightarrow> Done (Inl e, s)
       | Inr (d, sumMask) \<Rightarrow>
           if (msk = 0x3F00 \<or> msk = 0x3800) \<and> sumMask = 0
           then Done (Inr (fillAllErrorCountersEthernetFrameExtendedPM s d, sumMask), s)
           else ext_masks env i ms d sumMask s)"

definition collectEthernetFrameExtendedPMData ::
    "pm_env \<Rightarrow> u16 \<Rightarrow> OnuMetricsManager \<Rightarrow> ((ext_reason + ext_data \<times> u16) \<times> OnuMetricsManager) run" where
  "collectEthernetFrameExtendedPMData env i s =
     ext_masks env i (pe_masks env (mm_waits s) (map fst (ext_table_of s))) [] 0 s"

text \<open>The fourteen counters of a direction, by name.\<close>

type_synonym OmciEthernetFrameExtendedPm = "string \<Rightarrow> u64"

definition ext_counter :: "ext_data \<Rightarrow> OmciEthernetFrameExtendedPm" where
  "ext_counter d k = (case map_of d k of None \<Rightarrow> 0 | Some v \<Rightarrow> v)"

definition aggregateEthernetFrameExtendedPM ::
    "OnuMetricsManager \<Rightarrow> ext_data \<Rightarrow> OmciEthernetFrameExtendedPm \<Rightarrow> bool \<Rightarrow> OmciEthernetFrameExtendedPm" where
  "aggregateEthernetFrameExtendedPM s d pm aggregate =
     (if aggregate then (\<lambda>k. if pm k \<noteq> ext_unsupported s then pm k + ext_counter d k else pm k) else ext_counter d)"

fun ext_collect :: "pm_env \<Rightarrow> u16 list \<Rightarrow> OmciEthernetFrameExtendedPm \<Rightarrow> OnuMetricsManager \<Rightarrow>
    ((ext_reason + OmciEthernetFrameExtendedPm) \<times> OnuMetricsManager) run" where
  "ext_collect env [] pm s = Done (Inr pm, s)"
| "ext_collect env (i # is) pm s =
     bind_run (collectEthernetFrameExtendedPMData env i s) (\<lambda>(r, s).
       case r of
         Inl e \<Rightarrow> Done (Inl e, s)
       | Inr (d, received) \<Rightarrow>
           if received = 0 then Done (Inr (aggregateEthernetFrameExtendedPM s d pm False), s)
           else ext_collect env is (aggregateEthernetFrameExtendedPM s d pm True) s)"

datatype ext_response =
    ExtError ext_reason
  | ExtCounters OmciEthernetFrameExtendedPm OmciEthernetFrameExtendedPm bool

text \<open>The entities of a request: those of one UNI, or all.\<close>

definition ext_selected :: "pm_env \<Rightarrow> u32 option \<Rightarrow> OnuMetricsManager \<Rightarrow> (u16 list \<times> u16 list) option" where
  "ext_selected env uniIndex s =
     (case uniIndex of
        Some n \<Rightarrow> map_option (\<lambda>u. ([EntityID u + 0x100], [EntityID u])) (find (\<lambda>u. UniID u = ucast n) (pe_unis env))
      | None \<Rightarrow> let ids = (\<lambda>m. case m of None \<Rightarrow> [] | Some l \<Rightarrow> akeys l) in Some (ids (extUpStreamME s), ids (extDownStreamME s)))"

definition ext_answer :: "pm_env \<Rightarrow> u16 list \<Rightarrow> u16 list \<Rightarrow> bool \<Rightarrow> OnuMetricsManager \<Rightarrow> (ext_response \<times> OnuMetricsManager) run" where
  "ext_answer env up down reset s =
     (if reset then
        bind_run (resetEthernetFrameExtendedPMCounters env up down s) (\<lambda>(ok, s).
          Done (if ok then ExtCounters (\<lambda>k. 0) (\<lambda>k. 0) (\<not> ext_is32 s) else ExtError ExtInternalError, s))
      else
        bind_run (ext_collect env up (\<lambda>k. 0) s) (\<lambda>(r, s).
          case r of
            Inl e \<Rightarrow> Done (ExtError e, s)
          | Inr pmUp \<Rightarrow> bind_run (ext_collect env down (\<lambda>k. 0) s) (\<lambda>(r, s).
              case r of
                Inl e \<Rightarrow> Done (ExtError e, s)
              | Inr pmDown \<Rightarrow> Done (ExtCounters pmUp pmDown (\<not> ext_is32 s), s))))"

definition CollectEthernetFrameExtendedPMCounters ::
    "pm_env \<Rightarrow> u32 option \<Rightarrow> bool \<Rightarrow> OnuMetricsManager \<Rightarrow> (ext_response \<times> OnuMetricsManager) run" where
  "CollectEthernetFrameExtendedPMCounters env uniIndex reset s =
     (if \<not> readyForExtendedPm s \<or> extendedPmOngoing s then Done (ExtError ExtInternalError, s)
      else
        let s = s\<lparr>extendedPmOngoing := True\<rparr> in
        case ext_selected env uniIndex s of
          None \<Rightarrow> Done (ExtError ExtInvalidReqType, s\<lparr>extendedPmOngoing := False\<rparr>)
        | Some (up, down) \<Rightarrow>
            bind_run (ext_answer env up down reset s) (\<lambda>(r, s). Done (r, s\<lparr>extendedPmOngoing := False\<rparr>)))"

subsection \<open>Current counters\<close>

text \<open>A missing or negative value is 0. The conversion of a value out of range is left to the machine.\<close>

definition safeGetMetricValue :: "pm_env \<Rightarrow> metric_data \<Rightarrow> string \<Rightarrow> u32" where
  "safeGetMetricValue env metrics key =
     (case map_of metrics key of
        None \<Rightarrow> 0
      | Some v \<Rightarrow> if v < 0 then 0 else if v < 2 ^ 32 then word_of_int v else pe_convert env v)"

record OnuGemPortHistoryData =
  gh_GemId :: u32
  gh_TransmittedGEMFrames :: u32
  gh_ReceivedGEMFrames :: u32
  gh_ReceivedPayloadBytes :: u64
  gh_TransmittedPayloadBytes :: u64
  gh_EncryptionKeyErrors :: u32

record OnuFecHistoryResponse =
  fh_CorrectedBytes :: u64
  fh_CorrectedCodeWords :: u64
  fh_UncorrectableCodeWords :: u64
  fh_TotalCodeWords :: u64
  fh_FecSeconds :: u32

definition gem_history_data :: "pm_env \<Rightarrow> u16 \<Rightarrow> metric_data \<Rightarrow> OnuGemPortHistoryData" where
  "gem_history_data env i d =
     (let v = safeGetMetricValue env d in
      \<lparr> gh_GemId = ucast i, gh_TransmittedGEMFrames = v ''transmitted_gem_frames'', gh_ReceivedGEMFrames = v ''received_gem_frames'',
        gh_ReceivedPayloadBytes = ucast (v ''received_payload_bytes''),
        gh_TransmittedPayloadBytes = ucast (v ''transmitted_payload_bytes''),
        gh_EncryptionKeyErrors = v ''encryption_key_errors'' \<rparr>)"

fun gem_ports_history :: "pm_env \<Rightarrow> u16 list \<Rightarrow> OnuMetricsManager \<Rightarrow> (OnuGemPortHistoryData list \<times> OnuMetricsManager) run" where
  "gem_ports_history env [] s = Done ([], s)"
| "gem_ports_history env (i # is) s =
     bind_run (collectGemHistoryData env (raise_failure env) i True s) (\<lambda>(m, s).
     bind_run (gem_ports_history env is s) (\<lambda>(ds, s).
       Done (case m of None \<Rightarrow> ds | Some (n, d) \<Rightarrow> gem_history_data env i d # ds, s)))"

fun alloc_history :: "pm_env \<Rightarrow> (u16 \<times> u16) list \<Rightarrow> u16 list \<Rightarrow> OnuMetricsManager \<Rightarrow>
    ((u32 \<times> OnuGemPortHistoryData list) list \<times> OnuMetricsManager) run" where
  "alloc_history env m [] s = Done ([], s)"
| "alloc_history env m (a # as) s =
     bind_run (gem_ports_history env (map fst (filter (\<lambda>(i, b). b = a) m)) s) (\<lambda>(ds, s).
     bind_run (alloc_history env m as s) (\<lambda>(r, s). Done ((ucast a, ds) # r, s)))"

definition GetONUGEMCounters ::
    "pm_env \<Rightarrow> OnuMetricsManager \<Rightarrow> ((u32 \<times> OnuGemPortHistoryData list) list option \<times> OnuMetricsManager) run" where
  "GetONUGEMCounters env s =
     (if deviceDeletionInProgress s then Done (None, s)
      else case pe_onuTP env of
        None \<Rightarrow> Fatal ''invalid memory address or nil pointer dereference''
      | Some tp \<Rightarrow>
          let m = GetGEMportToAllocIDMappingForONU tp in
          bind_run (alloc_history env m (remdups (map snd m)) s) (\<lambda>(r, s). Done (Some r, s)))"

definition fec_history_data :: "pm_env \<Rightarrow> metric_data \<Rightarrow> OnuFecHistoryResponse" where
  "fec_history_data env d =
     (let v = safeGetMetricValue env d in
      \<lparr> fh_CorrectedBytes = ucast (v ''corrected_bytes''), fh_CorrectedCodeWords = ucast (v ''corrected_code_words''),
        fh_UncorrectableCodeWords = ucast (v ''uncorrectable_code_words''), fh_TotalCodeWords = ucast (v ''total_code_words''),
        fh_FecSeconds = v ''fec_seconds'' \<rparr>)"

definition GetONUFECCounters :: "pm_env \<Rightarrow> OnuMetricsManager \<Rightarrow> (OnuFecHistoryResponse option \<times> OnuMetricsManager) run" where
  "GetONUFECCounters env s =
     (if deviceDeletionInProgress s then Done (None, s)
      else bind_run (GetSortedInstKeys (mm_db s) (class_id Me_AniG) (mm_cmn s)) (\<lambda>ids.
        case ids of
          [] \<Rightarrow> Done (Some (fec_history_data env []), s)
        | i # is \<Rightarrow> bind_run (collectFecHistoryData env (raise_failure env) i True s) (\<lambda>(m, s).
            Done (Some (fec_history_data env (case m of None \<Rightarrow> [] | Some (n, d) \<Rightarrow> d)), s))))"

subsection \<open>Goroutines\<close>

definition run_pm_task :: "pm_env \<Rightarrow> pm_task \<Rightarrow> OnuMetricsManager \<Rightarrow> OnuMetricsManager run" where
  "run_pm_task env t s =
     (case t of
        PmEvent checked ev \<Rightarrow> run_pm_event env checked ev s
      | PmCollectOptical \<Rightarrow> bind_run (collectOpticalMetrics env s) (\<lambda>(r, s).
          Done (case r of None \<Rightarrow> s | Some ms \<Rightarrow> mm_emit (PublishOptical ms) s))
      | PmCollectUniStatus \<Rightarrow> bind_run (collectUniStatusMetrics env s) (\<lambda>(r, s).
          Done (case r of None \<Rightarrow> s | Some ms \<Rightarrow> mm_emit (PublishMetrics ms) s)))"

text \<open>The goroutine at a position of the list runs to its end.\<close>

definition run_nth_task :: "pm_env \<Rightarrow> nat \<Rightarrow> OnuMetricsManager \<Rightarrow> OnuMetricsManager run" where
  "run_nth_task env n s =
     (if n < length (mm_tasks s)
      then run_pm_task env (mm_tasks s ! n) (s\<lparr>mm_tasks := take n (mm_tasks s) @ drop (Suc n) (mm_tasks s)\<rparr>) else Done s)"

end
