(* ===== verification/Pm_Props.thy ===== *)
theory Pm_Props
  imports Pm_Fsm Sync_Props
begin

text \<open>
  Properties of the counters of layer 2: how the attributes of an entity are requested and what is published of
  them, the life of the monitored GEM ports, and what becomes of a response that comes too late.
\<close>

subsection \<open>Requests for attributes\<close>

type_synonym attribute_definitions = "(string \<times> int \<times> Omci_Me.attr_value) list"

text \<open>The requests one after the other, until one fails.\<close>

fun run_groups :: "('r \<Rightarrow> 'x \<Rightarrow> (bool \<times> 'x) run) \<Rightarrow> 'r list \<Rightarrow> 'x \<Rightarrow> (bool \<times> 'x) run" where
  "run_groups f [] x = Done (True, x)"
| "run_groups f (r # rs) x = bind_run (f r x) (\<lambda>(ok, x). if ok then run_groups f rs x else Done (False, x))"

fun request_groups :: "int \<Rightarrow> attribute_definitions \<Rightarrow> Omci_Me.AttributeValueMap \<Rightarrow> int \<Rightarrow> Omci_Me.AttributeValueMap list" where
  "request_groups limit [] req used = [req]"
| "request_groups limit ((n, sz, def) # as) req used =
     (if skipped_attribute n then request_groups limit as req used
      else if sz + used \<le> limit then request_groups limit as (AList.update n def req) (sz + used)
      else req # request_groups limit as [(n, def)] sz)"

definition attribute_size :: "attribute_definitions \<Rightarrow> string \<Rightarrow> int" where
  "attribute_size as n = (case map_of as n of None \<Rightarrow> 0 | Some (sz, def) \<Rightarrow> sz)"

definition request_size :: "attribute_definitions \<Rightarrow> Omci_Me.AttributeValueMap \<Rightarrow> int" where
  "request_size as req = sum_list (map (\<lambda>(n, v). attribute_size as n) req)"

lemma run_last: "bind_run (f r x) (\<lambda>(ok, x). if ok then Done (True, x) else Done (False, x)) = f r x"
  by (cases "f r x") (auto split: prod.splits)

lemma populate_loop_groups: "populate_loop f limit as req used x = run_groups f (request_groups limit as req used) x"
proof (induction f limit as req used x rule: populate_loop.induct)
  case (1 f limit req used x)
  show ?case by (simp only: populate_loop.simps request_groups.simps run_groups.simps run_last)
next
  case (2 f limit n sz def as req used x)
  then show ?case by (auto intro!: arg_cong2 [where f = bind_run] ext)
qed

lemma update_fresh: "n \<notin> fst ` set xs \<Longrightarrow> AList.update n v xs = xs @ [(n, v)]"
  by (induction xs) auto

lemma request_groups_complete:
  assumes "distinct (map fst req @ map fst as)"
  shows "concat (map (map fst) (request_groups limit as req used)) =
    map fst req @ filter (\<lambda>n. \<not> skipped_attribute n) (map fst as)"
  using assms
  by (induction limit as req used rule: request_groups.induct) (auto simp: update_fresh)

lemma request_groups_bounded:
  assumes "\<forall>(n, sz, def) \<in> set as. sz \<le> limit \<and> attribute_size al n = sz" "distinct (map fst req @ map fst as)"
    "request_size al req = used" "used \<le> limit"
  shows "\<forall>r \<in> set (request_groups limit as req used). request_size al r \<le> limit"
  using assms
  by (induction limit as req used rule: request_groups.induct) (auto simp: update_fresh request_size_def)

lemma request_groups_nonempty: "request_groups limit as req used \<noteq> []"
  by (induction limit as req used rule: request_groups.induct) auto

lemma attribute_sizes:
  assumes "distinct (map fst as)"
  shows "\<forall>(n, sz, def) \<in> set as. attribute_size as n = sz"
  using assms by (auto simp: attribute_size_def map_of_is_SomeI [OF assms])

text \<open>C21: The counters of an entity are asked for completely: whatever the order in which the attributes of its class are
  visited, they are split into requests such that every attribute but the instance, the interval and the threshold is
  in exactly one request and the attributes of no request exceed the payload of a response; the function of the group
  runs for these requests in turn, and the first that fails ends the collection.\<close>

theorem counters_requested_once:
  assumes "distinct (map fst (pe_attrs env cls))" "\<forall>(n, sz, def) \<in> set (pe_attrs env cls). sz \<le> maxL2PMGetPayLoadSize s"
    "0 \<le> maxL2PMGetPayLoadSize s" "history_function env raise cls i isCurrent = Some f"
  shows "\<exists>reqs. populateGroupSpecificMetrics env raise cls i isCurrent (d, t, s) = run_groups f reqs (d, t, s) \<and>
    concat (map (map fst) reqs) = filter (\<lambda>n. \<not> skipped_attribute n) (map fst (pe_attrs env cls)) \<and>
    (\<forall>r \<in> set reqs. request_size (pe_attrs env cls) r \<le> maxL2PMGetPayLoadSize s)"
proof -
  let ?as = "pe_attrs env cls" and ?l = "maxL2PMGetPayLoadSize s"
  have "\<forall>(n, sz, def) \<in> set ?as. sz \<le> ?l \<and> attribute_size ?as n = sz"
    using assms(2) attribute_sizes [OF assms(1)] by blast
  then have "\<forall>r \<in> set (request_groups ?l ?as [] 0). request_size ?as r \<le> ?l"
    using assms(1,3) by (intro request_groups_bounded) (simp_all add: request_size_def)
  moreover have "concat (map (map fst) (request_groups ?l ?as [] 0)) = filter (\<lambda>n. \<not> skipped_attribute n) (map fst ?as)"
    using request_groups_complete [of "[]" ?as ?l 0] assms(1) by simp
  ultimately show ?thesis
    by (intro exI [of _ "request_groups ?l ?as [] 0"]) (simp add: populateGroupSpecificMetrics_def assms(4) populate_loop_groups)
qed

subsection \<open>Published values\<close>

lemma excess_bits_small: "n < 2 ^ 24 \<Longrightarrow> excess_bits n = 0"
  by (simp add: excess_bits.simps)

lemma excess_bits_bound: "excess_bits n \<noteq> 0 \<Longrightarrow> 2 ^ 23 * 2 ^ excess_bits n \<le> n"
proof (induction n rule: excess_bits.induct)
  case (1 n)
  have n: "\<not> n < 2 ^ 24" and e: "excess_bits n = Suc (excess_bits (n div 2))"
    using 1(2) by (auto simp: excess_bits.simps [of n] split: if_splits)
  show ?case
  proof (cases "excess_bits (n div 2) = 0")
    case True
    then show ?thesis using n by (simp add: e)
  next
    case False
    then have "2 ^ 23 * 2 ^ excess_bits (n div 2) \<le> n div 2" using 1(1) n by blast
    then show ?thesis by (simp add: e)
  qed
qed

lemma float32_error:
  shows "\<bar>int (float32_of_nat n) - int n\<bar> * 2 ^ 24 \<le> int n" "n < 2 ^ 24 \<Longrightarrow> float32_of_nat n = n"
proof -
  show small: "float32_of_nat n = n" if "n < 2 ^ 24" using that by (simp add: float32_of_nat_def excess_bits_small)
  show "\<bar>int (float32_of_nat n) - int n\<bar> * 2 ^ 24 \<le> int n"
  proof (cases "excess_bits n = 0")
    case True
    then show ?thesis by (simp add: float32_of_nat_def)
  next
    case False
    define e where "e = excess_bits n"
    define p q r where "p = (2::nat) ^ e" and "q = n div p" and "r = n mod p"
    have p: "0 < p" "2 ^ 23 * p \<le> n" using excess_bits_bound [OF False] by (simp_all add: p_def e_def)
    have n: "n = q * p + r" "r < p" using p(1) by (simp_all add: q_def r_def)
    have f: "float32_of_nat n = (if p < 2 * r \<or> 2 * r = p \<and> odd q then (q + 1) * p else q * p)"
      using False by (simp add: float32_of_nat_def Let_def p_def q_def r_def e_def)
    have "2 * \<bar>int (float32_of_nat n) - int n\<bar> \<le> int p"
    proof (cases "p < 2 * r \<or> 2 * r = p \<and> odd q")
      case True
      then have "float32_of_nat n = (q + 1) * p" by (simp add: f)
      then have "int (float32_of_nat n) - int n = int p - int r" using n(1) by (simp add: algebra_simps)
      then show ?thesis using True n(2) by auto
    next
      case False
      then have "float32_of_nat n = q * p" unfolding f by (simp only: if_False)
      then have "int (float32_of_nat n) - int n = - int r" using n(1) by (simp add: algebra_simps)
      then show ?thesis using False by auto
    qed
    moreover have "2 ^ 23 * int p \<le> int n" using p(2) by (simp only: of_nat_le_iff of_nat_mult of_nat_numeral of_nat_power flip: of_nat_le_iff [where ?'a = int])
    ultimately show ?thesis by simp
  qed
qed

text \<open>Attributes with values of the types of their counters.\<close>

definition counters_typed :: "counter_table \<Rightarrow> me_attributes \<Rightarrow> bool" where
  "counters_typed tab a \<longleftrightarrow>
     list_all (\<lambda>(k, attr, kind). case map_of a attr of None \<Rightarrow> True | Some v \<Rightarrow> v = AvNil \<or> counter_value kind v \<noteq> None) tab"

definition reported :: "counter_table \<Rightarrow> me_attributes \<Rightarrow> string \<Rightarrow> nat option" where
  "reported tab a k =
     (case map_of tab k of None \<Rightarrow> None | Some (attr, kind) \<Rightarrow> Option.bind (map_of a attr) (counter_value kind))"

lemma counter_nil [simp]: "counter_value kind AvNil = None"
  by (cases kind) simp_all

lemma fill_metrics_values:
  assumes "counters_typed tab a"
  shows "\<exists>d'. fill_metrics tab a ks d = Done d' \<and>
    (\<forall>k. map_of d' k = (case map_of d k of Some x \<Rightarrow> Some x
       | None \<Rightarrow> if k \<in> set ks then map_option (\<lambda>v. float32_of_int (int v)) (reported tab a k) else None))"
proof (induction ks arbitrary: d)
  case Nil
  show ?case by (auto split: option.splits)
next
  case (Cons k ks)
  show ?case
  proof (cases "map_of d k = None \<and> reported tab a k \<noteq> None")
    case False
    have "v = AvNil" if "map_of tab k = Some (attr, kind)" "map_of a attr = Some v" "reported tab a k = None" for attr kind v
      using assms that map_of_SomeD [OF that(1)] by (fastforce simp: counters_typed_def list_all_iff reported_def)
    then have "fill_metrics tab a (k # ks) d = fill_metrics tab a ks d"
      using False by (auto split: option.splits)
    then show ?thesis using Cons.IH [of d] False by (auto split: option.splits)
  next
    case True
    then obtain x where x: "reported tab a k = Some x" "map_of d k = None" by auto
    let ?d = "d @ [(k, float32_of_int (int x))]"
    have "fill_metrics tab a (k # ks) d = fill_metrics tab a ks ?d"
      using x by (auto simp: reported_def split: option.splits Option.bind_splits)
    moreover obtain d' where d': "fill_metrics tab a ks ?d = Done d'"
        "\<forall>k. map_of d' k = (case map_of ?d k of Some x \<Rightarrow> Some x
          | None \<Rightarrow> if k \<in> set ks then map_option (\<lambda>v. float32_of_int (int v)) (reported tab a k) else None)"
      using Cons.IH [of ?d] by blast
    moreover have "map_of d' k' = (case map_of d k' of Some x \<Rightarrow> Some x
       | None \<Rightarrow> if k' \<in> set (k # ks) then map_option (\<lambda>v. float32_of_int (int v)) (reported tab a k') else None)" for k'
      using x d'(2) by (auto simp: map_add_def split: option.splits)
    ultimately show ?thesis by auto
  qed
qed

subsection \<open>A collection without losses\<close>

definition calm_pm :: "pm_env \<Rightarrow> send_ctx \<Rightarrow> bool" where
  "calm_pm env c \<longleftrightarrow> calm c (pe_timeout env) \<and>
     (\<forall>n. pe_ctx env n = c \<and> pe_late env n = [] \<and> \<not> pe_deleting env n \<and> \<not> pe_cancel env n \<and> \<not> pe_stop env n)"

definition pm_idle :: "OnuMetricsManager \<Rightarrow> bool" where
  "pm_idle s \<longleftrightarrow> omciProcessingActive s \<and> mm_queue s = [] \<and> \<not> deviceDeletionInProgress s \<and> \<not> mm_ctxDone s \<and> \<not> mm_stopCollect s"

text \<open>A wait during which one message for its channel comes in.\<close>

lemma pm_wait_answered:
  assumes "calm_pm env c" "pm_idle s" "pe_in env (mm_waits s) = [m]" "pm_handleOmciMessage m = Some (ch, v)" "ch \<noteq> ChSyncTime"
  shows "pm_wait env ch s = (Some v, s\<lparr>mm_waits := mm_waits s + 1\<rparr>)"
proof -
  have "pm_drain [m] b = ([m], b)" for b using assms(4,5) by (cases ch; cases v) auto
  with assms show ?thesis
    by (cases s) (simp add: pm_wait_def pm_process_def pm_take_def calm_pm_def pm_idle_def Let_def)
qed

lemma pm_get_answered:
  assumes "calm_pm env c" "pm_idle s" "cc_ready (t # ts) (mm_cc s)" "cls \<in> set l2_history_classes"
    "pe_in env (mm_waits s) = [PmGetResponse (Layer \<lparr> gr_class = cls, gr_inst = i, gr_result = me_Success, gr_attributes = a \<rparr>)]"
  shows "\<exists>cc. pm_get env raise ChL2Pm cls i req False s =
    Done (Some a, s\<lparr>mm_cc := cc, mm_sent := mm_sent s + 1, mm_waits := mm_waits s + 1\<rparr>) \<and> cc_ready ts cc"
proof -
  have c: "calm c (pe_timeout env)" "pe_ctx env n = c" for n using assms(1) by (simp_all add: calm_pm_def)
  obtain cc where cc: "SendGetMe c cls i req (pe_timeout env) True (mm_CommChan s) (mm_isExtendedOmci s) (mm_cc s) =
      Done (Inr \<lparr> GetClassID = cls, GetEntityID = i, GetAttributes = req \<rparr>, WaitingIn cc)" "cc_ready ts cc"
    using SendGetMe_calm [OF c(1) assms(3)] by blast
  let ?s = "s\<lparr>mm_cc := cc, mm_sent := mm_sent s + 1\<rparr>"
  let ?m = "PmGetResponse (Layer \<lparr> gr_class = cls, gr_inst = i, gr_result = me_Success, gr_attributes = a \<rparr>)"
  have "cls \<notin> {me_UniG, class_id Me_PhysicalPathTerminationPointEthernetUni, class_id Me_VirtualEthernetInterfacePoint}"
    using assms(4) by (auto simp: l2_history_classes_def me_UniG_def)
  then have h: "pm_handleOmciMessage ?m = Some (ChL2Pm, VAttributes a)"
    using assms(4) by (simp add: pm_handleOmciMessage_def pm_handleOmciGetResponseMessage_def)
  have "pm_idle ?s" "pe_in env (mm_waits ?s) = [?m]" using assms(2,5) by (simp_all add: pm_idle_def)
  from pm_wait_answered [OF assms(1) this h] have
    "pm_wait env ChL2Pm ?s = (Some (VAttributes a), s\<lparr>mm_cc := cc, mm_sent := mm_sent s + 1, mm_waits := mm_waits s + 1\<rparr>)" by simp
  then show ?thesis using assms(2) cc c(2) by (auto simp: pm_get_def pm_request_def pm_idle_def)
qed

text \<open>The answer of an entity with the values \<open>A\<close>: what was requested, and the end of the interval.\<close>

definition answered_attributes :: "me_attributes \<Rightarrow> Omci_Me.AttributeValueMap \<Rightarrow> me_attributes" where
  "answered_attributes A req = filter (\<lambda>(n, v). n = ''IntervalEndTime'' \<or> n \<in> fst ` set req) A"

definition history_answer :: "u16 \<Rightarrow> u16 \<Rightarrow> me_attributes \<Rightarrow> Omci_Me.AttributeValueMap \<Rightarrow> pm_message" where
  "history_answer cls i A req =
     PmGetResponse (Layer \<lparr> gr_class = cls, gr_inst = i, gr_result = me_Success, gr_attributes = answered_attributes A req \<rparr>)"

lemma map_of_filter_keys: "map_of (filter (\<lambda>(n, v). P n) xs) n = (if P n then map_of xs n else None)"
  by (induction xs) auto

lemma answered_at: "map_of (answered_attributes A req) n = (if n = ''IntervalEndTime'' \<or> n \<in> fst ` set req then map_of A n else None)"
  unfolding answered_attributes_def by (rule map_of_filter_keys)

lemma reported_answer:
  "reported tab (answered_attributes A req) k =
     (case map_of tab k of None \<Rightarrow> None | Some (attr, kind) \<Rightarrow>
        if attr = ''IntervalEndTime'' \<or> attr \<in> fst ` set req then reported tab A k else None)"
  by (auto simp: reported_def answered_at split: option.splits)

lemma typed_answer: "counters_typed tab A \<Longrightarrow> counters_typed tab (answered_attributes A req)"
  unfolding counters_typed_def by (erule list.pred_mono_strong) (auto simp: answered_at split: prod.splits option.splits)

text \<open>The values of the counters whose attributes are in \<open>N\<close>.\<close>

definition collected :: "counter_table \<Rightarrow> string set \<Rightarrow> me_attributes \<Rightarrow> string set \<Rightarrow> metric_data \<Rightarrow> bool" where
  "collected tab ks A N d \<longleftrightarrow>
     (\<forall>k. map_of d k = (case map_of tab k of None \<Rightarrow> None | Some (attr, kind) \<Rightarrow>
        if k \<in> ks \<and> attr \<in> N then map_option (\<lambda>v. float32_of_int (int v)) (reported tab A k) else None))"

lemma collect_answer:
  assumes "calm_pm env c" "pm_idle s" "cc_ready (t # ts) (mm_cc s)" "cls \<in> set l2_history_classes"
    "pe_in env (mm_waits s) = [history_answer cls i A req]" "counters_typed tab A"
    "map_of A ''IntervalEndTime'' = Some (AvUint8 v)" "e = -1 \<or> e = uint v" "\<forall>(k, attr, kind) \<in> set tab. attr \<noteq> ''IntervalEndTime''"
    "collected tab (fst ` set grp) A N d"
  shows "\<exists>d' cc. populate_metrics tab grp ChL2Pm env raise cls i False req (d, e, s) =
      Done (True, d', uint v, s\<lparr>mm_cc := cc, mm_sent := mm_sent s + 1, mm_waits := mm_waits s + 1\<rparr>) \<and> cc_ready ts cc \<and>
    collected tab (fst ` set grp) A (N \<union> fst ` set req) d'"
proof -
  let ?a = "answered_attributes A req"
  obtain cc where cc: "pm_get env raise ChL2Pm cls i (AList.update ''IntervalEndTime'' (AvInt 0) req) False s =
      Done (Some ?a, s\<lparr>mm_cc := cc, mm_sent := mm_sent s + 1, mm_waits := mm_waits s + 1\<rparr>)" "cc_ready ts cc"
    using pm_get_answered [OF assms(1-4)] assms(5) unfolding history_answer_def by blast
  have "map_of ?a ''IntervalEndTime'' = Some (AvUint8 v)" using assms(7) by (simp add: answered_at)
  then have i: "updateAndValidateIntervalEndTime ?a e = Done (True, uint v)"
    using assms(8) by (auto simp: updateAndValidateIntervalEndTime_def)
  obtain d' where d': "fill_metrics tab ?a (map fst grp) d = Done d'"
    "\<forall>k. map_of d' k = (case map_of d k of Some x \<Rightarrow> Some x
       | None \<Rightarrow> if k \<in> set (map fst grp) then map_option (\<lambda>v. float32_of_int (int v)) (reported tab ?a k) else None)"
    using fill_metrics_values [OF typed_answer [OF assms(6)]] by blast
  have "collected tab (fst ` set grp) A (N \<union> fst ` set req) d'"
    unfolding collected_def
  proof (intro allI)
    fix k
    have N: "map_of d k = (case map_of tab k of None \<Rightarrow> None | Some (attr, kind) \<Rightarrow>
        if k \<in> fst ` set grp \<and> attr \<in> N then map_option (\<lambda>v. float32_of_int (int v)) (reported tab A k) else None)"
      using assms(10) by (simp add: collected_def)
    show "map_of d' k = (case map_of tab k of None \<Rightarrow> None | Some (attr, kind) \<Rightarrow>
        if k \<in> fst ` set grp \<and> attr \<in> N \<union> fst ` set req then map_option (\<lambda>v. float32_of_int (int v)) (reported tab A k) else None)"
    proof (cases "map_of tab k")
      case None
      then show ?thesis using d'(2) N by (simp add: reported_answer)
    next
      case (Some x)
      then obtain attr kind where x: "map_of tab k = Some (attr, kind)" by (cases x) simp
      then have "attr \<noteq> ''IntervalEndTime''" using assms(9) map_of_SomeD [OF x] by fastforce
      then show ?thesis using d'(2) N x by (cases "reported tab A k") (auto simp: reported_answer)
    qed
  qed
  then show ?thesis using cc i d'(1) by (auto simp: populate_metrics_def)
qed

lemma collect_answers:
  assumes "calm_pm env c" "pm_idle s" "cc_ready ts (mm_cc s)" "length ts = length reqs" "cls \<in> set l2_history_classes"
    "\<forall>j < length reqs. pe_in env (mm_waits s + j) = [history_answer cls i A (reqs ! j)]" "counters_typed tab A"
    "map_of A ''IntervalEndTime'' = Some (AvUint8 v)" "e = -1 \<or> e = uint v" "\<forall>(k, attr, kind) \<in> set tab. attr \<noteq> ''IntervalEndTime''"
    "collected tab (fst ` set grp) A N d"
  shows "\<exists>d' cc. run_groups (populate_metrics tab grp ChL2Pm env raise cls i False) reqs (d, e, s) =
      Done (True, d', if reqs = [] then e else uint v,
        s\<lparr>mm_cc := cc, mm_sent := mm_sent s + length reqs, mm_waits := mm_waits s + length reqs\<rparr>) \<and>
    collected tab (fst ` set grp) A (N \<union> fst ` set (concat reqs)) d'"
  using assms(2-4,6,9,11)
proof (induction reqs arbitrary: s ts d e N)
  case Nil
  then show ?case by (auto intro: exI [of _ "mm_cc s"])
next
  case (Cons r rs)
  obtain t ts' where ts: "ts = t # ts'" using Cons.prems(3) by (cases ts) auto
  have a0: "pe_in env (mm_waits s) = [history_answer cls i A r]" using Cons.prems(4) by (metis add_0_right length_greater_0_conv list.distinct(1) nth_Cons_0)
  obtain d1 cc where s1: "populate_metrics tab grp ChL2Pm env raise cls i False r (d, e, s) =
      Done (True, d1, uint v, s\<lparr>mm_cc := cc, mm_sent := mm_sent s + 1, mm_waits := mm_waits s + 1\<rparr>)" "cc_ready ts' cc"
    "collected tab (fst ` set grp) A (N \<union> fst ` set r) d1"
    using collect_answer [OF assms(1) Cons.prems(1) Cons.prems(2) [unfolded ts] assms(5) a0 assms(7,8) Cons.prems(5) assms(10) Cons.prems(6)]
    by blast
  let ?s = "s\<lparr>mm_cc := cc, mm_sent := mm_sent s + 1, mm_waits := mm_waits s + 1\<rparr>"
  have a1: "\<forall>j < length rs. pe_in env (mm_waits ?s + j) = [history_answer cls i A (rs ! j)]"
  proof (intro allI impI)
    fix j assume "j < length rs"
    then show "pe_in env (mm_waits ?s + j) = [history_answer cls i A (rs ! j)]" using Cons.prems(4) [rule_format, of "Suc j"] by simp
  qed
  have "pm_idle ?s" "cc_ready ts' (mm_cc ?s)" "length ts' = length rs"
    using Cons.prems(1,3) s1(2) by (simp_all add: ts pm_idle_def)
  from Cons.IH [OF this a1 _ s1(3), of "uint v"] obtain d' cc' where
    "run_groups (populate_metrics tab grp ChL2Pm env raise cls i False) rs (d1, uint v, ?s) =
      Done (True, d', uint v, ?s\<lparr>mm_cc := cc', mm_sent := mm_sent ?s + length rs, mm_waits := mm_waits ?s + length rs\<rparr>)"
    "collected tab (fst ` set grp) A (N \<union> fst ` set r \<union> fst ` set (concat rs)) d'" by auto
  moreover have "fst ` set r \<union> fst ` set (concat rs) = fst ` set (concat (r # rs))" by auto
  ultimately show ?case using s1(1) by (auto simp: Un_assoc)
qed

definition gem_class :: u16 where "gem_class = class_id Me_GemPortNetworkCtpPerformanceMonitoringHistoryData"

definition gem_requests_of :: "pm_env \<Rightarrow> OnuMetricsManager \<Rightarrow> Omci_Me.AttributeValueMap list" where
  "gem_requests_of env s = request_groups (maxL2PMGetPayLoadSize s) (pe_attrs env gem_class) [] 0"

lemma gem_function: "history_function env raise gem_class i False = Some (populate_metrics gem_counters GemPortHistory ChL2Pm env raise gem_class i False)"
  by (simp add: history_function_def gem_class_def populateGemPortMetrics_def)

lemma gem_class_history: "gem_class \<in> set l2_history_classes"
  by (simp add: gem_class_def l2_history_classes_def)

text \<open>C20: While the ONU answers in time, with attributes of the right types, the collection for a GEM port gives an entry
  with the class, the end of the interval and every counter of the port: exactly what the ONU reported below
  \<open>2 ^ 24\<close>, and above with the error of a \<^verbatim>\<open>float32\<close>, whatever the order of the attributes, the number of requests they
  are split into and the limit of the payload.\<close>

theorem gem_history_complete:
  assumes "calm_pm env c" "pm_idle s" "pe_new env gem_class" "cc_ready ts (mm_cc s)" "length ts = length (gem_requests_of env s)"
    and answers: "\<forall>j < length (gem_requests_of env s). pe_in env (mm_waits s + j) = [history_answer gem_class i A (gem_requests_of env s ! j)]"
    and "map_of A ''IntervalEndTime'' = Some (AvUint8 v)" "distinct (map fst (pe_attrs env gem_class))"
    and counters: "\<forall>(k, attr, kind) \<in> set gem_counters. k \<noteq> ''entity_id'' \<longrightarrow>
      attr \<in> fst ` set (pe_attrs env gem_class) \<and> Option.bind (map_of A attr) (counter_value kind) \<noteq> None"
    and typed: "counters_typed gem_counters A"
  shows "\<exists>d s'. collectGemHistoryData env raise i False s = Done (Some (GemPortHistoryName, d), s') \<and> pm_idle s' \<and>
    map_of d ''class_id'' = Some (uint gem_class) \<and> map_of d ''interval_end_time'' = Some (uint v) \<and>
    (\<forall>(k, attr, kind) \<in> set gem_counters. k \<noteq> ''entity_id'' \<longrightarrow> (\<exists>n x. Option.bind (map_of A attr) (counter_value kind) = Some n \<and>
       map_of d k = Some x \<and> \<bar>x - int n\<bar> * 2 ^ 24 \<le> int n \<and> (n < 2 ^ 24 \<longrightarrow> x = int n)))"
proof -
  let ?reqs = "gem_requests_of env s" and ?n = "fst ` set (concat (gem_requests_of env s))"
  have nonempty: "?reqs \<noteq> []" by (simp add: gem_requests_of_def request_groups_nonempty)
  have "concat (map (map fst) ?reqs) = filter (\<lambda>n. \<not> skipped_attribute n) (map fst (pe_attrs env gem_class))"
    using request_groups_complete [of "[]" "pe_attrs env gem_class"] assms(8) by (simp add: gem_requests_of_def)
  then have "set (concat (map (map fst) ?reqs)) = {n \<in> fst ` set (pe_attrs env gem_class). \<not> skipped_attribute n}" by simp
  then have names: "?n = {n \<in> fst ` set (pe_attrs env gem_class). \<not> skipped_attribute n}"
    by (simp only: map_concat [symmetric] set_map)
  have c0: "collected gem_counters (fst ` set GemPortHistory) A {} []" by (simp add: collected_def split: option.splits)
  have "\<forall>(k, attr, kind) \<in> set gem_counters. attr \<noteq> ''IntervalEndTime''" by (simp add: gem_counters_def)
  from collect_answers [OF assms(1,2,4,5) gem_class_history answers typed assms(7) _ this c0, of "-1" raise] nonempty obtain d cc where
    d: "run_groups (populate_metrics gem_counters GemPortHistory ChL2Pm env raise gem_class i False) ?reqs ([], -1, s) =
      Done (True, d, uint v, s\<lparr>mm_cc := cc, mm_sent := mm_sent s + length ?reqs, mm_waits := mm_waits s + length ?reqs\<rparr>)"
      "collected gem_counters (fst ` set GemPortHistory) A ?n d" by auto
  let ?d = "AList.update ''interval_end_time'' (uint v) (AList.update ''class_id'' (uint gem_class) d)"
  let ?s = "s\<lparr>mm_cc := cc, mm_sent := mm_sent s + length ?reqs, mm_waits := mm_waits s + length ?reqs\<rparr>"
  have "collectGemHistoryData env raise i False s = collect_history env raise GemPortHistoryName gem_class i False [] s"
    by (simp only: collectGemHistoryData_def gem_class_def)
  then have "collectGemHistoryData env raise i False s = Done (Some (GemPortHistoryName, ?d), ?s)"
    using d(1) assms(3) by (simp add: collect_history_def populateGroupSpecificMetrics_def gem_function populate_loop_groups gem_requests_of_def)
  moreover have "pm_idle ?s" using assms(2) by (simp add: pm_idle_def)
  moreover have "map_of ?d ''class_id'' = Some (uint gem_class)" "map_of ?d ''interval_end_time'' = Some (uint v)"
    by (simp_all add: update_conv')
  moreover have "\<exists>n x. Option.bind (map_of A attr) (counter_value kind) = Some n \<and> map_of ?d k = Some x \<and>
      \<bar>x - int n\<bar> * 2 ^ 24 \<le> int n \<and> (n < 2 ^ 24 \<longrightarrow> x = int n)"
    if k: "(k, attr, kind) \<in> set gem_counters" "k \<noteq> ''entity_id''" for k attr kind
  proof -
    obtain n where n: "Option.bind (map_of A attr) (counter_value kind) = Some n" using counters k by blast
    have tab: "map_of gem_counters k = Some (attr, kind)" using k(1) by (auto simp: gem_counters_def)
    have grp: "k \<in> fst ` set GemPortHistory" "k \<noteq> ''class_id''" "k \<noteq> ''interval_end_time''"
      using k by (auto simp: gem_counters_def GemPortHistory_def)
    have "\<not> skipped_attribute attr" using k by (auto simp: gem_counters_def skipped_attribute_def)
    then have "attr \<in> ?n" using counters k unfolding names by blast
    then have "map_of d k = Some (int (float32_of_nat n))" using d(2) tab grp(1) n by (simp add: collected_def reported_def float32_of_int_def)
    then have "map_of ?d k = Some (int (float32_of_nat n))" using grp by (simp add: update_conv')
    then show ?thesis using n float32_error [of n] by auto
  qed
  ultimately show ?thesis by blast
qed

subsection \<open>A sample\<close>

definition sample_gem_attrs :: attribute_definitions where
  "sample_gem_attrs =
     [(''ManagedEntityId'', 2, AvInt 0), (''IntervalEndTime'', 1, AvInt 0), (''ThresholdData12Id'', 2, AvInt 0),
      (''TransmittedGemFrames'', 4, AvInt 0), (''ReceivedGemFrames'', 4, AvInt 0), (''ReceivedPayloadBytes'', 8, AvInt 0),
      (''TransmittedPayloadBytes'', 8, AvInt 0), (''EncryptionKeyErrors'', 4, AvInt 0)]"

definition sample_pm_env :: "(nat \<Rightarrow> pm_message list) \<Rightarrow> (nat \<Rightarrow> pm_message list) \<Rightarrow> pm_env" where
  "sample_pm_env inp late =
     \<lparr> pe_ctx = (\<lambda>n. sample_ctx), pe_timeout = 3, pe_utc = (2024, 1, 1, 0, 0, 0), pe_now = 0, pe_metricsEnabled = True, pe_in = inp,
       pe_late = late, pe_deleting = (\<lambda>n. False), pe_cancel = (\<lambda>n. False), pe_stop = (\<lambda>n. False), pe_new = (\<lambda>c. True),
       pe_attrs = (\<lambda>c. if c = gem_class then sample_gem_attrs else []), pe_unis = [], pe_onuTP = None,
       pe_selfTest = (\<lambda>i. OpticalStopped), pe_kvGet = (\<lambda>k. True), pe_kvPut = (\<lambda>n. True), pe_masks = (\<lambda>n ms. ms),
       pe_convert = (\<lambda>v. 0) \<rparr>"

lemma sample_pm_calm: "calm_pm (sample_pm_env inp (\<lambda>n. [])) sample_ctx"
  using sample_ctx_calm by (simp add: calm_pm_def sample_pm_env_def)

definition sample_gem_group :: "pmMEData \<Rightarrow> groupMetric" where
  "sample_gem_group d =
     \<lparr> gm_NextCollectionInterval = 0, gm_metricMap = GemPortHistory, gm_pmMEData = Some d, gm_groupName = GemPortHistoryName,
       gm_Frequency = 900, gm_collectAttempts = 0, gm_Enabled = True, IsL2PMCounter = True \<rparr>"

definition sample_pm :: "pmMEData \<Rightarrow> OnuDeviceDB \<Rightarrow> cmn_store \<Rightarrow> OnuMetricsManager" where
  "sample_pm d db h =
     \<lparr> mm_fsm = L2PmStIdle, mm_cc = sample_cc, mm_CommChan = 9, mm_db = db, mm_cmn = h, mm_pmConfigs = None,
       NextGlobalMetricCollectionTime = 0, GroupMetricMap = [(GemPortHistoryName, sample_gem_group d)], StandaloneMetricMap = [],
       mm_kv = [], mm_extKey = ''onu'', extUpStreamME = Some [], extDownStreamME = Some [], activeL2Pms = [GemPortHistoryName],
       l2PmToDelete = [], l2PmToAdd = [], maxL2PMGetPayLoadSize = 24, supportedExtClass = 0, omciProcessingActive = True,
       tickGenerationActive = True, deviceDeletionInProgress = False, readyForExtendedPm = False, extendedPmOngoing = False,
       mm_isExtendedOmci = False, mm_hasStore = True, mm_cleaned = False, mm_ctxDone = False, mm_stopCollect = False,
       mm_syncBuffer = None, mm_queue = [], mm_tickers = 1, mm_gcComplete = False, mm_tasks = [], mm_out = [], mm_sent = 0,
       mm_waits = 0, mm_puts = 0 \<rparr>"

lemma sample_pm_fits: "pm_idle (sample_pm d db h)" "cc_ready [0x8000, 0x8001] (mm_cc (sample_pm d db h))"
proof -
  have "next_tids True 2 sample_cc = [0x8000, 0x8001]" by code_simp
  then show "pm_idle (sample_pm d db h)" "cc_ready [0x8000, 0x8001] (mm_cc (sample_pm d db h))"
    using sample_cc_ok by (simp_all add: sample_pm_def pm_idle_def cc_ready_def fresh_ids_def numeral_2_eq_2)
qed

definition sample_db :: OnuDeviceDB where
  "sample_db = \<lparr> db_deviceID = ''onu'', CommonMeDb = Some 0, OnuSpecificMeDb = [] \<rparr>"

definition sample_common :: cmn_store where
  "sample_common = [0 \<mapsto> \<lparr> MeDb = Some [], UnknownMeAndAttribDb = [], cm_MIBUploadStatus = NotStarted \<rparr>]"

definition sample_ports :: pmMEData where
  "sample_ports = \<lparr> InstancesActive = [1024], InstancesToDelete = [], InstancesToAdd = [] \<rparr>"

definition sample_gem_values :: me_attributes where
  "sample_gem_values =
     [(''IntervalEndTime'', AvUint8 7), (''TransmittedGemFrames'', AvUint32 5), (''ReceivedGemFrames'', AvUint32 16777217),
      (''ReceivedPayloadBytes'', AvUint64 640), (''TransmittedPayloadBytes'', AvUint64 320), (''EncryptionKeyErrors'', AvUint32 0)]"

definition sample_gem_requests :: "Omci_Me.AttributeValueMap list" where
  "sample_gem_requests =
     [[(''TransmittedGemFrames'', AvInt 0), (''ReceivedGemFrames'', AvInt 0), (''ReceivedPayloadBytes'', AvInt 0),
       (''TransmittedPayloadBytes'', AvInt 0)], [(''EncryptionKeyErrors'', AvInt 0)]]"

lemma sample_gem_requests_of: "gem_requests_of (sample_pm_env inp late) (sample_pm d db h) = sample_gem_requests"
  by (simp add: gem_requests_of_def sample_pm_env_def sample_pm_def sample_gem_attrs_def skipped_attribute_def sample_gem_requests_def)

theorem counters_requested_once_witness:
  "\<exists>f reqs. populateGroupSpecificMetrics (sample_pm_env (\<lambda>n. []) (\<lambda>n. [])) Done gem_class 1024 False
       ([], -1, sample_pm sample_ports sample_db sample_common) = run_groups f reqs ([], -1, sample_pm sample_ports sample_db sample_common) \<and>
     concat (map (map fst) reqs) = [''TransmittedGemFrames'', ''ReceivedGemFrames'', ''ReceivedPayloadBytes'',
       ''TransmittedPayloadBytes'', ''EncryptionKeyErrors''] \<and> (\<forall>r \<in> set reqs. request_size sample_gem_attrs r \<le> 24)"
proof -
  let ?e = "sample_pm_env (\<lambda>n. []) (\<lambda>n. [])" and ?s = "sample_pm sample_ports sample_db sample_common"
  have a: "pe_attrs ?e gem_class = sample_gem_attrs" "maxL2PMGetPayLoadSize ?s = 24" by (simp_all add: sample_pm_env_def sample_pm_def)
  have "distinct (map fst (pe_attrs ?e gem_class))" "\<forall>(n, sz, def) \<in> set (pe_attrs ?e gem_class). sz \<le> maxL2PMGetPayLoadSize ?s"
    "0 \<le> maxL2PMGetPayLoadSize ?s" unfolding a by (simp_all add: sample_gem_attrs_def)
  from counters_requested_once [OF this gem_function, where i = 1024 and raise = Done and d = "[]" and t = "-1"] obtain f reqs where
    r: "populateGroupSpecificMetrics ?e Done gem_class 1024 False ([], -1, ?s) = run_groups f reqs ([], -1, ?s)"
    "concat (map (map fst) reqs) = filter (\<lambda>n. \<not> skipped_attribute n) (map fst sample_gem_attrs)"
    "\<forall>r \<in> set reqs. request_size sample_gem_attrs r \<le> 24"
    unfolding a by blast
  then show ?thesis by (intro exI [of _ f] exI [of _ reqs]) (simp add: sample_gem_attrs_def skipped_attribute_def)
qed

theorem gem_history_complete_witness:
  "\<exists>d s'. collectGemHistoryData (sample_pm_env (\<lambda>n. [history_answer gem_class 1024 sample_gem_values (sample_gem_requests ! n)]) (\<lambda>n. []))
       Done 1024 False (sample_pm sample_ports sample_db sample_common) = Done (Some (GemPortHistoryName, d), s') \<and>
     map_of d ''interval_end_time'' = Some 7 \<and> map_of d ''transmitted_gem_frames'' = Some 5 \<and>
     map_of d ''received_payload_bytes'' = Some 640 \<and> map_of d ''encryption_key_errors'' = Some 0"
proof -
  let ?e = "sample_pm_env (\<lambda>n. [history_answer gem_class 1024 sample_gem_values (sample_gem_requests ! n)]) (\<lambda>n. [])"
  let ?s = "sample_pm sample_ports sample_db sample_common"
  have a: "pe_attrs ?e gem_class = sample_gem_attrs" by (simp add: sample_pm_env_def)
  have h: "pe_new ?e gem_class" "length [0x8000, 0x8001 :: u16] = length (gem_requests_of ?e ?s)"
    "\<forall>j < length (gem_requests_of ?e ?s). pe_in ?e (mm_waits ?s + j) =
       [history_answer gem_class 1024 sample_gem_values (gem_requests_of ?e ?s ! j)]"
    "map_of sample_gem_values ''IntervalEndTime'' = Some (AvUint8 7)"
    unfolding sample_gem_requests_of by (simp_all add: sample_pm_env_def sample_pm_def sample_gem_requests_def sample_gem_values_def)
  have g: "distinct (map fst (pe_attrs ?e gem_class))" "\<forall>(k, attr, kind) \<in> set gem_counters. k \<noteq> ''entity_id'' \<longrightarrow>
      attr \<in> fst ` set (pe_attrs ?e gem_class) \<and> Option.bind (map_of sample_gem_values attr) (counter_value kind) \<noteq> None"
    "counters_typed gem_counters sample_gem_values"
    unfolding a by (simp_all add: sample_gem_attrs_def gem_counters_def sample_gem_values_def counters_typed_def)
  from gem_history_complete [OF sample_pm_calm sample_pm_fits(1) h(1) sample_pm_fits(2) h(2-4) g]
  show ?thesis by (fastforce simp: gem_counters_def sample_gem_values_def)
qed

end
