(* ===== verification/Pm_Life.thy ===== *)
theory Pm_Life
  imports Pm_Props Pm_Ext
begin

text \<open>
  Properties of the life of the counters: which GEM ports are monitored after ports were added and removed, what a
  response does that comes after its wait, and what follows a failed synchronisation of the time.
\<close>

subsection \<open>Requests and responses\<close>

definition pm_ready :: "u16 list \<Rightarrow> OnuMetricsManager \<Rightarrow> bool" where
  "pm_ready ts s \<longleftrightarrow> idle (mm_cc s) \<and> fresh_ids True ts (mm_cc s)"

definition gem_frame :: "send_ctx \<Rightarrow> bool \<Rightarrow> nat \<Rightarrow> u16 \<Rightarrow> u16 \<Rightarrow> effect" where
  "gem_frame c create ch i t = TxFrame (entity_frame (sc_lib c) (gem_class, create_or_delete create, True, param_id i, ch) t)"

lemma gem_request_sent:
  assumes "calm_pm env c" "pm_ready (t # ts) s"
  shows "\<exists>m cc. pm_request env (\<lambda>c. SendCreateOrDeleteGemPortHistoryME c (pe_timeout env) True create ch i) s =
    Done (Inr m, s\<lparr>mm_cc := cc, mm_sent := mm_sent s + 1\<rparr>) \<and> idle cc \<and> fresh_ids True ts cc \<and>
    cc_out cc = cc_out (mm_cc s) @ [gem_frame c create ch i t]"
proof -
  have c: "calm c (pe_timeout env)" "pe_ctx env n = c" for n using assms(1) by (simp_all add: calm_pm_def)
  have r: "calm c (pe_timeout env) \<and> idle (mm_cc s)" "fresh_ids True (t # ts) (mm_cc s)" using assms(2) c(1) by (simp_all add: pm_ready_def)
  have "SendCreateOrDeleteGemPortHistoryME c (pe_timeout env) True create ch i oo =
      send_request c (pe_timeout env) True (gem_class, create_or_delete create, True, param_id i, ch) oo" for oo
    by (simp only: SendCreateOrDeleteGemPortHistoryME_def send_me_def gem_class_def send_request.simps)
  with entities.step_fresh [OF r, of "(gem_class, create_or_delete create, True, param_id i, ch)"] show ?thesis
    by (auto simp: pm_request_def c(2) gem_frame_def)
qed

definition ok_answer :: "bool \<Rightarrow> pm_message" where
  "ok_answer create = (if create then PmCreateResponse (Layer (me_Success, gem_class)) else PmDeleteResponse (Layer (me_Success, gem_class)))"

lemma ok_answer_handled: "pm_handleOmciMessage (ok_answer create) = Some (ChCreateOrDelete, VBool True)"
  by (simp add: ok_answer_def pm_handleOmciMessage_def handleOmciCreateResponseMessage_def handleOmciDeleteResponseMessage_def gem_class_history)

lemma wait_ok:
  assumes "calm_pm env c" "pm_idle s" "pe_in env (mm_waits s) = [ok_answer create]"
  shows "waitForResponseOrTimeout env s = (True, s\<lparr>mm_waits := mm_waits s + 1\<rparr>)"
  using pm_wait_answered [OF assms ok_answer_handled] assms(2) by (simp add: waitForResponseOrTimeout_def pm_idle_def)

subsection \<open>The instances of the GEM ports\<close>

definition gem_data :: "OnuMetricsManager \<Rightarrow> pmMEData option" where
  "gem_data s = Option.bind (map_of (GroupMetricMap s) GemPortHistoryName) gm_pmMEData"

text \<open>What the work on instances leaves as it is.\<close>

definition same_lists :: "OnuMetricsManager \<Rightarrow> OnuMetricsManager \<Rightarrow> bool" where
  "same_lists s s' \<longleftrightarrow> activeL2Pms s' = activeL2Pms s \<and> l2PmToAdd s' = l2PmToAdd s \<and> l2PmToDelete s' = l2PmToDelete s \<and>
     mm_fsm s' = mm_fsm s \<and> mm_tasks s' = mm_tasks s \<and> mm_hasStore s' = mm_hasStore s \<and> mm_CommChan s' = mm_CommChan s \<and>
     mm_cleaned s' = mm_cleaned s \<and> (pm_idle s \<longrightarrow> pm_idle s')"

lemma same_lists_trans: "same_lists s s' \<Longrightarrow> same_lists s' s'' \<Longrightarrow> same_lists s s''"
  by (simp add: same_lists_def)

lemma map_of_group_update: "map_of (GroupMetricMap (group_update n f s)) n = map_option f (map_of (GroupMetricMap s) n)"
proof -
  have "map_of (map (\<lambda>(k, g). (k, if k = n then f g else g)) xs) n = map_option f (map_of xs n)" for xs
    by (induction xs) auto
  then show ?thesis by (simp add: group_update_def)
qed

lemma gem_data_update: "gem_data s \<noteq> None \<Longrightarrow> gem_data (set_pm_data GemPortHistoryName d s) = Some d"
  by (auto simp: gem_data_def set_pm_data_def map_of_group_update split: Option.bind_splits)

lemma gem_data_cong: "GroupMetricMap s' = GroupMetricMap s \<Longrightarrow> gem_data s' = gem_data s"
  by (simp add: gem_data_def)

lemma pm_data_gem: "gem_data s = Some d \<Longrightarrow> pm_data_or_panic GemPortHistoryName s f = f d"
  by (simp add: pm_data_or_panic_def gem_data_def)

lemma update_instance:
  assumes "gem_data s = Some d" "mm_hasStore s"
  shows "\<exists>s'. updatePmData env GemPortHistoryName i a s = Done s' \<and> gem_data s' = Some (change_pm_data a i d) \<and> same_lists s s' \<and>
    mm_cc s' = mm_cc s \<and> mm_waits s' = mm_waits s"
proof -
  obtain g where g: "map_of (GroupMetricMap s) GemPortHistoryName = Some g" "gm_pmMEData g = Some d"
    using assms(1) by (auto simp: gem_data_def split: Option.bind_splits)
  let ?d = "change_pm_data a i d"
  let ?s = "set_pm_data GemPortHistoryName ?d s"
  let ?t = "?s\<lparr>mm_puts := mm_puts s + 1\<rparr>"
  let ?u = "if pe_kvPut env (mm_puts s) then ?t\<lparr>mm_kv := AList.update GemPortHistoryName (KvData ?d) (mm_kv s)\<rparr> else ?t"
  have d: "gem_data ?s = Some ?d" using gem_data_update assms(1) by simp
  have "updatePmData env GemPortHistoryName i a s = Done ?u"
    using assms(2) g by (simp add: updatePmData_def getPmData_def set_pm_data_def group_update_def Let_def)
  moreover have "gem_data ?u = Some ?d" using d by (simp add: gem_data_def)
  moreover have "same_lists s ?u \<and> mm_cc ?u = mm_cc s \<and> mm_waits ?u = mm_waits s"
    by (simp add: same_lists_def pm_idle_def set_pm_data_def group_update_def)
  ultimately show ?thesis by blast
qed

subsection \<open>Deletion\<close>

definition all_answered :: "pm_env \<Rightarrow> bool \<Rightarrow> nat \<Rightarrow> OnuMetricsManager \<Rightarrow> bool" where
  "all_answered env create n s \<longleftrightarrow> (\<forall>j < n. pe_in env (mm_waits s + j) = [ok_answer create])"

lemma all_answered_Suc:
  assumes "all_answered env create (Suc n) s"
  shows "pe_in env (mm_waits s) = [ok_answer create]" "mm_waits s' = Suc (mm_waits s) \<Longrightarrow> all_answered env create n s'"
proof -
  show "pe_in env (mm_waits s) = [ok_answer create]" using assms unfolding all_answered_def by (metis add_0_right zero_less_Suc)
  show "all_answered env create n s'" if "mm_waits s' = Suc (mm_waits s)"
    unfolding all_answered_def that using assms unfolding all_answered_def by (metis Suc_mono add_Suc add_Suc_right)
qed

lemma delete_instance:
  assumes "calm_pm env c" "pm_idle s" "pm_ready (t # ts) s" "pe_in env (mm_waits s) = [ok_answer False]"
    "gem_data s = Some d" "mm_hasStore s"
  shows "\<exists>s'. delete_attempts env GemPortHistoryName i (\<lambda>c. SendCreateOrDeleteGemPortHistoryME c (pe_timeout env) True False ch i)
      False failed L2PmDeleteAttempts False s = Done (Go False s') \<and>
    gem_data s' = Some (change_pm_data CPmRemoved i d) \<and> same_lists s s' \<and> pm_ready ts s' \<and> mm_waits s' = Suc (mm_waits s) \<and>
    cc_out (mm_cc s') = cc_out (mm_cc s) @ [gem_frame c False ch i t]"
proof -
  obtain m cc where r: "pm_request env (\<lambda>c. SendCreateOrDeleteGemPortHistoryME c (pe_timeout env) True False ch i) s =
      Done (Inr m, s\<lparr>mm_cc := cc, mm_sent := mm_sent s + 1\<rparr>)" "idle cc" "fresh_ids True ts cc"
      "cc_out cc = cc_out (mm_cc s) @ [gem_frame c False ch i t]"
    using gem_request_sent [OF assms(1,3)] by blast
  let ?s = "s\<lparr>mm_cc := cc, mm_sent := mm_sent s + 1\<rparr>"
  have "pm_idle ?s" "pe_in env (mm_waits ?s) = [ok_answer False]" using assms(2,4) by (simp_all add: pm_idle_def)
  note w = wait_ok [OF assms(1) this]
  let ?t = "?s\<lparr>mm_waits := mm_waits ?s + 1\<rparr>"
  have "gem_data ?t = Some d" "mm_hasStore ?t" using assms(5,6) by (simp_all add: gem_data_def)
  from update_instance [OF this, of env i CPmRemoved] obtain s' where s':
    "updatePmData env GemPortHistoryName i CPmRemoved ?t = Done s'" "gem_data s' = Some (change_pm_data CPmRemoved i d)"
    "same_lists ?t s'" "mm_cc s' = cc" "mm_waits s' = Suc (mm_waits s)" by auto
  have "same_lists s ?t" by (simp add: same_lists_def pm_idle_def)
  with s'(3) have "same_lists s s'" by (rule same_lists_trans [rotated])
  moreover have "delete_attempts env GemPortHistoryName i (\<lambda>c. SendCreateOrDeleteGemPortHistoryME c (pe_timeout env) True False ch i)
      False failed L2PmDeleteAttempts False s = Done (Go False s')"
    using s'(1) w by (simp add: L2PmDeleteAttempts_def numeral_3_eq_3 r(1))
  ultimately show ?thesis using s' r by (simp add: pm_ready_def)
qed

lemma delete_instances:
  assumes "calm_pm env c" "pm_idle s" "pm_ready ts s" "length ts = length ids" "all_answered env False (length ids) s"
    "gem_data s = Some d" "mm_hasStore s"
  shows "\<exists>s'. delete_each env GemPortHistoryName False failed (gem_requests env ch False ids) s = Done (Go False s') \<and>
    gem_data s' = Some (fold (change_pm_data CPmRemoved) ids d) \<and> same_lists s s' \<and>
    cc_out (mm_cc s') = cc_out (mm_cc s) @ map2 (gem_frame c False ch) ids ts"
  using assms(2-7)
proof (induction ids arbitrary: s ts d)
  case Nil
  then show ?case by (simp add: delete_each_def gem_requests_def same_lists_def)
next
  case (Cons i js)
  obtain t ts' where ts: "ts = t # ts'" using Cons.prems(3) by (cases ts) auto
  have a: "all_answered env False (Suc (length js)) s" using Cons.prems(4) by simp
  obtain s1 where s1: "delete_attempts env GemPortHistoryName i (\<lambda>c. SendCreateOrDeleteGemPortHistoryME c (pe_timeout env) True False ch i)
      False failed L2PmDeleteAttempts False s = Done (Go False s1)" "gem_data s1 = Some (change_pm_data CPmRemoved i d)" "same_lists s s1"
      "pm_ready ts' s1" "mm_waits s1 = Suc (mm_waits s)" "cc_out (mm_cc s1) = cc_out (mm_cc s) @ [gem_frame c False ch i t]"
    using delete_instance [OF assms(1) Cons.prems(1,2) [unfolded ts] all_answered_Suc(1) [OF a] Cons.prems(5,6)] by blast
  have "pm_idle s1" "mm_hasStore s1" "length ts' = length js" using s1(3) Cons.prems(1,3,6) by (simp_all add: same_lists_def ts)
  from Cons.IH [OF this(1) s1(4) this(3) all_answered_Suc(2) [OF a s1(5)] s1(2) this(2)] obtain s' where s':
    "delete_each env GemPortHistoryName False failed (gem_requests env ch False js) s1 = Done (Go False s')"
    "gem_data s' = Some (fold (change_pm_data CPmRemoved) js (change_pm_data CPmRemoved i d))" "same_lists s1 s'"
    "cc_out (mm_cc s') = cc_out (mm_cc s1) @ map2 (gem_frame c False ch) js ts'" by blast
  have "delete_each env GemPortHistoryName False failed (gem_requests env ch False (i # js)) s = Done (Go False s')"
    using s1(1) s'(1) by (simp add: delete_each_def gem_requests_def)
  then show ?case using s'(2,4) s1(6) same_lists_trans [OF s1(3) s'(3)] by (simp add: ts)
qed

lemma removed_all:
  assumes "distinct (InstancesActive d)" "distinct (InstancesToAdd d)" "distinct (InstancesToDelete d)"
  shows "set (InstancesActive (fold (change_pm_data CPmRemoved) ids d)) = set (InstancesActive d) - set ids"
    "set (InstancesToAdd (fold (change_pm_data CPmRemoved) ids d)) = set (InstancesToAdd d) - set ids"
    "set (InstancesToDelete (fold (change_pm_data CPmRemoved) ids d)) = set (InstancesToDelete d) - set ids"
  using assms by (induction ids arbitrary: d) (auto simp: change_pm_data_def)

subsection \<open>The machine\<close>

interpretation l2pm_table: fsm_table l2pm_events L2PmStNull
    "[L2PmStNull, L2PmStStarting, L2PmStSyncTime, L2PmStIdle, L2PmStCreatePmMe, L2PmStDeletePmMe, L2PmStCollectData]"
    "\<lambda>_. [L2PmEventStop]" L2PmStNull
proof
  show "fsm_det l2pm_events" by code_simp
  show "fsm_states_ok [L2PmStNull, L2PmStStarting, L2PmStSyncTime, L2PmStIdle, L2PmStCreatePmMe, L2PmStDeletePmMe, L2PmStCollectData]
      l2pm_events" by code_simp
  fix s assume "s \<in> set [L2PmStNull, L2PmStStarting, L2PmStSyncTime, L2PmStIdle, L2PmStCreatePmMe, L2PmStDeletePmMe, L2PmStCollectData]"
  show "foldl (\<lambda>o1 ev. Option.bind o1 (fsm_transition l2pm_events ev)) (Some s) [L2PmEventStop] = Some L2PmStNull"
    by (cases s; simp add: fsm_transition_def fsm_matches_def l2pm_events_def)
qed simp

lemma l2pm_transitions [simp]:
  "fsm_transition l2pm_events L2PmEventInit st = (if st = L2PmStNull then Some L2PmStStarting else None)"
  "fsm_transition l2pm_events L2PmEventTick st =
     (if st = L2PmStStarting then Some L2PmStSyncTime
      else if st \<in> {L2PmStIdle, L2PmStCreatePmMe, L2PmStDeletePmMe} then Some L2PmStCollectData else None)"
  "fsm_transition l2pm_events L2PmEventSuccess st =
     (if st \<in> {L2PmStSyncTime, L2PmStCreatePmMe, L2PmStDeletePmMe, L2PmStCollectData} then Some L2PmStIdle else None)"
  "fsm_transition l2pm_events L2PmEventFailure st =
     (if st \<in> {L2PmStCreatePmMe, L2PmStDeletePmMe, L2PmStCollectData} then Some L2PmStIdle
      else if st = L2PmStSyncTime then Some L2PmStSyncTime else None)"
  "fsm_transition l2pm_events L2PmEventAddMe st = (if st = L2PmStIdle then Some L2PmStCreatePmMe else None)"
  "fsm_transition l2pm_events L2PmEventDeleteMe st = (if st = L2PmStIdle then Some L2PmStDeletePmMe else None)"
  "fsm_transition l2pm_events L2PmEventStop st = Some L2PmStNull"
  by (cases st; simp add: fsm_transition_def fsm_matches_def l2pm_events_def)+

text \<open>An event that enters a state other than the present one.\<close>

lemma l2pm_event_to:
  assumes "fsm_transition l2pm_events ev (mm_fsm s) = Some st" "st \<noteq> mm_fsm s"
  shows "l2pm_event env ev s = l2pm_enter env ev st (s\<lparr>mm_fsm := st\<rparr>)"
proof -
  have "bind_run (bind_run r (\<lambda>x. Done (None, x))) (\<lambda>(e, x). Done x) = r" for r :: "OnuMetricsManager run" by (cases r) simp_all
  then show ?thesis using assms by (simp add: l2pm_event_def fsm_event_def)
qed

text \<open>The first goroutine is one that raises an event.\<close>

lemma run_first_event:
  assumes "mm_tasks s = [PmEvent checked ev]" "\<not> mm_cleaned s"
  shows "run_nth_task env 0 s = l2pm_event env ev (s\<lparr>mm_tasks := []\<rparr>)"
  using assms by (simp add: run_nth_task_def run_pm_task_def run_pm_event_def)

lemma success_idle:
  assumes "mm_fsm s = L2PmStDeletePmMe \<or> mm_fsm s = L2PmStCreatePmMe" "l2PmToDelete s = []" "l2PmToAdd s = []"
  shows "l2pm_event env L2PmEventSuccess s = Done (s\<lparr>mm_fsm := L2PmStIdle\<rparr>)"
  using assms by (subst l2pm_event_to [where st = L2PmStIdle]) (auto simp: l2pm_enter_def l2PMFsmIdle_def)

subsection \<open>Removing a GEM port\<close>

lemma gem_names: "GemPortHistoryName \<noteq> EthernetBridgeHistoryName" "GemPortHistoryName \<noteq> EthernetUniHistoryName"
  "GemPortHistoryName \<noteq> FecHistoryName"
  by (simp_all add: pm_name_defs)

text \<open>The manager at rest: no goroutine, nothing to add or delete.\<close>

definition pm_resting :: "OnuMetricsManager \<Rightarrow> bool" where
  "pm_resting s \<longleftrightarrow> pm_idle s \<and> mm_fsm s = L2PmStIdle \<and> mm_tasks s = [] \<and> l2PmToDelete s = [] \<and> l2PmToAdd s = [] \<and>
     mm_hasStore s \<and> \<not> mm_cleaned s"

lemma delete_gem_group:
  assumes "calm_pm env c" "pm_idle s" "pm_ready ts s" "length ts = length (InstancesActive d)"
    "all_answered env False (length (InstancesActive d)) s" "gem_data s = Some d" "mm_hasStore s" "InstancesActive d \<noteq> []"
    "distinct (InstancesActive d)" "distinct (InstancesToAdd d)" "distinct (InstancesToDelete d)"
    "set (InstancesToDelete d) \<subseteq> set (InstancesActive d)" "l2PmToDelete s = [GemPortHistoryName]"
  shows "\<exists>s' d'. l2PmFsmDeletePM env s = Done s' \<and> gem_data s' = Some d' \<and> InstancesActive d' = [] \<and> InstancesToDelete d' = [] \<and>
    activeL2Pms s' = removeIfFound (activeL2Pms s) GemPortHistoryName \<and> l2PmToDelete s' = [] \<and> l2PmToAdd s' = l2PmToAdd s \<and>
    mm_tasks s' = mm_tasks s @ [PmEvent False L2PmEventSuccess] \<and> mm_fsm s' = mm_fsm s \<and> pm_idle s' \<and>
    mm_hasStore s' \<and> mm_cleaned s' = mm_cleaned s \<and>
    cc_out (mm_cc s') = cc_out (mm_cc s) @ map2 (gem_frame c False (mm_CommChan s)) (InstancesActive d) ts"
proof -
  let ?ids = "InstancesActive d" and ?n = GemPortHistoryName
  obtain s1 where s1: "delete_each env ?n False fail_sync (gem_requests env (mm_CommChan s) False ?ids) s = Done (Go False s1)"
      "gem_data s1 = Some (fold (change_pm_data CPmRemoved) ?ids d)" "same_lists s s1"
      "cc_out (mm_cc s1) = cc_out (mm_cc s) @ map2 (gem_frame c False (mm_CommChan s)) ?ids ts"
    using delete_instances [OF assms(1-7)] by blast
  define d' where "d' = fold (change_pm_data CPmRemoved) ?ids d"
  have d': "InstancesActive d' = []" "InstancesToDelete d' = []"
  proof -
    have "set (InstancesActive d') = {}" "set (InstancesToDelete d') = {}"
      using assms(12) unfolding d'_def removed_all(1,3) [OF assms(9-11)] by (simp_all only: Diff_cancel Diff_eq_empty_iff)
    then show "InstancesActive d' = []" "InstancesToDelete d' = []" by simp_all
  qed
  define s2 where "s2 = s1\<lparr>activeL2Pms := removeIfFound (activeL2Pms s1) ?n, l2PmToDelete := []\<rparr>"
  have g: "group_deleted ?n False s1 = Done s2"
  proof -
    have "gem_data (s1\<lparr>activeL2Pms := removeIfFound (activeL2Pms s1) ?n\<rparr>) = Some d'" using s1(2) by (simp add: gem_data_def d'_def)
    moreover have "l2PmToDelete s1 = [?n]" using s1(3) assms(13) by (simp add: same_lists_def)
    ultimately show ?thesis by (simp add: group_deleted_def Let_def pm_data_gem d' s2_def removeIfFound_def)
  qed
  have "delete_entities env ?n ?ids s = Done (Go False s1)"
    using s1(1) gem_names by (simp add: delete_entities_def Let_def)
  then have "l2PmFsmDeletePM env s = Done (mm_go (PmEvent False L2PmEventSuccess) s2)"
    using assms(2,6,8,13) g by (simp add: l2PmFsmDeletePM_def pm_idle_def pm_data_gem pm_finish_def)
  moreover have "gem_data (mm_go (PmEvent False L2PmEventSuccess) s2) = Some d'" using s1(2) by (simp add: s2_def gem_data_def d'_def)
  ultimately show ?thesis using s1(3,4) d' assms(2,7) by (auto simp: same_lists_def pm_idle_def s2_def)
qed

text \<open>C23: Removing one monitored GEM port ends the monitoring of all: with ports being monitored and every request
  answered, the removal of one of them makes the machine delete the counters of each active port, take the group off
  the list of what is collected and come to rest, without any port being added again.\<close>

theorem removal_stops_all_gem_ports:
  assumes "calm_pm env c" "pm_resting s" "pm_ready ts s" "length ts = length (InstancesActive d)"
    "all_answered env False (length (InstancesActive d)) s" "gem_data s = Some d" "i \<in> set (InstancesActive d)"
    "distinct (InstancesActive d)" "distinct (InstancesToAdd d)" "InstancesToDelete d = []" "distinct (activeL2Pms s)"
    "DeleteMe gem_class i (mm_db s, mm_cmn s) = Done x"
  shows "\<exists>s1 s2 s3 d'. RemoveGemPortForPerfMonitoring i s = Done s1 \<and> run_nth_task env 0 s1 = Done s2 \<and>
    run_nth_task env 0 s2 = Done s3 \<and> pm_resting s3 \<and> gem_data s3 = Some d' \<and> InstancesActive d' = [] \<and>
    GemPortHistoryName \<notin> set (activeL2Pms s3) \<and>
    cc_out (mm_cc s3) = cc_out (mm_cc s) @ map2 (gem_frame c False (mm_CommChan s)) (InstancesActive d) ts"
proof -
  let ?n = GemPortHistoryName and ?d = "note_to_delete i d"
  have r: "pm_idle s" "mm_fsm s = L2PmStIdle" "mm_tasks s = []" "l2PmToDelete s = []" "l2PmToAdd s = []" "mm_hasStore s" "\<not> mm_cleaned s"
    using assms(2) by (simp_all add: pm_resting_def)
  have d: "InstancesActive ?d = InstancesActive d" "InstancesToDelete ?d = [i]" "distinct (InstancesToAdd ?d)"
    using assms(9,10) by (simp_all add: note_to_delete_def appendIfMissing_def)
  obtain db h where x: "x = (db, h)" by (cases x)
  define s0 where "s0 = mm_go (PmEvent False L2PmEventDeleteMe) ((set_pm_data ?n ?d s)\<lparr>l2PmToDelete := [?n]\<rparr>)"
  define s1 where "s1 = s0\<lparr>mm_db := db, mm_cmn := h\<rparr>"
  have "DeleteMe (class_id Me_GemPortNetworkCtpPerformanceMonitoringHistoryData) i (mm_db s0, mm_cmn s0) = Done (db, h)"
    using assms(12) x by (simp only: gem_class_def s0_def) (simp add: set_pm_data_def group_update_def)
  then have s1: "RemoveGemPortForPerfMonitoring i s = Done s1"
    using r(4) by (simp add: RemoveGemPortForPerfMonitoring_def pm_data_gem [OF assms(6)] Let_def s0_def s1_def appendIfMissing_def
      set_pm_data_def group_update_def)
  let ?u = "s1\<lparr>mm_tasks := [], mm_fsm := L2PmStDeletePmMe\<rparr>"
  have e1: "run_nth_task env 0 s1 = l2PmFsmDeletePM env ?u"
    using r by (subst run_first_event) (auto simp: s1_def s0_def set_pm_data_def group_update_def l2pm_event_to l2pm_enter_def)
  have g: "gem_data s1 = Some ?d" using gem_data_update [of s ?d] assms(6) by (simp add: s1_def s0_def gem_data_def)
  have u: "pm_idle ?u" "pm_ready ts ?u" "length ts = length (InstancesActive ?d)" "all_answered env False (length (InstancesActive ?d)) ?u"
    "gem_data ?u = Some ?d" "mm_hasStore ?u" "InstancesActive ?d \<noteq> []" "distinct (InstancesActive ?d)" "distinct (InstancesToDelete ?d)"
    "set (InstancesToDelete ?d) \<subseteq> set (InstancesActive ?d)" "l2PmToDelete ?u = [?n]"
    using r assms(3-5,7,8) d g
    by (auto simp: s1_def s0_def pm_idle_def pm_ready_def all_answered_def set_pm_data_def group_update_def gem_data_def)
  obtain s2 d' where s2: "l2PmFsmDeletePM env ?u = Done s2" "gem_data s2 = Some d'" "InstancesActive d' = []"
    "activeL2Pms s2 = removeIfFound (activeL2Pms s) ?n" "l2PmToDelete s2 = []" "l2PmToAdd s2 = []"
    "mm_tasks s2 = [PmEvent False L2PmEventSuccess]" "mm_fsm s2 = L2PmStDeletePmMe" "pm_idle s2" "mm_hasStore s2" "\<not> mm_cleaned s2"
    "cc_out (mm_cc s2) = cc_out (mm_cc s) @ map2 (gem_frame c False (mm_CommChan s)) (InstancesActive d) ts"
    using delete_gem_group [OF assms(1) u(1-8) d(3) u(9-11)] r by (auto simp: s1_def s0_def set_pm_data_def group_update_def d)
  let ?s3 = "s2\<lparr>mm_tasks := [], mm_fsm := L2PmStIdle\<rparr>"
  have "run_nth_task env 0 s2 = Done ?s3"
    using s2(5-8,11) by (simp add: run_first_event success_idle)
  moreover have "pm_resting ?s3" "gem_data ?s3 = Some d'" "?n \<notin> set (activeL2Pms ?s3)"
    using s2 assms(11) by (simp_all add: pm_resting_def pm_idle_def gem_data_def)
  ultimately show ?thesis using s1 e1 s2(1,3,12) by (intro exI [of _ s1] exI [of _ s2] exI [of _ ?s3] exI [of _ d']) simp
qed

subsection \<open>Adding GEM ports\<close>

definition added_data :: "u16 \<Rightarrow> pmMEData \<Rightarrow> pmMEData" where
  "added_data i d = change_pm_data CPmAdded i (change_pm_data CPmAdd i d)"

lemma create_instance:
  assumes "calm_pm env c" "pm_idle s" "pm_ready (t # ts) s" "pe_in env (mm_waits s) = [ok_answer True]"
    "gem_data s = Some d" "mm_hasStore s"
  shows "\<exists>s'. create_once env GemPortHistoryName failed
      (i, \<lambda>c. SendCreateOrDeleteGemPortHistoryME c (pe_timeout env) True True ch i) s = Done (Go True s') \<and>
    gem_data s' = Some (added_data i d) \<and> same_lists s s' \<and> pm_ready ts s' \<and> mm_waits s' = Suc (mm_waits s) \<and>
    cc_out (mm_cc s') = cc_out (mm_cc s) @ [gem_frame c True ch i t]"
proof -
  obtain m cc where r: "pm_request env (\<lambda>c. SendCreateOrDeleteGemPortHistoryME c (pe_timeout env) True True ch i) s =
      Done (Inr m, s\<lparr>mm_cc := cc, mm_sent := mm_sent s + 1\<rparr>)" "idle cc" "fresh_ids True ts cc"
      "cc_out cc = cc_out (mm_cc s) @ [gem_frame c True ch i t]"
    using gem_request_sent [OF assms(1,3)] by blast
  let ?s = "s\<lparr>mm_cc := cc, mm_sent := mm_sent s + 1\<rparr>"
  have "gem_data ?s = Some d" "mm_hasStore ?s" using assms(5,6) by (simp_all add: gem_data_def)
  from update_instance [OF this, of env i CPmAdd] obtain s1 where s1:
    "updatePmData env GemPortHistoryName i CPmAdd ?s = Done s1" "gem_data s1 = Some (change_pm_data CPmAdd i d)"
    "same_lists ?s s1" "mm_cc s1 = cc" "mm_waits s1 = mm_waits s" by auto
  have s: "same_lists s ?s" "pm_idle s1" "mm_hasStore s1"
    using s1(3) assms(2,6) by (simp_all add: same_lists_def pm_idle_def)
  have w: "waitForResponseOrTimeout env s1 = (True, s1\<lparr>mm_waits := mm_waits s1 + 1\<rparr>)"
    using wait_ok [OF assms(1) s(2)] assms(4) s1(5) by simp
  let ?t = "s1\<lparr>mm_waits := mm_waits s1 + 1\<rparr>"
  have "gem_data ?t = Some (change_pm_data CPmAdd i d)" "mm_hasStore ?t" using s1(2) s(3) by (simp_all add: gem_data_def)
  from update_instance [OF this, of env i CPmAdded] obtain s' where s':
    "updatePmData env GemPortHistoryName i CPmAdded ?t = Done s'" "gem_data s' = Some (added_data i d)"
    "same_lists ?t s'" "mm_cc s' = cc" "mm_waits s' = Suc (mm_waits s)" using s1(4,5) by (auto simp: added_data_def)
  have "same_lists s1 ?t" by (simp add: same_lists_def pm_idle_def)
  then have "same_lists s s'" using same_lists_trans [OF s(1) s1(3)] s'(3) by (blast intro: same_lists_trans)
  moreover have "create_once env GemPortHistoryName failed
      (i, \<lambda>c. SendCreateOrDeleteGemPortHistoryME c (pe_timeout env) True True ch i) s = Done (Go True s')"
    using s'(1) w s1(1) by (simp add: create_once_def L2PmCreateAttempts_def numeral_3_eq_3 r(1))
  ultimately show ?thesis using s' r by (simp add: pm_ready_def)
qed

lemma create_instances:
  assumes "calm_pm env c" "pm_idle s" "pm_ready ts s" "length ts = length ids" "all_answered env True (length ids) s"
    "gem_data s = Some d" "mm_hasStore s"
  shows "\<exists>s'. each_entity (create_once env GemPortHistoryName failed) (gem_requests env ch True ids) b s = Done (Go (b \<or> ids \<noteq> []) s') \<and>
    gem_data s' = Some (fold added_data ids d) \<and> same_lists s s' \<and>
    cc_out (mm_cc s') = cc_out (mm_cc s) @ map2 (gem_frame c True ch) ids ts"
  using assms(2-7)
proof (induction ids arbitrary: s ts d b)
  case Nil
  then show ?case by (simp add: gem_requests_def same_lists_def)
next
  case (Cons i js)
  obtain t ts' where ts: "ts = t # ts'" using Cons.prems(3) by (cases ts) auto
  have a: "all_answered env True (Suc (length js)) s" using Cons.prems(4) by simp
  obtain s1 where s1: "create_once env GemPortHistoryName failed
      (i, \<lambda>c. SendCreateOrDeleteGemPortHistoryME c (pe_timeout env) True True ch i) s = Done (Go True s1)"
      "gem_data s1 = Some (added_data i d)" "same_lists s s1"
      "pm_ready ts' s1" "mm_waits s1 = Suc (mm_waits s)" "cc_out (mm_cc s1) = cc_out (mm_cc s) @ [gem_frame c True ch i t]"
    using create_instance [OF assms(1) Cons.prems(1,2) [unfolded ts] all_answered_Suc(1) [OF a] Cons.prems(5,6)] by blast
  have "pm_idle s1" "mm_hasStore s1" "length ts' = length js" using s1(3) Cons.prems(1,3,6) by (simp_all add: same_lists_def ts)
  from Cons.IH [OF this(1) s1(4) this(3) all_answered_Suc(2) [OF a s1(5)] s1(2) this(2), of "b \<or> True"] obtain s' where s':
    "each_entity (create_once env GemPortHistoryName failed) (gem_requests env ch True js) True s1 = Done (Go True s')"
    "gem_data s' = Some (fold added_data js (added_data i d))" "same_lists s1 s'"
    "cc_out (mm_cc s') = cc_out (mm_cc s1) @ map2 (gem_frame c True ch) js ts'" by auto
  have "each_entity (create_once env GemPortHistoryName failed) (gem_requests env ch True (i # js)) b s = Done (Go True s')"
    using s1(1) s'(1) by (simp add: gem_requests_def)
  then show ?case using s'(2,4) s1(6) same_lists_trans [OF s1(3) s'(3)] by (simp add: ts)
qed

lemma added_all:
  assumes "distinct (InstancesActive d)" "distinct (InstancesToAdd d)" "distinct (InstancesToDelete d)"
  shows "set (InstancesActive (fold added_data ids d)) = set (InstancesActive d) \<union> set ids"
    "set (InstancesToAdd (fold added_data ids d)) = set (InstancesToAdd d) - set ids"
    "distinct (InstancesActive (fold added_data ids d))"
  using assms by (induction ids arbitrary: d) (auto simp: added_data_def change_pm_data_def)

lemma create_gem_group:
  assumes "calm_pm env c" "pm_idle s" "pm_ready ts s" "length ts = length (InstancesToAdd d)"
    "all_answered env True (length (InstancesToAdd d)) s" "gem_data s = Some d" "mm_hasStore s" "InstancesToAdd d \<noteq> []"
    "distinct (InstancesActive d)" "distinct (InstancesToAdd d)" "distinct (InstancesToDelete d)" "l2PmToAdd s = [GemPortHistoryName]"
  shows "\<exists>s' d'. l2PmFsmCreatePM env s = Done s' \<and> gem_data s' = Some d' \<and> InstancesToAdd d' = [] \<and> distinct (InstancesActive d') \<and>
    set (InstancesActive d') = set (InstancesActive d) \<union> set (InstancesToAdd d) \<and>
    activeL2Pms s' = appendIfMissing (activeL2Pms s) GemPortHistoryName \<and> l2PmToDelete s' = l2PmToDelete s \<and> l2PmToAdd s' = [] \<and>
    mm_tasks s' = mm_tasks s @ [PmEvent False L2PmEventSuccess] \<and> mm_fsm s' = mm_fsm s \<and> pm_idle s' \<and>
    mm_hasStore s' \<and> mm_cleaned s' = mm_cleaned s \<and>
    cc_out (mm_cc s') = cc_out (mm_cc s) @ map2 (gem_frame c True (mm_CommChan s)) (InstancesToAdd d) ts"
proof -
  let ?ids = "InstancesToAdd d" and ?n = GemPortHistoryName
  obtain s1 where s1: "each_entity (create_once env ?n fail_sync) (gem_requests env (mm_CommChan s) True ?ids) False s = Done (Go True s1)"
      "gem_data s1 = Some (fold added_data ?ids d)" "same_lists s s1"
      "cc_out (mm_cc s1) = cc_out (mm_cc s) @ map2 (gem_frame c True (mm_CommChan s)) ?ids ts"
    using create_instances [OF assms(1-7), of fail_sync "mm_CommChan s" False] assms(8) by auto
  define d' where "d' = fold added_data ?ids d"
  have d': "InstancesToAdd d' = []" "distinct (InstancesActive d')" "set (InstancesActive d') = set (InstancesActive d) \<union> set ?ids"
  proof -
    have "set (InstancesToAdd d') = {}" unfolding d'_def added_all(2) [OF assms(9-11)] by (rule Diff_cancel)
    then show "InstancesToAdd d' = []" by simp
    show "distinct (InstancesActive d')" "set (InstancesActive d') = set (InstancesActive d) \<union> set ?ids"
      unfolding d'_def using added_all(1,3) [OF assms(9-11), of ?ids] by simp_all
  qed
  define s2 where "s2 = s1\<lparr>activeL2Pms := appendIfMissing (activeL2Pms s1) ?n, l2PmToAdd := []\<rparr>"
  have g: "group_created ?n True s1 = Done s2"
  proof -
    have "gem_data (s1\<lparr>activeL2Pms := appendIfMissing (activeL2Pms s1) ?n\<rparr>) = Some d'" using s1(2) by (simp add: gem_data_def d'_def)
    moreover have "l2PmToAdd s1 = [?n]" using s1(3) assms(12) by (simp add: same_lists_def)
    ultimately show ?thesis by (simp add: group_created_def Let_def pm_data_gem d' s2_def removeIfFound_def)
  qed
  have "create_group env ?n s = Done (True, Go True s1)"
    using s1(1) gem_names assms(6,8) by (simp add: create_group_def Let_def pm_data_gem)
  then have "l2PmFsmCreatePM env s = Done (mm_go (PmEvent False L2PmEventSuccess) s2)"
    using assms(2,12) g by (simp add: l2PmFsmCreatePM_def pm_idle_def pm_finish_def)
  moreover have "gem_data (mm_go (PmEvent False L2PmEventSuccess) s2) = Some d'" using s1(2) by (simp add: s2_def gem_data_def d'_def)
  ultimately show ?thesis using s1(3,4) d' assms(2,7) by (auto simp: same_lists_def pm_idle_def s2_def)
qed

text \<open>C22: Adding a GEM port to a manager at rest, with every request answered: the machine creates the counters of the port
  and of every port that still waits for them, one request each; all of them are active then, none waits, the group is
  among those that are collected, and the manager is at rest again.\<close>

theorem gem_port_monitored:
  assumes "calm_pm env c" "pm_resting s" "gem_data s = Some d" "ids = InstancesToAdd (note_to_add i d)" "pm_ready ts s"
    "length ts = length ids" "all_answered env True (length ids) s"
    "distinct (InstancesActive d)" "distinct (InstancesToAdd d)" "distinct (InstancesToDelete d)"
    "PutOnuSpeficMe gem_class i None (mm_db s) = Done db"
  shows "\<exists>s1 s2 s3 d'. AddGemPortForPerfMonitoring i s = Done s1 \<and> run_nth_task env 0 s1 = Done s2 \<and>
    run_nth_task env 0 s2 = Done s3 \<and> pm_resting s3 \<and> gem_data s3 = Some d' \<and>
    set (InstancesActive d') = insert i (set (InstancesActive d) \<union> set (InstancesToAdd d)) \<and> distinct (InstancesActive d') \<and>
    InstancesToAdd d' = [] \<and> GemPortHistoryName \<in> set (activeL2Pms s3) \<and>
    cc_out (mm_cc s3) = cc_out (mm_cc s) @ map2 (gem_frame c True (mm_CommChan s)) ids ts"
proof -
  let ?n = GemPortHistoryName and ?d = "note_to_add i d"
  have r: "pm_idle s" "mm_fsm s = L2PmStIdle" "mm_tasks s = []" "l2PmToDelete s = []" "l2PmToAdd s = []" "mm_hasStore s" "\<not> mm_cleaned s"
    using assms(2) by (simp_all add: pm_resting_def)
  have d: "InstancesActive ?d = InstancesActive d" "set ids = insert i (set (InstancesToAdd d))" "ids \<noteq> []"
    "distinct (InstancesToAdd ?d)" "distinct (InstancesToDelete ?d)"
    using assms(4,9,10) by (auto simp: note_to_add_def appendIfMissing_def)
  define s0 where "s0 = mm_go (PmEvent False L2PmEventAddMe) ((set_pm_data ?n ?d s)\<lparr>l2PmToAdd := [?n]\<rparr>)"
  define s1 where "s1 = s0\<lparr>mm_db := db\<rparr>"
  have "PutOnuSpeficMe (class_id Me_GemPortNetworkCtpPerformanceMonitoringHistoryData) i None (mm_db s0) = Done db"
    using assms(11) by (simp only: gem_class_def s0_def) (simp add: set_pm_data_def group_update_def)
  then have s1: "AddGemPortForPerfMonitoring i s = Done s1"
    using r(5) by (simp add: AddGemPortForPerfMonitoring_def pm_data_gem [OF assms(3)] Let_def s0_def s1_def appendIfMissing_def
      set_pm_data_def group_update_def)
  let ?u = "s1\<lparr>mm_tasks := [], mm_fsm := L2PmStCreatePmMe\<rparr>"
  have e1: "run_nth_task env 0 s1 = l2PmFsmCreatePM env ?u"
    using r by (subst run_first_event) (auto simp: s1_def s0_def set_pm_data_def group_update_def l2pm_event_to l2pm_enter_def)
  have g: "gem_data s1 = Some ?d" using gem_data_update [of s ?d] assms(3) by (simp add: s1_def s0_def gem_data_def)
  have u: "pm_idle ?u" "pm_ready ts ?u" "length ts = length (InstancesToAdd ?d)" "all_answered env True (length (InstancesToAdd ?d)) ?u"
    "gem_data ?u = Some ?d" "mm_hasStore ?u" "InstancesToAdd ?d \<noteq> []" "distinct (InstancesActive ?d)" "l2PmToAdd ?u = [?n]"
    using r assms(4-8) d g
    by (auto simp: s1_def s0_def pm_idle_def pm_ready_def all_answered_def set_pm_data_def group_update_def gem_data_def)
  obtain s2 d' where s2: "l2PmFsmCreatePM env ?u = Done s2" "gem_data s2 = Some d'" "InstancesToAdd d' = []" "distinct (InstancesActive d')"
    "set (InstancesActive d') = set (InstancesActive d) \<union> set ids"
    "activeL2Pms s2 = appendIfMissing (activeL2Pms s) ?n" "l2PmToDelete s2 = []" "l2PmToAdd s2 = []"
    "mm_tasks s2 = [PmEvent False L2PmEventSuccess]" "mm_fsm s2 = L2PmStCreatePmMe" "pm_idle s2" "mm_hasStore s2" "\<not> mm_cleaned s2"
    "cc_out (mm_cc s2) = cc_out (mm_cc s) @ map2 (gem_frame c True (mm_CommChan s)) ids ts"
    using create_gem_group [OF assms(1) u(1-8) d(4,5) u(9)] r
    by (auto simp: s1_def s0_def set_pm_data_def group_update_def d(1) assms(4))
  let ?s3 = "s2\<lparr>mm_tasks := [], mm_fsm := L2PmStIdle\<rparr>"
  have "run_nth_task env 0 s2 = Done ?s3" using s2(7-10,13) by (simp add: run_first_event success_idle)
  moreover have "pm_resting ?s3" "gem_data ?s3 = Some d'" "?n \<in> set (activeL2Pms ?s3)"
    using s2 by (simp_all add: pm_resting_def pm_idle_def gem_data_def)
  moreover have "set (InstancesActive d') = insert i (set (InstancesActive d) \<union> set (InstancesToAdd d))" using s2(5) d(2) by auto
  ultimately show ?thesis using s1 e1 s2(1,3,4,14) by (intro exI [of _ s1] exI [of _ s2] exI [of _ ?s3] exI [of _ d']) simp
qed

subsection \<open>A response after its wait\<close>

text \<open>The loop over the messages holds a message for channel \<open>ch\<close>.\<close>

definition pm_blocked :: "pm_message \<Rightarrow> pm_chan \<Rightarrow> pm_value \<Rightarrow> OnuMetricsManager \<Rightarrow> bool" where
  "pm_blocked m ch v s \<longleftrightarrow> omciProcessingActive s \<and> (\<exists>ms. mm_queue s = m # ms) \<and> mm_syncBuffer s = None \<and>
     pm_handleOmciMessage m = Some (ch, v) \<and> ch \<noteq> ChSyncTime"

lemma blocked_drain: "pm_handleOmciMessage m = Some (ch, v) \<Longrightarrow> ch \<noteq> ChSyncTime \<Longrightarrow> pm_drain (m # ms) b = (m # ms, b)"
  by (cases ch; cases v) auto

lemma blocked_process:
  assumes "pm_blocked m ch v s"
  shows "pm_blocked m ch v (pm_process ms s)"
proof -
  obtain qs where "mm_queue s = m # qs" "omciProcessingActive s" "mm_syncBuffer s = None" using assms unfolding pm_blocked_def by blast
  moreover have h: "pm_handleOmciMessage m = Some (ch, v)" "ch \<noteq> ChSyncTime" using assms by (simp_all add: pm_blocked_def)
  ultimately show ?thesis using blocked_drain [OF h, of "qs @ ms" None] by (simp add: pm_process_def pm_blocked_def)
qed

lemma blocked_wait:
  assumes "pm_blocked m ch v s" "ch' \<noteq> ch"
  shows "\<exists>s'. pm_wait env ch' s = (None, s') \<and> pm_blocked m ch v s'"
proof -
  let ?s = "pm_process (pe_in env (mm_waits s)) s"
  have b: "pm_blocked m ch v ?s" using assms(1) by (rule blocked_process)
  then have "pm_take ch' ?s = (None, ?s)" using assms(2) by (auto simp: pm_take_def pm_blocked_def)
  then show ?thesis using blocked_process [OF b, of "pe_late env (mm_waits s)"] by (auto simp: pm_wait_def Let_def pm_blocked_def)
qed

lemma blocked_read: "pm_blocked m ch v s \<Longrightarrow> fst (pm_wait env ch s) = Some v"
  using blocked_process [of m ch v s "pe_in env (mm_waits s)"]
  by (auto simp: pm_wait_def Let_def pm_take_def pm_blocked_def split: prod.splits)

fun run_waits :: "(pm_env \<times> pm_chan) list \<Rightarrow> OnuMetricsManager \<Rightarrow> pm_value option list \<times> OnuMetricsManager" where
  "run_waits [] s = ([], s)"
| "run_waits ((env, ch) # ws) s =
     (let (v, s) = pm_wait env ch s; (vs, s) = run_waits ws s in (v # vs, s))"

lemma blocked_waits:
  assumes "pm_blocked m ch v s" "\<forall>(env, ch') \<in> set ws. ch' \<noteq> ch"
  shows "\<exists>s'. run_waits ws s = (replicate (length ws) None, s') \<and> pm_blocked m ch v s'"
  using assms
proof (induction ws arbitrary: s)
  case Nil
  then show ?case by simp
next
  case (Cons w ws)
  obtain env ch' where w: "w = (env, ch')" by (cases w)
  have "ch' \<noteq> ch" using Cons.prems(2) w by simp
  then obtain s1 where "pm_wait env ch' s = (None, s1)" "pm_blocked m ch v s1" using blocked_wait [OF Cons.prems(1)] by blast
  moreover have "\<forall>(env, ch') \<in> set ws. ch' \<noteq> ch" using Cons.prems(2) by simp
  ultimately show ?case using Cons.IH [of s1] w by auto
qed

text \<open>C24: A response to a creation or deletion that comes after its wait has ended stops the metrics of the ONU: whatever
  the ONU sends and however long the machine waits, every later wait for another response fails, and the collector
  cannot be stopped; the next creation or deletion, of any entity, takes the late response for its own, before its
  request can have been answered.\<close>

theorem late_response_blocks:
  assumes "omciProcessingActive s" "mm_queue s = []" "mm_syncBuffer s = None"
    "pe_in env (mm_waits s) = []" "pe_late env (mm_waits s) = [m]" "pm_handleOmciMessage m = Some (ChCreateOrDelete, v)"
    "\<forall>(env', ch) \<in> set ws. ch \<noteq> ChCreateOrDelete"
  shows "\<exists>s1 s2. waitForResponseOrTimeout env s = (False, s1) \<and> run_waits ws s1 = (replicate (length ws) None, s2) \<and>
    stop_collector s2 = Deadlock \<and> (\<forall>env'. fst (pm_wait env' ChCreateOrDelete s2) = Some v)"
proof -
  have p: "pm_process [] s = s" using assms(1-3) by (simp add: pm_process_def)
  let ?s = "pm_process [m] s"
  have b: "pm_blocked m ChCreateOrDelete v ?s"
    using assms(1-3,6) blocked_drain [OF assms(6), of "[]" None] by (simp add: pm_process_def pm_blocked_def)
  have "pm_take ChCreateOrDelete s = (None, s)" using assms(1,2) by (simp add: pm_take_def)
  then obtain s1 where s1: "pm_wait env ChCreateOrDelete s = (None, s1)" "pm_blocked m ChCreateOrDelete v s1"
    using assms(4,5) p b by (simp add: pm_wait_def Let_def pm_blocked_def)
  obtain s2 where s2: "run_waits ws s1 = (replicate (length ws) None, s2)" "pm_blocked m ChCreateOrDelete v s2"
    using blocked_waits [OF s1(2) assms(7)] by blast
  have "stop_collector s2 = Deadlock" using s2(2) by (auto simp: stop_collector_def pm_blocked_def Let_def)
  moreover have "waitForResponseOrTimeout env s = (False, s1)" using s1(1) assms(1) by (simp add: waitForResponseOrTimeout_def)
  ultimately show ?thesis using s2 blocked_read [OF s2(2)] by blast
qed

subsection \<open>A sample\<close>

lemma sample_pm_rests: "pm_resting (sample_pm d db h)" "gem_data (sample_pm d db h) = Some d"
  by (simp_all add: sample_pm_def pm_resting_def pm_idle_def gem_data_def sample_gem_group_def)

lemma sample_pm_ready: "pm_ready [0x8000, 0x8001] (sample_pm d db h)" "pm_ready [0x8000] (sample_pm d db h)"
proof -
  have "next_tids True 2 sample_cc = [0x8000, 0x8001]" "next_tids True 1 sample_cc = [0x8000]" by code_simp+
  then show "pm_ready [0x8000, 0x8001] (sample_pm d db h)" "pm_ready [0x8000] (sample_pm d db h)"
    using sample_cc_ok by (simp_all add: sample_pm_def pm_ready_def fresh_ids_def numeral_2_eq_2)
qed

theorem removal_stops_all_gem_ports_witness:
  "\<exists>s1 s2 s3 d'. RemoveGemPortForPerfMonitoring 1025
       (sample_pm \<lparr> InstancesActive = [1024, 1025], InstancesToDelete = [], InstancesToAdd = [] \<rparr> sample_db sample_common) = Done s1 \<and>
     run_nth_task (sample_pm_env (\<lambda>n. [ok_answer False]) (\<lambda>n. [])) 0 s1 = Done s2 \<and>
     run_nth_task (sample_pm_env (\<lambda>n. [ok_answer False]) (\<lambda>n. [])) 0 s2 = Done s3 \<and>
     pm_resting s3 \<and> gem_data s3 = Some d' \<and> InstancesActive d' = [] \<and> GemPortHistoryName \<notin> set (activeL2Pms s3)"
proof -
  let ?d = "\<lparr> InstancesActive = [1024, 1025], InstancesToDelete = [], InstancesToAdd = [] \<rparr>"
  let ?s = "sample_pm ?d sample_db sample_common" and ?e = "sample_pm_env (\<lambda>n. [ok_answer False]) (\<lambda>n. [])"
  have l: "length [0x8000, 0x8001 :: u16] = length (InstancesActive ?d)" "all_answered ?e False (length (InstancesActive ?d)) ?s"
    "1025 \<in> set (InstancesActive ?d)" "distinct (InstancesActive ?d)" "distinct (InstancesToAdd ?d)" "InstancesToDelete ?d = []"
    "distinct (activeL2Pms ?s)"
    by (simp_all add: all_answered_def sample_pm_env_def sample_pm_def)
  obtain x where "DeleteMe gem_class 1025 (mm_db ?s, mm_cmn ?s) = Done x"
    by (simp add: DeleteMe_def deref_common_def sample_pm_def sample_db_def sample_common_def Let_def)
  from removal_stops_all_gem_ports [OF sample_pm_calm sample_pm_rests(1) sample_pm_ready(1) l(1,2) sample_pm_rests(2) l(3-7) this]
  show ?thesis by blast
qed

theorem gem_port_monitored_witness:
  "\<exists>s1 s2 s3 d'. AddGemPortForPerfMonitoring 1025
       (sample_pm \<lparr> InstancesActive = [1024], InstancesToDelete = [], InstancesToAdd = [1030] \<rparr> sample_db sample_common) = Done s1 \<and>
     run_nth_task (sample_pm_env (\<lambda>n. [ok_answer True]) (\<lambda>n. [])) 0 s1 = Done s2 \<and>
     run_nth_task (sample_pm_env (\<lambda>n. [ok_answer True]) (\<lambda>n. [])) 0 s2 = Done s3 \<and>
     pm_resting s3 \<and> gem_data s3 = Some d' \<and> set (InstancesActive d') = {1024, 1025, 1030} \<and> InstancesToAdd d' = []"
proof -
  let ?d = "\<lparr> InstancesActive = [1024], InstancesToDelete = [], InstancesToAdd = [1030] \<rparr>"
  let ?s = "sample_pm ?d sample_db sample_common" and ?e = "sample_pm_env (\<lambda>n. [ok_answer True]) (\<lambda>n. [])"
  have l: "[1030, 1025] = InstancesToAdd (note_to_add 1025 ?d)" "length [0x8000, 0x8001 :: u16] = length [1030, 1025 :: u16]"
    "all_answered ?e True (length [1030, 1025 :: u16]) ?s" "distinct (InstancesActive ?d)" "distinct (InstancesToAdd ?d)"
    "distinct (InstancesToDelete ?d)"
    by (simp_all add: all_answered_def sample_pm_env_def note_to_add_def appendIfMissing_def)
  obtain db where "PutOnuSpeficMe gem_class 1025 None (mm_db ?s) = Done db"
    by (simp add: PutOnuSpeficMe_def put_specific_def sample_pm_def sample_db_def gem_class_def OnuDataClassID_def)
  from gem_port_monitored [OF sample_pm_calm sample_pm_rests l(1) sample_pm_ready(1) l(2-6) this]
  show ?thesis by (auto simp: insert_commute)
qed

theorem late_response_blocks_witness:
  "\<exists>s1 s2. waitForResponseOrTimeout (sample_pm_env (\<lambda>n. []) (\<lambda>n. if n = 0 then [ok_answer True] else []))
       (sample_pm \<lparr> InstancesActive = [], InstancesToDelete = [], InstancesToAdd = [1025] \<rparr>
         \<lparr> db_deviceID = ''onu'', CommonMeDb = None, OnuSpecificMeDb = [] \<rparr> (\<lambda>p. None)) = (False, s1) \<and>
     run_waits [(sample_pm_env (\<lambda>n. [history_answer gem_class 1024 [] []]) (\<lambda>n. []), ChL2Pm)] s1 = ([None], s2) \<and> stop_collector s2 = Deadlock"
proof -
  let ?e = "sample_pm_env (\<lambda>n. []) (\<lambda>n. if n = 0 then [ok_answer True] else [])"
  let ?s = "sample_pm \<lparr> InstancesActive = [], InstancesToDelete = [], InstancesToAdd = [1025] \<rparr>
         \<lparr> db_deviceID = ''onu'', CommonMeDb = None, OnuSpecificMeDb = [] \<rparr> (\<lambda>p. None)"
  let ?w = "[(sample_pm_env (\<lambda>n. [history_answer gem_class 1024 [] []]) (\<lambda>n. []), ChL2Pm)]"
  have a: "omciProcessingActive ?s" "mm_queue ?s = []" "mm_syncBuffer ?s = None" "pe_in ?e (mm_waits ?s) = []"
    "pe_late ?e (mm_waits ?s) = [ok_answer True]" "\<forall>(env', ch) \<in> set ?w. ch \<noteq> ChCreateOrDelete"
    by (simp_all add: sample_pm_def sample_pm_env_def)
  from late_response_blocks [OF a(1-5) ok_answer_handled a(6)] show ?thesis by auto
qed

end
