(* ===== verification/Spec2Isabelle.thy ===== *)
theory Spec2Isabelle
  imports Go_Prelude Common_Utils Dev_Db Omci_CC Omci_Tx Omci_Rx Omci_Me Omci_Req Fsm Alarm_Mgr Alarm_Sync
    Vlan_Evtocd Vlan_Cfg Vlan_Inv Vlan_Flows Tech_Prof Ani_Cfg Uni_Tp
    Ani_Props Tp_Inv Tp_Flows Uni_Lock Uni_Props Mib_Dl Mib_Props
    Onu_Entry Mib_Tmpl Mib_Share Mib_Sync Sync_Props Sw_Crc Sw_Upg Upg_Props Upg_Send
    Self_Test Self_Props Pm_Mgr Pm_Cfg Pm_Fsm Pm_Ext Pm_Props Pm_Life
begin

text \<open>
  \<^bold>\<open>Verification of the VOLTHA OpenONU adapter.\<close>

  The adapter (Go, \<^verbatim>\<open>src/internal/pkg\<close>) manages the ONUs of a passive optical network. Towards
  the ONU it speaks OMCI: it creates, sets, gets and deletes managed entities and receives
  alarms. One \<^emph>\<open>device handler\<close> per ONU owns the components below; each of them is driven by a
  table-based state machine (\<^verbatim>\<open>looplab/fsm\<close>), sends its requests through the OMCI channel and
  gets the responses back through a Go channel.

  \<^bold>\<open>Theories and sources.\<close>

  \<^descr> \<open>Go_Prelude\<close>: what all theories share. Machine integers are words, byte slices lists of
  octets, maps association lists (where the order of iteration or duplicates matter) or
  functions. A computation of type \<open>'a run\<close> returns (\<open>Done\<close>), blocks forever on a mutex
  (\<open>Deadlock\<close>) or ends the process (\<open>Fatal\<close>: a panic, a nil pointer, an unlock of an unlocked
  mutex). \<open>ensures\<close> and the collection \<open>wp_simps\<close> are the rules for results of runs that return;
  \<open>run_steps\<close> executes a sequence of operations, and the locale \<open>run_invariant\<close> states that
  operations keep an invariant. It is interpreted on the tables of the tech profiles
  (\<open>tp_tables\<close>), the rules of the VLAN machine (\<open>vlan_rules\<close>), the reports of the MIB download
  (\<open>mib_dl_reports\<close>) and a self test that is lost (\<open>lost_runs\<close>).

  \<^descr> \<open>Fsm\<close>: the state machine library (\<^verbatim>\<open>fsm.go\<close>): lookup of a transition, the event function with
  its errors, reachable states; the locale \<open>fsm_table\<close> of tables that are deterministic and can
  be stopped from every state, interpreted on the tables of the alarm manager, of the VLAN
  component, of the MIB download, of the MIB synchronisation, of the self test and of the counters; responses and waits shared by the configuration machines.

  \<^descr> \<open>Common_Utils\<close>: \<^verbatim>\<open>common/utils.go\<close>, \<^verbatim>\<open>common/onu_uni_port.go\<close>: parsing of tech-profile
  paths, byte and bit conversions, entity identifiers, the UNI ports.

  \<^descr> \<open>Dev_Db\<close>: \<^verbatim>\<open>devdb/onu_device_db.go\<close>: the data base of managed entities, with the table
  shared by the ONUs of a MIB template as a store of its own, since two ONUs alias it.

  \<^descr> \<open>Omci_CC\<close> (definitions), \<open>Omci_Tx\<close>, \<open>Omci_Rx\<close>: \<^verbatim>\<open>common/omci_cc.go\<close>: the two send queues with
  their mutexes, transaction identifiers, supervision with retries, download windows, reception
  and dispatch of frames to registered callbacks.

  \<^descr> \<open>Omci_Me\<close>, \<open>Omci_Req\<close>: the methods of \<^verbatim>\<open>common/omci_cc.go\<close> that build one request each and send
  it; the locale \<open>request_series\<close> of series of requests that take one identifier each, interpreted
  on entity requests, on the requests of an upload and on those of the MIB download. There the goroutines of a request run at once;
  \<open>schedule_step\<close> takes a supervised request apart into the call and its two goroutines, which then run in any order,
  and lemmas show that \<open>Send\<close> and \<open>sendWithRxSupervision\<close> are these parts run one after the other.

  \<^descr> \<open>Mib_Dl\<close>, \<open>Mib_Props\<close>: \<^verbatim>\<open>mib/mib_download.go\<close>: the state machine that creates bridges, bridge ports
  and tagging operations of the UNI ports, with the two operations of other components that set its device state back.

  \<^descr> \<open>Onu_Entry\<close>: \<^verbatim>\<open>mib/onu_device_entry.go\<close>: the persistent data of an ONU, the software images, and the
  retrieval of tech profiles from the parent adapter in \<^verbatim>\<open>mib/mib_sync.go\<close>.

  \<^descr> \<open>Mib_Tmpl\<close>, \<open>Mib_Share\<close>: the table of shared data bases of \<^verbatim>\<open>core/openonu.go\<close> and the MIB templates of
  \<^verbatim>\<open>mib/mib_sync.go\<close>, with JSON as a datatype and the sharing of attribute maps between the common
  and the ONU-specific table written out. The locale \<open>table_pass\<close> is the pass over all instances
  of a table, interpreted on the two passes that make a template.

  \<^descr> \<open>Mib_Sync\<close>, \<open>Sync_Props\<close>: the MIB synchronisation machine of \<^verbatim>\<open>mib/mib_sync.go\<close>, built on the
  theories above.

  \<^descr> \<open>Alarm_Mgr\<close>, \<open>Alarm_Sync\<close>: \<^verbatim>\<open>almgr/alarm_manager.go\<close>: notifications, the alarm upload, the audit
  and its resynchronisation.

  \<^descr> \<open>Vlan_Evtocd\<close>, \<open>Vlan_Cfg\<close>, \<open>Vlan_Inv\<close>, \<open>Vlan_Flows\<close>: \<^verbatim>\<open>avcfg/omci_vlan_config.go\<close>: the 16-octet
  entries of the tagging table, the machine of a UNI with its rules and their flows, the
  invariant of its counters, the course of adding and removing a rule.

  \<^descr> \<open>Tech_Prof\<close> (data, tables), \<open>Ani_Cfg\<close> (machine), \<open>Uni_Tp\<close> (operations): \<^verbatim>\<open>avcfg/omci_ani_config.go\<close>,
  \<^verbatim>\<open>avcfg/onu_uni_tp.go\<close> and the T-CONT table of \<^verbatim>\<open>mib/onu_device_entry.go\<close>. \<open>Ani_Props\<close>, \<open>Tp_Inv\<close>
  and \<open>Tp_Flows\<close> hold their theorems.

  \<^descr> \<open>Uni_Lock\<close>, \<open>Uni_Props\<close>: \<^verbatim>\<open>uniprt/uniportadmin.go\<close>, \<^verbatim>\<open>uniprt/uniportstatus.go\<close> and the two
  functions of \<^verbatim>\<open>core/device_handler.go\<close> that create and run the lock machines.

  \<^descr> \<open>Sw_Crc\<close>, \<open>Sw_Upg\<close>, \<open>Upg_Props\<close>, \<open>Upg_Send\<close>: \<^verbatim>\<open>swupg/omci_onu_upgrade.go\<close>: the checksum of a software image,
  the machine that downloads, activates and commits it, the arithmetic of sections and windows, and the
  course of a transfer.

  \<^descr> \<open>Self_Test\<close>, \<open>Self_Props\<close>: \<^verbatim>\<open>omcitst/omci_self_test_handler.go\<close> and \<^verbatim>\<open>omcitst/omci_test_request.go\<close>:
  the self test of the optical interface with its goroutines, and the test of the OMCI channel.

  \<^descr> \<open>Pm_Mgr\<close> (data, messages), \<open>Pm_Cfg\<close> (groups and their configuration), \<open>Pm_Fsm\<close> (machine of the counters),
  \<open>Pm_Ext\<close> (optical values, state of the UNIs, extended and current counters): \<^verbatim>\<open>pmmgr/onu_metrics_manager.go\<close> and
  the collector of \<^verbatim>\<open>core/device_handler.go\<close>. The messages the loop over the channel has not handed on are a
  queue, since its channels have no buffer. \<open>Pm_Props\<close> and \<open>Pm_Life\<close> hold the theorems.

  \<^bold>\<open>Environment instead of fuel.\<close> What channel, ONU and core decide is an argument: whether the
  n-th request is accepted, how the n-th wait for a response ends, whether a store succeeds. So
  every definition is total and executable, and no fuel is chosen, with one exception: \<open>drive\<close> in
  \<open>Uni_Props\<close> runs a given number of steps for a given outcome of the request for the ONU, and the theorem on it says where
  the machine is after five. A
  goroutine is a task that a later step executes; the steps of a theorem are arbitrary where it
  states an invariant, and given in their order where it states what a course of events
  achieves. A background routine that sends several requests and waits for each is one step.
  Mutexes appear where the code can leave them locked or lock them twice.

  \<^bold>\<open>What is shown.\<close>

  \<^item> The OMCI channel: priority order of the queues, transaction identifiers that do not repeat within a cycle and keep
  to their ranges except after the section numbering, exact statistics for each message set, retries, the end of supervision without
  blocking, requests that keep apart whatever the order of their goroutines, delivery of a response to its requester, once except
  for a test response; the paths on which a mutex stays locked.

  \<^item> The data base: what a lookup returns after a store, independence of the order of an upload,
  the effect of a deletion on the other ONUs of a template.

  \<^item> Alarms: an upload asks for and stores every entry and ends in the right state; a notification
  changes exactly the alarms its bitmap tells of; buffered notifications and alarms only the
  adapter knows of are not treated as intended.

  \<^item> VLAN rules: the entries sent decode to filter and treatment of the rule; removing a single-tagged
  rule with a filter of its own restores the tagging table, removing a double-tagged one does not; an added rule is configured with exactly its requests, a
  removed one leaves no trace in list, filter and counter; the counter invariant over every life
  of the machine.

  \<^item> Tech profiles: an accepted profile is well-formed; its configuration sends exactly the requests
  of the profile and is noted; no T-CONT is given twice, except through the failure path the
  code gets wrong; the priorities of the mapper do not depend on the order of Go's maps.

  \<^item> UNI ports: a lock or unlock run refines a single assignment of the administrative state; where a run ends, and that
  only a rejection of the request for the ONU or a reported time-out keeps it from ending; a reported time-out is final.

  \<^item> MIB download: exactly the requests of the ports are sent, its end is reported at most once between two operations that
  set the device state back; where a rejected request leaves it hanging.

  \<^item> MIB synchronisation: an audit sends exactly the reads of the counter and, after two mismatches in a row, the MIB reset; a template holds what
  was uploaded; the failures that block other ONUs, leak a serial number through a shared map or
  leave the machine in a state it cannot leave; the counter of the MIB data sync, the stored
  profile paths and the software images of the persistent data.

  \<^item> Software upgrade: every window of an image is sent with exactly its sections, again after each of the first three
  processing errors of a download; a fourth one and any other error abort it; the end request carries the length and the checksum, which
  is the CRC of the standard.

  \<^item> Self test: until the module is stopped, an accepted request has one goroutine that carries it until it is answered, it is
  answered at most once and no step of the module blocks; a repeated response of the ONU loses it.

  \<^item> Counters: a collection asks for every attribute once, within the payload of a response, and publishes
  every counter with the precision of a \<^verbatim>\<open>float32\<close>; an added GEM port is monitored; the removal of one ends the
  monitoring of all; a late response blocks the loop over the messages.

  \<^bold>\<open>Not modelled.\<close> Of the
  software upgrade the managers of the downloaded files; of the metrics two goroutines that wait at the same
  time. The encoding of
  OMCI frames (\<^verbatim>\<open>omci-lib-go\<close>), gRPC, the kv store and the file download are libraries or
  services; the device handler beyond the lock machines and the start of the download, and the
  adapter service beyond its tables, are glue between them.
\<close>

end
